(* ===== verification/Luther_Prelude.thy ===== *)
theory Luther_Prelude
  imports Main "HOL-Library.Word" "HOL-Library.AList"
begin

text \<open>
  The prelude of the Luther workflow development: the result type of fallible
  Rust code, the integer and text types of the model, decimal formatting and
  substring search on strings, relational-table primitives (a SQLite table is
  the list of its rows in insertion order) with the lemmas every component
  shares, and the interfaces that several components implement: a text codec for
  enums, write-once rows and exclusive claims.
\<close>

section \<open>Results, integers, text\<close>

text \<open>Rust's \<open>Result<T, E>\<close>: an early return with \<open>?\<close> is the \<open>Err\<close> branch of a case.\<close>

datatype ('a, 'e) result = Ok 'a | Err 'e

fun is_ok :: "('a, 'e) result \<Rightarrow> bool" where
  "is_ok (Ok _) = True"
| "is_ok (Err _) = False"

fun map_ok :: "('a \<Rightarrow> 'b) \<Rightarrow> ('a, 'e) result \<Rightarrow> ('b, 'e) result" where
  "map_ok f (Ok x) = Ok (f x)"
| "map_ok f (Err e) = Err e"

fun map_err :: "('e \<Rightarrow> 'f) \<Rightarrow> ('a, 'e) result \<Rightarrow> ('a, 'f) result" where
  "map_err f (Ok x) = Ok x"
| "map_err f (Err e) = Err (f e)"

fun and_then :: "('a, 'e) result \<Rightarrow> ('a \<Rightarrow> ('b, 'e) result) \<Rightarrow> ('b, 'e) result" where
  "and_then (Ok x) f = f x"
| "and_then (Err e) f = Err e"

type_synonym u32 = "32 word"
type_synonym u64 = "64 word"

text \<open>
  \<open>i64\<close> values are mathematical integers constrained by their range; instants
  (\<open>DateTime<Utc>\<close>) are natural numbers (nanoseconds). The store keeps them as
  RFC 3339 text in UTC, whose lexicographic order is the order of the instants.
\<close>

type_synonym i64 = int
type_synonym instant = nat

definition i64_max :: int where
  "i64_max = 9223372036854775807"

definition u64_max :: nat where
  "u64_max = 18446744073709551615"

text \<open>\<open>i64::try_from\<close> of an unsigned 64-bit number: fails above \<open>i64::MAX\<close>.\<close>

definition i64_try_from_u64 :: "u64 \<Rightarrow> i64 option" where
  "i64_try_from_u64 n = (if uint n \<le> i64_max then Some (uint n) else None)"

definition u64_try_from_i64 :: "i64 \<Rightarrow> u64 option" where
  "u64_try_from_i64 i = (if 0 \<le> i \<and> i \<le> i64_max then Some (word_of_int i) else None)"

lemma u64_i64_round_trip: "i64_try_from_u64 n = Some i \<Longrightarrow> u64_try_from_i64 i = Some n"
  by (auto simp: i64_try_from_u64_def u64_try_from_i64_def split: if_splits)

lemma i64_try_from_u64_inj:
  "i64_try_from_u64 a = Some i \<Longrightarrow> i64_try_from_u64 b = Some i \<Longrightarrow> a = b"
  by (metis u64_i64_round_trip option.inject)

text \<open>Decimal formatting (\<open>to_string\<close> of an unsigned integer).\<close>

definition digit_char :: "nat \<Rightarrow> char" where
  "digit_char d = char_of (48 + d)"

fun nat_to_string :: "nat \<Rightarrow> string" where
  "nat_to_string n =
     (if n < 10 then [digit_char n] else nat_to_string (n div 10) @ [digit_char (n mod 10)])"

declare nat_to_string.simps [simp del]

lemma nat_to_string_code [simp]:
  "nat_to_string 0 = ''0''"
  "nat_to_string (Suc 0) = ''1''"
  by (code_simp, code_simp)

definition int_to_string :: "int \<Rightarrow> string" where
  "int_to_string i = (if i < 0 then CHR 0x2D # nat_to_string (nat (- i)) else nat_to_string (nat i))"

text \<open>The number a decimal text denotes; formatting is injective.\<close>

definition digits_value :: "string \<Rightarrow> nat" where
  "digits_value s = foldl (\<lambda>n c. n * 10 + (of_char c - 48)) 0 s"

lemma digits_value_nat_to_string [simp]: "digits_value (nat_to_string n) = n"
proof (induction n rule: nat_to_string.induct)
  case (1 n)
  have "of_char (digit_char d) - 48 = d" if "d < 10" for d :: nat using that by (simp add: digit_char_def)
  then show ?case using 1 by (subst nat_to_string.simps) (auto simp: digits_value_def)
qed

lemma nat_to_string_digits: "c \<in> set (nat_to_string n) \<Longrightarrow> \<exists>d < 10. c = digit_char d"
proof (induction n rule: nat_to_string.induct)
  case (1 n)
  show ?case
  proof (cases "n < 10")
    case False
    have "\<exists>d < 10. digit_char (n mod 10) = digit_char d" by (rule exI [of _ "n mod 10"]) simp
    with 1 False show ?thesis by (auto simp: nat_to_string.simps [of n])
  qed (use 1 in \<open>auto simp: nat_to_string.simps [of n]\<close>)
qed

lemma int_to_string_inj: "int_to_string i = int_to_string j \<Longrightarrow> i = j"
proof -
  have neq: "CHR 0x2D # t \<noteq> nat_to_string n" for t n
  proof
    assume "CHR 0x2D # t = nat_to_string n"
    then have "CHR 0x2D \<in> set (nat_to_string n)" by (metis list.set_intros(1))
    then obtain d where "d < 10" "CHR 0x2D = digit_char d" using nat_to_string_digits by blast
    then have "of_char (CHR 0x2D) = (48 + d :: nat)" by (simp add: digit_char_def)
    then show False by simp
  qed
  have inj: "nat_to_string m = nat_to_string n \<Longrightarrow> m = n" for m n
    by (metis digits_value_nat_to_string)
  assume "int_to_string i = int_to_string j"
  then show "i = j"
    using neq neq [symmetric] by (auto simp: int_to_string_def split: if_splits dest!: inj)
qed

text \<open>ASCII white space, \<open>str::trim\<close> and \<open>str::split_whitespace\<close>.\<close>

definition is_space :: "char \<Rightarrow> bool" where
  "is_space c \<longleftrightarrow> c \<in> {CHR 0x20, CHR 0x09, CHR 0x0A, CHR 0x0B, CHR 0x0C, CHR 0x0D}"

definition trim :: "string \<Rightarrow> string" where
  "trim s = rev (dropWhile is_space (rev (dropWhile is_space s)))"

fun split_words :: "string \<Rightarrow> string \<Rightarrow> string list" where
  "split_words word [] = (if word = [] then [] else [rev word])"
| "split_words word (c # cs) =
     (if is_space c then (if word = [] then split_words [] cs else rev word # split_words [] cs)
      else split_words (c # word) cs)"

definition split_whitespace :: "string \<Rightarrow> string list" where
  "split_whitespace s = split_words [] s"

text \<open>Error lists: a list of conditional messages is empty when no condition holds.\<close>

lemma concat_map_Nil: "concat (map f xs) = [] \<longleftrightarrow> (\<forall>x \<in> set xs. f x = [])"
  by auto

lemma if_Nil [simp]:
  "(if P then [] else x # xs) = [] \<longleftrightarrow> P"
  "(if P then x # xs else []) = [] \<longleftrightarrow> \<not> P"
  by auto

text \<open>A text between two apostrophes, as the format strings of error messages write it.\<close>

definition quoted :: "string \<Rightarrow> string" where
  "quoted s = [CHR 0x27] @ s @ [CHR 0x27]"

text \<open>\<open>str::starts_with\<close>, \<open>str::contains\<close> and \<open>str::replace\<close> with a non-empty pattern.\<close>

definition starts_with :: "string \<Rightarrow> string \<Rightarrow> bool" where
  "starts_with p s \<longleftrightarrow> take (length p) s = p"

fun str_contains :: "string \<Rightarrow> string \<Rightarrow> bool" where
  "str_contains p [] = (p = [])"
| "str_contains p (c # cs) = (starts_with p (c # cs) \<or> str_contains p cs)"

function str_replace :: "string \<Rightarrow> string \<Rightarrow> string \<Rightarrow> string" where
  "str_replace p r s =
     (case s of
        [] \<Rightarrow> []
      | c # cs \<Rightarrow>
          (if p \<noteq> [] \<and> starts_with p s then r @ str_replace p r (drop (length p) s)
           else c # str_replace p r cs))"
  by pat_completeness auto
termination
  by (relation "measure (\<lambda>(p, r, s). length s)") (auto split: list.splits)

declare str_replace.simps [simp del]

text \<open>ASCII case folding and \<open>str::split\<close> with a one-character pattern.\<close>

definition ascii_lower :: "char \<Rightarrow> char" where
  "ascii_lower c = (if 65 \<le> (of_char c :: nat) \<and> (of_char c :: nat) \<le> 90 then char_of ((of_char c :: nat) + 32) else c)"

definition eq_ignore_ascii_case :: "string \<Rightarrow> string \<Rightarrow> bool" where
  "eq_ignore_ascii_case a b \<longleftrightarrow> map ascii_lower a = map ascii_lower b"

lemma eq_ignore_ascii_case_equiv [simp]: "eq_ignore_ascii_case a a"
  by (simp add: eq_ignore_ascii_case_def)

fun split_char :: "char \<Rightarrow> string \<Rightarrow> string list" where
  "split_char d [] = [[]]"
| "split_char d (c # cs) =
     (if c = d then [] # split_char d cs
      else (case split_char d cs of p # ps \<Rightarrow> (c # p) # ps | [] \<Rightarrow> [[c]]))"

text \<open>\<open>str::parse::<u64>\<close>: an optional plus sign and at least one digit, without overflow.\<close>

definition is_digit :: "char \<Rightarrow> bool" where
  "is_digit c \<longleftrightarrow> 48 \<le> (of_char c :: nat) \<and> (of_char c :: nat) \<le> 57"

definition parse_u64 :: "string \<Rightarrow> nat option" where
  "parse_u64 s =
     (let digits = (case s of c # cs \<Rightarrow> (if c = CHR 0x2B then cs else s) | [] \<Rightarrow> [])
      in if digits \<noteq> [] \<and> list_all is_digit digits \<and> digits_value digits \<le> u64_max
         then Some (digits_value digits) else None)"

text \<open>\<open>str::split_once\<close> with a one-character pattern, \<open>Path::join\<close>.\<close>

definition split_once :: "char \<Rightarrow> string \<Rightarrow> (string \<times> string) option" where
  "split_once c s =
     (case dropWhile (\<lambda>x. x \<noteq> c) s of
        [] \<Rightarrow> None
      | _ # rest \<Rightarrow> Some (takeWhile (\<lambda>x. x \<noteq> c) s, rest))"

definition path_join :: "string \<Rightarrow> string \<Rightarrow> string" where
  "path_join base p =
     (if starts_with ''/'' p then p
      else if base = [] \<or> last base = CHR 0x2F then base @ p
      else base @ ''/'' @ p)"

text \<open>The \<open>{:?}\<close> rendering of a string and of an option.\<close>

definition debug_char :: "char \<Rightarrow> string" where
  "debug_char c =
     (if c = CHR 0x22 then [CHR 0x5C, CHR 0x22]
      else if c = CHR 0x5C then [CHR 0x5C, CHR 0x5C]
      else if c = CHR 0x0A then [CHR 0x5C, CHR ''n'']
      else if c = CHR 0x0D then [CHR 0x5C, CHR ''r'']
      else if c = CHR 0x09 then [CHR 0x5C, CHR ''t'']
      else if c = CHR 0x00 then [CHR 0x5C, CHR ''0'']
      else [c])"

definition debug_str :: "string \<Rightarrow> string" where
  "debug_str s = [CHR 0x22] @ concat (map debug_char s) @ [CHR 0x22]"

definition debug_option :: "('a \<Rightarrow> string) \<Rightarrow> 'a option \<Rightarrow> string" where
  "debug_option f v = (case v of None \<Rightarrow> ''None'' | Some x \<Rightarrow> ''Some('' @ f x @ '')'')"

lemma starts_with_iff: "starts_with p s \<longleftrightarrow> (\<exists>t. s = p @ t)"
proof
  assume "starts_with p s"
  then have "s = p @ drop (length p) s"
    by (metis append_take_drop_id starts_with_def)
  then show "\<exists>t. s = p @ t" ..
qed (auto simp: starts_with_def)

lemma str_contains_iff: "str_contains p s \<longleftrightarrow> (\<exists>a b. s = a @ p @ b)"
proof (induction s)
  case Nil
  show ?case by auto
next
  case (Cons c s)
  show ?case
  proof
    assume "str_contains p (c # s)"
    then consider "starts_with p (c # s)" | "str_contains p s" by auto
    then show "\<exists>a b. c # s = a @ p @ b"
    proof cases
      case 1
      then show ?thesis by (metis append_Nil starts_with_iff)
    next
      case 2
      then show ?thesis using Cons by (metis append_Cons)
    qed
  next
    assume "\<exists>a b. c # s = a @ p @ b"
    then obtain a b where ab: "c # s = a @ p @ b" by blast
    show "str_contains p (c # s)"
    proof (cases a)
      case Nil
      with ab have "starts_with p (c # s)" by (auto simp: starts_with_iff)
      then show ?thesis by simp
    next
      case (Cons x a')
      with ab have "s = a' @ p @ b" by simp
      with Cons.IH show ?thesis by auto
    qed
  qed
qed

text \<open>A text without an occurrence of the pattern is left alone.\<close>

lemma str_replace_absent: "\<not> str_contains p s \<Longrightarrow> str_replace p r s = s"
proof (induction s)
  case Nil
  show ?case by (simp add: str_replace.simps)
next
  case (Cons c s)
  then show ?case by (subst str_replace.simps) auto
qed

section \<open>JSON values\<close>

text \<open>
  \<open>serde_json::Value\<close>. An object is the list of its members in insertion order;
  integers that fit no 64-bit type are floats in serde, so \<open>JInt\<close> only holds
  integers of those ranges. A float is kept as its text.
\<close>

datatype json =
    JNull
  | JBool bool
  | JInt int
  | JFloat string
  | JStr string
  | JArr "json list"
  | JObj "(string \<times> json) list"

definition json_get :: "json \<Rightarrow> string \<Rightarrow> json option" where
  "json_get v k = (case v of JObj kvs \<Rightarrow> map_of kvs k | _ \<Rightarrow> None)"

definition json_as_str :: "json \<Rightarrow> string option" where
  "json_as_str v = (case v of JStr s \<Rightarrow> Some s | _ \<Rightarrow> None)"

definition json_as_u64 :: "json \<Rightarrow> nat option" where
  "json_as_u64 v =
     (case v of JInt i \<Rightarrow> (if 0 \<le> i \<and> i \<le> int u64_max then Some (nat i) else None) | _ \<Rightarrow> None)"

definition json_as_i64 :: "json \<Rightarrow> i64 option" where
  "json_as_i64 v =
     (case v of JInt i \<Rightarrow> (if - i64_max - 1 \<le> i \<and> i \<le> i64_max then Some i else None) | _ \<Rightarrow> None)"

lemma json_as_str_JStr [simp]: "json_as_str (JStr s) = Some s"
  by (simp add: json_as_str_def)

lemma json_get_JObj [simp]: "json_get (JObj kvs) k = map_of kvs k"
  by (simp add: json_get_def)

section \<open>Tables\<close>

text \<open>
  A table is the list of its rows in rowid order. \<open>UPDATE ... WHERE\<close> is
  \<open>update_where\<close>, the affected-row count is \<open>count_where\<close>, a query by a key
  is \<open>find\<close>, \<open>INSERT ... ON CONFLICT(key) DO UPDATE\<close> is \<open>upsert\<close>.
\<close>

definition update_where :: "('r \<Rightarrow> bool) \<Rightarrow> ('r \<Rightarrow> 'r) \<Rightarrow> 'r list \<Rightarrow> 'r list" where
  "update_where P f rows = map (\<lambda>r. if P r then f r else r) rows"

definition count_where :: "('r \<Rightarrow> bool) \<Rightarrow> 'r list \<Rightarrow> nat" where
  "count_where P rows = length (filter P rows)"

definition lookup_by :: "('r \<Rightarrow> 'k) \<Rightarrow> 'k \<Rightarrow> 'r list \<Rightarrow> 'r option" where
  "lookup_by key k rows = find (\<lambda>r. key r = k) rows"

definition upsert :: "('r \<Rightarrow> 'k) \<Rightarrow> ('r \<Rightarrow> 'r \<Rightarrow> 'r) \<Rightarrow> 'r \<Rightarrow> 'r list \<Rightarrow> 'r list" where
  "upsert key merge r rows =
     (if \<exists>x \<in> set rows. key x = key r
      then update_where (\<lambda>x. key x = key r) (\<lambda>x. merge x r) rows
      else rows @ [r])"

definition unique_key :: "('r \<Rightarrow> 'k) \<Rightarrow> 'r list \<Rightarrow> bool" where
  "unique_key key rows \<longleftrightarrow> distinct (map key rows)"

named_theorems table_simps \<open>evaluation rules of the table primitives\<close>

lemma update_where_simps [table_simps, simp]:
  "update_where P f [] = []"
  "update_where P f (r # rs) = (if P r then f r else r) # update_where P f rs"
  by (simp_all add: update_where_def)

lemma count_where_simps [table_simps, simp]:
  "count_where P [] = 0"
  "count_where P (r # rs) = (if P r then Suc (count_where P rs) else count_where P rs)"
  by (simp_all add: count_where_def)

lemma lookup_by_simps [table_simps, simp]:
  "lookup_by key k [] = None"
  "lookup_by key k (r # rs) = (if key r = k then Some r else lookup_by key k rs)"
  by (simp_all add: lookup_by_def)

lemma unique_key_simps [table_simps, simp]:
  "unique_key key []"
  "unique_key key (r # rs) \<longleftrightarrow> key r \<notin> key ` set rs \<and> unique_key key rs"
  by (simp_all add: unique_key_def)

lemma set_update_where: "set (update_where P f rows) = (\<lambda>r. if P r then f r else r) ` set rows"
  by (simp add: update_where_def)

lemma length_update_where [simp]: "length (update_where P f rows) = length rows"
  by (simp add: update_where_def)

lemma update_where_none: "\<forall>r \<in> set rows. \<not> P r \<Longrightarrow> update_where P f rows = rows"
  by (induction rows) auto

lemma count_where_0: "count_where P rows = 0 \<longleftrightarrow> (\<forall>r \<in> set rows. \<not> P r)"
  by (induction rows) auto

lemma count_where_pos: "0 < count_where P rows \<longleftrightarrow> (\<exists>r \<in> set rows. P r)"
  by (induction rows) auto

lemma count_where_append [simp]: "count_where P (xs @ ys) = count_where P xs + count_where P ys"
  by (simp add: count_where_def)

lemma lookup_by_append:
  "lookup_by key k (xs @ ys) =
     (case lookup_by key k xs of Some r \<Rightarrow> Some r | None \<Rightarrow> lookup_by key k ys)"
  by (induction xs) auto

lemma lookup_by_SomeD: "lookup_by key k rows = Some r \<Longrightarrow> r \<in> set rows \<and> key r = k"
  by (induction rows) (auto split: if_splits)

lemma lookup_by_None: "lookup_by key k rows = None \<longleftrightarrow> k \<notin> key ` set rows"
  by (induction rows) auto

lemma lookup_by_unique:
  "unique_key key rows \<Longrightarrow> r \<in> set rows \<Longrightarrow> lookup_by key (key r) rows = Some r"
  by (induction rows) auto

lemma unique_keyD:
  "unique_key key rows \<Longrightarrow> r \<in> set rows \<Longrightarrow> s \<in> set rows \<Longrightarrow> key r = key s \<Longrightarrow> r = s"
  by (metis lookup_by_unique option.inject)

lemma map_key_update_where:
  "(\<And>r. key (f r) = key r) \<Longrightarrow> map key (update_where P f rows) = map key rows"
  by (induction rows) auto

lemma unique_key_update_where:
  "(\<And>r. key (f r) = key r) \<Longrightarrow> unique_key key (update_where P f rows) = unique_key key rows"
  by (simp add: unique_key_def map_key_update_where)

lemma lookup_by_update_where:
  "(\<And>r. key (f r) = key r) \<Longrightarrow>
   lookup_by key k (update_where P f rows) =
     map_option (\<lambda>r. if P r then f r else r) (lookup_by key k rows)"
  by (induction rows) auto

lemma count_where_unique_le1:
  "unique_key key rows \<Longrightarrow> (\<And>r. P r \<Longrightarrow> key r = k) \<Longrightarrow> count_where P rows \<le> 1"
proof (induction rows)
  case (Cons r rs)
  have "count_where P rs = 0" if "P r"
    using Cons.prems that by (force simp: count_where_0)
  with Cons show ?case by auto
qed simp

lemma count_where_unique:
  assumes "unique_key key rows" and "\<And>r. P r \<Longrightarrow> key r = k"
  shows "count_where P rows = (case lookup_by key k rows of Some r \<Rightarrow> (if P r then 1 else 0) | None \<Rightarrow> 0)"
  using assms
proof (induction rows)
  case (Cons r rs)
  have "count_where P rs = 0" if "key r = k"
  proof -
    from Cons.prems(1) that have "k \<notin> key ` set rs" by auto
    with Cons.prems(2) show ?thesis by (auto simp: count_where_0)
  qed
  with Cons show ?case by auto
qed simp

lemma unique_key_snoc:
  "unique_key key (rows @ [r]) \<longleftrightarrow> unique_key key rows \<and> key r \<notin> key ` set rows"
  by (auto simp: unique_key_def)

lemma unique_key_upsert:
  assumes "unique_key key rows" and "\<And>x. key x = key r \<Longrightarrow> key (merge x r) = key r"
  shows "unique_key key (upsert key merge r rows)"
proof -
  have "map key (update_where (\<lambda>x. key x = key r) (\<lambda>x. merge x r) rows) = map key rows"
    using assms(2) by (auto simp: update_where_def)
  then show ?thesis
    using assms(1) by (auto simp: upsert_def unique_key_snoc unique_key_def)
qed

lemma lookup_by_upsert_same:
  assumes "\<And>x. key x = key r \<Longrightarrow> key (merge x r) = key r"
  shows "lookup_by key (key r) (upsert key merge r rows) =
     Some (case lookup_by key (key r) rows of Some x \<Rightarrow> merge x r | None \<Rightarrow> r)"
proof (cases "lookup_by key (key r) rows")
  case None
  then have "\<not> (\<exists>x \<in> set rows. key x = key r)" by (metis imageI lookup_by_None)
  with None show ?thesis by (simp add: upsert_def lookup_by_append)
next
  case (Some x)
  then have "x \<in> set rows" "key x = key r" by (auto dest: lookup_by_SomeD)
  moreover have "lookup_by key (key r) (update_where (\<lambda>x. key x = key r) (\<lambda>x. merge x r) rows) = Some (merge x r)"
    using Some assms by (induction rows) (auto split: if_splits)
  ultimately show ?thesis using Some by (auto simp: upsert_def)
qed

lemma lookup_by_upsert_other:
  assumes "k \<noteq> key r" and "\<And>x. key x = key r \<Longrightarrow> key (merge x r) = key r"
  shows "lookup_by key k (upsert key merge r rows) = lookup_by key k rows"
proof -
  have "lookup_by key k (update_where (\<lambda>x. key x = key r) (\<lambda>x. merge x r) rows) = lookup_by key k rows"
    using assms by (induction rows) auto
  then show ?thesis using assms(1) by (auto simp: upsert_def lookup_by_append split: option.splits)
qed

text \<open>
  The errors of the store that the code can meet besides an I/O failure: a value that does
  not fit its column, a constraint of the schema, an absent row, a column that does not parse.
\<close>

datatype sql_error =
    ToSqlConversionFailure
  | ConstraintViolation
  | QueryReturnedNoRows
  | FromSqlConversionFailure
  | IntegralValueOutOfRange

text \<open>
  \<open>ORDER BY key DESC LIMIT 1\<close>: a row with the greatest key, the first scanned among equals.
\<close>

fun newest_by :: "('r \<Rightarrow> nat) \<Rightarrow> 'r list \<Rightarrow> 'r option" where
  "newest_by key [] = None"
| "newest_by key (r # rs) =
     (case newest_by key rs of
        None \<Rightarrow> Some r
      | Some b \<Rightarrow> (if key b \<le> key r then Some r else Some b))"

lemma newest_by_None [simp]: "newest_by key rows = None \<longleftrightarrow> rows = []"
  by (cases rows) (auto split: option.splits)

lemma newest_by_SomeD:
  "newest_by key rows = Some r \<Longrightarrow> r \<in> set rows \<and> (\<forall>x \<in> set rows. key x \<le> key r)"
proof (induction rows arbitrary: r)
  case (Cons a rows)
  then show ?case by (fastforce split: option.splits if_splits)
qed simp

lemma newest_by_strict:
  "r \<in> set rows \<Longrightarrow> (\<And>x. x \<in> set rows \<Longrightarrow> x \<noteq> r \<Longrightarrow> key x < key r) \<Longrightarrow> newest_by key rows = Some r"
  by (metis newest_by_None newest_by_SomeD empty_iff leD list.set(1) not_None_eq)

section \<open>The codec interface\<close>

text \<open>
  An enum stored as text: \<open>as_str\<close>/\<open>Display\<close> writes it, \<open>FromStr\<close> reads it
  back. The law is the round trip; it makes the text an exact representation,
  so an SQL predicate on the text column decides the enum itself.
\<close>

locale text_codec =
  fixes as_str :: "'s \<Rightarrow> string"
    and from_str :: "string \<Rightarrow> 's option"
  assumes from_as: "from_str (as_str s) = Some s"
    and as_from: "from_str t = Some s \<Longrightarrow> as_str s = t"
begin

lemma as_str_inj: "as_str a = as_str b \<longleftrightarrow> a = b"
  by (metis from_as option.inject)

lemma in_text_iff: "as_str s \<in> as_str ` S \<longleftrightarrow> s \<in> S"
  by (auto simp: as_str_inj)

lemma from_str_iff: "from_str t = Some s \<longleftrightarrow> t = as_str s"
  by (auto simp: from_as dest: as_from)

lemma from_str_None: "from_str t = None \<longleftrightarrow> t \<notin> range as_str"
  by (metis from_str_iff not_None_eq rangeE rangeI)

end

section \<open>The write-once interface\<close>

text \<open>
  Rows that become immutable once they reach a final state: every operation of the
  component keeps such a row as it is. Clients get that it survives any sequence of
  operations, so what was read once stays the answer.
\<close>

locale write_once =
  fixes step :: "'op \<Rightarrow> 't \<Rightarrow> 't"
    and row :: "'t \<Rightarrow> 'k \<Rightarrow> 'r option"
    and frozen :: "'r \<Rightarrow> bool"
  assumes frozen_step: "row t k = Some r \<Longrightarrow> frozen r \<Longrightarrow> row (step a t) k = Some r"
begin

lemma frozen_fold: "row t k = Some r \<Longrightarrow> frozen r \<Longrightarrow> row (fold step as t) k = Some r"
  by (induction as arbitrary: t) (auto simp: frozen_step)

lemma frozen_unique:
  "row (fold step as t) k = Some r \<Longrightarrow> frozen r \<Longrightarrow> row (fold step (as @ bs) t) k = Some s \<Longrightarrow> s = r"
  by (simp add: frozen_fold)

end

section \<open>The exclusive-claim interface\<close>

text \<open>
  The contract a claim primitive gives its clients: an admissible step that wins a claim found its key
  free and leaves it held, and no admissible step frees a held key. The client lemma is the
  mutual exclusion: among any sequence of admissible steps, whoever issues them, no key is
  won twice, and no held key is won at all.
\<close>

fun winners :: "('op \<Rightarrow> 't \<Rightarrow> 't \<times> bool) \<Rightarrow> 'op list \<Rightarrow> 't \<Rightarrow> 'op list" where
  "winners step [] t = []"
| "winners step (a # as) t =
     (if snd (step a t) then a # winners step as (fst (step a t)) else winners step as (fst (step a t)))"

locale exclusive_claim =
  fixes step :: "'op \<Rightarrow> 't \<Rightarrow> 't \<times> bool"
    and key :: "'op \<Rightarrow> 'k"
    and held :: "'t \<Rightarrow> 'k \<Rightarrow> bool"
    and admissible :: "'op \<Rightarrow> bool"
    and well_formed :: "'t \<Rightarrow> bool"
  assumes well_formed_kept: "admissible a \<Longrightarrow> well_formed t \<Longrightarrow> well_formed (fst (step a t))"
    and win_free: "admissible a \<Longrightarrow> well_formed t \<Longrightarrow> snd (step a t) \<Longrightarrow> \<not> held t (key a)"
    and win_held: "admissible a \<Longrightarrow> well_formed t \<Longrightarrow> snd (step a t) \<Longrightarrow> held (fst (step a t)) (key a)"
    and held_kept: "admissible a \<Longrightarrow> well_formed t \<Longrightarrow> held t k \<Longrightarrow> held (fst (step a t)) k"
begin

lemma held_not_won:
  "list_all admissible as \<Longrightarrow> well_formed t \<Longrightarrow> held t k \<Longrightarrow> k \<notin> key ` set (winners step as t)"
proof (induction as arbitrary: t)
  case (Cons a as)
  then have "k \<notin> key ` set (winners step as (fst (step a t)))" using held_kept well_formed_kept by auto
  then show ?case using Cons.prems win_free by auto
qed simp

lemma winners_distinct:
  "list_all admissible as \<Longrightarrow> well_formed t \<Longrightarrow> distinct (map key (winners step as t))"
proof (induction as arbitrary: t)
  case (Cons a as)
  then show ?case
    using held_not_won [of as "fst (step a t)" "key a"] win_held well_formed_kept by auto
qed simp

end

end
