(* ===== verification/Workflow_Schema.thy ===== *)
theory Workflow_Schema
  imports Luther_Prelude
begin

text \<open>
  The workflow schema (\<^verbatim>\<open>workflow/schema.rs\<close>), the step recovery policy type
  (\<^verbatim>\<open>engine/recovery/policy.rs\<close>) and the workflow instance
  (\<^verbatim>\<open>engine/instance.rs\<close>): the data the engine interprets. Field names carry
  the initials of their struct. \<open>WorkflowConfig\<close> keeps the fields the engine
  reads; the repository, discovery and target-profile sections belong to the
  loader and the components.
\<close>

section \<open>Steps and transitions\<close>

datatype StepRecoveryPolicy =
    PureReenter
  | Idempotent
  | ReconcileThenReenterPolicy
  | ContinueWorkspacePolicy
  | CompensateThenRetryPolicy
  | NonRecoverablePolicy

record StepDef =
  sd_step_id :: string
  sd_step_type :: string
  sd_description :: "string option"
  sd_parameters :: "json option"
  sd_produces :: "string list option"
  sd_consumes :: "string list option"
  sd_terminal :: "bool option"
  sd_recovery_policy :: "StepRecoveryPolicy option"

record TransitionDef =
  td_from :: string
  td_to :: string
  td_condition :: "string option"
  td_max_iterations :: "u32 option"

record GuardConfig =
  gc_max_retries :: "u32 option"
  gc_timeout_seconds :: "u64 option"
  gc_require_approval :: "bool option"

record WorkflowType =
  wt_workflow_type_id :: string
  wt_steps :: "StepDef list"
  wt_transitions :: "TransitionDef list"
  wt_guards :: GuardConfig

section \<open>Configuration\<close>

record RuntimeConfig =
  rc_timeout_seconds :: u64
  rc_max_retries :: u32
  rc_parallel_steps :: "u32 option"
  rc_log_level :: "string option"

text \<open>The floating-point \<open>max_cost\<close> is kept as its text: no code of the engine reads it.\<close>

record GuardLimits =
  gl_max_iterations :: "u32 option"
  gl_max_file_changes :: "u32 option"
  gl_max_tokens :: "u64 option"
  gl_max_cost :: "string option"

record ParentOrchestrationConfig =
  po_auto_merge_children :: bool
  po_wait_for_human_merge :: bool
  po_merge_poll_interval_seconds :: u64
  po_max_child_merge_wait_seconds :: "u64 option"
  po_child_workflow_type_id :: string
  po_child_config_id :: string

definition default_parent_orchestration :: ParentOrchestrationConfig where
  "default_parent_orchestration =
     \<lparr>po_auto_merge_children = False,
      po_wait_for_human_merge = True,
      po_merge_poll_interval_seconds = 300,
      po_max_child_merge_wait_seconds = None,
      po_child_workflow_type_id = ''llxprt-issue-fix-v1'',
      po_child_config_id = ''llxprt-code''\<rparr>"

datatype MergeStrategyConfig = MergeCommit | Squash | Rebase

record WorkflowConfig =
  wc_config_id :: string
  wc_workflow_type_id :: string
  wc_runtime :: RuntimeConfig
  wc_guard_limits :: GuardLimits
  wc_variables :: "(string \<times> string) list"
  wc_parent_orchestration :: ParentOrchestrationConfig
  wc_merge_required :: bool
  wc_merge_strategy :: "MergeStrategyConfig option"
  wc_command_manifest :: "json option"

section \<open>Instances\<close>

record WorkflowInstance =
  wi_workflow_type :: WorkflowType
  wi_config :: WorkflowConfig
  wi_run_id :: string
  wi_current_state :: string

definition first_step_state :: "WorkflowType \<Rightarrow> string" where
  "first_step_state wt = (case wt_steps wt of [] \<Rightarrow> '''' | s # _ \<Rightarrow> sd_step_id s)"

definition create_with_run_id :: "WorkflowType \<Rightarrow> WorkflowConfig \<Rightarrow> string \<Rightarrow> WorkflowInstance" where
  "create_with_run_id wt cfg run_id =
     \<lparr>wi_workflow_type = wt, wi_config = cfg, wi_run_id = run_id,
      wi_current_state = first_step_state wt\<rparr>"

definition transition_to :: "string \<Rightarrow> WorkflowInstance \<Rightarrow> WorkflowInstance" where
  "transition_to new_state inst = inst\<lparr>wi_current_state := new_state\<rparr>"

lemma transition_to_simps [simp]:
  "wi_current_state (transition_to s inst) = s"
  "wi_workflow_type (transition_to s inst) = wi_workflow_type inst"
  "wi_config (transition_to s inst) = wi_config inst"
  "wi_run_id (transition_to s inst) = wi_run_id inst"
  by (simp_all add: transition_to_def)

text \<open>
  The position of a step in declaration order, as \<open>iter().position\<close> finds it:
  the first occurrence.
\<close>

fun position :: "('a \<Rightarrow> bool) \<Rightarrow> 'a list \<Rightarrow> nat option" where
  "position P [] = None"
| "position P (x # xs) = (if P x then Some 0 else map_option Suc (position P xs))"

lemma position_SomeD: "position P xs = Some i \<Longrightarrow> i < length xs \<and> P (xs ! i)"
proof (induction xs arbitrary: i)
  case (Cons x xs)
  then show ?case by (cases "P x") auto
qed simp

lemma position_None: "position P xs = None \<longleftrightarrow> (\<forall>x \<in> set xs. \<not> P x)"
  by (induction xs) auto

lemma position_first: "position P xs = Some i \<Longrightarrow> j < i \<Longrightarrow> \<not> P (xs ! j)"
proof (induction xs arbitrary: i j)
  case (Cons x xs)
  then show ?case by (cases j) (auto split: if_splits)
qed simp

end
