(* ===== verification/Transition.thy ===== *)
theory Transition
  imports Workflow_Schema
begin

text \<open>
  Step outcomes and routing (\<^verbatim>\<open>engine/transition.rs\<close>): the outcome enum with
  its text form, and the resolution of the next step from an outcome and the
  declared transitions.
\<close>

section \<open>Outcomes\<close>

datatype StepOutcome = Success | Retryable | Fatal | Fixable | Abandon | Wait

fun as_condition_str :: "StepOutcome \<Rightarrow> string" where
  "as_condition_str Success = ''success''"
| "as_condition_str Retryable = ''retryable''"
| "as_condition_str Fatal = ''fatal''"
| "as_condition_str Fixable = ''fixable''"
| "as_condition_str Abandon = ''abandon''"
| "as_condition_str Wait = ''wait''"

definition step_outcome_from_str :: "string \<Rightarrow> (StepOutcome, string) result" where
  "step_outcome_from_str s =
     (if s = ''success'' then Ok Success
      else if s = ''retryable'' then Ok Retryable
      else if s = ''fatal'' then Ok Fatal
      else if s = ''fixable'' then Ok Fixable
      else if s = ''abandon'' then Ok Abandon
      else if s = ''wait'' then Ok Wait
      else Err (''unknown step outcome: '' @ s))"

text \<open>The option view of a parser's result, which the codec interface speaks about.\<close>

fun ok_option :: "('a, 'e) result \<Rightarrow> 'a option" where
  "ok_option (Ok x) = Some x"
| "ok_option (Err _) = None"

interpretation outcome_codec: text_codec as_condition_str "\<lambda>s. ok_option (step_outcome_from_str s)"
proof unfold_locales
  fix s
  show "ok_option (step_outcome_from_str (as_condition_str s)) = Some s"
    by (cases s) (simp_all add: step_outcome_from_str_def)
next
  fix t s
  assume "ok_option (step_outcome_from_str t) = Some s"
  then show "as_condition_str s = t"
    by (auto simp: step_outcome_from_str_def split: if_splits)
qed

section \<open>Resolution\<close>

fun resolve_transition :: "string \<Rightarrow> StepOutcome \<Rightarrow> TransitionDef list \<Rightarrow> string option" where
  "resolve_transition step outcome [] = None"
| "resolve_transition step outcome (t # ts) =
     (if td_from t = step
      then (case td_condition t of
              Some cond \<Rightarrow>
                (if cond = as_condition_str outcome then Some (td_to t)
                 else resolve_transition step outcome ts)
            | None \<Rightarrow>
                (if outcome = Success then Some (td_to t)
                 else resolve_transition step outcome ts))
      else resolve_transition step outcome ts)"

text \<open>The schema variant repeats the same loop over the schema's transition type.\<close>

fun resolve_transition_schema :: "string \<Rightarrow> StepOutcome \<Rightarrow> TransitionDef list \<Rightarrow> string option" where
  "resolve_transition_schema step outcome [] = None"
| "resolve_transition_schema step outcome (t # ts) =
     (if td_from t = step
      then (case td_condition t of
              Some cond \<Rightarrow>
                (if cond = as_condition_str outcome then Some (td_to t)
                 else resolve_transition_schema step outcome ts)
            | None \<Rightarrow>
                (if outcome = Success then Some (td_to t)
                 else resolve_transition_schema step outcome ts))
      else resolve_transition_schema step outcome ts)"

text \<open>\<open>effective_condition\<close> of \<^verbatim>\<open>workflow/validation.rs\<close>: a missing condition means success.\<close>

definition effective_condition :: "string option \<Rightarrow> string" where
  "effective_condition c = (case c of None \<Rightarrow> ''success'' | Some s \<Rightarrow> s)"

text \<open>The declarative reading of the loop: the first transition that matches.\<close>

definition matches :: "string \<Rightarrow> StepOutcome \<Rightarrow> TransitionDef \<Rightarrow> bool" where
  "matches step outcome t \<longleftrightarrow>
     td_from t = step \<and> effective_condition (td_condition t) = as_condition_str outcome"

lemma as_condition_success [simp]: "as_condition_str oc = ''success'' \<longleftrightarrow> oc = Success"
  by (cases oc) auto

lemma success_as_condition [simp]: "''success'' = as_condition_str oc \<longleftrightarrow> oc = Success"
  by (cases oc) auto

lemma matches_cases:
  "matches step oc t \<longleftrightarrow>
     td_from t = step \<and>
     (case td_condition t of None \<Rightarrow> oc = Success | Some c \<Rightarrow> c = as_condition_str oc)"
  by (cases "td_condition t") (auto simp: matches_def effective_condition_def)

lemma resolve_transition_schema_find:
  "resolve_transition_schema step oc ts = map_option td_to (find (matches step oc) ts)"
proof (induction ts)
  case (Cons t ts)
  then show ?case
    by (cases "td_condition t") (simp_all add: matches_cases [of step oc t])
qed simp

lemma resolve_transition_agree:
  "resolve_transition step oc ts = resolve_transition_schema step oc ts"
  by (induction ts) (auto split: option.splits)

lemma resolve_SomeD:
  assumes "resolve_transition_schema step oc ts = Some nxt"
  shows "\<exists>t \<in> set ts. matches step oc t \<and> td_to t = nxt"
  using assms by (auto simp: resolve_transition_schema_find find_Some_iff)

lemma resolve_None_iff:
  "resolve_transition_schema step oc ts = None \<longleftrightarrow> (\<forall>t \<in> set ts. \<not> matches step oc t)"
  by (auto simp: resolve_transition_schema_find find_None_iff)

text \<open>
  Both resolvers return the target of the first transition whose source is the
  step and whose condition (a missing one read as \<open>success\<close>) is the outcome's text.
\<close>

theorem resolve_transition_spec:
  "resolve_transition step oc ts = map_option td_to (find (matches step oc) ts) \<and>
   resolve_transition_schema step oc ts = map_option td_to (find (matches step oc) ts)"
  by (simp add: resolve_transition_agree resolve_transition_schema_find)

end
