(* ===== verification/Step_Context.thy ===== *)
theory Step_Context
  imports Transition
begin

text \<open>
  The step context (\<^verbatim>\<open>engine/executor.rs\<close>): the variables a run carries from
  step to step, their most-recent-writer resolution, template interpolation, and
  the capture and restore of the checkpointable part. A \<open>HashMap\<close> is an
  association list kept by \<open>AList.update\<close>; the lists' order stands for the
  map's unspecified iteration order, so a theorem about every context covers
  every order. Executors are a parameter of the dispatch.
\<close>

section \<open>State\<close>

type_synonym var_map = "(string \<times> string) list"

record WorkspaceAuthorization =
  wa_dev :: u64
  wa_ino :: u64

record StepContext =
  cx_work_dir :: string
  cx_run_id :: string
  cx_daemon_managed :: bool
  cx_workspace_authorization :: "WorkspaceAuthorization option"
  cx_variables :: var_map
  cx_current_step_id :: "string option"
  cx_step_order :: "string list"
  cx_namespaced_vars :: "(string \<times> var_map) list"
  cx_interrupted :: bool
  cx_checkpointable_keys :: "string list"

definition DEFAULT_CHECKPOINTABLE_CONTEXT_KEYS :: "string list" where
  "DEFAULT_CHECKPOINTABLE_CONTEXT_KEYS =
     [''issue_number'', ''primary_issue_number'', ''issue_title'', ''pr_number'', ''owner'',
      ''repo'', ''repository'', ''current_branch'', ''base_branch'', ''existing_pr_number'',
      ''head_ref'', ''head_sha'', ''base_ref'', ''base_sha'']"

definition is_checkpointable_context_key :: "StepContext \<Rightarrow> string \<Rightarrow> bool" where
  "is_checkpointable_context_key c key \<longleftrightarrow> key \<in> set (cx_checkpointable_keys c)"

definition with_checkpointable_keys :: "string list \<Rightarrow> StepContext \<Rightarrow> StepContext" where
  "with_checkpointable_keys keys c = c\<lparr>cx_checkpointable_keys := keys\<rparr>"

definition build :: "string \<Rightarrow> string \<Rightarrow> bool \<Rightarrow> StepContext" where
  "build work_dir run_id daemon_managed =
     \<lparr>cx_work_dir = work_dir, cx_run_id = run_id, cx_daemon_managed = daemon_managed,
      cx_workspace_authorization = None,
      cx_variables = AList.update ''run_id'' run_id (AList.update ''work_dir'' work_dir []),
      cx_current_step_id = None, cx_step_order = [], cx_namespaced_vars = [],
      cx_interrupted = False,
      cx_checkpointable_keys = DEFAULT_CHECKPOINTABLE_CONTEXT_KEYS\<rparr>"

definition for_run :: "string \<Rightarrow> string \<Rightarrow> bool \<Rightarrow> StepContext" where
  "for_run = build"

definition bind_interrupt :: "bool \<Rightarrow> StepContext \<Rightarrow> StepContext" where
  "bind_interrupt flag c = c\<lparr>cx_interrupted := flag\<rparr>"

section \<open>Lookup and assignment\<close>

text \<open>The most recent step whose namespace holds the key.\<close>

fun recent_writer :: "(string \<times> var_map) list \<Rightarrow> string \<Rightarrow> string list \<Rightarrow> string option" where
  "recent_writer ns key [] = None"
| "recent_writer ns key (step # steps) =
     (case Option.bind (map_of ns step) (\<lambda>vars. map_of vars key) of
        Some v \<Rightarrow> Some v
      | None \<Rightarrow> recent_writer ns key steps)"

text \<open>Cases 2 to 4 of \<open>get\<close>, without the final fallback of \<open>issue_number\<close>.\<close>

definition get_bare :: "StepContext \<Rightarrow> string \<Rightarrow> string option" where
  "get_bare c key =
     (case recent_writer (cx_namespaced_vars c) key (rev (cx_step_order c)) of
        Some v \<Rightarrow> Some v
      | None \<Rightarrow>
          (case Option.bind (map_of (cx_namespaced_vars c) ''config'') (\<lambda>vars. map_of vars key) of
             Some v \<Rightarrow> Some v
           | None \<Rightarrow> map_of (cx_variables c) key))"

definition ctx_get :: "StepContext \<Rightarrow> string \<Rightarrow> string option" where
  "ctx_get c key =
     (if CHR ''.'' \<in> set key
      then (let step_id = takeWhile (\<lambda>ch. ch \<noteq> CHR ''.'') key;
                var_name = tl (dropWhile (\<lambda>ch. ch \<noteq> CHR ''.'') key)
            in Option.bind (map_of (cx_namespaced_vars c) step_id) (\<lambda>vars. map_of vars var_name))
      else
       (case get_bare c key of
          Some v \<Rightarrow> Some v
        | None \<Rightarrow> (if key = ''issue_number'' then get_bare c ''primary_issue_number'' else None)))"

definition ns_insert :: "string \<Rightarrow> string \<Rightarrow> string \<Rightarrow> (string \<times> var_map) list \<Rightarrow> (string \<times> var_map) list" where
  "ns_insert step key value ns =
     AList.update step
       (AList.update key value (case map_of ns step of Some vars \<Rightarrow> vars | None \<Rightarrow> [])) ns"

definition ctx_set :: "string \<Rightarrow> string \<Rightarrow> StepContext \<Rightarrow> StepContext" where
  "ctx_set key value c =
     (let c1 = (case cx_current_step_id c of
                  Some step \<Rightarrow> c\<lparr>cx_namespaced_vars := ns_insert step key value (cx_namespaced_vars c)\<rparr>
                | None \<Rightarrow> c)
      in c1\<lparr>cx_variables := AList.update key value (cx_variables c1)\<rparr>)"

definition set_workspace_authorization :: "WorkspaceAuthorization \<Rightarrow> StepContext \<Rightarrow> StepContext" where
  "set_workspace_authorization a c =
     (if cx_workspace_authorization c = None then c\<lparr>cx_workspace_authorization := Some a\<rparr> else c)"

definition set_current_step_id :: "string \<Rightarrow> StepContext \<Rightarrow> StepContext" where
  "set_current_step_id step c =
     (let order = (if cx_step_order c \<noteq> [] \<and> last (cx_step_order c) = step then cx_step_order c
                   else cx_step_order c @ [step])
      in c\<lparr>cx_current_step_id := Some step, cx_step_order := order,
           cx_variables := AList.update ''current_step_id'' step (cx_variables c)\<rparr>)"

section \<open>Checkpoint capture and restore\<close>

type_synonym json_map = "(string \<times> json) list"

definition filter_keys :: "(string \<Rightarrow> bool) \<Rightarrow> (string \<times> 'a) list \<Rightarrow> (string \<times> 'a) list" where
  "filter_keys P kvs = filter (\<lambda>(k, _). P k) kvs"

definition filter_namespaces :: "(string \<Rightarrow> bool) \<Rightarrow> (string \<times> var_map) list \<Rightarrow> (string \<times> var_map) list" where
  "filter_namespaces P ns = map (\<lambda>(s, vars). (s, filter_keys P vars)) ns"

text \<open>\<open>serde_json::to_value\<close> and \<open>from_value\<close> for the three shapes the checkpoint uses.\<close>

definition json_of_var_map :: "var_map \<Rightarrow> json" where
  "json_of_var_map vars = JObj (map (\<lambda>(k, v). (k, JStr v)) vars)"

definition json_of_namespaces :: "(string \<times> var_map) list \<Rightarrow> json" where
  "json_of_namespaces ns = JObj (map (\<lambda>(s, vars). (s, json_of_var_map vars)) ns)"

definition json_of_strings :: "string list \<Rightarrow> json" where
  "json_of_strings xs = JArr (map JStr xs)"

fun collect_options :: "('a \<Rightarrow> 'b option) \<Rightarrow> 'a list \<Rightarrow> 'b list option" where
  "collect_options f [] = Some []"
| "collect_options f (x # xs) =
     (case f x of None \<Rightarrow> None | Some y \<Rightarrow> map_option (\<lambda>ys. y # ys) (collect_options f xs))"

definition var_map_of_json :: "json \<Rightarrow> var_map option" where
  "var_map_of_json j =
     (case j of
        JObj kvs \<Rightarrow> collect_options (\<lambda>(k, v). map_option (\<lambda>s. (k, s)) (json_as_str v)) kvs
      | _ \<Rightarrow> None)"

definition namespaces_of_json :: "json \<Rightarrow> (string \<times> var_map) list option" where
  "namespaces_of_json j =
     (case j of
        JObj kvs \<Rightarrow> collect_options (\<lambda>(k, v). map_option (\<lambda>m. (k, m)) (var_map_of_json v)) kvs
      | _ \<Rightarrow> None)"

definition strings_of_json :: "json \<Rightarrow> string list option" where
  "strings_of_json j = (case j of JArr xs \<Rightarrow> collect_options json_as_str xs | _ \<Rightarrow> None)"

definition checkpoint_values :: "StepContext \<Rightarrow> json_map" where
  "checkpoint_values c =
     (let values = map (\<lambda>(k, v). (k, JStr v))
                     (filter_keys (is_checkpointable_context_key c) (cx_variables c));
          ns = filter_namespaces (is_checkpointable_context_key c)
                 (cx_namespaced_vars c)
      in AList.update ''__step_order'' (json_of_strings (cx_step_order c))
           (AList.update ''__namespaced_vars'' (json_of_namespaces ns) values))"

datatype RestoreError =
    MalformedNamespacedVars
  | MalformedStepOrder
  | NotAString string

fun restore_variables ::
  "(string \<Rightarrow> bool) \<Rightarrow> json_map \<Rightarrow> var_map \<Rightarrow> var_map \<times> (unit, RestoreError) result" where
  "restore_variables P [] vars = (vars, Ok ())"
| "restore_variables P ((k, v) # kvs) vars =
     (if P k
      then (case json_as_str v of
              Some s \<Rightarrow> restore_variables P kvs (AList.update k s vars)
            | None \<Rightarrow> (vars, Err (NotAString k)))
      else restore_variables P kvs vars)"

text \<open>The context is mutated in place: an error leaves what was restored before it.\<close>

definition restore_namespaces ::
  "json_map \<Rightarrow> StepContext \<Rightarrow> (StepContext, RestoreError) result" where
  "restore_namespaces values c =
     (case map_of values ''__namespaced_vars'' of
        None \<Rightarrow> Ok c
      | Some j \<Rightarrow>
          (case namespaces_of_json j of
             None \<Rightarrow> Err MalformedNamespacedVars
           | Some raw \<Rightarrow>
               Ok (c\<lparr>cx_namespaced_vars :=
                      filter_namespaces (is_checkpointable_context_key c) raw\<rparr>)))"

definition restore_step_order ::
  "json_map \<Rightarrow> StepContext \<Rightarrow> (StepContext, RestoreError) result" where
  "restore_step_order values c =
     (case map_of values ''__step_order'' of
        None \<Rightarrow> Ok c
      | Some j \<Rightarrow>
          (case strings_of_json j of
             None \<Rightarrow> Err MalformedStepOrder
           | Some order \<Rightarrow> Ok (c\<lparr>cx_step_order := order\<rparr>)))"

definition restore_checkpoint_values ::
  "json_map \<Rightarrow> StepContext \<Rightarrow> StepContext \<times> (unit, RestoreError) result" where
  "restore_checkpoint_values values c =
     (case restore_namespaces values c of
        Err e \<Rightarrow> (c, Err e)
      | Ok c1 \<Rightarrow>
          (case restore_step_order (AList.delete ''__namespaced_vars'' values) c1 of
             Err e \<Rightarrow> (c1, Err e)
           | Ok c2 \<Rightarrow>
               (let (vars, r) =
                  restore_variables (is_checkpointable_context_key c2)
                    (AList.delete ''__step_order'' (AList.delete ''__namespaced_vars'' values))
                    (cx_variables c2)
                in (c2\<lparr>cx_variables := vars\<rparr>, r))))"

section \<open>Interpolation\<close>

fun push_new :: "string list \<Rightarrow> string list \<Rightarrow> string list" where
  "push_new [] keys = keys"
| "push_new (k # ks) keys = push_new ks (if k \<in> set keys then keys else keys @ [k])"

definition all_keys :: "StepContext \<Rightarrow> string list" where
  "all_keys c =
     (let qualified = concat (map (\<lambda>(s, vars). map (\<lambda>(k, _). s @ ''.'' @ k) vars) (cx_namespaced_vars c));
          ks1 = push_new (concat (map (\<lambda>(_, vars). map fst vars) (cx_namespaced_vars c))) qualified;
          ks2 = push_new (map fst (cx_variables c)) ks1;
          ks3 = push_new [''work_dir'', ''run_id''] ks2
      in if ctx_get c ''issue_number'' \<noteq> None then push_new [''issue_number''] ks3 else ks3)"

definition interpolate_step :: "StepContext \<Rightarrow> string \<Rightarrow> string \<Rightarrow> string" where
  "interpolate_step c key s =
     (case ctx_get c key of Some v \<Rightarrow> str_replace (''{'' @ key @ ''}'') v s | None \<Rightarrow> s)"

definition interpolate_string :: "string \<Rightarrow> StepContext \<Rightarrow> string" where
  "interpolate_string template c =
     fold (interpolate_step c) (sort_key (\<lambda>k. - int (length k)) (all_keys c)) template"

section \<open>Lookup after assignment\<close>

lemma map_of_filter_keys [simp]: "map_of (filter_keys P kvs) k = (if P k then map_of kvs k else None)"
  by (induction kvs) (auto simp: filter_keys_def)

lemma filter_keys_idem [simp]: "filter_keys P (filter_keys P kvs) = filter_keys P kvs"
  by (simp add: filter_keys_def)

lemma keys_filter_keys [simp]: "set (map fst (filter_keys P kvs)) = {k \<in> set (map fst kvs). P k}"
  by (auto simp: filter_keys_def)

lemma map_of_ns_insert:
  "map_of (ns_insert step key value ns) =
     (map_of ns)(step \<mapsto> AList.update key value (case map_of ns step of Some vars \<Rightarrow> vars | None \<Rightarrow> []))"
  by (simp add: ns_insert_def update_conv')

lemma set_current_step_id_simps [simp]:
  "cx_current_step_id (set_current_step_id s c) = Some s"
  "cx_step_order (set_current_step_id s c) \<noteq> []"
  "last (cx_step_order (set_current_step_id s c)) = s"
  "cx_namespaced_vars (set_current_step_id s c) = cx_namespaced_vars c"
  by (auto simp: set_current_step_id_def Let_def)

text \<open>The immutable part of a context: identity, provenance, authorization, allowlist.\<close>

definition immutable_part where
  "immutable_part c =
     (cx_work_dir c, cx_run_id c, cx_daemon_managed c, cx_workspace_authorization c,
      cx_checkpointable_keys c)"

lemma immutable_part_ops [simp]:
  "immutable_part (ctx_set k v c) = immutable_part c"
  "immutable_part (set_current_step_id s c) = immutable_part c"
  "immutable_part (bind_interrupt b c) = immutable_part c"
  by (auto simp: immutable_part_def ctx_set_def set_current_step_id_def bind_interrupt_def Let_def
      split: option.splits)

lemma recent_writer_first:
  "map_of ns step = Some vars \<Longrightarrow> map_of vars key = Some v \<Longrightarrow>
   recent_writer ns key (step # steps) = Some v"
  by simp

lemma rev_step_order:
  "cx_step_order c \<noteq> [] \<Longrightarrow> rev (cx_step_order c) = last (cx_step_order c) # rev (butlast (cx_step_order c))"
  by (metis append_butlast_last_id rev.simps(2) rev_rev_ident rev_append append_Cons append_Nil)

lemma ctx_set_current:
  assumes "cx_current_step_id c = Some s"
  shows "map_of (cx_namespaced_vars (ctx_set k v c)) s =
           Some (AList.update k v (case map_of (cx_namespaced_vars c) s of Some vars \<Rightarrow> vars | None \<Rightarrow> []))"
    and "cx_step_order (ctx_set k v c) = cx_step_order c"
    and "map_of (cx_variables (ctx_set k v c)) = (map_of (cx_variables c))(k \<mapsto> v)"
  using assms by (simp_all add: ctx_set_def Let_def map_of_ns_insert update_conv')

text \<open>
  A value a step writes is what a later read returns: by its bare name while the step is
  the most recent, and by its qualified name (\<open>step.key\<close>) for a step name without a dot.
\<close>

theorem set_then_get:
  fixes k s v :: string
  assumes k: "CHR ''.'' \<notin> set k"
  shows "ctx_get (ctx_set k v (set_current_step_id s c)) k = Some v \<and>
    (CHR ''.'' \<notin> set s \<longrightarrow> ctx_get (ctx_set k v (set_current_step_id s c)) (s @ ''.'' @ k) = Some v)"
proof -
  let ?c = "ctx_set k v (set_current_step_id s c)"
  have ns: "map_of (cx_namespaced_vars ?c) s =
      Some (AList.update k v (case map_of (cx_namespaced_vars c) s of Some vars \<Rightarrow> vars | None \<Rightarrow> []))"
    by (simp add: ctx_set_current)
  have "cx_step_order ?c = cx_step_order (set_current_step_id s c)"
    by (simp add: ctx_set_current)
  then obtain rest where rest: "rev (cx_step_order ?c) = s # rest"
    by (metis rev_step_order set_current_step_id_simps(2,3))
  have "recent_writer (cx_namespaced_vars ?c) k (rev (cx_step_order ?c)) = Some v"
    unfolding rest using ns by (simp add: update_conv')
  moreover have "takeWhile (\<lambda>ch. ch \<noteq> CHR ''.'') (s @ ''.'' @ k) = s"
    and "dropWhile (\<lambda>ch. ch \<noteq> CHR ''.'') (s @ ''.'' @ k) = ''.'' @ k" if "CHR ''.'' \<notin> set s"
    using that by (auto simp: takeWhile_append dropWhile_append)
  ultimately show ?thesis
    using ns k by (auto simp: ctx_get_def get_bare_def update_conv')
qed

theorem set_then_get_witness:
  "ctx_get (ctx_set ''pr_number'' ''7'' (set_current_step_id ''open_pr'' (build ''/w'' ''r1'' False)))
     ''open_pr.pr_number'' = Some ''7''"
  using set_then_get [of "''pr_number''" "''7''" "''open_pr''" "build ''/w'' ''r1'' False"] by simp

section \<open>The checkpoint allowlist\<close>

lemma collect_options_map: "(\<And>x. g (f x) = Some x) \<Longrightarrow> collect_options g (map f xs) = Some xs"
  by (induction xs) auto

lemma var_map_json_round_trip [simp]: "var_map_of_json (json_of_var_map vars) = Some vars"
  by (auto simp: var_map_of_json_def json_of_var_map_def intro!: collect_options_map)

lemma namespaces_json_round_trip [simp]: "namespaces_of_json (json_of_namespaces ns) = Some ns"
  by (auto simp: namespaces_of_json_def json_of_namespaces_def intro!: collect_options_map)

lemma strings_json_round_trip [simp]: "strings_of_json (json_of_strings xs) = Some xs"
  by (auto simp: strings_of_json_def json_of_strings_def intro!: collect_options_map)

lemma restore_variables_frame:
  "restore_variables P kvs vars = (vars', r) \<Longrightarrow> \<not> P k \<Longrightarrow> map_of vars' k = map_of vars k"
proof (induction P kvs vars rule: restore_variables.induct)
  case (2 P x v kvs vars)
  show ?case
  proof (cases "P x")
    case True
    with 2(4) have "k \<noteq> x" by auto
    then show ?thesis using 2 True
      by (cases "json_as_str v") (auto simp: update_conv')
  qed (use 2 in simp)
qed simp

lemma filtered_namespaces:
  "map_of (filter_namespaces P ns) s = map_option (filter_keys P) (map_of ns s)"
  by (induction ns) (auto simp: filter_namespaces_def)

lemma filter_namespaces_idem [simp]: "filter_namespaces P (filter_namespaces P ns) = filter_namespaces P ns"
  by (induction ns) (auto simp: filter_namespaces_def)

lemma checkpoint_values_keys:
  "fst ` set (checkpoint_values c) \<subseteq>
     set (cx_checkpointable_keys c) \<union> {''__namespaced_vars'', ''__step_order''}"
  unfolding checkpoint_values_def Let_def
  by (auto simp: dom_update filter_keys_def is_checkpointable_context_key_def image_iff
      simp flip: dom_map_of_conv_image_fst simp: update_conv' split: if_splits
      dest!: map_of_SomeD)


text \<open>
  Checkpoints are governed by the allowlist in both directions. A capture contains only
  allowlisted keys (at top level and inside every namespace) beside its two structural keys,
  and restoring an arbitrary payload, even one that fails part way, changes neither the
  immutable part of the context nor any variable outside the allowlist, and any namespace
  it installs holds allowlisted keys only.
\<close>

theorem checkpoint_allowlist:
  fixes payload :: json_map
  shows
  "fst ` set (checkpoint_values c) \<subseteq>
     set (cx_checkpointable_keys c) \<union> {''__namespaced_vars'', ''__step_order''} \<and>
   map_of (checkpoint_values c) ''__namespaced_vars'' =
     Some (json_of_namespaces
       (filter_namespaces (is_checkpointable_context_key c) (cx_namespaced_vars c))) \<and>
   immutable_part (fst (restore_checkpoint_values payload c)) = immutable_part c \<and>
   {k. map_of (cx_variables (fst (restore_checkpoint_values payload c))) k \<noteq> map_of (cx_variables c) k}
     \<subseteq> set (cx_checkpointable_keys c) \<and>
   (cx_namespaced_vars (fst (restore_checkpoint_values payload c)) = cx_namespaced_vars c \<or>
    fst ` (\<Union>(s, vars) \<in> set (cx_namespaced_vars (fst (restore_checkpoint_values payload c))). set vars)
      \<subseteq> set (cx_checkpointable_keys c))"
proof -
  let ?r = "restore_checkpoint_values payload c"
  have keys: "\<forall>k. \<not> is_checkpointable_context_key c k \<longrightarrow>
      map_of (cx_variables (fst ?r)) k = map_of (cx_variables c) k"
    and imm: "immutable_part (fst ?r) = immutable_part c"
    and ns: "cx_namespaced_vars (fst ?r) = cx_namespaced_vars c \<or>
      (\<exists>raw. cx_namespaced_vars (fst ?r) =
         filter_namespaces (is_checkpointable_context_key c) raw)"
    by (auto simp: restore_checkpoint_values_def restore_namespaces_def restore_step_order_def
        immutable_part_def is_checkpointable_context_key_def
        split: result.splits option.splits prod.splits dest: restore_variables_frame)
  from ns have "cx_namespaced_vars (fst ?r) = cx_namespaced_vars c \<or>
    fst ` (\<Union>(s, vars) \<in> set (cx_namespaced_vars (fst ?r)). set vars) \<subseteq> set (cx_checkpointable_keys c)"
    by (fastforce simp: filter_namespaces_def filter_keys_def is_checkpointable_context_key_def)
  moreover have "map_of (checkpoint_values c) ''__namespaced_vars'' =
     Some (json_of_namespaces
       (filter_namespaces (is_checkpointable_context_key c) (cx_namespaced_vars c)))"
    by (simp add: checkpoint_values_def Let_def update_conv')
  ultimately show ?thesis
    using keys imm checkpoint_values_keys [of c]
    by (auto simp: is_checkpointable_context_key_def)
qed

section \<open>Well-formed contexts and the checkpoint round trip\<close>

text \<open>Association lists that represent maps: no key twice.\<close>

definition ctx_wf :: "StepContext \<Rightarrow> bool" where
  "ctx_wf c \<longleftrightarrow> distinct (map fst (cx_variables c)) \<and> distinct (map fst (cx_namespaced_vars c)) \<and>
     list_all (\<lambda>(s, vars). distinct (map fst vars)) (cx_namespaced_vars c)"

lemma ctx_wf_build [simp]: "ctx_wf (build wd rid dm)"
  by (simp add: ctx_wf_def build_def)

lemma ctx_wf_set_current_step_id [simp]: "ctx_wf c \<Longrightarrow> ctx_wf (set_current_step_id s c)"
  by (simp add: ctx_wf_def set_current_step_id_def Let_def distinct_update)

lemma list_all_update:
  "list_all (\<lambda>(s, x). P x) al \<Longrightarrow> P y \<Longrightarrow> list_all (\<lambda>(s, x). P x) (AList.update k y al)"
  by (induction al) auto

lemma ns_insert_wf:
  assumes "distinct (map fst ns)" and "list_all (\<lambda>(s, vars). distinct (map fst vars)) ns"
  shows "distinct (map fst (ns_insert step k v ns)) \<and>
    list_all (\<lambda>(s, vars). distinct (map fst vars)) (ns_insert step k v ns)"
proof -
  have "distinct (map fst (case map_of ns step of Some vars \<Rightarrow> vars | None \<Rightarrow> []))"
    using assms(2) by (auto simp: list_all_iff split: option.splits dest: map_of_SomeD)
  then show ?thesis
    using assms unfolding ns_insert_def by (blast intro: list_all_update distinct_update)
qed

lemma ctx_wf_set [simp]:
  assumes "ctx_wf c"
  shows "ctx_wf (ctx_set k v c)"
  using assms ns_insert_wf [of "cx_namespaced_vars c"]
  by (auto simp: ctx_wf_def ctx_set_def Let_def distinct_update split: option.splits)

lemma restore_variables_strings:
  assumes "distinct (map fst kvs)" and "\<forall>(k, v) \<in> set kvs. P k"
  shows "\<exists>vars'. restore_variables P (map (\<lambda>(k, v). (k, JStr v)) kvs) vars = (vars', Ok ()) \<and>
    map_of vars' = map_of vars ++ map_of kvs"
  using assms
proof (induction kvs arbitrary: vars)
  case (Cons kv kvs)
  obtain k v where kv: "kv = (k, v)" by (cases kv)
  have none: "k \<notin> dom (map_of kvs)" using Cons.prems kv by (simp add: dom_map_of_conv_image_fst)
  have "distinct (map fst kvs)" "\<forall>(k, v) \<in> set kvs. P k" using Cons.prems by auto
  from Cons.IH [OF this, of "AList.update k v vars"]
  obtain vars' where r: "restore_variables P (map (\<lambda>(k, v). (k, JStr v)) kvs) (AList.update k v vars) = (vars', Ok ())"
    and m: "map_of vars' = map_of (AList.update k v vars) ++ map_of kvs" by blast
  have "map_of vars' = map_of vars ++ map_of (kv # kvs)"
    unfolding m kv update_conv' using none by (simp add: map_add_upd_left)
  moreover have "restore_variables P (map (\<lambda>(k, v). (k, JStr v)) (kv # kvs)) vars = (vars', Ok ())"
    using r Cons.prems by (simp add: kv)
  ultimately show ?case by blast
qed simp

text \<open>
  The two structural keys are deleted before the variables are restored; what is left is the
  allowlisted part of the variables.
\<close>

lemma checkpoint_values_parts:
  assumes "''__namespaced_vars'' \<notin> set (cx_checkpointable_keys c)"
    and "''__step_order'' \<notin> set (cx_checkpointable_keys c)"
  shows "AList.delete ''__step_order'' (AList.delete ''__namespaced_vars'' (checkpoint_values c)) =
    map (\<lambda>(k, v). (k, JStr v)) (filter_keys (is_checkpointable_context_key c) (cx_variables c))"
proof -
  have "''__namespaced_vars'' \<notin> fst ` set (map (\<lambda>(k, v). (k, JStr v))
          (filter_keys (is_checkpointable_context_key c) (cx_variables c)))"
    and "''__step_order'' \<notin> fst ` set (map (\<lambda>(k, v). (k, JStr v))
          (filter_keys (is_checkpointable_context_key c) (cx_variables c)))"
    using assms by (auto simp: filter_keys_def is_checkpointable_context_key_def)
  then show ?thesis
    by (simp add: checkpoint_values_def Let_def delete_update delete_update_same)
qed

lemma restore_of_capture:
  assumes "ctx_wf c" and "cx_checkpointable_keys c' = cx_checkpointable_keys c"
    and "''__namespaced_vars'' \<notin> set (cx_checkpointable_keys c)"
    and "''__step_order'' \<notin> set (cx_checkpointable_keys c)"
  shows "\<exists>vars. restore_checkpoint_values (checkpoint_values c) c' =
      (c'\<lparr>cx_namespaced_vars := filter_namespaces (is_checkpointable_context_key c)
             (cx_namespaced_vars c),
          cx_step_order := cx_step_order c, cx_variables := vars\<rparr>, Ok ()) \<and>
    map_of vars = map_of (cx_variables c') ++
      map_of (filter_keys (is_checkpointable_context_key c) (cx_variables c))"
proof -
  let ?P = "is_checkpointable_context_key c"
  have P: "is_checkpointable_context_key (c'\<lparr>cx_namespaced_vars := a, cx_step_order := b\<rparr>) = ?P" for a b
    using assms(2) by (simp add: is_checkpointable_context_key_def fun_eq_iff)
  have P': "is_checkpointable_context_key c' = ?P"
    using assms(2) by (simp add: is_checkpointable_context_key_def fun_eq_iff)
  have "distinct (map fst (filter_keys ?P (cx_variables c)))"
    using assms(1) by (simp add: ctx_wf_def filter_keys_def distinct_map_filter)
  from restore_variables_strings [OF this, of ?P "cx_variables c'"]
  obtain vars where vars: "restore_variables ?P
      (map (\<lambda>(k, v). (k, JStr v)) (filter_keys ?P (cx_variables c))) (cx_variables c') = (vars, Ok ())"
    and "map_of vars = map_of (cx_variables c') ++ map_of (filter_keys ?P (cx_variables c))"
    by (auto simp: filter_keys_def)
  moreover have "map_of (checkpoint_values c) ''__namespaced_vars'' =
       Some (json_of_namespaces (filter_namespaces ?P (cx_namespaced_vars c)))"
    and "map_of (AList.delete ''__namespaced_vars'' (checkpoint_values c)) ''__step_order'' =
       Some (json_of_strings (cx_step_order c))"
    by (simp_all add: checkpoint_values_def Let_def update_conv')
  ultimately show ?thesis
    using checkpoint_values_parts [OF assms(3,4)]
    by (intro exI [of _ vars])
       (simp add: restore_checkpoint_values_def restore_namespaces_def restore_step_order_def P P')
qed

text \<open>Reads of allowlisted keys see the same value in two contexts that agree on them.\<close>

lemma recent_writer_filtered:
  "P key \<Longrightarrow> recent_writer (filter_namespaces P ns) key steps = recent_writer ns key steps"
proof (induction steps)
  case (Cons s steps)
  then show ?case
    by (cases "map_of ns s") (simp_all add: filtered_namespaces split: option.split)
qed simp

lemma get_bare_filtered:
  assumes "P key" and "cx_namespaced_vars c' = filter_namespaces P (cx_namespaced_vars c)"
    and "cx_step_order c' = cx_step_order c" and "map_of (cx_variables c') key = map_of (cx_variables c) key"
  shows "get_bare c' key = get_bare c key"
proof -
  have cfg: "Option.bind (map_of (cx_namespaced_vars c') ''config'') (\<lambda>vars. map_of vars key) =
      Option.bind (map_of (cx_namespaced_vars c) ''config'') (\<lambda>vars. map_of vars key)"
    using assms(1,2) by (cases "map_of (cx_namespaced_vars c) ''config''") (simp_all add: filtered_namespaces)
  have rw: "recent_writer (cx_namespaced_vars c') key steps = recent_writer (cx_namespaced_vars c) key steps" for steps
    using assms(1,2) by (simp add: recent_writer_filtered)
  show ?thesis unfolding get_bare_def cfg rw assms(3,4) ..
qed

lemma restore_capture_reads:
  assumes "ctx_wf c" and "cx_checkpointable_keys c = DEFAULT_CHECKPOINTABLE_CONTEXT_KEYS"
    and "cx_checkpointable_keys c0 = DEFAULT_CHECKPOINTABLE_CONTEXT_KEYS"
    and "\<forall>key \<in> set DEFAULT_CHECKPOINTABLE_CONTEXT_KEYS.
           map_of (cx_variables c0) key \<noteq> None \<longrightarrow> map_of (cx_variables c) key \<noteq> None"
    and "k \<in> set DEFAULT_CHECKPOINTABLE_CONTEXT_KEYS"
  shows "snd (restore_checkpoint_values (checkpoint_values c) c0) = Ok () \<and>
    ctx_get (fst (restore_checkpoint_values (checkpoint_values c) c0)) k = ctx_get c k"
proof -
  let ?P = "is_checkpointable_context_key c"
  from restore_of_capture [OF assms(1), of c0]
  obtain vars where r: "restore_checkpoint_values (checkpoint_values c) c0 =
      (c0\<lparr>cx_namespaced_vars := filter_namespaces ?P (cx_namespaced_vars c),
          cx_step_order := cx_step_order c, cx_variables := vars\<rparr>, Ok ())"
    and vars: "map_of vars = map_of (cx_variables c0) ++ map_of (filter_keys ?P (cx_variables c))"
    using assms(2,3) by (auto simp: DEFAULT_CHECKPOINTABLE_CONTEXT_KEYS_def)
  have same: "map_of vars key = map_of (cx_variables c) key"
    if "key \<in> set DEFAULT_CHECKPOINTABLE_CONTEXT_KEYS" for key
    using that assms(2,4) by (auto simp: vars map_add_def is_checkpointable_context_key_def split: option.split)
  let ?c' = "fst (restore_checkpoint_values (checkpoint_values c) c0)"
  have bare: "get_bare ?c' key = get_bare c key"
    if "key \<in> set DEFAULT_CHECKPOINTABLE_CONTEXT_KEYS" for key
    by (rule get_bare_filtered [of ?P])
       (use that same assms(2) r in \<open>auto simp: is_checkpointable_context_key_def\<close>)
  have "CHR ''.'' \<notin> set k" "''primary_issue_number'' \<in> set DEFAULT_CHECKPOINTABLE_CONTEXT_KEYS"
    using assms(5) by (auto simp: DEFAULT_CHECKPOINTABLE_CONTEXT_KEYS_def)
  then show ?thesis using bare assms(5) r by (simp add: ctx_get_def split: option.split)
qed

lemma for_run_allowlist:
  "cx_checkpointable_keys (for_run wd rid dm) = DEFAULT_CHECKPOINTABLE_CONTEXT_KEYS"
  "\<forall>key \<in> set DEFAULT_CHECKPOINTABLE_CONTEXT_KEYS. map_of (cx_variables (for_run wd rid dm)) key = None"
  by (auto simp: for_run_def build_def DEFAULT_CHECKPOINTABLE_CONTEXT_KEYS_def)

text \<open>A member under a key that is neither structural nor allowlisted is ignored.\<close>

lemma restore_variables_extra:
  "\<not> P x \<Longrightarrow> restore_variables P (AList.update x j kvs) vars = restore_variables P kvs vars"
proof (induction kvs arbitrary: vars)
  case (Cons kv kvs)
  then show ?case by (cases kv) (auto split: option.splits)
qed simp

lemma restore_extra:
  assumes "\<not> is_checkpointable_context_key c x" "x \<noteq> ''__namespaced_vars''" "x \<noteq> ''__step_order''"
  shows "restore_checkpoint_values (AList.update x j payload) c = restore_checkpoint_values payload c"
proof -
  have ns: "restore_namespaces (AList.update x j payload) c = restore_namespaces payload c"
    using assms by (simp add: restore_namespaces_def update_conv')
  have so: "restore_step_order (AList.delete ''__namespaced_vars'' (AList.update x j payload)) c' =
      restore_step_order (AList.delete ''__namespaced_vars'' payload) c'" for c'
    using assms by (simp add: restore_step_order_def delete_update update_conv')
  have keys: "cx_checkpointable_keys c2 = cx_checkpointable_keys c"
    if "restore_namespaces payload c = Ok c1" "restore_step_order p c1 = Ok c2" for c1 c2 p
    using that by (auto simp: restore_namespaces_def restore_step_order_def split: option.splits)
  have rv: "restore_variables (is_checkpointable_context_key c2)
      (AList.delete ''__step_order'' (AList.delete ''__namespaced_vars'' (AList.update x j payload))) vars =
      restore_variables (is_checkpointable_context_key c2)
      (AList.delete ''__step_order'' (AList.delete ''__namespaced_vars'' payload)) vars"
    if "cx_checkpointable_keys c2 = cx_checkpointable_keys c" for c2 vars
    using assms that
    by (simp add: delete_update is_checkpointable_context_key_def restore_variables_extra)
  show ?thesis
  proof (cases "restore_namespaces payload c")
    case (Err e)
    then show ?thesis unfolding restore_checkpoint_values_def ns by simp
  next
    case (Ok c1)
    show ?thesis
    proof (cases "restore_step_order (AList.delete ''__namespaced_vars'' payload) c1")
      case (Err e)
      then show ?thesis unfolding restore_checkpoint_values_def ns using Ok so by simp
    next
      case ok2: (Ok c2)
      show ?thesis
        unfolding restore_checkpoint_values_def ns
        by (simp only: Ok ok2 so result.case Let_def rv [OF keys [OF Ok ok2]])
    qed
  qed
qed

text \<open>
  The checkpoint round trip. Restoring the capture of a well-formed context into a fresh
  context of a run succeeds, and every allowlisted key then reads as it did before.
\<close>

theorem checkpoint_round_trip:
  assumes "ctx_wf c" and "cx_checkpointable_keys c = DEFAULT_CHECKPOINTABLE_CONTEXT_KEYS"
    and "k \<in> set DEFAULT_CHECKPOINTABLE_CONTEXT_KEYS"
  shows "snd (restore_checkpoint_values (checkpoint_values c) (for_run wd rid dm)) = Ok () \<and>
    ctx_get (fst (restore_checkpoint_values (checkpoint_values c) (for_run wd rid dm))) k = ctx_get c k"
  by (rule restore_capture_reads [OF assms(1,2) for_run_allowlist(1) _ assms(3)]) (use for_run_allowlist(2) [of wd rid dm] in auto)

theorem checkpoint_round_trip_witness:
  "ctx_get (fst (restore_checkpoint_values
      (checkpoint_values (ctx_set ''pr_number'' ''7'' (set_current_step_id ''open_pr'' (build ''/w'' ''r1'' True))))
      (for_run ''/w'' ''r1'' True))) ''pr_number'' = Some ''7''"
proof -
  let ?c = "ctx_set ''pr_number'' ''7'' (set_current_step_id ''open_pr'' (build ''/w'' ''r1'' True))"
  have "cx_checkpointable_keys ?c = DEFAULT_CHECKPOINTABLE_CONTEXT_KEYS"
    "''pr_number'' \<in> set DEFAULT_CHECKPOINTABLE_CONTEXT_KEYS" "ctx_get ?c ''pr_number'' = Some ''7''"
    by code_simp+
  then show ?thesis
    using checkpoint_round_trip [of ?c "''pr_number''" "''/w''" "''r1''" True] by simp
qed

section \<open>Interpolation\<close>

text \<open>
  The replacements run one key after the other on the growing result, so a token inside a
  substituted value is itself substituted: \<open>{outer}\<close> with \<open>outer = {id}\<close> and \<open>id = 42\<close>
  becomes \<open>42\<close>, and the value of a shorter key never reaches a longer key's token.
\<close>

theorem interpolate_resolves_nested_tokens:
  "interpolate_string ''{outer}'' (ctx_set ''id'' ''42'' (ctx_set ''outer'' ''{id}'' (build ''/w'' ''r'' False)))
     = ''42'' \<and>
   interpolate_string ''{id}'' (ctx_set ''id'' ''{outer}'' (ctx_set ''outer'' ''x'' (build ''/w'' ''r'' False)))
     = ''{outer}''"
  by code_simp

end
