(* ===== verification/Checkpoints.thy ===== *)
theory Checkpoints
  imports Step_Context
begin

text \<open>
  Checkpoints and the event log (\<^verbatim>\<open>persistence/checkpoint.rs\<close>). The table
  \<open>checkpoints\<close> has one row per run and step; the context column carries the
  loop counters under a reserved key. JSON text is represented by the value it
  denotes (\<open>serde_json\<close> writes and reads it back), 32-bit counters fit the
  integer columns. The table \<open>events\<close> is append-only, in rowid order.
\<close>

section \<open>Data\<close>

datatype PersistenceError =
    Database string
  | Serialization string
  | NotFound string

definition CHECKPOINT_STATUS_WAITING :: string where
  "CHECKPOINT_STATUS_WAITING = ''waiting''"

definition CHECKPOINT_STATUS_INTERRUPTED :: string where
  "CHECKPOINT_STATUS_INTERRUPTED = ''interrupted''"

definition CHECKPOINT_STATUS_READY_TO_RESUME :: string where
  "CHECKPOINT_STATUS_READY_TO_RESUME = ''ready_to_resume''"

definition is_resumable_checkpoint_status :: "string \<Rightarrow> bool" where
  "is_resumable_checkpoint_status s \<longleftrightarrow>
     s = CHECKPOINT_STATUS_WAITING \<or> s = CHECKPOINT_STATUS_INTERRUPTED \<or>
     s = CHECKPOINT_STATUS_READY_TO_RESUME"

type_synonym edge_counts = "(string \<times> u32) list"

record StateSnapshot =
  ss_retry_count :: u32
  ss_loop_count :: u32
  ss_edge_loop_counts :: edge_counts
  ss_context :: json_map
  ss_status :: string

definition default_snapshot :: StateSnapshot where
  "default_snapshot =
     \<lparr>ss_retry_count = 0, ss_loop_count = 0, ss_edge_loop_counts = [], ss_context = [],
      ss_status = ''running''\<rparr>"

record Checkpoint =
  cp_run_id :: string
  cp_step_id :: string
  cp_state_snapshot :: StateSnapshot
  cp_timestamp :: instant

definition with_snapshot :: "instant \<Rightarrow> string \<Rightarrow> string \<Rightarrow> StateSnapshot \<Rightarrow> Checkpoint" where
  "with_snapshot now run step snap =
     \<lparr>cp_run_id = run, cp_step_id = step, cp_state_snapshot = snap, cp_timestamp = now\<rparr>"

definition mark_interrupted :: "instant \<Rightarrow> Checkpoint \<Rightarrow> Checkpoint" where
  "mark_interrupted now cp =
     cp\<lparr>cp_state_snapshot := (cp_state_snapshot cp)\<lparr>ss_status := ''interrupted''\<rparr>, cp_timestamp := now\<rparr>"

definition checkpoint_mark_completed :: "instant \<Rightarrow> Checkpoint \<Rightarrow> Checkpoint" where
  "checkpoint_mark_completed now cp =
     cp\<lparr>cp_state_snapshot := (cp_state_snapshot cp)\<lparr>ss_status := ''completed''\<rparr>, cp_timestamp := now\<rparr>"

record checkpoint_row =
  cr_run_id :: string
  cr_step_id :: string
  cr_retry_count :: i64
  cr_loop_count :: i64
  cr_context :: json_map
  cr_status :: string
  cr_timestamp :: instant

abbreviation checkpoint_key :: "checkpoint_row \<Rightarrow> string \<times> string" where
  "checkpoint_key r \<equiv> (cr_run_id r, cr_step_id r)"

section \<open>Saving and loading\<close>

definition EDGE_COUNTS_KEY :: string where
  "EDGE_COUNTS_KEY = ''__edge_loop_counts''"

definition json_of_edge_counts :: "edge_counts \<Rightarrow> json" where
  "json_of_edge_counts m = JObj (map (\<lambda>(k, n). (k, JInt (uint n))) m)"

definition u32_of_json :: "json \<Rightarrow> u32 option" where
  "u32_of_json j =
     (case j of JInt i \<Rightarrow> (if 0 \<le> i \<and> i < 4294967296 then Some (word_of_int i) else None) | _ \<Rightarrow> None)"

definition edge_counts_of_json :: "json \<Rightarrow> edge_counts option" where
  "edge_counts_of_json j =
     (case j of
        JObj kvs \<Rightarrow> collect_options (\<lambda>(k, v). map_option (\<lambda>n. (k, n)) (u32_of_json v)) kvs
      | _ \<Rightarrow> None)"

definition row_of_checkpoint :: "Checkpoint \<Rightarrow> checkpoint_row" where
  "row_of_checkpoint cp =
     (let s = cp_state_snapshot cp
      in \<lparr>cr_run_id = cp_run_id cp, cr_step_id = cp_step_id cp,
          cr_retry_count = uint (ss_retry_count s), cr_loop_count = uint (ss_loop_count s),
          cr_context = AList.update EDGE_COUNTS_KEY (json_of_edge_counts (ss_edge_loop_counts s)) (ss_context s),
          cr_status = ss_status s, cr_timestamp = cp_timestamp cp\<rparr>)"

definition checkpoint_of_row :: "checkpoint_row \<Rightarrow> Checkpoint" where
  "checkpoint_of_row r =
     \<lparr>cp_run_id = cr_run_id r, cp_step_id = cr_step_id r,
      cp_state_snapshot =
        \<lparr>ss_retry_count = word_of_int (cr_retry_count r),
         ss_loop_count = word_of_int (cr_loop_count r),
         ss_edge_loop_counts =
           (case Option.bind (map_of (cr_context r) EDGE_COUNTS_KEY) edge_counts_of_json of
              Some m \<Rightarrow> m | None \<Rightarrow> []),
         ss_context = cr_context r, ss_status = cr_status r\<rparr>,
      cp_timestamp = cr_timestamp r\<rparr>"

definition save_checkpoint_with_conn :: "Checkpoint \<Rightarrow> checkpoint_row list \<Rightarrow> checkpoint_row list" where
  "save_checkpoint_with_conn cp rows = upsert checkpoint_key (\<lambda>old new. new) (row_of_checkpoint cp) rows"

definition load_checkpoint_with_conn :: "string \<Rightarrow> checkpoint_row list \<Rightarrow> Checkpoint option" where
  "load_checkpoint_with_conn run rows =
     map_option checkpoint_of_row (newest_by cr_timestamp (filter (\<lambda>r. cr_run_id r = run) rows))"

definition list_checkpoints :: "string \<Rightarrow> checkpoint_row list \<Rightarrow> Checkpoint list" where
  "list_checkpoints run rows =
     map checkpoint_of_row (sort_key cr_timestamp (filter (\<lambda>r. cr_run_id r = run) rows))"

definition get_checkpoint_for_step :: "string \<Rightarrow> string \<Rightarrow> checkpoint_row list \<Rightarrow> Checkpoint option" where
  "get_checkpoint_for_step run step rows = find (\<lambda>cp. cp_step_id cp = step) (list_checkpoints run rows)"

definition load_checkpoint_before_step :: "string \<Rightarrow> string \<Rightarrow> checkpoint_row list \<Rightarrow> Checkpoint option" where
  "load_checkpoint_before_step run step rows =
     (let cps = list_checkpoints run rows
      in case position (\<lambda>cp. cp_step_id cp = step) cps of
           Some idx \<Rightarrow> (if 0 < idx then Some (cps ! (idx - 1)) else None)
         | None \<Rightarrow> None)"

definition set_resume_point ::
  "instant \<Rightarrow> string \<Rightarrow> string \<Rightarrow> checkpoint_row list \<Rightarrow>
   (checkpoint_row list \<times> instant, PersistenceError) result" where
  "set_resume_point now run step rows =
     (let P = (\<lambda>r. checkpoint_key r = (run, step))
      in if count_where P rows = 0
         then Err (NotFound (''no checkpoint for run '' @ run @ '' step '' @ step))
         else Ok (update_where P (\<lambda>r. r\<lparr>cr_status := CHECKPOINT_STATUS_READY_TO_RESUME,
                                          cr_timestamp := now\<rparr>) rows, now))"

section \<open>Events\<close>

datatype EventType =
    EvStepStart
  | EvStepOutcome
  | EvProcessSpawn
  | EvProcessExit
  | EvAgentSpawn
  | EvAgentExit
  | EvError
  | EvTerminalState

fun event_type_to_string :: "EventType \<Rightarrow> string" where
  "event_type_to_string EvStepStart = ''step_start''"
| "event_type_to_string EvStepOutcome = ''step_outcome''"
| "event_type_to_string EvProcessSpawn = ''process_spawn''"
| "event_type_to_string EvProcessExit = ''process_exit''"
| "event_type_to_string EvAgentSpawn = ''agent_spawn''"
| "event_type_to_string EvAgentExit = ''agent_exit''"
| "event_type_to_string EvError = ''error''"
| "event_type_to_string EvTerminalState = ''terminal_state''"

definition event_type_from_str :: "string \<Rightarrow> EventType option" where
  "event_type_from_str s =
     (if s = ''step_start'' then Some EvStepStart
      else if s = ''step_outcome'' then Some EvStepOutcome
      else if s = ''process_spawn'' then Some EvProcessSpawn
      else if s = ''process_exit'' then Some EvProcessExit
      else if s = ''agent_spawn'' then Some EvAgentSpawn
      else if s = ''agent_exit'' then Some EvAgentExit
      else if s = ''error'' then Some EvError
      else if s = ''terminal_state'' then Some EvTerminalState
      else None)"

interpretation event_codec: text_codec event_type_to_string event_type_from_str
proof unfold_locales
  fix s
  show "event_type_from_str (event_type_to_string s) = Some s"
    by (cases s) (simp_all add: event_type_from_str_def)
next
  fix t s
  assume "event_type_from_str t = Some s"
  then show "event_type_to_string s = t"
    by (auto simp: event_type_from_str_def split: if_splits)
qed

record EventRecord =
  ev_run_id :: string
  ev_step_id :: string
  ev_outcome :: string
  ev_event_type :: string
  ev_details :: "string option"
  ev_timestamp :: instant

definition append_typed_event_with_conn ::
  "string \<Rightarrow> string \<Rightarrow> string \<Rightarrow> EventType \<Rightarrow> string option \<Rightarrow> instant \<Rightarrow>
   EventRecord list \<Rightarrow> EventRecord list" where
  "append_typed_event_with_conn run step outcome ty details ts events =
     events @ [\<lparr>ev_run_id = run, ev_step_id = step, ev_outcome = outcome,
                ev_event_type = event_type_to_string ty, ev_details = details, ev_timestamp = ts\<rparr>]"

definition append_event_with_conn ::
  "string \<Rightarrow> string \<Rightarrow> string \<Rightarrow> instant \<Rightarrow> EventRecord list \<Rightarrow> EventRecord list" where
  "append_event_with_conn run step outcome ts events =
     append_typed_event_with_conn run step outcome EvStepOutcome None ts events"

definition load_events :: "string \<Rightarrow> EventRecord list \<Rightarrow> EventRecord list" where
  "load_events run events = filter (\<lambda>e. ev_run_id e = run) events"

text \<open>\<open>ORDER BY id DESC LIMIT n\<close>, reversed to chronological order.\<close>

definition load_recent_events :: "string \<Rightarrow> nat \<Rightarrow> EventRecord list \<Rightarrow> EventRecord list" where
  "load_recent_events run limit events =
     (if limit = 0 then []
      else rev (take limit (rev (filter (\<lambda>e. ev_run_id e = run) events))))"

definition load_events_by_type :: "string \<Rightarrow> EventType \<Rightarrow> EventRecord list \<Rightarrow> EventRecord list" where
  "load_events_by_type run ty events =
     filter (\<lambda>e. ev_run_id e = run \<and> ev_event_type e = event_type_to_string ty) events"

definition load_latest_event :: "string \<Rightarrow> EventRecord list \<Rightarrow> EventRecord option" where
  "load_latest_event run events =
     (case rev (filter (\<lambda>e. ev_run_id e = run) events) of [] \<Rightarrow> None | e # _ \<Rightarrow> Some e)"

definition count_events_by_type :: "string \<Rightarrow> EventType \<Rightarrow> EventRecord list \<Rightarrow> nat" where
  "count_events_by_type run ty events =
     count_where (\<lambda>e. ev_run_id e = run \<and> ev_event_type e = event_type_to_string ty) events"

section \<open>Round trips\<close>

lemma u32_json_round_trip [simp]: "u32_of_json (JInt (uint (n :: u32))) = Some n"
  using uint_lt2p [of n] by (simp add: u32_of_json_def)

lemma edge_counts_round_trip [simp]: "edge_counts_of_json (json_of_edge_counts m) = Some m"
  by (auto simp: edge_counts_of_json_def json_of_edge_counts_def intro!: collect_options_map)

text \<open>
  What a reader of the stored row gets: the checkpoint that was saved, its context enlarged
  by the reserved key.
\<close>

definition stored_view :: "Checkpoint \<Rightarrow> Checkpoint" where
  "stored_view cp =
     cp\<lparr>cp_state_snapshot := (cp_state_snapshot cp)\<lparr>ss_context :=
          AList.update EDGE_COUNTS_KEY
            (json_of_edge_counts (ss_edge_loop_counts (cp_state_snapshot cp)))
            (ss_context (cp_state_snapshot cp))\<rparr>\<rparr>"

lemma checkpoint_of_row_of_checkpoint: "checkpoint_of_row (row_of_checkpoint cp) = stored_view cp"
  by (simp add: checkpoint_of_row_def row_of_checkpoint_def stored_view_def Let_def update_conv')

lemma row_of_checkpoint_key [simp]:
  "cr_run_id (row_of_checkpoint cp) = cp_run_id cp"
  "cr_step_id (row_of_checkpoint cp) = cp_step_id cp"
  "cr_timestamp (row_of_checkpoint cp) = cp_timestamp cp"
  by (simp_all add: row_of_checkpoint_def Let_def)

definition checkpoints_ok :: "checkpoint_row list \<Rightarrow> bool" where
  "checkpoints_ok rows \<longleftrightarrow> unique_key checkpoint_key rows"

lemma checkpoints_ok_save [simp]:
  "checkpoints_ok rows \<Longrightarrow> checkpoints_ok (save_checkpoint_with_conn cp rows)"
  unfolding checkpoints_ok_def save_checkpoint_with_conn_def by (rule unique_key_upsert) auto

lemma set_save:
  "checkpoints_ok rows \<Longrightarrow> set (save_checkpoint_with_conn cp rows) =
     insert (row_of_checkpoint cp) {r \<in> set rows. checkpoint_key r \<noteq> (cp_run_id cp, cp_step_id cp)}"
  by (auto simp: save_checkpoint_with_conn_def upsert_def set_update_where)

lemma find_key_unique:
  assumes "unique_key key xs" and "x \<in> set xs" and "key x = k"
  shows "find (\<lambda>r. key r = k) xs = Some x"
  using lookup_by_unique [OF assms(1,2)] assms(3) by (simp add: lookup_by_def)

lemma find_map: "find P (map f xs) = map_option f (find (P \<circ> f) xs)"
  by (induction xs) auto

lemma checkpoint_of_row_step [simp]: "cp_step_id (checkpoint_of_row r) = cr_step_id r"
  by (simp add: checkpoint_of_row_def)

lemma get_checkpoint_for_step_row:
  assumes "checkpoints_ok rows" and "r \<in> set rows"
  shows "get_checkpoint_for_step (cr_run_id r) (cr_step_id r) rows = Some (checkpoint_of_row r)"
proof -
  let ?rows = "sort_key cr_timestamp (filter (\<lambda>x. cr_run_id x = cr_run_id r) rows)"
  have inj: "inj_on checkpoint_key (set rows)" and dist: "distinct rows"
    using assms(1) unfolding checkpoints_ok_def unique_key_def by (simp_all add: distinct_map)
  have "unique_key cr_step_id ?rows"
    unfolding unique_key_def distinct_map
  proof
    show "distinct ?rows" using dist by simp
    show "inj_on cr_step_id (set ?rows)" using inj by (auto simp: inj_on_def)
  qed
  from find_key_unique [OF this, of r] assms(2) have "find (\<lambda>x. cr_step_id x = cr_step_id r) ?rows = Some r"
    by simp
  then show ?thesis
    by (simp add: get_checkpoint_for_step_def list_checkpoints_def find_map comp_def)
qed

text \<open>
  A checkpoint that is saved is read back: by its step immediately, and as the run's
  resume point when it is newer than the run's other checkpoints, with its counters, loop
  counts and status intact (the context gains the reserved key). Other runs are unaffected.
\<close>

theorem save_then_load:
  assumes "checkpoints_ok rows"
    and "\<forall>r \<in> set rows. cr_run_id r = cp_run_id cp \<longrightarrow> cr_timestamp r < cp_timestamp cp"
  shows "load_checkpoint_with_conn (cp_run_id cp) (save_checkpoint_with_conn cp rows) = Some (stored_view cp) \<and>
    get_checkpoint_for_step (cp_run_id cp) (cp_step_id cp) (save_checkpoint_with_conn cp rows) = Some (stored_view cp) \<and>
    (\<forall>run. run \<noteq> cp_run_id cp \<longrightarrow>
       load_checkpoint_with_conn run (save_checkpoint_with_conn cp rows) = load_checkpoint_with_conn run rows)"
proof -
  let ?new = "save_checkpoint_with_conn cp rows"
  have mem: "row_of_checkpoint cp \<in> set ?new" using assms(1) by (simp add: set_save)
  have "newest_by cr_timestamp (filter (\<lambda>r. cr_run_id r = cp_run_id cp) ?new) = Some (row_of_checkpoint cp)"
    by (rule newest_by_strict) (use assms mem in \<open>auto simp: set_save\<close>)
  moreover have "get_checkpoint_for_step (cp_run_id cp) (cp_step_id cp) ?new = Some (stored_view cp)"
    using get_checkpoint_for_step_row [OF checkpoints_ok_save [OF assms(1)] mem]
    by (simp add: checkpoint_of_row_of_checkpoint)
  moreover have "filter (\<lambda>r. cr_run_id r = run) ?new = filter (\<lambda>r. cr_run_id r = run) rows"
    if "run \<noteq> cp_run_id cp" for run
  proof -
    have "filter (\<lambda>r. cr_run_id r = run)
        (update_where (\<lambda>x. checkpoint_key x = (cp_run_id cp, cp_step_id cp)) (\<lambda>_. row_of_checkpoint cp) xs) =
        filter (\<lambda>r. cr_run_id r = run) xs" for xs
      using that by (induction xs) auto
    then show ?thesis using that by (simp add: save_checkpoint_with_conn_def upsert_def)
  qed
  ultimately show ?thesis
    by (simp add: load_checkpoint_with_conn_def checkpoint_of_row_of_checkpoint)
qed

theorem save_then_load_witness:
  "load_checkpoint_with_conn ''r'' (save_checkpoint_with_conn (with_snapshot 5 ''r'' ''b'' default_snapshot)
     (save_checkpoint_with_conn (with_snapshot 3 ''r'' ''a'' default_snapshot) [])) =
   Some (stored_view (with_snapshot 5 ''r'' ''b'' default_snapshot))"
proof -
  let ?rows = "save_checkpoint_with_conn (with_snapshot 3 ''r'' ''a'' default_snapshot) []"
  have "checkpoints_ok ?rows" by (rule checkpoints_ok_save) (simp add: checkpoints_ok_def)
  moreover have "\<forall>r \<in> set ?rows. cr_run_id r = ''r'' \<longrightarrow> cr_timestamp r < 5"
    by (simp add: save_checkpoint_with_conn_def upsert_def with_snapshot_def)
  ultimately show ?thesis
    using save_then_load [of ?rows "with_snapshot 5 ''r'' ''b'' default_snapshot"]
    by (simp add: with_snapshot_def)
qed

lemma set_resume_point_newest:
  assumes "checkpoints_ok rows" and "\<forall>r \<in> set rows. cr_timestamp r < now"
  shows "(case set_resume_point now run step rows of
            Err e \<Rightarrow> \<not> (\<exists>r \<in> set rows. checkpoint_key r = (run, step))
          | Ok (rows', ts) \<Rightarrow>
              (\<exists>r \<in> set rows. checkpoint_key r = (run, step) \<and>
                 load_checkpoint_with_conn run rows' =
                   Some (checkpoint_of_row (r\<lparr>cr_status := CHECKPOINT_STATUS_READY_TO_RESUME, cr_timestamp := now\<rparr>))) \<and>
              ts = now \<and> checkpoints_ok rows' \<and> map checkpoint_key rows' = map checkpoint_key rows \<and>
              is_resumable_checkpoint_status CHECKPOINT_STATUS_READY_TO_RESUME)"
proof (cases "\<exists>r \<in> set rows. checkpoint_key r = (run, step)")
  case False
  then have "count_where (\<lambda>r. checkpoint_key r = (run, step)) rows = 0" by (simp add: count_where_0)
  then show ?thesis using False by (simp add: set_resume_point_def Let_def)
next
  case True
  then obtain r where r: "r \<in> set rows" "checkpoint_key r = (run, step)" by blast
  let ?f = "\<lambda>r. r\<lparr>cr_status := CHECKPOINT_STATUS_READY_TO_RESUME, cr_timestamp := now\<rparr>"
  let ?rows = "update_where (\<lambda>r. checkpoint_key r = (run, step)) ?f rows"
  have cnt: "count_where (\<lambda>r. checkpoint_key r = (run, step)) rows \<noteq> 0"
    using r by (auto simp: count_where_0)
  have one: "x = r" if "x \<in> set rows" "checkpoint_key x = (run, step)" for x
    using unique_keyD [of checkpoint_key rows x r] assms(1) r that by (simp add: checkpoints_ok_def)
  have "newest_by cr_timestamp (filter (\<lambda>x. cr_run_id x = run) ?rows) = Some (?f r)"
  proof (rule newest_by_strict)
    show "?f r \<in> set (filter (\<lambda>x. cr_run_id x = run) ?rows)"
      using r by (force simp: set_update_where image_iff)
  next
    fix x
    assume "x \<in> set (filter (\<lambda>x. cr_run_id x = run) ?rows)" and ne: "x \<noteq> ?f r"
    then have "x \<in> (\<lambda>y. if checkpoint_key y = (run, step) then ?f y else y) ` set rows"
      unfolding set_filter set_update_where by blast
    then obtain y where y: "y \<in> set rows" "x = (if checkpoint_key y = (run, step) then ?f y else y)"
      by (rule imageE) blast
    have "checkpoint_key y \<noteq> (run, step)" using y ne one [of y] by metis
    then have "x = y" using y(2) by (simp only: if_False)
    then show "cr_timestamp x < cr_timestamp (?f r)" using y assms(2) by simp
  qed
  then have load: "load_checkpoint_with_conn run ?rows = Some (checkpoint_of_row (?f r))"
    by (simp only: load_checkpoint_with_conn_def option.map)
  have keys: "map checkpoint_key ?rows = map checkpoint_key rows"
    by (rule map_key_update_where) simp
  have "checkpoints_ok ?rows" using assms(1) unfolding checkpoints_ok_def unique_key_def keys .
  moreover have "set_resume_point now run step rows = Ok (?rows, now)"
    unfolding set_resume_point_def Let_def using cnt by (simp only: if_False)
  ultimately show ?thesis
    using load keys r by (auto simp only: result.case prod.case is_resumable_checkpoint_status_def)
qed

text \<open>
  Re-stamping a resume point fails exactly when the step has no checkpoint; otherwise, at
  a time after the run's other checkpoints, the newest-first loader selects that very step, in
  a resumable state and with its counters and context preserved.
\<close>

theorem set_resume_point_selects:
  assumes "checkpoints_ok rows" and "\<forall>r \<in> set rows. cr_timestamp r < now"
  shows "(case set_resume_point now run step rows of
            Err e \<Rightarrow> \<not> (\<exists>r \<in> set rows. checkpoint_key r = (run, step))
          | Ok (rows', ts) \<Rightarrow>
              (\<exists>r \<in> set rows. checkpoint_key r = (run, step) \<and>
                 load_checkpoint_with_conn run rows' =
                   Some (checkpoint_of_row (r\<lparr>cr_status := CHECKPOINT_STATUS_READY_TO_RESUME, cr_timestamp := now\<rparr>))) \<and>
              ts = now \<and> checkpoints_ok rows' \<and> map checkpoint_key rows' = map checkpoint_key rows \<and>
              is_resumable_checkpoint_status CHECKPOINT_STATUS_READY_TO_RESUME)"
  by (rule set_resume_point_newest [OF assms])

theorem set_resume_point_selects_witness:
  "\<exists>rows'. set_resume_point 9 ''r'' ''a'' (save_checkpoint_with_conn (with_snapshot 3 ''r'' ''a'' default_snapshot) [])
     = Ok (rows', 9)"
proof -
  let ?rows = "save_checkpoint_with_conn (with_snapshot 3 ''r'' ''a'' default_snapshot) []"
  have "checkpoints_ok ?rows" by (rule checkpoints_ok_save) (simp add: checkpoints_ok_def)
  moreover have "\<forall>r \<in> set ?rows. cr_timestamp r < 9" and "\<exists>r \<in> set ?rows. checkpoint_key r = (''r'', ''a'')"
    by (simp_all add: save_checkpoint_with_conn_def upsert_def with_snapshot_def)
  ultimately show ?thesis
    using set_resume_point_selects [of ?rows 9 "''r''" "''a''"] by (auto split: result.splits)
qed

text \<open>
  The event log is append-only and its bounded tail is exact: appending keeps every earlier
  event of every run, the appended event is the run's latest, and the recent-events query
  returns precisely the last \<open>limit\<close> events of the run in chronological order.
\<close>

theorem event_log_tail:
  "load_events run (append_typed_event_with_conn r st oc ty d ts events) =
     load_events run events @ (if r = run then
       [\<lparr>ev_run_id = r, ev_step_id = st, ev_outcome = oc, ev_event_type = event_type_to_string ty,
         ev_details = d, ev_timestamp = ts\<rparr>] else []) \<and>
   map_option ev_outcome (load_latest_event r (append_typed_event_with_conn r st oc ty d ts events)) = Some oc \<and>
   load_recent_events run limit events =
     drop (length (load_events run events) - limit) (load_events run events)"
  by (simp add: load_events_def append_typed_event_with_conn_def load_latest_event_def
      load_recent_events_def rev_take)

end
