(* ===== verification/Run_Metadata.thy ===== *)
theory Run_Metadata
  imports Checkpoints
begin

text \<open>
  Run metadata (\<^verbatim>\<open>persistence/run_metadata.rs\<close>) and the \<open>runs\<close> table
  (\<^verbatim>\<open>persistence/sqlite/mod.rs\<close>, \<^verbatim>\<open>row_parsing.rs\<close>,
  \<^verbatim>\<open>conditional_status.rs\<close>): the status enum, the failure-cleanup provenance,
  the record of a run, and the statements that insert, replace, list and
  conditionally update runs.
\<close>

section \<open>Status\<close>

datatype RunStatus =
    RInitialized
  | RQueued
  | RStarting
  | RRunning
  | RWaitingForChecks
  | RWaitingExternal
  | RReadyToResume
  | RRemediating
  | RBlocked
  | RPaused
  | RReviewReady
  | RCompleted
  | RFailed
  | RAbandoned
  | RMerged
  | RCancelled

fun run_status_to_string :: "RunStatus \<Rightarrow> string" where
  "run_status_to_string RInitialized = ''initialized''"
| "run_status_to_string RQueued = ''queued''"
| "run_status_to_string RStarting = ''starting''"
| "run_status_to_string RRunning = ''running''"
| "run_status_to_string RWaitingForChecks = ''waiting_for_checks''"
| "run_status_to_string RWaitingExternal = ''waiting_external''"
| "run_status_to_string RReadyToResume = ''ready_to_resume''"
| "run_status_to_string RRemediating = ''remediating''"
| "run_status_to_string RBlocked = ''blocked''"
| "run_status_to_string RPaused = ''paused''"
| "run_status_to_string RReviewReady = ''review_ready''"
| "run_status_to_string RCompleted = ''completed''"
| "run_status_to_string RFailed = ''failed''"
| "run_status_to_string RAbandoned = ''abandoned''"
| "run_status_to_string RMerged = ''merged''"
| "run_status_to_string RCancelled = ''cancelled''"

definition run_status_from_str :: "string \<Rightarrow> RunStatus option" where
  "run_status_from_str s =
     (if s = ''initialized'' then Some RInitialized
      else if s = ''queued'' then Some RQueued
      else if s = ''starting'' then Some RStarting
      else if s = ''running'' then Some RRunning
      else if s = ''waiting_for_checks'' then Some RWaitingForChecks
      else if s = ''waiting_external'' then Some RWaitingExternal
      else if s = ''ready_to_resume'' then Some RReadyToResume
      else if s = ''remediating'' then Some RRemediating
      else if s = ''blocked'' then Some RBlocked
      else if s = ''paused'' then Some RPaused
      else if s = ''review_ready'' then Some RReviewReady
      else if s = ''completed'' then Some RCompleted
      else if s = ''failed'' then Some RFailed
      else if s = ''abandoned'' then Some RAbandoned
      else if s = ''merged'' then Some RMerged
      else if s = ''cancelled'' then Some RCancelled
      else None)"

interpretation run_codec: text_codec run_status_to_string run_status_from_str
proof unfold_locales
  fix s
  show "run_status_from_str (run_status_to_string s) = Some s"
    by (cases s) (simp_all add: run_status_from_str_def)
next
  fix t s
  assume "run_status_from_str t = Some s"
  then show "run_status_to_string s = t"
    by (auto simp: run_status_from_str_def split: if_splits)
qed

definition TERMINAL_SQL :: "string list" where
  "TERMINAL_SQL = [''completed'', ''failed'', ''abandoned'', ''merged'', ''cancelled'']"

fun run_is_terminal :: "RunStatus \<Rightarrow> bool" where
  "run_is_terminal RCompleted = True"
| "run_is_terminal RFailed = True"
| "run_is_terminal RAbandoned = True"
| "run_is_terminal RMerged = True"
| "run_is_terminal RCancelled = True"
| "run_is_terminal _ = False"

fun run_is_resumable :: "RunStatus \<Rightarrow> bool" where
  "run_is_resumable RWaitingForChecks = True"
| "run_is_resumable RWaitingExternal = True"
| "run_is_resumable RReadyToResume = True"
| "run_is_resumable RPaused = True"
| "run_is_resumable RBlocked = True"
| "run_is_resumable RFailed = True"
| "run_is_resumable _ = False"

section \<open>Failure-cleanup provenance\<close>

record FailureCleanupState =
  fc_schema_version :: u32
  fc_failed_step :: string
  fc_failure_outcome :: string
  fc_failure_reason :: string
  fc_failed_checkpoint_id :: string
  fc_failed_state_snapshot :: StateSnapshot
  fc_cleanup_step :: string
  fc_cleanup_succeeded :: bool
  fc_captured_at :: instant
  fc_cleanup_completed_at :: "instant option"
  fc_recovery_consumed_at :: "instant option"
  fc_ownership_denied :: bool

definition FC_SCHEMA_VERSION :: u32 where
  "FC_SCHEMA_VERSION = 1"

definition fc_is_complete :: "FailureCleanupState \<Rightarrow> bool" where
  "fc_is_complete f \<longleftrightarrow>
     fc_schema_version f = FC_SCHEMA_VERSION \<and> fc_failed_step f \<noteq> [] \<and> fc_failure_outcome f \<noteq> [] \<and>
     fc_failure_reason f \<noteq> [] \<and> fc_failed_checkpoint_id f \<noteq> [] \<and> fc_cleanup_step f \<noteq> [] \<and>
     fc_cleanup_succeeded f \<and> fc_cleanup_completed_at f \<noteq> None"

definition recovery_is_available :: "FailureCleanupState \<Rightarrow> bool" where
  "recovery_is_available f \<longleftrightarrow> fc_is_complete f \<and> fc_recovery_consumed_at f = None"

section \<open>The record of a run\<close>

text \<open>The launch provenance: digests of the resolved workflow type and configuration.\<close>

datatype MigrationSource = LegacyOwnershipMigration

record LaunchProvenance =
  lp_schema_version :: u32
  lp_canonical_config_root :: string
  lp_workflow_digest :: string
  lp_config_digest :: string
  lp_migration_source :: "MigrationSource option"

record RunMetadata =
  rm_run_id :: string
  rm_workflow_type_id :: string
  rm_config_id :: string
  rm_status :: RunStatus
  rm_created_at :: instant
  rm_updated_at :: "instant option"
  rm_current_step :: "string option"
  rm_previous_step :: "string option"
  rm_previous_outcome :: "string option"
  rm_next_step_candidates :: "string list"
  rm_log_path :: "string option"
  rm_artifact_root :: "string option"
  rm_workspace_path :: "string option"
  rm_repository :: "string option"
  rm_issue_number :: "i64 option"
  rm_pr_number :: "i64 option"
  rm_head_sha :: "string option"
  rm_process_pid :: "u32 option"
  rm_child_pids :: "u32 list"
  rm_continuation_rearm_checkpoint_id :: "string option"
  rm_failure_cleanup :: "FailureCleanupState option"
  rm_launch_provenance :: "LaunchProvenance option"

definition run_metadata_new :: "instant \<Rightarrow> string \<Rightarrow> string \<Rightarrow> string \<Rightarrow> RunMetadata" where
  "run_metadata_new now run wf_id cfg =
     \<lparr>rm_run_id = run, rm_workflow_type_id = wf_id, rm_config_id = cfg, rm_status = RInitialized,
      rm_created_at = now, rm_updated_at = None, rm_current_step = None, rm_previous_step = None,
      rm_previous_outcome = None, rm_next_step_candidates = [], rm_log_path = None,
      rm_artifact_root = None, rm_workspace_path = None, rm_repository = None,
      rm_issue_number = None, rm_pr_number = None, rm_head_sha = None, rm_process_pid = None,
      rm_child_pids = [], rm_continuation_rearm_checkpoint_id = None, rm_failure_cleanup = None,
      rm_launch_provenance = None\<rparr>"

definition is_cleanup_failure_abandonment :: "RunMetadata \<Rightarrow> bool" where
  "is_cleanup_failure_abandonment m \<longleftrightarrow>
     rm_status m = RAbandoned \<and>
     (case rm_failure_cleanup m of Some f \<Rightarrow> fc_is_complete f | None \<Rightarrow> False)"

definition is_ownership_denied_terminal :: "RunMetadata \<Rightarrow> bool" where
  "is_ownership_denied_terminal m \<longleftrightarrow>
     (case rm_failure_cleanup m of
        Some f \<Rightarrow> fc_ownership_denied f \<and> \<not> fc_cleanup_succeeded f
      | None \<Rightarrow> False)"

definition issue_lease_number :: "RunMetadata \<Rightarrow> u64 option" where
  "issue_lease_number m = Option.bind (rm_issue_number m) u64_try_from_i64"

definition mark_started :: "instant \<Rightarrow> RunMetadata \<Rightarrow> RunMetadata" where
  "mark_started now m = m\<lparr>rm_status := RRunning, rm_updated_at := Some now\<rparr>"

definition run_mark_completed :: "instant \<Rightarrow> RunMetadata \<Rightarrow> RunMetadata" where
  "run_mark_completed now m = m\<lparr>rm_status := RCompleted, rm_updated_at := Some now\<rparr>"

definition run_mark_failed :: "instant \<Rightarrow> RunMetadata \<Rightarrow> RunMetadata" where
  "run_mark_failed now m = m\<lparr>rm_status := RFailed, rm_updated_at := Some now\<rparr>"

definition reopen :: "instant \<Rightarrow> u32 \<Rightarrow> RunMetadata \<Rightarrow> RunMetadata" where
  "reopen now pid m = m\<lparr>rm_status := RRunning, rm_process_pid := Some pid, rm_updated_at := Some now\<rparr>"

definition set_current_step :: "instant \<Rightarrow> string \<Rightarrow> RunMetadata \<Rightarrow> RunMetadata" where
  "set_current_step now step m = m\<lparr>rm_current_step := Some step, rm_updated_at := Some now\<rparr>"

definition set_previous_step_and_outcome :: "instant \<Rightarrow> string \<Rightarrow> string \<Rightarrow> RunMetadata \<Rightarrow> RunMetadata" where
  "set_previous_step_and_outcome now step outcome m =
     m\<lparr>rm_previous_step := Some step, rm_previous_outcome := Some outcome, rm_updated_at := Some now\<rparr>"

definition set_next_step_candidates :: "instant \<Rightarrow> string list \<Rightarrow> RunMetadata \<Rightarrow> RunMetadata" where
  "set_next_step_candidates now cands m =
     m\<lparr>rm_next_step_candidates := cands, rm_updated_at := Some now\<rparr>"

definition add_child_pid :: "instant \<Rightarrow> u32 \<Rightarrow> RunMetadata \<Rightarrow> RunMetadata" where
  "add_child_pid now pid m =
     (let pids = (if pid \<in> set (rm_child_pids m) then rm_child_pids m else rm_child_pids m @ [pid])
      in m\<lparr>rm_child_pids := pids, rm_updated_at := Some now\<rparr>)"

definition clear_child_pids :: "instant \<Rightarrow> RunMetadata \<Rightarrow> RunMetadata" where
  "clear_child_pids now m = m\<lparr>rm_child_pids := [], rm_updated_at := Some now\<rparr>"

section \<open>The \<open>runs\<close> table\<close>

type_synonym run_table = "RunMetadata list"

definition persist_run_with_conn :: "RunMetadata \<Rightarrow> run_table \<Rightarrow> run_table" where
  "persist_run_with_conn m runs = upsert rm_run_id (\<lambda>old new. new) m runs"

datatype InitialRunInsert = Inserted | Collision

definition insert_initial_run_with_conn :: "RunMetadata \<Rightarrow> run_table \<Rightarrow> run_table \<times> InitialRunInsert" where
  "insert_initial_run_with_conn m runs =
     (if \<exists>x \<in> set runs. rm_run_id x = rm_run_id m then (runs, Collision) else (runs @ [m], Inserted))"

definition get_run_with_conn :: "string \<Rightarrow> run_table \<Rightarrow> RunMetadata option" where
  "get_run_with_conn run runs = lookup_by rm_run_id run runs"

definition list_runs_with_conn :: "run_table \<Rightarrow> run_table" where
  "list_runs_with_conn runs = sort_key (\<lambda>m. - int (rm_created_at m)) runs"

definition RUN_ID_QUERY_CHUNK_SIZE :: nat where
  "RUN_ID_QUERY_CHUNK_SIZE = 500"

function chunks :: "nat \<Rightarrow> 'a list \<Rightarrow> 'a list list" where
  "chunks n xs = (if xs = [] \<or> n = 0 then [] else take n xs # chunks n (drop n xs))"
  by pat_completeness auto
termination
  by (relation "measure (\<lambda>(n, xs). length xs)") auto

declare chunks.simps [simp del]

definition unique_run_ids :: "string list \<Rightarrow> string list" where
  "unique_run_ids ids = rev (remdups (rev ids))"

definition list_runs_by_id_chunk :: "string list \<Rightarrow> run_table \<Rightarrow> run_table" where
  "list_runs_by_id_chunk ids runs =
     sort_key (\<lambda>m. - int (rm_created_at m)) (filter (\<lambda>m. rm_run_id m \<in> set ids) runs)"

definition list_runs_by_ids_with_conn :: "string list \<Rightarrow> run_table \<Rightarrow> run_table" where
  "list_runs_by_ids_with_conn ids runs =
     (let ids' = unique_run_ids ids
      in if ids' = [] then []
         else sort_key (\<lambda>m. - int (rm_created_at m))
                (concat (map (\<lambda>c. list_runs_by_id_chunk c runs) (chunks RUN_ID_QUERY_CHUNK_SIZE ids'))))"

definition list_runs_by_status :: "RunStatus \<Rightarrow> run_table \<Rightarrow> run_table" where
  "list_runs_by_status st runs = filter (\<lambda>m. rm_status m = st) (list_runs_with_conn runs)"

definition get_active_runs :: "run_table \<Rightarrow> run_table" where
  "get_active_runs runs = filter (\<lambda>m. \<not> run_is_terminal (rm_status m)) (list_runs_with_conn runs)"

definition get_runs_for_repository :: "string \<Rightarrow> run_table \<Rightarrow> run_table" where
  "get_runs_for_repository repo runs = filter (\<lambda>m. rm_repository m = Some repo) (list_runs_with_conn runs)"

definition update_status :: "instant \<Rightarrow> string \<Rightarrow> RunStatus \<Rightarrow> run_table \<Rightarrow> run_table" where
  "update_status now run st runs =
     update_where (\<lambda>m. rm_run_id m = run) (\<lambda>m. m\<lparr>rm_status := st, rm_updated_at := Some now\<rparr>) runs"

section \<open>Conditional status updates\<close>

datatype ConditionalStatusOutcome = Updated | AlreadyTerminal RunStatus | RunMissing

datatype ExpectedRunStatusOutcome = ExpUpdated | ExpStatusMismatch | ExpRunMissing

text \<open>\<open>CASE WHEN ?2 IS NULL THEN current_step ELSE ?2 END\<close>.\<close>

definition set_status_and_step :: "instant \<Rightarrow> RunStatus \<Rightarrow> string option \<Rightarrow> RunMetadata \<Rightarrow> RunMetadata" where
  "set_status_and_step now st step m =
     m\<lparr>rm_status := st,
       rm_current_step := (case step of None \<Rightarrow> rm_current_step m | Some s \<Rightarrow> Some s),
       rm_updated_at := Some now\<rparr>"

definition non_terminal_guard :: "string \<Rightarrow> RunMetadata \<Rightarrow> bool" where
  "non_terminal_guard run m \<longleftrightarrow>
     rm_run_id m = run \<and> run_status_to_string (rm_status m) \<notin> set TERMINAL_SQL"

definition persist_run_status_conditional_with_conn ::
  "instant \<Rightarrow> string \<Rightarrow> RunStatus \<Rightarrow> string option \<Rightarrow> run_table \<Rightarrow> run_table \<times> bool" where
  "persist_run_status_conditional_with_conn now run st step runs =
     (update_where (non_terminal_guard run) (set_status_and_step now st step) runs,
      0 < count_where (non_terminal_guard run) runs)"

definition get_run_status_with_conn :: "string \<Rightarrow> run_table \<Rightarrow> RunStatus option" where
  "get_run_status_with_conn run runs = map_option rm_status (lookup_by rm_run_id run runs)"

definition persist_run_status_conditional_outcome ::
  "instant \<Rightarrow> string \<Rightarrow> RunStatus \<Rightarrow> string option \<Rightarrow> run_table \<Rightarrow> run_table \<times> ConditionalStatusOutcome" where
  "persist_run_status_conditional_outcome now run st step runs =
     (let (runs', applied) = persist_run_status_conditional_with_conn now run st step runs
      in if applied then (runs', Updated)
         else (case get_run_status_with_conn run runs' of
                 None \<Rightarrow> (runs', RunMissing)
               | Some current \<Rightarrow> (runs', AlreadyTerminal current)))"

definition expected_guard :: "string \<Rightarrow> RunStatus list \<Rightarrow> RunMetadata \<Rightarrow> bool" where
  "expected_guard run expected m \<longleftrightarrow> rm_run_id m = run \<and> rm_status m \<in> set expected"

definition classify_expected_status_rejection :: "string \<Rightarrow> run_table \<Rightarrow> ExpectedRunStatusOutcome" where
  "classify_expected_status_rejection run runs =
     (case get_run_status_with_conn run runs of Some _ \<Rightarrow> ExpStatusMismatch | None \<Rightarrow> ExpRunMissing)"

definition persist_run_status_from_expected ::
  "instant \<Rightarrow> string \<Rightarrow> RunStatus \<Rightarrow> string option \<Rightarrow> RunStatus list \<Rightarrow> run_table \<Rightarrow>
   run_table \<times> ExpectedRunStatusOutcome" where
  "persist_run_status_from_expected now run st step expected runs =
     (if expected = [] then (runs, classify_expected_status_rejection run runs)
      else let runs' = update_where (expected_guard run expected) (set_status_and_step now st step) runs
           in if 0 < count_where (expected_guard run expected) runs then (runs', ExpUpdated)
              else (runs', classify_expected_status_rejection run runs'))"

section \<open>Lemmas\<close>

lemma terminal_sql_iff: "run_status_to_string s \<in> set TERMINAL_SQL \<longleftrightarrow> run_is_terminal s"
  by (cases s) (simp_all add: TERMINAL_SQL_def)

lemma non_terminal_guard_iff:
  "non_terminal_guard run m \<longleftrightarrow> rm_run_id m = run \<and> \<not> run_is_terminal (rm_status m)"
  by (simp add: non_terminal_guard_def terminal_sql_iff)

lemma set_status_and_step_id [simp]: "rm_run_id (set_status_and_step now st step m) = rm_run_id m"
  by (simp add: set_status_and_step_def)

lemma get_run_after_persist:
  "get_run_with_conn run (persist_run_with_conn m runs) =
     (if run = rm_run_id m then Some m else get_run_with_conn run runs)"
  using lookup_by_upsert_same [of rm_run_id m "\<lambda>old new. new" runs]
    lookup_by_upsert_other [of run rm_run_id m "\<lambda>old new. new" runs]
  by (auto simp: get_run_with_conn_def persist_run_with_conn_def split: option.splits)

lemma conditional_outcome_cases:
  assumes "unique_key rm_run_id runs"
  shows "(case get_run_with_conn run runs of
      None \<Rightarrow> persist_run_status_conditional_outcome now run st step runs = (runs, RunMissing)
    | Some m \<Rightarrow>
        (if run_is_terminal (rm_status m)
         then persist_run_status_conditional_outcome now run st step runs = (runs, AlreadyTerminal (rm_status m))
         else (let (runs', out) = persist_run_status_conditional_outcome now run st step runs
               in out = Updated \<and> get_run_with_conn run runs' = Some (set_status_and_step now st step m) \<and>
                  (\<forall>other. other \<noteq> run \<longrightarrow> get_run_with_conn other runs' = get_run_with_conn other runs))))"
proof -
  have count: "0 < count_where (non_terminal_guard run) runs \<longleftrightarrow>
      (case lookup_by rm_run_id run runs of Some m \<Rightarrow> \<not> run_is_terminal (rm_status m) | None \<Rightarrow> False)"
    using count_where_unique [OF assms, of "non_terminal_guard run" run]
    by (auto simp: non_terminal_guard_iff dest: lookup_by_SomeD split: option.splits)
  have look: "lookup_by rm_run_id k (update_where (non_terminal_guard run) (set_status_and_step now st step) runs) =
      map_option (\<lambda>m. if non_terminal_guard run m then set_status_and_step now st step m else m)
        (lookup_by rm_run_id k runs)" for k
    by (rule lookup_by_update_where) simp
  have same: "update_where (non_terminal_guard run) (set_status_and_step now st step) runs = runs"
    if "\<not> 0 < count_where (non_terminal_guard run) runs"
    using that by (intro update_where_none) (auto simp: count_where_pos)
  show ?thesis
  proof (cases "lookup_by rm_run_id run runs")
    case None
    then show ?thesis using count same
      by (simp add: get_run_with_conn_def persist_run_status_conditional_outcome_def
          persist_run_status_conditional_with_conn_def get_run_status_with_conn_def)
  next
    case (Some m)
    have other: "\<forall>k. k \<noteq> run \<longrightarrow> map_option (\<lambda>m. if non_terminal_guard run m then set_status_and_step now st step m else m)
        (lookup_by rm_run_id k runs) = lookup_by rm_run_id k runs"
      by (auto simp: non_terminal_guard_iff split: option.splits dest: lookup_by_SomeD
          intro!: option.map_ident_strong)
    show ?thesis using Some count same look other lookup_by_SomeD [OF Some]
      by (auto simp: get_run_with_conn_def persist_run_status_conditional_outcome_def
          persist_run_status_conditional_with_conn_def get_run_status_with_conn_def
          non_terminal_guard_iff)
  qed
qed

text \<open>
  The guarded status update decides atomically and classifies its result exactly. A run
  that exists and is not terminal gets the new status (its step kept when none is given) and
  nothing else changes; a terminal run keeps its row and its status is reported; a missing run
  is reported as missing. The SQL list of terminal states agrees with the predicate.
\<close>

theorem conditional_status_outcome_spec:
  assumes "unique_key rm_run_id runs"
  shows "(case get_run_with_conn run runs of
      None \<Rightarrow> persist_run_status_conditional_outcome now run st step runs = (runs, RunMissing)
    | Some m \<Rightarrow>
        (if run_is_terminal (rm_status m)
         then persist_run_status_conditional_outcome now run st step runs = (runs, AlreadyTerminal (rm_status m))
         else (let (runs', out) = persist_run_status_conditional_outcome now run st step runs
               in out = Updated \<and> get_run_with_conn run runs' = Some (set_status_and_step now st step m) \<and>
                  (\<forall>other. other \<noteq> run \<longrightarrow> get_run_with_conn other runs' = get_run_with_conn other runs))))"
  by (rule conditional_outcome_cases [OF assms])

definition failed_run_example :: RunMetadata where
  "failed_run_example = (run_metadata_new 1 ''r'' ''w'' ''c'')\<lparr>rm_status := RFailed\<rparr>"

theorem conditional_status_outcome_spec_witness:
  "persist_run_status_conditional_outcome 5 ''r'' RWaitingExternal None [failed_run_example]
     = ([failed_run_example], AlreadyTerminal RFailed)"
  using conditional_status_outcome_spec [where runs = "[failed_run_example]" and run = "''r''" and now = 5 and st = RWaitingExternal and step = None]
  by (simp add: failed_run_example_def run_metadata_new_def get_run_with_conn_def)

text \<open>The writers that respect terminal states: the initial insert and the guarded update.\<close>

datatype run_guarded_op =
    InitialInsert RunMetadata
  | GuardedStatus instant string RunStatus "string option"

fun apply_run_guarded_op :: "run_guarded_op \<Rightarrow> run_table \<Rightarrow> run_table" where
  "apply_run_guarded_op (InitialInsert m) runs = fst (insert_initial_run_with_conn m runs)"
| "apply_run_guarded_op (GuardedStatus now run st step) runs =
     fst (persist_run_status_conditional_outcome now run st step runs)"

lemma fst_conditional_outcome:
  "fst (persist_run_status_conditional_outcome now run st step runs) =
     update_where (non_terminal_guard run) (set_status_and_step now st step) runs"
  by (simp add: persist_run_status_conditional_outcome_def persist_run_status_conditional_with_conn_def
      split: option.split)

interpretation terminal_runs:
  write_once apply_run_guarded_op "\<lambda>runs run. get_run_with_conn run runs" "\<lambda>m. run_is_terminal (rm_status m)"
proof
  fix t k r a
  assume r: "get_run_with_conn k t = Some r" "run_is_terminal (rm_status r)"
  show "get_run_with_conn k (apply_run_guarded_op a t) = Some r"
  proof (cases a)
    case (InitialInsert m)
    then show ?thesis using r
      by (simp add: get_run_with_conn_def insert_initial_run_with_conn_def lookup_by_append)
  next
    case (GuardedStatus now run st step)
    have "lookup_by rm_run_id k (update_where (non_terminal_guard run) (set_status_and_step now st step) t) =
        map_option (\<lambda>m. if non_terminal_guard run m then set_status_and_step now st step m else m)
          (lookup_by rm_run_id k t)"
      by (rule lookup_by_update_where) simp
    then show ?thesis using r GuardedStatus
      by (simp add: get_run_with_conn_def fst_conditional_outcome non_terminal_guard_iff)
  qed
qed

text \<open>
  Terminal runs are final for every writer that goes through the guarded statements: after
  any sequence of initial inserts (also ones that collide on the run id) and guarded status
  updates, the row of a run that was terminal is the same, history and provenance included.
\<close>

theorem terminal_run_is_final:
  assumes "get_run_with_conn run runs = Some m" and "run_is_terminal (rm_status m)"
  shows "get_run_with_conn run (fold apply_run_guarded_op ops runs) = Some m"
  using assms by (rule terminal_runs.frozen_fold)

theorem terminal_run_is_final_witness:
  "get_run_with_conn ''r'' (fold apply_run_guarded_op
     [InitialInsert (run_metadata_new 9 ''r'' ''w'' ''c''), GuardedStatus 10 ''r'' RRunning (Some ''s'')]
     [failed_run_example]) = Some failed_run_example"
  by (rule terminal_run_is_final)
     (simp_all add: failed_run_example_def run_metadata_new_def get_run_with_conn_def)

section \<open>Chunked queries\<close>

lemma concat_chunks: "0 < n \<Longrightarrow> concat (chunks n xs) = xs"
proof (induction n xs rule: chunks.induct)
  case (1 n xs)
  then show ?case by (subst chunks.simps) (simp add: append_take_drop_id)
qed

lemma set_unique_run_ids [simp]: "set (unique_run_ids ids) = set ids"
  and distinct_unique_run_ids [simp]: "distinct (unique_run_ids ids)"
  by (simp_all add: unique_run_ids_def)

lemma chunked_query_distinct:
  assumes "distinct runs" and "distinct (concat cs)"
  shows "distinct (concat (map (\<lambda>c. list_runs_by_id_chunk c runs) cs))"
  using assms
proof (induction cs)
  case (Cons c cs)
  then show ?case
    by (auto simp: list_runs_by_id_chunk_def)
qed simp

text \<open>
  The chunked query by identifiers is the plain one: for any list of identifiers, of any
  length and with repetitions, it returns every stored run with one of them, each once, newest
  first.
\<close>

theorem list_runs_by_ids_spec:
  assumes "unique_key rm_run_id runs"
  shows "set (list_runs_by_ids_with_conn ids runs) = {m \<in> set runs. rm_run_id m \<in> set ids} \<and>
    distinct (list_runs_by_ids_with_conn ids runs) \<and>
    sorted (map (\<lambda>m. - int (rm_created_at m)) (list_runs_by_ids_with_conn ids runs))"
proof (cases "unique_run_ids ids = []")
  case True
  then have "ids = []" using set_unique_run_ids [of ids] by simp
  then show ?thesis using True by (simp add: list_runs_by_ids_with_conn_def)
next
  case False
  let ?cs = "chunks RUN_ID_QUERY_CHUNK_SIZE (unique_run_ids ids)"
  have cs: "concat ?cs = unique_run_ids ids"
    by (rule concat_chunks) (simp add: RUN_ID_QUERY_CHUNK_SIZE_def)
  then have "set ids = (\<Union>c \<in> set ?cs. set c)"
    by (metis set_concat set_unique_run_ids)
  moreover have "distinct runs" using assms by (simp add: unique_key_def distinct_map)
  then have "distinct (concat (map (\<lambda>c. list_runs_by_id_chunk c runs) ?cs))"
    by (rule chunked_query_distinct) (simp add: cs)
  ultimately show ?thesis using False
    by (auto simp: list_runs_by_ids_with_conn_def Let_def list_runs_by_id_chunk_def)
qed

theorem list_runs_by_ids_spec_witness:
  "set (list_runs_by_ids_with_conn [''r'', ''x'', ''r''] [failed_run_example]) = {failed_run_example}"
proof -
  have "rm_run_id failed_run_example = ''r''" by (simp add: failed_run_example_def run_metadata_new_def)
  then show ?thesis using list_runs_by_ids_spec [of "[failed_run_example]" "[''r'', ''x'', ''r'']"] by auto
qed

end
