(* ===== verification/Leases.thy ===== *)
theory Leases
  imports Luther_Prelude "HOL-Library.List_Lexorder" "HOL-Library.Char_ord" "HOL-Library.Product_Lexorder"
begin

text \<open>
  Issue leases (\<^verbatim>\<open>persistence/leases.rs\<close>): the durable claims that keep two
  daemons from working on the same issue. The table \<open>issue_leases\<close> is a list of
  rows; every statement is a function of the table and the current time, and
  returns the new table with the statement's result. The status column holds the
  enum itself: the codec interpretation below makes the stored text an exact
  representation of it. Times that a timeout is subtracted from are integers of
  nanoseconds.
\<close>

section \<open>Status\<close>

datatype LeaseStatus =
    LPending
  | LClaimed
  | LRunning
  | LWaitingExternal
  | LReadyToResume
  | LCompleted
  | LFailed
  | LAbandoned
  | LCleanupAbandoned
  | LStale

fun lease_status_as_str :: "LeaseStatus \<Rightarrow> string" where
  "lease_status_as_str LPending = ''pending''"
| "lease_status_as_str LClaimed = ''claimed''"
| "lease_status_as_str LRunning = ''running''"
| "lease_status_as_str LWaitingExternal = ''waiting_external''"
| "lease_status_as_str LReadyToResume = ''ready_to_resume''"
| "lease_status_as_str LCompleted = ''completed''"
| "lease_status_as_str LFailed = ''failed''"
| "lease_status_as_str LAbandoned = ''abandoned''"
| "lease_status_as_str LCleanupAbandoned = ''cleanup_abandoned''"
| "lease_status_as_str LStale = ''stale''"

definition lease_status_from_str :: "string \<Rightarrow> LeaseStatus option" where
  "lease_status_from_str s =
     (if s = ''pending'' then Some LPending
      else if s = ''claimed'' then Some LClaimed
      else if s = ''running'' then Some LRunning
      else if s = ''waiting_external'' then Some LWaitingExternal
      else if s = ''ready_to_resume'' then Some LReadyToResume
      else if s = ''completed'' then Some LCompleted
      else if s = ''failed'' then Some LFailed
      else if s = ''abandoned'' then Some LAbandoned
      else if s = ''cleanup_abandoned'' then Some LCleanupAbandoned
      else if s = ''stale'' then Some LStale
      else None)"

interpretation lease_codec: text_codec lease_status_as_str lease_status_from_str
proof unfold_locales
  fix s
  show "lease_status_from_str (lease_status_as_str s) = Some s"
    by (cases s) (simp_all add: lease_status_from_str_def)
next
  fix t s
  assume "lease_status_from_str t = Some s"
  then show "lease_status_as_str s = t"
    by (auto simp: lease_status_from_str_def split: if_splits)
qed

definition RECLAIMABLE :: "LeaseStatus list" where
  "RECLAIMABLE = [LCompleted, LFailed, LAbandoned, LStale]"

definition lease_is_active :: "LeaseStatus \<Rightarrow> bool" where
  "lease_is_active s \<longleftrightarrow> s = LClaimed \<or> s = LRunning"

definition blocks_duplicate_work :: "LeaseStatus \<Rightarrow> bool" where
  "blocks_duplicate_work s \<longleftrightarrow> s \<notin> set RECLAIMABLE"

section \<open>The table\<close>

record IssueLease =
  il_lease_id :: string
  il_issue_repo :: string
  il_issue_number :: u64
  il_config_id :: string
  il_run_id :: "string option"
  il_status :: LeaseStatus
  il_claimed_at :: instant
  il_updated_at :: instant
  il_heartbeat_at :: instant

type_synonym lease_table = "IssueLease list"

abbreviation lease_key :: "IssueLease \<Rightarrow> string \<times> u64" where
  "lease_key l \<equiv> (il_issue_repo l, il_issue_number l)"

definition issue_number_to_sql_i64 :: "u64 \<Rightarrow> (i64, sql_error) result" where
  "issue_number_to_sql_i64 n =
     (case i64_try_from_u64 n of Some i \<Rightarrow> Ok i | None \<Rightarrow> Err ToSqlConversionFailure)"

definition create_lease :: "IssueLease \<Rightarrow> lease_table \<Rightarrow> (lease_table, sql_error) result" where
  "create_lease l ls =
     (case issue_number_to_sql_i64 (il_issue_number l) of
        Err e \<Rightarrow> Err e
      | Ok _ \<Rightarrow>
          (if \<exists>x \<in> set ls. il_lease_id x = il_lease_id l \<or> lease_key x = lease_key l
           then Err ConstraintViolation
           else Ok (ls @ [l])))"

text \<open>
  The identifier embeds the claim's nanosecond timestamp (\<open>timestamp_nanos_opt\<close>,
  0 beyond the range of \<open>i64\<close>).
\<close>

definition claim_lease :: "instant \<Rightarrow> string \<Rightarrow> u64 \<Rightarrow> string \<Rightarrow> IssueLease" where
  "claim_lease now repo n config =
     \<lparr>il_lease_id = ''lease-'' @ repo @ ''-'' @ nat_to_string (unat n) @ ''-'' @
         nat_to_string (if int now \<le> i64_max then now else 0),
      il_issue_repo = repo, il_issue_number = n, il_config_id = config, il_run_id = None,
      il_status = LClaimed, il_claimed_at = now, il_updated_at = now, il_heartbeat_at = now\<rparr>"

text \<open>
  The guarded upsert. Without a row for the issue the claim is inserted; a row in a
  reclaimable state is replaced; any other row suppresses the statement. A second row
  with the claim's primary key makes the statement fail.
\<close>

definition try_claim ::
  "instant \<Rightarrow> string \<Rightarrow> u64 \<Rightarrow> string \<Rightarrow> lease_table \<Rightarrow>
   (lease_table \<times> IssueLease option, sql_error) result" where
  "try_claim now repo n config ls =
     (let lease = claim_lease now repo n config
      in case issue_number_to_sql_i64 n of
           Err e \<Rightarrow> Err e
         | Ok _ \<Rightarrow>
             (case lookup_by lease_key (repo, n) ls of
                None \<Rightarrow>
                  (if \<exists>x \<in> set ls. il_lease_id x = il_lease_id lease then Err ConstraintViolation
                   else Ok (ls @ [lease], Some lease))
              | Some old \<Rightarrow>
                  (if il_status old \<notin> set RECLAIMABLE then Ok (ls, None)
                   else if \<exists>x \<in> set ls. lease_key x \<noteq> (repo, n) \<and> il_lease_id x = il_lease_id lease
                   then Err ConstraintViolation
                   else Ok (update_where (\<lambda>x. lease_key x = (repo, n)) (\<lambda>_. lease) ls, Some lease))))"

definition get_lease_for_issue ::
  "string \<Rightarrow> u64 \<Rightarrow> lease_table \<Rightarrow> (IssueLease option, sql_error) result" where
  "get_lease_for_issue repo n ls =
     map_ok (\<lambda>_. lookup_by lease_key (repo, n) ls) (issue_number_to_sql_i64 n)"

definition get_lease_for_run :: "string \<Rightarrow> lease_table \<Rightarrow> IssueLease option" where
  "get_lease_for_run run ls = newest_by il_updated_at (filter (\<lambda>l. il_run_id l = Some run) ls)"

definition update_lease_status ::
  "instant \<Rightarrow> string \<Rightarrow> LeaseStatus \<Rightarrow> string option \<Rightarrow> lease_table \<Rightarrow> lease_table" where
  "update_lease_status now lease_id status run_id ls =
     (case run_id of
        Some rid \<Rightarrow>
          update_where (\<lambda>l. il_lease_id l = lease_id)
            (\<lambda>l. l\<lparr>il_status := status, il_run_id := Some rid, il_updated_at := now\<rparr>) ls
      | None \<Rightarrow>
          update_where (\<lambda>l. il_lease_id l = lease_id)
            (\<lambda>l. l\<lparr>il_status := status, il_updated_at := now\<rparr>) ls)"

text \<open>\<open>COALESCE(new, run_id)\<close>.\<close>

definition coalesce :: "'a option \<Rightarrow> 'a option \<Rightarrow> 'a option" where
  "coalesce a b = (case a of Some x \<Rightarrow> Some x | None \<Rightarrow> b)"

definition set_lease_status :: "instant \<Rightarrow> LeaseStatus \<Rightarrow> string option \<Rightarrow> IssueLease \<Rightarrow> IssueLease" where
  "set_lease_status now status new_run l =
     l\<lparr>il_status := status, il_run_id := coalesce new_run (il_run_id l),
       il_updated_at := now, il_heartbeat_at := now\<rparr>"

definition cond_guard :: "string \<Rightarrow> LeaseStatus list \<Rightarrow> string option \<Rightarrow> IssueLease \<Rightarrow> bool" where
  "cond_guard lease_id expected expected_run l \<longleftrightarrow>
     il_lease_id l = lease_id \<and> il_status l \<in> set expected \<and>
     (case expected_run of Some r \<Rightarrow> il_run_id l = Some r | None \<Rightarrow> True)"

definition exact_guard :: "string \<Rightarrow> LeaseStatus list \<Rightarrow> string option \<Rightarrow> IssueLease \<Rightarrow> bool" where
  "exact_guard lease_id expected expected_run l \<longleftrightarrow>
     il_lease_id l = lease_id \<and> il_status l \<in> set expected \<and> il_run_id l = expected_run"

definition update_lease_status_conditional ::
  "instant \<Rightarrow> string \<Rightarrow> LeaseStatus \<Rightarrow> LeaseStatus list \<Rightarrow> string option \<Rightarrow> string option \<Rightarrow>
   lease_table \<Rightarrow> (lease_table \<times> bool, sql_error) result" where
  "update_lease_status_conditional now lease_id status expected new_run expected_run ls =
     (if new_run = Some [] then Err ToSqlConversionFailure
      else if expected = [] then Ok (ls, False)
      else Ok (update_where (cond_guard lease_id expected expected_run) (set_lease_status now status new_run) ls,
               0 < count_where (cond_guard lease_id expected expected_run) ls))"

definition update_lease_status_conditional_exact_owner ::
  "instant \<Rightarrow> string \<Rightarrow> LeaseStatus \<Rightarrow> LeaseStatus list \<Rightarrow> string option \<Rightarrow> string option \<Rightarrow>
   lease_table \<Rightarrow> (lease_table \<times> bool, sql_error) result" where
  "update_lease_status_conditional_exact_owner now lease_id status expected new_run expected_run ls =
     (if new_run = Some [] then Err ToSqlConversionFailure
      else if expected = [] then Ok (ls, False)
      else Ok (update_where (exact_guard lease_id expected expected_run) (set_lease_status now status new_run) ls,
               0 < count_where (exact_guard lease_id expected expected_run) ls))"

datatype ConditionalLeaseStatusOutcome =
    Applied
  | Rejected LeaseStatus "string option"
  | Missing

definition update_lease_status_conditional_outcome ::
  "instant \<Rightarrow> string \<Rightarrow> LeaseStatus \<Rightarrow> LeaseStatus list \<Rightarrow> string option \<Rightarrow> string option \<Rightarrow>
   lease_table \<Rightarrow> (lease_table \<times> ConditionalLeaseStatusOutcome, sql_error) result" where
  "update_lease_status_conditional_outcome now lease_id status expected new_run expected_run ls =
     (case update_lease_status_conditional now lease_id status expected new_run expected_run ls of
        Err e \<Rightarrow> Err e
      | Ok (ls', applied) \<Rightarrow>
          (if applied then Ok (ls', Applied)
           else (case lookup_by il_lease_id lease_id ls' of
                   Some l \<Rightarrow> Ok (ls', Rejected (il_status l) (il_run_id l))
                 | None \<Rightarrow> Ok (ls', Missing))))"

definition heartbeat_guard :: "string \<Rightarrow> string \<Rightarrow> IssueLease \<Rightarrow> bool" where
  "heartbeat_guard lease_id run l \<longleftrightarrow>
     il_lease_id l = lease_id \<and> il_run_id l = Some run \<and> il_status l = LRunning"

definition touch_owned_running_lease_heartbeat ::
  "instant \<Rightarrow> string \<Rightarrow> string \<Rightarrow> lease_table \<Rightarrow> lease_table \<times> bool" where
  "touch_owned_running_lease_heartbeat now lease_id run ls =
     (update_where (heartbeat_guard lease_id run) (\<lambda>l. l\<lparr>il_heartbeat_at := now, il_updated_at := now\<rparr>) ls,
      count_where (heartbeat_guard lease_id run) ls = 1)"

definition list_all_leases :: "lease_table \<Rightarrow> lease_table" where
  "list_all_leases ls = sort_key lease_key ls"

definition list_leases_by_config :: "string \<Rightarrow> lease_table \<Rightarrow> lease_table" where
  "list_leases_by_config config ls = sort_key lease_key (filter (\<lambda>l. il_config_id l = config) ls)"

definition list_leases_by_status :: "LeaseStatus \<Rightarrow> lease_table \<Rightarrow> lease_table" where
  "list_leases_by_status status ls = sort_key lease_key (filter (\<lambda>l. il_status l = status) ls)"

definition list_ready_to_resume_leases :: "string \<Rightarrow> lease_table \<Rightarrow> lease_table" where
  "list_ready_to_resume_leases config ls =
     sort_key (\<lambda>l. (il_updated_at l, lease_key l))
       (filter (\<lambda>l. il_config_id l = config \<and> il_status l = LReadyToResume) ls)"

definition count_active_leases :: "lease_table \<Rightarrow> nat" where
  "count_active_leases ls = count_where (\<lambda>l. il_status l \<in> {LClaimed, LRunning}) ls"

definition count_active_leases_for_config :: "string \<Rightarrow> lease_table \<Rightarrow> nat" where
  "count_active_leases_for_config config ls =
     count_where (\<lambda>l. il_config_id l = config \<and> il_status l \<in> {LClaimed, LRunning}) ls"

definition count_active_leases_for_repository :: "string \<Rightarrow> lease_table \<Rightarrow> nat" where
  "count_active_leases_for_repository repo ls =
     count_where (\<lambda>l. il_issue_repo l = repo \<and> il_status l \<in> {LClaimed, LRunning}) ls"

text \<open>\<open>now - Duration::seconds(timeout as i64)\<close>: the cast reinterprets the 64 bits as signed.\<close>

definition cutoff_before :: "instant \<Rightarrow> u64 \<Rightarrow> int" where
  "cutoff_before now timeout_secs = int now - 1000000000 * sint timeout_secs"

definition stale_guard :: "instant \<Rightarrow> u64 \<Rightarrow> IssueLease \<Rightarrow> bool" where
  "stale_guard now timeout_secs l \<longleftrightarrow>
     il_status l \<in> {LClaimed, LRunning} \<and> int (il_heartbeat_at l) < cutoff_before now timeout_secs"

definition mark_stale_leases :: "instant \<Rightarrow> u64 \<Rightarrow> lease_table \<Rightarrow> lease_table \<times> nat" where
  "mark_stale_leases now timeout_secs ls =
     (update_where (stale_guard now timeout_secs) (\<lambda>l. l\<lparr>il_status := LStale, il_updated_at := now\<rparr>) ls,
      count_where (stale_guard now timeout_secs) ls)"

definition stale_ready_guard :: "instant \<Rightarrow> u64 \<Rightarrow> IssueLease \<Rightarrow> bool" where
  "stale_ready_guard now timeout_secs l \<longleftrightarrow>
     il_status l = LReadyToResume \<and> int (il_updated_at l) < cutoff_before now timeout_secs"

definition mark_stale_ready_to_resume_leases :: "instant \<Rightarrow> u64 \<Rightarrow> lease_table \<Rightarrow> lease_table \<times> nat" where
  "mark_stale_ready_to_resume_leases now timeout_secs ls =
     (update_where (stale_ready_guard now timeout_secs) (\<lambda>l. l\<lparr>il_status := LStale, il_updated_at := now\<rparr>) ls,
      count_where (stale_ready_guard now timeout_secs) ls)"

section \<open>Sequences of lease operations\<close>

text \<open>
  The operations of all daemons, launchers and pollers, interleaved in the order in which
  SQLite serialises them. The flag of a step tells whether it won a claim; an operation
  that fails leaves the table as it was.
\<close>

datatype lease_op =
    TryClaim instant string u64 string
  | CreateLease IssueLease
  | UpdateStatus instant string LeaseStatus "string option"
  | UpdateConditional instant string LeaseStatus "LeaseStatus list" "string option" "string option"
  | UpdateExactOwner instant string LeaseStatus "LeaseStatus list" "string option" "string option"
  | TouchHeartbeat instant string string
  | MarkStale instant u64
  | MarkStaleReady instant u64

fun apply_lease_op :: "lease_op \<Rightarrow> lease_table \<Rightarrow> lease_table \<times> bool" where
  "apply_lease_op (TryClaim now repo n config) ls =
     (case try_claim now repo n config ls of
        Ok (ls', won) \<Rightarrow> (ls', won \<noteq> None)
      | Err _ \<Rightarrow> (ls, False))"
| "apply_lease_op (CreateLease l) ls =
     (case create_lease l ls of Ok ls' \<Rightarrow> (ls', False) | Err _ \<Rightarrow> (ls, False))"
| "apply_lease_op (UpdateStatus now i st run) ls = (update_lease_status now i st run ls, False)"
| "apply_lease_op (UpdateConditional now i st ex new ex_run) ls =
     (case update_lease_status_conditional now i st ex new ex_run ls of
        Ok (ls', _) \<Rightarrow> (ls', False) | Err _ \<Rightarrow> (ls, False))"
| "apply_lease_op (UpdateExactOwner now i st ex new ex_run) ls =
     (case update_lease_status_conditional_exact_owner now i st ex new ex_run ls of
        Ok (ls', _) \<Rightarrow> (ls', False) | Err _ \<Rightarrow> (ls, False))"
| "apply_lease_op (TouchHeartbeat now i run) ls =
     (fst (touch_owned_running_lease_heartbeat now i run ls), False)"
| "apply_lease_op (MarkStale now t) ls = (fst (mark_stale_leases now t ls), False)"
| "apply_lease_op (MarkStaleReady now t) ls = (fst (mark_stale_ready_to_resume_leases now t ls), False)"

inductive lease_reachable :: "lease_table \<Rightarrow> bool" where
  lease_start: "lease_reachable []"
| lease_step: "lease_reachable ls \<Longrightarrow> lease_reachable (fst (apply_lease_op a ls))"

text \<open>The schema's constraints: one row per lease identifier and one per issue.\<close>

definition lease_table_ok :: "lease_table \<Rightarrow> bool" where
  "lease_table_ok ls \<longleftrightarrow> unique_key il_lease_id ls \<and> unique_key lease_key ls"

text \<open>Updates in place keep both keys of every row.\<close>

definition keeps_keys :: "(IssueLease \<Rightarrow> IssueLease) \<Rightarrow> bool" where
  "keeps_keys f \<longleftrightarrow> (\<forall>l. il_lease_id (f l) = il_lease_id l \<and> lease_key (f l) = lease_key l)"

lemma keeps_keys_updates [simp]:
  "keeps_keys (set_lease_status now st new)"
  "keeps_keys (\<lambda>l. l\<lparr>il_status := st, il_run_id := r, il_updated_at := now\<rparr>)"
  "keeps_keys (\<lambda>l. l\<lparr>il_status := st, il_updated_at := now\<rparr>)"
  "keeps_keys (\<lambda>l. l\<lparr>il_heartbeat_at := now, il_updated_at := now\<rparr>)"
  by (simp_all add: keeps_keys_def set_lease_status_def)

lemma lease_table_ok_update_where [simp]:
  "keeps_keys f \<Longrightarrow> lease_table_ok (update_where P f ls) \<longleftrightarrow> lease_table_ok ls"
  by (simp add: lease_table_ok_def keeps_keys_def unique_key_update_where)

lemma lookup_update_keeps:
  "keeps_keys f \<Longrightarrow> lookup_by lease_key k (update_where P f ls) =
     map_option (\<lambda>l. if P l then f l else l) (lookup_by lease_key k ls)"
  by (rule lookup_by_update_where) (simp add: keeps_keys_def)

lemma claim_lease_simps [simp]:
  "il_issue_repo (claim_lease now repo n config) = repo"
  "il_issue_number (claim_lease now repo n config) = n"
  "il_status (claim_lease now repo n config) = LClaimed"
  "il_run_id (claim_lease now repo n config) = None"
  by (simp_all add: claim_lease_def)

lemma replace_row_unique:
  assumes "unique_key il_lease_id ls" "unique_key lease_key ls"
    and "\<forall>x \<in> set ls. lease_key x \<noteq> lease_key new \<longrightarrow> il_lease_id x \<noteq> il_lease_id new"
  shows "lease_table_ok (update_where (\<lambda>x. lease_key x = lease_key new) (\<lambda>_. new) ls)"
  using assms
proof (induction ls)
  case (Cons x xs)
  have "update_where (\<lambda>x. lease_key x = lease_key new) (\<lambda>_. new) xs = xs" if "lease_key x = lease_key new"
    using Cons.prems(2) that by (intro update_where_none) (force simp: image_iff)
  then show ?case
    using Cons by (auto simp: lease_table_ok_def set_update_where image_iff split: if_splits)
qed (simp add: lease_table_ok_def)

lemma try_claim_ok:
  assumes "lease_table_ok ls" "try_claim now repo n config ls = Ok (ls', r)"
  shows "lease_table_ok ls'"
proof -
  let ?l = "claim_lease now repo n config"
  have rep: "lease_table_ok (update_where (\<lambda>x. lease_key x = (repo, n)) (\<lambda>_. ?l) ls)"
    if "\<forall>x \<in> set ls. lease_key x \<noteq> (repo, n) \<longrightarrow> il_lease_id x \<noteq> il_lease_id ?l"
    using replace_row_unique [of ls ?l] assms(1) that by (simp add: lease_table_ok_def)
  have "lookup_by lease_key (repo, n) ls = None \<Longrightarrow> (repo, n) \<notin> lease_key ` set ls"
    by (simp add: lookup_by_None)
  then show ?thesis
    using assms rep
    by (auto simp: try_claim_def Let_def lease_table_ok_def unique_key_snoc image_iff
        split: result.splits option.splits if_splits) blast
qed

lemma lease_table_ok_apply: "lease_table_ok ls \<Longrightarrow> lease_table_ok (fst (apply_lease_op a ls))"
proof (cases a)
  case (TryClaim now repo n config)
  assume "lease_table_ok ls"
  then show ?thesis using TryClaim by (auto split: result.splits prod.splits dest: try_claim_ok)
next
  case (CreateLease l)
  assume "lease_table_ok ls"
  then show ?thesis using CreateLease
    by (auto simp: create_lease_def lease_table_ok_def unique_key_snoc image_iff
        split: result.splits if_splits)
qed (auto simp: update_lease_status_def update_lease_status_conditional_def
       update_lease_status_conditional_exact_owner_def touch_owned_running_lease_heartbeat_def
       mark_stale_leases_def mark_stale_ready_to_resume_leases_def split: option.splits)

text \<open>
  Every table that any interleaving of the lease operations can produce keeps both
  uniqueness constraints, so an issue is covered by at most one lease.
\<close>

theorem lease_tables_unique:
  assumes "lease_reachable ls"
  shows "unique_key il_lease_id ls \<and> unique_key lease_key ls"
proof -
  from assms have "lease_table_ok ls"
  proof induction
    case lease_start
    show ?case by (simp add: lease_table_ok_def)
  qed (rule lease_table_ok_apply)
  then show ?thesis by (simp add: lease_table_ok_def)
qed

theorem lease_tables_unique_witness:
  "unique_key lease_key
     (fst (apply_lease_op (TryClaim 5 ''o/r'' 7 ''cfg'') (fst (apply_lease_op (TryClaim 3 ''o/r'' 7 ''cfg'') []))))"
  using lease_tables_unique [OF lease_step [OF lease_step [OF lease_start]],
      of "TryClaim 5 ''o/r'' 7 ''cfg''" "TryClaim 3 ''o/r'' 7 ''cfg''"] by blast

section \<open>Exclusion\<close>

text \<open>An issue is held when its lease blocks duplicate work.\<close>

definition lease_held :: "lease_table \<Rightarrow> string \<times> u64 \<Rightarrow> bool" where
  "lease_held ls k \<longleftrightarrow>
     (case lookup_by lease_key k ls of Some l \<Rightarrow> blocks_duplicate_work (il_status l) | None \<Rightarrow> False)"

fun claim_key :: "lease_op \<Rightarrow> string \<times> u64" where
  "claim_key (TryClaim now repo n config) = (repo, n)"
| "claim_key _ = ([], 0)"

text \<open>
  The operations that do not give a lease up: a status change to a blocking state, a claim,
  an insertion, a heartbeat.
\<close>

fun non_releasing :: "lease_op \<Rightarrow> bool" where
  "non_releasing (TryClaim _ _ _ _) = True"
| "non_releasing (CreateLease _) = True"
| "non_releasing (UpdateStatus _ _ st _) = blocks_duplicate_work st"
| "non_releasing (UpdateConditional _ _ st _ _ _) = blocks_duplicate_work st"
| "non_releasing (UpdateExactOwner _ _ st _ _ _) = blocks_duplicate_work st"
| "non_releasing (TouchHeartbeat _ _ _) = True"
| "non_releasing (MarkStale _ _) = False"
| "non_releasing (MarkStaleReady _ _) = False"

lemma held_update_where:
  assumes "keeps_keys f" and "\<And>l. blocks_duplicate_work (il_status l) \<Longrightarrow> blocks_duplicate_work (il_status (f l))"
    and "lease_held ls k"
  shows "lease_held (update_where P f ls) k"
  using assms by (auto simp: lease_held_def lookup_update_keeps split: option.splits)

lemma try_claim_cases:
  obtains (error) e where "try_claim now repo n config ls = Err e"
  | (blocked) "try_claim now repo n config ls = Ok (ls, None)" "lease_held ls (repo, n)"
  | (won) ls' where "try_claim now repo n config ls = Ok (ls', Some (claim_lease now repo n config))"
      "\<not> lease_held ls (repo, n)"
      "lookup_by lease_key (repo, n) ls' = Some (claim_lease now repo n config)"
      "\<And>k. k \<noteq> (repo, n) \<Longrightarrow> lookup_by lease_key k ls' = lookup_by lease_key k ls"
proof -
  let ?l = "claim_lease now repo n config"
  have same: "lookup_by lease_key (repo, n) (update_where (\<lambda>x. lease_key x = (repo, n)) (\<lambda>_. ?l) xs) = Some ?l"
    if "lookup_by lease_key (repo, n) xs = Some old" for xs old
    using that by (induction xs) (auto split: if_splits)
  have other: "lookup_by lease_key k (update_where (\<lambda>x. lease_key x = (repo, n)) (\<lambda>_. ?l) xs) = lookup_by lease_key k xs"
    if "k \<noteq> (repo, n)" for xs k
    using that by (induction xs) auto
  have held: "lease_held ls (repo, n) \<longleftrightarrow>
      (case lookup_by lease_key (repo, n) ls of Some l \<Rightarrow> il_status l \<notin> set RECLAIMABLE | None \<Rightarrow> False)"
    by (simp add: lease_held_def blocks_duplicate_work_def split: option.split)
  show ?thesis
  proof (cases "try_claim now repo n config ls")
    case (Ok p)
    then obtain i where i: "issue_number_to_sql_i64 n = Ok i"
      by (cases "issue_number_to_sql_i64 n") (simp_all add: try_claim_def Let_def)
    show ?thesis
    proof (cases "lookup_by lease_key (repo, n) ls")
      case None
      with i Ok have "try_claim now repo n config ls = Ok (ls @ [?l], Some ?l)"
        by (simp add: try_claim_def Let_def split: if_splits)
      then show ?thesis
        by (rule that(3)) (use None in \<open>auto simp: held lookup_by_append split: option.splits\<close>)
    next
      case (Some old)
      show ?thesis
      proof (cases "il_status old \<in> set RECLAIMABLE")
        case True
        with i Ok Some have "try_claim now repo n config ls =
            Ok (update_where (\<lambda>x. lease_key x = (repo, n)) (\<lambda>_. ?l) ls, Some ?l)"
          by (simp add: try_claim_def Let_def split: if_splits)
        then show ?thesis
          by (rule that(3)) (use Some True in \<open>simp_all add: held same other del: prod.inject\<close>)
      qed (use i Some held in \<open>auto simp: try_claim_def Let_def intro: that(2)\<close>)
    qed
  qed (rule that(1))
qed

interpretation lease_mutex: exclusive_claim apply_lease_op claim_key lease_held non_releasing "\<lambda>_. True"
proof unfold_locales
  fix a t
  assume "non_releasing a" and won: "snd (apply_lease_op a t)"
  then obtain now repo n config where a: "a = TryClaim now repo n config"
    by (cases a) (auto split: result.splits prod.splits)
  from won a show "\<not> lease_held t (claim_key a)" "lease_held (fst (apply_lease_op a t)) (claim_key a)"
    by (cases rule: try_claim_cases [of now repo n config t];
        simp add: lease_held_def blocks_duplicate_work_def RECLAIMABLE_def)+
next
  fix a t k
  assume adm: "non_releasing a" and held: "lease_held t k"
  show "lease_held (fst (apply_lease_op a t)) k"
  proof (cases a)
    case (TryClaim now repo n config)
    have "k \<noteq> (repo, n)" if "\<not> lease_held t (repo, n)" using that held by blast
    then show ?thesis
      using held by (cases rule: try_claim_cases [of now repo n config t]) (auto simp: TryClaim lease_held_def)
  next
    case (CreateLease l)
    then show ?thesis using held
      by (auto simp: create_lease_def lease_held_def lookup_by_append split: result.splits option.splits)
  qed (use adm held in \<open>auto simp: update_lease_status_def update_lease_status_conditional_def
       update_lease_status_conditional_exact_owner_def touch_owned_running_lease_heartbeat_def
       set_lease_status_def split: option.splits intro!: held_update_where\<close>)
qed simp

text \<open>
  C2: mutual exclusion of issue claims. Among any interleaving of operations of any number of
  daemons, launchers and pollers that gives no lease up, an issue is claimed at most once,
  and an issue whose lease blocks duplicate work is not claimed at all.
\<close>

theorem claims_are_exclusive:
  assumes "list_all non_releasing ops"
  shows "distinct (map claim_key (winners apply_lease_op ops ls)) \<and>
    (lease_held ls k \<longrightarrow> k \<notin> claim_key ` set (winners apply_lease_op ops ls))"
  using lease_mutex.winners_distinct [OF assms] lease_mutex.held_not_won [OF assms] by simp

theorem claims_are_exclusive_witness:
  "distinct (map claim_key (winners apply_lease_op
     [TryClaim 1 ''o/r'' 7 ''a'', TryClaim 2 ''o/r'' 7 ''b'', TouchHeartbeat 3 ''x'' ''y''] []))"
  using claims_are_exclusive [of "[TryClaim 1 ''o/r'' 7 ''a'', TryClaim 2 ''o/r'' 7 ''b'', TouchHeartbeat 3 ''x'' ''y'']"]
  by simp

section \<open>What each operation does\<close>

text \<open>
  A claim on a representable issue number whose fresh identifier is unused never fails; it
  wins exactly when no lease blocks duplicate work on the issue. A won claim is what the
  issue's lookup then returns and leaves every other issue alone; a lost one changes nothing.
\<close>

theorem try_claim_spec:
  assumes "uint n \<le> i64_max"
    and "\<forall>x \<in> set ls. il_lease_id x \<noteq> il_lease_id (claim_lease now repo n config)"
  shows "\<exists>ls' won. try_claim now repo n config ls = Ok (ls', won) \<and>
    (won = None \<longleftrightarrow> lease_held ls (repo, n)) \<and>
    (if lease_held ls (repo, n) then ls' = ls
     else won = Some (claim_lease now repo n config) \<and>
          get_lease_for_issue repo n ls' = Ok (Some (claim_lease now repo n config)) \<and>
          (\<forall>k. k \<noteq> (repo, n) \<longrightarrow> lookup_by lease_key k ls' = lookup_by lease_key k ls))"
proof -
  have i: "issue_number_to_sql_i64 n = Ok (uint n)"
    using assms(1) by (simp add: issue_number_to_sql_i64_def i64_try_from_u64_def)
  have no_error: "\<exists>p. try_claim now repo n config ls = Ok p"
    using assms(2) i by (auto simp: try_claim_def Let_def split: option.splits)
  show ?thesis
    by (cases rule: try_claim_cases [of now repo n config ls])
       (use no_error i in \<open>auto simp: get_lease_for_issue_def\<close>)
qed

theorem try_claim_spec_witness:
  "\<exists>ls' won. try_claim 4 ''o/r'' 7 ''cfg'' [] = Ok (ls', won) \<and> won \<noteq> None"
proof -
  have "uint (7 :: u64) \<le> i64_max" by (simp add: i64_max_def)
  from try_claim_spec [OF this, of "[]" 4 "''o/r''" "''cfg''"] show ?thesis
    by (auto simp: lease_held_def)
qed

text \<open>
  An operation fenced by a lease identifier and an owner touches nothing else. A
  conditional transition reports success exactly when a row with that identifier, one of the
  expected states and the expected owner exists; it rewrites only such rows, to the new state,
  and never clears an owner. With an owner expected, every other owner's rows are untouched.
\<close>

theorem conditional_update_fenced:
  assumes "expected \<noteq> []" and "new_run \<noteq> Some []"
  shows "\<exists>ls' applied.
    update_lease_status_conditional now i st expected new_run (Some owner) ls = Ok (ls', applied) \<and>
    (applied \<longleftrightarrow> (\<exists>l \<in> set ls. il_lease_id l = i \<and> il_status l \<in> set expected \<and> il_run_id l = Some owner)) \<and>
    map lease_key ls' = map lease_key ls \<and> map il_lease_id ls' = map il_lease_id ls \<and>
    list_all2 (\<lambda>l l'. if il_lease_id l = i \<and> il_status l \<in> set expected \<and> il_run_id l = Some owner
       then il_status l' = st \<and> il_run_id l' = coalesce new_run (Some owner) else l' = l) ls ls'"
proof -
  let ?g = "cond_guard i expected (Some owner)"
  have "list_all2 (\<lambda>l l'. if il_lease_id l = i \<and> il_status l \<in> set expected \<and> il_run_id l = Some owner
       then il_status l' = st \<and> il_run_id l' = coalesce new_run (Some owner) else l' = l) ls
       (update_where ?g (set_lease_status now st new_run) ls)"
    by (induction ls) (auto simp: cond_guard_def set_lease_status_def)
  moreover have "map lease_key (update_where ?g (set_lease_status now st new_run) ls) = map lease_key ls"
    and "map il_lease_id (update_where ?g (set_lease_status now st new_run) ls) = map il_lease_id ls"
    by (induction ls) (auto simp: set_lease_status_def)
  ultimately show ?thesis
    using assms by (auto simp: update_lease_status_conditional_def count_where_pos cond_guard_def)
qed

theorem conditional_update_fenced_witness:
  "\<exists>ls' applied. update_lease_status_conditional 9 ''l1'' LRunning [LClaimed] None (Some ''r1'')
     [claim_lease 3 ''o/r'' 7 ''c''] = Ok (ls', applied) \<and> \<not> applied"
  using conditional_update_fenced [of "[LClaimed]" None 9 "''l1''" LRunning "''r1''" "[claim_lease 3 ''o/r'' 7 ''c'']"]
  by auto

text \<open>
  After an issue is claimed again, the previous holder is fenced off: every operation it
  can address to its old lease identifier leaves the table unchanged.
\<close>

theorem superseded_holder_is_fenced:
  assumes "lease_table_ok ls" and "lookup_by lease_key (repo, n) ls = Some old"
    and "try_claim now repo n config ls = Ok (ls', Some l)" and "il_lease_id old \<noteq> il_lease_id l"
  shows "update_lease_status t (il_lease_id old) st run ls' = ls' \<and>
    update_lease_status_conditional t (il_lease_id old) st ex None ex_run ls' = Ok (ls', False) \<and>
    touch_owned_running_lease_heartbeat t (il_lease_id old) owner ls' = (ls', False)"
proof -
  have l: "l = claim_lease now repo n config"
    and ls': "ls' = update_where (\<lambda>x. lease_key x = (repo, n)) (\<lambda>_. l) ls"
    using assms(2,3) by (auto simp: try_claim_def Let_def split: result.splits if_splits)
  have gone: "il_lease_id x \<noteq> il_lease_id old" if "x \<in> set ls'" for x
  proof (cases "x = l")
    case False
    with that have x: "x \<in> set ls" "lease_key x \<noteq> (repo, n)" by (auto simp: ls' set_update_where)
    then show ?thesis using assms(1,2) unique_keyD [of il_lease_id ls x old]
      by (auto simp: lease_table_ok_def dest: lookup_by_SomeD)
  qed (use assms(4) in simp)
  then have inert: "update_where P f ls' = ls'" "count_where P ls' = 0"
    if "\<And>x. P x \<Longrightarrow> il_lease_id x = il_lease_id old" for P f
    using that by (auto intro!: update_where_none simp: count_where_0)
  have "update_where (cond_guard (il_lease_id old) ex ex_run) f ls' = ls'"
    "count_where (cond_guard (il_lease_id old) ex ex_run) ls' = 0"
    "update_where (heartbeat_guard (il_lease_id old) owner) f ls' = ls'"
    "count_where (heartbeat_guard (il_lease_id old) owner) ls' = 0" for f
    by (auto intro!: inert simp: cond_guard_def heartbeat_guard_def)
  then show ?thesis
    by (simp add: update_lease_status_def update_lease_status_conditional_def inert
        touch_owned_running_lease_heartbeat_def split: option.split)
qed

definition stale_claim_example :: IssueLease where
  "stale_claim_example = (claim_lease 3 ''o/r'' 7 ''c'')\<lparr>il_status := LStale\<rparr>"

theorem superseded_holder_is_fenced_witness:
  "\<exists>ls'. fst (touch_owned_running_lease_heartbeat 9 (il_lease_id stale_claim_example) ''r1'' ls') = ls' \<and>
     try_claim 5 ''o/r'' 7 ''c'' [stale_claim_example] = Ok (ls', Some (claim_lease 5 ''o/r'' 7 ''c''))"
proof -
  have ok: "lease_table_ok [stale_claim_example]" by (simp add: lease_table_ok_def)
  have look: "lookup_by lease_key (''o/r'', 7) [stale_claim_example] = Some stale_claim_example"
    by (simp add: stale_claim_example_def)
  have claim: "try_claim 5 ''o/r'' 7 ''c'' [stale_claim_example] =
      Ok ([claim_lease 5 ''o/r'' 7 ''c''], Some (claim_lease 5 ''o/r'' 7 ''c''))"
    by (simp add: try_claim_def stale_claim_example_def issue_number_to_sql_i64_def i64_try_from_u64_def
        i64_max_def RECLAIMABLE_def Let_def)
  have "il_lease_id stale_claim_example \<noteq> il_lease_id (claim_lease 5 ''o/r'' 7 ''c'')" by code_simp
  from superseded_holder_is_fenced [OF ok look claim this] claim show ?thesis by auto
qed

text \<open>
  Crash recovery releases exactly the leases of dead holders: those claimed or running
  whose heartbeat is older than the timeout. Everything else keeps its state, and the count
  returned is the number of leases released, each of which can then be claimed again.
\<close>

theorem mark_stale_leases_scope:
  "(let (ls', released) = mark_stale_leases now timeout ls
    in list_all2 (\<lambda>l l'. if lease_is_active (il_status l) \<and> int (il_heartbeat_at l) < cutoff_before now timeout
          then il_status l' = LStale \<and> \<not> blocks_duplicate_work (il_status l') \<and> lease_key l' = lease_key l \<and>
               il_run_id l' = il_run_id l
          else l' = l) ls ls' \<and>
       released = length (filter (\<lambda>l. lease_is_active (il_status l) \<and>
          int (il_heartbeat_at l) < cutoff_before now timeout) ls))"
proof -
  have g: "stale_guard now timeout =
      (\<lambda>l. lease_is_active (il_status l) \<and> int (il_heartbeat_at l) < cutoff_before now timeout)"
    by (auto simp: stale_guard_def lease_is_active_def)
  have "list_all2 (\<lambda>l l'. if lease_is_active (il_status l) \<and> int (il_heartbeat_at l) < cutoff_before now timeout
          then il_status l' = LStale \<and> \<not> blocks_duplicate_work (il_status l') \<and> lease_key l' = lease_key l \<and>
               il_run_id l' = il_run_id l
          else l' = l) ls
      (update_where (stale_guard now timeout) (\<lambda>l. l\<lparr>il_status := LStale, il_updated_at := now\<rparr>) ls)"
    by (induction ls) (auto simp: g blocks_duplicate_work_def RECLAIMABLE_def)
  then show ?thesis by (simp add: mark_stale_leases_def count_where_def g)
qed

end
