(* ===== verification/Engine_State.thy ===== *)
theory Engine_State
  imports Run_Metadata Leases
begin

text \<open>
  The state of the execution engine and its small operations: the error type
  (\<^verbatim>\<open>engine/error.rs\<close>), the runner struct and run context
  (\<^verbatim>\<open>engine/runner.rs\<close>), metadata and event recording
  (\<^verbatim>\<open>engine/runner/construction.rs\<close>), outcome translation
  (\<^verbatim>\<open>support.rs\<close>, \<^verbatim>\<open>completion.rs\<close>), the lease heartbeat
  (\<^verbatim>\<open>lease_coordination.rs\<close>) and the event projection
  (\<^verbatim>\<open>diagnostic_events.rs\<close>).

  The database is the record of its tables. What lies outside the engine is the
  record \<open>Env\<close>, a parameter of every operation, over an abstract world \<open>'w\<close>:
  the registered step executors, the clock (two reads without a world step
  between them agree), the interrupt flag other threads set, the verification of
  workspace ownership on the file system, the merge completion of a
  merge-required run, and the text renderings of \<open>chrono\<close>, \<open>serde_json\<close>
  and \<open>rusqlite\<close>.
\<close>

section \<open>Errors\<close>

lemma issue_lease_number_fits:
  assumes "issue_lease_number md = Some n"
  shows "\<exists>i. issue_number_to_sql_i64 n = Ok i"
proof -
  obtain i where i: "0 \<le> i" "i \<le> i64_max" "n = word_of_int i"
    using assms by (auto simp: issue_lease_number_def bind_eq_Some_conv u64_try_from_i64_def split: if_splits)
  then have "uint n = i" by (simp add: uint_word_of_int i64_max_def)
  then show ?thesis using i by (simp add: issue_number_to_sql_i64_def i64_try_from_u64_def)
qed

record OwnershipFailureDetails =
  of_failed_step :: string
  of_reason :: string

datatype EngineError =
    StepExecutionError string string
  | TransitionNotFound string StepOutcome
  | LoopLimitExceeded string
  | RetryLimitExceeded string
  | EnginePersistenceError string
  | InvalidState string
  | StepNotFound string
  | ToolUnavailable string
  | OwnershipFailure OwnershipFailureDetails

fun outcome_debug :: "StepOutcome \<Rightarrow> string" where
  "outcome_debug Success = ''Success''"
| "outcome_debug Retryable = ''Retryable''"
| "outcome_debug Fatal = ''Fatal''"
| "outcome_debug Fixable = ''Fixable''"
| "outcome_debug Abandon = ''Abandon''"
| "outcome_debug Wait = ''Wait''"

fun engine_error_to_string :: "EngineError \<Rightarrow> string" where
  "engine_error_to_string (StepExecutionError step msg) = ''step execution failed: '' @ step @ '' - '' @ msg"
| "engine_error_to_string (TransitionNotFound step oc) =
     ''transition not found from '' @ step @ '' with outcome '' @ outcome_debug oc"
| "engine_error_to_string (LoopLimitExceeded step) = ''loop limit exceeded at step '' @ step"
| "engine_error_to_string (RetryLimitExceeded step) = ''retry limit exceeded for step '' @ step"
| "engine_error_to_string (EnginePersistenceError s) = ''persistence error: '' @ s"
| "engine_error_to_string (InvalidState s) = ''invalid state: '' @ s"
| "engine_error_to_string (StepNotFound s) = ''step not found: '' @ s"
| "engine_error_to_string (ToolUnavailable msg) = msg"
| "engine_error_to_string (OwnershipFailure d) =
     ''workspace ownership failure before cleanup step '' @ of_failed_step d @ '': '' @ of_reason d"

datatype RunOutcome =
    RunSuccess
  | RunFailure string string
  | RunAbandoned string string
  | RunInterrupted string
  | RunWaitingExternal string string

section \<open>State\<close>

record Db =
  db_checkpoints :: "checkpoint_row list"
  db_events :: "EventRecord list"
  db_runs :: run_table
  db_leases :: lease_table

definition empty_db :: Db where
  "empty_db = \<lparr>db_checkpoints = [], db_events = [], db_runs = [], db_leases = []\<rparr>"

record RunContext =
  rx_daemon_managed :: bool
  rx_log_path :: "string option"
  rx_artifact_root :: "string option"
  rx_workspace_path :: "string option"
  rx_repository :: "string option"
  rx_issue_number :: "i64 option"
  rx_pr_number :: "i64 option"
  rx_head_sha :: "string option"
  rx_workspace_authorization :: "WorkspaceAuthorization option"
  rx_launch_provenance :: "LaunchProvenance option"

text \<open>The values a run context seeds into a fresh step context.\<close>

definition seed_run_context :: "RunContext \<Rightarrow> StepContext \<Rightarrow> StepContext" where
  "seed_run_context x c =
     (let c1 = ctx_set ''daemon_managed_claim'' (if rx_daemon_managed x then ''true'' else ''false'') c;
          c2 = (case rx_workspace_path x of
                  Some p \<Rightarrow> ctx_set ''workspace_path'' p (ctx_set ''work_dir'' p c1) | None \<Rightarrow> c1);
          c3 = (case rx_artifact_root x of
                  Some p \<Rightarrow> ctx_set ''artifact_dir'' p (ctx_set ''artifact_root'' p c2) | None \<Rightarrow> c2);
          c4 = (case rx_repository x of Some p \<Rightarrow> ctx_set ''target_repo'' p c3 | None \<Rightarrow> c3)
      in case rx_issue_number x of
           Some n \<Rightarrow> ctx_set ''primary_issue_number'' (int_to_string n) (ctx_set ''issue_number'' (int_to_string n) c4)
         | None \<Rightarrow> c4)"

datatype MergeStrategy = MsMergeCommit | MsSquash | MsRebase

datatype MergeError =
    MeNotMerged
  | MeStrategyMismatch MergeStrategy string
  | MeReachabilityFailed string
  | MeContentMismatch
  | MePatchMismatch
  | MePreconditionFailed string RunStatus
  | MeAlreadyTerminal
  | MeArtifactConflict
  | MeCapsuleBindingMismatch
  | MeIdentityIncomplete string
  | MeIdentityMismatch string string string
  | MeDatabase string

datatype MergeCompletionOutcome =
    McMerged
  | McNotYetMerged
  | McNotReviewReady RunStatus
  | McStrategyNotDeclared
  | McFailed MergeError

type_synonym 'w executor =
  "StepContext \<Rightarrow> json \<Rightarrow> 'w \<Rightarrow> StepContext \<times> (StepOutcome, EngineError) result \<times> 'w"

record 'w Env =
  env_registry :: "(string \<times> 'w executor) list"
  env_now :: "'w \<Rightarrow> instant"
  env_poll_interrupt :: "'w \<Rightarrow> bool \<times> 'w"
  env_pid :: u32
  env_evidence_exists :: "'w \<Rightarrow> string \<Rightarrow> bool"
  env_verify_ownership :: "'w \<Rightarrow> string \<Rightarrow> string \<Rightarrow> string option"
  env_complete_merge :: "string \<Rightarrow> string \<Rightarrow> Db \<Rightarrow> 'w \<Rightarrow> MergeCompletionOutcome \<times> Db \<times> 'w"
  env_merge_debug :: "MergeCompletionOutcome \<Rightarrow> string"
  env_rfc3339 :: "instant \<Rightarrow> string"
  env_json_text :: "json \<Rightarrow> string"
  env_sql_text :: "sql_error \<Rightarrow> string"
  env_serde_text :: "RestoreError \<Rightarrow> string"

record 'w EngineRunner =
  er_instance :: WorkflowInstance
  er_retry_count :: u32
  er_edge_loop_counts :: edge_counts
  er_max_retries :: u32
  er_max_loops :: u32
  er_db :: Db
  er_interrupted :: bool
  er_context :: StepContext
  er_run_context :: RunContext
  er_persist_registry :: bool
  er_pending_failure_cleanup :: "FailureCleanupState option"
  er_terminal_ownership_failure :: bool
  er_world :: 'w

abbreviation er_run_id :: "'w EngineRunner \<Rightarrow> string" where
  "er_run_id r \<equiv> wi_run_id (er_instance r)"

abbreviation er_workflow :: "'w EngineRunner \<Rightarrow> WorkflowType" where
  "er_workflow r \<equiv> wi_workflow_type (er_instance r)"

abbreviation er_current :: "'w EngineRunner \<Rightarrow> string" where
  "er_current r \<equiv> wi_current_state (er_instance r)"

abbreviation now_of :: "'w Env \<Rightarrow> 'w EngineRunner \<Rightarrow> instant" where
  "now_of env r \<equiv> env_now env (er_world r)"

section \<open>Metadata and events\<close>

definition load_metadata :: "'w EngineRunner \<Rightarrow> RunMetadata option" where
  "load_metadata r = get_run_with_conn (er_run_id r) (db_runs (er_db r))"

definition persist_metadata :: "RunMetadata \<Rightarrow> 'w EngineRunner \<Rightarrow> 'w EngineRunner" where
  "persist_metadata m r =
     r\<lparr>er_db := (er_db r)\<lparr>db_runs := persist_run_with_conn m (db_runs (er_db r))\<rparr>\<rparr>"

definition record_event ::
  "'w Env \<Rightarrow> EventType \<Rightarrow> string \<Rightarrow> string \<Rightarrow> string option \<Rightarrow> 'w EngineRunner \<Rightarrow> 'w EngineRunner" where
  "record_event env ty step outcome details r =
     r\<lparr>er_db := (er_db r)\<lparr>db_events :=
        append_typed_event_with_conn (er_run_id r) step outcome ty details (now_of env r)
          (db_events (er_db r))\<rparr>\<rparr>"

definition first_step_id :: "'w EngineRunner \<Rightarrow> string option" where
  "first_step_id r = (case wt_steps (er_workflow r) of [] \<Rightarrow> None | s # _ \<Rightarrow> Some (sd_step_id s))"

definition build_metadata :: "'w Env \<Rightarrow> RunStatus \<Rightarrow> 'w EngineRunner \<Rightarrow> RunMetadata" where
  "build_metadata env status r =
     (let x = er_run_context r
      in (run_metadata_new (now_of env r) (er_run_id r) (wt_workflow_type_id (er_workflow r))
            (wc_config_id (wi_config (er_instance r))))
         \<lparr>rm_status := status, rm_process_pid := Some (env_pid env), rm_log_path := rx_log_path x,
          rm_artifact_root := rx_artifact_root x, rm_workspace_path := rx_workspace_path x,
          rm_repository := rx_repository x, rm_issue_number := rx_issue_number x,
          rm_pr_number := rx_pr_number x, rm_head_sha := rx_head_sha x,
          rm_launch_provenance := rx_launch_provenance x\<rparr>)"

definition persist_initial_run :: "'w Env \<Rightarrow> 'w EngineRunner \<Rightarrow> 'w EngineRunner" where
  "persist_initial_run env r =
     (if \<not> er_persist_registry r then r
      else if load_metadata r \<noteq> None then r
      else persist_metadata ((build_metadata env RStarting r)\<lparr>rm_current_step := first_step_id r\<rparr>) r)"

definition with_run_context :: "'w Env \<Rightarrow> RunContext \<Rightarrow> 'w EngineRunner \<Rightarrow> 'w EngineRunner" where
  "with_run_context env ctx r =
     (let r1 = r\<lparr>er_run_context := ctx\<rparr>
      in if er_persist_registry r1
         then persist_metadata ((build_metadata env RStarting r1)\<lparr>rm_current_step := first_step_id r1\<rparr>) r1
         else r1)"

definition attach_workspace_authorization :: "WorkspaceAuthorization \<Rightarrow> 'w EngineRunner \<Rightarrow> 'w EngineRunner" where
  "attach_workspace_authorization a r =
     r\<lparr>er_run_context := (er_run_context r)\<lparr>rx_workspace_authorization := Some a\<rparr>,
       er_context := set_workspace_authorization a (er_context r)\<rparr>"

definition load_checkpoint_state :: "string \<Rightarrow> checkpoint_row list \<Rightarrow> u32 \<times> edge_counts" where
  "load_checkpoint_state run rows =
     (case load_checkpoint_with_conn run rows of
        Some cp \<Rightarrow> (ss_retry_count (cp_state_snapshot cp), ss_edge_loop_counts (cp_state_snapshot cp))
      | None \<Rightarrow> (0, []))"

text \<open>
  The construction on an existing database (shared with resume). The step context is built
  by \<open>build_step_context\<close> from the configuration and is an argument here.
\<close>

definition with_db_path_and_context ::
  "'w Env \<Rightarrow> WorkflowInstance \<Rightarrow> StepContext \<Rightarrow> RunContext \<Rightarrow> Db \<Rightarrow> 'w \<Rightarrow> 'w EngineRunner" where
  "with_db_path_and_context env inst ctx rctx db w =
     (let (retry, counts) = load_checkpoint_state (wi_run_id inst) (db_checkpoints db);
          max_loops = (case gl_max_iterations (wc_guard_limits (wi_config inst)) of Some n \<Rightarrow> n | None \<Rightarrow> 10)
      in persist_initial_run env
           \<lparr>er_instance = inst, er_retry_count = retry, er_edge_loop_counts = counts,
            er_max_retries = rc_max_retries (wc_runtime (wi_config inst)), er_max_loops = max_loops,
            er_db = db, er_interrupted = False, er_context = bind_interrupt False ctx,
            er_run_context = rctx, er_persist_registry = True, er_pending_failure_cleanup = None,
            er_terminal_ownership_failure = False, er_world = w\<rparr>)"

text \<open>The in-memory construction: a fresh database and no run registry.\<close>

definition with_context ::
  "WorkflowInstance \<Rightarrow> StepContext \<Rightarrow> RunContext \<Rightarrow> 'w \<Rightarrow> 'w EngineRunner" where
  "with_context inst ctx rctx w =
     (let max_loops = (case gl_max_iterations (wc_guard_limits (wi_config inst)) of Some n \<Rightarrow> n | None \<Rightarrow> 10)
      in \<lparr>er_instance = inst, er_retry_count = 0, er_edge_loop_counts = [],
          er_max_retries = rc_max_retries (wc_runtime (wi_config inst)), er_max_loops = max_loops,
          er_db = empty_db, er_interrupted = False, er_context = bind_interrupt False ctx,
          er_run_context = rctx, er_persist_registry = False, er_pending_failure_cleanup = None,
          er_terminal_ownership_failure = False, er_world = w\<rparr>)"

section \<open>Checkpoints of the runner\<close>

definition loop_count :: "'w EngineRunner \<Rightarrow> u32" where
  "loop_count r = sum_list (map snd (er_edge_loop_counts r))"

definition state_snapshot :: "string \<Rightarrow> 'w EngineRunner \<Rightarrow> StateSnapshot" where
  "state_snapshot status r =
     \<lparr>ss_retry_count = er_retry_count r, ss_loop_count = loop_count r,
      ss_edge_loop_counts = er_edge_loop_counts r, ss_context = checkpoint_values (er_context r),
      ss_status = status\<rparr>"

definition create_checkpoint :: "'w Env \<Rightarrow> string \<Rightarrow> string \<Rightarrow> 'w EngineRunner \<Rightarrow> Checkpoint" where
  "create_checkpoint env step status r =
     with_snapshot (now_of env r) (er_run_id r) step (state_snapshot status r)"

definition save_checkpoint_db :: "Checkpoint \<Rightarrow> Db \<Rightarrow> Db" where
  "save_checkpoint_db cp db = db\<lparr>db_checkpoints := save_checkpoint_with_conn cp (db_checkpoints db)\<rparr>"

section \<open>Routing helpers\<close>

definition compute_next_step_candidates :: "WorkflowType \<Rightarrow> string \<Rightarrow> string list" where
  "compute_next_step_candidates wt step =
     fold (\<lambda>oc cands.
       (case resolve_transition_schema step oc (wt_transitions wt) of
          Some nxt \<Rightarrow> (if nxt \<in> set cands then cands else cands @ [nxt])
        | None \<Rightarrow> cands))
     [Success, Fixable, Fatal, Retryable, Abandon, Wait] []"

definition is_failure_cleanup_step :: "WorkflowType \<Rightarrow> string \<Rightarrow> bool" where
  "is_failure_cleanup_step wt step \<longleftrightarrow>
     list_ex (\<lambda>s. sd_step_id s = step \<and> sd_terminal s = Some True \<and> sd_step_type s = ''failure_cleanup'')
       (wt_steps wt)"

fun run_outcome_without_transition :: "string \<Rightarrow> StepOutcome \<Rightarrow> RunOutcome" where
  "run_outcome_without_transition step Success = RunSuccess"
| "run_outcome_without_transition step Fatal = RunFailure step ''Fatal error occurred''"
| "run_outcome_without_transition step Fixable = RunFailure step ''Fixable error with no recovery transition''"
| "run_outcome_without_transition step Retryable = RunFailure step ''Retryable error with no recovery transition''"
| "run_outcome_without_transition step _ = RunFailure step ''Unexpected outcome''"

definition DIAGNOSTIC_PATH_KEYS :: "string list" where
  "DIAGNOSTIC_PATH_KEYS =
     [''stdout_artifact_path'', ''stderr_artifact_path'', ''llxprt_diagnostic_manifest_path'']"

definition diagnostic_details :: "'w Env \<Rightarrow> StepContext \<Rightarrow> string \<Rightarrow> string option" where
  "diagnostic_details env ctx step =
     (let value = List.map_filter (\<lambda>key. map_option (\<lambda>path. (key, JStr path)) (ctx_get ctx (step @ ''.'' @ key)))
                    DIAGNOSTIC_PATH_KEYS
      in if value = [] then None else Some (env_json_text env (JObj value)))"

section \<open>Completion\<close>

definition runner_completion_for_merge_required :: RunStatus where
  "runner_completion_for_merge_required = RReviewReady"

fun status_for_completion :: "RunOutcome \<Rightarrow> bool \<Rightarrow> RunStatus" where
  "status_for_completion RunSuccess merge_required =
     (if merge_required then runner_completion_for_merge_required else RCompleted)"
| "status_for_completion (RunFailure _ _) _ = RFailed"
| "status_for_completion (RunAbandoned _ _) _ = RAbandoned"
| "status_for_completion (RunInterrupted _) _ = RPaused"
| "status_for_completion (RunWaitingExternal _ _) _ = RWaitingExternal"

definition record_run_completion ::
  "'w Env \<Rightarrow> RunOutcome \<Rightarrow> string \<Rightarrow> 'w EngineRunner \<Rightarrow> 'w EngineRunner \<times> (unit, EngineError) result" where
  "record_run_completion env outcome final_step r =
     (if \<not> er_persist_registry r then (r, Ok ())
      else
       (let status = status_for_completion outcome (wc_merge_required (wi_config (er_instance r)));
            md0 = (case load_metadata r of Some m \<Rightarrow> m | None \<Rightarrow> build_metadata env status r);
            md = set_current_step (now_of env r) final_step (md0\<lparr>rm_status := status\<rparr>);
            r1 = persist_metadata md r
        in if status = RReviewReady
           then (let (out, db, w) = env_complete_merge env (er_run_id r) (cx_work_dir (er_context r))
                                      (er_db r1) (er_world r1);
                     r2 = r1\<lparr>er_db := db, er_world := w\<rparr>
                 in case out of
                      McMerged \<Rightarrow>
                        (record_event env EvTerminalState final_step (run_status_to_string RMerged) None r2, Ok ())
                    | McNotYetMerged \<Rightarrow> (r2, Ok ())
                    | other \<Rightarrow>
                        (r2, Err (EnginePersistenceError
                               (''typed merge completion failed: '' @ env_merge_debug env other))))
           else (record_event env EvTerminalState final_step (run_status_to_string status) None r1, Ok ())))"

section \<open>Lease heartbeat\<close>

definition heartbeat_owned_lease :: "'w Env \<Rightarrow> 'w EngineRunner \<Rightarrow> 'w EngineRunner" where
  "heartbeat_owned_lease env r =
     (if \<not> cx_daemon_managed (er_context r) then r
      else
       (case load_metadata r of
          None \<Rightarrow> r
        | Some md \<Rightarrow>
            (case rm_repository md of
               None \<Rightarrow> r
             | Some repo \<Rightarrow>
                 (case issue_lease_number md of
                    None \<Rightarrow> r
                  | Some n \<Rightarrow>
                      (case get_lease_for_issue repo n (db_leases (er_db r)) of
                         Ok (Some lease) \<Rightarrow>
                           (if il_run_id lease = Some (er_run_id r)
                            then r\<lparr>er_db := (er_db r)\<lparr>db_leases :=
                                   fst (touch_owned_running_lease_heartbeat (now_of env r)
                                         (il_lease_id lease) (er_run_id r) (db_leases (er_db r)))\<rparr>\<rparr>
                            else r)
                       | _ \<Rightarrow> r)))))"

end
