(* ===== verification/Wait_State.thy ===== *)
theory Wait_State
  imports Engine_State "HOL-Library.Product_Lexorder" "HOL-Library.List_Lexorder" "HOL-Library.Char_ord"
begin

text \<open>
  External waits (\<^verbatim>\<open>persistence/wait_state.rs\<close>): the wait-state table, the single
  transaction that suspends a run (resume point, run status, wait record and lease together),
  and the optimistic update a poller makes. The database of the engine is extended by the
  table. JSON columns hold their values; a number that does not fit \<open>i64\<close> is refused when
  written; the poll counter of a stored row stays below that limit.
\<close>

section \<open>Records\<close>

datatype WaitKind =
    WkPrChecks
  | WkCoderabbitReview
  | WkHumanReview
  | WkPrMerge
  | WkRateLimitBackoff
  | WkDependencyChildWorkflow
  | WkDependencyChildMerge
  | WkScopeDecision

fun wait_kind_to_string :: "WaitKind \<Rightarrow> string" where
  "wait_kind_to_string WkPrChecks = ''pr_checks''"
| "wait_kind_to_string WkCoderabbitReview = ''coderabbit_review''"
| "wait_kind_to_string WkHumanReview = ''human_review''"
| "wait_kind_to_string WkPrMerge = ''pr_merge''"
| "wait_kind_to_string WkRateLimitBackoff = ''rate_limit_backoff''"
| "wait_kind_to_string WkDependencyChildWorkflow = ''dependency_child_workflow''"
| "wait_kind_to_string WkDependencyChildMerge = ''dependency_child_merge''"
| "wait_kind_to_string WkScopeDecision = ''scope_decision''"

definition wait_kind_from_str :: "string \<Rightarrow> WaitKind option" where
  "wait_kind_from_str s =
     (if s = ''pr_checks'' then Some WkPrChecks
      else if s = ''coderabbit_review'' then Some WkCoderabbitReview
      else if s = ''human_review'' then Some WkHumanReview
      else if s = ''pr_merge'' then Some WkPrMerge
      else if s = ''rate_limit_backoff'' then Some WkRateLimitBackoff
      else if s = ''dependency_child_workflow'' then Some WkDependencyChildWorkflow
      else if s = ''dependency_child_merge'' then Some WkDependencyChildMerge
      else if s = ''scope_decision'' then Some WkScopeDecision
      else None)"

interpretation wait_kind_codec: text_codec wait_kind_to_string wait_kind_from_str
proof unfold_locales
  fix s
  show "wait_kind_from_str (wait_kind_to_string s) = Some s"
    by (cases s) (simp_all add: wait_kind_from_str_def)
next
  fix t s
  assume "wait_kind_from_str t = Some s"
  then show "wait_kind_to_string s = t"
    by (auto simp: wait_kind_from_str_def split: if_splits)
qed

record WaitStateRecord =
  ws_run_id :: string
  ws_suspension_id :: string
  ws_lease_id :: "string option"
  ws_workflow_type :: string
  ws_config_id :: string
  ws_repository :: string
  ws_issue_number :: u64
  ws_pr_number :: "u64 option"
  ws_head_sha :: "string option"
  ws_wait_kind :: WaitKind
  ws_wait_condition :: json
  ws_last_observed_state :: json
  ws_next_poll_at :: instant
  ws_poll_interval_seconds :: u64
  ws_max_wait_seconds :: "u64 option"
  ws_resume_step :: string
  ws_checkpoint_id :: string
  ws_poll_count :: u64
  ws_created_at :: instant
  ws_updated_at :: instant

type_synonym wait_table = "WaitStateRecord list"

text \<open>\<open>new\<close>; the suspension id is a fresh UUID, an argument here.\<close>

definition wait_state_new :: "instant \<Rightarrow> string \<Rightarrow> string \<Rightarrow> string \<Rightarrow> WaitStateRecord" where
  "wait_state_new now suspension run config =
     \<lparr>ws_run_id = run, ws_suspension_id = suspension, ws_lease_id = None, ws_workflow_type = [],
      ws_config_id = config, ws_repository = [], ws_issue_number = 0, ws_pr_number = None,
      ws_head_sha = None, ws_wait_kind = WkPrChecks, ws_wait_condition = JNull,
      ws_last_observed_state = JNull, ws_next_poll_at = now, ws_poll_interval_seconds = 300,
      ws_max_wait_seconds = None, ws_resume_step = [], ws_checkpoint_id = [], ws_poll_count = 0,
      ws_created_at = now, ws_updated_at = now\<rparr>"

record WaitDb = Db +
  db_waits :: wait_table

datatype WaitStateWriteError = EmptySuspensionId string | WaitSqlite sql_error

datatype ExternalWaitError =
    WaitRunMissing string
  | WaitRunAlreadyTerminal string RunStatus
  | LeaseTransitionRejected string
  | IdentityIncomplete string string
  | WaitStateFailure WaitStateWriteError
  | WaitCheckpointFailure PersistenceError
  | WaitLeaseFailure sql_error

section \<open>Writing\<close>

definition fits_i64 :: "u64 \<Rightarrow> bool" where
  "fits_i64 n \<longleftrightarrow> i64_try_from_u64 n \<noteq> None"

text \<open>\<open>record_params\<close>: the conversions that can fail.\<close>

definition record_params :: "WaitStateRecord \<Rightarrow> (unit, sql_error) result" where
  "record_params w =
     (if fits_i64 (ws_issue_number w) \<and> pred_option fits_i64 (ws_pr_number w) \<and>
         fits_i64 (ws_poll_interval_seconds w) \<and> pred_option fits_i64 (ws_max_wait_seconds w) \<and>
         fits_i64 (ws_poll_count w)
      then Ok () else Err ToSqlConversionFailure)"

definition upsert_wait_state :: "WaitStateRecord \<Rightarrow> wait_table \<Rightarrow> (wait_table, WaitStateWriteError) result" where
  "upsert_wait_state w ws =
     (if ws_suspension_id w = [] then Err (EmptySuspensionId (ws_run_id w))
      else (case record_params w of
              Err e \<Rightarrow> Err (WaitSqlite e)
            | Ok _ \<Rightarrow> Ok (upsert ws_run_id (\<lambda>old new. new\<lparr>ws_created_at := ws_created_at old\<rparr>) w ws)))"

definition mark_run_waiting_external ::
  "instant \<Rightarrow> string \<Rightarrow> string \<Rightarrow> run_table \<Rightarrow> (run_table, ExternalWaitError) result" where
  "mark_run_waiting_external now run step runs =
     (case persist_run_status_conditional_outcome now run RWaitingExternal (Some step) runs of
        (runs', Updated) \<Rightarrow> Ok runs'
      | (_, RunMissing) \<Rightarrow> Err (WaitRunMissing run)
      | (_, AlreadyTerminal current) \<Rightarrow> Err (WaitRunAlreadyTerminal run current))"

text \<open>The identity checks before the transaction, in the order of the source.\<close>

definition wait_identity :: "WaitStateRecord \<Rightarrow> (string, ExternalWaitError) result" where
  "wait_identity w =
     (case (case ws_lease_id w of Some l \<Rightarrow> (if l = [] then None else Some l) | None \<Rightarrow> None) of
        None \<Rightarrow> Err (IdentityIncomplete (ws_run_id w) ''lease_id'')
      | Some lease \<Rightarrow>
          (if ws_run_id w = [] then Err (IdentityIncomplete (ws_run_id w) ''run_id'')
           else if ws_resume_step w = [] then Err (IdentityIncomplete (ws_run_id w) ''resume_step'')
           else if ws_suspension_id w = [] then Err (IdentityIncomplete (ws_run_id w) ''suspension_id'')
           else Ok lease))"

definition persist_external_wait ::
  "instant \<Rightarrow> WaitStateRecord \<Rightarrow> WaitDb \<Rightarrow> (WaitDb, ExternalWaitError) result" where
  "persist_external_wait now w db =
     (case wait_identity w of
        Err e \<Rightarrow> Err e
      | Ok lease_id \<Rightarrow>
          (case set_resume_point now (ws_run_id w) (ws_resume_step w) (db_checkpoints db) of
             Err e \<Rightarrow> Err (WaitCheckpointFailure e)
           | Ok (cps, _) \<Rightarrow>
               (case mark_run_waiting_external now (ws_run_id w) (ws_resume_step w) (db_runs db) of
                  Err e \<Rightarrow> Err e
                | Ok runs \<Rightarrow>
                    (case upsert_wait_state w (db_waits db) of
                       Err e \<Rightarrow> Err (WaitStateFailure e)
                     | Ok waits \<Rightarrow>
                         (case update_lease_status_conditional now lease_id LWaitingExternal
                                 [LRunning, LWaitingExternal] None (Some (ws_run_id w)) (db_leases db) of
                            Err e \<Rightarrow> Err (WaitLeaseFailure e)
                          | Ok (leases, applied) \<Rightarrow>
                              (if \<not> applied then Err (LeaseTransitionRejected (ws_run_id w))
                               else Ok (db\<lparr>db_checkpoints := cps, db_runs := runs, db_waits := waits,
                                           db_leases := leases\<rparr>)))))))"

section \<open>Reading\<close>

definition get_wait_state :: "string \<Rightarrow> wait_table \<Rightarrow> WaitStateRecord option" where
  "get_wait_state run ws = lookup_by ws_run_id run ws"

definition has_pollable_external_wait :: "string \<Rightarrow> WaitDb \<Rightarrow> bool" where
  "has_pollable_external_wait run db \<longleftrightarrow>
     list_ex (\<lambda>m. rm_run_id m = run \<and> rm_status m = RWaitingExternal \<and>
       list_ex (\<lambda>w. ws_run_id w = rm_run_id m \<and> ws_lease_id w \<noteq> None \<and> ws_lease_id w \<noteq> Some [] \<and>
           ws_resume_step w \<noteq> [] \<and> ws_suspension_id w \<noteq> [] \<and>
           list_ex (\<lambda>l. Some (il_lease_id l) = ws_lease_id w \<and> il_run_id l = Some (ws_run_id w) \<and>
               il_status l = LWaitingExternal) (db_leases db))
         (db_waits db)) (db_runs db)"

definition poll_order :: "WaitStateRecord \<Rightarrow> instant \<times> string \<times> nat" where
  "poll_order w = (ws_next_poll_at w, ws_repository w, unat (ws_issue_number w))"

definition list_wait_states :: "wait_table \<Rightarrow> wait_table" where
  "list_wait_states ws = sort_key poll_order ws"

definition pollable :: "instant \<Rightarrow> lease_table \<Rightarrow> WaitStateRecord \<Rightarrow> bool" where
  "pollable now ls w \<longleftrightarrow>
     ws_next_poll_at w \<le> now \<and> ws_suspension_id w \<noteq> [] \<and>
     list_ex (\<lambda>l. Some (il_lease_id l) = ws_lease_id w \<and> il_status l = LWaitingExternal \<and>
       il_run_id l = Some (ws_run_id w)) ls"

definition list_pollable_wait_states :: "instant \<Rightarrow> WaitDb \<Rightarrow> wait_table" where
  "list_pollable_wait_states now db = sort_key poll_order (filter (pollable now (db_leases db)) (db_waits db))"

section \<open>Polling\<close>

definition poll_guard :: "string \<Rightarrow> u64 \<Rightarrow> string \<Rightarrow> WaitStateRecord \<Rightarrow> bool" where
  "poll_guard run count suspension w \<longleftrightarrow>
     ws_run_id w = run \<and> ws_poll_count w = count \<and> ws_suspension_id w = suspension"

definition update_wait_state_after_poll ::
  "instant \<Rightarrow> string \<Rightarrow> json \<Rightarrow> instant \<Rightarrow> u64 \<Rightarrow> string \<Rightarrow> wait_table \<Rightarrow> (wait_table \<times> bool, sql_error) result" where
  "update_wait_state_after_poll now run observed next_poll expected_count expected_suspension ws =
     (if \<not> fits_i64 expected_count then Err ToSqlConversionFailure
      else Ok (update_where (poll_guard run expected_count expected_suspension)
                 (\<lambda>w. w\<lparr>ws_last_observed_state := observed, ws_next_poll_at := next_poll,
                        ws_poll_count := ws_poll_count w + 1, ws_updated_at := now\<rparr>) ws,
               0 < count_where (poll_guard run expected_count expected_suspension) ws))"

definition delete_wait_state :: "string \<Rightarrow> wait_table \<Rightarrow> wait_table \<times> bool" where
  "delete_wait_state run ws =
     (filter (\<lambda>w. ws_run_id w \<noteq> run) ws, 0 < count_where (\<lambda>w. ws_run_id w = run) ws)"

definition delete_wait_state_for_suspension :: "string \<Rightarrow> string \<Rightarrow> wait_table \<Rightarrow> wait_table \<times> bool" where
  "delete_wait_state_for_suspension run suspension ws =
     (filter (\<lambda>w. \<not> (ws_run_id w = run \<and> ws_suspension_id w = suspension)) ws,
      0 < count_where (\<lambda>w. ws_run_id w = run \<and> ws_suspension_id w = suspension) ws)"


section \<open>Suspending a run\<close>

lemma mark_waiting_ok:
  assumes "unique_key rm_run_id runs" and "mark_run_waiting_external now run step runs = Ok runs'"
  shows "\<exists>m. get_run_with_conn run runs = Some m \<and> \<not> run_is_terminal (rm_status m) \<and>
    get_run_with_conn run runs' = Some (set_status_and_step now RWaitingExternal (Some step) m) \<and>
    (\<forall>other. other \<noteq> run \<longrightarrow> get_run_with_conn other runs' = get_run_with_conn other runs)"
  using conditional_outcome_cases [OF assms(1), where run = run and now = now and st = RWaitingExternal
      and step = "Some step"] assms(2)
  by (auto simp: mark_run_waiting_external_def split: option.splits if_splits prod.splits ConditionalStatusOutcome.splits)

lemma upsert_wait_ok:
  assumes "upsert_wait_state w ws = Ok ws'"
  shows "\<exists>t. get_wait_state (ws_run_id w) ws' = Some (w\<lparr>ws_created_at := t\<rparr>) \<and>
    (\<forall>other. other \<noteq> ws_run_id w \<longrightarrow> get_wait_state other ws' = get_wait_state other ws)"
proof -
  have ws': "ws' = upsert ws_run_id (\<lambda>old new. new\<lparr>ws_created_at := ws_created_at old\<rparr>) w ws"
    using assms by (auto simp: upsert_wait_state_def split: if_splits result.splits)
  have "get_wait_state (ws_run_id w) ws' =
      Some (case lookup_by ws_run_id (ws_run_id w) ws of Some x \<Rightarrow> w\<lparr>ws_created_at := ws_created_at x\<rparr> | None \<Rightarrow> w)"
    unfolding get_wait_state_def ws' by (rule lookup_by_upsert_same) simp
  then have "\<exists>t. get_wait_state (ws_run_id w) ws' = Some (w\<lparr>ws_created_at := t\<rparr>)"
    by (cases "lookup_by ws_run_id (ws_run_id w) ws") (simp add: exI [of _ "ws_created_at w"], auto)
  moreover have "get_wait_state other ws' = get_wait_state other ws" if "other \<noteq> ws_run_id w" for other
    unfolding get_wait_state_def ws' by (rule lookup_by_upsert_other) (use that in simp_all)
  ultimately show ?thesis by blast
qed

lemma wait_identity_ok:
  "wait_identity w = Ok l \<Longrightarrow> ws_lease_id w = Some l \<and> l \<noteq> [] \<and> ws_resume_step w \<noteq> [] \<and> ws_suspension_id w \<noteq> []"
  by (auto simp: wait_identity_def split: option.splits if_splits)

lemma resume_point_step:
  assumes "checkpoints_ok rows" and "\<forall>r \<in> set rows. cr_timestamp r < now"
    and "set_resume_point now run step rows = Ok (rows', ts)"
  shows "map_option cp_step_id (load_checkpoint_with_conn run rows') = Some step"
  using set_resume_point_newest [OF assms(1,2), of run step] assms(3) by auto

lemma conditional_lease_row:
  assumes "update_lease_status_conditional now i st expected None (Some owner) ls = Ok (ls', True)"
  shows "\<exists>x \<in> set ls'. il_lease_id x = i \<and> il_run_id x = Some owner \<and> il_status x = st"
proof -
  let ?g = "cond_guard i expected (Some owner)"
  obtain l where l: "l \<in> set ls" "?g l" and ls': "ls' = update_where ?g (set_lease_status now st None) ls"
    using assms by (auto simp: update_lease_status_conditional_def count_where_pos split: if_splits)
  then have "set_lease_status now st None l \<in> set ls'" by (force simp: set_update_where)
  moreover have "il_lease_id (set_lease_status now st None l) = i \<and>
      il_run_id (set_lease_status now st None l) = Some owner \<and> il_status (set_lease_status now st None l) = st"
    using l(2) by (simp add: cond_guard_def set_lease_status_def coalesce_def)
  ultimately show ?thesis by blast
qed

text \<open>
  Suspension is complete. When the transaction that suspends a run succeeds, the run existed
  and was not terminal (a terminal run is never resurrected), it is now waiting at the resume
  step, the checkpoint loader selects that step, the stored wait is the given record (with the
  creation time of a replaced one), its lease is waiting under the same run, and the poller's
  completeness check holds; other runs and waits are untouched.
\<close>

theorem external_wait_is_complete:
  assumes "unique_key rm_run_id (db_runs db)" and "checkpoints_ok (db_checkpoints db)"
    and "\<forall>r \<in> set (db_checkpoints db). cr_timestamp r < now"
    and "persist_external_wait now w db = Ok db'"
  shows "has_pollable_external_wait (ws_run_id w) db' \<and>
    (\<exists>m. get_run_with_conn (ws_run_id w) (db_runs db) = Some m \<and> \<not> run_is_terminal (rm_status m) \<and>
       get_run_with_conn (ws_run_id w) (db_runs db') =
         Some (set_status_and_step now RWaitingExternal (Some (ws_resume_step w)) m)) \<and>
    map_option cp_step_id (load_checkpoint_with_conn (ws_run_id w) (db_checkpoints db')) = Some (ws_resume_step w) \<and>
    (\<exists>t. get_wait_state (ws_run_id w) (db_waits db') = Some (w\<lparr>ws_created_at := t\<rparr>)) \<and>
    (\<forall>other. other \<noteq> ws_run_id w \<longrightarrow>
       get_run_with_conn other (db_runs db') = get_run_with_conn other (db_runs db) \<and>
       get_wait_state other (db_waits db') = get_wait_state other (db_waits db))"
proof -
  obtain lease cps ts runs waits leases where i: "wait_identity w = Ok lease"
    and c: "set_resume_point now (ws_run_id w) (ws_resume_step w) (db_checkpoints db) = Ok (cps, ts)"
    and r: "mark_run_waiting_external now (ws_run_id w) (ws_resume_step w) (db_runs db) = Ok runs"
    and u: "upsert_wait_state w (db_waits db) = Ok waits"
    and l: "update_lease_status_conditional now lease LWaitingExternal [LRunning, LWaitingExternal] None
        (Some (ws_run_id w)) (db_leases db) = Ok (leases, True)"
    and db': "db' = db\<lparr>db_checkpoints := cps, db_runs := runs, db_waits := waits, db_leases := leases\<rparr>"
    using assms(4) by (auto simp: persist_external_wait_def split: result.splits prod.splits if_splits)
  from mark_waiting_ok [OF assms(1) r] obtain m where m: "get_run_with_conn (ws_run_id w) (db_runs db) = Some m"
      "\<not> run_is_terminal (rm_status m)"
      "get_run_with_conn (ws_run_id w) runs = Some (set_status_and_step now RWaitingExternal (Some (ws_resume_step w)) m)"
    and mo: "\<forall>other. other \<noteq> ws_run_id w \<longrightarrow> get_run_with_conn other runs = get_run_with_conn other (db_runs db)"
    by blast
  from upsert_wait_ok [OF u] obtain t where t: "get_wait_state (ws_run_id w) waits = Some (w\<lparr>ws_created_at := t\<rparr>)"
    and to: "\<forall>other. other \<noteq> ws_run_id w \<longrightarrow> get_wait_state other waits = get_wait_state other (db_waits db)"
    by blast
  have mem: "set_status_and_step now RWaitingExternal (Some (ws_resume_step w)) m \<in> set runs"
    "rm_run_id m = ws_run_id w" "w\<lparr>ws_created_at := t\<rparr> \<in> set waits"
    using m(1,3) t lookup_by_SomeD by (fastforce simp: get_run_with_conn_def get_wait_state_def)+
  have "\<exists>x \<in> set leases. il_lease_id x = lease \<and> il_run_id x = Some (ws_run_id w) \<and> il_status x = LWaitingExternal"
    by (rule conditional_lease_row) (use l in simp_all)
  then have "has_pollable_external_wait (ws_run_id w) db'"
    using mem wait_identity_ok [OF i]
    unfolding has_pollable_external_wait_def list_ex_iff db'
    by (intro bexI [of _ "set_status_and_step now RWaitingExternal (Some (ws_resume_step w)) m"] conjI
        bexI [of _ "w\<lparr>ws_created_at := t\<rparr>"])
       (auto simp: set_status_and_step_def)
  moreover have "\<exists>t. get_wait_state (ws_run_id w) (db_waits db') = Some (w\<lparr>ws_created_at := t\<rparr>)"
    using t by (intro exI [of _ t]) (simp add: db')
  ultimately show ?thesis
    using m mo to resume_point_step [OF assms(2,3) c] by (simp add: db')
qed


definition demo_wait :: WaitStateRecord where
  "demo_wait = (wait_state_new 5 ''s1'' ''r'' ''cfg'')\<lparr>ws_lease_id := Some ''l'', ws_resume_step := ''watch''\<rparr>"

definition demo_wait_db :: WaitDb where
  "demo_wait_db =
     \<lparr>db_checkpoints = save_checkpoint_with_conn (with_snapshot 3 ''r'' ''watch'' default_snapshot) [],
      db_events = [], db_runs = [(run_metadata_new 1 ''r'' ''t'' ''cfg'')\<lparr>rm_status := RRunning\<rparr>],
      db_leases = [\<lparr>il_lease_id = ''l'', il_issue_repo = ''o/r'', il_issue_number = 7, il_config_id = ''cfg'',
        il_run_id = Some ''r'', il_status = LRunning, il_claimed_at = 1, il_updated_at = 1, il_heartbeat_at = 1\<rparr>],
      db_waits = []\<rparr>"

theorem external_wait_is_complete_witness:
  "\<exists>db'. persist_external_wait 9 demo_wait demo_wait_db = Ok db' \<and> has_pollable_external_wait ''r'' db'"
proof -
  have h: "unique_key rm_run_id (db_runs demo_wait_db)" "checkpoints_ok (db_checkpoints demo_wait_db)"
    "\<forall>r \<in> set (db_checkpoints demo_wait_db). cr_timestamp r < 9"
    by code_simp+
  obtain db' where "persist_external_wait 9 demo_wait demo_wait_db = Ok db'"
    by (cases "persist_external_wait 9 demo_wait demo_wait_db")
       (auto simp: demo_wait_def demo_wait_db_def wait_state_new_def persist_external_wait_def wait_identity_def
         set_resume_point_def save_checkpoint_with_conn_def upsert_def with_snapshot_def
         mark_run_waiting_external_def persist_run_status_conditional_outcome_def
         persist_run_status_conditional_with_conn_def run_metadata_new_def non_terminal_guard_def TERMINAL_SQL_def
         upsert_wait_state_def record_params_def fits_i64_def i64_try_from_u64_def i64_max_def
         update_lease_status_conditional_def cond_guard_def)
  with external_wait_is_complete [OF h, of demo_wait db'] show ?thesis
    by (simp add: demo_wait_def wait_state_new_def)
qed

section \<open>Concurrent pollers\<close>

datatype wait_op =
    PollUpdate instant string json instant u64 string
  | DeleteWait string
  | DeleteSuspension string string

fun apply_wait_op :: "wait_op \<Rightarrow> wait_table \<Rightarrow> wait_table \<times> bool" where
  "apply_wait_op (PollUpdate now run obs nxt count susp) ws =
     (case update_wait_state_after_poll now run obs nxt count susp ws of Ok p \<Rightarrow> p | Err _ \<Rightarrow> (ws, False))"
| "apply_wait_op (DeleteWait run) ws = (fst (delete_wait_state run ws), False)"
| "apply_wait_op (DeleteSuspension run susp) ws = (fst (delete_wait_state_for_suspension run susp ws), False)"

fun poll_key :: "wait_op \<Rightarrow> string \<times> string \<times> u64" where
  "poll_key (PollUpdate now run obs nxt count susp) = (run, susp, count)"
| "poll_key _ = ([], [], 0)"

text \<open>A poll is past when the suspension's row, if still there, has a larger count.\<close>

definition poll_past :: "wait_table \<Rightarrow> string \<times> string \<times> u64 \<Rightarrow> bool" where
  "poll_past ws k \<longleftrightarrow>
     (case k of (run, susp, count) \<Rightarrow>
        \<forall>w \<in> set ws. ws_run_id w = run \<and> ws_suspension_id w = susp \<longrightarrow> count < ws_poll_count w)"

lemma count_succ:
  assumes "fits_i64 n"
  shows "n < n + 1"
proof -
  have "uint n \<le> 9223372036854775807"
    using assms by (simp add: fits_i64_def i64_try_from_u64_def i64_max_def split: if_splits)
  then have "uint (n + 1) = uint n + 1" by (simp add: uint_word_ariths)
  then show ?thesis by (simp add: word_less_def)
qed

lemma poll_keeps_keys:
  assumes "unique_key ws_run_id ws"
  shows "unique_key ws_run_id (fst (apply_wait_op a ws))"
proof (cases a)
  case (PollUpdate now run obs nxt count susp)
  then show ?thesis using assms
    by (simp add: update_wait_state_after_poll_def unique_key_update_where)
qed (use assms in \<open>auto simp: unique_key_def delete_wait_state_def delete_wait_state_for_suspension_def distinct_map_filter\<close>)

interpretation poll_mutex: exclusive_claim apply_wait_op poll_key poll_past "\<lambda>_. True" "unique_key ws_run_id"
proof unfold_locales
  fix a ws
  assume uni: "unique_key ws_run_id ws" and won: "snd (apply_wait_op a ws)"
  then obtain now run obs nxt count susp where a: "a = PollUpdate now run obs nxt count susp" by (cases a) auto
  have fit: "fits_i64 count" and ex: "\<exists>w \<in> set ws. poll_guard run count susp w"
    using won by (auto simp: a update_wait_state_after_poll_def count_where_pos split: if_splits)
  show "\<not> poll_past ws (poll_key a)" using ex by (auto simp: a poll_past_def poll_guard_def)
  have all: "poll_guard run count susp w" if "w \<in> set ws" "ws_run_id w = run" for w
  proof -
    from ex obtain v where v: "v \<in> set ws" "poll_guard run count susp v" by blast
    then have "w = v" using unique_keyD [OF uni that(1) v(1)] that(2) by (simp add: poll_guard_def)
    then show ?thesis using v(2) by simp
  qed
  have "ws_poll_count w = count" if "poll_guard run count susp w" for w using that by (simp add: poll_guard_def)
  then show "poll_past (fst (apply_wait_op a ws)) (poll_key a)"
    using fit count_succ [OF fit] all
    by (auto simp: a poll_past_def update_wait_state_after_poll_def set_update_where)
next
  fix a ws k
  assume past: "poll_past ws k"
  obtain run susp c where k: "k = (run, susp, c)" by (cases k)
  show "poll_past (fst (apply_wait_op a ws)) k"
  proof (cases a)
    case (PollUpdate now r obs nxt count s)
    have "c < ws_poll_count w + 1"
      if "w \<in> set ws" "poll_guard r count s w" "fits_i64 count" "ws_run_id w = run" "ws_suspension_id w = susp" for w
      using that past count_succ [of count] by (auto simp: k poll_past_def poll_guard_def intro: less_trans)
    then show ?thesis
      using past by (auto simp: PollUpdate k poll_past_def update_wait_state_after_poll_def set_update_where)
  qed (use past in \<open>auto simp: k poll_past_def delete_wait_state_def delete_wait_state_for_suspension_def\<close>)
qed (simp_all add: poll_keeps_keys)

text \<open>
  A poll is recorded once. In any interleaving of poll updates and wait deletions by any number
  of pollers, at most one poller records the poll of a given run, suspension and poll count, and a
  poll the table has moved past is never recorded; the others observe that they lost.
\<close>

theorem polls_are_exclusive:
  assumes "unique_key ws_run_id ws"
  shows "distinct (map poll_key (winners apply_wait_op ops ws)) \<and>
    (poll_past ws k \<longrightarrow> k \<notin> poll_key ` set (winners apply_wait_op ops ws))"
  using poll_mutex.winners_distinct [OF _ assms, of ops] poll_mutex.held_not_won [OF _ assms, of ops]
  by (simp add: list_all_iff)

theorem polls_are_exclusive_witness:
  "distinct (map poll_key (winners apply_wait_op
     [PollUpdate 6 ''r'' JNull 9 0 ''s1'', PollUpdate 7 ''r'' JNull 8 0 ''s1''] [demo_wait]))"
  using polls_are_exclusive [of "[demo_wait]"
     "[PollUpdate 6 ''r'' JNull 9 0 ''s1'', PollUpdate 7 ''r'' JNull 8 0 ''s1'']"]
  by simp

end
