(* ===== verification/Continuation.thy ===== *)
theory Continuation
  imports Wait_State
begin

text \<open>
  Operator continuation (\<^verbatim>\<open>engine/continuation.rs\<close> and its submodules \<^verbatim>\<open>selection\<close>,
  \<^verbatim>\<open>validation\<close>, \<^verbatim>\<open>authorization\<close>, \<^verbatim>\<open>commit\<close>, \<^verbatim>\<open>resume_authorization\<close>): which checkpoint a
  resume, retry or rewind selects, the safety checks a plan runs, the typed grants that let an
  unsafe step be re-run, and the single transaction that acquires the lease, re-stamps the
  checkpoint and reopens the run. The clock, the process table, the file system and the RFC3339
  reader and printer are fields of an environment; one clock reading serves a transaction.
\<close>

section \<open>Requests and errors\<close>

datatype RewindTarget = ToStep string | ToCheckpoint string

datatype ContinuationKind = KResume | KRetry bool | KRewind RewindTarget

fun kind_verb :: "ContinuationKind \<Rightarrow> string" where
  "kind_verb KResume = ''resume''"
| "kind_verb (KRetry _) = ''retry''"
| "kind_verb (KRewind _) = ''rewind''"

record ContinuationRequest =
  cq_run_id :: string
  cq_kind :: ContinuationKind
  cq_force :: bool

datatype ContinuationError =
    CRunNotFound string
  | NoResumableCheckpoint string
  | CheckpointNotFound string
  | InvalidTarget string
  | CPersistence string

fun continuation_error_text :: "ContinuationError \<Rightarrow> string" where
  "continuation_error_text (CRunNotFound i) = ''run '' @ i @ '' not found in registry''"
| "continuation_error_text (NoResumableCheckpoint i) = ''run '' @ i @ '' has no resumable checkpoint''"
| "continuation_error_text (CheckpointNotFound what) = ''checkpoint not found: '' @ what"
| "continuation_error_text (InvalidTarget detail) = ''invalid target: '' @ detail"
| "continuation_error_text (CPersistence detail) = ''persistence error: '' @ detail"

fun persistence_error_text :: "PersistenceError \<Rightarrow> string" where
  "persistence_error_text (Database s) = ''database error: '' @ s"
| "persistence_error_text (Serialization s) = ''serialization error: '' @ s"
| "persistence_error_text (NotFound s) = ''checkpoint not found: '' @ s"

record SafetyCheck =
  sc_name :: string
  sc_passed :: bool
  sc_detail :: string

record ContinuationValidation =
  cv_ok :: bool
  cv_checks :: "SafetyCheck list"

definition from_checks :: "SafetyCheck list \<Rightarrow> ContinuationValidation" where
  "from_checks cs = \<lparr>cv_ok = list_all sc_passed cs, cv_checks = cs\<rparr>"

definition failure_reasons :: "ContinuationValidation \<Rightarrow> string list" where
  "failure_reasons v =
     map (\<lambda>c. sc_name c @ '': '' @ sc_detail c) (filter (\<lambda>c. \<not> sc_passed c) (cv_checks v))"

text \<open>
  What the code reads outside the store: the clock, its own process id, which processes are
  alive, the file system of the workspace, chrono's RFC3339 text and the ownership verdict.
\<close>

datatype PathKind = PathSymlink | PathOther

record ContinuationEnv =
  ce_now :: instant
  ce_pid :: u32
  ce_pid_alive :: "u32 \<Rightarrow> bool"
  ce_rfc3339 :: "instant \<Rightarrow> string"
  ce_parse_rfc3339 :: "string \<Rightarrow> (instant, string) result"
  ce_symlink_metadata :: "string \<Rightarrow> PathKind option"
  ce_is_dir :: "string \<Rightarrow> bool"
  ce_verify_ownership :: "string \<Rightarrow> string \<Rightarrow> string option"
  ce_sql_text :: "sql_error \<Rightarrow> string"

definition SAFE_RERUN_STEPS :: "string list" where
  "SAFE_RERUN_STEPS =
     [''watch_pr_checks'', ''collect_ci_failures'', ''collect_coderabbit_feedback'',
      ''capture_pr_identity'', ''post_pr_iteration_guard'']"

definition is_safe_rerun_step :: "string \<Rightarrow> bool" where
  "is_safe_rerun_step step \<longleftrightarrow> step \<in> set SAFE_RERUN_STEPS"

record TargetProfileOverrides =
  tpo_repo :: "string option"
  tpo_issue :: "string option"
  tpo_work_dir :: "string option"
  tpo_artifact_dir :: "string option"
  tpo_transport_url :: "string option"

definition continuation_overrides :: "RunMetadata \<Rightarrow> TargetProfileOverrides" where
  "continuation_overrides md =
     \<lparr>tpo_repo = rm_repository md,
      tpo_issue = map_option (\<lambda>n. nat_to_string (unat n)) (issue_lease_number md),
      tpo_work_dir = rm_workspace_path md, tpo_artifact_dir = rm_artifact_root md,
      tpo_transport_url = None\<rparr>"

definition checkpoint_identity :: "ContinuationEnv \<Rightarrow> Checkpoint \<Rightarrow> string" where
  "checkpoint_identity env cp = cp_step_id cp @ ''@'' @ ce_rfc3339 env (cp_timestamp cp)"

definition parse_checkpoint_identity_target ::
  "ContinuationEnv \<Rightarrow> string \<Rightarrow> (string \<times> instant, ContinuationError) result" where
  "parse_checkpoint_identity_target env i =
     (case split_once CHR ''@'' i of
        None \<Rightarrow>
          Err (InvalidTarget (''checkpoint identity '' @ quoted i @ '' is missing the '' @
                 quoted ''@'' @ '' separator''))
      | Some (step, ts) \<Rightarrow>
          (case ce_parse_rfc3339 env ts of
             Err e \<Rightarrow>
               Err (InvalidTarget (''checkpoint identity '' @ quoted i @
                      '' has an invalid RFC3339 timestamp: '' @ e))
           | Ok parsed \<Rightarrow> Ok (step, parsed)))"

section \<open>Processes\<close>

definition is_pid_stale :: "ContinuationEnv \<Rightarrow> u32 \<Rightarrow> bool" where
  "is_pid_stale env pid \<longleftrightarrow> \<not> ce_pid_alive env pid"

definition live_workflow_pid :: "ContinuationEnv \<Rightarrow> RunMetadata \<Rightarrow> u32 option" where
  "live_workflow_pid env m =
     (case rm_process_pid m of
        Some pid \<Rightarrow> (if \<not> is_pid_stale env pid then Some pid else None)
      | None \<Rightarrow> None)"

definition live_child_pid :: "ContinuationEnv \<Rightarrow> RunMetadata \<Rightarrow> u32 option" where
  "live_child_pid env m = find (\<lambda>pid. \<not> is_pid_stale env pid) (rm_child_pids m)"

definition is_process_stale :: "ContinuationEnv \<Rightarrow> RunMetadata \<Rightarrow> bool" where
  "is_process_stale env m =
     (case rm_process_pid m of Some pid \<Rightarrow> is_pid_stale env pid | None \<Rightarrow> False)"

definition are_child_pids_stale :: "ContinuationEnv \<Rightarrow> RunMetadata \<Rightarrow> u32 list" where
  "are_child_pids_stale env m = filter (is_pid_stale env) (rm_child_pids m)"

section \<open>Checkpoint selection\<close>

definition RETRYABLE_WAIT_STEPS :: "string list" where
  "RETRYABLE_WAIT_STEPS = [''watch_pr_checks'']"

definition TERMINAL_STEP :: string where
  "TERMINAL_STEP = ''post_pr_failure_terminal''"

definition newest_resumable :: "Checkpoint list \<Rightarrow> Checkpoint option" where
  "newest_resumable cps =
     find (\<lambda>c. is_resumable_checkpoint_status (ss_status (cp_state_snapshot c))) (rev cps)"

definition select_rewind_checkpoint ::
  "ContinuationEnv \<Rightarrow> checkpoint_row list \<Rightarrow> string \<Rightarrow> RewindTarget \<Rightarrow> (Checkpoint, ContinuationError) result" where
  "select_rewind_checkpoint env rows run target =
     and_then
       (case target of
          ToStep step \<Rightarrow> Ok (step, None)
        | ToCheckpoint i \<Rightarrow> map_ok (\<lambda>(step, ts). (step, Some ts)) (parse_checkpoint_identity_target env i))
       (\<lambda>(step, expected_ts).
          case get_checkpoint_for_step run step rows of
            None \<Rightarrow> Err (CheckpointNotFound (run @ '':'' @ step))
          | Some cp \<Rightarrow>
              (case expected_ts of
                 None \<Rightarrow> Ok cp
               | Some expected \<Rightarrow>
                   (if cp_timestamp cp \<noteq> expected
                    then Err (InvalidTarget
                           (''checkpoint timestamp mismatch for '' @ step @ '': stored '' @
                            ce_rfc3339 env (cp_timestamp cp) @ '', requested '' @
                            ce_rfc3339 env expected))
                    else Ok cp)))"

definition select_failed_cleanup_checkpoint ::
  "ContinuationEnv \<Rightarrow> checkpoint_row list \<Rightarrow> string \<Rightarrow> RunMetadata \<Rightarrow>
   (Checkpoint option, ContinuationError) result" where
  "select_failed_cleanup_checkpoint env rows run md =
     (case rm_failure_cleanup md of
        None \<Rightarrow> Ok None
      | Some failure \<Rightarrow>
          (let incomplete_cleanup = \<not> fc_cleanup_succeeded failure;
               completed_recovery_available =
                 is_cleanup_failure_abandonment md \<and> recovery_is_available failure
           in if (\<not> incomplete_cleanup \<and> \<not> completed_recovery_available) \<or>
                 fc_failed_checkpoint_id failure = []
              then Ok None
              else (case select_rewind_checkpoint env rows run
                           (ToCheckpoint (fc_failed_checkpoint_id failure)) of
                      Err e \<Rightarrow> Err e
                    | Ok cp \<Rightarrow>
                        (if checkpoint_identity env cp = fc_failed_checkpoint_id failure
                         then Ok (Some cp) else Ok None))))"

definition select_resume_checkpoint ::
  "ContinuationEnv \<Rightarrow> checkpoint_row list \<Rightarrow> string \<Rightarrow> RunMetadata \<Rightarrow> (Checkpoint, ContinuationError) result" where
  "select_resume_checkpoint env rows run md =
     (case select_failed_cleanup_checkpoint env rows run md of
        Err e \<Rightarrow> Err e
      | Ok (Some cp) \<Rightarrow> Ok cp
      | Ok None \<Rightarrow>
          (let cps = list_checkpoints run rows
           in if cps = [] then Err (NoResumableCheckpoint run)
              else (case newest_resumable cps of
                      Some cp \<Rightarrow> Ok cp
                    | None \<Rightarrow>
                        (let terminal_step =
                               (case rm_current_step md of Some s \<Rightarrow> s | None \<Rightarrow> TERMINAL_STEP)
                         in case load_checkpoint_before_step run terminal_step rows of
                              Some cp \<Rightarrow> Ok cp
                            | None \<Rightarrow>
                                (if cps = [] then Err (NoResumableCheckpoint run) else Ok (last cps))))))"

definition select_retry_checkpoint ::
  "ContinuationEnv \<Rightarrow> checkpoint_row list \<Rightarrow> string \<Rightarrow> RunMetadata \<Rightarrow> bool \<Rightarrow>
   (Checkpoint, ContinuationError) result" where
  "select_retry_checkpoint env rows run md from_failed_step =
     (case select_failed_cleanup_checkpoint env rows run md of
        Err e \<Rightarrow> Err e
      | Ok (Some cp) \<Rightarrow> Ok cp
      | Ok None \<Rightarrow>
          (if from_failed_step
           then (case find (\<lambda>c. cp_step_id c \<in> set RETRYABLE_WAIT_STEPS) (rev (list_checkpoints run rows)) of
                   Some cp \<Rightarrow> Ok cp
                 | None \<Rightarrow> Err (NoResumableCheckpoint (run @ '' has no retryable external-wait checkpoint'')))
           else select_resume_checkpoint env rows run md))"

definition select_checkpoint ::
  "ContinuationEnv \<Rightarrow> checkpoint_row list \<Rightarrow> ContinuationRequest \<Rightarrow> RunMetadata \<Rightarrow>
   (Checkpoint, ContinuationError) result" where
  "select_checkpoint env rows rq md =
     (case cq_kind rq of
        KResume \<Rightarrow> select_resume_checkpoint env rows (cq_run_id rq) md
      | KRetry from_failed_step \<Rightarrow> select_retry_checkpoint env rows (cq_run_id rq) md from_failed_step
      | KRewind target \<Rightarrow> select_rewind_checkpoint env rows (cq_run_id rq) target)"

section \<open>Authorization\<close>

datatype ResumeAuthorization =
    Operator
  | OperatorCurrentWait string string
  | OperatorCommittedCheckpoint string string
  | TrustedInternalWait string string

definition for_resume ::
  "ContinuationEnv \<Rightarrow> WaitDb \<Rightarrow> RunMetadata \<Rightarrow> ContinuationRequest \<Rightarrow> Checkpoint \<Rightarrow> ResumeAuthorization" where
  "for_resume env db md rq cp =
     (if cq_kind rq \<noteq> KResume then Operator
      else
       (let i = checkpoint_identity env cp
        in if rm_current_step md = Some (cp_step_id cp) \<and> rm_status md = RWaitingExternal \<and>
              ss_status (cp_state_snapshot cp) = CHECKPOINT_STATUS_WAITING
           then OperatorCurrentWait i (cq_run_id rq)
           else if rm_current_step md = Some (cp_step_id cp) \<and>
                   (rm_status md = RRunning \<or> rm_status md = RFailed) \<and>
                   live_workflow_pid env md = None \<and> live_child_pid env md = None \<and>
                   ss_status (cp_state_snapshot cp) = CHECKPOINT_STATUS_READY_TO_RESUME \<and>
                   rm_continuation_rearm_checkpoint_id md = Some i
           then OperatorCommittedCheckpoint i (cq_run_id rq)
           else if (case get_wait_state (cq_run_id rq) (db_waits db) of
                      Some wait \<Rightarrow> ws_run_id wait = cq_run_id rq \<and> ws_checkpoint_id wait = i \<and>
                                    ws_resume_step wait = cp_step_id cp
                    | None \<Rightarrow> False)
           then TrustedInternalWait i (cq_run_id rq)
           else Operator))"

fun permits_non_safe_rerun :: "ContinuationEnv \<Rightarrow> ResumeAuthorization \<Rightarrow> Checkpoint \<Rightarrow> bool" where
  "permits_non_safe_rerun env (OperatorCurrentWait i run) cp \<longleftrightarrow> i = checkpoint_identity env cp \<and> run = cp_run_id cp"
| "permits_non_safe_rerun env (OperatorCommittedCheckpoint i run) cp \<longleftrightarrow>
     i = checkpoint_identity env cp \<and> run = cp_run_id cp"
| "permits_non_safe_rerun env (TrustedInternalWait i run) cp \<longleftrightarrow> i = checkpoint_identity env cp \<and> run = cp_run_id cp"
| "permits_non_safe_rerun env Operator cp \<longleftrightarrow> False"

definition authorizes_cleanup_resume ::
  "ContinuationEnv \<Rightarrow> RunMetadata \<Rightarrow> ContinuationRequest \<Rightarrow> Checkpoint \<Rightarrow> bool" where
  "authorizes_cleanup_resume env md rq cp \<longleftrightarrow>
     \<not> is_ownership_denied_terminal md \<and>
     (case rm_failure_cleanup md of
        None \<Rightarrow> False
      | Some failure \<Rightarrow>
          cq_kind rq = KResume \<and>
          (let exact_failed_checkpoint = (checkpoint_identity env cp = fc_failed_checkpoint_id failure)
           in (\<not> fc_cleanup_succeeded failure \<and>
                (exact_failed_checkpoint \<or> cp_step_id cp = fc_cleanup_step failure)) \<or>
              (rm_status md = RRunning \<and> fc_is_complete failure \<and>
                fc_recovery_consumed_at failure \<noteq> None \<and> exact_failed_checkpoint)))"

definition checkpoint_is_authorized ::
  "ContinuationEnv \<Rightarrow> WaitDb \<Rightarrow> RunMetadata \<Rightarrow> ContinuationRequest \<Rightarrow> Checkpoint \<Rightarrow> bool" where
  "checkpoint_is_authorized env db md rq cp \<longleftrightarrow>
     (if is_ownership_denied_terminal md then False
      else
       (let authorized_failed_checkpoint =
              (case rm_failure_cleanup md of
                 None \<Rightarrow> False
               | Some failure \<Rightarrow>
                   is_cleanup_failure_abandonment md \<and> recovery_is_available failure \<and>
                   checkpoint_identity env cp = fc_failed_checkpoint_id failure) \<or>
              authorizes_cleanup_resume env md rq cp
        in authorized_failed_checkpoint \<or>
           permits_non_safe_rerun env (for_resume env db md rq cp) cp))"

section \<open>Validation\<close>

definition pass :: "string \<Rightarrow> string \<Rightarrow> SafetyCheck" where
  "pass name detail = \<lparr>sc_name = name, sc_passed = True, sc_detail = detail\<rparr>"

definition fail_check :: "string \<Rightarrow> string \<Rightarrow> SafetyCheck" where
  "fail_check name detail = \<lparr>sc_name = name, sc_passed = False, sc_detail = detail\<rparr>"

definition check_run_exists :: "RunMetadata option \<Rightarrow> string \<Rightarrow> SafetyCheck" where
  "check_run_exists md run =
     (case md of
        Some _ \<Rightarrow> pass ''run_exists'' (''run '' @ run @ '' found in registry'')
      | None \<Rightarrow> fail_check ''run_exists'' (''run '' @ run @ '' not found in registry''))"

definition check_workflow_resolvable :: "RunMetadata \<Rightarrow> SafetyCheck" where
  "check_workflow_resolvable md =
     (if rm_workflow_type_id md = [] \<or> rm_config_id md = []
      then fail_check ''workflow_resolvable'' ''run record is missing workflow_type_id or config_id''
      else pass ''workflow_resolvable''
             (''workflow_type='' @ rm_workflow_type_id md @ '' config='' @ rm_config_id md))"

definition cleanup_recovery_requested :: "RunMetadata \<Rightarrow> ContinuationRequest \<Rightarrow> bool" where
  "cleanup_recovery_requested md rq \<longleftrightarrow>
     is_cleanup_failure_abandonment md \<and>
     (case rm_failure_cleanup md of Some f \<Rightarrow> recovery_is_available f | None \<Rightarrow> False) \<and>
     cq_force rq \<and>
     (case cq_kind rq of KRetry _ \<Rightarrow> True | KRewind _ \<Rightarrow> True | KResume \<Rightarrow> False)"

definition running_claim_is_available :: "ContinuationEnv \<Rightarrow> RunMetadata \<Rightarrow> bool" where
  "running_claim_is_available env md \<longleftrightarrow>
     rm_status md = RRunning \<and> (is_process_stale env md \<or> rm_process_pid md = None)"

definition check_resumable_status :: "ContinuationEnv \<Rightarrow> RunMetadata \<Rightarrow> ContinuationRequest \<Rightarrow> SafetyCheck" where
  "check_resumable_status env md rq =
     (let st = run_status_to_string (rm_status md)
      in if is_ownership_denied_terminal md
         then fail_check ''resumable_status''
                (''run terminated with a workspace ownership denial and cannot be resumed; '' @
                 ''cleanup cannot execute in an unowned workspace'')
         else if run_is_resumable (rm_status md)
         then pass ''resumable_status'' (''run status '' @ st @ '' is resumable'')
         else if cleanup_recovery_requested md rq
         then pass ''resumable_status'' ''forced retry/rewind of an evidenced cleanup abandonment''
         else if running_claim_is_available env md
         then pass ''resumable_status''
                (''run status '' @ st @ '' is resumable because recorded workflow PID is stale or unrecorded'')
         else fail_check ''resumable_status''
                (''run status '' @ st @
                 '' is not resumable; terminal states other than failed cannot be continued''))"

definition check_identity_recoverable :: "RunMetadata \<Rightarrow> SafetyCheck" where
  "check_identity_recoverable md =
     (let has_repo = rm_repository md \<noteq> None;
          has_anchor = rm_issue_number md \<noteq> None \<or> rm_pr_number md \<noteq> None;
          shown = ''repository='' @ debug_option debug_str (rm_repository md) @
                  '' issue='' @ debug_option int_to_string (rm_issue_number md) @
                  '' pr='' @ debug_option int_to_string (rm_pr_number md)
      in if has_repo \<and> has_anchor then pass ''identity_recoverable'' shown
         else fail_check ''identity_recoverable''
                (''continuation requires a repository plus an issue or PR anchor; got '' @ shown))"

definition check_cleanup_workspace_ownership :: "ContinuationEnv \<Rightarrow> string \<Rightarrow> RunMetadata \<Rightarrow> SafetyCheck" where
  "check_cleanup_workspace_ownership env path md =
     (case ce_symlink_metadata env path of
        Some PathSymlink \<Rightarrow>
          fail_check ''workspace'' (''cleanup workspace must not be a symlink: '' @ path)
      | None \<Rightarrow>
          fail_check ''workspace'' (''preserved workspace is missing or not a directory: '' @ path)
      | Some PathOther \<Rightarrow>
          (if \<not> ce_is_dir env path
           then fail_check ''workspace'' (''preserved workspace is not a directory: '' @ path)
           else (case ce_verify_ownership env path (rm_run_id md) of
                   Some reason \<Rightarrow> fail_check ''workspace'' reason
                 | None \<Rightarrow>
                     pass ''workspace'' (''workspace_path='' @ path @ '' (ownership verified)''))))"

definition check_workspace :: "ContinuationEnv \<Rightarrow> RunMetadata \<Rightarrow> SafetyCheck" where
  "check_workspace env md =
     (case rm_workspace_path md of
        Some path \<Rightarrow>
          (if is_cleanup_failure_abandonment md then check_cleanup_workspace_ownership env path md
           else if ce_is_dir env path then pass ''workspace'' (''workspace_path='' @ path)
           else fail_check ''workspace'' (''workspace_path='' @ path @ '' is missing or not a directory''))
      | None \<Rightarrow>
          (if is_cleanup_failure_abandonment md
           then fail_check ''workspace'' ''cleanup-abandonment recovery requires an explicit preserved workspace''
           else pass ''workspace'' ''workspace path reconstructable from run id''))"

definition check_checkpoint_exists :: "(Checkpoint, ContinuationError) result \<Rightarrow> SafetyCheck" where
  "check_checkpoint_exists selection =
     (case selection of
        Ok cp \<Rightarrow> pass ''checkpoint_exists'' (''selected checkpoint at step '' @ cp_step_id cp)
      | Err e \<Rightarrow> fail_check ''checkpoint_exists'' (continuation_error_text e))"

definition check_safe_step :: "string \<Rightarrow> bool \<Rightarrow> bool \<Rightarrow> SafetyCheck" where
  "check_safe_step step force authorized =
     (if is_safe_rerun_step step \<or> authorized
      then pass ''safe_step'' (''step '' @ step @ '' is explicitly authorized for this rerun'')
      else fail_check ''safe_step''
             (''step '' @ step @ '' is not safe to re-run'' @
              (if force then ''; --force cannot bypass rerun safety'' else '''')))"

definition reopen_status_is_allowed :: "RunMetadata \<Rightarrow> ContinuationRequest \<Rightarrow> bool" where
  "reopen_status_is_allowed md rq \<longleftrightarrow>
     \<not> is_ownership_denied_terminal md \<and>
     (run_is_resumable (rm_status md) \<or> rm_status md = RRunning \<or> cleanup_recovery_requested md rq)"

definition validate_continuation ::
  "ContinuationEnv \<Rightarrow> WaitDb \<Rightarrow> ContinuationRequest \<Rightarrow> ContinuationValidation" where
  "validate_continuation env db rq =
     (let found = get_run_with_conn (cq_run_id rq) (db_runs db);
          exists = check_run_exists found (cq_run_id rq)
      in case found of
           None \<Rightarrow> from_checks [exists]
         | Some md \<Rightarrow>
             (let selection = select_checkpoint env (db_checkpoints db) rq md
              in from_checks
                   ([exists, check_workflow_resolvable md, check_resumable_status env md rq,
                     check_identity_recoverable md, check_workspace env md,
                     check_checkpoint_exists selection] @
                    (case selection of
                       Ok cp \<Rightarrow>
                         [check_safe_step (cp_step_id cp) (cq_force rq) (checkpoint_is_authorized env db md rq cp)]
                     | Err _ \<Rightarrow> []))))"

section \<open>Commit\<close>

definition continuation_expected_statuses :: "LeaseStatus list" where
  "continuation_expected_statuses =
     [LClaimed, LRunning, LWaitingExternal, LReadyToResume, LFailed, LAbandoned, LCleanupAbandoned, LStale]"

definition continuation_target_status :: "ContinuationKind \<Rightarrow> LeaseStatus" where
  "continuation_target_status kind = (case kind of KRewind _ \<Rightarrow> LReadyToResume | _ \<Rightarrow> LRunning)"

definition acquire_continuation_lease ::
  "ContinuationEnv \<Rightarrow> RunMetadata \<Rightarrow> ContinuationRequest \<Rightarrow> lease_table \<Rightarrow> (lease_table, ContinuationError) result" where
  "acquire_continuation_lease env md rq ls =
     (case (rm_repository md, issue_lease_number md) of
        (Some repo, Some n) \<Rightarrow>
          (case get_lease_for_issue repo n ls of
             Err e \<Rightarrow> Err (CPersistence (ce_sql_text env e))
           | Ok None \<Rightarrow>
               Err (InvalidTarget
                 (''run '' @ cq_run_id rq @ '' references '' @ repo @ ''#'' @ nat_to_string (unat n) @
                  '' but no issue lease exists; the durable claim is missing and continuation cannot proceed authoritatively''))
           | Ok (Some lease) \<Rightarrow>
               (case il_run_id lease of
                  None \<Rightarrow>
                    Err (InvalidTarget (''issue lease '' @ il_lease_id lease @ '' is active without a run owner''))
                | Some owner \<Rightarrow>
                    (if owner \<noteq> cq_run_id rq
                     then Err (InvalidTarget
                            (''issue lease '' @ il_lease_id lease @ '' belongs to run '' @ owner @
                             '' rather than '' @ cq_run_id rq))
                     else
                      (case update_lease_status_conditional (ce_now env) (il_lease_id lease)
                              (continuation_target_status (cq_kind rq)) continuation_expected_statuses
                              (Some (cq_run_id rq)) (Some (cq_run_id rq)) ls of
                         Err e \<Rightarrow> Err (CPersistence (ce_sql_text env e))
                       | Ok (ls', acquired) \<Rightarrow>
                           (if \<not> acquired
                            then Err (InvalidTarget
                                   (''issue lease '' @ il_lease_id lease @
                                    '' could not be acquired for continuation''))
                            else Ok ls')))))
      | _ \<Rightarrow> Ok ls)"

definition ensure_reopen_claim_is_available ::
  "ContinuationEnv \<Rightarrow> RunMetadata \<Rightarrow> ContinuationRequest \<Rightarrow> lease_table \<Rightarrow> (lease_table, ContinuationError) result" where
  "ensure_reopen_claim_is_available env md rq ls =
     (if \<not> reopen_status_is_allowed md rq
      then Err (InvalidTarget
             (''run '' @ cq_run_id rq @ '' status '' @ run_status_to_string (rm_status md) @
              '' is not resumable; terminal states other than failed cannot be continued''))
      else
       (case acquire_continuation_lease env md rq ls of
          Err e \<Rightarrow> Err e
        | Ok ls' \<Rightarrow>
            (case (if rm_status md = RRunning then live_workflow_pid env md else None) of
               Some pid \<Rightarrow>
                 Err (InvalidTarget
                   (''run '' @ cq_run_id rq @ '' is already running with live workflow PID '' @
                    nat_to_string (unat pid)))
             | None \<Rightarrow>
                 (case live_child_pid env md of
                    Some pid \<Rightarrow>
                      Err (InvalidTarget
                        (''run '' @ cq_run_id rq @ '' still has live child PID '' @ nat_to_string (unat pid)))
                  | None \<Rightarrow>
                      (if \<not> is_cleanup_failure_abandonment md then Ok ls'
                       else
                        (case rm_workspace_path md of
                           None \<Rightarrow>
                             Err (InvalidTarget
                               (''run '' @ cq_run_id rq @ '' preserved workspace is missing or invalid''))
                         | Some path \<Rightarrow>
                             (let c = check_cleanup_workspace_ownership env path md
                              in if sc_passed c then Ok ls'
                                 else Err (InvalidTarget (''run '' @ cq_run_id rq @ '': '' @ sc_detail c)))))))))"

definition reopen_run ::
  "ContinuationEnv \<Rightarrow> ContinuationRequest \<Rightarrow> string \<Rightarrow> RunMetadata \<Rightarrow> WaitDb \<Rightarrow> WaitDb \<times> RunMetadata" where
  "reopen_run env rq step md0 db =
     (let now = ce_now env;
          prior_status = rm_status md0;
          md1 = (if is_cleanup_failure_abandonment md0
                 then md0\<lparr>rm_failure_cleanup :=
                        map_option (\<lambda>f. f\<lparr>fc_recovery_consumed_at := Some now\<rparr>) (rm_failure_cleanup md0)\<rparr>
                 else md0);
          md2 = reopen now (ce_pid env) md1;
          md3 = (if prior_status = RReadyToResume then clear_child_pids now md2 else md2);
          md = set_current_step now step md3;
          failure_identity =
            (case rm_failure_cleanup md of None \<Rightarrow> ''none'' | Some f \<Rightarrow> fc_failed_checkpoint_id f);
          detail = ''continuation='' @ kind_verb (cq_kind rq) @ '' force='' @
                   (if cq_force rq then ''true'' else ''false'') @
                   '' from_status='' @ run_status_to_string prior_status @ '' resume_step='' @ step @
                   '' failure_checkpoint='' @ failure_identity
      in (db\<lparr>db_runs := persist_run_with_conn md (db_runs db),
             db_events := append_typed_event_with_conn (cq_run_id rq) step ''reopened'' EvStepStart
                            (Some detail) now (db_events db)\<rparr>, md))"

definition consume_durable_wait ::
  "ContinuationEnv \<Rightarrow> ContinuationRequest \<Rightarrow> Checkpoint \<Rightarrow> wait_table \<Rightarrow> (wait_table, ContinuationError) result" where
  "consume_durable_wait env rq selected ws =
     (if cq_kind rq \<noteq> KResume then Ok ws
      else
       (case get_wait_state (cq_run_id rq) ws of
          None \<Rightarrow> Ok ws
        | Some wait \<Rightarrow>
            (let current_identity = checkpoint_identity env selected
             in if ws_checkpoint_id wait \<noteq> current_identity
                then Err (InvalidTarget
                       (''durable wait checkpoint identity changed before commit: expected '' @
                        current_identity @ '', found '' @ ws_checkpoint_id wait))
                else if ws_resume_step wait \<noteq> cp_step_id selected
                then Err (InvalidTarget
                       (''durable wait resume step changed before commit: expected '' @
                        cp_step_id selected @ '', found '' @ ws_resume_step wait))
                else
                 (case delete_wait_state_for_suspension (cq_run_id rq) (ws_suspension_id wait) ws of
                    (ws', deleted) \<Rightarrow>
                      (if \<not> deleted
                       then Err (InvalidTarget ''durable wait suspension changed before commit'')
                       else Ok ws')))))"

definition rearm_metadata :: "string \<Rightarrow> string \<Rightarrow> RunMetadata \<Rightarrow> RunMetadata" where
  "rearm_metadata current_identity committed_identity md =
     md\<lparr>rm_continuation_rearm_checkpoint_id := Some committed_identity,
        rm_failure_cleanup :=
          map_option (\<lambda>f. if fc_failed_checkpoint_id f = current_identity
                          then f\<lparr>fc_failed_checkpoint_id := committed_identity\<rparr> else f)
            (rm_failure_cleanup md)\<rparr>"

definition commit_continuation_in_transaction ::
  "ContinuationEnv \<Rightarrow> ContinuationRequest \<Rightarrow> string \<Rightarrow> WaitDb \<Rightarrow> (WaitDb \<times> RunMetadata, ContinuationError) result" where
  "commit_continuation_in_transaction env rq bound_identity db =
     (case get_run_with_conn (cq_run_id rq) (db_runs db) of
        None \<Rightarrow> Err (CRunNotFound (cq_run_id rq))
      | Some md \<Rightarrow>
          (case ensure_reopen_claim_is_available env md rq (db_leases db) of
             Err e \<Rightarrow> Err e
           | Ok leases \<Rightarrow>
               (case select_checkpoint env (db_checkpoints db) rq md of
                  Err e \<Rightarrow> Err e
                | Ok selected \<Rightarrow>
                    (let current_identity = checkpoint_identity env selected
                     in if current_identity \<noteq> bound_identity
                        then Err (InvalidTarget
                               (''continuation checkpoint identity changed before commit: expected '' @
                                bound_identity @ '', selected '' @ current_identity))
                        else
                         (case consume_durable_wait env rq selected (db_waits db) of
                            Err e \<Rightarrow> Err e
                          | Ok waits \<Rightarrow>
                              (let db1 = db\<lparr>db_leases := leases, db_waits := waits\<rparr>;
                                   authorized = checkpoint_is_authorized env db1 md rq selected;
                                   safety = check_safe_step (cp_step_id selected) (cq_force rq) authorized
                               in if \<not> sc_passed safety then Err (InvalidTarget (sc_detail safety))
                                  else
                                   (case set_resume_point (ce_now env) (cq_run_id rq) (cp_step_id selected)
                                           (db_checkpoints db1) of
                                      Err e \<Rightarrow> Err (CPersistence (persistence_error_text e))
                                    | Ok (cps, resume_timestamp) \<Rightarrow>
                                        (let committed_identity =
                                               cp_step_id selected @ ''@'' @ ce_rfc3339 env resume_timestamp
                                         in Ok (reopen_run env rq (cp_step_id selected)
                                                  (rearm_metadata current_identity committed_identity md)
                                                  (db1\<lparr>db_checkpoints := cps\<rparr>))))))))))"

definition commit_continuation ::
  "ContinuationEnv \<Rightarrow> ContinuationRequest \<Rightarrow> string \<Rightarrow> WaitDb \<Rightarrow> WaitDb \<times> (RunMetadata, ContinuationError) result" where
  "commit_continuation env rq bound_identity db =
     (case commit_continuation_in_transaction env rq bound_identity db of
        Ok (db', md) \<Rightarrow> (db', Ok md)
      | Err e \<Rightarrow> (db, Err e))"

section \<open>Plan and artifacts\<close>

definition continuation_artifact_dir :: "string \<Rightarrow> RunMetadata \<Rightarrow> string \<Rightarrow> string" where
  "continuation_artifact_dir artifacts_root md run =
     path_join (path_join (case rm_artifact_root md of Some root \<Rightarrow> root | None \<Rightarrow> artifacts_root)
                  ''continuation'') run"

definition rewind_target_json :: "ContinuationKind \<Rightarrow> json" where
  "rewind_target_json kind =
     (case kind of
        KRewind (ToStep step) \<Rightarrow> JObj [(''to_step'', JStr step)]
      | KRewind (ToCheckpoint i) \<Rightarrow> JObj [(''to_checkpoint'', JStr i)]
      | _ \<Rightarrow> JNull)"

definition request_artifact :: "ContinuationEnv \<Rightarrow> ContinuationRequest \<Rightarrow> json" where
  "request_artifact env rq =
     JObj [(''run_id'', JStr (cq_run_id rq)), (''kind'', JStr (kind_verb (cq_kind rq))),
           (''from_failed_step'', JBool (cq_kind rq = KRetry True)),
           (''rewind_target'', rewind_target_json (cq_kind rq)), (''force'', JBool (cq_force rq)),
           (''requested_at'', JStr (ce_rfc3339 env (ce_now env))),
           (''why'', JStr ''operator-initiated continuation of a failed or waiting run'')]"

definition validation_artifact :: "ContinuationEnv \<Rightarrow> ContinuationValidation \<Rightarrow> json" where
  "validation_artifact env v =
     JObj [(''ok'', JBool (cv_ok v)),
           (''checks'', JArr (map (\<lambda>c. JObj [(''name'', JStr (sc_name c)), (''passed'', JBool (sc_passed c)),
                                              (''detail'', JStr (sc_detail c))]) (cv_checks v))),
           (''validated_at'', JStr (ce_rfc3339 env (ce_now env)))]"

definition checkpoint_members :: "ContinuationEnv \<Rightarrow> Checkpoint \<Rightarrow> (string \<times> json) list" where
  "checkpoint_members env cp =
     [(''step_id'', JStr (cp_step_id cp)), (''checkpoint_id'', JStr (checkpoint_identity env cp)),
      (''status'', JStr (ss_status (cp_state_snapshot cp))),
      (''timestamp'', JStr (ce_rfc3339 env (cp_timestamp cp))),
      (''loop_count'', JInt (uint (ss_loop_count (cp_state_snapshot cp)))),
      (''retry_count'', JInt (uint (ss_retry_count (cp_state_snapshot cp))))]"

definition selection_artifact :: "ContinuationEnv \<Rightarrow> Checkpoint \<Rightarrow> json" where
  "selection_artifact env cp = JObj ((''phase'', JStr ''planned'') # checkpoint_members env cp)"

definition committed_selection_artifact :: "ContinuationEnv \<Rightarrow> string \<Rightarrow> Checkpoint \<Rightarrow> json" where
  "committed_selection_artifact env planned cp =
     JObj ((''phase'', JStr ''committed'') # (''planned_checkpoint_id'', JStr planned) # checkpoint_members env cp)"

definition result_artifact_name :: "ContinuationKind \<Rightarrow> string" where
  "result_artifact_name kind = (case kind of KRetry _ \<Rightarrow> ''retry-result.json'' | _ \<Rightarrow> ''resume-result.json'')"

definition result_artifact ::
  "ContinuationEnv \<Rightarrow> ContinuationKind \<Rightarrow> string \<Rightarrow> string \<Rightarrow> string option \<Rightarrow> json" where
  "result_artifact env kind status_label resumed_step external_state =
     JObj [(''kind'', JStr (kind_verb kind)), (''resumed_step'', JStr resumed_step),
           (''status'', JStr status_label),
           (''external_state_observed'', (case external_state of Some s \<Rightarrow> JStr s | None \<Rightarrow> JNull)),
           (''completed_at'', JStr (ce_rfc3339 env (ce_now env)))]"

record ContinuationPlan =
  cn_validation :: ContinuationValidation
  cn_selected :: "Checkpoint option"
  cn_checkpoint_identity :: string
  cn_artifact_dir :: string

text \<open>The artifact writer returns the text of the I/O error, if any.\<close>

type_synonym artifact_writer = "string \<Rightarrow> string \<Rightarrow> json \<Rightarrow> string option"

definition write_json_artifact ::
  "artifact_writer \<Rightarrow> string \<Rightarrow> string \<Rightarrow> json \<Rightarrow> (string, ContinuationError) result" where
  "write_json_artifact w dir name v =
     (case w dir name v of Some e \<Rightarrow> Err (CPersistence e) | None \<Rightarrow> Ok (path_join dir name))"

definition prepare_continuation ::
  "ContinuationEnv \<Rightarrow> artifact_writer \<Rightarrow> string \<Rightarrow> WaitDb \<Rightarrow> ContinuationRequest \<Rightarrow> RunMetadata \<Rightarrow>
   (ContinuationPlan, ContinuationError) result" where
  "prepare_continuation env w artifacts_root db rq md =
     (let dir = continuation_artifact_dir artifacts_root md (cq_run_id rq)
      in case write_json_artifact w dir ''continuation-request.json'' (request_artifact env rq) of
           Err e \<Rightarrow> Err e
         | Ok _ \<Rightarrow>
             (let validation = validate_continuation env db rq
              in case write_json_artifact w dir ''continuation-validation.json'' (validation_artifact env validation) of
                   Err e \<Rightarrow> Err e
                 | Ok _ \<Rightarrow>
                     (if \<not> cv_ok validation
                      then Ok \<lparr>cn_validation = validation, cn_selected = None, cn_checkpoint_identity = [],
                               cn_artifact_dir = dir\<rparr>
                      else
                       (case select_checkpoint env (db_checkpoints db) rq md of
                          Err e \<Rightarrow> Err e
                        | Ok cp \<Rightarrow>
                            (case write_json_artifact w dir ''checkpoint-selection.json'' (selection_artifact env cp) of
                               Err e \<Rightarrow> Err e
                             | Ok _ \<Rightarrow>
                                 Ok \<lparr>cn_validation = validation, cn_selected = Some cp,
                                     cn_checkpoint_identity = checkpoint_identity env cp,
                                     cn_artifact_dir = dir\<rparr>)))))"

end
