(* ===== verification/Continuation_Properties.thy ===== *)
theory Continuation_Properties
  imports Continuation
begin

text \<open>
  What a continuation guarantees: it selects a checkpoint of its own run, commits only the
  checkpoint bound at plan time and only for the owner of the issue lease, either changes exactly
  the run's own rows or nothing, excludes a second continuation while its process lives, and a
  plan that validated is not refused by the commit for a reason the plan could see.
\<close>

section \<open>Selection\<close>

named_theorems checkpoint_of_run

lemma find_SomeD: "find P xs = Some x \<Longrightarrow> x \<in> set xs \<and> P x"
  by (auto simp: find_Some_iff)

lemma newest_resumable_member [checkpoint_of_run]:
  "newest_resumable cps = Some cp \<Longrightarrow> cp \<in> set cps"
  by (auto simp: newest_resumable_def dest: find_SomeD)

lemma position_less: "position P xs = Some i \<Longrightarrow> i < length xs"
  by (induction xs arbitrary: i) (auto split: if_splits)

lemma load_checkpoint_before_step_member [checkpoint_of_run]:
  assumes "load_checkpoint_before_step run step rows = Some cp"
  shows "cp \<in> set (list_checkpoints run rows)"
proof -
  obtain i where i: "position (\<lambda>cp. cp_step_id cp = step) (list_checkpoints run rows) = Some i"
    "cp = list_checkpoints run rows ! (i - 1)"
    using assms by (auto simp: load_checkpoint_before_step_def Let_def split: option.splits if_splits)
  then have "i - 1 < length (list_checkpoints run rows)"
    using position_less by fastforce
  then show ?thesis using i(2) by simp
qed

lemma get_checkpoint_for_step_member [checkpoint_of_run]:
  "get_checkpoint_for_step run step rows = Some cp \<Longrightarrow>
     cp \<in> set (list_checkpoints run rows) \<and> cp_step_id cp = step"
  by (auto simp: get_checkpoint_for_step_def dest: find_SomeD)

lemma select_rewind_member [checkpoint_of_run]:
  "select_rewind_checkpoint env rows run target = Ok cp \<Longrightarrow> cp \<in> set (list_checkpoints run rows)"
  by (cases target; cases "parse_checkpoint_identity_target env (case target of ToCheckpoint i \<Rightarrow> i | ToStep s \<Rightarrow> s)")
    (auto simp: select_rewind_checkpoint_def split: option.splits if_splits dest: get_checkpoint_for_step_member)

lemma select_failed_cleanup_member [checkpoint_of_run]:
  "select_failed_cleanup_checkpoint env rows run md = Ok (Some cp) \<Longrightarrow>
     cp \<in> set (list_checkpoints run rows)"
  by (auto simp: select_failed_cleanup_checkpoint_def Let_def split: option.splits if_splits result.splits
      dest: select_rewind_member)

lemma select_resume_member [checkpoint_of_run]:
  "select_resume_checkpoint env rows run md = Ok cp \<Longrightarrow> cp \<in> set (list_checkpoints run rows)"
  by (auto simp: select_resume_checkpoint_def Let_def split: option.splits if_splits result.splits
      dest: checkpoint_of_run)

lemma select_checkpoint_member:
  assumes "select_checkpoint env rows rq md = Ok cp"
  shows "cp \<in> set (list_checkpoints (cq_run_id rq) rows)"
  using assms
  by (auto simp: select_checkpoint_def select_retry_checkpoint_def
      split: ContinuationKind.splits option.splits if_splits result.splits
      dest: select_resume_member select_rewind_member select_failed_cleanup_member find_SomeD)

lemma list_checkpoints_row:
  assumes "cp \<in> set (list_checkpoints run rows)"
  obtains r where "r \<in> set rows" "cr_run_id r = run" "cp = checkpoint_of_row r"
    "checkpoint_key r = (run, cp_step_id cp)"
  using assms by (auto simp: list_checkpoints_def checkpoint_of_row_def)

lemma selected_run:
  "select_checkpoint env rows rq md = Ok cp \<Longrightarrow> cp_run_id cp = cq_run_id rq"
  by (drule select_checkpoint_member, elim list_checkpoints_row) (simp add: checkpoint_of_row_def)

text \<open>The stamp of the resume point cannot fail for a selected checkpoint.\<close>

lemma selected_resume_point:
  assumes "select_checkpoint env rows rq md = Ok cp"
  shows "set_resume_point now (cq_run_id rq) (cp_step_id cp) rows =
    Ok (update_where (\<lambda>r. checkpoint_key r = (cq_run_id rq, cp_step_id cp))
          (\<lambda>r. r\<lparr>cr_status := CHECKPOINT_STATUS_READY_TO_RESUME, cr_timestamp := now\<rparr>) rows, now)"
proof -
  obtain r where "r \<in> set rows" "checkpoint_key r = (cq_run_id rq, cp_step_id cp)"
    using select_checkpoint_member[OF assms] by (elim list_checkpoints_row)
  then show ?thesis
    by (auto simp: set_resume_point_def Let_def count_where_0)
qed

section \<open>The claim of the run\<close>

text \<open>What the lease step needs, and what it changes: only the row of the run's own issue.\<close>

definition lease_acquirable :: "RunMetadata \<Rightarrow> string \<Rightarrow> lease_table \<Rightarrow> bool" where
  "lease_acquirable md run ls \<longleftrightarrow>
     (case (rm_repository md, issue_lease_number md) of
        (Some repo, Some n) \<Rightarrow>
          (case lookup_by lease_key (repo, n) ls of
             Some l \<Rightarrow> il_run_id l = Some run \<and> il_status l \<in> set continuation_expected_statuses
           | None \<Rightarrow> False)
      | _ \<Rightarrow> True)"

lemma expected_status_iff:
  "st \<in> set continuation_expected_statuses \<longleftrightarrow> st \<noteq> LCompleted \<and> st \<noteq> LPending"
  by (cases st) (simp_all add: continuation_expected_statuses_def)

lemma update_where_cong_on:
  "(\<And>r. r \<in> set rows \<Longrightarrow> P r \<longleftrightarrow> Q r) \<Longrightarrow> update_where P f rows = update_where Q f rows"
  by (auto simp: update_where_def)

text \<open>
  With unique lease rows the lease step succeeds exactly when the issue's lease is acquirable,
  and then rewrites the one row of that issue.
\<close>

definition acquired_leases :: "ContinuationEnv \<Rightarrow> RunMetadata \<Rightarrow> ContinuationRequest \<Rightarrow> lease_table \<Rightarrow> lease_table" where
  "acquired_leases env md rq ls =
     (case (rm_repository md, issue_lease_number md) of
        (Some repo, Some n) \<Rightarrow>
          update_where (\<lambda>l. lease_key l = (repo, n))
            (set_lease_status (ce_now env) (continuation_target_status (cq_kind rq)) (Some (cq_run_id rq))) ls
      | _ \<Rightarrow> ls)"

lemma acquire_continuation_lease_iff:
  assumes "lease_table_ok ls" and "cq_run_id rq \<noteq> []"
  shows "acquire_continuation_lease env md rq ls = Ok ls' \<longleftrightarrow>
     lease_acquirable md (cq_run_id rq) ls \<and> ls' = acquired_leases env md rq ls"
proof (cases "\<exists>repo n. rm_repository md = Some repo \<and> issue_lease_number md = Some n")
  case False
  then show ?thesis
    by (auto simp: acquire_continuation_lease_def lease_acquirable_def acquired_leases_def split: option.splits)
next
  case True
  then obtain repo n where rn: "rm_repository md = Some repo" "issue_lease_number md = Some n" by blast
  obtain i where i: "issue_number_to_sql_i64 n = Ok i" using issue_lease_number_fits[OF rn(2)] by blast
  show ?thesis
  proof (cases "lookup_by lease_key (repo, n) ls")
    case None
    then show ?thesis
      using rn i by (simp add: acquire_continuation_lease_def lease_acquirable_def get_lease_for_issue_def)
  next
    case (Some l)
    then have l: "l \<in> set ls" "lease_key l = (repo, n)" by (auto dest: lookup_by_SomeD)
    let ?g = "cond_guard (il_lease_id l) continuation_expected_statuses (Some (cq_run_id rq))"
    have by_id: "il_lease_id x = il_lease_id l \<longleftrightarrow> x = l" if "x \<in> set ls" for x
      using that l(1) assms(1) by (meson lease_table_ok_def unique_keyD)
    have by_key: "lease_key x = (repo, n) \<longleftrightarrow> x = l" if "x \<in> set ls" for x
      using that l assms(1) by (metis lease_table_ok_def unique_keyD)
    have guard: "?g x \<longleftrightarrow> x = l \<and> ?g l" if "x \<in> set ls" for x
      using by_id[OF that] by (auto simp: cond_guard_def)
    have same: "update_where ?g f ls = update_where (\<lambda>x. lease_key x = (repo, n)) f ls" if "?g l" for f
      by (rule update_where_cong_on) (metis guard by_key that)
    have cnt: "0 < count_where ?g ls \<longleftrightarrow> ?g l"
      unfolding count_where_pos using guard l(1) by metis
    have upd: "update_lease_status_conditional (ce_now env) (il_lease_id l) st continuation_expected_statuses
        (Some (cq_run_id rq)) (Some (cq_run_id rq)) ls =
        Ok (update_where ?g (set_lease_status (ce_now env) st (Some (cq_run_id rq))) ls, ?g l)" for st
      using assms(2) cnt by (simp add: update_lease_status_conditional_def continuation_expected_statuses_def)
    have acq: "lease_acquirable md (cq_run_id rq) ls \<longleftrightarrow> ?g l"
      using rn Some by (auto simp: lease_acquirable_def cond_guard_def)
    show ?thesis
    proof (cases "?g l")
      case True
      then have "il_run_id l = Some (cq_run_id rq)" by (simp add: cond_guard_def)
      then show ?thesis
        using rn i Some acq True
        by (auto simp: acquire_continuation_lease_def get_lease_for_issue_def upd acquired_leases_def same[OF True])
    next
      case False
      then show ?thesis
        using rn i Some acq
        by (simp add: acquire_continuation_lease_def get_lease_for_issue_def upd split: option.split)
    qed
  qed
qed

text \<open>No process of the run lives, and a preserved workspace is still the run's own.\<close>

definition reopen_claim_free :: "ContinuationEnv \<Rightarrow> RunMetadata \<Rightarrow> ContinuationRequest \<Rightarrow> bool" where
  "reopen_claim_free env md rq \<longleftrightarrow>
     reopen_status_is_allowed md rq \<and>
     (rm_status md = RRunning \<longrightarrow> live_workflow_pid env md = None) \<and> live_child_pid env md = None \<and>
     (is_cleanup_failure_abandonment md \<longrightarrow>
        (case rm_workspace_path md of
           Some p \<Rightarrow> sc_passed (check_cleanup_workspace_ownership env p md) | None \<Rightarrow> False))"

lemma ensure_reopen_claim_iff:
  assumes "lease_table_ok ls" and "cq_run_id rq \<noteq> []"
  shows "ensure_reopen_claim_is_available env md rq ls = Ok ls' \<longleftrightarrow>
     reopen_claim_free env md rq \<and> lease_acquirable md (cq_run_id rq) ls \<and> ls' = acquired_leases env md rq ls"
proof -
  note iff = acquire_continuation_lease_iff[OF assms, of env md]
  show ?thesis
  proof (cases "acquire_continuation_lease env md rq ls")
    case (Err e)
    then have "\<not> lease_acquirable md (cq_run_id rq) ls"
      using iff[of "acquired_leases env md rq ls"] by simp
    with Err show ?thesis by (simp add: ensure_reopen_claim_is_available_def)
  next
    case (Ok ls0)
    then have ls0: "lease_acquirable md (cq_run_id rq) ls" "ls0 = acquired_leases env md rq ls"
      using iff[of ls0] by simp_all
    show ?thesis
      unfolding ensure_reopen_claim_is_available_def Ok reopen_claim_free_def
      using ls0 by (auto simp: Let_def split: option.splits if_splits)
  qed
qed

definition wait_matches :: "ContinuationEnv \<Rightarrow> ContinuationRequest \<Rightarrow> Checkpoint \<Rightarrow> wait_table \<Rightarrow> bool" where
  "wait_matches env rq cp ws \<longleftrightarrow>
     (cq_kind rq = KResume \<longrightarrow>
        (case get_wait_state (cq_run_id rq) ws of
           Some w \<Rightarrow> ws_checkpoint_id w = checkpoint_identity env cp \<and> ws_resume_step w = cp_step_id cp
         | None \<Rightarrow> True))"

definition consumed_waits :: "ContinuationRequest \<Rightarrow> wait_table \<Rightarrow> wait_table" where
  "consumed_waits rq ws =
     (if cq_kind rq = KResume then filter (\<lambda>w. ws_run_id w \<noteq> cq_run_id rq) ws else ws)"

lemma consume_durable_wait_iff:
  assumes "unique_key ws_run_id ws"
  shows "consume_durable_wait env rq cp ws = Ok ws' \<longleftrightarrow>
     wait_matches env rq cp ws \<and> ws' = consumed_waits rq ws"
proof (cases "cq_kind rq = KResume")
  case False
  then show ?thesis by (auto simp: consume_durable_wait_def wait_matches_def consumed_waits_def)
next
  case True
  show ?thesis
  proof (cases "lookup_by ws_run_id (cq_run_id rq) ws")
    case None
    then have "filter (\<lambda>w. ws_run_id w \<noteq> cq_run_id rq) ws = ws"
      unfolding lookup_by_None by (intro filter_True ballI) (metis image_eqI)
    with None True show ?thesis
      by (auto simp: consume_durable_wait_def wait_matches_def consumed_waits_def get_wait_state_def)
  next
    case (Some w)
    then have w: "w \<in> set ws" "ws_run_id w = cq_run_id rq" by (auto dest: lookup_by_SomeD)
    have only: "ws_run_id x = cq_run_id rq \<longleftrightarrow> x = w" if "x \<in> set ws" for x
      using that w assms by (metis unique_keyD)
    have flt: "filter (\<lambda>x. \<not> (ws_run_id x = cq_run_id rq \<and> ws_suspension_id x = ws_suspension_id w)) ws =
      filter (\<lambda>x. ws_run_id x \<noteq> cq_run_id rq) ws"
      by (rule filter_cong[OF refl]) (metis only)
    have cnt: "0 < count_where (\<lambda>x. ws_run_id x = cq_run_id rq \<and> ws_suspension_id x = ws_suspension_id w) ws"
      unfolding count_where_pos using w by blast
    have del: "delete_wait_state_for_suspension (cq_run_id rq) (ws_suspension_id w) ws =
      (filter (\<lambda>x. ws_run_id x \<noteq> cq_run_id rq) ws, True)"
      using flt cnt by (simp add: delete_wait_state_for_suspension_def)
    show ?thesis
      using True Some
      by (auto simp: consume_durable_wait_def wait_matches_def consumed_waits_def get_wait_state_def Let_def del)
  qed
qed

section \<open>The commit\<close>

text \<open>
  The commit stated without its sequence of steps: the conditions it stands on, and the database
  and record it leaves. The durable wait is gone when authorization is decided.
\<close>

definition db_after_wait :: "ContinuationRequest \<Rightarrow> WaitDb \<Rightarrow> WaitDb" where
  "db_after_wait rq db = db\<lparr>db_waits := consumed_waits rq (db_waits db)\<rparr>"

definition continuation_granted ::
  "ContinuationEnv \<Rightarrow> ContinuationRequest \<Rightarrow> string \<Rightarrow> WaitDb \<Rightarrow> RunMetadata \<Rightarrow> Checkpoint \<Rightarrow> bool" where
  "continuation_granted env rq bound_identity db md cp \<longleftrightarrow>
     get_run_with_conn (cq_run_id rq) (db_runs db) = Some md \<and> reopen_claim_free env md rq \<and>
     lease_acquirable md (cq_run_id rq) (db_leases db) \<and>
     select_checkpoint env (db_checkpoints db) rq md = Ok cp \<and> checkpoint_identity env cp = bound_identity \<and>
     wait_matches env rq cp (db_waits db) \<and>
     (is_safe_rerun_step (cp_step_id cp) \<or> checkpoint_is_authorized env (db_after_wait rq db) md rq cp)"

definition continued_run :: "ContinuationEnv \<Rightarrow> ContinuationRequest \<Rightarrow> Checkpoint \<Rightarrow> RunMetadata \<Rightarrow> RunMetadata" where
  "continued_run env rq cp md =
     (let armed = cp_step_id cp @ ''@'' @ ce_rfc3339 env (ce_now env)
      in md\<lparr>rm_status := RRunning, rm_process_pid := Some (ce_pid env), rm_updated_at := Some (ce_now env),
            rm_child_pids := (if rm_status md = RReadyToResume then [] else rm_child_pids md),
            rm_current_step := Some (cp_step_id cp), rm_continuation_rearm_checkpoint_id := Some armed,
            rm_failure_cleanup :=
              map_option (\<lambda>f. f\<lparr>fc_failed_checkpoint_id :=
                                  (if fc_failed_checkpoint_id f = checkpoint_identity env cp then armed
                                   else fc_failed_checkpoint_id f),
                                fc_recovery_consumed_at :=
                                  (if is_cleanup_failure_abandonment md then Some (ce_now env)
                                   else fc_recovery_consumed_at f)\<rparr>) (rm_failure_cleanup md)\<rparr>)"

definition reopened_detail :: "ContinuationRequest \<Rightarrow> RunMetadata \<Rightarrow> RunMetadata \<Rightarrow> string \<Rightarrow> string" where
  "reopened_detail rq before after step =
     ''continuation='' @ kind_verb (cq_kind rq) @ '' force='' @
     (if cq_force rq then ''true'' else ''false'') @
     '' from_status='' @ run_status_to_string (rm_status before) @ '' resume_step='' @ step @
     '' failure_checkpoint='' @
     (case rm_failure_cleanup after of None \<Rightarrow> ''none'' | Some f \<Rightarrow> fc_failed_checkpoint_id f)"

definition continued_db ::
  "ContinuationEnv \<Rightarrow> ContinuationRequest \<Rightarrow> WaitDb \<Rightarrow> RunMetadata \<Rightarrow> Checkpoint \<Rightarrow> WaitDb" where
  "continued_db env rq db md cp =
     (let after = continued_run env rq cp md
      in db\<lparr>db_leases := acquired_leases env md rq (db_leases db),
            db_waits := consumed_waits rq (db_waits db),
            db_checkpoints :=
              update_where (\<lambda>r. checkpoint_key r = (cq_run_id rq, cp_step_id cp))
                (\<lambda>r. r\<lparr>cr_status := CHECKPOINT_STATUS_READY_TO_RESUME, cr_timestamp := ce_now env\<rparr>)
                (db_checkpoints db),
            db_runs := persist_run_with_conn after (db_runs db),
            db_events := db_events db @
              [\<lparr>ev_run_id = cq_run_id rq, ev_step_id = cp_step_id cp, ev_outcome = ''reopened'',
                ev_event_type = event_type_to_string EvStepStart,
                ev_details = Some (reopened_detail rq md after (cp_step_id cp)),
                ev_timestamp = ce_now env\<rparr>]\<rparr>)"

text \<open>A re-armed record keeps what the reopening looks at.\<close>

lemma failed_checkpoint_rearm_complete [simp]:
  "armed \<noteq> [] \<Longrightarrow> fc_failed_checkpoint_id f \<noteq> [] \<Longrightarrow>
     fc_is_complete (f\<lparr>fc_failed_checkpoint_id := armed\<rparr>) \<longleftrightarrow> fc_is_complete f"
  by (simp add: fc_is_complete_def)

lemma rearm_abandonment:
  assumes "armed \<noteq> []" and "current \<noteq> []"
  shows "is_cleanup_failure_abandonment (rearm_metadata current armed md) = is_cleanup_failure_abandonment md"
  using assms
  by (auto simp: is_cleanup_failure_abandonment_def rearm_metadata_def split: option.split)

lemma checkpoint_identity_nonempty [simp]: "checkpoint_identity env cp \<noteq> []"
  by (simp add: checkpoint_identity_def)

lemma rearm_metadata_simps [simp]:
  "rm_status (rearm_metadata c a md) = rm_status md"
  "rm_child_pids (rearm_metadata c a md) = rm_child_pids md"
  by (simp_all add: rearm_metadata_def)

lemma reopen_run_continued:
  "reopen_run env rq (cp_step_id cp)
      (rearm_metadata (checkpoint_identity env cp) (cp_step_id cp @ ''@'' @ ce_rfc3339 env (ce_now env)) md) db1 =
   (db1\<lparr>db_runs := persist_run_with_conn (continued_run env rq cp md) (db_runs db1),
        db_events := append_typed_event_with_conn (cq_run_id rq) (cp_step_id cp) ''reopened'' EvStepStart
          (Some (reopened_detail rq md (continued_run env rq cp md) (cp_step_id cp))) (ce_now env) (db_events db1)\<rparr>,
    continued_run env rq cp md)"
proof -
  let ?armed = "cp_step_id cp @ ''@'' @ ce_rfc3339 env (ce_now env)"
  let ?m = "rearm_metadata (checkpoint_identity env cp) ?armed md"
  have ab: "is_cleanup_failure_abandonment ?m = is_cleanup_failure_abandonment md"
    by (rule rearm_abandonment) simp_all
  have md: "set_current_step (ce_now env) (cp_step_id cp)
      (let md2 = reopen (ce_now env) (ce_pid env)
             (if is_cleanup_failure_abandonment md
              then ?m\<lparr>rm_failure_cleanup := map_option (\<lambda>f. f\<lparr>fc_recovery_consumed_at := Some (ce_now env)\<rparr>)
                    (rm_failure_cleanup ?m)\<rparr>
              else ?m)
       in if rm_status md = RReadyToResume then clear_child_pids (ce_now env) md2 else md2) =
      continued_run env rq cp md"
    by (cases "rm_failure_cleanup md")
      (simp_all add: continued_run_def Let_def rearm_metadata_def set_current_step_def reopen_def clear_child_pids_def)
  show ?thesis
    unfolding reopen_run_def Let_def ab rearm_metadata_simps md[unfolded Let_def] reopened_detail_def
    by (rule refl)
qed

lemma checkpoint_is_authorized_cong:
  assumes "db_waits db = db_waits db'"
  shows "checkpoint_is_authorized env db md rq cp = checkpoint_is_authorized env db' md rq cp"
  unfolding checkpoint_is_authorized_def for_resume_def assms by (rule refl)

lemma checkpoint_is_authorized_leases [simp]:
  "checkpoint_is_authorized env (db\<lparr>db_leases := ls, db_waits := ws\<rparr>) md rq cp =
   checkpoint_is_authorized env (db\<lparr>db_waits := ws\<rparr>) md rq cp"
  by (rule checkpoint_is_authorized_cong) simp

lemma check_safe_step_passed [simp]:
  "sc_passed (check_safe_step step force authorized) \<longleftrightarrow> is_safe_rerun_step step \<or> authorized"
  by (simp add: check_safe_step_def pass_def fail_check_def)

definition continuation_tables_ok :: "ContinuationRequest \<Rightarrow> WaitDb \<Rightarrow> bool" where
  "continuation_tables_ok rq db \<longleftrightarrow>
     lease_table_ok (db_leases db) \<and> unique_key ws_run_id (db_waits db) \<and> cq_run_id rq \<noteq> []"

lemma commit_grants:
  assumes ok: "continuation_tables_ok rq db" and g: "continuation_granted env rq bound db md cp"
  shows "commit_continuation_in_transaction env rq bound db =
    Ok (continued_db env rq db md cp, continued_run env rq cp md)"
proof -
  have g': "get_run_with_conn (cq_run_id rq) (db_runs db) = Some md"
    "select_checkpoint env (db_checkpoints db) rq md = Ok cp" "checkpoint_identity env cp = bound"
    "is_safe_rerun_step (cp_step_id cp) \<or> checkpoint_is_authorized env (db_after_wait rq db) md rq cp"
    using g by (simp_all add: continuation_granted_def)
  have e: "ensure_reopen_claim_is_available env md rq (db_leases db) = Ok (acquired_leases env md rq (db_leases db))"
    using ok g ensure_reopen_claim_iff[of "db_leases db" rq env md]
    by (simp add: continuation_tables_ok_def continuation_granted_def)
  have w: "consume_durable_wait env rq cp (db_waits db) = Ok (consumed_waits rq (db_waits db))"
    using ok g consume_durable_wait_iff[of "db_waits db" env rq cp]
    by (simp add: continuation_tables_ok_def continuation_granted_def)
  show ?thesis
    unfolding commit_continuation_in_transaction_def g'(1,2) e option.case result.case Let_def g'(3) w
      selected_resume_point[OF g'(2)]
    using g'(4)
    by (simp add: g'(2) selected_resume_point[OF g'(2)] db_after_wait_def reopen_run_continued[unfolded append_Cons append_Nil]
        continued_db_def Let_def append_typed_event_with_conn_def flip: g'(3))
qed

lemma commit_needs_grant:
  assumes ok: "continuation_tables_ok rq db"
    and c: "commit_continuation_in_transaction env rq bound db = Ok p"
  shows "\<exists>md cp. continuation_granted env rq bound db md cp"
proof -
  obtain md where md: "get_run_with_conn (cq_run_id rq) (db_runs db) = Some md"
    using c by (cases "get_run_with_conn (cq_run_id rq) (db_runs db)")
      (simp_all add: commit_continuation_in_transaction_def)
  obtain ls where e: "ensure_reopen_claim_is_available env md rq (db_leases db) = Ok ls"
    using c md by (cases "ensure_reopen_claim_is_available env md rq (db_leases db)")
      (simp_all add: commit_continuation_in_transaction_def)
  obtain cp where s: "select_checkpoint env (db_checkpoints db) rq md = Ok cp"
    using c md e by (cases "select_checkpoint env (db_checkpoints db) rq md")
      (simp_all add: commit_continuation_in_transaction_def)
  have i: "checkpoint_identity env cp = bound"
    using c md e s by (rule_tac ccontr) (simp add: commit_continuation_in_transaction_def Let_def)
  obtain ws where w: "consume_durable_wait env rq cp (db_waits db) = Ok ws"
    using c md e s i by (cases "consume_durable_wait env rq cp (db_waits db)")
      (simp_all add: commit_continuation_in_transaction_def Let_def)
  have ws: "wait_matches env rq cp (db_waits db)" "ws = consumed_waits rq (db_waits db)"
    using w ok consume_durable_wait_iff[of "db_waits db" env rq cp ws]
    by (simp_all add: continuation_tables_ok_def)
  have "is_safe_rerun_step (cp_step_id cp) \<or> checkpoint_is_authorized env (db_after_wait rq db) md rq cp"
    using c md e s i w ws(2)
    by (rule_tac ccontr) (simp add: commit_continuation_in_transaction_def Let_def db_after_wait_def)
  moreover have "reopen_claim_free env md rq \<and> lease_acquirable md (cq_run_id rq) (db_leases db)"
    using e ok ensure_reopen_claim_iff[of "db_leases db" rq env md ls]
    by (simp add: continuation_tables_ok_def)
  ultimately have "continuation_granted env rq bound db md cp"
    using md s i ws(1) by (simp add: continuation_granted_def)
  then show ?thesis by blast
qed

text \<open>
  A committed continuation leaves every other run alone: their records, checkpoints and waits, the
  leases of other issues, and the history of events.
\<close>

lemma acquired_leases_other:
  assumes "lease_key l \<noteq> k" and "rm_repository md = Some (fst k)" and "issue_lease_number md = Some (snd k)"
  shows "l \<in> set (acquired_leases env md rq ls) \<longleftrightarrow> l \<in> set ls"
  using assms by (auto simp: acquired_leases_def set_update_where set_lease_status_def)

lemma continued_db_frame:
  assumes "run \<noteq> cq_run_id rq" and "rm_run_id md = cq_run_id rq"
  shows "get_run_with_conn run (db_runs (continued_db env rq db md cp)) = get_run_with_conn run (db_runs db)"
    and "list_checkpoints run (db_checkpoints (continued_db env rq db md cp)) = list_checkpoints run (db_checkpoints db)"
    and "filter (\<lambda>w. ws_run_id w = run) (db_waits (continued_db env rq db md cp)) =
         filter (\<lambda>w. ws_run_id w = run) (db_waits db)"
    and "\<exists>e. db_events (continued_db env rq db md cp) = db_events db @ [e]"
proof -
  have id: "rm_run_id (continued_run env rq cp md) = cq_run_id rq"
    using assms(2) by (simp add: continued_run_def Let_def)
  show "get_run_with_conn run (db_runs (continued_db env rq db md cp)) = get_run_with_conn run (db_runs db)"
    using assms(1) id
    by (simp add: continued_db_def Let_def get_run_with_conn_def persist_run_with_conn_def lookup_by_upsert_other)
  have "filter (\<lambda>r. cr_run_id r = run) (update_where (\<lambda>r. checkpoint_key r = (cq_run_id rq, step)) f rows) =
      filter (\<lambda>r. cr_run_id r = run) rows" if "\<And>r. cr_run_id (f r) = cr_run_id r" for step f and rows :: "checkpoint_row list"
    using assms(1) that by (induction rows) auto
  then show "list_checkpoints run (db_checkpoints (continued_db env rq db md cp)) = list_checkpoints run (db_checkpoints db)"
    by (simp add: continued_db_def Let_def list_checkpoints_def)
  show "filter (\<lambda>w. ws_run_id w = run) (db_waits (continued_db env rq db md cp)) =
      filter (\<lambda>w. ws_run_id w = run) (db_waits db)"
    using assms(1) by (auto simp: continued_db_def Let_def consumed_waits_def intro: filter_cong)
  show "\<exists>e. db_events (continued_db env rq db md cp) = db_events db @ [e]"
    by (simp add: continued_db_def Let_def)
qed

section \<open>Properties\<close>

text \<open>
  C17: c: A continuation commits exactly when the run's record is reopenable, its processes are gone,
  its issue lease is its own, the re-selected checkpoint still is the one bound at plan time, any
  durable wait names that checkpoint, and the step is safe to re-run or authorized; it then leaves
  exactly the specified database, and otherwise the database as it was.
\<close>

theorem continuation_commit_meets_spec:
  assumes "continuation_tables_ok rq db"
  shows "(\<forall>md cp. continuation_granted env rq bound db md cp \<longrightarrow>
           commit_continuation env rq bound db = (continued_db env rq db md cp, Ok (continued_run env rq cp md)))
       \<and> ((\<nexists>md cp. continuation_granted env rq bound db md cp) \<longrightarrow>
           (\<exists>e. commit_continuation env rq bound db = (db, Err e)))"
proof (intro conjI allI impI)
  fix md cp
  assume "continuation_granted env rq bound db md cp"
  then show "commit_continuation env rq bound db = (continued_db env rq db md cp, Ok (continued_run env rq cp md))"
    using commit_grants[OF assms] by (simp add: commit_continuation_def)
next
  assume "\<nexists>md cp. continuation_granted env rq bound db md cp"
  then show "\<exists>e. commit_continuation env rq bound db = (db, Err e)"
    using commit_needs_grant[OF assms, of env bound]
    by (cases "commit_continuation_in_transaction env rq bound db") (auto simp: commit_continuation_def)
qed

lemma commit_ok_granted:
  assumes "continuation_tables_ok rq db" and "commit_continuation env rq bound db = (db', Ok md')"
  obtains md cp where "continuation_granted env rq bound db md cp"
    "db' = continued_db env rq db md cp" "md' = continued_run env rq cp md"
proof -
  obtain p where p: "commit_continuation_in_transaction env rq bound db = Ok p" "p = (db', md')"
    using assms(2) by (cases "commit_continuation_in_transaction env rq bound db")
      (auto simp: commit_continuation_def)
  then obtain md cp where g: "continuation_granted env rq bound db md cp"
    using commit_needs_grant[OF assms(1)] by blast
  show ?thesis
    using that[OF g] commit_grants[OF assms(1) g] p by simp
qed

lemma continued_run_stored:
  assumes "rm_run_id md = cq_run_id rq"
  shows "get_run_with_conn (cq_run_id rq) (db_runs (continued_db env rq db md cp)) = Some (continued_run env rq cp md)"
proof -
  have "rm_run_id (continued_run env rq cp md) = cq_run_id rq"
    using assms by (simp add: continued_run_def Let_def)
  then show ?thesis
    using lookup_by_upsert_same[of rm_run_id "continued_run env rq cp md" "\<lambda>old new. new" "db_runs db"]
    by (simp add: continued_db_def Let_def get_run_with_conn_def persist_run_with_conn_def split: option.splits)
qed

lemma continued_tables_ok:
  "continuation_tables_ok rq db \<Longrightarrow> continuation_tables_ok rq (continued_db env rq' db md cp)"
proof -
  assume ok: "continuation_tables_ok rq db"
  have "lease_table_ok (acquired_leases env md rq' (db_leases db))"
    using ok by (auto simp: continuation_tables_ok_def acquired_leases_def keeps_keys_def set_lease_status_def
        split: option.split intro!: lease_table_ok_update_where)
  moreover have "unique_key ws_run_id (consumed_waits rq' (db_waits db))"
    using ok by (auto simp: continuation_tables_ok_def consumed_waits_def unique_key_def distinct_map_filter)
  ultimately show ?thesis
    using ok by (simp add: continuation_tables_ok_def continued_db_def Let_def)
qed

lemma granted_run_id:
  "continuation_granted env rq bound db md cp \<Longrightarrow> rm_run_id md = cq_run_id rq"
  by (auto simp: continuation_granted_def get_run_with_conn_def dest: lookup_by_SomeD)

lemma live_pid_blocks:
  assumes "rm_status md = RRunning" and "rm_process_pid md = Some pid" and "ce_pid_alive env pid"
  shows "\<not> continuation_granted env rq bound db md cp"
  using assms by (simp add: continuation_granted_def reopen_claim_free_def live_workflow_pid_def is_pid_stale_def)

text \<open>
  C: Once a continuation of a run has committed, every further continuation of the same run, of
  any kind and forced or not, is refused without a change of the store for as long as the process
  that committed lives.
\<close>

theorem concurrent_continuations_exclude:
  assumes "continuation_tables_ok rq db" and "commit_continuation env rq bound db = (db', Ok md')"
    and "cq_run_id rq2 = cq_run_id rq" and "ce_pid_alive env2 (ce_pid env)"
  shows "\<exists>e. commit_continuation env2 rq2 bound2 db' = (db', Err e)"
proof -
  obtain md cp where g: "continuation_granted env rq bound db md cp"
    and db': "db' = continued_db env rq db md cp"
    using commit_ok_granted[OF assms(1,2)] .
  let ?after = "continued_run env rq cp md"
  have stored: "get_run_with_conn (cq_run_id rq2) (db_runs db') = Some ?after"
    using continued_run_stored[OF granted_run_id[OF g]] assms(3) db' by simp
  have "\<not> continuation_granted env2 rq2 bound2 db' m c" for m c
  proof
    assume g2: "continuation_granted env2 rq2 bound2 db' m c"
    then have "m = ?after" using stored by (simp add: continuation_granted_def)
    then show False
      using g2 live_pid_blocks[of ?after "ce_pid env" env2] assms(4)
      by (simp add: continued_run_def Let_def)
  qed
  moreover have "continuation_tables_ok rq2 db'"
    using continued_tables_ok[OF assms(1), of env rq md cp] assms(3) db'
    by (simp add: continuation_tables_ok_def)
  ultimately show ?thesis
    using commit_needs_grant[of rq2 db' env2 bound2]
    by (cases "commit_continuation_in_transaction env2 rq2 bound2 db'") (auto simp: commit_continuation_def)
qed

section \<open>A validated plan\<close>

text \<open>Only the stamp of the commit reads the clock.\<close>

lemma clock_fields:
  "ce_rfc3339 (env\<lparr>ce_now := t\<rparr>) = ce_rfc3339 env"
  "ce_parse_rfc3339 (env\<lparr>ce_now := t\<rparr>) = ce_parse_rfc3339 env"
  "ce_symlink_metadata (env\<lparr>ce_now := t\<rparr>) = ce_symlink_metadata env"
  "ce_is_dir (env\<lparr>ce_now := t\<rparr>) = ce_is_dir env"
  "ce_verify_ownership (env\<lparr>ce_now := t\<rparr>) = ce_verify_ownership env"
  "is_pid_stale (env\<lparr>ce_now := t\<rparr>) = is_pid_stale env"
  by (simp_all add: is_pid_stale_def fun_eq_iff)

lemma clock_checkpoint_identity [simp]: "checkpoint_identity (env\<lparr>ce_now := t\<rparr>) cp = checkpoint_identity env cp"
  unfolding checkpoint_identity_def clock_fields by (rule refl)

lemma clock_live [simp]:
  "live_workflow_pid (env\<lparr>ce_now := t\<rparr>) md = live_workflow_pid env md"
  "live_child_pid (env\<lparr>ce_now := t\<rparr>) md = live_child_pid env md"
  unfolding live_workflow_pid_def live_child_pid_def clock_fields by (rule refl)+

lemma clock_select_rewind [simp]:
  "select_rewind_checkpoint (env\<lparr>ce_now := t\<rparr>) rows run target = select_rewind_checkpoint env rows run target"
  unfolding select_rewind_checkpoint_def parse_checkpoint_identity_target_def clock_fields by (rule refl)

lemma clock_select_checkpoint [simp]:
  "select_checkpoint (env\<lparr>ce_now := t\<rparr>) rows rq md = select_checkpoint env rows rq md"
  unfolding select_checkpoint_def select_resume_checkpoint_def select_retry_checkpoint_def
    select_failed_cleanup_checkpoint_def clock_select_rewind clock_checkpoint_identity by (rule refl)

lemma clock_permits [simp]: "permits_non_safe_rerun (env\<lparr>ce_now := t\<rparr>) a cp = permits_non_safe_rerun env a cp"
  by (cases a) simp_all

lemma clock_authorized [simp]:
  "checkpoint_is_authorized (env\<lparr>ce_now := t\<rparr>) db md rq cp = checkpoint_is_authorized env db md rq cp"
  unfolding checkpoint_is_authorized_def for_resume_def authorizes_cleanup_resume_def
    clock_checkpoint_identity clock_live clock_permits by (rule refl)

lemma clock_reopen_claim_free [simp]:
  "reopen_claim_free (env\<lparr>ce_now := t\<rparr>) md rq = reopen_claim_free env md rq"
  unfolding reopen_claim_free_def check_cleanup_workspace_ownership_def clock_fields clock_live by (rule refl)

lemma clock_wait_matches [simp]:
  "wait_matches (env\<lparr>ce_now := t\<rparr>) rq cp ws = wait_matches env rq cp ws"
  unfolding wait_matches_def clock_checkpoint_identity by (rule refl)

lemma passed_simps [simp]: "sc_passed (pass n d)" "\<not> sc_passed (fail_check n d)"
  by (simp_all add: pass_def fail_check_def)

lemma resumable_status_passed:
  assumes "sc_passed (check_resumable_status env md rq)"
  shows "reopen_status_is_allowed md rq" and "rm_status md = RRunning \<longrightarrow> live_workflow_pid env md = None"
  using assms
  by (auto simp: check_resumable_status_def Let_def reopen_status_is_allowed_def running_claim_is_available_def
      live_workflow_pid_def is_process_stale_def cleanup_recovery_requested_def is_cleanup_failure_abandonment_def
      split: if_splits option.splits)

lemma workspace_passed:
  assumes "sc_passed (check_workspace env md)" and "is_cleanup_failure_abandonment md"
  shows "case rm_workspace_path md of
           Some p \<Rightarrow> sc_passed (check_cleanup_workspace_ownership env p md) | None \<Rightarrow> False"
  using assms by (simp add: check_workspace_def split: option.splits)

lemma validated_checks:
  assumes "cv_ok (validate_continuation env db rq)" and "get_run_with_conn (cq_run_id rq) (db_runs db) = Some md"
  obtains cp where "select_checkpoint env (db_checkpoints db) rq md = Ok cp"
    "sc_passed (check_resumable_status env md rq)" "sc_passed (check_workspace env md)"
    "is_safe_rerun_step (cp_step_id cp) \<or> checkpoint_is_authorized env db md rq cp"
  using assms
  by (cases "select_checkpoint env (db_checkpoints db) rq md")
    (auto simp: validate_continuation_def Let_def from_checks_def check_checkpoint_exists_def)

lemma prepared_plan:
  assumes "prepare_continuation env w root db rq md = Ok plan" and "cv_ok (cn_validation plan)"
  obtains cp where "cv_ok (validate_continuation env db rq)" "select_checkpoint env (db_checkpoints db) rq md = Ok cp"
    "cn_checkpoint_identity plan = checkpoint_identity env cp" "cn_selected plan = Some cp"
  using assms
  by (auto simp: prepare_continuation_def Let_def write_json_artifact_def
      split: option.splits if_splits result.splits)

text \<open>
  C: A plan that validated commits, whatever time has passed, if nothing moved in the store, no
  child process of the run lives, the run still owns its issue's lease and a resume has no durable
  wait to consume: the checks of the plan leave the commit no other reason to refuse.
\<close>

theorem planned_continuation_commits:
  assumes "continuation_tables_ok rq db" and md: "get_run_with_conn (cq_run_id rq) (db_runs db) = Some md"
    and "prepare_continuation env w root db rq md = Ok plan" and "cv_ok (cn_validation plan)"
    and "lease_acquirable md (cq_run_id rq) (db_leases db)" and "live_child_pid env md = None"
    and nw: "cq_kind rq = KResume \<Longrightarrow> get_wait_state (cq_run_id rq) (db_waits db) = None"
  shows "\<exists>cp. cn_selected plan = Some cp \<and>
    commit_continuation (env\<lparr>ce_now := t\<rparr>) rq (cn_checkpoint_identity plan) db =
      (continued_db (env\<lparr>ce_now := t\<rparr>) rq db md cp, Ok (continued_run (env\<lparr>ce_now := t\<rparr>) rq cp md))"
proof -
  obtain cp where cp: "cv_ok (validate_continuation env db rq)" "select_checkpoint env (db_checkpoints db) rq md = Ok cp"
    "cn_checkpoint_identity plan = checkpoint_identity env cp" "cn_selected plan = Some cp"
    using prepared_plan[OF assms(3,4)] .
  obtain cp' where v: "select_checkpoint env (db_checkpoints db) rq md = Ok cp'"
    "sc_passed (check_resumable_status env md rq)" "sc_passed (check_workspace env md)"
    "is_safe_rerun_step (cp_step_id cp') \<or> checkpoint_is_authorized env db md rq cp'"
    using validated_checks[OF cp(1) md] .
  have "db_waits (db_after_wait rq db) = db_waits db"
  proof (cases "cq_kind rq = KResume")
    case True
    then have "cq_run_id rq \<notin> ws_run_id ` set (db_waits db)"
      using nw by (simp add: get_wait_state_def lookup_by_None)
    then have "filter (\<lambda>w. ws_run_id w \<noteq> cq_run_id rq) (db_waits db) = db_waits db"
      by (intro filter_True ballI) (metis image_eqI)
    with True show ?thesis by (simp add: db_after_wait_def consumed_waits_def)
  qed (simp add: db_after_wait_def consumed_waits_def)
  then have "is_safe_rerun_step (cp_step_id cp) \<or> checkpoint_is_authorized env (db_after_wait rq db) md rq cp"
    using v(1,4) cp(2) checkpoint_is_authorized_cong[of "db_after_wait rq db" db env md rq cp] by simp
  moreover have "reopen_claim_free env md rq"
    using resumable_status_passed[OF v(2)] workspace_passed[OF v(3)] assms(6)
    by (simp add: reopen_claim_free_def)
  moreover have "wait_matches env rq cp (db_waits db)"
    using nw by (simp add: wait_matches_def)
  ultimately have "continuation_granted (env\<lparr>ce_now := t\<rparr>) rq (cn_checkpoint_identity plan) db md cp"
    using md cp(2,3) assms(5) by (simp add: continuation_granted_def)
  then show ?thesis
    using commit_grants[OF assms(1)] cp(4) by (simp add: commit_continuation_def)
qed

section \<open>Where code and comments part\<close>

text \<open>
  The comment of \<open>check_resumable_status\<close> lets \<open>--force\<close> override a live running claim; the
  check does not look at the flag there.
\<close>

lemma force_keeps_live_claim:
  assumes "rm_status md = RRunning" and "rm_process_pid md = Some pid" and "ce_pid_alive env pid"
  shows "\<not> sc_passed (check_resumable_status env md rq)"
  using assms
  by (simp add: check_resumable_status_def Let_def cleanup_recovery_requested_def
      is_cleanup_failure_abandonment_def running_claim_is_available_def is_process_stale_def is_pid_stale_def)

text \<open>
  The grant of a durable wait is verified when the plan is validated; the commit consumes the wait
  before it looks for the grant, and so never finds it.
\<close>

lemma durable_wait_grant_lost:
  assumes "continuation_tables_ok rq db" and "cq_kind rq = KResume"
    and "select_checkpoint env (db_checkpoints db) rq md = Ok cp"
    and "get_run_with_conn (cq_run_id rq) (db_runs db) = Some md"
    and "for_resume env db md rq cp = TrustedInternalWait i run"
    and "\<not> is_safe_rerun_step (cp_step_id cp)" and "rm_failure_cleanup md = None"
  shows "\<exists>e. commit_continuation env rq bound db = (db, Err e)"
proof -
  have none: "get_wait_state (cq_run_id rq) (consumed_waits rq ws) = None" for ws
    using assms(2) by (auto simp: get_wait_state_def consumed_waits_def lookup_by_None)
  have "for_resume env (db_after_wait rq db) md rq cp = Operator"
    using assms(2,5) none by (auto simp: for_resume_def db_after_wait_def Let_def split: if_splits)
  then have "\<not> checkpoint_is_authorized env (db_after_wait rq db) md rq cp"
    using assms(7) by (simp add: checkpoint_is_authorized_def authorizes_cleanup_resume_def)
  then have "\<not> continuation_granted env rq bound db m c" for m c
    using assms(3,4,6) by (auto simp: continuation_granted_def)
  then show ?thesis
    using commit_needs_grant[OF assms(1), of env bound]
    by (cases "commit_continuation_in_transaction env rq bound db") (auto simp: commit_continuation_def)
qed

text \<open>An identity read back names the same checkpoint, as long as the step holds no separator.\<close>

lemma parse_checkpoint_identity:
  assumes "CHR ''@'' \<notin> set (cp_step_id cp)"
    and "ce_parse_rfc3339 env (ce_rfc3339 env (cp_timestamp cp)) = Ok (cp_timestamp cp)"
  shows "parse_checkpoint_identity_target env (checkpoint_identity env cp) = Ok (cp_step_id cp, cp_timestamp cp)"
proof -
  have "dropWhile (\<lambda>x. x \<noteq> CHR ''@'') (cp_step_id cp) = []" "takeWhile (\<lambda>x. x \<noteq> CHR ''@'') (cp_step_id cp) = cp_step_id cp"
    using assms(1) by (auto simp: dropWhile_eq_Nil_conv takeWhile_eq_all_conv)
  then have "split_once CHR ''@'' (checkpoint_identity env cp) = Some (cp_step_id cp, ce_rfc3339 env (cp_timestamp cp))"
    by (simp add: split_once_def checkpoint_identity_def dropWhile_append takeWhile_append)
  then show ?thesis using assms(2) by (simp add: parse_checkpoint_identity_target_def)
qed

section \<open>A concrete continuation\<close>

text \<open>A failed run whose checks were still pending: its checkpoint waits, its lease has failed with it.\<close>

definition demo_env :: ContinuationEnv where
  "demo_env = \<lparr>ce_now = 9, ce_pid = 41, ce_pid_alive = (\<lambda>p. p = 41), ce_rfc3339 = nat_to_string,
     ce_parse_rfc3339 = (\<lambda>t. Ok (digits_value t)), ce_symlink_metadata = (\<lambda>_. Some PathOther), ce_is_dir = (\<lambda>_. True),
     ce_verify_ownership = (\<lambda>_ _. None), ce_sql_text = (\<lambda>_. ''sql'')\<rparr>"

definition demo_run :: RunMetadata where
  "demo_run = (run_metadata_new 1 ''r'' ''t'' ''cfg'')
     \<lparr>rm_status := RFailed, rm_repository := Some ''o/r'', rm_issue_number := Some 7\<rparr>"

definition demo_checkpoint :: Checkpoint where
  "demo_checkpoint = with_snapshot 3 ''r'' ''watch_pr_checks'' (default_snapshot\<lparr>ss_status := CHECKPOINT_STATUS_WAITING\<rparr>)"

definition demo_lease :: IssueLease where
  "demo_lease = (claim_lease 1 ''o/r'' 7 ''cfg'')\<lparr>il_run_id := Some ''r'', il_status := LFailed\<rparr>"

definition demo_db :: WaitDb where
  "demo_db = \<lparr>db_checkpoints = save_checkpoint_with_conn demo_checkpoint [], db_events = [],
     db_runs = [demo_run], db_leases = [demo_lease], db_waits = []\<rparr>"

definition demo_request :: ContinuationRequest where
  "demo_request = \<lparr>cq_run_id = ''r'', cq_kind = KResume, cq_force = False\<rparr>"

lemmas demo_defs = demo_env_def demo_run_def demo_checkpoint_def demo_lease_def demo_db_def demo_request_def

lemma demo_tables_ok: "continuation_tables_ok demo_request demo_db"
  by (simp add: continuation_tables_ok_def demo_defs lease_table_ok_def unique_key_def)

lemma demo_lookup: "get_run_with_conn (cq_run_id demo_request) (db_runs demo_db) = Some demo_run"
  by (simp add: demo_defs get_run_with_conn_def run_metadata_new_def)

lemma demo_lease_number: "issue_lease_number demo_run = Some 7"
  by (simp add: issue_lease_number_def demo_run_def run_metadata_new_def u64_try_from_i64_def i64_max_def)

lemma demo_acquirable: "lease_acquirable demo_run (cq_run_id demo_request) (db_leases demo_db)"
  unfolding lease_acquirable_def demo_lease_number
  by (simp add: demo_defs run_metadata_new_def continuation_expected_statuses_def)

lemma demo_selected:
  "\<exists>cp. select_checkpoint demo_env (db_checkpoints demo_db) demo_request demo_run = Ok cp \<and>
     cp_step_id cp = ''watch_pr_checks'' \<and> cp_timestamp cp = 3"
  by (simp add: select_checkpoint_def select_resume_checkpoint_def select_failed_cleanup_checkpoint_def demo_defs
      run_metadata_new_def list_checkpoints_def save_checkpoint_with_conn_def upsert_def row_of_checkpoint_def
      checkpoint_of_row_def newest_resumable_def is_resumable_checkpoint_status_def with_snapshot_def
      default_snapshot_def Let_def)

lemma demo_stamp: "nat_to_string 3 = ''3''"
  by code_simp

lemma demo_identity:
  "cp_step_id cp = ''watch_pr_checks'' \<Longrightarrow> cp_timestamp cp = 3 \<Longrightarrow>
     checkpoint_identity demo_env cp = ''watch_pr_checks@3''"
  by (simp add: checkpoint_identity_def demo_env_def demo_stamp)

lemma demo_claim_free: "reopen_claim_free demo_env demo_run demo_request"
  by (simp add: reopen_claim_free_def reopen_status_is_allowed_def demo_defs run_metadata_new_def
      is_ownership_denied_terminal_def is_cleanup_failure_abandonment_def live_child_pid_def)

lemma demo_granted:
  "\<exists>cp. continuation_granted demo_env demo_request ''watch_pr_checks@3'' demo_db demo_run cp"
proof -
  obtain cp where cp: "select_checkpoint demo_env (db_checkpoints demo_db) demo_request demo_run = Ok cp"
    "cp_step_id cp = ''watch_pr_checks''" "cp_timestamp cp = 3"
    using demo_selected by blast
  have "checkpoint_identity demo_env cp = ''watch_pr_checks@3''"
    using cp by (simp add: demo_identity)
  moreover have "wait_matches demo_env demo_request cp (db_waits demo_db)"
    by (simp add: wait_matches_def demo_defs get_wait_state_def)
  moreover have "is_safe_rerun_step (cp_step_id cp)"
    by (simp add: cp(2) is_safe_rerun_step_def SAFE_RERUN_STEPS_def)
  ultimately show ?thesis
    using cp(1) demo_lookup demo_claim_free demo_acquirable by (auto simp: continuation_granted_def)
qed

theorem continuation_commit_meets_spec_witness:
  "(\<exists>db md. commit_continuation demo_env demo_request ''watch_pr_checks@3'' demo_db = (db, Ok md) \<and>
      rm_status md = RRunning \<and> rm_process_pid md = Some 41)
   \<and> (\<exists>e. commit_continuation demo_env demo_request ''watch_pr_checks@2'' demo_db = (demo_db, Err e))"
proof
  show "\<exists>db md. commit_continuation demo_env demo_request ''watch_pr_checks@3'' demo_db = (db, Ok md) \<and>
      rm_status md = RRunning \<and> rm_process_pid md = Some 41"
    using continuation_commit_meets_spec[OF demo_tables_ok, of demo_env "''watch_pr_checks@3''"] demo_granted
    by (auto simp: continued_run_def Let_def demo_env_def)
next
  have "\<not> continuation_granted demo_env demo_request ''watch_pr_checks@2'' demo_db md cp" for md cp
  proof
    assume g: "continuation_granted demo_env demo_request ''watch_pr_checks@2'' demo_db md cp"
    then have "md = demo_run" using demo_lookup by (simp add: continuation_granted_def)
    then have "cp_timestamp cp = 3" "cp_step_id cp = ''watch_pr_checks''"
      using g demo_selected by (auto simp: continuation_granted_def)
    then show False
      using g by (simp add: continuation_granted_def demo_identity)
  qed
  then show "\<exists>e. commit_continuation demo_env demo_request ''watch_pr_checks@2'' demo_db = (demo_db, Err e)"
    using continuation_commit_meets_spec[OF demo_tables_ok, of demo_env "''watch_pr_checks@2''"] by blast
qed

theorem concurrent_continuations_exclude_witness:
  "\<exists>db md e. commit_continuation demo_env demo_request ''watch_pr_checks@3'' demo_db = (db, Ok md) \<and>
     commit_continuation demo_env (demo_request\<lparr>cq_force := True\<rparr>) ''watch_pr_checks@9'' db = (db, Err e)"
proof -
  obtain cp where "continuation_granted demo_env demo_request ''watch_pr_checks@3'' demo_db demo_run cp"
    using demo_granted by blast
  then have c: "commit_continuation demo_env demo_request ''watch_pr_checks@3'' demo_db =
      (continued_db demo_env demo_request demo_db demo_run cp, Ok (continued_run demo_env demo_request cp demo_run))"
    using commit_grants[OF demo_tables_ok] by (simp add: commit_continuation_def)
  have "ce_pid_alive demo_env (ce_pid demo_env)" by (simp add: demo_env_def)
  then show ?thesis
    using concurrent_continuations_exclude[OF demo_tables_ok c, of "demo_request\<lparr>cq_force := True\<rparr>" demo_env
        "''watch_pr_checks@9''"] c by auto
qed

lemma demo_validates: "cv_ok (validate_continuation demo_env demo_db demo_request)"
proof -
  obtain cp where cp: "select_checkpoint demo_env (db_checkpoints demo_db) demo_request demo_run = Ok cp"
    "cp_step_id cp = ''watch_pr_checks''"
    using demo_selected by blast
  have "sc_passed (check_resumable_status demo_env demo_run demo_request)" "sc_passed (check_workspace demo_env demo_run)"
    "sc_passed (check_identity_recoverable demo_run)" "sc_passed (check_workflow_resolvable demo_run)"
    by (simp_all add: check_resumable_status_def check_workspace_def check_identity_recoverable_def
        check_workflow_resolvable_def demo_run_def run_metadata_new_def Let_def
        is_ownership_denied_terminal_def is_cleanup_failure_abandonment_def)
  then show ?thesis
    using cp by (simp add: validate_continuation_def Let_def demo_lookup from_checks_def check_run_exists_def
        check_checkpoint_exists_def is_safe_rerun_step_def SAFE_RERUN_STEPS_def)
qed

theorem planned_continuation_commits_witness:
  "\<exists>plan db md. prepare_continuation demo_env (\<lambda>_ _ _. None) ''/a'' demo_db demo_request demo_run = Ok plan \<and>
     commit_continuation (demo_env\<lparr>ce_now := 12\<rparr>) demo_request (cn_checkpoint_identity plan) demo_db = (db, Ok md)"
proof -
  obtain cp where cp: "select_checkpoint demo_env (db_checkpoints demo_db) demo_request demo_run = Ok cp"
    using demo_selected by blast
  obtain plan where p: "prepare_continuation demo_env (\<lambda>_ _ _. None) ''/a'' demo_db demo_request demo_run = Ok plan"
    "cv_ok (cn_validation plan)"
    using demo_validates cp by (simp add: prepare_continuation_def write_json_artifact_def Let_def)
  have "live_child_pid demo_env demo_run = None" "get_wait_state (cq_run_id demo_request) (db_waits demo_db) = None"
    by (simp_all add: demo_defs live_child_pid_def run_metadata_new_def get_wait_state_def)
  then show ?thesis
    using planned_continuation_commits[OF demo_tables_ok demo_lookup p demo_acquirable, where t = 12] p(1) by blast
qed

end
