(* ===== verification/Canonical_Bytes.thy ===== *)
theory Canonical_Bytes
  imports Luther_Prelude
begin

text \<open>
  Canonical byte strings: the big-endian integers and length-prefixed fields that the
  recovery identities and the capsule envelope are made of
  (\<^verbatim>\<open>push_len_prefixed\<close> in \<^verbatim>\<open>persistence/recovery_operations.rs\<close> and
  \<^verbatim>\<open>effect_intents.rs\<close>, \<^verbatim>\<open>write_len_prefixed\<close> in
  \<^verbatim>\<open>engine/recovery/capsule.rs\<close>), and the digest \<^verbatim>\<open>sha256_hex\<close> of
  \<^verbatim>\<open>luther-engine-core/src/lib.rs\<close>, whose hash function (the \<^verbatim>\<open>sha2\<close>
  crate) is the parameter \<open>sha256\<close>. The interface of a self-delimiting code, one that
  a decoder can split off the front of any byte string, is what makes frames unambiguous.
\<close>

section \<open>Bytes\<close>

type_synonym byte = "8 word"
type_synonym hash = "byte list \<Rightarrow> byte list"

text \<open>\<open>str::as_bytes\<close>: a character of the model is one byte of the UTF-8 text.\<close>

definition as_bytes :: "string \<Rightarrow> byte list" where
  "as_bytes s = map (\<lambda>c. word_of_nat (of_char c)) s"

definition text_of_bytes :: "byte list \<Rightarrow> string" where
  "text_of_bytes bs = map (\<lambda>b. char_of (unat b)) bs"

lemma text_of_as_bytes [simp]: "text_of_bytes (as_bytes s) = s"
proof -
  have "unat (word_of_nat (of_char c) :: byte) = of_char c" for c :: char
    using nat_of_char_less_256 [of c] by (simp add: unsigned_of_nat take_bit_nat_def)
  then show ?thesis by (simp add: text_of_bytes_def as_bytes_def comp_def)
qed

lemma as_bytes_inj [simp]: "as_bytes s = as_bytes t \<longleftrightarrow> s = t"
  by (metis text_of_as_bytes)

lemma length_as_bytes [simp]: "length (as_bytes s) = length s"
  by (simp add: as_bytes_def)

text \<open>Big-endian bytes of a number, and the number back.\<close>

fun be_bytes :: "nat \<Rightarrow> nat \<Rightarrow> byte list" where
  "be_bytes 0 v = []"
| "be_bytes (Suc n) v = be_bytes n (v div 256) @ [word_of_nat (v mod 256)]"

definition be_value :: "byte list \<Rightarrow> nat" where
  "be_value bs = foldl (\<lambda>a b. a * 256 + unat b) 0 bs"

lemma length_be_bytes [simp]: "length (be_bytes n v) = n"
  by (induction n v rule: be_bytes.induct) auto

lemma be_value_be_bytes: "be_value (be_bytes n v) = v mod 256 ^ n"
proof (induction n v rule: be_bytes.induct)
  case (2 n v)
  have "unat (word_of_nat (v mod 256) :: byte) = v mod 256"
    by (simp add: unsigned_of_nat take_bit_nat_def)
  then show ?case using 2 mod_mult2_eq [of v 256 "256 ^ n"]
    by (simp add: be_value_def mult.commute)
qed (simp add: be_value_def)

lemma be_value_small: "v < 256 ^ n \<Longrightarrow> be_value (be_bytes n v) = v"
  by (simp add: be_value_be_bytes)

definition u32_be_bytes :: "u32 \<Rightarrow> byte list" where
  "u32_be_bytes w = be_bytes 4 (unat w)"

definition i64_be_bytes :: "i64 \<Rightarrow> byte list" where
  "i64_be_bytes i = be_bytes 8 (nat (i mod 2 ^ 64))"

lemma u32_be_value [simp]: "word_of_nat (be_value (u32_be_bytes w)) = w"
proof -
  have "unat w < 256 ^ 4" using unsigned_less [of w, where ?'a = nat] by simp
  then show ?thesis by (simp add: u32_be_bytes_def be_value_small)
qed

lemma length_u32_be_bytes [simp]: "length (u32_be_bytes w) = 4"
  by (simp add: u32_be_bytes_def)

text \<open>Two \<open>i64\<close> values have the same eight bytes only if they are equal.\<close>

lemma i64_be_bytes_inj:
  assumes "- i64_max - 1 \<le> i" "i \<le> i64_max" "- i64_max - 1 \<le> j" "j \<le> i64_max"
    and "i64_be_bytes i = i64_be_bytes j"
  shows "i = j"
proof -
  have "nat (k mod 2 ^ 64) < 256 ^ 8" for k :: int by simp
  then have "nat (i mod 2 ^ 64) = nat (j mod 2 ^ 64)"
    using assms(5) unfolding i64_be_bytes_def by (metis be_value_small)
  then have "i mod 2 ^ 64 = j mod 2 ^ 64" by simp
  then have "2 ^ 64 dvd i - j" by (rule mod_eq_dvd_iff [THEN iffD1])
  moreover have "\<bar>i - j\<bar> < 2 ^ 64" using assms(1-4) by (simp add: i64_max_def)
  ultimately show ?thesis using zdvd_imp_le [of "2 ^ 64" "\<bar>i - j\<bar>"] by fastforce
qed

section \<open>Length-prefixed fields\<close>

definition push_len_prefixed :: "byte list \<Rightarrow> byte list \<Rightarrow> byte list" where
  "push_len_prefixed buf bytes = buf @ be_bytes 8 (min (length bytes) u64_max) @ bytes"

definition write_len_prefixed :: "byte list \<Rightarrow> byte list \<Rightarrow> byte list" where
  "write_len_prefixed buf bytes = buf @ be_bytes 4 (min (length bytes) 4294967295) @ bytes"

section \<open>The interface of a self-delimiting code\<close>

text \<open>
  The decoder recovers a valid value from the front of any byte string and returns the rest.
  Clients get that a concatenation of encodings determines its parts.
\<close>

locale self_delimiting =
  fixes enc :: "'a \<Rightarrow> byte list"
    and dec :: "byte list \<Rightarrow> ('a \<times> byte list) option"
    and valid :: "'a \<Rightarrow> bool"
  assumes dec_enc: "valid x \<Longrightarrow> dec (enc x @ rest) = Some (x, rest)"
begin

lemma split_unique:
  "valid x \<Longrightarrow> valid y \<Longrightarrow> enc x @ r = enc y @ s \<longleftrightarrow> x = y \<and> r = s"
  by (metis dec_enc option.inject prod.inject)

lemma enc_inj: "valid x \<Longrightarrow> valid y \<Longrightarrow> enc x = enc y \<longleftrightarrow> x = y"
  using split_unique [of x y "[]" "[]"] by simp

end

definition read_field :: "nat \<Rightarrow> byte list \<Rightarrow> (byte list \<times> byte list) option" where
  "read_field w bs =
     (let n = be_value (take w bs); body = drop w bs
      in if w \<le> length bs \<and> n \<le> length body then Some (take n body, drop n body) else None)"

lemma read_field_prefixed:
  "length bytes < 256 ^ w \<Longrightarrow> read_field w (be_bytes w (length bytes) @ bytes @ rest) = Some (bytes, rest)"
  by (simp add: read_field_def be_value_small)

interpretation field64: self_delimiting "push_len_prefixed []" "read_field 8" "\<lambda>bs. length bs < 2 ^ 64"
proof
  fix x rest :: "byte list"
  assume "length x < 2 ^ 64"
  then have "min (length x) u64_max = length x" by (simp add: u64_max_def)
  then show "read_field 8 (push_len_prefixed [] x @ rest) = Some (x, rest)"
    using read_field_prefixed [of x 8 rest] \<open>length x < 2 ^ 64\<close> by (simp add: push_len_prefixed_def)
qed

interpretation field32: self_delimiting "write_len_prefixed []" "read_field 4" "\<lambda>bs. length bs < 2 ^ 32"
proof
  fix x rest :: "byte list"
  assume "length x < 2 ^ 32"
  then have "min (length x) 4294967295 = length x" by simp
  then show "read_field 4 (write_len_prefixed [] x @ rest) = Some (x, rest)"
    using read_field_prefixed [of x 4 rest] \<open>length x < 2 ^ 32\<close> by (simp add: write_len_prefixed_def)
qed

interpretation fixed32: self_delimiting u32_be_bytes
  "\<lambda>bs. if 4 \<le> length bs then Some (word_of_nat (be_value (take 4 bs)), drop 4 bs) else None" "\<lambda>w. True"
  by unfold_locales simp

lemma push_len_prefixed_append: "push_len_prefixed buf bytes = buf @ push_len_prefixed [] bytes"
  by (simp add: push_len_prefixed_def)

lemma write_len_prefixed_append: "write_len_prefixed buf bytes = buf @ write_len_prefixed [] bytes"
  by (simp add: write_len_prefixed_def)

section \<open>The digest\<close>

definition hex_digit :: "nat \<Rightarrow> char" where
  "hex_digit n = ''0123456789abcdef'' ! n"

definition hex_byte :: "byte \<Rightarrow> string" where
  "hex_byte b = [hex_digit (unat b div 16), hex_digit (unat b mod 16)]"

definition sha256_hex :: "hash \<Rightarrow> byte list \<Rightarrow> string" where
  "sha256_hex sha256 bytes = concat (map hex_byte (sha256 bytes))"

lemma hex_digit_inj:
  assumes "a < 16" and "b < 16" and "hex_digit a = hex_digit b"
  shows "a = b"
proof -
  have "distinct ''0123456789abcdef''" by simp
  then show ?thesis
    using assms nth_eq_iff_index_eq [of "''0123456789abcdef''" a b] by (simp add: hex_digit_def)
qed

lemma hex_byte_inj: "hex_byte a = hex_byte b \<longleftrightarrow> a = b"
proof
  assume h: "hex_byte a = hex_byte b"
  have lt: "unat c < 256" for c :: byte using unsigned_less [of c, where ?'a = nat] by simp
  have "unat c div 16 < 16" for c :: byte using lt [of c] by (simp add: less_mult_imp_div_less)
  then have "unat a div 16 = unat b div 16" "unat a mod 16 = unat b mod 16"
    using h hex_digit_inj by (auto simp: hex_byte_def)
  then show "a = b" by (metis div_mult_mod_eq word_unat_eq_iff)
qed simp

lemma hex_inj: "concat (map hex_byte xs) = concat (map hex_byte ys) \<longleftrightarrow> xs = ys"
proof (induction xs arbitrary: ys)
  case Nil
  show ?case by (cases ys) (auto simp: hex_byte_def)
next
  case (Cons x xs)
  show ?case
  proof (cases ys)
    case (Cons y ys')
    have "hex_byte x @ u = hex_byte y @ v \<longleftrightarrow> hex_byte x = hex_byte y \<and> u = v" for u v
      by (simp add: hex_byte_def)
    then show ?thesis using Cons.IH Cons hex_byte_inj by simp
  qed (simp add: hex_byte_def)
qed

lemma sha256_hex_inj: "sha256_hex h x = sha256_hex h y \<longleftrightarrow> h x = h y"
  by (simp add: sha256_hex_def hex_inj)

text \<open>A digest names its content, unless the hash has a collision.\<close>

definition collision :: "hash \<Rightarrow> bool" where
  "collision h \<longleftrightarrow> (\<exists>x y. x \<noteq> y \<and> h x = h y)"

lemma digest_determines: "sha256_hex h x = sha256_hex h y \<Longrightarrow> x = y \<or> collision h"
  by (auto simp: sha256_hex_inj collision_def)

end
