(* ===== verification/Retry_State.thy ===== *)
theory Retry_State
  imports Engine_State Canonical_Bytes
begin

text \<open>
  The durable retry accounting of pull-request remediation
  (\<^verbatim>\<open>components/github/pr_remediation/retry_state.rs\<close>, \<^verbatim>\<open>retry_history.rs\<close>, \<^verbatim>\<open>retry_lease.rs\<close>,
  \<^verbatim>\<open>retry_validation_transitions.rs\<close>): budgets and counters, the reservation of launch ordinals
  under a lease, the recovery of a crashed launch, the compare-and-swap of launch phases, the
  validation counters, and the reading of the state back from immutable history. The artifact
  store (\<^verbatim>\<open>components/github/pr_followup_artifacts\<close>) is kept at the level of documents: a document
  carries the whole binding it was written under, and a reader accepts it only under that binding; a
  publication first appends the history document and then replaces the current one, and may fail
  before, between or after the two writes.
\<close>

section \<open>Budgets and counters\<close>

definition RETRY_STATE_FAMILY :: string where
  "RETRY_STATE_FAMILY = ''pr-remediation-retry-state''"

definition DEFAULT_MAX_REMEDIATION_ATTEMPTS :: u64 where "DEFAULT_MAX_REMEDIATION_ATTEMPTS = 2"
definition DEFAULT_MAX_VALIDATION_RETRIES :: u64 where "DEFAULT_MAX_VALIDATION_RETRIES = 2"
definition DEFAULT_MAX_STALE_ARTIFACT_RETRIES :: u64 where "DEFAULT_MAX_STALE_ARTIFACT_RETRIES = 2"
definition LEASE_GRACE_SECONDS :: u64 where "LEASE_GRACE_SECONDS = 300"
definition DEFAULT_INVOCATION_TIMEOUT_SECONDS :: u64 where "DEFAULT_INVOCATION_TIMEOUT_SECONDS = 1800"

definition checked_add :: "u64 \<Rightarrow> u64 \<Rightarrow> u64 option" where
  "checked_add a b = (if unat a + unat b \<le> u64_max then Some (a + b) else None)"

abbreviation u64_text :: "u64 \<Rightarrow> string" where
  "u64_text n \<equiv> nat_to_string (unat n)"

record PrFollowupBinding =
  pb_schema_version :: u32
  pb_run_id :: string
  pb_repository_owner :: string
  pb_repository_name :: string
  pb_pr_number :: u64
  pb_head_ref :: string
  pb_head_sha :: string
  pb_base_ref :: string
  pb_base_sha :: "string option"

record RetryScopeKey =
  sk_run_id :: string
  sk_repository_owner :: string
  sk_repository_name :: string
  sk_pr_number :: u64
  sk_input_head_sha :: string
  sk_remediation_plan_sequence :: u64

definition json_u64 :: "json option \<Rightarrow> u64 option" where
  "json_u64 v = map_option of_nat (Option.bind v json_as_u64)"

definition scope_key_new :: "PrFollowupBinding \<Rightarrow> json \<Rightarrow> (RetryScopeKey, EngineError) result" where
  "scope_key_new b plan =
     (case json_u64 (json_get plan ''artifact_sequence'') of
        None \<Rightarrow> Err (InvalidState ''remediation plan is missing a valid artifact_sequence'')
      | Some n \<Rightarrow>
          Ok \<lparr>sk_run_id = pb_run_id b, sk_repository_owner = pb_repository_owner b,
              sk_repository_name = pb_repository_name b, sk_pr_number = pb_pr_number b,
              sk_input_head_sha = pb_head_sha b, sk_remediation_plan_sequence = n\<rparr>)"

record RetryBudget =
  rb_max_remediation_attempts :: u64
  rb_max_validation_retries :: u64
  rb_max_stale_artifact_retries :: u64

record RetryCounters =
  rc_remediation_attempt_index :: u64
  rc_validation_retry_index :: u64
  rc_stale_artifact_retry_index :: u64

definition counters_default :: RetryCounters where
  "counters_default = \<lparr>rc_remediation_attempt_index = 0, rc_validation_retry_index = 0,
     rc_stale_artifact_retry_index = 0\<rparr>"

datatype RetryExhaustionReason = RemediationAttempts | ValidationRetries | StaleArtifactRetries

datatype LaunchPhase = LpReserved | LpLaunched | LpCompleted

fun phase_debug :: "LaunchPhase \<Rightarrow> string" where
  "phase_debug LpReserved = ''Reserved''"
| "phase_debug LpLaunched = ''Launched''"
| "phase_debug LpCompleted = ''Completed''"

fun reason_debug :: "RetryExhaustionReason \<Rightarrow> string" where
  "reason_debug RemediationAttempts = ''RemediationAttempts''"
| "reason_debug ValidationRetries = ''ValidationRetries''"
| "reason_debug StaleArtifactRetries = ''StaleArtifactRetries''"

definition is_json_object :: "json \<Rightarrow> bool" where
  "is_json_object v = (case v of JObj _ \<Rightarrow> True | _ \<Rightarrow> False)"

definition parameter :: "json \<Rightarrow> string \<Rightarrow> u64 \<Rightarrow> (u64, EngineError) result" where
  "parameter params name dflt =
     (if \<not> is_json_object params
      then Err (InvalidState ''remediation retry parameters must be a JSON object'')
      else (case json_get params name of
              None \<Rightarrow> Ok dflt
            | Some v \<Rightarrow>
                (case json_u64 (Some v) of
                   Some n \<Rightarrow> Ok n
                 | None \<Rightarrow>
                     Err (InvalidState (''remediation retry parameter '' @ name @ '' must be an unsigned integer'')))))"

definition budget_from_params :: "json \<Rightarrow> (RetryBudget, EngineError) result" where
  "budget_from_params params =
     (if \<not> is_json_object params
      then Err (InvalidState ''remediation retry parameters must be a JSON object'')
      else
       (case parameter params ''max_remediation_attempts'' DEFAULT_MAX_REMEDIATION_ATTEMPTS of
          Err e \<Rightarrow> Err e
        | Ok a \<Rightarrow>
            (case parameter params ''max_validation_retries'' DEFAULT_MAX_VALIDATION_RETRIES of
               Err e \<Rightarrow> Err e
             | Ok v \<Rightarrow>
                 (case parameter params ''max_stale_artifact_retries'' DEFAULT_MAX_STALE_ARTIFACT_RETRIES of
                    Err e \<Rightarrow> Err e
                  | Ok s \<Rightarrow>
                      (if a = 0 \<or> v = 0 \<or> s = 0
                       then Err (InvalidState ''remediation retry budgets must be greater than zero'')
                       else Ok \<lparr>rb_max_remediation_attempts = a, rb_max_validation_retries = v,
                                rb_max_stale_artifact_retries = s\<rparr>)))))"

definition tightened_with :: "RetryBudget \<Rightarrow> RetryBudget \<Rightarrow> RetryBudget" where
  "tightened_with p c =
     \<lparr>rb_max_remediation_attempts = min (rb_max_remediation_attempts p) (rb_max_remediation_attempts c),
      rb_max_validation_retries = min (rb_max_validation_retries p) (rb_max_validation_retries c),
      rb_max_stale_artifact_retries = min (rb_max_stale_artifact_retries p) (rb_max_stale_artifact_retries c)\<rparr>"

definition expansion_error :: "string \<Rightarrow> u64 \<Rightarrow> u64 \<Rightarrow> EngineError" where
  "expansion_error name persisted configured =
     InvalidState (''remediation budget expansion rejected: '' @ name @ '' persisted='' @ u64_text persisted @
       '' configured='' @ u64_text configured)"

definition reject_expansion :: "RetryBudget \<Rightarrow> RetryBudget \<Rightarrow> (unit, EngineError) result" where
  "reject_expansion p c =
     (if rb_max_remediation_attempts c > rb_max_remediation_attempts p
      then Err (expansion_error ''max_remediation_attempts'' (rb_max_remediation_attempts p) (rb_max_remediation_attempts c))
      else if rb_max_validation_retries c > rb_max_validation_retries p
      then Err (expansion_error ''max_validation_retries'' (rb_max_validation_retries p) (rb_max_validation_retries c))
      else if rb_max_stale_artifact_retries c > rb_max_stale_artifact_retries p
      then Err (expansion_error ''max_stale_artifact_retries'' (rb_max_stale_artifact_retries p) (rb_max_stale_artifact_retries c))
      else Ok ())"

definition exhaustion_reason_against :: "RetryCounters \<Rightarrow> RetryBudget \<Rightarrow> RetryExhaustionReason option" where
  "exhaustion_reason_against c b =
     (if rc_validation_retry_index c \<ge> rb_max_validation_retries b then Some ValidationRetries
      else if rc_stale_artifact_retry_index c \<ge> rb_max_stale_artifact_retries b then Some StaleArtifactRetries
      else None)"

definition reconcile ::
  "RetryBudget \<Rightarrow> RetryBudget \<Rightarrow> RetryCounters \<Rightarrow> RetryExhaustionReason option \<Rightarrow>
   (RetryBudget \<times> RetryExhaustionReason option, EngineError) result" where
  "reconcile p configured c prior =
     (case reject_expansion p configured of
        Err e \<Rightarrow> Err e
      | Ok _ \<Rightarrow>
          (let requested = tightened_with p configured;
               reason = (case prior of Some r \<Rightarrow> Some r | None \<Rightarrow> exhaustion_reason_against c requested)
           in Ok (\<lparr>rb_max_remediation_attempts = max (rb_max_remediation_attempts requested) (rc_remediation_attempt_index c),
                   rb_max_validation_retries = max (rb_max_validation_retries requested) (rc_validation_retry_index c),
                   rb_max_stale_artifact_retries = max (rb_max_stale_artifact_retries requested) (rc_stale_artifact_retry_index c)\<rparr>,
                  reason)))"

definition exceeds_error :: "string \<Rightarrow> u64 \<Rightarrow> string \<Rightarrow> u64 \<Rightarrow> EngineError" where
  "exceeds_error a i b m = InvalidState (a @ '' '' @ u64_text i @ '' exceeds '' @ b @ '' '' @ u64_text m)"

definition validate_against_budget :: "RetryCounters \<Rightarrow> RetryBudget \<Rightarrow> (unit, EngineError) result" where
  "validate_against_budget c b =
     (if rc_remediation_attempt_index c > rb_max_remediation_attempts b
      then Err (exceeds_error ''remediation_attempt_index'' (rc_remediation_attempt_index c)
                  ''max_remediation_attempts'' (rb_max_remediation_attempts b))
      else if rc_validation_retry_index c > rb_max_validation_retries b
      then Err (exceeds_error ''validation_retry_index'' (rc_validation_retry_index c)
                  ''max_validation_retries'' (rb_max_validation_retries b))
      else if rc_stale_artifact_retry_index c > rb_max_stale_artifact_retries b
      then Err (exceeds_error ''stale_artifact_retry_index'' (rc_stale_artifact_retry_index c)
                  ''max_stale_artifact_retries'' (rb_max_stale_artifact_retries b))
      else Ok ())"

section \<open>The state and its documents\<close>

record RetryState =
  rs_scope :: RetryScopeKey
  rs_budget :: RetryBudget
  rs_counters :: RetryCounters
  rs_transition_id :: string
  rs_launch_transition_id :: string
  rs_transition_type :: string
  rs_launch_phase :: LaunchPhase
  rs_launch_ordinal :: u64
  rs_remediation_step_order_index :: u64
  rs_predecessor_artifact_sequence :: "u64 option"
  rs_history_chain_reset :: bool
  rs_validation_source_id :: "string option"
  rs_launch_result_promoted :: bool
  rs_owner_token :: string
  rs_lease_expiry :: "string option"
  rs_invocation_timeout_seconds :: u64
  rs_exhaustion_reason :: "RetryExhaustionReason option"

text \<open>
  A JSON document of the family, by what the code reads from it; the binding is the one its envelope
  states, or why it states none.
\<close>

record RetryDocument =
  rd_binding :: "(PrFollowupBinding, string) result"
  rd_artifact_sequence :: "u64 option"
  rd_scope :: "RetryScopeKey option"
  rd_state :: "(RetryState, string) result"
  rd_producer_step_id :: string
  rd_step_order_index :: u64
  rd_history_written_at :: string

record RecoverableHistoryCandidate =
  hc_path :: string
  hc_sequence :: u64
  hc_value :: "RetryDocument option"
  hc_validation_error :: "string option"

datatype RecoverableCurrentArtifact =
    CurMissing
  | CurValid RetryDocument
  | CurCorrupt "u64 option"

text \<open>
  Where a publication fails: before the history document (its sequence could not be recovered, or
  nothing was written), between the two documents, or after the current one was replaced (the
  directory could not be synced, or has changed meanwhile). A restoration has one write to fail
  before or after.
\<close>

datatype PublishFault =
    PublishOk
  | FailsBeforeHistory string
  | FailsAfterHistory string
  | FailsAfterCurrent string

datatype RestoreFault = RestoreOk | FailsBeforeReplace string | FailsAfterReplace string

text \<open>
  The files of one run, repository and pull request, which the bindings of all its heads and bases
  share: the history directory of the family, its current document as it is on disk, the highest
  artifact sequence, and the remediation results. The error of a history candidate is what is wrong
  with it under any binding. Writes may fail; reading the directory does not.
\<close>

record RetryStore =
  st_history :: "RecoverableHistoryCandidate list"
  st_current :: RecoverableCurrentArtifact
  st_max_sequence :: u64
  st_result :: "(json, string) result option"
  st_launch_results :: "((u64 \<times> string) \<times> (json, string) result) list"

record RetryEnv =
  re_now :: string
  re_parse_rfc3339 :: "string \<Rightarrow> (int, string) result"
  re_rfc3339 :: "int \<Rightarrow> string"
  re_max_instant :: int
  re_uuid :: string
  re_publish :: "u64 \<Rightarrow> PublishFault"
  re_restore :: RestoreFault
  re_path :: "u64 \<Rightarrow> string \<Rightarrow> string"

definition artifact_error :: "string \<Rightarrow> EngineError" where
  "artifact_error m = StepExecutionError ''pr_followup_artifact_store'' m"

definition checked_next_sequence :: "u64 \<Rightarrow> string \<Rightarrow> (u64, EngineError) result" where
  "checked_next_sequence current name =
     (case checked_add current 1 of
        Some n \<Rightarrow> Ok n
      | None \<Rightarrow> Err (artifact_error (''cannot allocate '' @ name @ '': sequence space is exhausted'')))"

definition document_of :: "RetryEnv \<Rightarrow> PrFollowupBinding \<Rightarrow> u64 \<Rightarrow> string \<Rightarrow> u64 \<Rightarrow> RetryState \<Rightarrow> RetryDocument" where
  "document_of env b seq producer step_order s =
     \<lparr>rd_binding = Ok b, rd_artifact_sequence = Some seq, rd_scope = Some (rs_scope s), rd_state = Ok s,
      rd_producer_step_id = producer, rd_step_order_index = step_order, rd_history_written_at = re_now env\<rparr>"

definition publish_artifact ::
  "RetryEnv \<Rightarrow> u64 \<Rightarrow> RetryDocument \<Rightarrow> RetryStore \<Rightarrow> RetryStore \<times> (unit, EngineError) result" where
  "publish_artifact env seq d st =
     (let st1 = st\<lparr>st_history := st_history st @
                     [\<lparr>hc_path = re_path env seq (rd_producer_step_id d), hc_sequence = seq,
                       hc_value = Some d, hc_validation_error = None\<rparr>],
                   st_max_sequence := seq\<rparr>
      in case re_publish env seq of
           FailsBeforeHistory e \<Rightarrow> (st, Err (artifact_error e))
         | FailsAfterHistory e \<Rightarrow> (st1, Err (artifact_error e))
         | FailsAfterCurrent e \<Rightarrow> (st1\<lparr>st_current := CurValid d\<rparr>, Err (artifact_error e))
         | PublishOk \<Rightarrow> (st1\<lparr>st_current := CurValid d\<rparr>, Ok ()))"

definition persist ::
  "RetryEnv \<Rightarrow> PrFollowupBinding \<Rightarrow> string \<Rightarrow> u64 \<Rightarrow> RetryState \<Rightarrow> RetryStore \<Rightarrow>
   RetryStore \<times> (unit, EngineError) result" where
  "persist env b producer step_order s st =
     (case checked_next_sequence (st_max_sequence st) ''artifact_sequence'' of
        Err e \<Rightarrow> (st, Err e)
      | Ok seq \<Rightarrow> publish_artifact env seq (document_of env b seq producer step_order s) st)"

section \<open>Reading under a binding\<close>

definition validate_binding :: "PrFollowupBinding \<Rightarrow> PrFollowupBinding \<Rightarrow> bool" where
  "validate_binding expected actual \<longleftrightarrow>
     expected = actual \<and> pb_schema_version expected \<noteq> 0 \<and> pb_run_id expected \<noteq> [] \<and>
     pb_repository_owner expected \<noteq> [] \<and> pb_repository_name expected \<noteq> [] \<and> pb_pr_number expected \<noteq> 0 \<and>
     pb_head_ref expected \<noteq> [] \<and> pb_head_sha expected \<noteq> [] \<and> pb_base_ref expected \<noteq> []"

definition validate_artifact_value :: "PrFollowupBinding \<Rightarrow> RetryDocument \<Rightarrow> (unit, EngineError) result" where
  "validate_artifact_value expected d =
     (case rd_binding d of
        Err e \<Rightarrow> Err (artifact_error e)
      | Ok actual \<Rightarrow>
          (if \<not> validate_binding expected actual then Err (artifact_error ''artifact binding mismatch'') else Ok ()))"

text \<open>
  The current document as a reader sees it: one of another binding, or one that no valid history
  document equals, counts as corrupt, with the sequence its raw text still shows.
\<close>

definition read_recoverable_current_json :: "PrFollowupBinding \<Rightarrow> RetryStore \<Rightarrow> RecoverableCurrentArtifact" where
  "read_recoverable_current_json b st =
     (case st_current st of
        CurValid d \<Rightarrow>
          (case validate_artifact_value b d of
             Err _ \<Rightarrow> CurCorrupt (rd_artifact_sequence d)
           | Ok _ \<Rightarrow>
               (if list_ex (\<lambda>c. hc_value c = Some d \<and> hc_validation_error c = None) (st_history st)
                then CurValid d else CurCorrupt (rd_artifact_sequence d)))
      | other \<Rightarrow> other)"

text \<open>A history candidate as a reader sees it; the binding is the first thing checked.\<close>

definition recoverable_candidate :: "PrFollowupBinding \<Rightarrow> RecoverableHistoryCandidate \<Rightarrow> RecoverableHistoryCandidate" where
  "recoverable_candidate b c =
     (case hc_value c of
        None \<Rightarrow> c
      | Some d \<Rightarrow>
          (case validate_artifact_value b d of
             Err e \<Rightarrow> c\<lparr>hc_validation_error := Some (engine_error_to_string e)\<rparr>
           | Ok _ \<Rightarrow> c))"

section \<open>Launch leases\<close>

definition parse_clock :: "RetryEnv \<Rightarrow> (int, EngineError) result" where
  "parse_clock env =
     map_err (\<lambda>e. InvalidState (''retry lease clock is not RFC3339: '' @ e)) (re_parse_rfc3339 env (re_now env))"

definition lease_expiry_from_now :: "RetryEnv \<Rightarrow> u64 \<Rightarrow> (string, EngineError) result" where
  "lease_expiry_from_now env timeout =
     (case parse_clock env of
        Err e \<Rightarrow> Err e
      | Ok now \<Rightarrow>
          (case checked_add timeout LEASE_GRACE_SECONDS of
             None \<Rightarrow> Err (InvalidState ''retry lease duration overflowed'')
           | Some secs \<Rightarrow>
               (case i64_try_from_u64 secs of
                  None \<Rightarrow> Err (InvalidState ''retry lease duration exceeds chrono range'')
                | Some s \<Rightarrow>
                    (let expiry = now + s * 1000000000
                     in if expiry > re_max_instant env
                        then Err (InvalidState ''retry lease timestamp overflowed'')
                        else Ok (re_rfc3339 env expiry)))))"

definition is_lease_expired :: "RetryEnv \<Rightarrow> RetryState \<Rightarrow> (bool, EngineError) result" where
  "is_lease_expired env s =
     (if rs_launch_phase s = LpCompleted then Ok True
      else
       (case rs_lease_expiry s of
          None \<Rightarrow> Err (InvalidState ''active retry state is missing lease expiry'')
        | Some text \<Rightarrow>
            (case re_parse_rfc3339 env text of
               Err e \<Rightarrow> Err (InvalidState (''retry lease expiry is not RFC3339: '' @ e))
             | Ok expiry \<Rightarrow>
                 (case parse_clock env of Err e \<Rightarrow> Err e | Ok now \<Rightarrow> Ok (now \<ge> expiry)))))"

section \<open>Reading the history back\<close>

definition validate_state_invariants :: "RetryEnv \<Rightarrow> RetryState \<Rightarrow> (unit, EngineError) result" where
  "validate_state_invariants env s =
     (case validate_against_budget (rs_counters s) (rs_budget s) of
        Err e \<Rightarrow> Err e
      | Ok _ \<Rightarrow>
          (if rs_launch_ordinal s > rb_max_remediation_attempts (rs_budget s)
           then Err (InvalidState (''launch_ordinal '' @ u64_text (rs_launch_ordinal s) @
                  '' exceeds max_remediation_attempts '' @ u64_text (rb_max_remediation_attempts (rs_budget s))))
           else if rs_history_chain_reset s \<and>
                   (rs_transition_type s \<noteq> ''terminal_tombstone'' \<or> rs_predecessor_artifact_sequence s \<noteq> None)
           then Err (InvalidState ''retry history reset requires a predecessor-free terminal tombstone'')
           else if rs_transition_type s = ''terminal_tombstone'' \<and> \<not> rs_history_chain_reset s
           then Err (InvalidState ''terminal retry tombstone must reset its history chain'')
           else if rs_launch_ordinal s \<noteq> rc_remediation_attempt_index (rs_counters s)
           then Err (InvalidState (''launch_ordinal '' @ u64_text (rs_launch_ordinal s) @
                  '' differs from remediation_attempt_index '' @
                  u64_text (rc_remediation_attempt_index (rs_counters s))))
           else if rs_launch_phase s = LpReserved \<or> rs_launch_phase s = LpLaunched
           then (case rs_lease_expiry s of
                   Some text \<Rightarrow>
                     (if rs_owner_token s = [] \<or> rs_invocation_timeout_seconds s = 0
                      then Err (InvalidState
                             ''active retry state requires owner token, lease expiry, and invocation timeout'')
                      else (case re_parse_rfc3339 env text of
                              Err e \<Rightarrow> Err (InvalidState (''retry lease expiry is not RFC3339: '' @ e))
                            | Ok _ \<Rightarrow> Ok ()))
                 | None \<Rightarrow> Err (InvalidState
                             ''active retry state requires owner token, lease expiry, and invocation timeout''))
           else Ok ()))"

definition deserialize_retry_state :: "RetryEnv \<Rightarrow> RetryDocument \<Rightarrow> (RetryState, EngineError) result" where
  "deserialize_retry_state env d =
     (case rd_state d of
        Err e \<Rightarrow> Err (InvalidState (''invalid remediation retry state: '' @ e))
      | Ok s \<Rightarrow> map_ok (\<lambda>_. s) (validate_state_invariants env s))"

definition document_sequence :: "RetryDocument \<Rightarrow> (u64, EngineError) result" where
  "document_sequence d =
     (case rd_artifact_sequence d of
        Some n \<Rightarrow> (if n > 0 then Ok n
                   else Err (InvalidState ''retry state is missing a positive artifact_sequence''))
      | None \<Rightarrow> Err (InvalidState ''retry state is missing a positive artifact_sequence''))"

datatype RetryStateLoadError = Corruption string | Storage EngineError

fun into_engine_error :: "RetryStateLoadError \<Rightarrow> EngineError" where
  "into_engine_error (Corruption detail) = InvalidState detail"
| "into_engine_error (Storage e) = e"

record CompactRetryCandidate =
  cc_path :: string
  cc_validation_error :: "string option"
  cc_state :: "(RetryState, string) result"

record CompactRetryHistory =
  ch_candidate_count :: nat
  ch_scoped :: "(u64 \<times> CompactRetryCandidate) list"
  ch_unscoped :: "(u64 \<times> string \<times> string) list"
  ch_latest_value :: "(u64 \<times> RetryDocument) option"
  ch_duplicate :: "(u64 \<times> string) option"

definition compact_history_empty :: CompactRetryHistory where
  "compact_history_empty = \<lparr>ch_candidate_count = 0, ch_scoped = [], ch_unscoped = [],
     ch_latest_value = None, ch_duplicate = None\<rparr>"

definition or_default :: "string option \<Rightarrow> string \<Rightarrow> string" where
  "or_default a b = (case a of Some x \<Rightarrow> x | None \<Rightarrow> b)"

definition visit_candidate ::
  "RetryEnv \<Rightarrow> RetryScopeKey \<Rightarrow> RecoverableHistoryCandidate \<Rightarrow> CompactRetryHistory \<Rightarrow> CompactRetryHistory" where
  "visit_candidate env scope c h0 =
     (let h = h0\<lparr>ch_candidate_count := ch_candidate_count h0 + 1\<rparr>;
          seq = hc_sequence c
      in case hc_value c of
           None \<Rightarrow>
             h\<lparr>ch_unscoped := ch_unscoped h @
                 [(seq, hc_path c, or_default (hc_validation_error c) ''artifact JSON is unavailable'')]\<rparr>
         | Some d \<Rightarrow>
             (if rd_scope d \<noteq> Some scope
              then (if rd_scope d = None
                    then h\<lparr>ch_unscoped := ch_unscoped h @
                             [(seq, hc_path c, or_default (hc_validation_error c)
                                 ''scope is unavailable in an otherwise valid artifact envelope'')]\<rparr>
                    else h)
              else if seq \<in> fst ` set (ch_scoped h)
              then h\<lparr>ch_duplicate := Some (seq, hc_path c)\<rparr>
              else h\<lparr>ch_scoped := ch_scoped h @
                       [(seq, \<lparr>cc_path = hc_path c, cc_validation_error = hc_validation_error c,
                               cc_state = map_err engine_error_to_string (deserialize_retry_state env d)\<rparr>)],
                     ch_latest_value :=
                       (case ch_latest_value h of
                          None \<Rightarrow> Some (seq, d)
                        | Some (latest, v) \<Rightarrow> (if seq > latest then Some (seq, d) else Some (latest, v)))\<rparr>))"

definition scan_retry_history ::
  "RetryEnv \<Rightarrow> PrFollowupBinding \<Rightarrow> RetryScopeKey \<Rightarrow> RetryStore \<Rightarrow> CompactRetryHistory" where
  "scan_retry_history env b scope st =
     fold (visit_candidate env scope) (map (recoverable_candidate b) (st_history st)) compact_history_empty"

definition is_reset_candidate :: "CompactRetryCandidate \<Rightarrow> bool" where
  "is_reset_candidate c \<longleftrightarrow>
     cc_validation_error c = None \<and>
     (case cc_state c of
        Ok s \<Rightarrow> rs_history_chain_reset s \<and> rs_transition_type s = ''terminal_tombstone''
      | Err _ \<Rightarrow> False)"

definition since_reset :: "u64 option \<Rightarrow> u64 \<Rightarrow> bool" where
  "since_reset reset seq \<longleftrightarrow> (case reset of None \<Rightarrow> True | Some r \<Rightarrow> seq \<ge> r)"

fun walk_chain ::
  "u64 option \<Rightarrow> (u64 \<times> CompactRetryCandidate) list \<Rightarrow> (u64 option, string) result" where
  "walk_chain latest [] = Ok latest"
| "walk_chain latest ((seq, c) # rest) =
     (case cc_validation_error c of
        Some e \<Rightarrow> Err (''invalid exact-scope retry history '' @ cc_path c @ '': '' @ e)
      | None \<Rightarrow>
          (case cc_state c of
             Err e \<Rightarrow> Err (''invalid exact-scope retry history '' @ cc_path c @ '': '' @ e)
           | Ok s \<Rightarrow>
               (if rs_predecessor_artifact_sequence s \<noteq> latest
                then Err (''broken exact-scope retry history chain at '' @ cc_path c @ '': expected predecessor '' @
                       debug_option u64_text latest @ '', found '' @
                       debug_option u64_text (rs_predecessor_artifact_sequence s))
                else walk_chain (Some seq) rest)))"

definition latest_compact_retry_snapshot ::
  "CompactRetryHistory \<Rightarrow> ((u64 \<times> RetryDocument \<times> RetryState) option, string) result" where
  "latest_compact_retry_snapshot h =
     (case ch_duplicate h of
        Some (seq, path) \<Rightarrow>
          Err (''duplicate exact-scope retry history sequence '' @ u64_text seq @ '' at '' @ path)
      | None \<Rightarrow>
          (let scoped = sort_key fst (ch_scoped h);
               reset = map_option fst (find (\<lambda>(_, c). is_reset_candidate c) (rev scoped))
           in case find (\<lambda>(seq, _, _). since_reset reset seq) (ch_unscoped h) of
                Some (_, path, e) \<Rightarrow>
                  Err (''retry history '' @ path @
                       '' has missing or corrupt scope after the latest authenticated exact-scope reset: '' @ e)
              | None \<Rightarrow>
                  (case walk_chain None (filter (\<lambda>(seq, _). since_reset reset seq) scoped) of
                     Err e \<Rightarrow> Err e
                   | Ok None \<Rightarrow> Ok None
                   | Ok (Some seq) \<Rightarrow>
                       (case ch_latest_value h of
                          None \<Rightarrow> Err ''latest exact-scope retry history payload is unavailable''
                        | Some (value_seq, v) \<Rightarrow>
                            (if value_seq \<noteq> seq
                             then Err ''latest exact-scope retry history payload does not match validated chain''
                             else (case map_of (ch_scoped h) seq of
                                     Some c \<Rightarrow>
                                       (case cc_state c of
                                          Ok s \<Rightarrow> Ok (Some (seq, v, s))
                                        | Err _ \<Rightarrow> Err ''latest retry state is unavailable'')
                                   | None \<Rightarrow> Err ''latest retry state is unavailable''))))))"

definition restore_canonical_from_history_locked ::
  "RetryEnv \<Rightarrow> PrFollowupBinding \<Rightarrow> RetryDocument \<Rightarrow> RetryStore \<Rightarrow> RetryStore \<times> (unit, EngineError) result" where
  "restore_canonical_from_history_locked env b d st =
     (case validate_artifact_value b d of
        Err e \<Rightarrow> (st, Err e)
      | Ok _ \<Rightarrow>
          (case re_restore env of
             FailsBeforeReplace e \<Rightarrow> (st, Err (artifact_error e))
           | FailsAfterReplace e \<Rightarrow> (st\<lparr>st_current := CurValid d\<rparr>, Err (artifact_error e))
           | RestoreOk \<Rightarrow> (st\<lparr>st_current := CurValid d\<rparr>, Ok ())))"

definition recover_latest_retry_snapshot ::
  "RetryEnv \<Rightarrow> PrFollowupBinding \<Rightarrow> (u64 \<times> RetryDocument \<times> RetryState) option \<Rightarrow> RetryStore \<Rightarrow>
   RetryStore \<times> (RetryState option, EngineError) result" where
  "recover_latest_retry_snapshot env b latest st =
     (case latest of
        None \<Rightarrow> (st, Ok None)
      | Some (_, v, s) \<Rightarrow>
          (case restore_canonical_from_history_locked env b v st of
             (st1, Err e) \<Rightarrow> (st1, Err e)
           | (st1, Ok _) \<Rightarrow> (st1, Ok (Some s))))"

definition load_matching_state_classified_locked ::
  "RetryEnv \<Rightarrow> PrFollowupBinding \<Rightarrow> RetryScopeKey \<Rightarrow> RetryStore \<Rightarrow>
   RetryStore \<times> (RetryState option, RetryStateLoadError) result" where
  "load_matching_state_classified_locked env b scope st =
     (let h = scan_retry_history env b scope st;
          history_present = (ch_candidate_count h \<noteq> 0);
          recover = (\<lambda>latest. (let (st1, r) = recover_latest_retry_snapshot env b latest st in (st1, map_err Storage r)))
      in case latest_compact_retry_snapshot h of
           Err e \<Rightarrow> (st, Err (Corruption e))
         | Ok latest \<Rightarrow>
             (case read_recoverable_current_json b st of
                CurValid d \<Rightarrow>
                  (case document_sequence d of
                     Err e \<Rightarrow> (st, Err (Corruption (engine_error_to_string e)))
                   | Ok canonical_sequence \<Rightarrow>
                       (case deserialize_retry_state env d of
                          Err e \<Rightarrow> (st, Err (Corruption (engine_error_to_string e)))
                        | Ok canonical \<Rightarrow>
                            (if rs_scope canonical \<noteq> scope then recover latest
                             else (case latest of
                                     None \<Rightarrow> (st, Ok (Some canonical))
                                   | Some (latest_sequence, latest_value, latest_state) \<Rightarrow>
                                       (if latest_sequence < canonical_sequence
                                        then (st, Err (Corruption
                                                ''retry-state canonical is ahead of immutable history''))
                                        else if latest_sequence > canonical_sequence \<or> latest_value \<noteq> d
                                        then (case restore_canonical_from_history_locked env b latest_value st of
                                                (st1, Err e) \<Rightarrow> (st1, Err (Storage e))
                                              | (st1, Ok _) \<Rightarrow> (st1, Ok (Some latest_state)))
                                        else (st, Ok (Some canonical)))))))
              | CurMissing \<Rightarrow>
                  (if latest = None \<and> history_present
                   then (st, Err (Corruption
                          ''retry-state canonical is missing and latest immutable history has no valid exact scope''))
                   else recover latest)
              | CurCorrupt raw \<Rightarrow>
                  (let latest_sequence = (case latest of Some (n, _, _) \<Rightarrow> n | None \<Rightarrow> 0)
                   in if (case raw of Some n \<Rightarrow> n > latest_sequence | None \<Rightarrow> False)
                      then (st, Err (Corruption
                             ''retry-state canonical is corrupt and ahead of exact-scope immutable history''))
                      else (case latest of
                              Some _ \<Rightarrow> recover latest
                            | None \<Rightarrow>
                                (st, Err (Corruption
                                  ''retry-state canonical is corrupt and exact-scope immutable history is unavailable''))))))"

definition load_matching_state_locked ::
  "RetryEnv \<Rightarrow> PrFollowupBinding \<Rightarrow> RetryScopeKey \<Rightarrow> RetryStore \<Rightarrow>
   RetryStore \<times> (RetryState option, EngineError) result" where
  "load_matching_state_locked env b scope st =
     (let (st1, r) = load_matching_state_classified_locked env b scope st in (st1, map_err into_engine_error r))"

definition state_sequence_locked :: "PrFollowupBinding \<Rightarrow> RetryStore \<Rightarrow> (u64 option, EngineError) result" where
  "state_sequence_locked b st =
     (case read_recoverable_current_json b st of
        CurMissing \<Rightarrow> Ok None
      | CurValid d \<Rightarrow> map_ok Some (document_sequence d)
      | CurCorrupt _ \<Rightarrow> Err (InvalidState ''retry-state canonical is corrupt while deriving predecessor''))"

section \<open>Policy and exhaustion\<close>

definition reconcile_retry_policy_locked ::
  "RetryEnv \<Rightarrow> PrFollowupBinding \<Rightarrow> string \<Rightarrow> u64 \<Rightarrow> RetryBudget \<Rightarrow> RetryState \<Rightarrow> RetryStore \<Rightarrow>
   RetryStore \<times> (RetryState, EngineError) result" where
  "reconcile_retry_policy_locked env b producer step_order configured s st =
     (case reconcile (rs_budget s) configured (rs_counters s) (rs_exhaustion_reason s) of
        Err e \<Rightarrow> (st, Err e)
      | Ok (budget, reason) \<Rightarrow>
          (if rs_budget s = budget \<and> rs_exhaustion_reason s = reason then (st, Ok s)
           else
            (case state_sequence_locked b st of
               Err e \<Rightarrow> (st, Err e)
             | Ok predecessor \<Rightarrow>
                 (let s1 = s\<lparr>rs_predecessor_artifact_sequence := predecessor, rs_budget := budget,
                             rs_exhaustion_reason := reason,
                             rs_transition_type :=
                               (if reason \<noteq> None then ''policy_tightened_exhausted'' else ''policy_tightened'')\<rparr>;
                      (st1, r) = persist env b producer step_order s1 st
                  in (st1, map_ok (\<lambda>_. s1) r)))))"

definition durable_launch_transition_id :: "RetryState \<Rightarrow> string" where
  "durable_launch_transition_id s =
     (if rs_launch_transition_id s = [] then rs_transition_id s else rs_launch_transition_id s)"

definition exhausted_error :: "RetryState \<Rightarrow> EngineError option" where
  "exhausted_error s =
     map_option (\<lambda>reason. InvalidState
       (''remediation retry budget exhausted: RetryExhaustionView { reason: '' @ reason_debug reason @
        '', remediation_attempt_index: '' @ u64_text (rc_remediation_attempt_index (rs_counters s)) @
        '', validation_retry_index: '' @ u64_text (rc_validation_retry_index (rs_counters s)) @
        '', stale_artifact_retry_index: '' @ u64_text (rc_stale_artifact_retry_index (rs_counters s)) @
        '', max_remediation_attempts: '' @ u64_text (rb_max_remediation_attempts (rs_budget s)) @
        '', max_validation_retries: '' @ u64_text (rb_max_validation_retries (rs_budget s)) @
        '', max_stale_artifact_retries: '' @ u64_text (rb_max_stale_artifact_retries (rs_budget s)) @ '' }''))
       (rs_exhaustion_reason s)"

section \<open>Results of a launch\<close>

definition result_is_validated :: "json \<Rightarrow> bool" where
  "result_is_validated v \<longleftrightarrow>
     json_get v ''validation_source_id'' \<noteq> None \<or>
     (case Option.bind (json_get v ''validation_state'') json_as_str of
        Some state \<Rightarrow> state \<noteq> ''unvalidated'' | None \<Rightarrow> False)"

definition result_matches_unvalidated_launch :: "json \<Rightarrow> RetryState \<Rightarrow> bool" where
  "result_matches_unvalidated_launch v s \<longleftrightarrow>
     (if result_is_validated v then False
      else if json_get v ''history_metadata'' = None \<and> json_get v ''producer_step_id'' = None
      then rs_launch_result_promoted s
      else
       (let direct_match =
              Option.bind (json_get v ''retry_launch_transition_id'') json_as_str = Some (durable_launch_transition_id s) \<and>
              json_u64 (json_get v ''retry_launch_ordinal'') = Some (rs_launch_ordinal s);
            wrapper_match =
              json_u64 (Option.bind (json_get v ''retry_scope'') (\<lambda>sc. json_get sc ''remediation_attempt_index'')) =
                Some (rs_launch_ordinal s) \<and>
              Option.bind (json_get v ''validation_state'') json_as_str = Some ''unvalidated'' \<and>
              Option.bind (json_get v ''producer_step_id'') json_as_str = Some ''remediate_pr_followup''
        in direct_match \<or> wrapper_match))"

definition read_untrusted_current_json :: "RetryStore \<Rightarrow> (json option, EngineError) result" where
  "read_untrusted_current_json st =
     (case st_result st of
        None \<Rightarrow> Ok None
      | Some r \<Rightarrow> map_ok Some (map_err artifact_error r))"

definition read_untrusted_remediation_launch_result ::
  "u64 \<Rightarrow> string \<Rightarrow> RetryStore \<Rightarrow> (json option, EngineError) result" where
  "read_untrusted_remediation_launch_result ordinal token st =
     (case map_of (st_launch_results st) (ordinal, token) of
        None \<Rightarrow> Ok None
      | Some r \<Rightarrow> map_ok Some (map_err artifact_error r))"

definition promote_remediation_launch_result_locked ::
  "u64 \<Rightarrow> string \<Rightarrow> RetryStore \<Rightarrow> RetryStore \<times> (bool, EngineError) result" where
  "promote_remediation_launch_result_locked ordinal token st =
     (case map_of (st_launch_results st) (ordinal, token) of
        None \<Rightarrow> (st, Ok False)
      | Some (Err e) \<Rightarrow> (st, Err (artifact_error e))
      | Some (Ok v) \<Rightarrow> (st\<lparr>st_result := Some (Ok v)\<rparr>, Ok True))"

section \<open>Reserving a launch\<close>

definition fnv64 :: "string \<Rightarrow> u64" where
  "fnv64 bytes = foldl (\<lambda>h c. (xor h (word_of_nat (of_char c))) * 0x100000001b3) 0xcbf29ce484222325 bytes"

definition hex16 :: "u64 \<Rightarrow> string" where
  "hex16 w = map (\<lambda>i. hex_digit (unat w div 16 ^ i mod 16)) (rev [0..<16])"

definition launch_transition_id :: "PrFollowupBinding \<Rightarrow> json \<Rightarrow> u64 \<Rightarrow> string" where
  "launch_transition_id b plan ordinal =
     ''fnv64:'' @ hex16 (fnv64
       (pb_run_id b @ '':'' @ pb_repository_owner b @ ''/'' @ pb_repository_name b @ '':'' @
        u64_text (pb_pr_number b) @ '':'' @ pb_head_sha b @ '':'' @
        u64_text (case json_u64 (json_get plan ''artifact_sequence'') of Some n \<Rightarrow> n | None \<Rightarrow> 0) @
        '':launch:'' @ u64_text ordinal))"

record LaunchReservation =
  lr_binding :: PrFollowupBinding
  lr_plan :: json
  lr_producer_step_id :: string
  lr_step_order :: u64
  lr_scope :: RetryScopeKey
  lr_configured_budget :: RetryBudget
  lr_invocation_timeout_seconds :: u64
  lr_previous :: "RetryState option"

definition launch_reservation_new ::
  "RetryEnv \<Rightarrow> PrFollowupBinding \<Rightarrow> json \<Rightarrow> json \<Rightarrow> string \<Rightarrow> u64 \<Rightarrow> RetryStore \<Rightarrow>
   RetryStore \<times> (LaunchReservation, EngineError) result" where
  "launch_reservation_new env b plan params producer step_order st =
     (case scope_key_new b plan of
        Err e \<Rightarrow> (st, Err e)
      | Ok scope \<Rightarrow>
          (case budget_from_params params of
             Err e \<Rightarrow> (st, Err e)
           | Ok budget \<Rightarrow>
               (case parameter params ''timeout_seconds'' DEFAULT_INVOCATION_TIMEOUT_SECONDS of
                  Err e \<Rightarrow> (st, Err e)
                | Ok timeout \<Rightarrow>
                    (if timeout = 0
                     then (st, Err (InvalidState ''remediation timeout_seconds must be greater than zero''))
                     else
                      (case load_matching_state_locked env b scope st of
                         (st1, Err e) \<Rightarrow> (st1, Err e)
                       | (st1, Ok previous) \<Rightarrow>
                           (st1, Ok \<lparr>lr_binding = b, lr_plan = plan, lr_producer_step_id = producer,
                                    lr_step_order = step_order, lr_scope = scope, lr_configured_budget = budget,
                                    lr_invocation_timeout_seconds = timeout, lr_previous = previous\<rparr>))))))"

definition reconcile_previous ::
  "RetryEnv \<Rightarrow> LaunchReservation \<Rightarrow> RetryStore \<Rightarrow> RetryStore \<times> (LaunchReservation, EngineError) result" where
  "reconcile_previous env lr st =
     (case lr_previous lr of
        None \<Rightarrow> (st, Ok lr)
      | Some p \<Rightarrow>
          (let (st1, r) = reconcile_retry_policy_locked env (lr_binding lr) (lr_producer_step_id lr) (lr_step_order lr)
                            (lr_configured_budget lr) p st
           in (st1, map_ok (\<lambda>p'. lr\<lparr>lr_previous := Some p'\<rparr>) r)))"

definition resolve_budget :: "LaunchReservation \<Rightarrow> RetryBudget" where
  "resolve_budget lr = (case lr_previous lr of Some p \<Rightarrow> rs_budget p | None \<Rightarrow> lr_configured_budget lr)"

definition previous_counters :: "LaunchReservation \<Rightarrow> RetryCounters" where
  "previous_counters lr = (case lr_previous lr of Some p \<Rightarrow> rs_counters p | None \<Rightarrow> counters_default)"

definition guard_active_launch :: "RetryEnv \<Rightarrow> LaunchReservation \<Rightarrow> (unit, EngineError) result" where
  "guard_active_launch env lr =
     (case lr_previous lr of
        None \<Rightarrow> Ok ()
      | Some s \<Rightarrow>
          (case rs_launch_phase s of
             LpCompleted \<Rightarrow> Ok ()
           | _ \<Rightarrow>
               (case is_lease_expired env s of
                  Err e \<Rightarrow> Err e
                | Ok expired \<Rightarrow>
                    (if \<not> expired
                     then Err (InvalidState
                            (''remediation launch already in progress for scope (run_id='' @ sk_run_id (lr_scope lr) @
                             '', pr='' @ u64_text (sk_pr_number (lr_scope lr)) @ '', head_sha='' @
                             sk_input_head_sha (lr_scope lr) @ ''): ordinal='' @ u64_text (rs_launch_ordinal s) @
                             '', phase='' @ phase_debug (rs_launch_phase s) @ '', owner_token='' @ rs_owner_token s))
                     else Ok ()))))"

definition reject_exhausted :: "LaunchReservation \<Rightarrow> (unit, EngineError) result" where
  "reject_exhausted lr =
     (case Option.bind (lr_previous lr) exhausted_error of Some e \<Rightarrow> Err e | None \<Rightarrow> Ok ())"

definition prepare_reservation ::
  "RetryEnv \<Rightarrow> LaunchReservation \<Rightarrow> RetryStore \<Rightarrow> RetryStore \<times> (LaunchReservation, EngineError) result" where
  "prepare_reservation env lr st =
     (case reconcile_previous env lr st of
        (st1, Err e) \<Rightarrow> (st1, Err e)
      | (st1, Ok lr1) \<Rightarrow> (st1, map_ok (\<lambda>_. lr1) (reject_exhausted lr1)))"

definition next_launch_ordinal :: "LaunchReservation \<Rightarrow> (u64, EngineError) result" where
  "next_launch_ordinal lr =
     (case checked_add (rc_remediation_attempt_index (previous_counters lr)) 1 of
        Some n \<Rightarrow> Ok n
      | None \<Rightarrow> Err (InvalidState ''remediation launch ordinal overflowed durable retry state''))"

definition reject_launch_beyond_budget ::
  "RetryEnv \<Rightarrow> u64 \<Rightarrow> RetryBudget \<Rightarrow> LaunchReservation \<Rightarrow> RetryStore \<Rightarrow> RetryStore \<times> (unit, EngineError) result" where
  "reject_launch_beyond_budget env ordinal budget lr st =
     (if ordinal \<le> rb_max_remediation_attempts budget then (st, Ok ())
      else
       (case lr_previous lr of
          None \<Rightarrow> (st, Err (InvalidState ''first remediation launch exceeds its budget''))
        | Some p \<Rightarrow>
            (case state_sequence_locked (lr_binding lr) st of
               Err e \<Rightarrow> (st, Err e)
             | Ok predecessor \<Rightarrow>
                 (let p1 = p\<lparr>rs_predecessor_artifact_sequence := predecessor,
                             rs_transition_type := ''next_launch_cap_exhausted'',
                             rs_exhaustion_reason := Some RemediationAttempts\<rparr>
                  in case persist env (lr_binding lr) (lr_producer_step_id lr) (lr_step_order lr) p1 st of
                       (st1, Err e) \<Rightarrow> (st1, Err e)
                     | (st1, Ok _) \<Rightarrow> (st1, Err (the (exhausted_error p1)))))))"

definition recoverable_crash_phase ::
  "RetryEnv \<Rightarrow> LaunchReservation \<Rightarrow> RetryStore \<Rightarrow> RetryStore \<times> (LaunchPhase option, EngineError) result" where
  "recoverable_crash_phase env lr st =
     (case lr_previous lr of
        None \<Rightarrow> (st, Ok None)
      | Some s \<Rightarrow>
          (case rs_launch_phase s of
             LpCompleted \<Rightarrow>
               (if rs_transition_type s \<notin> {''launch_completed'', ''policy_tightened''} then (st, Ok None)
                else
                 (case next_launch_ordinal lr of
                    Err e \<Rightarrow> (st, Err e)
                  | Ok ordinal \<Rightarrow>
                      (case reject_launch_beyond_budget env ordinal (resolve_budget lr) lr st of
                         (st1, Err e) \<Rightarrow> (st1, Err e)
                       | (st1, Ok _) \<Rightarrow> (st1, Ok (Some LpCompleted)))))
           | LpLaunched \<Rightarrow>
               (case is_lease_expired env s of
                  Err e \<Rightarrow> (st, Err e)
                | Ok expired \<Rightarrow> (st, Ok (if expired then Some LpLaunched else None)))
           | LpReserved \<Rightarrow> (st, Ok None)))"

definition recover_launch_result ::
  "LaunchPhase \<Rightarrow> json option \<Rightarrow> RetryState \<Rightarrow> RetryStore \<Rightarrow> RetryStore \<times> (bool \<times> RetryState, EngineError) result" where
  "recover_launch_result phase canonical s st =
     (let canonical_matches =
            (case canonical of Some v \<Rightarrow> result_matches_unvalidated_launch v s | None \<Rightarrow> False)
      in case read_untrusted_remediation_launch_result (rs_launch_ordinal s) (rs_owner_token s) st of
           Err e \<Rightarrow> (st, Err e)
         | Ok launch_result \<Rightarrow>
             (if launch_result \<noteq> None \<and> phase = LpCompleted \<and> \<not> canonical_matches then (st, Ok (False, s))
              else if launch_result \<noteq> None
              then (case promote_remediation_launch_result_locked (rs_launch_ordinal s) (rs_owner_token s) st of
                      (st1, Err e) \<Rightarrow> (st1, Err e)
                    | (st1, Ok _) \<Rightarrow> (st1, Ok (True, s\<lparr>rs_launch_result_promoted := True\<rparr>)))
              else if \<not> canonical_matches \<or> (phase = LpLaunched \<and> \<not> rs_launch_result_promoted s)
              then (st, Ok (False, s))
              else if phase = LpCompleted \<and>
                      Option.bind (Option.bind canonical (\<lambda>v. json_get v ''retry_launch_owner_token'')) json_as_str
                        \<noteq> Some (rs_owner_token s)
              then (st, Ok (False, s))
              else (st, Ok (True, s))))"

definition persist_recovered_launch ::
  "RetryEnv \<Rightarrow> LaunchPhase \<Rightarrow> RetryState \<Rightarrow> LaunchReservation \<Rightarrow> RetryStore \<Rightarrow> RetryStore \<times> (LaunchReservation, EngineError) result" where
  "persist_recovered_launch env phase s lr st =
     (case state_sequence_locked (lr_binding lr) st of
        Err e \<Rightarrow> (st, Err e)
      | Ok predecessor \<Rightarrow>
          (case (case phase of
                   LpLaunched \<Rightarrow> Some ''launch_recovered_from_agent_result''
                 | LpCompleted \<Rightarrow> Some ''launch_completed_result_recovered''
                 | LpReserved \<Rightarrow> None) of
             None \<Rightarrow> (st, Err (InvalidState ''reserved remediation launch cannot recover an agent result''))
           | Some ty \<Rightarrow>
               (let s1 = s\<lparr>rs_predecessor_artifact_sequence := predecessor, rs_launch_phase := LpCompleted,
                           rs_transition_type := ty\<rparr>
                in case persist env (lr_binding lr) (lr_producer_step_id lr) (lr_step_order lr) s1 st of
                     (st1, Err e) \<Rightarrow> (st1, Err e)
                   | (st1, Ok _) \<Rightarrow> (st1, Ok (lr\<lparr>lr_previous := Some s1\<rparr>)))))"

definition recover_agent_result_after_crash ::
  "RetryEnv \<Rightarrow> LaunchReservation \<Rightarrow> RetryStore \<Rightarrow> RetryStore \<times> (bool, EngineError) result" where
  "recover_agent_result_after_crash env lr st =
     (case recoverable_crash_phase env lr st of
        (st1, Err e) \<Rightarrow> (st1, Err e)
      | (st1, Ok None) \<Rightarrow> (st1, Ok False)
      | (st1, Ok (Some phase)) \<Rightarrow>
          (case read_untrusted_current_json st1 of
             Err e \<Rightarrow> (st1, Err e)
           | Ok canonical \<Rightarrow>
               (if (case canonical of Some v \<Rightarrow> result_is_validated v | None \<Rightarrow> False) then (st1, Ok False)
                else
                 (case lr_previous lr of
                    None \<Rightarrow> (st1, Err (InvalidState ''recoverable retry state disappeared''))
                  | Some s \<Rightarrow>
                      (case recover_launch_result phase canonical s st1 of
                         (st2, Err e) \<Rightarrow> (st2, Err e)
                       | (st2, Ok (False, _)) \<Rightarrow> (st2, Ok False)
                       | (st2, Ok (True, s1)) \<Rightarrow>
                           (case persist_recovered_launch env phase s1 lr st2 of
                              (st3, Err e) \<Rightarrow> (st3, Err e)
                            | (st3, Ok _) \<Rightarrow> (st3, Ok True)))))))"

definition reserved_state ::
  "RetryEnv \<Rightarrow> LaunchReservation \<Rightarrow> u64 \<Rightarrow> u64 option \<Rightarrow> string \<Rightarrow> RetryState" where
  "reserved_state env lr ordinal predecessor lease =
     (let tid = launch_transition_id (lr_binding lr) (lr_plan lr) ordinal
      in \<lparr>rs_scope = lr_scope lr, rs_budget = resolve_budget lr,
          rs_counters = (previous_counters lr)\<lparr>rc_remediation_attempt_index := ordinal\<rparr>,
          rs_transition_id = tid, rs_launch_transition_id = tid, rs_transition_type = ''launch_reserved'',
          rs_launch_phase = LpReserved, rs_launch_ordinal = ordinal,
          rs_remediation_step_order_index = lr_step_order lr, rs_predecessor_artifact_sequence = predecessor,
          rs_history_chain_reset = False, rs_validation_source_id = None, rs_launch_result_promoted = False,
          rs_owner_token = re_uuid env, rs_lease_expiry = Some lease,
          rs_invocation_timeout_seconds = lr_invocation_timeout_seconds lr, rs_exhaustion_reason = None\<rparr>)"

definition reserve_prepared ::
  "RetryEnv \<Rightarrow> LaunchReservation \<Rightarrow> RetryStore \<Rightarrow> RetryStore \<times> (RetryState, EngineError) result" where
  "reserve_prepared env lr st =
     (case guard_active_launch env lr of
        Err e \<Rightarrow> (st, Err e)
      | Ok _ \<Rightarrow>
          (case next_launch_ordinal lr of
             Err e \<Rightarrow> (st, Err e)
           | Ok ordinal \<Rightarrow>
               (case reject_launch_beyond_budget env ordinal (resolve_budget lr) lr st of
                  (st1, Err e) \<Rightarrow> (st1, Err e)
                | (st1, Ok _) \<Rightarrow>
                    (case (if lr_previous lr \<noteq> None then state_sequence_locked (lr_binding lr) st1 else Ok None) of
                       Err e \<Rightarrow> (st1, Err e)
                     | Ok predecessor \<Rightarrow>
                         (case lease_expiry_from_now env (lr_invocation_timeout_seconds lr) of
                            Err e \<Rightarrow> (st1, Err e)
                          | Ok lease \<Rightarrow>
                              (let s = reserved_state env lr ordinal predecessor lease
                               in case persist env (lr_binding lr) (lr_producer_step_id lr) (lr_step_order lr) s st1 of
                                    (st2, Err e) \<Rightarrow> (st2, Err e)
                                  | (st2, Ok _) \<Rightarrow> (st2, Ok s)))))))"

datatype 'r LaunchReservationOutcome = Recovered | Reserved RetryState 'r

definition reserve_launch_with_baseline ::
  "RetryEnv \<Rightarrow> PrFollowupBinding \<Rightarrow> json \<Rightarrow> json \<Rightarrow> string \<Rightarrow> u64 \<Rightarrow>
   (RetryState \<Rightarrow> RetryStore \<Rightarrow> ('r, EngineError) result) \<Rightarrow> RetryStore \<Rightarrow>
   RetryStore \<times> ('r LaunchReservationOutcome, EngineError) result" where
  "reserve_launch_with_baseline env b plan params producer step_order capture st =
     (case launch_reservation_new env b plan params producer step_order st of
        (st1, Err e) \<Rightarrow> (st1, Err e)
      | (st1, Ok lr) \<Rightarrow>
          (case prepare_reservation env lr st1 of
             (st2, Err e) \<Rightarrow> (st2, Err e)
           | (st2, Ok lr2) \<Rightarrow>
               (case recover_agent_result_after_crash env lr2 st2 of
                  (st3, Err e) \<Rightarrow> (st3, Err e)
                | (st3, Ok True) \<Rightarrow> (st3, Ok Recovered)
                | (st3, Ok False) \<Rightarrow>
                    (case reserve_prepared env lr2 st3 of
                       (st4, Err e) \<Rightarrow> (st4, Err e)
                     | (st4, Ok s) \<Rightarrow> (st4, map_ok (Reserved s) (capture s st4))))))"

section \<open>Phases of a launch\<close>

text \<open>
  The code updates the caller's state in place before it persists it. After a failed promotion the
  step still completes the launch with the state so changed, so a promotion returns the state next to
  its result. On an error of a phase transition every caller gives the launch up with it, so a failed
  transition returns no state here.
\<close>

definition verify_ownership :: "RetryState option \<Rightarrow> string \<Rightarrow> LaunchPhase \<Rightarrow> u64 \<Rightarrow> (unit, EngineError) result" where
  "verify_ownership persisted token phase ordinal =
     (case persisted of
        None \<Rightarrow> Err (InvalidState ''retry state vanished between reserve and phase transition'')
      | Some s \<Rightarrow>
          (if rs_owner_token s \<noteq> token
           then Err (InvalidState (''retry state ownership changed: expected token '' @ token @
                  '', persisted token '' @ rs_owner_token s))
           else if rs_launch_phase s \<noteq> phase
           then Err (InvalidState (''retry state phase diverged: expected '' @ phase_debug phase @
                  '', persisted '' @ phase_debug (rs_launch_phase s)))
           else if rs_launch_ordinal s \<noteq> ordinal
           then Err (InvalidState (''retry state ordinal diverged: expected '' @ u64_text ordinal @
                  '', persisted '' @ u64_text (rs_launch_ordinal s)))
           else Ok ()))"

definition promote_launch_result ::
  "RetryEnv \<Rightarrow> PrFollowupBinding \<Rightarrow> string \<Rightarrow> u64 \<Rightarrow> RetryState \<Rightarrow> RetryStore \<Rightarrow>
   RetryStore \<times> RetryState \<times> (bool, EngineError) result" where
  "promote_launch_result env b producer step_order s st =
     (case load_matching_state_locked env b (rs_scope s) st of
        (st1, Err e) \<Rightarrow> (st1, s, Err e)
      | (st1, Ok persisted) \<Rightarrow>
          (case verify_ownership persisted (rs_owner_token s) LpLaunched (rs_launch_ordinal s) of
             Err e \<Rightarrow> (st1, s, Err e)
           | Ok _ \<Rightarrow>
               (case promote_remediation_launch_result_locked (rs_launch_ordinal s) (rs_owner_token s) st1 of
                  (st2, Err e) \<Rightarrow> (st2, s, Err e)
                | (st2, Ok False) \<Rightarrow> (st2, s, Ok False)
                | (st2, Ok True) \<Rightarrow>
                    (case state_sequence_locked b st2 of
                       Err e \<Rightarrow> (st2, s, Err e)
                     | Ok predecessor \<Rightarrow>
                         (let s1 = s\<lparr>rs_predecessor_artifact_sequence := predecessor,
                                     rs_launch_result_promoted := True,
                                     rs_transition_type := ''launch_result_promoted''\<rparr>;
                              (st3, r) = persist env b producer step_order s1 st2
                          in (st3, s1, map_ok (\<lambda>_. True) r))))))"

definition valid_phase_transition :: "LaunchPhase \<Rightarrow> LaunchPhase \<Rightarrow> bool" where
  "valid_phase_transition a b \<longleftrightarrow> (a = LpReserved \<and> b = LpLaunched) \<or> (a = LpLaunched \<and> b = LpCompleted)"

definition record_launch_phase ::
  "RetryEnv \<Rightarrow> PrFollowupBinding \<Rightarrow> string \<Rightarrow> u64 \<Rightarrow> RetryState \<Rightarrow> LaunchPhase \<Rightarrow> RetryStore \<Rightarrow>
   RetryStore \<times> (RetryState, EngineError) result" where
  "record_launch_phase env b producer step_order s phase st =
     (if \<not> valid_phase_transition (rs_launch_phase s) phase
      then (st, Err (InvalidState (''invalid remediation launch transition: '' @ phase_debug (rs_launch_phase s) @
             '' -> '' @ phase_debug phase)))
      else
       (case load_matching_state_locked env b (rs_scope s) st of
          (st1, Err e) \<Rightarrow> (st1, Err e)
        | (st1, Ok persisted) \<Rightarrow>
            (case verify_ownership persisted (rs_owner_token s) (rs_launch_phase s) (rs_launch_ordinal s) of
               Err e \<Rightarrow> (st1, Err e)
             | Ok _ \<Rightarrow>
                 (case state_sequence_locked b st1 of
                    Err e \<Rightarrow> (st1, Err e)
                  | Ok predecessor \<Rightarrow>
                      (let s1 = s\<lparr>rs_predecessor_artifact_sequence := predecessor, rs_launch_phase := phase,
                                  rs_transition_type :=
                                    (if phase = LpLaunched then ''launch_launched'' else ''launch_completed'')\<rparr>
                       in case (if phase = LpLaunched
                                then map_ok (\<lambda>lease. s1\<lparr>rs_lease_expiry := Some lease\<rparr>)
                                       (lease_expiry_from_now env (rs_invocation_timeout_seconds s))
                                else Ok s1) of
                            Err e \<Rightarrow> (st1, Err e)
                          | Ok s2 \<Rightarrow>
                              (let (st2, r) = persist env b producer step_order s2 st1
                               in (st2, map_ok (\<lambda>_. s2) r)))))))"

section \<open>Validation of a result\<close>

record ValidationTransition =
  vt_source_id :: string
  vt_validation_retry_index :: u64
  vt_stale_artifact_retry_index :: u64
  vt_transition_type :: string

record ValidationAdvancement =
  va_validation_retry :: bool
  va_stale_artifact_retry :: bool

record RetryOwnership =
  ro_scope :: RetryScopeKey
  ro_token :: string
  ro_phase :: LaunchPhase
  ro_ordinal :: u64

definition ownership_from_state :: "RetryState \<Rightarrow> RetryOwnership" where
  "ownership_from_state s =
     \<lparr>ro_scope = rs_scope s, ro_token = rs_owner_token s, ro_phase = rs_launch_phase s,
      ro_ordinal = rs_launch_ordinal s\<rparr>"

definition ownership_verify :: "RetryOwnership \<Rightarrow> RetryState option \<Rightarrow> (unit, EngineError) result" where
  "ownership_verify o' persisted =
     (case persisted of
        None \<Rightarrow> Err (InvalidState ''retry state vanished between reserve and validation transition'')
      | Some s \<Rightarrow>
          (if rs_scope s \<noteq> ro_scope o'
           then Err (InvalidState ''retry state scope changed before validation transition'')
           else verify_ownership (Some s) (ro_token o') (ro_phase o') (ro_ordinal o')))"

definition is_idempotent_replay :: "ValidationTransition \<Rightarrow> RetryState \<Rightarrow> (bool, EngineError) result" where
  "is_idempotent_replay t s =
     (if rs_validation_source_id s \<noteq> Some (vt_source_id t) then Ok False
      else if vt_validation_retry_index t = rc_validation_retry_index (rs_counters s) \<and>
              vt_stale_artifact_retry_index t = rc_stale_artifact_retry_index (rs_counters s) \<and>
              vt_transition_type t = rs_transition_type s
      then Ok True
      else Err (InvalidState ''replayed remediation validation source has divergent counters''))"

definition validate_against :: "ValidationTransition \<Rightarrow> RetryState \<Rightarrow> (unit, EngineError) result" where
  "validate_against t s =
     (if vt_validation_retry_index t < rc_validation_retry_index (rs_counters s) \<or>
         vt_stale_artifact_retry_index t < rc_stale_artifact_retry_index (rs_counters s)
      then Err (InvalidState ''remediation validation counters cannot decrease'')
      else validate_against_budget
             \<lparr>rc_remediation_attempt_index = rc_remediation_attempt_index (rs_counters s),
              rc_validation_retry_index = vt_validation_retry_index t,
              rc_stale_artifact_retry_index = vt_stale_artifact_retry_index t\<rparr> (rs_budget s))"

definition advancement_from :: "ValidationTransition \<Rightarrow> RetryState \<Rightarrow> ValidationAdvancement" where
  "advancement_from t s =
     \<lparr>va_validation_retry = (vt_validation_retry_index t > rc_validation_retry_index (rs_counters s)),
      va_stale_artifact_retry = (vt_stale_artifact_retry_index t > rc_stale_artifact_retry_index (rs_counters s))\<rparr>"

definition advance_counter :: "u64 \<Rightarrow> bool \<Rightarrow> string \<Rightarrow> (u64, EngineError) result" where
  "advance_counter current advances name =
     (case checked_add current (if advances then 1 else 0) of
        Some n \<Rightarrow> Ok n
      | None \<Rightarrow> Err (InvalidState (name @ '' counter overflowed'')))"

definition exhaustion_reason_for_transition :: "string \<Rightarrow> RetryExhaustionReason option" where
  "exhaustion_reason_for_transition ty =
     (if ty = ''malformed_cap_exhausted'' then Some ValidationRetries
      else if ty = ''unsuccessful_remediation_cap_exhausted'' then Some RemediationAttempts
      else if ty = ''stale_artifact_cap_exhausted'' then Some StaleArtifactRetries
      else None)"

definition apply_validation ::
  "ValidationTransition \<Rightarrow> ValidationAdvancement \<Rightarrow> RetryState \<Rightarrow> (RetryState, EngineError) result" where
  "apply_validation t adv s =
     (case advance_counter (rc_validation_retry_index (rs_counters s)) (va_validation_retry adv) ''validation retry'' of
        Err e \<Rightarrow> Err e
      | Ok v \<Rightarrow>
          (case advance_counter (rc_stale_artifact_retry_index (rs_counters s)) (va_stale_artifact_retry adv)
                  ''stale artifact retry'' of
             Err e \<Rightarrow> Err e
           | Ok a \<Rightarrow>
               (if v \<noteq> vt_validation_retry_index t \<or> a \<noteq> vt_stale_artifact_retry_index t
                then Err (InvalidState ''remediation validation counter transition must advance by at most one'')
                else
                 (let c = (rs_counters s)\<lparr>rc_validation_retry_index := v, rc_stale_artifact_retry_index := a\<rparr>
                  in case validate_against_budget c (rs_budget s) of
                       Err e \<Rightarrow> Err e
                     | Ok _ \<Rightarrow>
                         Ok (s\<lparr>rs_counters := c, rs_validation_source_id := Some (vt_source_id t),
                               rs_transition_id := ''fnv64:'' @ hex16 (fnv64 (vt_source_id t)),
                               rs_transition_type := vt_transition_type t,
                               rs_exhaustion_reason :=
                                 (case exhaustion_reason_for_transition (vt_transition_type t) of
                                    Some r \<Rightarrow> Some r | None \<Rightarrow> rs_exhaustion_reason s)\<rparr>)))))"

definition advance_validation_locked ::
  "RetryEnv \<Rightarrow> PrFollowupBinding \<Rightarrow> string \<Rightarrow> u64 \<Rightarrow> json \<Rightarrow> RetryOwnership \<Rightarrow> ValidationTransition \<Rightarrow> RetryStore \<Rightarrow>
   RetryStore \<times> (RetryState, EngineError) result" where
  "advance_validation_locked env b producer step_order params o' t st =
     (case load_matching_state_locked env b (ro_scope o') st of
        (st1, Err e) \<Rightarrow> (st1, Err e)
      | (st1, Ok persisted) \<Rightarrow>
          (case ownership_verify o' persisted of
             Err e \<Rightarrow> (st1, Err e)
           | Ok _ \<Rightarrow>
               (case persisted of
                  None \<Rightarrow> (st1, Err (InvalidState ''retry state vanished during validation''))
                | Some s0 \<Rightarrow>
                    (case is_idempotent_replay t s0 of
                       Err e \<Rightarrow> (st1, Err e)
                     | Ok replay \<Rightarrow>
                         (case budget_from_params params of
                            Err e \<Rightarrow> (st1, Err e)
                          | Ok configured \<Rightarrow>
                              (case reconcile_retry_policy_locked env b producer step_order configured s0 st1 of
                                 (st2, Err e) \<Rightarrow> (st2, Err e)
                               | (st2, Ok s1) \<Rightarrow>
                                   (if replay then (st2, Ok s1)
                                    else
                                     (case exhausted_error s1 of
                                        Some e \<Rightarrow> (st2, Err e)
                                      | None \<Rightarrow>
                                          (case validate_against t s1 of
                                             Err e \<Rightarrow> (st2, Err e)
                                           | Ok _ \<Rightarrow>
                                               (case state_sequence_locked b st2 of
                                                  Err e \<Rightarrow> (st2, Err e)
                                                | Ok predecessor \<Rightarrow>
                                                    (case apply_validation t (advancement_from t s1)
                                                            (s1\<lparr>rs_predecessor_artifact_sequence := predecessor\<rparr>) of
                                                       Err e \<Rightarrow> (st2, Err e)
                                                     | Ok s2 \<Rightarrow>
                                                         (let (st3, r) = persist env b producer step_order s2 st2
                                                          in (st3, map_ok (\<lambda>_. s2) r)))))))))))))"

definition retry_counter_fields :: "RetryState \<Rightarrow> (string \<times> json) list" where
  "retry_counter_fields s =
     [(''remediation_attempt_index'', JInt (uint (rc_remediation_attempt_index (rs_counters s)))),
      (''max_remediation_attempts'', JInt (uint (rb_max_remediation_attempts (rs_budget s)))),
      (''validation_retry_index'', JInt (uint (rc_validation_retry_index (rs_counters s)))),
      (''max_validation_retries'', JInt (uint (rb_max_validation_retries (rs_budget s)))),
      (''stale_artifact_retry_index'', JInt (uint (rc_stale_artifact_retry_index (rs_counters s)))),
      (''max_stale_artifact_retries'', JInt (uint (rb_max_stale_artifact_retries (rs_budget s))))]"

definition insert_all :: "(string \<times> json) list \<Rightarrow> (string \<times> json) list \<Rightarrow> (string \<times> json) list" where
  "insert_all new obj = foldl (\<lambda>m (k, v). AList.update k v m) obj new"

definition project_retry_state :: "json \<Rightarrow> RetryState \<Rightarrow> json" where
  "project_retry_state v s =
     (let obj = (case v of JObj kvs \<Rightarrow> kvs | _ \<Rightarrow> []);
          obj1 = insert_all (retry_counter_fields s @
                   [(''retry_launch_transition_id'', JStr (durable_launch_transition_id s)),
                    (''retry_launch_ordinal'', JInt (uint (rs_launch_ordinal s)))]) obj;
          scope = (case map_of obj1 ''retry_scope'' of Some (JObj kvs) \<Rightarrow> kvs | _ \<Rightarrow> [])
      in JObj (AList.update ''retry_scope'' (JObj (insert_all (retry_counter_fields s) scope)) obj1))"

text \<open>
  The validated result is published as a document of another family; its publication is an
  argument that turns the store and the payload into a record.
\<close>

definition record_validation_and_publish ::
  "RetryEnv \<Rightarrow> PrFollowupBinding \<Rightarrow> string \<Rightarrow> u64 \<Rightarrow> json \<Rightarrow> RetryState \<Rightarrow> ValidationTransition \<Rightarrow> json \<Rightarrow>
   (json \<Rightarrow> RetryStore \<Rightarrow> RetryStore \<times> ('rec, EngineError) result) \<Rightarrow> RetryStore \<Rightarrow>
   RetryStore \<times> (RetryState \<times> 'rec \<times> json, EngineError) result" where
  "record_validation_and_publish env b producer step_order params s t payload write_result st =
     (case advance_validation_locked env b producer step_order params (ownership_from_state s) t st of
        (st1, Err e) \<Rightarrow> (st1, Err e)
      | (st1, Ok s1) \<Rightarrow>
          (let projected = project_retry_state payload s1;
               (st2, r) = write_result projected st1
           in (st2, map_ok (\<lambda>rec. (s1, rec, projected)) r)))"

definition causal_exhaustion :: "RetryState \<Rightarrow> string option" where
  "causal_exhaustion s =
     map_option (\<lambda>r. case r of
         RemediationAttempts \<Rightarrow> ''remediation_attempts_exhausted''
       | ValidationRetries \<Rightarrow> ''validation_retries_exhausted''
       | StaleArtifactRetries \<Rightarrow> ''stale_artifact_retries_exhausted'') (rs_exhaustion_reason s)"

end
