(* ===== verification/Retry_Properties.thy ===== *)
theory Retry_Properties
  imports Retry_State
begin

text \<open>
  The retry ledger under crashes and concurrent executors: whatever publications fail, the state
  read back is the last one recorded; launch ordinals are granted once, one after the other and
  within the budget of the first launch; an exhausted scope and a live launch grant nothing.
\<close>

section \<open>Well-formed states and stores\<close>

type_synonym rfc3339_reader = "string \<Rightarrow> (int, string) result"

definition state_ok :: "rfc3339_reader \<Rightarrow> RetryState \<Rightarrow> bool" where
  "state_ok P s \<longleftrightarrow>
     rc_remediation_attempt_index (rs_counters s) \<le> rb_max_remediation_attempts (rs_budget s) \<and>
     rc_validation_retry_index (rs_counters s) \<le> rb_max_validation_retries (rs_budget s) \<and>
     rc_stale_artifact_retry_index (rs_counters s) \<le> rb_max_stale_artifact_retries (rs_budget s) \<and>
     rs_launch_ordinal s = rc_remediation_attempt_index (rs_counters s) \<and>
     \<not> rs_history_chain_reset s \<and> rs_transition_type s \<noteq> ''terminal_tombstone'' \<and>
     (rs_launch_phase s \<noteq> LpCompleted \<longrightarrow>
        rs_owner_token s \<noteq> [] \<and> rs_invocation_timeout_seconds s \<noteq> 0 \<and>
        (\<exists>t i. rs_lease_expiry s = Some t \<and> P t = Ok i))"

lemma state_ok_validates:
  assumes "state_ok P s" and "re_parse_rfc3339 env = P"
  shows "validate_state_invariants env s = Ok ()"
  using assms by (cases "rs_launch_phase s")
    (auto simp: state_ok_def validate_state_invariants_def validate_against_budget_def not_less)

definition entry_of :: "RecoverableHistoryCandidate \<Rightarrow> (u64 \<times> RetryDocument \<times> RetryState) option" where
  "entry_of c =
     (case hc_value c of
        None \<Rightarrow> None
      | Some d \<Rightarrow> (case rd_state d of Ok s \<Rightarrow> Some (hc_sequence c, d, s) | Err _ \<Rightarrow> None))"

definition candidate_ok :: "rfc3339_reader \<Rightarrow> RecoverableHistoryCandidate \<Rightarrow> bool" where
  "candidate_ok P c \<longleftrightarrow>
     hc_validation_error c = None \<and>
     (\<exists>d s. hc_value c = Some d \<and> rd_state d = Ok s \<and> rd_scope d = Some (rs_scope s) \<and>
        rd_artifact_sequence d = Some (hc_sequence c) \<and> 0 < hc_sequence c \<and> state_ok P s)"

text \<open>The snapshots of one scope, oldest first.\<close>

definition entries_in ::
  "RetryScopeKey \<Rightarrow> RecoverableHistoryCandidate list \<Rightarrow> (u64 \<times> RetryDocument \<times> RetryState) list" where
  "entries_in scope cs = filter (\<lambda>(_, _, s). rs_scope s = scope) (List.map_filter entry_of cs)"

definition entries :: "RetryScopeKey \<Rightarrow> RetryStore \<Rightarrow> (u64 \<times> RetryDocument \<times> RetryState) list" where
  "entries scope st = entries_in scope (st_history st)"

lemma entries_in_Nil [simp]: "entries_in scope [] = []"
  by (simp add: entries_in_def)

lemma entries_in_append [simp]: "entries_in scope (xs @ ys) = entries_in scope xs @ entries_in scope ys"
  by (simp add: entries_in_def map_filter_def)

lemma entries_in_single:
  "candidate_ok P c \<Longrightarrow> hc_value c = Some d \<Longrightarrow> rd_state d = Ok s \<Longrightarrow>
     entries_in scope [c] = (if rs_scope s = scope then [(hc_sequence c, d, s)] else [])"
  by (simp add: entries_in_def map_filter_def entry_of_def)

lemma entries_in_memberD:
  assumes "(n, d, s) \<in> set (entries_in scope cs)"
  obtains c where "c \<in> set cs" "hc_value c = Some d" "rd_state d = Ok s" "hc_sequence c = n" "rs_scope s = scope"
proof -
  obtain c where "c \<in> set cs" "entry_of c = Some (n, d, s)" "rs_scope s = scope"
    using assms by (auto simp: entries_in_def map_filter_def)
  then show ?thesis
    using that by (auto simp: entry_of_def split: option.splits result.splits)
qed

fun linked :: "u64 option \<Rightarrow> (u64 \<times> RetryDocument \<times> RetryState) list \<Rightarrow> bool" where
  "linked p [] \<longleftrightarrow> True"
| "linked p ((n, _, s) # es) \<longleftrightarrow> rs_predecessor_artifact_sequence s = p \<and> linked (Some n) es"

definition last_sequence :: "u64 option \<Rightarrow> (u64 \<times> RetryDocument \<times> RetryState) list \<Rightarrow> u64 option" where
  "last_sequence p es = (if es = [] then p else Some (fst (last es)))"

lemma linked_snoc:
  "linked p (es @ [(n, d, s)]) \<longleftrightarrow> linked p es \<and> rs_predecessor_artifact_sequence s = last_sequence p es"
  by (induction p es rule: linked.induct) (auto simp: last_sequence_def)

text \<open>
  The bindings of a ledger. A history is written under one binding; it is readable under that one
  only, if it is a valid binding at all.
\<close>

definition bound_to :: "PrFollowupBinding \<Rightarrow> RetryStore \<Rightarrow> bool" where
  "bound_to b st \<longleftrightarrow> (\<forall>c \<in> set (st_history st). \<forall>d. hc_value c = Some d \<longrightarrow> rd_binding d = Ok b)"

definition readable :: "PrFollowupBinding \<Rightarrow> RetryStore \<Rightarrow> bool" where
  "readable b st \<longleftrightarrow> st_history st = [] \<or> (validate_binding b b \<and> bound_to b st)"

definition store_ok :: "rfc3339_reader \<Rightarrow> RetryStore \<Rightarrow> bool" where
  "store_ok P st \<longleftrightarrow>
     (\<forall>c \<in> set (st_history st). candidate_ok P c \<and> hc_sequence c \<le> st_max_sequence st) \<and>
     (\<exists>b. bound_to b st) \<and>
     sorted_wrt (<) (map hc_sequence (st_history st)) \<and>
     (\<forall>scope. linked None (entries scope st)) \<and>
     (case st_current st of
        CurMissing \<Rightarrow> True
      | CurValid d \<Rightarrow> (\<exists>c \<in> set (st_history st). hc_value c = Some d)
      | CurCorrupt _ \<Rightarrow> False)"

lemma bound_document_valid:
  "rd_binding d = Ok b \<Longrightarrow> validate_binding b b \<Longrightarrow> validate_artifact_value b d = Ok ()"
  by (simp add: validate_artifact_value_def)

lemma readable_history: "readable b st \<Longrightarrow> map (recoverable_candidate b) (st_history st) = st_history st"
  by (intro map_idI)
    (auto simp: readable_def bound_to_def recoverable_candidate_def bound_document_valid split: option.split)

lemma readable_document:
  assumes "store_ok P st" and "readable b st" and "st_current st = CurValid d"
  shows "validate_artifact_value b d = Ok ()"
  using assms by (force simp: store_ok_def readable_def bound_to_def intro: bound_document_valid)

lemma readable_current:
  assumes "store_ok P st" and "readable b st"
  shows "read_recoverable_current_json b st = st_current st"
proof (cases "st_current st")
  case (CurValid d)
  then obtain c where "c \<in> set (st_history st)" "hc_value c = Some d" "candidate_ok P c"
    using assms(1) by (auto simp: store_ok_def)
  then have "list_ex (\<lambda>c. hc_value c = Some d \<and> hc_validation_error c = None) (st_history st)"
    by (auto simp: list_ex_iff candidate_ok_def)
  then show ?thesis
    using readable_document[OF assms CurValid] CurValid by (simp add: read_recoverable_current_json_def)
qed (simp_all add: read_recoverable_current_json_def)

text \<open>Under any other binding no document of the ledger is valid.\<close>

lemma unreadable_document:
  assumes ok: "store_ok P st" and no: "\<not> readable b st" and c: "c \<in> set (st_history st)" "hc_value c = Some d"
  shows "validate_artifact_value b d = Err (artifact_error ''artifact binding mismatch'')"
proof -
  obtain b0 where b0: "bound_to b0 st" using ok by (auto simp: store_ok_def)
  then have d: "rd_binding d = Ok b0" using c by (simp add: bound_to_def)
  have "\<not> validate_binding b b0"
    using no b0 by (auto simp: readable_def validate_binding_def)
  then show ?thesis using d by (simp add: validate_artifact_value_def)
qed

lemma readable_unique:
  assumes "store_ok P st" and "st_history st \<noteq> []" and "readable b st" and "readable b' st"
  shows "b' = b"
proof -
  obtain c where c: "c \<in> set (st_history st)" using assms(2) by (cases "st_history st") auto
  then obtain d where "hc_value c = Some d" using assms(1) by (auto simp: store_ok_def candidate_ok_def)
  then show ?thesis using assms(2-4) c by (auto simp: readable_def bound_to_def)
qed

section \<open>Scanning a well-formed history\<close>

definition compact_entry :: "CompactRetryHistory \<Rightarrow> (u64 \<times> (RetryState, string) result) list" where
  "compact_entry h = map (\<lambda>(n, c). (n, cc_state c)) (ch_scoped h)"

definition scan_spec ::
  "CompactRetryHistory \<Rightarrow> (u64 \<times> RetryDocument \<times> RetryState) list \<Rightarrow> nat \<Rightarrow> bool" where
  "scan_spec h es k \<longleftrightarrow>
     ch_candidate_count h = k \<and> ch_unscoped h = [] \<and> ch_duplicate h = None \<and>
     map (\<lambda>(n, c). (n, cc_validation_error c, cc_state c)) (ch_scoped h) = map (\<lambda>(n, _, s). (n, None, Ok s)) es \<and>
     ch_latest_value h = (if es = [] then None else Some (fst (last es), fst (snd (last es))))"

lemma scan_spec_keys: "scan_spec h es k \<Longrightarrow> map fst (ch_scoped h) = map fst es"
proof -
  assume "scan_spec h es k"
  then have "map fst (map (\<lambda>(n, c). (n, cc_validation_error c, cc_state c)) (ch_scoped h)) =
      map fst (map (\<lambda>(n, _, s). (n, None :: string option, Ok s :: (RetryState, string) result)) es)"
    by (simp add: scan_spec_def)
  then show ?thesis by (simp add: comp_def case_prod_unfold)
qed

lemma visit_candidate_scan:
  assumes h: "scan_spec h (entries_in scope cs) (length cs)" and c: "candidate_ok P c"
    and inc: "\<forall>x \<in> set cs. hc_sequence x < hc_sequence c" and env: "re_parse_rfc3339 env = P"
  shows "scan_spec (visit_candidate env scope c h) (entries_in scope (cs @ [c])) (length (cs @ [c]))"
proof -
  obtain d s where d: "hc_value c = Some d" "rd_state d = Ok s" "rd_scope d = Some (rs_scope s)" "state_ok P s"
    "hc_validation_error c = None"
    using c by (auto simp: candidate_ok_def)
  have des: "deserialize_retry_state env d = Ok s"
    using d state_ok_validates[OF d(4) env] by (simp add: deserialize_retry_state_def)
  show ?thesis
  proof (cases "rs_scope s = scope")
    case False
    then show ?thesis
      using h d entries_in_single[OF c d(1,2), of scope]
      by (simp add: visit_candidate_def Let_def scan_spec_def)
  next
    case True
    have keys: "fst ` set (ch_scoped h) = fst ` set (entries_in scope cs)"
      using scan_spec_keys[OF h] by (metis list.set_map)
    have lt: "n < hc_sequence c" if "(n, e, x) \<in> set (entries_in scope cs)" for n e x
      using that inc by (elim entries_in_memberD) auto
    then have fresh: "hc_sequence c \<notin> fst ` set (ch_scoped h)"
      unfolding keys by force
    have newest: "fst (last (entries_in scope cs)) < hc_sequence c" if "entries_in scope cs \<noteq> []"
      using lt last_in_set[OF that] by (metis prod.collapse)
    show ?thesis
      using h d des fresh newest True entries_in_single[OF c d(1,2), of scope]
      by (auto simp: visit_candidate_def Let_def scan_spec_def split: option.split)
  qed
qed

lemma scan_history:
  assumes "\<forall>c \<in> set cs. candidate_ok P c" and "sorted_wrt (<) (map hc_sequence cs)" and "re_parse_rfc3339 env = P"
  shows "scan_spec (fold (visit_candidate env scope) cs compact_history_empty) (entries_in scope cs) (length cs)"
  using assms(1,2)
proof (induction cs rule: rev_induct)
  case Nil
  then show ?case by (simp add: scan_spec_def compact_history_empty_def)
next
  case (snoc c cs)
  then have "scan_spec (fold (visit_candidate env scope) cs compact_history_empty) (entries_in scope cs) (length cs)"
    by (simp add: sorted_wrt_append)
  then show ?case
    using visit_candidate_scan[of _ scope cs P c env] snoc.prems assms(3)
    by (simp add: sorted_wrt_append)
qed

lemma walk_chain_linked:
  assumes "map (\<lambda>(n, c). (n, cc_validation_error c, cc_state c)) scoped = map (\<lambda>(n, _, s). (n, None, Ok s)) es"
    and "linked p es"
  shows "walk_chain p scoped = Ok (last_sequence p es)"
  using assms
proof (induction es arbitrary: p scoped)
  case Nil
  then show ?case by (simp add: last_sequence_def)
next
  case (Cons e es)
  obtain n d s where e: "e = (n, d, s)" by (cases e)
  obtain c rest where sc: "scoped = (n, c) # rest" "cc_validation_error c = None" "cc_state c = Ok s"
    "map (\<lambda>(n, c). (n, cc_validation_error c, cc_state c)) rest = map (\<lambda>(n, _, s). (n, None, Ok s)) es"
    using Cons.prems(1) e by (cases scoped) auto
  show ?case
    using Cons.IH[OF sc(4), of "Some n"] Cons.prems(2) e sc by (simp add: last_sequence_def)
qed

lemma entries_sorted:
  "sorted_wrt (<) (map hc_sequence cs) \<Longrightarrow> sorted_wrt (<) (map fst (entries_in scope cs))"
proof (induction cs rule: rev_induct)
  case (snoc c cs)
  have "entries_in scope [c] = [] \<or> (\<exists>d s. entries_in scope [c] = [(hc_sequence c, d, s)])"
    by (auto simp: entries_in_def map_filter_def entry_of_def split: option.split result.split)
  moreover have "\<forall>n \<in> fst ` set (entries_in scope cs). n < hc_sequence c"
    using snoc.prems by (auto simp: sorted_wrt_append elim!: entries_in_memberD)
  ultimately show ?case
    using snoc by (auto simp: sorted_wrt_append)
qed simp

lemma entries_member_ok:
  assumes "store_ok P st" and "(n, d, s) \<in> set (entries scope st)"
  shows "state_ok P s" and "rs_scope s = scope" and "rd_state d = Ok s" and "rd_artifact_sequence d = Some n"
    and "0 < n" and "n \<le> st_max_sequence st"
  using assms by (auto simp: entries_def store_ok_def candidate_ok_def elim!: entries_in_memberD dest!: bspec)

lemma latest_snapshot:
  assumes ok: "store_ok P st" and env: "re_parse_rfc3339 env = P" and b: "readable b st"
  shows "latest_compact_retry_snapshot (scan_retry_history env b scope st) =
    Ok (if entries scope st = [] then None else Some (last (entries scope st)))"
proof -
  let ?h = "scan_retry_history env b scope st" and ?es = "entries scope st"
  have spec: "scan_spec ?h ?es (length (st_history st))"
    using scan_history[of "st_history st" P env scope] ok env readable_history[OF b]
    by (simp add: scan_retry_history_def entries_def store_ok_def)
  note keys = scan_spec_keys[OF spec]
  have sorted: "sorted_wrt (<) (map fst (ch_scoped ?h))"
    using keys ok entries_sorted by (simp add: entries_def store_ok_def)
  then have sorted': "sort_key fst (ch_scoped ?h) = ch_scoped ?h"
    by (intro sort_key_id_if_sorted) (simp add: strict_sorted_imp_sorted)
  have member: "\<exists>d s. (n, d, s) \<in> set ?es \<and> cc_state c = Ok s" if "(n, c) \<in> set (ch_scoped ?h)" for n c
  proof -
    have "(n, cc_validation_error c, cc_state c) \<in> set (map (\<lambda>(n, c). (n, cc_validation_error c, cc_state c)) (ch_scoped ?h))"
      using that by force
    then have "(n, cc_validation_error c, cc_state c) \<in> set (map (\<lambda>(n, _, s). (n, None, Ok s)) ?es)"
      using spec unfolding scan_spec_def by metis
    then show ?thesis by auto
  qed
  have noreset: "find (\<lambda>(_, c). is_reset_candidate c) (rev (ch_scoped ?h)) = None"
  proof -
    have "\<not> is_reset_candidate c" if "(n, c) \<in> set (ch_scoped ?h)" for n c
      using member[OF that] entries_member_ok(1)[OF ok] by (force simp: is_reset_candidate_def state_ok_def)
    then show ?thesis by (auto simp: find_None_iff)
  qed
  have walk: "walk_chain None (ch_scoped ?h) = Ok (last_sequence None ?es)"
    using walk_chain_linked[of "ch_scoped ?h" ?es None] spec ok by (simp add: scan_spec_def store_ok_def)
  have flt: "filter (\<lambda>(seq, _). since_reset None seq) (ch_scoped ?h) = ch_scoped ?h"
    by (simp add: since_reset_def)
  show ?thesis
  proof (cases "?es = []")
    case True
    then show ?thesis
      using spec walk sorted' noreset flt
      by (simp add: latest_compact_retry_snapshot_def Let_def scan_spec_def last_sequence_def)
  next
    case False
    obtain n d s where l: "last ?es = (n, d, s)" by (cases "last ?es")
    then have "(n, d, s) \<in> set ?es" using False last_in_set by metis
    then have "(n, None, Ok s) \<in> set (map (\<lambda>(n, c). (n, cc_validation_error c, cc_state c)) (ch_scoped ?h))"
      using spec by (force simp: scan_spec_def)
    then obtain c where c: "(n, c) \<in> set (ch_scoped ?h)" "cc_state c = Ok s" by auto
    have "distinct (map fst (ch_scoped ?h))" using sorted strict_sorted_iff by blast
    then have "map_of (ch_scoped ?h) n = Some c" using c(1) by simp
    then show ?thesis
      using spec walk sorted' noreset flt False l c(2)
      by (simp add: latest_compact_retry_snapshot_def Let_def scan_spec_def last_sequence_def)
  qed
qed

text \<open>
  What a load returns from a well-formed store it can read: the last snapshot of the scope, with the current
  document replaced by it when it is another one.
\<close>

definition load_spec :: "RetryEnv \<Rightarrow> RetryScopeKey \<Rightarrow> RetryStore \<Rightarrow> RetryStore \<times> (RetryState option, EngineError) result" where
  "load_spec env scope st =
     (if entries scope st = []
      then (if st_current st = CurMissing \<and> st_history st \<noteq> []
            then (st, Err (InvalidState
              ''retry-state canonical is missing and latest immutable history has no valid exact scope''))
            else (st, Ok None))
      else (case last (entries scope st) of
              (n, d, s) \<Rightarrow>
                (if st_current st = CurValid d then (st, Ok (Some s))
                 else (case re_restore env of
                         FailsBeforeReplace e \<Rightarrow> (st, Err (artifact_error e))
                       | FailsAfterReplace e \<Rightarrow> (st\<lparr>st_current := CurValid d\<rparr>, Err (artifact_error e))
                       | RestoreOk \<Rightarrow> (st\<lparr>st_current := CurValid d\<rparr>, Ok (Some s))))))"

lemma scan_count:
  assumes "store_ok P st" and "re_parse_rfc3339 env = P" and "readable b st"
  shows "ch_candidate_count (scan_retry_history env b scope st) = length (st_history st)"
  using scan_history[of "st_history st" P env scope] assms readable_history[OF assms(3)]
  by (simp add: scan_retry_history_def store_ok_def scan_spec_def)

lemma entry_le_last:
  assumes "store_ok P st" and "(n, d, s) \<in> set (entries scope st)"
  shows "n \<le> fst (last (entries scope st))"
proof -
  let ?es = "entries scope st"
  have ne: "?es \<noteq> []" using assms(2) by auto
  have "sorted_wrt (<) (map fst ?es)"
    using assms(1) entries_sorted by (simp add: entries_def store_ok_def)
  then have "sorted_wrt (<) (map fst (butlast ?es @ [last ?es]))"
    using ne by simp
  then have "\<forall>x \<in> set (butlast ?es). fst x < fst (last ?es)"
    by (simp add: sorted_wrt_append)
  moreover have "(n, d, s) \<in> set (butlast ?es) \<or> (n, d, s) = last ?es"
    using assms(2) ne by (metis append_butlast_last_id in_set_conv_decomp Un_iff set_ConsD set_append empty_iff empty_set)
  ultimately show ?thesis by (metis fst_conv less_imp_le order_refl)
qed

lemma map_err_storage [simp]: "map_err into_engine_error (map_err Storage r) = r"
  by (cases r) simp_all

lemma current_document:
  assumes "store_ok P st" and "st_current st = CurValid d" and "re_parse_rfc3339 env = P"
  obtains n s where "document_sequence d = Ok n" "deserialize_retry_state env d = Ok s" "rd_state d = Ok s"
    "rd_artifact_sequence d = Some n" "(n, d, s) \<in> set (entries (rs_scope s) st)"
proof -
  obtain c where c: "c \<in> set (st_history st)" "hc_value c = Some d"
    using assms(1,2) by (auto simp: store_ok_def)
  then obtain s where s: "rd_state d = Ok s" "rd_artifact_sequence d = Some (hc_sequence c)" "0 < hc_sequence c"
    "state_ok P s"
    using assms(1) by (auto simp: store_ok_def candidate_ok_def dest!: bspec)
  have "(hc_sequence c, d, s) \<in> set (entries (rs_scope s) st)"
    using c s(1) by (force simp: entries_def entries_in_def map_filter_def entry_of_def)
  then show ?thesis
    using that s state_ok_validates[OF s(4) assms(3)]
    by (simp add: document_sequence_def deserialize_retry_state_def)
qed

lemma last_entry_valid:
  assumes "readable b st" and "entries scope st \<noteq> []"
  shows "validate_artifact_value b (fst (snd (last (entries scope st)))) = Ok ()"
proof -
  obtain n d s where l: "last (entries scope st) = (n, d, s)" by (cases "last (entries scope st)")
  then have "(n, d, s) \<in> set (entries scope st)" using last_in_set[OF assms(2)] by simp
  then obtain c where "c \<in> set (st_history st)" "hc_value c = Some d"
    by (auto simp: entries_def elim!: entries_in_memberD)
  then have "rd_binding d = Ok b" "validate_binding b b"
    using assms(1) by (auto simp: readable_def bound_to_def)
  then show ?thesis using l by (simp add: bound_document_valid)
qed

lemma load_matching_state:
  assumes ok: "store_ok P st" and env: "re_parse_rfc3339 env = P" and b: "readable b st"
  shows "load_matching_state_locked env b scope st = load_spec env scope st"
proof (cases "st_current st")
  case (CurCorrupt r)
  then show ?thesis using ok by (simp add: store_ok_def)
next
  case CurMissing
  then show ?thesis
    using latest_snapshot[OF ok env b, of scope] readable_current[OF ok b] last_entry_valid[OF b, of scope] scan_count[OF ok env b, of scope]
    by (cases "last (entries scope st)"; cases "re_restore env")
      (simp_all add: load_matching_state_locked_def load_matching_state_classified_locked_def load_spec_def
        Let_def recover_latest_retry_snapshot_def restore_canonical_from_history_locked_def)
next
  case (CurValid d)
  obtain m s' where d: "document_sequence d = Ok m" "deserialize_retry_state env d = Ok s'" "rd_state d = Ok s'"
    "rd_artifact_sequence d = Some m" "(m, d, s') \<in> set (entries (rs_scope s') st)"
    using current_document[OF ok CurValid env] .
  show ?thesis
  proof (cases "entries scope st = []")
    case True
    then have "rs_scope s' \<noteq> scope" using d(5) by auto
    then show ?thesis
      using latest_snapshot[OF ok env b, of scope] readable_current[OF ok b] last_entry_valid[OF b, of scope] True CurValid d(1,2)
      by (simp add: load_matching_state_locked_def load_matching_state_classified_locked_def load_spec_def
          Let_def recover_latest_retry_snapshot_def)
  next
    case False
    obtain n dl s where l: "last (entries scope st) = (n, dl, s)" by (cases "last (entries scope st)")
    then have mem: "(n, dl, s) \<in> set (entries scope st)" using False last_in_set by metis
    have dl: "rd_state dl = Ok s" "rs_scope s = scope" "rd_artifact_sequence dl = Some n"
      using entries_member_ok[OF ok mem] by simp_all
    show ?thesis
    proof (cases "rs_scope s' = scope")
      case True
      then have "m \<le> n" using entry_le_last[OF ok, of m d s' scope] d(5) l by simp
      moreover have "dl = d \<Longrightarrow> n = m \<and> s = s'" using dl d(3,4) by simp
      ultimately show ?thesis
        using latest_snapshot[OF ok env b, of scope] readable_current[OF ok b] last_entry_valid[OF b, of scope] False CurValid d(1,2) l True
        by (cases "re_restore env")
          (auto simp: load_matching_state_locked_def load_matching_state_classified_locked_def load_spec_def
            Let_def restore_canonical_from_history_locked_def not_less)
    next
      case other: False
      then have "dl \<noteq> d" using dl d(3) by auto
      then show ?thesis
        using latest_snapshot[OF ok env b, of scope] readable_current[OF ok b] last_entry_valid[OF b, of scope] False CurValid d(1,2) l other
        by (cases "re_restore env")
          (auto simp: load_matching_state_locked_def load_matching_state_classified_locked_def load_spec_def
            Let_def recover_latest_retry_snapshot_def restore_canonical_from_history_locked_def)
    qed
  qed
qed

section \<open>Reading under another binding\<close>

lemma visit_mismatched:
  assumes "hc_value c = Some d" and "rd_scope d \<noteq> None" and "hc_validation_error c \<noteq> None"
    and "\<forall>x \<in> set (ch_scoped h). cc_validation_error (snd x) \<noteq> None" and "ch_unscoped h = []"
    and "ch_duplicate h \<noteq> None \<longrightarrow> ch_scoped h \<noteq> []"
  shows "ch_candidate_count (visit_candidate env scope c h) = ch_candidate_count h + 1"
    and "\<forall>x \<in> set (ch_scoped (visit_candidate env scope c h)). cc_validation_error (snd x) \<noteq> None"
    and "ch_unscoped (visit_candidate env scope c h) = []"
    and "ch_duplicate (visit_candidate env scope c h) \<noteq> None \<longrightarrow> ch_scoped (visit_candidate env scope c h) \<noteq> []"
  using assms by (auto simp: visit_candidate_def Let_def)

lemma scan_mismatched:
  assumes "\<forall>c \<in> set cs. hc_validation_error c \<noteq> None \<and> (\<exists>d. hc_value c = Some d \<and> rd_scope d \<noteq> None)"
    and "h = fold (visit_candidate env scope) cs compact_history_empty"
  shows "ch_candidate_count h = length cs" and "\<forall>x \<in> set (ch_scoped h). cc_validation_error (snd x) \<noteq> None"
    and "ch_unscoped h = []" and "ch_duplicate h \<noteq> None \<longrightarrow> ch_scoped h \<noteq> []"
proof -
  have "ch_candidate_count h = length cs \<and> (\<forall>x \<in> set (ch_scoped h). cc_validation_error (snd x) \<noteq> None) \<and>
      ch_unscoped h = [] \<and> (ch_duplicate h \<noteq> None \<longrightarrow> ch_scoped h \<noteq> [])"
    using assms
  proof (induction cs arbitrary: h rule: rev_induct)
    case Nil
    then show ?case by (simp add: compact_history_empty_def)
  next
    case (snoc c cs)
    let ?h = "fold (visit_candidate env scope) cs compact_history_empty"
    obtain d where c: "hc_validation_error c \<noteq> None" "hc_value c = Some d" "rd_scope d \<noteq> None"
      using snoc.prems(1) by auto
    have h: "h = visit_candidate env scope c ?h" using snoc.prems(2) by simp
    have ih: "ch_candidate_count ?h = length cs" "\<forall>x \<in> set (ch_scoped ?h). cc_validation_error (snd x) \<noteq> None"
      "ch_unscoped ?h = []" "ch_duplicate ?h \<noteq> None \<longrightarrow> ch_scoped ?h \<noteq> []"
      using snoc.IH[of ?h] snoc.prems(1) by auto
    show ?case
      using visit_mismatched[OF c(2,3,1) ih(2-4), of env scope] ih(1) unfolding h by simp
  qed
  then show "ch_candidate_count h = length cs" and "\<forall>x \<in> set (ch_scoped h). cc_validation_error (snd x) \<noteq> None"
    and "ch_unscoped h = []" and "ch_duplicate h \<noteq> None \<longrightarrow> ch_scoped h \<noteq> []"
    by blast+
qed

lemma latest_mismatched:
  assumes err: "\<forall>x \<in> set (ch_scoped h). cc_validation_error (snd x) \<noteq> None" and un: "ch_unscoped h = []"
    and dup: "ch_duplicate h \<noteq> None \<longrightarrow> ch_scoped h \<noteq> []"
  shows "latest_compact_retry_snapshot h = Ok None \<or> (\<exists>e. latest_compact_retry_snapshot h = Err e)"
proof -
  let ?s = "sort_key fst (ch_scoped h)"
  have noreset: "find (\<lambda>(_, c). is_reset_candidate c) (rev ?s) = None"
    using err by (auto simp: find_None_iff is_reset_candidate_def)
  have flt: "filter (\<lambda>(seq, _). since_reset None seq) ?s = ?s" by (simp add: since_reset_def)
  have walk: "?s = [] \<or> (\<exists>e. walk_chain None ?s = Err e)"
  proof (cases ?s)
    case (Cons x xs)
    then have "x \<in> set (ch_scoped h)" by (metis list.set_intros(1) set_sort)
    then have "cc_validation_error (snd x) \<noteq> None" using err by blast
    then show ?thesis unfolding Cons by (cases x) auto
  qed simp
  show ?thesis
    using un noreset flt walk
    by (auto simp: latest_compact_retry_snapshot_def Let_def split: option.splits)
qed

text \<open>
  A reader of another head or base gets an error for every scope, and nothing is written: the
  shared current document counts as corrupt, and so does every history document of the scope.
\<close>

lemma load_mismatched:
  assumes ok: "store_ok P st" and env: "re_parse_rfc3339 env = P" and no: "\<not> readable b st"
  obtains m where "load_matching_state_locked env b scope st = (st, Err (InvalidState m))"
proof -
  let ?cs = "map (recoverable_candidate b) (st_history st)"
  define h where "h = scan_retry_history env b scope st"
  have cs: "hc_validation_error c \<noteq> None \<and> (\<exists>d. hc_value c = Some d \<and> rd_scope d \<noteq> None)" if c: "c \<in> set ?cs" for c
  proof -
    obtain x where x: "x \<in> set (st_history st)" "c = recoverable_candidate b x" using c by auto
    then have "candidate_ok P x" using ok by (simp add: store_ok_def)
    then obtain d where d: "hc_value x = Some d" "rd_scope d \<noteq> None"
      by (auto simp: candidate_ok_def)
    then show ?thesis using unreadable_document[OF ok no x(1) d(1)] x(2) by (simp add: recoverable_candidate_def)
  qed
  have h: "h = fold (visit_candidate env scope) ?cs compact_history_empty"
    by (simp add: h_def scan_retry_history_def)
  have scan: "ch_candidate_count h = length ?cs" "\<forall>x \<in> set (ch_scoped h). cc_validation_error (snd x) \<noteq> None"
    "ch_unscoped h = []" "ch_duplicate h \<noteq> None \<longrightarrow> ch_scoped h \<noteq> []"
    by (intro scan_mismatched[OF _ h] ballI cs; assumption)+
  have ne: "ch_candidate_count h \<noteq> 0" using no scan(1) by (auto simp: readable_def)
  have "\<exists>m. load_matching_state_classified_locked env b scope st = (st, Err (Corruption m))"
  proof (cases "latest_compact_retry_snapshot h")
    case (Err e)
    then show ?thesis by (simp add: load_matching_state_classified_locked_def Let_def h_def[symmetric])
  next
    case (Ok l)
    then have l: "latest_compact_retry_snapshot h = Ok None" using latest_mismatched[OF scan(2-4)] by auto
    show ?thesis
    proof (cases "st_current st")
      case CurMissing
      then show ?thesis
        using l ne by (simp add: load_matching_state_classified_locked_def Let_def h_def[symmetric]
            read_recoverable_current_json_def)
    next
      case (CurValid d)
      then obtain c where "c \<in> set (st_history st)" "hc_value c = Some d" using ok by (auto simp: store_ok_def)
      from unreadable_document[OF ok no this] have "read_recoverable_current_json b st = CurCorrupt (rd_artifact_sequence d)"
        using CurValid by (simp add: read_recoverable_current_json_def)
      then show ?thesis
        using l by (simp add: load_matching_state_classified_locked_def Let_def h_def[symmetric])
    next
      case (CurCorrupt r)
      then show ?thesis using ok by (simp add: store_ok_def)
    qed
  qed
  then show ?thesis using that by (auto simp: load_matching_state_locked_def)
qed

section \<open>Recording a snapshot\<close>

text \<open>
  What the operations rely on from the environment: the reader understands the texts the printer
  writes, and a fresh token is not empty.
\<close>

definition env_ok :: "rfc3339_reader \<Rightarrow> RetryEnv \<Rightarrow> bool" where
  "env_ok P env \<longleftrightarrow>
     re_parse_rfc3339 env = P \<and> (\<forall>i \<le> re_max_instant env. P (re_rfc3339 env i) = Ok i) \<and> re_uuid env \<noteq> []"

text \<open>
  The ledger is readable, and the current document is the last snapshot of the scope, or the scope
  has none.
\<close>

definition focused :: "PrFollowupBinding \<Rightarrow> RetryScopeKey \<Rightarrow> RetryStore \<Rightarrow> RetryState option \<Rightarrow> bool" where
  "focused b scope st p \<longleftrightarrow>
     readable b st \<and>
     (case p of
        None \<Rightarrow> entries scope st = []
      | Some s \<Rightarrow> entries scope st \<noteq> [] \<and>
          (\<exists>n d. last (entries scope st) = (n, d, s) \<and> st_current st = CurValid d))"

definition states :: "RetryScopeKey \<Rightarrow> RetryStore \<Rightarrow> RetryState list" where
  "states scope st = map (\<lambda>(_, _, s). s) (entries scope st)"

definition same_ledger :: "RetryStore \<Rightarrow> RetryStore \<Rightarrow> bool" where
  "same_ledger st st' \<longleftrightarrow> st_history st' = st_history st \<and> st_max_sequence st' = st_max_sequence st"

lemma same_ledger_entries: "same_ledger st st' \<Longrightarrow> entries scope st' = entries scope st"
  by (simp add: same_ledger_def entries_def)

lemma same_ledger_states: "same_ledger st st' \<Longrightarrow> states scope st' = states scope st"
  by (simp add: states_def same_ledger_entries)

lemma states_Nil [simp]: "states scope st = [] \<longleftrightarrow> entries scope st = []"
  by (simp add: states_def)

lemma same_ledger_readable: "same_ledger st st' \<Longrightarrow> readable b st' = readable b st"
  by (simp add: same_ledger_def readable_def bound_to_def)

lemma focused_readable: "focused b scope st p \<Longrightarrow> readable b st"
  by (simp add: focused_def)

lemma focused_binding: "focused b scope st (Some s) \<Longrightarrow> validate_binding b b"
  by (auto simp: focused_def readable_def entries_def entries_in_def map_filter_def)

lemma focused_last: "focused b scope st (Some s) \<Longrightarrow> states scope st \<noteq> [] \<and> last (states scope st) = s"
  by (auto simp: focused_def states_def last_map)

lemma focused_sequence:
  assumes "store_ok P st" and "focused b scope st (Some s)"
  shows "state_sequence_locked b st = Ok (last_sequence None (entries scope st))"
proof -
  obtain n d where l: "entries scope st \<noteq> []" "last (entries scope st) = (n, d, s)" "st_current st = CurValid d"
    using assms(2) by (auto simp: focused_def)
  then have "(n, d, s) \<in> set (entries scope st)" using last_in_set by metis
  then have "rd_artifact_sequence d = Some n" "0 < n"
    using entries_member_ok[OF assms(1)] by blast+
  then show ?thesis using l readable_current[OF assms(1) focused_readable[OF assms(2)]]
    by (simp add: state_sequence_locked_def document_sequence_def last_sequence_def)
qed

lemma focused_state_ok: "store_ok P st \<Longrightarrow> focused b scope st (Some s) \<Longrightarrow> state_ok P s \<and> rs_scope s = scope"
proof -
  assume ok: "store_ok P st" and f: "focused b scope st (Some s)"
  obtain n d where "entries scope st \<noteq> []" "last (entries scope st) = (n, d, s)"
    using f by (auto simp: focused_def)
  then have "(n, d, s) \<in> set (entries scope st)" using last_in_set by metis
  then show ?thesis using entries_member_ok[OF ok] by blast
qed

lemma load_readable:
  assumes "store_ok P st" and "re_parse_rfc3339 env = P" and b: "readable b st"
    and "load_matching_state_locked env b scope st = (st1, r)"
  shows "store_ok P st1" and "same_ledger st st1" and "r = Ok p \<Longrightarrow> focused b scope st1 p"
proof -
  have l: "load_spec env scope st = (st1, r)" using load_matching_state[OF assms(1-3)] assms(4) by simp
  show "same_ledger st st1"
    using l by (auto simp: load_spec_def same_ledger_def split: if_splits prod.splits RestoreFault.splits)
  have cur: "st_current st1 = st_current st \<or>
      (entries scope st \<noteq> [] \<and> st_current st1 = CurValid (fst (snd (last (entries scope st)))))"
    using l by (auto simp: load_spec_def split: if_splits prod.splits RestoreFault.splits)
  have "\<exists>c \<in> set (st_history st). hc_value c = Some (fst (snd (last (entries scope st))))" if "entries scope st \<noteq> []"
  proof -
    obtain n d s where "last (entries scope st) = (n, d, s)" by (cases "last (entries scope st)")
    then show ?thesis
      using last_in_set[OF that] by (auto simp: entries_def elim!: entries_in_memberD)
  qed
  moreover have h: "st_history st1 = st_history st" "st_max_sequence st1 = st_max_sequence st"
    using \<open>same_ledger st st1\<close> by (simp_all add: same_ledger_def)
  ultimately show "store_ok P st1"
    using assms(1) cur unfolding store_ok_def entries_def bound_to_def h by (elim disjE) simp_all
  show "focused b scope st1 p" if "r = Ok p"
    using l that same_ledger_entries[OF \<open>same_ledger st st1\<close>, of scope] b
      same_ledger_readable[OF \<open>same_ledger st st1\<close>, of b]
    by (auto simp: load_spec_def focused_def split: if_splits prod.splits RestoreFault.splits)
qed

lemma load_focused:
  assumes "store_ok P st" and "re_parse_rfc3339 env = P" and "load_matching_state_locked env b scope st = (st1, r)"
  shows "store_ok P st1" and "same_ledger st st1" and "r = Ok p \<Longrightarrow> focused b scope st1 p"
proof -
  have "store_ok P st1 \<and> same_ledger st st1 \<and> (r = Ok p \<longrightarrow> focused b scope st1 p)"
  proof (cases "readable b st")
    case True
    then show ?thesis using load_readable[OF assms(1,2) True assms(3)] by blast
  next
    case False
    then show ?thesis
      using load_mismatched[OF assms(1,2) False, of scope] assms(1,3) by (auto simp: same_ledger_def)
  qed
  then show "store_ok P st1" and "same_ledger st st1" and "r = Ok p \<Longrightarrow> focused b scope st1 p" by blast+
qed

lemma checked_add_Some: "checked_add a b = Some c \<Longrightarrow> unat c = unat a + unat b"
  by (auto simp: checked_add_def u64_max_def unat_word_ariths split: if_splits)

definition recorded ::
  "rfc3339_reader \<Rightarrow> RetryScopeKey \<Rightarrow> RetryStore \<Rightarrow> RetryState \<Rightarrow> RetryStore \<Rightarrow> bool" where
  "recorded P scope st s st' \<longleftrightarrow>
     store_ok P st' \<and> (\<forall>sc. states sc st' = states sc st @ (if sc = scope then [s] else []))"

lemma publish_records:
  assumes ok: "store_ok P st" and s: "state_ok P s" "rs_scope s = scope"
    and pred: "rs_predecessor_artifact_sequence s = last_sequence None (entries scope st)"
    and seq: "st_max_sequence st < seq" and b: "readable b st"
    and c: "c = \<lparr>hc_path = path, hc_sequence = seq, hc_value = Some (document_of env b seq pr so s), hc_validation_error = None\<rparr>"
    and st': "st_history st' = st_history st @ [c]" "st_max_sequence st' = seq"
    and cur: "st_current st' = st_current st \<or> st_current st' = CurValid (document_of env b seq pr so s)"
  shows "recorded P scope st s st'" and "entries scope st' = entries scope st @ [(seq, document_of env b seq pr so s, s)]"
proof -
  have pos: "0 < seq" using seq by (metis word_not_simps(1) word_gt_0 le_less_trans word_zero_le)
  have cok: "candidate_ok P c" using s pos by (simp add: c candidate_ok_def document_of_def)
  have e: "entries sc st' = entries sc st @ (if sc = scope then [(seq, document_of env b seq pr so s, s)] else [])" for sc
    using entries_in_single[OF cok, of _ s sc] s(2)
    by (simp add: entries_def st'(1) c document_of_def)
  then show "entries scope st' = entries scope st @ [(seq, document_of env b seq pr so s, s)]" by simp
  have "linked None (entries sc st')" for sc
    using e[of sc] ok pred by (simp add: store_ok_def linked_snoc)
  moreover have "bound_to b st'"
  proof -
    have "bound_to b st" using b by (auto simp: readable_def bound_to_def)
    then show ?thesis by (simp add: bound_to_def st'(1) c document_of_def)
  qed
  ultimately have "store_ok P st'"
    using ok cok st' cur seq
    by (auto simp: store_ok_def sorted_wrt_append c intro: order_trans less_imp_le split: RecoverableCurrentArtifact.splits)
  then show "recorded P scope st s st'"
    using e by (auto simp: recorded_def states_def)
qed

lemma persist_records:
  assumes "store_ok P st" and "state_ok P s" and "rs_scope s = scope"
    and "rs_predecessor_artifact_sequence s = last_sequence None (entries scope st)"
    and b: "readable b st" and p: "persist env b pr so s st = (st', r)"
  shows "(st' = st \<and> (\<exists>e. r = Err e)) \<or> recorded P scope st s st'"
    and "r = Ok () \<Longrightarrow> validate_binding b b \<Longrightarrow> focused b scope st' (Some s)"
proof -
  show "(st' = st \<and> (\<exists>e. r = Err e)) \<or> recorded P scope st s st'"
  proof (cases "checked_next_sequence (st_max_sequence st) ''artifact_sequence''")
    case (Err e)
    then show ?thesis using p by (auto simp: persist_def)
  next
    case (Ok seq)
    then have "unat seq = unat (st_max_sequence st) + 1"
      by (auto simp: checked_next_sequence_def dest: checked_add_Some split: option.splits)
    then have "st_max_sequence st < seq" by (simp add: word_less_nat_alt)
    note rec = publish_records(1)[OF assms(1-4) this b refl]
    show ?thesis
      using p Ok by (auto simp: persist_def publish_artifact_def Let_def document_of_def split: PublishFault.splits
          intro!: rec[unfolded document_of_def])
  qed
  show "focused b scope st' (Some s)" if okr: "r = Ok ()" and vb: "validate_binding b b"
  proof -
    obtain seq where seq: "checked_next_sequence (st_max_sequence st) ''artifact_sequence'' = Ok seq"
      using p okr by (cases "checked_next_sequence (st_max_sequence st) ''artifact_sequence''") (auto simp: persist_def)
    then have "unat seq = unat (st_max_sequence st) + 1"
      by (auto simp: checked_next_sequence_def dest: checked_add_Some split: option.splits)
    then have lt: "st_max_sequence st < seq" by (simp add: word_less_nat_alt)
    have st': "st_history st' = st_history st @ [\<lparr>hc_path = re_path env seq pr, hc_sequence = seq,
        hc_value = Some (document_of env b seq pr so s), hc_validation_error = None\<rparr>]" "st_max_sequence st' = seq"
      "st_current st' = CurValid (document_of env b seq pr so s)"
      using p seq okr by (auto simp: persist_def publish_artifact_def Let_def document_of_def split: PublishFault.splits)
    have "entries scope st' = entries scope st @ [(seq, document_of env b seq pr so s, s)]"
      using publish_records(2)[OF assms(1-4) lt b refl st'(1,2)] st'(3) by blast
    moreover have "bound_to b st'"
      using b st'(1) by (auto simp: readable_def bound_to_def document_of_def)
    ultimately show ?thesis using st'(3) vb by (simp add: focused_def readable_def)
  qed
qed

section \<open>How the ledger of a scope grows\<close>

definition succ_ok :: "rfc3339_reader \<Rightarrow> RetryState list \<Rightarrow> RetryState \<Rightarrow> bool" where
  "succ_ok P ss s \<longleftrightarrow>
     state_ok P s \<and>
     (if ss = [] then unat (rs_launch_ordinal s) = 1
      else (unat (rs_launch_ordinal s) = unat (rs_launch_ordinal (last ss)) \<or>
            unat (rs_launch_ordinal s) = unat (rs_launch_ordinal (last ss)) + 1) \<and>
           rb_max_remediation_attempts (rs_budget s) \<le> rb_max_remediation_attempts (rs_budget (hd ss)))"

definition ledger_chain :: "rfc3339_reader \<Rightarrow> RetryState list \<Rightarrow> bool" where
  "ledger_chain P ss \<longleftrightarrow> (\<forall>i < length ss. succ_ok P (take i ss) (ss ! i))"

lemma ledger_chain_Nil [simp]: "ledger_chain P []"
  by (simp add: ledger_chain_def)

lemma ledger_chain_snoc: "ledger_chain P (ss @ [s]) \<longleftrightarrow> ledger_chain P ss \<and> succ_ok P ss s"
  by (auto simp: ledger_chain_def nth_append less_Suc_eq)

lemma ledger_chain_bound:
  "ledger_chain P ss \<Longrightarrow> ss \<noteq> [] \<Longrightarrow>
     rb_max_remediation_attempts (rs_budget (last ss)) \<le> rb_max_remediation_attempts (rs_budget (hd ss))"
  by (induction ss rule: rev_induct) (auto simp: ledger_chain_snoc succ_ok_def split: if_splits)

lemma ledger_chain_last_ok: "ledger_chain P ss \<Longrightarrow> ss \<noteq> [] \<Longrightarrow> state_ok P (last ss)"
  by (induction ss rule: rev_induct) (auto simp: ledger_chain_snoc succ_ok_def)

lemma ledger_chain_ordinal_bound:
  assumes "ledger_chain P ss" and "ss \<noteq> []"
  shows "rs_launch_ordinal (last ss) \<le> rb_max_remediation_attempts (rs_budget (hd ss))"
proof -
  have "rs_launch_ordinal (last ss) \<le> rb_max_remediation_attempts (rs_budget (last ss))"
    using ledger_chain_last_ok[OF assms] by (simp add: state_ok_def)
  then show ?thesis using ledger_chain_bound[OF assms] by simp
qed

lemma ledger_chain_ordinal_mono:
  "ledger_chain P (ss @ xs) \<Longrightarrow> ss \<noteq> [] \<Longrightarrow>
     unat (rs_launch_ordinal (last ss)) \<le> unat (rs_launch_ordinal (last (ss @ xs)))"
proof (induction xs rule: rev_induct)
  case (snoc x xs)
  then have "ledger_chain P (ss @ xs)" "succ_ok P (ss @ xs) x"
    using ledger_chain_snoc[of P "ss @ xs" x] by simp_all
  then show ?case using snoc by (auto simp: succ_ok_def split: if_splits)
qed simp

definition extends :: "rfc3339_reader \<Rightarrow> RetryScopeKey \<Rightarrow> RetryStore \<Rightarrow> RetryStore \<Rightarrow> bool" where
  "extends P scope st st' \<longleftrightarrow>
     store_ok P st' \<and> (\<forall>sc. sc \<noteq> scope \<longrightarrow> states sc st' = states sc st) \<and>
     (\<exists>xs. states scope st' = states scope st @ xs) \<and>
     (ledger_chain P (states scope st) \<longrightarrow> ledger_chain P (states scope st'))"

lemma extends_refl [simp]: "store_ok P st \<Longrightarrow> extends P scope st st"
  by (simp add: extends_def)

lemma extends_same: "store_ok P st' \<Longrightarrow> same_ledger st st' \<Longrightarrow> extends P scope st st'"
  by (simp add: extends_def same_ledger_states)

lemma extends_trans [trans]:
  "extends P scope a b \<Longrightarrow> extends P scope b c \<Longrightarrow> extends P scope a c"
  by (auto simp: extends_def)

lemma extends_recorded:
  "recorded P scope st s st' \<Longrightarrow> succ_ok P (states scope st) s \<Longrightarrow> extends P scope st st'"
  by (auto simp: extends_def recorded_def ledger_chain_snoc)

lemma persist_extends:
  assumes "store_ok P st" and "state_ok P s" and "rs_scope s = scope"
    and "rs_predecessor_artifact_sequence s = last_sequence None (entries scope st)"
    and "readable b st" and "persist env b pr so s st = (st', r)" and "succ_ok P (states scope st) s"
  shows "extends P scope st st'"
  using persist_records(1)[OF assms(1-6)] extends_recorded[OF _ assms(7)] assms(1) by auto

text \<open>
  A snapshot that keeps the ordinal of the last one may follow it, if its budget is within the
  first one.
\<close>

lemma succ_ok_same:
  assumes "ledger_chain P (states scope st)" and "focused b scope st (Some s)" and "state_ok P s'"
    and "rs_launch_ordinal s' = rs_launch_ordinal s"
    and "rb_max_remediation_attempts (rs_budget s') \<le> rb_max_remediation_attempts (rs_budget (hd (states scope st)))"
  shows "succ_ok P (states scope st) s'"
  using assms focused_last[OF assms(2)] by (simp add: succ_ok_def)

lemma focused_budget:
  assumes "ledger_chain P (states scope st)" and "focused b scope st (Some s)"
  shows "rb_max_remediation_attempts (rs_budget s) \<le> rb_max_remediation_attempts (rs_budget (hd (states scope st)))"
  using ledger_chain_bound[OF assms(1)] focused_last[OF assms(2)] by simp

lemma persist_same_extends:
  assumes "store_ok P st" and "focused b scope st (Some s)" and "state_ok P s'" and "rs_scope s' = scope"
    and "rs_launch_ordinal s' = rs_launch_ordinal s"
    and "ledger_chain P (states scope st) \<Longrightarrow>
      rb_max_remediation_attempts (rs_budget s') \<le> rb_max_remediation_attempts (rs_budget (hd (states scope st)))"
    and "rs_predecessor_artifact_sequence s' = last_sequence None (entries scope st)"
    and "persist env b pr so s' st = (st', r)"
  shows "extends P scope st st'" and "r = Ok () \<Longrightarrow> focused b scope st' (Some s')"
proof -
  note rec = persist_records[OF assms(1,3,4,7) focused_readable[OF assms(2)] assms(8)]
  show "r = Ok () \<Longrightarrow> focused b scope st' (Some s')"
    using rec(2) focused_binding[OF assms(2)] by blast
  show "extends P scope st st'"
  proof (cases "ledger_chain P (states scope st)")
    case True
    then show ?thesis
      using persist_extends[OF assms(1,3,4,7) focused_readable[OF assms(2)] assms(8)] succ_ok_same[OF True assms(2,3,5)] assms(6) by blast
  next
    case False
    then show ?thesis
      using rec(1) assms(1) by (auto simp: extends_def recorded_def)
  qed
qed

lemma persist_result: "persist env b pr so s st = (st', r) \<Longrightarrow> r = Ok () \<or> (\<exists>e. r = Err e)"
  by (cases r) auto

section \<open>The operations\<close>

lemma reconcile_budget:
  assumes "reconcile b configured c prior = Ok (b', reason)"
    and "rc_remediation_attempt_index c \<le> rb_max_remediation_attempts b"
    and "rc_validation_retry_index c \<le> rb_max_validation_retries b"
    and "rc_stale_artifact_retry_index c \<le> rb_max_stale_artifact_retries b"
  shows "rb_max_remediation_attempts b' \<le> rb_max_remediation_attempts b"
    and "rb_max_validation_retries b' \<le> rb_max_validation_retries b"
    and "rb_max_stale_artifact_retries b' \<le> rb_max_stale_artifact_retries b"
    and "rc_remediation_attempt_index c \<le> rb_max_remediation_attempts b'"
    and "rc_validation_retry_index c \<le> rb_max_validation_retries b'"
    and "rc_stale_artifact_retry_index c \<le> rb_max_stale_artifact_retries b'"
    and "prior \<noteq> None \<Longrightarrow> reason = prior"
  using assms by (auto simp: reconcile_def Let_def tightened_with_def split: result.splits option.splits)

lemma reconcile_policy:
  assumes ok: "store_ok P st" and f: "focused b scope st (Some s)"
    and r: "reconcile_retry_policy_locked env b pr so configured s st = (st', r)"
  shows "extends P scope st st'"
    and "r = Ok s' \<Longrightarrow> focused b scope st' (Some s') \<and> rs_launch_ordinal s' = rs_launch_ordinal s \<and>
           rs_launch_phase s' = rs_launch_phase s \<and> rs_counters s' = rs_counters s \<and>
           rs_lease_expiry s' = rs_lease_expiry s \<and>
           (rs_exhaustion_reason s \<noteq> None \<longrightarrow> rs_exhaustion_reason s' = rs_exhaustion_reason s)"
proof -
  have s: "state_ok P s" "rs_scope s = scope" using focused_state_ok[OF ok f] by simp_all
  have "extends P scope st st' \<and> (\<forall>s'. r = Ok s' \<longrightarrow> focused b scope st' (Some s') \<and>
      rs_launch_ordinal s' = rs_launch_ordinal s \<and> rs_launch_phase s' = rs_launch_phase s \<and>
      rs_counters s' = rs_counters s \<and> rs_lease_expiry s' = rs_lease_expiry s \<and>
      (rs_exhaustion_reason s \<noteq> None \<longrightarrow> rs_exhaustion_reason s' = rs_exhaustion_reason s))"
  proof (cases "reconcile (rs_budget s) configured (rs_counters s) (rs_exhaustion_reason s)")
    case (Err e)
    then show ?thesis using r ok by (auto simp: reconcile_retry_policy_locked_def)
  next
    case (Ok br)
    obtain bud reason where br: "br = (bud, reason)" by (cases br)
    note rec = Ok[unfolded br]
    note bounds = reconcile_budget[OF rec]
    show ?thesis
    proof (cases "rs_budget s = bud \<and> rs_exhaustion_reason s = reason")
      case True
      then show ?thesis using r rec ok f by (auto simp: reconcile_retry_policy_locked_def)
    next
      case False
      define s1 where "s1 = s\<lparr>rs_predecessor_artifact_sequence := last_sequence None (entries scope st),
        rs_budget := bud, rs_exhaustion_reason := reason,
        rs_transition_type := (if reason \<noteq> None then ''policy_tightened_exhausted'' else ''policy_tightened'')\<rparr>"
      obtain st1 r1 where p: "persist env b pr so s1 st = (st1, r1)" by (cases "persist env b pr so s1 st")
      have res: "st' = st1" "r = map_ok (\<lambda>_. s1) r1"
        using r rec False p focused_sequence[OF ok f]
        by (simp_all add: reconcile_retry_policy_locked_def Let_def s1_def)
      have s1: "state_ok P s1" "rs_scope s1 = scope"
        using s bounds by (auto simp: s1_def state_ok_def)
      have "rb_max_remediation_attempts (rs_budget s1) \<le> rb_max_remediation_attempts (rs_budget (hd (states scope st)))"
        if "ledger_chain P (states scope st)"
        using focused_budget[OF that f] bounds(1) s(1) by (auto simp: s1_def state_ok_def)
      then have "extends P scope st st1" "r1 = Ok () \<Longrightarrow> focused b scope st1 (Some s1)"
        using persist_same_extends[OF ok f s1 _ _ _ p] by (simp_all add: s1_def)
      then show ?thesis
        using res bounds(7) s(1) by (cases r1) (auto simp: s1_def state_ok_def)
    qed
  qed
  then show "extends P scope st st'"
    and "r = Ok s' \<Longrightarrow> focused b scope st' (Some s') \<and> rs_launch_ordinal s' = rs_launch_ordinal s \<and>
           rs_launch_phase s' = rs_launch_phase s \<and> rs_counters s' = rs_counters s \<and>
           rs_lease_expiry s' = rs_lease_expiry s \<and>
           (rs_exhaustion_reason s \<noteq> None \<longrightarrow> rs_exhaustion_reason s' = rs_exhaustion_reason s)"
    by blast+
qed

lemma reject_beyond_budget:
  assumes ok: "store_ok P st" and f: "focused (lr_binding lr) scope st (lr_previous lr)"
    and r: "reject_launch_beyond_budget env ordinal budget lr st = (st', r)"
  shows "extends P scope st st'" and "r = Ok () \<Longrightarrow> st' = st \<and> ordinal \<le> rb_max_remediation_attempts budget"
proof -
  show "r = Ok () \<Longrightarrow> st' = st \<and> ordinal \<le> rb_max_remediation_attempts budget"
    using r by (auto simp: reject_launch_beyond_budget_def Let_def split: if_splits option.splits result.splits prod.splits)
  show "extends P scope st st'"
  proof (cases "ordinal \<le> rb_max_remediation_attempts budget \<or> lr_previous lr = None")
    case True
    then show ?thesis using r ok by (auto simp: reject_launch_beyond_budget_def split: if_splits)
  next
    case False
    then obtain s where s: "lr_previous lr = Some s" by blast
    then have f: "focused (lr_binding lr) scope st (Some s)" using f by simp
    define s1 where "s1 = s\<lparr>rs_predecessor_artifact_sequence := last_sequence None (entries scope st),
      rs_transition_type := ''next_launch_cap_exhausted'', rs_exhaustion_reason := Some RemediationAttempts\<rparr>"
    obtain st1 r1 where p: "persist env (lr_binding lr) (lr_producer_step_id lr) (lr_step_order lr) s1 st = (st1, r1)"
      by (cases "persist env (lr_binding lr) (lr_producer_step_id lr) (lr_step_order lr) s1 st")
    have "st' = st1"
      using r False s p focused_sequence[OF ok f]
      by (cases r1) (auto simp: reject_launch_beyond_budget_def Let_def s1_def)
    moreover have "state_ok P s1" "rs_scope s1 = scope"
      using focused_state_ok[OF ok f] by (auto simp: s1_def state_ok_def)
    ultimately show ?thesis
      using persist_same_extends(1)[OF ok f, of s1] focused_budget[OF _ f] p by (auto simp: s1_def)
  qed
qed

lemma crash_phase:
  assumes ok: "store_ok P st" and f: "focused (lr_binding lr) scope st (lr_previous lr)"
    and r: "recoverable_crash_phase env lr st = (st', r)"
  shows "extends P scope st st'" and "r = Ok p \<Longrightarrow> st' = st"
proof -
  have "extends P scope st st' \<and> (\<forall>p. r = Ok p \<longrightarrow> st' = st)"
  proof (cases "\<exists>s ordinal. lr_previous lr = Some s \<and> rs_launch_phase s = LpCompleted \<and>
      next_launch_ordinal lr = Ok ordinal \<and> rs_transition_type s \<in> {''launch_completed'', ''policy_tightened''}")
    case True
    then obtain s ordinal where t: "lr_previous lr = Some s" "rs_launch_phase s = LpCompleted"
      "next_launch_ordinal lr = Ok ordinal" "rs_transition_type s \<in> {''launch_completed'', ''policy_tightened''}" by blast
    obtain st1 r1 where p: "reject_launch_beyond_budget env ordinal (resolve_budget lr) lr st = (st1, r1)"
      by (cases "reject_launch_beyond_budget env ordinal (resolve_budget lr) lr st")
    show ?thesis
      using r t p reject_beyond_budget[OF ok f p]
      by (cases r1) (auto simp: recoverable_crash_phase_def)
  next
    case False
    then show ?thesis
      using r ok by (auto simp: recoverable_crash_phase_def split: option.splits LaunchPhase.splits if_splits result.splits)
  qed
  then show "extends P scope st st'" and "r = Ok p \<Longrightarrow> st' = st" by blast+
qed

lemma recover_result:
  assumes "recover_launch_result phase canonical s st = (st', r)"
  shows "same_ledger st st'" and "st_current st' = st_current st"
    and "r = Ok (b, s') \<Longrightarrow> s' = s \<or> s' = s\<lparr>rs_launch_result_promoted := True\<rparr>"
  using assms
  by (auto simp: recover_launch_result_def promote_remediation_launch_result_locked_def same_ledger_def Let_def
      split: result.splits if_splits option.splits)

lemma same_ledger_focused:
  "same_ledger st st' \<Longrightarrow> st_current st' = st_current st \<Longrightarrow> focused b scope st' p = focused b scope st p"
  by (cases p) (simp_all add: focused_def same_ledger_entries same_ledger_readable)

lemma same_ledger_store_ok:
  assumes "same_ledger st st'" and "st_current st' = st_current st"
  shows "store_ok P st' = store_ok P st"
proof -
  have h: "st_history st' = st_history st" "st_max_sequence st' = st_max_sequence st"
    using assms(1) by (simp_all add: same_ledger_def)
  show ?thesis unfolding store_ok_def entries_def bound_to_def assms(2) h by (rule refl)
qed

lemma recovery_extends:
  assumes ok: "store_ok P st" and f: "focused (lr_binding lr) scope st (lr_previous lr)"
    and r: "recover_agent_result_after_crash env lr st = (st', r)"
  shows "extends P scope st st'" and "r = Ok False \<Longrightarrow> same_ledger st st' \<and> st_current st' = st_current st"
proof -
  obtain st1 r1 where c: "recoverable_crash_phase env lr st = (st1, r1)"
    by (cases "recoverable_crash_phase env lr st")
  note crash = crash_phase[OF ok f c]
  have "extends P scope st st' \<and> (r = Ok False \<longrightarrow> same_ledger st st' \<and> st_current st' = st_current st)"
  proof (cases "\<exists>phase canonical s. r1 = Ok (Some phase) \<and> read_untrusted_current_json st1 = Ok canonical \<and>
      \<not> (case canonical of Some v \<Rightarrow> result_is_validated v | None \<Rightarrow> False) \<and> lr_previous lr = Some s")
    case False
    then show ?thesis
      using r c crash
      by (auto simp: recover_agent_result_after_crash_def same_ledger_def split: result.splits option.splits if_splits)
  next
    case True
    then obtain phase canonical s where t: "r1 = Ok (Some phase)" "read_untrusted_current_json st1 = Ok canonical"
      "\<not> (case canonical of Some v \<Rightarrow> result_is_validated v | None \<Rightarrow> False)" "lr_previous lr = Some s" by blast
    have st1: "st1 = st" using crash(2) t(1) by blast
    obtain st2 r2 where l: "recover_launch_result phase canonical s st = (st2, r2)"
      by (cases "recover_launch_result phase canonical s st")
    note rl = recover_result[OF l]
    have ok2: "store_ok P st2" using same_ledger_store_ok[OF rl(1,2)] ok by simp
    have f2: "focused (lr_binding lr) scope st2 (Some s)" using same_ledger_focused[OF rl(1,2)] f t(4) by simp
    show ?thesis
    proof (cases "\<exists>s1. r2 = Ok (True, s1)")
      case False
      then show ?thesis
        using r c t st1 l rl extends_same[OF ok2 rl(1)]
        by (cases r2) (auto simp: recover_agent_result_after_crash_def)
    next
      case True
      then obtain s1 where s1: "r2 = Ok (True, s1)" by blast
      obtain st3 r3 where p: "persist_recovered_launch env phase s1 lr st2 = (st3, r3)"
        by (cases "persist_recovered_launch env phase s1 lr st2")
      have eq: "st' = st3" "r \<noteq> Ok False"
        using r c t st1 l s1 p by (cases r3; auto simp: recover_agent_result_after_crash_def)+
      have so: "state_ok P s" "rs_scope s = scope" using focused_state_ok[OF ok2 f2] by simp_all
      have keep: "rs_scope s1 = scope" "rs_launch_ordinal s1 = rs_launch_ordinal s" "rs_budget s1 = rs_budget s"
        "rs_counters s1 = rs_counters s" "\<not> rs_history_chain_reset s1"
        using rl(3)[OF s1] so by (auto simp: state_ok_def)
      have "extends P scope st2 st3"
      proof (cases "phase = LpReserved")
        case True
        then show ?thesis using p ok2 by (auto simp: persist_recovered_launch_def split: result.splits)
      next
        case False
        define s2 where "s2 = s1\<lparr>rs_predecessor_artifact_sequence := last_sequence None (entries scope st2),
          rs_launch_phase := LpCompleted,
          rs_transition_type := (if phase = LpLaunched then ''launch_recovered_from_agent_result''
                                 else ''launch_completed_result_recovered'')\<rparr>"
        obtain st4 r4 where q: "persist env (lr_binding lr) (lr_producer_step_id lr) (lr_step_order lr) s2 st2 = (st4, r4)"
          by (cases "persist env (lr_binding lr) (lr_producer_step_id lr) (lr_step_order lr) s2 st2")
        have "st3 = st4"
          using p q focused_sequence[OF ok2 f2] False
          by (cases phase; cases r4) (auto simp: persist_recovered_launch_def s2_def Let_def)
        then show ?thesis
          using persist_same_extends(1)[OF ok2 f2 _ _ _ _ _ q] so keep focused_budget[OF _ f2]
          by (auto simp: s2_def state_ok_def)
      qed
      then show ?thesis
        using eq extends_trans[OF extends_same[OF ok2 rl(1)]] by simp
    qed
  qed
  then show "extends P scope st st'" and "r = Ok False \<Longrightarrow> same_ledger st st' \<and> st_current st' = st_current st"
    by blast+
qed

text \<open>
  The ordinal a granted reservation carries: the first one, or the one after the last recorded.
\<close>

definition next_ordinal_of :: "RetryState list \<Rightarrow> nat" where
  "next_ordinal_of ss = (if ss = [] then 1 else unat (rs_launch_ordinal (last ss)) + 1)"

lemma lease_expiry_readable:
  "lease_expiry_from_now env timeout = Ok text \<Longrightarrow> env_ok P env \<Longrightarrow> \<exists>i. P text = Ok i"
  by (auto simp: lease_expiry_from_now_def env_ok_def Let_def split: result.splits option.splits if_splits)

lemma next_ordinal_spec:
  assumes "store_ok P st" and "focused (lr_binding lr) scope st (lr_previous lr)" and "next_launch_ordinal lr = Ok ordinal"
  shows "unat ordinal = next_ordinal_of (states scope st)"
proof (cases "lr_previous lr")
  case None
  then show ?thesis
    using assms by (auto simp: next_launch_ordinal_def previous_counters_def counters_default_def
        next_ordinal_of_def focused_def dest: checked_add_Some split: option.splits)
next
  case (Some s)
  then have f: "focused (lr_binding lr) scope st (Some s)" using assms(2) by simp
  have "rs_launch_ordinal s = rc_remediation_attempt_index (rs_counters s)"
    using focused_state_ok[OF assms(1) f] by (simp add: state_ok_def)
  then show ?thesis
    using assms(3) Some focused_last[OF f]
    by (auto simp: next_launch_ordinal_def previous_counters_def next_ordinal_of_def
        dest: checked_add_Some split: option.splits)
qed

lemma reserved_state_ok:
  assumes ok: "store_ok P st" and f: "focused (lr_binding lr) scope st (lr_previous lr)" and env: "env_ok P env"
    and lease: "lease_expiry_from_now env (lr_invocation_timeout_seconds lr) = Ok lease"
    and t: "lr_invocation_timeout_seconds lr \<noteq> 0"
    and b: "ordinal \<le> rb_max_remediation_attempts (resolve_budget lr)"
  shows "state_ok P (reserved_state env lr ordinal pred lease)"
proof -
  have "rc_validation_retry_index (previous_counters lr) \<le> rb_max_validation_retries (resolve_budget lr) \<and>
      rc_stale_artifact_retry_index (previous_counters lr) \<le> rb_max_stale_artifact_retries (resolve_budget lr)"
    using f focused_state_ok[OF ok, of "lr_binding lr" scope]
    by (cases "lr_previous lr")
      (auto simp: previous_counters_def resolve_budget_def counters_default_def state_ok_def)
  then show ?thesis
    using env t b lease_expiry_readable[OF lease env]
    by (simp add: reserved_state_def Let_def state_ok_def env_ok_def)
qed

lemma reserve_prepared_extends:
  assumes ok: "store_ok P st" and f: "focused (lr_binding lr) scope st (lr_previous lr)" and env: "env_ok P env"
    and lr: "lr_scope lr = scope" "lr_invocation_timeout_seconds lr \<noteq> 0"
    and r: "reserve_prepared env lr st = (st', r)"
  shows "extends P scope st st'"
    and "r = Ok s \<Longrightarrow> unat (rs_launch_ordinal s) = next_ordinal_of (states scope st) \<and> state_ok P s \<and>
           rs_scope s = scope \<and> states scope st' = states scope st @ [s] \<and>
           guard_active_launch env lr = Ok ()"
proof -
  have "extends P scope st st' \<and> (\<forall>s. r = Ok s \<longrightarrow>
      unat (rs_launch_ordinal s) = next_ordinal_of (states scope st) \<and> state_ok P s \<and>
      rs_scope s = scope \<and> states scope st' = states scope st @ [s] \<and> guard_active_launch env lr = Ok ())"
  proof (cases "\<exists>ordinal lease. guard_active_launch env lr = Ok () \<and> next_launch_ordinal lr = Ok ordinal \<and>
      ordinal \<le> rb_max_remediation_attempts (resolve_budget lr) \<and>
      lease_expiry_from_now env (lr_invocation_timeout_seconds lr) = Ok lease")
    case False
    show ?thesis
    proof (cases "\<exists>ordinal. guard_active_launch env lr = Ok () \<and> next_launch_ordinal lr = Ok ordinal")
      case no: False
      then show ?thesis
        using r ok by (auto simp: reserve_prepared_def split: result.splits)
    next
      case True
      then obtain ordinal where o': "guard_active_launch env lr = Ok ()" "next_launch_ordinal lr = Ok ordinal" by blast
      obtain st1 r1 where b: "reject_launch_beyond_budget env ordinal (resolve_budget lr) lr st = (st1, r1)"
        by (cases "reject_launch_beyond_budget env ordinal (resolve_budget lr) lr st")
      note rb = reject_beyond_budget[OF ok f b]
      have "st' = st1 \<and> (\<exists>e. r = Err e)"
      proof (cases r1)
        case (Err e)
        then show ?thesis using r o' b by (auto simp: reserve_prepared_def)
      next
        case (Ok u)
        then have "ordinal \<le> rb_max_remediation_attempts (resolve_budget lr)" using rb(2) by simp
        then obtain e where "lease_expiry_from_now env (lr_invocation_timeout_seconds lr) = Err e"
          using False o' by (cases "lease_expiry_from_now env (lr_invocation_timeout_seconds lr)") auto
        then show ?thesis
          using r o' b Ok by (auto simp: reserve_prepared_def split: result.splits if_splits)
      qed
      then show ?thesis using rb(1) by auto
    qed
  next
    case True
    then obtain ordinal lease where g: "guard_active_launch env lr = Ok ()" "next_launch_ordinal lr = Ok ordinal"
      "ordinal \<le> rb_max_remediation_attempts (resolve_budget lr)"
      "lease_expiry_from_now env (lr_invocation_timeout_seconds lr) = Ok lease" by blast
    have b: "reject_launch_beyond_budget env ordinal (resolve_budget lr) lr st = (st, Ok ())"
      using g(3) by (simp add: reject_launch_beyond_budget_def)
    have pred: "(if lr_previous lr \<noteq> None then state_sequence_locked (lr_binding lr) st else Ok None) =
        Ok (last_sequence None (entries scope st))"
    proof (cases "lr_previous lr")
      case None
      then show ?thesis using f by (simp add: focused_def last_sequence_def)
    next
      case (Some p)
      then show ?thesis using f focused_sequence[OF ok, of "lr_binding lr" scope p] by simp
    qed
    define s where "s = reserved_state env lr ordinal (last_sequence None (entries scope st)) lease"
    obtain st2 r2 where p: "persist env (lr_binding lr) (lr_producer_step_id lr) (lr_step_order lr) s st = (st2, r2)"
      by (cases "persist env (lr_binding lr) (lr_producer_step_id lr) (lr_step_order lr) s st")
    have res: "st' = st2" "r = map_ok (\<lambda>_. s) r2"
      using r g b p pred unfolding reserve_prepared_def s_def[symmetric]
      by (cases r2; simp add: s_def[symmetric] Let_def)+
    have s: "state_ok P s" "rs_scope s = scope" "rs_predecessor_artifact_sequence s = last_sequence None (entries scope st)"
      "rs_launch_ordinal s = ordinal" "rs_budget s = resolve_budget lr"
      using reserved_state_ok[OF ok f env g(4) lr(2) g(3)] lr(1) by (simp_all add: s_def reserved_state_def Let_def)
    have ord: "unat ordinal = next_ordinal_of (states scope st)" using next_ordinal_spec[OF ok f g(2)] .
    have "succ_ok P (states scope st) s" if "ledger_chain P (states scope st)"
    proof (cases "lr_previous lr")
      case None
      then show ?thesis using f s ord by (simp add: succ_ok_def next_ordinal_of_def focused_def)
    next
      case (Some p)
      then show ?thesis
        using f s ord focused_budget[OF that, of "lr_binding lr" p] focused_last[of "lr_binding lr" scope st p]
        by (simp add: succ_ok_def next_ordinal_of_def resolve_budget_def)
    qed
    then have ext: "extends P scope st st2"
      using persist_extends[OF ok s(1-3) focused_readable[OF f] p] persist_records(1)[OF ok s(1-3) focused_readable[OF f] p] ok
      by (cases "ledger_chain P (states scope st)") (auto simp: extends_def recorded_def)
    have "states scope st2 = states scope st @ [s]" if "r2 = Ok ()"
      using persist_records(1)[OF ok s(1-3) focused_readable[OF f] p] that by (auto simp: recorded_def)
    then show ?thesis
      using res ext s ord g(1) by (cases r2) auto
  qed
  then show "extends P scope st st'"
    and "r = Ok s \<Longrightarrow> unat (rs_launch_ordinal s) = next_ordinal_of (states scope st) \<and> state_ok P s \<and>
           rs_scope s = scope \<and> states scope st' = states scope st @ [s] \<and> guard_active_launch env lr = Ok ()"
    by blast+
qed

lemma reservation_new:
  assumes ok: "store_ok P st" and env: "env_ok P env"
    and r: "launch_reservation_new env b plan params pr so st = (st', r)"
  shows "store_ok P st'" and "same_ledger st st'"
    and "r = Ok lr \<Longrightarrow> scope_key_new b plan = Ok (lr_scope lr) \<and> lr_invocation_timeout_seconds lr \<noteq> 0 \<and>
      lr_binding lr = b \<and> focused b (lr_scope lr) st' (lr_previous lr)"
proof -
  have "store_ok P st' \<and> same_ledger st st' \<and> (\<forall>lr. r = Ok lr \<longrightarrow>
      scope_key_new b plan = Ok (lr_scope lr) \<and> lr_invocation_timeout_seconds lr \<noteq> 0 \<and>
      lr_binding lr = b \<and> focused b (lr_scope lr) st' (lr_previous lr))"
  proof (cases "\<exists>scope budget timeout. scope_key_new b plan = Ok scope \<and> budget_from_params params = Ok budget \<and>
      parameter params ''timeout_seconds'' DEFAULT_INVOCATION_TIMEOUT_SECONDS = Ok timeout \<and> timeout \<noteq> 0")
    case False
    then show ?thesis
      using r ok by (auto simp: launch_reservation_new_def same_ledger_def split: result.splits if_splits)
  next
    case True
    then obtain scope budget timeout where t: "scope_key_new b plan = Ok scope" "budget_from_params params = Ok budget"
      "parameter params ''timeout_seconds'' DEFAULT_INVOCATION_TIMEOUT_SECONDS = Ok timeout" "timeout \<noteq> 0" by blast
    obtain st1 r1 where l: "load_matching_state_locked env b scope st = (st1, r1)"
      by (cases "load_matching_state_locked env b scope st")
    have parse: "re_parse_rfc3339 env = P" using env by (simp add: env_ok_def)
    note lf = load_focused[OF ok parse l]
    show ?thesis
      using r t l lf by (cases r1) (auto simp: launch_reservation_new_def)
  qed
  then show "store_ok P st'" and "same_ledger st st'"
    and "r = Ok lr \<Longrightarrow> scope_key_new b plan = Ok (lr_scope lr) \<and> lr_invocation_timeout_seconds lr \<noteq> 0 \<and>
      lr_binding lr = b \<and> focused b (lr_scope lr) st' (lr_previous lr)"
    by blast+
qed

lemma prepare_extends:
  assumes ok: "store_ok P st" and f: "focused (lr_binding lr) scope st (lr_previous lr)"
    and r: "prepare_reservation env lr st = (st', r)"
  shows "extends P scope st st'"
    and "r = Ok lr' \<Longrightarrow> focused (lr_binding lr) scope st' (lr_previous lr') \<and> lr_binding lr' = lr_binding lr \<and> lr_scope lr' = lr_scope lr \<and>
      lr_invocation_timeout_seconds lr' = lr_invocation_timeout_seconds lr \<and>
      (\<forall>s. lr_previous lr = Some s \<longrightarrow> rs_exhaustion_reason s = None \<and>
        (\<exists>s'. lr_previous lr' = Some s' \<and> rs_launch_phase s' = rs_launch_phase s \<and> rs_lease_expiry s' = rs_lease_expiry s))"
proof -
  have "extends P scope st st' \<and> (\<forall>lr'. r = Ok lr' \<longrightarrow> focused (lr_binding lr) scope st' (lr_previous lr') \<and> lr_binding lr' = lr_binding lr \<and>
      lr_scope lr' = lr_scope lr \<and> lr_invocation_timeout_seconds lr' = lr_invocation_timeout_seconds lr \<and>
      (\<forall>s. lr_previous lr = Some s \<longrightarrow> rs_exhaustion_reason s = None \<and>
        (\<exists>s'. lr_previous lr' = Some s' \<and> rs_launch_phase s' = rs_launch_phase s \<and> rs_lease_expiry s' = rs_lease_expiry s)))"
  proof (cases "lr_previous lr")
    case None
    then show ?thesis
      using r ok f by (auto simp: prepare_reservation_def reconcile_previous_def reject_exhausted_def)
  next
    case (Some s)
    then have f: "focused (lr_binding lr) scope st (Some s)" using f by simp
    obtain st1 r1 where c: "reconcile_retry_policy_locked env (lr_binding lr) (lr_producer_step_id lr) (lr_step_order lr)
        (lr_configured_budget lr) s st = (st1, r1)"
      by (cases "reconcile_retry_policy_locked env (lr_binding lr) (lr_producer_step_id lr) (lr_step_order lr)
        (lr_configured_budget lr) s st")
    note rp = reconcile_policy[OF ok f c]
    show ?thesis
    proof (cases r1)
      case (Err e)
      then show ?thesis
        using r Some c rp(1) by (auto simp: prepare_reservation_def reconcile_previous_def)
    next
      case (Ok s')
      then have "rs_exhaustion_reason s' = None \<Longrightarrow> rs_exhaustion_reason s = None"
        using rp(2) by (cases "rs_exhaustion_reason s") auto
      then show ?thesis
        using r Some c rp Ok
        by (cases "rs_exhaustion_reason s'")
          (auto simp: prepare_reservation_def reconcile_previous_def reject_exhausted_def exhausted_error_def)
    qed
  qed
  then show "extends P scope st st'"
    and "r = Ok lr' \<Longrightarrow> focused (lr_binding lr) scope st' (lr_previous lr') \<and> lr_binding lr' = lr_binding lr \<and> lr_scope lr' = lr_scope lr \<and>
      lr_invocation_timeout_seconds lr' = lr_invocation_timeout_seconds lr \<and>
      (\<forall>s. lr_previous lr = Some s \<longrightarrow> rs_exhaustion_reason s = None \<and>
        (\<exists>s'. lr_previous lr' = Some s' \<and> rs_launch_phase s' = rs_launch_phase s \<and> rs_lease_expiry s' = rs_lease_expiry s))"
    by blast+
qed

lemma extends_store_ok: "extends P scope st st' \<Longrightarrow> store_ok P st'"
  by (simp add: extends_def)

text \<open>What a granted reservation leaves, and what it found.\<close>

definition granted_after :: "RetryScopeKey \<Rightarrow> RetryStore \<Rightarrow> RetryStore \<Rightarrow> RetryState \<Rightarrow> bool" where
  "granted_after scope st st' s \<longleftrightarrow>
     rs_scope s = scope \<and>
     (\<exists>ys. states scope st' = states scope st @ ys @ [s] \<and>
        unat (rs_launch_ordinal s) = next_ordinal_of (states scope st @ ys))"

definition launch_free :: "RetryEnv \<Rightarrow> RetryState list \<Rightarrow> bool" where
  "launch_free env ss \<longleftrightarrow>
     (ss = [] \<or>
      (rs_exhaustion_reason (last ss) = None \<and>
       (rs_launch_phase (last ss) = LpCompleted \<or> is_lease_expired env (last ss) = Ok True)))"

lemma guard_lease:
  assumes "guard_active_launch env lr = Ok ()" and "lr_previous lr = Some s"
    and "rs_launch_phase s' = rs_launch_phase s" and "rs_lease_expiry s' = rs_lease_expiry s"
  shows "rs_launch_phase s' = LpCompleted \<or> is_lease_expired env s' = Ok True"
proof -
  have "is_lease_expired env s' = is_lease_expired env s" using assms by (simp add: is_lease_expired_def)
  then show ?thesis
    using assms by (auto simp: guard_active_launch_def split: LaunchPhase.splits result.splits if_splits)
qed

lemma reserve_extends:
  assumes ok: "store_ok P st" and env: "env_ok P env"
    and r: "reserve_launch_with_baseline env b plan params pr so capture st = (st', r)"
  shows "(scope_key_new b plan = Ok scope \<longrightarrow> extends P scope st st') \<and> (\<not> is_ok (scope_key_new b plan) \<longrightarrow> st' = st) \<and>
    (\<forall>s x. r = Ok (Reserved s x) \<longrightarrow> (\<exists>sc. scope_key_new b plan = Ok sc \<and> granted_after sc st st' s \<and>
        state_ok P s \<and> launch_free env (states sc st)))"
proof -
  obtain st1 r1 where n: "launch_reservation_new env b plan params pr so st = (st1, r1)"
    by (cases "launch_reservation_new env b plan params pr so st")
  note new = reservation_new[OF ok env n]
  show ?thesis
  proof (cases r1)
    case (Err e)
    moreover have "scope_key_new b plan = Err e' \<Longrightarrow> st1 = st" for e'
      using n by (simp add: launch_reservation_new_def)
    ultimately show ?thesis
      using r n extends_same[OF new(1,2)]
      by (cases "scope_key_new b plan") (auto simp: reserve_launch_with_baseline_def)
  next
    case (Ok lr)
    note lr = new(3)[OF Ok]
    let ?sc = "lr_scope lr"
    have e1: "extends P ?sc st st1" using extends_same[OF new(1,2)] .
    obtain st2 r2 where p: "prepare_reservation env lr st1 = (st2, r2)" by (cases "prepare_reservation env lr st1")
    note prep = prepare_extends[OF new(1) _ p, of ?sc]
    have e2: "extends P ?sc st st2" using extends_trans[OF e1 prep(1)] lr by blast
    show ?thesis
    proof (cases r2)
      case (Err e)
      then show ?thesis using r n Ok p e2 lr by (auto simp: reserve_launch_with_baseline_def)
    next
      case Ok2: (Ok lr2)
      have lr2: "focused (lr_binding lr2) ?sc st2 (lr_previous lr2)" "lr_scope lr2 = ?sc" "lr_invocation_timeout_seconds lr2 \<noteq> 0"
        using prep(2)[OF _ Ok2] lr by auto
      obtain st3 r3 where c: "recover_agent_result_after_crash env lr2 st2 = (st3, r3)"
        by (cases "recover_agent_result_after_crash env lr2 st2")
      note rec = recovery_extends[OF extends_store_ok[OF e2] lr2(1) c]
      have e3: "extends P ?sc st st3" using extends_trans[OF e2 rec(1)] .
      show ?thesis
      proof (cases "r3 = Ok False")
        case False
        then show ?thesis
          using r n Ok p Ok2 c e3 lr by (cases r3) (auto simp: reserve_launch_with_baseline_def split: bool.splits)
      next
        case True
        have f3: "focused (lr_binding lr2) ?sc st3 (lr_previous lr2)" using rec(2)[OF True] same_ledger_focused lr2(1) by blast
        obtain st4 r4 where v: "reserve_prepared env lr2 st3 = (st4, r4)" by (cases "reserve_prepared env lr2 st3")
        note rp = reserve_prepared_extends[OF extends_store_ok[OF e3] f3 env lr2(2,3) v]
        have e4: "extends P ?sc st st4" using extends_trans[OF e3 rp(1)] .
        have res: "st' = st4" "\<And>s x. r = Ok (Reserved s x) \<Longrightarrow> r4 = Ok s"
          using r n Ok p Ok2 c True v
          by (cases r4; auto simp: reserve_launch_with_baseline_def elim: map_ok.elims)+
        have "granted_after ?sc st st4 s \<and> state_ok P s \<and> launch_free env (states ?sc st)" if s: "r4 = Ok s" for s
        proof -
          note rs = rp(2)[OF s]
          obtain ys where ys: "states ?sc st3 = states ?sc st @ ys" using e3 by (auto simp: extends_def)
          have "launch_free env (states ?sc st)"
          proof (cases "lr_previous lr")
            case None
            then show ?thesis
              using lr same_ledger_states[OF new(2)] by (simp add: launch_free_def focused_def flip: states_Nil)
          next
            case (Some s0)
            then have l: "last (states ?sc st) = s0"
              using lr focused_last[of b ?sc st1 s0] same_ledger_states[OF new(2)] by simp
            obtain s' where s': "lr_previous lr2 = Some s'" "rs_launch_phase s' = rs_launch_phase s0"
              "rs_lease_expiry s' = rs_lease_expiry s0" "rs_exhaustion_reason s0 = None"
              using prep(2)[OF _ Ok2] lr Some by auto
            then show ?thesis
              using guard_lease[of env lr2 s' s0] rs l by (auto simp: launch_free_def)
          qed
          then show ?thesis using rs ys by (auto simp: granted_after_def)
        qed
        then show ?thesis using res e4 lr by auto
      qed
    qed
  qed
qed

section \<open>Phases, promotion and validation\<close>

text \<open>A state an executor holds from an earlier operation on its scope.\<close>

definition held_ok :: "rfc3339_reader \<Rightarrow> RetryStore \<Rightarrow> RetryState \<Rightarrow> bool" where
  "held_ok P st s \<longleftrightarrow>
     state_ok P s \<and> states (rs_scope s) st \<noteq> [] \<and>
     rb_max_remediation_attempts (rs_budget s) \<le> rb_max_remediation_attempts (rs_budget (hd (states (rs_scope s) st)))"

lemma held_ok_same:
  "held_ok P st s \<Longrightarrow> same_ledger st st' \<Longrightarrow> held_ok P st' s"
  by (simp add: held_ok_def same_ledger_states same_ledger_entries)

lemma held_ok_extends:
  assumes "held_ok P st s" and "extends P scope st st'"
  shows "held_ok P st' s"
proof -
  obtain xs where "states (rs_scope s) st' = states (rs_scope s) st @ xs"
    using assms(2) by (cases "rs_scope s = scope") (auto simp: extends_def)
  then show ?thesis using assms(1) by (simp add: held_ok_def flip: states_Nil)
qed

lemma held_ok_follows:
  assumes "held_ok P st s" and "state_ok P s'" and "rs_scope s' = rs_scope s" and "rs_budget s' = rs_budget s"
  shows "held_ok P st s'"
  using assms by (simp add: held_ok_def)

lemma load_env:
  "env_ok P env \<Longrightarrow> re_parse_rfc3339 env = P"
  by (simp add: env_ok_def)

lemma verified_owner:
  "verify_ownership persisted token phase ordinal = Ok () \<Longrightarrow>
     \<exists>p. persisted = Some p \<and> rs_owner_token p = token \<and> rs_launch_phase p = phase \<and> rs_launch_ordinal p = ordinal"
  by (auto simp: verify_ownership_def split: option.splits if_splits)

text \<open>What the owner of a launch writes after it has verified that the launch is still its own.\<close>

lemma owner_writes:
  assumes ok: "store_ok P st" and held: "held_ok P st s" and f: "focused b (rs_scope s) st (Some p)"
    and ord: "rs_launch_ordinal p = rs_launch_ordinal s" and s': "state_ok P s'"
    and keep: "rs_scope s' = rs_scope s" "rs_launch_ordinal s' = rs_launch_ordinal s" "rs_budget s' = rs_budget s"
    and pred: "rs_predecessor_artifact_sequence s' = last_sequence None (entries (rs_scope s) st)"
    and w: "persist env b pr so s' st = (st', r)"
  shows "extends P (rs_scope s) st st'"
  using persist_same_extends(1)[OF ok f s' keep(1) _ _ pred w] ord keep held by (simp add: held_ok_def)

lemma record_phase_extends:
  assumes ok: "store_ok P st" and env: "env_ok P env" and held: "held_ok P st s"
    and r: "record_launch_phase env b pr so s phase st = (st', r)"
  shows "extends P (rs_scope s) st st'"
    and "r = Ok s' \<Longrightarrow> state_ok P s' \<and> rs_scope s' = rs_scope s \<and> rs_budget s' = rs_budget s \<and>
           rs_launch_ordinal s' = rs_launch_ordinal s \<and> rs_launch_phase s' = phase"
proof -
  let ?goal = "extends P (rs_scope s) st st' \<and> (\<forall>s'. r = Ok s' \<longrightarrow> state_ok P s' \<and> rs_scope s' = rs_scope s \<and>
      rs_budget s' = rs_budget s \<and> rs_launch_ordinal s' = rs_launch_ordinal s \<and> rs_launch_phase s' = phase)"
  obtain st1 r1 where l: "load_matching_state_locked env b (rs_scope s) st = (st1, r1)"
    by (cases "load_matching_state_locked env b (rs_scope s) st")
  note lf = load_focused[OF ok load_env[OF env] l]
  note e1 = extends_same[OF lf(1,2), of "rs_scope s"]
  have ?goal
  proof (cases "valid_phase_transition (rs_launch_phase s) phase \<and> (\<exists>persisted. r1 = Ok persisted \<and>
      verify_ownership persisted (rs_owner_token s) (rs_launch_phase s) (rs_launch_ordinal s) = Ok ())")
    case False
    then show ?thesis
      using r ok l e1 by (cases r1) (auto simp: record_launch_phase_def split: if_splits result.splits)
  next
    case True
    then obtain p where p: "valid_phase_transition (rs_launch_phase s) phase" "r1 = Ok (Some p)"
      "verify_ownership (Some p) (rs_owner_token s) (rs_launch_phase s) (rs_launch_ordinal s) = Ok ()"
      "rs_launch_ordinal p = rs_launch_ordinal s"
      by (auto dest: verified_owner)
    have f: "focused b (rs_scope s) st1 (Some p)" using lf(3) p(2) by blast
    note pre = focused_sequence[OF lf(1) f]
    define s1 where "s1 = s\<lparr>rs_predecessor_artifact_sequence := last_sequence None (entries (rs_scope s) st1),
      rs_launch_phase := phase,
      rs_transition_type := (if phase = LpLaunched then ''launch_launched'' else ''launch_completed'')\<rparr>"
    define upd where "upd = (if phase = LpLaunched
      then map_ok (\<lambda>lease. s1\<lparr>rs_lease_expiry := Some lease\<rparr>) (lease_expiry_from_now env (rs_invocation_timeout_seconds s))
      else Ok s1)"
    have step: "record_launch_phase env b pr so s phase st =
        (case upd of Err e \<Rightarrow> (st1, Err e)
         | Ok s2 \<Rightarrow> (let (st2, r) = persist env b pr so s2 st1 in (st2, map_ok (\<lambda>_. s2) r)))"
      using p l pre by (simp add: record_launch_phase_def upd_def s1_def Let_def)
    show ?thesis
    proof (cases upd)
      case (Err e)
      then show ?thesis using r step e1 by auto
    next
      case (Ok s2)
      have so: "state_ok P s" using held by (simp add: held_ok_def)
      have ph: "phase = LpLaunched \<and> rs_launch_phase s = LpReserved \<or> phase = LpCompleted"
        using p(1) by (auto simp: valid_phase_transition_def)
      have s2: "state_ok P s2" "rs_scope s2 = rs_scope s" "rs_budget s2 = rs_budget s"
        "rs_launch_ordinal s2 = rs_launch_ordinal s" "rs_launch_phase s2 = phase"
        "rs_predecessor_artifact_sequence s2 = last_sequence None (entries (rs_scope s) st1)"
        using Ok ph so lease_expiry_readable[OF _ env, of "rs_invocation_timeout_seconds s"]
        by (auto simp: upd_def s1_def state_ok_def elim!: map_ok.elims split: if_splits)
      obtain st2 r2 where w: "persist env b pr so s2 st1 = (st2, r2)" by (cases "persist env b pr so s2 st1")
      have "extends P (rs_scope s) st1 st2"
        using owner_writes[OF lf(1) held_ok_same[OF held lf(2)] f p(4) s2(1,2,4,3,6) w] .
      then show ?thesis
        using r step Ok w extends_trans[OF e1] s2 by (cases r2) auto
    qed
  qed
  then show "extends P (rs_scope s) st st'"
    and "r = Ok s' \<Longrightarrow> state_ok P s' \<and> rs_scope s' = rs_scope s \<and> rs_budget s' = rs_budget s \<and>
           rs_launch_ordinal s' = rs_launch_ordinal s \<and> rs_launch_phase s' = phase"
    by blast+
qed

lemma promote_locked:
  "promote_remediation_launch_result_locked ordinal token st = (st', r) \<Longrightarrow>
     same_ledger st st' \<and> st_current st' = st_current st"
  by (auto simp: promote_remediation_launch_result_locked_def same_ledger_def split: option.splits result.splits)

lemma promote_extends:
  assumes ok: "store_ok P st" and env: "env_ok P env" and held: "held_ok P st s"
    and r: "promote_launch_result env b pr so s st = (st', s', r)"
  shows "extends P (rs_scope s) st st'"
    and "state_ok P s' \<and> rs_scope s' = rs_scope s \<and> rs_budget s' = rs_budget s \<and>
           rs_launch_ordinal s' = rs_launch_ordinal s"
proof -
  let ?goal = "extends P (rs_scope s) st st' \<and> state_ok P s' \<and> rs_scope s' = rs_scope s \<and>
      rs_budget s' = rs_budget s \<and> rs_launch_ordinal s' = rs_launch_ordinal s"
  have so: "state_ok P s" using held by (simp add: held_ok_def)
  obtain st1 r1 where l: "load_matching_state_locked env b (rs_scope s) st = (st1, r1)"
    by (cases "load_matching_state_locked env b (rs_scope s) st")
  note lf = load_focused[OF ok load_env[OF env] l]
  note e1 = extends_same[OF lf(1,2), of "rs_scope s"]
  have ?goal
  proof (cases "\<exists>persisted. r1 = Ok persisted \<and>
      verify_ownership persisted (rs_owner_token s) LpLaunched (rs_launch_ordinal s) = Ok ()")
    case False
    then show ?thesis
      using r l e1 so by (cases r1) (auto simp: promote_launch_result_def split: result.splits)
  next
    case True
    then obtain p where p: "r1 = Ok (Some p)"
      "verify_ownership (Some p) (rs_owner_token s) LpLaunched (rs_launch_ordinal s) = Ok ()"
      "rs_launch_ordinal p = rs_launch_ordinal s"
      by (auto dest: verified_owner)
    obtain st2 r2 where q: "promote_remediation_launch_result_locked (rs_launch_ordinal s) (rs_owner_token s) st1 = (st2, r2)"
      by (cases "promote_remediation_launch_result_locked (rs_launch_ordinal s) (rs_owner_token s) st1")
    note pl = promote_locked[OF q]
    have ok2: "store_ok P st2" using same_ledger_store_ok pl lf(1) by blast
    have e2: "extends P (rs_scope s) st st2" using extends_trans[OF e1 extends_same[OF ok2]] pl by blast
    have f: "focused b (rs_scope s) st2 (Some p)" using lf(3) p(1) same_ledger_focused pl by blast
    show ?thesis
    proof (cases "r2 = Ok True")
      case False
      then show ?thesis
        using r l p q e2 so by (cases r2) (auto simp: promote_launch_result_def split: bool.splits)
    next
      case True
      define s1 where "s1 = s\<lparr>rs_predecessor_artifact_sequence := last_sequence None (entries (rs_scope s) st2),
        rs_launch_result_promoted := True, rs_transition_type := ''launch_result_promoted''\<rparr>"
      have s1: "state_ok P s1" "rs_scope s1 = rs_scope s" "rs_launch_ordinal s1 = rs_launch_ordinal s"
        "rs_budget s1 = rs_budget s" "rs_predecessor_artifact_sequence s1 = last_sequence None (entries (rs_scope s) st2)"
        using so by (auto simp: s1_def state_ok_def)
      obtain st3 r3 where w: "persist env b pr so s1 st2 = (st3, r3)" by (cases "persist env b pr so s1 st2")
      have held2: "held_ok P st2 s" using held_ok_same[OF held_ok_same[OF held lf(2)]] pl by blast
      have "extends P (rs_scope s) st2 st3" using owner_writes[OF ok2 held2 f p(3) s1 w] .
      moreover have "promote_launch_result env b pr so s st =
          (st3, s1, map_ok (\<lambda>_. True) r3)"
        using l p q True w focused_sequence[OF ok2 f]
        by (simp add: promote_launch_result_def s1_def Let_def split: result.splits)
      ultimately show ?thesis
        using r s1 extends_trans[OF e2] by (cases r3) auto
    qed
  qed
  then show "extends P (rs_scope s) st st'"
    and "state_ok P s' \<and> rs_scope s' = rs_scope s \<and> rs_budget s' = rs_budget s \<and>
           rs_launch_ordinal s' = rs_launch_ordinal s"
    by blast+
qed

lemma validate_against_budget_Ok:
  "validate_against_budget c b = Ok () \<longleftrightarrow>
     rc_remediation_attempt_index c \<le> rb_max_remediation_attempts b \<and>
     rc_validation_retry_index c \<le> rb_max_validation_retries b \<and>
     rc_stale_artifact_retry_index c \<le> rb_max_stale_artifact_retries b"
  by (auto simp: validate_against_budget_def not_less)

lemma apply_validation_ok:
  assumes "apply_validation t adv s = Ok s'" and "state_ok P s" and "vt_transition_type t \<noteq> ''terminal_tombstone''"
  shows "state_ok P s'" and "rs_scope s' = rs_scope s" and "rs_budget s' = rs_budget s"
    and "rs_launch_ordinal s' = rs_launch_ordinal s" and "rs_launch_phase s' = rs_launch_phase s"
    and "rs_predecessor_artifact_sequence s' = rs_predecessor_artifact_sequence s"
    and "rc_validation_retry_index (rs_counters s') = vt_validation_retry_index t"
    and "rc_stale_artifact_retry_index (rs_counters s') = vt_stale_artifact_retry_index t"
    and "rs_validation_source_id s' = Some (vt_source_id t)" and "rs_transition_type s' = vt_transition_type t"
  using assms
  by (auto simp: apply_validation_def Let_def state_ok_def validate_against_budget_Ok split: result.splits if_splits)

lemma ownership_verified:
  "ownership_verify ow persisted = Ok () \<Longrightarrow>
     \<exists>p. persisted = Some p \<and> rs_scope p = ro_scope ow \<and> rs_owner_token p = ro_token ow \<and>
         rs_launch_phase p = ro_phase ow \<and> rs_launch_ordinal p = ro_ordinal ow"
  by (auto simp: ownership_verify_def verify_ownership_def split: option.splits if_splits)

lemma advance_validation_extends:
  assumes ok: "store_ok P st" and env: "env_ok P env" and ty: "vt_transition_type t \<noteq> ''terminal_tombstone''"
    and r: "advance_validation_locked env b pr so params ow t st = (st', r)"
  shows "extends P (ro_scope ow) st st'"
    and "r = Ok s' \<Longrightarrow> focused b (ro_scope ow) st' (Some s')"
proof -
  let ?sc = "ro_scope ow"
  let ?goal = "extends P ?sc st st' \<and> (\<forall>s'. r = Ok s' \<longrightarrow> focused b ?sc st' (Some s'))"
  obtain st1 r1 where l: "load_matching_state_locked env b ?sc st = (st1, r1)"
    by (cases "load_matching_state_locked env b ?sc st")
  note lf = load_focused[OF ok load_env[OF env] l]
  note e1 = extends_same[OF lf(1,2), of ?sc]
  have ?goal
  proof (cases "\<exists>p replay configured. r1 = Ok (Some p) \<and> ownership_verify ow (Some p) = Ok () \<and>
      is_idempotent_replay t p = Ok replay \<and> budget_from_params params = Ok configured")
    case False
    then show ?thesis
      using r l e1 by (cases r1) (auto simp: advance_validation_locked_def ownership_verify_def
          split: result.splits option.splits)
  next
    case True
    then obtain p replay configured where p: "r1 = Ok (Some p)" "ownership_verify ow (Some p) = Ok ()"
      "is_idempotent_replay t p = Ok replay" "budget_from_params params = Ok configured" by blast
    have f: "focused b ?sc st1 (Some p)" using lf(3) p(1) by blast
    obtain st2 r2 where c: "reconcile_retry_policy_locked env b pr so configured p st1 = (st2, r2)"
      by (cases "reconcile_retry_policy_locked env b pr so configured p st1")
    note rp = reconcile_policy[OF lf(1) f c]
    have e2: "extends P ?sc st st2" using extends_trans[OF e1 rp(1)] .
    have ok2: "store_ok P st2" using e2 by (rule extends_store_ok)
    define tail where "tail s1 =
      (if replay then (st2, Ok s1)
       else (case exhausted_error s1 of
               Some e \<Rightarrow> (st2, Err e)
             | None \<Rightarrow>
                 (case validate_against t s1 of
                    Err e \<Rightarrow> (st2, Err e)
                  | Ok _ \<Rightarrow>
                      (case state_sequence_locked b st2 of
                         Err e \<Rightarrow> (st2, Err e)
                       | Ok predecessor \<Rightarrow>
                           (case apply_validation t (advancement_from t s1)
                                   (s1\<lparr>rs_predecessor_artifact_sequence := predecessor\<rparr>) of
                              Err e \<Rightarrow> (st2, Err e)
                            | Ok s2 \<Rightarrow>
                                (let (st3, r) = persist env b pr so s2 st2
                                 in (st3, map_ok (\<lambda>_. s2) r)))))))" for s1
    have step: "(st', r) = (case r2 of Err e \<Rightarrow> (st2, Err e) | Ok s1 \<Rightarrow> tail s1)"
      using r l p c by (cases r2) (auto simp: advance_validation_locked_def tail_def)
    show ?thesis
    proof (cases r2)
      case (Err e)
      then show ?thesis using step e2 by auto
    next
      case (Ok s1)
      have f1: "focused b ?sc st2 (Some s1)" using rp(2)[OF Ok] by blast
      have so1: "state_ok P s1" "rs_scope s1 = ?sc" using focused_state_ok[OF ok2 f1] by simp_all
      note pre = focused_sequence[OF ok2 f1]
      define s1' where "s1' = s1\<lparr>rs_predecessor_artifact_sequence := last_sequence None (entries ?sc st2)\<rparr>"
      have s1': "state_ok P s1'" "rs_scope s1' = ?sc" "rs_launch_ordinal s1' = rs_launch_ordinal s1"
        "rs_budget s1' = rs_budget s1" "rs_predecessor_artifact_sequence s1' = last_sequence None (entries ?sc st2)"
        using so1 by (auto simp: s1'_def state_ok_def)
      show ?thesis
      proof (cases "\<not> replay \<and> exhausted_error s1 = None \<and> validate_against t s1 = Ok () \<and>
          (\<exists>s2. apply_validation t (advancement_from t s1) s1' = Ok s2)")
        case False
        then have "st' = st2 \<and> (\<forall>s'. r = Ok s' \<longrightarrow> s' = s1)"
          using step Ok pre unfolding tail_def s1'_def by (auto split: if_splits option.splits result.splits)
        then show ?thesis using e2 f1 by blast
      next
        case True
        then obtain s2 where s2: "apply_validation t (advancement_from t s1) s1' = Ok s2" by blast
        note av = apply_validation_ok[OF s2 s1'(1) ty]
        obtain st3 r3 where w: "persist env b pr so s2 st2 = (st3, r3)" by (cases "persist env b pr so s2 st2")
        have "st' = st3" "r = map_ok (\<lambda>_. s2) r3"
          using step Ok True pre s2 w unfolding tail_def s1'_def by simp_all
        moreover have "extends P ?sc st2 st3" "r3 = Ok () \<Longrightarrow> focused b ?sc st3 (Some s2)"
          using persist_same_extends[OF ok2 f1 av(1) _ _ _ _ w] av(2-6) s1'(2-5) focused_budget[OF _ f1] by simp_all
        ultimately show ?thesis
          using extends_trans[OF e2] by (cases r3) auto
      qed
    qed
  qed
  then show "extends P (ro_scope ow) st st'" and "r = Ok s' \<Longrightarrow> focused b (ro_scope ow) st' (Some s')" by blast+
qed

lemma focused_held:
  "store_ok P st \<Longrightarrow> ledger_chain P (states scope st) \<Longrightarrow> focused b scope st (Some s) \<Longrightarrow> held_ok P st s"
  using focused_state_ok[of P st b scope s] focused_budget[of P scope st b s] focused_last[of b scope st s]
  by (auto simp: held_ok_def simp flip: states_Nil)

section \<open>Executors on one ledger\<close>

text \<open>
  The steps any number of executors take on the ledger of a pull request, each under the store lock,
  in any order, each under a binding of its own, and with any faults in its publications:
  reservations, phase transitions and promotions by an executor that holds a state from before,
  validations, loads. A promotion that fails leaves its caller with the state it has changed. Other
  families move the sequence number forward and change the result files. A granted reservation is
  remembered. Not among the steps is the terminal path
  (\<^verbatim>\<open>pr_remediation/failure_terminal.rs\<close>), which may set a corrupt current document aside and ends the
  remediation of a scope with a tombstone.
\<close>

definition empty_store :: RetryStore where
  "empty_store = \<lparr>st_history = [], st_current = CurMissing, st_max_sequence = 0, st_result = None, st_launch_results = []\<rparr>"

definition hold :: "(RetryState, EngineError) result \<Rightarrow> RetryState list \<Rightarrow> RetryState list" where
  "hold r held = (case r of Ok s \<Rightarrow> s # held | Err _ \<Rightarrow> held)"

definition granted_state :: "(unit LaunchReservationOutcome, EngineError) result \<Rightarrow> RetryState option" where
  "granted_state r = (case r of Ok (Reserved s _) \<Rightarrow> Some s | _ \<Rightarrow> None)"

definition hold_some :: "RetryState option \<Rightarrow> RetryState list \<Rightarrow> RetryState list" where
  "hold_some p held = (case p of Some s \<Rightarrow> s # held | None \<Rightarrow> held)"

definition grant :: "RetryState option \<Rightarrow> (RetryScopeKey \<times> u64) list \<Rightarrow> (RetryScopeKey \<times> u64) list" where
  "grant p gs = (case p of Some s \<Rightarrow> gs @ [(rs_scope s, rs_launch_ordinal s)] | None \<Rightarrow> gs)"

inductive retry_reachable ::
  "rfc3339_reader \<Rightarrow> RetryStore \<Rightarrow> RetryState list \<Rightarrow> (RetryScopeKey \<times> u64) list \<Rightarrow> bool" for P where
  start: "retry_reachable P empty_store [] []"
| reserves: "retry_reachable P st held gs \<Longrightarrow> env_ok P env \<Longrightarrow>
    reserve_launch_with_baseline env b plan params pr so capture st = (st', r) \<Longrightarrow>
    retry_reachable P st' (hold_some (granted_state r) held) (grant (granted_state r) gs)"
| transitions: "retry_reachable P st held gs \<Longrightarrow> env_ok P env \<Longrightarrow> s \<in> set held \<Longrightarrow>
    record_launch_phase env b pr so s phase st = (st', r) \<Longrightarrow> retry_reachable P st' (hold r held) gs"
| promotes: "retry_reachable P st held gs \<Longrightarrow> env_ok P env \<Longrightarrow> s \<in> set held \<Longrightarrow>
    promote_launch_result env b pr so s st = (st', s', r) \<Longrightarrow> retry_reachable P st' (s' # held) gs"
| validates: "retry_reachable P st held gs \<Longrightarrow> env_ok P env \<Longrightarrow> vt_transition_type t \<noteq> ''terminal_tombstone'' \<Longrightarrow>
    advance_validation_locked env b pr so params ow t st = (st', r) \<Longrightarrow> retry_reachable P st' (hold r held) gs"
| loads: "retry_reachable P st held gs \<Longrightarrow> env_ok P env \<Longrightarrow>
    load_matching_state_locked env b scope st = (st', r) \<Longrightarrow>
    retry_reachable P st' (case r of Ok p \<Rightarrow> hold_some p held | Err _ \<Rightarrow> held) gs"
| elsewhere: "retry_reachable P st held gs \<Longrightarrow> st_max_sequence st \<le> m \<Longrightarrow>
    retry_reachable P (st\<lparr>st_max_sequence := m, st_result := res, st_launch_results := ls\<rparr>) held gs"

definition retry_inv ::
  "rfc3339_reader \<Rightarrow> RetryStore \<Rightarrow> RetryState list \<Rightarrow> (RetryScopeKey \<times> u64) list \<Rightarrow> bool" where
  "retry_inv P st held gs \<longleftrightarrow>
     store_ok P st \<and> (\<forall>scope. ledger_chain P (states scope st)) \<and> (\<forall>s \<in> set held. held_ok P st s) \<and>
     distinct gs \<and>
     (\<forall>(scope, n) \<in> set gs. states scope st \<noteq> [] \<and> 0 < unat n \<and>
        unat n \<le> unat (rs_launch_ordinal (last (states scope st))))"

lemma retry_inv_extends:
  assumes inv: "retry_inv P st held gs" and e: "extends P scope st st'"
  shows "retry_inv P st' held gs"
proof -
  have chain: "ledger_chain P (states sc st')" for sc
    using assms by (cases "sc = scope") (auto simp: retry_inv_def extends_def)
  have "states sc st' \<noteq> [] \<and> unat n \<le> unat (rs_launch_ordinal (last (states sc st')))"
    if g: "(sc, n) \<in> set gs" for sc n
  proof -
    obtain xs where xs: "states sc st' = states sc st @ xs"
      using e by (cases "sc = scope") (auto simp: extends_def)
    have old: "states sc st \<noteq> []" "unat n \<le> unat (rs_launch_ordinal (last (states sc st)))"
      using inv g by (auto simp: retry_inv_def)
    then show ?thesis
      using ledger_chain_ordinal_mono[of P "states sc st" xs] chain[of sc] xs by (simp flip: states_Nil)
  qed
  then show ?thesis
    using inv chain e held_ok_extends by (fastforce simp: retry_inv_def extends_store_ok)
qed

lemma retry_inv_hold: "retry_inv P st held gs \<Longrightarrow> held_ok P st s \<Longrightarrow> retry_inv P st (s # held) gs"
  by (simp add: retry_inv_def)

lemma retry_inv_grant:
  assumes inv: "retry_inv P st held gs" and e: "extends P scope st st'" and s: "state_ok P s"
    and g: "granted_after scope st st' s"
  shows "retry_inv P st' (s # held) (gs @ [(rs_scope s, rs_launch_ordinal s)])"
proof -
  obtain ys where ys: "rs_scope s = scope" "states scope st' = states scope st @ ys @ [s]"
    "unat (rs_launch_ordinal s) = next_ordinal_of (states scope st @ ys)"
    using g by (auto simp: granted_after_def)
  have inv': "retry_inv P st' held gs" using retry_inv_extends[OF inv e] .
  then have chain': "ledger_chain P (states scope st')" unfolding retry_inv_def by blast
  then have chain: "ledger_chain P (states scope st @ ys)" "ledger_chain P (states scope st')"
    using ledger_chain_snoc[of P "states scope st @ ys" s] ys(2) by simp_all
  have ne: "states scope st' \<noteq> []" "last (states scope st') = s" using ys(2) by simp_all
  have held: "held_ok P st' s"
    using ledger_chain_bound[OF chain(2)] ne s ys(1) unfolding held_ok_def by simp
  have fresh: "(scope, rs_launch_ordinal s) \<notin> set gs"
  proof
    assume "(scope, rs_launch_ordinal s) \<in> set gs"
    then have old: "states scope st \<noteq> []" "unat (rs_launch_ordinal s) \<le> unat (rs_launch_ordinal (last (states scope st)))"
      using inv by (auto simp: retry_inv_def)
    have "unat (rs_launch_ordinal (last (states scope st))) \<le> unat (rs_launch_ordinal (last (states scope st @ ys)))"
      using ledger_chain_ordinal_mono[OF chain(1) old(1)] .
    then show False using ys(3) old by (simp add: next_ordinal_of_def flip: states_Nil)
  qed
  have "0 < unat (rs_launch_ordinal s)" using ys(3) by (simp add: next_ordinal_of_def)
  then show ?thesis
    using inv' held fresh ne ys(1) unfolding retry_inv_def by auto
qed

lemma reachable_inv: "retry_reachable P st held gs \<Longrightarrow> retry_inv P st held gs"
proof (induction rule: retry_reachable.induct)
  case start
  then show ?case
    by (simp add: retry_inv_def store_ok_def states_def entries_def empty_store_def bound_to_def)
next
  case (reserves st held gs env b plan params pr so capture st' r)
  then have inv: "retry_inv P st held gs" and ok: "store_ok P st" by (simp_all add: retry_inv_def)
  note re = reserve_extends[OF ok reserves(2,3)]
  show ?case
  proof (cases "scope_key_new b plan")
    case (Err e)
    then show ?thesis
      using re[of undefined] inv
      by (auto simp: hold_some_def grant_def granted_state_def split: option.splits result.splits LaunchReservationOutcome.splits)
  next
    case (Ok scope)
    have e: "extends P scope st st'" using re Ok by blast
    show ?thesis
    proof (cases "granted_state r")
      case None
      then show ?thesis using retry_inv_extends[OF inv e] by (simp add: hold_some_def grant_def)
    next
      case (Some s)
      then obtain x where "r = Ok (Reserved s x)"
        by (auto simp: granted_state_def split: result.splits LaunchReservationOutcome.splits)
      then have "granted_after scope st st' s" "state_ok P s" using re[of scope] Ok by auto
      then show ?thesis
        using Some retry_inv_grant[OF inv e] by (simp add: hold_some_def grant_def)
    qed
  qed
next
  case (transitions st held gs env s b pr so phase st' r)
  then have ok: "store_ok P st" and held: "held_ok P st s" by (simp_all add: retry_inv_def)
  note rp = record_phase_extends[OF ok transitions(2) held transitions(4)]
  have inv: "retry_inv P st' held gs" using retry_inv_extends[OF transitions.IH rp(1)] .
  show ?case
    using inv rp(2) held_ok_follows[OF held_ok_extends[OF held rp(1)]] retry_inv_hold[OF inv]
    by (cases r) (simp_all add: hold_def)
next
  case (promotes st held gs env s b pr so st' s' r)
  then have ok: "store_ok P st" and held: "held_ok P st s" by (simp_all add: retry_inv_def)
  note rp = promote_extends[OF ok promotes(2) held promotes(4)]
  have inv: "retry_inv P st' held gs" using retry_inv_extends[OF promotes.IH rp(1)] .
  have "held_ok P st' s'"
    using rp(2) held_ok_follows[OF held_ok_extends[OF held rp(1)]] by blast
  then show ?case using retry_inv_hold[OF inv] by blast
next
  case (validates st held gs env t b pr so params ow st' r)
  then have ok: "store_ok P st" by (simp add: retry_inv_def)
  note av = advance_validation_extends[OF ok validates(2-4)]
  have inv: "retry_inv P st' held gs" using retry_inv_extends[OF validates.IH av(1)] .
  then have "held_ok P st' s" if "r = Ok s" for s
    using focused_held[OF _ _ av(2)[OF that]] by (simp add: retry_inv_def)
  then show ?case
    using inv retry_inv_hold[OF inv] by (cases r) (simp_all add: hold_def)
next
  case (loads st held gs env b scope st' r)
  then have ok: "store_ok P st" by (simp add: retry_inv_def)
  note lf = load_focused[OF ok load_env[OF loads(2)] loads(3)]
  have inv: "retry_inv P st' held gs" using retry_inv_extends[OF loads.IH extends_same[OF lf(1,2)]] .
  then have "held_ok P st' s" if "r = Ok (Some s)" for s
    using focused_held[OF lf(1) _ lf(3)[OF that]] by (simp add: retry_inv_def)
  then show ?case
    using inv retry_inv_hold[OF inv] by (auto simp: hold_some_def split: result.splits option.splits)
next
  case (elsewhere st held gs m ls res)
  let ?st = "st\<lparr>st_max_sequence := m, st_result := res, st_launch_results := ls\<rparr>"
  have e: "entries sc ?st = entries sc st" for sc by (simp add: entries_def)
  then have s: "states sc ?st = states sc st" for sc by (simp add: states_def)
  have "store_ok P ?st"
    using elsewhere e
    by (auto simp: retry_inv_def store_ok_def bound_to_def intro: order_trans split: RecoverableCurrentArtifact.splits)
  then have "extends P undefined st ?st" using s elsewhere.IH by (simp add: extends_def)
  then show ?case using retry_inv_extends[OF elsewhere.IH] by blast
qed

section \<open>What executors can rely on\<close>

lemma distinct_bounded_count:
  assumes "distinct gs" and "\<forall>(sc, n) \<in> set gs. sc = scope \<longrightarrow> 0 < unat n \<and> unat n \<le> k"
  shows "length (filter (\<lambda>g. fst g = scope) gs) \<le> k"
proof -
  let ?f = "filter (\<lambda>g. fst g = scope) gs"
  have "inj_on (\<lambda>g. unat (snd g)) (set ?f)" by (rule inj_onI) (auto simp: prod_eq_iff word_unat_eq_iff)
  moreover have "(\<lambda>g. unat (snd g)) ` set ?f \<subseteq> {1..k}" using assms(2) by force
  ultimately have "card (set ?f) \<le> card {1..k}" by (metis card_inj_on_le finite_atLeastAtMost)
  moreover have len: "length ?f = card (set ?f)" using assms(1) by (metis distinct_card distinct_filter)
  ultimately show ?thesis unfolding len by simp
qed

text \<open>
  C31: launches stay within the budget. Whatever executors do to the ledger of a pull request in any
  order, with any publication failing before, between or after its two writes, a launch ordinal of a scope is
  granted to one reservation only, and no scope is granted more launches than the remediation
  budget of its first recorded state allows.
\<close>

theorem retry_launches_within_budget:
  assumes "retry_reachable P st held gs"
  shows "distinct gs \<and>
    (\<forall>(scope, n) \<in> set gs. states scope st \<noteq> [] \<and> 1 \<le> n \<and>
       n \<le> rb_max_remediation_attempts (rs_budget (hd (states scope st)))) \<and>
    (\<forall>scope. length (filter (\<lambda>g. fst g = scope) gs) \<le>
       (if states scope st = [] then 0 else unat (rb_max_remediation_attempts (rs_budget (hd (states scope st))))))"
proof -
  have inv: "retry_inv P st held gs" using reachable_inv[OF assms] .
  have g: "states sc st \<noteq> [] \<and> 1 \<le> n \<and> n \<le> rb_max_remediation_attempts (rs_budget (hd (states sc st)))"
    if "(sc, n) \<in> set gs" for sc n
  proof -
    have ne: "states sc st \<noteq> []" and n: "0 < unat n" "unat n \<le> unat (rs_launch_ordinal (last (states sc st)))"
      and chain: "ledger_chain P (states sc st)"
      using inv that by (auto simp: retry_inv_def)
    then show ?thesis
      using ledger_chain_ordinal_bound[OF chain ne] by (auto simp: word_le_nat_alt)
  qed
  have "length (filter (\<lambda>g. fst g = scope) gs) \<le>
      (if states scope st = [] then 0 else unat (rb_max_remediation_attempts (rs_budget (hd (states scope st)))))" for scope
    by (rule distinct_bounded_count) (use inv g in \<open>force simp: retry_inv_def word_le_nat_alt simp del: states_Nil\<close>)+
  then show ?thesis using inv g by (auto simp: retry_inv_def simp del: states_Nil)
qed

text \<open>
  C32: the ledger survives crashes, for the binding it was written under. Take any run of executors
  under any bindings, with publications failing before, between or after their two writes, then a
  load of any scope under any binding. The load changes no ledger. If the history is readable under
  the binding (no history yet, or every document carries exactly this binding), and writing the current
  document does not fail, the load returns the last state recorded in history of the scope and
  leaves it as the current document, also when a crash came between the two writes, or when
  another scope was recorded last; a scope without a state reads as absent, with one exception: the
  very first publication was cut off before the current document was written. At most one binding
  reads a history that has begun. Under any other, for instance after the head or the base has
  moved, every load of every scope is refused as a corrupt state, and nothing is written, so a
  ledger that has begun starts no fresh scope for a new head.
\<close>

theorem retry_state_read_back:
  assumes reach: "retry_reachable P st held gs" and env: "re_parse_rfc3339 env = P"
    and l: "load_matching_state_locked env b scope st = (st', r)"
  shows "(\<forall>sc. states sc st' = states sc st) \<and>
    (readable b st \<and> states scope st \<noteq> [] \<and> re_restore env = RestoreOk \<longrightarrow>
       r = Ok (Some (last (states scope st))) \<and> (\<exists>d. st_current st' = CurValid d \<and> rd_state d = Ok (last (states scope st)))) \<and>
    (readable b st \<and> states scope st = [] \<and> (st_current st \<noteq> CurMissing \<or> st_history st = []) \<longrightarrow> r = Ok None) \<and>
    (\<not> readable b st \<longrightarrow> st' = st \<and> (\<exists>m. r = Err (InvalidState m))) \<and>
    (\<forall>b'. st_history st \<noteq> [] \<and> readable b st \<and> readable b' st \<longrightarrow> b' = b)"
proof -
  have ok: "store_ok P st" using reachable_inv[OF reach] by (simp add: retry_inv_def)
  note lf = load_focused[OF ok env l]
  have last: "r = Ok (Some (last (states scope st))) \<and>
      (\<exists>d. st_current st' = CurValid d \<and> rd_state d = Ok (last (states scope st)))"
    if h: "readable b st" "entries scope st \<noteq> []" "re_restore env = RestoreOk"
  proof -
    obtain n d s where e: "last (entries scope st) = (n, d, s)" by (cases "last (entries scope st)")
    then have "(n, d, s) \<in> set (entries scope st)" using h(2) last_in_set by metis
    then have "rd_state d = Ok s" using entries_member_ok[OF ok] by blast
    moreover have "last (states scope st) = s" using h(2) e by (simp add: states_def last_map)
    ultimately show ?thesis
      using load_matching_state[OF ok env h(1), of scope] l h(2,3) e by (auto simp: load_spec_def split: if_splits)
  qed
  have none: "r = Ok None"
    if "readable b st" "entries scope st = []" "st_current st \<noteq> CurMissing \<or> st_history st = []"
    using load_matching_state[OF ok env that(1), of scope] l that(2,3) by (auto simp: load_spec_def split: if_splits)
  have refused: "st' = st \<and> (\<exists>m. r = Err (InvalidState m))" if no: "\<not> readable b st"
    using load_mismatched[OF ok env no, of scope] l by auto
  show ?thesis using last none refused readable_unique[OF ok] same_ledger_states[OF lf(2)] by simp
qed

text \<open>Nor is a launch reserved for the new head or base.\<close>

lemma other_binding_reserves_nothing:
  assumes reach: "retry_reachable P st held gs" and env: "env_ok P env" and no: "\<not> readable b st"
  shows "\<exists>e. reserve_launch_with_baseline env b plan params pr so capture st = (st, Err e)"
proof -
  have ok: "store_ok P st" using reachable_inv[OF reach] by (simp add: retry_inv_def)
  have load: "\<exists>e. load_matching_state_locked env b scope st = (st, Err e)" for scope
    using load_mismatched[OF ok load_env[OF env] no, of scope] by blast
  have "\<exists>e. launch_reservation_new env b plan params pr so st = (st, Err e)"
  proof (cases "scope_key_new b plan")
    case (Ok scope)
    then show ?thesis using load[of scope] by (auto simp: launch_reservation_new_def split: result.split)
  qed (simp add: launch_reservation_new_def)
  then show ?thesis by (auto simp: reserve_launch_with_baseline_def)
qed

text \<open>
  A reservation needs a free scope. When a reservation is granted, the scope had no recorded
  state, or its last state was not exhausted and its launch was completed or its lease had run out;
  the state granted is the last of the ledger afterwards, and its ordinal is above every ordinal
  granted before, so the holder of an earlier launch fails its ownership check from then on.
\<close>

theorem reservation_needs_free_scope:
  assumes reach: "retry_reachable P st held gs" and env: "env_ok P env"
    and r: "reserve_launch_with_baseline env b plan params pr so capture st = (st', Ok (Reserved s x))"
  shows "launch_free env (states (rs_scope s) st) \<and> last (states (rs_scope s) st') = s \<and>
    (\<forall>n. (rs_scope s, n) \<in> set gs \<longrightarrow> n < rs_launch_ordinal s) \<and>
    (\<forall>token phase n. (rs_scope s, n) \<in> set gs \<longrightarrow> \<not> is_ok (verify_ownership (Some s) token phase n))"
proof -
  have inv: "retry_inv P st held gs" using reachable_inv[OF reach] .
  then have ok: "store_ok P st" by (simp add: retry_inv_def)
  obtain sc where sc: "scope_key_new b plan = Ok sc" "granted_after sc st st' s" "state_ok P s"
    "launch_free env (states sc st)" "extends P sc st st'"
    using reserve_extends[OF ok env r] by blast
  then obtain ys where ys: "rs_scope s = sc" "states sc st' = states sc st @ ys @ [s]"
    "unat (rs_launch_ordinal s) = next_ordinal_of (states sc st @ ys)"
    by (auto simp: granted_after_def)
  have "ledger_chain P (states sc st')" using retry_inv_extends[OF inv sc(5)] by (simp add: retry_inv_def)
  then have chain: "ledger_chain P (states sc st @ ys)"
    using ledger_chain_snoc[of P "states sc st @ ys" s] ys(2) by simp
  have above: "n < rs_launch_ordinal s" if g: "(sc, n) \<in> set gs" for n
  proof -
    have ne: "states sc st \<noteq> []" and n: "unat n \<le> unat (rs_launch_ordinal (last (states sc st)))"
      using inv g by (auto simp: retry_inv_def)
    then show ?thesis
      using ledger_chain_ordinal_mono[OF chain ne] ys(3)
      by (simp add: next_ordinal_of_def word_less_nat_alt flip: states_Nil)
  qed
  then have "\<not> is_ok (verify_ownership (Some s) token phase n)" if "(sc, n) \<in> set gs" for token phase n
    using above[OF that] by (auto simp: verify_ownership_def)
  then show ?thesis using sc(4) ys(1,2) above by auto
qed

section \<open>A sample run\<close>

fun sample_bits :: "nat \<Rightarrow> string" where
  "sample_bits n = (if n = 0 then [] else (if even n then CHR ''0'' else CHR ''1'') # sample_bits (n div 2))"

declare sample_bits.simps [simp del]

fun sample_value :: "string \<Rightarrow> nat" where
  "sample_value [] = 0"
| "sample_value (c # cs) = (if c = CHR ''1'' then 1 else 0) + 2 * sample_value cs"

lemma sample_value_bits [simp]: "sample_value (sample_bits n) = n"
proof (induction n rule: sample_bits.induct)
  case (1 n)
  then show ?case by (subst sample_bits.simps) auto
qed

definition sample_print :: "int \<Rightarrow> string" where
  "sample_print i = (if i < 0 then CHR ''-'' else CHR ''+'') # sample_bits (nat (abs i))"

fun sample_read :: rfc3339_reader where
  "sample_read [] = Err ''premature end of input''"
| "sample_read (c # cs) = Ok (if c = CHR ''-'' then - int (sample_value cs) else int (sample_value cs))"

lemma sample_read_print [simp]: "sample_read (sample_print i) = Ok i"
  by (simp add: sample_print_def)

definition sample_retry_env :: RetryEnv where
  "sample_retry_env = \<lparr>re_now = ''+'', re_parse_rfc3339 = sample_read, re_rfc3339 = sample_print,
     re_max_instant = 8210266876799000000000, re_uuid = ''owner-1'', re_publish = (\<lambda>_. PublishOk), re_restore = RestoreOk,
     re_path = (\<lambda>_ _. ''history'')\<rparr>"

definition sample_retry_binding :: PrFollowupBinding where
  "sample_retry_binding = \<lparr>pb_schema_version = 1, pb_run_id = ''run-1'', pb_repository_owner = ''o'',
     pb_repository_name = ''r'', pb_pr_number = 7, pb_head_ref = ''h'', pb_head_sha = ''abc'', pb_base_ref = ''main'',
     pb_base_sha = None\<rparr>"

definition sample_retry_plan :: json where
  "sample_retry_plan = JObj [(''artifact_sequence'', JInt 1)]"

lemma sample_env_ok: "env_ok sample_read sample_retry_env"
  by (simp add: env_ok_def sample_retry_env_def)

lemma empty_store_ok: "store_ok P empty_store"
  by (simp add: store_ok_def entries_def empty_store_def bound_to_def)

lemma sample_reservation:
  "\<exists>st s. reserve_launch_with_baseline sample_retry_env sample_retry_binding sample_retry_plan (JObj []) ''remediate'' 3
     (\<lambda>_ _. Ok ()) empty_store = (st, Ok (Reserved s ())) \<and> readable sample_retry_binding st"
proof -
  have load: "load_matching_state_locked sample_retry_env sample_retry_binding scope empty_store = (empty_store, Ok None)"
    for scope
    using load_matching_state[OF empty_store_ok, of sample_retry_env sample_read sample_retry_binding scope]
    by (simp add: load_spec_def entries_def readable_def empty_store_def sample_retry_env_def)
  obtain scope where scope: "scope_key_new sample_retry_binding sample_retry_plan = Ok scope"
    by (simp add: scope_key_new_def sample_retry_plan_def json_u64_def json_as_u64_def u64_max_def)
  have params: "budget_from_params (JObj []) = Ok \<lparr>rb_max_remediation_attempts = 2, rb_max_validation_retries = 2,
      rb_max_stale_artifact_retries = 2\<rparr>"
    "parameter (JObj []) ''timeout_seconds'' DEFAULT_INVOCATION_TIMEOUT_SECONDS = Ok 1800"
    by (simp_all add: budget_from_params_def parameter_def is_json_object_def DEFAULT_MAX_REMEDIATION_ATTEMPTS_def
        DEFAULT_MAX_VALIDATION_RETRIES_def DEFAULT_MAX_STALE_ARTIFACT_RETRIES_def DEFAULT_INVOCATION_TIMEOUT_SECONDS_def)
  have lease: "lease_expiry_from_now sample_retry_env 1800 = Ok (sample_print 2100000000000)"
    by (simp add: lease_expiry_from_now_def parse_clock_def sample_retry_env_def checked_add_def u64_max_def
        LEASE_GRACE_SECONDS_def i64_try_from_u64_def i64_max_def)
  have valid: "validate_binding sample_retry_binding sample_retry_binding"
    by (simp add: validate_binding_def sample_retry_binding_def)
  show ?thesis
    using load scope params lease
    by (simp add: reserve_launch_with_baseline_def launch_reservation_new_def prepare_reservation_def
        reconcile_previous_def reject_exhausted_def recover_agent_result_after_crash_def recoverable_crash_phase_def
        reserve_prepared_def guard_active_launch_def next_launch_ordinal_def previous_counters_def counters_default_def
        checked_add_def u64_max_def reject_launch_beyond_budget_def resolve_budget_def
        persist_def checked_next_sequence_def empty_store_def publish_artifact_def Let_def sample_retry_env_def
        readable_def bound_to_def document_of_def valid)
qed

definition sample_moved_binding :: PrFollowupBinding where
  "sample_moved_binding = sample_retry_binding\<lparr>pb_head_sha := ''def''\<rparr>"

lemma sample_run:
  "\<exists>st s. reserve_launch_with_baseline sample_retry_env sample_retry_binding sample_retry_plan (JObj []) ''remediate'' 3
     (\<lambda>_ _. Ok ()) empty_store = (st, Ok (Reserved s ())) \<and>
     retry_reachable sample_read st [s] [(rs_scope s, rs_launch_ordinal s)] \<and> states (rs_scope s) st \<noteq> [] \<and>
     readable sample_retry_binding st \<and> \<not> readable sample_moved_binding st"
proof -
  obtain st s where r: "reserve_launch_with_baseline sample_retry_env sample_retry_binding sample_retry_plan (JObj [])
      ''remediate'' 3 (\<lambda>_ _. Ok ()) empty_store = (st, Ok (Reserved s ()))"
    and b: "readable sample_retry_binding st"
    using sample_reservation by blast
  have reach: "retry_reachable sample_read st [s] [(rs_scope s, rs_launch_ordinal s)]"
    using retry_reachable.reserves[OF retry_reachable.start sample_env_ok r]
    by (simp add: hold_some_def grant_def granted_state_def)
  then have inv: "retry_inv sample_read st [s] [(rs_scope s, rs_launch_ordinal s)]" by (rule reachable_inv)
  then have ne: "states (rs_scope s) st \<noteq> []" by (simp add: retry_inv_def del: states_Nil)
  then have "st_history st \<noteq> []" by (auto simp: entries_def)
  moreover have "sample_moved_binding \<noteq> sample_retry_binding"
    by (simp add: sample_moved_binding_def sample_retry_binding_def)
  ultimately have "\<not> readable sample_moved_binding st"
    using readable_unique[of sample_read st] b inv by (auto simp: retry_inv_def)
  then show ?thesis using r reach ne b by blast
qed

theorem retry_launches_within_budget_witness:
  "\<exists>st s. retry_reachable sample_read st [s] [(rs_scope s, rs_launch_ordinal s)] \<and>
     1 \<le> rs_launch_ordinal s \<and>
     rs_launch_ordinal s \<le> rb_max_remediation_attempts (rs_budget (hd (states (rs_scope s) st)))"
proof -
  obtain st s where reach: "retry_reachable sample_read st [s] [(rs_scope s, rs_launch_ordinal s)]"
    using sample_run by blast
  show ?thesis using reach retry_launches_within_budget[OF reach] by auto
qed

theorem retry_state_read_back_witness:
  "\<exists>st s. retry_reachable sample_read st [s] [(rs_scope s, rs_launch_ordinal s)] \<and>
     snd (load_matching_state_locked sample_retry_env sample_retry_binding (rs_scope s) st) =
       Ok (Some (last (states (rs_scope s) st))) \<and>
     (\<exists>m. load_matching_state_locked sample_retry_env sample_moved_binding (rs_scope s) st = (st, Err (InvalidState m)))"
proof -
  obtain st s where reach: "retry_reachable sample_read st [s] [(rs_scope s, rs_launch_ordinal s)]"
    and ne: "states (rs_scope s) st \<noteq> []" and b: "readable sample_retry_binding st" "\<not> readable sample_moved_binding st"
    using sample_run by blast
  obtain st1 r1 st2 r2 where
    l: "load_matching_state_locked sample_retry_env sample_retry_binding (rs_scope s) st = (st1, r1)"
       "load_matching_state_locked sample_retry_env sample_moved_binding (rs_scope s) st = (st2, r2)"
    by (metis prod.collapse)
  have env: "re_parse_rfc3339 sample_retry_env = sample_read" "re_restore sample_retry_env = RestoreOk"
    by (simp_all add: sample_retry_env_def)
  have "r1 = Ok (Some (last (states (rs_scope s) st)))"
    using retry_state_read_back[OF reach env(1) l(1)] ne b(1) env(2) by blast
  moreover have "\<exists>m. (st2, r2) = (st, Err (InvalidState m))"
    using retry_state_read_back[OF reach env(1) l(2)] b(2) by blast
  ultimately show ?thesis using reach l by (metis snd_conv)
qed

theorem reservation_needs_free_scope_witness:
  "\<exists>st s. reserve_launch_with_baseline sample_retry_env sample_retry_binding sample_retry_plan (JObj []) ''remediate'' 3
     (\<lambda>_ _. Ok ()) empty_store = (st, Ok (Reserved s ())) \<and>
     launch_free sample_retry_env (states (rs_scope s) empty_store) \<and> last (states (rs_scope s) st) = s"
proof -
  obtain st s where r: "reserve_launch_with_baseline sample_retry_env sample_retry_binding sample_retry_plan (JObj [])
      ''remediate'' 3 (\<lambda>_ _. Ok ()) empty_store = (st, Ok (Reserved s ()))"
    using sample_reservation by blast
  show ?thesis
    using reservation_needs_free_scope[OF retry_reachable.start sample_env_ok r] r by blast
qed

section \<open>Limits of the protocol\<close>

text \<open>
  The owner of a launch writes its own copy of the state. A tightening of the budget, or an
  exhaustion, recorded since then by another executor's reservation attempt is undone by it: the
  ownership check compares token, phase and ordinal only, and those a policy change keeps.
\<close>

lemma load_focused_again:
  assumes "store_ok P st" and "re_parse_rfc3339 env = P" and "focused b scope st (Some s)"
  shows "load_matching_state_locked env b scope st = (st, Ok (Some s))"
  using load_matching_state[OF assms(1,2) focused_readable[OF assms(3)], of scope] assms(3) by (auto simp: load_spec_def focused_def)

lemma reconcile_keeps_owner:
  "reconcile_retry_policy_locked env b pr so configured s st = (st', Ok p) \<Longrightarrow> rs_owner_token p = rs_owner_token s"
  by (auto simp: reconcile_retry_policy_locked_def Let_def elim!: map_ok.elims split: result.splits if_splits prod.splits)

lemma owner_undoes_tightening:
  assumes ok: "store_ok P st" and env: "re_parse_rfc3339 env = P" and f: "focused b scope st (Some s)"
    and phase: "rs_launch_phase s = LpReserved"
    and c: "reconcile_retry_policy_locked env' b pr so configured s st = (st1, Ok p)"
    and lease: "lease_expiry_from_now env (rs_invocation_timeout_seconds s) = Ok lease"
    and pub: "\<forall>n. re_publish env n = PublishOk" and room: "checked_add (st_max_sequence st1) 1 = Some n"
  shows "\<exists>st2 s'. record_launch_phase env b pr' so' s LpLaunched st1 = (st2, Ok s') \<and>
    rs_budget s' = rs_budget s \<and> rs_exhaustion_reason s' = rs_exhaustion_reason s \<and>
    st_current st2 = CurValid (document_of env b n pr' so' s')"
proof -
  note rp = reconcile_policy[OF ok f c]
  have ok1: "store_ok P st1" using rp(1) by (rule extends_store_ok)
  have p: "focused b scope st1 (Some p)" "rs_launch_ordinal p = rs_launch_ordinal s" "rs_launch_phase p = LpReserved"
    "rs_owner_token p = rs_owner_token s"
    using rp(2)[OF refl] phase reconcile_keeps_owner[OF c] by auto
  have sc: "rs_scope s = scope" using focused_state_ok[OF ok f] by simp
  show ?thesis
    using load_focused_again[OF ok1 env p(1)] p sc phase lease pub room focused_sequence[OF ok1 p(1)]
    by (simp add: record_launch_phase_def valid_phase_transition_def verify_ownership_def Let_def persist_def
        checked_next_sequence_def publish_artifact_def)
qed

text \<open>
  The first publication of a ledger cut off before its current document was written makes every
  load of another scope report corruption, until the first scope is loaded.
\<close>

lemma first_crash_blocks_other_scopes:
  assumes ok: "store_ok P st" and env: "re_parse_rfc3339 env = P" and cur: "st_current st = CurMissing"
    and hist: "st_history st \<noteq> []" and none: "states scope st = []" and b: "readable b st"
  shows "load_matching_state_locked env b scope st = (st, Err (InvalidState
    ''retry-state canonical is missing and latest immutable history has no valid exact scope''))"
  using load_matching_state[OF ok env b, of scope] cur hist none by (simp add: load_spec_def)

end
