(* ===== verification/Failure_Cleanup.thy ===== *)
theory Failure_Cleanup
  imports Engine_State
begin

text \<open>
  Failure cleanup (\<^verbatim>\<open>engine/runner/failure_cleanup.rs\<close>): capturing the provenance
  of a failed step that routes into a \<open>failure_cleanup\<close> terminal, verifying the
  ownership of the workspace before that step may run, protecting or failing the
  issue lease, persisting the result of a step in one transaction, and the outcome
  of a run whose step has no transition. A transaction is a function of the
  database that returns the new database or an error; the error case leaves the
  database of the runner as it was (rollback).
\<close>

section \<open>Public failure reasons\<close>

definition SAFE_FAILURE_CATEGORIES :: "string list" where
  "SAFE_FAILURE_CATEGORIES =
     [''process_error'', ''agent_failure'', ''no_diff'', ''idle_timeout'', ''timeout'',
      ''push_failure'', ''validation_failure'']"

definition is_safe_failure_category :: "string \<Rightarrow> bool" where
  "is_safe_failure_category c \<longleftrightarrow> c \<in> set SAFE_FAILURE_CATEGORIES"

definition public_failure_reason :: "string \<Rightarrow> StepOutcome \<Rightarrow> string option \<Rightarrow> string" where
  "public_failure_reason failed_step outcome category =
     (case category of
        Some c \<Rightarrow>
          (if is_safe_failure_category c
           then c @ '' ('' @ as_condition_str outcome @ '' at '' @ failed_step @ '')''
           else as_condition_str outcome @ '' outcome at '' @ failed_step)
      | None \<Rightarrow> as_condition_str outcome @ '' outcome at '' @ failed_step)"

section \<open>Provenance records\<close>

definition build_failure_cleanup_state ::
  "'w Env \<Rightarrow> string \<Rightarrow> string \<Rightarrow> StepOutcome \<Rightarrow> Checkpoint \<Rightarrow> 'w EngineRunner \<Rightarrow> FailureCleanupState" where
  "build_failure_cleanup_state env failed_step next_step outcome cp r =
     \<lparr>fc_schema_version = FC_SCHEMA_VERSION, fc_failed_step = failed_step,
      fc_failure_outcome = as_condition_str outcome,
      fc_failure_reason = public_failure_reason failed_step outcome
        (ctx_get (er_context r) (failed_step @ ''.llxprt_failure_reason'')),
      fc_failed_checkpoint_id = failed_step @ ''@'' @ env_rfc3339 env (cp_timestamp cp),
      fc_failed_state_snapshot = cp_state_snapshot cp, fc_cleanup_step = next_step,
      fc_cleanup_succeeded = False, fc_captured_at = now_of env r, fc_cleanup_completed_at = None,
      fc_recovery_consumed_at = None, fc_ownership_denied = False\<rparr>"

definition build_terminal_ownership_failure_state ::
  "'w Env \<Rightarrow> string \<Rightarrow> StepOutcome \<Rightarrow> string \<Rightarrow> Checkpoint \<Rightarrow> 'w EngineRunner \<Rightarrow> FailureCleanupState" where
  "build_terminal_ownership_failure_state env current_step outcome cleanup_step cp r =
     \<lparr>fc_schema_version = FC_SCHEMA_VERSION, fc_failed_step = current_step,
      fc_failure_outcome = as_condition_str outcome,
      fc_failure_reason = ''workspace ownership denied before cleanup step '' @ cleanup_step,
      fc_failed_checkpoint_id = current_step @ ''@'' @ env_rfc3339 env (cp_timestamp cp),
      fc_failed_state_snapshot = cp_state_snapshot cp, fc_cleanup_step = cleanup_step,
      fc_cleanup_succeeded = False, fc_captured_at = now_of env r, fc_cleanup_completed_at = None,
      fc_recovery_consumed_at = None, fc_ownership_denied = True\<rparr>"

text \<open>The durable provenance of the run, or else the one in memory.\<close>

definition failure_provenance :: "'w EngineRunner \<Rightarrow> FailureCleanupState option" where
  "failure_provenance r =
     (case Option.bind (load_metadata r) rm_failure_cleanup of
        Some f \<Rightarrow> Some f
      | None \<Rightarrow> er_pending_failure_cleanup r)"

section \<open>Ownership of the workspace\<close>

datatype OwnershipVerification = NotApplicable | Owned

definition enters_cleanup :: "WorkflowType \<Rightarrow> StepOutcome \<Rightarrow> string option \<Rightarrow> bool" where
  "enters_cleanup wt outcome next_step \<longleftrightarrow>
     (case next_step of
        Some nxt \<Rightarrow> outcome \<noteq> Success \<and> is_failure_cleanup_step wt nxt
      | None \<Rightarrow> False)"

definition verify_failure_cleanup_workspace ::
  "'w Env \<Rightarrow> StepOutcome \<Rightarrow> string option \<Rightarrow> 'w EngineRunner \<Rightarrow> (OwnershipVerification, EngineError) result" where
  "verify_failure_cleanup_workspace env outcome next_step r =
     (if \<not> enters_cleanup (er_workflow r) outcome next_step then Ok NotApplicable
      else
       (let workspace = cx_work_dir (er_context r);
            evidence_exists = env_evidence_exists env (er_world r) workspace;
            ownership_required = cx_daemon_managed (er_context r)
        in if \<not> evidence_exists \<and> \<not> ownership_required then Ok NotApplicable
           else (case env_verify_ownership env (er_world r) workspace (er_run_id r) of
                   None \<Rightarrow> Ok Owned
                 | Some reason \<Rightarrow>
                     Err (OwnershipFailure
                       \<lparr>of_failed_step = (case next_step of Some nxt \<Rightarrow> nxt | None \<Rightarrow> ''''),
                        of_reason = reason\<rparr>))))"

section \<open>The lease of a failing run\<close>

definition protect_failure_cleanup_lease ::
  "'w Env \<Rightarrow> RunMetadata \<Rightarrow> 'w EngineRunner \<Rightarrow> lease_table \<Rightarrow> (lease_table, EngineError) result" where
  "protect_failure_cleanup_lease env md r ls =
     (if \<not> cx_daemon_managed (er_context r) then Ok ls
      else
       (case (rm_repository md, issue_lease_number md) of
          (Some repo, Some n) \<Rightarrow>
            (case get_lease_for_issue repo n ls of
               Err e \<Rightarrow> Err (EnginePersistenceError (env_sql_text env e))
             | Ok None \<Rightarrow>
                 Err (EnginePersistenceError
                   (''issue lease for '' @ repo @ ''#'' @ nat_to_string (unat n) @
                    '' is missing; cannot protect failure cleanup for run '' @ er_run_id r @
                    '' without a durable lease''))
             | Ok (Some lease) \<Rightarrow>
                 (if il_run_id lease \<noteq> Some (er_run_id r)
                  then Err (EnginePersistenceError
                         (''issue lease '' @ il_lease_id lease @ '' is not owned by run '' @ er_run_id r))
                  else
                   (case update_lease_status_conditional (now_of env r) (il_lease_id lease) LCleanupAbandoned
                           [LRunning, LCleanupAbandoned] None (Some (er_run_id r)) ls of
                      Err e \<Rightarrow> Err (EnginePersistenceError (env_sql_text env e))
                    | Ok (ls', protected) \<Rightarrow>
                        (if protected then Ok ls'
                         else Err (EnginePersistenceError
                                (''issue lease '' @ il_lease_id lease @
                                 '' could not be protected for failure cleanup''))))))
        | _ \<Rightarrow> Ok ls))"

definition fail_owned_lease_for_ownership_denial ::
  "'w Env \<Rightarrow> RunMetadata \<Rightarrow> 'w EngineRunner \<Rightarrow> lease_table \<Rightarrow> (lease_table, EngineError) result" where
  "fail_owned_lease_for_ownership_denial env md r ls =
     (if \<not> cx_daemon_managed (er_context r) then Ok ls
      else
       (case (rm_repository md, issue_lease_number md) of
          (Some repo, Some n) \<Rightarrow>
            (case get_lease_for_issue repo n ls of
               Err e \<Rightarrow> Err (EnginePersistenceError (env_sql_text env e))
             | Ok None \<Rightarrow> Ok ls
             | Ok (Some lease) \<Rightarrow>
                 (if il_run_id lease \<noteq> Some (er_run_id r) then Ok ls
                  else
                   (case update_lease_status_conditional (now_of env r) (il_lease_id lease) LFailed
                           [LRunning] None (Some (er_run_id r)) ls of
                      Err e \<Rightarrow> Err (EnginePersistenceError (env_sql_text env e))
                    | Ok (ls', failed) \<Rightarrow> Ok ls')))
        | _ \<Rightarrow> Ok ls))"

section \<open>Persisting the result of a step\<close>

definition missing_run_error :: "'w EngineRunner \<Rightarrow> EngineError" where
  "missing_run_error r =
     EnginePersistenceError (''persistent run '' @ er_run_id r @ '' is missing from the registry'')"

definition append_event_db ::
  "'w Env \<Rightarrow> string \<Rightarrow> string \<Rightarrow> EventType \<Rightarrow> string option \<Rightarrow> 'w EngineRunner \<Rightarrow> Db \<Rightarrow> Db" where
  "append_event_db env step outcome ty details r db =
     db\<lparr>db_events := append_typed_event_with_conn (er_run_id r) step outcome ty details (now_of env r) (db_events db)\<rparr>"

definition persist_registry_step_state ::
  "'w Env \<Rightarrow> string \<Rightarrow> StepOutcome \<Rightarrow> FailureCleanupState option \<Rightarrow> FailureCleanupState option \<Rightarrow>
   'w EngineRunner \<Rightarrow> Db \<Rightarrow> (Db, EngineError) result" where
  "persist_registry_step_state env current_step outcome failure terminal_failure r db =
     (case get_run_with_conn (er_run_id r) (db_runs db) of
        None \<Rightarrow> Err (missing_run_error r)
      | Some md0 \<Rightarrow>
          (let now = now_of env r;
               md1 = set_next_step_candidates now (compute_next_step_candidates (er_workflow r) current_step)
                       (set_previous_step_and_outcome now current_step (as_condition_str outcome) md0);
               (md2, db1) =
                 (case terminal_failure of
                    Some state \<Rightarrow>
                      (let status = (if outcome = Success then RAbandoned else RFailed)
                       in (set_current_step now (fc_failed_step state)
                             (md1\<lparr>rm_failure_cleanup := Some state, rm_status := status\<rparr>),
                           append_event_db env (fc_failed_step state) (run_status_to_string status)
                             EvTerminalState None r db))
                  | None \<Rightarrow>
                      (case failure of
                         Some state \<Rightarrow> (md1\<lparr>rm_failure_cleanup := Some state\<rparr>, db)
                       | None \<Rightarrow> (md1, db)));
               leases =
                 (if failure \<noteq> None \<or> terminal_failure \<noteq> None
                  then protect_failure_cleanup_lease env md2 r (db_leases db1) else Ok (db_leases db1))
           in case leases of
                Err e \<Rightarrow> Err e
              | Ok ls \<Rightarrow> Ok (db1\<lparr>db_leases := ls, db_runs := persist_run_with_conn md2 (db_runs db1)\<rparr>)))"

definition failure_states_for_step ::
  "'w Env \<Rightarrow> string \<Rightarrow> StepOutcome \<Rightarrow> string option \<Rightarrow> Checkpoint \<Rightarrow> 'w EngineRunner \<Rightarrow>
   (FailureCleanupState option \<times> FailureCleanupState option, EngineError) result" where
  "failure_states_for_step env current_step outcome next_step cp r =
     (let failure =
        (if enters_cleanup (er_workflow r) outcome next_step
         then map_option (\<lambda>nxt. build_failure_cleanup_state env current_step nxt outcome cp r) next_step
         else None)
      in if \<not> is_failure_cleanup_step (er_workflow r) current_step then Ok (failure, None)
         else (case failure_provenance r of
                 None \<Rightarrow> Err (EnginePersistenceError ''failure cleanup completed without failed-work provenance'')
               | Some f \<Rightarrow>
                   Ok (failure,
                       Some (if outcome = Success
                             then f\<lparr>fc_cleanup_succeeded := True, fc_cleanup_completed_at := Some (now_of env r)\<rparr>
                             else f))))"

definition persist_terminal_ownership_failure_registry ::
  "'w Env \<Rightarrow> string \<Rightarrow> StepOutcome \<Rightarrow> string \<Rightarrow> FailureCleanupState \<Rightarrow> 'w EngineRunner \<Rightarrow> Db \<Rightarrow>
   (Db, EngineError) result" where
  "persist_terminal_ownership_failure_registry env current_step outcome cleanup_step failure r db =
     (case get_run_with_conn (er_run_id r) (db_runs db) of
        None \<Rightarrow> Err (missing_run_error r)
      | Some md0 \<Rightarrow>
          (let now = now_of env r;
               md = set_current_step now current_step
                      ((set_next_step_candidates now [cleanup_step]
                          (set_previous_step_and_outcome now current_step (as_condition_str outcome) md0))
                       \<lparr>rm_failure_cleanup := Some failure, rm_status := RFailed\<rparr>);
               db1 = append_event_db env current_step (run_status_to_string RFailed) EvTerminalState None r db
           in case fail_owned_lease_for_ownership_denial env md r (db_leases db1) of
                Err e \<Rightarrow> Err e
              | Ok ls \<Rightarrow> Ok (db1\<lparr>db_leases := ls, db_runs := persist_run_with_conn md (db_runs db1)\<rparr>)))"

definition persist_terminal_ownership_failure ::
  "'w Env \<Rightarrow> string \<Rightarrow> StepOutcome \<Rightarrow> string option \<Rightarrow> OwnershipFailureDetails \<Rightarrow> 'w EngineRunner \<Rightarrow>
   'w EngineRunner \<times> (unit, EngineError) result" where
  "persist_terminal_ownership_failure env current_step outcome next_step details r =
     (let cp = create_checkpoint env current_step ''completed'' r;
          cleanup_step = (case next_step of Some nxt \<Rightarrow> nxt | None \<Rightarrow> of_failed_step details);
          failure = build_terminal_ownership_failure_state env current_step outcome cleanup_step cp r;
          db1 = append_event_db env current_step (as_condition_str outcome) EvStepOutcome None r
                  (save_checkpoint_db cp (er_db r));
          tx = (if er_persist_registry r
                then persist_terminal_ownership_failure_registry env current_step outcome cleanup_step failure r db1
                else Ok db1)
      in case tx of
           Err e \<Rightarrow> (r, Err e)
         | Ok db2 \<Rightarrow>
             (r\<lparr>er_db := db2, er_pending_failure_cleanup := Some failure,
                er_terminal_ownership_failure := True\<rparr>, Ok ()))"

definition persist_step_result ::
  "'w Env \<Rightarrow> string \<Rightarrow> StepOutcome \<Rightarrow> string option \<Rightarrow> 'w EngineRunner \<Rightarrow>
   'w EngineRunner \<times> (unit, EngineError) result" where
  "persist_step_result env current_step outcome next_step r =
     (case verify_failure_cleanup_workspace env outcome next_step r of
        Err (OwnershipFailure details) \<Rightarrow>
          persist_terminal_ownership_failure env current_step outcome next_step details r
      | Err other \<Rightarrow> (r, Err other)
      | Ok _ \<Rightarrow>
          (let cp = create_checkpoint env current_step ''completed'' r
           in case failure_states_for_step env current_step outcome next_step cp r of
                Err e \<Rightarrow> (r, Err e)
              | Ok (failure, terminal_failure) \<Rightarrow>
                  (let db1 = append_event_db env current_step (as_condition_str outcome) EvStepOutcome
                               (diagnostic_details env (er_context r) current_step) r
                               (save_checkpoint_db cp (er_db r));
                       tx = (if er_persist_registry r
                             then persist_registry_step_state env current_step outcome failure terminal_failure r db1
                             else Ok db1)
                   in case tx of
                        Err e \<Rightarrow> (r, Err e)
                      | Ok db2 \<Rightarrow>
                          (r\<lparr>er_db := db2,
                             er_pending_failure_cleanup :=
                               (case terminal_failure of
                                  Some state \<Rightarrow> Some state
                                | None \<Rightarrow> (if failure \<noteq> None then failure else er_pending_failure_cleanup r))\<rparr>,
                           Ok ()))))"

section \<open>Ending a run\<close>

definition pause_for_external_wait ::
  "'w Env \<Rightarrow> string \<Rightarrow> 'w EngineRunner \<Rightarrow> 'w EngineRunner \<times> (RunOutcome, EngineError) result" where
  "pause_for_external_wait env step r =
     (let r1 = r\<lparr>er_db := save_checkpoint_db (create_checkpoint env step CHECKPOINT_STATUS_WAITING r) (er_db r)\<rparr>;
          outcome = RunWaitingExternal step ''External condition still pending at watch limit'';
          (r2, res) = record_run_completion env outcome step r1
      in (r2, map_ok (\<lambda>_. outcome) res))"

definition finish_without_transition ::
  "'w Env \<Rightarrow> string \<Rightarrow> StepOutcome \<Rightarrow> 'w EngineRunner \<Rightarrow> 'w EngineRunner \<times> (RunOutcome, EngineError) result" where
  "finish_without_transition env current_step outcome r =
     (if is_failure_cleanup_step (er_workflow r) current_step
      then (case failure_provenance r of
              None \<Rightarrow> (r, Err (EnginePersistenceError ''failure cleanup completed without failed-work provenance''))
            | Some failure \<Rightarrow>
                (r\<lparr>er_pending_failure_cleanup := Some failure\<rparr>,
                 Ok (if outcome = Success
                     then RunAbandoned (fc_failed_step failure) (fc_failure_reason failure)
                     else RunFailure (fc_failed_step failure)
                            (''failure cleanup step '' @ fc_cleanup_step failure @ '' ended with '' @
                             as_condition_str outcome @ ''; original failure: '' @ fc_failure_reason failure))))
      else if outcome = Wait then pause_for_external_wait env current_step r
      else
       (let run_outcome =
          (if outcome = Retryable
           then RunFailure current_step ''Retryable error with no recovery transition''
           else run_outcome_without_transition current_step outcome);
            (r1, res) = record_run_completion env run_outcome current_step r
        in (r1, map_ok (\<lambda>_. run_outcome) res)))"

end
