(* ===== verification/Engine_Runner.thy ===== *)
theory Engine_Runner
  imports Failure_Cleanup
begin

text \<open>
  The execution engine (\<^verbatim>\<open>engine/runner.rs\<close>): step dispatch, per-edge loop
  limits, interruption, resumption and the transition loop. One iteration of the
  loop is \<open>loop_body\<close>; \<open>run_transition_loop\<close> iterates it and is total: the
  termination proof needs no validation of the workflow and no assumption about
  the executors, because every loop-back edge is counted and every other edge
  moves forward in declaration order. The local variable \<open>current_step_id\<close> of the
  source always equals the instance's current state, which is what the model keeps.
\<close>

section \<open>Dispatch\<close>

definition contains_step_type :: "'w Env \<Rightarrow> string \<Rightarrow> bool" where
  "contains_step_type env step_type \<longleftrightarrow> map_of (env_registry env) step_type \<noteq> None"

definition dispatch ::
  "'w Env \<Rightarrow> string \<Rightarrow> StepContext \<Rightarrow> json \<Rightarrow> 'w \<Rightarrow> StepContext \<times> (StepOutcome, EngineError) result \<times> 'w" where
  "dispatch env step_type ctx params w =
     (case map_of (env_registry env) step_type of
        None \<Rightarrow> (ctx, Err (StepExecutionError step_type
                       (''No executor registered for step type '' @ quoted step_type)), w)
      | Some executor \<Rightarrow> executor ctx params w)"

definition find_step :: "WorkflowType \<Rightarrow> string \<Rightarrow> StepDef option" where
  "find_step wt step = find (\<lambda>s. sd_step_id s = step) (wt_steps wt)"

definition is_registered_step_type :: "'w Env \<Rightarrow> 'w EngineRunner \<Rightarrow> string \<Rightarrow> bool" where
  "is_registered_step_type env r step \<longleftrightarrow>
     (case find_step (er_workflow r) step of
        Some s \<Rightarrow> contains_step_type env (sd_step_type s)
      | None \<Rightarrow> False)"

definition step_parameters_with_config_manifest ::
  "'w EngineRunner \<Rightarrow> StepDef \<Rightarrow> (json option, EngineError) result" where
  "step_parameters_with_config_manifest r s =
     (case wc_command_manifest (wi_config (er_instance r)) of
        None \<Rightarrow> Ok None
      | Some manifest \<Rightarrow>
          (let params = (case sd_parameters s of None \<Rightarrow> JObj [] | Some JNull \<Rightarrow> JObj [] | Some p \<Rightarrow> p)
           in case params of
                JObj kvs \<Rightarrow>
                  Ok (Some (JObj (if map_of kvs ''command_manifest'' = None
                                  then kvs @ [(''command_manifest'', manifest)] else kvs)))
              | _ \<Rightarrow>
                  Err (StepExecutionError (sd_step_id s)
                    ''step parameters must be an object to attach command_manifest'')))"

definition execute_step ::
  "'w Env \<Rightarrow> string \<Rightarrow> 'w EngineRunner \<Rightarrow> 'w EngineRunner \<times> (StepOutcome, EngineError) result" where
  "execute_step env step r =
     (case find_step (er_workflow r) step of
        None \<Rightarrow> (r, Err (StepNotFound step))
      | Some s \<Rightarrow>
          (case step_parameters_with_config_manifest r s of
             Err e \<Rightarrow> (r, Err e)
           | Ok owned \<Rightarrow>
               (let params = (case owned of Some p \<Rightarrow> p
                              | None \<Rightarrow> (case sd_parameters s of Some p \<Rightarrow> p | None \<Rightarrow> JNull));
                    (ctx, res, w) = dispatch env (sd_step_type s) (er_context r) params (er_world r)
                in (r\<lparr>er_context := ctx, er_world := w\<rparr>, res))))"

definition execute_current_step ::
  "'w Env \<Rightarrow> string \<Rightarrow> 'w EngineRunner \<Rightarrow> 'w EngineRunner \<times> (StepOutcome, EngineError) result" where
  "execute_current_step env step r =
     (let (r1, res) = execute_step env step r
      in case res of
           Ok oc \<Rightarrow> (r1, Ok oc)
         | Err e \<Rightarrow>
             (if er_persist_registry r1
              then (record_event env EvError step ''error'' (Some (engine_error_to_string e)) r1, Err e)
              else (r1, Err e)))"

text \<open>
  The outcome the loop continues with: a failure of a registered executor and an unusable
  tool become \<open>Fatal\<close> with a diagnostic; every other error ends the loop.
\<close>

definition step_outcome_or_error ::
  "'w Env \<Rightarrow> string \<Rightarrow> 'w EngineRunner \<Rightarrow> 'w EngineRunner \<times> (StepOutcome, EngineError) result" where
  "step_outcome_or_error env step r =
     (let (r1, res) = execute_current_step env step r
      in case res of
           Ok oc \<Rightarrow> (r1, Ok oc)
         | Err e \<Rightarrow>
             (if (case e of StepExecutionError _ _ \<Rightarrow> is_registered_step_type env r1 step
                          | ToolUnavailable _ \<Rightarrow> True | _ \<Rightarrow> False)
              then (r1\<lparr>er_context := ctx_set ''diagnostic'' (engine_error_to_string e) (er_context r1)\<rparr>, Ok Fatal)
              else (r1, Err e)))"

section \<open>Starting, resuming, interrupting\<close>

definition restore_error :: "'w Env \<Rightarrow> RestoreError \<Rightarrow> string" where
  "restore_error env e =
     (case e of
        NotAString k \<Rightarrow> ''checkpoint value for allowlisted key '' @ quoted k @ '' is not a string''
      | _ \<Rightarrow> env_serde_text env e)"

definition restore_into ::
  "'w Env \<Rightarrow> json_map \<Rightarrow> 'w EngineRunner \<Rightarrow> 'w EngineRunner \<times> (unit, EngineError) result" where
  "restore_into env payload r =
     (let (ctx, res) = restore_checkpoint_values payload (er_context r)
      in (r\<lparr>er_context := ctx\<rparr>, map_err (\<lambda>e. EnginePersistenceError (restore_error env e)) res))"

definition resume_at :: "string \<Rightarrow> StateSnapshot \<Rightarrow> 'w EngineRunner \<Rightarrow> 'w EngineRunner" where
  "resume_at step snap r =
     r\<lparr>er_instance := transition_to step (er_instance r),
       er_retry_count := ss_retry_count snap, er_edge_loop_counts := ss_edge_loop_counts snap\<rparr>"

definition resume_from_checkpoint ::
  "'w Env \<Rightarrow> 'w EngineRunner \<Rightarrow> 'w EngineRunner \<times> (unit, EngineError) result" where
  "resume_from_checkpoint env r =
     (case (case Option.bind (load_metadata r) rm_failure_cleanup of
              Some f \<Rightarrow> (if fc_cleanup_succeeded f then None else Some f)
            | None \<Rightarrow> None) of
        Some failure \<Rightarrow>
          (if fc_ownership_denied failure
           then (r, Err (InvalidState
                  (''run '' @ er_run_id r @
                   '' terminated with a workspace ownership denial and cannot resume into cleanup step '' @
                   fc_cleanup_step failure @ ''; cleanup cannot execute in an unowned workspace'')))
           else
            (let snap = fc_failed_state_snapshot failure;
                 (r1, res) = restore_into env (ss_context snap) r
             in case res of
                  Err e \<Rightarrow> (r1, Err e)
                | Ok _ \<Rightarrow>
                    ((resume_at (fc_cleanup_step failure) snap r1)\<lparr>er_pending_failure_cleanup := Some failure\<rparr>,
                     Ok ())))
      | None \<Rightarrow>
          (case load_checkpoint_with_conn (er_run_id r) (db_checkpoints (er_db r)) of
             None \<Rightarrow> (r, Ok ())
           | Some cp \<Rightarrow>
               (let (r1, res) = restore_into env (ss_context (cp_state_snapshot cp)) r
                in case res of
                     Err e \<Rightarrow> (r1, Err e)
                   | Ok _ \<Rightarrow> (resume_at (cp_step_id cp) (cp_state_snapshot cp) r1, Ok ()))))"

text \<open>\<open>try_resume\<close> on the shared default database, without the context.\<close>

definition try_resume :: "checkpoint_row list \<Rightarrow> 'w EngineRunner \<Rightarrow> 'w EngineRunner \<times> bool" where
  "try_resume default_rows r =
     (case load_checkpoint_with_conn (er_run_id r) default_rows of
        Some cp \<Rightarrow> (resume_at (cp_step_id cp) (cp_state_snapshot cp) r, True)
      | None \<Rightarrow> (r, False))"

definition mark_run_started :: "'w Env \<Rightarrow> 'w EngineRunner \<Rightarrow> 'w EngineRunner" where
  "mark_run_started env r =
     (if er_persist_registry r
      then (case load_metadata r of
              Some md \<Rightarrow> persist_metadata (mark_started (now_of env r) md) r
            | None \<Rightarrow> r)
      else r)"

definition poll_interrupt :: "'w Env \<Rightarrow> 'w EngineRunner \<Rightarrow> 'w EngineRunner" where
  "poll_interrupt env r =
     (let (b, w) = env_poll_interrupt env (er_world r);
          flag = er_interrupted r \<or> b
      in r\<lparr>er_interrupted := flag, er_context := bind_interrupt flag (er_context r), er_world := w\<rparr>)"

definition interrupt_at_step ::
  "'w Env \<Rightarrow> string \<Rightarrow> 'w EngineRunner \<Rightarrow> 'w EngineRunner \<times> (RunOutcome, EngineError) result" where
  "interrupt_at_step env step r =
     (let r1 = r\<lparr>er_db := save_checkpoint_db (create_checkpoint env step ''interrupted'' r) (er_db r)\<rparr>;
          r2 = record_event env EvStepOutcome step ''interrupted'' (diagnostic_details env (er_context r1) step) r1;
          outcome = RunInterrupted step
      in (fst (record_run_completion env outcome step r2), Ok outcome))"

definition handle_interrupt ::
  "'w Env \<Rightarrow> 'w EngineRunner \<Rightarrow> 'w EngineRunner \<times> (RunOutcome, EngineError) result" where
  "handle_interrupt env r =
     (let step = er_current r;
          r1 = r\<lparr>er_interrupted := True, er_context := bind_interrupt True (er_context r)\<rparr>
      in (r1\<lparr>er_db := save_checkpoint_db (create_checkpoint env step ''interrupted'' r1) (er_db r1)\<rparr>,
          Ok (RunInterrupted step)))"

definition prepare_step_start ::
  "'w Env \<Rightarrow> string \<Rightarrow> 'w EngineRunner \<Rightarrow> 'w EngineRunner \<times> (unit, EngineError) result" where
  "prepare_step_start env step r =
     (let r1 = r\<lparr>er_context := set_current_step_id step (er_context r)\<rparr>;
          with_failure =
            (if is_failure_cleanup_step (er_workflow r1) step
             then (case failure_provenance r1 of
                     None \<Rightarrow> Err (EnginePersistenceError
                              ''failure cleanup cannot start without failed-work provenance'')
                   | Some f \<Rightarrow>
                       Ok (r1\<lparr>er_context :=
                              ctx_set ''failed_work_outcome'' (fc_failure_outcome f)
                                (ctx_set ''failed_work_step'' (fc_failed_step f) (er_context r1))\<rparr>))
             else Ok r1)
      in case with_failure of
           Err e \<Rightarrow> (r1, Err e)
         | Ok r2 \<Rightarrow>
             (let r3 = heartbeat_owned_lease env r2
              in if er_persist_registry r3
                 then (let r4 = (case load_metadata r3 of
                                   Some md \<Rightarrow>
                                     persist_metadata
                                       (set_next_step_candidates (now_of env r3)
                                          (compute_next_step_candidates (er_workflow r3) step)
                                          (set_current_step (now_of env r3) step md)) r3
                                 | None \<Rightarrow> r3)
                       in (record_event env EvStepStart step ''started'' None r4, Ok ()))
                 else (r3, Ok ())))"

section \<open>Edge limits\<close>

fun find_transition :: "string \<Rightarrow> StepOutcome \<Rightarrow> TransitionDef list \<Rightarrow> TransitionDef option" where
  "find_transition step outcome [] = None"
| "find_transition step outcome (t # ts) =
     (if td_from t = step
      then (case td_condition t of
              Some cond \<Rightarrow>
                (if cond = as_condition_str outcome then Some t else find_transition step outcome ts)
            | None \<Rightarrow>
                (if outcome = Success then Some t else find_transition step outcome ts))
      else find_transition step outcome ts)"

definition step_position :: "WorkflowType \<Rightarrow> string \<Rightarrow> nat option" where
  "step_position wt step = position (\<lambda>s. sd_step_id s = step) (wt_steps wt)"

definition is_loop_back :: "WorkflowType \<Rightarrow> string \<Rightarrow> string \<Rightarrow> bool" where
  "is_loop_back wt current_step next_step =
     (case (step_position wt current_step, step_position wt next_step) of
        (Some current_idx, Some next_idx) \<Rightarrow> next_idx \<le> current_idx
      | _ \<Rightarrow> False)"

definition is_limited_transition :: "WorkflowType \<Rightarrow> string \<Rightarrow> string \<Rightarrow> TransitionDef option \<Rightarrow> bool" where
  "is_limited_transition wt current_step next_step transition \<longleftrightarrow>
     is_loop_back wt current_step next_step \<or> Option.bind transition td_max_iterations \<noteq> None"

definition edge_key :: "string \<Rightarrow> string \<Rightarrow> string" where
  "edge_key from to = from @ '':'' @ to"

definition edge_count :: "edge_counts \<Rightarrow> string \<Rightarrow> u32" where
  "edge_count counts k = (case map_of counts k of Some n \<Rightarrow> n | None \<Rightarrow> 0)"

definition edge_limit :: "'w EngineRunner \<Rightarrow> TransitionDef option \<Rightarrow> u32" where
  "edge_limit r transition = (case Option.bind transition td_max_iterations of Some n \<Rightarrow> n | None \<Rightarrow> er_max_loops r)"

definition enforce_edge_limit ::
  "'w Env \<Rightarrow> string \<Rightarrow> string \<Rightarrow> StepOutcome \<Rightarrow> 'w EngineRunner \<Rightarrow> 'w EngineRunner \<times> RunOutcome option" where
  "enforce_edge_limit env current_step next_step outcome r =
     (let transition = find_transition current_step outcome (wt_transitions (er_workflow r))
      in if \<not> is_limited_transition (er_workflow r) current_step next_step transition then (r, None)
         else
          (let key = edge_key current_step next_step;
               limit = edge_limit r transition;
               count = edge_count (er_edge_loop_counts r) key
           in if limit \<le> count
              then (let run_outcome = RunAbandoned current_step
                          (''Per-edge loop limit ('' @ nat_to_string (unat limit) @ '') exceeded on edge '' @ key)
                    in (fst (record_run_completion env run_outcome current_step r), Some run_outcome))
              else (r\<lparr>er_edge_loop_counts := AList.update key (count + 1) (er_edge_loop_counts r)\<rparr>, None)))"

definition advance_to_next_step ::
  "'w Env \<Rightarrow> string \<Rightarrow> StepOutcome \<Rightarrow> 'w EngineRunner \<Rightarrow> 'w EngineRunner \<times> RunOutcome option" where
  "advance_to_next_step env next_step outcome r =
     (let (r1, ended) = enforce_edge_limit env (er_current r) next_step outcome r
      in case ended of
           Some run_outcome \<Rightarrow> (r1, Some run_outcome)
         | None \<Rightarrow> (r1\<lparr>er_instance := transition_to next_step (er_instance r1)\<rparr>, None))"

definition abandon_at_step :: "'w Env \<Rightarrow> string \<Rightarrow> 'w EngineRunner \<Rightarrow> 'w EngineRunner \<times> RunOutcome" where
  "abandon_at_step env step r =
     (let outcome = RunAbandoned step ''Loop limit exceeded''
      in (fst (record_run_completion env outcome step r), outcome))"

section \<open>The loop\<close>

datatype loop_result = Continue | Return "(RunOutcome, EngineError) result"

definition resolve_next_step :: "'w EngineRunner \<Rightarrow> string \<Rightarrow> StepOutcome \<Rightarrow> string option" where
  "resolve_next_step r step outcome = resolve_transition_schema step outcome (wt_transitions (er_workflow r))"

text \<open>The part of an iteration after the step's outcome is known.\<close>

definition after_outcome :: "'w Env \<Rightarrow> StepOutcome \<Rightarrow> 'w EngineRunner \<Rightarrow> 'w EngineRunner \<times> loop_result" where
  "after_outcome env outcome r =
     (let step = er_current r;
          next_step = (if outcome = Abandon then None else resolve_next_step r step outcome);
          (r1, persisted) = persist_step_result env step outcome next_step r
      in case persisted of
           Err e \<Rightarrow> (r1, Return (Err e))
         | Ok _ \<Rightarrow>
             (if er_terminal_ownership_failure r1
              then (case er_pending_failure_cleanup r1 of
                      None \<Rightarrow> (r1, Return (Err (InvalidState
                               ''terminal ownership failure recorded without provenance'')))
                    | Some f \<Rightarrow> (r1, Return (Ok (RunFailure (fc_failed_step f) (fc_failure_reason f)))))
              else if outcome = Abandon
              then (if is_failure_cleanup_step (er_workflow r1) step
                    then (let (r2, res) = finish_without_transition env step outcome r1 in (r2, Return res))
                    else (let (r2, ro) = abandon_at_step env step r1 in (r2, Return (Ok ro))))
              else
               (case next_step of
                  Some nxt \<Rightarrow>
                    (let (r2, ended) = advance_to_next_step env nxt outcome r1
                     in case ended of Some ro \<Rightarrow> (r2, Return (Ok ro)) | None \<Rightarrow> (r2, Continue))
                | None \<Rightarrow> (let (r2, res) = finish_without_transition env step outcome r1 in (r2, Return res)))))"

definition loop_body :: "'w Env \<Rightarrow> 'w EngineRunner \<Rightarrow> 'w EngineRunner \<times> loop_result" where
  "loop_body env r0 =
     (let r = poll_interrupt env r0; step = er_current r
      in if er_interrupted r
         then (let (r1, res) = interrupt_at_step env step r in (r1, Return res))
         else
          (let (r1, prepared) = prepare_step_start env step r
           in case prepared of
                Err e \<Rightarrow> (r1, Return (Err e))
              | Ok _ \<Rightarrow>
                  (let (r2, res) = step_outcome_or_error env step r1
                   in case res of
                        Err e \<Rightarrow> (r2, Return (Err e))
                      | Ok outcome \<Rightarrow>
                          (let r3 = poll_interrupt env r2
                           in if er_interrupted r3
                              then (let (r4, res4) = interrupt_at_step env step r3 in (r4, Return res4))
                              else after_outcome env outcome r3))))"

section \<open>Frames\<close>

text \<open>
  The control state of the runner, which only \<open>advance_to_next_step\<close> and the resume
  operations touch: instance, counters and limits.
\<close>

definition control :: "'w EngineRunner \<Rightarrow> WorkflowInstance \<times> u32 \<times> edge_counts \<times> u32 \<times> u32 \<times> bool" where
  "control r = (er_instance r, er_retry_count r, er_edge_loop_counts r, er_max_retries r, er_max_loops r,
                er_persist_registry r)"

named_theorems control_frame \<open>operations that leave the control state alone\<close>

lemma control_eqD:
  assumes "control a = control b"
  shows "er_instance a = er_instance b" "er_retry_count a = er_retry_count b"
    "er_edge_loop_counts a = er_edge_loop_counts b" "er_max_loops a = er_max_loops b"
    "er_max_retries a = er_max_retries b" "er_persist_registry a = er_persist_registry b"
  using assms by (simp_all add: control_def)

lemma control_persist_metadata [control_frame]: "control (persist_metadata m r) = control r"
  by (simp add: control_def persist_metadata_def)

lemma control_record_event [control_frame]: "control (record_event env ty st oc d r) = control r"
  by (simp add: control_def record_event_def)

lemma control_updates [control_frame]:
  "control (r\<lparr>er_db := db\<rparr>) = control r"
  "control (r\<lparr>er_context := c\<rparr>) = control r"
  "control (r\<lparr>er_pending_failure_cleanup := p\<rparr>) = control r"
  "control (r\<lparr>er_terminal_ownership_failure := b\<rparr>) = control r"
  "control (r\<lparr>er_interrupted := i\<rparr>) = control r"
  "control (r\<lparr>er_world := w\<rparr>) = control r"
  by (simp_all add: control_def)

lemma control_record_run_completion [control_frame]:
  "control (fst (record_run_completion env oc st r)) = control r"
  by (simp add: record_run_completion_def Let_def control_frame split: prod.split MergeCompletionOutcome.split option.split)

lemma control_heartbeat [control_frame]: "control (heartbeat_owned_lease env r) = control r"
  by (simp add: heartbeat_owned_lease_def control_frame split: option.split result.split)

lemma control_poll [control_frame]: "control (poll_interrupt env r) = control r"
  by (simp add: poll_interrupt_def Let_def control_frame split: prod.split)

lemma control_prepare [control_frame]: "control (fst (prepare_step_start env st r)) = control r"
  by (simp add: prepare_step_start_def Let_def control_frame split: option.split)

lemma control_execute_step [control_frame]: "control (fst (execute_step env st r)) = control r"
  by (simp add: execute_step_def Let_def control_frame split: option.split result.split prod.split)

lemma control_step_outcome [control_frame]: "control (fst (step_outcome_or_error env st r)) = control r"
proof -
  obtain r1 res where e: "execute_step env st r = (r1, res)" by fastforce
  have "control r1 = control r" using control_execute_step [of env st r] e by simp
  with e show ?thesis
    by (simp add: step_outcome_or_error_def execute_current_step_def Let_def control_frame
        split: result.split EngineError.split)
qed

lemma control_persist_step_result [control_frame]:
  "control (fst (persist_step_result env st oc nxt r)) = control r"
  by (simp add: persist_step_result_def persist_terminal_ownership_failure_def Let_def control_frame
      split: result.split EngineError.split prod.split)

section \<open>What an iteration that continues does\<close>

lemma find_transition_find: "find_transition step oc ts = find (matches step oc) ts"
proof (induction ts)
  case (Cons t ts)
  then show ?case by (cases "td_condition t") (simp_all add: matches_cases [of step oc t])
qed simp

lemma find_transition_resolve:
  "resolve_transition_schema step oc ts = map_option td_to (find_transition step oc ts)"
  by (simp add: find_transition_find resolve_transition_schema_find)

text \<open>The edge an iteration takes from one control state to the next.\<close>

definition takes_edge :: "'w EngineRunner \<Rightarrow> 'w EngineRunner \<Rightarrow> StepOutcome \<Rightarrow> TransitionDef \<Rightarrow> bool" where
  "takes_edge r r' oc t \<longleftrightarrow>
     oc \<noteq> Abandon \<and> find_transition (er_current r) oc (wt_transitions (er_workflow r)) = Some t \<and>
     er_instance r' = transition_to (td_to t) (er_instance r) \<and>
     er_max_loops r' = er_max_loops r \<and> er_retry_count r' = er_retry_count r \<and>
     (let key = edge_key (er_current r) (td_to t); count = edge_count (er_edge_loop_counts r) key
      in if is_limited_transition (er_workflow r) (er_current r) (td_to t) (Some t)
         then count < edge_limit r (Some t) \<and>
              er_edge_loop_counts r' = AList.update key (count + 1) (er_edge_loop_counts r)
         else er_edge_loop_counts r' = er_edge_loop_counts r)"

lemma advance_takes_edge:
  assumes "advance_to_next_step env (td_to t) oc r = (r', None)"
    and "oc \<noteq> Abandon" and "find_transition (er_current r) oc (wt_transitions (er_workflow r)) = Some t"
  shows "takes_edge r r' oc t"
  using assms
  by (auto simp: advance_to_next_step_def enforce_edge_limit_def takes_edge_def edge_limit_def Let_def
      split: if_splits option.splits)

lemma takes_edge_control:
  assumes "takes_edge r1 r' oc t" and "control r1 = control r"
  shows "takes_edge r r' oc t"
proof -
  have "edge_limit r1 = edge_limit r"
    using control_eqD(4) [OF assms(2)] by (simp add: edge_limit_def fun_eq_iff split: option.split)
  then show ?thesis using assms(1) control_eqD [OF assms(2)]
    by (simp add: takes_edge_def Let_def split: if_splits)
qed

lemma after_outcome_Continue:
  assumes "after_outcome env oc r = (r', Continue)"
  shows "\<exists>t. takes_edge r r' oc t"
proof -
  define nxt where "nxt = (if oc = Abandon then None else resolve_next_step r (er_current r) oc)"
  obtain r1 res where p: "persist_step_result env (er_current r) oc nxt r = (r1, res)" by fastforce
  have c: "control r1 = control r" using control_persist_step_result [of env "er_current r" oc nxt r] p by simp
  from assms p obtain step where oc: "oc \<noteq> Abandon" and nxt: "nxt = Some step"
    and adv: "advance_to_next_step env step oc r1 = (r', None)"
    unfolding after_outcome_def Let_def nxt_def [symmetric]
    by (auto split: result.splits if_splits option.splits prod.splits)
  from nxt oc have "resolve_transition_schema (er_current r) oc (wt_transitions (er_workflow r)) = Some step"
    by (simp add: nxt_def resolve_next_step_def split: if_splits)
  then obtain t where t: "find_transition (er_current r) oc (wt_transitions (er_workflow r)) = Some t"
    and step: "step = td_to t"
    by (auto simp: find_transition_resolve)
  have "takes_edge r1 r' oc t"
    by (rule advance_takes_edge) (use adv oc t control_eqD(1) [OF c] in \<open>simp_all add: step\<close>)
  then show ?thesis using takes_edge_control [OF _ c] by blast
qed

text \<open>A step that is not declared ends the run: its execution fails with an error of its own.\<close>

lemma undeclared_step_fails:
  assumes "find_step (er_workflow r) st = None"
  shows "snd (step_outcome_or_error env st r) = Err (StepNotFound st)"
  using assms by (simp add: step_outcome_or_error_def execute_current_step_def execute_step_def Let_def)

lemma loop_body_Continue:
  assumes "loop_body env r = (r', Continue)"
  shows "\<exists>oc t. takes_edge r r' oc t \<and> find_step (er_workflow r) (er_current r) \<noteq> None"
proof -
  define p where "p = poll_interrupt env r"
  have cp: "control p = control r" by (simp add: p_def control_frame)
  obtain r1 res1 where s1: "prepare_step_start env (er_current p) p = (r1, res1)" by fastforce
  obtain r2 res2 where s2: "step_outcome_or_error env (er_current p) r1 = (r2, res2)" by fastforce
  have c1: "control r1 = control r"
    using control_prepare [of env "er_current p" p] s1 cp by simp
  have c2: "control r2 = control r"
    using control_step_outcome [of env "er_current p" r1] s2 c1 by simp
  have c3: "control (poll_interrupt env r2) = control r" by (simp add: control_frame c2)
  from assms s1 s2 obtain oc where "res2 = Ok oc"
    and ao: "after_outcome env oc (poll_interrupt env r2) = (r', Continue)"
    unfolding loop_body_def p_def [symmetric]
    by (auto simp: Let_def split: result.splits if_splits prod.splits)
  from after_outcome_Continue [OF ao] obtain t where "takes_edge r r' oc t"
    using takes_edge_control [OF _ c3] by blast
  moreover have "find_step (er_workflow r) (er_current r) \<noteq> None"
  proof
    assume "find_step (er_workflow r) (er_current r) = None"
    then have "snd (step_outcome_or_error env (er_current p) r1) = Err (StepNotFound (er_current p))"
      by (intro undeclared_step_fails) (simp add: control_eqD(1) [OF c1] control_eqD(1) [OF cp])
    with s2 \<open>res2 = Ok oc\<close> show False by simp
  qed
  ultimately show ?thesis by blast
qed

section \<open>Termination\<close>

definition limit_bound :: "'w EngineRunner \<Rightarrow> nat" where
  "limit_bound r =
     Max (set (unat (er_max_loops r) #
       map (\<lambda>t. case td_max_iterations t of Some l \<Rightarrow> unat l | None \<Rightarrow> 0) (wt_transitions (er_workflow r))))"

definition edge_keys :: "WorkflowType \<Rightarrow> string set" where
  "edge_keys wt = (\<lambda>t. edge_key (td_from t) (td_to t)) ` set (wt_transitions wt)"

text \<open>How often limited edges can still be taken.\<close>

definition edge_budget :: "'w EngineRunner \<Rightarrow> nat" where
  "edge_budget r =
     (\<Sum>k \<in> edge_keys (er_workflow r). limit_bound r - unat (edge_count (er_edge_loop_counts r) k))"

definition steps_ahead :: "'w EngineRunner \<Rightarrow> nat" where
  "steps_ahead r =
     (case step_position (er_workflow r) (er_current r) of
        Some i \<Rightarrow> length (wt_steps (er_workflow r)) - i
      | None \<Rightarrow> 0)"

definition loop_bound :: "'w EngineRunner \<Rightarrow> nat" where
  "loop_bound r = edge_budget r * (length (wt_steps (er_workflow r)) + 1) + steps_ahead r"

lemma limit_bound_ge:
  assumes "t \<in> set (wt_transitions (er_workflow r))"
  shows "unat (edge_limit r (Some t)) \<le> limit_bound r"
proof (cases "td_max_iterations t")
  case None
  then show ?thesis unfolding limit_bound_def edge_limit_def by (intro Max_ge) auto
next
  case (Some l)
  then have "unat l \<in> (\<lambda>t. case td_max_iterations t of Some l \<Rightarrow> unat l | None \<Rightarrow> 0) ` set (wt_transitions (er_workflow r))"
    using assms by force
  then show ?thesis using Some unfolding limit_bound_def edge_limit_def by (intro Max_ge) auto
qed

lemma find_transitionD:
  "find_transition step oc ts = Some t \<Longrightarrow> t \<in> set ts \<and> td_from t = step \<and> matches step oc t"
  by (auto simp: find_transition_find find_Some_iff matches_def)

lemma edge_count_update:
  "edge_count (AList.update k n counts) k' = (if k' = k then n else edge_count counts k')"
  by (simp add: edge_count_def update_conv')

lemma takes_edge_same:
  assumes "takes_edge r r' oc t"
  shows "er_workflow r' = er_workflow r" "limit_bound r' = limit_bound r" "er_current r' = td_to t"
  using assms by (simp_all add: takes_edge_def limit_bound_def)

lemma unat_succ_less: "(c :: u32) < l \<Longrightarrow> unat (c + 1) = unat c + 1"
proof -
  assume "c < l"
  moreover have "unat l < 4294967296" using unsigned_less [of l, where ?'a = nat] by simp
  ultimately show ?thesis by (simp add: unat_word_ariths word_less_nat_alt)
qed

lemma takes_limited_edge:
  assumes "takes_edge r r' oc t"
    and "is_limited_transition (er_workflow r) (er_current r) (td_to t) (Some t)"
  shows "edge_budget r' < edge_budget r"
proof -
  let ?k = "edge_key (er_current r) (td_to t)"
  let ?c = "\<lambda>k. unat (edge_count (er_edge_loop_counts r) k)"
  have t: "t \<in> set (wt_transitions (er_workflow r))" "td_from t = er_current r"
    using assms(1) find_transitionD by (auto simp: takes_edge_def)
  have lt: "edge_count (er_edge_loop_counts r) ?k < edge_limit r (Some t)"
    and counts: "er_edge_loop_counts r' = AList.update ?k (edge_count (er_edge_loop_counts r) ?k + 1) (er_edge_loop_counts r)"
    using assms by (simp_all add: takes_edge_def Let_def)
  have room: "?c ?k < limit_bound r"
    using lt limit_bound_ge [OF t(1)] by (simp add: word_less_nat_alt)
  have new: "unat (edge_count (er_edge_loop_counts r') k) = (if k = ?k then ?c ?k + 1 else ?c k)" for k
    using unat_succ_less [OF lt] by (simp add: counts edge_count_update)
  have fin: "finite (edge_keys (er_workflow r))" by (simp add: edge_keys_def)
  have mem: "?k \<in> edge_keys (er_workflow r)" using t by (force simp: edge_keys_def)
  show ?thesis
    unfolding edge_budget_def takes_edge_same [OF assms(1)]
    by (rule sum_strict_mono_ex1 [OF fin]) (use mem room new in auto)
qed

lemma takes_free_edge:
  assumes "takes_edge r r' oc t"
    and "\<not> is_limited_transition (er_workflow r) (er_current r) (td_to t) (Some t)"
    and "find_step (er_workflow r) (er_current r) \<noteq> None"
  shows "edge_budget r' = edge_budget r \<and> steps_ahead r' < steps_ahead r"
proof -
  have counts: "er_edge_loop_counts r' = er_edge_loop_counts r"
    using assms(1,2) by (simp add: takes_edge_def Let_def)
  have "step_position (er_workflow r) (er_current r) \<noteq> None"
    using assms(3) by (auto simp: find_step_def step_position_def position_None find_None_iff)
  then obtain i where i: "step_position (er_workflow r) (er_current r) = Some i" by blast
  then have i_lt: "i < length (wt_steps (er_workflow r))"
    using position_SomeD unfolding step_position_def by metis
  have "steps_ahead r' < steps_ahead r"
  proof (cases "step_position (er_workflow r) (td_to t)")
    case None
    then show ?thesis using i i_lt by (simp add: steps_ahead_def takes_edge_same [OF assms(1)])
  next
    case (Some j)
    then have "i < j" using assms(2) i by (simp add: is_limited_transition_def is_loop_back_def)
    then show ?thesis using i i_lt Some by (simp add: steps_ahead_def takes_edge_same [OF assms(1)])
  qed
  then show ?thesis by (simp add: edge_budget_def takes_edge_same [OF assms(1)] counts)
qed

lemma steps_ahead_le: "steps_ahead r \<le> length (wt_steps (er_workflow r))"
  by (simp add: steps_ahead_def split: option.split)

lemma takes_edge_bound:
  assumes "takes_edge r r' oc t" and "find_step (er_workflow r) (er_current r) \<noteq> None"
  shows "loop_bound r' < loop_bound r"
proof (cases "is_limited_transition (er_workflow r) (er_current r) (td_to t) (Some t)")
  case True
  let ?n = "length (wt_steps (er_workflow r)) + 1"
  have "(edge_budget r' + 1) * ?n \<le> edge_budget r * ?n"
    using takes_limited_edge [OF assms(1) True] by (intro mult_right_mono) auto
  moreover have "steps_ahead r' < ?n"
    using steps_ahead_le [of r'] by (simp add: takes_edge_same [OF assms(1)])
  ultimately show ?thesis by (simp add: loop_bound_def takes_edge_same [OF assms(1)])
next
  case False
  then show ?thesis
    using takes_free_edge [OF assms(1) False assms(2)]
    by (simp add: loop_bound_def takes_edge_same [OF assms(1)])
qed

function run_transition_loop ::
  "'w Env \<Rightarrow> 'w EngineRunner \<Rightarrow> 'w EngineRunner \<times> (RunOutcome, EngineError) result" where
  "run_transition_loop env r =
     (case loop_body env r of
        (r', Return res) \<Rightarrow> (r', res)
      | (r', Continue) \<Rightarrow> run_transition_loop env r')"
  by pat_completeness auto
termination
proof (relation "measure (\<lambda>(env, r). loop_bound r)", goal_cases)
  case 1
  show ?case by simp
next
  case (2 env r r' res)
  then have "loop_body env r = (r', Continue)" by simp
  from loop_body_Continue [OF this] show ?case by (auto intro: takes_edge_bound)
qed

declare run_transition_loop.simps [simp del]

definition engine_run :: "'w Env \<Rightarrow> 'w EngineRunner \<Rightarrow> 'w EngineRunner \<times> (RunOutcome, EngineError) result" where
  "engine_run env r =
     (let (r1, resumed) = resume_from_checkpoint env r
      in case resumed of
           Err e \<Rightarrow> (r1, Err e)
         | Ok _ \<Rightarrow> run_transition_loop env (mark_run_started env r1))"

definition run_from_current_step ::
  "'w Env \<Rightarrow> 'w EngineRunner \<Rightarrow> 'w EngineRunner \<times> (RunOutcome, EngineError) result" where
  "run_from_current_step env r = run_transition_loop env r"

end
