(* ===== verification/Graph_Validation.thy ===== *)
theory Graph_Validation
  imports Transition
begin

text \<open>
  Graph-structural validation of workflow types (\<^verbatim>\<open>workflow/validation.rs\<close>).
  Every check of the source is a function from the workflow to the list of its
  errors, with the source's texts and categories; \<open>validate_workflow_graph\<close>
  concatenates them in the source's order. The lemmas show that the worklist
  search computes the reachable steps, and that the validator accepts exactly
  the graphs of a declarative specification.
\<close>

section \<open>Error values and constants\<close>

datatype GraphErrorCategory =
    DanglingTransition
  | DuplicateOutcome
  | UnreachableStep
  | UnsafePostPrRoute
  | MissingRequiredCollector
  | MissingLoopLimit
  | TerminalHasOutgoing
  | InvalidFailureCleanup
  | MissingRemediationCap

record GraphValidationError =
  ge_step_id :: "string option"
  ge_detail :: string
  ge_category :: GraphErrorCategory

definition graph_error :: "string \<Rightarrow> string \<Rightarrow> GraphErrorCategory \<Rightarrow> GraphValidationError" where
  "graph_error step detail cat = \<lparr>ge_step_id = Some step, ge_detail = detail, ge_category = cat\<rparr>"

definition POST_PR_ENTRY :: string where
  "POST_PR_ENTRY = ''capture_pr_identity''"

definition PRE_PR_CLEANUP_TERMINAL :: string where
  "PRE_PR_CLEANUP_TERMINAL = ''abandon_and_log''"

definition POST_PR_FAILURE_TERMINAL :: string where
  "POST_PR_FAILURE_TERMINAL = ''post_pr_failure_terminal''"

definition REQUIRED_COLLECTORS :: "string list" where
  "REQUIRED_COLLECTORS = [''collect_ci_failures'', ''collect_coderabbit_feedback'']"

definition POST_PR_ITERATION_GUARD :: string where
  "POST_PR_ITERATION_GUARD = ''post_pr_iteration_guard''"

definition REMEDIATION_CAP_PARAM :: string where
  "REMEDIATION_CAP_PARAM = ''max_post_pr_remediation_iterations''"

section \<open>The checks\<close>

definition step_id_set :: "WorkflowType \<Rightarrow> string set" where
  "step_id_set w = set (map sd_step_id (wt_steps w))"

definition validate_transitions_reference_valid_steps :: "WorkflowType \<Rightarrow> GraphValidationError list" where
  "validate_transitions_reference_valid_steps w =
     concat (map (\<lambda>t.
       (if td_from t \<in> step_id_set w then []
        else [graph_error (td_from t)
                (''dangling transition source: step '' @ quoted (td_from t) @
                 '' referenced by a transition does not exist'') DanglingTransition]) @
       (if td_to t \<in> step_id_set w then []
        else [graph_error (td_from t)
                (''dangling transition target: step '' @ quoted (td_to t) @
                 '' referenced by transition from '' @ quoted (td_from t) @
                 '' does not exist'') DanglingTransition]))
     (wt_transitions w))"

fun duplicate_outcome_errors ::
  "((string \<times> string) \<times> string) list \<Rightarrow> TransitionDef list \<Rightarrow> GraphValidationError list" where
  "duplicate_outcome_errors seen [] = []"
| "duplicate_outcome_errors seen (t # ts) =
     (let condition = effective_condition (td_condition t);
          key = (td_from t, condition)
      in case map_of seen key of
           Some previous \<Rightarrow>
             (if previous = td_to t then duplicate_outcome_errors seen ts
              else graph_error (td_from t)
                     (''duplicate post-PR transition branch for '' @ td_from t @
                      '' outcome '' @ condition @ '': '' @ previous @ '' and '' @ td_to t)
                     DuplicateOutcome # duplicate_outcome_errors seen ts)
         | None \<Rightarrow> duplicate_outcome_errors ((key, td_to t) # seen) ts)"

definition validate_no_duplicate_outcomes :: "WorkflowType \<Rightarrow> GraphValidationError list" where
  "validate_no_duplicate_outcomes w = duplicate_outcome_errors [] (wt_transitions w)"

text \<open>
  The worklist search: the stack's top is the list's head; \<open>seen.insert\<close> is the
  membership test, and the targets are pushed in declaration order.
\<close>

function reach_loop :: "TransitionDef list \<Rightarrow> string list \<Rightarrow> string list \<Rightarrow> string list" where
  "reach_loop ts [] seen = seen"
| "reach_loop ts (step # stack) seen =
     (if step \<in> set seen then reach_loop ts stack seen
      else reach_loop ts
             (rev (map td_to (filter (\<lambda>t. td_from t = step) ts)) @ stack) (step # seen))"
  by pat_completeness auto
termination
proof (relation "measures [\<lambda>(ts, stack, seen). card ((set stack \<union> td_to ` set ts) - set seen),
                           \<lambda>(ts, stack, seen). length stack]", goal_cases)
  case 1
  show ?case by simp
next
  case (2 ts step stack seen)
  then have "(set (step # stack) \<union> td_to ` set ts) - set seen = (set stack \<union> td_to ` set ts) - set seen"
    by auto
  then show ?case by simp
next
  case (3 ts step stack seen)
  let ?new = "(set (rev (map td_to (filter (\<lambda>t. td_from t = step) ts)) @ stack) \<union> td_to ` set ts) - set (step # seen)"
  let ?old = "(set (step # stack) \<union> td_to ` set ts) - set seen"
  have "?new \<subseteq> ?old - {step}" by auto
  moreover have "step \<in> ?old" using 3 by simp
  ultimately have "card ?new < card ?old"
    by (metis (no_types, lifting) Diff_subset card_Diff1_less finite_Diff finite_UnI finite_imageI
        finite_set le_less_trans card_mono)
  then show ?case by simp
qed

definition compute_reachable_steps :: "WorkflowType \<Rightarrow> string \<Rightarrow> string list" where
  "compute_reachable_steps w start = reach_loop (wt_transitions w) [start] []"

definition validate_all_steps_reachable :: "WorkflowType \<Rightarrow> GraphValidationError list" where
  "validate_all_steps_reachable w =
     (case wt_steps w of
        [] \<Rightarrow> []
      | entry # _ \<Rightarrow>
          (let reachable = set (compute_reachable_steps w (sd_step_id entry));
               has_outgoing = set (map td_from (wt_transitions w));
               has_incoming = set (map td_to (wt_transitions w))
           in concat (map (\<lambda>s.
                (if sd_step_id s \<in> reachable then []
                 else if sd_step_id s \<notin> has_incoming \<and> sd_step_id s \<notin> has_outgoing then []
                 else [graph_error (sd_step_id s)
                         (''unreachable required step: '' @ quoted (sd_step_id s) @
                          '' cannot be reached from entry step '' @ quoted (sd_step_id entry))
                         UnreachableStep]))
              (wt_steps w))))"

definition compute_post_pr_reachable_steps :: "WorkflowType \<Rightarrow> string list" where
  "compute_post_pr_reachable_steps w = compute_reachable_steps w POST_PR_ENTRY"

definition is_post_pr_graph :: "WorkflowType \<Rightarrow> bool" where
  "is_post_pr_graph w \<longleftrightarrow>
     list_ex (\<lambda>s. sd_step_id s = POST_PR_ENTRY) (wt_steps w) \<or>
     list_ex (\<lambda>t. td_from t = POST_PR_ENTRY \<or> td_to t = POST_PR_ENTRY) (wt_transitions w)"

definition post_pr_route_errors :: "TransitionDef \<Rightarrow> GraphValidationError list" where
  "post_pr_route_errors t =
     (if td_to t = PRE_PR_CLEANUP_TERMINAL
      then [graph_error (td_from t)
              (''post-PR route '' @ td_from t @ '' -> abandon_and_log is forbidden'') UnsafePostPrRoute]
      else []) @
     (if td_condition t = Some ''abandon''
      then [graph_error (td_from t)
              (''post-PR route '' @ td_from t @ '' uses abandon outcome'') UnsafePostPrRoute]
      else []) @
     (if (td_condition t = Some ''fatal'' \<or> td_condition t = Some ''retryable'') \<and>
         td_to t \<noteq> POST_PR_FAILURE_TERMINAL \<and> td_from t \<noteq> ''watch_pr_checks''
      then [graph_error (td_from t)
              (''post-PR non-success route '' @ td_from t @ '' --'' @
               effective_condition (td_condition t) @ ''--> '' @ td_to t @
               '' must target post_pr_failure_terminal'') UnsafePostPrRoute]
      else [])"

definition validate_post_pr_routes :: "WorkflowType \<Rightarrow> GraphValidationError list" where
  "validate_post_pr_routes w =
     (if \<not> is_post_pr_graph w then []
      else (let reachable = set (compute_post_pr_reachable_steps w)
            in concat (map post_pr_route_errors
                 (filter (\<lambda>t. td_from t \<in> reachable) (wt_transitions w)))))"

definition validate_required_collectors_present_and_reachable ::
  "WorkflowType \<Rightarrow> GraphValidationError list" where
  "validate_required_collectors_present_and_reachable w =
     (if \<not> is_post_pr_graph w then []
      else (let declared = step_id_set w; reachable = set (compute_post_pr_reachable_steps w)
            in concat (map (\<lambda>c.
                 (if c \<notin> declared
                  then [graph_error c
                          (''required collector step '' @ quoted c @ '' is missing from the post-PR graph'')
                          MissingRequiredCollector]
                  else if c \<notin> reachable
                  then [graph_error c
                          (''required collector step '' @ quoted c @
                           '' is unreachable from post-PR entry '' @ quoted POST_PR_ENTRY)
                          MissingRequiredCollector]
                  else []))
               REQUIRED_COLLECTORS)))"

definition is_terminal_step :: "StepDef \<Rightarrow> bool" where
  "is_terminal_step s \<longleftrightarrow>
     sd_terminal s = Some True \<or> sd_step_type s = POST_PR_FAILURE_TERMINAL"

text \<open>Collecting an enumerated iterator into a map keeps the last index of an identifier.\<close>

definition index_of :: "WorkflowType \<Rightarrow> string \<Rightarrow> nat option" where
  "index_of w i = map_of (rev (zip (map sd_step_id (wt_steps w)) [0..<length (wt_steps w)])) i"

definition validate_loop_back_limits :: "WorkflowType \<Rightarrow> GraphValidationError list" where
  "validate_loop_back_limits w =
     concat (map (\<lambda>t.
       (case (index_of w (td_from t), index_of w (td_to t)) of
          (Some from_idx, Some to_idx) \<Rightarrow>
            (if to_idx \<le> from_idx \<and> td_max_iterations t = None
             then [graph_error (td_from t)
                     (''loop-back transition '' @ td_from t @ '' --'' @
                      effective_condition (td_condition t) @ ''--> '' @ td_to t @
                      '' must declare an explicit max_iterations'') MissingLoopLimit]
             else [])
        | _ \<Rightarrow> []))
     (wt_transitions w))"

definition validate_terminal_steps :: "WorkflowType \<Rightarrow> GraphValidationError list" where
  "validate_terminal_steps w =
     concat (map (\<lambda>s.
       (if \<not> is_terminal_step s then []
        else map (\<lambda>t. graph_error (sd_step_id s)
                     (''terminal step '' @ quoted (sd_step_id s) @
                      '' must not declare an outgoing transition to '' @ quoted (td_to t))
                     TerminalHasOutgoing)
               (filter (\<lambda>t. td_from t = sd_step_id s) (wt_transitions w))))
     (wt_steps w))"

definition is_failure_condition :: "string option \<Rightarrow> bool" where
  "is_failure_condition c \<longleftrightarrow> c = Some ''fatal'' \<or> c = Some ''retryable'' \<or> c = Some ''fixable''"

definition failure_cleanup_step_errors :: "WorkflowType \<Rightarrow> StepDef \<Rightarrow> GraphValidationError list" where
  "failure_cleanup_step_errors w s =
     (if sd_step_type s \<noteq> ''failure_cleanup'' then []
      else
       (let incoming = filter (\<lambda>t. td_to t = sd_step_id s) (wt_transitions w)
        in (if sd_terminal s \<noteq> Some True
            then [graph_error (sd_step_id s)
                    (''failure_cleanup step '' @ quoted (sd_step_id s) @ '' must declare terminal = true'')
                    InvalidFailureCleanup]
            else []) @
           (if (case wt_steps w of [] \<Rightarrow> False | initial # _ \<Rightarrow> sd_step_id initial = sd_step_id s)
            then [graph_error (sd_step_id s)
                    (''failure_cleanup step '' @ quoted (sd_step_id s) @ '' must not be the initial step'')
                    InvalidFailureCleanup]
            else []) @
           (if incoming = []
            then [graph_error (sd_step_id s)
                    (''failure_cleanup step '' @ quoted (sd_step_id s) @
                     '' requires at least one incoming failure transition'')
                    InvalidFailureCleanup]
            else []) @
           concat (map (\<lambda>t.
             (if \<not> is_failure_condition (td_condition t)
              then [graph_error (sd_step_id s)
                      (''failure_cleanup step '' @ quoted (sd_step_id s) @
                       '' requires an explicit failure outcome transition from '' @ quoted (td_from t))
                      InvalidFailureCleanup]
              else []))
           incoming)))"

definition validate_failure_cleanup_steps :: "WorkflowType \<Rightarrow> GraphValidationError list" where
  "validate_failure_cleanup_steps w = concat (map (failure_cleanup_step_errors w) (wt_steps w))"

definition remediation_cap :: "StepDef \<Rightarrow> nat option" where
  "remediation_cap s =
     Option.bind (sd_parameters s) (\<lambda>ps. Option.bind (json_get ps REMEDIATION_CAP_PARAM) json_as_u64)"

definition validate_pr_remediation_caps :: "WorkflowType \<Rightarrow> GraphValidationError list" where
  "validate_pr_remediation_caps w =
     concat (map (\<lambda>s.
       (if sd_step_type s \<noteq> POST_PR_ITERATION_GUARD then []
        else if (case remediation_cap s of Some v \<Rightarrow> 0 < v | None \<Rightarrow> False) then []
        else [graph_error (sd_step_id s)
                (''post_pr_iteration_guard step '' @ quoted (sd_step_id s) @
                 '' must declare a positive '' @ REMEDIATION_CAP_PARAM) MissingRemediationCap]))
     (wt_steps w))"

definition validate_workflow_graph :: "WorkflowType \<Rightarrow> (unit, GraphValidationError list) result" where
  "validate_workflow_graph w =
     (let errors =
        validate_transitions_reference_valid_steps w @
        validate_no_duplicate_outcomes w @
        validate_all_steps_reachable w @
        validate_post_pr_routes w @
        validate_required_collectors_present_and_reachable w @
        validate_loop_back_limits w @
        validate_terminal_steps w @
        validate_failure_cleanup_steps w @
        validate_pr_remediation_caps w
      in if errors = [] then Ok () else Err errors)"

section \<open>Reachability\<close>

definition edges :: "TransitionDef list \<Rightarrow> (string \<times> string) set" where
  "edges ts = {(td_from t, td_to t) | t. t \<in> set ts}"

lemma edges_iff: "(a, b) \<in> edges ts \<longleftrightarrow> (\<exists>t \<in> set ts. td_from t = a \<and> td_to t = b)"
  by (auto simp: edges_def)

lemma reach_loop_mono: "set seen \<union> set stack \<subseteq> set (reach_loop ts stack seen)"
  by (induction ts stack seen rule: reach_loop.induct) auto

lemma reach_loop_sound:
  "set (reach_loop ts stack seen) \<subseteq> set seen \<union> (edges ts)\<^sup>* `` set stack"
proof (induction ts stack seen rule: reach_loop.induct)
  case (2 ts step stack seen)
  show ?case
  proof (cases "step \<in> set seen")
    case False
    have succ: "(step, y) \<in> (edges ts)\<^sup>*"
      if "t \<in> set ts" "td_from t = step" "(td_to t, y) \<in> (edges ts)\<^sup>*" for t y
    proof -
      have "(step, td_to t) \<in> edges ts" using that by (auto simp: edges_iff)
      then show ?thesis using that(3) by (rule converse_rtrancl_into_rtrancl)
    qed
    show ?thesis using 2(2) [OF False] False succ by (fastforce simp: Image_def)
  qed (use 2(1) in auto)
qed simp

lemma reach_loop_closed:
  assumes "\<And>x y. x \<in> set seen \<Longrightarrow> (x, y) \<in> edges ts \<Longrightarrow> y \<in> set seen \<union> set stack"
    and "x \<in> set (reach_loop ts stack seen)" and "(x, y) \<in> edges ts"
  shows "y \<in> set (reach_loop ts stack seen)"
  using assms
proof (induction ts stack seen rule: reach_loop.induct)
  case (2 ts step stack seen)
  show ?case
  proof (cases "step \<in> set seen")
    case True
    have "y \<in> set (reach_loop ts stack seen)"
      by (rule 2(1) [OF True]) (use 2(3-5) True in auto)
    then show ?thesis using True by simp
  next
    case False
    let ?stack = "rev (map td_to (filter (\<lambda>t. td_from t = step) ts)) @ stack"
    have "y \<in> set (reach_loop ts ?stack (step # seen))"
    proof (rule 2(2) [OF False])
      fix a b
      assume "a \<in> set (step # seen)" "(a, b) \<in> edges ts"
      then show "b \<in> set (step # seen) \<union> set ?stack"
        using 2(3) by (fastforce simp: edges_iff)
    qed (use 2(4,5) False in auto)
    then show ?thesis using False by simp
  qed
qed auto

lemma compute_reachable_steps_rtrancl:
  "set (compute_reachable_steps w start) = {x. (start, x) \<in> (edges (wt_transitions w))\<^sup>*}"
proof -
  let ?ts = "wt_transitions w"
  let ?r = "set (reach_loop ?ts [start] [])"
  have "x \<in> ?r" if "(start, x) \<in> (edges ?ts)\<^sup>*" for x
    using that
  proof induction
    case base
    show ?case using reach_loop_mono [of "[]" "[start]" ?ts] by auto
  next
    case (step y z)
    then show ?case using reach_loop_closed [of "[]" ?ts "[start]" y z] by simp
  qed
  moreover have "?r \<subseteq> {x. (start, x) \<in> (edges ?ts)\<^sup>*}"
    using reach_loop_sound [of ?ts "[start]" "[]"] by auto
  ultimately show ?thesis by (auto simp: compute_reachable_steps_def)
qed

lemma compute_reachable_steps_distinct: "distinct (compute_reachable_steps w start)"
proof -
  have "distinct seen \<Longrightarrow> distinct (reach_loop ts stack seen)" for ts stack seen
    by (induction ts stack seen rule: reach_loop.induct) auto
  then show ?thesis by (simp add: compute_reachable_steps_def)
qed

text \<open>
  The worklist search returns, without repetition, exactly the steps that a path of
  transitions from the start reaches, cycles included.
\<close>

theorem compute_reachable_steps_correct:
  "set (compute_reachable_steps w start) = {x. (start, x) \<in> (edges (wt_transitions w))\<^sup>*} \<and>
   distinct (compute_reachable_steps w start)"
  by (simp add: compute_reachable_steps_rtrancl compute_reachable_steps_distinct)

section \<open>The graphs the validator accepts\<close>

definition route_key :: "TransitionDef \<Rightarrow> string \<times> string" where
  "route_key t = (td_from t, effective_condition (td_condition t))"

definition deterministic_routes :: "TransitionDef list \<Rightarrow> bool" where
  "deterministic_routes ts \<longleftrightarrow>
     (\<forall>t \<in> set ts. \<forall>u \<in> set ts. route_key t = route_key u \<longrightarrow> td_to t = td_to u)"

definition entry_reaches :: "WorkflowType \<Rightarrow> bool" where
  "entry_reaches w \<longleftrightarrow>
     (\<forall>s \<in> set (wt_steps w). \<forall>t \<in> set (wt_transitions w).
        td_from t = sd_step_id s \<or> td_to t = sd_step_id s \<longrightarrow>
        (first_step_state w, sd_step_id s) \<in> (edges (wt_transitions w))\<^sup>*)"

definition mentions_post_pr :: "WorkflowType \<Rightarrow> bool" where
  "mentions_post_pr w \<longleftrightarrow>
     POST_PR_ENTRY \<in> step_id_set w \<union> td_from ` set (wt_transitions w) \<union> td_to ` set (wt_transitions w)"

definition post_pr_safe :: "WorkflowType \<Rightarrow> bool" where
  "post_pr_safe w \<longleftrightarrow>
     (mentions_post_pr w \<longrightarrow>
       (\<forall>t \<in> set (wt_transitions w).
          (POST_PR_ENTRY, td_from t) \<in> (edges (wt_transitions w))\<^sup>* \<longrightarrow>
          td_to t \<noteq> PRE_PR_CLEANUP_TERMINAL \<and> td_condition t \<noteq> Some ''abandon'' \<and>
          (td_condition t \<in> {Some ''fatal'', Some ''retryable''} \<longrightarrow>
             td_from t = ''watch_pr_checks'' \<or> td_to t = POST_PR_FAILURE_TERMINAL)) \<and>
       (\<forall>c \<in> set REQUIRED_COLLECTORS. c \<in> step_id_set w \<and>
          (POST_PR_ENTRY, c) \<in> (edges (wt_transitions w))\<^sup>*))"

definition loop_backs_capped :: "WorkflowType \<Rightarrow> bool" where
  "loop_backs_capped w \<longleftrightarrow>
     (\<forall>t \<in> set (wt_transitions w). \<forall>i j.
        index_of w (td_from t) = Some i \<longrightarrow> index_of w (td_to t) = Some j \<longrightarrow> j \<le> i \<longrightarrow>
        td_max_iterations t \<noteq> None)"

definition terminals_final :: "WorkflowType \<Rightarrow> bool" where
  "terminals_final w \<longleftrightarrow>
     (\<forall>s \<in> set (wt_steps w). is_terminal_step s \<longrightarrow>
        (\<forall>t \<in> set (wt_transitions w). td_from t \<noteq> sd_step_id s))"

definition cleanup_contract :: "WorkflowType \<Rightarrow> bool" where
  "cleanup_contract w \<longleftrightarrow>
     (\<forall>s \<in> set (wt_steps w). sd_step_type s = ''failure_cleanup'' \<longrightarrow>
        sd_terminal s = Some True \<and> first_step_state w \<noteq> sd_step_id s \<and>
        (\<exists>t \<in> set (wt_transitions w). td_to t = sd_step_id s) \<and>
        (\<forall>t \<in> set (wt_transitions w). td_to t = sd_step_id s \<longrightarrow>
           td_condition t \<in> {Some ''fatal'', Some ''retryable'', Some ''fixable''}))"

definition remediation_capped :: "WorkflowType \<Rightarrow> bool" where
  "remediation_capped w \<longleftrightarrow>
     (\<forall>s \<in> set (wt_steps w). sd_step_type s = POST_PR_ITERATION_GUARD \<longrightarrow>
        (\<exists>v. remediation_cap s = Some v \<and> 0 < v))"

definition well_formed_graph :: "WorkflowType \<Rightarrow> bool" where
  "well_formed_graph w \<longleftrightarrow>
     (\<forall>t \<in> set (wt_transitions w). td_from t \<in> step_id_set w \<and> td_to t \<in> step_id_set w) \<and>
     deterministic_routes (wt_transitions w) \<and>
     entry_reaches w \<and> post_pr_safe w \<and> loop_backs_capped w \<and> terminals_final w \<and>
     cleanup_contract w \<and> remediation_capped w"

named_theorems graph_check \<open>each check is empty exactly when its condition holds\<close>

lemma dangling_check [graph_check]:
  "validate_transitions_reference_valid_steps w = [] \<longleftrightarrow>
     (\<forall>t \<in> set (wt_transitions w). td_from t \<in> step_id_set w \<and> td_to t \<in> step_id_set w)"
  by (auto simp: validate_transitions_reference_valid_steps_def)

lemma deterministic_routes_Cons:
  "deterministic_routes (t # ts) \<longleftrightarrow> deterministic_routes ts \<and>
     (\<forall>u \<in> set ts. route_key u = route_key t \<longrightarrow> td_to u = td_to t)"
  unfolding deterministic_routes_def
  by (auto simp: eq_commute [of "route_key t"] eq_commute [of "td_to t"])

lemma duplicate_outcome_errors_Cons:
  "duplicate_outcome_errors seen (t # ts) = [] \<longleftrightarrow>
     (case map_of seen (route_key t) of
        Some p \<Rightarrow> p = td_to t \<and> duplicate_outcome_errors seen ts = []
      | None \<Rightarrow> duplicate_outcome_errors ((route_key t, td_to t) # seen) ts = [])"
  by (simp add: Let_def route_key_def split: option.split)

lemma duplicate_check_gen:
  "duplicate_outcome_errors seen ts = [] \<longleftrightarrow>
     deterministic_routes ts \<and>
     (\<forall>t \<in> set ts. \<forall>p. map_of seen (route_key t) = Some p \<longrightarrow> p = td_to t)"
proof (induction ts arbitrary: seen)
  case (Cons t ts)
  show ?case
  proof (cases "map_of seen (route_key t)")
    case None
    then show ?thesis
      by (auto simp: duplicate_outcome_errors_Cons Cons.IH deterministic_routes_Cons
          simp del: duplicate_outcome_errors.simps split: if_splits)
  next
    case (Some p)
    then have "(\<forall>u \<in> set ts. route_key u = route_key t \<longrightarrow> td_to u = td_to t)"
      if "p = td_to t" "\<forall>u \<in> set ts. \<forall>p. map_of seen (route_key u) = Some p \<longrightarrow> p = td_to u"
      using that by metis
    with Some show ?thesis
      by (auto simp: duplicate_outcome_errors_Cons Cons.IH deterministic_routes_Cons
          simp del: duplicate_outcome_errors.simps)
  qed
qed (simp add: deterministic_routes_def)

lemma duplicate_check [graph_check]:
  "validate_no_duplicate_outcomes w = [] \<longleftrightarrow> deterministic_routes (wt_transitions w)"
  by (simp add: validate_no_duplicate_outcomes_def duplicate_check_gen)

lemma reachable_check [graph_check]: "validate_all_steps_reachable w = [] \<longleftrightarrow> entry_reaches w"
proof (cases "wt_steps w")
  case (Cons e es)
  then have "first_step_state w = sd_step_id e" by (simp add: first_step_state_def)
  moreover have "validate_all_steps_reachable w = [] \<longleftrightarrow>
      (\<forall>s \<in> set (wt_steps w). sd_step_id s \<in> set (compute_reachable_steps w (sd_step_id e)) \<or>
         sd_step_id s \<notin> td_to ` set (wt_transitions w) \<and>
         sd_step_id s \<notin> td_from ` set (wt_transitions w))"
    using Cons by (simp add: validate_all_steps_reachable_def Let_def concat_map_Nil
        del: concat_eq_Nil_conv) blast
  ultimately show ?thesis
    by (simp only: entry_reaches_def compute_reachable_steps_rtrancl image_iff mem_Collect_eq) metis
qed (simp add: validate_all_steps_reachable_def entry_reaches_def)

lemma is_post_pr_graph_iff: "is_post_pr_graph w \<longleftrightarrow> mentions_post_pr w"
  by (auto simp: is_post_pr_graph_def mentions_post_pr_def step_id_set_def list_ex_iff image_iff
      eq_commute [of POST_PR_ENTRY])

lemma post_pr_route_errors_Nil:
  "post_pr_route_errors t = [] \<longleftrightarrow>
     td_to t \<noteq> PRE_PR_CLEANUP_TERMINAL \<and> td_condition t \<noteq> Some ''abandon'' \<and>
     (td_condition t \<in> {Some ''fatal'', Some ''retryable''} \<longrightarrow>
        td_from t = ''watch_pr_checks'' \<or> td_to t = POST_PR_FAILURE_TERMINAL)"
  unfolding post_pr_route_errors_def append_is_Nil_conv if_Nil by blast

lemma post_pr_check [graph_check]:
  "validate_post_pr_routes w = [] \<and> validate_required_collectors_present_and_reachable w = [] \<longleftrightarrow>
     post_pr_safe w"
proof (cases "mentions_post_pr w")
  case True
  let ?R = "set (compute_post_pr_reachable_steps w)"
  have R: "?R = {x. (POST_PR_ENTRY, x) \<in> (edges (wt_transitions w))\<^sup>*}"
    by (simp add: compute_post_pr_reachable_steps_def compute_reachable_steps_rtrancl)
  have "validate_post_pr_routes w = [] \<longleftrightarrow>
      (\<forall>t \<in> set (wt_transitions w). td_from t \<in> ?R \<longrightarrow> post_pr_route_errors t = [])"
    using True by (auto simp: validate_post_pr_routes_def is_post_pr_graph_iff Let_def)
  moreover have "validate_required_collectors_present_and_reachable w = [] \<longleftrightarrow>
      (\<forall>c \<in> set REQUIRED_COLLECTORS. c \<in> step_id_set w \<and> c \<in> ?R)"
    using True unfolding validate_required_collectors_present_and_reachable_def
      is_post_pr_graph_iff Let_def by (simp add: concat_map_Nil del: concat_eq_Nil_conv) blast
  ultimately show ?thesis
    using True R unfolding post_pr_safe_def post_pr_route_errors_Nil by blast
qed (simp add: validate_post_pr_routes_def validate_required_collectors_present_and_reachable_def
       post_pr_safe_def is_post_pr_graph_iff)

lemma loop_back_check [graph_check]: "validate_loop_back_limits w = [] \<longleftrightarrow> loop_backs_capped w"
proof -
  have "validate_loop_back_limits w = [] \<longleftrightarrow>
      (\<forall>t \<in> set (wt_transitions w). \<not> (\<exists>i j. index_of w (td_from t) = Some i \<and>
         index_of w (td_to t) = Some j \<and> j \<le> i \<and> td_max_iterations t = None))"
    unfolding validate_loop_back_limits_def concat_map_Nil
    by (intro ball_cong refl) (auto split: option.splits)
  then show ?thesis unfolding loop_backs_capped_def by (simp only:) meson
qed

lemma terminal_check [graph_check]: "validate_terminal_steps w = [] \<longleftrightarrow> terminals_final w"
  unfolding validate_terminal_steps_def terminals_final_def concat_map_Nil
  by (intro ball_cong refl) (simp add: filter_empty_conv)

lemma cleanup_step_check:
  assumes "s \<in> set (wt_steps w)"
  shows "failure_cleanup_step_errors w s = [] \<longleftrightarrow>
    (sd_step_type s = ''failure_cleanup'' \<longrightarrow>
        sd_terminal s = Some True \<and> first_step_state w \<noteq> sd_step_id s \<and>
        (\<exists>t \<in> set (wt_transitions w). td_to t = sd_step_id s) \<and>
        (\<forall>t \<in> set (wt_transitions w). td_to t = sd_step_id s \<longrightarrow>
           td_condition t \<in> {Some ''fatal'', Some ''retryable'', Some ''fixable''}))"
  using assms
  by (cases "wt_steps w")
     (auto simp: failure_cleanup_step_errors_def Let_def first_step_state_def filter_empty_conv
        is_failure_condition_def split: if_splits)

lemma cleanup_check [graph_check]: "validate_failure_cleanup_steps w = [] \<longleftrightarrow> cleanup_contract w"
  by (auto simp: validate_failure_cleanup_steps_def cleanup_contract_def cleanup_step_check)

lemma remediation_check [graph_check]: "validate_pr_remediation_caps w = [] \<longleftrightarrow> remediation_capped w"
  unfolding validate_pr_remediation_caps_def remediation_capped_def concat_map_Nil
  by (intro ball_cong refl) (auto split: option.splits)

lemma validate_workflow_graph_iff: "validate_workflow_graph w = Ok () \<longleftrightarrow> well_formed_graph w"
  using post_pr_check [of w]
  by (auto simp: validate_workflow_graph_def well_formed_graph_def Let_def
      dangling_check duplicate_check reachable_check loop_back_check terminal_check
      cleanup_check remediation_check)

text \<open>
  C1: the validator accepts exactly the well-formed graphs: every transition joins declared
  steps, routing is deterministic, connected steps are reachable from the entry, the post-PR
  part never routes to the pre-PR cleanup and contains its collectors, loop-backs carry a cap,
  terminal steps are final, cleanup steps keep their contract and remediation guards a cap.
\<close>

theorem validate_workflow_graph_spec:
  "validate_workflow_graph w = Ok () \<longleftrightarrow> well_formed_graph w"
  by (rule validate_workflow_graph_iff)

end
