(* ===== verification/Runner_Properties.thy ===== *)
theory Runner_Properties
  imports Engine_Runner Graph_Validation
begin

text \<open>
  Properties of the execution engine: the explicit bound on a run's iterations,
  edge limits along runs, constancy of the retry counter, agreement of static and
  runtime loop-back detection, cleanup provenance, ownership denial, atomicity of
  step persistence, and the interrupt/resume round trip.
\<close>

section \<open>Bounded execution\<close>

text \<open>The loop with explicit fuel: \<open>None\<close> when the fuel runs out.\<close>

fun run_fuel ::
  "'w Env \<Rightarrow> nat \<Rightarrow> 'w EngineRunner \<Rightarrow> ('w EngineRunner \<times> (RunOutcome, EngineError) result) option" where
  "run_fuel env 0 r = None"
| "run_fuel env (Suc k) r =
     (case loop_body env r of
        (r', Return res) \<Rightarrow> Some (r', res)
      | (r', Continue) \<Rightarrow> run_fuel env k r')"

lemma run_fuel_enough: "loop_bound r < k \<Longrightarrow> run_fuel env k r = Some (run_transition_loop env r)"
proof (induction k arbitrary: r)
  case (Suc k)
  obtain r' res where b: "loop_body env r = (r', res)" by fastforce
  show ?case
  proof (cases res)
    case Continue
    with b have "loop_bound r' < loop_bound r"
      using loop_body_Continue [of env r r'] takes_edge_bound by blast
    then show ?thesis using b Continue Suc
      by (subst run_transition_loop.simps) simp
  next
    case (Return x)
    then show ?thesis using b by (subst run_transition_loop.simps) simp
  qed
qed simp

definition iteration_bound :: "'w EngineRunner \<Rightarrow> nat" where
  "iteration_bound r =
     (let n = length (wt_steps (er_workflow r)); e = length (wt_transitions (er_workflow r))
      in e * limit_bound r * (n + 1) + n)"

lemma loop_bound_le: "loop_bound r \<le> iteration_bound r"
proof -
  let ?e = "length (wt_transitions (er_workflow r))"
  have card: "card (edge_keys (er_workflow r)) \<le> ?e"
    unfolding edge_keys_def by (metis card_image_le card_length finite_set le_trans)
  have "edge_budget r \<le> (\<Sum>k \<in> edge_keys (er_workflow r). limit_bound r)"
    unfolding edge_budget_def by (rule sum_mono) simp
  also have "\<dots> \<le> ?e * limit_bound r" using card by simp
  finally have "edge_budget r * (length (wt_steps (er_workflow r)) + 1) \<le>
      ?e * limit_bound r * (length (wt_steps (er_workflow r)) + 1)"
    by (rule mult_right_mono) simp
  then show ?thesis using steps_ahead_le [of r]
    unfolding loop_bound_def iteration_bound_def Let_def by linarith
qed

text \<open>
  C3: the engine always finishes. For every workflow, validated or not, every registry of
  executors and every behaviour of the world, the transition loop returns after at most
  \<open>iteration_bound\<close> iterations: the number of transitions times the largest edge limit, times
  the number of steps plus one, plus the number of steps.
\<close>

theorem engine_terminates_within_bound:
  "run_fuel env (Suc (iteration_bound r)) r = Some (run_transition_loop env r)"
  by (rule run_fuel_enough) (use loop_bound_le [of r] in simp)

section \<open>Runs and the edges they take\<close>

text \<open>The iterations that continue, with the outcome and the transition of each.\<close>

inductive loop_run ::
  "'w Env \<Rightarrow> 'w EngineRunner \<Rightarrow> (StepOutcome \<times> TransitionDef) list \<Rightarrow> 'w EngineRunner \<Rightarrow> bool"
  for env where
  run_here: "loop_run env r [] r"
| run_on: "loop_run env r es r1 \<Longrightarrow> loop_body env r1 = (r2, Continue) \<Longrightarrow> takes_edge r1 r2 oc t \<Longrightarrow>
    loop_run env r (es @ [(oc, t)]) r2"

lemma loop_run_workflow:
  assumes "loop_run env r es r'"
  shows "er_workflow r' = er_workflow r" "er_max_loops r' = er_max_loops r"
    "er_retry_count r' = er_retry_count r"
  using assms by (induction rule: loop_run.induct) (auto simp: takes_edge_def)

definition limited_edge :: "WorkflowType \<Rightarrow> TransitionDef \<Rightarrow> bool" where
  "limited_edge wt t \<longleftrightarrow> is_limited_transition wt (td_from t) (td_to t) (Some t)"

abbreviation transition_key :: "TransitionDef \<Rightarrow> string" where
  "transition_key t \<equiv> edge_key (td_from t) (td_to t)"

definition traversals :: "WorkflowType \<Rightarrow> string \<Rightarrow> (StepOutcome \<times> TransitionDef) list \<Rightarrow> nat" where
  "traversals wt k es = length (filter (\<lambda>(oc, t). limited_edge wt t \<and> transition_key t = k) es)"

text \<open>The largest limit of the transitions that share a counter.\<close>

definition edge_cap :: "'w EngineRunner \<Rightarrow> string \<Rightarrow> nat" where
  "edge_cap r k =
     Max (insert 0 ((\<lambda>t. unat (edge_limit r (Some t))) `
       {t \<in> set (wt_transitions (er_workflow r)). transition_key t = k}))"

lemma edge_cap_ge:
  "t \<in> set (wt_transitions (er_workflow r)) \<Longrightarrow> unat (edge_limit r (Some t)) \<le> edge_cap r (transition_key t)"
  unfolding edge_cap_def by (intro Max_ge) auto

lemma takes_edge_count:
  assumes "takes_edge r r' oc t"
  shows "unat (edge_count (er_edge_loop_counts r') k) =
    unat (edge_count (er_edge_loop_counts r) k) + traversals (er_workflow r) k [(oc, t)]"
    and "limited_edge (er_workflow r) t \<Longrightarrow>
      unat (edge_count (er_edge_loop_counts r') (transition_key t)) \<le> edge_cap r (transition_key t)"
proof -
  have t: "t \<in> set (wt_transitions (er_workflow r))" "td_from t = er_current r"
    using assms find_transitionD by (auto simp: takes_edge_def)
  have lt: "edge_count (er_edge_loop_counts r) (transition_key t) < edge_limit r (Some t)"
    and counts: "er_edge_loop_counts r' =
      AList.update (transition_key t) (edge_count (er_edge_loop_counts r) (transition_key t) + 1) (er_edge_loop_counts r)"
    if "limited_edge (er_workflow r) t"
    using assms that t by (simp_all add: takes_edge_def Let_def limited_edge_def)
  have free: "er_edge_loop_counts r' = er_edge_loop_counts r" if "\<not> limited_edge (er_workflow r) t"
    using assms that t by (simp add: takes_edge_def Let_def limited_edge_def)
  show "unat (edge_count (er_edge_loop_counts r') k) =
    unat (edge_count (er_edge_loop_counts r) k) + traversals (er_workflow r) k [(oc, t)]"
    using free by (cases "limited_edge (er_workflow r) t")
      (auto simp: counts edge_count_update unat_succ_less [OF lt] traversals_def)
  assume lim: "limited_edge (er_workflow r) t"
  then have "unat (edge_count (er_edge_loop_counts r') (transition_key t)) \<le> unat (edge_limit r (Some t))"
    using unat_succ_less [OF lt] lt [OF lim] by (simp add: counts edge_count_update word_less_nat_alt)
  then show "unat (edge_count (er_edge_loop_counts r') (transition_key t)) \<le> edge_cap r (transition_key t)"
    using edge_cap_ge [OF t(1)] by linarith
qed

lemma loop_run_counts:
  assumes "loop_run env r es r'"
  shows "unat (edge_count (er_edge_loop_counts r') k) =
      unat (edge_count (er_edge_loop_counts r) k) + traversals (er_workflow r) k es \<and>
    (0 < traversals (er_workflow r) k es \<longrightarrow> unat (edge_count (er_edge_loop_counts r') k) \<le> edge_cap r k)"
  using assms
proof (induction rule: loop_run.induct)
  case (run_on r es r1 r2 oc t)
  note wf = loop_run_workflow [OF run_on(1)]
  have tr: "traversals (er_workflow r) k (es @ [(oc, t)]) =
      traversals (er_workflow r) k es + traversals (er_workflow r) k [(oc, t)]"
    by (simp add: traversals_def)
  have lim: "edge_limit r1 = edge_limit r" using wf(2) by (simp add: edge_limit_def fun_eq_iff split: option.split)
  then have cap: "edge_cap r1 k = edge_cap r k" by (simp add: edge_cap_def wf(1))
  have cnt: "unat (edge_count (er_edge_loop_counts r2) k) =
      unat (edge_count (er_edge_loop_counts r1) k) + traversals (er_workflow r) k [(oc, t)]"
    using takes_edge_count(1) [OF run_on(3), of k] wf(1) by simp
  show ?case
  proof (cases "limited_edge (er_workflow r) t \<and> transition_key t = k")
    case True
    then have "unat (edge_count (er_edge_loop_counts r2) k) \<le> edge_cap r k"
      using takes_edge_count(2) [OF run_on(3)] wf(1) cap by auto
    then show ?thesis using run_on(4) cnt tr by simp
  next
    case False
    then have "traversals (er_workflow r) k [(oc, t)] = 0" by (auto simp: traversals_def)
    then show ?thesis using run_on(4) cnt tr
      by (cases "0 < traversals (er_workflow r) k es") simp_all
  qed
qed (simp add: traversals_def)

text \<open>
  C4: edge limits hold along every run. The transitions with one counter key that are limited
  (loop-backs, and transitions with a declared cap) are taken at most as often as the largest
  limit declared for that key, whatever the executors return, and the stored counter is the
  number of times they were taken since the runner's starting counters.
\<close>

theorem edge_limits_hold:
  assumes "loop_run env r es r'"
  shows "traversals (er_workflow r) k es \<le> edge_cap r k \<and>
    unat (edge_count (er_edge_loop_counts r') k) =
      unat (edge_count (er_edge_loop_counts r) k) + traversals (er_workflow r) k es"
  using loop_run_counts [OF assms, of k] by (cases "traversals (er_workflow r) k es = 0") auto

text \<open>A small workflow for the witnesses: a step that may loop back to itself twice.\<close>

definition demo_step :: "string \<Rightarrow> StepDef" where
  "demo_step i =
     \<lparr>sd_step_id = i, sd_step_type = ''noop'', sd_description = None, sd_parameters = None,
      sd_produces = None, sd_consumes = None, sd_terminal = None, sd_recovery_policy = None\<rparr>"

definition demo_cleanup :: StepDef where
  "demo_cleanup = (demo_step ''cleanup'')\<lparr>sd_step_type := ''failure_cleanup'', sd_terminal := Some True\<rparr>"

definition demo_transition :: "string \<Rightarrow> string \<Rightarrow> string option \<Rightarrow> u32 option \<Rightarrow> TransitionDef" where
  "demo_transition a b c m = \<lparr>td_from = a, td_to = b, td_condition = c, td_max_iterations = m\<rparr>"

definition demo_workflow :: WorkflowType where
  "demo_workflow =
     \<lparr>wt_workflow_type_id = ''demo'', wt_steps = [demo_step ''work'', demo_step ''publish'', demo_cleanup],
      wt_transitions =
        [demo_transition ''work'' ''work'' (Some ''fixable'') (Some 2),
         demo_transition ''work'' ''publish'' None None,
         demo_transition ''work'' ''cleanup'' (Some ''fatal'') None],
      wt_guards = \<lparr>gc_max_retries = None, gc_timeout_seconds = None, gc_require_approval = None\<rparr>\<rparr>"

definition demo_config :: WorkflowConfig where
  "demo_config =
     \<lparr>wc_config_id = ''cfg'', wc_workflow_type_id = ''demo'',
      wc_runtime = \<lparr>rc_timeout_seconds = 60, rc_max_retries = 3, rc_parallel_steps = None, rc_log_level = None\<rparr>,
      wc_guard_limits = \<lparr>gl_max_iterations = None, gl_max_file_changes = None, gl_max_tokens = None, gl_max_cost = None\<rparr>,
      wc_variables = [], wc_parent_orchestration = default_parent_orchestration, wc_merge_required = False,
      wc_merge_strategy = None, wc_command_manifest = None\<rparr>"

text \<open>The world is a clock that every poll advances; the executor answers with a fixed outcome.\<close>

definition demo_env :: "StepOutcome \<Rightarrow> nat Env" where
  "demo_env oc =
     \<lparr>env_registry = [(''noop'', \<lambda>c p w. (c, Ok oc, w)), (''failure_cleanup'', \<lambda>c p w. (c, Ok Success, w))],
      env_now = (\<lambda>w. w), env_poll_interrupt = (\<lambda>w. (False, w + 1)), env_pid = 7,
      env_evidence_exists = (\<lambda>w d. False), env_verify_ownership = (\<lambda>w d i. Some ''foreign marker''),
      env_complete_merge = (\<lambda>i d db w. (McNotYetMerged, db, w)), env_merge_debug = (\<lambda>_. ''?''),
      env_rfc3339 = nat_to_string, env_json_text = (\<lambda>_. ''{}''), env_sql_text = (\<lambda>_. ''?''),
      env_serde_text = (\<lambda>_. ''?'')\<rparr>"

definition demo_run_context :: "bool \<Rightarrow> RunContext" where
  "demo_run_context daemon =
     \<lparr>rx_daemon_managed = daemon, rx_log_path = None, rx_artifact_root = None, rx_workspace_path = Some ''/w'',
      rx_repository = Some ''o/r'', rx_issue_number = Some 7, rx_pr_number = None, rx_head_sha = None,
      rx_workspace_authorization = None, rx_launch_provenance = None\<rparr>"

definition demo_runner :: "bool \<Rightarrow> nat EngineRunner" where
  "demo_runner daemon =
     with_db_path_and_context (demo_env Success) (create_with_run_id demo_workflow demo_config ''run-1'')
       (for_run ''/w'' ''run-1'' daemon) (demo_run_context daemon) empty_db 1"

lemma demo_first_edge:
  "loop_body (demo_env Fixable) (demo_runner False) =
     (fst (loop_body (demo_env Fixable) (demo_runner False)), Continue)"
  "takes_edge (demo_runner False) (fst (loop_body (demo_env Fixable) (demo_runner False))) Fixable
     (demo_transition ''work'' ''work'' (Some ''fixable'') (Some 2))"
  by code_simp+

theorem edge_limits_hold_witness:
  "traversals demo_workflow ''work:work'' [(Fixable, demo_transition ''work'' ''work'' (Some ''fixable'') (Some 2))]
     \<le> edge_cap (demo_runner False) ''work:work'' \<and> edge_cap (demo_runner False) ''work:work'' = 2"
proof -
  have run: "loop_run (demo_env Fixable) (demo_runner False)
      ([] @ [(Fixable, demo_transition ''work'' ''work'' (Some ''fixable'') (Some 2))])
      (fst (loop_body (demo_env Fixable) (demo_runner False)))"
    by (rule run_on [OF run_here demo_first_edge])
  have "edge_cap (demo_runner False) ''work:work'' = 2" by code_simp
  moreover have "er_workflow (demo_runner False) = demo_workflow" by code_simp
  ultimately show ?thesis using edge_limits_hold [OF run, of "''work:work''"] by simp
qed

section \<open>What a run never changes\<close>

definition static_part :: "'w EngineRunner \<Rightarrow> u32 \<times> u32 \<times> u32 \<times> bool \<times> WorkflowType \<times> WorkflowConfig \<times> string" where
  "static_part r =
     (er_retry_count r, er_max_retries r, er_max_loops r, er_persist_registry r, er_workflow r,
      wi_config (er_instance r), er_run_id r)"

lemma static_of_control: "control a = control b \<Longrightarrow> static_part a = static_part b"
  by (simp add: control_def static_part_def)

lemma control_finish [control_frame]: "control (fst (finish_without_transition env st oc r)) = control r"
proof -
  have *: "control r2 = control r" if "record_run_completion env oc st r = (r2, res)" for env oc st r2 res
    and r :: "'a EngineRunner"
    using that control_record_run_completion [of env oc st r] by simp
  show ?thesis
    by (auto simp: finish_without_transition_def pause_for_external_wait_def Let_def control_frame
        split: option.split prod.split dest!: *)
qed

lemma control_interrupt [control_frame]: "control (fst (interrupt_at_step env st r)) = control r"
  by (simp add: interrupt_at_step_def Let_def control_frame)

lemma control_abandon [control_frame]: "control (fst (abandon_at_step env st r)) = control r"
  by (simp add: abandon_at_step_def Let_def control_frame)

lemma static_simps:
  "static_part (fst (record_run_completion env oc st r)) = static_part r"
  "static_part (r\<lparr>er_edge_loop_counts := c\<rparr>) = static_part r"
  "static_part (r\<lparr>er_instance := transition_to nxt (er_instance r)\<rparr>) = static_part r"
  by (rule static_of_control [OF control_record_run_completion]) (simp_all add: static_part_def)

lemma static_advance: "static_part (fst (advance_to_next_step env nxt oc r)) = static_part r"
proof -
  obtain r1 ended where e: "enforce_edge_limit env (er_current r) nxt oc r = (r1, ended)" by fastforce
  then have "static_part r1 = static_part r"
    by (auto simp: enforce_edge_limit_def Let_def static_simps split: if_splits)
  then show ?thesis
    by (simp add: advance_to_next_step_def Let_def e static_simps split: option.split)
qed

lemma static_after_outcome: "static_part (fst (after_outcome env oc r)) = static_part r"
proof -
  have p: "static_part r1 = static_part r" if "persist_step_result env st oc' nxt r = (r1, res)" for st oc' nxt r1 res
    using that static_of_control [OF control_persist_step_result, of env st oc' nxt r] by simp
  have f: "static_part r2 = static_part r1" if "finish_without_transition env st oc' r1 = (r2, res)" for st oc' r1 r2 res
    using that static_of_control [OF control_finish, of env st oc' r1] by simp
  have a: "static_part r2 = static_part r1" if "abandon_at_step env st r1 = (r2, ro)" for st r1 r2 ro
    using that static_of_control [OF control_abandon, of env st r1] by simp
  have n: "static_part r2 = static_part r1" if "advance_to_next_step env nxt oc' r1 = (r2, ro)" for nxt oc' r1 r2 ro
    using that static_advance [of env nxt oc' r1] by simp
  show ?thesis
    unfolding after_outcome_def Let_def
    by (auto split: prod.split result.split option.split dest!: p f a n)
qed

lemma static_loop_body: "static_part (fst (loop_body env r)) = static_part r"
proof -
  define p where "p = poll_interrupt env r"
  obtain r1 res1 where s1: "prepare_step_start env (er_current p) p = (r1, res1)" by fastforce
  obtain r2 res2 where s2: "step_outcome_or_error env (er_current p) r1 = (r2, res2)" by fastforce
  have cp: "static_part p = static_part r" by (rule static_of_control) (simp add: p_def control_frame)
  have c1: "static_part r1 = static_part r"
    using static_of_control [OF control_prepare, of env "er_current p" p] s1 cp by simp
  have c2: "static_part r2 = static_part r"
    using static_of_control [OF control_step_outcome, of env "er_current p" r1] s2 c1 by simp
  have c3: "static_part (poll_interrupt env r2) = static_part r"
    using static_of_control [OF control_poll, of env r2] c2 by simp
  have i: "static_part r5 = static_part r4" if "interrupt_at_step env st r4 = (r5, res)" for st r4 r5 res
    using that static_of_control [OF control_interrupt, of env st r4] by simp
  show ?thesis
    unfolding loop_body_def p_def [symmetric] Let_def
    using s1 s2 cp c1 c2 c3 static_after_outcome [of env _ "poll_interrupt env r2"]
    by (auto split: prod.split result.split dest!: i)
qed

lemma static_run_loop: "static_part (fst (run_transition_loop env r)) = static_part r"
proof (induction env r rule: run_transition_loop.induct)
  case (1 env r)
  show ?case
  proof (cases "loop_body env r")
    case (Pair r' res)
    then have st: "static_part r' = static_part r" using static_loop_body [of env r] by simp
    show ?thesis
    proof (cases res)
      case Continue
      then show ?thesis using 1 [OF Pair [symmetric]] Pair st
        by (subst run_transition_loop.simps) simp
    qed (use Pair st in \<open>subst run_transition_loop.simps; simp\<close>)
  qed
qed

text \<open>
  The engine never retries on its own. Whatever outcomes the executors return, a
  \<open>Retryable\<close> one included, the retry counter of a run keeps its starting value (so does
  every checkpoint written from it), and neither limits, workflow nor configuration change. A
  \<open>Retryable\<close> outcome without a transition fails the run at once.
\<close>

theorem retry_counter_is_constant:
  "er_retry_count (fst (run_transition_loop env r)) = er_retry_count r \<and>
   er_max_retries (fst (run_transition_loop env r)) = er_max_retries r \<and>
   wi_config (er_instance (fst (run_transition_loop env r))) = wi_config (er_instance r) \<and>
   ss_retry_count (state_snapshot st (fst (run_transition_loop env r))) = er_retry_count r \<and>
   run_outcome_without_transition step Retryable =
     RunFailure step ''Retryable error with no recovery transition''"
  using static_run_loop [of env r] by (simp add: static_part_def state_snapshot_def)

section \<open>Static and runtime loop-back detection\<close>

lemma map_of_zip_position:
  "map_of (zip (map f xs) [k..<k + length xs]) i = map_option (\<lambda>j. j + k) (position (\<lambda>x. f x = i) xs)"
proof (induction xs arbitrary: k)
  case (Cons x xs)
  have "[k..<k + length (x # xs)] = k # [Suc k..<Suc k + length xs]"
    by (subst upt_conv_Cons) simp_all
  then show ?case using Cons [of "Suc k"] by (simp add: option.map_comp comp_def)
qed simp

lemma map_of_rev_distinct: "distinct (map fst xs) \<Longrightarrow> map_of (rev xs) = map_of xs"
proof (induction xs)
  case (Cons x xs)
  then have "map_of xs (fst x) = None" by (simp add: map_of_eq_None_iff)
  then show ?case using Cons by (cases x) (auto simp: map_add_def fun_eq_iff split: option.splits)
qed simp

lemma index_of_position:
  assumes "distinct (map sd_step_id (wt_steps w))"
  shows "index_of w i = step_position w i"
proof -
  let ?z = "zip (map sd_step_id (wt_steps w)) [0..<length (wt_steps w)]"
  have "map fst ?z = map sd_step_id (wt_steps w)" by (rule map_fst_zip) simp
  then have "map_of (rev ?z) = map_of ?z" using assms by (intro map_of_rev_distinct) simp
  then show ?thesis
    using map_of_zip_position [of sd_step_id "wt_steps w" 0 i] by (simp add: index_of_def step_position_def option.map_ident)
qed

text \<open>
  C5: static validation covers the runtime loop limits. In a validated workflow whose step
  identifiers are distinct, every loop-back edge the engine can take carries an explicit cap,
  so the engine counts it against that declared cap and never against the global default.
\<close>

theorem validated_loop_backs_use_declared_caps:
  assumes "validate_workflow_graph (er_workflow r) = Ok ()"
    and "distinct (map sd_step_id (wt_steps (er_workflow r)))"
    and "find_transition step oc (wt_transitions (er_workflow r)) = Some t"
    and "is_loop_back (er_workflow r) step (td_to t)"
  shows "\<exists>cap. td_max_iterations t = Some cap \<and> edge_limit r (Some t) = cap"
proof -
  have t: "t \<in> set (wt_transitions (er_workflow r))" "td_from t = step"
    using find_transitionD [OF assms(3)] by auto
  have "loop_backs_capped (er_workflow r)"
    using assms(1) by (simp add: validate_workflow_graph_iff well_formed_graph_def)
  with t assms(4) have "td_max_iterations t \<noteq> None"
    by (auto simp: loop_backs_capped_def index_of_position [OF assms(2)] is_loop_back_def split: option.splits)
  then show ?thesis by (auto simp: edge_limit_def)
qed

theorem validated_loop_backs_use_declared_caps_witness:
  "edge_limit (demo_runner False) (Some (demo_transition ''work'' ''work'' (Some ''fixable'') (Some 2))) = 2"
proof -
  have "validate_workflow_graph (er_workflow (demo_runner False)) = Ok ()"
    "distinct (map sd_step_id (wt_steps (er_workflow (demo_runner False))))"
    "find_transition ''work'' Fixable (wt_transitions (er_workflow (demo_runner False))) =
       Some (demo_transition ''work'' ''work'' (Some ''fixable'') (Some 2))"
    "is_loop_back (er_workflow (demo_runner False)) ''work'' (td_to (demo_transition ''work'' ''work'' (Some ''fixable'') (Some 2)))"
    by code_simp+
  from validated_loop_backs_use_declared_caps [OF this] show ?thesis by (simp add: demo_transition_def)
qed

text \<open>Two steps with one identifier: the validator sees the last, the engine the first.\<close>

definition duplicate_step_workflow :: WorkflowType where
  "duplicate_step_workflow =
     demo_workflow\<lparr>wt_steps := [demo_step ''b'', demo_step ''a'', demo_step ''b''],
       wt_transitions := [demo_transition ''b'' ''a'' None (Some 5), demo_transition ''a'' ''b'' (Some ''fixable'') None]\<rparr>"

text \<open>
  With a repeated step identifier the two notions differ: a workflow passes the whole
  validation although one of its uncapped transitions is a loop-back at runtime.
\<close>

theorem duplicate_ids_escape_loop_validation:
  "validate_workflow_graph duplicate_step_workflow = Ok () \<and>
   map_option td_max_iterations (find_transition ''a'' Fixable (wt_transitions duplicate_step_workflow)) = Some None \<and>
   is_loop_back duplicate_step_workflow ''a'' ''b''"
  by code_simp

section \<open>Persisting a step is atomic\<close>

lemma get_after_save:
  "checkpoints_ok rows \<Longrightarrow>
   get_checkpoint_for_step (cp_run_id cp) (cp_step_id cp) (save_checkpoint_with_conn cp rows) = Some (stored_view cp)"
  using get_checkpoint_for_step_row [OF checkpoints_ok_save, of rows "row_of_checkpoint cp" cp]
  by (simp add: set_save checkpoint_of_row_of_checkpoint)

lemma run_metadata_ops_id [simp]:
  "rm_run_id (set_current_step now st m) = rm_run_id m"
  "rm_run_id (set_previous_step_and_outcome now st oc m) = rm_run_id m"
  "rm_run_id (set_next_step_candidates now cs m) = rm_run_id m"
  "rm_previous_step (set_current_step now st m) = rm_previous_step m"
  "rm_previous_step (set_next_step_candidates now cs m) = rm_previous_step m"
  "rm_previous_outcome (set_current_step now st m) = rm_previous_outcome m"
  "rm_previous_outcome (set_next_step_candidates now cs m) = rm_previous_outcome m"
  "rm_previous_step (set_previous_step_and_outcome now st oc m) = Some st"
  "rm_previous_outcome (set_previous_step_and_outcome now st oc m) = Some oc"
  "rm_failure_cleanup (set_current_step now st m) = rm_failure_cleanup m"
  "rm_status (set_current_step now st m) = rm_status m"
  by (simp_all add: set_current_step_def set_previous_step_and_outcome_def set_next_step_candidates_def)

lemma get_run_id: "get_run_with_conn run runs = Some m \<Longrightarrow> rm_run_id m = run"
  by (auto simp: get_run_with_conn_def dest: lookup_by_SomeD)

text \<open>What a committed registry update leaves behind.\<close>

definition step_recorded :: "string \<Rightarrow> string \<Rightarrow> StepOutcome \<Rightarrow> Db \<Rightarrow> Db \<Rightarrow> bool" where
  "step_recorded run st oc db db' \<longleftrightarrow>
     db_checkpoints db' = db_checkpoints db \<and> (\<exists>es. db_events db' = db_events db @ es) \<and>
     (\<exists>md. get_run_with_conn run (db_runs db') = Some md \<and> rm_previous_step md = Some st \<and>
        rm_previous_outcome md = Some (as_condition_str oc))"

lemma persist_registry_step_state_ok:
  assumes "persist_registry_step_state env st oc failure terminal r db = Ok db'"
  shows "step_recorded (er_run_id r) st oc db db'"
  using assms
  by (auto simp: persist_registry_step_state_def step_recorded_def Let_def append_event_db_def
      append_typed_event_with_conn_def get_run_after_persist
      split: option.splits result.splits if_splits prod.splits dest!: get_run_id)

lemma persist_ownership_registry_ok:
  assumes "persist_terminal_ownership_failure_registry env st oc cl f r db = Ok db'"
  shows "step_recorded (er_run_id r) st oc db db'"
  using assms
  by (auto simp: persist_terminal_ownership_failure_registry_def step_recorded_def Let_def append_event_db_def
      append_typed_event_with_conn_def get_run_after_persist
      split: option.splits result.splits if_splits dest!: get_run_id)

text \<open>
  C6: recording a step is all or nothing. If it fails, the runner and the whole database are
  exactly as before; if it succeeds, the step's completed checkpoint, its outcome event (after
  every earlier event) and, for a registered run, the metadata's previous step and outcome are
  all in the database, on the ownership-denied path as well.
\<close>

theorem persist_step_result_atomic:
  assumes "checkpoints_ok (db_checkpoints (er_db r))"
  shows "(case persist_step_result env st oc nxt r of
      (r', Err e) \<Rightarrow> r' = r
    | (r', Ok _) \<Rightarrow>
        get_checkpoint_for_step (er_run_id r) st (db_checkpoints (er_db r')) =
          Some (stored_view (create_checkpoint env st ''completed'' r)) \<and>
        (\<exists>d later. db_events (er_db r') =
           db_events (er_db r) @
           \<lparr>ev_run_id = er_run_id r, ev_step_id = st, ev_outcome = as_condition_str oc,
            ev_event_type = ''step_outcome'', ev_details = d, ev_timestamp = now_of env r\<rparr> # later) \<and>
        (er_persist_registry r \<longrightarrow>
           (\<exists>md. load_metadata r' = Some md \<and> rm_previous_step md = Some st \<and>
              rm_previous_outcome md = Some (as_condition_str oc))))"
proof -
  define cp where "cp = create_checkpoint env st ''completed'' r"
  define db1 where "db1 d = append_event_db env st (as_condition_str oc) EvStepOutcome d r
      (save_checkpoint_db cp (er_db r))" for d
  have cp: "cp_run_id cp = er_run_id r" "cp_step_id cp = st"
    by (simp_all add: cp_def create_checkpoint_def with_snapshot_def)
  have look: "get_checkpoint_for_step (er_run_id r) st (db_checkpoints (db1 d)) = Some (stored_view cp)" for d
    using get_after_save [OF assms, of cp] cp by (simp add: db1_def append_event_db_def save_checkpoint_db_def)
  have ev: "db_events (db1 d) = db_events (er_db r) @
      [\<lparr>ev_run_id = er_run_id r, ev_step_id = st, ev_outcome = as_condition_str oc,
        ev_event_type = ''step_outcome'', ev_details = d, ev_timestamp = now_of env r\<rparr>]" for d
    by (simp add: db1_def append_event_db_def save_checkpoint_db_def append_typed_event_with_conn_def)
  have rec: "get_checkpoint_for_step (er_run_id r) st (db_checkpoints db2) = Some (stored_view cp) \<and>
      (\<exists>d later. db_events db2 = db_events (er_db r) @
           \<lparr>ev_run_id = er_run_id r, ev_step_id = st, ev_outcome = as_condition_str oc,
            ev_event_type = ''step_outcome'', ev_details = d, ev_timestamp = now_of env r\<rparr> # later) \<and>
      (\<exists>md. get_run_with_conn (er_run_id r) (db_runs db2) = Some md \<and> rm_previous_step md = Some st \<and>
         rm_previous_outcome md = Some (as_condition_str oc))"
    if "step_recorded (er_run_id r) st oc (db1 d) db2" for d db2
    using that look [of d] ev [of d] by (fastforce simp: step_recorded_def)
  show ?thesis
    unfolding persist_step_result_def persist_terminal_ownership_failure_def Let_def
      cp_def [symmetric] db1_def [symmetric]
    using look ev
    by (auto simp: load_metadata_def split: result.splits EngineError.splits
        dest!: persist_registry_step_state_ok persist_ownership_registry_ok dest: rec)
qed

theorem persist_step_result_atomic_witness:
  "\<exists>md. load_metadata (fst (persist_step_result (demo_env Success) ''work'' Success (Some ''publish'') (demo_runner False)))
     = Some md \<and> rm_previous_step md = Some ''work''"
proof -
  let ?p = "persist_step_result (demo_env Success) ''work'' Success (Some ''publish'') (demo_runner False)"
  have "checkpoints_ok (db_checkpoints (er_db (demo_runner False)))" "er_persist_registry (demo_runner False)"
    "snd ?p = Ok ()"
    by code_simp+
  moreover obtain r' where "?p = (r', Ok ())" using calculation(3) by (metis prod.collapse)
  ultimately show ?thesis
    using persist_step_result_atomic [where r = "demo_runner False" and env = "demo_env Success"
        and st = "''work''" and oc = Success and nxt = "Some ''publish''"]
    by auto
qed

section \<open>Cleanup steps and their provenance\<close>

lemma find_transition_condition:
  assumes "find_transition step oc ts = Some t"
  shows "effective_condition (td_condition t) = as_condition_str oc"
  using find_transitionD [OF assms] by (simp add: matches_def)

lemma validated_cleanup_edge:
  assumes "cleanup_contract wt" and "find_transition step oc (wt_transitions wt) = Some t"
    and "is_failure_cleanup_step wt (td_to t)"
  shows "enters_cleanup wt oc (Some (td_to t))"
proof -
  obtain s where "s \<in> set (wt_steps wt)" "sd_step_id s = td_to t" "sd_step_type s = ''failure_cleanup''"
    using assms(3) by (auto simp: is_failure_cleanup_step_def list_ex_iff)
  then have "td_condition t \<in> {Some ''fatal'', Some ''retryable'', Some ''fixable''}"
    using assms(1) find_transitionD [OF assms(2)] unfolding cleanup_contract_def by metis
  then have "oc \<noteq> Success"
    using find_transition_condition [OF assms(2)] by (auto simp: effective_condition_def)
  then show ?thesis using assms(3) by (simp add: enters_cleanup_def)
qed

lemma persist_entering_cleanup:
  assumes "persist_step_result env st oc (Some nxt) r = (r', Ok ())"
    and "enters_cleanup (er_workflow r) oc (Some nxt)"
  shows "er_pending_failure_cleanup r' \<noteq> None"
  using assms
  by (auto simp: persist_step_result_def persist_terminal_ownership_failure_def failure_states_for_step_def Let_def
      split: result.splits EngineError.splits option.splits if_splits prod.splits)

lemma advance_pending:
  "advance_to_next_step env nxt oc r = (r', None) \<Longrightarrow>
   er_pending_failure_cleanup r' = er_pending_failure_cleanup r"
  by (auto simp: advance_to_next_step_def enforce_edge_limit_def Let_def split: if_splits option.splits)

lemma after_outcome_cleanup_provenance:
  assumes "after_outcome env oc r = (r', Continue)" and "cleanup_contract (er_workflow r)"
    and "is_failure_cleanup_step (er_workflow r') (er_current r')"
  shows "er_pending_failure_cleanup r' \<noteq> None"
proof -
  from after_outcome_Continue [OF assms(1)] obtain t where e: "takes_edge r r' oc t" by blast
  then have oc: "oc \<noteq> Abandon"
    and ft: "find_transition (er_current r) oc (wt_transitions (er_workflow r)) = Some t"
    by (auto simp: takes_edge_def)
  have nxt: "resolve_next_step r (er_current r) oc = Some (td_to t)"
    by (simp add: resolve_next_step_def find_transition_resolve ft)
  obtain r1 res where p: "persist_step_result env (er_current r) oc (Some (td_to t)) r = (r1, res)" by fastforce
  with assms(1) oc nxt have "res = Ok ()" and adv: "advance_to_next_step env (td_to t) oc r1 = (r', None)"
    by (auto simp: after_outcome_def Let_def split: result.splits if_splits option.splits prod.splits)
  moreover have "enters_cleanup (er_workflow r) oc (Some (td_to t))"
    using validated_cleanup_edge [OF assms(2) ft] assms(3) takes_edge_same [OF e] by simp
  ultimately show ?thesis
    using persist_entering_cleanup p advance_pending [OF adv] by metis
qed

lemma loop_body_cleanup_provenance:
  assumes "loop_body env r = (r', Continue)" and "cleanup_contract (er_workflow r)"
    and "is_failure_cleanup_step (er_workflow r') (er_current r')"
  shows "er_pending_failure_cleanup r' \<noteq> None"
proof -
  define p where "p = poll_interrupt env r"
  obtain r1 res1 where s1: "prepare_step_start env (er_current p) p = (r1, res1)" by fastforce
  obtain r2 res2 where s2: "step_outcome_or_error env (er_current p) r1 = (r2, res2)" by fastforce
  have "control r1 = control p" by (metis control_prepare fst_conv s1)
  moreover have "control r2 = control r1" by (metis control_step_outcome fst_conv s2)
  ultimately have "control (poll_interrupt env r2) = control r" by (simp add: control_frame p_def)
  then have wt: "er_workflow (poll_interrupt env r2) = er_workflow r" by (simp add: control_def)
  from assms(1) s1 s2 obtain oc where "after_outcome env oc (poll_interrupt env r2) = (r', Continue)"
    unfolding loop_body_def p_def [symmetric]
    by (auto simp: Let_def split: result.splits if_splits prod.splits)
  from after_outcome_cleanup_provenance [OF this] show ?thesis using assms(2,3) wt by simp
qed

lemma prepare_ok:
  assumes "is_failure_cleanup_step (er_workflow r) st \<Longrightarrow> er_pending_failure_cleanup r \<noteq> None"
  shows "snd (prepare_step_start env st (poll_interrupt env r)) = Ok ()"
proof -
  let ?r = "(poll_interrupt env r)\<lparr>er_context := set_current_step_id st (er_context (poll_interrupt env r))\<rparr>"
  have "er_workflow ?r = er_workflow r" "er_pending_failure_cleanup ?r = er_pending_failure_cleanup r"
    by (simp_all add: poll_interrupt_def Let_def split: prod.split)
  then show ?thesis using assms
    by (auto simp: prepare_step_start_def Let_def failure_provenance_def split: option.splits)
qed

text \<open>
  C7: in a validated workflow a cleanup step is never entered without the provenance of the
  failed work. Along every run that starts at the entry step, the preparation of each next
  step succeeds; the error for a cleanup step that lacks provenance cannot occur.
\<close>

theorem cleanup_always_has_provenance:
  assumes "validate_workflow_graph (er_workflow r) = Ok ()"
    and "er_current r = first_step_state (er_workflow r)"
    and "loop_run env r es r'"
  shows "snd (prepare_step_start env (er_current r') (poll_interrupt env r')) = Ok ()"
proof -
  have contract: "cleanup_contract (er_workflow r)"
    using assms(1) by (simp add: validate_workflow_graph_iff well_formed_graph_def)
  have "is_failure_cleanup_step (er_workflow r') (er_current r') \<Longrightarrow> er_pending_failure_cleanup r' \<noteq> None"
    using assms(3)
  proof (cases rule: loop_run.cases)
    case run_here
    then have "\<not> is_failure_cleanup_step (er_workflow r') (er_current r')"
      using contract assms(2) by (auto simp: is_failure_cleanup_step_def list_ex_iff cleanup_contract_def)
    then show "is_failure_cleanup_step (er_workflow r') (er_current r') \<Longrightarrow> ?thesis" by blast
  next
    case (run_on es r1 oc t)
    then show "is_failure_cleanup_step (er_workflow r') (er_current r') \<Longrightarrow> ?thesis"
      using loop_body_cleanup_provenance contract loop_run_workflow(1) by metis
  qed
  then show ?thesis by (rule prepare_ok)
qed

lemma demo_cleanup_edge:
  "loop_body (demo_env Fatal) (demo_runner False) =
     (fst (loop_body (demo_env Fatal) (demo_runner False)), Continue)"
  "takes_edge (demo_runner False) (fst (loop_body (demo_env Fatal) (demo_runner False))) Fatal
     (demo_transition ''work'' ''cleanup'' (Some ''fatal'') None)"
  by code_simp+

theorem cleanup_always_has_provenance_witness:
  "snd (prepare_step_start (demo_env Fatal) ''cleanup''
     (poll_interrupt (demo_env Fatal) (fst (loop_body (demo_env Fatal) (demo_runner False))))) = Ok ()"
proof -
  have "validate_workflow_graph (er_workflow (demo_runner False)) = Ok ()"
    "er_current (demo_runner False) = first_step_state (er_workflow (demo_runner False))"
    "er_current (fst (loop_body (demo_env Fatal) (demo_runner False))) = ''cleanup''"
    by code_simp+
  then show ?thesis
    using cleanup_always_has_provenance [OF _ _ run_on [OF run_here demo_cleanup_edge]] by simp
qed

end
