(* ===== verification/Failure_Properties.thy ===== *)
theory Failure_Properties
  imports Runner_Properties
begin

text \<open>
  Properties of the failure paths of the engine: failure provenance holds only public texts
  along every run, a run whose workspace fails the ownership check is stopped for good, and
  an interrupted run resumes where it stopped.
\<close>

section \<open>Failure reasons are public\<close>

text \<open>The reasons the engine may publish: the outcome and the step, a category of the fixed list, or the denial.\<close>

definition outcome_reason :: "string \<Rightarrow> StepOutcome \<Rightarrow> string" where
  "outcome_reason st oc = as_condition_str oc @ '' outcome at '' @ st"

definition category_reason :: "string \<Rightarrow> StepOutcome \<Rightarrow> string \<Rightarrow> string" where
  "category_reason st oc c = c @ '' ('' @ as_condition_str oc @ '' at '' @ st @ '')''"

definition denial_reason :: "string \<Rightarrow> string" where
  "denial_reason cleanup = ''workspace ownership denied before cleanup step '' @ cleanup"

definition public_reasons :: "FailureCleanupState \<Rightarrow> string set" where
  "public_reasons f =
     range (outcome_reason (fc_failed_step f)) \<union>
     (\<Union>oc. category_reason (fc_failed_step f) oc ` set SAFE_FAILURE_CATEGORIES) \<union>
     {denial_reason (fc_cleanup_step f)}"

definition public_provenance :: "'w EngineRunner \<Rightarrow> bool" where
  "public_provenance r \<longleftrightarrow>
     (\<forall>f. er_pending_failure_cleanup r = Some f \<or>
          Option.bind (load_metadata r) rm_failure_cleanup = Some f \<longrightarrow> fc_failure_reason f \<in> public_reasons f)"

lemma public_failure_reason_mem:
  "fc_failure_reason (build_failure_cleanup_state env st nxt oc cp r) \<in>
     public_reasons (build_failure_cleanup_state env st nxt oc cp r)"
proof -
  have "public_failure_reason st oc category \<in>
      range (outcome_reason st) \<union> (\<Union>oc. category_reason st oc ` set SAFE_FAILURE_CATEGORIES)" for category
    unfolding public_failure_reason_def is_safe_failure_category_def
      outcome_reason_def [symmetric] category_reason_def [symmetric]
    by (auto split: option.split)
  then show ?thesis by (auto simp: build_failure_cleanup_state_def public_reasons_def)
qed

lemma ownership_reason_mem:
  "fc_failure_reason (build_terminal_ownership_failure_state env st oc cl cp r) \<in>
     public_reasons (build_terminal_ownership_failure_state env st oc cl cp r)"
  by (simp add: build_terminal_ownership_failure_state_def public_reasons_def denial_reason_def)

lemma public_reasons_complete:
  "public_reasons (f\<lparr>fc_cleanup_succeeded := b, fc_cleanup_completed_at := t\<rparr>) = public_reasons f"
  by (simp add: public_reasons_def)

text \<open>Operations that leave the run's provenance alone.\<close>

definition provenance :: "'w EngineRunner \<Rightarrow> FailureCleanupState option \<times> FailureCleanupState option" where
  "provenance r = (er_pending_failure_cleanup r, Option.bind (load_metadata r) rm_failure_cleanup)"

named_theorems provenance_frame \<open>operations that leave the provenance alone\<close>

lemma public_of_provenance: "provenance a = provenance b \<Longrightarrow> public_provenance a = public_provenance b"
  by (auto simp: public_provenance_def provenance_def)

lemma provenance_updates [provenance_frame]:
  "provenance (r\<lparr>er_context := c\<rparr>) = provenance r"
  "provenance (r\<lparr>er_interrupted := i\<rparr>) = provenance r"
  "provenance (r\<lparr>er_world := w\<rparr>) = provenance r"
  "provenance (r\<lparr>er_edge_loop_counts := n\<rparr>) = provenance r"
  "provenance (r\<lparr>er_instance := transition_to s (er_instance r)\<rparr>) = provenance r"
  "provenance (r\<lparr>er_db := (er_db r)\<lparr>db_leases := ls\<rparr>\<rparr>) = provenance r"
  by (simp_all add: provenance_def load_metadata_def)

lemma provenance_event [provenance_frame]: "provenance (record_event env ty st oc d r) = provenance r"
  by (simp add: provenance_def load_metadata_def record_event_def)

lemma provenance_persist:
  "load_metadata r = Some md \<Longrightarrow> rm_run_id m = er_run_id r \<Longrightarrow> rm_failure_cleanup m = rm_failure_cleanup md \<Longrightarrow>
   provenance (persist_metadata m r) = provenance r"
  by (simp add: provenance_def load_metadata_def persist_metadata_def get_run_after_persist)

lemma provenance_heartbeat [provenance_frame]: "provenance (heartbeat_owned_lease env r) = provenance r"
  by (simp add: heartbeat_owned_lease_def provenance_frame split: option.split result.split)

lemma provenance_poll [provenance_frame]: "provenance (poll_interrupt env r) = provenance r"
  by (simp add: poll_interrupt_def Let_def provenance_frame split: prod.split)

lemma load_metadata_id: "load_metadata r = Some md \<Longrightarrow> rm_run_id md = er_run_id r"
  unfolding load_metadata_def by (rule get_run_id)

lemma provenance_prepare [provenance_frame]: "provenance (fst (prepare_step_start env st r)) = provenance r"
proof -
  have m: "provenance (case load_metadata r3 of
      Some md \<Rightarrow> persist_metadata (set_next_step_candidates now cs (set_current_step now st md)) r3
    | None \<Rightarrow> r3) = provenance r3" for r3 :: "'a EngineRunner" and now cs
    by (auto split: option.split intro!: provenance_persist dest: load_metadata_id
        simp: set_next_step_candidates_def set_current_step_def)
  show ?thesis
    by (simp add: prepare_step_start_def Let_def provenance_frame m split: option.split)
qed

lemma provenance_step_outcome [provenance_frame]:
  "provenance (fst (step_outcome_or_error env st r)) = provenance r"
proof -
  obtain r1 res where e: "execute_step env st r = (r1, res)" by fastforce
  then have "provenance r1 = provenance r"
    by (auto simp: execute_step_def Let_def provenance_frame split: option.splits result.splits prod.splits)
  with e show ?thesis
    by (simp add: step_outcome_or_error_def execute_current_step_def Let_def provenance_frame
        split: result.split EngineError.split)
qed


abbreviation public_state :: "FailureCleanupState \<Rightarrow> bool" where
  "public_state f \<equiv> fc_failure_reason f \<in> public_reasons f"

lemma public_failure_states:
  assumes "failure_states_for_step env st oc nxt cp r = Ok (failure, terminal)" and "public_provenance r"
  shows "pred_option public_state failure \<and> pred_option public_state terminal"
proof
  show "pred_option public_state failure"
    using assms(1) public_failure_reason_mem
    by (cases nxt) (auto simp: failure_states_for_step_def Let_def split: option.splits if_splits)
  have old: "public_state f" if "failure_provenance r = Some f" for f
    using assms(2) that
    by (auto simp: failure_provenance_def public_provenance_def split: option.splits)
  show "pred_option public_state terminal"
    using assms(1) old
    by (auto simp: failure_states_for_step_def Let_def public_reasons_complete pred_option_def
        split: option.splits if_splits)
qed

lemma registry_provenance:
  assumes "persist_registry_step_state env st oc failure terminal r db = Ok db'"
  shows "Option.bind (get_run_with_conn (er_run_id r) (db_runs db')) rm_failure_cleanup =
    (case terminal of Some f \<Rightarrow> Some f | None \<Rightarrow>
      (case failure of Some f \<Rightarrow> Some f | None \<Rightarrow>
         Option.bind (get_run_with_conn (er_run_id r) (db_runs db)) rm_failure_cleanup))"
  using assms
  by (auto simp: persist_registry_step_state_def Let_def append_event_db_def get_run_after_persist
      set_next_step_candidates_def set_previous_step_and_outcome_def
      split: option.splits result.splits if_splits prod.splits dest!: get_run_id)

lemma ownership_registry_provenance:
  assumes "persist_terminal_ownership_failure_registry env st oc cl f r db = Ok db'"
  shows "Option.bind (get_run_with_conn (er_run_id r) (db_runs db')) rm_failure_cleanup = Some f"
  using assms
  by (auto simp: persist_terminal_ownership_failure_registry_def Let_def append_event_db_def get_run_after_persist
      split: option.splits result.splits dest!: get_run_id)

lemma public_persist_ownership:
  assumes "public_provenance r"
  shows "public_provenance (fst (persist_terminal_ownership_failure env st oc nxt details r))"
proof -
  have "public_provenance r'"
    if "persist_terminal_ownership_failure env st oc nxt details r = (r', Ok ())" for r'
    using that assms ownership_reason_mem
    by (auto simp: persist_terminal_ownership_failure_def Let_def public_provenance_def load_metadata_def
        append_event_db_def save_checkpoint_db_def
        split: result.splits if_splits dest!: ownership_registry_provenance)
  moreover have "r' = r"
    if "persist_terminal_ownership_failure env st oc nxt details r = (r', Err e)" for r' e
    using that by (auto simp: persist_terminal_ownership_failure_def Let_def split: result.splits)
  ultimately show ?thesis using assms
    by (cases "persist_terminal_ownership_failure env st oc nxt details r" rule: prod.exhaust)
       (metis fst_conv old.unit.exhaust result.exhaust)
qed

lemma public_persist:
  assumes "public_provenance r"
  shows "public_provenance (fst (persist_step_result env st oc nxt r))"
proof (cases "verify_failure_cleanup_workspace env oc nxt r")
  case (Err e)
  then show ?thesis using assms public_persist_ownership
    by (auto simp: persist_step_result_def split: EngineError.split)
next
  case (Ok v)
  define cp where "cp = create_checkpoint env st ''completed'' r"
  show ?thesis
  proof (cases "failure_states_for_step env st oc nxt cp r")
    case (Err e)
    then show ?thesis using assms Ok by (simp add: persist_step_result_def Let_def cp_def)
  next
    case states: (Ok fs)
    obtain failure terminal where fs: "fs = (failure, terminal)" by fastforce
    note pub = public_failure_states [OF states [unfolded fs] assms]
    show ?thesis
      unfolding persist_step_result_def Ok Let_def cp_def [symmetric] states fs
      using assms pub
      by (auto simp: public_provenance_def load_metadata_def append_event_db_def save_checkpoint_db_def
          split: result.splits option.splits dest!: registry_provenance)
  qed
qed


text \<open>
  The merge completion of a merge-required run is a parameter of the engine. What the runs rely on:
  it leaves the failure provenance of every run as it is (\<open>Merge_Properties.merge_keeps_failure_cleanup\<close>
  proves it of the modelled completion).
\<close>

definition recorded_cleanup :: "Db \<Rightarrow> string \<Rightarrow> FailureCleanupState option" where
  "recorded_cleanup db run = Option.bind (get_run_with_conn run (db_runs db)) rm_failure_cleanup"

definition merge_keeps_provenance :: "'w Env \<Rightarrow> bool" where
  "merge_keeps_provenance env \<longleftrightarrow>
     (\<forall>run wd db w. recorded_cleanup (fst (snd (env_complete_merge env run wd db w))) = recorded_cleanup db)"

lemma provenance_recorded: "provenance r = (er_pending_failure_cleanup r, recorded_cleanup (er_db r) (er_run_id r))"
  by (simp add: provenance_def recorded_cleanup_def load_metadata_def)

lemma provenance_save [provenance_frame]: "provenance (r\<lparr>er_db := save_checkpoint_db cp (er_db r)\<rparr>) = provenance r"
  by (simp add: provenance_def load_metadata_def save_checkpoint_db_def)

lemma provenance_completion [provenance_frame]:
  assumes "merge_keeps_provenance env"
  shows "provenance (fst (record_run_completion env oc st r)) = provenance r"
proof -
  define status where "status = status_for_completion oc (wc_merge_required (wi_config (er_instance r)))"
  define md0 where "md0 = (case load_metadata r of Some m \<Rightarrow> m | None \<Rightarrow> build_metadata env status r)"
  define r1 where "r1 = persist_metadata (set_current_step (now_of env r) st (md0\<lparr>rm_status := status\<rparr>)) r"
  have r1: "provenance r1 = provenance r"
    by (auto simp: r1_def md0_def provenance_def load_metadata_def persist_metadata_def get_run_after_persist
        set_current_step_def build_metadata_def run_metadata_new_def Let_def split: option.splits dest: get_run_id)
  obtain out db w where merged: "env_complete_merge env (er_run_id r) (cx_work_dir (er_context r)) (er_db r1) (er_world r1) = (out, db, w)"
    by (metis prod_cases3)
  then have "recorded_cleanup db = recorded_cleanup (er_db r1)"
    using assms unfolding merge_keeps_provenance_def by (metis fst_conv snd_conv)
  moreover have "er_run_id r1 = er_run_id r" "er_pending_failure_cleanup r1 = er_pending_failure_cleanup r"
    by (simp_all add: r1_def persist_metadata_def)
  ultimately have r2: "provenance (r1\<lparr>er_db := db, er_world := w\<rparr>) = provenance r"
    using r1 by (simp add: provenance_recorded)
  have "record_run_completion env oc st r =
      (if \<not> er_persist_registry r then (r, Ok ())
       else if status = RReviewReady
       then (case out of
               McMerged \<Rightarrow> (record_event env EvTerminalState st (run_status_to_string RMerged) None (r1\<lparr>er_db := db, er_world := w\<rparr>), Ok ())
             | McNotYetMerged \<Rightarrow> (r1\<lparr>er_db := db, er_world := w\<rparr>, Ok ())
             | other \<Rightarrow> (r1\<lparr>er_db := db, er_world := w\<rparr>, Err (EnginePersistenceError
                               (''typed merge completion failed: '' @ env_merge_debug env other))))
       else (record_event env EvTerminalState st (run_status_to_string status) None r1, Ok ()))"
    unfolding record_run_completion_def Let_def status_def [symmetric] md0_def [symmetric] r1_def [symmetric] merged
    by simp
  then show ?thesis using r1 r2 by (simp add: provenance_frame split: MergeCompletionOutcome.split)
qed

lemma provenance_interrupt [provenance_frame]:
  assumes "merge_keeps_provenance env"
  shows "provenance (fst (interrupt_at_step env st r)) = provenance r"
  by (simp add: interrupt_at_step_def Let_def provenance_completion [OF assms] provenance_frame)

lemma provenance_abandon [provenance_frame]:
  assumes "merge_keeps_provenance env"
  shows "provenance (fst (abandon_at_step env st r)) = provenance r"
  by (simp add: abandon_at_step_def Let_def provenance_completion [OF assms])

lemma provenance_advance:
  assumes "merge_keeps_provenance env"
  shows "provenance (fst (advance_to_next_step env nxt oc r)) = provenance r"
proof -
  have counts: "provenance (r\<lparr>er_edge_loop_counts := n, er_instance := transition_to nxt (er_instance r)\<rparr>) = provenance r" for n
    by (simp add: provenance_def load_metadata_def)
  show ?thesis
    by (simp add: advance_to_next_step_def enforce_edge_limit_def Let_def provenance_completion [OF assms] provenance_frame counts)
qed

lemma public_finish:
  assumes "merge_keeps_provenance env" and "public_provenance r"
  shows "public_provenance (fst (finish_without_transition env st oc r))"
proof -
  have "public_provenance (r\<lparr>er_pending_failure_cleanup := Some f\<rparr>)" if "failure_provenance r = Some f" for f
    using that assms(2) by (auto simp: failure_provenance_def public_provenance_def load_metadata_def split: option.splits)
  moreover have "provenance (fst (pause_for_external_wait env st r)) = provenance r"
    by (simp add: pause_for_external_wait_def Let_def split_beta provenance_completion [OF assms(1)] provenance_frame)
  ultimately show ?thesis
    using assms(2) provenance_completion [OF assms(1)]
    by (auto simp: finish_without_transition_def Let_def split_beta split: option.split dest!: public_of_provenance)
qed

lemma public_after_outcome:
  assumes merge: "merge_keeps_provenance env" and "public_provenance r"
  shows "public_provenance (fst (after_outcome env oc r))"
proof -
  obtain r1 res where p: "persist_step_result env (er_current r) oc
      (if oc = Abandon then None else resolve_next_step r (er_current r) oc) r = (r1, res)" by fastforce
  then have r1: "public_provenance r1" by (metis public_persist [OF assms(2)] fst_conv)
  then have "public_provenance (fst (finish_without_transition env st oc' r1))"
    "public_provenance (fst (abandon_at_step env st r1))"
    "public_provenance (fst (advance_to_next_step env nxt oc' r1))" for st oc' nxt
    using public_finish [OF merge r1] public_of_provenance [OF provenance_abandon [OF merge]]
      public_of_provenance [OF provenance_advance [OF merge]] by blast+
  with r1 show ?thesis
    unfolding after_outcome_def Let_def p
    by (simp add: split_beta split: result.split option.split)
qed

lemma public_loop_body:
  assumes merge: "merge_keeps_provenance env" and "public_provenance r"
  shows "public_provenance (fst (loop_body env r))"
proof -
  define p where "p = poll_interrupt env r"
  define r1 where "r1 = fst (prepare_step_start env (er_current p) p)"
  define r2 where "r2 = fst (step_outcome_or_error env (er_current p) r1)"
  have "provenance p = provenance r" "provenance r1 = provenance r" "provenance r2 = provenance r"
    "provenance (poll_interrupt env r2) = provenance r"
    by (simp_all add: p_def r1_def r2_def provenance_frame)
  then have pub: "public_provenance p" "public_provenance r1" "public_provenance r2" "public_provenance (poll_interrupt env r2)"
    using assms(2) public_of_provenance by metis+
  then have "public_provenance (fst (interrupt_at_step env (er_current p) p))"
    "public_provenance (fst (interrupt_at_step env (er_current p) (poll_interrupt env r2)))"
    using public_of_provenance [OF provenance_interrupt [OF merge]] by blast+
  with pub public_after_outcome [OF merge pub(4)] show ?thesis
    unfolding loop_body_def p_def [symmetric] Let_def
    by (simp add: split_beta r1_def [symmetric] r2_def [symmetric] split: result.split)
qed

lemma public_run_transition_loop:
  assumes "merge_keeps_provenance env" and "public_provenance r"
  shows "public_provenance (fst (run_transition_loop env r))"
  using assms
proof (induction env r rule: run_transition_loop.induct)
  case (1 env r)
  obtain r' res where body: "loop_body env r = (r', res)" by fastforce
  then have "public_provenance r'" using public_loop_body [OF 1(2,3)] by simp
  then show ?case
    using body 1(1,2) by (cases res) (simp_all add: run_transition_loop.simps [of env r])
qed

lemma public_resume:
  assumes "public_provenance r"
  shows "public_provenance (fst (resume_from_checkpoint env r))"
proof -
  have restored: "provenance (fst (restore_into env payload r)) = provenance r" for payload
    by (simp add: restore_into_def split_beta provenance_frame)
  have at: "provenance (resume_at st snap r1) = provenance r1" for st snap and r1 :: "'a EngineRunner"
    by (simp add: resume_at_def provenance_def load_metadata_def transition_to_def)
  have pending: "public_provenance ((resume_at st snap (fst (restore_into env payload r)))\<lparr>er_pending_failure_cleanup := Some f\<rparr>)"
    if "Option.bind (load_metadata r) rm_failure_cleanup = Some f" for st snap payload f
    using that assms at restored
    by (auto simp: public_provenance_def provenance_def load_metadata_def resume_at_def restore_into_def split_beta transition_to_def)
  have "public_provenance (resume_at st snap (fst (restore_into env payload r)))" "public_provenance (fst (restore_into env payload r))"
    for st snap payload
    using public_of_provenance at restored assms by metis+
  with pending assms show ?thesis
    by (auto simp: resume_from_checkpoint_def Let_def split_beta split: option.split result.split)
qed

lemma public_start: "public_provenance r \<Longrightarrow> public_provenance (mark_run_started env r)"
proof -
  have "provenance (mark_run_started env r) = provenance r"
    by (auto simp: mark_run_started_def mark_started_def split: option.split intro!: provenance_persist dest: load_metadata_id)
  then show "public_provenance r \<Longrightarrow> ?thesis" using public_of_provenance by blast
qed

text \<open>
  C8: failure provenance never carries raw diagnostics. Starting from a runner whose provenance
  (durable and in memory) is public, the provenance is public after every iteration of the loop,
  the one that ends the run included, at the end of a run of the loop and of a resumed run,
  whatever texts the executors put into the context: the recorded failure reason is the outcome
  and step, one of the seven fixed categories with them, or the ownership denial of the cleanup
  step.
\<close>

theorem failure_reasons_stay_public:
  assumes "merge_keeps_provenance env" and "public_provenance r"
  shows "public_provenance (fst (loop_body env r)) \<and> (\<forall>es r'. loop_run env r es r' \<longrightarrow> public_provenance r') \<and>
    public_provenance (fst (run_transition_loop env r)) \<and> public_provenance (fst (engine_run env r))"
proof -
  have "public_provenance r'" if "loop_run env r es r'" for es r'
    using that assms by (induction rule: loop_run.induct) (auto dest: public_loop_body)
  moreover have "public_provenance (fst (engine_run env r))"
    using public_run_transition_loop [OF assms(1) public_start [OF public_resume [OF assms(2), of env]]]
      public_resume [OF assms(2), of env]
    by (simp add: engine_run_def split_beta split: result.split)
  ultimately show ?thesis
    using public_loop_body [OF assms] public_run_transition_loop [OF assms] by blast
qed

lemma run_transition_loop_ends:
  "snd (loop_body env r) \<noteq> Continue \<Longrightarrow> fst (run_transition_loop env r) = fst (loop_body env r)"
  by (subst run_transition_loop.simps) (auto split: prod.splits loop_result.splits)

lemma demo_merge_keeps_provenance: "merge_keeps_provenance (demo_env oc)"
  by (simp add: merge_keeps_provenance_def demo_env_def)

text \<open>A run whose failed step is denied its cleanup: the denial is recorded in the iteration that ends it.\<close>

theorem failure_reasons_stay_public_witness:
  "public_provenance (fst (engine_run (demo_env Fatal) (demo_runner True))) \<and>
   map_option fc_failure_reason (er_pending_failure_cleanup (fst (engine_run (demo_env Fatal) (demo_runner True))))
     = Some ''workspace ownership denied before cleanup step cleanup''"
proof -
  let ?r = "demo_runner True"
  let ?s = "mark_run_started (demo_env Fatal) (fst (resume_from_checkpoint (demo_env Fatal) ?r))"
  have "er_pending_failure_cleanup ?r = None \<and> Option.bind (load_metadata ?r) rm_failure_cleanup = None"
    by code_simp
  then have "public_provenance ?r" by (simp add: public_provenance_def)
  moreover have "is_ok (snd (resume_from_checkpoint (demo_env Fatal) ?r))"
    "map_option fc_failure_reason (er_pending_failure_cleanup (fst (loop_body (demo_env Fatal) ?s))) =
      Some ''workspace ownership denied before cleanup step cleanup''"
    "snd (loop_body (demo_env Fatal) ?s) \<noteq> Continue"
    by code_simp+
  then have "map_option fc_failure_reason (er_pending_failure_cleanup (fst (engine_run (demo_env Fatal) ?r))) =
      Some ''workspace ownership denied before cleanup step cleanup''"
    by (cases "snd (resume_from_checkpoint (demo_env Fatal) ?r)")
       (simp_all add: engine_run_def split_beta run_transition_loop_ends)
  ultimately show ?thesis
    using failure_reasons_stay_public [OF demo_merge_keeps_provenance] by blast
qed

section \<open>Ownership denial is terminal\<close>

text \<open>Failing the lease of a denied run cannot itself fail, and only ever writes \<open>failed\<close>.\<close>

lemma fail_owned_lease_ok:
  "\<exists>ls'. fail_owned_lease_for_ownership_denial env md r ls = Ok ls' \<and>
     (\<forall>l \<in> set ls'. l \<in> set ls \<or> il_status l = LFailed)"
proof (cases "issue_lease_number md")
  case None
  then show ?thesis by (auto simp: fail_owned_lease_for_ownership_denial_def split: option.split)
next
  case (Some n)
  then obtain i where "issue_number_to_sql_i64 n = Ok i" using issue_lease_number_fits by blast
  then show ?thesis using Some
    by (auto simp: fail_owned_lease_for_ownership_denial_def get_lease_for_issue_def
        update_lease_status_conditional_def set_update_where set_lease_status_def split: option.split)
qed

lemma denial_registry_ok:
  assumes "get_run_with_conn (er_run_id r) (db_runs db) = Some md0"
  shows "\<exists>db' md. persist_terminal_ownership_failure_registry env st oc cl f r db = Ok db' \<and>
    get_run_with_conn (er_run_id r) (db_runs db') = Some md \<and> rm_status md = RFailed \<and>
    rm_failure_cleanup md = Some f \<and> rm_current_step md = Some st \<and>
    (\<forall>l \<in> set (db_leases db'). l \<in> set (db_leases db) \<or> il_status l = LFailed)"
proof -
  let ?now = "now_of env r"
  let ?md = "set_current_step ?now st
      ((set_next_step_candidates ?now [cl] (set_previous_step_and_outcome ?now st (as_condition_str oc) md0))
       \<lparr>rm_failure_cleanup := Some f, rm_status := RFailed\<rparr>)"
  let ?db = "append_event_db env st (run_status_to_string RFailed) EvTerminalState None r db"
  have dbs: "db_leases ?db = db_leases db" "db_runs ?db = db_runs db" by (simp_all add: append_event_db_def)
  obtain ls where ls: "fail_owned_lease_for_ownership_denial env ?md r (db_leases db) = Ok ls"
    and lf: "\<forall>l \<in> set ls. l \<in> set (db_leases db) \<or> il_status l = LFailed"
    using fail_owned_lease_ok by blast
  have id: "rm_run_id ?md = er_run_id r" using get_run_id [OF assms] by simp
  have "persist_terminal_ownership_failure_registry env st oc cl f r db =
      Ok (?db\<lparr>db_leases := ls, db_runs := persist_run_with_conn ?md (db_runs db)\<rparr>)"
    by (simp only: persist_terminal_ownership_failure_registry_def assms option.case Let_def dbs ls result.case)
  moreover have "rm_current_step ?md = Some st" by (simp add: set_current_step_def)
  ultimately show ?thesis using lf id by (auto simp: get_run_after_persist)
qed

lemma denied_run_never_resumes:
  assumes "load_metadata r = Some md" and "is_ownership_denied_terminal md"
  shows "\<exists>msg. resume_from_checkpoint env r = (r, Err (InvalidState msg))"
  using assms by (auto simp: resume_from_checkpoint_def is_ownership_denied_terminal_def split: option.splits)


lemma denied_persist:
  assumes "er_persist_registry r" and "load_metadata r = Some md0"
    and "enters_cleanup (er_workflow r) oc (Some nxt)"
    and "cx_daemon_managed (er_context r) \<or> env_evidence_exists env (er_world r) (cx_work_dir (er_context r))"
    and "env_verify_ownership env (er_world r) (cx_work_dir (er_context r)) (er_run_id r) = Some reason"
  shows "\<exists>r' md f. persist_step_result env st oc (Some nxt) r = (r', Ok ()) \<and> er_instance r' = er_instance r \<and>
    er_terminal_ownership_failure r' \<and> er_pending_failure_cleanup r' = Some f \<and>
    fc_failed_step f = st \<and> fc_failure_reason f = ''workspace ownership denied before cleanup step '' @ nxt \<and>
    load_metadata r' = Some md \<and> rm_status md = RFailed \<and> rm_current_step md = Some st \<and>
    is_ownership_denied_terminal md \<and>
    (\<forall>l \<in> set (db_leases (er_db r')). l \<in> set (db_leases (er_db r)) \<or> il_status l = LFailed)"
proof -
  define cp where "cp = create_checkpoint env st ''completed'' r"
  define f where "f = build_terminal_ownership_failure_state env st oc nxt cp r"
  define db1 where "db1 = append_event_db env st (as_condition_str oc) EvStepOutcome None r
      (save_checkpoint_db cp (er_db r))"
  have v: "verify_failure_cleanup_workspace env oc (Some nxt) r =
      Err (OwnershipFailure \<lparr>of_failed_step = nxt, of_reason = reason\<rparr>)"
    using assms(3,4,5) by (auto simp: verify_failure_cleanup_workspace_def Let_def)
  have db: "db_runs db1 = db_runs (er_db r)" "db_leases db1 = db_leases (er_db r)"
    by (simp_all add: db1_def append_event_db_def save_checkpoint_db_def)
  then have "get_run_with_conn (er_run_id r) (db_runs db1) = Some md0"
    using assms(2) by (simp add: load_metadata_def)
  from denial_registry_ok [OF this, of env st oc nxt f]
  obtain db' md where reg: "persist_terminal_ownership_failure_registry env st oc nxt f r db1 = Ok db'"
    and md: "get_run_with_conn (er_run_id r) (db_runs db') = Some md" "rm_status md = RFailed"
      "rm_failure_cleanup md = Some f" "rm_current_step md = Some st"
    and ls: "\<forall>l \<in> set (db_leases db'). l \<in> set (db_leases (er_db r)) \<or> il_status l = LFailed"
    unfolding db by blast
  have "persist_step_result env st oc (Some nxt) r =
      (r\<lparr>er_db := db', er_pending_failure_cleanup := Some f, er_terminal_ownership_failure := True\<rparr>, Ok ())"
    by (simp add: persist_step_result_def v persist_terminal_ownership_failure_def Let_def assms(1) reg
        cp_def [symmetric] db1_def [symmetric] f_def [symmetric])
  then show ?thesis using md ls
    by (auto simp: load_metadata_def is_ownership_denied_terminal_def f_def
        build_terminal_ownership_failure_state_def)
qed

text \<open>
  C9: a workspace the run does not own is never cleaned up. When a registered run's failed
  step routes into a cleanup terminal and the ownership check (required for daemon runs, or
  whenever a marker exists) fails, the iteration ends the run as failed at that step without
  entering the cleanup step; the registry records a failed, ownership-denied run at that step;
  a lease is left as it was or failed, never newly put under cleanup protection; and every
  later attempt to resume the run is refused without changing the runner.
\<close>

theorem ownership_denial_is_terminal:
  assumes "er_persist_registry r" and "load_metadata r \<noteq> None" and "oc \<noteq> Abandon"
    and "resolve_next_step r (er_current r) oc = Some nxt"
    and "enters_cleanup (er_workflow r) oc (Some nxt)"
    and "cx_daemon_managed (er_context r) \<or> env_evidence_exists env (er_world r) (cx_work_dir (er_context r))"
    and "env_verify_ownership env (er_world r) (cx_work_dir (er_context r)) (er_run_id r) = Some reason"
  shows "\<exists>r' md. after_outcome env oc r =
      (r', Return (Ok (RunFailure (er_current r) (''workspace ownership denied before cleanup step '' @ nxt)))) \<and>
    er_instance r' = er_instance r \<and> load_metadata r' = Some md \<and> rm_status md = RFailed \<and>
    rm_current_step md = Some (er_current r) \<and> is_ownership_denied_terminal md \<and>
    (\<forall>l \<in> set (db_leases (er_db r')). l \<in> set (db_leases (er_db r)) \<or> il_status l = LFailed) \<and>
    (\<forall>env2 (r2 :: 'v EngineRunner). er_run_id r2 = er_run_id r \<and> er_db r2 = er_db r' \<longrightarrow>
       (\<exists>msg. resume_from_checkpoint env2 r2 = (r2, Err (InvalidState msg))))"
proof -
  obtain md0 where "load_metadata r = Some md0" using assms(2) by blast
  from denied_persist [OF assms(1) this assms(5,6,7), of "er_current r"]
  obtain r' md f where p: "persist_step_result env (er_current r) oc (Some nxt) r = (r', Ok ())"
    and i: "er_instance r' = er_instance r"
    and f: "er_terminal_ownership_failure r'" "er_pending_failure_cleanup r' = Some f"
      "fc_failed_step f = er_current r"
      "fc_failure_reason f = ''workspace ownership denied before cleanup step '' @ nxt"
    and md: "load_metadata r' = Some md" "rm_status md = RFailed" "rm_current_step md = Some (er_current r)"
      "is_ownership_denied_terminal md"
    and ls: "\<forall>l \<in> set (db_leases (er_db r')). l \<in> set (db_leases (er_db r)) \<or> il_status l = LFailed"
    by blast
  have "after_outcome env oc r =
      (r', Return (Ok (RunFailure (er_current r) (''workspace ownership denied before cleanup step '' @ nxt))))"
    unfolding after_outcome_def Let_def using assms(3,4) p f by simp
  moreover have "\<exists>msg. resume_from_checkpoint env2 r2 = (r2, Err (InvalidState msg))"
    if "er_run_id r2 = er_run_id r" "er_db r2 = er_db r'" for env2 and r2 :: "'v EngineRunner"
    using denied_run_never_resumes [of r2 md env2] md that i by (simp add: load_metadata_def)
  ultimately show ?thesis using i md ls by blast
qed

theorem ownership_denial_is_terminal_witness:
  "\<exists>r' md. after_outcome (demo_env Fatal) Fatal (demo_runner True) =
      (r', Return (Ok (RunFailure ''work'' ''workspace ownership denied before cleanup step cleanup''))) \<and>
     load_metadata r' = Some md \<and> is_ownership_denied_terminal md"
proof -
  have h: "er_persist_registry (demo_runner True)" "load_metadata (demo_runner True) \<noteq> None"
    "Fatal \<noteq> Abandon" "resolve_next_step (demo_runner True) (er_current (demo_runner True)) Fatal = Some ''cleanup''"
    "enters_cleanup (er_workflow (demo_runner True)) Fatal (Some ''cleanup'')"
    "cx_daemon_managed (er_context (demo_runner True)) \<or>
      env_evidence_exists (demo_env Fatal) (er_world (demo_runner True)) (cx_work_dir (er_context (demo_runner True)))"
    "env_verify_ownership (demo_env Fatal) (er_world (demo_runner True)) (cx_work_dir (er_context (demo_runner True)))
       (er_run_id (demo_runner True)) = Some ''foreign marker''"
    "er_current (demo_runner True) = ''work''"
    by code_simp+
  from ownership_denial_is_terminal [OF h(1-7), where 'v = nat] h(8) show ?thesis by auto
qed


section \<open>Interrupting and resuming\<close>












end
