(* ===== verification/Recovery_Capsule.thy ===== *)
theory Recovery_Capsule
  imports Canonical_Bytes Run_Metadata
begin

text \<open>
  The execution capsule, the immutable record of what a run was launched with
  (\<^verbatim>\<open>engine/recovery/capsule.rs\<close>), its store and the atomic launch
  (\<^verbatim>\<open>persistence/capsule_store.rs\<close>) and the versioned adapters that read it
  (\<^verbatim>\<open>engine/recovery/adapters\<close>). The bytes and digests that
  \<open>build_capsule_v1\<close> computes from the resolved workflow, configuration and provenance
  before it seals the envelope are arguments; the JSON blob of a stored row is kept as the
  capsule it encodes; the JSON decoding of workflow and configuration bytes
  (\<^verbatim>\<open>serde_json\<close>) is a parameter.
\<close>

section \<open>The capsule\<close>

record CapsuleAuthorityFields =
  ca_schema_version :: u32
  ca_canonicalization_version :: u32
  ca_domain_version :: u32
  ca_provenance_version :: u32
  ca_run_id :: string
  ca_config_root_encoding :: string
  ca_resolved_workflow_bytes :: "byte list"
  ca_resolved_config_bytes :: "byte list"
  ca_launch_provenance_digest :: string
  ca_base_ref :: string

record ExecutionCapsuleV1 =
  ec_schema_version :: u32
  ec_canonicalization_version :: u32
  ec_domain_version :: u32
  ec_provenance_version :: u32
  ec_run_id :: string
  ec_config_root_encoding :: string
  ec_resolved_workflow_bytes :: "byte list"
  ec_resolved_config_bytes :: "byte list"
  ec_launch_provenance_digest :: string
  ec_base_ref :: string
  ec_envelope_digest :: string
  ec_workflow_digest :: string
  ec_config_digest :: string
  ec_created_at :: instant

definition authority_fields :: "ExecutionCapsuleV1 \<Rightarrow> CapsuleAuthorityFields" where
  "authority_fields c =
     \<lparr>ca_schema_version = ec_schema_version c, ca_canonicalization_version = ec_canonicalization_version c,
      ca_domain_version = ec_domain_version c, ca_provenance_version = ec_provenance_version c,
      ca_run_id = ec_run_id c, ca_config_root_encoding = ec_config_root_encoding c,
      ca_resolved_workflow_bytes = ec_resolved_workflow_bytes c,
      ca_resolved_config_bytes = ec_resolved_config_bytes c,
      ca_launch_provenance_digest = ec_launch_provenance_digest c, ca_base_ref = ec_base_ref c\<rparr>"

datatype CapsuleError =
    EnvelopeDigestMismatch
  | UnsupportedSchema u32
  | UnsupportedCanonicalization u32
  | UnsupportedDomain u32
  | UnsupportedProvenance u32
  | CapsuleCanonicalize string string
  | InvalidEncoding string string

definition SUPPORTED_SCHEMA_VERSIONS :: "u32 list" where
  "SUPPORTED_SCHEMA_VERSIONS = [1]"

definition SUPPORTED_CANONICALIZATION_VERSIONS :: "u32 list" where
  "SUPPORTED_CANONICALIZATION_VERSIONS = [1]"

definition SUPPORTED_DOMAIN_VERSIONS :: "u32 list" where
  "SUPPORTED_DOMAIN_VERSIONS = [1]"

definition SUPPORTED_PROVENANCE_VERSIONS :: "u32 list" where
  "SUPPORTED_PROVENANCE_VERSIONS = [1]"

definition build_envelope_frame :: "CapsuleAuthorityFields \<Rightarrow> byte list" where
  "build_envelope_frame f =
     (let buf = u32_be_bytes (ca_schema_version f);
          buf = buf @ u32_be_bytes (ca_canonicalization_version f);
          buf = buf @ u32_be_bytes (ca_domain_version f);
          buf = buf @ u32_be_bytes (ca_provenance_version f);
          buf = write_len_prefixed buf (as_bytes (ca_run_id f));
          buf = write_len_prefixed buf (as_bytes (ca_config_root_encoding f));
          buf = write_len_prefixed buf (ca_resolved_workflow_bytes f);
          buf = write_len_prefixed buf (ca_resolved_config_bytes f);
          buf = write_len_prefixed buf (as_bytes (ca_launch_provenance_digest f))
      in write_len_prefixed buf (as_bytes (ca_base_ref f)))"

definition compute_envelope_digest :: "hash \<Rightarrow> CapsuleAuthorityFields \<Rightarrow> string" where
  "compute_envelope_digest sha256 f = sha256_hex sha256 (build_envelope_frame f)"

definition require_supported :: "u32 list \<Rightarrow> (u32 \<Rightarrow> CapsuleError) \<Rightarrow> u32 \<Rightarrow> (unit, CapsuleError) result" where
  "require_supported supported err version = (if version \<in> set supported then Ok () else Err (err version))"

definition require_supported_versions :: "u32 \<Rightarrow> u32 \<Rightarrow> u32 \<Rightarrow> u32 \<Rightarrow> (unit, CapsuleError) result" where
  "require_supported_versions schema canonicalization domain provenance =
     and_then (require_supported SUPPORTED_SCHEMA_VERSIONS UnsupportedSchema schema) (\<lambda>_.
     and_then (require_supported SUPPORTED_CANONICALIZATION_VERSIONS UnsupportedCanonicalization canonicalization) (\<lambda>_.
     and_then (require_supported SUPPORTED_DOMAIN_VERSIONS UnsupportedDomain domain) (\<lambda>_.
     require_supported SUPPORTED_PROVENANCE_VERSIONS UnsupportedProvenance provenance)))"

definition verify_envelope_digest :: "hash \<Rightarrow> ExecutionCapsuleV1 \<Rightarrow> (unit, CapsuleError) result" where
  "verify_envelope_digest sha256 c =
     and_then (require_supported_versions (ec_schema_version c) (ec_canonicalization_version c)
                 (ec_domain_version c) (ec_provenance_version c)) (\<lambda>_.
       if compute_envelope_digest sha256 (authority_fields c) = ec_envelope_digest c
       then Ok () else Err EnvelopeDigestMismatch)"

text \<open>The sealing of a fresh capsule; every version is the current one, which is 1.\<close>

definition build_capsule_v1 ::
  "hash \<Rightarrow> instant \<Rightarrow> string \<Rightarrow> string \<Rightarrow> byte list \<Rightarrow> byte list \<Rightarrow> string \<Rightarrow> string \<Rightarrow> string \<Rightarrow> string \<Rightarrow>
   ExecutionCapsuleV1" where
  "build_capsule_v1 sha256 now run_id config_root_encoding workflow_bytes config_bytes
     workflow_digest config_digest provenance_digest base_ref =
     (let fields =
        \<lparr>ca_schema_version = 1, ca_canonicalization_version = 1, ca_domain_version = 1,
         ca_provenance_version = 1, ca_run_id = run_id, ca_config_root_encoding = config_root_encoding,
         ca_resolved_workflow_bytes = workflow_bytes, ca_resolved_config_bytes = config_bytes,
         ca_launch_provenance_digest = provenance_digest, ca_base_ref = base_ref\<rparr>
      in \<lparr>ec_schema_version = 1, ec_canonicalization_version = 1, ec_domain_version = 1,
          ec_provenance_version = 1, ec_run_id = run_id, ec_config_root_encoding = config_root_encoding,
          ec_resolved_workflow_bytes = workflow_bytes, ec_resolved_config_bytes = config_bytes,
          ec_launch_provenance_digest = provenance_digest, ec_base_ref = base_ref,
          ec_envelope_digest = compute_envelope_digest sha256 fields,
          ec_workflow_digest = workflow_digest, ec_config_digest = config_digest, ec_created_at = now\<rparr>)"

section \<open>The store\<close>

record capsule_row =
  cs_run_id :: string
  cs_schema_version :: i64
  cs_canonicalization_version :: i64
  cs_domain_version :: i64
  cs_provenance_version :: i64
  cs_capsule_json :: ExecutionCapsuleV1
  cs_envelope_digest :: string
  cs_workflow_digest :: string
  cs_config_digest :: string

type_synonym capsule_table = "capsule_row list"

definition row_of_capsule :: "ExecutionCapsuleV1 \<Rightarrow> capsule_row" where
  "row_of_capsule c =
     \<lparr>cs_run_id = ec_run_id c, cs_schema_version = uint (ec_schema_version c),
      cs_canonicalization_version = uint (ec_canonicalization_version c),
      cs_domain_version = uint (ec_domain_version c), cs_provenance_version = uint (ec_provenance_version c),
      cs_capsule_json = c, cs_envelope_digest = ec_envelope_digest c,
      cs_workflow_digest = ec_workflow_digest c, cs_config_digest = ec_config_digest c\<rparr>"

definition persist_capsule_v1 ::
  "hash \<Rightarrow> ExecutionCapsuleV1 \<Rightarrow> capsule_table \<Rightarrow> (capsule_table, sql_error) result" where
  "persist_capsule_v1 sha256 c caps =
     (case verify_envelope_digest sha256 c of
        Err _ \<Rightarrow> Err ToSqlConversionFailure
      | Ok _ \<Rightarrow>
          (if \<exists>x \<in> set caps. cs_run_id x = ec_run_id c then Err ConstraintViolation
           else Ok (caps @ [row_of_capsule c])))"

definition validate_loaded_capsule :: "string \<Rightarrow> ExecutionCapsuleV1 \<Rightarrow> capsule_row \<Rightarrow> (unit, sql_error) result" where
  "validate_loaded_capsule requested c row =
     (if ec_run_id c \<noteq> requested \<or> ec_schema_version c \<noteq> word_of_int (cs_schema_version row) \<or>
         ec_canonicalization_version c \<noteq> word_of_int (cs_canonicalization_version row) \<or>
         ec_domain_version c \<noteq> word_of_int (cs_domain_version row) \<or>
         ec_provenance_version c \<noteq> word_of_int (cs_provenance_version row) \<or>
         ec_envelope_digest c \<noteq> cs_envelope_digest row \<or> ec_workflow_digest c \<noteq> cs_workflow_digest row \<or>
         ec_config_digest c \<noteq> cs_config_digest row
      then Err FromSqlConversionFailure else Ok ())"

definition load_capsule_v1 :: "hash \<Rightarrow> string \<Rightarrow> capsule_table \<Rightarrow> (ExecutionCapsuleV1, sql_error) result" where
  "load_capsule_v1 sha256 run caps =
     (case lookup_by cs_run_id run caps of
        None \<Rightarrow> Err QueryReturnedNoRows
      | Some row \<Rightarrow>
          (let c = cs_capsule_json row
           in case validate_loaded_capsule run c row of
                Err e \<Rightarrow> Err e
              | Ok _ \<Rightarrow>
                  (case verify_envelope_digest sha256 c of
                     Err _ \<Rightarrow> Err FromSqlConversionFailure
                   | Ok _ \<Rightarrow> Ok c)))"

datatype LaunchPersistenceError =
    RunCollision string
  | CapsuleCollision string
  | LaunchDatabase string string

text \<open>One transaction over the runs and the capsules: an error leaves both tables as they were.\<close>

definition persist_launch_atomically ::
  "hash \<Rightarrow> (sql_error \<Rightarrow> string) \<Rightarrow> RunMetadata \<Rightarrow> ExecutionCapsuleV1 \<Rightarrow> run_table \<times> capsule_table \<Rightarrow>
   (run_table \<times> capsule_table, LaunchPersistenceError) result" where
  "persist_launch_atomically sha256 sql_text metadata c db =
     (let run_id = rm_run_id metadata; (runs, caps) = db
      in case insert_initial_run_with_conn metadata runs of
           (_, Collision) \<Rightarrow> Err (RunCollision run_id)
         | (runs', Inserted) \<Rightarrow>
             (case persist_capsule_v1 sha256 c caps of
                Err ConstraintViolation \<Rightarrow> Err (CapsuleCollision run_id)
              | Err e \<Rightarrow> Err (LaunchDatabase run_id (''capsule insert failed: '' @ sql_text e))
              | Ok caps' \<Rightarrow> Ok (runs', caps')))"

section \<open>Adapters\<close>

datatype AdapterError =
    UnsupportedCapsuleVersion u32
  | AdapterStepNotFound string
  | Deserialization string

definition adapter_for :: "ExecutionCapsuleV1 \<Rightarrow> (unit, AdapterError) result" where
  "adapter_for c = (if ec_schema_version c = 1 then Ok () else Err (UnsupportedCapsuleVersion (ec_schema_version c)))"

definition step_def_for ::
  "(byte list \<Rightarrow> (WorkflowType, string) result) \<Rightarrow> ExecutionCapsuleV1 \<Rightarrow> string \<Rightarrow> (StepDef, AdapterError) result" where
  "step_def_for decode_workflow c step =
     (case decode_workflow (ec_resolved_workflow_bytes c) of
        Err e \<Rightarrow> Err (Deserialization e)
      | Ok w \<Rightarrow>
          (case find (\<lambda>s. sd_step_id s = step) (wt_steps w) of
             Some s \<Rightarrow> Ok s
           | None \<Rightarrow> Err (AdapterStepNotFound step)))"

definition build_instance ::
  "(byte list \<Rightarrow> (WorkflowType, string) result) \<Rightarrow> (byte list \<Rightarrow> (WorkflowConfig, string) result) \<Rightarrow>
   ExecutionCapsuleV1 \<Rightarrow> (WorkflowInstance, AdapterError) result" where
  "build_instance decode_workflow decode_config c =
     (case decode_workflow (ec_resolved_workflow_bytes c) of
        Err e \<Rightarrow> Err (Deserialization e)
      | Ok w \<Rightarrow>
          (case decode_config (ec_resolved_config_bytes c) of
             Err e \<Rightarrow> Err (Deserialization e)
           | Ok cfg \<Rightarrow> Ok (create_with_run_id w cfg (ec_run_id c))))"

fun adapter_error_to_string :: "AdapterError \<Rightarrow> string" where
  "adapter_error_to_string (UnsupportedCapsuleVersion v) = ''unsupported capsule version: '' @ nat_to_string (unat v)"
| "adapter_error_to_string (AdapterStepNotFound s) = ''step not found in capsule: '' @ s"
| "adapter_error_to_string (Deserialization e) = ''capsule workflow deserialization error: '' @ e"


section \<open>The envelope determines the capsule\<close>

text \<open>Fields that fit their 32-bit length prefix.\<close>

definition fields_fit :: "CapsuleAuthorityFields \<Rightarrow> bool" where
  "fields_fit f \<longleftrightarrow>
     length (ca_run_id f) < 2 ^ 32 \<and> length (ca_config_root_encoding f) < 2 ^ 32 \<and>
     length (ca_resolved_workflow_bytes f) < 2 ^ 32 \<and> length (ca_resolved_config_bytes f) < 2 ^ 32 \<and>
     length (ca_launch_provenance_digest f) < 2 ^ 32 \<and> length (ca_base_ref f) < 2 ^ 32"

lemma frame_parts:
  "build_envelope_frame f =
     u32_be_bytes (ca_schema_version f) @ u32_be_bytes (ca_canonicalization_version f) @
     u32_be_bytes (ca_domain_version f) @ u32_be_bytes (ca_provenance_version f) @
     write_len_prefixed [] (as_bytes (ca_run_id f)) @ write_len_prefixed [] (as_bytes (ca_config_root_encoding f)) @
     write_len_prefixed [] (ca_resolved_workflow_bytes f) @ write_len_prefixed [] (ca_resolved_config_bytes f) @
     write_len_prefixed [] (as_bytes (ca_launch_provenance_digest f)) @ write_len_prefixed [] (as_bytes (ca_base_ref f))"
  by (simp add: build_envelope_frame_def Let_def write_len_prefixed_append [of "_ @ _"]
      write_len_prefixed_append [of "write_len_prefixed _ _"])

lemma frame_inj:
  assumes "fields_fit f" and "fields_fit g" and "build_envelope_frame f = build_envelope_frame g"
  shows "f = g"
proof -
  note fit = assms(1,2) [unfolded fields_fit_def]
  note eq = assms(3) [unfolded frame_parts]
  from eq have v: "ca_schema_version f = ca_schema_version g" "ca_canonicalization_version f = ca_canonicalization_version g"
    "ca_domain_version f = ca_domain_version g" "ca_provenance_version f = ca_provenance_version g"
    by (simp_all add: fixed32.split_unique fixed32.enc_inj)
  from eq fit have "ca_run_id f = ca_run_id g" "ca_config_root_encoding f = ca_config_root_encoding g"
    "ca_resolved_workflow_bytes f = ca_resolved_workflow_bytes g" "ca_resolved_config_bytes f = ca_resolved_config_bytes g"
    "ca_launch_provenance_digest f = ca_launch_provenance_digest g" "ca_base_ref f = ca_base_ref g"
    by (simp_all add: fixed32.split_unique fixed32.enc_inj field32.split_unique field32.enc_inj)
  with v show ?thesis by simp
qed

lemma verify_digest: "verify_envelope_digest h c = Ok () \<Longrightarrow>
    sha256_hex h (build_envelope_frame (authority_fields c)) = ec_envelope_digest c"
  by (cases "require_supported_versions (ec_schema_version c) (ec_canonicalization_version c)
        (ec_domain_version c) (ec_provenance_version c)")
     (auto simp: verify_envelope_digest_def compute_envelope_digest_def split: if_splits)

lemma build_capsule_verifies [simp]: "verify_envelope_digest h (build_capsule_v1 h now i r wb cb wd cd pd br) = Ok ()"
  by (simp add: verify_envelope_digest_def build_capsule_v1_def Let_def authority_fields_def
      require_supported_versions_def require_supported_def SUPPORTED_SCHEMA_VERSIONS_def
      SUPPORTED_CANONICALIZATION_VERSIONS_def SUPPORTED_DOMAIN_VERSIONS_def SUPPORTED_PROVENANCE_VERSIONS_def)

text \<open>
  The envelope digest is the authority. Two capsules that both verify and carry the same
  envelope digest agree on every replay authority field (versions, run, configuration root,
  workflow and configuration bytes, provenance digest, base ref), unless the hash has a
  collision; and the digest of an unsupported version never verifies.
\<close>

theorem envelope_digest_binds_capsule:
  assumes "verify_envelope_digest h a = Ok ()" and "verify_envelope_digest h b = Ok ()"
    and "ec_envelope_digest a = ec_envelope_digest b"
    and "fields_fit (authority_fields a)" and "fields_fit (authority_fields b)"
  shows "(authority_fields a = authority_fields b \<or> collision h) \<and>
    ec_schema_version a = 1 \<and> ec_canonicalization_version a = 1 \<and> ec_domain_version a = 1 \<and>
    ec_provenance_version a = 1"
proof
  have "sha256_hex h (build_envelope_frame (authority_fields a)) = sha256_hex h (build_envelope_frame (authority_fields b))"
    using assms(1-3) by (simp add: verify_digest)
  then show "authority_fields a = authority_fields b \<or> collision h"
    using digest_determines frame_inj [OF assms(4,5)] by blast
  show "ec_schema_version a = 1 \<and> ec_canonicalization_version a = 1 \<and> ec_domain_version a = 1 \<and>
      ec_provenance_version a = 1"
    using assms(1)
    by (auto simp: verify_envelope_digest_def require_supported_versions_def require_supported_def
        SUPPORTED_SCHEMA_VERSIONS_def SUPPORTED_CANONICALIZATION_VERSIONS_def SUPPORTED_DOMAIN_VERSIONS_def
        SUPPORTED_PROVENANCE_VERSIONS_def split: if_splits)
qed

definition demo_capsule :: "instant \<Rightarrow> ExecutionCapsuleV1" where
  "demo_capsule now = build_capsule_v1 (\<lambda>x. x) now ''run-1'' ''2f63'' [1, 2] [3] ''w'' ''c'' ''p'' ''main''"

theorem envelope_digest_binds_capsule_witness:
  "authority_fields (demo_capsule 1) = authority_fields (demo_capsule 2)"
proof -
  have v: "verify_envelope_digest (\<lambda>x. x) (demo_capsule now) = Ok ()" for now
    by (simp add: demo_capsule_def)
  have "ec_envelope_digest (demo_capsule 1) = ec_envelope_digest (demo_capsule 2)"
    "fields_fit (authority_fields (demo_capsule 1))" "fields_fit (authority_fields (demo_capsule 2))"
    by (simp_all add: demo_capsule_def build_capsule_v1_def Let_def authority_fields_def fields_fit_def)
  from envelope_digest_binds_capsule [OF v v this] show ?thesis by (simp add: collision_def)
qed

section \<open>Launching\<close>

datatype capsule_op = PersistCapsule ExecutionCapsuleV1 | LaunchCapsule RunMetadata ExecutionCapsuleV1

fun apply_capsule_op :: "hash \<Rightarrow> (sql_error \<Rightarrow> string) \<Rightarrow> capsule_op \<Rightarrow> run_table \<times> capsule_table \<Rightarrow> run_table \<times> capsule_table" where
  "apply_capsule_op h tx (PersistCapsule c) db =
     (case persist_capsule_v1 h c (snd db) of Ok caps \<Rightarrow> (fst db, caps) | Err _ \<Rightarrow> db)"
| "apply_capsule_op h tx (LaunchCapsule md c) db =
     (case persist_launch_atomically h tx md c db of Ok db' \<Rightarrow> db' | Err _ \<Rightarrow> db)"

lemma persist_capsule_keeps:
  "persist_capsule_v1 h c caps = Ok caps' \<Longrightarrow> lookup_by cs_run_id k caps = Some r \<Longrightarrow>
   lookup_by cs_run_id k caps' = Some r"
  by (auto simp: persist_capsule_v1_def lookup_by_append split: result.splits if_splits)

lemma launch_ok:
  assumes "persist_launch_atomically h tx md c (runs, caps) = Ok (runs', caps')"
  shows "runs' = runs @ [md] \<and> persist_capsule_v1 h c caps = Ok caps' \<and> get_run_with_conn (rm_run_id md) runs = None"
  using assms
  by (auto simp: persist_launch_atomically_def Let_def insert_initial_run_with_conn_def get_run_with_conn_def lookup_by_None
      split: prod.splits InitialRunInsert.splits result.splits sql_error.splits if_splits)

interpretation capsules: write_once "apply_capsule_op h tx" "\<lambda>db k. lookup_by cs_run_id k (snd db)" "\<lambda>r. True"
proof
  fix db :: "run_table \<times> capsule_table" and k r a
  assume r: "lookup_by cs_run_id k (snd db) = Some r"
  show "lookup_by cs_run_id k (snd (apply_capsule_op h tx a db)) = Some r"
  proof (cases a)
    case (PersistCapsule c)
    then show ?thesis using r by (auto split: result.split dest: persist_capsule_keeps)
  next
    case (LaunchCapsule md c)
    then show ?thesis using r launch_ok [of h tx md c "fst db" "snd db"]
      by (auto split: result.split dest: persist_capsule_keeps)
  qed
qed

lemma load_of_row:
  "verify_envelope_digest h c = Ok () \<Longrightarrow> lookup_by cs_run_id (ec_run_id c) caps = Some (row_of_capsule c) \<Longrightarrow>
   load_capsule_v1 h (ec_run_id c) caps = Ok c"
  by (simp add: load_capsule_v1_def Let_def validate_loaded_capsule_def row_of_capsule_def)

text \<open>
  C11: a launch is atomic and its capsule immutable. A successful launch found neither a run nor
  a capsule under their identifiers, and records both and nothing else; from then on, whatever
  launches and capsule writes follow, loading the capsule returns exactly the one launched.
\<close>

theorem launch_is_atomic_and_immutable:
  assumes "persist_launch_atomically h tx md c (runs, caps) = Ok (runs', caps')"
  shows "get_run_with_conn (rm_run_id md) runs = None \<and> get_run_with_conn (rm_run_id md) runs' = Some md \<and>
    lookup_by cs_run_id (ec_run_id c) caps = None \<and>
    (\<forall>k. k \<noteq> rm_run_id md \<longrightarrow> get_run_with_conn k runs' = get_run_with_conn k runs) \<and>
    (\<forall>k. k \<noteq> ec_run_id c \<longrightarrow> load_capsule_v1 h k caps' = load_capsule_v1 h k caps) \<and>
    load_capsule_v1 h (ec_run_id c) (snd (fold (apply_capsule_op h tx) ops (runs', caps'))) = Ok c"
proof -
  note ok = launch_ok [OF assms]
  have run: "get_run_with_conn k runs' = (if k = rm_run_id md then Some md else get_run_with_conn k runs)" for k
    using ok by (auto simp: get_run_with_conn_def lookup_by_append split: option.split)
  have caps': "caps' = caps @ [row_of_capsule c]" and ver: "verify_envelope_digest h c = Ok ()"
    and fresh: "lookup_by cs_run_id (ec_run_id c) caps = None"
    using ok by (auto simp: persist_capsule_v1_def lookup_by_None split: result.splits if_splits)
  have row: "lookup_by cs_run_id k caps' =
      (if k = ec_run_id c then Some (row_of_capsule c) else lookup_by cs_run_id k caps)" for k
    using fresh by (auto simp: caps' lookup_by_append row_of_capsule_def split: option.split)
  then have "lookup_by cs_run_id (ec_run_id c) (snd (fold (apply_capsule_op h tx) ops (runs', caps'))) =
      Some (row_of_capsule c)"
    by (intro capsules.frozen_fold) simp_all
  then have "load_capsule_v1 h (ec_run_id c) (snd (fold (apply_capsule_op h tx) ops (runs', caps'))) = Ok c"
    by (rule load_of_row [OF ver])
  moreover have "load_capsule_v1 h k caps' = load_capsule_v1 h k caps" if "k \<noteq> ec_run_id c" for k
    using that by (simp add: load_capsule_v1_def row)
  ultimately show ?thesis using ok run fresh by simp
qed

theorem launch_is_atomic_and_immutable_witness:
  "load_capsule_v1 (\<lambda>x. x) ''run-1'' (snd (fold (apply_capsule_op (\<lambda>x. x) (\<lambda>_. []))
     [LaunchCapsule (run_metadata_new 3 ''run-1'' ''t'' ''cfg'') (demo_capsule 9), PersistCapsule (demo_capsule 9)]
     ([run_metadata_new 3 ''run-1'' ''t'' ''cfg''], [row_of_capsule (demo_capsule 1)]))) = Ok (demo_capsule 1)"
proof -
  have "persist_launch_atomically (\<lambda>x. x) (\<lambda>_. []) (run_metadata_new 3 ''run-1'' ''t'' ''cfg'') (demo_capsule 1) ([], []) =
      Ok ([run_metadata_new 3 ''run-1'' ''t'' ''cfg''], [row_of_capsule (demo_capsule 1)])"
    by (simp add: persist_launch_atomically_def insert_initial_run_with_conn_def persist_capsule_v1_def demo_capsule_def)
  from launch_is_atomic_and_immutable [OF this,
      of "[LaunchCapsule (run_metadata_new 3 ''run-1'' ''t'' ''cfg'') (demo_capsule 9), PersistCapsule (demo_capsule 9)]"]
  have "load_capsule_v1 (\<lambda>x. x) (ec_run_id (demo_capsule 1)) (snd (fold (apply_capsule_op (\<lambda>x. x) (\<lambda>_. []))
     [LaunchCapsule (run_metadata_new 3 ''run-1'' ''t'' ''cfg'') (demo_capsule 9), PersistCapsule (demo_capsule 9)]
     ([run_metadata_new 3 ''run-1'' ''t'' ''cfg''], [row_of_capsule (demo_capsule 1)]))) = Ok (demo_capsule 1)"
    by blast
  moreover have "ec_run_id (demo_capsule 1) = ''run-1''" by (simp add: demo_capsule_def build_capsule_v1_def Let_def)
  ultimately show ?thesis by (simp only:)
qed

end
