(* ===== verification/Recovery_Store.thy ===== *)
theory Recovery_Store
  imports Canonical_Bytes Checkpoints
begin

text \<open>
  The durable state of the recovery protocol: the epoch register
  (\<^verbatim>\<open>luther-engine-core/src/recovery_epoch.rs\<close>), the append-only attempts
  (\<^verbatim>\<open>persistence/attempts.rs\<close>) and the operations ledger
  (\<^verbatim>\<open>persistence/recovery_operations.rs\<close>). The canonical bytes of a state snapshot
  and the reading and writing of JSON text (\<^verbatim>\<open>serde_json\<close>) are parameters.
\<close>

section \<open>The epoch register\<close>

text \<open>
  The column is a SQLite integer; \<open>epoch + 1\<close> on the largest one yields a float, which the
  model keeps as the number above \<open>i64::MAX\<close>: it equals no bound parameter and cannot be
  read as an \<open>i64\<close>.
\<close>

record epoch_row =
  ep_run_id :: string
  ep_epoch :: int
  ep_updated_at :: instant

type_synonym epoch_table = "epoch_row list"

datatype CasOutcome = Advanced u64 u64 | Stale u64 u64

definition sat_i64 :: "u64 \<Rightarrow> i64" where
  "sat_i64 n = (case i64_try_from_u64 n of Some i \<Rightarrow> i | None \<Rightarrow> i64_max)"

definition u64_or_zero :: "i64 \<Rightarrow> u64" where
  "u64_or_zero i = (case u64_try_from_i64 i of Some n \<Rightarrow> n | None \<Rightarrow> 0)"

definition read_epoch :: "string \<Rightarrow> epoch_table \<Rightarrow> (u64, sql_error) result" where
  "read_epoch run t =
     (case lookup_by ep_run_id run t of
        None \<Rightarrow> Ok 0
      | Some r \<Rightarrow>
          (if ep_epoch r \<le> i64_max then Ok (u64_or_zero (ep_epoch r)) else Err FromSqlConversionFailure))"

definition cas_advance_epoch ::
  "instant \<Rightarrow> string \<Rightarrow> u64 \<Rightarrow> epoch_table \<Rightarrow> (epoch_table \<times> CasOutcome, sql_error) result" where
  "cas_advance_epoch now run expected t =
     (let next_epoch = (if expected = - 1 then expected else expected + 1);
          expected_i = sat_i64 expected; next_i = sat_i64 next_epoch
      in case lookup_by ep_run_id run t of
           None \<Rightarrow>
             Ok (t @ [\<lparr>ep_run_id = run, ep_epoch = next_i, ep_updated_at = now\<rparr>], Advanced expected next_epoch)
         | Some r \<Rightarrow>
             (if ep_epoch r = expected_i
              then Ok (update_where (\<lambda>x. ep_run_id x = run)
                         (\<lambda>x. x\<lparr>ep_epoch := ep_epoch x + 1, ep_updated_at := now\<rparr>) t,
                       Advanced expected next_epoch)
              else map_ok (\<lambda>persisted. (t, Stale persisted expected)) (read_epoch run t)))"

section \<open>Attempts\<close>

record AttemptRow =
  ar_attempt_id :: i64
  ar_run_id :: string
  ar_epoch :: u64
  ar_source_attempt_id :: "i64 option"
  ar_operation_id :: string
  ar_step_id :: string
  ar_step_status :: string
  ar_capsule_schema_version :: u32
  ar_capsule_envelope_digest :: string
  ar_state_snapshot :: StateSnapshot
  ar_state_snapshot_json :: "byte list"
  ar_snapshot_digest :: string
  ar_checkpoint_digest :: "string option"
  ar_runner_result_json :: "json option"
  ar_started_at :: instant
  ar_finalized_at :: "instant option"

type_synonym attempt_table = "AttemptRow list"

record AttemptStart =
  as_run_id :: string
  as_epoch :: u64
  as_source_attempt_id :: "i64 option"
  as_operation_id :: string
  as_step_id :: string
  as_capsule_schema_version :: u32
  as_capsule_envelope_digest :: string
  as_state_snapshot :: StateSnapshot

text \<open>\<open>AUTOINCREMENT\<close>: rows are never deleted, so the next id follows the largest one.\<close>

definition next_attempt_id :: "attempt_table \<Rightarrow> i64" where
  "next_attempt_id rows = fold max (map ar_attempt_id rows) 0 + 1"

definition record_attempt_start ::
  "hash \<Rightarrow> (StateSnapshot \<Rightarrow> byte list) \<Rightarrow> instant \<Rightarrow> AttemptStart \<Rightarrow> attempt_table \<Rightarrow> attempt_table \<times> i64" where
  "record_attempt_start sha256 snapshot_bytes now a rows =
     (let json = snapshot_bytes (as_state_snapshot a); i = next_attempt_id rows
      in (rows @
          [\<lparr>ar_attempt_id = i, ar_run_id = as_run_id a, ar_epoch = u64_or_zero (sat_i64 (as_epoch a)),
            ar_source_attempt_id = as_source_attempt_id a, ar_operation_id = as_operation_id a,
            ar_step_id = as_step_id a, ar_step_status = ''started'',
            ar_capsule_schema_version = as_capsule_schema_version a,
            ar_capsule_envelope_digest = as_capsule_envelope_digest a,
            ar_state_snapshot = as_state_snapshot a, ar_state_snapshot_json = json,
            ar_snapshot_digest = sha256_hex sha256 json, ar_checkpoint_digest = None,
            ar_runner_result_json = None, ar_started_at = now, ar_finalized_at = None\<rparr>], i))"

definition unfinalized_guard :: "i64 \<Rightarrow> AttemptRow \<Rightarrow> bool" where
  "unfinalized_guard i r \<longleftrightarrow> ar_attempt_id r = i \<and> ar_finalized_at r = None"

definition append_attempt_outcome ::
  "hash \<Rightarrow> (StateSnapshot \<Rightarrow> byte list) \<Rightarrow> instant \<Rightarrow> i64 \<Rightarrow> string \<Rightarrow> StateSnapshot \<Rightarrow> json option \<Rightarrow>
   string option \<Rightarrow> attempt_table \<Rightarrow> (attempt_table, sql_error) result" where
  "append_attempt_outcome sha256 snapshot_bytes now i status snap runner_result checkpoint_digest rows =
     (let json = snapshot_bytes snap
      in if count_where (unfinalized_guard i) rows \<noteq> 1 then Err ConstraintViolation
         else Ok (update_where (unfinalized_guard i)
                    (\<lambda>r. r\<lparr>ar_step_status := status, ar_state_snapshot := snap, ar_state_snapshot_json := json,
                           ar_snapshot_digest := sha256_hex sha256 json, ar_runner_result_json := runner_result,
                           ar_checkpoint_digest := checkpoint_digest, ar_finalized_at := Some now\<rparr>) rows))"

definition latest_for_step :: "string \<Rightarrow> string \<Rightarrow> attempt_table \<Rightarrow> AttemptRow option" where
  "latest_for_step run step rows =
     newest_by (\<lambda>r. nat (ar_attempt_id r))
       (filter (\<lambda>r. ar_run_id r = run \<and> ar_step_id r = step \<and> ar_finalized_at r \<noteq> None) rows)"

definition load_attempt :: "i64 \<Rightarrow> attempt_table \<Rightarrow> (AttemptRow, sql_error) result" where
  "load_attempt i rows =
     (case lookup_by ar_attempt_id i rows of Some r \<Rightarrow> Ok r | None \<Rightarrow> Err QueryReturnedNoRows)"

definition load_unfinalized_for_operation :: "string \<Rightarrow> attempt_table \<Rightarrow> AttemptRow option" where
  "load_unfinalized_for_operation oid rows =
     newest_by (\<lambda>r. nat (ar_attempt_id r)) (filter (\<lambda>r. ar_operation_id r = oid \<and> ar_finalized_at r = None) rows)"

definition verify_snapshot_digest :: "hash \<Rightarrow> AttemptRow \<Rightarrow> (unit, sql_error) result" where
  "verify_snapshot_digest sha256 r =
     (if sha256_hex sha256 (ar_state_snapshot_json r) \<noteq> ar_snapshot_digest r then Err ConstraintViolation else Ok ())"

definition count_attempts_for_run :: "string \<Rightarrow> attempt_table \<Rightarrow> nat" where
  "count_attempts_for_run run rows = count_where (\<lambda>r. ar_run_id r = run) rows"

section \<open>Operations\<close>

datatype OperationStatus = OpPending | OpCompleted | OpRefused | OpConflict

fun operation_status_as_str :: "OperationStatus \<Rightarrow> string" where
  "operation_status_as_str OpPending = ''pending''"
| "operation_status_as_str OpCompleted = ''completed''"
| "operation_status_as_str OpRefused = ''refused''"
| "operation_status_as_str OpConflict = ''conflict''"

definition operation_status_parse_str :: "string \<Rightarrow> OperationStatus option" where
  "operation_status_parse_str s =
     (if s = ''pending'' then Some OpPending
      else if s = ''completed'' then Some OpCompleted
      else if s = ''refused'' then Some OpRefused
      else if s = ''conflict'' then Some OpConflict
      else None)"

interpretation operation_codec: text_codec operation_status_as_str operation_status_parse_str
proof unfold_locales
  fix s
  show "operation_status_parse_str (operation_status_as_str s) = Some s"
    by (cases s) (simp_all add: operation_status_parse_str_def)
next
  fix t s
  assume "operation_status_parse_str t = Some s"
  then show "operation_status_as_str s = t"
    by (auto simp: operation_status_parse_str_def split: if_splits)
qed

datatype AdoptOutcome = Adopted | StillOwned

record RecoveryOperation =
  op_operation_id :: string
  op_run_id :: string
  op_epoch :: u64
  op_step_id :: string
  op_capsule_envelope_digest :: string
  op_source_attempt_id :: "i64 option"
  op_logical_request_key :: string
  op_intent_digest :: string
  op_status :: OperationStatus
  op_owner_pid :: "u32 option"
  op_lease_expires_at :: "instant option"
  op_execution_attempt_id :: "i64 option"
  op_serialized_outcome :: "string option"
  op_created_at :: instant
  op_finalized_at :: "instant option"

type_synonym operation_table = "RecoveryOperation list"

record PendingOperationInsert =
  pi_operation_id :: string
  pi_run_id :: string
  pi_epoch :: u64
  pi_step_id :: string
  pi_capsule_envelope_digest :: string
  pi_source_attempt_id :: "i64 option"
  pi_logical_request_key :: string
  pi_intent_digest :: string
  pi_owner_pid :: u32
  pi_lease_expires_at :: instant
  pi_execution_attempt_id :: i64

definition source_bytes :: "i64 option \<Rightarrow> byte list" where
  "source_bytes s = (case s of Some i \<Rightarrow> i64_be_bytes i | None \<Rightarrow> replicate 8 0)"

definition operation_id_frame ::
  "string \<Rightarrow> string \<Rightarrow> string \<Rightarrow> i64 option \<Rightarrow> string \<Rightarrow> byte list" where
  "operation_id_frame run step capsule source intent =
     (let buf = push_len_prefixed [] (as_bytes run);
          buf = push_len_prefixed buf (as_bytes step);
          buf = push_len_prefixed buf (as_bytes capsule);
          buf = push_len_prefixed buf (source_bytes source)
      in push_len_prefixed buf (as_bytes intent))"

definition compute_operation_id ::
  "hash \<Rightarrow> string \<Rightarrow> string \<Rightarrow> string \<Rightarrow> i64 option \<Rightarrow> string \<Rightarrow> string" where
  "compute_operation_id sha256 run step capsule source intent =
     sha256_hex sha256 (operation_id_frame run step capsule source intent)"

definition logical_key_frame :: "string \<Rightarrow> i64 option \<Rightarrow> string \<Rightarrow> byte list" where
  "logical_key_frame run source intent =
     (let buf = push_len_prefixed [] (as_bytes run);
          buf = push_len_prefixed buf (source_bytes source)
      in push_len_prefixed buf (as_bytes intent))"

definition compute_logical_request_key :: "hash \<Rightarrow> string \<Rightarrow> i64 option \<Rightarrow> string \<Rightarrow> string" where
  "compute_logical_request_key sha256 run source intent = sha256_hex sha256 (logical_key_frame run source intent)"

definition compute_intent_digest :: "hash \<Rightarrow> string \<Rightarrow> string" where
  "compute_intent_digest sha256 intent = sha256_hex sha256 (as_bytes intent)"

definition lookup_logical_operation :: "string \<Rightarrow> operation_table \<Rightarrow> RecoveryOperation option" where
  "lookup_logical_operation key ops = lookup_by op_logical_request_key key ops"

definition lease_expired :: "instant \<Rightarrow> RecoveryOperation \<Rightarrow> bool" where
  "lease_expired now x \<longleftrightarrow> (case op_lease_expires_at x of None \<Rightarrow> True | Some e \<Rightarrow> e < now)"

definition find_adoptable_pending :: "string \<Rightarrow> instant \<Rightarrow> operation_table \<Rightarrow> RecoveryOperation option" where
  "find_adoptable_pending key now ops =
     (case sort_key op_created_at
             (filter (\<lambda>x. op_logical_request_key x = key \<and> op_status x = OpPending \<and> lease_expired now x) ops)
      of [] \<Rightarrow> None | x # _ \<Rightarrow> Some x)"

definition insert_pending ::
  "instant \<Rightarrow> PendingOperationInsert \<Rightarrow> operation_table \<Rightarrow> (operation_table, sql_error) result" where
  "insert_pending now p ops =
     (if \<exists>x \<in> set ops. op_operation_id x = pi_operation_id p \<or> op_logical_request_key x = pi_logical_request_key p
      then Err ConstraintViolation
      else Ok (ops @
        [\<lparr>op_operation_id = pi_operation_id p, op_run_id = pi_run_id p,
          op_epoch = u64_or_zero (sat_i64 (pi_epoch p)), op_step_id = pi_step_id p,
          op_capsule_envelope_digest = pi_capsule_envelope_digest p,
          op_source_attempt_id = pi_source_attempt_id p, op_logical_request_key = pi_logical_request_key p,
          op_intent_digest = pi_intent_digest p, op_status = OpPending, op_owner_pid = Some (pi_owner_pid p),
          op_lease_expires_at = Some (pi_lease_expires_at p),
          op_execution_attempt_id = Some (pi_execution_attempt_id p), op_serialized_outcome = None,
          op_created_at = now, op_finalized_at = None\<rparr>]))"

definition adopt_guard :: "string \<Rightarrow> instant \<Rightarrow> RecoveryOperation \<Rightarrow> bool" where
  "adopt_guard oid now x \<longleftrightarrow> op_operation_id x = oid \<and> op_status x = OpPending \<and> lease_expired now x"

definition try_adopt_pending ::
  "string \<Rightarrow> u32 \<Rightarrow> instant \<Rightarrow> instant \<Rightarrow> operation_table \<Rightarrow> operation_table \<times> AdoptOutcome" where
  "try_adopt_pending oid pid lease now ops =
     (update_where (adopt_guard oid now) (\<lambda>x. x\<lparr>op_owner_pid := Some pid, op_lease_expires_at := Some lease\<rparr>) ops,
      if count_where (adopt_guard oid now) ops = 1 then Adopted else StillOwned)"

definition pending_guard :: "string \<Rightarrow> RecoveryOperation \<Rightarrow> bool" where
  "pending_guard oid x \<longleftrightarrow> op_operation_id x = oid \<and> op_status x = OpPending"

definition finalize_guarded ::
  "instant \<Rightarrow> string \<Rightarrow> OperationStatus \<Rightarrow> string \<Rightarrow> operation_table \<Rightarrow> (operation_table, sql_error) result" where
  "finalize_guarded now oid terminal detail ops =
     (if count_where (pending_guard oid) ops \<noteq> 1 then Err ConstraintViolation
      else Ok (update_where (pending_guard oid)
                 (\<lambda>x. x\<lparr>op_status := terminal, op_serialized_outcome := Some detail, op_finalized_at := Some now\<rparr>) ops))"

definition attempt_id_from_outcome :: "(string \<Rightarrow> json option) \<Rightarrow> string \<Rightarrow> (i64, sql_error) result" where
  "attempt_id_from_outcome parse_json outcome =
     (case parse_json outcome of
        None \<Rightarrow> Err FromSqlConversionFailure
      | Some v \<Rightarrow>
          (case Option.bind (json_get v ''attempt_id'') json_as_i64 of
             Some i \<Rightarrow> Ok i
           | None \<Rightarrow> Err FromSqlConversionFailure))"

definition finalize_completed ::
  "(string \<Rightarrow> json option) \<Rightarrow> instant \<Rightarrow> string \<Rightarrow> string \<Rightarrow> operation_table \<Rightarrow>
   (operation_table \<times> i64, sql_error) result" where
  "finalize_completed parse_json now oid outcome ops =
     (if count_where (pending_guard oid) ops \<noteq> 1 then Err ConstraintViolation
      else map_ok (\<lambda>i. (update_where (pending_guard oid)
             (\<lambda>x. x\<lparr>op_status := OpCompleted, op_serialized_outcome := Some outcome,
                    op_finalized_at := Some now\<rparr>) ops, i))
           (attempt_id_from_outcome parse_json outcome))"

definition finalize_refused ::
  "instant \<Rightarrow> string \<Rightarrow> string \<Rightarrow> operation_table \<Rightarrow> (operation_table, sql_error) result" where
  "finalize_refused now oid reason ops = finalize_guarded now oid OpRefused reason ops"

definition finalize_conflict ::
  "instant \<Rightarrow> string \<Rightarrow> string \<Rightarrow> operation_table \<Rightarrow> (operation_table, sql_error) result" where
  "finalize_conflict now oid detail ops = finalize_guarded now oid OpConflict detail ops"

definition count_operations_for_run :: "string \<Rightarrow> operation_table \<Rightarrow> nat" where
  "count_operations_for_run run ops = count_where (\<lambda>x. op_run_id x = run) ops"


section \<open>The epoch as a compare-and-swap register\<close>

lemma sat_i64_small: "uint n \<le> i64_max \<Longrightarrow> sat_i64 n = uint n"
  by (simp add: sat_i64_def i64_try_from_u64_def)

lemma epoch_succ:
  assumes "uint (n :: u64) < i64_max"
  shows "n \<noteq> - 1" "uint (n + 1) = uint n + 1" "sat_i64 (n + 1) = uint n + 1"
proof -
  have n: "uint n < 9223372036854775807" using assms by (simp add: i64_max_def)
  have "uint (- 1 :: u64) = 18446744073709551615" by code_simp
  then show "n \<noteq> - 1" using n by auto
  show s: "uint (n + 1) = uint n + 1" using n by (simp add: uint_word_ariths)
  show "sat_i64 (n + 1) = uint n + 1" using assms by (simp add: sat_i64_small s)
qed

lemma lookup_epoch_update:
  "lookup_by ep_run_id k (update_where P (\<lambda>x. x\<lparr>ep_epoch := f x, ep_updated_at := now\<rparr>) t) =
     map_option (\<lambda>x. if P x then x\<lparr>ep_epoch := f x, ep_updated_at := now\<rparr> else x) (lookup_by ep_run_id k t)"
  by (rule lookup_by_update_where) simp

text \<open>An epoch below the limit is read back as written.\<close>

lemma u64_or_zero_uint [simp]: "uint n \<le> i64_max \<Longrightarrow> u64_or_zero (uint n) = n"
  by (simp add: u64_or_zero_def u64_try_from_i64_def)

text \<open>
  The epoch register is a compare-and-swap. With the caller's expectation below the 64-bit
  limit, the advance succeeds exactly when the expectation equals the persisted epoch or the
  run has no row yet, in which case \<^emph>\<open>any\<close> expectation is accepted; it then stores
  the expectation plus one and no other run changes. Otherwise it reports the persisted epoch
  and changes nothing.
\<close>

theorem cas_advance_epoch_spec:
  assumes "\<forall>r \<in> set t. 0 \<le> ep_epoch r \<and> ep_epoch r \<le> i64_max" and "uint expected < i64_max"
  shows "(if lookup_by ep_run_id run t = None \<or> read_epoch run t = Ok expected
     then \<exists>t'. cas_advance_epoch now run expected t = Ok (t', Advanced expected (expected + 1)) \<and>
            read_epoch run t' = Ok (expected + 1) \<and>
            (\<forall>other. other \<noteq> run \<longrightarrow> read_epoch other t' = read_epoch other t)
     else \<exists>persisted. read_epoch run t = Ok persisted \<and>
            cas_advance_epoch now run expected t = Ok (t, Stale persisted expected))"
proof (cases "lookup_by ep_run_id run t")
  case None
  have "read_epoch other (t @ [\<lparr>ep_run_id = run, ep_epoch = uint expected + 1, ep_updated_at = now\<rparr>]) =
      (if other = run then Ok (u64_or_zero (uint expected + 1)) else read_epoch other t)" for other
    using None assms(2) by (auto simp: read_epoch_def lookup_by_append split: option.split)
  moreover have "u64_or_zero (uint expected + 1) = expected + 1"
    using epoch_succ [OF assms(2)] u64_or_zero_uint [of "expected + 1"] assms(2) by simp
  ultimately show ?thesis using None epoch_succ [OF assms(2)]
    by (simp add: cas_advance_epoch_def)
next
  case (Some r)
  have r: "0 \<le> ep_epoch r" "ep_epoch r \<le> i64_max" using assms(1) lookup_by_SomeD [OF Some] by auto
  then have rd: "read_epoch run t = Ok (word_of_int (ep_epoch r))"
    by (simp add: read_epoch_def Some u64_or_zero_def u64_try_from_i64_def)
  have eq: "word_of_int (ep_epoch r) = expected \<longleftrightarrow> ep_epoch r = uint expected"
  proof
    assume "word_of_int (ep_epoch r) = expected"
    then show "ep_epoch r = uint expected" using r by (auto simp: uint_word_of_int i64_max_def)
  qed simp
  show ?thesis
  proof (cases "ep_epoch r = uint expected")
    case True
    have "u64_or_zero (uint expected + 1) = expected + 1"
      using epoch_succ [OF assms(2)] u64_or_zero_uint [of "expected + 1"] assms(2) by simp
    then show ?thesis using True rd eq Some epoch_succ [OF assms(2)] assms(2) sat_i64_small [of expected]
      by (auto simp: cas_advance_epoch_def read_epoch_def lookup_epoch_update split: option.split
          dest: lookup_by_SomeD)
  next
    case False
    then show ?thesis using rd eq Some assms(2) sat_i64_small [of expected]
      by (simp add: cas_advance_epoch_def)
  qed
qed

theorem cas_advance_epoch_spec_witness:
  "\<exists>t'. cas_advance_epoch 9 ''r'' 4 [\<lparr>ep_run_id = ''r'', ep_epoch = 4, ep_updated_at = 1\<rparr>] = Ok (t', Advanced 4 5) \<and>
     read_epoch ''r'' t' = Ok 5"
proof -
  let ?t = "[\<lparr>ep_run_id = ''r'', ep_epoch = 4, ep_updated_at = 1\<rparr>]"
  have "\<forall>r \<in> set ?t. 0 \<le> ep_epoch r \<and> ep_epoch r \<le> i64_max" "uint (4 :: u64) < i64_max"
    "read_epoch ''r'' ?t = Ok 4"
    by (simp_all add: i64_max_def read_epoch_def u64_or_zero_def u64_try_from_i64_def)
  from cas_advance_epoch_spec [OF this(1,2), of "''r''" 9] this(3) show ?thesis by auto
qed

text \<open>Concurrent callers of the register, in any order.\<close>

datatype epoch_op = CasAdvance instant string u64

fun apply_epoch_op :: "epoch_op \<Rightarrow> epoch_table \<Rightarrow> epoch_table \<times> bool" where
  "apply_epoch_op (CasAdvance now run expected) t =
     (case cas_advance_epoch now run expected t of
        Ok (t', Advanced _ _) \<Rightarrow> (t', True)
      | Ok (t', Stale _ _) \<Rightarrow> (t', False)
      | Err _ \<Rightarrow> (t, False))"

fun epoch_key :: "epoch_op \<Rightarrow> string \<times> u64" where
  "epoch_key (CasAdvance now run expected) = (run, expected)"

fun epoch_in_range :: "epoch_op \<Rightarrow> bool" where
  "epoch_in_range (CasAdvance now run expected) \<longleftrightarrow> uint expected < i64_max"

definition epoch_passed :: "epoch_table \<Rightarrow> string \<times> u64 \<Rightarrow> bool" where
  "epoch_passed t k \<longleftrightarrow> (case lookup_by ep_run_id (fst k) t of Some r \<Rightarrow> uint (snd k) < ep_epoch r | None \<Rightarrow> False)"

lemma apply_epoch_cases:
  assumes "uint expected < i64_max"
  obtains (inserted) "lookup_by ep_run_id run t = None"
      "apply_epoch_op (CasAdvance now run expected) t =
        (t @ [\<lparr>ep_run_id = run, ep_epoch = uint expected + 1, ep_updated_at = now\<rparr>], True)"
  | (advanced) r where "lookup_by ep_run_id run t = Some r" "ep_epoch r = uint expected"
      "apply_epoch_op (CasAdvance now run expected) t =
        (update_where (\<lambda>x. ep_run_id x = run) (\<lambda>x. x\<lparr>ep_epoch := ep_epoch x + 1, ep_updated_at := now\<rparr>) t, True)"
  | (stale) "apply_epoch_op (CasAdvance now run expected) t = (t, False)"
proof (cases "lookup_by ep_run_id run t")
  case None
  then show ?thesis using epoch_succ [OF assms] by (intro that(1)) (simp_all add: cas_advance_epoch_def)
next
  case (Some r)
  show ?thesis
  proof (cases "ep_epoch r = uint expected")
    case True
    then show ?thesis using Some assms sat_i64_small [of expected]
      by (intro that(2)) (simp_all add: cas_advance_epoch_def Let_def)
  next
    case False
    then show ?thesis using Some assms sat_i64_small [of expected]
      by (intro that(3), cases "read_epoch run t") (simp_all add: cas_advance_epoch_def Let_def)
  qed
qed

interpretation epoch_cas: exclusive_claim apply_epoch_op epoch_key epoch_passed epoch_in_range "\<lambda>_. True"
proof unfold_locales
  fix a t
  assume adm: "epoch_in_range a" and won: "snd (apply_epoch_op a t)"
  obtain now run expected where a: "a = CasAdvance now run expected" by (cases a)
  with adm have small: "uint expected < i64_max" by simp
  show "\<not> epoch_passed t (epoch_key a)" "epoch_passed (fst (apply_epoch_op a t)) (epoch_key a)"
    using won by (cases rule: apply_epoch_cases [OF small, of run t now];
        auto simp: a epoch_passed_def lookup_by_append lookup_epoch_update dest: lookup_by_SomeD)+
next
  fix a t k
  assume adm: "epoch_in_range a" and held: "epoch_passed t k"
  obtain now run expected where a: "a = CasAdvance now run expected" by (cases a)
  with adm have small: "uint expected < i64_max" by simp
  show "epoch_passed (fst (apply_epoch_op a t)) k"
    using held by (cases rule: apply_epoch_cases [OF small, of run t now])
      (auto simp: a epoch_passed_def lookup_by_append lookup_epoch_update split: option.splits)
qed simp

text \<open>
  An epoch is claimed once. In any interleaving of advances by any number of recoverers
  (expectations below the limit), at most one caller ever advances a run from a given epoch,
  and none advances it from an epoch it has already passed.
\<close>

theorem epoch_claims_are_exclusive:
  assumes "list_all epoch_in_range ops"
  shows "distinct (map epoch_key (winners apply_epoch_op ops t)) \<and>
    (epoch_passed t k \<longrightarrow> k \<notin> epoch_key ` set (winners apply_epoch_op ops t))"
  using epoch_cas.winners_distinct [OF assms] epoch_cas.held_not_won [OF assms] by simp

theorem epoch_claims_are_exclusive_witness:
  "distinct (map epoch_key (winners apply_epoch_op [CasAdvance 1 ''r'' 0, CasAdvance 2 ''r'' 0, CasAdvance 3 ''r'' 1] []))"
  using epoch_claims_are_exclusive [of "[CasAdvance 1 ''r'' 0, CasAdvance 2 ''r'' 0, CasAdvance 3 ''r'' 1]" "[]"]
  by (simp add: i64_max_def)


section \<open>Identities\<close>

lemma length_source_bytes [simp]: "length (source_bytes s) = 8"
  by (simp add: source_bytes_def i64_be_bytes_def split: option.split)

definition in_i64 :: "i64 option \<Rightarrow> bool" where
  "in_i64 s \<longleftrightarrow> (case s of Some i \<Rightarrow> - i64_max - 1 \<le> i \<and> i \<le> i64_max | None \<Rightarrow> True)"

lemma source_bytes_inj:
  assumes "in_i64 s" "in_i64 t" "source_bytes s = source_bytes t"
  shows "s = t \<or> {s, t} = {None, Some 0}"
proof -
  have z: "replicate 8 0 = i64_be_bytes 0" by code_simp
  have zero: "i = 0" if "i64_be_bytes i = i64_be_bytes 0" "- i64_max - 1 \<le> i" "i \<le> i64_max" for i
    by (rule i64_be_bytes_inj [OF that(2,3) _ _ that(1)]) (simp_all add: i64_max_def)
  have inj: "i = j" if "i64_be_bytes i = i64_be_bytes j" "in_i64 (Some i)" "in_i64 (Some j)" for i j
    by (rule i64_be_bytes_inj [OF _ _ _ _ that(1)]) (use that(2,3) in \<open>simp_all add: in_i64_def\<close>)
  show ?thesis
  proof (cases s)
    case None
    then show ?thesis using assms zero by (cases t) (auto simp: source_bytes_def z in_i64_def dest: sym)
  next
    case (Some i)
    then show ?thesis using assms zero inj by (cases t) (auto simp: source_bytes_def z in_i64_def)
  qed
qed

lemma operation_frame_parts:
  "operation_id_frame run step capsule source intent =
     push_len_prefixed [] (as_bytes run) @ push_len_prefixed [] (as_bytes step) @
     push_len_prefixed [] (as_bytes capsule) @ push_len_prefixed [] (source_bytes source) @
     push_len_prefixed [] (as_bytes intent)"
  by (simp add: operation_id_frame_def Let_def push_len_prefixed_append [of "push_len_prefixed _ _"])

text \<open>
  An operation id names its binding. If two recovery requests have the same operation id,
  they agree on run, step, capsule digest, operator intent and source attempt (up to the
  absent source and the id 0, which are encoded alike), unless the hash has a collision.
\<close>

theorem operation_id_binds:
  assumes "compute_operation_id h run step capsule source intent = compute_operation_id h run' step' capsule' source' intent'"
    and "\<forall>s \<in> {run, step, capsule, intent, run', step', capsule', intent'}. length s < 2 ^ 64"
    and "in_i64 source" and "in_i64 source'"
  shows "collision h \<or> (run = run' \<and> step = step' \<and> capsule = capsule' \<and> intent = intent' \<and>
    (source = source' \<or> {source, source'} = {None, Some 0}))"
proof -
  have "collision h \<or> operation_id_frame run step capsule source intent = operation_id_frame run' step' capsule' source' intent'"
    using assms(1) digest_determines by (auto simp: compute_operation_id_def)
  moreover have "run = run' \<and> step = step' \<and> capsule = capsule' \<and> intent = intent' \<and> source_bytes source = source_bytes source'"
    if "operation_id_frame run step capsule source intent = operation_id_frame run' step' capsule' source' intent'"
    using that assms(2)
    by (simp add: operation_frame_parts field64.split_unique field64.enc_inj)
  ultimately show ?thesis using source_bytes_inj [OF assms(3,4)] by blast
qed

theorem operation_id_binds_witness:
  "\<not> collision (\<lambda>x. x) \<and>
   compute_operation_id (\<lambda>x. x) ''r'' ''s'' ''c'' None ''retry'' = compute_operation_id (\<lambda>x. x) ''r'' ''s'' ''c'' (Some 0) ''retry'' \<and>
   {None, Some (0::int)} = {None, Some 0}"
proof -
  have e: "compute_operation_id (\<lambda>x. x) ''r'' ''s'' ''c'' None ''retry'' = compute_operation_id (\<lambda>x. x) ''r'' ''s'' ''c'' (Some 0) ''retry''"
  proof -
    have "source_bytes None = source_bytes (Some 0)" by code_simp
    then show ?thesis by (simp add: compute_operation_id_def operation_id_frame_def)
  qed
  have "in_i64 (Some 0)" "in_i64 None" by (simp_all add: in_i64_def i64_max_def)
  with operation_id_binds [OF e] e show ?thesis by (simp add: collision_def)
qed

section \<open>Finalized records\<close>

datatype ledger_op =
    InsertPending instant PendingOperationInsert
  | AdoptPending string u32 instant instant
  | FinalizeCompleted instant string string
  | FinalizeRefused instant string string
  | FinalizeConflict instant string string

fun apply_ledger_op :: "(string \<Rightarrow> json option) \<Rightarrow> ledger_op \<Rightarrow> operation_table \<Rightarrow> operation_table" where
  "apply_ledger_op pj (InsertPending now p) ops = (case insert_pending now p ops of Ok ops' \<Rightarrow> ops' | Err _ \<Rightarrow> ops)"
| "apply_ledger_op pj (AdoptPending oid pid lease now) ops = fst (try_adopt_pending oid pid lease now ops)"
| "apply_ledger_op pj (FinalizeCompleted now oid out) ops =
     (case finalize_completed pj now oid out ops of Ok (ops', _) \<Rightarrow> ops' | Err _ \<Rightarrow> ops)"
| "apply_ledger_op pj (FinalizeRefused now oid reason) ops =
     (case finalize_refused now oid reason ops of Ok ops' \<Rightarrow> ops' | Err _ \<Rightarrow> ops)"
| "apply_ledger_op pj (FinalizeConflict now oid detail) ops =
     (case finalize_conflict now oid detail ops of Ok ops' \<Rightarrow> ops' | Err _ \<Rightarrow> ops)"

lemma lookup_op_update:
  "(\<And>x. op_operation_id (f x) = op_operation_id x) \<Longrightarrow> lookup_by op_operation_id k ops = Some r \<Longrightarrow> \<not> P r \<Longrightarrow>
   lookup_by op_operation_id k (update_where P f ops) = Some r"
  by (simp add: lookup_by_update_where)

interpretation ledger: write_once "apply_ledger_op pj" "\<lambda>ops oid. lookup_by op_operation_id oid ops"
  "\<lambda>x. op_status x \<noteq> OpPending"
proof
  fix ops :: operation_table and oid r a
  assume r: "lookup_by op_operation_id oid ops = Some r" "op_status r \<noteq> OpPending"
  show "lookup_by op_operation_id oid (apply_ledger_op pj a ops) = Some r"
  proof (cases a)
    case (InsertPending now p)
    then show ?thesis using r by (auto simp: insert_pending_def lookup_by_append split: result.split)
  next
    case (AdoptPending i pid lease now)
    then show ?thesis using r by (auto simp: try_adopt_pending_def adopt_guard_def intro!: lookup_op_update)
  next
    case (FinalizeCompleted now i out)
    have "lookup_by op_operation_id oid ops' = Some r" if "finalize_completed pj now i out ops = Ok (ops', n)" for ops' n
      using that r by (cases "attempt_id_from_outcome pj out")
        (auto simp: finalize_completed_def pending_guard_def split: if_splits intro!: lookup_op_update)
    then show ?thesis using FinalizeCompleted r by (auto split: result.split)
  next
    case (FinalizeRefused now i reason)
    then show ?thesis using r
      by (auto simp: finalize_refused_def finalize_guarded_def pending_guard_def split: result.split intro!: lookup_op_update)
  next
    case (FinalizeConflict now i detail)
    then show ?thesis using r
      by (auto simp: finalize_conflict_def finalize_guarded_def pending_guard_def split: result.split intro!: lookup_op_update)
  qed
qed

text \<open>
  A finalized operation is final. Once an operation is completed, refused or in conflict,
  no sequence of insertions, adoptions and finalizations changes its record, so its stored
  outcome is the answer for ever.
\<close>

theorem finalized_operation_is_final:
  assumes "lookup_by op_operation_id oid ops = Some r" and "op_status r \<noteq> OpPending"
  shows "lookup_by op_operation_id oid (fold (apply_ledger_op pj) acts ops) = Some r"
  using assms by (rule ledger.frozen_fold)

definition demo_pending :: PendingOperationInsert where
  "demo_pending =
     \<lparr>pi_operation_id = ''op'', pi_run_id = ''r'', pi_epoch = 1, pi_step_id = ''s'', pi_capsule_envelope_digest = ''d'',
      pi_source_attempt_id = None, pi_logical_request_key = ''k'', pi_intent_digest = ''i'', pi_owner_pid = 5,
      pi_lease_expires_at = 10, pi_execution_attempt_id = 1\<rparr>"

theorem finalized_operation_is_final_witness:
  "map_option op_status (lookup_by op_operation_id ''op'' (fold (apply_ledger_op (\<lambda>_. None))
     [AdoptPending ''op'' 9 99 50, FinalizeConflict 60 ''op'' ''x'', InsertPending 70 demo_pending]
     (fold (apply_ledger_op (\<lambda>_. None)) [InsertPending 1 demo_pending, FinalizeRefused 2 ''op'' ''no''] []))) = Some OpRefused"
proof -
  let ?ops = "fold (apply_ledger_op (\<lambda>_. None)) [InsertPending 1 demo_pending, FinalizeRefused 2 ''op'' ''no''] []"
  have "\<exists>r. lookup_by op_operation_id ''op'' ?ops = Some r \<and> op_status r = OpRefused"
    by (simp add: insert_pending_def demo_pending_def finalize_refused_def finalize_guarded_def pending_guard_def)
  then obtain r where r: "lookup_by op_operation_id ''op'' ?ops = Some r" "op_status r = OpRefused" by blast
  then have "op_status r \<noteq> OpPending" by simp
  from finalized_operation_is_final [OF r(1) this, of "\<lambda>_. None"
      "[AdoptPending ''op'' 9 99 50, FinalizeConflict 60 ''op'' ''x'', InsertPending 70 demo_pending]"] r(2)
  show ?thesis by (simp only: option.map)
qed

text \<open>Attempts likewise: a finalized attempt is never rewritten.\<close>

datatype attempt_op =
    StartAttempt instant AttemptStart
  | AppendOutcome instant i64 string StateSnapshot "json option" "string option"

fun apply_attempt_op :: "hash \<Rightarrow> (StateSnapshot \<Rightarrow> byte list) \<Rightarrow> attempt_op \<Rightarrow> attempt_table \<Rightarrow> attempt_table" where
  "apply_attempt_op h sb (StartAttempt now a) rows = fst (record_attempt_start h sb now a rows)"
| "apply_attempt_op h sb (AppendOutcome now i st snap rr cd) rows =
     (case append_attempt_outcome h sb now i st snap rr cd rows of Ok rows' \<Rightarrow> rows' | Err _ \<Rightarrow> rows)"

interpretation attempts: write_once "apply_attempt_op h sb" "\<lambda>rows i. lookup_by ar_attempt_id i rows"
  "\<lambda>r. ar_finalized_at r \<noteq> None"
proof
  fix rows :: attempt_table and i r a
  assume r: "lookup_by ar_attempt_id i rows = Some r" "ar_finalized_at r \<noteq> None"
  show "lookup_by ar_attempt_id i (apply_attempt_op h sb a rows) = Some r"
  proof (cases a)
    case (StartAttempt now x)
    then show ?thesis using r by (simp add: record_attempt_start_def Let_def lookup_by_append)
  next
    case (AppendOutcome now j st snap rr cd)
    then show ?thesis using r
      by (auto simp: append_attempt_outcome_def Let_def lookup_by_update_where unfinalized_guard_def split: result.split)
  qed
qed

lemma next_attempt_id_fresh: "\<forall>r \<in> set rows. ar_attempt_id r < next_attempt_id rows"
proof -
  have "\<forall>x \<in> set xs. x \<le> fold max xs m" "m \<le> fold max xs m" for xs and m :: int
    by (induction xs arbitrary: m) (simp_all, (meson max.bounded_iff order_trans)+)
  then show ?thesis by (force simp: next_attempt_id_def)
qed

end
