(* ===== verification/Recovery_Protocol.thy ===== *)
theory Recovery_Protocol
  imports Recovery_Capsule Recovery_Store Wait_State
begin

text \<open>
  The recovery protocol \<^verbatim>\<open>RecoveryProtocolV1\<close> (\<^verbatim>\<open>engine/recovery/protocol\<close>) and the
  step policies it applies (\<^verbatim>\<open>engine/recovery/policy.rs\<close>): prepare reads the durable state
  and seals an authority, reserve claims the recovery in one transaction, execute calls the injected
  executor outside any transaction, finalize records the outcome in a second transaction. A
  transaction is a function of the database; one that returns without committing leaves it unchanged.
  Parameters: the hash, the texts of database errors and instants, the bytes of a state snapshot,
  reading and printing of JSON and the decoding of a workflow (record \<open>RecoveryEnv\<close>); the process
  id; the clock of each phase; the verdict of the workspace ownership kernel in each phase; the
  observer between prepare and reserve and the executor, both of which may change the database
  arbitrarily.
\<close>

section \<open>Requests, strategies and outcomes\<close>

datatype OperatorVerb = Resume | Retry | Rewind

fun normalize_operator_verb :: "OperatorVerb \<Rightarrow> string" where
  "normalize_operator_verb Resume = ''resume''"
| "normalize_operator_verb Retry = ''retry''"
| "normalize_operator_verb Rewind = ''rewind''"

record RecoveryRequest =
  rq_run_id :: string
  rq_step_id :: string
  rq_expected_epoch :: u64
  rq_operator_verb :: OperatorVerb

datatype RefusalReason =
    NonRecoverable
  | VerificationFailed string
  | NotAuthorized
  | SalvageOnly
  | ConflictingOperation

datatype RecoveryStrategy =
    ContinueWorkspaceStrategy
  | Reenter
  | ReconcileThenReenterStrategy
  | CompensateThenRetryStrategy
  | Refused RefusalReason

datatype RecoveryError =
    RePersistence string
  | ReCapsule string
  | ReVerification string
  | ReOperationConflict string
  | ReWorkspaceNotOwned
  | ReAuthorityChanged
  | ReWorkspaceAuthorizationRevoked
  | ReExecution string

datatype RecoveryOutcome =
    Recovered string i64 string
  | AlreadyApplied string i64 string
  | RoRefused RefusalReason
  | StaleEpoch u64 u64
  | RoConflict string

section \<open>Policies\<close>

definition SAFE_RERUN_STEPS :: "string list" where
  "SAFE_RERUN_STEPS =
     [''watch_pr_checks'', ''collect_ci_failures'', ''collect_coderabbit_feedback'',
      ''capture_pr_identity'', ''post_pr_iteration_guard'']"

definition is_safe_rerun_step :: "string \<Rightarrow> bool" where
  "is_safe_rerun_step step \<longleftrightarrow> step \<in> set SAFE_RERUN_STEPS"

definition policy_for_step :: "StepDef \<Rightarrow> string \<Rightarrow> StepRecoveryPolicy" where
  "policy_for_step step_def step_id =
     (case sd_recovery_policy step_def of
        Some declared \<Rightarrow> declared
      | None \<Rightarrow> if is_safe_rerun_step step_id then Idempotent else NonRecoverablePolicy)"

fun select_strategy :: "StepRecoveryPolicy \<Rightarrow> RecoveryStrategy" where
  "select_strategy PureReenter = Reenter"
| "select_strategy Idempotent = Reenter"
| "select_strategy ReconcileThenReenterPolicy = ReconcileThenReenterStrategy"
| "select_strategy ContinueWorkspacePolicy = ContinueWorkspaceStrategy"
| "select_strategy CompensateThenRetryPolicy = CompensateThenRetryStrategy"
| "select_strategy NonRecoverablePolicy = Refused NonRecoverable"

section \<open>State and environment\<close>

record RecoveryDb = WaitDb +
  db_capsules :: capsule_table
  db_epochs :: epoch_table
  db_attempts :: attempt_table
  db_operations :: operation_table

record RecoveryEnv =
  rv_sha256 :: hash
  rv_sql_text :: "sql_error \<Rightarrow> string"
  rv_rfc3339 :: "instant \<Rightarrow> string"
  rv_snapshot_bytes :: "StateSnapshot \<Rightarrow> byte list"
  rv_parse_json :: "string \<Rightarrow> json option"
  rv_print_json :: "json \<Rightarrow> string"
  rv_decode_workflow :: "byte list \<Rightarrow> (WorkflowType, string) result"
  rv_process_id :: u32

text \<open>
  What the ownership kernel (\<^verbatim>\<open>engine/workspace_ownership.rs\<close>) decides about a workspace; a
  verified workspace is represented by the identity of the directory its descriptor holds.
\<close>

datatype OwnershipVerdict = OvOwned WorkspaceAuthorization | OvNoEvidence | OvRejected string

record CheckpointIdentity =
  ci_checkpoint_id :: string
  ci_step_id :: string

record RecoveryAuthority =
  ra_workspace_authorization :: "WorkspaceAuthorization option"
  ra_capsule :: ExecutionCapsuleV1
  ra_source_attempt :: "AttemptRow option"
  ra_policy :: StepRecoveryPolicy
  ra_strategy :: RecoveryStrategy

record PreparedRecovery =
  pr_authority :: RecoveryAuthority
  pr_expected_epoch :: u64
  pr_step_id :: string
  pr_operator_verb :: OperatorVerb
  pr_operation_id :: string
  pr_logical_request_key :: string
  pr_intent_digest :: string
  pr_run_status :: RunStatus
  pr_current_step :: "string option"
  pr_live_pid :: "u32 option"
  pr_checkpoint_identity :: "CheckpointIdentity option"
  pr_wait_state :: "WaitStateRecord option"
  pr_lease :: "IssueLease option"
  pr_verified_workspace :: "WorkspaceAuthorization option"

record ReservedRecovery =
  rr_operation_id :: string
  rr_attempt_id :: i64
  rr_epoch :: u64

definition map_persist :: "RecoveryEnv \<Rightarrow> string \<Rightarrow> sql_error \<Rightarrow> RecoveryError" where
  "map_persist env ctx e = RePersistence (ctx @ '': '' @ rv_sql_text env e)"

fun capsule_error_to_string :: "CapsuleError \<Rightarrow> string" where
  "capsule_error_to_string EnvelopeDigestMismatch = ''envelope digest mismatch''"
| "capsule_error_to_string (UnsupportedSchema v) =
     ''unsupported capsule schema version: '' @ nat_to_string (unat v)"
| "capsule_error_to_string (UnsupportedCanonicalization v) =
     ''unsupported canonicalization version: '' @ nat_to_string (unat v)"
| "capsule_error_to_string (UnsupportedDomain v) = ''unsupported domain version: '' @ nat_to_string (unat v)"
| "capsule_error_to_string (UnsupportedProvenance v) =
     ''unsupported provenance version: '' @ nat_to_string (unat v)"
| "capsule_error_to_string (CapsuleCanonicalize root e) =
     ''failed to canonicalize config root '' @ [CHR 0x27] @ root @ [CHR 0x27] @ '': '' @ e"
| "capsule_error_to_string (InvalidEncoding encoded reason) =
     ''invalid encoding: '' @ reason @ '' (encoded value was '' @ [CHR 0x27] @ encoded @ [CHR 0x27] @ '')''"

definition run_id_of :: "PreparedRecovery \<Rightarrow> string" where
  "run_id_of p = ec_run_id (ra_capsule (pr_authority p))"

definition step_id_of :: "PreparedRecovery \<Rightarrow> string" where
  "step_id_of p = pr_step_id p"

definition source_attempt_id_of :: "PreparedRecovery \<Rightarrow> i64 option" where
  "source_attempt_id_of p = map_option ar_attempt_id (ra_source_attempt (pr_authority p))"

definition checkpoint_identity_of :: "RecoveryEnv \<Rightarrow> Checkpoint \<Rightarrow> CheckpointIdentity" where
  "checkpoint_identity_of env cp =
     \<lparr>ci_checkpoint_id = cp_step_id cp @ ''@'' @ rv_rfc3339 env (cp_timestamp cp), ci_step_id = cp_step_id cp\<rparr>"

section \<open>Prepare\<close>

definition load_checkpoint_identity :: "RecoveryEnv \<Rightarrow> RecoveryDb \<Rightarrow> string \<Rightarrow> CheckpointIdentity option" where
  "load_checkpoint_identity env db run =
     map_option (checkpoint_identity_of env) (load_checkpoint_with_conn run (db_checkpoints db))"

definition load_issue_lease :: "RecoveryDb \<Rightarrow> RunMetadata \<Rightarrow> IssueLease option" where
  "load_issue_lease db md =
     (case rm_repository md of
        None \<Rightarrow> None
      | Some repo \<Rightarrow>
          (case issue_lease_number md of
             None \<Rightarrow> None
           | Some n \<Rightarrow>
               (case get_lease_for_run (rm_run_id md) (db_leases db) of
                  Some lease \<Rightarrow> Some lease
                | None \<Rightarrow>
                    (case get_lease_for_issue repo n (db_leases db) of Ok lease \<Rightarrow> lease | Err _ \<Rightarrow> None))))"

record RecoveryBindings =
  bi_operation_id :: string
  bi_logical_request_key :: string
  bi_intent_digest :: string

definition compute_bindings ::
  "RecoveryEnv \<Rightarrow> RecoveryRequest \<Rightarrow> ExecutionCapsuleV1 \<Rightarrow> AttemptRow option \<Rightarrow> RecoveryBindings" where
  "compute_bindings env request capsule source =
     (let intent = normalize_operator_verb (rq_operator_verb request);
          source_id = map_option ar_attempt_id source
      in \<lparr>bi_operation_id =
            compute_operation_id (rv_sha256 env) (rq_run_id request) (rq_step_id request)
              (ec_envelope_digest capsule) source_id intent,
          bi_logical_request_key =
            compute_logical_request_key (rv_sha256 env) (rq_run_id request) source_id intent,
          bi_intent_digest = compute_intent_digest (rv_sha256 env) intent\<rparr>)"

definition resolve_step_def ::
  "RecoveryEnv \<Rightarrow> ExecutionCapsuleV1 \<Rightarrow> string \<Rightarrow> (StepDef, RecoveryError) result" where
  "resolve_step_def env capsule step =
     (case adapter_for capsule of
        Err e \<Rightarrow> Err (ReCapsule (adapter_error_to_string e))
      | Ok _ \<Rightarrow>
          (case step_def_for (rv_decode_workflow env) capsule step of
             Err e \<Rightarrow> Err (ReCapsule (adapter_error_to_string e))
           | Ok s \<Rightarrow> Ok s))"

fun anchor_workspace_ownership ::
  "OwnershipVerdict \<Rightarrow> RecoveryStrategy \<Rightarrow>
   (WorkspaceAuthorization option \<times> WorkspaceAuthorization option, RecoveryError) result" where
  "anchor_workspace_ownership (OvOwned auth) strategy = Ok (Some auth, Some auth)"
| "anchor_workspace_ownership OvNoEvidence strategy =
     (if strategy = ContinueWorkspaceStrategy
      then Err (ReVerification ''workspace ownership evidence is missing for ContinueWorkspace'')
      else Ok (None, None))"
| "anchor_workspace_ownership (OvRejected reason) strategy = Err (ReVerification reason)"

definition prepare ::
  "RecoveryEnv \<Rightarrow> OwnershipVerdict \<Rightarrow> RecoveryRequest \<Rightarrow> RecoveryDb \<Rightarrow> (PreparedRecovery, RecoveryError) result" where
  "prepare env verdict request db =
     (case load_capsule_v1 (rv_sha256 env) (rq_run_id request) (db_capsules db) of
        Err e \<Rightarrow> Err (map_persist env ''load capsule'' e)
      | Ok capsule \<Rightarrow>
     (case verify_envelope_digest (rv_sha256 env) capsule of
        Err e \<Rightarrow> Err (ReCapsule (capsule_error_to_string e))
      | Ok _ \<Rightarrow>
     (case resolve_step_def env capsule (rq_step_id request) of
        Err e \<Rightarrow> Err e
      | Ok step_def \<Rightarrow>
     (let policy = policy_for_step step_def (rq_step_id request);
          strategy = select_strategy policy;
          source_attempt = latest_for_step (rq_run_id request) (rq_step_id request) (db_attempts db)
      in case anchor_workspace_ownership verdict strategy of
        Err e \<Rightarrow> Err e
      | Ok (verified_workspace, workspace_authorization) \<Rightarrow>
     (let bindings = compute_bindings env request capsule source_attempt
      in case get_run_with_conn (rq_run_id request) (db_runs db) of
        None \<Rightarrow> Err (RePersistence (''run not found: '' @ rq_run_id request))
      | Some metadata \<Rightarrow>
     Ok \<lparr>pr_authority =
           \<lparr>ra_workspace_authorization = workspace_authorization, ra_capsule = capsule,
            ra_source_attempt = source_attempt, ra_policy = policy, ra_strategy = strategy\<rparr>,
         pr_expected_epoch = rq_expected_epoch request, pr_step_id = rq_step_id request,
         pr_operator_verb = rq_operator_verb request, pr_operation_id = bi_operation_id bindings,
         pr_logical_request_key = bi_logical_request_key bindings,
         pr_intent_digest = bi_intent_digest bindings, pr_run_status = rm_status metadata,
         pr_current_step = rm_current_step metadata, pr_live_pid = rm_process_pid metadata,
         pr_checkpoint_identity = load_checkpoint_identity env db (rq_run_id request),
         pr_wait_state = get_wait_state (rq_run_id request) (db_waits db),
         pr_lease = load_issue_lease db metadata, pr_verified_workspace = verified_workspace\<rparr>)))))"

section \<open>Reserve\<close>

text \<open>Instants count nanoseconds.\<close>

definition RECOVERY_LEASE_MINUTES :: nat where
  "RECOVERY_LEASE_MINUTES = 5"

definition recovery_lease_end :: "instant \<Rightarrow> instant" where
  "recovery_lease_end now = now + RECOVERY_LEASE_MINUTES * 60000000000"

datatype ReserveOutcome = Proceed ReservedRecovery | ShortCircuit RecoveryOutcome

datatype CasResolution = CasAdvanced u64 | CasStale RecoveryOutcome

datatype ExistingResolution = NotFound | ExShortCircuit RecoveryOutcome | AdoptedPending ReservedRecovery

definition persisted_refusal_reason :: "string \<Rightarrow> RefusalReason" where
  "persisted_refusal_reason detail =
     (if str_contains ''not recoverable'' detail then NonRecoverable
      else if str_contains ''not authorized'' detail then NotAuthorized
      else if str_contains ''salvage'' detail then SalvageOnly
      else if str_contains ''conflicting'' detail then ConflictingOperation
      else VerificationFailed detail)"

definition outcome_text :: "RecoveryOperation \<Rightarrow> string" where
  "outcome_text x = (case op_serialized_outcome x of Some t \<Rightarrow> t | None \<Rightarrow> [])"

definition same_capsule :: "PreparedRecovery \<Rightarrow> RecoveryOperation \<Rightarrow> bool" where
  "same_capsule p x \<longleftrightarrow> op_capsule_envelope_digest x = ec_envelope_digest (ra_capsule (pr_authority p))"

definition missing_attempt :: "string \<Rightarrow> RecoveryOperation \<Rightarrow> RecoveryError" where
  "missing_attempt kind x =
     RePersistence (kind @ '' operation '' @ [CHR 0x27] @ op_operation_id x @ [CHR 0x27] @
       '' has no execution_attempt_id (ledger corruption)'')"

definition resolve_completed ::
  "PreparedRecovery \<Rightarrow> RecoveryOperation \<Rightarrow> (ExistingResolution, RecoveryError) result" where
  "resolve_completed p x =
     (if \<not> same_capsule p x then Ok (ExShortCircuit (RoRefused ConflictingOperation))
      else case op_execution_attempt_id x of
             None \<Rightarrow> Err (missing_attempt ''completed'' x)
           | Some i \<Rightarrow> Ok (ExShortCircuit (AlreadyApplied (outcome_text x) i (op_operation_id x))))"

definition resolve_refused_or_conflict :: "PreparedRecovery \<Rightarrow> RecoveryOperation \<Rightarrow> ExistingResolution" where
  "resolve_refused_or_conflict p x =
     (if \<not> same_capsule p x then ExShortCircuit (RoRefused ConflictingOperation)
      else ExShortCircuit
        (case op_status x of
           OpRefused \<Rightarrow> RoRefused (persisted_refusal_reason (outcome_text x))
         | OpConflict \<Rightarrow> RoConflict (outcome_text x)
         | _ \<Rightarrow> RoConflict ''unexpected terminal status in resolve_refused_or_conflict''))"

definition resolve_adopt_outcome ::
  "RecoveryOperation \<Rightarrow> AdoptOutcome \<Rightarrow> (ExistingResolution, RecoveryError) result" where
  "resolve_adopt_outcome x adopt =
     (case op_execution_attempt_id x of
        None \<Rightarrow> Err (missing_attempt ''pending'' x)
      | Some i \<Rightarrow>
          (case adopt of
             Adopted \<Rightarrow>
               Ok (AdoptedPending \<lparr>rr_operation_id = op_operation_id x, rr_attempt_id = i, rr_epoch = op_epoch x\<rparr>)
           | StillOwned \<Rightarrow>
               Ok (ExShortCircuit (AlreadyApplied (outcome_text x) i (op_operation_id x)))))"

definition resolve_pending ::
  "RecoveryEnv \<Rightarrow> instant \<Rightarrow> PreparedRecovery \<Rightarrow> RecoveryOperation \<Rightarrow> operation_table \<Rightarrow>
   (operation_table \<times> ExistingResolution, RecoveryError) result" where
  "resolve_pending env now p x ops =
     (if \<not> same_capsule p x then Ok (ops, ExShortCircuit (RoRefused ConflictingOperation))
      else let (ops', adopt) =
             try_adopt_pending (op_operation_id x) (rv_process_id env) (recovery_lease_end now) now ops
           in map_ok (\<lambda>r. (ops', r)) (resolve_adopt_outcome x adopt))"

definition resolve_existing_status ::
  "RecoveryEnv \<Rightarrow> instant \<Rightarrow> PreparedRecovery \<Rightarrow> RecoveryOperation \<Rightarrow> operation_table \<Rightarrow>
   (operation_table \<times> ExistingResolution, RecoveryError) result" where
  "resolve_existing_status env now p x ops =
     (case op_status x of
        OpCompleted \<Rightarrow> map_ok (\<lambda>r. (ops, r)) (resolve_completed p x)
      | OpRefused \<Rightarrow> Ok (ops, resolve_refused_or_conflict p x)
      | OpConflict \<Rightarrow> Ok (ops, resolve_refused_or_conflict p x)
      | OpPending \<Rightarrow> resolve_pending env now p x ops)"

definition resolve_existing_operation ::
  "RecoveryEnv \<Rightarrow> instant \<Rightarrow> PreparedRecovery \<Rightarrow> operation_table \<Rightarrow>
   (operation_table \<times> ExistingResolution, RecoveryError) result" where
  "resolve_existing_operation env now p ops =
     (case lookup_logical_operation (pr_logical_request_key p) ops of
        None \<Rightarrow> Ok (ops, NotFound)
      | Some x \<Rightarrow> resolve_existing_status env now p x ops)"

definition revalidate_epoch ::
  "RecoveryEnv \<Rightarrow> PreparedRecovery \<Rightarrow> epoch_table \<Rightarrow> (RecoveryOutcome option, RecoveryError) result" where
  "revalidate_epoch env p t =
     (case read_epoch (run_id_of p) t of
        Err e \<Rightarrow> Err (map_persist env ''read epoch'' e)
      | Ok persisted \<Rightarrow>
          Ok (if persisted \<noteq> pr_expected_epoch p then Some (StaleEpoch persisted (pr_expected_epoch p)) else None))"

definition get_run_for_reserve :: "PreparedRecovery \<Rightarrow> RecoveryDb \<Rightarrow> (RunMetadata, RecoveryError) result" where
  "get_run_for_reserve p db =
     (case get_run_with_conn (run_id_of p) (db_runs db) of
        Some md \<Rightarrow> Ok md
      | None \<Rightarrow> Err (RePersistence (''run not found in reserve: '' @ run_id_of p)))"

definition load_reserve_checkpoint_identity :: "RecoveryEnv \<Rightarrow> RecoveryDb \<Rightarrow> string \<Rightarrow> CheckpointIdentity option" where
  "load_reserve_checkpoint_identity env db run =
     map_option (checkpoint_identity_of env) (load_checkpoint_with_conn run (db_checkpoints db))"

text \<open>The same resolution as in prepare, on the transaction.\<close>

definition load_reserve_lease :: "RecoveryDb \<Rightarrow> RunMetadata \<Rightarrow> IssueLease option" where
  "load_reserve_lease db md = load_issue_lease db md"

definition revalidate_authority_snapshot ::
  "RecoveryEnv \<Rightarrow> PreparedRecovery \<Rightarrow> RecoveryDb \<Rightarrow> (unit, RecoveryError) result" where
  "revalidate_authority_snapshot env p db =
     (case get_run_for_reserve p db of
        Err e \<Rightarrow> Err e
      | Ok md \<Rightarrow>
          (if rm_status md \<noteq> pr_run_status p then Err ReAuthorityChanged
           else if rm_current_step md \<noteq> pr_current_step p then Err ReAuthorityChanged
           else if rm_process_pid md \<noteq> pr_live_pid p then Err ReAuthorityChanged
           else if load_reserve_checkpoint_identity env db (run_id_of p) \<noteq> pr_checkpoint_identity p
             then Err ReAuthorityChanged
           else if get_wait_state (run_id_of p) (db_waits db) \<noteq> pr_wait_state p then Err ReAuthorityChanged
           else if load_reserve_lease db md \<noteq> pr_lease p then Err ReAuthorityChanged
           else Ok ()))"

fun reverify_workspace_marker_for_continue ::
  "OwnershipVerdict \<Rightarrow> PreparedRecovery \<Rightarrow> (unit, RecoveryError) result" where
  "reverify_workspace_marker_for_continue (OvOwned current) p =
     (if Some current = ra_workspace_authorization (pr_authority p) then Ok ()
      else Err ReWorkspaceAuthorizationRevoked)"
| "reverify_workspace_marker_for_continue _ p = Err ReWorkspaceAuthorizationRevoked"

definition revalidate_continue_workspace_authorization ::
  "OwnershipVerdict \<Rightarrow> PreparedRecovery \<Rightarrow> (unit, RecoveryError) result" where
  "revalidate_continue_workspace_authorization verdict p =
     (if ra_strategy (pr_authority p) \<noteq> ContinueWorkspaceStrategy then Ok ()
      else case pr_verified_workspace p of
             None \<Rightarrow> Err ReWorkspaceAuthorizationRevoked
           | Some verified \<Rightarrow>
               (if Some verified \<noteq> ra_workspace_authorization (pr_authority p)
                then Err ReWorkspaceAuthorizationRevoked
                else reverify_workspace_marker_for_continue verdict p))"

definition check_strategy_refusal :: "PreparedRecovery \<Rightarrow> RecoveryOutcome option" where
  "check_strategy_refusal p =
     (case ra_strategy (pr_authority p) of Refused reason \<Rightarrow> Some (RoRefused reason) | _ \<Rightarrow> None)"

definition perform_epoch_cas ::
  "RecoveryEnv \<Rightarrow> instant \<Rightarrow> PreparedRecovery \<Rightarrow> epoch_table \<Rightarrow> (epoch_table \<times> CasResolution, RecoveryError) result" where
  "perform_epoch_cas env now p t =
     (case cas_advance_epoch now (run_id_of p) (pr_expected_epoch p) t of
        Err e \<Rightarrow> Err (map_persist env ''CAS epoch'' e)
      | Ok (t', Advanced _ to) \<Rightarrow> Ok (t', CasAdvanced to)
      | Ok (t', Stale persisted _) \<Rightarrow> Ok (t', CasStale (StaleEpoch persisted (pr_expected_epoch p))))"

definition allocate_attempt ::
  "RecoveryEnv \<Rightarrow> instant \<Rightarrow> PreparedRecovery \<Rightarrow> u64 \<Rightarrow> attempt_table \<Rightarrow> attempt_table \<times> i64" where
  "allocate_attempt env now p new_epoch rows =
     record_attempt_start (rv_sha256 env) (rv_snapshot_bytes env) now
       \<lparr>as_run_id = run_id_of p, as_epoch = new_epoch, as_source_attempt_id = source_attempt_id_of p,
        as_operation_id = pr_operation_id p, as_step_id = step_id_of p,
        as_capsule_schema_version = ec_schema_version (ra_capsule (pr_authority p)),
        as_capsule_envelope_digest = ec_envelope_digest (ra_capsule (pr_authority p)),
        as_state_snapshot = default_snapshot\<rparr> rows"

definition insert_pending_operation ::
  "RecoveryEnv \<Rightarrow> instant \<Rightarrow> PreparedRecovery \<Rightarrow> u64 \<Rightarrow> i64 \<Rightarrow> operation_table \<Rightarrow>
   (operation_table, RecoveryError) result" where
  "insert_pending_operation env now p new_epoch attempt_id ops =
     (case insert_pending now
             \<lparr>pi_operation_id = pr_operation_id p, pi_run_id = run_id_of p, pi_epoch = new_epoch,
              pi_step_id = step_id_of p,
              pi_capsule_envelope_digest = ec_envelope_digest (ra_capsule (pr_authority p)),
              pi_source_attempt_id = source_attempt_id_of p,
              pi_logical_request_key = pr_logical_request_key p, pi_intent_digest = pr_intent_digest p,
              pi_owner_pid = rv_process_id env, pi_lease_expires_at = recovery_lease_end now,
              pi_execution_attempt_id = attempt_id\<rparr> ops of
        Ok ops' \<Rightarrow> Ok ops'
      | Err e \<Rightarrow> Err (map_persist env ''insert pending'' e))"

text \<open>The three checks between the resolution of an existing operation and the claim.\<close>

definition revalidate ::
  "RecoveryEnv \<Rightarrow> OwnershipVerdict \<Rightarrow> PreparedRecovery \<Rightarrow> RecoveryDb \<Rightarrow> (RecoveryOutcome option, RecoveryError) result" where
  "revalidate env verdict p db =
     (case revalidate_epoch env p (db_epochs db) of
        Err e \<Rightarrow> Err e
      | Ok (Some outcome) \<Rightarrow> Ok (Some outcome)
      | Ok None \<Rightarrow>
          (case revalidate_authority_snapshot env p db of
             Err e \<Rightarrow> Err e
           | Ok _ \<Rightarrow>
               (case revalidate_continue_workspace_authorization verdict p of
                  Err e \<Rightarrow> Err e
                | Ok _ \<Rightarrow> Ok (check_strategy_refusal p))))"

definition claim_fresh ::
  "RecoveryEnv \<Rightarrow> instant \<Rightarrow> PreparedRecovery \<Rightarrow> RecoveryDb \<Rightarrow> RecoveryDb \<times> (ReserveOutcome, RecoveryError) result" where
  "claim_fresh env now p db =
     (case perform_epoch_cas env now p (db_epochs db) of
        Err e \<Rightarrow> (db, Err e)
      | Ok (_, CasStale outcome) \<Rightarrow> (db, Ok (ShortCircuit outcome))
      | Ok (epochs, CasAdvanced new_epoch) \<Rightarrow>
          (let (attempts, attempt_id) = allocate_attempt env now p new_epoch (db_attempts db)
           in case insert_pending_operation env now p new_epoch attempt_id (db_operations db) of
                Err e \<Rightarrow> (db, Err e)
              | Ok operations \<Rightarrow>
                  (db\<lparr>db_epochs := epochs, db_attempts := attempts, db_operations := operations\<rparr>,
                   Ok (Proceed \<lparr>rr_operation_id = pr_operation_id p, rr_attempt_id = attempt_id,
                                rr_epoch = new_epoch\<rparr>))))"

definition reserve ::
  "RecoveryEnv \<Rightarrow> instant \<Rightarrow> OwnershipVerdict \<Rightarrow> PreparedRecovery \<Rightarrow> RecoveryDb \<Rightarrow>
   RecoveryDb \<times> (ReserveOutcome, RecoveryError) result" where
  "reserve env now verdict p db =
     (case resolve_existing_operation env now p (db_operations db) of
        Err e \<Rightarrow> (db, Err e)
      | Ok (_, ExShortCircuit outcome) \<Rightarrow> (db, Ok (ShortCircuit outcome))
      | Ok (ops, existing) \<Rightarrow>
          (case revalidate env verdict p (db\<lparr>db_operations := ops\<rparr>) of
             Err e \<Rightarrow> (db, Err e)
           | Ok (Some outcome) \<Rightarrow> (db, Ok (ShortCircuit outcome))
           | Ok None \<Rightarrow>
               (case existing of
                  AdoptedPending reserved \<Rightarrow> (db\<lparr>db_operations := ops\<rparr>, Ok (Proceed reserved))
                | _ \<Rightarrow> claim_fresh env now p db)))"

section \<open>Execute and finalize\<close>

record RecoveryExecutionInvocation =
  iv_run_id :: string
  iv_step_id :: string
  iv_operation_id :: string
  iv_attempt_id :: i64
  iv_epoch :: u64
  iv_strategy :: RecoveryStrategy
  iv_capsule :: ExecutionCapsuleV1

record RecoveryExecutionResult =
  ex_step_status :: string
  ex_state_snapshot :: StateSnapshot
  ex_runner_result :: "json option"

datatype RecoveryExecutionError = ExecUnavailable string | ExecFailed string

fun execution_error_to_string :: "RecoveryExecutionError \<Rightarrow> string" where
  "execution_error_to_string (ExecUnavailable s) = ''recovery executor unavailable: '' @ s"
| "execution_error_to_string (ExecFailed s) = ''recovery execution failed: '' @ s"

type_synonym recovery_executor =
  "RecoveryExecutionInvocation \<Rightarrow> RecoveryDb \<Rightarrow> RecoveryDb \<times> (RecoveryExecutionResult, RecoveryExecutionError) result"

definition UnavailableRecoveryExecutor :: recovery_executor where
  "UnavailableRecoveryExecutor invocation db =
     (db, Err (ExecUnavailable
       ''no recovery executor is configured (P12 provides the capsule-backed runner adapter)''))"

definition invocation_of :: "PreparedRecovery \<Rightarrow> ReservedRecovery \<Rightarrow> RecoveryExecutionInvocation" where
  "invocation_of p r =
     \<lparr>iv_run_id = run_id_of p, iv_step_id = pr_step_id p, iv_operation_id = rr_operation_id r,
      iv_attempt_id = rr_attempt_id r, iv_epoch = rr_epoch r, iv_strategy = ra_strategy (pr_authority p),
      iv_capsule = ra_capsule (pr_authority p)\<rparr>"

definition execute ::
  "recovery_executor \<Rightarrow> PreparedRecovery \<Rightarrow> ReservedRecovery \<Rightarrow> RecoveryDb \<Rightarrow>
   RecoveryDb \<times> (RecoveryExecutionResult, RecoveryError) result" where
  "execute executor p r db =
     (case executor (invocation_of p r) db of
        (db', Ok res) \<Rightarrow> (db', Ok res)
      | (db', Err e) \<Rightarrow> (db', Err (ReExecution (execution_error_to_string e))))"

text \<open>The keys of a JSON object are printed in their (alphabetical) order.\<close>

definition finalize ::
  "RecoveryEnv \<Rightarrow> instant \<Rightarrow> PreparedRecovery \<Rightarrow> ReservedRecovery \<Rightarrow> RecoveryExecutionResult \<Rightarrow> RecoveryDb \<Rightarrow>
   RecoveryDb \<times> (RecoveryOutcome, RecoveryError) result" where
  "finalize env now p r res db =
     (case append_attempt_outcome (rv_sha256 env) (rv_snapshot_bytes env) now (rr_attempt_id r)
             (ex_step_status res) (ex_state_snapshot res) (ex_runner_result res) None (db_attempts db) of
        Err e \<Rightarrow> (db, Err (map_persist env ''append attempt outcome'' e))
      | Ok attempts \<Rightarrow>
          (let serialized_outcome = rv_print_json env
                 (JObj [(''attempt_id'', JInt (rr_attempt_id r)), (''status'', JStr ''completed''),
                        (''step_status'', JStr (ex_step_status res))])
           in case finalize_completed (rv_parse_json env) now (rr_operation_id r) serialized_outcome (db_operations db) of
                Err e \<Rightarrow> (db, Err (map_persist env ''finalize completed'' e))
              | Ok (operations, _) \<Rightarrow>
                  (db\<lparr>db_attempts := attempts, db_operations := operations\<rparr>,
                   Ok (Recovered (step_id_of p) (rr_attempt_id r) (rr_operation_id r)))))"

section \<open>The protocol\<close>

text \<open>What the phases observe of the world: the clock and the ownership of the workspace.\<close>

record RecoveryClock =
  rc_reserve_at :: instant
  rc_finalize_at :: instant
  rc_prepare_verdict :: OwnershipVerdict
  rc_reserve_verdict :: OwnershipVerdict

definition recover_with_observer_and_executor ::
  "RecoveryEnv \<Rightarrow> RecoveryClock \<Rightarrow> (RecoveryRequest \<Rightarrow> RecoveryDb \<Rightarrow> RecoveryDb) \<Rightarrow> recovery_executor \<Rightarrow>
   RecoveryRequest \<Rightarrow> RecoveryDb \<Rightarrow> RecoveryDb \<times> (RecoveryOutcome, RecoveryError) result" where
  "recover_with_observer_and_executor env clk observer executor request db =
     (case prepare env (rc_prepare_verdict clk) request db of
        Err (ReVerification detail) \<Rightarrow> (db, Ok (RoRefused (VerificationFailed detail)))
      | Err ReWorkspaceNotOwned \<Rightarrow> (db, Ok (RoRefused NotAuthorized))
      | Err e \<Rightarrow> (db, Err e)
      | Ok p \<Rightarrow>
          (let db = observer request db
           in case reserve env (rc_reserve_at clk) (rc_reserve_verdict clk) p db of
                (db, Ok (ShortCircuit outcome)) \<Rightarrow> (db, Ok outcome)
              | (db, Err ReWorkspaceAuthorizationRevoked) \<Rightarrow> (db, Ok (RoRefused NotAuthorized))
              | (db, Err ReWorkspaceNotOwned) \<Rightarrow> (db, Ok (RoRefused NotAuthorized))
              | (db, Err (ReVerification detail)) \<Rightarrow> (db, Ok (RoRefused (VerificationFailed detail)))
              | (db, Err e) \<Rightarrow> (db, Err e)
              | (db, Ok (Proceed r)) \<Rightarrow>
                  (case execute executor p r db of
                     (db, Err e) \<Rightarrow> (db, Err e)
                   | (db, Ok res) \<Rightarrow> finalize env (rc_finalize_at clk) p r res db)))"

definition recover_with_executor ::
  "RecoveryEnv \<Rightarrow> RecoveryClock \<Rightarrow> recovery_executor \<Rightarrow> RecoveryRequest \<Rightarrow> RecoveryDb \<Rightarrow>
   RecoveryDb \<times> (RecoveryOutcome, RecoveryError) result" where
  "recover_with_executor env clk executor request db =
     recover_with_observer_and_executor env clk (\<lambda>_ db. db) executor request db"

definition recover_with_observer ::
  "RecoveryEnv \<Rightarrow> RecoveryClock \<Rightarrow> (RecoveryRequest \<Rightarrow> RecoveryDb \<Rightarrow> RecoveryDb) \<Rightarrow>
   RecoveryRequest \<Rightarrow> RecoveryDb \<Rightarrow> RecoveryDb \<times> (RecoveryOutcome, RecoveryError) result" where
  "recover_with_observer env clk observer request db =
     recover_with_observer_and_executor env clk observer UnavailableRecoveryExecutor request db"

definition recover ::
  "RecoveryEnv \<Rightarrow> RecoveryClock \<Rightarrow> RecoveryRequest \<Rightarrow> RecoveryDb \<Rightarrow>
   RecoveryDb \<times> (RecoveryOutcome, RecoveryError) result" where
  "recover env clk request db = recover_with_executor env clk UnavailableRecoveryExecutor request db"

end
