(* ===== verification/Typed_Merge.thy ===== *)
theory Typed_Merge
  imports Recovery_Protocol
begin

text \<open>
  Verified merges: the strategy-specific reachability proof and the atomic artifact and status
  transaction (\<^verbatim>\<open>engine/recovery/typed_merge/mod.rs\<close>), the production probes
  (\<^verbatim>\<open>typed_merge/system_probes.rs\<close>) and the completion of a merge-required run
  (\<^verbatim>\<open>engine/recovery/merge_completion.rs\<close>). The processes \<^verbatim>\<open>git\<close> and \<^verbatim>\<open>gh\<close>
  are a parameter: a function from program, arguments and standard input to the output (or the text of
  the error that kept it from running). The verifier is evaluated twice; the probes of the two
  evaluations are separate arguments, so that the world may change in between.
\<close>

section \<open>Artifacts, proofs and probes\<close>

datatype MergeReachabilityProof =
    MergeCommitProof string string string
  | SquashProof string string string string
  | RebaseProof string string string string

fun kind_str :: "MergeReachabilityProof \<Rightarrow> string" where
  "kind_str (MergeCommitProof head base merge) = ''merge_commit''"
| "kind_str (SquashProof base squash expected observed) = ''squash''"
| "kind_str (RebaseProof base final expected observed) = ''rebase''"

fun proof_result_sha :: "MergeReachabilityProof \<Rightarrow> string" where
  "proof_result_sha (MergeCommitProof head base merge) = merge"
| "proof_result_sha (SquashProof base squash expected observed) = squash"
| "proof_result_sha (RebaseProof base final expected observed) = final"

record TypedMergeArtifact =
  ma_run_id :: string
  ma_pr_number :: i64
  ma_result_sha :: string
  ma_repo :: string
  ma_head_sha :: string
  ma_base_sha :: string
  ma_capsule_envelope_digest :: string
  ma_reachability_proof :: MergeReachabilityProof
  ma_recorded_at :: instant

type_synonym merge_artifact_table = "TypedMergeArtifact list"

record MergeDb = RecoveryDb +
  db_merge_artifacts :: merge_artifact_table

record MergeObservation =
  mo_merged :: bool
  mo_strategy :: MergeStrategy
  mo_result_sha :: string

record MergeGitProbe =
  gp_is_ancestor :: "string \<Rightarrow> string \<Rightarrow> (unit, MergeError) result"
  gp_compute_tree_content_digest :: "string \<Rightarrow> (string, MergeError) result"
  gp_compute_patch_id :: "string \<Rightarrow> string \<Rightarrow> (string, MergeError) result"
  gp_resolve_base_commit :: "string \<Rightarrow> (string, MergeError) result"

type_synonym merge_remote_probe = "string \<Rightarrow> i64 \<Rightarrow> (MergeObservation, MergeError) result"

record MergeVerifier =
  mv_git_probe :: MergeGitProbe
  mv_remote_probe :: merge_remote_probe
  mv_repo :: string
  mv_pr_number :: i64
  mv_base_sha :: string
  mv_head_sha :: string

definition ALLOWED_MERGE_PREDECESSOR :: RunStatus where
  "ALLOWED_MERGE_PREDECESSOR = RReviewReady"

section \<open>The reachability proof\<close>

definition compute_pr_diff_content_digest :: "MergeVerifier \<Rightarrow> (string, MergeError) result" where
  "compute_pr_diff_content_digest v = gp_compute_tree_content_digest (mv_git_probe v) (mv_head_sha v)"

definition build_reachability_proof :: "MergeVerifier \<Rightarrow> (MergeReachabilityProof, MergeError) result" where
  "build_reachability_proof v =
     (let git = mv_git_probe v; head = mv_head_sha v; base = mv_base_sha v
      in and_then (mv_remote_probe v (mv_repo v) (mv_pr_number v)) (\<lambda>obs.
           if \<not> mo_merged obs then Err MeNotMerged
           else let result = mo_result_sha obs in
             case mo_strategy obs of
               MsMergeCommit \<Rightarrow>
                 and_then (gp_is_ancestor git head result) (\<lambda>_.
                 and_then (gp_is_ancestor git base result) (\<lambda>_.
                   Ok (MergeCommitProof head base result)))
             | MsSquash \<Rightarrow>
                 and_then (gp_is_ancestor git base result) (\<lambda>_.
                 and_then (compute_pr_diff_content_digest v) (\<lambda>expected.
                 and_then (gp_compute_tree_content_digest git result) (\<lambda>observed.
                   if expected \<noteq> observed then Err MeContentMismatch
                   else Ok (SquashProof base result expected observed))))
             | MsRebase \<Rightarrow>
                 and_then (gp_is_ancestor git base result) (\<lambda>_.
                 and_then (gp_compute_patch_id git base head) (\<lambda>expected.
                 and_then (gp_compute_patch_id git base result) (\<lambda>observed.
                   if expected \<noteq> observed then Err MePatchMismatch
                   else Ok (RebaseProof base result expected observed))))))"

section \<open>The transaction\<close>

definition load_merge_artifact_conn :: "string \<Rightarrow> merge_artifact_table \<Rightarrow> TypedMergeArtifact option" where
  "load_merge_artifact_conn run rows = lookup_by ma_run_id run rows"

definition count_merge_artifacts :: "string \<Rightarrow> merge_artifact_table \<Rightarrow> nat" where
  "count_merge_artifacts run rows = count_where (\<lambda>a. ma_run_id a = run) rows"

definition artifact_exact_equal :: "TypedMergeArtifact \<Rightarrow> TypedMergeArtifact \<Rightarrow> bool" where
  "artifact_exact_equal a b \<longleftrightarrow>
     ma_run_id a = ma_run_id b \<and> ma_pr_number a = ma_pr_number b \<and> ma_result_sha a = ma_result_sha b \<and>
     ma_repo a = ma_repo b \<and> ma_head_sha a = ma_head_sha b \<and> ma_base_sha a = ma_base_sha b \<and>
     ma_capsule_envelope_digest a = ma_capsule_envelope_digest b \<and>
     ma_reachability_proof a = ma_reachability_proof b"

definition require_identity :: "string \<Rightarrow> string \<Rightarrow> string \<Rightarrow> (unit, MergeError) result" where
  "require_identity field persisted artifact =
     (if persisted = artifact then Ok () else Err (MeIdentityMismatch field persisted artifact))"

definition or_empty :: "string option \<Rightarrow> string" where
  "or_empty s = (case s of Some t \<Rightarrow> t | None \<Rightarrow> [])"

definition pr_or_zero :: "i64 option \<Rightarrow> i64" where
  "pr_or_zero n = (case n of Some i \<Rightarrow> i | None \<Rightarrow> 0)"

definition verify_capsule_binding ::
  "hash \<Rightarrow> (sql_error \<Rightarrow> string) \<Rightarrow> string \<Rightarrow> TypedMergeArtifact \<Rightarrow> capsule_table \<Rightarrow> (unit, MergeError) result" where
  "verify_capsule_binding sha256 sql_text context a caps =
     (case load_capsule_v1 sha256 (ma_run_id a) caps of
        Err e \<Rightarrow> Err (MeDatabase (context @ sql_text e))
      | Ok c \<Rightarrow>
          (if ec_envelope_digest c \<noteq> ma_capsule_envelope_digest a then Err MeCapsuleBindingMismatch else Ok ()))"

definition revalidate_merge_bindings ::
  "hash \<Rightarrow> (sql_error \<Rightarrow> string) \<Rightarrow> TypedMergeArtifact \<Rightarrow> MergeDb \<Rightarrow> (unit, MergeError) result" where
  "revalidate_merge_bindings sha256 sql_text a db =
     (case get_run_with_conn (ma_run_id a) (db_runs db) of
        None \<Rightarrow> Err (MeDatabase (''run not found: '' @ ma_run_id a))
      | Some md \<Rightarrow>
          and_then (require_identity ''repository'' (or_empty (rm_repository md)) (ma_repo a)) (\<lambda>_.
          and_then (require_identity ''pr_number'' (int_to_string (pr_or_zero (rm_pr_number md)))
                      (int_to_string (ma_pr_number a))) (\<lambda>_.
          and_then (require_identity ''head_sha'' (or_empty (rm_head_sha md)) (ma_head_sha a)) (\<lambda>_.
            verify_capsule_binding sha256 sql_text ''capsule revalidation failed: '' a (db_capsules db)))))"

definition insert_merge_artifact ::
  "TypedMergeArtifact \<Rightarrow> merge_artifact_table \<Rightarrow> (merge_artifact_table \<times> nat, MergeError) result" where
  "insert_merge_artifact a rows =
     (case load_merge_artifact_conn (ma_run_id a) rows of
        None \<Rightarrow> Ok (rows @ [a], 1)
      | Some existing \<Rightarrow>
          (if artifact_exact_equal existing a then Ok (rows, 0) else Err MeArtifactConflict))"

definition merge_guard :: "TypedMergeArtifact \<Rightarrow> RunMetadata \<Rightarrow> bool" where
  "merge_guard a md \<longleftrightarrow>
     rm_run_id md = ma_run_id a \<and> rm_status md = ALLOWED_MERGE_PREDECESSOR \<and> rm_head_sha md = Some (ma_head_sha a)"

definition transition_to_merged ::
  "instant \<Rightarrow> TypedMergeArtifact \<Rightarrow> nat \<Rightarrow> run_table \<Rightarrow> (run_table, MergeError) result" where
  "transition_to_merged now a artifact_affected runs =
     (let runs' = update_where (merge_guard a) (\<lambda>md. md\<lparr>rm_status := RMerged, rm_updated_at := Some now\<rparr>) runs
      in if count_where (merge_guard a) runs = 1 then Ok runs'
         else
          (let current_status = (case get_run_with_conn (ma_run_id a) runs' of
                                   Some md \<Rightarrow> rm_status md | None \<Rightarrow> RInitialized)
           in if current_status = RMerged \<and> artifact_affected = 0 then Ok runs'
              else Err (MePreconditionFailed (run_status_to_string current_status) ALLOWED_MERGE_PREDECESSOR)))"

definition complete_typed_merge ::
  "hash \<Rightarrow> (sql_error \<Rightarrow> string) \<Rightarrow> instant \<Rightarrow> TypedMergeArtifact \<Rightarrow> MergeVerifier \<Rightarrow> MergeDb \<Rightarrow>
   MergeDb \<times> (unit, MergeError) result" where
  "complete_typed_merge sha256 sql_text now a v db =
     (case build_reachability_proof v of
        Err e \<Rightarrow> (db, Err e)
      | Ok pf \<Rightarrow>
     if proof_result_sha pf \<noteq> ma_result_sha a \<or> pf \<noteq> ma_reachability_proof a \<or> mv_repo v \<noteq> ma_repo a \<or>
        mv_pr_number v \<noteq> ma_pr_number a \<or> mv_head_sha v \<noteq> ma_head_sha a \<or> mv_base_sha v \<noteq> ma_base_sha a
     then (db, Err MeArtifactConflict)
     else
     (case verify_capsule_binding sha256 sql_text ''capsule load failed: '' a (db_capsules db) of
        Err e \<Rightarrow> (db, Err e)
      | Ok _ \<Rightarrow>
     (case revalidate_merge_bindings sha256 sql_text a db of
        Err e \<Rightarrow> (db, Err e)
      | Ok _ \<Rightarrow>
     (case insert_merge_artifact a (db_merge_artifacts db) of
        Err e \<Rightarrow> (db, Err e)
      | Ok (rows, affected) \<Rightarrow>
     (case transition_to_merged now a affected (db_runs db) of
        Err e \<Rightarrow> (db, Err e)
      | Ok runs \<Rightarrow> (db\<lparr>db_merge_artifacts := rows, db_runs := runs\<rparr>, Ok ()))))))"

definition completion_satisfied :: "string \<Rightarrow> MergeDb \<Rightarrow> bool" where
  "completion_satisfied run db \<longleftrightarrow>
     0 < count_merge_artifacts run (db_merge_artifacts db) \<and>
     (case get_run_with_conn run (db_runs db) of Some md \<Rightarrow> rm_status md = RMerged | None \<Rightarrow> False)"

definition read_run_metadata :: "string \<Rightarrow> run_table \<Rightarrow> (RunMetadata, MergeError) result" where
  "read_run_metadata run runs =
     (case get_run_with_conn run runs of
        Some md \<Rightarrow> Ok md
      | None \<Rightarrow> Err (MeDatabase (''run not found: '' @ run)))"

text \<open>
  The supported completion path. \<open>git\<close> and \<open>remote\<close> answer the first evaluation of the verifier,
  \<open>git'\<close> and \<open>remote'\<close> the second one, made by \<open>complete_typed_merge\<close>.
\<close>

definition complete_merge_from_observation ::
  "hash \<Rightarrow> (sql_error \<Rightarrow> string) \<Rightarrow> instant \<Rightarrow> string \<Rightarrow> MergeGitProbe \<Rightarrow> merge_remote_probe \<Rightarrow> MergeGitProbe \<Rightarrow>
   merge_remote_probe \<Rightarrow> MergeDb \<Rightarrow> MergeDb \<times> (unit, MergeError) result" where
  "complete_merge_from_observation sha256 sql_text now run git remote git' remote' db =
     (case read_run_metadata run (db_runs db) of
        Err e \<Rightarrow> (db, Err e)
      | Ok md \<Rightarrow>
     (let repo = or_empty (rm_repository md); pr_number = pr_or_zero (rm_pr_number md);
          head_sha = or_empty (rm_head_sha md)
      in if repo = [] then (db, Err (MeIdentityIncomplete ''repository''))
         else if pr_number \<le> 0 then (db, Err (MeIdentityIncomplete ''pr_number''))
         else if head_sha = [] then (db, Err (MeIdentityIncomplete ''head_sha''))
         else
     (case load_capsule_v1 sha256 run (db_capsules db) of
        Err e \<Rightarrow> (db, Err (MeDatabase (''capsule load failed: '' @ sql_text e)))
      | Ok capsule \<Rightarrow>
     if ec_base_ref capsule = [] then (db, Err (MeIdentityIncomplete ''capsule.base_ref''))
     else
     (case gp_resolve_base_commit git (ec_base_ref capsule) of
        Err e \<Rightarrow> (db, Err e)
      | Ok base_sha \<Rightarrow>
     if base_sha = []
     then (db, Err (MeReachabilityFailed (''resolve_base_commit returned empty SHA for base_ref '' @ quoted (ec_base_ref capsule))))
     else
     (let v = \<lparr>mv_git_probe = git, mv_remote_probe = remote, mv_repo = repo, mv_pr_number = pr_number,
               mv_base_sha = base_sha, mv_head_sha = head_sha\<rparr>
      in case build_reachability_proof v of
        Err e \<Rightarrow> (db, Err e)
      | Ok pf \<Rightarrow>
          complete_typed_merge sha256 sql_text now
            \<lparr>ma_run_id = run, ma_pr_number = pr_number, ma_result_sha = proof_result_sha pf, ma_repo = repo,
             ma_head_sha = head_sha, ma_base_sha = base_sha, ma_capsule_envelope_digest = ec_envelope_digest capsule,
             ma_reachability_proof = pf, ma_recorded_at = now\<rparr>
            (v\<lparr>mv_git_probe := git', mv_remote_probe := remote'\<rparr>) db)))))"

section \<open>Completion of a merge-required run\<close>

definition needs_merge_completion :: "hash \<Rightarrow> string \<Rightarrow> MergeDb \<Rightarrow> bool" where
  "needs_merge_completion sha256 run db \<longleftrightarrow>
     (case get_run_with_conn run (db_runs db) of
        None \<Rightarrow> False
      | Some md \<Rightarrow> rm_status md = RReviewReady \<and> (\<exists>c. load_capsule_v1 sha256 run (db_capsules db) = Ok c))"

fun to_merge_strategy :: "MergeStrategyConfig \<Rightarrow> MergeStrategy" where
  "to_merge_strategy MergeCommit = MsMergeCommit"
| "to_merge_strategy Squash = MsSquash"
| "to_merge_strategy Rebase = MsRebase"

definition resolve_declared_strategy ::
  "(byte list \<Rightarrow> (WorkflowConfig, string) result) \<Rightarrow> ExecutionCapsuleV1 \<Rightarrow> (MergeStrategyConfig option, string) result" where
  "resolve_declared_strategy decode_config capsule =
     map_ok wc_merge_strategy (decode_config (ec_resolved_config_bytes capsule))"

text \<open>A probe factory: the Git probe and the remote probe bound to the declared strategy, for both evaluations.\<close>

record MergeProbeFactory =
  pf_git_probe :: MergeGitProbe
  pf_remote_probe :: "MergeStrategy \<Rightarrow> merge_remote_probe"
  pf_git_probe_later :: MergeGitProbe
  pf_remote_probe_later :: "MergeStrategy \<Rightarrow> merge_remote_probe"

definition complete_merge_required_run ::
  "hash \<Rightarrow> (sql_error \<Rightarrow> string) \<Rightarrow> (byte list \<Rightarrow> (WorkflowConfig, string) result) \<Rightarrow> instant \<Rightarrow> string \<Rightarrow>
   MergeProbeFactory \<Rightarrow> MergeDb \<Rightarrow> MergeDb \<times> MergeCompletionOutcome" where
  "complete_merge_required_run sha256 sql_text decode_config now run probes db =
     (case get_run_with_conn run (db_runs db) of
        None \<Rightarrow> (db, McNotReviewReady RInitialized)
      | Some md \<Rightarrow>
     if rm_status md = RMerged then (db, McNotReviewReady RMerged)
     else if rm_status md \<noteq> RReviewReady then (db, McNotReviewReady (rm_status md))
     else
     (case load_capsule_v1 sha256 run (db_capsules db) of
        Err e \<Rightarrow> (db, McFailed (MeDatabase (''capsule load failed: '' @ sql_text e)))
      | Ok capsule \<Rightarrow>
     (case resolve_declared_strategy decode_config capsule of
        Err e \<Rightarrow> (db, McFailed (MeDatabase (''config parse failed: '' @ e)))
      | Ok None \<Rightarrow> (db, McStrategyNotDeclared)
      | Ok (Some strategy) \<Rightarrow>
     (case complete_merge_from_observation sha256 sql_text now run (pf_git_probe probes)
             (pf_remote_probe probes (to_merge_strategy strategy)) (pf_git_probe_later probes)
             (pf_remote_probe_later probes (to_merge_strategy strategy)) db of
        (db', Ok _) \<Rightarrow> (db', McMerged)
      | (db', Err MeNotMerged) \<Rightarrow> (db', McNotYetMerged)
      | (db', Err e) \<Rightarrow> (db', McFailed e)))))"

section \<open>The production probes\<close>

record ProcessOutput =
  po_success :: bool
  po_stdout :: string
  po_stderr :: string

text \<open>Program, arguments and standard input to its output, or to the text of an I/O error.\<close>

type_synonym process_runner = "string \<Rightarrow> string list \<Rightarrow> string \<Rightarrow> (ProcessOutput, string) result"

definition option_like :: "string \<Rightarrow> bool" where
  "option_like s \<longleftrightarrow> starts_with ''-'' s \<or> s = []"

definition reject_option_like :: "string \<Rightarrow> string \<Rightarrow> (unit, MergeError) result" where
  "reject_option_like val label =
     (if option_like val
      then Err (MeReachabilityFailed (''invalid '' @ label @ '': option-like or empty value rejected'')) else Ok ())"

definition run_or :: "process_runner \<Rightarrow> string \<Rightarrow> string list \<Rightarrow> string \<Rightarrow> string \<Rightarrow> (ProcessOutput, MergeError) result" where
  "run_or run program args stdin failure =
     (case run program args stdin of Ok out \<Rightarrow> Ok out | Err e \<Rightarrow> Err (MeReachabilityFailed (failure @ e)))"

definition system_is_ancestor :: "process_runner \<Rightarrow> string \<Rightarrow> string \<Rightarrow> (unit, MergeError) result" where
  "system_is_ancestor run ancestor descendant =
     and_then (reject_option_like ancestor ''ancestor'') (\<lambda>_.
     and_then (reject_option_like descendant ''descendant'') (\<lambda>_.
     and_then (run_or run ''git'' [''merge-base'', ''--is-ancestor'', ancestor, descendant] [] ''failed to invoke git: '') (\<lambda>out.
       if po_success out then Ok ()
       else Err (MeReachabilityFailed
         (''ancestry check failed: '' @ ancestor @ '' is NOT an ancestor of '' @ descendant)))))"

definition system_tree_content_digest :: "hash \<Rightarrow> process_runner \<Rightarrow> string \<Rightarrow> (string, MergeError) result" where
  "system_tree_content_digest sha256 run commit =
     and_then (reject_option_like commit ''commit'') (\<lambda>_.
     and_then (run_or run ''git'' [''ls-tree'', ''-r'', commit] [] ''failed to invoke git ls-tree: '') (\<lambda>out.
       if po_success out then Ok (sha256_hex sha256 (as_bytes (po_stdout out)))
       else Err (MeReachabilityFailed (''git ls-tree failed: '' @ trim (po_stderr out)))))"

definition system_patch_id :: "process_runner \<Rightarrow> string \<Rightarrow> string \<Rightarrow> (string, MergeError) result" where
  "system_patch_id run base head =
     and_then (reject_option_like base ''base'') (\<lambda>_.
     and_then (reject_option_like head ''head'') (\<lambda>_.
     and_then (run_or run ''git'' [''diff'', base @ ''..'' @ head] [] ''failed to invoke git diff: '') (\<lambda>diff.
     if \<not> po_success diff then Err (MeReachabilityFailed (''git diff failed: '' @ trim (po_stderr diff)))
     else
     and_then (run_or run ''git'' [''patch-id''] (po_stdout diff) ''failed to invoke git patch-id: '') (\<lambda>out.
     if \<not> po_success out then Err (MeReachabilityFailed (''git patch-id failed: '' @ trim (po_stderr out)))
     else case split_whitespace (po_stdout out) of
            [] \<Rightarrow> Err (MeReachabilityFailed ''git patch-id returned empty output'')
          | patch_id # _ \<Rightarrow> Ok patch_id))))"

definition system_resolve_base_commit :: "process_runner \<Rightarrow> string \<Rightarrow> (string, MergeError) result" where
  "system_resolve_base_commit run base_ref =
     and_then (reject_option_like base_ref ''base_ref'') (\<lambda>_.
     and_then (run_or run ''git'' [''rev-parse'', ''--verify'', ''refs/heads/'' @ base_ref @ ''^{commit}''] []
                 ''failed to invoke git rev-parse: '') (\<lambda>out.
     if po_success out \<and> trim (po_stdout out) \<noteq> [] then Ok (trim (po_stdout out))
     else
     and_then (run_or run ''git'' [''rev-parse'', ''--verify'', base_ref @ ''^{commit}''] []
                 ''failed to invoke git rev-parse: '') (\<lambda>out.
     if \<not> po_success out
     then Err (MeReachabilityFailed (''git rev-parse failed for base_ref '' @ quoted base_ref @ '': '' @ trim (po_stderr out)))
     else if trim (po_stdout out) = []
     then Err (MeReachabilityFailed (''git rev-parse returned empty SHA for base_ref '' @ quoted base_ref))
     else Ok (trim (po_stdout out)))))"

definition SystemMergeGitProbe :: "hash \<Rightarrow> process_runner \<Rightarrow> MergeGitProbe" where
  "SystemMergeGitProbe sha256 run =
     \<lparr>gp_is_ancestor = system_is_ancestor run, gp_compute_tree_content_digest = system_tree_content_digest sha256 run,
      gp_compute_patch_id = system_patch_id run, gp_resolve_base_commit = system_resolve_base_commit run\<rparr>"

definition cross_check_strategy :: "MergeStrategy \<Rightarrow> string \<Rightarrow> nat \<Rightarrow> (MergeStrategy, MergeError) result" where
  "cross_check_strategy expected result_sha parent_count =
     (if result_sha = [] then Err (MeReachabilityFailed ''observed merge result SHA is empty'')
      else let structurally_merge_commit = 2 \<le> parent_count in
        case expected of
          MsMergeCommit \<Rightarrow>
            (if \<not> structurally_merge_commit
             then Err (MeStrategyMismatch MsMergeCommit ''single-parent commit (squash/rebase)'')
             else Ok MsMergeCommit)
        | _ \<Rightarrow>
            (if structurally_merge_commit then Err (MeStrategyMismatch expected ''multi-parent merge commit'')
             else Ok expected))"

definition count_commit_parents :: "process_runner \<Rightarrow> string \<Rightarrow> (nat, MergeError) result" where
  "count_commit_parents run sha =
     (if option_like sha then Err (MeReachabilityFailed ''invalid result SHA for parent inspection'')
      else
      and_then (run_or run ''git'' [''rev-list'', ''--parents'', ''-n'', ''1'', sha] []
                  (''failed to inspect parents for result commit '' @ sha @ '': '')) (\<lambda>out.
      if \<not> po_success out
      then Err (MeReachabilityFailed (''git rev-list failed for result commit '' @ sha @ '': '' @ trim (po_stderr out)))
      else case split_whitespace (po_stdout out) of
             [] \<Rightarrow> Err (MeReachabilityFailed (''git rev-list returned no result commit for '' @ sha))
           | _ # parents \<Rightarrow> Ok (length parents)))"

definition system_observe_merge ::
  "(string \<Rightarrow> (json, string) result) \<Rightarrow> process_runner \<Rightarrow> MergeStrategy \<Rightarrow> merge_remote_probe" where
  "system_observe_merge parse_json run expected repo pr_number =
     (if option_like repo then Err (MeReachabilityFailed ''invalid repo: option-like or empty value rejected'')
      else
      and_then (run_or run ''gh'' [''pr'', ''view'', int_to_string pr_number, ''--repo'', repo, ''--json'', ''state,mergeCommit''] []
                  ''failed to invoke gh: '') (\<lambda>out.
      if \<not> po_success out then Err (MeReachabilityFailed (''gh pr view failed: '' @ trim (po_stderr out)))
      else case parse_json (po_stdout out) of
        Err e \<Rightarrow> Err (MeReachabilityFailed (''failed to parse gh output: '' @ e))
      | Ok json \<Rightarrow>
      (let state = (case Option.bind (json_get json ''state'') json_as_str of Some s \<Rightarrow> s | None \<Rightarrow> ''OPEN'')
       in if state \<noteq> ''MERGED'' then Ok \<lparr>mo_merged = False, mo_strategy = expected, mo_result_sha = []\<rparr>
       else
      (let result_sha = or_empty (Option.bind (Option.bind (json_get json ''mergeCommit'') (\<lambda>c. json_get c ''oid'')) json_as_str)
       in if result_sha = [] then Err (MeReachabilityFailed ''PR is MERGED but mergeCommit.oid is absent'')
       else
      and_then (count_commit_parents run result_sha) (\<lambda>parent_count.
      and_then (cross_check_strategy expected result_sha parent_count) (\<lambda>verified_strategy.
        Ok \<lparr>mo_merged = True, mo_strategy = verified_strategy, mo_result_sha = result_sha\<rparr>))))))"

text \<open>The factory of the production probes, over the processes as they run at the two evaluations.\<close>

definition SystemMergeProbeFactory ::
  "hash \<Rightarrow> (string \<Rightarrow> (json, string) result) \<Rightarrow> process_runner \<Rightarrow> process_runner \<Rightarrow> MergeProbeFactory" where
  "SystemMergeProbeFactory sha256 parse_json run run' =
     \<lparr>pf_git_probe = SystemMergeGitProbe sha256 run, pf_remote_probe = system_observe_merge parse_json run,
      pf_git_probe_later = SystemMergeGitProbe sha256 run', pf_remote_probe_later = system_observe_merge parse_json run'\<rparr>"

end
