(* ===== verification/Recovery_Properties.thy ===== *)
theory Recovery_Properties
  imports Recovery_Protocol
begin

text \<open>
  What the recovery protocol guarantees: a recovery is reported only when it is durable; everything
  else fails closed; a reservation claims its epoch exclusively and respects a live claim; and what
  becomes of a completed operation when the same request is made again.
\<close>

section \<open>Inversion of the phases\<close>

lemma map_ok_Ok: "map_ok f r = Ok y \<longleftrightarrow> (\<exists>x. r = Ok x \<and> y = f x)"
  by (cases r) auto

lemma update_where_mem: "x \<in> set xs \<Longrightarrow> P x \<Longrightarrow> f x \<in> set (update_where P f xs)"
  by (force simp: update_where_def)

lemma count_where_oneD: "count_where P xs = 1 \<Longrightarrow> \<exists>x \<in> set xs. P x"
  by (metis count_where_pos zero_less_one)

lemma resolve_existing_cases:
  assumes "resolve_existing_operation env now p ops = Ok (ops', ex)"
  obtains (fresh) "lookup_logical_operation (pr_logical_request_key p) ops = None" "ops' = ops" "ex = NotFound"
  | (answered) outcome where "ex = ExShortCircuit outcome"
  | (adopted) x i where "lookup_logical_operation (pr_logical_request_key p) ops = Some x" "op_status x = OpPending"
      "same_capsule p x" "count_where (adopt_guard (op_operation_id x) now) ops = 1" "op_execution_attempt_id x = Some i"
      "ops' = update_where (adopt_guard (op_operation_id x) now)
         (\<lambda>x. x\<lparr>op_owner_pid := Some (rv_process_id env), op_lease_expires_at := Some (recovery_lease_end now)\<rparr>) ops"
      "ex = AdoptedPending \<lparr>rr_operation_id = op_operation_id x, rr_attempt_id = i, rr_epoch = op_epoch x\<rparr>"
proof (cases "lookup_logical_operation (pr_logical_request_key p) ops")
  case None
  with assms show ?thesis by (intro fresh) (simp_all add: resolve_existing_operation_def)
next
  case (Some x)
  then have r: "resolve_existing_status env now p x ops = Ok (ops', ex)"
    using assms by (simp add: resolve_existing_operation_def)
  show ?thesis
  proof (cases "op_status x = OpPending \<and> same_capsule p x")
    case True
    then obtain i where i: "op_execution_attempt_id x = Some i"
      using r by (cases "op_execution_attempt_id x")
        (auto simp: resolve_existing_status_def resolve_pending_def try_adopt_pending_def resolve_adopt_outcome_def)
    show ?thesis
    proof (cases "count_where (adopt_guard (op_operation_id x) now) ops = 1")
      case True': True
      show ?thesis
        by (rule adopted [OF Some _ _ True' i])
           (use r True True' i in \<open>auto simp: resolve_existing_status_def resolve_pending_def try_adopt_pending_def
               resolve_adopt_outcome_def\<close>)
    next
      case False
      then show ?thesis using r True i
        by (intro answered) (auto simp: resolve_existing_status_def resolve_pending_def try_adopt_pending_def
            resolve_adopt_outcome_def)
    qed
  next
    case False
    then show ?thesis using r
      by (cases "op_status x"; cases "op_execution_attempt_id x"; cases "same_capsule p x")
         (auto simp: resolve_existing_status_def resolve_pending_def resolve_completed_def
           resolve_refused_or_conflict_def intro: answered)
  qed
qed

text \<open>A transaction that does not proceed leaves no trace.\<close>

lemma claim_fresh_cases:
  obtains (stopped) "fst (claim_fresh env now p db) = db" "\<And>r. snd (claim_fresh env now p db) \<noteq> Ok (Proceed r)"
  | (claimed) epochs new_epoch operations where
      "perform_epoch_cas env now p (db_epochs db) = Ok (epochs, CasAdvanced new_epoch)"
      "insert_pending_operation env now p new_epoch (snd (allocate_attempt env now p new_epoch (db_attempts db)))
         (db_operations db) = Ok operations"
      "claim_fresh env now p db =
         (db\<lparr>db_epochs := epochs, db_attempts := fst (allocate_attempt env now p new_epoch (db_attempts db)),
             db_operations := operations\<rparr>,
          Ok (Proceed \<lparr>rr_operation_id = pr_operation_id p,
                rr_attempt_id = snd (allocate_attempt env now p new_epoch (db_attempts db)), rr_epoch = new_epoch\<rparr>))"
proof -
  let ?at = "\<lambda>e. allocate_attempt env now p e (db_attempts db)"
  consider (no) "\<forall>epochs e. perform_epoch_cas env now p (db_epochs db) \<noteq> Ok (epochs, CasAdvanced e)"
    | (cas) epochs e where "perform_epoch_cas env now p (db_epochs db) = Ok (epochs, CasAdvanced e)"
    by blast
  then show ?thesis
  proof cases
    case no
    then show ?thesis
      by (intro stopped) (auto simp: claim_fresh_def split: result.splits prod.splits CasResolution.splits)
  next
    case (cas epochs e)
    show ?thesis
    proof (cases "insert_pending_operation env now p e (snd (?at e)) (db_operations db)")
      case (Ok operations)
      then show ?thesis using cas by (intro claimed) (simp_all add: claim_fresh_def case_prod_beta)
    next
      case (Err err)
      then show ?thesis using cas by (intro stopped) (simp_all add: claim_fresh_def case_prod_beta)
    qed
  qed
qed

lemma reserve_cases:
  obtains (stopped) "fst (reserve env now v p db) = db" "\<And>r. snd (reserve env now v p db) \<noteq> Ok (Proceed r)"
  | (fresh) "lookup_logical_operation (pr_logical_request_key p) (db_operations db) = None"
      "revalidate env v p db = Ok None" "reserve env now v p db = claim_fresh env now p db"
      "\<exists>r. snd (reserve env now v p db) = Ok (Proceed r)"
  | (adopted) x i ops where "lookup_logical_operation (pr_logical_request_key p) (db_operations db) = Some x"
      "op_status x = OpPending" "same_capsule p x"
      "count_where (adopt_guard (op_operation_id x) now) (db_operations db) = 1" "op_execution_attempt_id x = Some i"
      "ops = update_where (adopt_guard (op_operation_id x) now)
         (\<lambda>x. x\<lparr>op_owner_pid := Some (rv_process_id env), op_lease_expires_at := Some (recovery_lease_end now)\<rparr>)
         (db_operations db)"
      "revalidate env v p (db\<lparr>db_operations := ops\<rparr>) = Ok None"
      "reserve env now v p db =
         (db\<lparr>db_operations := ops\<rparr>,
          Ok (Proceed \<lparr>rr_operation_id = op_operation_id x, rr_attempt_id = i, rr_epoch = op_epoch x\<rparr>))"
proof (cases "resolve_existing_operation env now p (db_operations db)")
  case (Err e)
  then show ?thesis by (intro stopped) (simp_all add: reserve_def)
next
  case (Ok res)
  obtain ops ex where res: "res = (ops, ex)" by (cases res)
  from Ok res have "resolve_existing_operation env now p (db_operations db) = Ok (ops, ex)" by simp
  then show ?thesis
  proof (cases rule: resolve_existing_cases)
    case (answered outcome)
    then show ?thesis using Ok res by (intro stopped) (simp_all add: reserve_def)
  next
    case 1: fresh
    have r: "reserve env now v p db =
        (case revalidate env v p db of
           Err e \<Rightarrow> (db, Err e)
         | Ok (Some outcome) \<Rightarrow> (db, Ok (ShortCircuit outcome))
         | Ok None \<Rightarrow> claim_fresh env now p db)"
      using Ok res 1 by (simp add: reserve_def split: result.split option.split)
    show ?thesis
    proof (cases "revalidate env v p db = Ok None")
      case True
      then have "reserve env now v p db = claim_fresh env now p db" by (simp add: r)
      then show ?thesis
      proof (cases rule: claim_fresh_cases [of env now p db])
        case (claimed epochs new_epoch operations)
        then show ?thesis using True 1(1) \<open>reserve env now v p db = claim_fresh env now p db\<close> by (intro fresh) auto
      qed (auto intro: stopped)
    next
      case False
      then show ?thesis using r by (intro stopped) (auto split: result.splits option.splits)
    qed
  next
    case 2: (adopted x i)
    have r: "reserve env now v p db =
        (case revalidate env v p (db\<lparr>db_operations := ops\<rparr>) of
           Err e \<Rightarrow> (db, Err e)
         | Ok (Some outcome) \<Rightarrow> (db, Ok (ShortCircuit outcome))
         | Ok None \<Rightarrow> (db\<lparr>db_operations := ops\<rparr>,
             Ok (Proceed \<lparr>rr_operation_id = op_operation_id x, rr_attempt_id = i, rr_epoch = op_epoch x\<rparr>)))"
      using Ok res 2(7) by (simp add: reserve_def split: result.split option.split)
    show ?thesis
    proof (cases "revalidate env v p (db\<lparr>db_operations := ops\<rparr>) = Ok None")
      case True
      then have "reserve env now v p db = (db\<lparr>db_operations := ops\<rparr>,
          Ok (Proceed \<lparr>rr_operation_id = op_operation_id x, rr_attempt_id = i, rr_epoch = op_epoch x\<rparr>))"
        by (simp add: r)
      with True 2 adopted show ?thesis by blast
    next
      case False
      then show ?thesis using r by (intro stopped) (auto split: result.splits option.splits)
    qed
  qed
qed


section \<open>A reported recovery is durable\<close>

lemma finalize_ok:
  assumes "finalize env now p r res db = (db', Ok out)"
  shows "out = Recovered (step_id_of p) (rr_attempt_id r) (rr_operation_id r)"
    and "\<exists>x \<in> set (db_operations db'). op_operation_id x = rr_operation_id r \<and> op_status x = OpCompleted"
    and "\<exists>a \<in> set (db_attempts db'). ar_attempt_id a = rr_attempt_id r \<and> ar_finalized_at a = Some now \<and>
           ar_step_status a = ex_step_status res \<and> ar_state_snapshot a = ex_state_snapshot res \<and>
           ar_runner_result_json a = ex_runner_result res"
    and "db_epochs db' = db_epochs db"
proof -
  let ?json = "rv_print_json env (JObj [(''attempt_id'', JInt (rr_attempt_id r)), (''status'', JStr ''completed''),
     (''step_status'', JStr (ex_step_status res))])"
  obtain attempts operations i where
    a: "append_attempt_outcome (rv_sha256 env) (rv_snapshot_bytes env) now (rr_attempt_id r)
             (ex_step_status res) (ex_state_snapshot res) (ex_runner_result res) None (db_attempts db) = Ok attempts"
    and o: "finalize_completed (rv_parse_json env) now (rr_operation_id r) ?json (db_operations db) = Ok (operations, i)"
    and db': "db' = db\<lparr>db_attempts := attempts, db_operations := operations\<rparr>"
    and out: "out = Recovered (step_id_of p) (rr_attempt_id r) (rr_operation_id r)"
    using assms by (auto simp: finalize_def Let_def split: result.splits prod.splits)
  show "out = Recovered (step_id_of p) (rr_attempt_id r) (rr_operation_id r)" by (rule out)
  obtain x where x: "x \<in> set (db_operations db)" "pending_guard (rr_operation_id r) x"
    using o count_where_oneD [of "pending_guard (rr_operation_id r)" "db_operations db"]
    by (auto simp: finalize_completed_def split: if_splits)
  have "operations = update_where (pending_guard (rr_operation_id r))
      (\<lambda>x. x\<lparr>op_status := OpCompleted, op_serialized_outcome := Some ?json, op_finalized_at := Some now\<rparr>) (db_operations db)"
    using o by (auto simp: finalize_completed_def map_ok_Ok split: if_splits)
  then have "x\<lparr>op_status := OpCompleted, op_serialized_outcome := Some ?json, op_finalized_at := Some now\<rparr> \<in> set operations"
    using update_where_mem [where P = "pending_guard (rr_operation_id r)"] x by fast
  then show "\<exists>x \<in> set (db_operations db'). op_operation_id x = rr_operation_id r \<and> op_status x = OpCompleted"
    using x(2) by (intro bexI) (auto simp: db' pending_guard_def)
  let ?set = "\<lambda>x. x\<lparr>ar_step_status := ex_step_status res, ar_state_snapshot := ex_state_snapshot res,
     ar_state_snapshot_json := rv_snapshot_bytes env (ex_state_snapshot res),
     ar_snapshot_digest := sha256_hex (rv_sha256 env) (rv_snapshot_bytes env (ex_state_snapshot res)),
     ar_runner_result_json := ex_runner_result res, ar_checkpoint_digest := None, ar_finalized_at := Some now\<rparr>"
  have "\<exists>x \<in> set (db_attempts db). unfinalized_guard (rr_attempt_id r) x"
    using a by (intro count_where_oneD) (simp add: append_attempt_outcome_def Let_def split: if_splits)
  then obtain x where x: "x \<in> set (db_attempts db)" "unfinalized_guard (rr_attempt_id r) x" by blast
  moreover have "attempts = update_where (unfinalized_guard (rr_attempt_id r)) ?set (db_attempts db)"
    using a by (simp add: append_attempt_outcome_def Let_def split: if_splits)
  ultimately have "?set x \<in> set attempts"
    using update_where_mem [where P = "unfinalized_guard (rr_attempt_id r)"] by fast
  then show "\<exists>a \<in> set (db_attempts db'). ar_attempt_id a = rr_attempt_id r \<and> ar_finalized_at a = Some now \<and>
           ar_step_status a = ex_step_status res \<and> ar_state_snapshot a = ex_state_snapshot res \<and>
           ar_runner_result_json a = ex_runner_result res"
    using x(2) by (intro bexI) (auto simp: db' unfinalized_guard_def)
  show "db_epochs db' = db_epochs db" by (simp add: db')
qed

lemma revalidate_not_refused:
  "revalidate env v p db = Ok None \<Longrightarrow> ra_strategy (pr_authority p) \<noteq> Refused reason"
  by (auto simp: revalidate_def check_strategy_refusal_def split: result.splits option.splits)

lemma proceed_not_refused:
  "snd (reserve env now v p db) = Ok (Proceed r) \<Longrightarrow> ra_strategy (pr_authority p) \<noteq> Refused reason"
  by (cases rule: reserve_cases [of env now v p db]) (auto dest: revalidate_not_refused)

lemma short_circuit_not_recovered:
  assumes "snd (reserve env now v p db) = Ok (ShortCircuit out)"
  shows "out \<noteq> Recovered s i oid"
proof -
  have c: "snd (claim_fresh env now p db) \<noteq> Ok (ShortCircuit (Recovered s i oid))"
    by (auto simp: claim_fresh_def perform_epoch_cas_def case_prod_beta split: result.splits CasOutcome.splits)
  have a: "revalidate env v p d \<noteq> Ok (Some (Recovered s i oid))" for d
    by (auto simp: revalidate_def revalidate_epoch_def check_strategy_refusal_def
        split: result.splits option.splits if_splits RecoveryStrategy.splits)
  have e: "resolve_existing_operation env now p ops \<noteq> Ok (ops', ExShortCircuit (Recovered s i oid))" for ops ops'
    by (auto simp: resolve_existing_operation_def resolve_existing_status_def resolve_pending_def map_ok_Ok
        resolve_completed_def resolve_refused_or_conflict_def resolve_adopt_outcome_def case_prod_beta
        split: OperationStatus.splits option.splits if_splits AdoptOutcome.splits)
  show ?thesis
    using assms a c e by (auto simp: reserve_def split: result.splits option.splits prod.splits ExistingResolution.splits)
qed

lemma recover_cases:
  obtains (unprepared) res where "\<And>p. prepare env (rc_prepare_verdict clk) rq db \<noteq> Ok p"
      "recover_with_observer_and_executor env clk obs exec rq db = (db, res)" "\<And>s i oid. res \<noteq> Ok (Recovered s i oid)"
  | (unreserved) p res where "prepare env (rc_prepare_verdict clk) rq db = Ok p"
      "\<And>r. snd (reserve env (rc_reserve_at clk) (rc_reserve_verdict clk) p (obs rq db)) \<noteq> Ok (Proceed r)"
      "recover_with_observer_and_executor env clk obs exec rq db =
         (fst (reserve env (rc_reserve_at clk) (rc_reserve_verdict clk) p (obs rq db)), res)"
      "\<And>s i oid. res \<noteq> Ok (Recovered s i oid)"
  | (executed) p r where "prepare env (rc_prepare_verdict clk) rq db = Ok p"
      "snd (reserve env (rc_reserve_at clk) (rc_reserve_verdict clk) p (obs rq db)) = Ok (Proceed r)"
      "recover_with_observer_and_executor env clk obs exec rq db =
         (case execute exec p r (fst (reserve env (rc_reserve_at clk) (rc_reserve_verdict clk) p (obs rq db))) of
            (db, Err e) \<Rightarrow> (db, Err e)
          | (db, Ok res) \<Rightarrow> finalize env (rc_finalize_at clk) p r res db)"
proof (cases "prepare env (rc_prepare_verdict clk) rq db")
  case (Err e)
  then have "\<exists>res. recover_with_observer_and_executor env clk obs exec rq db = (db, res) \<and>
      (\<forall>s i oid. res \<noteq> Ok (Recovered s i oid))"
    by (cases e) (auto simp: recover_with_observer_and_executor_def)
  then obtain res where "recover_with_observer_and_executor env clk obs exec rq db = (db, res) \<and>
      (\<forall>s i oid. res \<noteq> Ok (Recovered s i oid))" ..
  with Err show ?thesis by (intro unprepared [of res]) auto
next
  case (Ok p)
  obtain db1 res where r: "reserve env (rc_reserve_at clk) (rc_reserve_verdict clk) p (obs rq db) = (db1, res)"
    by (cases "reserve env (rc_reserve_at clk) (rc_reserve_verdict clk) p (obs rq db)")
  show ?thesis
  proof (cases "\<exists>x. res = Ok (Proceed x)")
    case True
    then obtain x where "res = Ok (Proceed x)" ..
    with Ok r show ?thesis by (intro executed [of p x]) (simp_all add: recover_with_observer_and_executor_def)
  next
    case False
    have "\<exists>out. recover_with_observer_and_executor env clk obs exec rq db = (db1, out) \<and>
        (\<forall>s i oid. out \<noteq> Ok (Recovered s i oid))" (is "\<exists>out. ?out out")
    proof (cases res)
      case 1: (Ok y)
      with False obtain out where "res = Ok (ShortCircuit out)" by (cases y) auto
      moreover have "out \<noteq> Recovered s i oid" for s i oid
        by (rule short_circuit_not_recovered [of env "rc_reserve_at clk" "rc_reserve_verdict clk" p "obs rq db"])
           (simp add: r calculation)
      ultimately show ?thesis using Ok r by (simp add: recover_with_observer_and_executor_def)
    next
      case (Err e)
      then show ?thesis using Ok r by (cases e) (simp_all add: recover_with_observer_and_executor_def)
    qed
    then obtain out where "?out out" ..
    with Ok r False show ?thesis by (intro unreserved [of p out]) auto
  qed
qed

text \<open>
  C12: a recovery that is reported is durable. When the protocol answers that a step was recovered,
  with whatever executor and observer, then the request was prepared and reserved, its strategy was not a
  refusal, the executor was called for that step under the reserved attempt and returned a result, and in
  the database the operation is completed and the attempt finalized with exactly that result.
\<close>

theorem recovered_is_durable:
  assumes "recover_with_observer_and_executor env clk obs exec rq db = (db', Ok (Recovered s i oid))"
  shows "s = rq_step_id rq \<and>
    (\<exists>x \<in> set (db_operations db'). op_operation_id x = oid \<and> op_status x = OpCompleted) \<and>
    (\<exists>p r dbr dbx res.
       prepare env (rc_prepare_verdict clk) rq db = Ok p \<and> (\<forall>reason. ra_strategy (pr_authority p) \<noteq> Refused reason) \<and>
       reserve env (rc_reserve_at clk) (rc_reserve_verdict clk) p (obs rq db) = (dbr, Ok (Proceed r)) \<and>
       i = rr_attempt_id r \<and> oid = rr_operation_id r \<and>
       exec (invocation_of p r) dbr = (dbx, Ok res) \<and>
       (\<exists>a \<in> set (db_attempts db'). ar_attempt_id a = i \<and> ar_finalized_at a = Some (rc_finalize_at clk) \<and>
          ar_step_status a = ex_step_status res \<and> ar_state_snapshot a = ex_state_snapshot res \<and>
          ar_runner_result_json a = ex_runner_result res))"
proof (cases rule: recover_cases [of env clk rq db obs exec])
  case (executed p r)
  obtain dbr where r: "reserve env (rc_reserve_at clk) (rc_reserve_verdict clk) p (obs rq db) = (dbr, Ok (Proceed r))"
    using executed(2) by (metis prod.collapse)
  obtain dbx res where x: "exec (invocation_of p r) dbr = (dbx, Ok res)"
    and f: "finalize env (rc_finalize_at clk) p r res dbx = (db', Ok (Recovered s i oid))"
    using executed(3) assms by (auto simp: r execute_def split: prod.splits result.splits)
  have "step_id_of p = rq_step_id rq"
    using executed(1) by (auto simp: prepare_def step_id_of_def Let_def split: result.splits prod.splits option.splits)
  then show ?thesis
    using finalize_ok [OF f] executed(1) proceed_not_refused [OF executed(2)] r x by simp
qed (use assms in auto)

lemma stopped_reserve_keeps_db:
  "(\<And>r. snd (reserve env now v p db) \<noteq> Ok (Proceed r)) \<Longrightarrow> fst (reserve env now v p db) = db"
  by (cases rule: reserve_cases [of env now v p db]) auto

lemma recover_unavailable:
  assumes "recover env clk rq db = (db', out)"
  shows "out \<noteq> Ok (Recovered s i oid)"
    and "db' = db \<or> (\<exists>p r e. prepare env (rc_prepare_verdict clk) rq db = Ok p \<and> out = Err (ReExecution e) \<and>
         reserve env (rc_reserve_at clk) (rc_reserve_verdict clk) p db = (db', Ok (Proceed r)))"
proof -
  have r: "recover_with_observer_and_executor env clk (\<lambda>_ db. db) UnavailableRecoveryExecutor rq db = (db', out)"
    using assms by (simp add: recover_def recover_with_executor_def)
  have "out \<noteq> Ok (Recovered s i oid) \<and> (db' = db \<or> (\<exists>p r e. prepare env (rc_prepare_verdict clk) rq db = Ok p \<and>
      out = Err (ReExecution e) \<and> reserve env (rc_reserve_at clk) (rc_reserve_verdict clk) p db = (db', Ok (Proceed r))))"
  proof (cases rule: recover_cases [of env clk rq db "\<lambda>_ db. db" UnavailableRecoveryExecutor])
    case (unreserved p res)
    then show ?thesis using r stopped_reserve_keeps_db [OF unreserved(2)] by auto
  next
    case (executed p x)
    then show ?thesis using r
      by (cases "reserve env (rc_reserve_at clk) (rc_reserve_verdict clk) p db")
         (auto simp: execute_def UnavailableRecoveryExecutor_def)
  qed (use r in auto)
  then show "out \<noteq> Ok (Recovered s i oid)"
    and "db' = db \<or> (\<exists>p r e. prepare env (rc_prepare_verdict clk) rq db = Ok p \<and> out = Err (ReExecution e) \<and>
         reserve env (rc_reserve_at clk) (rc_reserve_verdict clk) p db = (db', Ok (Proceed r)))"
    by blast+
qed

lemma recover_refused:
  assumes "prepare env (rc_prepare_verdict clk) rq db = Ok p" and "ra_strategy (pr_authority p) = Refused reason"
    and "recover_with_observer_and_executor env clk obs exec rq db = (db', out)"
  shows "db' = obs rq db" and "out \<noteq> Ok (Recovered s i oid)"
proof -
  have "db' = obs rq db \<and> out \<noteq> Ok (Recovered s i oid)"
  proof (cases rule: recover_cases [of env clk rq db obs exec])
    case (unreserved q res)
    then show ?thesis using assms(3) stopped_reserve_keeps_db [OF unreserved(2)] by auto
  next
    case (executed q r)
    then show ?thesis using assms(1,2) proceed_not_refused [OF executed(2), of reason] by simp
  qed (use assms in auto)
  then show "db' = obs rq db" and "out \<noteq> Ok (Recovered s i oid)" by blast+
qed

text \<open>
  C13: recovery fails closed. The entry point without an executor never reports a recovery, and leaves
  the database as it was unless it reserved the recovery and then reported the missing executor. With any
  executor, a step whose policy refuses recovery is never recovered, and neither the executor nor any
  write of the protocol touches the database the observer left.
\<close>

theorem recovery_fails_closed:
  "(\<forall>db' out. recover env clk rq db = (db', out) \<longrightarrow>
      (\<forall>s i oid. out \<noteq> Ok (Recovered s i oid)) \<and>
      (db' = db \<or> (\<exists>p r e. prepare env (rc_prepare_verdict clk) rq db = Ok p \<and> out = Err (ReExecution e) \<and>
         reserve env (rc_reserve_at clk) (rc_reserve_verdict clk) p db = (db', Ok (Proceed r))))) \<and>
   (\<forall>p reason obs exec db' out.
      prepare env (rc_prepare_verdict clk) rq db = Ok p \<longrightarrow> ra_strategy (pr_authority p) = Refused reason \<longrightarrow>
      recover_with_observer_and_executor env clk obs exec rq db = (db', out) \<longrightarrow>
      db' = obs rq db \<and> (\<forall>s i oid. out \<noteq> Ok (Recovered s i oid)))"
  by (intro conjI allI impI; rule recover_unavailable recover_refused; assumption)

text \<open>A database with one run to recover, over any hash.\<close>

definition demo_recovery_step :: "string \<Rightarrow> StepRecoveryPolicy option \<Rightarrow> StepDef" where
  "demo_recovery_step i policy =
     \<lparr>sd_step_id = i, sd_step_type = ''shell'', sd_description = None, sd_parameters = None, sd_produces = None,
      sd_consumes = None, sd_terminal = None, sd_recovery_policy = policy\<rparr>"

definition demo_recovery_env :: "hash \<Rightarrow> RecoveryEnv" where
  "demo_recovery_env h =
     \<lparr>rv_sha256 = h, rv_sql_text = (\<lambda>_. ''?''), rv_rfc3339 = nat_to_string, rv_snapshot_bytes = (\<lambda>_. []),
      rv_parse_json = (\<lambda>_. Some (JObj [(''attempt_id'', JInt 1)])), rv_print_json = (\<lambda>_. ''{}''),
      rv_decode_workflow = (\<lambda>_. Ok
        \<lparr>wt_workflow_type_id = ''demo'',
         wt_steps = [demo_recovery_step ''a'' (Some PureReenter), demo_recovery_step ''b'' (Some Idempotent),
                     demo_recovery_step ''c'' None],
         wt_transitions = [],
         wt_guards = \<lparr>gc_max_retries = None, gc_timeout_seconds = None, gc_require_approval = None\<rparr>\<rparr>),
      rv_process_id = 42\<rparr>"

definition demo_recovery_capsule :: "hash \<Rightarrow> ExecutionCapsuleV1" where
  "demo_recovery_capsule h = build_capsule_v1 h 1 ''r'' ''2f63'' [1, 2] [3] ''w'' ''c'' ''p'' ''main''"

definition demo_recovery_db :: "hash \<Rightarrow> RecoveryDb" where
  "demo_recovery_db h =
     \<lparr>db_checkpoints = [], db_events = [], db_runs = [run_metadata_new 1 ''r'' ''t'' ''cfg''], db_leases = [],
      db_waits = [], db_capsules = [row_of_capsule (demo_recovery_capsule h)], db_epochs = [], db_attempts = [],
      db_operations = []\<rparr>"

definition demo_recovery_clock :: RecoveryClock where
  "demo_recovery_clock =
     \<lparr>rc_reserve_at = 10, rc_finalize_at = 20, rc_prepare_verdict = OvNoEvidence, rc_reserve_verdict = OvNoEvidence\<rparr>"

definition demo_request :: "string \<Rightarrow> RecoveryRequest" where
  "demo_request step =
     \<lparr>rq_run_id = ''r'', rq_step_id = step, rq_expected_epoch = 0, rq_operator_verb = Retry\<rparr>"

definition demo_executor :: recovery_executor where
  "demo_executor invocation db =
     (db, Ok \<lparr>ex_step_status = ''completed'', ex_state_snapshot = default_snapshot, ex_runner_result = None\<rparr>)"

definition demo_prepared :: "hash \<Rightarrow> string \<Rightarrow> StepRecoveryPolicy \<Rightarrow> PreparedRecovery" where
  "demo_prepared h step policy =
     \<lparr>pr_authority = \<lparr>ra_workspace_authorization = None, ra_capsule = demo_recovery_capsule h, ra_source_attempt = None,
        ra_policy = policy, ra_strategy = select_strategy policy\<rparr>,
      pr_expected_epoch = 0, pr_step_id = step, pr_operator_verb = Retry,
      pr_operation_id = compute_operation_id h ''r'' step (ec_envelope_digest (demo_recovery_capsule h)) None ''retry'',
      pr_logical_request_key = compute_logical_request_key h ''r'' None ''retry'',
      pr_intent_digest = compute_intent_digest h ''retry'', pr_run_status = RInitialized, pr_current_step = None,
      pr_live_pid = None, pr_checkpoint_identity = None, pr_wait_state = None, pr_lease = None,
      pr_verified_workspace = None\<rparr>"

definition demo_reserved :: "hash \<Rightarrow> ReservedRecovery" where
  "demo_reserved h = \<lparr>rr_operation_id = pr_operation_id (demo_prepared h ''a'' PureReenter), rr_attempt_id = 1, rr_epoch = 1\<rparr>"

lemma demo_capsule_fields [simp]:
  "ec_run_id (demo_recovery_capsule h) = ''r''" "ec_schema_version (demo_recovery_capsule h) = 1"
  by (simp_all add: demo_recovery_capsule_def build_capsule_v1_def Let_def)

lemma demo_capsule_loads [simp]:
  "verify_envelope_digest h (demo_recovery_capsule h) = Ok ()"
  "load_capsule_v1 h ''r'' [row_of_capsule (demo_recovery_capsule h)] = Ok (demo_recovery_capsule h)"
proof -
  show v: "verify_envelope_digest h (demo_recovery_capsule h) = Ok ()" by (simp add: demo_recovery_capsule_def)
  show "load_capsule_v1 h ''r'' [row_of_capsule (demo_recovery_capsule h)] = Ok (demo_recovery_capsule h)"
    using v by (simp add: load_capsule_v1_def validate_loaded_capsule_def row_of_capsule_def)
qed

lemma demo_prepare [simp]:
  "prepare (demo_recovery_env h) OvNoEvidence (demo_request ''a'') (demo_recovery_db h) = Ok (demo_prepared h ''a'' PureReenter)"
  "prepare (demo_recovery_env h) OvNoEvidence (demo_request ''c'') (demo_recovery_db h) = Ok (demo_prepared h ''c'' NonRecoverablePolicy)"
proof -
  have d: "db_capsules (demo_recovery_db h) = [row_of_capsule (demo_recovery_capsule h)]"
    "rv_sha256 (demo_recovery_env h) = h"
    by (simp_all add: demo_recovery_db_def demo_recovery_env_def)
  have s: "resolve_step_def (demo_recovery_env h) (demo_recovery_capsule h) ''a'' = Ok (demo_recovery_step ''a'' (Some PureReenter))"
    "resolve_step_def (demo_recovery_env h) (demo_recovery_capsule h) ''c'' = Ok (demo_recovery_step ''c'' None)"
    by (simp_all add: resolve_step_def_def adapter_for_def step_def_for_def)
       (simp_all add: demo_recovery_env_def demo_recovery_step_def)
  have p: "policy_for_step (demo_recovery_step ''a'' (Some PureReenter)) ''a'' = PureReenter"
    "policy_for_step (demo_recovery_step ''c'' None) ''c'' = NonRecoverablePolicy"
    by (simp_all add: policy_for_step_def demo_recovery_step_def is_safe_rerun_step_def SAFE_RERUN_STEPS_def)
  have e: "latest_for_step ''r'' step (db_attempts (demo_recovery_db h)) = None"
    "get_run_with_conn ''r'' (db_runs (demo_recovery_db h)) = Some (run_metadata_new 1 ''r'' ''t'' ''cfg'')"
    "load_checkpoint_identity (demo_recovery_env h) (demo_recovery_db h) ''r'' = None"
    "get_wait_state ''r'' (db_waits (demo_recovery_db h)) = None" for step
    by (simp_all add: demo_recovery_db_def latest_for_step_def get_run_with_conn_def run_metadata_new_def
        load_checkpoint_identity_def load_checkpoint_with_conn_def get_wait_state_def)
  show "prepare (demo_recovery_env h) OvNoEvidence (demo_request ''a'') (demo_recovery_db h) = Ok (demo_prepared h ''a'' PureReenter)"
    "prepare (demo_recovery_env h) OvNoEvidence (demo_request ''c'') (demo_recovery_db h) =
      Ok (demo_prepared h ''c'' NonRecoverablePolicy)"
    by (simp_all add: prepare_def demo_request_def d s p e compute_bindings_def demo_prepared_def load_issue_lease_def
        run_metadata_new_def Let_def)
qed

lemma demo_revalidate:
  "revalidate (demo_recovery_env h) OvNoEvidence (demo_prepared h ''a'' PureReenter) (demo_recovery_db h) = Ok None"
  by (simp add: revalidate_def revalidate_epoch_def read_epoch_def demo_recovery_db_def demo_prepared_def
      revalidate_authority_snapshot_def get_run_for_reserve_def get_run_with_conn_def run_id_of_def
      run_metadata_new_def load_reserve_checkpoint_identity_def
      load_checkpoint_with_conn_def get_wait_state_def load_reserve_lease_def load_issue_lease_def
      revalidate_continue_workspace_authorization_def check_strategy_refusal_def)

lemma demo_reserve:
  "\<exists>db' a x. reserve (demo_recovery_env h) 10 OvNoEvidence (demo_prepared h ''a'' PureReenter) (demo_recovery_db h) =
      (db', Ok (Proceed (demo_reserved h))) \<and>
     db_attempts db' = [a] \<and> ar_attempt_id a = 1 \<and> ar_finalized_at a = None \<and>
     db_operations db' = [x] \<and> op_operation_id x = rr_operation_id (demo_reserved h) \<and> op_status x = OpPending \<and>
     db_capsules db' = db_capsules (demo_recovery_db h) \<and> db_runs db' = db_runs (demo_recovery_db h)"
proof -
  let ?p = "demo_prepared h ''a'' PureReenter"
  have ops: "db_operations (demo_recovery_db h) = []" by (simp add: demo_recovery_db_def)
  have "demo_recovery_db h\<lparr>db_operations := []\<rparr> = demo_recovery_db h" by (simp add: demo_recovery_db_def)
  then have "revalidate (demo_recovery_env h) OvNoEvidence ?p (demo_recovery_db h\<lparr>db_operations := []\<rparr>) = Ok None"
    using demo_revalidate by simp
  then have "reserve (demo_recovery_env h) 10 OvNoEvidence ?p (demo_recovery_db h) =
      claim_fresh (demo_recovery_env h) 10 ?p (demo_recovery_db h)"
    by (simp add: reserve_def ops resolve_existing_operation_def lookup_logical_operation_def)
  moreover have "perform_epoch_cas (demo_recovery_env h) 10 ?p (db_epochs (demo_recovery_db h)) =
      Ok ([\<lparr>ep_run_id = ''r'', ep_epoch = 1, ep_updated_at = 10\<rparr>], CasAdvanced 1)"
    by (simp add: perform_epoch_cas_def cas_advance_epoch_def demo_recovery_db_def demo_prepared_def run_id_of_def
        sat_i64_def i64_try_from_u64_def i64_max_def)
  moreover have "db_attempts (demo_recovery_db h) = []" by (simp add: demo_recovery_db_def)
  ultimately show ?thesis using ops
    by (simp add: claim_fresh_def allocate_attempt_def record_attempt_start_def Let_def next_attempt_id_def
        insert_pending_operation_def insert_pending_def demo_reserved_def)
qed

lemma demo_finalize:
  assumes "db_attempts dbr = [a]" "ar_attempt_id a = 1" "ar_finalized_at a = None"
    and "db_operations dbr = [x]" "op_operation_id x = rr_operation_id (demo_reserved h)" "op_status x = OpPending"
  shows "\<exists>db'. finalize (demo_recovery_env h) now (demo_prepared h ''a'' PureReenter) (demo_reserved h) res dbr =
      (db', Ok (Recovered ''a'' 1 (rr_operation_id (demo_reserved h)))) \<and>
    db_capsules db' = db_capsules dbr \<and> db_runs db' = db_runs dbr"
proof -
  have j: "attempt_id_from_outcome (rv_parse_json (demo_recovery_env h)) t = Ok 1" for t
    by (simp add: attempt_id_from_outcome_def demo_recovery_env_def json_as_i64_def i64_max_def)
  have r: "rr_attempt_id (demo_reserved h) = 1" by (simp add: demo_reserved_def)
  obtain rows where f: "append_attempt_outcome (rv_sha256 (demo_recovery_env h)) (rv_snapshot_bytes (demo_recovery_env h)) now 1
      (ex_step_status res) (ex_state_snapshot res) (ex_runner_result res) None (db_attempts dbr) = Ok rows"
    using assms(1-3) by (simp add: append_attempt_outcome_def Let_def count_where_def unfinalized_guard_def)
  have "\<exists>ops. finalize_completed (rv_parse_json (demo_recovery_env h)) now (rr_operation_id (demo_reserved h)) t
      (db_operations dbr) = Ok (ops, 1)" for t
    using assms(4-6) by (simp add: finalize_completed_def count_where_def pending_guard_def j)
  then obtain ops where g: "finalize_completed (rv_parse_json (demo_recovery_env h)) now (rr_operation_id (demo_reserved h))
      (rv_print_json (demo_recovery_env h) (JObj [(''attempt_id'', JInt 1), (''status'', JStr ''completed''),
        (''step_status'', JStr (ex_step_status res))])) (db_operations dbr) = Ok (ops, 1)"
    by blast
  show ?thesis by (simp add: finalize_def r f g Let_def step_id_of_def) (simp add: demo_prepared_def)
qed

theorem recovered_is_durable_witness:
  "\<exists>db'. recover_with_observer_and_executor (demo_recovery_env (\<lambda>x. x)) demo_recovery_clock (\<lambda>_ db. db) demo_executor
     (demo_request ''a'') (demo_recovery_db (\<lambda>x. x)) = (db', Ok (Recovered ''a'' 1 (rr_operation_id (demo_reserved (\<lambda>x. x))))) \<and>
   (\<exists>x \<in> set (db_operations db'). op_operation_id x = rr_operation_id (demo_reserved (\<lambda>x. x)) \<and> op_status x = OpCompleted)"
proof -
  let ?h = "\<lambda>x. x :: byte list"
  obtain dbr a x where r: "reserve (demo_recovery_env ?h) 10 OvNoEvidence (demo_prepared ?h ''a'' PureReenter)
      (demo_recovery_db ?h) = (dbr, Ok (Proceed (demo_reserved ?h)))"
    and a: "db_attempts dbr = [a]" "ar_attempt_id a = 1" "ar_finalized_at a = None"
    and x: "db_operations dbr = [x]" "op_operation_id x = rr_operation_id (demo_reserved ?h)" "op_status x = OpPending"
    using demo_reserve [of ?h] by blast
  obtain db' where "finalize (demo_recovery_env ?h) 20 (demo_prepared ?h ''a'' PureReenter) (demo_reserved ?h)
      \<lparr>ex_step_status = ''completed'', ex_state_snapshot = default_snapshot, ex_runner_result = None\<rparr> dbr =
      (db', Ok (Recovered ''a'' 1 (rr_operation_id (demo_reserved ?h))))"
    using demo_finalize [OF a x] by blast
  then have e: "recover_with_observer_and_executor (demo_recovery_env ?h) demo_recovery_clock (\<lambda>_ db. db)
      demo_executor (demo_request ''a'') (demo_recovery_db ?h) =
      (db', Ok (Recovered ''a'' 1 (rr_operation_id (demo_reserved ?h))))"
    by (simp add: recover_with_observer_and_executor_def demo_recovery_clock_def r execute_def demo_executor_def)
  from recovered_is_durable [OF e] e show ?thesis by blast
qed

theorem recovery_fails_closed_witness:
  "fst (recover_with_observer_and_executor (demo_recovery_env (\<lambda>_. [])) demo_recovery_clock (\<lambda>_ db. db) demo_executor
      (demo_request ''c'') (demo_recovery_db (\<lambda>_. []))) = (demo_recovery_db (\<lambda>_. [])) \<and>
   snd (recover (demo_recovery_env (\<lambda>_. [])) demo_recovery_clock (demo_request ''a'') (demo_recovery_db (\<lambda>_. []))) \<noteq> Ok (Recovered ''a'' 1 [])"
proof -
  have "prepare (demo_recovery_env (\<lambda>_. [])) (rc_prepare_verdict demo_recovery_clock) (demo_request ''c'') (demo_recovery_db (\<lambda>_. [])) =
      Ok (demo_prepared (\<lambda>_. []) ''c'' NonRecoverablePolicy)" by (simp add: demo_recovery_clock_def)
  moreover have "ra_strategy (pr_authority (demo_prepared (\<lambda>_. []) ''c'' NonRecoverablePolicy)) = Refused NonRecoverable"
    by (simp add: demo_prepared_def)
  ultimately show ?thesis
    using recovery_fails_closed [of "demo_recovery_env (\<lambda>_. [])" demo_recovery_clock "demo_request ''c''" "demo_recovery_db (\<lambda>_. [])"]
      recovery_fails_closed [of "demo_recovery_env (\<lambda>_. [])" demo_recovery_clock "demo_request ''a''" "demo_recovery_db (\<lambda>_. [])"]
    by (metis prod.collapse)
qed

section \<open>Reservations are exclusive\<close>

text \<open>
  The writes of concurrent recoverers, in any order. A reservation wins when it claims its epoch: it
  proceeds and no operation existed for its logical request. Continuing an expired operation does not
  claim an epoch.
\<close>

datatype recovery_op =
    ReserveOp RecoveryEnv instant OwnershipVerdict PreparedRecovery
  | FinalizeOp RecoveryEnv instant PreparedRecovery ReservedRecovery RecoveryExecutionResult

definition claims_epoch :: "PreparedRecovery \<Rightarrow> RecoveryDb \<Rightarrow> (ReserveOutcome, RecoveryError) result \<Rightarrow> bool" where
  "claims_epoch p db out \<longleftrightarrow>
     (\<exists>r. out = Ok (Proceed r)) \<and> lookup_logical_operation (pr_logical_request_key p) (db_operations db) = None"

fun apply_recovery_op :: "recovery_op \<Rightarrow> RecoveryDb \<Rightarrow> RecoveryDb \<times> bool" where
  "apply_recovery_op (ReserveOp env now v p) db =
     (fst (reserve env now v p db), claims_epoch p db (snd (reserve env now v p db)))"
| "apply_recovery_op (FinalizeOp env now p r res) db = (fst (finalize env now p r res db), False)"

fun recovery_key :: "recovery_op \<Rightarrow> string \<times> u64" where
  "recovery_key (ReserveOp env now v p) = (run_id_of p, pr_expected_epoch p)"
| "recovery_key (FinalizeOp env now p r res) = (run_id_of p, pr_expected_epoch p)"

fun recovery_in_range :: "recovery_op \<Rightarrow> bool" where
  "recovery_in_range (ReserveOp env now v p) \<longleftrightarrow> uint (pr_expected_epoch p) < i64_max"
| "recovery_in_range (FinalizeOp env now p r res) \<longleftrightarrow> True"

lemma perform_epoch_cas_apply:
  "perform_epoch_cas env now p t = Ok (t', CasAdvanced e) \<Longrightarrow>
   apply_epoch_op (CasAdvance now (run_id_of p) (pr_expected_epoch p)) t = (t', True)"
  by (auto simp: perform_epoch_cas_def split: result.splits CasOutcome.splits)

lemma finalize_epochs: "db_epochs (fst (finalize env now p r res db)) = db_epochs db"
  by (auto simp: finalize_def Let_def split: result.split prod.split)

text \<open>Seen from the epoch register, a reservation is a compare-and-swap or nothing.\<close>

lemma reserve_epochs:
  obtains (cas) "claims_epoch p db (snd (reserve env now v p db))"
      "apply_epoch_op (CasAdvance now (run_id_of p) (pr_expected_epoch p)) (db_epochs db) =
        (db_epochs (fst (reserve env now v p db)), True)"
  | (keep) "\<not> claims_epoch p db (snd (reserve env now v p db))" "db_epochs (fst (reserve env now v p db)) = db_epochs db"
proof (cases rule: reserve_cases [of env now v p db])
  case fresh
  show ?thesis
  proof (cases rule: claim_fresh_cases [of env now p db])
    case (claimed epochs new_epoch operations)
    then show ?thesis using fresh(1,3) perform_epoch_cas_apply [OF claimed(1)]
      by (intro cas) (simp_all add: claims_epoch_def)
  qed (use fresh in auto)
qed (auto simp: claims_epoch_def intro: keep)

interpretation reservations: exclusive_claim apply_recovery_op recovery_key "\<lambda>db k. epoch_passed (db_epochs db) k"
  recovery_in_range "\<lambda>_. True"
proof unfold_locales
  fix a and db :: RecoveryDb
  assume adm: "recovery_in_range a" and won: "snd (apply_recovery_op a db)"
  then obtain env now v p where a: "a = ReserveOp env now v p" by (cases a) auto
  let ?c = "CasAdvance now (run_id_of p) (pr_expected_epoch p)"
  have in_range: "epoch_in_range ?c" using adm by (simp add: a)
  have c: "apply_epoch_op ?c (db_epochs db) = (db_epochs (fst (reserve env now v p db)), True)"
    using won by (cases rule: reserve_epochs [of p db env now v]) (simp_all add: a)
  show "\<not> epoch_passed (db_epochs db) (recovery_key a)" "epoch_passed (db_epochs (fst (apply_recovery_op a db))) (recovery_key a)"
    using epoch_cas.win_free [OF in_range, of "db_epochs db"] epoch_cas.win_held [OF in_range, of "db_epochs db"] c
    by (simp_all add: a)
next
  fix a k and db :: RecoveryDb
  assume adm: "recovery_in_range a" and held: "epoch_passed (db_epochs db) k"
  show "epoch_passed (db_epochs (fst (apply_recovery_op a db))) k"
  proof (cases a)
    case (ReserveOp env now v p)
    then have in_range: "epoch_in_range (CasAdvance now (run_id_of p) (pr_expected_epoch p))" using adm by simp
    show ?thesis
      using held epoch_cas.held_kept [OF in_range _ held]
      by (cases rule: reserve_epochs [of p db env now v]) (simp_all add: ReserveOp)
  next
    case (FinalizeOp env now p r res)
    then show ?thesis using held by (simp add: finalize_epochs)
  qed
qed simp

lemma passed_epoch_stops:
  assumes "epoch_passed (db_epochs db) (run_id_of p, pr_expected_epoch p)"
  shows "snd (reserve env now v p db) \<noteq> Ok (Proceed r)"
proof -
  obtain row where row: "lookup_by ep_run_id (run_id_of p) (db_epochs db) = Some row" "uint (pr_expected_epoch p) < ep_epoch row"
    using assms by (auto simp: epoch_passed_def split: option.splits)
  have "u64_or_zero (ep_epoch row) \<noteq> pr_expected_epoch p" if "ep_epoch row \<le> i64_max"
  proof
    assume "u64_or_zero (ep_epoch row) = pr_expected_epoch p"
    moreover have "0 \<le> ep_epoch row" using row(2) order_trans [OF _ less_imp_le] by fastforce
    ultimately have "uint (word_of_int (ep_epoch row) :: u64) < ep_epoch row"
      using row(2) that by (simp add: u64_or_zero_def u64_try_from_i64_def)
    then show False using that \<open>0 \<le> ep_epoch row\<close> by (simp add: uint_word_of_int i64_max_def)
  qed
  then have "revalidate env v p d \<noteq> Ok None" if "db_epochs d = db_epochs db" for d
    using that by (simp add: revalidate_def revalidate_epoch_def read_epoch_def row(1))
  then show ?thesis by (cases rule: reserve_cases [of env now v p db]) auto
qed

text \<open>
  C14: an epoch is reserved once. In any interleaving of reservations and finalizations by any number of
  recoverers (expected epochs below the limit), at most one fresh reservation ever succeeds for a run and
  an expected epoch; and once the run is past that epoch no reservation at all proceeds under it, not even
  one that would continue an expired operation.
\<close>

theorem reservations_are_exclusive:
  assumes "list_all recovery_in_range ops"
  shows "distinct (map recovery_key (winners apply_recovery_op ops db)) \<and>
    (epoch_passed (db_epochs db) (run_id_of p, pr_expected_epoch p) \<longrightarrow>
       (run_id_of p, pr_expected_epoch p) \<notin> recovery_key ` set (winners apply_recovery_op ops db) \<and>
       (\<forall>env now v r. snd (reserve env now v p db) \<noteq> Ok (Proceed r)))"
  using reservations.winners_distinct [OF assms] reservations.held_not_won [OF assms] passed_epoch_stops by simp

theorem reservations_are_exclusive_witness:
  "distinct (map recovery_key (winners apply_recovery_op
     [ReserveOp (demo_recovery_env (\<lambda>_. [])) 10 OvNoEvidence (demo_prepared (\<lambda>_. []) ''a'' PureReenter),
      ReserveOp (demo_recovery_env (\<lambda>_. [])) 11 OvNoEvidence (demo_prepared (\<lambda>_. []) ''b'' Idempotent)] (demo_recovery_db (\<lambda>_. []))))"
  by (rule conjunct1 [OF reservations_are_exclusive]) (simp add: demo_prepared_def i64_max_def)

section \<open>A pending operation protects its lease\<close>

lemma run_id_of_step [simp]: "run_id_of (p\<lparr>pr_step_id := s\<rparr>) = run_id_of p"
  by (simp add: run_id_of_def)

lemma revalidate_step [simp]:
  "revalidate env v (p\<lparr>pr_step_id := s\<rparr>) (db\<lparr>db_operations := ops\<rparr>) = revalidate env v p db"
proof -
  have e: "revalidate_epoch env (p\<lparr>pr_step_id := s\<rparr>) t = revalidate_epoch env p t" for t
    by (simp add: revalidate_epoch_def split: result.split)
  have l: "load_reserve_lease (db\<lparr>db_operations := ops\<rparr>) md = load_reserve_lease db md" for md
    by (simp add: load_reserve_lease_def load_issue_lease_def split: option.split)
  have a: "revalidate_authority_snapshot env (p\<lparr>pr_step_id := s\<rparr>) (db\<lparr>db_operations := ops\<rparr>) =
      revalidate_authority_snapshot env p db"
    by (simp add: revalidate_authority_snapshot_def get_run_for_reserve_def load_reserve_checkpoint_identity_def l
        split: option.split result.split)
  have w: "revalidate_continue_workspace_authorization v (p\<lparr>pr_step_id := s\<rparr>) = revalidate_continue_workspace_authorization v p"
    by (cases v) (simp_all add: revalidate_continue_workspace_authorization_def split: option.split)
  have "check_strategy_refusal (p\<lparr>pr_step_id := s\<rparr>) = check_strategy_refusal p"
    by (simp add: check_strategy_refusal_def)
  then show ?thesis by (simp add: revalidate_def e a w split: result.split option.split)
qed

lemma pending_live:
  assumes "lookup_logical_operation (pr_logical_request_key p) (db_operations db) = Some x" and "op_status x = OpPending"
    and "unique_key op_operation_id (db_operations db)" and "\<not> lease_expired now x"
  shows "fst (reserve env now v p db) = db" and "snd (reserve env now v p db) \<noteq> Ok (Proceed r)"
proof -
  have x: "x \<in> set (db_operations db)"
    using assms(1) lookup_by_SomeD by (fastforce simp: lookup_logical_operation_def)
  have "count_where (adopt_guard (op_operation_id x) now) (db_operations db) \<noteq> 1"
  proof
    assume "count_where (adopt_guard (op_operation_id x) now) (db_operations db) = 1"
    then obtain y where y: "y \<in> set (db_operations db)" "adopt_guard (op_operation_id x) now y"
      using count_where_oneD by blast
    then have "y = x" using unique_keyD [OF assms(3) y(1) x] by (simp add: adopt_guard_def)
    then show False using y(2) assms(4) by (simp add: adopt_guard_def)
  qed
  then have "(\<forall>r. snd (reserve env now v p db) \<noteq> Ok (Proceed r)) \<and> fst (reserve env now v p db) = db"
    using assms(1) by (cases rule: reserve_cases [of env now v p db]) auto
  then show "fst (reserve env now v p db) = db" and "snd (reserve env now v p db) \<noteq> Ok (Proceed r)" by blast+
qed

lemma pending_adopted:
  assumes "lookup_logical_operation (pr_logical_request_key p) (db_operations db) = Some x" and "op_status x = OpPending"
    and "unique_key op_operation_id (db_operations db)" and "lease_expired now x" and "same_capsule p x"
    and "op_execution_attempt_id x = Some i" and "revalidate env v p db = Ok None"
  shows "reserve env now v (p\<lparr>pr_step_id := s\<rparr>) db =
    (db\<lparr>db_operations := update_where (adopt_guard (op_operation_id x) now)
          (\<lambda>y. y\<lparr>op_owner_pid := Some (rv_process_id env), op_lease_expires_at := Some (recovery_lease_end now)\<rparr>)
          (db_operations db)\<rparr>,
     Ok (Proceed \<lparr>rr_operation_id = op_operation_id x, rr_attempt_id = i, rr_epoch = op_epoch x\<rparr>))"
proof -
  have x: "x \<in> set (db_operations db)"
    using assms(1) lookup_by_SomeD by (fastforce simp: lookup_logical_operation_def)
  have "adopt_guard (op_operation_id x) now x" using assms(2,4) by (simp add: adopt_guard_def)
  with x have "0 < count_where (adopt_guard (op_operation_id x) now) (db_operations db)"
    by (auto simp: count_where_pos)
  moreover have "count_where (adopt_guard (op_operation_id x) now) (db_operations db) \<le> 1"
    by (rule count_where_unique_le1 [OF assms(3)]) (simp add: adopt_guard_def)
  ultimately have c: "count_where (adopt_guard (op_operation_id x) now) (db_operations db) = 1" by simp
  have "same_capsule (p\<lparr>pr_step_id := s\<rparr>) x" using assms(5) by (simp add: same_capsule_def)
  then show ?thesis
    using assms(1,2,6,7) c
    by (simp add: reserve_def resolve_existing_operation_def resolve_existing_status_def resolve_pending_def
        try_adopt_pending_def resolve_adopt_outcome_def)
qed

text \<open>
  A pending operation protects its lease. While the lease of a pending operation is live, no
  reservation of the same logical request proceeds and none writes. Once it has expired and the authority
  is unchanged, a reservation continues exactly that operation: the recorded operation, attempt and epoch are
  handed to the executor, only owner and lease change, and this whatever step the new request names, since
  neither the logical key nor the comparison of bindings covers the step.
\<close>

theorem pending_operation_protects_its_lease:
  assumes "lookup_logical_operation (pr_logical_request_key p) (db_operations db) = Some x" and "op_status x = OpPending"
    and "unique_key op_operation_id (db_operations db)"
  shows "(\<not> lease_expired now x \<longrightarrow>
      fst (reserve env now v p db) = db \<and> (\<forall>r. snd (reserve env now v p db) \<noteq> Ok (Proceed r))) \<and>
    (lease_expired now x \<and> same_capsule p x \<and> op_execution_attempt_id x = Some i \<and> revalidate env v p db = Ok None \<longrightarrow>
      (\<forall>step. snd (reserve env now v (p\<lparr>pr_step_id := step\<rparr>) db) =
          Ok (Proceed \<lparr>rr_operation_id = op_operation_id x, rr_attempt_id = i, rr_epoch = op_epoch x\<rparr>) \<and>
        (\<exists>ops. fst (reserve env now v (p\<lparr>pr_step_id := step\<rparr>) db) = db\<lparr>db_operations := ops\<rparr> \<and>
           lookup_by op_operation_id (op_operation_id x) ops =
             Some (x\<lparr>op_owner_pid := Some (rv_process_id env), op_lease_expires_at := Some (recovery_lease_end now)\<rparr>))))"
proof (intro conjI impI allI)
  let ?set = "\<lambda>y. y\<lparr>op_owner_pid := Some (rv_process_id env), op_lease_expires_at := Some (recovery_lease_end now)\<rparr>"
  assume e: "lease_expired now x \<and> same_capsule p x \<and> op_execution_attempt_id x = Some i \<and> revalidate env v p db = Ok None"
  fix step
  have x: "x \<in> set (db_operations db)"
    using assms(1) lookup_by_SomeD by (fastforce simp: lookup_logical_operation_def)
  have r: "reserve env now v (p\<lparr>pr_step_id := step\<rparr>) db =
      (db\<lparr>db_operations := update_where (adopt_guard (op_operation_id x) now) ?set (db_operations db)\<rparr>,
       Ok (Proceed \<lparr>rr_operation_id = op_operation_id x, rr_attempt_id = i, rr_epoch = op_epoch x\<rparr>))"
    using pending_adopted [OF assms] e by blast
  have "lookup_by op_operation_id (op_operation_id x) (db_operations db) = Some x"
    by (rule lookup_by_unique [OF assms(3) x])
  then have "lookup_by op_operation_id (op_operation_id x)
      (update_where (adopt_guard (op_operation_id x) now) ?set (db_operations db)) = Some (?set x)"
    using e assms(2) by (simp add: lookup_by_update_where adopt_guard_def)
  then show "snd (reserve env now v (p\<lparr>pr_step_id := step\<rparr>) db) =
      Ok (Proceed \<lparr>rr_operation_id = op_operation_id x, rr_attempt_id = i, rr_epoch = op_epoch x\<rparr>)"
    and "\<exists>ops. fst (reserve env now v (p\<lparr>pr_step_id := step\<rparr>) db) = db\<lparr>db_operations := ops\<rparr> \<and>
      lookup_by op_operation_id (op_operation_id x) ops = Some (?set x)"
    using r by auto
qed (use pending_live [OF assms] in auto)

definition demo_pending_row :: RecoveryOperation where
  "demo_pending_row =
     \<lparr>op_operation_id = ''op'', op_run_id = ''r'', op_epoch = 0, op_step_id = ''b'', op_capsule_envelope_digest = [],
      op_source_attempt_id = None, op_logical_request_key = [], op_intent_digest = [], op_status = OpPending,
      op_owner_pid = Some 7, op_lease_expires_at = Some 5, op_execution_attempt_id = Some 3,
      op_serialized_outcome = None, op_created_at = 1, op_finalized_at = None\<rparr>"

lemma sha256_hex_empty [simp]: "sha256_hex (\<lambda>_. []) x = []"
  by (simp add: sha256_hex_def)

theorem pending_operation_protects_its_lease_witness:
  "snd (reserve (demo_recovery_env (\<lambda>_. [])) 10 OvNoEvidence (demo_prepared (\<lambda>_. []) ''a'' PureReenter)
      ((demo_recovery_db (\<lambda>_. []))\<lparr>db_operations := [demo_pending_row]\<rparr>)) =
     Ok (Proceed \<lparr>rr_operation_id = ''op'', rr_attempt_id = 3, rr_epoch = 0\<rparr>) \<and>
   fst (reserve (demo_recovery_env (\<lambda>_. [])) 4 OvNoEvidence (demo_prepared (\<lambda>_. []) ''a'' PureReenter)
      ((demo_recovery_db (\<lambda>_. []))\<lparr>db_operations := [demo_pending_row]\<rparr>)) = (demo_recovery_db (\<lambda>_. []))\<lparr>db_operations := [demo_pending_row]\<rparr>"
proof -
  let ?p = "demo_prepared (\<lambda>_. []) ''a'' PureReenter" and ?db = "(demo_recovery_db (\<lambda>_. []))\<lparr>db_operations := [demo_pending_row]\<rparr>"
  have h: "lookup_logical_operation (pr_logical_request_key ?p) (db_operations ?db) = Some demo_pending_row"
    "op_status demo_pending_row = OpPending" "unique_key op_operation_id (db_operations ?db)"
    "same_capsule ?p demo_pending_row" "op_execution_attempt_id demo_pending_row = Some 3"
    "op_operation_id demo_pending_row = ''op''" "op_epoch demo_pending_row = 0"
    "lease_expired 10 demo_pending_row" "\<not> lease_expired 4 demo_pending_row"
    by (simp_all add: lookup_logical_operation_def demo_prepared_def demo_pending_row_def same_capsule_def
        demo_recovery_capsule_def build_capsule_v1_def compute_envelope_digest_def lease_expired_def
        compute_logical_request_key_def)
  have "revalidate (demo_recovery_env (\<lambda>_. [])) OvNoEvidence (?p\<lparr>pr_step_id := ''a''\<rparr>) ?db = Ok None"
    by (simp only: revalidate_step demo_revalidate)
  moreover have s: "?p\<lparr>pr_step_id := ''a''\<rparr> = ?p" by (simp add: demo_prepared_def)
  ultimately have "revalidate (demo_recovery_env (\<lambda>_. [])) OvNoEvidence ?p ?db = Ok None" by simp
  with pending_operation_protects_its_lease [OF h(1-3), of 10 "demo_recovery_env (\<lambda>_. [])" OvNoEvidence 3]
    pending_operation_protects_its_lease [OF h(1-3), of 4 "demo_recovery_env (\<lambda>_. [])" OvNoEvidence 3] h(4-) s
  show ?thesis by metis
qed

section \<open>A completed recovery is not replayed\<close>

lemma logical_frame_parts:
  "logical_key_frame run source intent =
     push_len_prefixed [] (as_bytes run) @ push_len_prefixed [] (source_bytes source) @ push_len_prefixed [] (as_bytes intent)"
  by (simp add: logical_key_frame_def Let_def push_len_prefixed_append [of "push_len_prefixed _ _"])

lemma logical_key_binds_source:
  assumes "compute_logical_request_key h run source intent = compute_logical_request_key h run source' intent"
    and "length run < 2 ^ 64" and "length intent < 2 ^ 64" and "in_i64 source" and "in_i64 source'"
  shows "collision h \<or> source = source' \<or> {source, source'} = {None, Some 0}"
proof -
  have "collision h \<or> logical_key_frame run source intent = logical_key_frame run source' intent"
    using assms(1) digest_determines by (auto simp: compute_logical_request_key_def)
  moreover have "source_bytes source = source_bytes source'"
    if "logical_key_frame run source intent = logical_key_frame run source' intent"
    using that assms(2,3) by (simp add: logical_frame_parts field64.split_unique field64.enc_inj)
  ultimately show ?thesis using source_bytes_inj [OF assms(4,5)] by blast
qed

lemma prepared_key:
  assumes "prepare env v rq db = Ok p"
  shows "pr_logical_request_key p = compute_logical_request_key (rv_sha256 env) (rq_run_id rq) (source_attempt_id_of p)
      (normalize_operator_verb (rq_operator_verb rq))"
    and "ra_source_attempt (pr_authority p) = latest_for_step (rq_run_id rq) (rq_step_id rq) (db_attempts db)"
    and "run_id_of p = rq_run_id rq" and "step_id_of p = rq_step_id rq"
proof -
  obtain c where c: "load_capsule_v1 (rv_sha256 env) (rq_run_id rq) (db_capsules db) = Ok c"
    using assms by (auto simp: prepare_def split: result.splits)
  then have "ec_run_id c = rq_run_id rq"
    by (auto simp: load_capsule_v1_def validate_loaded_capsule_def Let_def split: option.splits result.splits if_splits)
  then show "pr_logical_request_key p = compute_logical_request_key (rv_sha256 env) (rq_run_id rq) (source_attempt_id_of p)
      (normalize_operator_verb (rq_operator_verb rq))"
    and "ra_source_attempt (pr_authority p) = latest_for_step (rq_run_id rq) (rq_step_id rq) (db_attempts db)"
    and "run_id_of p = rq_run_id rq" and "step_id_of p = rq_step_id rq"
    using assms c
    by (auto simp: prepare_def Let_def compute_bindings_def source_attempt_id_of_def run_id_of_def step_id_of_def
        split: result.splits option.splits prod.splits)
qed

lemma insert_pending_operation_ok:
  "insert_pending_operation env now p e i ops = Ok ops' \<Longrightarrow>
   (\<forall>x \<in> set ops. op_operation_id x \<noteq> pr_operation_id p) \<and>
   (\<exists>y. ops' = ops @ [y] \<and> op_logical_request_key y = pr_logical_request_key p)"
  by (auto simp: insert_pending_operation_def insert_pending_def split: result.splits if_splits)

text \<open>After reservation and finalization the attempt is the newest finalized one of its step.\<close>

lemma finalized_attempt_is_latest:
  assumes "claims_epoch p db (snd (reserve env now v p db))" and "reserve env now v p db = (db1, Ok (Proceed r))"
    and "finalize env now' p r res db1 = (db2, Ok out)" and "\<forall>a \<in> set (db_attempts db). 0 < ar_attempt_id a"
  shows "map_option ar_attempt_id (latest_for_step (run_id_of p) (step_id_of p) (db_attempts db2)) = Some (rr_attempt_id r)"
    and "rr_attempt_id r = next_attempt_id (db_attempts db)"
    and "\<forall>x \<in> set (db_operations db2). op_operation_id x = rr_operation_id r \<longrightarrow>
           op_logical_request_key x = pr_logical_request_key p"
proof -
  obtain e where r: "rr_operation_id r = pr_operation_id p" "rr_attempt_id r = snd (allocate_attempt env now p e (db_attempts db))"
    and at: "db_attempts db1 = fst (allocate_attempt env now p e (db_attempts db))"
    and op: "insert_pending_operation env now p e (snd (allocate_attempt env now p e (db_attempts db))) (db_operations db) =
        Ok (db_operations db1)"
    using assms(1,2)
    by (cases rule: reserve_cases [of env now v p db]; cases rule: claim_fresh_cases [of env now p db])
       (auto simp: claims_epoch_def)
  let ?i = "next_attempt_id (db_attempts db)"
  show i: "rr_attempt_id r = ?i" using r(2) by (simp add: allocate_attempt_def record_attempt_start_def Let_def)
  obtain a where a: "db_attempts db1 = db_attempts db @ [a]" "ar_attempt_id a = ?i" "ar_run_id a = run_id_of p"
    "ar_step_id a = step_id_of p" "ar_finalized_at a = None"
    by (simp add: at allocate_attempt_def record_attempt_start_def Let_def)
  obtain f where f: "db_attempts db2 = update_where (unfinalized_guard ?i) f (db_attempts db1)"
    and fx: "\<And>x. ar_attempt_id (f x) = ar_attempt_id x \<and> ar_run_id (f x) = ar_run_id x \<and> ar_step_id (f x) = ar_step_id x \<and>
      ar_finalized_at (f x) = Some now'"
  proof
    let ?f = "\<lambda>x. x\<lparr>ar_step_status := ex_step_status res, ar_state_snapshot := ex_state_snapshot res,
      ar_state_snapshot_json := rv_snapshot_bytes env (ex_state_snapshot res),
      ar_snapshot_digest := sha256_hex (rv_sha256 env) (rv_snapshot_bytes env (ex_state_snapshot res)),
      ar_runner_result_json := ex_runner_result res, ar_checkpoint_digest := None, ar_finalized_at := Some now'\<rparr>"
    show "db_attempts db2 = update_where (unfinalized_guard ?i) ?f (db_attempts db1)"
      using assms(3) i by (auto simp: finalize_def append_attempt_outcome_def Let_def split: result.splits if_splits prod.splits)
  qed simp
  have lt: "\<forall>x \<in> set (db_attempts db). ar_attempt_id x < ?i" by (rule next_attempt_id_fresh)
  then have "update_where (unfinalized_guard ?i) f (db_attempts db) = db_attempts db"
    unfolding update_where_def by (intro map_idI) (auto simp: unfinalized_guard_def)
  then have rows: "db_attempts db2 = db_attempts db @ [f a]"
    using f a(1,2,5) by (simp add: unfinalized_guard_def update_where_def)
  have pos: "0 < ?i" using lt assms(4) by (cases "db_attempts db") (auto simp: next_attempt_id_def)
  have "latest_for_step (run_id_of p) (step_id_of p) (db_attempts db2) = Some (f a)"
    unfolding latest_for_step_def
  proof (rule newest_by_strict)
    show "f a \<in> set (filter (\<lambda>r. ar_run_id r = run_id_of p \<and> ar_step_id r = step_id_of p \<and> ar_finalized_at r \<noteq> None) (db_attempts db2))"
      using fx a(3,4) by (simp add: rows)
    show "nat (ar_attempt_id x) < nat (ar_attempt_id (f a))"
      if "x \<in> set (filter (\<lambda>r. ar_run_id r = run_id_of p \<and> ar_step_id r = step_id_of p \<and> ar_finalized_at r \<noteq> None) (db_attempts db2))"
        "x \<noteq> f a" for x
    proof -
      from that(1) have "x \<in> set (db_attempts db2)" by simp
      with that(2) have "x \<in> set (db_attempts db)" by (simp add: rows)
      then show ?thesis using lt fx a(2) pos by simp
    qed
  qed
  then show "map_option ar_attempt_id (latest_for_step (run_id_of p) (step_id_of p) (db_attempts db2)) = Some (rr_attempt_id r)"
    using fx a(2) i by simp
  have k1: "\<forall>x \<in> set (db_operations db1). op_operation_id x = rr_operation_id r \<longrightarrow>
      op_logical_request_key x = pr_logical_request_key p"
    using insert_pending_operation_ok [OF op] r(1) by auto
  obtain g where "db_operations db2 = update_where (pending_guard (rr_operation_id r)) g (db_operations db1)"
    "\<And>x. op_operation_id (g x) = op_operation_id x \<and> op_logical_request_key (g x) = op_logical_request_key x"
  proof
    let ?out = "rv_print_json env (JObj [(''attempt_id'', JInt (rr_attempt_id r)), (''status'', JStr ''completed''),
      (''step_status'', JStr (ex_step_status res))])"
    let ?g = "\<lambda>x. x\<lparr>op_status := OpCompleted, op_serialized_outcome := Some ?out, op_finalized_at := Some now'\<rparr>"
    show "db_operations db2 = update_where (pending_guard (rr_operation_id r)) ?g (db_operations db1)"
      using assms(3) by (auto simp: finalize_def finalize_completed_def map_ok_Ok Let_def split: result.splits if_splits prod.splits)
  qed simp
  with k1 show "\<forall>x \<in> set (db_operations db2). op_operation_id x = rr_operation_id r \<longrightarrow>
           op_logical_request_key x = pr_logical_request_key p"
    by (auto simp: set_update_where)
qed

lemma already_applied_from:
  assumes "snd (reserve env now v p db) = Ok (ShortCircuit (AlreadyApplied t j oid))"
  shows "\<exists>x \<in> set (db_operations db). op_operation_id x = oid \<and> op_logical_request_key x = pr_logical_request_key p"
proof -
  have c: "snd (claim_fresh env now p db) \<noteq> Ok (ShortCircuit (AlreadyApplied t j oid))"
    by (auto simp: claim_fresh_def perform_epoch_cas_def case_prod_beta split: result.splits CasOutcome.splits)
  have a: "revalidate env v p d \<noteq> Ok (Some (AlreadyApplied t j oid))" for d
    by (auto simp: revalidate_def revalidate_epoch_def check_strategy_refusal_def
        split: result.splits option.splits if_splits RecoveryStrategy.splits)
  have "\<exists>ops. resolve_existing_operation env now p (db_operations db) = Ok (ops, ExShortCircuit (AlreadyApplied t j oid))"
    using assms a c by (auto simp: reserve_def split: result.splits option.splits prod.splits ExistingResolution.splits)
  then obtain x where "lookup_logical_operation (pr_logical_request_key p) (db_operations db) = Some x" "op_operation_id x = oid"
    by (auto simp: resolve_existing_operation_def resolve_existing_status_def resolve_pending_def map_ok_Ok
        resolve_completed_def resolve_refused_or_conflict_def resolve_adopt_outcome_def case_prod_beta
        split: OperationStatus.splits option.splits if_splits AdoptOutcome.splits)
  then show ?thesis using lookup_by_SomeD by (fastforce simp: lookup_logical_operation_def)
qed

text \<open>
  A completed recovery is not replayed. After a fresh recovery of a step has been reserved and
  finalized, the same request made again (same run, step and verb, any expected epoch) is bound to the
  attempt just finalized as its source, so it has another logical key and is never answered with the
  completed operation, unless the hash has a collision.
\<close>

theorem completed_recovery_is_not_replayed:
  assumes "prepare env v0 rq db = Ok p" and "reserve env now v p db = (db1, Ok (Proceed r))"
    and "lookup_logical_operation (pr_logical_request_key p) (db_operations db) = None"
    and "finalize env now' p r res db1 = (db2, Ok out)"
    and "prepare env v1 (rq\<lparr>rq_expected_epoch := e\<rparr>) db2 = Ok p2"
    and "\<forall>a \<in> set (db_attempts db). 0 < ar_attempt_id a" and "next_attempt_id (db_attempts db) \<le> i64_max"
    and "length (rq_run_id rq) < 2 ^ 64" and "\<not> collision (rv_sha256 env)"
  shows "source_attempt_id_of p2 = Some (rr_attempt_id r) \<and>
    pr_logical_request_key p2 \<noteq> pr_logical_request_key p \<and>
    (\<forall>now2 v2 t j. snd (reserve env now2 v2 p2 db2) \<noteq> Ok (ShortCircuit (AlreadyApplied t j (rr_operation_id r))))"
proof -
  let ?i = "next_attempt_id (db_attempts db)"
  have cl: "claims_epoch p db (snd (reserve env now v p db))" using assms(2,3) by (simp add: claims_epoch_def)
  note f = finalized_attempt_is_latest [OF cl assms(2,4,6)]
  have s2: "source_attempt_id_of p2 = Some ?i"
    using f(1,2) prepared_key [OF assms(5)] prepared_key(3,4) [OF assms(1)] by (simp add: source_attempt_id_of_def)
  have old: "s < ?i \<and> 0 < s" if src: "source_attempt_id_of p = Some s" for s
  proof -
    obtain a where a: "latest_for_step (rq_run_id rq) (rq_step_id rq) (db_attempts db) = Some a" "ar_attempt_id a = s"
      using src prepared_key(2) [OF assms(1)] by (auto simp: source_attempt_id_of_def)
    then have "a \<in> set (db_attempts db)" by (auto simp: latest_for_step_def dest!: newest_by_SomeD)
    then show ?thesis using a(2) next_attempt_id_fresh assms(6) by auto
  qed
  have fresh: "source_attempt_id_of p \<noteq> Some ?i" using old by auto
  have pos: "0 < ?i" using next_attempt_id_fresh [of "db_attempts db"] assms(6)
    by (cases "db_attempts db") (auto simp: next_attempt_id_def)
  have range: "in_i64 (source_attempt_id_of p)" "in_i64 (Some ?i)"
    using old assms(7) pos by (fastforce simp: in_i64_def i64_max_def split: option.splits)+
  have len: "length (normalize_operator_verb (rq_operator_verb rq)) < 2 ^ 64" by (cases "rq_operator_verb rq") simp_all
  have key: "pr_logical_request_key p2 \<noteq> pr_logical_request_key p"
  proof
    assume "pr_logical_request_key p2 = pr_logical_request_key p"
    then have "compute_logical_request_key (rv_sha256 env) (rq_run_id rq) (Some ?i) (normalize_operator_verb (rq_operator_verb rq)) =
       compute_logical_request_key (rv_sha256 env) (rq_run_id rq) (source_attempt_id_of p) (normalize_operator_verb (rq_operator_verb rq))"
      using prepared_key(1) [OF assms(1)] prepared_key(1) [OF assms(5)] s2 by simp
    from logical_key_binds_source [OF this assms(8) len range(2,1)] assms(9) fresh pos
    show False by (auto simp: doubleton_eq_iff)
  qed
  moreover have "snd (reserve env now2 v2 p2 db2) \<noteq> Ok (ShortCircuit (AlreadyApplied t j (rr_operation_id r)))" for now2 v2 t j
    using already_applied_from [of env now2 v2 p2 db2 t j "rr_operation_id r"] f(3) key by auto
  ultimately show ?thesis using s2 f(2) by simp
qed

lemma prepare_again:
  assumes "prepare env v rq db = Ok p" and "db_capsules db' = db_capsules db" and "db_runs db' = db_runs db"
  shows "\<exists>p'. prepare env v (rq\<lparr>rq_expected_epoch := e\<rparr>) db' = Ok p'"
  using assms by (auto simp: prepare_def Let_def split: result.splits option.splits prod.splits)

theorem completed_recovery_is_not_replayed_witness:
  "\<exists>db1 db2 p2. reserve (demo_recovery_env (\<lambda>x. x)) 10 OvNoEvidence (demo_prepared (\<lambda>x. x) ''a'' PureReenter)
       (demo_recovery_db (\<lambda>x. x)) = (db1, Ok (Proceed (demo_reserved (\<lambda>x. x)))) \<and>
     fst (finalize (demo_recovery_env (\<lambda>x. x)) 20 (demo_prepared (\<lambda>x. x) ''a'' PureReenter) (demo_reserved (\<lambda>x. x))
       \<lparr>ex_step_status = ''completed'', ex_state_snapshot = default_snapshot, ex_runner_result = None\<rparr> db1) = db2 \<and>
     prepare (demo_recovery_env (\<lambda>x. x)) OvNoEvidence (demo_request ''a''\<lparr>rq_expected_epoch := 1\<rparr>) db2 = Ok p2 \<and>
     source_attempt_id_of p2 = Some 1"
proof -
  let ?h = "\<lambda>x. x :: byte list"
  let ?env = "demo_recovery_env ?h" and ?p = "demo_prepared ?h ''a'' PureReenter" and ?db = "demo_recovery_db ?h"
  let ?res = "\<lparr>ex_step_status = ''completed'', ex_state_snapshot = default_snapshot, ex_runner_result = None\<rparr>"
  obtain dbr a x where r: "reserve ?env 10 OvNoEvidence ?p ?db = (dbr, Ok (Proceed (demo_reserved ?h)))"
    and a: "db_attempts dbr = [a]" "ar_attempt_id a = 1" "ar_finalized_at a = None"
    and x: "db_operations dbr = [x]" "op_operation_id x = rr_operation_id (demo_reserved ?h)" "op_status x = OpPending"
    and fr: "db_capsules dbr = db_capsules ?db" "db_runs dbr = db_runs ?db"
    using demo_reserve [of ?h] by blast
  obtain db2 where f: "finalize ?env 20 ?p (demo_reserved ?h) ?res dbr =
      (db2, Ok (Recovered ''a'' 1 (rr_operation_id (demo_reserved ?h))))"
    and fr2: "db_capsules db2 = db_capsules dbr" "db_runs db2 = db_runs dbr"
    using demo_finalize [OF a x] by blast
  obtain p2 where p2: "prepare ?env OvNoEvidence (demo_request ''a''\<lparr>rq_expected_epoch := 1\<rparr>) db2 = Ok p2"
    using prepare_again [OF demo_prepare(1)] fr fr2 by metis
  have h: "lookup_logical_operation (pr_logical_request_key ?p) (db_operations ?db) = None"
    "\<forall>a \<in> set (db_attempts ?db). 0 < ar_attempt_id a" "next_attempt_id (db_attempts ?db) \<le> i64_max"
    "length (rq_run_id (demo_request ''a'')) < 2 ^ 64" "\<not> collision (rv_sha256 ?env)"
    by (simp_all add: demo_recovery_db_def lookup_logical_operation_def next_attempt_id_def i64_max_def demo_request_def
        demo_recovery_env_def collision_def)
  have "source_attempt_id_of p2 = Some (rr_attempt_id (demo_reserved ?h))"
    using completed_recovery_is_not_replayed [OF demo_prepare(1) r h(1) f p2 h(2-5)] by blast
  then show ?thesis using r f p2 by (intro exI [of _ dbr] exI [of _ db2] exI [of _ p2]) (simp add: demo_reserved_def)
qed

end
