(* ===== verification/Merge_Properties.thy ===== *)
theory Merge_Properties
  imports Typed_Merge Recovery_Properties
begin

text \<open>
  What the typed merge guarantees: a run is merged only with computed evidence, an artifact and the status
  written together; a retry is harmless; an artifact never changes; the completion path never fabricates a
  merge, and with the production probes the proof is one of the declared strategy.
\<close>

section \<open>Evidence\<close>

text \<open>The checks a proof stands for, over the verifier's own head and base.\<close>

fun proof_holds :: "MergeGitProbe \<Rightarrow> string \<Rightarrow> string \<Rightarrow> MergeReachabilityProof \<Rightarrow> bool" where
  "proof_holds git head base (MergeCommitProof h b m) \<longleftrightarrow>
     h = head \<and> b = base \<and> gp_is_ancestor git head m = Ok () \<and> gp_is_ancestor git base m = Ok ()"
| "proof_holds git head base (SquashProof b s expected observed) \<longleftrightarrow>
     b = base \<and> gp_is_ancestor git base s = Ok () \<and> gp_compute_tree_content_digest git head = Ok expected \<and>
     gp_compute_tree_content_digest git s = Ok observed \<and> expected = observed"
| "proof_holds git head base (RebaseProof b f expected observed) \<longleftrightarrow>
     b = base \<and> gp_is_ancestor git base f = Ok () \<and> gp_compute_patch_id git base head = Ok expected \<and>
     gp_compute_patch_id git base f = Ok observed \<and> expected = observed"

fun strategy_of_proof :: "MergeReachabilityProof \<Rightarrow> MergeStrategy" where
  "strategy_of_proof (MergeCommitProof h b m) = MsMergeCommit"
| "strategy_of_proof (SquashProof b s e x) = MsSquash"
| "strategy_of_proof (RebaseProof b f e x) = MsRebase"

lemma and_then_Ok: "and_then r f = Ok y \<longleftrightarrow> (\<exists>x. r = Ok x \<and> f x = Ok y)"
  by (cases r) auto

lemma build_reachability_proof_sound:
  assumes "build_reachability_proof v = Ok pf"
  shows "proof_holds (mv_git_probe v) (mv_head_sha v) (mv_base_sha v) pf"
    and "\<exists>obs. mv_remote_probe v (mv_repo v) (mv_pr_number v) = Ok obs \<and> mo_merged obs \<and>
      mo_result_sha obs = proof_result_sha pf \<and> mo_strategy obs = strategy_of_proof pf"
  using assms
  by (auto simp: build_reachability_proof_def Let_def and_then_Ok compute_pr_diff_content_digest_def
      split: if_splits MergeStrategy.splits)

section \<open>The transaction\<close>

lemma verify_capsule_binding_ok:
  "verify_capsule_binding h st ctx a caps = Ok () \<Longrightarrow>
   \<exists>c. load_capsule_v1 h (ma_run_id a) caps = Ok c \<and> ec_envelope_digest c = ma_capsule_envelope_digest a"
  by (auto simp: verify_capsule_binding_def split: result.splits if_splits)

lemma require_identity_ok: "require_identity f x y = Ok u \<longleftrightarrow> x = y"
  by (auto simp: require_identity_def)

lemma revalidate_merge_bindings_ok:
  assumes "revalidate_merge_bindings h st a db = Ok u"
  shows "\<exists>md. get_run_with_conn (ma_run_id a) (db_runs db) = Some md \<and> or_empty (rm_repository md) = ma_repo a \<and>
     pr_or_zero (rm_pr_number md) = ma_pr_number a \<and> or_empty (rm_head_sha md) = ma_head_sha a"
  using assms int_to_string_inj
  by (auto simp: revalidate_merge_bindings_def and_then_Ok require_identity_ok split: option.splits)

lemma get_run_merged:
  "get_run_with_conn k (update_where (merge_guard a) (\<lambda>md. md\<lparr>rm_status := RMerged, rm_updated_at := t\<rparr>) runs) =
     map_option (\<lambda>md. if merge_guard a md then md\<lparr>rm_status := RMerged, rm_updated_at := t\<rparr> else md) (get_run_with_conn k runs)"
  by (simp add: get_run_with_conn_def lookup_by_update_where)

lemma transition_to_merged_ok:
  assumes "unique_key rm_run_id runs" and "get_run_with_conn (ma_run_id a) runs = Some md"
    and "transition_to_merged now a n runs = Ok runs'"
  shows "\<exists>md'. get_run_with_conn (ma_run_id a) runs' = Some md' \<and> rm_status md' = RMerged"
    and "rm_status md = RReviewReady \<or> rm_status md = RMerged \<and> n = 0"
    and "other \<noteq> ma_run_id a \<Longrightarrow> get_run_with_conn other runs' = get_run_with_conn other runs"
proof -
  have c: "count_where (merge_guard a) runs = (if merge_guard a md then 1 else 0)"
    using count_where_unique [OF assms(1), of "merge_guard a" "ma_run_id a"] assms(2)
    by (simp add: merge_guard_def get_run_with_conn_def)
  have r: "runs' = update_where (merge_guard a) (\<lambda>md. md\<lparr>rm_status := RMerged, rm_updated_at := Some now\<rparr>) runs"
    using assms(3) by (auto simp: transition_to_merged_def Let_def split: if_splits)
  have s: "merge_guard a md \<or> rm_status md = RMerged \<and> n = 0"
    using assms(3) c
    by (cases "merge_guard a md") (simp_all add: transition_to_merged_def Let_def get_run_merged assms(2) split: if_splits)
  then show "rm_status md = RReviewReady \<or> rm_status md = RMerged \<and> n = 0"
    by (auto simp: merge_guard_def ALLOWED_MERGE_PREDECESSOR_def)
  show "\<exists>md'. get_run_with_conn (ma_run_id a) runs' = Some md' \<and> rm_status md' = RMerged"
    using s assms(2) by (auto simp: r get_run_merged)
  show "get_run_with_conn other runs' = get_run_with_conn other runs" if "other \<noteq> ma_run_id a"
  proof (cases "get_run_with_conn other runs")
    case (Some m)
    then have "\<not> merge_guard a m" using that lookup_by_SomeD by (fastforce simp: get_run_with_conn_def merge_guard_def)
    then show ?thesis using Some by (simp add: r get_run_merged)
  qed (simp add: r get_run_merged)
qed

lemma insert_merge_artifact_ok:
  assumes "insert_merge_artifact a rows = Ok (rows', n)"
  shows "\<exists>x. load_merge_artifact_conn (ma_run_id a) rows' = Some x \<and> artifact_exact_equal x a"
    and "n = 0 \<longleftrightarrow> (\<exists>x. load_merge_artifact_conn (ma_run_id a) rows = Some x)"
    and "n = 0 \<Longrightarrow> rows' = rows"
    and "load_merge_artifact_conn k rows = Some y \<Longrightarrow> load_merge_artifact_conn k rows' = Some y"
    and "k \<noteq> ma_run_id a \<Longrightarrow> load_merge_artifact_conn k rows' = load_merge_artifact_conn k rows"
  using assms
  by (auto simp: insert_merge_artifact_def load_merge_artifact_conn_def lookup_by_append artifact_exact_equal_def
      split: option.splits if_splits)

lemma count_merge_artifacts_pos:
  "load_merge_artifact_conn run rows = Some x \<Longrightarrow> 0 < count_merge_artifacts run rows"
  using lookup_by_SomeD by (fastforce simp: load_merge_artifact_conn_def count_merge_artifacts_def count_where_pos)

lemma complete_typed_merge_cases:
  obtains (failed) e where "complete_typed_merge h st now a v db = (db, Err e)"
  | (merged) rows n runs where "build_reachability_proof v = Ok (ma_reachability_proof a)"
      "proof_result_sha (ma_reachability_proof a) = ma_result_sha a" "mv_repo v = ma_repo a" "mv_pr_number v = ma_pr_number a"
      "mv_head_sha v = ma_head_sha a" "mv_base_sha v = ma_base_sha a"
      "verify_capsule_binding h st ''capsule load failed: '' a (db_capsules db) = Ok ()"
      "revalidate_merge_bindings h st a db = Ok ()"
      "insert_merge_artifact a (db_merge_artifacts db) = Ok (rows, n)"
      "transition_to_merged now a n (db_runs db) = Ok runs"
      "complete_typed_merge h st now a v db = (db\<lparr>db_merge_artifacts := rows, db_runs := runs\<rparr>, Ok ())"
proof -
  consider (ok) db' where "complete_typed_merge h st now a v db = (db', Ok ())"
    | (err) db' e where "complete_typed_merge h st now a v db = (db', Err e)"
    by (metis prod.exhaust result.exhaust unit.exhaust)
  then show ?thesis
  proof cases
    case ok
    note d = complete_typed_merge_def
    obtain pf where pf: "build_reachability_proof v = Ok pf"
      using ok by (cases "build_reachability_proof v") (simp_all add: d)
    then have p: "build_reachability_proof v = Ok (ma_reachability_proof a)"
      and i: "proof_result_sha (ma_reachability_proof a) = ma_result_sha a" "mv_repo v = ma_repo a"
        "mv_pr_number v = ma_pr_number a" "mv_head_sha v = ma_head_sha a" "mv_base_sha v = ma_base_sha a"
      using ok by (simp_all add: d split: if_splits)
    have b: "verify_capsule_binding h st ''capsule load failed: '' a (db_capsules db) = Ok ()"
      using ok p i by (cases "verify_capsule_binding h st ''capsule load failed: '' a (db_capsules db)") (simp_all add: d)
    have r: "revalidate_merge_bindings h st a db = Ok ()"
      using ok p i b by (cases "revalidate_merge_bindings h st a db") (simp_all add: d)
    obtain rows n where n: "insert_merge_artifact a (db_merge_artifacts db) = Ok (rows, n)"
      using ok p i b r by (cases "insert_merge_artifact a (db_merge_artifacts db)") (auto simp: d)
    obtain runs where t: "transition_to_merged now a n (db_runs db) = Ok runs"
      using ok p i b r n by (cases "transition_to_merged now a n (db_runs db)") (simp_all add: d)
    show ?thesis by (rule merged [OF _ _ _ _ _ _ b r n t]) (use p i b r n t in \<open>simp_all add: d\<close>)
  next
    case err
    then have "db' = db" by (auto simp: complete_typed_merge_def split: result.splits if_splits prod.splits)
    with err failed show ?thesis by simp
  qed
qed

lemma typed_merge_is_proven_and_atomic_lemma:
  assumes "unique_key rm_run_id (db_runs db)" and "complete_typed_merge h st now a v db = (db', res)"
  shows "case res of
      Err _ \<Rightarrow> db' = db
    | Ok _ \<Rightarrow>
        completion_satisfied (ma_run_id a) db' \<and>
        (\<exists>x. load_merge_artifact_conn (ma_run_id a) (db_merge_artifacts db') = Some x \<and> artifact_exact_equal x a) \<and>
        proof_holds (mv_git_probe v) (ma_head_sha a) (ma_base_sha a) (ma_reachability_proof a) \<and>
        (\<exists>obs. mv_remote_probe v (ma_repo a) (ma_pr_number a) = Ok obs \<and> mo_merged obs \<and> mo_result_sha obs = ma_result_sha a) \<and>
        (\<exists>md c. get_run_with_conn (ma_run_id a) (db_runs db) = Some md \<and> or_empty (rm_repository md) = ma_repo a \<and>
           pr_or_zero (rm_pr_number md) = ma_pr_number a \<and> or_empty (rm_head_sha md) = ma_head_sha a \<and>
           (rm_status md = RReviewReady \<or>
            rm_status md = RMerged \<and> load_merge_artifact_conn (ma_run_id a) (db_merge_artifacts db) \<noteq> None) \<and>
           load_capsule_v1 h (ma_run_id a) (db_capsules db) = Ok c \<and> ec_envelope_digest c = ma_capsule_envelope_digest a) \<and>
        (\<forall>other. other \<noteq> ma_run_id a \<longrightarrow>
           get_run_with_conn other (db_runs db') = get_run_with_conn other (db_runs db) \<and>
           load_merge_artifact_conn other (db_merge_artifacts db') = load_merge_artifact_conn other (db_merge_artifacts db))"
proof (cases rule: complete_typed_merge_cases [of h st now a v db])
  case (merged rows n runs)
  have e: "res = Ok ()" "db' = db\<lparr>db_merge_artifacts := rows, db_runs := runs\<rparr>" using assms(2) merged(11) by auto
  obtain md where md: "get_run_with_conn (ma_run_id a) (db_runs db) = Some md" "or_empty (rm_repository md) = ma_repo a"
    "pr_or_zero (rm_pr_number md) = ma_pr_number a" "or_empty (rm_head_sha md) = ma_head_sha a"
    using revalidate_merge_bindings_ok [OF merged(8)] by blast
  note t = transition_to_merged_ok [OF assms(1) md(1) merged(10)]
  note i = insert_merge_artifact_ok [OF merged(9)]
  have c: "completion_satisfied (ma_run_id a) db'"
    using t(1) i(1) by (auto simp: e(2) completion_satisfied_def count_merge_artifacts_pos)
  have s: "rm_status md = RReviewReady \<or>
      rm_status md = RMerged \<and> load_merge_artifact_conn (ma_run_id a) (db_merge_artifacts db) \<noteq> None"
    using t(2) i(2) by auto
  show ?thesis
    using c s i(1,5) t(3) md verify_capsule_binding_ok [OF merged(7)]
      build_reachability_proof_sound [OF merged(1)] merged(2-6)
    by (simp add: e) blast
qed (use assms(2) in auto)

text \<open>
  C15: a merge is proven and atomic. When the typed merge of a run succeeds, the remote reported the pull
  request as merged with the recorded result, every check of the recorded proof was computed by the
  verifier's own probes over the bound head and base, repository, pull request, head and capsule are those
  of the stored run, which was ready for review (or already merged with the same artifact), and artifact
  and merged status are both in the database, other runs untouched. When it fails nothing is written.
\<close>

theorem typed_merge_is_proven_and_atomic:
  assumes "unique_key rm_run_id (db_runs db)" and "complete_typed_merge h st now a v db = (db', res)"
  shows "case res of
      Err _ \<Rightarrow> db' = db
    | Ok _ \<Rightarrow>
        completion_satisfied (ma_run_id a) db' \<and>
        (\<exists>x. load_merge_artifact_conn (ma_run_id a) (db_merge_artifacts db') = Some x \<and> artifact_exact_equal x a) \<and>
        proof_holds (mv_git_probe v) (ma_head_sha a) (ma_base_sha a) (ma_reachability_proof a) \<and>
        (\<exists>obs. mv_remote_probe v (ma_repo a) (ma_pr_number a) = Ok obs \<and> mo_merged obs \<and> mo_result_sha obs = ma_result_sha a) \<and>
        (\<exists>md c. get_run_with_conn (ma_run_id a) (db_runs db) = Some md \<and> or_empty (rm_repository md) = ma_repo a \<and>
           pr_or_zero (rm_pr_number md) = ma_pr_number a \<and> or_empty (rm_head_sha md) = ma_head_sha a \<and>
           (rm_status md = RReviewReady \<or>
            rm_status md = RMerged \<and> load_merge_artifact_conn (ma_run_id a) (db_merge_artifacts db) \<noteq> None) \<and>
           load_capsule_v1 h (ma_run_id a) (db_capsules db) = Ok c \<and> ec_envelope_digest c = ma_capsule_envelope_digest a) \<and>
        (\<forall>other. other \<noteq> ma_run_id a \<longrightarrow>
           get_run_with_conn other (db_runs db') = get_run_with_conn other (db_runs db) \<and>
           load_merge_artifact_conn other (db_merge_artifacts db') = load_merge_artifact_conn other (db_merge_artifacts db))"
  using assms by (rule typed_merge_is_proven_and_atomic_lemma)

section \<open>Retries and immutability\<close>

text \<open>
  A retry of a merge is harmless. Once the typed merge of a run has succeeded, repeating it with
  the same evidence (a later recording time apart) succeeds again, keeps the stored artifact and leaves
  every run as it is; any other artifact for the run is rejected and writes nothing.
\<close>

theorem merge_retry_is_idempotent:
  assumes "unique_key rm_run_id (db_runs db)" and "complete_typed_merge h st now a v db = (db', Ok ())"
    and "artifact_exact_equal a b"
  shows "complete_typed_merge h st now' b v db' = (db', Ok ()) \<and>
    (\<forall>c w. ma_run_id c = ma_run_id a \<longrightarrow> \<not> artifact_exact_equal a c \<longrightarrow>
       (\<exists>e. complete_typed_merge h st now' c w db' = (db', Err e)))"
proof (cases rule: complete_typed_merge_cases [of h st now a v db])
  case (merged rows n runs)
  have db': "db' = db\<lparr>db_merge_artifacts := rows, db_runs := runs\<rparr>" using assms(2) merged(11) by simp
  have ab: "ma_run_id b = ma_run_id a" "ma_reachability_proof b = ma_reachability_proof a" "ma_result_sha b = ma_result_sha a"
    "ma_repo b = ma_repo a" "ma_pr_number b = ma_pr_number a" "ma_head_sha b = ma_head_sha a" "ma_base_sha b = ma_base_sha a"
    "ma_capsule_envelope_digest b = ma_capsule_envelope_digest a"
    using assms(3) by (simp_all add: artifact_exact_equal_def)
  obtain md where md: "get_run_with_conn (ma_run_id a) (db_runs db) = Some md" "or_empty (rm_repository md) = ma_repo a"
    "pr_or_zero (rm_pr_number md) = ma_pr_number a" "or_empty (rm_head_sha md) = ma_head_sha a"
    using revalidate_merge_bindings_ok [OF merged(8)] by blast
  have runs: "runs = update_where (merge_guard a) (\<lambda>md. md\<lparr>rm_status := RMerged, rm_updated_at := Some now\<rparr>) (db_runs db)"
    using merged(10) by (auto simp: transition_to_merged_def Let_def split: if_splits)
  obtain md' where md': "get_run_with_conn (ma_run_id a) runs = Some md'" "rm_status md' = RMerged"
    "rm_repository md' = rm_repository md" "rm_pr_number md' = rm_pr_number md" "rm_head_sha md' = rm_head_sha md"
    using transition_to_merged_ok(1) [OF assms(1) md(1) merged(10)] md(1) by (auto simp: runs get_run_merged)
  obtain x where x: "load_merge_artifact_conn (ma_run_id a) rows = Some x" "artifact_exact_equal x a"
    using insert_merge_artifact_ok(1) [OF merged(9)] by blast
  have uniq: "unique_key rm_run_id runs" using assms(1) by (simp add: runs unique_key_update_where)
  have none: "\<not> merge_guard b m" if "m \<in> set runs" for m
  proof
    assume g: "merge_guard b m"
    then have "m = md'"
      using lookup_by_unique [OF uniq that] md'(1) by (simp add: merge_guard_def ab get_run_with_conn_def)
    then show False using g md'(2) by (simp add: merge_guard_def ALLOWED_MERGE_PREDECESSOR_def)
  qed
  have t: "transition_to_merged now' b 0 runs = Ok runs"
  proof -
    have "update_where (merge_guard b) f runs = runs" for f
      unfolding update_where_def using none by (intro map_idI) auto
    moreover have "count_where (merge_guard b) runs = 0" using none by (simp add: count_where_0)
    ultimately show ?thesis using md'(1,2) by (simp add: transition_to_merged_def Let_def ab)
  qed
  have "artifact_exact_equal x b" using x(2) assms(3) by (simp add: artifact_exact_equal_def)
  then have i: "insert_merge_artifact b rows = Ok (rows, 0)" using x(1) by (simp add: insert_merge_artifact_def ab)
  have cb: "verify_capsule_binding h st ctx b (db_capsules db) = Ok ()" for ctx
    using verify_capsule_binding_ok [OF merged(7)] by (auto simp: verify_capsule_binding_def ab)
  then have r: "revalidate_merge_bindings h st b db' = Ok ()"
    using md md' by (simp add: revalidate_merge_bindings_def db' ab require_identity_def)
  have "complete_typed_merge h st now' b v db' = (db', Ok ())"
    using merged(1-6) cb r i t by (simp add: complete_typed_merge_def ab db')
  moreover have "\<exists>e. complete_typed_merge h st now' c w db' = (db', Err e)"
    if c: "ma_run_id c = ma_run_id a" "\<not> artifact_exact_equal a c" for c w
  proof (cases rule: complete_typed_merge_cases [of h st now' c w db'])
    case (merged rows' n' runs')
    then have "artifact_exact_equal x c" using x(1) c(1)
      by (auto simp: insert_merge_artifact_def db' split: if_splits)
    then show ?thesis using x(2) c(2) by (simp add: artifact_exact_equal_def)
  qed blast
  ultimately show ?thesis by blast
qed (use assms(2) in auto)

datatype merge_op = CompleteMerge instant TypedMergeArtifact MergeVerifier

fun apply_merge_op :: "hash \<Rightarrow> (sql_error \<Rightarrow> string) \<Rightarrow> merge_op \<Rightarrow> MergeDb \<Rightarrow> MergeDb" where
  "apply_merge_op h st (CompleteMerge now a v) db = fst (complete_typed_merge h st now a v db)"

interpretation artifacts: write_once "apply_merge_op h st"
  "\<lambda>db run. load_merge_artifact_conn run (db_merge_artifacts db)" "\<lambda>_. True"
proof
  fix db :: MergeDb and run r a
  assume r: "load_merge_artifact_conn run (db_merge_artifacts db) = Some r"
  obtain now x v where a: "a = CompleteMerge now x v" by (cases a)
  show "load_merge_artifact_conn run (db_merge_artifacts (apply_merge_op h st a db)) = Some r"
    using r by (cases rule: complete_typed_merge_cases [of h st now x v db])
      (simp_all add: a insert_merge_artifact_ok(4))
qed

section \<open>The completion path\<close>

lemma system_observe_strategy:
  assumes "system_observe_merge pj run expected repo pr = Ok obs"
  shows "mo_strategy obs = expected" and "mo_merged obs \<Longrightarrow> mo_result_sha obs \<noteq> []"
  using assms
  by (auto simp: system_observe_merge_def Let_def and_then_Ok cross_check_strategy_def
      split: if_splits result.splits MergeStrategy.splits)

lemma complete_merge_from_observation_cases:
  obtains (failed) e where "complete_merge_from_observation h st now run git remote git' remote' db = (db, Err e)"
  | (merged) a v db' where "complete_merge_from_observation h st now run git remote git' remote' db = (db', Ok ())"
      "complete_typed_merge h st now a v db = (db', Ok ())" "ma_run_id a = run"
      "mv_remote_probe v = remote'" "mv_git_probe v = git'"
proof -
  let ?r = "complete_merge_from_observation h st now run git remote git' remote' db"
  define P where "P r \<longleftrightarrow> (\<exists>e. r = (db, Err e)) \<or> (\<exists>a v. r = complete_typed_merge h st now a v db \<and> ma_run_id a = run \<and>
      mv_remote_probe v = remote' \<and> mv_git_probe v = git')" for r
  have e: "P (db, Err e)" for e by (simp add: P_def)
  have m: "P (complete_typed_merge h st now a v db)" if "ma_run_id a = run" "mv_remote_probe v = remote'" "mv_git_probe v = git'"
    for a v using that by (auto simp: P_def)
  have "P ?r" by (simp add: complete_merge_from_observation_def Let_def e m split: result.split)
  then show ?thesis unfolding P_def
  proof
    assume "\<exists>a v. ?r = complete_typed_merge h st now a v db \<and> ma_run_id a = run \<and> mv_remote_probe v = remote' \<and> mv_git_probe v = git'"
    then obtain a v where v: "?r = complete_typed_merge h st now a v db" "ma_run_id a = run" "mv_remote_probe v = remote'"
      "mv_git_probe v = git'" by blast
    show ?thesis
      by (cases rule: complete_typed_merge_cases [of h st now a v db]) (use v failed merged [of _ a v] in auto)
  qed (use failed in blast)
qed

text \<open>
  The completion changes the status of a run only: the failure provenance of every run is as before.
  This is what the engine's runs rely on (\<open>Failure_Properties.merge_keeps_provenance\<close>).
\<close>

lemma transition_keeps_failure_cleanup:
  assumes "transition_to_merged now a n runs = Ok runs'"
  shows "Option.bind (get_run_with_conn k runs') rm_failure_cleanup = Option.bind (get_run_with_conn k runs) rm_failure_cleanup"
proof -
  have "runs' = update_where (merge_guard a) (\<lambda>md. md\<lparr>rm_status := RMerged, rm_updated_at := Some now\<rparr>) runs"
    using assms by (auto simp: transition_to_merged_def Let_def split: if_splits)
  then show ?thesis by (cases "get_run_with_conn k runs") (simp_all add: get_run_merged)
qed

lemma merge_keeps_failure_cleanup:
  assumes "complete_merge_required_run h st dc now run probes db = (db', out)"
  shows "Option.bind (get_run_with_conn k (db_runs db')) rm_failure_cleanup =
    Option.bind (get_run_with_conn k (db_runs db)) rm_failure_cleanup"
proof -
  have typed: "Option.bind (get_run_with_conn k (db_runs d)) rm_failure_cleanup =
      Option.bind (get_run_with_conn k (db_runs db)) rm_failure_cleanup"
    if "complete_typed_merge h st now a v db = (d, r)" for a v d r
    by (cases rule: complete_typed_merge_cases [of h st now a v db])
       (use that transition_keeps_failure_cleanup in auto)
  have "Option.bind (get_run_with_conn k (db_runs d)) rm_failure_cleanup =
      Option.bind (get_run_with_conn k (db_runs db)) rm_failure_cleanup"
    if "complete_merge_from_observation h st now run git remote git' remote' db = (d, r)" for git remote git' remote' d r
    by (cases rule: complete_merge_from_observation_cases [of h st now run git remote git' remote' db])
       (use that typed in auto)
  then show ?thesis using assms
    by (auto simp: complete_merge_required_run_def split: option.splits if_splits result.splits prod.splits MergeError.splits)
qed

text \<open>
  C16: completion is honest. The completion path of a merge-required run either reports the run as merged, and
  then the run was ready for review, its capsule declares a merge strategy and artifact and merged status are
  stored; or it reports something else and has written nothing. With the production probes the proof stored is
  one of the declared strategy.
\<close>

theorem merge_completion_is_honest:
  assumes "unique_key rm_run_id (db_runs db)" and "complete_merge_required_run h st dc now run probes db = (db', out)"
  shows "(out \<noteq> McMerged \<longrightarrow> db' = db) \<and>
    (out = McMerged \<longrightarrow> completion_satisfied run db' \<and>
      (\<exists>md c s. get_run_with_conn run (db_runs db) = Some md \<and> rm_status md = RReviewReady \<and>
         load_capsule_v1 h run (db_capsules db) = Ok c \<and> resolve_declared_strategy dc c = Ok (Some s) \<and>
         (\<forall>pj r r'. probes = SystemMergeProbeFactory h pj r r' \<longrightarrow>
            (\<exists>x. load_merge_artifact_conn run (db_merge_artifacts db') = Some x \<and>
               strategy_of_proof (ma_reachability_proof x) = to_merge_strategy s))))"
proof (cases "\<exists>md c s. get_run_with_conn run (db_runs db) = Some md \<and> rm_status md = RReviewReady \<and>
    load_capsule_v1 h run (db_capsules db) = Ok c \<and> resolve_declared_strategy dc c = Ok (Some s)")
  case False
  then have "db' = db \<and> out \<noteq> McMerged"
    using assms(2) by (auto simp: complete_merge_required_run_def split: option.splits if_splits result.splits)
  then show ?thesis by blast
next
  case True
  then obtain md c s where md: "get_run_with_conn run (db_runs db) = Some md" "rm_status md = RReviewReady"
    and c: "load_capsule_v1 h run (db_capsules db) = Ok c" "resolve_declared_strategy dc c = Ok (Some s)" by blast
  let ?r = "complete_merge_from_observation h st now run (pf_git_probe probes)
             (pf_remote_probe probes (to_merge_strategy s)) (pf_git_probe_later probes)
             (pf_remote_probe_later probes (to_merge_strategy s)) db"
  have r: "complete_merge_required_run h st dc now run probes db =
      (case ?r of (db', Ok _) \<Rightarrow> (db', McMerged) | (db', Err MeNotMerged) \<Rightarrow> (db', McNotYetMerged) | (db', Err e) \<Rightarrow> (db', McFailed e))"
    using md c by (simp add: complete_merge_required_run_def)
  show ?thesis
  proof (cases rule: complete_merge_from_observation_cases [of h st now run "pf_git_probe probes"
        "pf_remote_probe probes (to_merge_strategy s)" "pf_git_probe_later probes"
        "pf_remote_probe_later probes (to_merge_strategy s)" db])
    case (failed e)
    then show ?thesis using assms(2) r by (cases e) auto
  next
    case (merged a v d)
    have d: "d = db'" "out = McMerged" using assms(2) r merged(1) by auto
    note p = typed_merge_is_proven_and_atomic_lemma [OF assms(1) merged(2) [unfolded d(1)]]
    have sys: "strategy_of_proof (ma_reachability_proof a) = to_merge_strategy s"
      if "probes = SystemMergeProbeFactory h pj q q'" for pj q q'
    proof (cases rule: complete_typed_merge_cases [of h st now a v db])
      case m: (merged rows n runs)
      obtain obs where "mv_remote_probe v (mv_repo v) (mv_pr_number v) = Ok obs" "mo_strategy obs = strategy_of_proof (ma_reachability_proof a)"
        using build_reachability_proof_sound(2) [OF m(1)] by blast
      then show ?thesis using merged(4) that system_observe_strategy(1) by (simp add: SystemMergeProbeFactory_def)
    qed (use merged(2) in simp)
    obtain x where x: "load_merge_artifact_conn run (db_merge_artifacts db') = Some x" "artifact_exact_equal x a"
      using p merged(3) by auto
    then have "ma_reachability_proof x = ma_reachability_proof a" by (simp add: artifact_exact_equal_def)
    then show ?thesis using p merged(3) d md c x(1) sys by auto
  qed
qed

section \<open>A merge, concretely\<close>

definition demo_git :: MergeGitProbe where
  "demo_git = \<lparr>gp_is_ancestor = (\<lambda>_ _. Ok ()), gp_compute_tree_content_digest = (\<lambda>_. Ok ''d''),
     gp_compute_patch_id = (\<lambda>_ _. Ok ''p''), gp_resolve_base_commit = (\<lambda>_. Ok ''b'')\<rparr>"

definition demo_remote :: "MergeStrategy \<Rightarrow> merge_remote_probe" where
  "demo_remote s repo pr = Ok \<lparr>mo_merged = True, mo_strategy = s, mo_result_sha = ''m''\<rparr>"

definition demo_merge_db :: MergeDb where
  "demo_merge_db =
     \<lparr>db_checkpoints = [], db_events = [],
      db_runs = [(run_metadata_new 1 ''r'' ''t'' ''cfg'')\<lparr>rm_status := RReviewReady, rm_repository := Some ''o/r'',
        rm_pr_number := Some 7, rm_head_sha := Some ''h''\<rparr>],
      db_leases = [], db_waits = [], db_capsules = [row_of_capsule (demo_recovery_capsule (\<lambda>x. x))], db_epochs = [],
      db_attempts = [], db_operations = [], db_merge_artifacts = []\<rparr>"

definition demo_artifact :: TypedMergeArtifact where
  "demo_artifact =
     \<lparr>ma_run_id = ''r'', ma_pr_number = 7, ma_result_sha = ''m'', ma_repo = ''o/r'', ma_head_sha = ''h'', ma_base_sha = ''b'',
      ma_capsule_envelope_digest = ec_envelope_digest (demo_recovery_capsule (\<lambda>x. x)),
      ma_reachability_proof = MergeCommitProof ''h'' ''b'' ''m'', ma_recorded_at = 5\<rparr>"

definition demo_verifier :: MergeVerifier where
  "demo_verifier =
     \<lparr>mv_git_probe = demo_git, mv_remote_probe = demo_remote MsMergeCommit, mv_repo = ''o/r'', mv_pr_number = 7,
      mv_base_sha = ''b'', mv_head_sha = ''h''\<rparr>"

definition demo_probes :: MergeProbeFactory where
  "demo_probes = \<lparr>pf_git_probe = demo_git, pf_remote_probe = demo_remote, pf_git_probe_later = demo_git,
     pf_remote_probe_later = demo_remote\<rparr>"

lemma demo_proof: "build_reachability_proof demo_verifier = Ok (MergeCommitProof ''h'' ''b'' ''m'')"
  by (simp add: build_reachability_proof_def demo_verifier_def demo_remote_def demo_git_def)

lemma demo_unique: "unique_key rm_run_id (db_runs demo_merge_db)"
  by (simp add: demo_merge_db_def)

lemma demo_merge:
  "\<exists>db'. complete_typed_merge (\<lambda>x. x) (\<lambda>_. []) 5 demo_artifact demo_verifier demo_merge_db = (db', Ok ())"
proof -
  have c: "load_capsule_v1 (\<lambda>x. x) ''r'' (db_capsules demo_merge_db) = Ok (demo_recovery_capsule (\<lambda>x. x))"
    by (simp add: demo_merge_db_def)
  have b: "verify_capsule_binding (\<lambda>x. x) (\<lambda>_. []) ctx demo_artifact (db_capsules demo_merge_db) = Ok ()" for ctx
    by (simp add: verify_capsule_binding_def demo_artifact_def c)
  have r: "revalidate_merge_bindings (\<lambda>x. x) (\<lambda>_. []) demo_artifact demo_merge_db = Ok ()"
  proof -
    have "get_run_with_conn (ma_run_id demo_artifact) (db_runs demo_merge_db) = Some (hd (db_runs demo_merge_db))"
      by (simp add: demo_merge_db_def get_run_with_conn_def run_metadata_new_def demo_artifact_def)
    then show ?thesis using b
      by (simp add: revalidate_merge_bindings_def require_identity_def)
         (simp add: demo_merge_db_def demo_artifact_def or_empty_def pr_or_zero_def)
  qed
  have i: "insert_merge_artifact demo_artifact (db_merge_artifacts demo_merge_db) = Ok ([demo_artifact], 1)"
    by (simp add: insert_merge_artifact_def load_merge_artifact_conn_def demo_merge_db_def)
  have "\<exists>runs. transition_to_merged 5 demo_artifact 1 (db_runs demo_merge_db) = Ok runs"
    by (simp add: transition_to_merged_def demo_merge_db_def merge_guard_def demo_artifact_def run_metadata_new_def
        ALLOWED_MERGE_PREDECESSOR_def count_where_def)
  then obtain runs where t: "transition_to_merged 5 demo_artifact 1 (db_runs demo_merge_db) = Ok runs" ..
  show ?thesis using b r i t demo_proof
    by (simp add: complete_typed_merge_def) (simp add: demo_artifact_def demo_verifier_def)
qed

theorem typed_merge_is_proven_and_atomic_witness:
  "\<exists>db'. complete_typed_merge (\<lambda>x. x) (\<lambda>_. []) 5 demo_artifact demo_verifier demo_merge_db = (db', Ok ()) \<and>
     completion_satisfied ''r'' db'"
proof -
  obtain db' where m: "complete_typed_merge (\<lambda>x. x) (\<lambda>_. []) 5 demo_artifact demo_verifier demo_merge_db = (db', Ok ())"
    using demo_merge by blast
  from typed_merge_is_proven_and_atomic [OF demo_unique m] m show ?thesis by (auto simp: demo_artifact_def)
qed

theorem merge_retry_is_idempotent_witness:
  "\<exists>db'. complete_typed_merge (\<lambda>x. x) (\<lambda>_. []) 5 demo_artifact demo_verifier demo_merge_db = (db', Ok ()) \<and>
     complete_typed_merge (\<lambda>x. x) (\<lambda>_. []) 9 (demo_artifact\<lparr>ma_recorded_at := 9\<rparr>) demo_verifier db' = (db', Ok ())"
proof -
  obtain db' where m: "complete_typed_merge (\<lambda>x. x) (\<lambda>_. []) 5 demo_artifact demo_verifier demo_merge_db = (db', Ok ())"
    using demo_merge by blast
  have "artifact_exact_equal demo_artifact (demo_artifact\<lparr>ma_recorded_at := 9\<rparr>)" by (simp add: artifact_exact_equal_def)
  from merge_retry_is_idempotent [OF demo_unique m this] m show ?thesis by blast
qed

definition demo_merge_config :: WorkflowConfig where
  "demo_merge_config =
     \<lparr>wc_config_id = ''cfg'', wc_workflow_type_id = ''demo'',
      wc_runtime = \<lparr>rc_timeout_seconds = 60, rc_max_retries = 3, rc_parallel_steps = None, rc_log_level = None\<rparr>,
      wc_guard_limits = \<lparr>gl_max_iterations = None, gl_max_file_changes = None, gl_max_tokens = None, gl_max_cost = None\<rparr>,
      wc_variables = [], wc_parent_orchestration = default_parent_orchestration, wc_merge_required = True,
      wc_merge_strategy = Some MergeCommit, wc_command_manifest = None\<rparr>"

theorem merge_completion_is_honest_witness:
  "\<exists>db'. complete_merge_required_run (\<lambda>x. x) (\<lambda>_. []) (\<lambda>_. Ok demo_merge_config) 5 ''r'' demo_probes demo_merge_db = (db', McMerged) \<and>
     completion_satisfied ''r'' db'"
proof -
  obtain d where m: "complete_typed_merge (\<lambda>x. x) (\<lambda>_. []) 5 demo_artifact demo_verifier demo_merge_db = (d, Ok ())"
    using demo_merge by blast
  have run: "get_run_with_conn ''r'' (db_runs demo_merge_db) = Some (hd (db_runs demo_merge_db))"
    "rm_status (hd (db_runs demo_merge_db)) = RReviewReady" "rm_repository (hd (db_runs demo_merge_db)) = Some ''o/r''"
    "rm_pr_number (hd (db_runs demo_merge_db)) = Some 7" "rm_head_sha (hd (db_runs demo_merge_db)) = Some ''h''"
    by (simp_all add: demo_merge_db_def get_run_with_conn_def run_metadata_new_def)
  have c: "load_capsule_v1 (\<lambda>x. x) ''r'' (db_capsules demo_merge_db) = Ok (demo_recovery_capsule (\<lambda>x. x))"
    "ec_base_ref (demo_recovery_capsule (\<lambda>x. x)) = ''main''"
    by (simp_all add: demo_merge_db_def) (simp add: demo_recovery_capsule_def build_capsule_v1_def)
  have v: "\<lparr>mv_git_probe = demo_git, mv_remote_probe = demo_remote MsMergeCommit, mv_repo = ''o/r'', mv_pr_number = 7,
      mv_base_sha = ''b'', mv_head_sha = ''h''\<rparr> = demo_verifier" by (simp add: demo_verifier_def)
  have a: "\<lparr>ma_run_id = ''r'', ma_pr_number = 7, ma_result_sha = ''m'', ma_repo = ''o/r'', ma_head_sha = ''h'', ma_base_sha = ''b'',
      ma_capsule_envelope_digest = ec_envelope_digest (demo_recovery_capsule (\<lambda>x. x)),
      ma_reachability_proof = MergeCommitProof ''h'' ''b'' ''m'', ma_recorded_at = 5\<rparr> = demo_artifact" by (simp add: demo_artifact_def)
  have "complete_merge_from_observation (\<lambda>x. x) (\<lambda>_. []) 5 ''r'' demo_git (demo_remote MsMergeCommit) demo_git
      (demo_remote MsMergeCommit) demo_merge_db = (d, Ok ())"
  proof -
    have g: "gp_resolve_base_commit demo_git ''main'' = Ok ''b''" by (simp add: demo_git_def)
    have w: "demo_verifier\<lparr>mv_git_probe := demo_git, mv_remote_probe := demo_remote MsMergeCommit\<rparr> = demo_verifier"
      by (simp add: demo_verifier_def)
    show ?thesis
      by (simp add: complete_merge_from_observation_def read_run_metadata_def run c or_empty_def pr_or_zero_def Let_def g v demo_proof)
         (simp add: w a m)
  qed
  then have "complete_merge_required_run (\<lambda>x. x) (\<lambda>_. []) (\<lambda>_. Ok demo_merge_config) 5 ''r'' demo_probes demo_merge_db = (d, McMerged)"
    by (simp add: complete_merge_required_run_def run c resolve_declared_strategy_def demo_merge_config_def demo_probes_def)
  from merge_completion_is_honest [OF demo_unique this] this show ?thesis by blast
qed

end
