(* ===== verification/Effect_Intents.thy ===== *)
theory Effect_Intents
  imports Typed_Merge
begin

text \<open>
  The durable intents of external effects (\<^verbatim>\<open>persistence/effect_intents.rs\<close>): an effect is
  prepared before it is issued, reconciled against what is observed afterwards and finalized once. The
  functions return the table with the result, since a conflicting preparation writes and then fails; the
  caller's transaction decides whether that write stays.
\<close>

section \<open>Intents\<close>

datatype EffectKind = EkCommit | EkPush | EkOpenPr | EkMerge

fun effect_kind_as_str :: "EffectKind \<Rightarrow> string" where
  "effect_kind_as_str EkCommit = ''commit''"
| "effect_kind_as_str EkPush = ''push''"
| "effect_kind_as_str EkOpenPr = ''open_pr''"
| "effect_kind_as_str EkMerge = ''merge''"

definition effect_kind_parse_str :: "string \<Rightarrow> EffectKind option" where
  "effect_kind_parse_str s =
     (if s = ''commit'' then Some EkCommit
      else if s = ''push'' then Some EkPush
      else if s = ''open_pr'' then Some EkOpenPr
      else if s = ''merge'' then Some EkMerge
      else None)"

interpretation effect_kind_codec: text_codec effect_kind_as_str effect_kind_parse_str
proof unfold_locales
  fix s
  show "effect_kind_parse_str (effect_kind_as_str s) = Some s"
    by (cases s) (simp_all add: effect_kind_parse_str_def)
next
  fix t s
  assume "effect_kind_parse_str t = Some s"
  then show "effect_kind_as_str s = t" by (auto simp: effect_kind_parse_str_def split: if_splits)
qed

record ObservedState =
  ob_head_sha :: "string option"
  ob_remote_ref_sha :: "string option"
  ob_matching_pr_number :: "u64 option"

datatype ReconcileVerdict = RvCompleted "string option" | RvNeedsReissue | RvConflict string

record EffectIntent =
  ei_effect_key :: string
  ei_operation_id :: string
  ei_attempt_id :: i64
  ei_sequence :: i64
  ei_effect_kind :: EffectKind
  ei_canonical_payload :: "byte list"
  ei_payload_digest :: string
  ei_payload_version :: u32
  ei_expected_target :: "string option"
  ei_expected_predecessor :: "string option"
  ei_observed_result :: "string option"
  ei_status :: string

type_synonym intent_table = "EffectIntent list"

record EffectPreparation =
  ep_operation_id :: string
  ep_attempt_id :: i64
  ep_sequence :: i64
  ep_kind :: EffectKind
  ep_payload :: "byte list"
  ep_expected_target :: "string option"
  ep_expected_predecessor :: "string option"

definition PAYLOAD_VERSION :: u32 where
  "PAYLOAD_VERSION = 1"

definition effect_key_frame :: "string \<Rightarrow> i64 \<Rightarrow> i64 \<Rightarrow> string \<Rightarrow> byte list" where
  "effect_key_frame operation_id attempt_id sequence kind =
     (let buf = push_len_prefixed [] (as_bytes operation_id);
          buf = push_len_prefixed buf (i64_be_bytes attempt_id);
          buf = push_len_prefixed buf (i64_be_bytes sequence)
      in push_len_prefixed buf (as_bytes kind))"

definition compute_effect_key :: "hash \<Rightarrow> string \<Rightarrow> i64 \<Rightarrow> i64 \<Rightarrow> string \<Rightarrow> string" where
  "compute_effect_key sha256 operation_id attempt_id sequence kind =
     sha256_hex sha256 (effect_key_frame operation_id attempt_id sequence kind)"

definition canonicalize_payload :: "EffectKind \<Rightarrow> byte list \<Rightarrow> byte list" where
  "canonicalize_payload kind payload = payload"

section \<open>Preparing and finalizing\<close>

definition load_effect_optional :: "string \<Rightarrow> intent_table \<Rightarrow> EffectIntent option" where
  "load_effect_optional key rows = lookup_by ei_effect_key key rows"

definition load_effect :: "string \<Rightarrow> intent_table \<Rightarrow> (EffectIntent, sql_error) result" where
  "load_effect key rows =
     (case lookup_by ei_effect_key key rows of Some x \<Rightarrow> Ok x | None \<Rightarrow> Err QueryReturnedNoRows)"

definition prepared_guard :: "string \<Rightarrow> EffectIntent \<Rightarrow> bool" where
  "prepared_guard key x \<longleftrightarrow> ei_effect_key x = key \<and> ei_status x = ''prepared''"

definition finalize_effect ::
  "string \<Rightarrow> string \<Rightarrow> string option \<Rightarrow> intent_table \<Rightarrow> (intent_table, sql_error) result" where
  "finalize_effect key status observed rows =
     (if count_where (prepared_guard key) rows \<noteq> 1 then Err ConstraintViolation
      else Ok (update_where (prepared_guard key) (\<lambda>x. x\<lparr>ei_status := status, ei_observed_result := observed\<rparr>) rows))"

definition new_intent :: "string \<Rightarrow> EffectPreparation \<Rightarrow> byte list \<Rightarrow> string \<Rightarrow> EffectIntent" where
  "new_intent key p canonical digest =
     \<lparr>ei_effect_key = key, ei_operation_id = ep_operation_id p, ei_attempt_id = ep_attempt_id p,
      ei_sequence = ep_sequence p, ei_effect_kind = ep_kind p, ei_canonical_payload = canonical,
      ei_payload_digest = digest, ei_payload_version = PAYLOAD_VERSION, ei_expected_target = ep_expected_target p,
      ei_expected_predecessor = ep_expected_predecessor p, ei_observed_result = None, ei_status = ''prepared''\<rparr>"

definition insert_prepared_intent ::
  "string \<Rightarrow> EffectPreparation \<Rightarrow> byte list \<Rightarrow> string \<Rightarrow> intent_table \<Rightarrow> (intent_table, sql_error) result" where
  "insert_prepared_intent key p canonical digest rows =
     (if \<exists>x \<in> set rows. ei_effect_key x = key then Err ConstraintViolation
      else Ok (rows @ [new_intent key p canonical digest]))"

definition prepare_effect ::
  "hash \<Rightarrow> EffectPreparation \<Rightarrow> intent_table \<Rightarrow> intent_table \<times> (EffectIntent, sql_error) result" where
  "prepare_effect sha256 p rows =
     (let canonical = canonicalize_payload (ep_kind p) (ep_payload p);
          digest = sha256_hex sha256 canonical;
          key = compute_effect_key sha256 (ep_operation_id p) (ep_attempt_id p) (ep_sequence p)
                  (effect_kind_as_str (ep_kind p))
      in case load_effect_optional key rows of
           None \<Rightarrow>
             (case insert_prepared_intent key p canonical digest rows of
                Err e \<Rightarrow> (rows, Err e)
              | Ok rows' \<Rightarrow>
                  (case load_effect_optional key rows' of
                     Some x \<Rightarrow> (rows', Ok x)
                   | None \<Rightarrow> (rows', Err ConstraintViolation)))
         | Some existing \<Rightarrow>
             (if ei_payload_digest existing \<noteq> digest \<or> ei_expected_target existing \<noteq> ep_expected_target p \<or>
                 ei_expected_predecessor existing \<noteq> ep_expected_predecessor p
              then (case finalize_effect key ''conflict'' None rows of
                      Ok rows' \<Rightarrow> (rows', Err ConstraintViolation)
                    | Err e \<Rightarrow> (rows, Err e))
              else (rows, Ok existing)))"

section \<open>Reconciling\<close>

text \<open>Commit and push compare one observed SHA; they differ in which one and in the text of a conflict.\<close>

definition reconcile_sha ::
  "string option \<Rightarrow> string \<Rightarrow> EffectIntent \<Rightarrow> intent_table \<Rightarrow> intent_table \<times> (ReconcileVerdict, sql_error) result" where
  "reconcile_sha sha detail x rows =
     (if sha = ei_expected_target x
      then (case finalize_effect (ei_effect_key x) ''completed'' sha rows of
              Ok rows' \<Rightarrow> (rows', Ok (RvCompleted sha))
            | Err e \<Rightarrow> (rows, Err e))
      else if sha = ei_expected_predecessor x then (rows, Ok RvNeedsReissue)
      else (case finalize_effect (ei_effect_key x) ''conflict'' None rows of
              Ok rows' \<Rightarrow> (rows', Ok (RvConflict detail))
            | Err e \<Rightarrow> (rows, Err e)))"

definition reconcile_commit ::
  "ObservedState \<Rightarrow> EffectIntent \<Rightarrow> intent_table \<Rightarrow> intent_table \<times> (ReconcileVerdict, sql_error) result" where
  "reconcile_commit observed x rows = reconcile_sha (ob_head_sha observed) ''unexpected HEAD'' x rows"

definition reconcile_push ::
  "ObservedState \<Rightarrow> EffectIntent \<Rightarrow> intent_table \<Rightarrow> intent_table \<times> (ReconcileVerdict, sql_error) result" where
  "reconcile_push observed x rows = reconcile_sha (ob_remote_ref_sha observed) ''remote ref diverged'' x rows"

definition reconcile_open_pr ::
  "ObservedState \<Rightarrow> EffectIntent \<Rightarrow> intent_table \<Rightarrow> intent_table \<times> (ReconcileVerdict, sql_error) result" where
  "reconcile_open_pr observed x rows =
     (case ob_matching_pr_number observed of
        Some n \<Rightarrow>
          (let res = nat_to_string (unat n)
           in case finalize_effect (ei_effect_key x) ''completed'' (Some res) rows of
                Ok rows' \<Rightarrow> (rows', Ok (RvCompleted (Some res)))
              | Err e \<Rightarrow> (rows, Err e))
      | None \<Rightarrow> (rows, Ok RvNeedsReissue))"

definition reconcile_merge ::
  "operation_table \<Rightarrow> merge_artifact_table \<Rightarrow> EffectIntent \<Rightarrow> intent_table \<Rightarrow>
   intent_table \<times> (ReconcileVerdict, sql_error) result" where
  "reconcile_merge operations artifacts x rows =
     (case lookup_by op_operation_id (ei_operation_id x) operations of
        None \<Rightarrow> (rows, Ok RvNeedsReissue)
      | Some op \<Rightarrow>
          (case load_merge_artifact_conn (op_run_id op) artifacts of
             None \<Rightarrow> (rows, Ok RvNeedsReissue)
           | Some a \<Rightarrow>
               (case finalize_effect (ei_effect_key x) ''completed'' (Some (ma_result_sha a)) rows of
                  Ok rows' \<Rightarrow> (rows', Ok (RvCompleted (Some (ma_result_sha a))))
                | Err e \<Rightarrow> (rows, Err e))))"

definition reconcile_effect ::
  "operation_table \<Rightarrow> merge_artifact_table \<Rightarrow> string \<Rightarrow> ObservedState \<Rightarrow> intent_table \<Rightarrow>
   intent_table \<times> (ReconcileVerdict, sql_error) result" where
  "reconcile_effect operations artifacts key observed rows =
     (case load_effect key rows of
        Err e \<Rightarrow> (rows, Err e)
      | Ok x \<Rightarrow>
          (if ei_status x = ''completed'' then (rows, Ok (RvCompleted (ei_observed_result x)))
           else if ei_status x = ''conflict'' then (rows, Ok (RvConflict ''prior conflict''))
           else if ei_status x = ''prepared'' then
             (case ei_effect_kind x of
                EkCommit \<Rightarrow> reconcile_commit observed x rows
              | EkPush \<Rightarrow> reconcile_push observed x rows
              | EkOpenPr \<Rightarrow> reconcile_open_pr observed x rows
              | EkMerge \<Rightarrow> reconcile_merge operations artifacts x rows)
           else (rows, Err FromSqlConversionFailure)))"

definition count_effect_intents_for_run :: "string \<Rightarrow> operation_table \<Rightarrow> intent_table \<Rightarrow> nat" where
  "count_effect_intents_for_run run operations rows =
     count_where (\<lambda>x. \<exists>op \<in> set operations. op_run_id op = run \<and> op_operation_id op = ei_operation_id x) rows"

section \<open>Intents are written once\<close>

datatype effect_op =
    PrepareEffect EffectPreparation
  | FinalizeEffect string string "string option"
  | ReconcileEffect operation_table merge_artifact_table string ObservedState

fun apply_effect_op :: "hash \<Rightarrow> effect_op \<Rightarrow> intent_table \<Rightarrow> intent_table" where
  "apply_effect_op h (PrepareEffect p) rows = fst (prepare_effect h p rows)"
| "apply_effect_op h (FinalizeEffect key status observed) rows =
     (case finalize_effect key status observed rows of Ok rows' \<Rightarrow> rows' | Err _ \<Rightarrow> rows)"
| "apply_effect_op h (ReconcileEffect operations artifacts key observed) rows =
     fst (reconcile_effect operations artifacts key observed rows)"

lemma finalize_effect_keeps:
  assumes "finalize_effect key status observed rows = Ok rows'" and "lookup_by ei_effect_key k rows = Some r"
    and "ei_status r \<noteq> ''prepared''"
  shows "lookup_by ei_effect_key k rows' = Some r"
  using assms by (auto simp: finalize_effect_def lookup_by_update_where prepared_guard_def split: if_splits)

lemma reconcile_effect_table:
  "fst (reconcile_effect operations artifacts key observed rows) = rows \<or>
   (\<exists>k status res. finalize_effect k status res rows = Ok (fst (reconcile_effect operations artifacts key observed rows)))"
proof -
  define P where "P t \<longleftrightarrow> t = rows \<or> (\<exists>k status res. finalize_effect k status res rows = Ok t)" for t
  have base: "P rows" "finalize_effect k status res rows = Ok t \<Longrightarrow> P t" for k status res t by (auto simp: P_def)
  have s: "P (fst (reconcile_sha sha d x rows))" for sha d x
    by (auto simp: reconcile_sha_def base split: result.split)
  have o: "P (fst (reconcile_open_pr observed x rows))" "P (fst (reconcile_merge operations artifacts x rows))" for x
    by (auto simp: reconcile_open_pr_def reconcile_merge_def Let_def base split: result.split option.split)
  have "P (fst (reconcile_effect operations artifacts key observed rows))"
    by (auto simp: reconcile_effect_def reconcile_commit_def reconcile_push_def base s o split: result.split EffectKind.split)
  then show ?thesis by (simp add: P_def)
qed

interpretation intents: write_once "apply_effect_op h" "\<lambda>rows key. load_effect_optional key rows"
  "\<lambda>x. ei_status x \<noteq> ''prepared''"
proof
  fix rows :: intent_table and k r a
  assume "load_effect_optional k rows = Some r" and nf: "ei_status r \<noteq> ''prepared''"
  then have r: "lookup_by ei_effect_key k rows = Some r" by (simp add: load_effect_optional_def)
  have keep: "lookup_by ei_effect_key k rows' = Some r" if "finalize_effect key st ob rows = Ok rows'" for key st ob rows'
    by (rule finalize_effect_keeps [OF that r nf])
  have "lookup_by ei_effect_key k (apply_effect_op h a rows) = Some r"
  proof (cases a)
    case (PrepareEffect p)
    then show ?thesis using r keep
      by (auto simp: prepare_effect_def Let_def insert_prepared_intent_def load_effect_optional_def lookup_by_append
          split: option.split result.split)
  next
    case (FinalizeEffect key st ob)
    then show ?thesis using r keep by (auto split: result.split)
  next
    case (ReconcileEffect operations artifacts key observed)
    then show ?thesis using r keep reconcile_effect_table [of operations artifacts key observed rows] by auto
  qed
  then show "load_effect_optional k (apply_effect_op h a rows) = Some r" by (simp add: load_effect_optional_def)
qed

lemma finalize_effect_row:
  assumes "finalize_effect key status res rows = Ok rows'" and "load_effect key rows = Ok x" and "ei_status x = ''prepared''"
  shows "load_effect key rows' = Ok (x\<lparr>ei_status := status, ei_observed_result := res\<rparr>)"
proof -
  have "lookup_by ei_effect_key key rows = Some x" using assms(2) by (auto simp: load_effect_def split: option.splits)
  moreover from this have "ei_effect_key x = key" by (auto dest: lookup_by_SomeD)
  ultimately show ?thesis using assms(1,3)
    by (auto simp: finalize_effect_def load_effect_def lookup_by_update_where prepared_guard_def split: if_splits)
qed

lemma load_effect_key: "load_effect key rows = Ok x \<Longrightarrow> ei_effect_key x = key"
  by (auto simp: load_effect_def split: option.splits dest: lookup_by_SomeD)

text \<open>A verdict other than a reissue is recorded in the intent.\<close>

lemma reconcile_effect_records:
  assumes "reconcile_effect operations artifacts key observed rows = (rows', Ok verdict)"
  shows "(\<forall>res. verdict = RvCompleted res \<longrightarrow>
            (\<exists>x. load_effect key rows' = Ok x \<and> ei_status x = ''completed'' \<and> ei_observed_result x = res)) \<and>
         (\<forall>d. verdict = RvConflict d \<longrightarrow> (\<exists>x. load_effect key rows' = Ok x \<and> ei_status x = ''conflict'')) \<and>
         (verdict = RvNeedsReissue \<longrightarrow> rows' = rows)"
proof -
  obtain x where x: "load_effect key rows = Ok x"
    using assms by (cases "load_effect key rows") (simp_all add: reconcile_effect_def)
  have k: "ei_effect_key x = key" by (rule load_effect_key [OF x])
  show ?thesis
  proof (cases "ei_status x = ''prepared''")
    case True
    have fin: "load_effect (ei_effect_key x) t = Ok (x\<lparr>ei_status := st, ei_observed_result := res\<rparr>)"
      if "finalize_effect (ei_effect_key x) st res rows = Ok t" for st res t
      using finalize_effect_row [OF that, of x] x True k by simp
    show ?thesis
      using assms True x k
      by (cases "ei_effect_kind x")
         (auto simp: reconcile_effect_def reconcile_commit_def reconcile_push_def reconcile_sha_def reconcile_open_pr_def
           reconcile_merge_def Let_def split: if_splits result.splits option.splits dest!: fin)
  next
    case False
    then show ?thesis using assms x by (auto simp: reconcile_effect_def split: if_splits)
  qed
qed

lemma reconcile_frozen:
  assumes "load_effect key rows = Ok x" and "ei_status x = ''completed'' \<or> ei_status x = ''conflict''"
  shows "load_effect key (fold (apply_effect_op h) acts rows) = Ok x"
proof -
  have "load_effect_optional key rows = Some x" "ei_status x \<noteq> ''prepared''"
    using assms by (auto simp: load_effect_def load_effect_optional_def split: option.splits)
  from intents.frozen_fold [OF this] show ?thesis by (simp add: load_effect_def load_effect_optional_def)
qed

text \<open>
  The verdict on an effect is final. Once reconciliation has found an effect done, every later
  reconciliation, after any preparations, finalizations and reconciliations and whatever is observed then,
  reports it done with the same result; once it has found a conflict, every later one reports a conflict. So
  an effect that took place is never asked for again; a demand to reissue it has written nothing.
\<close>

theorem effect_verdict_is_final:
  assumes "reconcile_effect operations artifacts key observed rows = (rows', Ok verdict)"
  shows "case verdict of
      RvCompleted res \<Rightarrow> \<forall>acts ops2 arts2 obs2. snd (reconcile_effect ops2 arts2 key obs2 (fold (apply_effect_op h) acts rows')) =
        Ok (RvCompleted res)
    | RvConflict d \<Rightarrow> \<forall>acts ops2 arts2 obs2. snd (reconcile_effect ops2 arts2 key obs2 (fold (apply_effect_op h) acts rows')) =
        Ok (RvConflict ''prior conflict'')
    | RvNeedsReissue \<Rightarrow> rows' = rows"
proof (cases verdict)
  case (RvCompleted res)
  then obtain x where x: "load_effect key rows' = Ok x" "ei_status x = ''completed''" "ei_observed_result x = res"
    using reconcile_effect_records [OF assms] by auto
  then show ?thesis using RvCompleted reconcile_frozen [OF x(1)] by (simp add: reconcile_effect_def)
next
  case (RvConflict d)
  then obtain x where x: "load_effect key rows' = Ok x" "ei_status x = ''conflict''"
    using reconcile_effect_records [OF assms] by auto
  then show ?thesis using RvConflict reconcile_frozen [OF x(1)] by (simp add: reconcile_effect_def)
qed (use reconcile_effect_records [OF assms] in simp)

definition demo_preparation :: EffectPreparation where
  "demo_preparation =
     \<lparr>ep_operation_id = ''op'', ep_attempt_id = 1, ep_sequence = 0, ep_kind = EkPush, ep_payload = [1],
      ep_expected_target = Some ''new'', ep_expected_predecessor = Some ''old''\<rparr>"

theorem effect_verdict_is_final_witness:
  "let rows = fst (prepare_effect (\<lambda>_. []) demo_preparation []);
       done = fst (reconcile_effect [] [] [] \<lparr>ob_head_sha = None, ob_remote_ref_sha = Some ''new'', ob_matching_pr_number = None\<rparr> rows)
   in snd (reconcile_effect [] [] [] \<lparr>ob_head_sha = None, ob_remote_ref_sha = Some ''moved on'', ob_matching_pr_number = None\<rparr>
        (fold (apply_effect_op (\<lambda>_. [])) [PrepareEffect demo_preparation, FinalizeEffect [] ''conflict'' None] done)) =
      Ok (RvCompleted (Some ''new''))"
proof -
  let ?rows = "fst (prepare_effect (\<lambda>_. []) demo_preparation [])"
  let ?obs = "\<lparr>ob_head_sha = None, ob_remote_ref_sha = Some ''new'', ob_matching_pr_number = None\<rparr>"
  have key: "compute_effect_key (\<lambda>_. []) a b c d = []" for a b c d by (simp add: compute_effect_key_def sha256_hex_def)
  have rows: "?rows = [new_intent [] demo_preparation [1] []]"
    by (simp add: prepare_effect_def key canonicalize_payload_def load_effect_optional_def insert_prepared_intent_def Let_def)
       (simp add: demo_preparation_def sha256_hex_def new_intent_def)
  have "\<exists>t. reconcile_effect [] [] [] ?obs ?rows = (t, Ok (RvCompleted (Some ''new'')))"
    unfolding rows
    by (simp add: reconcile_effect_def load_effect_def new_intent_def demo_preparation_def reconcile_push_def
        reconcile_sha_def finalize_effect_def prepared_guard_def count_where_def)
  then obtain t where t: "reconcile_effect [] [] [] ?obs ?rows = (t, Ok (RvCompleted (Some ''new'')))" ..
  from effect_verdict_is_final [OF t, of "\<lambda>_. []"] show ?thesis by (simp only: t Let_def fst_conv ReconcileVerdict.case)
qed

section \<open>Preparation binds an effect\<close>

lemma effect_frame_parts:
  "effect_key_frame oid a n kind =
     push_len_prefixed [] (as_bytes oid) @ push_len_prefixed [] (i64_be_bytes a) @ push_len_prefixed [] (i64_be_bytes n) @
     push_len_prefixed [] (as_bytes kind)"
  by (simp add: effect_key_frame_def Let_def push_len_prefixed_append [of "push_len_prefixed _ _"])

lemma effect_key_binds:
  assumes "compute_effect_key h oid a n kind = compute_effect_key h oid' a' n' kind'"
    and "\<forall>s \<in> {oid, oid', kind, kind'}. length s < 2 ^ 64" and "\<forall>i \<in> {a, a', n, n'}. in_i64 (Some i)"
  shows "collision h \<or> (oid = oid' \<and> a = a' \<and> n = n' \<and> kind = kind')"
proof -
  have inj: "i = j" if "i64_be_bytes i = i64_be_bytes j" "in_i64 (Some i)" "in_i64 (Some j)" for i j
    by (rule i64_be_bytes_inj [OF _ _ _ _ that(1)]) (use that(2,3) in \<open>simp_all add: in_i64_def\<close>)
  have len: "length (i64_be_bytes i) = 8" for i by (simp add: i64_be_bytes_def)
  have "collision h \<or> effect_key_frame oid a n kind = effect_key_frame oid' a' n' kind'"
    using assms(1) digest_determines by (auto simp: compute_effect_key_def)
  moreover have "oid = oid' \<and> a = a' \<and> n = n' \<and> kind = kind'"
    if "effect_key_frame oid a n kind = effect_key_frame oid' a' n' kind'"
    using that assms(2,3) inj by (simp add: effect_frame_parts field64.split_unique field64.enc_inj len)
  ultimately show ?thesis by blast
qed

definition preparation_key :: "hash \<Rightarrow> EffectPreparation \<Rightarrow> string" where
  "preparation_key h p = compute_effect_key h (ep_operation_id p) (ep_attempt_id p) (ep_sequence p) (effect_kind_as_str (ep_kind p))"

definition binds :: "hash \<Rightarrow> EffectPreparation \<Rightarrow> EffectIntent \<Rightarrow> bool" where
  "binds h p x \<longleftrightarrow> ei_payload_digest x = sha256_hex h (ep_payload p) \<and> ei_expected_target x = ep_expected_target p \<and>
     ei_expected_predecessor x = ep_expected_predecessor p"

text \<open>
  A preparation binds its effect. A successful preparation leaves an intent with its payload digest,
  target and predecessor stored under its key and repeats without writing; a later preparation of the same
  key with another binding fails, and if the effect was still open it is in conflict from then on, which
  every reconciliation reports.
\<close>

theorem preparation_binds_effect:
  assumes "prepare_effect h p rows = (rows', Ok x)" and "preparation_key h q = preparation_key h p"
    and "unique_key ei_effect_key rows"
  shows "load_effect_optional (preparation_key h p) rows' = Some x \<and> binds h p x \<and>
    prepare_effect h p rows' = (rows', Ok x) \<and>
    (\<not> binds h q x \<longrightarrow>
      (\<exists>rows'' e. prepare_effect h q rows' = (rows'', Err e) \<and>
        (if ei_status x = ''prepared''
         then \<forall>ops arts obs. snd (reconcile_effect ops arts (preparation_key h p) obs rows'') = Ok (RvConflict ''prior conflict'')
         else rows'' = rows')))"
proof -
  let ?k = "preparation_key h p"
  have x: "load_effect_optional ?k rows' = Some x" and b: "binds h p x" and u: "unique_key ei_effect_key rows'"
    using assms(1,3)
    by (auto simp: prepare_effect_def preparation_key_def binds_def Let_def canonicalize_payload_def insert_prepared_intent_def
        load_effect_optional_def lookup_by_append new_intent_def unique_key_snoc
        split: option.splits result.splits if_splits) blast
  have k: "ei_effect_key x = ?k" using x by (auto simp: load_effect_optional_def dest: lookup_by_SomeD)
  have again: "prepare_effect h p rows' = (rows', Ok x)"
    using x b by (simp add: prepare_effect_def preparation_key_def [symmetric] Let_def binds_def canonicalize_payload_def)
  have "\<exists>rows'' e. prepare_effect h q rows' = (rows'', Err e) \<and>
        (if ei_status x = ''prepared''
         then \<forall>ops arts obs. snd (reconcile_effect ops arts ?k obs rows'') = Ok (RvConflict ''prior conflict'')
         else rows'' = rows')" if nb: "\<not> binds h q x"
  proof -
    have pq: "prepare_effect h q rows' =
        (case finalize_effect ?k ''conflict'' None rows' of Ok r \<Rightarrow> (r, Err ConstraintViolation) | Err e \<Rightarrow> (rows', Err e))"
      using x nb assms(2) by (auto simp: prepare_effect_def preparation_key_def [symmetric] Let_def binds_def canonicalize_payload_def)
    have c: "count_where (prepared_guard ?k) rows' = (if ei_status x = ''prepared'' then 1 else 0)"
      using count_where_unique [OF u, of "prepared_guard ?k" ?k] x k by (simp add: prepared_guard_def load_effect_optional_def)
    show ?thesis
    proof (cases "ei_status x = ''prepared''")
      case True
      then obtain r where r: "finalize_effect ?k ''conflict'' None rows' = Ok r" using c by (simp add: finalize_effect_def)
      have "load_effect ?k rows' = Ok x" using x by (simp add: load_effect_def load_effect_optional_def)
      from finalize_effect_row [OF r this True] show ?thesis using True pq r by (simp add: reconcile_effect_def)
    next
      case False
      then show ?thesis using c pq by (simp add: finalize_effect_def)
    qed
  qed
  then show ?thesis using x b again by blast
qed

theorem preparation_binds_effect_witness:
  "\<exists>rows'' e. prepare_effect (\<lambda>_. []) (demo_preparation\<lparr>ep_expected_target := Some ''other''\<rparr>)
     (fst (prepare_effect (\<lambda>_. []) demo_preparation [])) = (rows'', Err e) \<and>
     snd (reconcile_effect [] [] [] \<lparr>ob_head_sha = None, ob_remote_ref_sha = Some ''new'', ob_matching_pr_number = None\<rparr> rows'') =
       Ok (RvConflict ''prior conflict'')"
proof -
  have key: "compute_effect_key (\<lambda>_. []) a b c d = []" for a b c d by (simp add: compute_effect_key_def sha256_hex_def)
  let ?x = "new_intent [] demo_preparation [1] []"
  have p: "prepare_effect (\<lambda>_. []) demo_preparation [] = ([?x], Ok ?x)"
    by (simp add: prepare_effect_def key canonicalize_payload_def load_effect_optional_def insert_prepared_intent_def Let_def)
       (simp add: demo_preparation_def sha256_hex_def new_intent_def)
  have k: "preparation_key (\<lambda>_. []) q = []" for q by (simp add: preparation_key_def key)
  have nb: "\<not> binds (\<lambda>_. []) (demo_preparation\<lparr>ep_expected_target := Some ''other''\<rparr>) ?x" "ei_status ?x = ''prepared''"
    by (simp_all add: binds_def demo_preparation_def new_intent_def)
  have "preparation_key (\<lambda>_. []) (demo_preparation\<lparr>ep_expected_target := Some ''other''\<rparr>) = preparation_key (\<lambda>_. []) demo_preparation"
    by (simp add: k)
  from preparation_binds_effect [OF p this] nb show ?thesis by (simp add: k p) blast
qed

text \<open>
  An effect whose target is unknown and whose state could not be observed compares as done: both sides of
  the comparison are absent.
\<close>

lemma unobserved_effect_counts_as_done:
  assumes "ei_effect_kind x = EkCommit" "ei_status x = ''prepared''" "ei_expected_target x = None" "ob_head_sha observed = None"
  shows "snd (reconcile_effect ops arts (ei_effect_key x) observed [x]) = Ok (RvCompleted None)"
  using assms by (simp add: reconcile_effect_def load_effect_def reconcile_commit_def reconcile_sha_def finalize_effect_def
      count_where_def prepared_guard_def)

end
