(* ===== verification/Lease_Finalization.thy ===== *)
theory Lease_Finalization
  imports Wait_State
begin

text \<open>
  The end of a launch: the result of the workflow runner becomes a transition of the issue's
  lease (\<open>daemon/launcher/lease_finalization.rs\<close>, types of \<open>daemon/launcher.rs\<close> and the
  skip reasons of \<open>daemon/discovery.rs\<close>). A transition is a compare-and-swap on status and
  owner, so a launcher that returns late cannot overwrite what a poller or a later claim wrote.
\<close>

section \<open>Results and outcomes\<close>

datatype SkipReason =
    MissingRequiredLabel string
  | HasExcludedLabel string
  | WrongState string
  | MissingApprovalProvenance
  | UnauthorizedApprovalActor string
  | HasActiveLease
  | HasOpenPr
  | ChildOfActiveParent
  | ConcurrencyLimitReached
  | InvalidLeaseState
  | InvalidPath string
  | RoutingFailed string

datatype LaunchOutcome =
    Launched string bool
  | WaitingExternal string
  | LeaseStatePreserved string "LeaseStatus option" "string option"
  | Skipped SkipReason

datatype WorkflowLaunchResult =
    CompletedSuccess
  | CompletedFailure
  | CleanupAbandoned
  | SuspendedExternalWait
  | OwnershipDenied

section \<open>Transitions\<close>

text \<open>\<open>finalize_exact_owner_lease\<close>: the swap expects the run as owner and keeps it.\<close>

definition finalize_exact_owner_lease ::
  "instant \<Rightarrow> string \<Rightarrow> string \<Rightarrow> LeaseStatus \<Rightarrow> LeaseStatus list \<Rightarrow> LaunchOutcome \<Rightarrow> lease_table \<Rightarrow>
   (lease_table \<times> LaunchOutcome, sql_error) result" where
  "finalize_exact_owner_lease now lease_id run target expected applied_outcome ls =
     (case update_lease_status_conditional_outcome now lease_id target expected (Some run) (Some run) ls of
        Err e \<Rightarrow> Err e
      | Ok (ls', Applied) \<Rightarrow> Ok (ls', applied_outcome)
      | Ok (ls', Rejected status owner) \<Rightarrow> Ok (ls', LeaseStatePreserved run (Some status) owner)
      | Ok (ls', Missing) \<Rightarrow> Ok (ls', LeaseStatePreserved run None None))"

definition finalize_terminal_lease ::
  "instant \<Rightarrow> string \<Rightarrow> string \<Rightarrow> LeaseStatus \<Rightarrow> bool \<Rightarrow> lease_table \<Rightarrow>
   (lease_table \<times> LaunchOutcome, sql_error) result" where
  "finalize_terminal_lease now lease_id run target success ls =
     (case update_lease_status_conditional_outcome now lease_id target [LRunning] (Some run) (Some run) ls of
        Err e \<Rightarrow> Err e
      | Ok (ls', Applied) \<Rightarrow> Ok (ls', Launched run success)
      | Ok (ls', Rejected status owner) \<Rightarrow> Ok (ls', LeaseStatePreserved run (Some status) owner)
      | Ok (ls', Missing) \<Rightarrow> Ok (ls', LeaseStatePreserved run None None))"

text \<open>
  \<open>classify_ownership_denied_rejection\<close>: the runner has already failed the lease of its own
  run, which counts as a failed launch; every other rejection is an error (its text left out).
\<close>

definition classify_ownership_denied_rejection ::
  "string \<Rightarrow> LeaseStatus \<Rightarrow> string option \<Rightarrow> (LaunchOutcome, sql_error) result" where
  "classify_ownership_denied_rejection run status owner =
     (if status = LFailed \<and> owner = Some run then Ok (Launched run False) else Err ConstraintViolation)"

definition finalize_ownership_denied_lease ::
  "instant \<Rightarrow> string \<Rightarrow> string \<Rightarrow> lease_table \<Rightarrow> (lease_table \<times> LaunchOutcome, sql_error) result" where
  "finalize_ownership_denied_lease now lease_id run ls =
     (case update_lease_status_conditional_outcome now lease_id LFailed [LRunning] (Some run) (Some run) ls of
        Err e \<Rightarrow> Err e
      | Ok (ls', Applied) \<Rightarrow> Ok (ls', Launched run False)
      | Ok (ls', Rejected status owner) \<Rightarrow>
          map_ok (Pair ls') (classify_ownership_denied_rejection run status owner)
      | Ok (ls', Missing) \<Rightarrow> Err ConstraintViolation)"

definition classify_rejected_or_missing :: "string \<Rightarrow> string \<Rightarrow> lease_table \<Rightarrow> LaunchOutcome" where
  "classify_rejected_or_missing lease_id run ls =
     (case lookup_by il_lease_id lease_id ls of
        Some l \<Rightarrow> LeaseStatePreserved run (Some (il_status l)) (il_run_id l)
      | None \<Rightarrow> LeaseStatePreserved run None None)"

text \<open>
  \<open>compensate_lease_after_launch_error\<close>: under one transaction, a run that is completely
  suspended keeps waiting and every other one fails.
\<close>

definition compensate_lease_after_launch_error ::
  "instant \<Rightarrow> string \<Rightarrow> string \<Rightarrow> WaitDb \<Rightarrow> (lease_table \<times> LaunchOutcome, sql_error) result" where
  "compensate_lease_after_launch_error now lease_id run db =
     (let target = (if has_pollable_external_wait run db then LWaitingExternal else LFailed)
      in case update_lease_status_conditional now lease_id target [LRunning, LWaitingExternal]
                (Some run) (Some run) (db_leases db) of
           Err e \<Rightarrow> Err e
         | Ok (ls', applied) \<Rightarrow>
             Ok (ls', if applied then (if target = LWaitingExternal then WaitingExternal run else Launched run False)
                      else classify_rejected_or_missing lease_id run ls'))"

definition finish_lease_result ::
  "instant \<Rightarrow> string \<Rightarrow> string \<Rightarrow> (WorkflowLaunchResult, string) result \<Rightarrow> WaitDb \<Rightarrow>
   (lease_table \<times> LaunchOutcome, sql_error) result" where
  "finish_lease_result now lease_id run r db =
     (case r of
        Ok CompletedSuccess \<Rightarrow> finalize_terminal_lease now lease_id run LCompleted True (db_leases db)
      | Ok CompletedFailure \<Rightarrow> finalize_terminal_lease now lease_id run LFailed False (db_leases db)
      | Ok OwnershipDenied \<Rightarrow> finalize_ownership_denied_lease now lease_id run (db_leases db)
      | Ok CleanupAbandoned \<Rightarrow>
          finalize_exact_owner_lease now lease_id run LCleanupAbandoned [LRunning, LCleanupAbandoned]
            (Launched run False) (db_leases db)
      | Ok SuspendedExternalWait \<Rightarrow>
          finalize_exact_owner_lease now lease_id run LWaitingExternal [LRunning, LWaitingExternal]
            (WaitingExternal run) (db_leases db)
      | Err _ \<Rightarrow> compensate_lease_after_launch_error now lease_id run db)"

text \<open>Only the lease table is written; an error leaves the database as it was.\<close>

definition finish_lease_after_result ::
  "instant \<Rightarrow> string \<Rightarrow> string \<Rightarrow> (WorkflowLaunchResult, string) result \<Rightarrow> WaitDb \<Rightarrow>
   WaitDb \<times> (LaunchOutcome, sql_error) result" where
  "finish_lease_after_result now lease_id run r db =
     (case finish_lease_result now lease_id run r db of
        Err e \<Rightarrow> (db, Err e)
      | Ok (ls', outcome) \<Rightarrow> (db\<lparr>db_leases := ls'\<rparr>, Ok outcome))"

section \<open>What a finished launch does to the leases\<close>

text \<open>The status a lease still owned by the run ends in, by the runner's result.\<close>

definition settled_status :: "(WorkflowLaunchResult, string) result \<Rightarrow> bool \<Rightarrow> LeaseStatus" where
  "settled_status r waiting =
     (case r of
        Ok CompletedSuccess \<Rightarrow> LCompleted
      | Ok CompletedFailure \<Rightarrow> LFailed
      | Ok OwnershipDenied \<Rightarrow> LFailed
      | Ok CleanupAbandoned \<Rightarrow> LCleanupAbandoned
      | Ok SuspendedExternalWait \<Rightarrow> LWaitingExternal
      | Err _ \<Rightarrow> (if waiting then LWaitingExternal else LFailed))"

text \<open>The statuses from which that transition is allowed.\<close>

definition settles_from :: "(WorkflowLaunchResult, string) result \<Rightarrow> LeaseStatus list" where
  "settles_from r =
     (case r of
        Ok CleanupAbandoned \<Rightarrow> [LRunning, LCleanupAbandoned]
      | Ok SuspendedExternalWait \<Rightarrow> [LRunning, LWaitingExternal]
      | Err _ \<Rightarrow> [LRunning, LWaitingExternal]
      | _ \<Rightarrow> [LRunning])"

definition settled_outcome :: "(WorkflowLaunchResult, string) result \<Rightarrow> bool \<Rightarrow> string \<Rightarrow> LaunchOutcome" where
  "settled_outcome r waiting run =
     (if settled_status r waiting = LWaitingExternal then WaitingExternal run
      else Launched run (settled_status r waiting = LCompleted))"

lemma settles_from_simps [simp]: "settles_from r \<noteq> []" "LRunning \<in> set (settles_from r)"
  by (auto simp: settles_from_def split: result.split WorkflowLaunchResult.split)

text \<open>A swap on a table with unique lease ids, by the row it finds.\<close>

lemma conditional_by_row:
  assumes "unique_key il_lease_id ls" and "expected \<noteq> []" and "run \<noteq> []"
  shows "update_lease_status_conditional now i st expected (Some run) (Some run) ls =
    Ok (update_where (cond_guard i expected (Some run)) (set_lease_status now st (Some run)) ls,
        case lookup_by il_lease_id i ls of
          Some l \<Rightarrow> il_status l \<in> set expected \<and> il_run_id l = Some run | None \<Rightarrow> False)"
proof -
  have "count_where (cond_guard i expected (Some run)) ls =
      (case lookup_by il_lease_id i ls of
         Some l \<Rightarrow> (if cond_guard i expected (Some run) l then 1 else 0) | None \<Rightarrow> 0)"
    by (rule count_where_unique [OF assms(1)]) (simp add: cond_guard_def)
  then show ?thesis
    using assms(2,3) by (auto simp: update_lease_status_conditional_def cond_guard_def
        dest: lookup_by_SomeD split: option.split)
qed

lemma swap_untouched:
  assumes "\<not> (\<exists>l. lookup_by il_lease_id i ls = Some l \<and> il_status l \<in> set expected \<and> il_run_id l = Some run)"
    and "unique_key il_lease_id ls"
  shows "update_where (cond_guard i expected (Some run)) f ls = ls"
proof (rule update_where_none, intro ballI notI)
  fix l
  assume "l \<in> set ls" "cond_guard i expected (Some run) l"
  then show False using assms lookup_by_unique [of il_lease_id ls l] by (auto simp: cond_guard_def)
qed

definition owned_in :: "string \<Rightarrow> string \<Rightarrow> LeaseStatus list \<Rightarrow> lease_table \<Rightarrow> bool" where
  "owned_in i run expected ls \<longleftrightarrow>
     (\<exists>l. lookup_by il_lease_id i ls = Some l \<and> il_status l \<in> set expected \<and> il_run_id l = Some run)"

lemma conditional_owned:
  assumes "unique_key il_lease_id ls" and "expected \<noteq> []" and "run \<noteq> []"
  shows "update_lease_status_conditional now i st expected (Some run) (Some run) ls =
    (if owned_in i run expected ls
     then Ok (update_where (cond_guard i expected (Some run)) (set_lease_status now st (Some run)) ls, True)
     else Ok (ls, False))"
  using conditional_by_row [OF assms, of now i st] swap_untouched [of i ls expected run] assms(1)
  by (auto simp: owned_in_def split: option.split)

lemma conditional_outcome_owned:
  assumes "unique_key il_lease_id ls" and "expected \<noteq> []" and "run \<noteq> []"
  shows "update_lease_status_conditional_outcome now i st expected (Some run) (Some run) ls =
    (if owned_in i run expected ls
     then Ok (update_where (cond_guard i expected (Some run)) (set_lease_status now st (Some run)) ls, Applied)
     else Ok (ls, case lookup_by il_lease_id i ls of
                    Some l \<Rightarrow> Rejected (il_status l) (il_run_id l) | None \<Rightarrow> Missing))"
  by (simp add: update_lease_status_conditional_outcome_def conditional_owned [OF assms] split: option.split)

text \<open>The transition as one case distinction on whether the run still owns its lease.\<close>

lemma finish_lease_result_cases:
  assumes "unique_key il_lease_id (db_leases db)" and "run \<noteq> []"
  shows "finish_lease_result now i run r db =
    (if owned_in i run (settles_from r) (db_leases db)
     then Ok (update_where (cond_guard i (settles_from r) (Some run))
                (set_lease_status now (settled_status r (has_pollable_external_wait run db)) (Some run)) (db_leases db),
              settled_outcome r (has_pollable_external_wait run db) run)
     else if r = Ok OwnershipDenied
     then (if owned_in i run [LFailed] (db_leases db) then Ok (db_leases db, Launched run False)
           else Err ConstraintViolation)
     else Ok (db_leases db, classify_rejected_or_missing i run (db_leases db)))"
proof -
  note swaps = conditional_owned [OF assms(1) _ assms(2)] conditional_outcome_owned [OF assms(1) _ assms(2)]
  have denied: "finalize_ownership_denied_lease now i run (db_leases db) =
      (if owned_in i run [LRunning] (db_leases db)
       then Ok (update_where (cond_guard i [LRunning] (Some run)) (set_lease_status now LFailed (Some run)) (db_leases db),
                Launched run False)
       else if owned_in i run [LFailed] (db_leases db) then Ok (db_leases db, Launched run False)
       else Err ConstraintViolation)"
    by (simp add: finalize_ownership_denied_lease_def swaps classify_ownership_denied_rejection_def split: option.split)
       (simp add: owned_in_def)
  note defs = finish_lease_result_def settles_from_def settled_status_def settled_outcome_def
    classify_rejected_or_missing_def
  show ?thesis
  proof (cases r)
    case (Err e)
    then show ?thesis by (simp add: defs compensate_lease_after_launch_error_def swaps)
  next
    case (Ok x)
    then show ?thesis
      by (cases x) (simp_all add: defs denied finalize_terminal_lease_def finalize_exact_owner_lease_def swaps
          split: option.split)
  qed
qed

text \<open>
  A finished launch settles exactly its own lease. Whatever the runner returned, every
  lease but the one the launch was started for is unchanged, and so is that one when another
  run owns it or its status has moved on; the outcome then reports the stored state, or is the
  idempotent failed launch or the error of a denied workspace. A lease the run still holds in
  the state it was launched in never stays running: it takes the status of the result, a
  failed launch call keeping a complete external wait and failing everything else, and the
  outcome agrees. An error changes nothing.
\<close>

theorem finished_launch_settles_lease:
  assumes "unique_key il_lease_id (db_leases db)" and "run \<noteq> []"
    and "finish_lease_after_result now i run r db = (db', res)"
  shows "db' = db\<lparr>db_leases := db_leases db'\<rparr> \<and>
    (\<forall>j. j \<noteq> i \<longrightarrow> lookup_by il_lease_id j (db_leases db') = lookup_by il_lease_id j (db_leases db)) \<and>
    (case lookup_by il_lease_id i (db_leases db) of
       None \<Rightarrow> db' = db \<and>
         (res = Ok (LeaseStatePreserved run None None) \<or> r = Ok OwnershipDenied \<and> res = Err ConstraintViolation)
     | Some l \<Rightarrow>
         (if il_run_id l = Some run \<and> il_status l \<in> set (settles_from r)
          then lookup_by il_lease_id i (db_leases db') =
                 Some (set_lease_status now (settled_status r (has_pollable_external_wait run db)) (Some run) l) \<and>
               settled_status r (has_pollable_external_wait run db) \<noteq> LRunning \<and>
               res = Ok (settled_outcome r (has_pollable_external_wait run db) run)
          else db' = db \<and>
               (if r = Ok OwnershipDenied
                then res = (if il_run_id l = Some run \<and> il_status l = LFailed then Ok (Launched run False)
                            else Err ConstraintViolation)
                else res = Ok (LeaseStatePreserved run (Some (il_status l)) (il_run_id l)))))"
proof -
  let ?w = "has_pollable_external_wait run db"
  let ?ls = "update_where (cond_guard i (settles_from r) (Some run)) (set_lease_status now (settled_status r ?w) (Some run))
    (db_leases db)"
  have run: "settled_status r ?w \<noteq> LRunning"
    by (simp add: settled_status_def split: result.split WorkflowLaunchResult.split)
  have row: "lookup_by il_lease_id j ?ls =
      map_option (\<lambda>l. if cond_guard i (settles_from r) (Some run) l
        then set_lease_status now (settled_status r ?w) (Some run) l else l) (lookup_by il_lease_id j (db_leases db))" for j
    by (rule lookup_by_update_where) (simp add: set_lease_status_def)
  have other: "lookup_by il_lease_id j ?ls = lookup_by il_lease_id j (db_leases db)" if "j \<noteq> i" for j
    using that by (cases "lookup_by il_lease_id j (db_leases db)")
      (auto simp: row cond_guard_def dest: lookup_by_SomeD)
  have own: "lookup_by il_lease_id i ?ls = Some (set_lease_status now (settled_status r ?w) (Some run) l)"
    if "lookup_by il_lease_id i (db_leases db) = Some l" "il_run_id l = Some run" "il_status l \<in> set (settles_from r)" for l
    using that lookup_by_SomeD [OF that(1)] by (simp add: row cond_guard_def)
  show ?thesis
  proof (cases "owned_in i run (settles_from r) (db_leases db)")
    case True
    then show ?thesis
      using assms(3) run other own finish_lease_result_cases [OF assms(1,2), of now i r]
      by (auto simp: finish_lease_after_result_def owned_in_def)
  next
    case False
    then show ?thesis
      using assms(3) finish_lease_result_cases [OF assms(1,2), of now i r]
      by (auto simp: finish_lease_after_result_def owned_in_def classify_rejected_or_missing_def
          split: option.splits if_splits)
  qed
qed

theorem finished_launch_settles_lease_witness:
  "map_option il_status (lookup_by il_lease_id ''l''
     (db_leases (fst (finish_lease_after_result 20 ''l'' ''r'' (Ok CompletedSuccess) demo_wait_db)))) = Some LCompleted"
proof -
  let ?r = "finish_lease_after_result 20 ''l'' ''r'' (Ok CompletedSuccess) demo_wait_db"
  have u: "unique_key il_lease_id (db_leases demo_wait_db)" by (simp add: demo_wait_db_def)
  show ?thesis
    using finished_launch_settles_lease [OF u, of "''r''" 20 "''l''" "Ok CompletedSuccess" "fst ?r" "snd ?r"]
    by (simp add: demo_wait_db_def settles_from_def settled_status_def set_lease_status_def)
qed
end
