(* ===== verification/Discovery.thy ===== *)
theory Discovery
  imports Lease_Finalization "HOL-Library.Multiset" "HOL-Library.Sublist"
begin

text \<open>
  Issue discovery (\<open>daemon/discovery.rs\<close>, \<open>daemon/discovery/approval.rs\<close>): which of the listed
  issues a configuration may start work on, in which order, and why the others are skipped.
  The GitHub query interface (\<open>adapters/github_issues/mod.rs\<close>) is a record of operations on an
  outside world \<open>'g\<close>; the lease table is read, never written.
\<close>

section \<open>GitHub\<close>

record GithubIssue =
  gi_number :: u64
  gi_title :: string
  gi_state :: string
  gi_labels :: "string list"
  gi_assignees :: "string list"
  gi_milestone :: "string option"
  gi_body :: "string option"

datatype SubIssueSource = Native | FallbackChecklist

record GithubSubIssue =
  si_issue :: GithubIssue
  si_position :: "u64 option"
  si_source :: SubIssueSource

datatype GithubError =
    CliNotFound
  | AuthenticationRequired
  | InsufficientScopes "string list"
  | RepositoryNotAccessible string
  | RateLimited string
  | CommandFailed "string list" "int option" string
  | GhNotFound string
  | CacheLock string string

text \<open>
  The operations of the query trait the daemon uses, on the state of the outside world; the
  parent link is the parent issue it carries, the last field the text of an error.
\<close>

record 'g GithubIssueQuery =
  gq_list_issues :: "string \<Rightarrow> string list \<Rightarrow> string list \<Rightarrow> 'g \<Rightarrow> (GithubIssue list, GithubError) result \<times> 'g"
  gq_latest_label_actor :: "string \<Rightarrow> u64 \<Rightarrow> string \<Rightarrow> 'g \<Rightarrow> (string option, GithubError) result \<times> 'g"
  gq_has_open_pr_for_issue :: "string \<Rightarrow> u64 \<Rightarrow> 'g \<Rightarrow> (bool, GithubError) result \<times> 'g"
  gq_get_issue :: "string \<Rightarrow> u64 \<Rightarrow> 'g \<Rightarrow> (GithubIssue option, GithubError) result \<times> 'g"
  gq_list_sub_issues :: "string \<Rightarrow> u64 \<Rightarrow> 'g \<Rightarrow> (GithubSubIssue list, GithubError) result \<times> 'g"
  gq_get_parent_issue :: "string \<Rightarrow> u64 \<Rightarrow> 'g \<Rightarrow> (GithubIssue option, GithubError) result \<times> 'g"
  gq_add_label :: "string \<Rightarrow> u64 \<Rightarrow> string \<Rightarrow> 'g \<Rightarrow> (unit, GithubError) result \<times> 'g"
  gq_remove_label :: "string \<Rightarrow> u64 \<Rightarrow> string \<Rightarrow> 'g \<Rightarrow> (unit, GithubError) result \<times> 'g"
  gq_add_assignee :: "string \<Rightarrow> u64 \<Rightarrow> string \<Rightarrow> 'g \<Rightarrow> (unit, GithubError) result \<times> 'g"
  gq_remove_assignee :: "string \<Rightarrow> u64 \<Rightarrow> string \<Rightarrow> 'g \<Rightarrow> (unit, GithubError) result \<times> 'g"
  gq_error_text :: "GithubError \<Rightarrow> string"

section \<open>Configuration and results\<close>

record DiscoveryConfig =
  dc_enabled :: bool
  dc_repo :: "string option"
  dc_include_labels :: "string list"
  dc_exclude_labels :: "string list"
  dc_active_parent_label :: "string option"
  dc_issue_states :: "string list"
  dc_approval_label :: "string option"
  dc_approval_actor :: "string option"
  dc_claim_assignee :: "string option"
  dc_claim_label :: "string option"
  dc_milestone_order :: "string option"
  dc_max_concurrent_runs :: "u32 option"
  dc_poll_interval_secs :: "u64 option"
  dc_max_concurrent_active_runs :: "u32 option"
  dc_max_concurrent_runs_per_repository :: "u32 option"
  dc_max_concurrent_runs_per_config :: "u32 option"
  dc_route_parent_issues :: bool
  dc_parent_workflow_type_id :: "string option"
  dc_parent_config_id :: "string option"
  dc_skip_children_of_active_parents :: bool

datatype DiscoveryError = DeGithub GithubError | DeDatabase sql_error

record RoutedIssue =
  ri_issue :: GithubIssue
  ri_workflow_type_id :: "string option"
  ri_config_id :: "string option"

definition ordinary :: "GithubIssue \<Rightarrow> RoutedIssue" where
  "ordinary issue = \<lparr>ri_issue = issue, ri_workflow_type_id = None, ri_config_id = None\<rparr>"

definition routed_parent :: "GithubIssue \<Rightarrow> DiscoveryConfig \<Rightarrow> RoutedIssue" where
  "routed_parent issue cfg = \<lparr>ri_issue = issue, ri_workflow_type_id = dc_parent_workflow_type_id cfg,
     ri_config_id = dc_parent_config_id cfg\<rparr>"

record DiscoveryResult =
  dr_eligible :: "RoutedIssue list"
  dr_skipped :: "(GithubIssue \<times> SkipReason) list"

section \<open>Filters\<close>

definition issue_has_label :: "GithubIssue \<Rightarrow> string \<Rightarrow> bool" where
  "issue_has_label issue expected \<longleftrightarrow> list_ex (\<lambda>l. eq_ignore_ascii_case l expected) (gi_labels issue)"

text \<open>\<open>static_filter\<close>: the first failing reason, required labels before excluded ones before the state.\<close>

definition static_filter :: "DiscoveryConfig \<Rightarrow> GithubIssue \<Rightarrow> SkipReason option" where
  "static_filter cfg issue =
     (case find (\<lambda>l. \<not> issue_has_label issue l) (dc_include_labels cfg) of
        Some required \<Rightarrow> Some (MissingRequiredLabel required)
      | None \<Rightarrow>
          (case find (issue_has_label issue) (dc_exclude_labels cfg) of
             Some excluded \<Rightarrow> Some (HasExcludedLabel excluded)
           | None \<Rightarrow>
               (if dc_issue_states cfg \<noteq> [] \<and>
                   \<not> list_ex (\<lambda>s. eq_ignore_ascii_case s (gi_state issue)) (dc_issue_states cfg)
                then Some (WrongState (gi_state issue)) else None)))"

datatype ApprovalStatus = Authorized | MissingProvenance | UnauthorizedActor string

definition evaluate_approval_actor :: "string option \<Rightarrow> string \<Rightarrow> ApprovalStatus" where
  "evaluate_approval_actor approval_actor expected_actor =
     (case approval_actor of
        Some actual \<Rightarrow> (if eq_ignore_ascii_case actual expected_actor then Authorized else UnauthorizedActor actual)
      | None \<Rightarrow> MissingProvenance)"

definition approval_skip ::
  "DiscoveryConfig \<Rightarrow> 'g GithubIssueQuery \<Rightarrow> string \<Rightarrow> GithubIssue \<Rightarrow> 'g \<Rightarrow>
   (SkipReason option, GithubError) result \<times> 'g" where
  "approval_skip cfg q repo issue g =
     (case (dc_approval_label cfg, dc_approval_actor cfg) of
        (None, None) \<Rightarrow> (Ok None, g)
      | (Some label, Some expected) \<Rightarrow>
          (case gq_latest_label_actor q repo (gi_number issue) label g of
             (Err e, g1) \<Rightarrow> (Err e, g1)
           | (Ok actual, g1) \<Rightarrow>
               (Ok (case evaluate_approval_actor actual expected of
                      Authorized \<Rightarrow> None
                    | MissingProvenance \<Rightarrow> Some MissingApprovalProvenance
                    | UnauthorizedActor a \<Rightarrow> Some (UnauthorizedApprovalActor a)), g1))
      | _ \<Rightarrow> (Ok (Some MissingApprovalProvenance), g))"

section \<open>Order\<close>

definition semver_key :: "string option \<Rightarrow> nat \<times> nat \<times> nat \<times> nat" where
  "semver_key milestone =
     (case milestone of
        None \<Rightarrow> (1, 0, 0, 0)
      | Some raw \<Rightarrow>
          (case map parse_u64 (split_char CHR 0x2E
                  (dropWhile (\<lambda>c. c = CHR 0x56) (dropWhile (\<lambda>c. c = CHR 0x76) raw))) of
             Some a # ps \<Rightarrow>
               (0, a, (case ps of Some b # _ \<Rightarrow> b | _ \<Rightarrow> 0),
                      (case ps of _ # Some c # _ \<Rightarrow> c | _ \<Rightarrow> 0))
           | _ \<Rightarrow> (1, 0, 0, 0)))"

definition order_issues :: "DiscoveryConfig \<Rightarrow> GithubIssue list \<Rightarrow> GithubIssue list" where
  "order_issues cfg issues =
     (if dc_milestone_order cfg \<noteq> Some ''none''
      then sort_key (\<lambda>i. (semver_key (gi_milestone i), gi_number i)) issues
      else sort_key gi_number issues)"

section \<open>Dynamic checks\<close>

definition local_dynamic_skip :: "lease_table \<Rightarrow> GithubIssue \<Rightarrow> string \<Rightarrow> (SkipReason option, DiscoveryError) result" where
  "local_dynamic_skip ls issue repo =
     (case get_lease_for_issue repo (gi_number issue) ls of
        Err e \<Rightarrow> Err (DeDatabase e)
      | Ok (Some lease) \<Rightarrow> Ok (if blocks_duplicate_work (il_status lease) then Some HasActiveLease else None)
      | Ok None \<Rightarrow> Ok None)"

record DiscoveryLookupCache =
  lc_parents :: "((string \<times> u64) \<times> GithubIssue option) list"
  lc_sub_issues :: "((string \<times> u64) \<times> GithubSubIssue list) list"

definition cached_parent_issue ::
  "'g GithubIssueQuery \<Rightarrow> string \<Rightarrow> u64 \<Rightarrow> DiscoveryLookupCache \<times> 'g \<Rightarrow>
   (GithubIssue option, GithubError) result \<times> DiscoveryLookupCache \<times> 'g" where
  "cached_parent_issue q repo n st =
     (case st of (cache, g) \<Rightarrow>
        (case map_of (lc_parents cache) (repo, n) of
           Some parent \<Rightarrow> (Ok parent, cache, g)
         | None \<Rightarrow>
             (case gq_get_parent_issue q repo n g of
                (Err e, g1) \<Rightarrow> (Err e, cache, g1)
              | (Ok parent, g1) \<Rightarrow> (Ok parent, cache\<lparr>lc_parents := ((repo, n), parent) # lc_parents cache\<rparr>, g1))))"

definition cached_sub_issues ::
  "'g GithubIssueQuery \<Rightarrow> string \<Rightarrow> u64 \<Rightarrow> DiscoveryLookupCache \<times> 'g \<Rightarrow>
   (GithubSubIssue list, GithubError) result \<times> DiscoveryLookupCache \<times> 'g" where
  "cached_sub_issues q repo n st =
     (case st of (cache, g) \<Rightarrow>
        (case map_of (lc_sub_issues cache) (repo, n) of
           Some children \<Rightarrow> (Ok children, cache, g)
         | None \<Rightarrow>
             (case gq_list_sub_issues q repo n g of
                (Err e, g1) \<Rightarrow> (Err e, cache, g1)
              | (Ok children, g1) \<Rightarrow>
                  (Ok children, cache\<lparr>lc_sub_issues := ((repo, n), children) # lc_sub_issues cache\<rparr>, g1))))"

definition parent_has_active_label :: "DiscoveryConfig \<Rightarrow> GithubIssue \<Rightarrow> bool" where
  "parent_has_active_label cfg parent =
     (case dc_active_parent_label cfg of
        Some label \<Rightarrow> label \<noteq> [] \<and> issue_has_label parent label
      | None \<Rightarrow> False)"

text \<open>A failing lease lookup of the parent counts as no active parent.\<close>

definition has_active_parent ::
  "DiscoveryConfig \<Rightarrow> 'g GithubIssueQuery \<Rightarrow> string \<Rightarrow> GithubIssue \<Rightarrow> lease_table \<Rightarrow> DiscoveryLookupCache \<times> 'g \<Rightarrow>
   (bool, DiscoveryError) result \<times> DiscoveryLookupCache \<times> 'g" where
  "has_active_parent cfg q repo issue ls st =
     (case cached_parent_issue q repo (gi_number issue) st of
        (Err e, st1) \<Rightarrow> (Err (DeGithub e), st1)
      | (Ok None, st1) \<Rightarrow> (Ok False, st1)
      | (Ok (Some parent), st1) \<Rightarrow>
          (if parent_has_active_label cfg parent then (Ok True, st1)
           else (case get_lease_for_issue repo (gi_number parent) ls of
                   Ok (Some lease) \<Rightarrow> (Ok (blocks_duplicate_work (il_status lease)), st1)
                 | _ \<Rightarrow> (Ok False, st1))))"

definition remote_dynamic_skip ::
  "DiscoveryConfig \<Rightarrow> 'g GithubIssueQuery \<Rightarrow> string \<Rightarrow> GithubIssue \<Rightarrow> lease_table \<Rightarrow> DiscoveryLookupCache \<times> 'g \<Rightarrow>
   (SkipReason option, DiscoveryError) result \<times> DiscoveryLookupCache \<times> 'g" where
  "remote_dynamic_skip cfg q repo issue ls st =
     (case (if dc_skip_children_of_active_parents cfg then has_active_parent cfg q repo issue ls st else (Ok False, st)) of
        (Err e, st1) \<Rightarrow> (Err e, st1)
      | (Ok True, st1) \<Rightarrow> (Ok (Some ChildOfActiveParent), st1)
      | (Ok False, cache1, g1) \<Rightarrow>
          (case gq_has_open_pr_for_issue q repo (gi_number issue) g1 of
             (Err e, g2) \<Rightarrow> (Err (DeGithub e), cache1, g2)
           | (Ok True, g2) \<Rightarrow> (Ok (Some HasOpenPr), cache1, g2)
           | (Ok False, g2) \<Rightarrow> (Ok None, cache1, g2)))"

definition route_issue ::
  "DiscoveryConfig \<Rightarrow> 'g GithubIssueQuery \<Rightarrow> string \<Rightarrow> GithubIssue \<Rightarrow> DiscoveryLookupCache \<times> 'g \<Rightarrow>
   (RoutedIssue, GithubError) result \<times> DiscoveryLookupCache \<times> 'g" where
  "route_issue cfg q repo issue st =
     (case cached_sub_issues q repo (gi_number issue) st of
        (Err e, st1) \<Rightarrow> (Err e, st1)
      | (Ok children, st1) \<Rightarrow>
          (Ok (if children \<noteq> [] then routed_parent issue cfg else ordinary issue), st1))"

section \<open>Discovery\<close>

definition config_run_limit :: "DiscoveryConfig \<Rightarrow> nat" where
  "config_run_limit cfg =
     (case dc_max_concurrent_runs_per_config cfg of
        Some n \<Rightarrow> unat n
      | None \<Rightarrow> (case dc_max_concurrent_runs cfg of Some n \<Rightarrow> unat n | None \<Rightarrow> 1))"

text \<open>One turn of the loop: the issue's verdict when \<open>taken\<close> slots are in use.\<close>

datatype issue_verdict = Skip SkipReason | Take RoutedIssue

definition judge_issue ::
  "DiscoveryConfig \<Rightarrow> 'g GithubIssueQuery \<Rightarrow> lease_table \<Rightarrow> string \<Rightarrow> nat \<Rightarrow> GithubIssue \<Rightarrow> DiscoveryLookupCache \<times> 'g \<Rightarrow>
   (issue_verdict, DiscoveryError) result \<times> DiscoveryLookupCache \<times> 'g" where
  "judge_issue cfg q ls repo taken issue st =
     (case static_filter cfg issue of
        Some reason \<Rightarrow> (Ok (Skip reason), st)
      | None \<Rightarrow>
          (case approval_skip cfg q repo issue (snd st) of
             (Err e, g1) \<Rightarrow> (Err (DeGithub e), fst st, g1)
           | (Ok (Some reason), g1) \<Rightarrow> (Ok (Skip reason), fst st, g1)
           | (Ok None, g1) \<Rightarrow>
               (case local_dynamic_skip ls issue repo of
                  Err (DeDatabase e) \<Rightarrow> (Ok (Skip InvalidLeaseState), fst st, g1)
                | Err e \<Rightarrow> (Err e, fst st, g1)
                | Ok (Some reason) \<Rightarrow> (Ok (Skip reason), fst st, g1)
                | Ok None \<Rightarrow>
                    (case remote_dynamic_skip cfg q repo issue ls (fst st, g1) of
                       (Err e, st2) \<Rightarrow> (Err e, st2)
                     | (Ok (Some reason), st2) \<Rightarrow> (Ok (Skip reason), st2)
                     | (Ok None, st2) \<Rightarrow>
                         (if config_run_limit cfg \<le> taken then (Ok (Skip ConcurrencyLimitReached), st2)
                          else if dc_route_parent_issues cfg
                          then (case route_issue cfg q repo issue st2 of
                                  (Ok routed, st3) \<Rightarrow> (Ok (Take routed), st3)
                                | (Err e, st3) \<Rightarrow> (Ok (Skip (RoutingFailed (gq_error_text q e))), st3))
                          else (Ok (Take (ordinary issue)), st2))))))"

fun discover_issues ::
  "DiscoveryConfig \<Rightarrow> 'g GithubIssueQuery \<Rightarrow> lease_table \<Rightarrow> string \<Rightarrow> nat \<Rightarrow> GithubIssue list \<Rightarrow>
   DiscoveryLookupCache \<times> 'g \<Rightarrow> DiscoveryResult \<Rightarrow> (DiscoveryResult, DiscoveryError) result \<times> 'g" where
  "discover_issues cfg q ls repo active [] st r = (Ok r, snd st)"
| "discover_issues cfg q ls repo active (issue # issues) st r =
     (case judge_issue cfg q ls repo (length (dr_eligible r) + active) issue st of
        (Err e, st1) \<Rightarrow> (Err e, snd st1)
      | (Ok (Skip reason), st1) \<Rightarrow>
          discover_issues cfg q ls repo active issues st1 (r\<lparr>dr_skipped := dr_skipped r @ [(issue, reason)]\<rparr>)
      | (Ok (Take routed), st1) \<Rightarrow>
          discover_issues cfg q ls repo active issues st1 (r\<lparr>dr_eligible := dr_eligible r @ [routed]\<rparr>))"

definition discover ::
  "DiscoveryConfig \<Rightarrow> 'g GithubIssueQuery \<Rightarrow> lease_table \<Rightarrow> nat \<Rightarrow> 'g \<Rightarrow> (DiscoveryResult, DiscoveryError) result \<times> 'g" where
  "discover cfg q ls active g =
     (let repo = (case dc_repo cfg of Some r \<Rightarrow> r | None \<Rightarrow> [])
      in case gq_list_issues q repo (dc_include_labels cfg) (dc_issue_states cfg) g of
           (Err e, g1) \<Rightarrow> (Err (DeGithub e), g1)
         | (Ok issues, g1) \<Rightarrow>
             discover_issues cfg q ls repo active (order_issues cfg issues)
               (\<lparr>lc_parents = [], lc_sub_issues = []\<rparr>, g1) \<lparr>dr_eligible = [], dr_skipped = []\<rparr>)"

section \<open>What discovery guarantees\<close>

text \<open>
  The declarative reading of eligibility: the label and state conditions, the approval by the
  configured actor, no lease that blocks the issue, and an answer that no open pull request
  references it.
\<close>

definition admissible_issue :: "DiscoveryConfig \<Rightarrow> 'g GithubIssueQuery \<Rightarrow> lease_table \<Rightarrow> string \<Rightarrow> GithubIssue \<Rightarrow> bool" where
  "admissible_issue cfg q ls repo issue \<longleftrightarrow>
     (\<forall>l \<in> set (dc_include_labels cfg). issue_has_label issue l) \<and>
     (\<forall>l \<in> set (dc_exclude_labels cfg). \<not> issue_has_label issue l) \<and>
     (dc_issue_states cfg = [] \<or> (\<exists>s \<in> set (dc_issue_states cfg). eq_ignore_ascii_case s (gi_state issue))) \<and>
     (dc_approval_label cfg = None \<and> dc_approval_actor cfg = None \<or>
      (\<exists>label actor g a. dc_approval_label cfg = Some label \<and> dc_approval_actor cfg = Some actor \<and>
         fst (gq_latest_label_actor q repo (gi_number issue) label g) = Ok (Some a) \<and> eq_ignore_ascii_case a actor)) \<and>
     (\<exists>held. get_lease_for_issue repo (gi_number issue) ls = Ok held \<and>
        (\<forall>l. held = Some l \<longrightarrow> \<not> blocks_duplicate_work (il_status l))) \<and>
     (\<exists>g. fst (gq_has_open_pr_for_issue q repo (gi_number issue) g) = Ok False)"

lemma static_filter_None:
  "static_filter cfg issue = None \<longleftrightarrow>
     (\<forall>l \<in> set (dc_include_labels cfg). issue_has_label issue l) \<and>
     (\<forall>l \<in> set (dc_exclude_labels cfg). \<not> issue_has_label issue l) \<and>
     (dc_issue_states cfg = [] \<or> (\<exists>s \<in> set (dc_issue_states cfg). eq_ignore_ascii_case s (gi_state issue)))"
  by (auto simp: static_filter_def find_None_iff list_ex_iff split: option.splits) (auto simp: find_Some_iff)

lemma approval_skip_None:
  assumes "approval_skip cfg q repo issue g = (Ok None, g1)"
  shows "dc_approval_label cfg = None \<and> dc_approval_actor cfg = None \<or>
    (\<exists>label actor g a. dc_approval_label cfg = Some label \<and> dc_approval_actor cfg = Some actor \<and>
       fst (gq_latest_label_actor q repo (gi_number issue) label g) = Ok (Some a) \<and> eq_ignore_ascii_case a actor)"
proof (cases "dc_approval_label cfg"; cases "dc_approval_actor cfg")
  fix label actor
  assume l: "dc_approval_label cfg = Some label" and a: "dc_approval_actor cfg = Some actor"
  then obtain actual where "fst (gq_latest_label_actor q repo (gi_number issue) label g) = Ok actual"
      "evaluate_approval_actor actual actor = Authorized"
    using assms by (auto simp: approval_skip_def split: prod.splits result.splits ApprovalStatus.splits)
  with l a show ?thesis
    by (auto simp: evaluate_approval_actor_def split: option.splits if_splits)
qed (use assms in \<open>auto simp: approval_skip_def\<close>)

lemma remote_skip_None:
  "remote_dynamic_skip cfg q repo issue ls st = (Ok None, st2) \<Longrightarrow>
   \<exists>g. fst (gq_has_open_pr_for_issue q repo (gi_number issue) g) = Ok False"
  by (auto simp: remote_dynamic_skip_def split: prod.splits result.splits bool.splits) (metis fst_conv)+

lemma judge_take:
  assumes "judge_issue cfg q ls repo taken issue st = (Ok (Take routed), st')"
  shows "admissible_issue cfg q ls repo issue \<and> ri_issue routed = issue \<and> taken < config_run_limit cfg \<and>
    (routed = ordinary issue \<or> dc_route_parent_issues cfg \<and> routed = routed_parent issue cfg)"
proof -
  obtain g1 st2 where f: "static_filter cfg issue = None" and a: "approval_skip cfg q repo issue (snd st) = (Ok None, g1)"
    and l: "local_dynamic_skip ls issue repo = Ok None"
    and r: "remote_dynamic_skip cfg q repo issue ls (fst st, g1) = (Ok None, st2)"
    and t: "taken < config_run_limit cfg"
    and e: "if dc_route_parent_issues cfg then \<exists>st3. route_issue cfg q repo issue st2 = (Ok routed, st3)
            else routed = ordinary issue"
    using assms by (auto simp: judge_issue_def split: option.splits prod.splits result.splits DiscoveryError.splits if_splits)
  have "\<exists>held. get_lease_for_issue repo (gi_number issue) ls = Ok held \<and>
      (\<forall>l. held = Some l \<longrightarrow> \<not> blocks_duplicate_work (il_status l))"
    using l by (auto simp: local_dynamic_skip_def split: result.splits option.splits if_splits)
  moreover have "routed = ordinary issue \<or> dc_route_parent_issues cfg \<and> routed = routed_parent issue cfg"
    using e by (auto simp: route_issue_def split: if_splits prod.splits result.splits)
  ultimately show ?thesis
    using f approval_skip_None [OF a] remote_skip_None [OF r] t
    by (auto simp: admissible_issue_def static_filter_None ordinary_def routed_parent_def)
qed

text \<open>The loop, from an intermediate result.\<close>

lemma discover_issues_sound:
  assumes "discover_issues cfg q ls repo active issues st r = (Ok r', g')"
    and "dr_eligible r = [] \<or> length (dr_eligible r) + active \<le> config_run_limit cfg"
  shows "\<exists>es ss. dr_eligible r' = dr_eligible r @ es \<and> dr_skipped r' = dr_skipped r @ ss \<and>
    mset (map ri_issue es) + mset (map fst ss) = mset issues \<and> subseq (map ri_issue es) issues \<and>
    (\<forall>x \<in> set es. admissible_issue cfg q ls repo (ri_issue x) \<and>
       (x = ordinary (ri_issue x) \<or> dc_route_parent_issues cfg \<and> x = routed_parent (ri_issue x) cfg)) \<and>
    (dr_eligible r' = [] \<or> length (dr_eligible r') + active \<le> config_run_limit cfg)"
  using assms
proof (induction issues arbitrary: st r)
  case (Cons issue issues)
  obtain v st1 where j: "judge_issue cfg q ls repo (length (dr_eligible r) + active) issue st = (Ok v, st1)"
    using Cons.prems(1) by (auto split: prod.splits result.splits)
  show ?case
  proof (cases v)
    case (Skip reason)
    then have "discover_issues cfg q ls repo active issues st1 (r\<lparr>dr_skipped := dr_skipped r @ [(issue, reason)]\<rparr>) = (Ok r', g')"
      using Cons.prems(1) j by simp
    from Cons.IH [OF this] Cons.prems(2) obtain es ss where
      "dr_eligible r' = dr_eligible r @ es" "dr_skipped r' = (dr_skipped r @ [(issue, reason)]) @ ss"
      "mset (map ri_issue es) + mset (map fst ss) = mset issues" "subseq (map ri_issue es) issues"
      "\<forall>x \<in> set es. admissible_issue cfg q ls repo (ri_issue x) \<and>
         (x = ordinary (ri_issue x) \<or> dc_route_parent_issues cfg \<and> x = routed_parent (ri_issue x) cfg)"
      "dr_eligible r' = [] \<or> length (dr_eligible r') + active \<le> config_run_limit cfg" by auto
    then show ?thesis by (intro exI [of _ es] exI [of _ "(issue, reason) # ss"]) auto
  next
    case (Take routed)
    note taken = judge_take [OF j [unfolded Take]]
    have "discover_issues cfg q ls repo active issues st1 (r\<lparr>dr_eligible := dr_eligible r @ [routed]\<rparr>) = (Ok r', g')"
      using Cons.prems(1) j Take by simp
    from Cons.IH [OF this] taken obtain es ss where
      "dr_eligible r' = (dr_eligible r @ [routed]) @ es" "dr_skipped r' = dr_skipped r @ ss"
      "mset (map ri_issue es) + mset (map fst ss) = mset issues" "subseq (map ri_issue es) issues"
      "\<forall>x \<in> set es. admissible_issue cfg q ls repo (ri_issue x) \<and>
         (x = ordinary (ri_issue x) \<or> dc_route_parent_issues cfg \<and> x = routed_parent (ri_issue x) cfg)"
      "dr_eligible r' = [] \<or> length (dr_eligible r') + active \<le> config_run_limit cfg" by auto
    then show ?thesis using taken by (intro exI [of _ "routed # es"] exI [of _ ss]) auto
  qed
qed (auto intro: exI [of _ "[]"])

lemma subseq_sorted:
  assumes "subseq xs ys" and "sorted ys"
  shows "sorted xs"
  using assms
proof (induction rule: list_emb.induct)
  case (list_emb_Cons2 x y xs ys)
  then have "set xs \<subseteq> set ys" by (blast elim: list_emb_set)
  with list_emb_Cons2 show ?case by auto
qed auto

text \<open>An admissible issue is one the lease table lets a claim win.\<close>

lemma admissible_not_lost:
  "admissible_issue cfg q ls repo issue \<Longrightarrow> try_claim now repo (gi_number issue) config ls \<noteq> Ok (ls', None)"
  by (auto simp: admissible_issue_def get_lease_for_issue_def try_claim_def blocks_duplicate_work_def Let_def
      split: result.splits option.splits if_splits)

text \<open>
  C37: discovery is sound and complete over the listing. Every listed issue ends up exactly once
  among the eligible or the skipped ones; the eligible ones keep the priority order (milestone
  by semantic version, then number), each satisfies the declarative eligibility conditions, is
  routed as itself or as a parent under the parent configuration, and could not lose the claim
  on the lease table discovery saw; together with the active runs they never exceed the
  configured number of concurrent runs.
\<close>

theorem discovery_is_sound:
  assumes "discover cfg q ls active g = (Ok r, g')"
  shows "\<exists>repo issues g1. repo = (case dc_repo cfg of Some r \<Rightarrow> r | None \<Rightarrow> []) \<and>
    gq_list_issues q repo (dc_include_labels cfg) (dc_issue_states cfg) g = (Ok issues, g1) \<and>
    mset (map ri_issue (dr_eligible r)) + mset (map fst (dr_skipped r)) = mset issues \<and>
    subseq (map ri_issue (dr_eligible r)) (order_issues cfg issues) \<and>
    sorted (map (\<lambda>x. if dc_milestone_order cfg = Some ''none'' then ((0, 0, 0, 0), gi_number (ri_issue x))
                    else (semver_key (gi_milestone (ri_issue x)), gi_number (ri_issue x))) (dr_eligible r)) \<and>
    (\<forall>x \<in> set (dr_eligible r). admissible_issue cfg q ls repo (ri_issue x) \<and>
       (x = ordinary (ri_issue x) \<or> dc_route_parent_issues cfg \<and> x = routed_parent (ri_issue x) cfg) \<and>
       (\<forall>now config ls'. try_claim now repo (gi_number (ri_issue x)) config ls \<noteq> Ok (ls', None))) \<and>
    (dr_eligible r = [] \<or> length (dr_eligible r) + active \<le> config_run_limit cfg)"
proof -
  let ?repo = "case dc_repo cfg of Some r \<Rightarrow> r | None \<Rightarrow> []"
  obtain issues g1 where l: "gq_list_issues q ?repo (dc_include_labels cfg) (dc_issue_states cfg) g = (Ok issues, g1)"
    and d: "discover_issues cfg q ls ?repo active (order_issues cfg issues)
      (\<lparr>lc_parents = [], lc_sub_issues = []\<rparr>, g1) \<lparr>dr_eligible = [], dr_skipped = []\<rparr> = (Ok r, g')"
    using assms by (auto simp: discover_def Let_def split: prod.splits result.splits)
  have ord: "mset (order_issues cfg issues) = mset issues" by (simp add: order_issues_def)
  let ?key = "\<lambda>i. if dc_milestone_order cfg = Some ''none'' then ((0, 0, 0, 0), gi_number i)
      else (semver_key (gi_milestone i), gi_number i)"
  have srt: "sorted (map ?key (order_issues cfg issues))"
  proof (cases "dc_milestone_order cfg = Some ''none''")
    case True
    have "sorted (map gi_number (sort_key gi_number issues))" by (rule sorted_sort_key)
    then have "sorted (map (\<lambda>i. ((0::nat, 0::nat, 0::nat, 0::nat), gi_number i)) (sort_key gi_number issues))"
      by (simp add: sorted_iff_nth_mono less_eq_prod_def)
    then show ?thesis using True by (simp add: order_issues_def)
  next
    case False
    then show ?thesis by (simp add: order_issues_def)
  qed
  from discover_issues_sound [OF d] have s:
      "mset (map ri_issue (dr_eligible r)) + mset (map fst (dr_skipped r)) = mset issues"
      "subseq (map ri_issue (dr_eligible r)) (order_issues cfg issues)"
      "\<forall>x \<in> set (dr_eligible r). admissible_issue cfg q ls ?repo (ri_issue x) \<and>
       (x = ordinary (ri_issue x) \<or> dc_route_parent_issues cfg \<and> x = routed_parent (ri_issue x) cfg)"
      "dr_eligible r = [] \<or> length (dr_eligible r) + active \<le> config_run_limit cfg"
    by (auto simp: ord)
  have "sorted (map ?key (map ri_issue (dr_eligible r)))"
    using srt subseq_map [OF s(2), of ?key] subseq_sorted by blast
  moreover have "\<forall>x \<in> set (dr_eligible r). \<forall>now config ls'.
      try_claim now ?repo (gi_number (ri_issue x)) config ls \<noteq> Ok (ls', None)"
    using s(3) admissible_not_lost by blast
  ultimately show ?thesis
    using l s by (intro exI [of _ ?repo] exI [of _ issues] exI [of _ g1]) (simp add: comp_def)
qed


definition demo_issue :: "u64 \<Rightarrow> string list \<Rightarrow> GithubIssue" where
  "demo_issue n labels = \<lparr>gi_number = n, gi_title = ''t'', gi_state = ''OPEN'', gi_labels = labels, gi_assignees = [],
     gi_milestone = None, gi_body = None\<rparr>"

definition demo_query :: "GithubIssue list \<Rightarrow> unit GithubIssueQuery" where
  "demo_query issues = \<lparr>gq_list_issues = \<lambda>_ _ _ g. (Ok issues, g), gq_latest_label_actor = \<lambda>_ _ _ g. (Ok None, g),
     gq_has_open_pr_for_issue = \<lambda>_ _ g. (Ok False, g), gq_get_issue = \<lambda>_ _ g. (Ok None, g),
     gq_list_sub_issues = \<lambda>_ _ g. (Ok [], g), gq_get_parent_issue = \<lambda>_ _ g. (Ok None, g),
     gq_add_label = \<lambda>_ _ _ g. (Ok (), g), gq_remove_label = \<lambda>_ _ _ g. (Ok (), g),
     gq_add_assignee = \<lambda>_ _ _ g. (Ok (), g), gq_remove_assignee = \<lambda>_ _ _ g. (Ok (), g),
     gq_error_text = \<lambda>_. ''error''\<rparr>"

definition demo_discovery :: DiscoveryConfig where
  "demo_discovery = \<lparr>dc_enabled = True, dc_repo = Some ''o/r'', dc_include_labels = [''OK''], dc_exclude_labels = [],
     dc_active_parent_label = None, dc_issue_states = [''open''], dc_approval_label = None, dc_approval_actor = None,
     dc_claim_assignee = Some ''bot'', dc_claim_label = Some ''working'', dc_milestone_order = Some ''none'',
     dc_max_concurrent_runs = None, dc_poll_interval_secs = None, dc_max_concurrent_active_runs = None,
     dc_max_concurrent_runs_per_repository = None, dc_max_concurrent_runs_per_config = None,
     dc_route_parent_issues = True, dc_parent_workflow_type_id = None, dc_parent_config_id = None,
     dc_skip_children_of_active_parents = True\<rparr>"

lemma demo_case_folding:
  "eq_ignore_ascii_case ''ok'' ''OK''" "eq_ignore_ascii_case ''open'' ''OPEN''"
  by code_simp+

lemma demo_discover:
  "discover demo_discovery (demo_query [demo_issue 2 [''ok''], demo_issue 1 [''ok''], demo_issue 3 []]) [] 0 () =
     (Ok \<lparr>dr_eligible = [ordinary (demo_issue 1 [''ok''])],
          dr_skipped = [(demo_issue 2 [''ok''], ConcurrencyLimitReached),
            (demo_issue 3 [], MissingRequiredLabel ''OK'')]\<rparr>, ())"
  by (simp add: discover_def demo_discovery_def demo_query_def demo_issue_def order_issues_def judge_issue_def
      static_filter_def issue_has_label_def demo_case_folding word_le_nat_alt approval_skip_def
      local_dynamic_skip_def get_lease_for_issue_def issue_number_to_sql_i64_def i64_try_from_u64_def i64_max_def
      remote_dynamic_skip_def has_active_parent_def cached_parent_issue_def config_run_limit_def route_issue_def
      cached_sub_issues_def Let_def)

theorem discovery_is_sound_witness:
  "try_claim 5 ''o/r'' 1 ''cfg'' [] \<noteq> Ok ([], None) \<and>
   admissible_issue demo_discovery (demo_query [demo_issue 2 [''ok''], demo_issue 1 [''ok''], demo_issue 3 []]) [] ''o/r''
     (demo_issue 1 [''ok''])"
proof -
  have "dc_repo demo_discovery = Some ''o/r''" "ri_issue (ordinary i) = i" "gi_number (demo_issue n l) = n" for i n l
    by (simp_all add: demo_discovery_def ordinary_def demo_issue_def)
  then show ?thesis using discovery_is_sound [OF demo_discover] by auto
qed

end
