(* ===== verification/Poll_Application.thy ===== *)
theory Poll_Application
  imports Lease_Finalization
begin

text \<open>
  The polling pass of the daemon: poll intervals (\<open>polling.rs\<close>), the application of a poll
  decision to run, lease, checkpoint and wait row in one transaction with the artifact writes
  after it (\<open>daemon/poller/apply.rs\<close>), and the pass over all due waits with its summary
  (\<open>daemon/scheduler/polling.rs\<close>, summary types of \<open>daemon/scheduler.rs\<close>). How a decision is
  reached is a parameter here, and so are the artifact writers.
\<close>

section \<open>Poll intervals\<close>

definition MAX_POLL_INTERVAL_SECONDS :: i64 where
  "MAX_POLL_INTERVAL_SECONDS = 86400"

definition bounded_poll_interval_seconds :: "u64 \<Rightarrow> i64" where
  "bounded_poll_interval_seconds n =
     (case i64_try_from_u64 n of
        Some seconds \<Rightarrow> min (max seconds 1) MAX_POLL_INTERVAL_SECONDS
      | None \<Rightarrow> MAX_POLL_INTERVAL_SECONDS)"

definition next_poll_time_at :: "u64 \<Rightarrow> instant \<Rightarrow> instant" where
  "next_poll_time_at interval now = now + 1000000000 * nat (bounded_poll_interval_seconds interval)"

lemma next_poll_time_later: "now < next_poll_time_at interval now"
  by (simp add: next_poll_time_at_def bounded_poll_interval_seconds_def MAX_POLL_INTERVAL_SECONDS_def max_def
      split: option.split)

section \<open>Decisions\<close>

datatype PollClassification =
    StillWaiting
  | ReadyToResume
  | TerminalFailure
  | TransientFailure
  | TimedOut

record PollDecision =
  pd_run_id :: string
  pd_classification :: PollClassification
  pd_next_poll_at :: "instant option"
  pd_observed_state :: json

definition READY_TRANSITION_REJECTED :: string where
  "READY_TRANSITION_REJECTED = ''lease_ready_transition_rejected: lease status not in [WaitingExternal, ReadyToResume] or run_id mismatch''"

definition TERMINAL_TRANSITION_REJECTED :: string where
  "TERMINAL_TRANSITION_REJECTED = ''lease_terminal_transition_rejected: lease status not in [WaitingExternal, ReadyToResume, Running, Claimed] or run_id mismatch''"

definition STILL_WAITING_TRANSITION_REJECTED :: string where
  "STILL_WAITING_TRANSITION_REJECTED = ''lease_still_waiting_transition_rejected: lease has advanced past waiting or owned by another run''"

datatype PollApplyError =
    PaLeaseTransitionRejected string string string
  | WaitStateConcurrentTransition string
  | PaRunMissing string string
  | RunStatusConcurrentTransition string string
  | PaSqlite sql_error
  | PaPersistence PersistenceError

section \<open>The transaction\<close>

definition mark_run_status ::
  "instant \<Rightarrow> string \<Rightarrow> RunStatus \<Rightarrow> string \<Rightarrow> RunStatus list \<Rightarrow> run_table \<Rightarrow> (run_table, PollApplyError) result" where
  "mark_run_status now run status step expected runs =
     (case persist_run_status_from_expected now run status (Some step) expected runs of
        (runs', ExpUpdated) \<Rightarrow> Ok runs'
      | (_, ExpStatusMismatch) \<Rightarrow> Err (RunStatusConcurrentTransition run step)
      | (_, ExpRunMissing) \<Rightarrow> Err (PaRunMissing run step))"

text \<open>The guarded lease transition the three classifications share; a wait without a lease has none.\<close>

definition move_wait_lease ::
  "instant \<Rightarrow> WaitStateRecord \<Rightarrow> LeaseStatus \<Rightarrow> LeaseStatus list \<Rightarrow> string \<Rightarrow> lease_table \<Rightarrow>
   (lease_table, PollApplyError) result" where
  "move_wait_lease now w status expected reason ls =
     (case ws_lease_id w of
        None \<Rightarrow> Ok ls
      | Some lease_id \<Rightarrow>
          (case update_lease_status_conditional now lease_id status expected None (Some (ws_run_id w)) ls of
             Err e \<Rightarrow> Err (PaSqlite e)
           | Ok (ls', applied) \<Rightarrow>
               (if applied then Ok ls' else Err (PaLeaseTransitionRejected (ws_run_id w) lease_id reason))))"

definition apply_ready_to_resume :: "instant \<Rightarrow> WaitStateRecord \<Rightarrow> WaitDb \<Rightarrow> (WaitDb, PollApplyError) result" where
  "apply_ready_to_resume now w db =
     (let (waits, deleted) = delete_wait_state_for_suspension (ws_run_id w) (ws_suspension_id w) (db_waits db)
      in if \<not> deleted then Err (WaitStateConcurrentTransition (ws_run_id w))
         else (case set_resume_point now (ws_run_id w) (ws_resume_step w) (db_checkpoints db) of
                 Err e \<Rightarrow> Err (PaPersistence e)
               | Ok (cps, _) \<Rightarrow>
                   (case mark_run_status now (ws_run_id w) RReadyToResume (ws_resume_step w) [RWaitingExternal] (db_runs db) of
                      Err e \<Rightarrow> Err e
                    | Ok runs \<Rightarrow>
                        (case move_wait_lease now w LReadyToResume [LWaitingExternal, LReadyToResume]
                                READY_TRANSITION_REJECTED (db_leases db) of
                           Err e \<Rightarrow> Err e
                         | Ok ls \<Rightarrow> Ok (db\<lparr>db_waits := waits, db_checkpoints := cps, db_runs := runs, db_leases := ls\<rparr>)))))"

definition apply_terminal_failure :: "instant \<Rightarrow> WaitStateRecord \<Rightarrow> WaitDb \<Rightarrow> (WaitDb, PollApplyError) result" where
  "apply_terminal_failure now w db =
     (let (waits, deleted) = delete_wait_state_for_suspension (ws_run_id w) (ws_suspension_id w) (db_waits db)
      in if \<not> deleted then Err (WaitStateConcurrentTransition (ws_run_id w))
         else (case mark_run_status now (ws_run_id w) RFailed (ws_resume_step w) [RWaitingExternal] (db_runs db) of
                 Err e \<Rightarrow> Err e
               | Ok runs \<Rightarrow>
                   (case move_wait_lease now w LFailed [LWaitingExternal, LReadyToResume, LRunning, LClaimed]
                           TERMINAL_TRANSITION_REJECTED (db_leases db) of
                      Err e \<Rightarrow> Err e
                    | Ok ls \<Rightarrow> Ok (db\<lparr>db_waits := waits, db_runs := runs, db_leases := ls\<rparr>))))"

definition validated_next_poll_time :: "WaitStateRecord \<Rightarrow> instant option \<Rightarrow> instant \<Rightarrow> instant" where
  "validated_next_poll_time w candidate now =
     (case candidate of
        Some t \<Rightarrow> (if now < t then t else next_poll_time_at (ws_poll_interval_seconds w) now)
      | None \<Rightarrow> next_poll_time_at (ws_poll_interval_seconds w) now)"

definition apply_still_waiting ::
  "instant \<Rightarrow> WaitStateRecord \<Rightarrow> PollDecision \<Rightarrow> WaitDb \<Rightarrow> (WaitDb, PollApplyError) result" where
  "apply_still_waiting now w decision db =
     (case mark_run_status now (ws_run_id w) RWaitingExternal (ws_resume_step w) [RWaitingExternal] (db_runs db) of
        Err e \<Rightarrow> Err e
      | Ok runs \<Rightarrow>
          (case update_wait_state_after_poll now (ws_run_id w) (pd_observed_state decision)
                  (validated_next_poll_time w (pd_next_poll_at decision) now) (ws_poll_count w) (ws_suspension_id w)
                  (db_waits db) of
             Err e \<Rightarrow> Err (PaSqlite e)
           | Ok (waits, updated) \<Rightarrow>
               (if \<not> updated then Err (WaitStateConcurrentTransition (ws_run_id w))
                else (case move_wait_lease now w LWaitingExternal [LWaitingExternal]
                             STILL_WAITING_TRANSITION_REJECTED (db_leases db) of
                        Err e \<Rightarrow> Err e
                      | Ok ls \<Rightarrow> Ok (db\<lparr>db_waits := waits, db_runs := runs, db_leases := ls\<rparr>)))))"

section \<open>Artifacts after the commit\<close>

datatype ArtifactPhase = PrCheckSnapshot | PollResult | WaitStatePhase | ResumeDecision

record ArtifactWarning =
  aw_phase :: ArtifactPhase
  aw_error :: string

datatype PollApplyOutcome =
    Committed
  | CommittedWithArtifactWarnings "ArtifactWarning list"

text \<open>The artifact writers; each returns the text of its error, if any.\<close>

record PollIo =
  io_snapshot :: "WaitStateRecord \<Rightarrow> json \<Rightarrow> string option"
  io_poll_result :: "string \<Rightarrow> PollDecision \<Rightarrow> string option"
  io_wait_state :: "string \<Rightarrow> WaitStateRecord \<Rightarrow> string option"
  io_resume_decision :: "string \<Rightarrow> PollDecision \<Rightarrow> string option"

definition annotate_artifact_error :: "json \<Rightarrow> string \<Rightarrow> json" where
  "annotate_artifact_error observed err =
     (case observed of
        JObj kvs \<Rightarrow> JObj (AList.update ''artifact_error'' (JStr err) kvs)
      | JNull \<Rightarrow> JObj [(''artifact_error'', JStr err)]
      | v \<Rightarrow> v)"

definition write_committed_pr_check_snapshot :: "PollIo \<Rightarrow> WaitStateRecord \<Rightarrow> json \<Rightarrow> string option" where
  "write_committed_pr_check_snapshot io w observed =
     (if ws_wait_kind w \<noteq> WkPrChecks then None else io_snapshot io w observed)"

definition artifact_attempt :: "ArtifactPhase \<Rightarrow> string option \<Rightarrow> ArtifactWarning list" where
  "artifact_attempt phase r = (case r of Some e \<Rightarrow> [\<lparr>aw_phase = phase, aw_error = e\<rparr>] | None \<Rightarrow> [])"

definition persist_poll_artifacts :: "PollIo \<Rightarrow> WaitStateRecord \<Rightarrow> PollDecision \<Rightarrow> ArtifactWarning list" where
  "persist_poll_artifacts io w decision =
     artifact_attempt PollResult (io_poll_result io (ws_run_id w) decision) @
     (if pd_classification decision = ReadyToResume
      then artifact_attempt WaitStatePhase (io_wait_state io (ws_run_id w) w) @
           artifact_attempt ResumeDecision (io_resume_decision io (ws_run_id w) decision)
      else [])"

definition poll_artifact_warnings :: "PollIo \<Rightarrow> WaitStateRecord \<Rightarrow> PollDecision \<Rightarrow> ArtifactWarning list" where
  "poll_artifact_warnings io w decision =
     (case write_committed_pr_check_snapshot io w (pd_observed_state decision) of
        None \<Rightarrow> persist_poll_artifacts io w decision
      | Some err \<Rightarrow>
          \<lparr>aw_phase = PrCheckSnapshot, aw_error = err\<rparr> #
          persist_poll_artifacts io w
            (decision\<lparr>pd_observed_state := annotate_artifact_error (pd_observed_state decision) err\<rparr>))"

definition apply_poll_transaction ::
  "instant \<Rightarrow> WaitStateRecord \<Rightarrow> PollDecision \<Rightarrow> WaitDb \<Rightarrow> (WaitDb, PollApplyError) result" where
  "apply_poll_transaction now w decision db =
     (case pd_classification decision of
        ReadyToResume \<Rightarrow> apply_ready_to_resume now w db
      | TerminalFailure \<Rightarrow> apply_terminal_failure now w db
      | TimedOut \<Rightarrow> apply_terminal_failure now w db
      | StillWaiting \<Rightarrow> apply_still_waiting now w decision db
      | TransientFailure \<Rightarrow> apply_still_waiting now w decision db)"

text \<open>\<open>apply_poll_decision_at\<close>: an error rolls the transaction back.\<close>

definition apply_poll_decision_at ::
  "PollIo \<Rightarrow> instant \<Rightarrow> WaitStateRecord \<Rightarrow> PollDecision \<Rightarrow> WaitDb \<Rightarrow>
   WaitDb \<times> (PollApplyOutcome, PollApplyError) result" where
  "apply_poll_decision_at io now w decision db =
     (case apply_poll_transaction now w decision db of
        Err e \<Rightarrow> (db, Err e)
      | Ok db' \<Rightarrow>
          (db', Ok (case poll_artifact_warnings io w decision of
                      [] \<Rightarrow> Committed
                    | warnings \<Rightarrow> CommittedWithArtifactWarnings warnings)))"

section \<open>The polling pass\<close>

datatype SkippedPollReason =
    SpLeaseTransitionRejected
  | SpWaitStateConcurrentTransition
  | SpRunStatusConcurrentTransition
  | SpRunMissing

record SkippedPollDetail =
  sp_run_id :: string
  sp_lease_id :: "string option"
  sp_step_id :: string
  sp_reason :: SkippedPollReason
  sp_lease_transition_reason :: "string option"

record LeaseStatePreservedDetail =
  lp_run_id :: string
  lp_current_status :: "LeaseStatus option"
  lp_current_run_id :: "string option"

record ArtifactWarningDetail =
  ad_run_id :: string
  ad_phase :: ArtifactPhase
  ad_error :: string

record RunSummary =
  su_eligible :: nat
  su_launched :: nat
  su_resumed :: nat
  su_suspended :: nat
  su_failed :: nat
  su_lease_states_preserved :: nat
  su_lease_state_preserved_details :: "LeaseStatePreservedDetail list"
  su_lease_state_preserved_details_dropped :: nat
  su_skipped :: nat
  su_pollable_waits :: nat
  su_polls_applied :: nat
  su_skipped_polls :: nat
  su_skipped_poll_details :: "SkippedPollDetail list"
  su_skipped_poll_details_dropped :: nat
  su_artifact_warnings :: "ArtifactWarningDetail list"
  su_artifact_warnings_dropped :: nat

definition default_summary :: RunSummary where
  "default_summary =
     \<lparr>su_eligible = 0, su_launched = 0, su_resumed = 0, su_suspended = 0, su_failed = 0,
      su_lease_states_preserved = 0, su_lease_state_preserved_details = [],
      su_lease_state_preserved_details_dropped = 0, su_skipped = 0, su_pollable_waits = 0,
      su_polls_applied = 0, su_skipped_polls = 0, su_skipped_poll_details = [],
      su_skipped_poll_details_dropped = 0, su_artifact_warnings = [], su_artifact_warnings_dropped = 0\<rparr>"

definition MAX_SKIPPED_POLL_DETAILS :: nat where
  "MAX_SKIPPED_POLL_DETAILS = 100"

definition MAX_LEASE_STATE_PRESERVED_DETAILS :: nat where
  "MAX_LEASE_STATE_PRESERVED_DETAILS = 100"

definition MAX_ARTIFACT_WARNING_DETAILS :: nat where
  "MAX_ARTIFACT_WARNING_DETAILS = 100"

definition record_lease_state_preserved :: "LeaseStatePreservedDetail \<Rightarrow> RunSummary \<Rightarrow> RunSummary" where
  "record_lease_state_preserved d s =
     (let s1 = s\<lparr>su_lease_states_preserved := su_lease_states_preserved s + 1\<rparr>
      in if length (su_lease_state_preserved_details s) < MAX_LEASE_STATE_PRESERVED_DETAILS
         then s1\<lparr>su_lease_state_preserved_details := su_lease_state_preserved_details s @ [d]\<rparr>
         else s1\<lparr>su_lease_state_preserved_details_dropped := su_lease_state_preserved_details_dropped s + 1\<rparr>)"

definition record_skipped_poll :: "SkippedPollDetail \<Rightarrow> RunSummary \<Rightarrow> RunSummary" where
  "record_skipped_poll d s =
     (let s1 = s\<lparr>su_skipped_polls := su_skipped_polls s + 1\<rparr>
      in if length (su_skipped_poll_details s) < MAX_SKIPPED_POLL_DETAILS
         then s1\<lparr>su_skipped_poll_details := su_skipped_poll_details s @ [d]\<rparr>
         else s1\<lparr>su_skipped_poll_details_dropped := su_skipped_poll_details_dropped s + 1\<rparr>)"

definition record_artifact_warning :: "ArtifactWarningDetail \<Rightarrow> RunSummary \<Rightarrow> RunSummary" where
  "record_artifact_warning d s =
     (if length (su_artifact_warnings s) < MAX_ARTIFACT_WARNING_DETAILS
      then s\<lparr>su_artifact_warnings := su_artifact_warnings s @ [d]\<rparr>
      else s\<lparr>su_artifact_warnings_dropped := su_artifact_warnings_dropped s + 1\<rparr>)"

definition artifact_warning_count :: "RunSummary \<Rightarrow> nat" where
  "artifact_warning_count s = length (su_artifact_warnings s) + su_artifact_warnings_dropped s"

text \<open>
  One wait of the pass: the summary after its result, or the error that ends the pass. The
  four concurrent-transition errors become recorded skips.
\<close>

definition record_poll_result ::
  "WaitStateRecord \<Rightarrow> (PollApplyOutcome, PollApplyError) result \<Rightarrow> RunSummary \<Rightarrow> (RunSummary, PollApplyError) result" where
  "record_poll_result w r s =
     (case r of
        Ok Committed \<Rightarrow> Ok (s\<lparr>su_polls_applied := su_polls_applied s + 1\<rparr>)
      | Ok (CommittedWithArtifactWarnings ws) \<Rightarrow>
          Ok (fold (\<lambda>a. record_artifact_warning
                     \<lparr>ad_run_id = ws_run_id w, ad_phase = aw_phase a, ad_error = aw_error a\<rparr>) ws
                (s\<lparr>su_polls_applied := su_polls_applied s + 1\<rparr>))
      | Err (PaLeaseTransitionRejected run lease reason) \<Rightarrow>
          Ok (record_skipped_poll \<lparr>sp_run_id = run, sp_lease_id = Some lease, sp_step_id = ws_resume_step w,
                sp_reason = SpLeaseTransitionRejected, sp_lease_transition_reason = Some reason\<rparr> s)
      | Err (WaitStateConcurrentTransition run) \<Rightarrow>
          Ok (record_skipped_poll \<lparr>sp_run_id = run, sp_lease_id = ws_lease_id w, sp_step_id = ws_resume_step w,
                sp_reason = SpWaitStateConcurrentTransition, sp_lease_transition_reason = None\<rparr> s)
      | Err (RunStatusConcurrentTransition run step) \<Rightarrow>
          Ok (record_skipped_poll \<lparr>sp_run_id = run, sp_lease_id = ws_lease_id w, sp_step_id = step,
                sp_reason = SpRunStatusConcurrentTransition, sp_lease_transition_reason = None\<rparr> s)
      | Err (PaRunMissing run step) \<Rightarrow>
          Ok (record_skipped_poll \<lparr>sp_run_id = run, sp_lease_id = ws_lease_id w, sp_step_id = step,
                sp_reason = SpRunMissing, sp_lease_transition_reason = None\<rparr> s)
      | Err e \<Rightarrow> Err e)"

text \<open>
  The poller decides on the record, the database and the outside world; the clock is read from
  the world.
\<close>

record 'w PollEnv =
  pe_poll :: "WaitStateRecord \<Rightarrow> WaitDb \<Rightarrow> 'w \<Rightarrow> PollDecision \<times> 'w"
  pe_now :: "'w \<Rightarrow> instant"
  pe_io :: PollIo

fun poll_waits ::
  "'w PollEnv \<Rightarrow> wait_table \<Rightarrow> 'w \<Rightarrow> WaitDb \<Rightarrow> RunSummary \<Rightarrow> 'w \<times> WaitDb \<times> (RunSummary, PollApplyError) result" where
  "poll_waits env [] w db s = (w, db, Ok s)"
| "poll_waits env (wait # waits) w db s =
     (let (decision, w1) = pe_poll env wait db w;
          (db1, r) = apply_poll_decision_at (pe_io env) (pe_now env w1) wait decision db
      in case record_poll_result wait r s of
           Err e \<Rightarrow> (w1, db1, Err e)
         | Ok s1 \<Rightarrow> poll_waits env waits w1 db1 s1)"

definition poll_due_waits :: "'w PollEnv \<Rightarrow> 'w \<Rightarrow> WaitDb \<Rightarrow> 'w \<times> WaitDb \<times> (RunSummary, PollApplyError) result" where
  "poll_due_waits env w db =
     (let waits = list_pollable_wait_states (pe_now env w) db
      in poll_waits env waits w db (default_summary\<lparr>su_pollable_waits := length waits\<rparr>))"

section \<open>What a committed decision has done\<close>

text \<open>The target of each classification.\<close>

fun decided_run_status :: "PollClassification \<Rightarrow> RunStatus" where
  "decided_run_status ReadyToResume = RReadyToResume"
| "decided_run_status TerminalFailure = RFailed"
| "decided_run_status TimedOut = RFailed"
| "decided_run_status StillWaiting = RWaitingExternal"
| "decided_run_status TransientFailure = RWaitingExternal"

fun decided_lease_status :: "PollClassification \<Rightarrow> LeaseStatus" where
  "decided_lease_status ReadyToResume = LReadyToResume"
| "decided_lease_status TerminalFailure = LFailed"
| "decided_lease_status TimedOut = LFailed"
| "decided_lease_status StillWaiting = LWaitingExternal"
| "decided_lease_status TransientFailure = LWaitingExternal"

definition keeps_polling :: "PollClassification \<Rightarrow> bool" where
  "keeps_polling c \<longleftrightarrow> c = StillWaiting \<or> c = TransientFailure"

definition polled_row :: "instant \<Rightarrow> PollDecision \<Rightarrow> WaitStateRecord \<Rightarrow> WaitStateRecord \<Rightarrow> WaitStateRecord" where
  "polled_row now decision w old =
     old\<lparr>ws_last_observed_state := pd_observed_state decision,
         ws_next_poll_at := validated_next_poll_time w (pd_next_poll_at decision) now,
         ws_poll_count := ws_poll_count old + 1, ws_updated_at := now\<rparr>"

lemma validated_later: "now < validated_next_poll_time w candidate now"
  by (simp add: validated_next_poll_time_def next_poll_time_later split: option.split)

lemma mark_run_status_ok:
  assumes "unique_key rm_run_id runs" and "mark_run_status now run st step [RWaitingExternal] runs = Ok runs'"
  shows "\<exists>m. get_run_with_conn run runs = Some m \<and> rm_status m = RWaitingExternal \<and>
    get_run_with_conn run runs' = Some (set_status_and_step now st (Some step) m) \<and>
    (\<forall>other. other \<noteq> run \<longrightarrow> get_run_with_conn other runs' = get_run_with_conn other runs)"
proof -
  let ?g = "expected_guard run [RWaitingExternal]"
  have r: "runs' = update_where ?g (set_status_and_step now st (Some step)) runs" and pos: "0 < count_where ?g runs"
    using assms(2) by (auto simp: mark_run_status_def persist_run_status_from_expected_def Let_def
        classify_expected_status_rejection_def split: option.splits prod.splits if_splits ExpectedRunStatusOutcome.splits)
  from pos obtain m where m: "m \<in> set runs" "?g m" by (auto simp: count_where_pos)
  have row: "get_run_with_conn k runs' =
      map_option (\<lambda>r. if ?g r then set_status_and_step now st (Some step) r else r) (get_run_with_conn k runs)" for k
    unfolding get_run_with_conn_def r by (rule lookup_by_update_where) simp
  have own: "get_run_with_conn run runs = Some m"
    using lookup_by_unique [OF assms(1) m(1)] m(2) by (simp add: get_run_with_conn_def expected_guard_def)
  have "get_run_with_conn other runs' = get_run_with_conn other runs" if "other \<noteq> run" for other
    using that row [of other] by (cases "get_run_with_conn other runs")
      (auto simp: expected_guard_def get_run_with_conn_def dest: lookup_by_SomeD)
  then show ?thesis using own m(2) row [of run] by (auto simp: expected_guard_def)
qed

lemma mark_run_status_waiting:
  assumes "unique_key rm_run_id runs" and "get_run_with_conn run runs = Some m" and "rm_status m = RWaitingExternal"
  shows "\<exists>runs'. mark_run_status now run st step [RWaitingExternal] runs = Ok runs'"
proof -
  have "0 < count_where (expected_guard run [RWaitingExternal]) runs"
    using assms(2,3) lookup_by_SomeD [of rm_run_id run runs m]
    by (auto simp: count_where_pos get_run_with_conn_def expected_guard_def)
  then show ?thesis by (simp add: mark_run_status_def persist_run_status_from_expected_def Let_def)
qed

text \<open>The lease of the wait, if it has one, moved from an expected status under the same run.\<close>

definition wait_lease_moved ::
  "instant \<Rightarrow> WaitStateRecord \<Rightarrow> LeaseStatus \<Rightarrow> lease_table \<Rightarrow> lease_table \<Rightarrow> bool" where
  "wait_lease_moved now w st ls ls' \<longleftrightarrow>
     (case ws_lease_id w of
        None \<Rightarrow> ls' = ls
      | Some i \<Rightarrow>
          (\<exists>l. lookup_by il_lease_id i ls = Some l \<and> il_run_id l = Some (ws_run_id w) \<and>
             blocks_duplicate_work (il_status l) \<and>
             lookup_by il_lease_id i ls' = Some (set_lease_status now st None l)) \<and>
          (\<forall>j. j \<noteq> i \<longrightarrow> lookup_by il_lease_id j ls' = lookup_by il_lease_id j ls))"

lemma move_wait_lease_ok:
  assumes "unique_key il_lease_id ls" and "move_wait_lease now w st expected reason ls = Ok ls'"
    and "\<forall>s \<in> set expected. blocks_duplicate_work s"
  shows "wait_lease_moved now w st ls ls'"
proof (cases "ws_lease_id w")
  case None
  then show ?thesis using assms(2) by (simp add: move_wait_lease_def wait_lease_moved_def)
next
  case (Some i)
  let ?g = "cond_guard i expected (Some (ws_run_id w))"
  have ls': "ls' = update_where ?g (set_lease_status now st None) ls" and pos: "0 < count_where ?g ls"
    using assms(2) by (auto simp: move_wait_lease_def Some update_lease_status_conditional_def
        split: result.splits prod.splits if_splits)
  from pos obtain l where l: "l \<in> set ls" "?g l" by (auto simp: count_where_pos)
  have row: "lookup_by il_lease_id j ls' =
      map_option (\<lambda>l. if ?g l then set_lease_status now st None l else l) (lookup_by il_lease_id j ls)" for j
    unfolding ls' by (rule lookup_by_update_where) (simp add: set_lease_status_def)
  have "lookup_by il_lease_id i ls = Some l"
    using lookup_by_unique [OF assms(1) l(1)] l(2) by (simp add: cond_guard_def)
  moreover have "lookup_by il_lease_id j ls' = lookup_by il_lease_id j ls" if "j \<noteq> i" for j
    using that by (cases "lookup_by il_lease_id j ls") (auto simp: row cond_guard_def dest: lookup_by_SomeD)
  ultimately show ?thesis
    using l(2) assms(3) row [of i] by (auto simp: wait_lease_moved_def Some cond_guard_def)
qed

lemma delete_suspension_ok:
  assumes "unique_key ws_run_id ws" and "delete_wait_state_for_suspension run susp ws = (ws', True)"
  shows "(\<exists>old. get_wait_state run ws = Some old \<and> ws_suspension_id old = susp) \<and> get_wait_state run ws' = None \<and>
    (\<forall>other. other \<noteq> run \<longrightarrow> get_wait_state other ws' = get_wait_state other ws)"
proof -
  have ws': "ws' = filter (\<lambda>w. \<not> (ws_run_id w = run \<and> ws_suspension_id w = susp)) ws"
    using assms(2) by (simp add: delete_wait_state_for_suspension_def)
  have "0 < count_where (\<lambda>w. ws_run_id w = run \<and> ws_suspension_id w = susp) ws"
    using assms(2) by (simp add: delete_wait_state_for_suspension_def)
  then obtain old where old: "old \<in> set ws" "ws_run_id old = run" "ws_suspension_id old = susp"
    by (auto simp: count_where_pos)
  have "w = old" if "w \<in> set ws" "ws_run_id w = run" for w
    using unique_keyD [OF assms(1) that(1) old(1)] that(2) old(2) by simp
  then have "get_wait_state run ws' = None"
    using old(3) by (auto simp: get_wait_state_def lookup_by_None ws')
  moreover have "get_wait_state other ws' = get_wait_state other ws" if "other \<noteq> run" for other
    using that unfolding get_wait_state_def ws' by (induction ws) auto
  ultimately show ?thesis
    using lookup_by_unique [OF assms(1) old(1)] old(2,3) by (auto simp: get_wait_state_def)
qed

lemma poll_update_ok:
  assumes "unique_key ws_run_id ws"
    and "update_wait_state_after_poll now run obs nxt count susp ws = Ok (ws', True)"
  shows "\<exists>old. get_wait_state run ws = Some old \<and> ws_suspension_id old = susp \<and> ws_poll_count old = count \<and>
    get_wait_state run ws' = Some (old\<lparr>ws_last_observed_state := obs, ws_next_poll_at := nxt,
      ws_poll_count := ws_poll_count old + 1, ws_updated_at := now\<rparr>) \<and>
    (\<forall>other. other \<noteq> run \<longrightarrow> get_wait_state other ws' = get_wait_state other ws)"
proof -
  let ?g = "poll_guard run count susp"
  let ?f = "\<lambda>w. w\<lparr>ws_last_observed_state := obs, ws_next_poll_at := nxt, ws_poll_count := ws_poll_count w + 1, ws_updated_at := now\<rparr>"
  have ws': "ws' = update_where ?g ?f ws" and pos: "0 < count_where ?g ws"
    using assms(2) by (auto simp: update_wait_state_after_poll_def split: if_splits)
  from pos obtain old where old: "old \<in> set ws" "?g old" by (auto simp: count_where_pos)
  have row: "get_wait_state k ws' = map_option (\<lambda>w. if ?g w then ?f w else w) (get_wait_state k ws)" for k
    unfolding get_wait_state_def ws' by (rule lookup_by_update_where) simp
  have own: "get_wait_state run ws = Some old"
    using lookup_by_unique [OF assms(1) old(1)] old(2) by (simp add: get_wait_state_def poll_guard_def)
  have "get_wait_state other ws' = get_wait_state other ws" if "other \<noteq> run" for other
    using that row [of other] by (cases "get_wait_state other ws")
      (auto simp: poll_guard_def get_wait_state_def dest: lookup_by_SomeD)
  then show ?thesis using own old(2) row [of run] by (auto simp: poll_guard_def)
qed


text \<open>The transaction of each group of classifications, from its parts.\<close>

lemma delivered_cases:
  assumes "unique_key rm_run_id (db_runs db)" and "unique_key il_lease_id (db_leases db)"
    and "unique_key ws_run_id (db_waits db)" and "checkpoints_ok (db_checkpoints db)"
    and "\<forall>r \<in> set (db_checkpoints db). cr_timestamp r < now"
    and "apply_ready_to_resume now w db = Ok db'"
  shows "wait_lease_moved now w LReadyToResume (db_leases db) (db_leases db') \<and>
    mark_run_status now (ws_run_id w) RReadyToResume (ws_resume_step w) [RWaitingExternal] (db_runs db) = Ok (db_runs db') \<and>
    delete_wait_state_for_suspension (ws_run_id w) (ws_suspension_id w) (db_waits db) = (db_waits db', True) \<and>
    map_option cp_step_id (load_checkpoint_with_conn (ws_run_id w) (db_checkpoints db')) = Some (ws_resume_step w)"
proof -
  obtain waits cps ts runs ls where
      d: "delete_wait_state_for_suspension (ws_run_id w) (ws_suspension_id w) (db_waits db) = (waits, True)"
    and c: "set_resume_point now (ws_run_id w) (ws_resume_step w) (db_checkpoints db) = Ok (cps, ts)"
    and r: "mark_run_status now (ws_run_id w) RReadyToResume (ws_resume_step w) [RWaitingExternal] (db_runs db) = Ok runs"
    and l: "move_wait_lease now w LReadyToResume [LWaitingExternal, LReadyToResume] READY_TRANSITION_REJECTED
        (db_leases db) = Ok ls"
    and db': "db' = db\<lparr>db_waits := waits, db_checkpoints := cps, db_runs := runs, db_leases := ls\<rparr>"
    using assms(6) by (auto simp: apply_ready_to_resume_def split: prod.splits if_splits result.splits)
  have "wait_lease_moved now w LReadyToResume (db_leases db) ls"
    by (rule move_wait_lease_ok [OF assms(2) l]) (simp add: blocks_duplicate_work_def RECLAIMABLE_def)
  then show ?thesis using d r resume_point_step [OF assms(4,5) c] by (simp add: db')
qed

lemma terminated_cases:
  assumes "unique_key il_lease_id (db_leases db)" and "apply_terminal_failure now w db = Ok db'"
  shows "wait_lease_moved now w LFailed (db_leases db) (db_leases db') \<and>
    mark_run_status now (ws_run_id w) RFailed (ws_resume_step w) [RWaitingExternal] (db_runs db) = Ok (db_runs db') \<and>
    delete_wait_state_for_suspension (ws_run_id w) (ws_suspension_id w) (db_waits db) = (db_waits db', True)"
proof -
  obtain waits runs ls where
      d: "delete_wait_state_for_suspension (ws_run_id w) (ws_suspension_id w) (db_waits db) = (waits, True)"
    and r: "mark_run_status now (ws_run_id w) RFailed (ws_resume_step w) [RWaitingExternal] (db_runs db) = Ok runs"
    and l: "move_wait_lease now w LFailed [LWaitingExternal, LReadyToResume, LRunning, LClaimed]
        TERMINAL_TRANSITION_REJECTED (db_leases db) = Ok ls"
    and db': "db' = db\<lparr>db_waits := waits, db_runs := runs, db_leases := ls\<rparr>"
    using assms(2) by (auto simp: apply_terminal_failure_def split: prod.splits if_splits result.splits)
  have "wait_lease_moved now w LFailed (db_leases db) ls"
    by (rule move_wait_lease_ok [OF assms(1) l]) (simp add: blocks_duplicate_work_def RECLAIMABLE_def)
  then show ?thesis using d r by (simp add: db')
qed

lemma kept_waiting_cases:
  assumes "unique_key il_lease_id (db_leases db)" and "apply_still_waiting now w d db = Ok db'"
  shows "wait_lease_moved now w LWaitingExternal (db_leases db) (db_leases db') \<and>
    mark_run_status now (ws_run_id w) RWaitingExternal (ws_resume_step w) [RWaitingExternal] (db_runs db) = Ok (db_runs db') \<and>
    update_wait_state_after_poll now (ws_run_id w) (pd_observed_state d)
      (validated_next_poll_time w (pd_next_poll_at d) now) (ws_poll_count w) (ws_suspension_id w) (db_waits db) =
      Ok (db_waits db', True)"
proof -
  obtain waits runs ls where
      u: "update_wait_state_after_poll now (ws_run_id w) (pd_observed_state d)
        (validated_next_poll_time w (pd_next_poll_at d) now) (ws_poll_count w) (ws_suspension_id w) (db_waits db) =
        Ok (waits, True)"
    and r: "mark_run_status now (ws_run_id w) RWaitingExternal (ws_resume_step w) [RWaitingExternal] (db_runs db) = Ok runs"
    and l: "move_wait_lease now w LWaitingExternal [LWaitingExternal] STILL_WAITING_TRANSITION_REJECTED (db_leases db) = Ok ls"
    and db': "db' = db\<lparr>db_waits := waits, db_runs := runs, db_leases := ls\<rparr>"
    using assms(2) by (auto simp: apply_still_waiting_def split: prod.splits if_splits result.splits)
  have "wait_lease_moved now w LWaitingExternal (db_leases db) ls"
    by (rule move_wait_lease_ok [OF assms(1) l]) (simp add: blocks_duplicate_work_def RECLAIMABLE_def)
  then show ?thesis using u r by (simp add: db')
qed

lemma poll_decision_cases:
  assumes "unique_key rm_run_id (db_runs db)" and "unique_key il_lease_id (db_leases db)"
    and "unique_key ws_run_id (db_waits db)" and "checkpoints_ok (db_checkpoints db)"
    and "\<forall>r \<in> set (db_checkpoints db). cr_timestamp r < now"
    and "apply_poll_decision_at io now w d db = (db', res)"
  shows "case res of
      Err e \<Rightarrow> db' = db
    | Ok out \<Rightarrow>
        (out = Committed \<longleftrightarrow> poll_artifact_warnings io w d = []) \<and>
        (\<exists>m. get_run_with_conn (ws_run_id w) (db_runs db) = Some m \<and> rm_status m = RWaitingExternal \<and>
           get_run_with_conn (ws_run_id w) (db_runs db') =
             Some (set_status_and_step now (decided_run_status (pd_classification d)) (Some (ws_resume_step w)) m)) \<and>
        wait_lease_moved now w (decided_lease_status (pd_classification d)) (db_leases db) (db_leases db') \<and>
        (\<exists>old. get_wait_state (ws_run_id w) (db_waits db) = Some old \<and> ws_suspension_id old = ws_suspension_id w \<and>
           get_wait_state (ws_run_id w) (db_waits db') =
             (if keeps_polling (pd_classification d) then Some (polled_row now d w old) else None)) \<and>
        now < validated_next_poll_time w (pd_next_poll_at d) now \<and>
        (pd_classification d = ReadyToResume \<longrightarrow>
           map_option cp_step_id (load_checkpoint_with_conn (ws_run_id w) (db_checkpoints db')) = Some (ws_resume_step w)) \<and>
        (\<forall>other. other \<noteq> ws_run_id w \<longrightarrow>
           get_run_with_conn other (db_runs db') = get_run_with_conn other (db_runs db) \<and>
           get_wait_state other (db_waits db') = get_wait_state other (db_waits db))"
proof (cases "apply_poll_transaction now w d db")
  case (Err e)
  then show ?thesis using assms(6) by (auto simp: apply_poll_decision_at_def)
next
  case (Ok db1)
  then have db1: "db' = db1" and res: "res = Ok (case poll_artifact_warnings io w d of
      [] \<Rightarrow> Committed | warnings \<Rightarrow> CommittedWithArtifactWarnings warnings)"
    using assms(6) by (auto simp: apply_poll_decision_at_def)
  have warn: "(case poll_artifact_warnings io w d of [] \<Rightarrow> Committed
      | a # as \<Rightarrow> CommittedWithArtifactWarnings (a # as)) = Committed \<longleftrightarrow> poll_artifact_warnings io w d = []"
    by (cases "poll_artifact_warnings io w d") simp_all
  note ready = delivered_cases [OF assms(1-5), of w db1]
    and failed = terminated_cases [OF assms(2), of now w db1]
    and kept = kept_waiting_cases [OF assms(2), of now w d db1]
    and runs = mark_run_status_ok [OF assms(1), of now "ws_run_id w" _ "ws_resume_step w" "db_runs db1"]
    and waits = delete_suspension_ok [OF assms(3), of "ws_run_id w" "ws_suspension_id w" "db_waits db1"]
    and polls = poll_update_ok [OF assms(3), of now "ws_run_id w" "pd_observed_state d"
        "validated_next_poll_time w (pd_next_poll_at d) now" "ws_poll_count w" "ws_suspension_id w" "db_waits db1"]
  show ?thesis
  proof (cases "pd_classification d")
    case StillWaiting
    with Ok have "apply_still_waiting now w d db = Ok db1" by (simp add: apply_poll_transaction_def)
    from kept [OF this] StillWaiting runs [of RWaitingExternal] polls show ?thesis
      by (auto simp: res warn db1 validated_later keeps_polling_def polled_row_def)
  next
    case TransientFailure
    with Ok have "apply_still_waiting now w d db = Ok db1" by (simp add: apply_poll_transaction_def)
    from kept [OF this] TransientFailure runs [of RWaitingExternal] polls show ?thesis
      by (auto simp: res warn db1 validated_later keeps_polling_def polled_row_def)
  next
    case ReadyToResume
    with Ok have "apply_ready_to_resume now w db = Ok db1" by (simp add: apply_poll_transaction_def)
    from ready [OF this] ReadyToResume runs [of RReadyToResume] waits show ?thesis
      by (auto simp: res warn db1 validated_later keeps_polling_def)
  next
    case TerminalFailure
    with Ok have "apply_terminal_failure now w db = Ok db1" by (simp add: apply_poll_transaction_def)
    from failed [OF this] TerminalFailure runs [of RFailed] waits show ?thesis
      by (auto simp: res warn db1 validated_later keeps_polling_def)
  next
    case TimedOut
    with Ok have "apply_terminal_failure now w db = Ok db1" by (simp add: apply_poll_transaction_def)
    from failed [OF this] TimedOut runs [of RFailed] waits show ?thesis
      by (auto simp: res warn db1 validated_later keeps_polling_def)
  qed
qed

text \<open>
  A poll decision is applied completely or not at all. An error leaves the database as it
  was. A committed decision found the run waiting and its wait row still of the polled
  suspension; run and lease take the status of the classification together, the lease still
  owned by that run and not terminal before; a decision that keeps polling records the
  observation, counts the poll and schedules the next one strictly later, any other removes
  the row, and a ready one makes the resume step the run's resume point. Other runs, waits and
  leases are untouched. Failing artifact writes never undo a commit: they are reported.
\<close>

theorem poll_decision_is_atomic:
  assumes "unique_key rm_run_id (db_runs db)" and "unique_key il_lease_id (db_leases db)"
    and "unique_key ws_run_id (db_waits db)" and "checkpoints_ok (db_checkpoints db)"
    and "\<forall>r \<in> set (db_checkpoints db). cr_timestamp r < now"
    and "apply_poll_decision_at io now w d db = (db', res)"
  shows "case res of
      Err e \<Rightarrow> db' = db
    | Ok out \<Rightarrow>
        (out = Committed \<longleftrightarrow> poll_artifact_warnings io w d = []) \<and>
        (\<exists>m. get_run_with_conn (ws_run_id w) (db_runs db) = Some m \<and> rm_status m = RWaitingExternal \<and>
           get_run_with_conn (ws_run_id w) (db_runs db') =
             Some (set_status_and_step now (decided_run_status (pd_classification d)) (Some (ws_resume_step w)) m)) \<and>
        wait_lease_moved now w (decided_lease_status (pd_classification d)) (db_leases db) (db_leases db') \<and>
        (\<exists>old. get_wait_state (ws_run_id w) (db_waits db) = Some old \<and> ws_suspension_id old = ws_suspension_id w \<and>
           get_wait_state (ws_run_id w) (db_waits db') =
             (if keeps_polling (pd_classification d) then Some (polled_row now d w old) else None)) \<and>
        now < validated_next_poll_time w (pd_next_poll_at d) now \<and>
        (pd_classification d = ReadyToResume \<longrightarrow>
           map_option cp_step_id (load_checkpoint_with_conn (ws_run_id w) (db_checkpoints db')) = Some (ws_resume_step w)) \<and>
        (\<forall>other. other \<noteq> ws_run_id w \<longrightarrow>
           get_run_with_conn other (db_runs db') = get_run_with_conn other (db_runs db) \<and>
           get_wait_state other (db_waits db') = get_wait_state other (db_waits db))"
  by (rule poll_decision_cases [OF assms])



section \<open>A suspended run can be resumed\<close>

lemma move_wait_lease_owned:
  assumes "ws_lease_id w = Some i" and "lookup_by il_lease_id i ls = Some l" and "il_run_id l = Some (ws_run_id w)"
    and "il_status l \<in> set expected"
  shows "\<exists>ls'. move_wait_lease now w st expected reason ls = Ok ls'"
proof -
  have "0 < count_where (cond_guard i expected (Some (ws_run_id w))) ls"
    using assms lookup_by_SomeD [OF assms(2)] by (auto simp: count_where_pos cond_guard_def)
  moreover have "expected \<noteq> []" using assms(4) by auto
  ultimately show ?thesis by (simp add: move_wait_lease_def assms(1) update_lease_status_conditional_def)
qed

text \<open>The state a suspension leaves behind, as the poller finds it.\<close>

definition suspended :: "WaitStateRecord \<Rightarrow> string \<Rightarrow> WaitDb \<Rightarrow> bool" where
  "suspended w i db \<longleftrightarrow>
     unique_key rm_run_id (db_runs db) \<and> unique_key il_lease_id (db_leases db) \<and>
     unique_key ws_run_id (db_waits db) \<and> ws_lease_id w = Some i \<and> fits_i64 (ws_poll_count w) \<and>
     (\<exists>m. get_run_with_conn (ws_run_id w) (db_runs db) = Some m \<and> rm_status m = RWaitingExternal) \<and>
     (\<exists>l. lookup_by il_lease_id i (db_leases db) = Some l \<and> il_run_id l = Some (ws_run_id w) \<and>
        il_status l = LWaitingExternal) \<and>
     (\<exists>t. get_wait_state (ws_run_id w) (db_waits db) = Some (w\<lparr>ws_created_at := t\<rparr>)) \<and>
     (\<exists>r \<in> set (db_checkpoints db). checkpoint_key r = (ws_run_id w, ws_resume_step w))"

lemma suspension_leaves:
  assumes "unique_key rm_run_id (db_runs db)" and "unique_key il_lease_id (db_leases db)"
    and "unique_key ws_run_id (db_waits db)" and "persist_external_wait now w db = Ok db'"
  shows "\<exists>i. suspended w i db'"
proof -
  obtain i cps ts runs waits leases where i: "wait_identity w = Ok i"
    and c: "set_resume_point now (ws_run_id w) (ws_resume_step w) (db_checkpoints db) = Ok (cps, ts)"
    and r: "mark_run_waiting_external now (ws_run_id w) (ws_resume_step w) (db_runs db) = Ok runs"
    and u: "upsert_wait_state w (db_waits db) = Ok waits"
    and l: "update_lease_status_conditional now i LWaitingExternal [LRunning, LWaitingExternal] None
        (Some (ws_run_id w)) (db_leases db) = Ok (leases, True)"
    and db': "db' = db\<lparr>db_checkpoints := cps, db_runs := runs, db_waits := waits, db_leases := leases\<rparr>"
    using assms(4) by (auto simp: persist_external_wait_def split: result.splits prod.splits if_splits)
  have "unique_key rm_run_id runs"
    using r assms(1) by (auto simp: mark_run_waiting_external_def persist_run_status_conditional_outcome_def
        persist_run_status_conditional_with_conn_def Let_def unique_key_update_where
        split: prod.splits ConditionalStatusOutcome.splits if_splits option.splits)
  moreover have ul: "unique_key il_lease_id leases"
    using l assms(2) by (auto simp: update_lease_status_conditional_def unique_key_update_where set_lease_status_def
        split: if_splits)
  moreover have "unique_key ws_run_id waits"
    using u assms(3) by (auto simp: upsert_wait_state_def intro!: unique_key_upsert split: if_splits result.splits)
  moreover have "fits_i64 (ws_poll_count w)"
    using u by (auto simp: upsert_wait_state_def record_params_def split: if_splits result.splits)
  moreover have "\<exists>l. lookup_by il_lease_id i leases = Some l \<and> il_run_id l = Some (ws_run_id w) \<and> il_status l = LWaitingExternal"
  proof -
    have "\<exists>x \<in> set leases. il_lease_id x = i \<and> il_run_id x = Some (ws_run_id w) \<and> il_status x = LWaitingExternal"
      by (rule conditional_lease_row) (use l in simp_all)
    then show ?thesis using lookup_by_unique [OF ul] by blast
  qed
  moreover have "\<exists>r \<in> set cps. checkpoint_key r = (ws_run_id w, ws_resume_step w)"
  proof -
    have "\<exists>r \<in> set (db_checkpoints db). checkpoint_key r = (ws_run_id w, ws_resume_step w)"
      using c by (auto simp: set_resume_point_def Let_def count_where_0 split: if_splits)
    moreover have "map checkpoint_key cps = map checkpoint_key (db_checkpoints db)"
      using c by (auto simp: set_resume_point_def Let_def map_key_update_where split: if_splits)
    then have "checkpoint_key ` set cps = checkpoint_key ` set (db_checkpoints db)" by (metis list.set_map)
    ultimately show ?thesis by (metis (no_types, lifting) image_iff)
  qed
  ultimately show ?thesis
    using mark_waiting_ok [OF assms(1) r] upsert_wait_ok [OF u] wait_identity_ok [OF i]
    by (intro exI [of _ i]) (auto simp: suspended_def db' set_status_and_step_def)
qed

lemma suspended_poll_commits:
  assumes "suspended w i db"
  shows "\<exists>db'. apply_poll_transaction now w d db = Ok db'"
proof -
  from assms obtain m l t where s: "unique_key rm_run_id (db_runs db)" "ws_lease_id w = Some i" "fits_i64 (ws_poll_count w)"
      "get_run_with_conn (ws_run_id w) (db_runs db) = Some m" "rm_status m = RWaitingExternal"
      "lookup_by il_lease_id i (db_leases db) = Some l" "il_run_id l = Some (ws_run_id w)" "il_status l = LWaitingExternal"
      "get_wait_state (ws_run_id w) (db_waits db) = Some (w\<lparr>ws_created_at := t\<rparr>)"
      "\<exists>r \<in> set (db_checkpoints db). checkpoint_key r = (ws_run_id w, ws_resume_step w)"
    by (auto simp: suspended_def)
  have w: "w\<lparr>ws_created_at := t\<rparr> \<in> set (db_waits db)"
    using s(9) lookup_by_SomeD [of ws_run_id] by (fastforce simp: get_wait_state_def)
  have del: "snd (delete_wait_state_for_suspension (ws_run_id w) (ws_suspension_id w) (db_waits db))"
    by (auto simp: delete_wait_state_for_suspension_def count_where_pos intro!: bexI [OF _ w])
  have upd: "\<exists>ws. update_wait_state_after_poll now (ws_run_id w) obs nxt (ws_poll_count w) (ws_suspension_id w)
      (db_waits db) = Ok (ws, True)" for obs nxt
    using s(3) by (auto simp: update_wait_state_after_poll_def count_where_pos poll_guard_def intro!: bexI [OF _ w])
  have res: "\<exists>cps. set_resume_point now (ws_run_id w) (ws_resume_step w) (db_checkpoints db) = Ok (cps, now)"
    using s(10) by (auto simp: set_resume_point_def Let_def count_where_0)
  have run: "\<exists>runs. mark_run_status now (ws_run_id w) st (ws_resume_step w) [RWaitingExternal] (db_runs db) = Ok runs" for st
    by (rule mark_run_status_waiting [OF s(1,4,5)])
  have lease: "\<exists>ls. move_wait_lease now w st (LWaitingExternal # ex) reason (db_leases db) = Ok ls" for st ex reason
    by (rule move_wait_lease_owned [OF s(2,6,7)]) (simp add: s(8))
  have "\<exists>db'. apply_ready_to_resume now w db = Ok db'"
    using del res run [of RReadyToResume] lease [of LReadyToResume "[LReadyToResume]" READY_TRANSITION_REJECTED]
    by (auto simp: apply_ready_to_resume_def split: prod.split)
  moreover have "\<exists>db'. apply_terminal_failure now w db = Ok db'"
    using del run [of RFailed] lease [of LFailed "[LReadyToResume, LRunning, LClaimed]" TERMINAL_TRANSITION_REJECTED]
    by (auto simp: apply_terminal_failure_def split: prod.split)
  moreover have "\<exists>db'. apply_still_waiting now w d db = Ok db'"
    using upd [of "pd_observed_state d" "validated_next_poll_time w (pd_next_poll_at d) now"]
      run [of RWaitingExternal] lease [of LWaitingExternal "[]" STILL_WAITING_TRANSITION_REJECTED]
    by (auto simp: apply_still_waiting_def)
  ultimately show ?thesis by (cases "pd_classification d") (simp_all add: apply_poll_transaction_def)
qed


lemma suspension_checkpoints:
  assumes "checkpoints_ok (db_checkpoints db)" and "\<forall>r \<in> set (db_checkpoints db). cr_timestamp r < now"
    and "now < later" and "persist_external_wait now w db = Ok db1"
  shows "checkpoints_ok (db_checkpoints db1) \<and> (\<forall>r \<in> set (db_checkpoints db1). cr_timestamp r < later)"
proof -
  obtain cps ts where c: "set_resume_point now (ws_run_id w) (ws_resume_step w) (db_checkpoints db) = Ok (cps, ts)"
    and cps: "db_checkpoints db1 = cps"
    using assms(4) by (auto simp: persist_external_wait_def split: result.splits prod.splits if_splits)
  have "checkpoints_ok cps"
    using set_resume_point_newest [OF assms(1,2), of "ws_run_id w" "ws_resume_step w"] c by simp
  moreover have "\<forall>r \<in> set cps. cr_timestamp r < later"
    using c assms(2,3) by (force simp: set_resume_point_def Let_def set_update_where split: if_splits)
  ultimately show ?thesis by (simp add: cps)
qed

lemma suspension_identity:
  assumes "persist_external_wait now w db = Ok db1"
  obtains i where "wait_identity w = Ok i"
  using assms by (auto simp: persist_external_wait_def split: result.splits)

text \<open>
  C38: a suspended run can be resumed. After a successful suspension the next decision of the
  poller always commits, whatever its classification and even when artifact writes fail: a
  ready decision puts the lease under its run into the list the scheduler resumes from, with
  the run ready and its resume point at the step it waits in, a decision to keep waiting
  leaves a complete pollable wait, and a failure ends run and lease together.
\<close>

theorem suspended_run_can_be_resumed:
  assumes "unique_key rm_run_id (db_runs db)" and "unique_key il_lease_id (db_leases db)"
    and "unique_key ws_run_id (db_waits db)" and "checkpoints_ok (db_checkpoints db)"
    and "\<forall>r \<in> set (db_checkpoints db). cr_timestamp r < now" and "now < later"
    and "persist_external_wait now w db = Ok db1"
  shows "\<exists>db2 out m. apply_poll_decision_at io later w d db1 = (db2, Ok out) \<and>
    get_run_with_conn (ws_run_id w) (db_runs db2) = Some m \<and>
    rm_status m = decided_run_status (pd_classification d) \<and>
    (case pd_classification d of
       ReadyToResume \<Rightarrow>
         map_option cp_step_id (load_checkpoint_with_conn (ws_run_id w) (db_checkpoints db2)) = Some (ws_resume_step w) \<and>
         (\<exists>config. \<exists>l \<in> set (list_ready_to_resume_leases config (db_leases db2)).
            Some (il_lease_id l) = ws_lease_id w \<and> il_run_id l = Some (ws_run_id w))
     | TerminalFailure \<Rightarrow> (\<exists>l \<in> set (db_leases db2). Some (il_lease_id l) = ws_lease_id w \<and> il_status l = LFailed)
     | TimedOut \<Rightarrow> (\<exists>l \<in> set (db_leases db2). Some (il_lease_id l) = ws_lease_id w \<and> il_status l = LFailed)
     | _ \<Rightarrow> has_pollable_external_wait (ws_run_id w) db2)"
proof -
  obtain i where s: "suspended w i db1" using suspension_leaves [OF assms(1-3,7)] by blast
  have u: "unique_key rm_run_id (db_runs db1)" "unique_key il_lease_id (db_leases db1)" "unique_key ws_run_id (db_waits db1)"
    and i: "ws_lease_id w = Some i" using s by (simp_all add: suspended_def)
  note ck = suspension_checkpoints [OF assms(4-7)]
  have id: "wait_identity w = Ok i"
    using suspension_identity [OF assms(7)] wait_identity_ok [of w] i by (metis option.inject)
  obtain db2 where t: "apply_poll_transaction later w d db1 = Ok db2" using suspended_poll_commits [OF s] by blast
  obtain out where a: "apply_poll_decision_at io later w d db1 = (db2, Ok out)"
    using t by (simp add: apply_poll_decision_at_def)
  note full = poll_decision_cases [OF u conjunct1 [OF ck] conjunct2 [OF ck] a, simplified]
  from full obtain m where m: "get_run_with_conn (ws_run_id w) (db_runs db2) = Some m"
      "rm_status m = decided_run_status (pd_classification d)"
    by (auto simp: set_status_and_step_def)
  from full obtain l where l: "l \<in> set (db_leases db2)" "il_lease_id l = i" "il_run_id l = Some (ws_run_id w)"
      "il_status l = decided_lease_status (pd_classification d)"
    by (auto simp: wait_lease_moved_def i set_lease_status_def coalesce_def dest: lookup_by_SomeD)
  have poll: "has_pollable_external_wait (ws_run_id w) db2" if k: "keeps_polling (pd_classification d)"
  proof -
    from full k obtain old where "get_wait_state (ws_run_id w) (db_waits db1) = Some old"
        "get_wait_state (ws_run_id w) (db_waits db2) = Some (polled_row later d w old)" by auto
    moreover from s obtain t where "get_wait_state (ws_run_id w) (db_waits db1) = Some (w\<lparr>ws_created_at := t\<rparr>)"
      by (auto simp: suspended_def)
    ultimately have "polled_row later d w (w\<lparr>ws_created_at := t\<rparr>) \<in> set (db_waits db2)"
      by (auto simp: get_wait_state_def dest: lookup_by_SomeD)
    moreover have "m \<in> set (db_runs db2)" "rm_run_id m = ws_run_id w"
      using m(1) by (auto simp: get_run_with_conn_def dest: lookup_by_SomeD)
    ultimately show ?thesis
      using l m(2) k wait_identity_ok [OF id] unfolding has_pollable_external_wait_def list_ex_iff
      by (intro bexI [of _ m] conjI bexI [of _ "polled_row later d w (w\<lparr>ws_created_at := t\<rparr>)"])
         (auto simp: polled_row_def keeps_polling_def)
  qed
  show ?thesis
    using a m l full poll
    by (intro exI [of _ db2] exI [of _ out] exI [of _ m])
       (cases "pd_classification d"; auto simp: i keeps_polling_def list_ready_to_resume_leases_def)
qed


definition silent_io :: PollIo where
  "silent_io = \<lparr>io_snapshot = \<lambda>_ _. None, io_poll_result = \<lambda>_ _. None, io_wait_state = \<lambda>_ _. None,
     io_resume_decision = \<lambda>_ _. None\<rparr>"

definition demo_ready :: PollDecision where
  "demo_ready = \<lparr>pd_run_id = ''r'', pd_classification = ReadyToResume, pd_next_poll_at = None, pd_observed_state = JNull\<rparr>"

definition demo_suspended_db :: WaitDb where
  "demo_suspended_db = (case persist_external_wait 9 demo_wait demo_wait_db of Ok db \<Rightarrow> db | Err _ \<Rightarrow> demo_wait_db)"

lemma demo_wait_db_tables:
  "unique_key rm_run_id (db_runs demo_wait_db)" "unique_key il_lease_id (db_leases demo_wait_db)"
  "unique_key ws_run_id (db_waits demo_wait_db)" "checkpoints_ok (db_checkpoints demo_wait_db)"
  "\<forall>r \<in> set (db_checkpoints demo_wait_db). cr_timestamp r < 9"
  by code_simp+

lemma demo_suspends: "persist_external_wait 9 demo_wait demo_wait_db = Ok demo_suspended_db"
  by (simp add: demo_suspended_db_def)
     (simp add: demo_wait_def demo_wait_db_def wait_state_new_def persist_external_wait_def wait_identity_def
       set_resume_point_def save_checkpoint_with_conn_def upsert_def with_snapshot_def
       mark_run_waiting_external_def persist_run_status_conditional_outcome_def
       persist_run_status_conditional_with_conn_def run_metadata_new_def non_terminal_guard_def TERMINAL_SQL_def
       upsert_wait_state_def record_params_def fits_i64_def i64_try_from_u64_def i64_max_def
       update_lease_status_conditional_def cond_guard_def)

theorem suspended_run_can_be_resumed_witness:
  "\<exists>db2 out. apply_poll_decision_at silent_io 20 demo_wait demo_ready demo_suspended_db = (db2, Ok out) \<and>
     (\<exists>config. \<exists>l \<in> set (list_ready_to_resume_leases config (db_leases db2)). il_lease_id l = ''l'')"
  using suspended_run_can_be_resumed [OF demo_wait_db_tables _ demo_suspends, of 20 silent_io demo_ready]
  by (auto simp: demo_ready_def demo_wait_def wait_state_new_def)

theorem poll_decision_is_atomic_witness:
  "\<exists>m. get_run_with_conn ''r'' (db_runs (fst (apply_poll_decision_at silent_io 20 demo_wait demo_ready demo_suspended_db))) = Some m \<and>
     rm_status m = RReadyToResume"
proof -
  have s: "\<exists>i. suspended demo_wait i demo_suspended_db"
    by (rule suspension_leaves [OF demo_wait_db_tables(1-3) demo_suspends])
  then have u: "unique_key rm_run_id (db_runs demo_suspended_db)" "unique_key il_lease_id (db_leases demo_suspended_db)"
      "unique_key ws_run_id (db_waits demo_suspended_db)"
    by (auto simp: suspended_def)
  have c: "checkpoints_ok (db_checkpoints demo_suspended_db)"
    "\<forall>r \<in> set (db_checkpoints demo_suspended_db). cr_timestamp r < 20"
    using suspension_checkpoints [OF demo_wait_db_tables(4,5) _ demo_suspends, of 20] by simp_all
  obtain db' where "apply_poll_transaction 20 demo_wait demo_ready demo_suspended_db = Ok db'"
    using s suspended_poll_commits by blast
  then obtain out where a: "apply_poll_decision_at silent_io 20 demo_wait demo_ready demo_suspended_db = (db', Ok out)"
    by (simp add: apply_poll_decision_at_def)
  from poll_decision_is_atomic [OF u c a] a show ?thesis
    by (auto simp: demo_ready_def demo_wait_def wait_state_new_def set_status_and_step_def)
qed

section \<open>The pass over all due waits\<close>

text \<open>The summary counts every poll once and bounds the details it keeps.\<close>

definition summary_ok :: "RunSummary \<Rightarrow> bool" where
  "summary_ok s \<longleftrightarrow>
     su_skipped_polls s = length (su_skipped_poll_details s) + su_skipped_poll_details_dropped s \<and>
     length (su_skipped_poll_details s) \<le> MAX_SKIPPED_POLL_DETAILS \<and>
     length (su_artifact_warnings s) \<le> MAX_ARTIFACT_WARNING_DETAILS \<and>
     su_lease_states_preserved s =
       length (su_lease_state_preserved_details s) + su_lease_state_preserved_details_dropped s \<and>
     length (su_lease_state_preserved_details s) \<le> MAX_LEASE_STATE_PRESERVED_DETAILS"

lemma summary_ok_records [simp]:
  "summary_ok s \<Longrightarrow> summary_ok (record_skipped_poll d s)"
  "summary_ok s \<Longrightarrow> summary_ok (record_artifact_warning a s)"
  "summary_ok s \<Longrightarrow> summary_ok (record_lease_state_preserved p s)"
  by (simp_all add: summary_ok_def record_skipped_poll_def record_artifact_warning_def
      record_lease_state_preserved_def Let_def)

lemma record_counts [simp]:
  "su_polls_applied (record_skipped_poll d s) = su_polls_applied s"
  "su_skipped_polls (record_skipped_poll d s) = su_skipped_polls s + 1"
  "su_pollable_waits (record_skipped_poll d s) = su_pollable_waits s"
  "su_polls_applied (record_artifact_warning a s) = su_polls_applied s"
  "su_skipped_polls (record_artifact_warning a s) = su_skipped_polls s"
  "su_pollable_waits (record_artifact_warning a s) = su_pollable_waits s"
  by (simp_all add: record_skipped_poll_def record_artifact_warning_def Let_def)

lemma fold_artifact_warnings:
  "summary_ok s \<Longrightarrow> summary_ok (fold (\<lambda>a. record_artifact_warning (f a)) ws s)"
  "su_polls_applied (fold (\<lambda>a. record_artifact_warning (f a)) ws s) = su_polls_applied s"
  "su_skipped_polls (fold (\<lambda>a. record_artifact_warning (f a)) ws s) = su_skipped_polls s"
  "su_pollable_waits (fold (\<lambda>a. record_artifact_warning (f a)) ws s) = su_pollable_waits s"
  by (induction ws arbitrary: s) simp_all

lemma record_poll_result_counts:
  assumes "record_poll_result w r s = Ok s'" and "summary_ok s"
  shows "summary_ok s' \<and> su_pollable_waits s' = su_pollable_waits s \<and>
    su_polls_applied s' + su_skipped_polls s' = su_polls_applied s + su_skipped_polls s + 1"
proof -
  have "summary_ok (s\<lparr>su_polls_applied := n\<rparr>)" for n using assms(2) by (simp add: summary_ok_def)
  then show ?thesis using assms
    by (auto simp: record_poll_result_def fold_artifact_warnings
        split: result.splits PollApplyOutcome.splits PollApplyError.splits)
qed

lemma poll_waits_counts:
  "poll_waits env waits w db s = (w', db', Ok s') \<Longrightarrow> summary_ok s \<Longrightarrow>
   summary_ok s' \<and> su_pollable_waits s' = su_pollable_waits s \<and>
   su_polls_applied s' + su_skipped_polls s' = su_polls_applied s + su_skipped_polls s + length waits"
proof (induction waits arbitrary: w db s)
  case (Cons wait waits)
  then show ?case
    by (auto simp: Let_def split: prod.splits result.splits dest!: record_poll_result_counts)
qed simp

text \<open>
  A completed pass accounts for every due wait: each was applied or recorded as skipped, and
  the bounded detail lists with their overflow counters add up to the totals.
\<close>

lemma polling_pass_accounts:
  assumes "poll_due_waits env w db = (w', db', Ok s)"
  shows "su_pollable_waits s = length (list_pollable_wait_states (pe_now env w) db) \<and>
    su_polls_applied s + su_skipped_polls s = su_pollable_waits s \<and> summary_ok s"
proof -
  have "summary_ok (default_summary\<lparr>su_pollable_waits := n\<rparr>)" for n
    by (simp add: summary_ok_def default_summary_def)
  from poll_waits_counts [OF assms [unfolded poll_due_waits_def Let_def] this] show ?thesis
    by (simp add: default_summary_def)
qed

end
