(* ===== verification/Daemon_Claim.thy ===== *)
theory Daemon_Claim
  imports Discovery Poll_Application
begin

text \<open>
  Claiming an issue for a launch: the receipt of the remote claim (\<open>persistence/claim_metadata.rs\<close>),
  per-run paths (\<open>daemon/launcher/paths.rs\<close>), the local claim with its concurrency check and the
  remote claim on GitHub (\<open>daemon/claim.rs\<close>). Whether SQLite enforces foreign keys is a
  parameter of the store; the clock and fresh UUIDs are read from the outside world.
\<close>

section \<open>Receipts\<close>

text \<open>The column \<open>updated_at\<close>, written but never read, is left out.\<close>

record ClaimMetadataReceipt =
  cm_lease_id :: string
  cm_assignee :: string
  cm_label :: string
  cm_assignment_added :: bool
  cm_label_added :: bool
  cm_cleanup_pending :: bool

type_synonym claim_table = "ClaimMetadataReceipt list"

record PendingClaimCleanup =
  pc_issue_repo :: string
  pc_issue_number :: u64
  pc_lease_status :: LeaseStatus
  pc_receipt :: ClaimMetadataReceipt

record DaemonDb =
  dd_db :: WaitDb
  dd_claims :: claim_table

abbreviation dd_leases :: "DaemonDb \<Rightarrow> lease_table" where
  "dd_leases db \<equiv> db_leases (dd_db db)"

definition set_leases :: "lease_table \<Rightarrow> DaemonDb \<Rightarrow> DaemonDb" where
  "set_leases ls db = db\<lparr>dd_db := (dd_db db)\<lparr>db_leases := ls\<rparr>\<rparr>"

lemma set_leases_simps [simp]:
  "dd_leases (set_leases ls db) = ls" "dd_claims (set_leases ls db) = dd_claims db"
  by (simp_all add: set_leases_def)

text \<open>With foreign keys enforced the receipt's lease must exist.\<close>

definition upsert_claim_metadata :: "bool \<Rightarrow> ClaimMetadataReceipt \<Rightarrow> DaemonDb \<Rightarrow> (DaemonDb, sql_error) result" where
  "upsert_claim_metadata fk receipt db =
     (if fk \<and> lookup_by il_lease_id (cm_lease_id receipt) (dd_leases db) = None then Err ConstraintViolation
      else Ok (db\<lparr>dd_claims := upsert cm_lease_id (\<lambda>_ new. new) receipt (dd_claims db)\<rparr>))"

definition get_claim_metadata :: "string \<Rightarrow> DaemonDb \<Rightarrow> ClaimMetadataReceipt option" where
  "get_claim_metadata lease_id db = lookup_by cm_lease_id lease_id (dd_claims db)"

text \<open>The join of receipts and leases, in the order of the issue numbers.\<close>

definition list_pending_claim_cleanups :: "string \<Rightarrow> DaemonDb \<Rightarrow> PendingClaimCleanup list" where
  "list_pending_claim_cleanups repo db =
     sort_key (\<lambda>c. unat (pc_issue_number c))
       (concat (map (\<lambda>m. map (\<lambda>l. \<lparr>pc_issue_repo = il_issue_repo l, pc_issue_number = il_issue_number l,
                                  pc_lease_status = il_status l, pc_receipt = m\<rparr>)
                      (filter (\<lambda>l. il_lease_id l = cm_lease_id m \<and> il_issue_repo l = repo \<and>
                         il_status l \<in> {LPending, LClaimed, LCompleted, LFailed, LAbandoned, LStale}) (dd_leases db)))
         (filter cm_cleanup_pending (dd_claims db))))"

section \<open>Paths\<close>

text \<open>\<open>Path::components\<close> and \<open>PathBuf::join\<close> on Unix.\<close>

datatype component = RootDir | CurDir | ParentDir | Normal string

definition path_components :: "string \<Rightarrow> component list" where
  "path_components p =
     (let segs = split_char CHR 0x2F p
      in (if starts_with ''/'' p then [RootDir] else if hd segs = ''.'' then [CurDir] else []) @
         map (\<lambda>s. if s = ''..'' then ParentDir else Normal s) (filter (\<lambda>s. s \<noteq> [] \<and> s \<noteq> ''.'') segs))"

record DaemonPathBases =
  pb_work_dir_base :: "string option"
  pb_artifact_dir_base :: "string option"

record PerRunPaths =
  pp_work_dir :: "string option"
  pp_artifact_dir :: "string option"

definition validate_run_id_path_component :: "string \<Rightarrow> (unit, string) result" where
  "validate_run_id_path_component run_id =
     (if run_id = [] then Err ''run_id must not be empty''
      else if CHR 0x5C \<in> set run_id then Err (''run_id must be a single safe path component: '' @ run_id)
      else (case path_components run_id of
              [Normal _] \<Rightarrow> Ok ()
            | _ \<Rightarrow> Err (''run_id must be a single safe path component: '' @ run_id)))"

definition per_run_paths :: "DaemonPathBases \<Rightarrow> u64 \<Rightarrow> string \<Rightarrow> (PerRunPaths, string) result" where
  "per_run_paths bases issue_number run_id =
     (case validate_run_id_path_component run_id of
        Err e \<Rightarrow> Err e
      | Ok _ \<Rightarrow>
          (let segment = ''issue-'' @ nat_to_string (unat issue_number);
               dir = (\<lambda>base. path_join (path_join base segment) run_id)
           in Ok \<lparr>pp_work_dir = map_option dir (pb_work_dir_base bases),
                  pp_artifact_dir = map_option dir (pb_artifact_dir_base bases)\<rparr>))"

section \<open>The local claim\<close>

record LaunchRequest =
  lr_config_id :: string
  lr_workflow_type_id :: "string option"
  lr_run_id :: string
  lr_repo :: string
  lr_issue_number :: u64
  lr_daemon_managed_claim :: bool
  lr_claim_assignment_added :: bool
  lr_claim_label_added :: bool
  lr_work_dir :: "string option"
  lr_artifact_dir :: "string option"
  lr_config_root :: string

record ClaimedLaunch =
  cl_lease_id :: string
  cl_request :: LaunchRequest

record 'g DaemonEnv =
  de_foreign_keys :: bool
  de_now :: "'g \<Rightarrow> instant"
  de_uuid :: "'g \<Rightarrow> string \<times> 'g"

definition claim_receipt :: "string \<Rightarrow> DiscoveryConfig \<Rightarrow> bool \<Rightarrow> bool \<Rightarrow> bool \<Rightarrow> ClaimMetadataReceipt" where
  "claim_receipt lease_id cfg assignment label pending =
     \<lparr>cm_lease_id = lease_id,
      cm_assignee = (case dc_claim_assignee cfg of Some a \<Rightarrow> a | None \<Rightarrow> []),
      cm_label = (case dc_claim_label cfg of Some l \<Rightarrow> l | None \<Rightarrow> []),
      cm_assignment_added = assignment, cm_label_added = label, cm_cleanup_pending = pending\<rparr>"

text \<open>
  \<open>ON UPDATE CASCADE\<close>: a claim that replaces the row of an earlier lease changes its primary
  key, and with foreign keys enforced the earlier receipt follows it.
\<close>

definition cascade_lease_id :: "bool \<Rightarrow> IssueLease option \<Rightarrow> string \<Rightarrow> claim_table \<Rightarrow> claim_table" where
  "cascade_lease_id fk old new claims =
     (case old of
        Some l \<Rightarrow> (if fk then update_where (\<lambda>m. cm_lease_id m = il_lease_id l) (\<lambda>m. m\<lparr>cm_lease_id := new\<rparr>) claims
                   else claims)
      | None \<Rightarrow> claims)"

text \<open>\<open>acquire_lease_with_receipt\<close>: lease and receipt in one transaction.\<close>

definition acquire_lease_with_receipt ::
  "bool \<Rightarrow> instant \<Rightarrow> string \<Rightarrow> u64 \<Rightarrow> string \<Rightarrow> DiscoveryConfig \<Rightarrow> DaemonDb \<Rightarrow>
   (DaemonDb \<times> IssueLease option, sql_error) result" where
  "acquire_lease_with_receipt fk now repo n config_id cfg db =
     (case try_claim now repo n config_id (dd_leases db) of
        Err e \<Rightarrow> Err e
      | Ok (ls, None) \<Rightarrow> Ok (set_leases ls db, None)
      | Ok (ls, Some lease) \<Rightarrow>
          (let db1 = (set_leases ls db)\<lparr>dd_claims :=
                 cascade_lease_id fk (lookup_by lease_key (repo, n) (dd_leases db)) (il_lease_id lease) (dd_claims db)\<rparr>
           in case upsert_claim_metadata fk (claim_receipt (il_lease_id lease) cfg False False False) db1 of
                Err e \<Rightarrow> Err e
              | Ok db2 \<Rightarrow> Ok (db2, Some lease)))"

definition claim_for_launch_with_state ::
  "'g DaemonEnv \<Rightarrow> GithubIssue \<Rightarrow> DiscoveryConfig \<Rightarrow> string \<Rightarrow> DaemonPathBases \<Rightarrow> bool \<Rightarrow> string \<Rightarrow> DaemonDb \<times> 'g \<Rightarrow>
   (DaemonDb \<times> 'g) \<times> ((ClaimedLaunch, SkipReason) result, sql_error) result" where
  "claim_for_launch_with_state env issue cfg config_id bases mark_running config_root st =
     (let (db, g) = st; repo = (case dc_repo cfg of Some r \<Rightarrow> r | None \<Rightarrow> [])
      in case acquire_lease_with_receipt (de_foreign_keys env) (de_now env g) repo (gi_number issue) config_id cfg db of
           Err e \<Rightarrow> (st, Err e)
         | Ok (db1, None) \<Rightarrow> ((db1, g), Ok (Err HasActiveLease))
         | Ok (db1, Some lease) \<Rightarrow>
             (if config_run_limit cfg < count_active_leases_for_config config_id (dd_leases db1)
              then ((set_leases (update_lease_status (de_now env g) (il_lease_id lease) LAbandoned None (dd_leases db1)) db1, g),
                    Ok (Err ConcurrencyLimitReached))
              else
               (let (uuid, g1) = de_uuid env g; run_id = ''run-'' @ uuid
                in case per_run_paths bases (gi_number issue) run_id of
                     Err detail \<Rightarrow>
                       ((set_leases (update_lease_status (de_now env g1) (il_lease_id lease) LAbandoned None (dd_leases db1)) db1, g1),
                        Ok (Err (InvalidPath detail)))
                   | Ok paths \<Rightarrow>
                       ((if mark_running
                         then set_leases (update_lease_status (de_now env g1) (il_lease_id lease) LRunning (Some run_id) (dd_leases db1)) db1
                         else db1, g1),
                        Ok (Ok \<lparr>cl_lease_id = il_lease_id lease,
                                cl_request = \<lparr>lr_config_id = config_id, lr_workflow_type_id = None, lr_run_id = run_id,
                                  lr_repo = repo, lr_issue_number = gi_number issue, lr_daemon_managed_claim = False,
                                  lr_claim_assignment_added = False, lr_claim_label_added = False,
                                  lr_work_dir = pp_work_dir paths, lr_artifact_dir = pp_artifact_dir paths,
                                  lr_config_root = config_root\<rparr>\<rparr>)))))"

section \<open>The remote claim\<close>

record ClaimOwnership =
  co_assignment_added :: bool
  co_label_added :: bool

definition no_ownership :: ClaimOwnership where
  "no_ownership = \<lparr>co_assignment_added = False, co_label_added = False\<rparr>"

definition has_login :: "GithubIssue \<Rightarrow> string \<Rightarrow> bool" where
  "has_login issue login \<longleftrightarrow> list_ex (\<lambda>a. eq_ignore_ascii_case a login) (gi_assignees issue)"

definition inspect_remote_claim ::
  "'g GithubIssueQuery \<Rightarrow> DiscoveryConfig \<Rightarrow> GithubIssue \<Rightarrow> 'g \<Rightarrow> (ClaimOwnership, GithubError) result \<times> 'g" where
  "inspect_remote_claim q cfg issue g =
     (case (dc_repo cfg, dc_claim_assignee cfg, dc_claim_label cfg) of
        (Some repo, Some assignee, Some label) \<Rightarrow>
          (case gq_get_issue q repo (gi_number issue) g of
             (Err e, g1) \<Rightarrow> (Err e, g1)
           | (Ok found, g1) \<Rightarrow>
               (let current = (case found of Some i \<Rightarrow> i | None \<Rightarrow> issue)
                in (Ok \<lparr>co_assignment_added = \<not> has_login current assignee,
                        co_label_added = \<not> issue_has_label current label\<rparr>, g1)))
      | _ \<Rightarrow> (Ok no_ownership, g))"

definition apply_remote_claim ::
  "'g GithubIssueQuery \<Rightarrow> DiscoveryConfig \<Rightarrow> GithubIssue \<Rightarrow> ClaimOwnership \<Rightarrow> 'g \<Rightarrow> (unit, GithubError) result \<times> 'g" where
  "apply_remote_claim q cfg issue own g =
     (case (dc_repo cfg, dc_claim_assignee cfg, dc_claim_label cfg) of
        (Some repo, Some assignee, Some label) \<Rightarrow>
          (case (if co_assignment_added own then gq_add_assignee q repo (gi_number issue) assignee g else (Ok (), g)) of
             (Err e, g1) \<Rightarrow> (Err e, g1)
           | (Ok _, g1) \<Rightarrow>
               (if co_label_added own then gq_add_label q repo (gi_number issue) label g1 else (Ok (), g1)))
      | _ \<Rightarrow> (Ok (), g))"

definition verify_remote_claim ::
  "'g GithubIssueQuery \<Rightarrow> DiscoveryConfig \<Rightarrow> u64 \<Rightarrow> 'g \<Rightarrow> (unit, GithubError) result \<times> 'g" where
  "verify_remote_claim q cfg n g =
     (case (dc_repo cfg, dc_claim_assignee cfg, dc_claim_label cfg) of
        (Some repo, Some assignee, Some label) \<Rightarrow>
          (case gq_get_issue q repo n g of
             (Err e, g1) \<Rightarrow> (Err e, g1)
           | (Ok None, g1) \<Rightarrow>
               (Err (GhNotFound (''claim metadata for '' @ repo @ ''#'' @ nat_to_string (unat n))), g1)
           | (Ok (Some issue), g1) \<Rightarrow>
               (if has_login issue assignee \<and> issue_has_label issue label then (Ok (), g1)
                else (Err (GhNotFound (''verified claim metadata for '' @ repo @ ''#'' @ nat_to_string (unat n))), g1)))
      | _ \<Rightarrow> (Ok (), g))"

text \<open>\<open>cleanup_remote_claim\<close>: both removals are tried; the first error is reported.\<close>

definition cleanup_remote_claim ::
  "'g GithubIssueQuery \<Rightarrow> string \<Rightarrow> u64 \<Rightarrow> ClaimMetadataReceipt \<Rightarrow> 'g \<Rightarrow> (unit, GithubError) result \<times> 'g" where
  "cleanup_remote_claim q repo n receipt g =
     (case gq_get_issue q repo n g of
        (Err e, g1) \<Rightarrow> (Err e, g1)
      | (Ok None, g1) \<Rightarrow> (Ok (), g1)
      | (Ok (Some issue), g1) \<Rightarrow>
          (let (r1, g2) = (if cm_label_added receipt \<and> issue_has_label issue (cm_label receipt)
                           then gq_remove_label q repo n (cm_label receipt) g1 else (Ok (), g1));
               (r2, g3) = (if cm_assignment_added receipt \<and> has_login issue (cm_assignee receipt)
                           then gq_remove_assignee q repo n (cm_assignee receipt) g2 else (Ok (), g2))
           in (case r1 of Err e \<Rightarrow> Err e | Ok _ \<Rightarrow> r2, g3)))"

section \<open>Capacity\<close>

lemma count_update_one:
  assumes "unique_key key rows" and "lookup_by key k rows = Some old"
  shows "count_where P (update_where (\<lambda>x. key x = k) f rows) + (if P old then 1 else 0) =
    count_where P rows + (if P (f old) then 1 else 0)"
  using assms
proof (induction rows)
  case (Cons r rs)
  show ?case
  proof (cases "key r = k")
    case True
    have "update_where (\<lambda>x. key x = k) f rs = rs"
      using Cons.prems(1) True by (intro update_where_none) (auto simp: image_iff)
    then show ?thesis using Cons.prems(2) True by simp
  next
    case False
    then show ?thesis using Cons by auto
  qed
qed simp

text \<open>The active leases among those of some configurations and repositories.\<close>

definition active_count :: "(string \<Rightarrow> string \<Rightarrow> bool) \<Rightarrow> lease_table \<Rightarrow> nat" where
  "active_count P ls =
     count_where (\<lambda>l. P (il_config_id l) (il_issue_repo l) \<and> il_status l \<in> {LClaimed, LRunning}) ls"

lemma active_count_simps:
  "count_active_leases ls = active_count (\<lambda>_ _. True) ls"
  "count_active_leases_for_config c ls = active_count (\<lambda>config _. config = c) ls"
  "count_active_leases_for_repository r ls = active_count (\<lambda>_ repo. repo = r) ls"
  by (simp_all add: active_count_def count_active_leases_def count_active_leases_for_config_def
      count_active_leases_for_repository_def)

text \<open>No step of the daemon takes a running lease away from its run.\<close>

definition running_kept :: "lease_table \<Rightarrow> lease_table \<Rightarrow> bool" where
  "running_kept ls ls' \<longleftrightarrow> (\<forall>l \<in> set ls. il_status l = LRunning \<longrightarrow> l \<in> set ls')"

lemma running_kept_refl [simp]: "running_kept ls ls"
  by (simp add: running_kept_def)

lemma running_kept_trans: "running_kept a b \<Longrightarrow> running_kept b c \<Longrightarrow> running_kept a c"
  by (auto simp: running_kept_def)

lemma running_kept_update_where:
  "(\<And>l. l \<in> set ls \<Longrightarrow> P l \<Longrightarrow> il_status l \<noteq> LRunning) \<Longrightarrow> running_kept ls (update_where P f ls)"
  by (force simp: running_kept_def set_update_where)

lemma won_claim:
  assumes "lease_table_ok ls" and "try_claim now repo n config ls = Ok (ls', Some lease)"
  shows "lease = claim_lease now repo n config \<and> lease_table_ok ls' \<and>
    lookup_by il_lease_id (il_lease_id lease) ls' = Some lease \<and> running_kept ls ls' \<and>
    active_count P ls' = active_count P ls + (if P config repo then 1 else 0)"
proof -
  let ?l = "claim_lease now repo n config"
  have cfg: "il_config_id ?l = config" by (simp add: claim_lease_def)
  have lease: "lease = ?l" using assms(2)
    by (auto simp: try_claim_def Let_def split: result.splits option.splits if_splits)
  have ok: "lease_table_ok ls'" by (rule try_claim_ok [OF assms])
  have won: "?l \<in> set ls' \<and> running_kept ls ls' \<and> active_count P ls' = active_count P ls + (if P config repo then 1 else 0)"
  proof (cases "lookup_by lease_key (repo, n) ls")
    case None
    then have "ls' = ls @ [?l]"
      using assms(2) by (auto simp: try_claim_def Let_def split: result.splits if_splits)
    then show ?thesis by (auto simp: active_count_def cfg running_kept_def)
  next
    case (Some old)
    then have ls': "ls' = update_where (\<lambda>x. lease_key x = (repo, n)) (\<lambda>_. ?l) ls" and st: "il_status old \<in> set RECLAIMABLE"
      using assms(2) by (auto simp: try_claim_def Let_def split: result.splits if_splits)
    from st have "\<not> (P (il_config_id old) (il_issue_repo old) \<and> il_status old \<in> {LClaimed, LRunning})"
      by (auto simp: RECLAIMABLE_def)
    moreover have uni: "unique_key lease_key ls" using assms(1) by (simp add: lease_table_ok_def)
    ultimately have "active_count P ls' = active_count P ls + (if P config repo then 1 else 0)"
      using count_update_one [of lease_key ls "(repo, n)" old
          "\<lambda>l. P (il_config_id l) (il_issue_repo l) \<and> il_status l \<in> {LClaimed, LRunning}" "\<lambda>_. ?l"] Some
      by (auto simp: active_count_def ls' cfg)
    moreover have "?l \<in> set ls'" using lookup_by_SomeD [OF Some] by (force simp: ls' set_update_where)
    moreover have "running_kept ls ls'" unfolding ls'
    proof (rule running_kept_update_where)
      fix l
      assume "l \<in> set ls" "lease_key l = (repo, n)"
      then have "l = old" using uni Some lookup_by_unique [of lease_key ls l] by auto
      then show "il_status l \<noteq> LRunning" using st by (auto simp: RECLAIMABLE_def)
    qed
    ultimately show ?thesis by blast
  qed
  have "lookup_by il_lease_id (il_lease_id ?l) ls' = Some ?l"
    using ok won by (auto simp: lease_table_ok_def intro: lookup_by_unique)
  then show ?thesis using lease ok won by simp
qed

text \<open>A change of the status of one row.\<close>

lemma row_update:
  assumes "lease_table_ok ls" and "lookup_by il_lease_id i ls = Some l" and "keeps_keys f"
    and "\<And>l. il_config_id (f l) = il_config_id l"
  shows "lease_table_ok (update_where (\<lambda>l. il_lease_id l = i) f ls)"
    and "lookup_by il_lease_id i (update_where (\<lambda>l. il_lease_id l = i) f ls) = Some (f l)"
    and "active_count P (update_where (\<lambda>l. il_lease_id l = i) f ls) +
      (if P (il_config_id l) (il_issue_repo l) \<and> il_status l \<in> {LClaimed, LRunning} then 1 else 0) =
      active_count P ls + (if P (il_config_id l) (il_issue_repo l) \<and> il_status (f l) \<in> {LClaimed, LRunning} then 1 else 0)"
    and "il_status l \<noteq> LRunning \<Longrightarrow> running_kept ls (update_where (\<lambda>l. il_lease_id l = i) f ls)"
proof -
  have uni: "unique_key il_lease_id ls" using assms(1) by (simp add: lease_table_ok_def)
  have keys: "il_lease_id (f l) = il_lease_id l" "il_issue_repo (f l) = il_issue_repo l" for l
    using assms(3) by (auto simp: keeps_keys_def)
  show "lease_table_ok (update_where (\<lambda>l. il_lease_id l = i) f ls)" using assms(1,3) by simp
  show "lookup_by il_lease_id i (update_where (\<lambda>l. il_lease_id l = i) f ls) = Some (f l)"
    by (subst lookup_by_update_where) (use assms(2) lookup_by_SomeD [OF assms(2)] keys in auto)
  show "active_count P (update_where (\<lambda>l. il_lease_id l = i) f ls) +
      (if P (il_config_id l) (il_issue_repo l) \<and> il_status l \<in> {LClaimed, LRunning} then 1 else 0) =
      active_count P ls + (if P (il_config_id l) (il_issue_repo l) \<and> il_status (f l) \<in> {LClaimed, LRunning} then 1 else 0)"
    using count_update_one [OF uni assms(2), of "\<lambda>l. P (il_config_id l) (il_issue_repo l) \<and> il_status l \<in> {LClaimed, LRunning}" f]
    by (simp add: active_count_def assms(4) keys)
  show "running_kept ls (update_where (\<lambda>l. il_lease_id l = i) f ls)" if "il_status l \<noteq> LRunning"
    using that assms(2) lookup_by_unique [OF uni] by (intro running_kept_update_where) auto
qed

lemma status_update_row:
  assumes "lease_table_ok ls" and "lookup_by il_lease_id i ls = Some l"
  shows "lease_table_ok (update_lease_status now i st run ls) \<and>
    lookup_by il_lease_id i (update_lease_status now i st run ls) =
      Some (l\<lparr>il_status := st, il_run_id := coalesce run (il_run_id l), il_updated_at := now\<rparr>) \<and>
    (il_status l \<noteq> LRunning \<longrightarrow> running_kept ls (update_lease_status now i st run ls)) \<and>
    active_count P (update_lease_status now i st run ls) +
      (if P (il_config_id l) (il_issue_repo l) \<and> il_status l \<in> {LClaimed, LRunning} then 1 else 0) =
      active_count P ls + (if P (il_config_id l) (il_issue_repo l) \<and> st \<in> {LClaimed, LRunning} then 1 else 0)"
proof -
  let ?f = "\<lambda>l. l\<lparr>il_status := st, il_run_id := coalesce run (il_run_id l), il_updated_at := now\<rparr>"
  have "update_lease_status now i st run ls = update_where (\<lambda>l. il_lease_id l = i) ?f ls"
    by (cases run) (simp_all add: update_lease_status_def coalesce_def)
  moreover have "keeps_keys ?f" by (simp add: keeps_keys_def)
  ultimately show ?thesis using row_update(1,2,4) [OF assms, of ?f] row_update(3) [OF assms, of ?f P] by simp
qed

lemma upsert_claim_stored:
  assumes "upsert_claim_metadata fk receipt db = Ok db'"
  shows "dd_db db' = dd_db db" "get_claim_metadata (cm_lease_id receipt) db' = Some receipt"
    "i \<noteq> cm_lease_id receipt \<Longrightarrow> get_claim_metadata i db' = get_claim_metadata i db"
proof -
  let ?c = "upsert cm_lease_id (\<lambda>_ new. new) receipt (dd_claims db)"
  have db': "db' = db\<lparr>dd_claims := ?c\<rparr>" using assms by (auto simp: upsert_claim_metadata_def split: if_splits)
  show "dd_db db' = dd_db db" by (simp add: db')
  have "lookup_by cm_lease_id (cm_lease_id receipt) ?c = Some receipt"
    by (subst lookup_by_upsert_same) (simp_all split: option.split)
  then show "get_claim_metadata (cm_lease_id receipt) db' = Some receipt" by (simp add: db' get_claim_metadata_def)
  show "get_claim_metadata i db' = get_claim_metadata i db" if "i \<noteq> cm_lease_id receipt"
    using that by (simp add: db' get_claim_metadata_def lookup_by_upsert_other)
qed

lemma upsert_claim_succeeds:
  "lookup_by il_lease_id (cm_lease_id receipt) (dd_leases db) \<noteq> None \<Longrightarrow>
   \<exists>db'. upsert_claim_metadata fk receipt db = Ok db'"
  by (simp add: upsert_claim_metadata_def)

lemma claim_receipt_id [simp]: "cm_lease_id (claim_receipt i cfg a b p) = i"
  by (simp add: claim_receipt_def)

text \<open>The transaction of lease and receipt, by whether the claim is won.\<close>

lemma acquire_cases:
  assumes "lease_table_ok (dd_leases db)"
    and "acquire_lease_with_receipt fk now repo n config cfg db = Ok (db', won)"
  shows "case won of
      None \<Rightarrow> db' = db
    | Some lease \<Rightarrow>
        lease = claim_lease now repo n config \<and> lease_table_ok (dd_leases db') \<and>
        lookup_by il_lease_id (il_lease_id lease) (dd_leases db') = Some lease \<and>
        get_claim_metadata (il_lease_id lease) db' = Some (claim_receipt (il_lease_id lease) cfg False False False) \<and>
        running_kept (dd_leases db) (dd_leases db') \<and>
        (\<forall>P. active_count P (dd_leases db') = active_count P (dd_leases db) + (if P config repo then 1 else 0))"
proof (cases won)
  case None
  then have "try_claim now repo n config (dd_leases db) = Ok (dd_leases db', None)" "db' = set_leases (dd_leases db') db"
    using assms(2) by (auto simp: acquire_lease_with_receipt_def Let_def split: result.splits prod.splits option.splits)
  moreover from this(1) have "dd_leases db' = dd_leases db"
    by (auto simp: try_claim_def Let_def split: result.splits option.splits if_splits)
  ultimately show ?thesis using None by (simp add: set_leases_def)
next
  case (Some lease)
  then obtain ls where t: "try_claim now repo n config (dd_leases db) = Ok (ls, Some lease)"
    and u: "upsert_claim_metadata fk (claim_receipt (il_lease_id lease) cfg False False False)
       ((set_leases ls db)\<lparr>dd_claims :=
          cascade_lease_id fk (lookup_by lease_key (repo, n) (dd_leases db)) (il_lease_id lease) (dd_claims db)\<rparr>) = Ok db'"
    using assms(2) by (auto simp: acquire_lease_with_receipt_def Let_def split: result.splits prod.splits option.splits)
  note w = won_claim [OF assms(1) t]
  have "dd_leases db' = ls \<and>
      get_claim_metadata (il_lease_id lease) db' = Some (claim_receipt (il_lease_id lease) cfg False False False)"
    using upsert_claim_stored(1,2) [OF u] by (simp add: set_leases_def)
  then show ?thesis using w by (auto simp: Some)
qed


lemma claim_outcome:
  assumes "lease_table_ok (dd_leases db)"
    and "claim_for_launch_with_state env issue cfg config bases mark root (db, g) = ((db', g'), res)"
  shows "lease_table_ok (dd_leases db') \<and> running_kept (dd_leases db) (dd_leases db') \<and>
    (case res of
       Err e \<Rightarrow> db' = db
     | Ok (Err reason) \<Rightarrow> \<forall>P. active_count P (dd_leases db') = active_count P (dd_leases db)
     | Ok (Ok claimed) \<Rightarrow>
         count_active_leases_for_config config (dd_leases db') \<le> config_run_limit cfg \<and>
         (\<forall>P. active_count P (dd_leases db') =
            active_count P (dd_leases db) + (if P config (lr_repo (cl_request claimed)) then 1 else 0)) \<and>
         (\<exists>l. lookup_by il_lease_id (cl_lease_id claimed) (dd_leases db') = Some l \<and>
            lease_key l = (lr_repo (cl_request claimed), gi_number issue) \<and> il_config_id l = config \<and>
            il_status l = (if mark then LRunning else LClaimed) \<and>
            il_run_id l = (if mark then Some (lr_run_id (cl_request claimed)) else None)) \<and>
         get_claim_metadata (cl_lease_id claimed) db' =
           Some (claim_receipt (cl_lease_id claimed) cfg False False False) \<and>
         lr_issue_number (cl_request claimed) = gi_number issue \<and> lr_config_id (cl_request claimed) = config \<and>
         lr_repo (cl_request claimed) = (case dc_repo cfg of Some r \<Rightarrow> r | None \<Rightarrow> []) \<and>
         (\<exists>uuid. lr_run_id (cl_request claimed) = ''run-'' @ uuid)) \<and>
    (g' = g \<or> g' = snd (de_uuid env g))"
proof -
  let ?repo = "case dc_repo cfg of Some r \<Rightarrow> r | None \<Rightarrow> []"
  let ?acq = "acquire_lease_with_receipt (de_foreign_keys env) (de_now env g) ?repo (gi_number issue) config cfg db"
  note cases = assms(2) [unfolded claim_for_launch_with_state_def Let_def prod.case]
  show ?thesis
  proof (cases ?acq)
    case (Err e)
    then show ?thesis using cases assms(1) by auto
  next
    case (Ok p)
    obtain db1 won where p: "p = (db1, won)" by (cases p)
    note a = acquire_cases [OF assms(1) Ok [unfolded p]]
    show ?thesis
    proof (cases won)
      case None
      then show ?thesis using cases Ok p a assms(1) by auto
    next
      case (Some lease)
      with a have l: "lease = claim_lease (de_now env g) ?repo (gi_number issue) config" "lease_table_ok (dd_leases db1)"
        "lookup_by il_lease_id (il_lease_id lease) (dd_leases db1) = Some lease"
        "get_claim_metadata (il_lease_id lease) db1 = Some (claim_receipt (il_lease_id lease) cfg False False False)"
        "\<And>P. active_count P (dd_leases db1) = active_count P (dd_leases db) + (if P config ?repo then 1 else 0)"
        "running_kept (dd_leases db) (dd_leases db1)"
        by auto
      have lc: "il_config_id lease = config" "il_status lease = LClaimed" "il_run_id lease = None"
        "lease_key lease = (?repo, gi_number issue)" by (simp_all add: l(1)) (simp add: claim_lease_def)
      note up = status_update_row [OF l(2,3)]
      have ab: "active_count P (update_lease_status t (il_lease_id lease) LAbandoned None (dd_leases db1)) =
          active_count P (dd_leases db)" for t P
        using up [of t LAbandoned None P] lc l(5) [of P] by (auto split: if_splits)
      have ru: "active_count P (update_lease_status t (il_lease_id lease) LRunning (Some r) (dd_leases db1)) =
          active_count P (dd_leases db1)" for t P r
        using up [of t LRunning "Some r" P] lc by (auto split: if_splits)
      have kept: "running_kept (dd_leases db) (update_lease_status t (il_lease_id lease) st r (dd_leases db1))" for t st r
        using running_kept_trans [OF l(6)] up [of t st r] lc(2) by simp
      show ?thesis
        using cases Ok p Some l lc ab ru up kept
        by (auto simp: get_claim_metadata_def coalesce_def active_count_simps split: if_splits prod.splits result.splits)
    qed
  qed
qed

text \<open>
  A claim for a launch respects the concurrency limit and leaves no half-claimed lease. A
  store error changes nothing. A skipped claim leaves the number of active leases of every
  configuration as it was: a claim that turns out to be over the limit or without a usable
  path is abandoned again. A successful claim has counted itself: the active leases of the
  configuration, its own included, are within the limit; its lease is stored under the issue
  in the announced state together with a receipt, and the request names that issue and run.
\<close>

theorem claim_respects_capacity:
  assumes "lease_table_ok (dd_leases db)"
    and "claim_for_launch_with_state env issue cfg config bases mark root (db, g) = ((db', g'), res)"
  shows "lease_table_ok (dd_leases db') \<and>
    (case res of
       Err e \<Rightarrow> db' = db
     | Ok (Err reason) \<Rightarrow>
         \<forall>c. count_active_leases_for_config c (dd_leases db') = count_active_leases_for_config c (dd_leases db)
     | Ok (Ok claimed) \<Rightarrow>
         count_active_leases_for_config config (dd_leases db') \<le> config_run_limit cfg \<and>
         (\<forall>c. count_active_leases_for_config c (dd_leases db') =
            count_active_leases_for_config c (dd_leases db) + (if c = config then 1 else 0)) \<and>
         (\<exists>l. lookup_by il_lease_id (cl_lease_id claimed) (dd_leases db') = Some l \<and>
            lease_key l = (lr_repo (cl_request claimed), gi_number issue) \<and> il_config_id l = config \<and>
            il_status l = (if mark then LRunning else LClaimed) \<and>
            il_run_id l = (if mark then Some (lr_run_id (cl_request claimed)) else None)) \<and>
         get_claim_metadata (cl_lease_id claimed) db' =
           Some (claim_receipt (cl_lease_id claimed) cfg False False False) \<and>
         lr_issue_number (cl_request claimed) = gi_number issue \<and> lr_config_id (cl_request claimed) = config)"
  using claim_outcome [OF assms]
  by (auto simp: active_count_simps split: result.splits)


definition demo_daemon_env :: "unit DaemonEnv" where
  "demo_daemon_env = \<lparr>de_foreign_keys = True, de_now = \<lambda>_. 30, de_uuid = \<lambda>g. (''u'', g)\<rparr>"

definition demo_daemon_db :: DaemonDb where
  "demo_daemon_db = \<lparr>dd_db = demo_wait_db, dd_claims = []\<rparr>"

definition demo_bases :: DaemonPathBases where
  "demo_bases = \<lparr>pb_work_dir_base = Some ''/w'', pb_artifact_dir_base = None\<rparr>"

lemma demo_daemon_leases_ok: "lease_table_ok (dd_leases demo_daemon_db)"
  by (simp add: demo_daemon_db_def demo_wait_db_def lease_table_ok_def)

theorem claim_respects_capacity_witness:
  "\<forall>c. count_active_leases_for_config c (dd_leases (fst (fst (claim_for_launch_with_state demo_daemon_env
       (demo_issue 9 []) demo_discovery ''cfg'' demo_bases False ''config'' (demo_daemon_db, ()))))) =
     count_active_leases_for_config c (dd_leases demo_daemon_db)"
proof -
  let ?r = "claim_for_launch_with_state demo_daemon_env (demo_issue 9 []) demo_discovery ''cfg'' demo_bases False ''config''
    (demo_daemon_db, ())"
  have "snd ?r = Ok (Err ConcurrencyLimitReached)"
    by (simp add: claim_for_launch_with_state_def acquire_lease_with_receipt_def try_claim_def demo_daemon_db_def
        demo_wait_db_def demo_issue_def demo_discovery_def demo_daemon_env_def issue_number_to_sql_i64_def
        i64_try_from_u64_def i64_max_def claim_lease_def upsert_claim_metadata_def claim_receipt_def
        config_run_limit_def count_active_leases_for_config_def Let_def)
  then obtain db' where r: "?r = ((db', ()), Ok (Err ConcurrencyLimitReached))" by (cases ?r) auto
  show ?thesis using claim_respects_capacity [OF demo_daemon_leases_ok r] by (simp add: r)
qed

section \<open>The remote claim undoes exactly itself\<close>

text \<open>
  GitHub as the claim relies on it: reading an issue changes nothing and a successful read
  returns it, adding and removing labels and assignees does just that when it succeeds (names
  compare without case on removal) and nothing when it fails. The issues are seen through
  \<open>view\<close>.
\<close>

definition edit_issue :: "(GithubIssue \<Rightarrow> GithubIssue) \<Rightarrow> string \<times> u64 \<Rightarrow> (string \<times> u64 \<Rightarrow> GithubIssue option) \<Rightarrow>
    string \<times> u64 \<Rightarrow> GithubIssue option" where
  "edit_issue f k v = v(k := map_option f (v k))"

definition edits ::
  "('g \<Rightarrow> string \<times> u64 \<Rightarrow> GithubIssue option) \<Rightarrow> (string \<Rightarrow> u64 \<Rightarrow> string \<Rightarrow> 'g \<Rightarrow> (unit, GithubError) result \<times> 'g) \<Rightarrow>
   (string \<Rightarrow> GithubIssue \<Rightarrow> GithubIssue) \<Rightarrow> bool" where
  "edits view oper f \<longleftrightarrow>
     (\<forall>repo n x g. view (snd (oper repo n x g)) =
        (if is_ok (fst (oper repo n x g)) then edit_issue (f x) (repo, n) (view g) else view g))"

definition faithful_github :: "'g GithubIssueQuery \<Rightarrow> ('g \<Rightarrow> string \<times> u64 \<Rightarrow> GithubIssue option) \<Rightarrow> bool" where
  "faithful_github q view \<longleftrightarrow>
     (\<forall>repo n g. view (snd (gq_get_issue q repo n g)) = view g \<and>
        (\<forall>i. fst (gq_get_issue q repo n g) = Ok i \<longrightarrow> i = view g (repo, n))) \<and>
     edits view (gq_add_label q) (\<lambda>l i. i\<lparr>gi_labels := gi_labels i @ [l]\<rparr>) \<and>
     edits view (gq_remove_label q) (\<lambda>l i. i\<lparr>gi_labels := filter (\<lambda>x. \<not> eq_ignore_ascii_case x l) (gi_labels i)\<rparr>) \<and>
     edits view (gq_add_assignee q) (\<lambda>a i. i\<lparr>gi_assignees := gi_assignees i @ [a]\<rparr>) \<and>
     edits view (gq_remove_assignee q) (\<lambda>a i. i\<lparr>gi_assignees := filter (\<lambda>x. \<not> eq_ignore_ascii_case x a) (gi_assignees i)\<rparr>)"

lemma faithful_get:
  "faithful_github q view \<Longrightarrow> gq_get_issue q repo n g = (r, g1) \<Longrightarrow> view g1 = view g \<and> (\<forall>i. r = Ok i \<longrightarrow> i = view g (repo, n))"
  unfolding faithful_github_def by (metis fst_conv snd_conv)

lemma edits_step:
  "edits view oper f \<Longrightarrow> oper repo n x g = (r, g1) \<Longrightarrow>
   view g1 = (if is_ok r then edit_issue (f x) (repo, n) (view g) else view g)"
  unfolding edits_def by (metis fst_conv snd_conv)

lemma faithful_edits:
  assumes "faithful_github q view"
  shows "edits view (gq_add_label q) (\<lambda>l i. i\<lparr>gi_labels := gi_labels i @ [l]\<rparr>)"
    "edits view (gq_remove_label q) (\<lambda>l i. i\<lparr>gi_labels := filter (\<lambda>x. \<not> eq_ignore_ascii_case x l) (gi_labels i)\<rparr>)"
    "edits view (gq_add_assignee q) (\<lambda>a i. i\<lparr>gi_assignees := gi_assignees i @ [a]\<rparr>)"
    "edits view (gq_remove_assignee q) (\<lambda>a i. i\<lparr>gi_assignees := filter (\<lambda>x. \<not> eq_ignore_ascii_case x a) (gi_assignees i)\<rparr>)"
  using assms by (simp_all add: faithful_github_def)

text \<open>What applying a claim makes of the issue: a prefix of the two additions.\<close>

definition claimed_issue :: "bool \<Rightarrow> bool \<Rightarrow> string \<Rightarrow> string \<Rightarrow> GithubIssue \<Rightarrow> GithubIssue" where
  "claimed_issue a l assignee label i =
     i\<lparr>gi_assignees := (if a then gi_assignees i @ [assignee] else gi_assignees i),
       gi_labels := (if l then gi_labels i @ [label] else gi_labels i)\<rparr>"

lemma claimed_issue_parts:
  "claimed_issue False False assignee label = (\<lambda>i. i)"
  "claimed_issue True False assignee label = (\<lambda>i. i\<lparr>gi_assignees := gi_assignees i @ [assignee]\<rparr>)"
  "claimed_issue False True assignee label = (\<lambda>i. i\<lparr>gi_labels := gi_labels i @ [label]\<rparr>)"
  "claimed_issue False l assignee label (claimed_issue a False assignee label i) = claimed_issue a l assignee label i"
  by (simp_all add: claimed_issue_def fun_eq_iff)

lemma edit_issue_parts:
  "edit_issue (\<lambda>i. i) k v = v"
  "edit_issue f k (edit_issue h k v) = edit_issue (\<lambda>i. f (h i)) k v"
  by (simp_all add: edit_issue_def option.map_comp comp_def option.map_ident)

lemma apply_remote_claim_view:
  assumes "faithful_github q view" and "apply_remote_claim q cfg issue own g = (r, g1)"
    and "dc_repo cfg = Some repo" "dc_claim_assignee cfg = Some assignee" "dc_claim_label cfg = Some label"
  shows "\<exists>a l. (a \<longrightarrow> co_assignment_added own) \<and> (l \<longrightarrow> co_label_added own) \<and>
    (r = Ok () \<longrightarrow> a = co_assignment_added own \<and> l = co_label_added own) \<and>
    view g1 = edit_issue (claimed_issue a l assignee label) (repo, gi_number issue) (view g)"
proof -
  let ?k = "(repo, gi_number issue)"
  obtain r1 g2 where s1: "(if co_assignment_added own then gq_add_assignee q repo (gi_number issue) assignee g else (Ok (), g)) = (r1, g2)"
    by (cases "if co_assignment_added own then gq_add_assignee q repo (gi_number issue) assignee g else (Ok (), g)")
  have v1: "view g2 = edit_issue (claimed_issue (co_assignment_added own \<and> is_ok r1) False assignee label) ?k (view g)"
    using s1 edits_step [OF faithful_edits(3) [OF assms(1)]]
    by (cases "co_assignment_added own"; cases r1) (auto simp: claimed_issue_parts edit_issue_parts)
  show ?thesis
  proof (cases r1)
    case (Err e)
    then have "r = Err e" "g1 = g2" using assms(2-5) s1 by (auto simp: apply_remote_claim_def)
    then show ?thesis using v1 Err by (intro exI [of _ False] exI [of _ False]) simp
  next
    case (Ok u)
    then have s2: "(if co_label_added own then gq_add_label q repo (gi_number issue) label g2 else (Ok (), g2)) = (r, g1)"
      using assms(2-5) s1 by (auto simp: apply_remote_claim_def)
    then have "view g1 = edit_issue (claimed_issue False (co_label_added own \<and> is_ok r) assignee label) ?k (view g2)"
      using edits_step [OF faithful_edits(1) [OF assms(1)]]
      by (cases "co_label_added own"; cases r) (auto simp: claimed_issue_parts edit_issue_parts)
    then have "view g1 = edit_issue (claimed_issue (co_assignment_added own) (co_label_added own \<and> is_ok r) assignee label) ?k (view g)"
      using v1 Ok by (simp add: edit_issue_parts claimed_issue_parts)
    then show ?thesis
      by (intro exI [of _ "co_assignment_added own"] exI [of _ "co_label_added own \<and> is_ok r"]) (cases r; simp)
  qed
qed


lemma filter_absent:
  "\<not> list_ex (\<lambda>x. eq_ignore_ascii_case x y) xs \<Longrightarrow> filter (\<lambda>x. \<not> eq_ignore_ascii_case x y) xs = xs"
  by (auto simp: list_ex_iff filter_id_conv)

lemma inspect_remote_claim_view:
  assumes "faithful_github q view" and "inspect_remote_claim q cfg issue g = (Ok own, g1)"
  shows "view g1 = view g" and "\<forall>repo assignee label i. dc_repo cfg = Some repo \<longrightarrow> dc_claim_assignee cfg = Some assignee \<longrightarrow>
    dc_claim_label cfg = Some label \<longrightarrow> view g (repo, gi_number issue) = Some i \<longrightarrow>
    own = \<lparr>co_assignment_added = \<not> has_login i assignee, co_label_added = \<not> issue_has_label i label\<rparr>"
  using assms faithful_get [OF assms(1)]
  by (auto simp: inspect_remote_claim_def Let_def split: option.splits prod.splits result.splits)

lemma claimed_issue_filters:
  assumes "l \<longrightarrow> \<not> issue_has_label i label" and "a \<longrightarrow> \<not> has_login i assignee"
  shows "issue_has_label (claimed_issue a l assignee label i) label \<longleftrightarrow> l \<or> issue_has_label i label"
    and "has_login (claimed_issue a l assignee label i) assignee \<longleftrightarrow> a \<or> has_login i assignee"
    and "l \<Longrightarrow> (claimed_issue a l assignee label i)\<lparr>gi_labels := filter (\<lambda>x. \<not> eq_ignore_ascii_case x label)
        (gi_labels (claimed_issue a l assignee label i))\<rparr> = claimed_issue a False assignee label i"
    and "a \<Longrightarrow> (claimed_issue a l assignee label i)\<lparr>gi_assignees := filter (\<lambda>x. \<not> eq_ignore_ascii_case x assignee)
        (gi_assignees (claimed_issue a l assignee label i))\<rparr> = claimed_issue False l assignee label i"
  using assms filter_absent [of label "gi_labels i"] filter_absent [of assignee "gi_assignees i"]
  by (auto simp: claimed_issue_def issue_has_label_def has_login_def)

lemma cleanup_claimed_issue:
  assumes "faithful_github q view" and "cleanup_remote_claim q repo n receipt g = (r, g1)"
    and "view g (repo, n) = Some (claimed_issue a l (cm_assignee receipt) (cm_label receipt) i)"
    and "a \<longrightarrow> cm_assignment_added receipt" "l \<longrightarrow> cm_label_added receipt"
    and "cm_assignment_added receipt \<longleftrightarrow> \<not> has_login i (cm_assignee receipt)"
    and "cm_label_added receipt \<longleftrightarrow> \<not> issue_has_label i (cm_label receipt)"
  shows "\<exists>a' l'. (a' \<longrightarrow> a) \<and> (l' \<longrightarrow> l) \<and> (r = Ok () \<longrightarrow> \<not> a' \<and> \<not> l') \<and>
    view g1 = (view g)((repo, n) \<mapsto> claimed_issue a' l' (cm_assignee receipt) (cm_label receipt) i)"
proof -
  let ?c = "\<lambda>a l. claimed_issue a l (cm_assignee receipt) (cm_label receipt) i"
  let ?f = "gq_remove_label q repo n (cm_label receipt)" and ?h = "gq_remove_assignee q repo n (cm_assignee receipt)"
  obtain r0 g0 where s0: "gq_get_issue q repo n g = (r0, g0)" by (cases "gq_get_issue q repo n g")
  have v0: "view g0 = view g" and get: "\<And>j. r0 = Ok j \<Longrightarrow> j = Some (?c a l)"
    using faithful_get [OF assms(1) s0] assms(3) by auto
  note fl = claimed_issue_filters [of l i "cm_label receipt" a "cm_assignee receipt"]
  show ?thesis
  proof (cases r0)
    case (Err e)
    then show ?thesis using assms(2,3) s0 v0 by (intro exI [of _ a] exI [of _ l]) (auto simp: cleanup_remote_claim_def fun_upd_idem)
  next
    case (Ok j)
    note j = get [OF Ok]
    obtain r1 g2 where s1: "(if l then ?f g0 else (Ok (), g0)) = (r1, g2)" by (cases "if l then ?f g0 else (Ok (), g0)")
    obtain r2 g3 where s2: "(if a then ?h g2 else (Ok (), g2)) = (r2, g3)" by (cases "if a then ?h g2 else (Ok (), g2)")
    have res: "g1 = g3" "r = (case r1 of Err e \<Rightarrow> Err e | Ok _ \<Rightarrow> r2)"
      using assms(2,4-7) s0 s1 s2 Ok j fl by (auto simp: cleanup_remote_claim_def Let_def split: if_splits)
    have v1: "view g2 = (view g)((repo, n) \<mapsto> ?c a (l \<and> \<not> is_ok r1))"
      using s1 v0 assms(3,5,7) fl(3) assms(4,6) edits_step [OF faithful_edits(2) [OF assms(1)], of repo n "cm_label receipt" g0 r1 g2]
      by (cases l) (auto simp: edit_issue_def fun_upd_idem)
    have "view g3 = (view g)((repo, n) \<mapsto> ?c (a \<and> \<not> is_ok r2) (l \<and> \<not> is_ok r1))"
      using s2 v1 assms(4-7) claimed_issue_filters(4) [of "l \<and> \<not> is_ok r1" i "cm_label receipt" a "cm_assignee receipt"]
        edits_step [OF faithful_edits(4) [OF assms(1)], of repo n "cm_assignee receipt" g2 r2 g3]
      by (cases a) (auto simp: edit_issue_def)
    then show ?thesis
      using res by (intro exI [of _ "a \<and> \<not> is_ok r2"] exI [of _ "l \<and> \<not> is_ok r1"]) (auto split: result.splits)
  qed
qed

lemma verify_claimed_issue:
  assumes "faithful_github q view" and "view g (repo, n) = Some (claimed_issue a l assignee label i)"
    and "is_ok (fst (gq_get_issue q repo n g))"
    and "dc_repo cfg = Some repo" "dc_claim_assignee cfg = Some assignee" "dc_claim_label cfg = Some label"
    and "a \<or> has_login i assignee" "l \<or> issue_has_label i label"
  shows "fst (verify_remote_claim q cfg n g) = Ok ()"
proof -
  obtain g1 where "gq_get_issue q repo n g = (Ok (Some (claimed_issue a l assignee label i)), g1)"
    using assms(2,3) faithful_get [OF assms(1), of repo n g]
    by (cases "gq_get_issue q repo n g"; cases "fst (gq_get_issue q repo n g)") auto
  moreover have "has_login (claimed_issue a l assignee label i) assignee"
    "issue_has_label (claimed_issue a l assignee label i) label"
    using assms(7,8) by (auto simp: claimed_issue_def has_login_def issue_has_label_def)
  ultimately show ?thesis by (simp add: verify_remote_claim_def assms)
qed

abbreviation claim_repo :: "DiscoveryConfig \<Rightarrow> string" where
  "claim_repo cfg \<equiv> (case dc_repo cfg of Some r \<Rightarrow> r | None \<Rightarrow> [])"

lemma cleanup_nothing:
  assumes "faithful_github q view" and "\<not> cm_assignment_added receipt" "\<not> cm_label_added receipt"
    and "cleanup_remote_claim q repo n receipt g = (r, g1)"
  shows "view g1 = view g"
  using assms(2-4) faithful_get [OF assms(1), of repo n g]
  by (auto simp: cleanup_remote_claim_def split: prod.splits result.splits option.splits)

lemma verify_remote_claim_view:
  "faithful_github q view \<Longrightarrow> verify_remote_claim q cfg n g = (r, g1) \<Longrightarrow> view g1 = view g"
  using faithful_get [of q view "claim_repo cfg" n g]
  by (auto simp: verify_remote_claim_def split: prod.splits result.splits option.splits if_splits)

text \<open>
  The issues while a claim is under way: the claimed issue has a part of the additions the
  ownership records, everything else is as it was. A cleanup keeps this, and undoes all of it
  when it succeeds; it may be repeated after a failure.
\<close>

definition partly_claimed ::
  "DiscoveryConfig \<Rightarrow> u64 \<Rightarrow> ClaimOwnership \<Rightarrow> (string \<times> u64 \<Rightarrow> GithubIssue option) \<Rightarrow> (string \<times> u64 \<Rightarrow> GithubIssue option) \<Rightarrow> bool" where
  "partly_claimed cfg n own v0 v =
     (case (dc_repo cfg, dc_claim_assignee cfg, dc_claim_label cfg) of
        (Some repo, Some assignee, Some label) \<Rightarrow>
          (case v0 (repo, n) of
             None \<Rightarrow> v = v0
           | Some i \<Rightarrow>
               co_assignment_added own = (\<not> has_login i assignee) \<and> co_label_added own = (\<not> issue_has_label i label) \<and>
               (\<exists>a l. (a \<longrightarrow> co_assignment_added own) \<and> (l \<longrightarrow> co_label_added own) \<and>
                  v = v0((repo, n) \<mapsto> claimed_issue a l assignee label i)))
      | _ \<Rightarrow> own = no_ownership \<and> v = v0)"

lemma applied_partly_claimed:
  assumes "faithful_github q view" and "inspect_remote_claim q cfg issue g = (Ok own, g1)"
    and "apply_remote_claim q cfg issue own g1 = (r, g2)"
  shows "partly_claimed cfg (gi_number issue) own (view g) (view g2)"
proof (cases "\<exists>repo assignee label. dc_repo cfg = Some repo \<and> dc_claim_assignee cfg = Some assignee \<and> dc_claim_label cfg = Some label")
  case False
  then show ?thesis
    using assms(2,3) by (auto simp: inspect_remote_claim_def apply_remote_claim_def partly_claimed_def split: option.splits)
next
  case True
  then obtain repo assignee label where c: "dc_repo cfg = Some repo" "dc_claim_assignee cfg = Some assignee"
    "dc_claim_label cfg = Some label" by blast
  obtain a l where al: "a \<longrightarrow> co_assignment_added own" "l \<longrightarrow> co_label_added own"
      "view g2 = edit_issue (claimed_issue a l assignee label) (repo, gi_number issue) (view g)"
    using apply_remote_claim_view [OF assms(1,3) c] inspect_remote_claim_view(1) [OF assms(1,2)] by auto
  show ?thesis
  proof (cases "view g (repo, gi_number issue)")
    case None
    then show ?thesis using al(3) c by (simp add: partly_claimed_def edit_issue_def fun_upd_idem)
  next
    case (Some i)
    then have "own = \<lparr>co_assignment_added = \<not> has_login i assignee, co_label_added = \<not> issue_has_label i label\<rparr>"
      using inspect_remote_claim_view(2) [OF assms(1,2)] c by simp
    then show ?thesis using Some al c by (auto simp: partly_claimed_def edit_issue_def)
  qed
qed

lemma cleanup_partly_claimed:
  assumes "faithful_github q view" and "partly_claimed cfg n own v0 (view h)"
    and "cleanup_remote_claim q (claim_repo cfg) n
        (claim_receipt lease cfg (co_assignment_added own) (co_label_added own) pending) h = (r, h1)"
  shows "partly_claimed cfg n own v0 (view h1)" and "r = Ok () \<Longrightarrow> view h1 = v0"
proof -
  have "partly_claimed cfg n own v0 (view h1) \<and> (r = Ok () \<longrightarrow> view h1 = v0)"
  proof (cases "\<exists>repo assignee label i. dc_repo cfg = Some repo \<and> dc_claim_assignee cfg = Some assignee \<and>
      dc_claim_label cfg = Some label \<and> v0 (repo, n) = Some i")
    case True
    then obtain repo assignee label i where c: "dc_repo cfg = Some repo" "dc_claim_assignee cfg = Some assignee"
      "dc_claim_label cfg = Some label" and i: "v0 (repo, n) = Some i" by blast
    have own: "co_assignment_added own = (\<not> has_login i assignee)" "co_label_added own = (\<not> issue_has_label i label)"
      using assms(2) c i by (auto simp: partly_claimed_def)
    obtain a l where al: "a \<longrightarrow> co_assignment_added own" "l \<longrightarrow> co_label_added own"
      "view h = v0((repo, n) \<mapsto> claimed_issue a l assignee label i)"
      using assms(2) c i by (auto simp: partly_claimed_def)
    have "\<exists>a' l'. (a' \<longrightarrow> a) \<and> (l' \<longrightarrow> l) \<and> (r = Ok () \<longrightarrow> \<not> a' \<and> \<not> l') \<and>
        view h1 = (view h)((repo, n) \<mapsto> claimed_issue a' l' assignee label i)"
      using cleanup_claimed_issue [OF assms(1), of repo n "claim_receipt lease cfg (co_assignment_added own) (co_label_added own) pending"
          h r h1 a l i] assms(3) c al own
      by (simp add: claim_receipt_def)
    then obtain a' l' where "a' \<longrightarrow> a" "l' \<longrightarrow> l" "r = Ok () \<longrightarrow> \<not> a' \<and> \<not> l'"
      "view h1 = (view h)((repo, n) \<mapsto> claimed_issue a' l' assignee label i)" by blast
    then show ?thesis
      using al own c i by (auto simp: partly_claimed_def claimed_issue_parts fun_upd_idem)
  next
    case False
    then have v: "view h = v0" "own = no_ownership \<or> view h (claim_repo cfg, n) = None"
      using assms(2) by (auto simp: partly_claimed_def split: option.splits)
    have "view h1 = v0"
      using v cleanup_nothing [OF assms(1) _ _ assms(3)] faithful_get [OF assms(1), of "claim_repo cfg" n h] assms(3)
      by (auto simp: no_ownership_def claim_receipt_def cleanup_remote_claim_def split: prod.splits result.splits option.splits)
    then show ?thesis using assms(2) v(1) by simp
  qed
  then show "partly_claimed cfg n own v0 (view h1)" "r = Ok () \<Longrightarrow> view h1 = v0" by blast+
qed

lemma applied_claim_verifies:
  assumes "faithful_github q view" and "inspect_remote_claim q cfg issue g = (Ok own, g1)"
    and "apply_remote_claim q cfg issue own g1 = (Ok (), g2)" and "dc_repo cfg = Some repo"
    and "view g (repo, gi_number issue) \<noteq> None" and "is_ok (fst (gq_get_issue q repo (gi_number issue) g2))"
  shows "fst (verify_remote_claim q cfg (gi_number issue) g2) = Ok ()"
proof (cases "\<exists>assignee label. dc_claim_assignee cfg = Some assignee \<and> dc_claim_label cfg = Some label")
  case False
  then show ?thesis by (auto simp: verify_remote_claim_def split: option.split)
next
  case True
  then obtain assignee label where c: "dc_claim_assignee cfg = Some assignee" "dc_claim_label cfg = Some label" by blast
  obtain i where i: "view g (repo, gi_number issue) = Some i" using assms(5) by blast
  have own: "co_assignment_added own = (\<not> has_login i assignee)" "co_label_added own = (\<not> issue_has_label i label)"
    using inspect_remote_claim_view(2) [OF assms(1,2)] assms(4) c i by simp_all
  have "view g2 (repo, gi_number issue) =
      Some (claimed_issue (co_assignment_added own) (co_label_added own) assignee label i)"
    using apply_remote_claim_view [OF assms(1,3,4) c] inspect_remote_claim_view(1) [OF assms(1,2)] i
    by (auto simp: edit_issue_def)
  then show ?thesis using verify_claimed_issue [OF assms(1) _ assms(6)] assms(4) c own by simp
qed

text \<open>
  C36: undoing a remote claim restores the issue. On a GitHub that does what it says, let a claim
  be inspected and applied, completely or up to the first failing call. Nothing is removed that
  was there before: once the cleanup with the receipt of that claim succeeds, every issue has
  exactly the labels and assignees it had. A completely applied claim on an existing issue is
  there: its verification can only fail when the call itself fails.
\<close>

theorem remote_claim_round_trip:
  assumes "faithful_github q view" and "dc_repo cfg = Some repo"
    and "inspect_remote_claim q cfg issue g = (Ok own, g1)"
    and "apply_remote_claim q cfg issue own g1 = (r, g2)"
  shows "(\<forall>lease pending g3.
      cleanup_remote_claim q repo (gi_number issue)
        (claim_receipt lease cfg (co_assignment_added own) (co_label_added own) pending) g2 = (Ok (), g3) \<longrightarrow>
      view g3 = view g) \<and>
    (r = Ok () \<and> view g (repo, gi_number issue) \<noteq> None \<and> is_ok (fst (gq_get_issue q repo (gi_number issue) g2)) \<longrightarrow>
      fst (verify_remote_claim q cfg (gi_number issue) g2) = Ok ())"
  using cleanup_partly_claimed(2) [OF assms(1) applied_partly_claimed [OF assms(1,3,4)]] applied_claim_verifies [OF assms(1,3) _ assms(2), of g2] assms(2,4)
  by auto


text \<open>A GitHub in which each repository and number has its issue.\<close>

type_synonym issue_store = "string \<times> u64 \<Rightarrow> GithubIssue option"

definition store_edit :: "(string \<Rightarrow> GithubIssue \<Rightarrow> GithubIssue) \<Rightarrow> string \<Rightarrow> u64 \<Rightarrow> string \<Rightarrow> issue_store \<Rightarrow>
    (unit, GithubError) result \<times> issue_store" where
  "store_edit f repo n x g = (Ok (), edit_issue (f x) (repo, n) g)"

definition store_github :: "issue_store GithubIssueQuery" where
  "store_github = \<lparr>gq_list_issues = \<lambda>_ _ _ g. (Ok [], g), gq_latest_label_actor = \<lambda>_ _ _ g. (Ok None, g),
     gq_has_open_pr_for_issue = \<lambda>_ _ g. (Ok False, g), gq_get_issue = \<lambda>repo n g. (Ok (g (repo, n)), g),
     gq_list_sub_issues = \<lambda>_ _ g. (Ok [], g), gq_get_parent_issue = \<lambda>_ _ g. (Ok None, g),
     gq_add_label = store_edit (\<lambda>l i. i\<lparr>gi_labels := gi_labels i @ [l]\<rparr>),
     gq_remove_label = store_edit (\<lambda>l i. i\<lparr>gi_labels := filter (\<lambda>x. \<not> eq_ignore_ascii_case x l) (gi_labels i)\<rparr>),
     gq_add_assignee = store_edit (\<lambda>a i. i\<lparr>gi_assignees := gi_assignees i @ [a]\<rparr>),
     gq_remove_assignee = store_edit (\<lambda>a i. i\<lparr>gi_assignees := filter (\<lambda>x. \<not> eq_ignore_ascii_case x a) (gi_assignees i)\<rparr>),
     gq_error_text = \<lambda>_. ''error''\<rparr>"

lemma store_github_faithful: "faithful_github store_github (\<lambda>g. g)"
  by (simp add: faithful_github_def edits_def store_github_def store_edit_def)

definition demo_store :: issue_store where
  "demo_store = (\<lambda>_. None)((''o/r'', 9) \<mapsto> demo_issue 9 [''ok''])"

theorem remote_claim_round_trip_witness:
  "\<exists>own g2 g3. inspect_remote_claim store_github demo_discovery (demo_issue 9 [''ok'']) demo_store = (Ok own, demo_store) \<and>
     apply_remote_claim store_github demo_discovery (demo_issue 9 [''ok'']) own demo_store = (Ok (), g2) \<and>
     g2 \<noteq> demo_store \<and>
     cleanup_remote_claim store_github ''o/r'' 9 (claim_receipt ''l'' demo_discovery (co_assignment_added own) (co_label_added own) True)
       g2 = (Ok (), g3) \<and> g3 = demo_store"
proof -
  let ?i = "demo_issue 9 [''ok'']"
  let ?own = "\<lparr>co_assignment_added = True, co_label_added = True\<rparr>"
  have repo: "dc_repo demo_discovery = Some ''o/r''" by (simp add: demo_discovery_def)
  have cased: "\<not> eq_ignore_ascii_case ''ok'' ''working''" "\<not> eq_ignore_ascii_case ''working'' ''bot''" by code_simp+
  have ins: "inspect_remote_claim store_github demo_discovery ?i demo_store = (Ok ?own, demo_store)"
    by (simp add: inspect_remote_claim_def demo_discovery_def store_github_def demo_store_def demo_issue_def
        has_login_def issue_has_label_def cased)
  obtain g2 where app: "apply_remote_claim store_github demo_discovery ?i ?own demo_store = (Ok (), g2)"
    and g2: "g2 (''o/r'', 9) = Some (claimed_issue True True ''bot'' ''working'' ?i)"
    by (simp add: apply_remote_claim_def demo_discovery_def store_github_def store_edit_def edit_issue_def demo_store_def
        demo_issue_def claimed_issue_def)
  obtain g3 where cl: "cleanup_remote_claim store_github ''o/r'' 9 (claim_receipt ''l'' demo_discovery True True True) g2 = (Ok (), g3)"
    by (cases "cleanup_remote_claim store_github ''o/r'' 9 (claim_receipt ''l'' demo_discovery True True True) g2")
       (auto simp: cleanup_remote_claim_def store_github_def store_edit_def g2 Let_def split: if_splits)
  have "g3 = demo_store"
    using remote_claim_round_trip [OF store_github_faithful repo ins app] cl by (simp add: demo_issue_def)
  moreover have "g2 \<noteq> demo_store"
    using g2 by (auto simp: demo_store_def claimed_issue_def demo_issue_def)
  ultimately show ?thesis using ins app cl by auto
qed


section \<open>A pending cleanup does not survive the next claim\<close>

text \<open>
  A lease that ended with a cleanup still pending may be claimed again (its status is
  reclaimable). The new claim replaces the lease's row, and the receipt with the pending
  cleanup is no longer listed for the issue: with foreign keys it is overwritten by the new
  receipt, without them its lease no longer exists. The labels and assignees it recorded as its
  own are never removed, and the next claim finds them in place and does not own them.
\<close>

lemma reclaim_forgets_pending_cleanup:
  assumes "lease_table_ok (dd_leases db)"
    and "acquire_lease_with_receipt fk now repo n config cfg db = Ok (db', Some lease)"
    and "c \<in> set (list_pending_claim_cleanups repo db')"
  shows "pc_issue_number c \<noteq> n"
proof
  assume n: "pc_issue_number c = n"
  from assms(3) n obtain m l where m: "m \<in> set (dd_claims db')" "cm_cleanup_pending m"
    and l: "l \<in> set (dd_leases db')" "il_lease_id l = cm_lease_id m" "lease_key l = (repo, n)"
    by (auto simp: list_pending_claim_cleanups_def)
  from acquire_cases [OF assms(1,2)] have w: "lease = claim_lease now repo n config" "lease_table_ok (dd_leases db')"
      "lookup_by il_lease_id (il_lease_id lease) (dd_leases db') = Some lease" by auto
  have "l = lease"
    using unique_keyD [of lease_key "dd_leases db'" l lease] w l(1,3) lookup_by_SomeD [OF w(3)]
    by (simp add: lease_table_ok_def)
  then have m_id: "cm_lease_id m = il_lease_id lease" using l(2) by simp
  obtain claims where "dd_claims db' =
      upsert cm_lease_id (\<lambda>_ new. new) (claim_receipt (il_lease_id lease) cfg False False False) claims"
    using assms(2) by (auto simp: acquire_lease_with_receipt_def upsert_claim_metadata_def Let_def
        split: result.splits prod.splits option.splits if_splits)
  with m(1) m_id have "m = claim_receipt (il_lease_id lease) cfg False False False"
    by (auto simp: upsert_def set_update_where split: if_splits)
  with m(2) show False by (simp add: claim_receipt_def)
qed

end
