(* ===== verification/Scheduler.thy ===== *)
theory Scheduler
  imports Daemon_Claim
begin

text \<open>
  The scheduler pass of the daemon (\<open>daemon/scheduler.rs\<close>, \<open>daemon/scheduler/dispatch.rs\<close>,
  \<open>daemon/launcher/resume_preparation.rs\<close>): reconciling interrupted claims, polling, choosing
  runs to resume and issues to launch within the capacity limits, claiming them locally and on
  GitHub, and settling the leases when the launched workflows return.
\<close>

section \<open>Targets and limits\<close>

record SchedulerTarget =
  tg_config_id :: string
  tg_discovery :: DiscoveryConfig
  tg_path_bases :: DaemonPathBases
  tg_parent_path_bases :: "(string \<times> DaemonPathBases) list"
  tg_config_root :: string

record CapacityLimits =
  li_global :: nat
  li_per_config :: nat
  li_per_repository :: nat

datatype SchedulerError =
    SePollApply PollApplyError
  | SeSqlite sql_error
  | TargetsQueriesMismatch nat nat

definition u32_max :: nat where
  "u32_max = 4294967295"

text \<open>\<open>filter_map(..).max().unwrap_or(default) as usize\<close>.\<close>

definition max_setting :: "nat \<Rightarrow> u32 option list \<Rightarrow> nat" where
  "max_setting dflt settings =
     (case List.map_filter (map_option unat) settings of [] \<Rightarrow> dflt | n # ns \<Rightarrow> fold max ns n)"

definition per_config_setting :: "DiscoveryConfig \<Rightarrow> u32 option" where
  "per_config_setting cfg =
     (case dc_max_concurrent_runs_per_config cfg of Some n \<Rightarrow> Some n | None \<Rightarrow> dc_max_concurrent_runs cfg)"

definition capacity_limits :: "SchedulerTarget list \<Rightarrow> CapacityLimits" where
  "capacity_limits targets =
     \<lparr>li_global = max_setting u32_max (map (\<lambda>t. dc_max_concurrent_active_runs (tg_discovery t)) targets),
      li_per_config = max_setting 1 (map (\<lambda>t. per_config_setting (tg_discovery t)) targets),
      li_per_repository = max_setting u32_max (map (\<lambda>t. dc_max_concurrent_runs_per_repository (tg_discovery t)) targets)\<rparr>"

definition has_capacity :: "lease_table \<Rightarrow> DiscoveryConfig \<Rightarrow> string \<Rightarrow> string \<Rightarrow> CapacityLimits \<Rightarrow> bool" where
  "has_capacity ls cfg config_id repo limits \<longleftrightarrow>
     count_active_leases ls < li_global limits \<and>
     count_active_leases_for_config config_id ls <
       (case per_config_setting cfg of Some n \<Rightarrow> unat n | None \<Rightarrow> li_per_config limits) \<and>
     count_active_leases_for_repository repo ls <
       (case dc_max_concurrent_runs_per_repository cfg of Some n \<Rightarrow> unat n | None \<Rightarrow> li_per_repository limits)"

definition dispatch_parallelism :: "CapacityLimits \<Rightarrow> nat \<Rightarrow> nat" where
  "dispatch_parallelism limits unit_count = max (min unit_count (li_global limits)) 1"

definition parent_capacity_discovery :: "DiscoveryConfig \<Rightarrow> CapacityLimits \<Rightarrow> (DiscoveryConfig, SchedulerError) result" where
  "parent_capacity_discovery cfg limits =
     (let limit = (case per_config_setting cfg of Some n \<Rightarrow> unat n | None \<Rightarrow> li_per_config limits)
      in if u32_max < limit then Err (SeSqlite IntegralValueOutOfRange)
         else Ok (cfg\<lparr>dc_max_concurrent_runs := Some (of_nat limit),
                      dc_max_concurrent_runs_per_config := Some (of_nat limit)\<rparr>))"

definition launch_discovery_for ::
  "SchedulerTarget \<Rightarrow> string \<Rightarrow> CapacityLimits \<Rightarrow> (string \<times> DiscoveryConfig) list \<Rightarrow> (DiscoveryConfig, SchedulerError) result" where
  "launch_discovery_for target config_id limits parents =
     (if config_id = tg_config_id target then Ok (tg_discovery target)
      else (case map_of parents config_id of
              Some d \<Rightarrow> Ok d
            | None \<Rightarrow> parent_capacity_discovery (tg_discovery target) limits))"

definition path_bases_for :: "SchedulerTarget \<Rightarrow> string \<Rightarrow> DaemonPathBases" where
  "path_bases_for target config_id =
     (if config_id = tg_config_id target then tg_path_bases target
      else (case map_of (tg_parent_path_bases target) config_id of
              Some bases \<Rightarrow> bases
            | None \<Rightarrow> \<lparr>pb_work_dir_base = None, pb_artifact_dir_base = None\<rparr>))"

text \<open>
  \<open>BTreeMap\<close>s from configuration ids, as association lists: \<open>insert\<close> replaces, \<open>or_insert\<close>
  keeps the present value.
\<close>

definition or_insert :: "'k \<Rightarrow> 'v \<Rightarrow> ('k \<times> 'v) list \<Rightarrow> ('k \<times> 'v) list" where
  "or_insert k v m = (case map_of m k of Some _ \<Rightarrow> m | None \<Rightarrow> m @ [(k, v)])"

definition parent_launch_discoveries :: "SchedulerTarget list \<Rightarrow> CapacityLimits \<Rightarrow> (string \<times> DiscoveryConfig) list" where
  "parent_launch_discoveries targets limits =
     (let direct = fold (\<lambda>t. AList.update (tg_config_id t) (tg_discovery t)) targets [];
          derived = fold (\<lambda>t m.
            (case dc_parent_config_id (tg_discovery t) of
               None \<Rightarrow> m
             | Some parent \<Rightarrow>
                 (case parent_capacity_discovery (tg_discovery t) limits of
                    Ok d \<Rightarrow> or_insert parent d m
                  | Err _ \<Rightarrow> m))) targets []
      in fold (\<lambda>(k, d). or_insert k d) derived direct)"

definition upsert_resume_config_target ::
  "string \<Rightarrow> DiscoveryConfig \<Rightarrow> bool \<Rightarrow> (string \<times> DiscoveryConfig \<times> bool) list \<Rightarrow> (string \<times> DiscoveryConfig \<times> bool) list" where
  "upsert_resume_config_target config_id discovery direct m =
     (case map_of m config_id of
        None \<Rightarrow> m @ [(config_id, discovery, direct)]
      | Some (_, existing_direct) \<Rightarrow>
          (if direct \<and> \<not> existing_direct then AList.update config_id (discovery, True) m else m))"

text \<open>The iteration order of the map is the order of its keys.\<close>

definition resume_config_targets :: "SchedulerTarget list \<Rightarrow> CapacityLimits \<Rightarrow> (string \<times> DiscoveryConfig) list" where
  "resume_config_targets targets limits =
     map (\<lambda>(k, d, _). (k, d))
       (sort_key fst
         (fold (\<lambda>t m.
            (let m1 = upsert_resume_config_target (tg_config_id t) (tg_discovery t) True m
             in case dc_parent_config_id (tg_discovery t) of
                  None \<Rightarrow> m1
                | Some parent \<Rightarrow>
                    (case parent_capacity_discovery (tg_discovery t) limits of
                       Ok d \<Rightarrow> upsert_resume_config_target parent d False m1
                     | Err _ \<Rightarrow> m1))) targets []))"

section \<open>Reconciling interrupted claims\<close>

text \<open>
  One pending cleanup: a lease still claimed is first moved to pending (and left alone when
  that is refused), the remote claim is undone, and only then the receipt is cleared and a
  pending lease abandoned. A failing cleanup is retried in the next pass.
\<close>

definition reconcile_one ::
  "'g DaemonEnv \<Rightarrow> 'g GithubIssueQuery \<Rightarrow> PendingClaimCleanup \<Rightarrow> DaemonDb \<times> 'g \<Rightarrow>
   (DaemonDb \<times> 'g) \<times> (unit, SchedulerError) result" where
  "reconcile_one env q c st =
     (let (db, g) = st; receipt = pc_receipt c; lease_id = cm_lease_id receipt;
          moved = (if pc_lease_status c = LClaimed
                   then map_ok (\<lambda>(ls, out). (set_leases ls db, out = Applied))
                          (update_lease_status_conditional_outcome (de_now env g) lease_id LPending [LClaimed] None None (dd_leases db))
                   else Ok (db, True))
      in case moved of
           Err e \<Rightarrow> (st, Err (SeSqlite e))
         | Ok (db1, False) \<Rightarrow> ((db1, g), Ok ())
         | Ok (db1, True) \<Rightarrow>
             (case cleanup_remote_claim q (pc_issue_repo c) (pc_issue_number c) receipt g of
                (Err _, g1) \<Rightarrow> ((db1, g1), Ok ())
              | (Ok _, g1) \<Rightarrow>
                  (case upsert_claim_metadata (de_foreign_keys env) (receipt\<lparr>cm_cleanup_pending := False\<rparr>) db1 of
                     Err e \<Rightarrow> ((db1, g1), Err (SeSqlite e))
                   | Ok db2 \<Rightarrow>
                       (if pc_lease_status c = LClaimed \<or> pc_lease_status c = LPending
                        then (case update_lease_status_conditional_outcome (de_now env g1) lease_id LAbandoned [LPending] None None (dd_leases db2) of
                                Err e \<Rightarrow> ((db2, g1), Err (SeSqlite e))
                              | Ok (ls, _) \<Rightarrow> ((set_leases ls db2, g1), Ok ()))
                        else ((db2, g1), Ok ())))))"

fun reconcile_all ::
  "'g DaemonEnv \<Rightarrow> 'g GithubIssueQuery \<Rightarrow> PendingClaimCleanup list \<Rightarrow> DaemonDb \<times> 'g \<Rightarrow>
   (DaemonDb \<times> 'g) \<times> (unit, SchedulerError) result" where
  "reconcile_all env q [] st = (st, Ok ())"
| "reconcile_all env q (c # cs) st =
     (case reconcile_one env q c st of
        (st1, Err e) \<Rightarrow> (st1, Err e)
      | (st1, Ok _) \<Rightarrow> reconcile_all env q cs st1)"

fun reconcile_claim_cleanups ::
  "'g DaemonEnv \<Rightarrow> (SchedulerTarget \<times> 'g GithubIssueQuery) list \<Rightarrow> DaemonDb \<times> 'g \<Rightarrow>
   (DaemonDb \<times> 'g) \<times> (unit, SchedulerError) result" where
  "reconcile_claim_cleanups env [] st = (st, Ok ())"
| "reconcile_claim_cleanups env ((t, q) # rest) st =
     (case dc_repo (tg_discovery t) of
        None \<Rightarrow> reconcile_claim_cleanups env rest st
      | Some repo \<Rightarrow>
          (case reconcile_all env q (list_pending_claim_cleanups repo (fst st)) st of
             (st1, Err e) \<Rightarrow> (st1, Err e)
           | (st1, Ok _) \<Rightarrow> reconcile_claim_cleanups env rest st1))"

section \<open>Resuming\<close>

record DispatchUnit =
  du_lease_id :: string
  du_request :: LaunchRequest
  du_resume :: bool
  du_query_index :: "nat option"

text \<open>
  The checks of a resume that look beyond lease, receipt and run: a pending migration of the
  workspace marker, the ownership of the workspace directory, the launch provenance (the
  configuration root to use) and the continuation rules.
\<close>

record ResumeChecks =
  rc_migration_pending :: "string \<Rightarrow> bool"
  rc_workspace_owned :: "string \<Rightarrow> string \<Rightarrow> bool"
  rc_provenance :: "RunMetadata \<Rightarrow> ClaimMetadataReceipt \<Rightarrow> string option"
  rc_continuation :: "WaitDb \<Rightarrow> string \<Rightarrow> (bool, sql_error) result"

record PreparedResume =
  pz_run_id :: string
  pz_workflow_type_id :: string
  pz_config_id :: string
  pz_config_root :: string
  pz_claim_assignment_added :: bool
  pz_claim_label_added :: bool

definition verify_resume_continuation_authorization ::
  "ResumeChecks \<Rightarrow> WaitDb \<Rightarrow> RunMetadata \<Rightarrow> string \<Rightarrow> (bool, sql_error) result" where
  "verify_resume_continuation_authorization rc db metadata run_id =
     (if (case rm_current_step metadata of Some s \<Rightarrow> s | None \<Rightarrow> []) = [] then Ok False
      else rc_continuation rc db run_id)"

definition validate_resume_read_only ::
  "ResumeChecks \<Rightarrow> IssueLease \<Rightarrow> DaemonDb \<Rightarrow> (PreparedResume option, sql_error) result" where
  "validate_resume_read_only rc lease db =
     (case il_run_id lease of
        None \<Rightarrow> Ok None
      | Some run_id \<Rightarrow>
          (case get_claim_metadata (il_lease_id lease) db of
             None \<Rightarrow> Ok None
           | Some receipt \<Rightarrow>
               (case get_run_with_conn run_id (db_runs (dd_db db)) of
                  None \<Rightarrow> Ok None
                | Some m \<Rightarrow>
                    (if rm_workflow_type_id m = [] then Ok None
                     else if il_config_id lease \<noteq> rm_config_id m \<or> rm_repository m \<noteq> Some (il_issue_repo lease) \<or>
                             issue_lease_number m \<noteq> Some (il_issue_number lease) then Ok None
                     else if is_ownership_denied_terminal m then Ok None
                     else if rc_migration_pending rc run_id then Ok None
                     else if \<not> (case rm_workspace_path m of Some w \<Rightarrow> rc_workspace_owned rc w run_id | None \<Rightarrow> False) then Ok None
                     else (case rc_provenance rc m receipt of
                             None \<Rightarrow> Ok None
                           | Some root \<Rightarrow>
                               (case verify_resume_continuation_authorization rc (dd_db db) m run_id of
                                  Err e \<Rightarrow> Err e
                                | Ok False \<Rightarrow> Ok None
                                | Ok True \<Rightarrow>
                                    Ok (Some \<lparr>pz_run_id = run_id, pz_workflow_type_id = rm_workflow_type_id m,
                                       pz_config_id = rm_config_id m, pz_config_root = root,
                                       pz_claim_assignment_added = cm_assignment_added receipt,
                                       pz_claim_label_added = cm_label_added receipt\<rparr>)))))))"

definition acquire_resume_lease :: "instant \<Rightarrow> string \<Rightarrow> string \<Rightarrow> DaemonDb \<Rightarrow> (DaemonDb \<times> bool, sql_error) result" where
  "acquire_resume_lease now lease_id run_id db =
     map_ok (\<lambda>(ls, out). (set_leases ls db, out = Applied))
       (update_lease_status_conditional_outcome now lease_id LRunning [LReadyToResume] (Some run_id) (Some run_id) (dd_leases db))"

definition prepare_resume_lease ::
  "ResumeChecks \<Rightarrow> instant \<Rightarrow> IssueLease \<Rightarrow> DaemonDb \<Rightarrow> DaemonDb \<times> ((PreparedResume, SkipReason) result, sql_error) result" where
  "prepare_resume_lease rc now lease db =
     (case validate_resume_read_only rc lease db of
        Err e \<Rightarrow> (db, Err e)
      | Ok None \<Rightarrow> (db, Ok (Err InvalidLeaseState))
      | Ok (Some prepared) \<Rightarrow>
          (case acquire_resume_lease now (il_lease_id lease) (pz_run_id prepared) db of
             Err e \<Rightarrow> (db, Err e)
           | Ok (db1, acquired) \<Rightarrow> (db1, Ok (if acquired then Ok prepared else Err InvalidLeaseState))))"

definition into_claimed_launch :: "PreparedResume \<Rightarrow> IssueLease \<Rightarrow> ClaimedLaunch" where
  "into_claimed_launch p lease =
     \<lparr>cl_lease_id = il_lease_id lease,
      cl_request = \<lparr>lr_config_id = il_config_id lease, lr_workflow_type_id = Some (pz_workflow_type_id p),
        lr_run_id = pz_run_id p, lr_repo = il_issue_repo lease, lr_issue_number = il_issue_number lease,
        lr_daemon_managed_claim = True, lr_claim_assignment_added = pz_claim_assignment_added p,
        lr_claim_label_added = pz_claim_label_added p, lr_work_dir = None, lr_artifact_dir = None,
        lr_config_root = pz_config_root p\<rparr>\<rparr>"

definition prepare_resume_unit ::
  "ResumeChecks \<Rightarrow> instant \<Rightarrow> IssueLease \<Rightarrow> DaemonDb \<Rightarrow> DaemonDb \<times> (DispatchUnit option, SchedulerError) result" where
  "prepare_resume_unit rc now lease db =
     (case prepare_resume_lease rc now lease db of
        (db1, Err e) \<Rightarrow> (db1, Err (SeSqlite e))
      | (db1, Ok (Err _)) \<Rightarrow> (db1, Ok None)
      | (db1, Ok (Ok p)) \<Rightarrow>
          (db1, Ok (Some \<lparr>du_lease_id = cl_lease_id (into_claimed_launch p lease),
             du_request = cl_request (into_claimed_launch p lease), du_resume = True, du_query_index = None\<rparr>)))"

text \<open>A lease without capacity is passed over; one that cannot be prepared is reported and passed over.\<close>

fun resume_leases ::
  "ResumeChecks \<Rightarrow> instant \<Rightarrow> string \<Rightarrow> DiscoveryConfig \<Rightarrow> CapacityLimits \<Rightarrow> IssueLease list \<Rightarrow> DaemonDb \<Rightarrow>
   DispatchUnit list \<times> DaemonDb" where
  "resume_leases rc now config_id cfg limits [] db = ([], db)"
| "resume_leases rc now config_id cfg limits (lease # leases) db =
     (if \<not> has_capacity (dd_leases db) cfg config_id (il_issue_repo lease) limits
      then resume_leases rc now config_id cfg limits leases db
      else (case prepare_resume_unit rc now lease db of
              (db1, Ok (Some u)) \<Rightarrow>
                (case resume_leases rc now config_id cfg limits leases db1 of (us, db2) \<Rightarrow> (u # us, db2))
            | (db1, _) \<Rightarrow> resume_leases rc now config_id cfg limits leases db1))"

fun resume_configs ::
  "ResumeChecks \<Rightarrow> instant \<Rightarrow> CapacityLimits \<Rightarrow> (string \<times> DiscoveryConfig) list \<Rightarrow> DaemonDb \<Rightarrow> DispatchUnit list \<times> DaemonDb" where
  "resume_configs rc now limits [] db = ([], db)"
| "resume_configs rc now limits ((config_id, cfg) # rest) db =
     (case resume_leases rc now config_id cfg limits (list_ready_to_resume_leases config_id (dd_leases db)) db of
        (us, db1) \<Rightarrow> (case resume_configs rc now limits rest db1 of (vs, db2) \<Rightarrow> (us @ vs, db2)))"

definition collect_resume_units ::
  "ResumeChecks \<Rightarrow> instant \<Rightarrow> SchedulerTarget list \<Rightarrow> CapacityLimits \<Rightarrow> DaemonDb \<Rightarrow> DispatchUnit list \<times> DaemonDb" where
  "collect_resume_units rc now targets limits db = resume_configs rc now limits (resume_config_targets targets limits) db"

section \<open>Launching\<close>

definition persist_claim_ownership ::
  "bool \<Rightarrow> string \<Rightarrow> DiscoveryConfig \<Rightarrow> ClaimOwnership \<Rightarrow> bool \<Rightarrow> DaemonDb \<Rightarrow> DaemonDb \<times> (unit, sql_error) result" where
  "persist_claim_ownership fk lease_id cfg own pending db =
     (case upsert_claim_metadata fk
             (claim_receipt lease_id cfg (co_assignment_added own) (co_label_added own) pending) db of
        Err e \<Rightarrow> (db, Err e)
      | Ok db1 \<Rightarrow> (db1, if get_claim_metadata lease_id db1 = None then Err QueryReturnedNoRows else Ok ()))"

definition abandon_failed_claim ::
  "'g DaemonEnv \<Rightarrow> 'g GithubIssueQuery \<Rightarrow> DiscoveryConfig \<Rightarrow> ClaimedLaunch \<Rightarrow> ClaimOwnership \<Rightarrow> DaemonDb \<times> 'g \<Rightarrow>
   (DaemonDb \<times> 'g) \<times> (unit, SchedulerError) result" where
  "abandon_failed_claim env q cfg claimed own st =
     (let (db, g) = st;
          (r, g1) = cleanup_remote_claim q (lr_repo (cl_request claimed)) (lr_issue_number (cl_request claimed))
            (claim_receipt (cl_lease_id claimed) cfg (co_assignment_added own) (co_label_added own) True) g
      in case persist_claim_ownership (de_foreign_keys env) (cl_lease_id claimed) cfg own (\<not> is_ok r) db of
           (db1, Err e) \<Rightarrow> ((db1, g1), Err (SeSqlite e))
         | (db1, Ok _) \<Rightarrow>
             (case update_lease_status_conditional_outcome (de_now env g1) (cl_lease_id claimed) LAbandoned
                     [LClaimed, LPending] (Some (lr_run_id (cl_request claimed))) None (dd_leases db1) of
                Err e \<Rightarrow> ((db1, g1), Err (SeSqlite e))
              | Ok (ls, _) \<Rightarrow> ((set_leases ls db1, g1), Ok ())))"

definition apply_claim_ownership :: "ClaimOwnership \<Rightarrow> LaunchRequest \<Rightarrow> LaunchRequest" where
  "apply_claim_ownership own r =
     r\<lparr>lr_daemon_managed_claim := True, lr_claim_assignment_added := co_assignment_added own,
       lr_claim_label_added := co_label_added own\<rparr>"

datatype PrepareLaunchOutcome = Ready DispatchUnit | PlSkipped | PlFailed

text \<open>After an abandoned claim the launch has failed, unless abandoning it failed as well.\<close>

definition failed_after ::
  "(DaemonDb \<times> 'g) \<times> (unit, SchedulerError) result \<Rightarrow> (DaemonDb \<times> 'g) \<times> (PrepareLaunchOutcome, SchedulerError) result" where
  "failed_after r = (case r of (st, Err e) \<Rightarrow> (st, Err e) | (st, Ok _) \<Rightarrow> (st, Ok PlFailed))"

text \<open>The part after a won local claim: recording the intent, claiming remotely, starting the lease.\<close>

definition finish_launch_claim ::
  "'g DaemonEnv \<Rightarrow> 'g GithubIssueQuery \<Rightarrow> nat \<Rightarrow> RoutedIssue \<Rightarrow> DiscoveryConfig \<Rightarrow> ClaimedLaunch \<Rightarrow> ClaimOwnership \<Rightarrow>
   DaemonDb \<times> 'g \<Rightarrow> (DaemonDb \<times> 'g) \<times> (PrepareLaunchOutcome, SchedulerError) result" where
  "finish_launch_claim env q query_index routed cfg claimed own st =
     (let (db, g) = st; fk = de_foreign_keys env; lease_id = cl_lease_id claimed
      in case persist_claim_ownership fk lease_id cfg own True db of
           (db1, Err e) \<Rightarrow> ((db1, g), Err (SeSqlite e))
         | (db1, Ok _) \<Rightarrow>
             (case (case apply_remote_claim q cfg (ri_issue routed) own g of
                      (Err e, g1) \<Rightarrow> (Err e, g1)
                    | (Ok _, g1) \<Rightarrow> verify_remote_claim q cfg (gi_number (ri_issue routed)) g1) of
                (Err _, g2) \<Rightarrow> failed_after (abandon_failed_claim env q cfg claimed own (db1, g2))
              | (Ok _, g2) \<Rightarrow>
                  (case update_lease_status_conditional_outcome (de_now env g2) lease_id LRunning [LClaimed]
                          (Some (lr_run_id (cl_request claimed))) None (dd_leases db1) of
                     Err e \<Rightarrow> ((db1, g2), Err (SeSqlite e))
                   | Ok (ls, out) \<Rightarrow>
                       (if out \<noteq> Applied
                        then failed_after (abandon_failed_claim env q cfg claimed own (set_leases ls db1, g2))
                        else (case persist_claim_ownership fk lease_id cfg own False (set_leases ls db1) of
                                (db3, Err e) \<Rightarrow> ((db3, g2), Err (SeSqlite e))
                              | (db3, Ok _) \<Rightarrow>
                                  ((db3, g2), Ok (Ready \<lparr>du_lease_id = lease_id,
                                     du_request = (apply_claim_ownership own (cl_request claimed))
                                       \<lparr>lr_workflow_type_id := ri_workflow_type_id routed\<rparr>,
                                     du_resume = False, du_query_index = Some query_index\<rparr>)))))))"

definition prepare_launch_unit ::
  "'g DaemonEnv \<Rightarrow> SchedulerTarget \<Rightarrow> 'g GithubIssueQuery \<Rightarrow> nat \<Rightarrow> RoutedIssue \<Rightarrow> CapacityLimits \<Rightarrow>
   (string \<times> DiscoveryConfig) list \<Rightarrow> DaemonDb \<times> 'g \<Rightarrow> (DaemonDb \<times> 'g) \<times> (PrepareLaunchOutcome, SchedulerError) result" where
  "prepare_launch_unit env target q query_index routed limits parents st =
     (let repo = (case dc_repo (tg_discovery target) of Some r \<Rightarrow> r | None \<Rightarrow> []);
          config_id = (case ri_config_id routed of Some c \<Rightarrow> c | None \<Rightarrow> tg_config_id target)
      in case launch_discovery_for target config_id limits parents of
           Err e \<Rightarrow> (st, Err e)
         | Ok cfg \<Rightarrow>
             (if \<not> has_capacity (dd_leases (fst st)) cfg config_id repo limits then (st, Ok PlSkipped)
              else (case claim_for_launch_with_state env (ri_issue routed) cfg config_id (path_bases_for target config_id)
                           False (tg_config_root target) st of
                      (st1, Err _) \<Rightarrow> (st1, Ok PlFailed)
                    | (st1, Ok (Err _)) \<Rightarrow> (st1, Ok PlSkipped)
                    | (st1, Ok (Ok claimed)) \<Rightarrow>
                        (case inspect_remote_claim q cfg (ri_issue routed) (snd st1) of
                           (Err _, g2) \<Rightarrow> failed_after (abandon_failed_claim env q cfg claimed no_ownership (fst st1, g2))
                         | (Ok own, g2) \<Rightarrow>
                             finish_launch_claim env q query_index routed cfg claimed own (fst st1, g2)))))"

definition count_prepared :: "PrepareLaunchOutcome \<Rightarrow> DispatchUnit list \<times> RunSummary \<Rightarrow> DispatchUnit list \<times> RunSummary" where
  "count_prepared out acc =
     (case (out, acc) of
        (Ready u, us, s) \<Rightarrow> (us @ [u], s)
      | (PlSkipped, us, s) \<Rightarrow> (us, s\<lparr>su_skipped := su_skipped s + 1\<rparr>)
      | (PlFailed, us, s) \<Rightarrow> (us, s\<lparr>su_failed := su_failed s + 1\<rparr>))"

fun prepare_routed ::
  "'g DaemonEnv \<Rightarrow> SchedulerTarget \<Rightarrow> 'g GithubIssueQuery \<Rightarrow> nat \<Rightarrow> CapacityLimits \<Rightarrow> (string \<times> DiscoveryConfig) list \<Rightarrow>
   RoutedIssue list \<Rightarrow> DispatchUnit list \<times> RunSummary \<Rightarrow> DaemonDb \<times> 'g \<Rightarrow>
   (DaemonDb \<times> 'g) \<times> (DispatchUnit list \<times> RunSummary, SchedulerError) result" where
  "prepare_routed env target q i limits parents [] acc st = (st, Ok acc)"
| "prepare_routed env target q i limits parents (r # rs) acc st =
     (case prepare_launch_unit env target q i r limits parents st of
        (st1, Err e) \<Rightarrow> (st1, Err e)
      | (st1, Ok out) \<Rightarrow> prepare_routed env target q i limits parents rs (count_prepared out acc) st1)"

text \<open>A failing discovery is reported and its target passed over.\<close>

fun launch_targets ::
  "'g DaemonEnv \<Rightarrow> CapacityLimits \<Rightarrow> (string \<times> DiscoveryConfig) list \<Rightarrow> nat \<Rightarrow> (SchedulerTarget \<times> 'g GithubIssueQuery) list \<Rightarrow>
   DispatchUnit list \<times> RunSummary \<Rightarrow> DaemonDb \<times> 'g \<Rightarrow>
   (DaemonDb \<times> 'g) \<times> (DispatchUnit list \<times> RunSummary, SchedulerError) result" where
  "launch_targets env limits parents i [] acc st = (st, Ok acc)"
| "launch_targets env limits parents i ((t, q) # rest) (us, s) (db, g) =
     (case discover (tg_discovery t) q (dd_leases db) (count_active_leases_for_config (tg_config_id t) (dd_leases db)) g of
        (Err _, g1) \<Rightarrow> launch_targets env limits parents (Suc i) rest (us, s) (db, g1)
      | (Ok r, g1) \<Rightarrow>
          (case prepare_routed env t q i limits parents (dr_eligible r)
                  (us, s\<lparr>su_eligible := su_eligible s + length (dr_eligible r)\<rparr>) (db, g1) of
             (st1, Err e) \<Rightarrow> (st1, Err e)
           | (st1, Ok acc1) \<Rightarrow> launch_targets env limits parents (Suc i) rest acc1 st1))"

definition collect_launch_units ::
  "'g DaemonEnv \<Rightarrow> (SchedulerTarget \<times> 'g GithubIssueQuery) list \<Rightarrow> CapacityLimits \<Rightarrow> DispatchUnit list \<times> RunSummary \<Rightarrow>
   DaemonDb \<times> 'g \<Rightarrow> (DaemonDb \<times> 'g) \<times> (DispatchUnit list \<times> RunSummary, SchedulerError) result" where
  "collect_launch_units env targets limits acc st =
     launch_targets env limits (parent_launch_discoveries (map fst targets) limits) 0 targets acc st"


section \<open>Dispatching\<close>

text \<open>
  The launched workflows run in threads of their own, with connections of their own. Joining
  the thread of a unit yields how it ended, in the state the store and the outside world are in
  at that moment (the other threads of the chunk may still be running).
\<close>

datatype panic_payload = StrPayload string | StringPayload string | OtherPayload

datatype thread_exit = Joined "(WorkflowLaunchResult, string) result" | Panicked panic_payload

type_synonym 'g launcher = "DispatchUnit \<Rightarrow> DaemonDb \<times> 'g \<Rightarrow> (DaemonDb \<times> 'g) \<times> thread_exit"

fun panic_message :: "panic_payload \<Rightarrow> string" where
  "panic_message (StrPayload s) = s"
| "panic_message (StringPayload s) = s"
| "panic_message OtherPayload = ''unknown panic payload''"

definition joined_result :: "DispatchUnit \<Rightarrow> thread_exit \<Rightarrow> (WorkflowLaunchResult, string) result" where
  "joined_result u x =
     (case x of
        Joined r \<Rightarrow> r
      | Panicked payload \<Rightarrow>
          Err (''launcher thread panicked for lease='' @ du_lease_id u @ '' run='' @ lr_run_id (du_request u) @
               '': '' @ panic_message payload))"

text \<open>An error of a pass, or the panic of an index out of bounds.\<close>

datatype pass_fault = Fails SchedulerError | IndexPanic

definition finalize_claim_after_outcome ::
  "bool \<Rightarrow> 'g GithubIssueQuery list \<Rightarrow> DispatchUnit \<Rightarrow> LaunchOutcome \<Rightarrow> DaemonDb \<times> 'g \<Rightarrow>
   (DaemonDb \<times> 'g) \<times> (unit, pass_fault) result" where
  "finalize_claim_after_outcome fk queries u outcome st =
     (if du_resume u \<or> \<not> (case outcome of Launched _ success \<Rightarrow> \<not> success | _ \<Rightarrow> False) then (st, Ok ())
      else (case (du_query_index u, get_claim_metadata (du_lease_id u) (fst st)) of
              (Some i, Some receipt) \<Rightarrow>
                (let receipt1 = receipt\<lparr>cm_cleanup_pending := True\<rparr>
                 in case upsert_claim_metadata fk receipt1 (fst st) of
                      Err e \<Rightarrow> (st, Err (Fails (SeSqlite e)))
                    | Ok db1 \<Rightarrow>
                        (if length queries \<le> i then ((db1, snd st), Err IndexPanic)
                         else (case cleanup_remote_claim (queries ! i) (lr_repo (du_request u))
                                      (lr_issue_number (du_request u)) receipt1 (snd st) of
                                 (Err _, g1) \<Rightarrow> ((db1, g1), Ok ())
                               | (Ok _, g1) \<Rightarrow>
                                   (case upsert_claim_metadata fk (receipt1\<lparr>cm_cleanup_pending := False\<rparr>) db1 of
                                      Err e \<Rightarrow> ((db1, g1), Err (Fails (SeSqlite e)))
                                    | Ok db2 \<Rightarrow> ((db2, g1), Ok ())))))
            | _ \<Rightarrow> (st, Ok ())))"

definition record_outcome :: "LaunchOutcome \<Rightarrow> bool \<Rightarrow> RunSummary \<Rightarrow> RunSummary" where
  "record_outcome outcome was_resume s =
     (case outcome of
        Launched _ True \<Rightarrow> (if was_resume then s\<lparr>su_resumed := su_resumed s + 1\<rparr> else s\<lparr>su_launched := su_launched s + 1\<rparr>)
      | Launched _ False \<Rightarrow> s\<lparr>su_failed := su_failed s + 1\<rparr>
      | WaitingExternal _ \<Rightarrow> s\<lparr>su_suspended := su_suspended s + 1\<rparr>
      | LeaseStatePreserved run status owner \<Rightarrow>
          record_lease_state_preserved \<lparr>lp_run_id = run, lp_current_status = status, lp_current_run_id = owner\<rparr> s
      | Skipped _ \<Rightarrow> s\<lparr>su_skipped := su_skipped s + 1\<rparr>)"

text \<open>
  Joining the threads of a chunk in order: the first error is kept, the remaining units are
  settled all the same. A panic of the scheduler thread ends the pass.
\<close>

fun join_units ::
  "'g DaemonEnv \<Rightarrow> 'g launcher \<Rightarrow> 'g GithubIssueQuery list \<Rightarrow> DispatchUnit list \<Rightarrow> SchedulerError option \<Rightarrow> RunSummary \<Rightarrow>
   DaemonDb \<times> 'g \<Rightarrow> (DaemonDb \<times> 'g) \<times> (RunSummary \<times> SchedulerError option, pass_fault) result" where
  "join_units env la queries [] first s st = (st, Ok (s, first))"
| "join_units env la queries (u # us) first s st =
     (let ((db, g), x) = la u st;
          (wdb, r) = finish_lease_after_result (de_now env g) (du_lease_id u) (lr_run_id (du_request u)) (joined_result u x) (dd_db db);
          st1 = (db\<lparr>dd_db := wdb\<rparr>, g)
      in case r of
           Err e \<Rightarrow> join_units env la queries us (if first = None then Some (SeSqlite e) else first) s st1
         | Ok outcome \<Rightarrow>
             (case finalize_claim_after_outcome (de_foreign_keys env) queries u outcome st1 of
                (st2, Err IndexPanic) \<Rightarrow> (st2, Err IndexPanic)
              | (st2, Err (Fails e)) \<Rightarrow>
                  join_units env la queries us (if first = None then Some e else first) (record_outcome outcome (du_resume u) s) st2
              | (st2, Ok _) \<Rightarrow> join_units env la queries us first (record_outcome outcome (du_resume u) s) st2))"

definition dispatch_unit_chunk ::
  "'g DaemonEnv \<Rightarrow> 'g launcher \<Rightarrow> 'g GithubIssueQuery list \<Rightarrow> DispatchUnit list \<Rightarrow> RunSummary \<Rightarrow> DaemonDb \<times> 'g \<Rightarrow>
   (DaemonDb \<times> 'g) \<times> (RunSummary, pass_fault) result" where
  "dispatch_unit_chunk env la queries us s st =
     (case join_units env la queries us None s st of
        (st1, Err f) \<Rightarrow> (st1, Err f)
      | (st1, Ok (s1, None)) \<Rightarrow> (st1, Ok s1)
      | (st1, Ok (s1, Some e)) \<Rightarrow> (st1, Err (Fails e)))"

fun dispatch_chunks ::
  "'g DaemonEnv \<Rightarrow> 'g launcher \<Rightarrow> 'g GithubIssueQuery list \<Rightarrow> DispatchUnit list list \<Rightarrow> RunSummary \<Rightarrow> DaemonDb \<times> 'g \<Rightarrow>
   (DaemonDb \<times> 'g) \<times> (RunSummary, pass_fault) result" where
  "dispatch_chunks env la queries [] s st = (st, Ok s)"
| "dispatch_chunks env la queries (c # cs) s st =
     (case dispatch_unit_chunk env la queries c s st of
        (st1, Err f) \<Rightarrow> (st1, Err f)
      | (st1, Ok s1) \<Rightarrow> dispatch_chunks env la queries cs s1 st1)"

definition dispatch_units ::
  "'g DaemonEnv \<Rightarrow> 'g launcher \<Rightarrow> 'g GithubIssueQuery list \<Rightarrow> DispatchUnit list \<Rightarrow> nat \<Rightarrow> RunSummary \<Rightarrow> DaemonDb \<times> 'g \<Rightarrow>
   (DaemonDb \<times> 'g) \<times> (RunSummary, pass_fault) result" where
  "dispatch_units env la queries us max_parallel s st = dispatch_chunks env la queries (chunks (max max_parallel 1) us) s st"

section \<open>One pass\<close>

definition run_multi_target_once_with_poller ::
  "'g DaemonEnv \<Rightarrow> 'g PollEnv \<Rightarrow> ResumeChecks \<Rightarrow> 'g launcher \<Rightarrow> SchedulerTarget list \<Rightarrow> 'g GithubIssueQuery list \<Rightarrow>
   DaemonDb \<times> 'g \<Rightarrow> (DaemonDb \<times> 'g) \<times> (RunSummary, pass_fault) result" where
  "run_multi_target_once_with_poller env penv rc la targets queries st =
     (if length targets \<noteq> length queries
      then (st, Err (Fails (TargetsQueriesMismatch (length targets) (length queries))))
      else (case reconcile_claim_cleanups env (zip targets queries) st of
              (st1, Err e) \<Rightarrow> (st1, Err (Fails e))
            | ((db1, g1), Ok _) \<Rightarrow>
                (case poll_due_waits penv g1 (dd_db db1) of
                   (g2, wdb, Err e) \<Rightarrow> ((db1\<lparr>dd_db := wdb\<rparr>, g2), Err (Fails (SePollApply e)))
                 | (g2, wdb, Ok s) \<Rightarrow>
                     (let limits = capacity_limits targets;
                          (resumes, db2) = collect_resume_units rc (de_now env g2) targets limits (db1\<lparr>dd_db := wdb\<rparr>)
                      in case collect_launch_units env (zip targets queries) limits (resumes, s) (db2, g2) of
                           (st3, Err e) \<Rightarrow> (st3, Err (Fails e))
                         | (st3, Ok (us, s1)) \<Rightarrow>
                             dispatch_units env la queries us (dispatch_parallelism limits (length us)) s1 st3))))"

end
