(* ===== verification/Scheduler_Properties.thy ===== *)
theory Scheduler_Properties
  imports Scheduler
begin

text \<open>
  What a scheduler pass guarantees: failed launches leave no claim behind, interrupted claims
  are undone, the units of a pass hold distinct running leases within the global limit, and
  the bookkeeping never leaves the bounds of the query list.
\<close>

section \<open>Swaps on the row of a lease\<close>

lemma update_where_row:
  assumes "unique_key il_lease_id ls" and "lookup_by il_lease_id i ls = Some l" and "P l"
    and "\<And>x. P x \<Longrightarrow> il_lease_id x = i"
  shows "update_where P f ls = update_where (\<lambda>x. il_lease_id x = i) f ls"
  unfolding update_where_def
proof (rule map_cong [OF refl])
  fix x
  assume "x \<in> set ls"
  then have "x = l" if "il_lease_id x = i" using that assms(1,2) lookup_by_unique [of il_lease_id ls x] by auto
  then show "(if P x then f x else x) = (if il_lease_id x = i then f x else x)" using assms(3,4) by auto
qed

lemma cond_outcome_row:
  assumes "unique_key il_lease_id ls" and "expected \<noteq> []" and "new_run \<noteq> Some []"
  shows "update_lease_status_conditional_outcome now i st expected new_run ex ls =
    (case lookup_by il_lease_id i ls of
       None \<Rightarrow> Ok (ls, Missing)
     | Some l \<Rightarrow>
         (if il_status l \<in> set expected \<and> (case ex of Some r \<Rightarrow> il_run_id l = Some r | None \<Rightarrow> True)
          then Ok (update_where (\<lambda>l. il_lease_id l = i) (set_lease_status now st new_run) ls, Applied)
          else Ok (ls, Rejected (il_status l) (il_run_id l))))"
proof -
  let ?g = "cond_guard i expected ex"
  have cnt: "count_where ?g ls = (case lookup_by il_lease_id i ls of Some l \<Rightarrow> (if ?g l then 1 else 0) | None \<Rightarrow> 0)"
    by (rule count_where_unique [OF assms(1)]) (simp add: cond_guard_def)
  show ?thesis
  proof (cases "\<exists>l. lookup_by il_lease_id i ls = Some l \<and> ?g l")
    case True
    then obtain l where l: "lookup_by il_lease_id i ls = Some l" "?g l" by blast
    have "update_where ?g (set_lease_status now st new_run) ls =
        update_where (\<lambda>l. il_lease_id l = i) (set_lease_status now st new_run) ls"
      by (rule update_where_row [where P = ?g, OF assms(1) l]) (simp add: cond_guard_def)
    then show ?thesis
      using assms(2,3) l cnt by (simp add: update_lease_status_conditional_outcome_def update_lease_status_conditional_def cond_guard_def)
  next
    case False
    then have "\<forall>x \<in> set ls. \<not> ?g x" using lookup_by_unique [OF assms(1)] by (auto simp: cond_guard_def)
    then have "update_where ?g (set_lease_status now st new_run) ls = ls" by (rule update_where_none)
    moreover have "count_where ?g ls = 0" using False cnt by (auto split: option.splits)
    ultimately show ?thesis
      using assms(2,3) False lookup_by_SomeD [of il_lease_id i ls]
      by (auto simp: update_lease_status_conditional_outcome_def update_lease_status_conditional_def cond_guard_def split: option.splits)
  qed
qed

text \<open>The lease as an active one of the selected configurations and repositories.\<close>

abbreviation counts_in :: "(string \<Rightarrow> string \<Rightarrow> bool) \<Rightarrow> IssueLease \<Rightarrow> LeaseStatus \<Rightarrow> nat" where
  "counts_in P l st \<equiv> (if P (il_config_id l) (il_issue_repo l) \<and> st \<in> {LClaimed, LRunning} then 1 else 0)"

lemma swap_on_row:
  assumes "lease_table_ok ls" and "expected \<noteq> []" and "new_run \<noteq> Some []"
    and "lookup_by il_lease_id i ls = Some l" and "il_status l \<in> set expected"
    and "case ex of Some r \<Rightarrow> il_run_id l = Some r | None \<Rightarrow> True"
  obtains ls' where "update_lease_status_conditional_outcome now i st expected new_run ex ls = Ok (ls', Applied)"
    and "lease_table_ok ls'" and "lookup_by il_lease_id i ls' = Some (set_lease_status now st new_run l)"
    and "\<And>P. active_count P ls' + counts_in P l (il_status l) = active_count P ls + counts_in P l st"
    and "il_status l \<noteq> LRunning \<Longrightarrow> running_kept ls ls'"
proof -
  have uni: "unique_key il_lease_id ls" using assms(1) by (simp add: lease_table_ok_def)
  let ?f = "set_lease_status now st new_run"
  have f: "keeps_keys ?f" "\<And>l. il_config_id (?f l) = il_config_id l" "\<And>l. il_status (?f l) = st"
    by (simp_all add: set_lease_status_def)
  show thesis
    by (rule that [OF _ row_update(1) [OF assms(1,4) f(1,2)] row_update(2) [OF assms(1,4) f(1,2)]])
       (use assms row_update(3,4) [OF assms(1,4) f(1,2)] in \<open>simp_all add: cond_outcome_row [OF uni assms(2,3)] f(3)\<close>)
qed

lemma swap_cases:
  assumes "lease_table_ok ls" and "expected \<noteq> []" and "new_run \<noteq> Some []"
    and "update_lease_status_conditional_outcome now i st expected new_run ex ls = Ok (ls', out)"
  shows "(if out = Applied
    then \<exists>l. lookup_by il_lease_id i ls = Some l \<and> il_status l \<in> set expected \<and>
           (case ex of Some r \<Rightarrow> il_run_id l = Some r | None \<Rightarrow> True)
    else ls' = ls)"
  using assms cond_outcome_row [of ls expected new_run now i st ex]
  by (auto simp: lease_table_ok_def split: option.splits if_splits)


section \<open>Preparing a launch\<close>

lemma persist_claim_ownership_ok:
  assumes "lookup_by il_lease_id i (dd_leases db) \<noteq> None"
  obtains db' where "persist_claim_ownership fk i cfg own pending db = (db', Ok ())" and "dd_db db' = dd_db db"
    and "get_claim_metadata i db' = Some (claim_receipt i cfg (co_assignment_added own) (co_label_added own) pending)"
proof -
  let ?r = "claim_receipt i cfg (co_assignment_added own) (co_label_added own) pending"
  obtain db' where db': "upsert_claim_metadata fk ?r db = Ok db'"
    using upsert_claim_succeeds [of ?r db fk] assms by auto
  show thesis
    by (rule that [of db']) (use db' upsert_claim_stored(1,2) [OF db'] in \<open>simp_all add: persist_claim_ownership_def\<close>)
qed

lemma get_claim_metadata_set_leases [simp]: "get_claim_metadata i (set_leases ls db) = get_claim_metadata i db"
  by (simp add: get_claim_metadata_def)

text \<open>An abandoned claim gives its capacity back; what it could not undo stays recorded.\<close>

lemma abandon_failed_claim_effect:
  assumes "lease_table_ok (dd_leases db)" and "lookup_by il_lease_id (cl_lease_id claimed) (dd_leases db) = Some l"
    and "il_status l = LClaimed" and "lr_run_id (cl_request claimed) \<noteq> []"
    and "cleanup_remote_claim q (lr_repo (cl_request claimed)) (lr_issue_number (cl_request claimed))
        (claim_receipt (cl_lease_id claimed) cfg (co_assignment_added own) (co_label_added own) True) g = (r, g1)"
  obtains db' where "abandon_failed_claim env q cfg claimed own (db, g) = ((db', g1), Ok ())"
    and "lease_table_ok (dd_leases db')" and "running_kept (dd_leases db) (dd_leases db')"
    and "\<And>P. active_count P (dd_leases db') + counts_in P l LClaimed = active_count P (dd_leases db)"
    and "\<exists>l'. lookup_by il_lease_id (cl_lease_id claimed) (dd_leases db') = Some l' \<and> il_status l' = LAbandoned \<and> lease_key l' = lease_key l"
    and "get_claim_metadata (cl_lease_id claimed) db' =
      Some (claim_receipt (cl_lease_id claimed) cfg (co_assignment_added own) (co_label_added own) (\<not> is_ok r))"
proof -
  let ?i = "cl_lease_id claimed"
  obtain db1 where db1: "persist_claim_ownership (de_foreign_keys env) ?i cfg own (\<not> is_ok r) db = (db1, Ok ())"
    "dd_db db1 = dd_db db"
    "get_claim_metadata ?i db1 = Some (claim_receipt ?i cfg (co_assignment_added own) (co_label_added own) (\<not> is_ok r))"
    using persist_claim_ownership_ok [of ?i db] assms(2) by (metis option.distinct(1))
  have ok: "lease_table_ok (dd_leases db1)" "lookup_by il_lease_id ?i (dd_leases db1) = Some l" using assms(1,2) db1(2) by simp_all
  obtain ls' where s: "update_lease_status_conditional_outcome (de_now env g1) ?i LAbandoned [LClaimed, LPending]
        (Some (lr_run_id (cl_request claimed))) None (dd_leases db1) = Ok (ls', Applied)" "lease_table_ok ls'"
      "lookup_by il_lease_id ?i ls' = Some (set_lease_status (de_now env g1) LAbandoned (Some (lr_run_id (cl_request claimed))) l)"
      "\<And>P. active_count P ls' + counts_in P l (il_status l) = active_count P (dd_leases db1) + counts_in P l LAbandoned"
      "il_status l \<noteq> LRunning \<Longrightarrow> running_kept (dd_leases db1) ls'"
    using swap_on_row [OF ok(1) _ _ ok(2), of "[LClaimed, LPending]" "Some (lr_run_id (cl_request claimed))" None
        "de_now env g1" LAbandoned] assms(3,4) by auto
  show thesis
    by (rule that [of "set_leases ls' db1"])
       (use s assms(3,5) db1 in \<open>auto simp: abandon_failed_claim_def set_lease_status_def Let_def simp del: insert_iff\<close>)
qed

text \<open>The launch prepared from a won local claim.\<close>

definition launch_ready :: "DiscoveryConfig \<Rightarrow> nat \<Rightarrow> DispatchUnit \<Rightarrow> DaemonDb \<Rightarrow> bool" where
  "launch_ready cfg i u db \<longleftrightarrow>
     (\<exists>l. lookup_by il_lease_id (du_lease_id u) (dd_leases db) = Some l \<and> il_status l = LRunning \<and>
        il_run_id l = Some (lr_run_id (du_request u)) \<and>
        lease_key l = (lr_repo (du_request u), lr_issue_number (du_request u)) \<and>
        il_config_id l = lr_config_id (du_request u)) \<and>
     get_claim_metadata (du_lease_id u) db =
       Some (claim_receipt (du_lease_id u) cfg (lr_claim_assignment_added (du_request u))
         (lr_claim_label_added (du_request u)) False) \<and>
     lr_daemon_managed_claim (du_request u) \<and> \<not> du_resume u \<and> du_query_index u = Some i"


text \<open>The lease of a failed launch: abandoned, its receipt pending if and only if the cleanup failed.\<close>

definition launch_undone :: "DiscoveryConfig \<Rightarrow> ClaimedLaunch \<Rightarrow> ClaimOwnership \<Rightarrow> bool \<Rightarrow> DaemonDb \<Rightarrow> bool" where
  "launch_undone cfg claimed own clean db \<longleftrightarrow>
     (\<exists>l. lookup_by il_lease_id (cl_lease_id claimed) (dd_leases db) = Some l \<and> il_status l = LAbandoned \<and>
        lease_key l = (lr_repo (cl_request claimed), lr_issue_number (cl_request claimed))) \<and>
     get_claim_metadata (cl_lease_id claimed) db =
       Some (claim_receipt (cl_lease_id claimed) cfg (co_assignment_added own) (co_label_added own) (\<not> clean))"

text \<open>A remote claim: applied, then verified.\<close>

definition remote_claim ::
  "'g GithubIssueQuery \<Rightarrow> DiscoveryConfig \<Rightarrow> GithubIssue \<Rightarrow> ClaimOwnership \<Rightarrow> 'g \<Rightarrow> (unit, GithubError) result \<times> 'g" where
  "remote_claim q cfg issue own g =
     (case apply_remote_claim q cfg issue own g of
        (Err e, g1) \<Rightarrow> (Err e, g1)
      | (Ok _, g1) \<Rightarrow> verify_remote_claim q cfg (gi_number issue) g1)"

abbreviation cleanup_of ::
  "'g GithubIssueQuery \<Rightarrow> DiscoveryConfig \<Rightarrow> ClaimedLaunch \<Rightarrow> ClaimOwnership \<Rightarrow> 'g \<Rightarrow> (unit, GithubError) result \<times> 'g" where
  "cleanup_of q cfg claimed own g \<equiv>
     cleanup_remote_claim q (lr_repo (cl_request claimed)) (lr_issue_number (cl_request claimed))
       (claim_receipt (cl_lease_id claimed) cfg (co_assignment_added own) (co_label_added own) True) g"

lemma failed_after_effect:
  assumes "lease_table_ok (dd_leases db)" and "lookup_by il_lease_id (cl_lease_id claimed) (dd_leases db) = Some l"
    and "il_status l = LClaimed" and "lr_run_id (cl_request claimed) \<noteq> []"
    and "lease_key l = (lr_repo (cl_request claimed), lr_issue_number (cl_request claimed))"
    and "failed_after (abandon_failed_claim env q cfg claimed own (db, g)) = ((db', g'), res)"
  shows "res = Ok PlFailed \<and> lease_table_ok (dd_leases db') \<and> running_kept (dd_leases db) (dd_leases db') \<and>
    (\<forall>P. active_count P (dd_leases db') + counts_in P l LClaimed = active_count P (dd_leases db)) \<and>
    launch_undone cfg claimed own (is_ok (fst (cleanup_of q cfg claimed own g))) db' \<and>
    g' = snd (cleanup_of q cfg claimed own g)"
proof -
  obtain r g1 where c: "cleanup_of q cfg claimed own g = (r, g1)" by (cases "cleanup_of q cfg claimed own g")
  show ?thesis
    by (rule abandon_failed_claim_effect [OF assms(1-4) c, where env = env])
       (use assms(5,6) c in \<open>auto simp: failed_after_def launch_undone_def\<close>)
qed

lemma finish_launch_claim_outcome:
  assumes "lease_table_ok (dd_leases db)" and "lookup_by il_lease_id (cl_lease_id claimed) (dd_leases db) = Some l"
    and "il_status l = LClaimed" and "lr_run_id (cl_request claimed) \<noteq> []"
    and "lease_key l = (lr_repo (cl_request claimed), lr_issue_number (cl_request claimed))"
    and "il_config_id l = lr_config_id (cl_request claimed)"
    and "finish_launch_claim env q i routed cfg claimed own (db, g) = ((db', g'), res)"
  shows "lease_table_ok (dd_leases db') \<and> running_kept (dd_leases db) (dd_leases db') \<and>
    (case remote_claim q cfg (ri_issue routed) own g of
       (Ok _, g1) \<Rightarrow> g' = g1 \<and> (\<forall>P. active_count P (dd_leases db') = active_count P (dd_leases db)) \<and>
         (\<exists>u. res = Ok (Ready u) \<and> launch_ready cfg i u db' \<and> du_lease_id u = cl_lease_id claimed \<and>
            lr_repo (du_request u) = lr_repo (cl_request claimed) \<and>
            lr_issue_number (du_request u) = lr_issue_number (cl_request claimed) \<and>
            lr_config_id (du_request u) = lr_config_id (cl_request claimed) \<and>
            lr_claim_assignment_added (du_request u) = co_assignment_added own \<and>
            lr_claim_label_added (du_request u) = co_label_added own)
     | (Err _, g1) \<Rightarrow> res = Ok PlFailed \<and>
         (\<forall>P. active_count P (dd_leases db') + counts_in P l LClaimed = active_count P (dd_leases db)) \<and>
         launch_undone cfg claimed own (is_ok (fst (cleanup_of q cfg claimed own g1))) db' \<and>
         g' = snd (cleanup_of q cfg claimed own g1))"
proof -
  let ?i = "cl_lease_id claimed" and ?run = "lr_run_id (cl_request claimed)" and ?fk = "de_foreign_keys env"
  obtain db1 where db1: "persist_claim_ownership ?fk ?i cfg own True db = (db1, Ok ())" "dd_db db1 = dd_db db"
    using persist_claim_ownership_ok [of ?i db] assms(2) by (metis option.distinct(1))
  have ok1: "lease_table_ok (dd_leases db1)" "lookup_by il_lease_id ?i (dd_leases db1) = Some l" using assms(1,2) db1(2) by simp_all
  obtain r g1 where rc: "remote_claim q cfg (ri_issue routed) own g = (r, g1)" by (cases "remote_claim q cfg (ri_issue routed) own g")
  note run = assms(7) [unfolded finish_launch_claim_def Let_def prod.case db1(1) result.case
      remote_claim_def [symmetric] rc]
  show ?thesis
  proof (cases r)
    case (Err e)
    then have "failed_after (abandon_failed_claim env q cfg claimed own (db1, g1)) = ((db', g'), res)" using run by simp
    from failed_after_effect [OF ok1 assms(3,4,5) this] show ?thesis using Err rc db1(2) by simp
  next
    case (Ok x)
    obtain ls' where s: "update_lease_status_conditional_outcome (de_now env g1) ?i LRunning [LClaimed] (Some ?run) None
          (dd_leases db1) = Ok (ls', Applied)" "lease_table_ok ls'"
        "lookup_by il_lease_id ?i ls' = Some (set_lease_status (de_now env g1) LRunning (Some ?run) l)"
        "\<And>P. active_count P ls' + counts_in P l (il_status l) = active_count P (dd_leases db1) + counts_in P l LRunning"
        "il_status l \<noteq> LRunning \<Longrightarrow> running_kept (dd_leases db1) ls'"
      using swap_on_row [OF ok1(1) _ _ ok1(2), of "[LClaimed]" "Some ?run" None "de_now env g1" LRunning] assms(3,4) by auto
    obtain db3 where db3: "persist_claim_ownership ?fk ?i cfg own False (set_leases ls' db1) = (db3, Ok ())"
      "dd_db db3 = dd_db (set_leases ls' db1)"
      "get_claim_metadata ?i db3 = Some (claim_receipt ?i cfg (co_assignment_added own) (co_label_added own) False)"
      using persist_claim_ownership_ok [of ?i "set_leases ls' db1" ?fk cfg own False] s(3) by auto
    have res: "db' = db3" "g' = g1" "res = Ok (Ready \<lparr>du_lease_id = ?i,
        du_request = (apply_claim_ownership own (cl_request claimed))\<lparr>lr_workflow_type_id := ri_workflow_type_id routed\<rparr>,
        du_resume = False, du_query_index = Some i\<rparr>)"
      using run Ok s(1) db3(1) by auto
    have "\<And>P. active_count P ls' = active_count P (dd_leases db1)" using s(4) assms(3) by (auto split: if_splits)
    moreover have "dd_leases db3 = ls'" using db3(2) by (simp add: set_leases_def)
    ultimately show ?thesis
      using res rc Ok s db3 assms(3,5,6) db1(2)
      by (simp add: launch_ready_def apply_claim_ownership_def set_lease_status_def coalesce_def)
  qed
qed


lemma not_running_before:
  assumes "running_kept ls ls'" and "lease_table_ok ls'" and "lookup_by il_lease_id i ls' = Some l'" and "il_status l' \<noteq> LRunning"
    and "lookup_by il_lease_id i ls = Some l"
  shows "il_status l \<noteq> LRunning"
proof
  assume "il_status l = LRunning"
  then have "l \<in> set ls'" "il_lease_id l = i" using assms(1) lookup_by_SomeD [OF assms(5)] by (auto simp: running_kept_def)
  then have "lookup_by il_lease_id i ls' = Some l" using assms(2) lookup_by_unique [of il_lease_id ls' l] by (auto simp: lease_table_ok_def)
  then show False using assms(3,4) \<open>il_status l = LRunning\<close> by simp
qed

text \<open>The cleanups a pass finds for the issue.\<close>

lemma listed_cleanup_iff:
  "c \<in> set (list_pending_claim_cleanups repo db) \<longleftrightarrow>
     pc_receipt c \<in> set (dd_claims db) \<and> cm_cleanup_pending (pc_receipt c) \<and>
     (\<exists>l \<in> set (dd_leases db). il_lease_id l = cm_lease_id (pc_receipt c) \<and> il_issue_repo l = repo \<and>
        il_status l \<in> {LPending, LClaimed, LCompleted, LFailed, LAbandoned, LStale} \<and>
        pc_issue_repo c = repo \<and> pc_issue_number c = il_issue_number l \<and> pc_lease_status c = il_status l)"
  by (cases c) (auto simp: list_pending_claim_cleanups_def image_iff)

lemma undone_is_listed:
  assumes "launch_undone cfg claimed own False db"
  shows "\<exists>c. c \<in> set (list_pending_claim_cleanups (lr_repo (cl_request claimed)) db) \<and>
    pc_issue_repo c = lr_repo (cl_request claimed) \<and> pc_issue_number c = lr_issue_number (cl_request claimed) \<and>
    pc_receipt c = claim_receipt (cl_lease_id claimed) cfg (co_assignment_added own) (co_label_added own) True"
proof -
  obtain l where l: "lookup_by il_lease_id (cl_lease_id claimed) (dd_leases db) = Some l" "il_status l = LAbandoned"
    "lease_key l = (lr_repo (cl_request claimed), lr_issue_number (cl_request claimed))"
    using assms by (auto simp: launch_undone_def)
  let ?r = "claim_receipt (cl_lease_id claimed) cfg (co_assignment_added own) (co_label_added own) True"
  have "?r \<in> set (dd_claims db)" "cm_cleanup_pending ?r"
    using assms by (auto simp: launch_undone_def get_claim_metadata_def claim_receipt_def dest: lookup_by_SomeD)
  moreover have "l \<in> set (dd_leases db)" "il_lease_id l = cm_lease_id ?r" using lookup_by_SomeD [OF l(1)] by auto
  ultimately show ?thesis
    using l(2,3) by (intro exI [of _ "\<lparr>pc_issue_repo = il_issue_repo l, pc_issue_number = il_issue_number l,
        pc_lease_status = il_status l, pc_receipt = ?r\<rparr>"]) (auto simp: listed_cleanup_iff)
qed

definition launch_config :: "SchedulerTarget \<Rightarrow> RoutedIssue \<Rightarrow> string" where
  "launch_config target routed = (case ri_config_id routed of Some c \<Rightarrow> c | None \<Rightarrow> tg_config_id target)"

text \<open>How the remote part of a launch can fail: while reading the issue, or while claiming it.\<close>

definition remote_failure ::
  "'g GithubIssueQuery \<Rightarrow> DiscoveryConfig \<Rightarrow> GithubIssue \<Rightarrow> ClaimOwnership \<Rightarrow> 'g \<Rightarrow> 'g \<Rightarrow> bool" where
  "remote_failure q cfg issue own g g' \<longleftrightarrow>
     own = no_ownership \<and> (\<exists>e. inspect_remote_claim q cfg issue g = (Err e, g')) \<or>
     (\<exists>e g1. inspect_remote_claim q cfg issue g = (Ok own, g1) \<and> remote_claim q cfg issue own g1 = (Err e, g'))"

definition launch_backed_out ::
  "'g DaemonEnv \<Rightarrow> 'g GithubIssueQuery \<Rightarrow> GithubIssue \<Rightarrow> 'g \<Rightarrow> DaemonDb \<Rightarrow> 'g \<Rightarrow> bool" where
  "launch_backed_out env q issue g db' g' \<longleftrightarrow>
     (\<exists>g1. (g1 = g \<or> g1 = snd (de_uuid env g)) \<and>
        (g' = g1 \<or> (\<exists>cfg claimed own g2. remote_failure q cfg issue own g1 g2 \<and>
           lr_repo (cl_request claimed) = claim_repo cfg \<and> lr_issue_number (cl_request claimed) = gi_number issue \<and>
           launch_undone cfg claimed own (is_ok (fst (cleanup_of q cfg claimed own g2))) db' \<and>
           g' = snd (cleanup_of q cfg claimed own g2))))"

lemma prepare_launch_outcome:
  assumes "lease_table_ok (dd_leases db)"
    and "prepare_launch_unit env target q i routed limits parents (db, g) = ((db', g'), res)"
  shows "lease_table_ok (dd_leases db') \<and> running_kept (dd_leases db) (dd_leases db') \<and>
    (case res of
       Err e \<Rightarrow> db' = db \<and> g' = g
     | Ok (Ready u) \<Rightarrow>
         (\<exists>cfg. launch_discovery_for target (launch_config target routed) limits parents = Ok cfg \<and>
            has_capacity (dd_leases db) cfg (launch_config target routed) (claim_repo (tg_discovery target)) limits \<and>
            launch_ready cfg i u db' \<and>
            lr_config_id (du_request u) = launch_config target routed \<and>
            lr_issue_number (du_request u) = gi_number (ri_issue routed) \<and>
            count_active_leases_for_config (launch_config target routed) (dd_leases db') \<le> config_run_limit cfg \<and>
            (\<forall>P. active_count P (dd_leases db') \<le> Suc (active_count P (dd_leases db)))) \<and>
         (\<forall>l. lookup_by il_lease_id (du_lease_id u) (dd_leases db) = Some l \<longrightarrow> il_status l \<noteq> LRunning)
     | Ok _ \<Rightarrow> (\<forall>P. active_count P (dd_leases db') = active_count P (dd_leases db)) \<and>
         launch_backed_out env q (ri_issue routed) g db' g')"
proof -
  let ?config = "launch_config target routed" and ?repo = "claim_repo (tg_discovery target)"
  note run = assms(2) [unfolded prepare_launch_unit_def Let_def launch_config_def [symmetric] fst_conv]
  show ?thesis
  proof (cases "\<exists>cfg. launch_discovery_for target ?config limits parents = Ok cfg \<and> has_capacity (dd_leases db) cfg ?config ?repo limits")
    case False
    then show ?thesis using run assms(1) by (auto simp: launch_backed_out_def split: result.splits if_splits)
  next
    case True
    then obtain cfg where cfg: "launch_discovery_for target ?config limits parents = Ok cfg"
      "has_capacity (dd_leases db) cfg ?config ?repo limits" by blast
    obtain db1 g1 won where cl: "claim_for_launch_with_state env (ri_issue routed) cfg ?config (path_bases_for target ?config)
        False (tg_config_root target) (db, g) = ((db1, g1), won)"
      by (metis surj_pair)
    note c = claim_outcome [OF assms(1) cl]
    show ?thesis
    proof (cases "\<exists>claimed. won = Ok (Ok claimed)")
      case False
      then have "db' = db1" "g' = g1" "res = Ok PlSkipped \<or> res = Ok PlFailed"
        using run cfg cl by (auto split: result.splits)
      then show ?thesis using c False by (auto simp: launch_backed_out_def split: result.splits)
    next
      case True
      then obtain claimed where claimed: "won = Ok (Ok claimed)" by blast
      obtain l where l: "lookup_by il_lease_id (cl_lease_id claimed) (dd_leases db1) = Some l"
          "lease_key l = (lr_repo (cl_request claimed), gi_number (ri_issue routed))" "il_config_id l = ?config" "il_status l = LClaimed"
        using c claimed by auto
      have d: "lease_table_ok (dd_leases db1)" "running_kept (dd_leases db) (dd_leases db1)"
          "lr_issue_number (cl_request claimed) = gi_number (ri_issue routed)" "lr_config_id (cl_request claimed) = ?config"
          "lr_run_id (cl_request claimed) \<noteq> []" "lr_repo (cl_request claimed) = claim_repo cfg"
          "g1 = g \<or> g1 = snd (de_uuid env g)"
          "count_active_leases_for_config ?config (dd_leases db1) \<le> config_run_limit cfg"
          "\<And>P. active_count P (dd_leases db1) = active_count P (dd_leases db) + counts_in P l LClaimed"
        using c claimed l by auto
      have backed: "launch_backed_out env q (ri_issue routed) g db' g'"
        if "remote_failure q cfg (ri_issue routed) own g1 g2"
          "launch_undone cfg claimed own (is_ok (fst (cleanup_of q cfg claimed own g2))) db'"
          "g' = snd (cleanup_of q cfg claimed own g2)" for own g2
        using that d(3,6,7) unfolding launch_backed_out_def by blast
      have fresh: "\<And>l0. lookup_by il_lease_id (cl_lease_id claimed) (dd_leases db) = Some l0 \<Longrightarrow> il_status l0 \<noteq> LRunning"
        using not_running_before [OF d(2,1) l(1)] l(4) by simp
      have key: "lease_key l = (lr_repo (cl_request claimed), lr_issue_number (cl_request claimed))"
        "il_config_id l = lr_config_id (cl_request claimed)" using l d by simp_all
      obtain r g2 where ins: "inspect_remote_claim q cfg (ri_issue routed) g1 = (r, g2)"
        by (cases "inspect_remote_claim q cfg (ri_issue routed) g1")
      show ?thesis
      proof (cases r)
        case (Err e)
        then have "failed_after (abandon_failed_claim env q cfg claimed no_ownership (db1, g2)) = ((db', g'), res)"
          using run cfg cl claimed ins by simp
        from failed_after_effect [OF d(1) l(1,4) d(5) key(1) this] d(9) show ?thesis
          using running_kept_trans [OF d(2)] backed [of no_ownership g2] Err ins by (auto simp: remote_failure_def)
      next
        case (Ok own)
        then have f: "finish_launch_claim env q i routed cfg claimed own (db1, g2) = ((db', g'), res)"
          using run cfg cl claimed ins by simp
        note o = finish_launch_claim_outcome [OF d(1) l(1,4) d(5) key f]
        obtain rr g3 where rr: "remote_claim q cfg (ri_issue routed) own g2 = (rr, g3)"
          by (cases "remote_claim q cfg (ri_issue routed) own g2")
        show ?thesis
          using o cfg d fresh running_kept_trans [OF d(2)] backed [of own g3] Ok ins
          by (cases rr) (auto simp: active_count_simps rr remote_failure_def)
      qed
    qed
  qed
qed


text \<open>What a failed launch leaves on GitHub: nothing, or a cleanup that the next pass finds.\<close>

definition undo_listed ::
  "'g GithubIssueQuery \<Rightarrow> ('g \<Rightarrow> string \<times> u64 \<Rightarrow> GithubIssue option) \<Rightarrow> u64 \<Rightarrow> (string \<times> u64 \<Rightarrow> GithubIssue option) \<Rightarrow> DaemonDb \<Rightarrow> 'g \<Rightarrow> bool" where
  "undo_listed q view n before db g \<longleftrightarrow>
     (\<exists>repo. \<exists>c \<in> set (list_pending_claim_cleanups repo db). pc_issue_number c = n \<and>
        (\<forall>h h1. view h = view g \<longrightarrow> cleanup_remote_claim q repo n (pc_receipt c) h = (Ok (), h1) \<longrightarrow> view h1 = before))"

lemma remote_failure_view:
  assumes "faithful_github q view" and "remote_failure q cfg issue own g g1"
  shows "own = no_ownership \<and> view g1 = view g \<or> partly_claimed cfg (gi_number issue) own (view g) (view g1)"
proof (cases "\<exists>e. inspect_remote_claim q cfg issue g = (Err e, g1)")
  case True
  then show ?thesis
    using assms(2) faithful_get [OF assms(1), of "claim_repo cfg" "gi_number issue" g]
    by (auto simp: remote_failure_def inspect_remote_claim_def split: option.splits prod.splits result.splits)
next
  case False
  then obtain e g2 where ins: "inspect_remote_claim q cfg issue g = (Ok own, g2)" and rc: "remote_claim q cfg issue own g2 = (Err e, g1)"
    using assms(2) by (auto simp: remote_failure_def)
  obtain r g3 where ap: "apply_remote_claim q cfg issue own g2 = (r, g3)" by (cases "apply_remote_claim q cfg issue own g2")
  have "view g1 = view g3"
    using rc ap verify_remote_claim_view [OF assms(1), of cfg "gi_number issue" g3 "Err e" g1]
    by (auto simp: remote_claim_def split: result.splits)
  then show ?thesis using applied_partly_claimed [OF assms(1) ins ap] by simp
qed

lemma backed_out_view:
  assumes "faithful_github q view" and "\<And>g. view (snd (de_uuid env g)) = view g"
    and "launch_backed_out env q issue g db' g'"
  shows "view g' = view g \<or> undo_listed q view (gi_number issue) (view g) db' g'"
proof -
  from assms(3) obtain g1 where "g1 = g \<or> g1 = snd (de_uuid env g)"
    and or: "g' = g1 \<or> (\<exists>cfg claimed own g2. remote_failure q cfg issue own g1 g2 \<and>
           lr_repo (cl_request claimed) = claim_repo cfg \<and> lr_issue_number (cl_request claimed) = gi_number issue \<and>
           launch_undone cfg claimed own (is_ok (fst (cleanup_of q cfg claimed own g2))) db' \<and>
           g' = snd (cleanup_of q cfg claimed own g2))"
    unfolding launch_backed_out_def by (elim exE conjE)
  then have g1: "view g1 = view g" using assms(2) by auto
  show ?thesis
  proof (cases "g' = g1")
    case True
    then show ?thesis using g1 by simp
  next
    case False
    then obtain cfg claimed own g2 where f: "remote_failure q cfg issue own g1 g2"
      and eq: "lr_repo (cl_request claimed) = claim_repo cfg" "lr_issue_number (cl_request claimed) = gi_number issue"
      and un: "launch_undone cfg claimed own (is_ok (fst (cleanup_of q cfg claimed own g2))) db'"
      and g': "g' = snd (cleanup_of q cfg claimed own g2)" using or by blast
    obtain r where cl: "cleanup_of q cfg claimed own g2 = (r, g')" using g' by (cases "cleanup_of q cfg claimed own g2") simp
    from remote_failure_view [OF assms(1) f] show ?thesis
    proof (elim disjE conjE)
      assume "own = no_ownership" "view g2 = view g1"
      then show ?thesis
        using cleanup_nothing [OF assms(1) _ _ cl] g1 by (simp add: claim_receipt_def no_ownership_def)
    next
      assume p: "partly_claimed cfg (gi_number issue) own (view g1) (view g2)"
      note q = cleanup_partly_claimed [OF assms(1) p cl [unfolded eq]]
      show ?thesis
      proof (cases r)
        case (Ok x)
        then show ?thesis using q(2) g1 by simp
      next
        case (Err e)
        then have "launch_undone cfg claimed own False db'" using un cl by simp
        from undone_is_listed [OF this] show ?thesis
          using cleanup_partly_claimed(2) [OF assms(1), of cfg "gi_number issue" own "view g1" _ "cl_lease_id claimed" True] q(1) g1
          unfolding undo_listed_def eq by metis
      qed
    qed
  qed
qed

text \<open>
  C33: a launch is either prepared completely or undone. On a GitHub that does what it says,
  preparing a launch has one of three results. It fails before touching anything. It yields a
  unit: there was capacity, the lease of the issue is running under the unit's run, the receipt
  records exactly the additions the request claims as its own, no cleanup is pending, and the
  configuration is within its limit. Or the launch is skipped or fails: then no capacity is
  used up, and GitHub looks as before or a pending cleanup for the issue is listed whose
  success restores it.
\<close>

theorem prepared_launch_claimed_or_undone:
  assumes "lease_table_ok (dd_leases db)" and "faithful_github q view" and "\<And>g. view (snd (de_uuid env g)) = view g"
    and "prepare_launch_unit env target q i routed limits parents (db, g) = ((db', g'), res)"
  shows "case res of
       Err e \<Rightarrow> db' = db \<and> g' = g
     | Ok (Ready u) \<Rightarrow>
         (\<exists>cfg. launch_discovery_for target (launch_config target routed) limits parents = Ok cfg \<and>
            has_capacity (dd_leases db) cfg (launch_config target routed) (claim_repo (tg_discovery target)) limits \<and>
            launch_ready cfg i u db' \<and> lr_issue_number (du_request u) = gi_number (ri_issue routed) \<and>
            count_active_leases_for_config (launch_config target routed) (dd_leases db') \<le> config_run_limit cfg)
     | Ok _ \<Rightarrow>
         count_active_leases (dd_leases db') = count_active_leases (dd_leases db) \<and>
         (\<forall>c. count_active_leases_for_config c (dd_leases db') = count_active_leases_for_config c (dd_leases db)) \<and>
         (view g' = view g \<or> undo_listed q view (gi_number (ri_issue routed)) (view g) db' g')"
  using prepare_launch_outcome [OF assms(1,4)] backed_out_view [OF assms(2,3)]
  by (auto simp: active_count_simps split: result.splits PrepareLaunchOutcome.splits)


definition store_env :: "issue_store DaemonEnv" where
  "store_env = \<lparr>de_foreign_keys = True, de_now = \<lambda>_. 30, de_uuid = \<lambda>g. (''u'', g)\<rparr>"

definition demo_target :: SchedulerTarget where
  "demo_target = \<lparr>tg_config_id = ''cfg'', tg_discovery = demo_discovery, tg_path_bases = demo_bases,
     tg_parent_path_bases = [], tg_config_root = ''config''\<rparr>"

definition idle_db :: DaemonDb where
  "idle_db = set_leases [] demo_daemon_db"

text \<open>GitHub as an issue store that lists one issue.\<close>

definition listing_github :: "issue_store GithubIssueQuery" where
  "listing_github = store_github\<lparr>gq_list_issues := \<lambda>_ _ _ g. (Ok [demo_issue 9 [''ok'']], g)\<rparr>"

lemma listing_github_faithful: "faithful_github listing_github (\<lambda>g. g)"
  using store_github_faithful by (simp add: faithful_github_def listing_github_def)

abbreviation demo_prepared ::
  "(DaemonDb \<times> issue_store) \<times> (PrepareLaunchOutcome, SchedulerError) result" where
  "demo_prepared \<equiv> prepare_launch_unit store_env demo_target listing_github 0 (ordinary (demo_issue 9 [''ok'']))
     (capacity_limits [demo_target]) [] (idle_db, demo_store)"

lemma demo_prepared_ready: "\<exists>u. snd demo_prepared = Ok (Ready u)"
proof -
  have cased: "\<not> eq_ignore_ascii_case ''ok'' ''working''" "eq_ignore_ascii_case ''working'' ''working''"
     "eq_ignore_ascii_case ''bot'' ''bot''" by code_simp+
  have path: "validate_run_id_path_component ''run-u'' = Ok ()" by code_simp
  show ?thesis
    by (simp add: prepare_launch_unit_def demo_target_def demo_discovery_def ordinary_def launch_discovery_for_def
        has_capacity_def capacity_limits_def max_setting_def per_config_setting_def List.map_filter_def u32_max_def idle_db_def
        count_active_leases_def count_active_leases_for_config_def count_active_leases_for_repository_def
        claim_for_launch_with_state_def acquire_lease_with_receipt_def try_claim_def demo_daemon_db_def path_bases_for_def
        demo_wait_db_def demo_issue_def store_env_def issue_number_to_sql_i64_def i64_try_from_u64_def i64_max_def claim_lease_def
        upsert_claim_metadata_def claim_receipt_def config_run_limit_def Let_def per_run_paths_def path inspect_remote_claim_def
        listing_github_def store_github_def demo_store_def has_login_def issue_has_label_def cased finish_launch_claim_def
        persist_claim_ownership_def get_claim_metadata_def apply_remote_claim_def store_edit_def edit_issue_def
        verify_remote_claim_def update_lease_status_conditional_outcome_def update_lease_status_conditional_def cond_guard_def
        set_leases_def cascade_lease_id_def upsert_def set_lease_status_def)
qed

lemma idle_db_ok: "lease_table_ok (dd_leases idle_db)"
  by (simp add: idle_db_def lease_table_ok_def)

theorem prepared_launch_claimed_or_undone_witness:
  "\<exists>db' g' u. demo_prepared = ((db', g'), Ok (Ready u)) \<and>
     lr_issue_number (du_request u) = 9 \<and> count_active_leases_for_config ''cfg'' (dd_leases db') \<le> config_run_limit demo_discovery"
proof -
  obtain db' g' u where r: "demo_prepared = ((db', g'), Ok (Ready u))"
    using demo_prepared_ready by (metis surj_pair snd_conv)
  show ?thesis
    using prepared_launch_claimed_or_undone [of idle_db listing_github "\<lambda>g. g" store_env,
        OF idle_db_ok listing_github_faithful _ r] r
    by (auto simp: store_env_def demo_target_def launch_config_def ordinary_def launch_discovery_for_def demo_issue_def)
qed

section \<open>Interrupted claims\<close>

abbreviation cleanup_for :: "'g GithubIssueQuery \<Rightarrow> PendingClaimCleanup \<Rightarrow> 'g \<Rightarrow> (unit, GithubError) result \<times> 'g" where
  "cleanup_for q c g \<equiv> cleanup_remote_claim q (pc_issue_repo c) (pc_issue_number c) (pc_receipt c) g"

text \<open>The lease of an interrupted claim, before its remote claim is undone.\<close>

lemma reconcile_moved:
  assumes "lease_table_ok (dd_leases db)" and "lookup_by il_lease_id i (dd_leases db) = Some l" and "il_status l \<noteq> LRunning"
  obtains ls l1 where
    "(if il_status l = LClaimed
      then map_ok (\<lambda>(ls, out). (set_leases ls db, out = Applied))
             (update_lease_status_conditional_outcome now i LPending [LClaimed] None None (dd_leases db))
      else Ok (db, True)) = Ok (set_leases ls db, True)"
    and "lease_table_ok ls" and "running_kept (dd_leases db) ls" and "lookup_by il_lease_id i ls = Some l1"
    and "lease_key l1 = lease_key l" and "il_status l1 = (if il_status l = LClaimed then LPending else il_status l)"
    and "\<And>P. active_count P ls \<le> active_count P (dd_leases db)"
proof (cases "il_status l = LClaimed")
  case False
  show thesis
    by (rule that [of "dd_leases db" l]) (use False assms in \<open>simp_all add: set_leases_def\<close>)
next
  case True
  obtain ls where s: "update_lease_status_conditional_outcome now i LPending [LClaimed] None None (dd_leases db) = Ok (ls, Applied)"
      "lease_table_ok ls" "lookup_by il_lease_id i ls = Some (set_lease_status now LPending None l)"
      "\<And>P. active_count P ls + counts_in P l (il_status l) = active_count P (dd_leases db) + counts_in P l LPending"
      "il_status l \<noteq> LRunning \<Longrightarrow> running_kept (dd_leases db) ls"
    using swap_on_row [OF assms(1) _ _ assms(2), of "[LClaimed]" None None now LPending] True by auto
  have "active_count P ls \<le> active_count P (dd_leases db)" for P using s(4) [of P] by auto
  then show thesis by (intro that [of ls "set_lease_status now LPending None l"])
      (use s True assms(3) in \<open>simp_all add: set_lease_status_def\<close>)
qed

lemma reconcile_one_effect:
  assumes "lease_table_ok (dd_leases db)"
    and "c \<in> set (list_pending_claim_cleanups repo db)"
    and "reconcile_one env q c (db, g) = ((db', g'), res)"
  shows "res = Ok () \<and> g' = snd (cleanup_for q c g) \<and> lease_table_ok (dd_leases db') \<and>
    running_kept (dd_leases db) (dd_leases db') \<and> (\<forall>P. active_count P (dd_leases db') \<le> active_count P (dd_leases db)) \<and>
    (\<exists>l'. lookup_by il_lease_id (cm_lease_id (pc_receipt c)) (dd_leases db') = Some l' \<and>
       lease_key l' = (repo, pc_issue_number c) \<and>
       (if is_ok (fst (cleanup_for q c g))
        then il_status l' \<in> set RECLAIMABLE \<and>
          get_claim_metadata (cm_lease_id (pc_receipt c)) db' = Some ((pc_receipt c)\<lparr>cm_cleanup_pending := False\<rparr>)
        else il_status l' \<noteq> LClaimed \<and>
          (\<exists>c' \<in> set (list_pending_claim_cleanups repo db'). pc_receipt c' = pc_receipt c \<and> pc_issue_number c' = pc_issue_number c)))"
proof -
  let ?m = "pc_receipt c" and ?n = "pc_issue_number c" and ?now = "de_now env g"
  let ?i = "cm_lease_id ?m"
  obtain l where l: "l \<in> set (dd_leases db)" "il_lease_id l = ?i" "lease_key l = (repo, ?n)" "pc_issue_repo c = repo"
      "pc_lease_status c = il_status l" "il_status l \<in> {LPending, LClaimed, LCompleted, LFailed, LAbandoned, LStale}"
    and m: "?m \<in> set (dd_claims db)" "cm_cleanup_pending ?m"
    using assms(2) by (auto simp: listed_cleanup_iff)
  have look: "lookup_by il_lease_id ?i (dd_leases db) = Some l"
    using l(1,2) assms(1) lookup_by_unique [of il_lease_id "dd_leases db" l] by (auto simp: lease_table_ok_def)
  have "il_status l \<noteq> LRunning" using l(6) by auto
  from reconcile_moved [OF assms(1) look this, of ?now] obtain ls l1 where
    mv: "(if il_status l = LClaimed
      then map_ok (\<lambda>(ls, out). (set_leases ls db, out = Applied))
             (update_lease_status_conditional_outcome ?now ?i LPending [LClaimed] None None (dd_leases db))
      else Ok (db, True)) = Ok (set_leases ls db, True)"
    and k: "lease_table_ok ls" "running_kept (dd_leases db) ls" "lookup_by il_lease_id ?i ls = Some l1"
    "lease_key l1 = lease_key l" "il_status l1 = (if il_status l = LClaimed then LPending else il_status l)"
    "\<And>P. active_count P ls \<le> active_count P (dd_leases db)" by blast
  obtain r g1 where cl: "cleanup_for q c g = (r, g1)" by (cases "cleanup_for q c g")
  note run = assms(3) [unfolded reconcile_one_def Let_def prod.case l(5) mv result.case bool.case cl [unfolded l(4)]]
  show ?thesis
  proof (cases r)
    case (Err e)
    then have res: "db' = set_leases ls db" "g' = g1" "res = Ok ()" using run cl l(4) by auto
    have "c\<lparr>pc_lease_status := il_status l1\<rparr> \<in> set (list_pending_claim_cleanups repo db')"
      using m l(3,4,6) k(3-5) lookup_by_SomeD [OF k(3)] by (auto simp: res listed_cleanup_iff)
    then show ?thesis using res cl Err k l(3) by (auto intro!: bexI [of _ "c\<lparr>pc_lease_status := il_status l1\<rparr>"] split: if_splits)
  next
    case (Ok x)
    obtain db2 where up: "upsert_claim_metadata (de_foreign_keys env) (?m\<lparr>cm_cleanup_pending := False\<rparr>) (set_leases ls db) = Ok db2"
      using upsert_claim_succeeds [of "?m\<lparr>cm_cleanup_pending := False\<rparr>" "set_leases ls db" "de_foreign_keys env"] k(3) by auto
    have db2: "dd_leases db2 = ls" "get_claim_metadata ?i db2 = Some (?m\<lparr>cm_cleanup_pending := False\<rparr>)"
      using upsert_claim_stored(1,2) [OF up] by (simp_all add: set_leases_def)
    show ?thesis
    proof (cases "il_status l = LClaimed \<or> il_status l = LPending")
      case True
      then have p: "il_status l1 = LPending" using k(5) by auto
      obtain ls2 where s: "update_lease_status_conditional_outcome (de_now env g1) ?i LAbandoned [LPending] None None ls = Ok (ls2, Applied)"
          "lease_table_ok ls2" "lookup_by il_lease_id ?i ls2 = Some (set_lease_status (de_now env g1) LAbandoned None l1)"
          "\<And>P. active_count P ls2 + counts_in P l1 (il_status l1) = active_count P ls + counts_in P l1 LAbandoned"
          "il_status l1 \<noteq> LRunning \<Longrightarrow> running_kept ls ls2"
        using swap_on_row [OF k(1) _ _ k(3), of "[LPending]" None None "de_now env g1" LAbandoned] p by auto
      have "active_count P ls2 \<le> active_count P (dd_leases db)" for P using s(4) [of P] k(6) [of P] p by auto
      moreover have "db' = set_leases ls2 db2" "g' = g1" "res = Ok ()" using run Ok cl l(4) up db2(1) s(1) True by auto
      ultimately show ?thesis
        using cl Ok s(2,3,5) p db2(2) k(4) l(3) running_kept_trans [OF k(2)] by (simp add: set_lease_status_def RECLAIMABLE_def)
    next
      case False
      then have "db' = db2" "g' = g1" "res = Ok ()" using run Ok cl l(4) up by auto
      then show ?thesis using cl Ok db2 k l(3,6) False by (auto simp: RECLAIMABLE_def)
    qed
  qed
qed


text \<open>Reconciling one claim leaves every other lease and receipt alone.\<close>

lemma swap_frame:
  assumes "update_lease_status_conditional_outcome now i st expected new_run ex ls = Ok (ls', out)" and "j \<noteq> i"
  shows "lookup_by il_lease_id j ls' = lookup_by il_lease_id j ls"
proof -
  have "ls' = ls \<or> ls' = update_where (cond_guard i expected ex) (set_lease_status now st new_run) ls"
    using assms(1) by (auto simp: update_lease_status_conditional_outcome_def update_lease_status_conditional_def
        split: if_splits option.splits)
  moreover have "lookup_by il_lease_id j (update_where (cond_guard i expected ex) (set_lease_status now st new_run) ls) =
      lookup_by il_lease_id j ls"
  proof (subst lookup_by_update_where)
    show "map_option (\<lambda>r. if cond_guard i expected ex r then set_lease_status now st new_run r else r) (lookup_by il_lease_id j ls) =
        lookup_by il_lease_id j ls"
      using assms(2) by (cases "lookup_by il_lease_id j ls") (auto simp: cond_guard_def dest: lookup_by_SomeD)
  qed (simp add: set_lease_status_def)
  ultimately show ?thesis by auto
qed

lemma moved_frame:
  assumes "map_ok (\<lambda>(ls, out). (set_leases ls db, out = Applied))
      (update_lease_status_conditional_outcome now i st expected new_run ex (dd_leases db)) = Ok (db1, b)" and "j \<noteq> i"
  shows "lookup_by il_lease_id j (dd_leases db1) = lookup_by il_lease_id j (dd_leases db) \<and>
    get_claim_metadata j db1 = get_claim_metadata j db \<and> dd_claims db1 = dd_claims db"
  using assms swap_frame [of now i st expected new_run ex "dd_leases db" _ _ j]
  by (cases "update_lease_status_conditional_outcome now i st expected new_run ex (dd_leases db)") auto

lemma reconcile_one_frame:
  assumes "reconcile_one env q c (db, g) = ((db', g'), res)" and "j \<noteq> cm_lease_id (pc_receipt c)"
  shows "lookup_by il_lease_id j (dd_leases db') = lookup_by il_lease_id j (dd_leases db) \<and>
    get_claim_metadata j db' = get_claim_metadata j db"
proof -
  have up: "lookup_by il_lease_id j (dd_leases d') = lookup_by il_lease_id j (dd_leases d) \<and>
      get_claim_metadata j d' = get_claim_metadata j d"
    if "upsert_claim_metadata fk ((pc_receipt c)\<lparr>cm_cleanup_pending := False\<rparr>) d = Ok d'" for fk d d'
    using upsert_claim_stored(1,3) [OF that] assms(2) by simp
  note moved = moved_frame [OF _ assms(2)]
  show ?thesis
    using assms(1)
    by (auto simp: reconcile_one_def Let_def dest!: up moved dest: swap_frame [OF _ assms(2)]
        split: result.splits prod.splits bool.splits if_splits)
qed

lemma reconcile_one_unique_claims:
  assumes "unique_key cm_lease_id (dd_claims db)" and "reconcile_one env q c (db, g) = ((db', g'), res)"
  shows "unique_key cm_lease_id (dd_claims db')"
proof -
  have "dd_claims db' = dd_claims db \<or>
      dd_claims db' = upsert cm_lease_id (\<lambda>_ new. new) ((pc_receipt c)\<lparr>cm_cleanup_pending := False\<rparr>) (dd_claims db)"
    using assms(2) moved_frame [of db _ "cm_lease_id (pc_receipt c)" LPending "[LClaimed]" None None _ _ "CHR ''x'' # cm_lease_id (pc_receipt c)"]
    by (auto simp: reconcile_one_def upsert_claim_metadata_def Let_def split: result.splits prod.splits bool.splits if_splits)
  then show ?thesis using assms(1) by (auto intro!: unique_key_upsert)
qed

lemma lookup_by_unique_iff: "unique_key key rows \<Longrightarrow> lookup_by key k rows = Some r \<longleftrightarrow> r \<in> set rows \<and> key r = k"
  by (metis lookup_by_SomeD lookup_by_unique)

lemma listed_by_lookup:
  assumes "lease_table_ok (dd_leases db)" and "unique_key cm_lease_id (dd_claims db)"
  shows "c \<in> set (list_pending_claim_cleanups repo db) \<longleftrightarrow>
    get_claim_metadata (cm_lease_id (pc_receipt c)) db = Some (pc_receipt c) \<and> cm_cleanup_pending (pc_receipt c) \<and>
    (\<exists>l. lookup_by il_lease_id (cm_lease_id (pc_receipt c)) (dd_leases db) = Some l \<and> il_issue_repo l = repo \<and>
       il_status l \<in> {LPending, LClaimed, LCompleted, LFailed, LAbandoned, LStale} \<and>
       pc_issue_repo c = repo \<and> pc_issue_number c = il_issue_number l \<and> pc_lease_status c = il_status l)"
proof -
  have a: "get_claim_metadata (cm_lease_id (pc_receipt c)) db = Some (pc_receipt c) \<longleftrightarrow> pc_receipt c \<in> set (dd_claims db)"
    by (simp add: get_claim_metadata_def lookup_by_unique_iff [OF assms(2)])
  have b: "lookup_by il_lease_id i (dd_leases db) = Some l \<longleftrightarrow> l \<in> set (dd_leases db) \<and> il_lease_id l = i" for i l
    using assms(1) by (simp add: lease_table_ok_def lookup_by_unique_iff)
  show ?thesis unfolding listed_cleanup_iff a b by (intro conj_cong refl) blast
qed


abbreviation cleanup_id :: "PendingClaimCleanup \<Rightarrow> string" where
  "cleanup_id c \<equiv> cm_lease_id (pc_receipt c)"

lemma distinct_cleanup_ids:
  assumes "lease_table_ok (dd_leases db)" and "unique_key cm_lease_id (dd_claims db)"
  shows "distinct (map cleanup_id (list_pending_claim_cleanups repo db))"
proof -
  let ?leases = "\<lambda>m. filter (\<lambda>l. il_lease_id l = cm_lease_id m \<and> il_issue_repo l = repo \<and>
      il_status l \<in> {LPending, LClaimed, LCompleted, LFailed, LAbandoned, LStale}) (dd_leases db)"
  let ?row = "\<lambda>m l. \<lparr>pc_issue_repo = il_issue_repo l, pc_issue_number = il_issue_number l,
      pc_lease_status = il_status l, pc_receipt = m\<rparr>"
  have one: "distinct (map cleanup_id (map (?row m) (?leases m)))" for m
  proof -
    have "length (?leases m) \<le> 1"
      using assms(1) count_where_unique_le1 [of il_lease_id "dd_leases db" "\<lambda>l. il_lease_id l = cm_lease_id m \<and> il_issue_repo l = repo \<and>
          il_status l \<in> {LPending, LClaimed, LCompleted, LFailed, LAbandoned, LStale}" "cm_lease_id m"]
      by (auto simp: lease_table_ok_def count_where_def)
    then show ?thesis by (cases "?leases m") auto
  qed
  have "distinct (map cm_lease_id ms) \<Longrightarrow> distinct (map cleanup_id (concat (map (\<lambda>m. map (?row m) (?leases m)) ms)))" for ms
    by (induction ms) (use one in \<open>auto simp: image_iff simp del: map_map\<close>)
  moreover have "distinct (map cm_lease_id (filter cm_cleanup_pending (dd_claims db)))"
    using assms(2) by (simp add: unique_key_def distinct_map_filter)
  ultimately have d: "distinct (map cleanup_id (concat (map (\<lambda>m. map (?row m) (?leases m)) (filter cm_cleanup_pending (dd_claims db)))))"
    by blast
  show ?thesis
    unfolding list_pending_claim_cleanups_def
    by (rule mset_eq_imp_distinct_iff [THEN iffD1, OF _ d]) simp
qed

lemma reconcile_one_others:
  assumes "lease_table_ok (dd_leases db)" and "unique_key cm_lease_id (dd_claims db)"
    and "c \<in> set (list_pending_claim_cleanups repo db)" and "reconcile_one env q c (db, g) = ((db', g'), res)"
    and "cleanup_id d \<noteq> cleanup_id c"
  shows "d \<in> set (list_pending_claim_cleanups repo db') \<longleftrightarrow> d \<in> set (list_pending_claim_cleanups repo db)"
proof -
  have "lease_table_ok (dd_leases db')" using reconcile_one_effect [OF assms(1,3,4)] by blast
  then show ?thesis
    using listed_by_lookup [OF assms(1,2)] listed_by_lookup [OF _ reconcile_one_unique_claims [OF assms(2,4)]]
      reconcile_one_frame [OF assms(4,5)] by simp
qed

lemma reconcile_one_self:
  assumes "lease_table_ok (dd_leases db)" and "unique_key cm_lease_id (dd_claims db)"
    and "c \<in> set (list_pending_claim_cleanups repo db)" and "reconcile_one env q c (db, g) = ((db', g'), res)"
    and "cleanup_id d = cleanup_id c" and "d \<in> set (list_pending_claim_cleanups repo db')"
  shows "pc_lease_status d \<noteq> LClaimed \<and> \<not> is_ok (fst (cleanup_for q c g))"
proof -
  note e = reconcile_one_effect [OF assms(1,3,4)]
  then have ok: "lease_table_ok (dd_leases db')" by blast
  show ?thesis
    using e assms(5,6) listed_by_lookup [OF ok reconcile_one_unique_claims [OF assms(2,4)], of d repo]
    by (auto split: if_splits)
qed

text \<open>The cleanups still to be handled, while a listing is worked off.\<close>

lemma reconcile_all_effect:
  assumes "lease_table_ok (dd_leases db)" and "unique_key cm_lease_id (dd_claims db)"
    and "distinct (map cleanup_id cs)" and "set cs \<subseteq> set (list_pending_claim_cleanups repo db)"
    and "\<forall>d \<in> set (list_pending_claim_cleanups repo db). d \<notin> set cs \<longrightarrow> pc_lease_status d \<noteq> LClaimed \<and> \<not> answers"
    and "answers \<Longrightarrow> \<forall>c h. is_ok (fst (cleanup_for q c h))"
    and "reconcile_all env q cs (db, g) = ((db', g'), res)"
  shows "res = Ok () \<and> lease_table_ok (dd_leases db') \<and> unique_key cm_lease_id (dd_claims db') \<and>
    running_kept (dd_leases db) (dd_leases db') \<and> (\<forall>P. active_count P (dd_leases db') \<le> active_count P (dd_leases db)) \<and>
    (\<forall>d \<in> set (list_pending_claim_cleanups repo db'). pc_lease_status d \<noteq> LClaimed \<and> \<not> answers)"
  using assms
proof (induction cs arbitrary: db g)
  case (Cons c cs)
  obtain db1 g1 r where one: "reconcile_one env q c (db, g) = ((db1, g1), r)" by (metis surj_pair)
  have c: "c \<in> set (list_pending_claim_cleanups repo db)" using Cons.prems(4) by simp
  note e = reconcile_one_effect [OF Cons.prems(1) c one]
  note others = reconcile_one_others [OF Cons.prems(1,2) c one]
  note self = reconcile_one_self [OF Cons.prems(1,2) c one]
  have rest: "reconcile_all env q cs (db1, g1) = ((db', g'), res)" using Cons.prems(7) one e by simp
  have "set cs \<subseteq> set (list_pending_claim_cleanups repo db1)"
    using Cons.prems(3,4) others by (force simp: image_iff)
  moreover have "pc_lease_status d \<noteq> LClaimed \<and> \<not> answers"
    if d: "d \<in> set (list_pending_claim_cleanups repo db1)" "d \<notin> set cs" for d
  proof (cases "cleanup_id d = cleanup_id c")
    case True
    then show ?thesis using self [OF True d(1)] Cons.prems(6) by auto
  next
    case False
    then show ?thesis using others [OF False] d Cons.prems(5) by auto
  qed
  ultimately have "res = Ok () \<and> lease_table_ok (dd_leases db') \<and> unique_key cm_lease_id (dd_claims db') \<and>
    running_kept (dd_leases db1) (dd_leases db') \<and> (\<forall>P. active_count P (dd_leases db') \<le> active_count P (dd_leases db1)) \<and>
    (\<forall>d \<in> set (list_pending_claim_cleanups repo db'). pc_lease_status d \<noteq> LClaimed \<and> \<not> answers)"
    using Cons.IH [of db1 g1] e reconcile_one_unique_claims [OF Cons.prems(2) one] Cons.prems(3,6) rest by simp
  then show ?case using e running_kept_trans by (meson le_trans)
qed simp

text \<open>
  C35: claims interrupted by a crash are undone. Working off the pending cleanups of a repository
  never fails, takes no running lease from its run and uses up no capacity. Afterwards no lease
  with a pending cleanup still occupies a slot as claimed; and when GitHub answers the cleanups,
  none of them is left pending. (A failed cleanup stays listed for the next pass.)
\<close>

theorem interrupted_claims_are_undone:
  assumes "lease_table_ok (dd_leases db)" and "unique_key cm_lease_id (dd_claims db)"
    and "reconcile_all env q (list_pending_claim_cleanups repo db) (db, g) = ((db', g'), res)"
  shows "res = Ok () \<and> lease_table_ok (dd_leases db') \<and> running_kept (dd_leases db) (dd_leases db') \<and>
    (\<forall>c. count_active_leases_for_config c (dd_leases db') \<le> count_active_leases_for_config c (dd_leases db)) \<and>
    (\<forall>d \<in> set (list_pending_claim_cleanups repo db'). pc_lease_status d \<noteq> LClaimed) \<and>
    ((\<forall>c h. is_ok (fst (cleanup_for q c h))) \<longrightarrow> list_pending_claim_cleanups repo db' = [])"
  using reconcile_all_effect [OF assms(1,2) distinct_cleanup_ids [OF assms(1,2)] subset_refl _ _ assms(3),
      of "\<forall>c h. is_ok (fst (cleanup_for q c h))"]
  by (auto simp: active_count_simps)


definition interrupted_db :: DaemonDb where
  "interrupted_db = \<lparr>dd_db = demo_wait_db\<lparr>db_leases := [claim_lease 3 ''o/r'' 9 ''cfg'']\<rparr>,
     dd_claims = [claim_receipt (il_lease_id (claim_lease 3 ''o/r'' 9 ''cfg'')) demo_discovery True True True]\<rparr>"

lemma store_cleanup_ok: "is_ok (fst (cleanup_remote_claim store_github repo n m h))"
  by (simp add: cleanup_remote_claim_def store_github_def store_edit_def Let_def split: option.split)

theorem interrupted_claims_are_undone_witness:
  "list_pending_claim_cleanups ''o/r'' interrupted_db \<noteq> [] \<and>
   (\<exists>db' g'. reconcile_all store_env store_github (list_pending_claim_cleanups ''o/r'' interrupted_db) (interrupted_db, demo_store) =
      ((db', g'), Ok ()) \<and> list_pending_claim_cleanups ''o/r'' db' = [])"
proof -
  let ?r = "reconcile_all store_env store_github (list_pending_claim_cleanups ''o/r'' interrupted_db) (interrupted_db, demo_store)"
  obtain db' g' res where r: "?r = ((db', g'), res)" by (metis surj_pair)
  have h: "lease_table_ok (dd_leases interrupted_db)" "unique_key cm_lease_id (dd_claims interrupted_db)"
    by (simp_all add: interrupted_db_def lease_table_ok_def)
  have "list_pending_claim_cleanups ''o/r'' interrupted_db \<noteq> []"
    by (simp add: list_pending_claim_cleanups_def interrupted_db_def claim_receipt_def)
  then show ?thesis using interrupted_claims_are_undone [OF h r] r store_cleanup_ok by auto
qed

section \<open>The units of a pass\<close>

text \<open>Every unit holds the running lease of its run, and no two units the same.\<close>

definition units_hold :: "lease_table \<Rightarrow> DispatchUnit list \<Rightarrow> bool" where
  "units_hold ls us \<longleftrightarrow> distinct (map du_lease_id us) \<and>
     (\<forall>u \<in> set us. \<exists>l \<in> set ls. il_lease_id l = du_lease_id u \<and> il_status l = LRunning \<and> il_run_id l = Some (lr_run_id (du_request u)))"

lemma units_hold_kept: "units_hold ls us \<Longrightarrow> running_kept ls ls' \<Longrightarrow> units_hold ls' us"
  by (fastforce simp: units_hold_def running_kept_def)

lemma units_hold_snoc:
  assumes "units_hold ls us" and "running_kept ls ls'" and "lease_table_ok ls"
    and "\<And>l. lookup_by il_lease_id (du_lease_id u) ls = Some l \<Longrightarrow> il_status l \<noteq> LRunning"
    and "lookup_by il_lease_id (du_lease_id u) ls' = Some l'" "il_status l' = LRunning" "il_run_id l' = Some (lr_run_id (du_request u))"
  shows "units_hold ls' (us @ [u])"
proof -
  have "du_lease_id u \<notin> du_lease_id ` set us"
  proof
    assume "du_lease_id u \<in> du_lease_id ` set us"
    then obtain l where "l \<in> set ls" "il_lease_id l = du_lease_id u" "il_status l = LRunning"
      using assms(1) by (force simp: units_hold_def)
    moreover from this(1,2) have "lookup_by il_lease_id (du_lease_id u) ls = Some l"
      using assms(3) by (simp add: lookup_by_unique_iff lease_table_ok_def)
    ultimately show False using assms(4) by blast
  qed
  then show ?thesis
    using units_hold_kept [OF assms(1,2)] lookup_by_SomeD [OF assms(5)] assms(6,7) by (auto simp: units_hold_def)
qed


text \<open>The state in which a pass collects its units.\<close>

definition collecting :: "CapacityLimits \<Rightarrow> nat \<Rightarrow> nat \<Rightarrow> DaemonDb \<Rightarrow> DispatchUnit list \<Rightarrow> bool" where
  "collecting limits before queries db us \<longleftrightarrow>
     lease_table_ok (dd_leases db) \<and> units_hold (dd_leases db) us \<and>
     count_active_leases (dd_leases db) \<le> max before (li_global limits) \<and>
     (\<forall>u \<in> set us. case du_query_index u of Some i \<Rightarrow> i < queries | None \<Rightarrow> True)"

lemma prepare_resume_outcome:
  assumes "lease_table_ok (dd_leases db)" and "prepare_resume_unit rc now lease db = (db', r)"
  shows "lease_table_ok (dd_leases db') \<and> running_kept (dd_leases db) (dd_leases db') \<and>
    (case r of
       Ok (Some u) \<Rightarrow>
         (\<exists>l l'. lookup_by il_lease_id (du_lease_id u) (dd_leases db) = Some l \<and> il_status l = LReadyToResume \<and>
            lookup_by il_lease_id (du_lease_id u) (dd_leases db') = Some l' \<and> il_status l' = LRunning \<and>
            il_run_id l' = Some (lr_run_id (du_request u))) \<and>
         du_query_index u = None \<and> (\<forall>P. active_count P (dd_leases db') \<le> Suc (active_count P (dd_leases db)))
     | _ \<Rightarrow> db' = db)"
proof (cases "\<exists>p. validate_resume_read_only rc lease db = Ok (Some p) \<and> pz_run_id p \<noteq> []")
  case False
  have "db' = db \<and> \<not> (\<exists>u. r = Ok (Some u))"
  proof (cases "validate_resume_read_only rc lease db")
    case (Ok o1)
    then show ?thesis using False assms(2)
      by (cases o1) (auto simp: prepare_resume_unit_def prepare_resume_lease_def acquire_resume_lease_def
          update_lease_status_conditional_outcome_def update_lease_status_conditional_def)
  qed (use assms(2) in \<open>auto simp: prepare_resume_unit_def prepare_resume_lease_def\<close>)
  then show ?thesis using assms(1) by (auto split: result.split option.split)
next
  case True
  then obtain p where p: "validate_resume_read_only rc lease db = Ok (Some p)" "pz_run_id p \<noteq> []" by blast
  let ?i = "il_lease_id lease" and ?run = "pz_run_id p"
  have uni: "unique_key il_lease_id (dd_leases db)" using assms(1) by (simp add: lease_table_ok_def)
  show ?thesis
  proof (cases "\<exists>l. lookup_by il_lease_id ?i (dd_leases db) = Some l \<and> il_status l = LReadyToResume \<and> il_run_id l = Some ?run")
    case True
    then obtain l where l: "lookup_by il_lease_id ?i (dd_leases db) = Some l" "il_status l = LReadyToResume" "il_run_id l = Some ?run"
      by blast
    obtain ls' where s: "update_lease_status_conditional_outcome now ?i LRunning [LReadyToResume] (Some ?run) (Some ?run)
          (dd_leases db) = Ok (ls', Applied)" "lease_table_ok ls'"
        "lookup_by il_lease_id ?i ls' = Some (set_lease_status now LRunning (Some ?run) l)"
        "\<And>P. active_count P ls' + counts_in P l (il_status l) = active_count P (dd_leases db) + counts_in P l LRunning"
        "il_status l \<noteq> LRunning \<Longrightarrow> running_kept (dd_leases db) ls'"
      using swap_on_row [OF assms(1) _ _ l(1), of "[LReadyToResume]" "Some ?run" "Some ?run" now LRunning] l(2,3) p(2) by auto
    have "active_count P ls' \<le> Suc (active_count P (dd_leases db))" for P using s(4) [of P] by (auto split: if_splits)
    then show ?thesis
      using assms(2) p(1) s l
      by (auto simp: prepare_resume_unit_def prepare_resume_lease_def acquire_resume_lease_def into_claimed_launch_def
          set_lease_status_def coalesce_def)
  next
    case False
    then obtain out where "update_lease_status_conditional_outcome now ?i LRunning [LReadyToResume] (Some ?run) (Some ?run)
        (dd_leases db) = Ok (dd_leases db, out)" "out \<noteq> Applied"
      using cond_outcome_row [OF uni, of "[LReadyToResume]" "Some ?run" now ?i LRunning "Some ?run"] p(2)
      by (auto split: option.splits if_splits)
    then show ?thesis
      using assms p(1) by (auto simp: prepare_resume_unit_def prepare_resume_lease_def acquire_resume_lease_def set_leases_def)
  qed
qed

lemma collecting_step:
  assumes "collecting limits before queries db us" and "lease_table_ok (dd_leases db')" and "running_kept (dd_leases db) (dd_leases db')"
    and "count_active_leases (dd_leases db') \<le> Suc (count_active_leases (dd_leases db))"
    and "count_active_leases (dd_leases db) < li_global limits"
    and "\<And>l. lookup_by il_lease_id (du_lease_id u) (dd_leases db) = Some l \<Longrightarrow> il_status l \<noteq> LRunning"
    and "lookup_by il_lease_id (du_lease_id u) (dd_leases db') = Some l'" "il_status l' = LRunning"
      "il_run_id l' = Some (lr_run_id (du_request u))"
    and "case du_query_index u of Some i \<Rightarrow> i < queries | None \<Rightarrow> True"
  shows "collecting limits before queries db' (us @ [u])"
  using assms units_hold_snoc [OF _ assms(3) _ assms(6) assms(7-9)] by (auto simp: collecting_def)

lemma collecting_idle:
  assumes "collecting limits before queries db us" and "lease_table_ok (dd_leases db')" and "running_kept (dd_leases db) (dd_leases db')"
    and "count_active_leases (dd_leases db') \<le> count_active_leases (dd_leases db)"
  shows "collecting limits before queries db' us"
  using assms units_hold_kept by (auto simp: collecting_def)

lemma resume_leases_collecting:
  assumes "collecting limits before queries db acc" and "resume_leases rc now config cfg limits leases db = (us, db')"
  shows "collecting limits before queries db' (acc @ us)"
  using assms
proof (induction leases arbitrary: db acc us)
  case (Cons lease leases)
  note ok = Cons.prems(1) [unfolded collecting_def, THEN conjunct1]
  show ?case
  proof (cases "has_capacity (dd_leases db) cfg config (il_issue_repo lease) limits")
    case False
    then show ?thesis using Cons by simp
  next
    case True
    obtain db1 r where pr: "prepare_resume_unit rc now lease db = (db1, r)" by (metis surj_pair)
    note o = prepare_resume_outcome [OF ok pr]
    show ?thesis
    proof (cases "\<exists>u. r = Ok (Some u)")
      case False
      then have "db1 = db" "resume_leases rc now config cfg limits leases db1 = (us, db')"
        using o Cons.prems(2) True pr by (auto split: result.splits option.splits)
      then show ?thesis using Cons.IH Cons.prems(1) by simp
    next
      case True': True
      then obtain u where u: "r = Ok (Some u)" by blast
      obtain vs where vs: "resume_leases rc now config cfg limits leases db1 = (vs, db')" "us = u # vs"
        using Cons.prems(2) True pr u by (auto split: prod.splits)
      obtain l' where l': "lookup_by il_lease_id (du_lease_id u) (dd_leases db1) = Some l'" "il_status l' = LRunning"
        "il_run_id l' = Some (lr_run_id (du_request u))" using o u by auto
      have "collecting limits before queries db1 (acc @ [u])"
        by (rule collecting_step [OF Cons.prems(1) _ _ _ _ _ l'])
           (use o u True in \<open>auto simp: active_count_simps has_capacity_def\<close>)
      from Cons.IH [OF this vs(1)] show ?thesis by (simp add: vs(2))
    qed
  qed
qed simp

lemma resume_configs_collecting:
  assumes "collecting limits before queries db acc" and "resume_configs rc now limits configs db = (us, db')"
  shows "collecting limits before queries db' (acc @ us)"
  using assms
proof (induction configs arbitrary: db acc us)
  case (Cons p configs)
  obtain config cfg where p: "p = (config, cfg)" by (cases p)
  obtain us1 db1 where a: "resume_leases rc now config cfg limits (list_ready_to_resume_leases config (dd_leases db)) db = (us1, db1)"
    by (metis surj_pair)
  obtain us2 where b: "resume_configs rc now limits configs db1 = (us2, db')" "us = us1 @ us2"
    using Cons.prems(2) p a by (auto split: prod.splits)
  from Cons.IH [OF resume_leases_collecting [OF Cons.prems(1) a] b(1)] show ?case by (simp add: b(2))
qed simp

lemma prepare_routed_collecting:
  assumes "collecting limits before queries db us" and "i < queries"
    and "prepare_routed env target q i limits parents routed (us, s) (db, g) = ((db', g'), Ok (us', s'))"
  shows "collecting limits before queries db' us'"
  using assms
proof (induction routed arbitrary: db g us s)
  case (Cons r routed)
  note ok = Cons.prems(1) [unfolded collecting_def, THEN conjunct1]
  obtain db1 g1 res where pr: "prepare_launch_unit env target q i r limits parents (db, g) = ((db1, g1), res)" by (metis surj_pair)
  note o = prepare_launch_outcome [OF ok pr]
  obtain out where out: "res = Ok out" and rest:
    "prepare_routed env target q i limits parents routed (count_prepared out (us, s)) (db1, g1) = ((db', g'), Ok (us', s'))"
    using Cons.prems(3) pr by (cases res) auto
  show ?case
  proof (cases "\<exists>u. out = Ready u")
    case True
    then obtain u where u: "out = Ready u" by blast
    obtain l' where l': "lookup_by il_lease_id (du_lease_id u) (dd_leases db1) = Some l'" "il_status l' = LRunning"
      "il_run_id l' = Some (lr_run_id (du_request u))" using o out u by (auto simp: launch_ready_def)
    have "collecting limits before queries db1 (us @ [u])"
      by (rule collecting_step [OF Cons.prems(1) _ _ _ _ _ l'])
         (use o u out Cons.prems(2) in \<open>auto simp: active_count_simps has_capacity_def launch_ready_def\<close>)
    then show ?thesis using Cons.IH [OF _ Cons.prems(2)] rest u by (simp add: count_prepared_def)
  next
    case False
    then obtain s1 where s1: "count_prepared out (us, s) = (us, s1)" by (cases out) (auto simp: count_prepared_def)
    have "collecting limits before queries db1 us"
      by (rule collecting_idle [OF Cons.prems(1)]) (use o out False in \<open>cases out; auto simp: active_count_simps\<close>)+
    then show ?thesis using Cons.IH [OF _ Cons.prems(2)] rest s1 by simp
  qed
qed simp

lemma launch_targets_collecting:
  assumes "collecting limits before queries db us" and "i + length targets \<le> queries"
    and "launch_targets env limits parents i targets (us, s) (db, g) = ((db', g'), Ok (us', s'))"
  shows "collecting limits before queries db' us'"
  using assms
proof (induction targets arbitrary: i db g us s)
  case (Cons p targets)
  obtain t q where p: "p = (t, q)" by (cases p)
  let ?d = "discover (tg_discovery t) q (dd_leases db) (count_active_leases_for_config (tg_config_id t) (dd_leases db)) g"
  obtain r g1 where d: "?d = (r, g1)" by (cases ?d)
  show ?case
  proof (cases r)
    case (Err e)
    then show ?thesis using Cons.IH [of db us "Suc i" s g1] Cons.prems p d by simp
  next
    case (Ok dr)
    obtain db1 g2 us1 s1 where a: "prepare_routed env t q i limits parents (dr_eligible dr)
        (us, s\<lparr>su_eligible := su_eligible s + length (dr_eligible dr)\<rparr>) (db, g1) = ((db1, g2), Ok (us1, s1))"
      and b: "launch_targets env limits parents (Suc i) targets (us1, s1) (db1, g2) = ((db', g'), Ok (us', s'))"
      using Cons.prems(3) p d Ok by (auto split: prod.splits result.splits)
    have "i < queries" using Cons.prems(2) by simp
    from Cons.IH [OF prepare_routed_collecting [OF Cons.prems(1) this a] _ b] show ?thesis using Cons.prems(2) by simp
  qed
qed simp


text \<open>
  C34: the work a pass hands out is exclusive and within the global limit. Let a pass collect the
  runs to resume and the issues to launch from a consistent lease table. Every unit then holds a
  lease of its own, running under the unit's run; no two units share a lease; the active leases
  do not exceed the global limit (unless they did before, and then they have not grown); and
  every query index names one of the queries.
\<close>

theorem collected_units_are_exclusive:
  assumes "lease_table_ok (dd_leases db)"
    and "collect_resume_units rc now targets limits db = (resumes, db1)"
    and "collect_launch_units env (zip targets queries) limits (resumes, s) (db1, g) = ((db2, g2), Ok (us, s'))"
  shows "distinct (map du_lease_id us) \<and>
    (\<forall>u \<in> set us. \<exists>l. lookup_by il_lease_id (du_lease_id u) (dd_leases db2) = Some l \<and> il_status l = LRunning \<and>
       il_run_id l = Some (lr_run_id (du_request u))) \<and>
    count_active_leases (dd_leases db2) \<le> max (count_active_leases (dd_leases db)) (li_global limits) \<and>
    (\<forall>u \<in> set us. \<forall>i. du_query_index u = Some i \<longrightarrow> i < length queries)"
proof -
  have "collecting limits (count_active_leases (dd_leases db)) (length queries) db []"
    using assms(1) by (simp add: collecting_def units_hold_def)
  from resume_configs_collecting [OF this assms(2) [unfolded collect_resume_units_def]]
  have "collecting limits (count_active_leases (dd_leases db)) (length queries) db1 resumes" by simp
  from launch_targets_collecting [OF this _ assms(3) [unfolded collect_launch_units_def]] show ?thesis
    by (auto simp: collecting_def units_hold_def lease_table_ok_def lookup_by_unique_iff split: option.splits)
qed

definition no_checks :: ResumeChecks where
  "no_checks = \<lparr>rc_migration_pending = \<lambda>_. False, rc_workspace_owned = \<lambda>_ _. True, rc_provenance = \<lambda>_ _. Some ''config'',
     rc_continuation = \<lambda>_ _. Ok True\<rparr>"

lemma demo_collect:
  "\<exists>db2 g2 u s'. collect_resume_units no_checks 30 [demo_target] (capacity_limits [demo_target]) idle_db = ([], idle_db) \<and>
     collect_launch_units store_env (zip [demo_target] [listing_github]) (capacity_limits [demo_target]) ([], default_summary)
       (idle_db, demo_store) = ((db2, g2), Ok ([u], s'))"
proof -
  obtain db' g' u where r: "demo_prepared = ((db', g'), Ok (Ready u))"
    using demo_prepared_ready by (metis surj_pair snd_conv)
  have d: "discover demo_discovery listing_github [] 0 demo_store =
      (Ok \<lparr>dr_eligible = [ordinary (demo_issue 9 [''ok''])], dr_skipped = []\<rparr>, demo_store)"
    by (simp add: discover_def demo_discovery_def listing_github_def store_github_def demo_issue_def order_issues_def judge_issue_def
        static_filter_def issue_has_label_def demo_case_folding word_le_nat_alt approval_skip_def
        local_dynamic_skip_def get_lease_for_issue_def issue_number_to_sql_i64_def i64_try_from_u64_def i64_max_def
        remote_dynamic_skip_def has_active_parent_def cached_parent_issue_def config_run_limit_def route_issue_def
        cached_sub_issues_def Let_def)
  have parents: "parent_launch_discoveries [demo_target] (capacity_limits [demo_target]) = [(''cfg'', demo_discovery)]"
    by (simp add: parent_launch_discoveries_def demo_target_def demo_discovery_def Let_def)
  have same: "prepare_launch_unit store_env demo_target listing_github 0 (ordinary i) l [(''cfg'', demo_discovery)] st =
      prepare_launch_unit store_env demo_target listing_github 0 (ordinary i) l [] st" for i l st
    by (simp add: prepare_launch_unit_def launch_discovery_for_def ordinary_def demo_target_def)
  have "collect_resume_units no_checks 30 [demo_target] (capacity_limits [demo_target]) idle_db = ([], idle_db)"
    by (simp add: collect_resume_units_def resume_config_targets_def upsert_resume_config_target_def demo_target_def
        demo_discovery_def list_ready_to_resume_leases_def idle_db_def Let_def)
  moreover have "\<exists>s'. collect_launch_units store_env (zip [demo_target] [listing_github]) (capacity_limits [demo_target])
      ([], default_summary) (idle_db, demo_store) = ((db', g'), Ok ([u], s'))"
    using r d same parents
    by (simp add: collect_launch_units_def count_prepared_def idle_db_def count_active_leases_for_config_def demo_target_def)
  ultimately show ?thesis by blast
qed

theorem collected_units_are_exclusive_witness:
  "\<exists>db2 g2 u s' l. collect_launch_units store_env (zip [demo_target] [listing_github]) (capacity_limits [demo_target])
       ([], default_summary) (idle_db, demo_store) = ((db2, g2), Ok ([u], s')) \<and>
     lookup_by il_lease_id (du_lease_id u) (dd_leases db2) = Some l \<and> il_status l = LRunning \<and>
     il_run_id l = Some (lr_run_id (du_request u))"
proof -
  obtain db2 g2 u s' where c: "collect_resume_units no_checks 30 [demo_target] (capacity_limits [demo_target]) idle_db = ([], idle_db)"
    "collect_launch_units store_env (zip [demo_target] [listing_github]) (capacity_limits [demo_target]) ([], default_summary)
       (idle_db, demo_store) = ((db2, g2), Ok ([u], s'))"
    using demo_collect by blast
  show ?thesis using collected_units_are_exclusive [OF idle_db_ok c] c(2) by (metis list.set_intros(1))
qed

section \<open>Dispatching\<close>

text \<open>The outcomes a summary has recorded.\<close>

definition outcome_total :: "RunSummary \<Rightarrow> nat" where
  "outcome_total s = su_launched s + su_resumed s + su_suspended s + su_failed s + su_lease_states_preserved s + su_skipped s"

lemma outcome_total_record: "outcome_total (record_outcome outcome resume s) = Suc (outcome_total s)"
  by (simp add: record_outcome_def outcome_total_def record_lease_state_preserved_def Let_def
      split: LaunchOutcome.split bool.split)

definition indexed_in :: "nat \<Rightarrow> DispatchUnit list \<Rightarrow> bool" where
  "indexed_in n us \<longleftrightarrow> (\<forall>u \<in> set us. \<forall>i. du_query_index u = Some i \<longrightarrow> i < n)"

lemma finalize_no_panic:
  assumes "indexed_in (length queries) [u]"
  shows "snd (finalize_claim_after_outcome fk queries u outcome st) \<noteq> Err IndexPanic"
  using assms by (auto simp: indexed_in_def finalize_claim_after_outcome_def Let_def split: option.split result.split prod.split)

lemma join_units_accounts:
  assumes "indexed_in (length queries) us" and "join_units env la queries us first s st = (st', r)"
  shows "\<exists>s' e. r = Ok (s', e) \<and> (e = None \<longrightarrow> first = None \<and> outcome_total s' = outcome_total s + length us)"
  using assms
proof (induction us arbitrary: first s st)
  case (Cons u us)
  obtain db g x where la: "la u st = ((db, g), x)" by (metis surj_pair)
  obtain wdb res where fin: "finish_lease_after_result (de_now env g) (du_lease_id u) (lr_run_id (du_request u)) (joined_result u x)
      (dd_db db) = (wdb, res)" by (metis surj_pair)
  have idx: "indexed_in (length queries) us" "indexed_in (length queries) [u]" using Cons.prems(1) by (simp_all add: indexed_in_def)
  note IH = Cons.IH [OF idx(1)]
  show ?case
  proof (cases res)
    case (Err e)
    then have "join_units env la queries us (if first = None then Some (SeSqlite e) else first) s (db\<lparr>dd_db := wdb\<rparr>, g) = (st', r)"
      using Cons.prems(2) la fin by simp
    from IH [OF this] show ?thesis by (auto split: if_splits)
  next
    case (Ok outcome)
    obtain st2 f where f: "finalize_claim_after_outcome (de_foreign_keys env) queries u outcome (db\<lparr>dd_db := wdb\<rparr>, g) = (st2, f)"
      by (metis surj_pair)
    have "f \<noteq> Err IndexPanic" using finalize_no_panic [OF idx(2)] f by (metis snd_conv)
    then obtain first' where "join_units env la queries us first' (record_outcome outcome (du_resume u) s) st2 = (st', r)"
      and first': "first' = None \<longrightarrow> first = None"
      using Cons.prems(2) la fin Ok f by (auto split: result.splits pass_fault.splits if_splits)
    from IH [OF this(1)] first' show ?thesis by (auto simp: outcome_total_record)
  qed
qed auto

lemma dispatch_chunks_accounts:
  assumes "indexed_in (length queries) (concat cs)" and "dispatch_chunks env la queries cs s st = (st', r)"
  shows "r \<noteq> Err IndexPanic \<and> (\<forall>s'. r = Ok s' \<longrightarrow> outcome_total s' = outcome_total s + length (concat cs))"
  using assms
proof (induction cs arbitrary: s st)
  case (Cons c cs)
  have idx: "indexed_in (length queries) (concat cs)" "indexed_in (length queries) c"
    using Cons.prems(1) by (auto simp: indexed_in_def)
  obtain st1 j where j: "join_units env la queries c None s st = (st1, j)" by (metis surj_pair)
  obtain s1 e where j': "j = Ok (s1, e)" "e = None \<longrightarrow> outcome_total s1 = outcome_total s + length c"
    using join_units_accounts [OF idx(2) j] by blast
  show ?case
  proof (cases e)
    case None
    then have "dispatch_chunks env la queries cs s1 st1 = (st', r)" using Cons.prems(2) j j' by (simp add: dispatch_unit_chunk_def)
    from Cons.IH [OF idx(1) this] show ?thesis using None j'(2) by auto
  next
    case (Some x)
    then show ?thesis using Cons.prems(2) j j' by (auto simp: dispatch_unit_chunk_def)
  qed
qed auto

text \<open>
  A dispatch accounts for every unit. Whatever the launched workflows do, and even when their
  threads panic, dispatching units whose indices name queries never panics itself; and when it
  reports success, the summary has counted exactly one outcome for each unit.
\<close>

theorem dispatch_accounts_for_units:
  assumes "\<forall>u \<in> set us. \<forall>i. du_query_index u = Some i \<longrightarrow> i < length queries"
    and "dispatch_units env la queries us n s st = (st', r)"
  shows "r \<noteq> Err IndexPanic \<and> (\<forall>s'. r = Ok s' \<longrightarrow> outcome_total s' = outcome_total s + length us)"
proof -
  have "concat (chunks (max n 1) us) = us" by (rule concat_chunks) simp
  then show ?thesis
    using dispatch_chunks_accounts [of queries "chunks (max n 1) us" env la s st st' r] assms
    by (simp add: dispatch_units_def indexed_in_def)
qed


definition panicking :: "issue_store launcher" where
  "panicking u st = (st, Panicked OtherPayload)"

theorem dispatch_accounts_for_units_witness:
  "\<exists>st' s'. dispatch_units store_env panicking [store_github]
     [\<lparr>du_lease_id = ''l'', du_request = cl_request (into_claimed_launch \<lparr>pz_run_id = ''r'', pz_workflow_type_id = ''t'',
         pz_config_id = ''cfg'', pz_config_root = ''c'', pz_claim_assignment_added = True, pz_claim_label_added = True\<rparr>
         (claim_lease 1 ''o/r'' 7 ''cfg'')), du_resume = False, du_query_index = Some 0\<rparr>] 1 default_summary
     (demo_daemon_db, demo_store) = (st', Ok s') \<and> outcome_total s' = 1 \<and> su_failed s' = 1"
proof -
  let ?us = "[\<lparr>du_lease_id = ''l'', du_request = cl_request (into_claimed_launch \<lparr>pz_run_id = ''r'', pz_workflow_type_id = ''t'',
         pz_config_id = ''cfg'', pz_config_root = ''c'', pz_claim_assignment_added = True, pz_claim_label_added = True\<rparr>
         (claim_lease 1 ''o/r'' 7 ''cfg'')), du_resume = False, du_query_index = Some (0 :: nat)\<rparr>]"
  let ?r = "dispatch_units store_env panicking [store_github] ?us 1 default_summary (demo_daemon_db, demo_store)"
  obtain st' s' where r: "?r = (st', Ok s')" and f: "su_failed s' = 1"
    by (auto simp: dispatch_units_def chunks.simps dispatch_unit_chunk_def panicking_def joined_result_def into_claimed_launch_def
        finish_lease_after_result_def finish_lease_result_def compensate_lease_after_launch_error_def
        has_pollable_external_wait_def demo_daemon_db_def demo_wait_db_def update_lease_status_conditional_def cond_guard_def
        finalize_claim_after_outcome_def get_claim_metadata_def record_outcome_def default_summary_def store_env_def Let_def)
  have "\<forall>u \<in> set ?us. \<forall>i. du_query_index u = Some i \<longrightarrow> i < length [store_github]" by simp
  from dispatch_accounts_for_units [OF this r] show ?thesis using r f by (simp add: outcome_total_def default_summary_def)
qed

end
