(* ===== verification/Pr_Check_Wait.thy ===== *)
theory Pr_Check_Wait
  imports Discovery
begin

text \<open>
  The policy that turns the checks of a pull request into a verdict
  (\<open>components/github/pr_check_wait.rs\<close>, the state enum of \<open>pr_followup_types.rs\<close>): which
  checks count, how the required and optional definitions match them, and the bounded retries
  for missing checks and API errors. Regular expressions are a parameter \<open>re\<close>: a pattern that
  compiles yields its matcher. Decoding a policy and the counters is serde's work and a
  parameter of their users.
\<close>

section \<open>Data\<close>

datatype OverallState = OsPassed | OsFailed | OsUnknown | OsFatal | OsPendingTimeout

fun overall_state_as_str :: "OverallState \<Rightarrow> string" where
  "overall_state_as_str OsPassed = ''passed''"
| "overall_state_as_str OsFailed = ''failed''"
| "overall_state_as_str OsUnknown = ''unknown''"
| "overall_state_as_str OsFatal = ''fatal''"
| "overall_state_as_str OsPendingTimeout = ''pending_timeout''"

datatype PrCheckMatchMode = Exact | Prefix | RegexMode

record PrCheckDefinition =
  df_mode :: PrCheckMatchMode
  df_pattern :: string
  df_allow_skipped :: "bool option"

record PrCheckWaitConfig =
  wc_required :: "PrCheckDefinition list"
  wc_optional :: "PrCheckDefinition list"
  wc_ignored :: "PrCheckDefinition list"
  wc_allow_unmatched_success :: bool
  wc_default_allow_skipped :: bool
  wc_block_optional_failures :: bool
  wc_missing_retry_attempts :: u32
  wc_api_error_retry_attempts :: u32
  wc_max_wait_seconds :: u64
  wc_poll_interval_seconds :: u64

record PrCheckWaitCounters =
  ct_missing_attempts :: u32
  ct_api_error_attempts :: u32
  ct_poll_attempts :: u32

record PrCheckObservation =
  ob_check_id :: string
  ob_name :: string
  ob_status :: "string option"
  ob_conclusion :: "string option"
  ob_state :: string
  ob_bucket :: string
  ob_url :: "string option"
  ob_workflow_name :: "string option"
  ob_run_id :: "nat option"
  ob_job_id :: "nat option"
  ob_started_at :: "string option"
  ob_completed_at :: "string option"
  ob_head_sha :: "string option"
  ob_app_slug :: "string option"
  ob_source :: string

record PrCheckMatchResult =
  mr_definition :: PrCheckDefinition
  mr_matched_check_ids :: "string list"
  mr_state :: string

record PrCheckWaitClassification =
  cf_overall_state :: OverallState
  cf_current_checks :: "PrCheckObservation list"
  cf_stale_checks :: "PrCheckObservation list"
  cf_required :: "PrCheckMatchResult list"
  cf_optional :: "PrCheckMatchResult list"
  cf_ignored_check_ids :: "string list"
  cf_missing_required :: "string list"
  cf_terminal_counts :: json
  cf_reason :: string
  cf_counters :: PrCheckWaitCounters

definition default_wait_config :: PrCheckWaitConfig where
  "default_wait_config =
     \<lparr>wc_required = [], wc_optional = [], wc_ignored = [], wc_allow_unmatched_success = True,
      wc_default_allow_skipped = False, wc_block_optional_failures = False, wc_missing_retry_attempts = 3,
      wc_api_error_retry_attempts = 3, wc_max_wait_seconds = 1800, wc_poll_interval_seconds = 60\<rparr>"

definition default_counters :: PrCheckWaitCounters where
  "default_counters = \<lparr>ct_missing_attempts = 0, ct_api_error_attempts = 0, ct_poll_attempts = 0\<rparr>"

text \<open>\<open>u32::saturating_add(1)\<close>.\<close>

definition saturating_inc :: "u32 \<Rightarrow> u32" where
  "saturating_inc n = (if n = - 1 then n else n + 1)"

lemma unat_below_top:
  assumes "(n :: u32) \<noteq> - 1"
  shows "unat n + 1 < 2 ^ 32"
proof -
  have "unat (- 1 :: u32) = 2 ^ 32 - 1" by (simp add: unsigned_minus_1_eq_mask mask_eq_exp_minus_1)
  then have "unat n \<noteq> 2 ^ 32 - 1" using assms by (metis word_unat_eq_iff)
  moreover have "unat n < 2 ^ 32" using unsigned_less [of n] by simp
  ultimately show ?thesis by simp
qed

lemma unat_saturating_inc: "unat (saturating_inc n) = min (unat n + 1) (2 ^ 32 - 1)"
proof (cases "n = - 1")
  case True
  then show ?thesis by (simp add: saturating_inc_def unsigned_minus_1_eq_mask mask_eq_exp_minus_1)
next
  case False
  then have "unat (n + 1) = unat n + 1" using unat_below_top [OF False] by (simp add: unat_word_ariths)
  then show ?thesis using False unat_below_top [OF False] by (simp add: saturating_inc_def)
qed

section \<open>Matching\<close>

type_synonym regexes = "string \<Rightarrow> (string \<Rightarrow> bool) option"

definition check_value_matches :: "regexes \<Rightarrow> PrCheckDefinition \<Rightarrow> string \<Rightarrow> bool" where
  "check_value_matches re d v =
     (case df_mode d of
        Exact \<Rightarrow> v = df_pattern d
      | Prefix \<Rightarrow> starts_with (df_pattern d) v
      | RegexMode \<Rightarrow> (case re (df_pattern d) of Some matcher \<Rightarrow> matcher v | None \<Rightarrow> False))"

definition definition_matches :: "regexes \<Rightarrow> PrCheckDefinition \<Rightarrow> PrCheckObservation \<Rightarrow> bool" where
  "definition_matches re d c \<longleftrightarrow>
     check_value_matches re d (ob_name c) \<or>
     (case ob_workflow_name c of Some w \<Rightarrow> check_value_matches re d w | None \<Rightarrow> False)"

definition classify_check :: "PrCheckObservation \<Rightarrow> bool \<Rightarrow> string" where
  "classify_check c allow_skipped =
     (if ob_bucket c = ''skipped'' then (if allow_skipped then ''passed'' else ''failed'') else ob_bucket c)"

definition aggregate_match_state :: "PrCheckObservation list \<Rightarrow> PrCheckDefinition \<Rightarrow> bool \<Rightarrow> string" where
  "aggregate_match_state checks d default_allow_skipped =
     (if checks = [] then ''missing''
      else
        (let allow = (case df_allow_skipped d of Some b \<Rightarrow> b | None \<Rightarrow> default_allow_skipped);
             buckets = map (\<lambda>c. classify_check c allow) checks
         in if ''failed'' \<in> set buckets then ''failed''
            else if ''pending'' \<in> set buckets then ''pending''
            else if ''unknown'' \<in> set buckets then ''unknown''
            else ''passed''))"

definition match_definitions ::
  "regexes \<Rightarrow> PrCheckObservation list \<Rightarrow> PrCheckDefinition list \<Rightarrow> bool \<Rightarrow> PrCheckMatchResult list" where
  "match_definitions re checks ds default_allow_skipped =
     map (\<lambda>d. let matched = filter (definition_matches re d) checks
              in \<lparr>mr_definition = d, mr_matched_check_ids = map ob_check_id matched,
                  mr_state = aggregate_match_state matched d default_allow_skipped\<rparr>) ds"

definition ignored_check_ids ::
  "regexes \<Rightarrow> PrCheckObservation list \<Rightarrow> PrCheckObservation list \<Rightarrow> PrCheckDefinition list \<Rightarrow> string list" where
  "ignored_check_ids re current stale ignored =
     map ob_check_id (filter (\<lambda>c. list_ex (\<lambda>d. definition_matches re d c) ignored) (current @ stale))"

definition matched_check_ids :: "PrCheckMatchResult list \<Rightarrow> PrCheckMatchResult list \<Rightarrow> string list" where
  "matched_check_ids required optional = concat (map mr_matched_check_ids (required @ optional))"

section \<open>The verdict\<close>

definition missing_state :: "PrCheckWaitConfig \<Rightarrow> PrCheckWaitCounters \<Rightarrow> OverallState \<times> string" where
  "missing_state cfg ct =
     (if ct_missing_attempts ct \<le> wc_missing_retry_attempts cfg
      then (OsPendingTimeout, ''required_check_missing'')
      else (OsFatal, ''required_check_missing_exhausted''))"

definition classify_state ::
  "PrCheckMatchResult list \<Rightarrow> PrCheckMatchResult list \<Rightarrow> PrCheckObservation list \<Rightarrow> string list \<Rightarrow>
   PrCheckWaitConfig \<Rightarrow> PrCheckWaitCounters \<Rightarrow> OverallState \<times> string" where
  "classify_state required optional unmatched missing_required cfg ct =
     (if list_ex (\<lambda>r. mr_state r = ''failed'') required then (OsFailed, ''required_check_failed'')
      else if missing_required \<noteq> [] then missing_state cfg ct
      else if list_ex (\<lambda>r. mr_state r = ''pending'') required then (OsPendingTimeout, ''required_check_pending'')
      else if wc_block_optional_failures cfg \<and> list_ex (\<lambda>r. mr_state r = ''failed'') optional
        then (OsFailed, ''optional_check_failed'')
      else if list_ex (\<lambda>c. ob_bucket c = ''pending'') unmatched then (OsPendingTimeout, ''unmatched_check_pending'')
      else if list_ex (\<lambda>r. mr_state r = ''unknown'') required then (OsUnknown, ''required_check_unknown'')
      else if list_ex (\<lambda>c. classify_check c (wc_default_allow_skipped cfg) = ''failed'') unmatched
        then (OsFailed, ''unmatched_check_failed'')
      else if list_ex (\<lambda>c. ob_bucket c = ''unknown'') unmatched then (OsUnknown, ''unmatched_check_unknown'')
      else if required = [] \<and> \<not> wc_allow_unmatched_success cfg then (OsUnknown, ''no_required_checks_configured'')
      else (OsPassed, ''configured_checks_passed''))"

definition json_nat :: "nat \<Rightarrow> json" where
  "json_nat n = JInt (int n)"

definition terminal_counts :: "PrCheckObservation list \<Rightarrow> string list \<Rightarrow> string list \<Rightarrow> json" where
  "terminal_counts checks missing_required ignored_ids =
     (let count = (\<lambda>bs. json_nat (length (filter (\<lambda>c. ob_bucket c \<in> set bs) checks)))
      in JObj [(''passed'', count [''passed'']), (''failed'', count [''failed'', ''skipped'']),
               (''pending'', count [''pending'']), (''unknown'', count [''unknown'']),
               (''missing'', json_nat (length missing_required)), (''ignored'', json_nat (length ignored_ids))])"

definition is_current :: "string \<Rightarrow> PrCheckObservation \<Rightarrow> bool" where
  "is_current head_sha c \<longleftrightarrow> (case ob_head_sha c of Some s \<Rightarrow> s | None \<Rightarrow> head_sha) = head_sha"

definition classify_pr_checks ::
  "regexes \<Rightarrow> string \<Rightarrow> PrCheckObservation list \<Rightarrow> PrCheckWaitConfig \<Rightarrow> PrCheckWaitCounters \<Rightarrow> PrCheckWaitClassification" where
  "classify_pr_checks re head_sha checks cfg ct =
     (let current = filter (is_current head_sha) checks;
          stale = filter (\<lambda>c. \<not> is_current head_sha c) checks;
          ignored = ignored_check_ids re current stale (wc_ignored cfg);
          considered = filter (\<lambda>c. ob_check_id c \<notin> set ignored) current;
          required = match_definitions re considered (wc_required cfg) (wc_default_allow_skipped cfg);
          optional = match_definitions re considered (wc_optional cfg) (wc_default_allow_skipped cfg);
          unmatched = filter (\<lambda>c. ob_check_id c \<notin> set (matched_check_ids required optional)) considered;
          missing = map (df_pattern \<circ> mr_definition) (filter (\<lambda>r. mr_matched_check_ids r = []) required);
          ct1 = ct\<lparr>ct_poll_attempts := saturating_inc (ct_poll_attempts ct), ct_api_error_attempts := 0,
                   ct_missing_attempts := (if missing = [] then 0 else saturating_inc (ct_missing_attempts ct))\<rparr>;
          (overall, reason) = classify_state required optional unmatched missing cfg ct1
      in \<lparr>cf_overall_state = overall, cf_current_checks = current, cf_stale_checks = stale,
          cf_required = required, cf_optional = optional, cf_ignored_check_ids = ignored,
          cf_missing_required = missing, cf_terminal_counts = terminal_counts considered missing ignored,
          cf_reason = reason, cf_counters = ct1\<rparr>)"

definition classify_api_error ::
  "PrCheckWaitConfig \<Rightarrow> PrCheckWaitCounters \<Rightarrow> string \<Rightarrow> PrCheckWaitClassification" where
  "classify_api_error cfg ct message =
     (let ct1 = ct\<lparr>ct_poll_attempts := saturating_inc (ct_poll_attempts ct),
                   ct_api_error_attempts := saturating_inc (ct_api_error_attempts ct)\<rparr>
      in \<lparr>cf_overall_state = (if ct_api_error_attempts ct1 \<le> wc_api_error_retry_attempts cfg then OsPendingTimeout else OsFatal),
          cf_current_checks = [], cf_stale_checks = [], cf_required = [], cf_optional = [],
          cf_ignored_check_ids = [], cf_missing_required = [],
          cf_terminal_counts = JObj [(''passed'', json_nat 0), (''failed'', json_nat 0), (''pending'', json_nat 0),
            (''unknown'', json_nat 0), (''missing'', json_nat 0), (''ignored'', json_nat 0),
            (''api_errors'', json_nat (unat (ct_api_error_attempts ct1)))],
          cf_reason = message, cf_counters = ct1\<rparr>)"

definition check_bucket :: "string option \<Rightarrow> string option \<Rightarrow> string \<Rightarrow> string \<Rightarrow> string" where
  "check_bucket status0 conclusion0 bucket0 state0 =
     (let status = map ascii_lower (case status0 of Some s \<Rightarrow> s | None \<Rightarrow> []);
          conclusion = map ascii_lower (case conclusion0 of Some s \<Rightarrow> s | None \<Rightarrow> []);
          bucket = map ascii_lower bucket0;
          state = map ascii_lower state0
      in if bucket \<in> {''pass'', ''passed''} \<or> conclusion \<in> {''success'', ''neutral''} \<or> state \<in> {''success'', ''neutral''}
         then ''passed''
         else if conclusion = ''skipped'' \<or> state = ''skipped'' then ''skipped''
         else if conclusion \<in> {''failure'', ''startup_failure'', ''timed_out'', ''action_required'', ''cancelled'', ''stale''} \<or>
                 state \<in> {''failure'', ''failed'', ''startup_failure'', ''timed_out'', ''action_required'', ''cancelled'', ''stale''} \<or>
                 bucket \<in> {''fail'', ''failed''}
         then ''failed''
         else if status \<in> {''queued'', ''requested'', ''waiting'', ''pending'', ''in_progress''} \<or>
                 state \<in> {''queued'', ''requested'', ''waiting'', ''pending'', ''in_progress''} \<or> bucket = ''pending''
         then ''pending''
         else ''unknown'')"


section \<open>The payload\<close>

text \<open>The derived serializations; an absent \<open>allow_skipped\<close> is left out, other absent fields are null.\<close>

definition json_opt :: "('a \<Rightarrow> json) \<Rightarrow> 'a option \<Rightarrow> json" where
  "json_opt f v = (case v of Some x \<Rightarrow> f x | None \<Rightarrow> JNull)"

fun match_mode_to_json :: "PrCheckMatchMode \<Rightarrow> json" where
  "match_mode_to_json Exact = JStr ''exact''"
| "match_mode_to_json Prefix = JStr ''prefix''"
| "match_mode_to_json RegexMode = JStr ''regex''"

definition definition_to_json :: "PrCheckDefinition \<Rightarrow> json" where
  "definition_to_json d =
     JObj ([(''mode'', match_mode_to_json (df_mode d)), (''pattern'', JStr (df_pattern d))] @
           (case df_allow_skipped d of Some b \<Rightarrow> [(''allow_skipped'', JBool b)] | None \<Rightarrow> []))"

definition config_to_json :: "PrCheckWaitConfig \<Rightarrow> json" where
  "config_to_json c =
     JObj [(''required'', JArr (map definition_to_json (wc_required c))),
           (''optional'', JArr (map definition_to_json (wc_optional c))),
           (''ignored'', JArr (map definition_to_json (wc_ignored c))),
           (''allow_unmatched_success'', JBool (wc_allow_unmatched_success c)),
           (''default_allow_skipped'', JBool (wc_default_allow_skipped c)),
           (''block_optional_failures'', JBool (wc_block_optional_failures c)),
           (''missing_retry_attempts'', json_nat (unat (wc_missing_retry_attempts c))),
           (''api_error_retry_attempts'', json_nat (unat (wc_api_error_retry_attempts c))),
           (''max_wait_seconds'', json_nat (unat (wc_max_wait_seconds c))),
           (''poll_interval_seconds'', json_nat (unat (wc_poll_interval_seconds c)))]"

definition counters_to_json :: "PrCheckWaitCounters \<Rightarrow> json" where
  "counters_to_json c =
     JObj [(''missing_attempts'', json_nat (unat (ct_missing_attempts c))),
           (''api_error_attempts'', json_nat (unat (ct_api_error_attempts c))),
           (''poll_attempts'', json_nat (unat (ct_poll_attempts c)))]"

definition observation_to_json :: "PrCheckObservation \<Rightarrow> json" where
  "observation_to_json c =
     JObj [(''check_id'', JStr (ob_check_id c)), (''name'', JStr (ob_name c)), (''status'', json_opt JStr (ob_status c)),
           (''conclusion'', json_opt JStr (ob_conclusion c)), (''state'', JStr (ob_state c)), (''bucket'', JStr (ob_bucket c)),
           (''url'', json_opt JStr (ob_url c)), (''workflow_name'', json_opt JStr (ob_workflow_name c)),
           (''run_id'', json_opt json_nat (ob_run_id c)), (''job_id'', json_opt json_nat (ob_job_id c)),
           (''started_at'', json_opt JStr (ob_started_at c)), (''completed_at'', json_opt JStr (ob_completed_at c)),
           (''head_sha'', json_opt JStr (ob_head_sha c)), (''app_slug'', json_opt JStr (ob_app_slug c)),
           (''source'', JStr (ob_source c))]"

definition match_result_to_json :: "PrCheckMatchResult \<Rightarrow> json" where
  "match_result_to_json r =
     JObj [(''definition'', definition_to_json (mr_definition r)),
           (''matched_check_ids'', JArr (map JStr (mr_matched_check_ids r))), (''state'', JStr (mr_state r))]"

definition status_payload :: "PrCheckWaitClassification \<Rightarrow> PrCheckWaitConfig \<Rightarrow> string \<Rightarrow> string \<Rightarrow> json" where
  "status_payload cf cfg head_sha observed_at =
     JObj [(''head_sha'', JStr head_sha),
           (''overall_state'', JStr (overall_state_as_str (cf_overall_state cf))),
           (''checks'', JArr (map observation_to_json (cf_current_checks cf))),
           (''stale_checks'', JArr (map observation_to_json (cf_stale_checks cf))),
           (''required'', JArr (map match_result_to_json (cf_required cf))),
           (''optional'', JArr (map match_result_to_json (cf_optional cf))),
           (''ignored_check_ids'', JArr (map JStr (cf_ignored_check_ids cf))),
           (''missing_required'', JArr (map JStr (cf_missing_required cf))),
           (''terminal_counts'', cf_terminal_counts cf),
           (''classification_reason'', JStr (cf_reason cf)),
           (''poll_state'', counters_to_json (cf_counters cf)),
           (''policy'', config_to_json cfg),
           (''observed_at'', JStr observed_at)]"

text \<open>Reading back: \<open>policy_of\<close> and \<open>counters_of\<close> are serde's decoders.\<close>

definition config_from_value :: "(json \<Rightarrow> (PrCheckWaitConfig, string) result) \<Rightarrow> json \<Rightarrow> (PrCheckWaitConfig, string) result" where
  "config_from_value policy_of params =
     (case (case json_get params ''check_policy'' of Some v \<Rightarrow> Some v | None \<Rightarrow> json_get params ''pr_check_policy'') of
        None \<Rightarrow> Ok default_wait_config
      | Some JNull \<Rightarrow> Ok default_wait_config
      | Some v \<Rightarrow> (case policy_of v of Ok c \<Rightarrow> Ok c | Err e \<Rightarrow> Err (''invalid PR check policy: '' @ e)))"

definition counters_from_value :: "(json \<Rightarrow> PrCheckWaitCounters option) \<Rightarrow> json \<Rightarrow> PrCheckWaitCounters" where
  "counters_from_value counters_of v =
     (case Option.bind (case json_get v ''poll_state'' of Some s \<Rightarrow> Some s | None \<Rightarrow> json_get v ''counters'') counters_of of
        Some c \<Rightarrow> c
      | None \<Rightarrow> default_counters)"

section \<open>When the checks have passed\<close>

text \<open>The checks of the head commit that no ignore rule names.\<close>

definition counted_checks :: "regexes \<Rightarrow> string \<Rightarrow> PrCheckWaitConfig \<Rightarrow> PrCheckObservation list \<Rightarrow> PrCheckObservation set" where
  "counted_checks re head_sha cfg checks =
     {c \<in> set checks. is_current head_sha c \<and>
        \<not> (\<exists>x \<in> set checks. ob_check_id x = ob_check_id c \<and> (\<exists>d \<in> set (wc_ignored cfg). definition_matches re d x))}"

definition skip_allowed :: "PrCheckWaitConfig \<Rightarrow> PrCheckDefinition \<Rightarrow> bool" where
  "skip_allowed cfg d = (case df_allow_skipped d of Some b \<Rightarrow> b | None \<Rightarrow> wc_default_allow_skipped cfg)"

definition definition_passes :: "regexes \<Rightarrow> PrCheckWaitConfig \<Rightarrow> PrCheckObservation set \<Rightarrow> PrCheckDefinition \<Rightarrow> bool" where
  "definition_passes re cfg cs d \<longleftrightarrow>
     (\<exists>c \<in> cs. definition_matches re d c) \<and>
     (\<forall>c \<in> cs. definition_matches re d c \<longrightarrow> classify_check c (skip_allowed cfg d) \<notin> {''failed'', ''pending'', ''unknown''})"

definition policy_satisfied :: "regexes \<Rightarrow> string \<Rightarrow> PrCheckWaitConfig \<Rightarrow> PrCheckObservation list \<Rightarrow> bool" where
  "policy_satisfied re head_sha cfg checks \<longleftrightarrow>
     (let cs = counted_checks re head_sha cfg checks
      in (\<forall>d \<in> set (wc_required cfg). definition_passes re cfg cs d) \<and>
         (wc_block_optional_failures cfg \<longrightarrow>
            (\<forall>d \<in> set (wc_optional cfg). \<forall>c \<in> cs. definition_matches re d c \<longrightarrow> classify_check c (skip_allowed cfg d) \<noteq> ''failed'')) \<and>
         (\<forall>c \<in> cs. (\<forall>x \<in> cs. ob_check_id x = ob_check_id c \<longrightarrow>
                      \<not> (\<exists>d \<in> set (wc_required cfg) \<union> set (wc_optional cfg). definition_matches re d x)) \<longrightarrow>
            ob_bucket c \<notin> {''pending'', ''unknown''} \<and> classify_check c (wc_default_allow_skipped cfg) \<noteq> ''failed'') \<and>
         (wc_required cfg \<noteq> [] \<or> wc_allow_unmatched_success cfg))"


lemma classify_state_passed:
  "fst (classify_state required optional unmatched missing cfg ct) = OsPassed \<longleftrightarrow>
     missing = [] \<and> (\<forall>r \<in> set required. mr_state r \<notin> {''failed'', ''pending'', ''unknown''}) \<and>
     (wc_block_optional_failures cfg \<longrightarrow> (\<forall>r \<in> set optional. mr_state r \<noteq> ''failed'')) \<and>
     (\<forall>c \<in> set unmatched. ob_bucket c \<notin> {''pending'', ''unknown''} \<and> classify_check c (wc_default_allow_skipped cfg) \<noteq> ''failed'') \<and>
     (required \<noteq> [] \<or> wc_allow_unmatched_success cfg)"
  by (auto simp: classify_state_def missing_state_def list_ex_iff)

lemma aggregate_failed:
  "aggregate_match_state checks d b = ''failed'' \<longleftrightarrow>
     (\<exists>c \<in> set checks. classify_check c (case df_allow_skipped d of Some a \<Rightarrow> a | None \<Rightarrow> b) = ''failed'')"
  by (auto simp: aggregate_match_state_def Let_def image_iff)

lemma aggregate_blocked:
  "aggregate_match_state checks d b \<in> {''failed'', ''pending'', ''unknown''} \<longleftrightarrow>
     (\<exists>c \<in> set checks. classify_check c (case df_allow_skipped d of Some a \<Rightarrow> a | None \<Rightarrow> b) \<in> {''failed'', ''pending'', ''unknown''})"
  by (auto simp: aggregate_match_state_def Let_def image_iff)

lemma set_ignored_ids:
  "set (ignored_check_ids re (filter P checks) (filter (\<lambda>c. \<not> P c) checks) ds) =
     ob_check_id ` {c \<in> set checks. \<exists>d \<in> set ds. definition_matches re d c}"
  by (auto simp: ignored_check_ids_def list_ex_iff)

lemma considered_set:
  "set (filter (\<lambda>c. ob_check_id c \<notin> set (ignored_check_ids re (filter (is_current sha) checks)
      (filter (\<lambda>c. \<not> is_current sha c) checks) (wc_ignored cfg))) (filter (is_current sha) checks)) =
   counted_checks re sha cfg checks"
  unfolding set_filter set_ignored_ids counted_checks_def by (auto simp: image_iff)

lemma match_definitions_results:
  "set (match_definitions re checks ds b) =
     (\<lambda>d. \<lparr>mr_definition = d, mr_matched_check_ids = map ob_check_id (filter (definition_matches re d) checks),
           mr_state = aggregate_match_state (filter (definition_matches re d) checks) d b\<rparr>) ` set ds"
  by (simp add: match_definitions_def Let_def)

lemma matched_ids_set:
  "set (matched_check_ids (match_definitions re checks ds b) (match_definitions re checks es b)) =
     ob_check_id ` {c \<in> set checks. \<exists>d \<in> set ds \<union> set es. definition_matches re d c}"
  by (auto simp: matched_check_ids_def match_definitions_results)

text \<open>
  C39: the verdict passed means what the policy says. The classification of a set of check
  observations is passed if and only if, among the checks of the head commit that no ignore
  rule names, every required definition matches at least one check and none it matches is
  failed, pending or unknown (a skipped check counts as passed or failed by the definition's
  policy), optional failures are absent where they block, no unmatched check is pending,
  unknown or failed, and some definition is required unless unmatched success is allowed.
  Retry counters play no part in it.
\<close>

theorem passed_iff_policy_satisfied:
  "cf_overall_state (classify_pr_checks re sha checks cfg ct) = OsPassed \<longleftrightarrow> policy_satisfied re sha cfg checks"
proof -
  let ?cur = "filter (is_current sha) checks"
  let ?ign = "ignored_check_ids re ?cur (filter (\<lambda>c. \<not> is_current sha c) checks) (wc_ignored cfg)"
  let ?con = "filter (\<lambda>c. ob_check_id c \<notin> set ?ign) ?cur"
  let ?dflt = "wc_default_allow_skipped cfg"
  let ?req = "match_definitions re ?con (wc_required cfg) ?dflt"
  let ?opt = "match_definitions re ?con (wc_optional cfg) ?dflt"
  let ?un = "filter (\<lambda>c. ob_check_id c \<notin> set (matched_check_ids ?req ?opt)) ?con"
  let ?mis = "map (df_pattern \<circ> mr_definition) (filter (\<lambda>r. mr_matched_check_ids r = []) ?req)"
  let ?cs = "counted_checks re sha cfg checks"
  have cs: "set ?con = ?cs" by (rule considered_set)
  have "\<exists>ct1. cf_overall_state (classify_pr_checks re sha checks cfg ct) = fst (classify_state ?req ?opt ?un ?mis cfg ct1)"
    unfolding classify_pr_checks_def Let_def case_prod_beta PrCheckWaitClassification.simps by (rule exI) (rule refl)
  then obtain ct1 where e:
    "cf_overall_state (classify_pr_checks re sha checks cfg ct) = fst (classify_state ?req ?opt ?un ?mis cfg ct1)" ..
  have m: "?mis = [] \<longleftrightarrow> (\<forall>d \<in> set (wc_required cfg). \<exists>c \<in> ?cs. definition_matches re d c)"
    unfolding cs [symmetric] by (auto simp: filter_empty_conv match_definitions_results)
  have r: "(\<forall>r \<in> set ?req. mr_state r \<notin> {''failed'', ''pending'', ''unknown''}) \<longleftrightarrow>
      (\<forall>d \<in> set (wc_required cfg). \<forall>c \<in> ?cs. definition_matches re d c \<longrightarrow>
         classify_check c (skip_allowed cfg d) \<notin> {''failed'', ''pending'', ''unknown''})"
    unfolding cs [symmetric] match_definitions_results ball_simps(9) PrCheckMatchResult.simps aggregate_blocked skip_allowed_def
    by auto
  have o: "(\<forall>r \<in> set ?opt. mr_state r \<noteq> ''failed'') \<longleftrightarrow>
      (\<forall>d \<in> set (wc_optional cfg). \<forall>c \<in> ?cs. definition_matches re d c \<longrightarrow> classify_check c (skip_allowed cfg d) \<noteq> ''failed'')"
    unfolding cs [symmetric] match_definitions_results ball_simps(9) PrCheckMatchResult.simps aggregate_failed skip_allowed_def
    by auto
  have u: "set ?un = {c \<in> ?cs. \<forall>x \<in> ?cs. ob_check_id x = ob_check_id c \<longrightarrow>
      \<not> (\<exists>d \<in> set (wc_required cfg) \<union> set (wc_optional cfg). definition_matches re d x)}"
    unfolding set_filter [of _ ?con] matched_ids_set cs by (auto simp: image_iff)
  have q: "?req = [] \<longleftrightarrow> wc_required cfg = []" by (simp add: match_definitions_def)
  show ?thesis
    unfolding e classify_state_passed m r o u q policy_satisfied_def definition_passes_def Let_def mem_Collect_eq ball_conj_distrib
    by (auto 0 0)
qed


text \<open>Missing required checks, while nothing required has failed, only count.\<close>

definition required_missing :: "regexes \<Rightarrow> string \<Rightarrow> PrCheckWaitConfig \<Rightarrow> PrCheckObservation list \<Rightarrow> bool" where
  "required_missing re sha cfg checks \<longleftrightarrow>
     (\<exists>d \<in> set (wc_required cfg). \<forall>c \<in> counted_checks re sha cfg checks. \<not> definition_matches re d c) \<and>
     (\<forall>d \<in> set (wc_required cfg). \<forall>c \<in> counted_checks re sha cfg checks.
        definition_matches re d c \<longrightarrow> classify_check c (skip_allowed cfg d) \<noteq> ''failed'')"

lemma classify_state_missing:
  "\<not> list_ex (\<lambda>r. mr_state r = ''failed'') required \<Longrightarrow> missing \<noteq> [] \<Longrightarrow>
   classify_state required optional unmatched missing cfg ct = missing_state cfg ct"
  by (simp add: classify_state_def)

lemma missing_checks_count:
  assumes "required_missing re sha cfg checks"
  shows "ct_missing_attempts (cf_counters (classify_pr_checks re sha checks cfg ct)) = saturating_inc (ct_missing_attempts ct)"
    and "cf_overall_state (classify_pr_checks re sha checks cfg ct) =
      (if saturating_inc (ct_missing_attempts ct) \<le> wc_missing_retry_attempts cfg then OsPendingTimeout else OsFatal)"
proof -
  let ?cur = "filter (is_current sha) checks"
  let ?ign = "ignored_check_ids re ?cur (filter (\<lambda>c. \<not> is_current sha c) checks) (wc_ignored cfg)"
  let ?con = "filter (\<lambda>c. ob_check_id c \<notin> set ?ign) ?cur"
  let ?req = "match_definitions re ?con (wc_required cfg) (wc_default_allow_skipped cfg)"
  let ?mis = "map (df_pattern \<circ> mr_definition) (filter (\<lambda>r. mr_matched_check_ids r = []) ?req)"
  have cs: "set ?con = counted_checks re sha cfg checks" by (rule considered_set)
  obtain d where d: "d \<in> set (wc_required cfg)" "\<forall>c \<in> set ?con. \<not> definition_matches re d c"
    using assms unfolding required_missing_def cs [symmetric] by blast
  have "filter (definition_matches re d) ?con = []" using d(2) unfolding filter_empty_conv .
  then have "\<exists>r \<in> set ?req. mr_matched_check_ids r = []"
    unfolding match_definitions_results by (intro bexI [OF _ imageI [OF d(1)]]) (simp del: filter_filter)
  then have mis: "?mis \<noteq> []" by (simp add: filter_empty_conv del: filter_filter)
  have "mr_state r \<noteq> ''failed''" if r: "r \<in> set ?req" for r
  proof -
    obtain e where e: "e \<in> set (wc_required cfg)"
      "mr_state r = aggregate_match_state (filter (definition_matches re e) ?con) e (wc_default_allow_skipped cfg)"
      using r unfolding match_definitions_results by (elim imageE) (simp del: filter_filter)
    have "\<forall>c \<in> set ?con. definition_matches re e c \<longrightarrow> classify_check c (skip_allowed cfg e) \<noteq> ''failed''"
      using assms e(1) unfolding required_missing_def cs by blast
    then show ?thesis unfolding e(2) aggregate_failed set_filter [of "definition_matches re e"] skip_allowed_def by blast
  qed
  then have req: "\<not> list_ex (\<lambda>r. mr_state r = ''failed'') ?req" unfolding list_ex_iff by blast
  have state: "classify_state ?req opt un ?mis cfg c = missing_state cfg c" for opt un c
    by (rule classify_state_missing [OF req mis])
  show "ct_missing_attempts (cf_counters (classify_pr_checks re sha checks cfg ct)) = saturating_inc (ct_missing_attempts ct)"
    unfolding classify_pr_checks_def Let_def state case_prod_beta
    by (simp only: PrCheckWaitClassification.simps PrCheckWaitCounters.simps mis if_False) simp
  show "cf_overall_state (classify_pr_checks re sha checks cfg ct) =
      (if saturating_inc (ct_missing_attempts ct) \<le> wc_missing_retry_attempts cfg then OsPendingTimeout else OsFatal)"
    unfolding classify_pr_checks_def Let_def state case_prod_beta
    by (simp only: PrCheckWaitClassification.simps PrCheckWaitCounters.simps mis if_False missing_state_def) simp
qed

end
