(* ===== verification/Scope_Charter.thy ===== *)
theory Scope_Charter
  imports Workflow_Schema Canonical_Bytes "HOL-Library.List_Lexorder" "HOL-Library.Char_ord"
begin

text \<open>
  The task charter of scope control (\<^verbatim>\<open>components/software_change/scope_control/model.rs\<close>,
  \<^verbatim>\<open>config_validation.rs\<close>, the scope-control structs of \<^verbatim>\<open>workflow/schema.rs\<close>): the configured
  ceilings, the draft and its validation against them, and the canonical form with its digest. The
  JSON text the digest is taken of (serde) and the hash are parameters. Paths follow
  \<open>std::path::Path\<close> on Unix.
\<close>

section \<open>Paths\<close>

datatype path_component = RootDir | CurDir | ParentDir | Normal string

fun segment_component :: "string \<Rightarrow> path_component list" where
  "segment_component s = (if s = [] \<or> s = ''.'' then [] else if s = ''..'' then [ParentDir] else [Normal s])"

text \<open>\<open>Path::components\<close>: repeated separators and inner dots vanish, a leading dot stays.\<close>

definition components_of_path :: "string \<Rightarrow> path_component list" where
  "components_of_path p =
     (let segs = split_char CHR 0x2F p
      in (if starts_with ''/'' p then [RootDir] else if hd segs = ''.'' then [CurDir] else []) @
         concat (map segment_component segs))"

definition path_starts_with :: "string \<Rightarrow> string \<Rightarrow> bool" where
  "path_starts_with p base \<longleftrightarrow>
     take (length (components_of_path base)) (components_of_path p) = components_of_path base"

definition unsafe_components :: "string \<Rightarrow> bool" where
  "unsafe_components p \<longleftrightarrow> list_ex (\<lambda>c. c = ParentDir \<or> c = RootDir) (components_of_path p)"

text \<open>\<open>strip_suffix\<close>, \<open>strip_prefix\<close>.\<close>

definition strip_suffix :: "string \<Rightarrow> string \<Rightarrow> string option" where
  "strip_suffix suf s = (if starts_with (rev suf) (rev s) then Some (rev (drop (length suf) (rev s))) else None)"

definition strip_prefix :: "string \<Rightarrow> string \<Rightarrow> string option" where
  "strip_prefix pre s = (if starts_with pre s then Some (drop (length pre) s) else None)"

text \<open>Collecting into a \<open>BTreeSet\<close> and a \<open>BTreeMap\<close>: sorted, the last value of a key wins.\<close>

definition btree_set :: "string list \<Rightarrow> string list" where
  "btree_set xs = sort (remdups xs)"

definition btree_map :: "(string \<times> 'v) list \<Rightarrow> (string \<times> 'v) list" where
  "btree_map kvs = map (\<lambda>k. (k, the (map_of (rev kvs) k))) (btree_set (map fst kvs))"

section \<open>Configuration\<close>

record ScopeBudgetConfig =
  sb_max_files_changed :: u32
  sb_max_added_lines :: u32
  sb_max_new_modules :: u32
  sb_max_dependencies_added :: u32
  sb_max_public_apis_added :: u32

record ScopeReviewCapsConfig =
  sv_initial_full_reviews :: u32
  sv_max_delta_reviews :: u32
  sv_final_acceptance_reviews :: u32
  sv_max_mutating_remediation_rounds :: u32

record ScopeSubsystemConfig =
  su_id :: string
  su_paths :: "string list"

record ScopeDependencyManifestConfig =
  dm_path :: string
  dm_sections :: "string list"

record ScopeMeasurementConfig =
  sm_source_extensions :: "string list"
  sm_public_api_regexes :: "string list"
  sm_disable_rename_inference :: bool
  sm_enumerate_untracked :: bool

record ScopeControlConfig =
  sx_enabled :: bool
  sx_budget :: ScopeBudgetConfig
  sx_review_caps :: ScopeReviewCapsConfig
  sx_subsystems :: "ScopeSubsystemConfig list"
  sx_dependency_manifests :: "ScopeDependencyManifestConfig list"
  sx_mandatory_command_groups :: "string list"
  sx_partial_compile_command :: "string option"
  sx_partial_compile_group :: "string option"
  sx_measurement :: ScopeMeasurementConfig
  sx_mandatory_gates :: "string list"

section \<open>Draft and canonical charter\<close>

record DraftSubsystem =
  dr_id :: string
  dr_paths :: "string list"

record DraftBudget =
  du_max_files_changed :: u32
  du_max_added_lines :: u32
  du_max_new_modules :: u32
  du_max_dependencies_added :: u32
  du_max_public_apis_added :: u32

record DraftReviewCaps =
  dv_initial_full_reviews :: u32
  dv_max_delta_reviews :: u32
  dv_final_acceptance_reviews :: u32
  dv_max_mutating_remediation_rounds :: u32

record TaskCharterDraft =
  dt_charter_id :: string
  dt_issue_number :: u64
  dt_run_id :: string
  dt_merge_base :: string
  dt_acceptance_criteria :: "string list"
  dt_non_goals :: "string list"
  dt_subsystems :: "DraftSubsystem list"
  dt_budget :: DraftBudget
  dt_review_caps :: DraftReviewCaps
  dt_mandatory_gates :: "string list"

record CanonicalBudget =
  cu_max_files_changed :: u32
  cu_max_added_lines :: u32
  cu_max_new_modules :: u32
  cu_max_dependencies_added :: u32
  cu_max_public_apis_added :: u32

record CanonicalReviewCaps =
  cr_initial_full_reviews :: u32
  cr_max_delta_reviews :: u32
  cr_final_acceptance_reviews :: u32
  cr_max_mutating_remediation_rounds :: u32

record CanonicalTaskCharter =
  tc_schema_version :: u32
  tc_charter_id :: string
  tc_issue_number :: u64
  tc_run_id :: string
  tc_merge_base :: string
  tc_acceptance_criteria :: "string list"
  tc_non_goals :: "string list"
  tc_subsystems :: "(string \<times> string list) list"
  tc_budget :: CanonicalBudget
  tc_review_caps :: CanonicalReviewCaps
  tc_mandatory_gates :: "string list"
  tc_digest :: string

definition CHARTER_SCHEMA_VERSION :: u32 where "CHARTER_SCHEMA_VERSION = 1"

fun strip_repeated :: "bool \<Rightarrow> string \<Rightarrow> string" where
  "strip_repeated prev_was_slash [] = []"
| "strip_repeated prev_was_slash (c # cs) =
     (if c = CHR 0x2F then (if prev_was_slash then strip_repeated True cs else c # strip_repeated True cs)
      else c # strip_repeated False cs)"

definition strip_repeated_slashes :: "string \<Rightarrow> string" where
  "strip_repeated_slashes s = strip_repeated False s"

definition normalize_path_prefix :: "string \<Rightarrow> string" where
  "normalize_path_prefix path =
     (let forward = map (\<lambda>c. if c = CHR 0x5C then CHR 0x2F else c) path;
          stripped = (case strip_prefix ''./'' forward of Some s \<Rightarrow> s | None \<Rightarrow> forward);
          collapsed = strip_repeated_slashes stripped
      in rev (dropWhile (\<lambda>c. c = CHR 0x2F) (rev collapsed)))"

definition compute_digest :: "hash \<Rightarrow> (CanonicalTaskCharter \<Rightarrow> byte list) \<Rightarrow> CanonicalTaskCharter \<Rightarrow> string" where
  "compute_digest sha256 charter_json c = sha256_hex sha256 (charter_json (c\<lparr>tc_digest := []\<rparr>))"

definition canonical_subsystems :: "DraftSubsystem list \<Rightarrow> (string \<times> string list) list" where
  "canonical_subsystems subs =
     btree_map (map (\<lambda>s. (dr_id s, btree_set (map normalize_path_prefix (dr_paths s)))) subs)"

definition normalize_charter ::
  "hash \<Rightarrow> (CanonicalTaskCharter \<Rightarrow> byte list) \<Rightarrow> TaskCharterDraft \<Rightarrow> CanonicalTaskCharter" where
  "normalize_charter sha256 charter_json d =
     (let canonical = \<lparr>tc_schema_version = CHARTER_SCHEMA_VERSION, tc_charter_id = dt_charter_id d,
            tc_issue_number = dt_issue_number d, tc_run_id = dt_run_id d, tc_merge_base = dt_merge_base d,
            tc_acceptance_criteria = btree_set (dt_acceptance_criteria d),
            tc_non_goals = btree_set (dt_non_goals d),
            tc_subsystems = canonical_subsystems (dt_subsystems d),
            tc_budget = \<lparr>cu_max_files_changed = du_max_files_changed (dt_budget d),
              cu_max_added_lines = du_max_added_lines (dt_budget d),
              cu_max_new_modules = du_max_new_modules (dt_budget d),
              cu_max_dependencies_added = du_max_dependencies_added (dt_budget d),
              cu_max_public_apis_added = du_max_public_apis_added (dt_budget d)\<rparr>,
            tc_review_caps = \<lparr>cr_initial_full_reviews = dv_initial_full_reviews (dt_review_caps d),
              cr_max_delta_reviews = dv_max_delta_reviews (dt_review_caps d),
              cr_final_acceptance_reviews = dv_final_acceptance_reviews (dt_review_caps d),
              cr_max_mutating_remediation_rounds = dv_max_mutating_remediation_rounds (dt_review_caps d)\<rparr>,
            tc_mandatory_gates = btree_set (dt_mandatory_gates d), tc_digest = []\<rparr>
      in canonical\<lparr>tc_digest := compute_digest sha256 charter_json canonical\<rparr>)"

section \<open>Validation of a draft\<close>

text \<open>A sequence of checks, each returning early with its message.\<close>

fun first_failure :: "(bool \<times> string) list \<Rightarrow> (unit, string) result" where
  "first_failure [] = Ok ()"
| "first_failure ((bad, message) # rest) = (if bad then Err message else first_failure rest)"

lemma first_failure_Ok: "first_failure cs = Ok () \<longleftrightarrow> (\<forall>(bad, _) \<in> set cs. \<not> bad)"
  by (induction cs rule: first_failure.induct) auto

definition validate_draft_required_fields :: "TaskCharterDraft \<Rightarrow> (unit, string) result" where
  "validate_draft_required_fields d = first_failure
     [(dt_charter_id d = [], ''charter_id must not be empty''),
      (dt_run_id d = [], ''run_id must not be empty''),
      (dt_merge_base d = [], ''merge_base must not be empty''),
      (dt_issue_number d = 0, ''issue_number must be positive''),
      (dt_acceptance_criteria d = [], ''acceptance_criteria must not be empty''),
      (dt_non_goals d = [], ''non_goals must not be empty''),
      (dt_subsystems d = [], ''subsystems must not be empty''),
      (dt_mandatory_gates d = [], ''mandatory_gates must not be empty'')]"

definition validate_draft_budgets_positive :: "TaskCharterDraft \<Rightarrow> (unit, string) result" where
  "validate_draft_budgets_positive d = first_failure
     [(du_max_files_changed (dt_budget d) = 0, ''charter budget max_files_changed must be positive''),
      (du_max_added_lines (dt_budget d) = 0, ''charter budget max_added_lines must be positive''),
      (du_max_new_modules (dt_budget d) = 0, ''charter budget max_new_modules must be positive''),
      (du_max_public_apis_added (dt_budget d) = 0, ''charter budget max_public_apis_added must be positive''),
      (dv_initial_full_reviews (dt_review_caps d) = 0,
         ''charter review_caps initial_full_reviews must be positive''),
      (dv_max_delta_reviews (dt_review_caps d) = 0, ''charter review_caps max_delta_reviews must be positive''),
      (dv_final_acceptance_reviews (dt_review_caps d) = 0,
         ''charter review_caps final_acceptance_reviews must be positive''),
      (dv_max_mutating_remediation_rounds (dt_review_caps d) = 0,
         ''charter review_caps max_mutating_remediation_rounds must be positive'')]"

definition ceiling_check :: "string \<Rightarrow> u32 \<Rightarrow> u32 \<Rightarrow> bool \<times> string" where
  "ceiling_check name actual limit =
     (actual > limit, ''charter budget '' @ name @ '' ('' @ nat_to_string (unat actual) @
        '') exceeds configured ceiling ('' @ nat_to_string (unat limit) @ '')'')"

definition validate_budget_ceiling :: "DraftBudget \<Rightarrow> ScopeBudgetConfig \<Rightarrow> (unit, string) result" where
  "validate_budget_ceiling d c = first_failure
     [ceiling_check ''max_files_changed'' (du_max_files_changed d) (sb_max_files_changed c),
      ceiling_check ''max_added_lines'' (du_max_added_lines d) (sb_max_added_lines c),
      ceiling_check ''max_new_modules'' (du_max_new_modules d) (sb_max_new_modules c),
      ceiling_check ''max_dependencies_added'' (du_max_dependencies_added d) (sb_max_dependencies_added c),
      ceiling_check ''max_public_apis_added'' (du_max_public_apis_added d) (sb_max_public_apis_added c)]"

definition is_path_within :: "string \<Rightarrow> string \<Rightarrow> bool" where
  "is_path_within path base \<longleftrightarrow> path = base \<or> path_starts_with path base"

fun check_draft_paths :: "string \<Rightarrow> string list \<Rightarrow> string list \<Rightarrow> (unit, string) result" where
  "check_draft_paths sub prefixes [] = Ok ()"
| "check_draft_paths sub prefixes (path # paths) =
     (if \<not> list_ex (is_path_within (normalize_path_prefix path)) prefixes
      then Err (''charter subsystem '' @ quoted sub @ '' path '' @ quoted path @
             '' is not within configured prefixes'')
      else check_draft_paths sub prefixes paths)"

fun check_draft_subsystems ::
  "(string \<times> ScopeSubsystemConfig) list \<Rightarrow> string list \<Rightarrow> DraftSubsystem list \<Rightarrow> (unit, string) result" where
  "check_draft_subsystems config_map seen [] = Ok ()"
| "check_draft_subsystems config_map seen (s # subs) =
     (if dr_id s \<in> set seen then Err (''duplicate charter subsystem id '' @ quoted (dr_id s))
      else if list_ex unsafe_components (dr_paths s)
      then Err (''charter subsystem '' @ quoted (dr_id s) @ '' has unsafe path'')
      else
       (case map_of config_map (dr_id s) of
          None \<Rightarrow> Err (''charter subsystem '' @ quoted (dr_id s) @ '' is not in configured subsystems'')
        | Some c \<Rightarrow>
            (case check_draft_paths (dr_id s) (map normalize_path_prefix (su_paths c)) (dr_paths s) of
               Err e \<Rightarrow> Err e
             | Ok _ \<Rightarrow> check_draft_subsystems config_map (dr_id s # seen) subs)))"

definition validate_draft_subsystems ::
  "DraftSubsystem list \<Rightarrow> ScopeSubsystemConfig list \<Rightarrow> (unit, string) result" where
  "validate_draft_subsystems subs config_subs =
     check_draft_subsystems (btree_map (map (\<lambda>c. (su_id c, c)) config_subs)) [] subs"

definition validate_draft_against_config :: "TaskCharterDraft \<Rightarrow> ScopeControlConfig \<Rightarrow> (unit, string) result" where
  "validate_draft_against_config d config =
     (case validate_draft_required_fields d of
        Err e \<Rightarrow> Err e
      | Ok _ \<Rightarrow>
          (case validate_draft_budgets_positive d of
             Err e \<Rightarrow> Err e
           | Ok _ \<Rightarrow>
               (case validate_budget_ceiling (dt_budget d) (sx_budget config) of
                  Err e \<Rightarrow> Err e
                | Ok _ \<Rightarrow> validate_draft_subsystems (dt_subsystems d) (sx_subsystems config))))"

section \<open>Validation of the configuration\<close>

text \<open>
  Of the command manifest the validation reads the group names and command identifiers; whether a
  pattern compiles is a parameter. Every check adds its messages to the list.
\<close>

record ManifestNames =
  mn_groups :: "string list"
  mn_commands :: "string list"

definition report :: "bool \<Rightarrow> string \<Rightarrow> string list" where
  "report bad message = (if bad then [message] else [])"

definition config_budget_errors :: "ScopeControlConfig \<Rightarrow> string list" where
  "config_budget_errors sc =
     report (sb_max_files_changed (sx_budget sc) = 0) ''budget.max_files_changed must be positive'' @
     report (sb_max_added_lines (sx_budget sc) = 0) ''budget.max_added_lines must be positive'' @
     report (sb_max_new_modules (sx_budget sc) = 0) ''budget.max_new_modules must be positive'' @
     report (sb_max_public_apis_added (sx_budget sc) = 0) ''budget.max_public_apis_added must be positive''"

definition config_review_cap_errors :: "ScopeControlConfig \<Rightarrow> string list" where
  "config_review_cap_errors sc =
     report (sv_initial_full_reviews (sx_review_caps sc) \<noteq> 1)
       ''review_caps.initial_full_reviews must be exactly 1'' @
     report (sv_max_delta_reviews (sx_review_caps sc) = 0) ''review_caps.max_delta_reviews must be positive'' @
     report (sv_final_acceptance_reviews (sx_review_caps sc) \<noteq> 1)
       ''review_caps.final_acceptance_reviews must be exactly 1'' @
     report (sv_max_mutating_remediation_rounds (sx_review_caps sc) = 0)
       ''review_caps.max_mutating_remediation_rounds must be positive''"

definition validate_repo_relative_path :: "string \<Rightarrow> (unit, string) result" where
  "validate_repo_relative_path value =
     (if value = [] then Err ''must not be empty''
      else if unsafe_components value then Err ''must be a relative path under the repository root''
      else Ok ())"

definition path_error :: "string \<Rightarrow> string \<Rightarrow> string list" where
  "path_error subject path =
     (case validate_repo_relative_path path of Err msg \<Rightarrow> [subject @ quoted path @ '': '' @ msg] | Ok _ \<Rightarrow> [])"

fun subsystem_path_errors :: "string \<Rightarrow> string list \<Rightarrow> string list \<Rightarrow> string list" where
  "subsystem_path_errors sub seen [] = []"
| "subsystem_path_errors sub seen (path # paths) =
     path_error (''subsystem '' @ quoted sub @ '' path '') path @
     report (path \<in> set seen) (''subsystem '' @ quoted sub @ '' has duplicate path '' @ quoted path) @
     subsystem_path_errors sub (path # seen) paths"

fun subsystem_errors :: "string list \<Rightarrow> ScopeSubsystemConfig list \<Rightarrow> string list" where
  "subsystem_errors seen [] = []"
| "subsystem_errors seen (s # subs) =
     (if su_id s = [] then ''subsystem id must not be empty'' # subsystem_errors seen subs
      else report (su_id s \<in> set seen) (''duplicate subsystem id '' @ quoted (su_id s)) @
           report (su_paths s = []) (''subsystem '' @ quoted (su_id s) @ '' must declare at least one path'') @
           subsystem_path_errors (su_id s) [] (su_paths s) @
           subsystem_errors (su_id s # seen) subs)"

definition config_subsystem_errors :: "ScopeControlConfig \<Rightarrow> string list" where
  "config_subsystem_errors sc =
     report (sx_subsystems sc = []) ''subsystems must not be empty'' @ subsystem_errors [] (sx_subsystems sc)"

fun section_errors :: "string \<Rightarrow> string list \<Rightarrow> string list \<Rightarrow> string list" where
  "section_errors manifest seen [] = []"
| "section_errors manifest seen (sec # secs) =
     report (sec = []) (''dependency manifest '' @ quoted manifest @ '' sections must not be empty'') @
     report (sec \<in> set seen) (''dependency manifest '' @ quoted manifest @ '' has duplicate section '' @ quoted sec) @
     section_errors manifest (sec # seen) secs"

fun manifest_errors :: "string list \<Rightarrow> ScopeDependencyManifestConfig list \<Rightarrow> string list" where
  "manifest_errors seen [] = []"
| "manifest_errors seen (m # ms) =
     path_error ''dependency manifest path '' (dm_path m) @
     report (dm_path m \<in> set seen) (''duplicate dependency manifest path '' @ quoted (dm_path m)) @
     section_errors (dm_path m) [] (dm_sections m) @
     manifest_errors (dm_path m # seen) ms"

definition config_measurement_errors :: "(string \<Rightarrow> bool) \<Rightarrow> ScopeControlConfig \<Rightarrow> string list" where
  "config_measurement_errors regex_ok sc =
     (let m = sx_measurement sc
      in (if sm_source_extensions m = [] then [''measurement.source_extensions must not be empty'']
          else report ([] \<in> set (sm_source_extensions m))
                 ''measurement.source_extensions must not contain empty entries'') @
         concat (map (\<lambda>p. report (\<not> regex_ok p)
                            (''measurement.public_api_regexes contains invalid regex '' @ quoted p))
                     (sm_public_api_regexes m)) @
         report (\<not> sm_disable_rename_inference m)
           ''measurement.disable_rename_inference must be true for deterministic measurement'' @
         report (\<not> sm_enumerate_untracked m)
           ''measurement.enumerate_untracked must be true for deterministic measurement'')"

definition config_manifest_reference_errors :: "ManifestNames option \<Rightarrow> ScopeControlConfig \<Rightarrow> string list" where
  "config_manifest_reference_errors command_manifest sc =
     (if sx_mandatory_command_groups sc = [] \<and> sx_partial_compile_command sc = None \<and>
         sx_partial_compile_group sc = None
      then []
      else
       (case command_manifest of
          None \<Rightarrow>
            report (sx_mandatory_command_groups sc \<noteq> [])
              ''scope_control mandatory_command_groups require a command_manifest'' @
            report (sx_partial_compile_group sc \<noteq> None)
              ''scope_control partial_compile_group requires a command_manifest'' @
            report (sx_partial_compile_command sc \<noteq> None)
              ''scope_control partial_compile_command requires a command_manifest''
        | Some m \<Rightarrow>
            concat (map (\<lambda>g. report (g \<notin> set (mn_groups m))
                (''scope_control mandatory_command_group '' @ quoted g @ '' is not a known manifest group''))
              (sx_mandatory_command_groups sc)) @
            (case sx_partial_compile_command sc of
               Some c \<Rightarrow> report (c \<notin> set (mn_commands m))
                 (''scope_control partial_compile_command '' @ quoted c @ '' is not a known manifest command'')
             | None \<Rightarrow> []) @
            (case sx_partial_compile_group sc of
               Some g \<Rightarrow> report (g \<notin> set (mn_groups m))
                 (''scope_control partial_compile_group '' @ quoted g @ '' is not a known manifest group'')
             | None \<Rightarrow> [])))"

fun gate_errors :: "string list \<Rightarrow> string list \<Rightarrow> string list" where
  "gate_errors seen [] = []"
| "gate_errors seen (g # gs) =
     report (g = []) ''scope_control mandatory_gates must not contain empty entries'' @
     report (g \<in> set seen) (''scope_control mandatory_gates must not contain duplicate '' @ quoted g) @
     gate_errors (g # seen) gs"

definition config_gate_errors :: "ScopeControlConfig \<Rightarrow> string list" where
  "config_gate_errors sc =
     report (sx_mandatory_gates sc = [])
       ''scope_control mandatory_gates must not be empty when scope control is enabled'' @
     gate_errors [] (sx_mandatory_gates sc)"

fun join :: "string \<Rightarrow> string list \<Rightarrow> string" where
  "join sep [] = []"
| "join sep [x] = x"
| "join sep (x # y # zs) = x @ sep @ join sep (y # zs)"

text \<open>The scope-control section of the target profile, if the configuration has a profile.\<close>

definition validate_scope_control ::
  "(string \<Rightarrow> bool) \<Rightarrow> ManifestNames option \<Rightarrow> ScopeControlConfig option \<Rightarrow> (unit, string) result" where
  "validate_scope_control regex_ok command_manifest profile =
     (case profile of
        None \<Rightarrow> Ok ()
      | Some sc \<Rightarrow>
          (if \<not> sx_enabled sc then Ok ()
           else
            (let errors = config_budget_errors sc @ config_review_cap_errors sc @ config_subsystem_errors sc @
                   manifest_errors [] (sx_dependency_manifests sc) @ config_measurement_errors regex_ok sc @
                   config_manifest_reference_errors command_manifest sc @ config_gate_errors sc
             in if errors = [] then Ok ()
                else Err (''invalid scope_control config: '' @ join ''; '' errors))))"

definition active_scope_control :: "ScopeControlConfig \<Rightarrow> ScopeControlConfig option" where
  "active_scope_control sc = (if sx_enabled sc then Some sc else None)"

end
