(* ===== verification/Scope_Measurement.thy ===== *)
theory Scope_Measurement
  imports Scope_Charter
begin

text \<open>
  Measuring a patch against a charter (\<^verbatim>\<open>scope_control/measurement.rs\<close>,
  \<^verbatim>\<open>measurement_control_files.rs\<close>, \<^verbatim>\<open>measurement_dependency_diffs.rs\<close>) and evaluating the
  measurement (\<^verbatim>\<open>evaluation.rs\<close>). The \<^verbatim>\<open>git\<close> process, the files of the worktree, UTF-8
  validity, regular expressions, the TOML decoder and the ownership verdict are parameters.
\<close>

section \<open>Numbers and lines of text\<close>

text \<open>\<open>str::parse\<close> for an unsigned type: the first bad character or overflow is reported.\<close>

fun parse_digits :: "int \<Rightarrow> int \<Rightarrow> string \<Rightarrow> (int, string) result" where
  "parse_digits limit acc [] = Ok acc"
| "parse_digits limit acc (c # cs) =
     (if \<not> is_digit c then Err ''invalid digit found in string''
      else let v = acc * 10 + (of_char c - 48)
           in if v > limit then Err ''number too large to fit in target type'' else parse_digits limit v cs)"

definition parse_unsigned :: "int \<Rightarrow> string \<Rightarrow> (int, string) result" where
  "parse_unsigned limit s =
     (if s = [] then Err ''cannot parse integer from empty string''
      else if s = ''+'' \<or> s = ''-'' then Err ''invalid digit found in string''
      else parse_digits limit 0 (if hd s = CHR 0x2B then tl s else s))"

definition U32_MAX :: int where "U32_MAX = 4294967295"

text \<open>\<open>u32::try_from(n).unwrap_or(u32::MAX)\<close>, \<open>u32::saturating_add\<close>.\<close>

definition u32_clamp :: "nat \<Rightarrow> u32" where
  "u32_clamp n = word_of_int (min (int n) U32_MAX)"

definition u32_saturating_add :: "u32 \<Rightarrow> u32 \<Rightarrow> u32" where
  "u32_saturating_add a b = u32_clamp (unat a + unat b)"

text \<open>\<open>str::lines\<close>: a final line end opens no line, a carriage return before it is dropped.\<close>

definition strip_cr :: "string \<Rightarrow> string" where
  "strip_cr l = (if l \<noteq> [] \<and> last l = CHR 0x0D then butlast l else l)"

definition str_lines :: "string \<Rightarrow> string list" where
  "str_lines s =
     (let parts = split_char CHR 0x0A s
      in map strip_cr (butlast parts) @ (if last parts = [] then [] else [last parts]))"

section \<open>Changes\<close>

datatype ChangeStatus = ChAdded | ChModified | ChDeleted | ChUntracked

fun status_debug :: "ChangeStatus \<Rightarrow> string" where
  "status_debug ChAdded = ''Added''"
| "status_debug ChModified = ''Modified''"
| "status_debug ChDeleted = ''Deleted''"
| "status_debug ChUntracked = ''Untracked''"

datatype MeasurementError =
    GitFailure string string
  | HeadResolution string
  | ParseFailure string
  | ControlMetadata string

fun measurement_error_to_string :: "MeasurementError \<Rightarrow> string" where
  "measurement_error_to_string (GitFailure command message) =
     ''git command '' @ quoted command @ '' failed: '' @ message"
| "measurement_error_to_string (HeadResolution msg) = ''failed to resolve HEAD: '' @ msg"
| "measurement_error_to_string (ParseFailure msg) = ''failed to parse git output: '' @ msg"
| "measurement_error_to_string (ControlMetadata msg) = ''invalid workspace control metadata: '' @ msg"

definition status_from_letter :: "string \<Rightarrow> (ChangeStatus, MeasurementError) result" where
  "status_from_letter letter =
     (if letter = ''A'' then Ok ChAdded
      else if letter = ''M'' then Ok ChModified
      else if letter = ''D'' then Ok ChDeleted
      else if letter = ''T'' then Ok ChModified
      else Err (ParseFailure (''unknown status letter '' @ quoted letter)))"

definition is_new_file :: "ChangeStatus \<Rightarrow> bool" where
  "is_new_file s \<longleftrightarrow> s = ChAdded \<or> s = ChUntracked"

record FileChange =
  fh_path :: string
  fh_status :: ChangeStatus
  fh_added_lines :: "u32 option"
  fh_deleted_lines :: "u32 option"
  fh_is_binary :: bool

record GitPatchData =
  gp_head_sha :: string
  gp_divergence :: u32
  gp_tracked_changes :: "FileChange list"
  gp_untracked_files :: "string list"

text \<open>A finished process: its exit code if it has one, standard output and standard error.\<close>

record GitOutput =
  go_code :: "int option"
  go_stdout :: "byte list"
  go_stderr :: "byte list"

datatype read_error = NotFound string | ReadFailure string

text \<open>
  The working directory and the tools around it: \<open>git\<close> on an argument list, the bytes of a file
  below the working directory, the text of a UTF-8 error if the bytes are not UTF-8, the lossy
  decoding, regular expressions (compile error, match), TOML (tables are objects, in key order) and
  the reason why the workspace is not owned by a run, if it is not.
\<close>

record MeasureEnv =
  me_git :: "string list \<Rightarrow> (GitOutput, string) result"
  me_read :: "string \<Rightarrow> (byte list, read_error) result"
  me_utf8_error :: "byte list \<Rightarrow> string option"
  me_lossy :: "byte list \<Rightarrow> string"
  me_regex_error :: "string \<Rightarrow> string option"
  me_matches :: "string \<Rightarrow> string \<Rightarrow> bool"
  me_toml :: "string \<Rightarrow> (json, string) result"
  me_ownership :: "string \<Rightarrow> string option"
  me_sha256 :: hash

definition from_utf8 :: "MeasureEnv \<Rightarrow> byte list \<Rightarrow> (string, string) result" where
  "from_utf8 env bs = (case me_utf8_error env bs of Some e \<Rightarrow> Err e | None \<Rightarrow> Ok (text_of_bytes bs))"

definition go_success :: "GitOutput \<Rightarrow> bool" where
  "go_success out \<longleftrightarrow> go_code out = Some 0"

definition exit_message :: "MeasureEnv \<Rightarrow> GitOutput \<Rightarrow> string" where
  "exit_message env out =
     ''exit '' @ int_to_string (case go_code out of Some c \<Rightarrow> c | None \<Rightarrow> -1) @ '': '' @
     trim (me_lossy env (go_stderr out))"

text \<open>A command that has to succeed, with the name its errors give it.\<close>

definition run_git :: "MeasureEnv \<Rightarrow> string \<Rightarrow> string list \<Rightarrow> (byte list, MeasurementError) result" where
  "run_git env name args =
     (case me_git env args of
        Err e \<Rightarrow> Err (GitFailure name (''failed to invoke git: '' @ e))
      | Ok out \<Rightarrow>
          (if \<not> go_success out then Err (GitFailure name (exit_message env out)) else Ok (go_stdout out)))"

section \<open>Collecting\<close>

definition resolve_head_sha :: "MeasureEnv \<Rightarrow> (string, MeasurementError) result" where
  "resolve_head_sha env =
     (case me_git env [''rev-parse'', ''HEAD''] of
        Err e \<Rightarrow> Err (GitFailure ''rev-parse'' (''failed to invoke git: '' @ e))
      | Ok out \<Rightarrow>
          (if \<not> go_success out then Err (HeadResolution (trim (me_lossy env (go_stderr out))))
           else let sha = trim (me_lossy env (go_stdout out))
                in if sha = [] then Err (HeadResolution ''git rev-parse returned empty output'') else Ok sha))"

definition resolve_divergence :: "MeasureEnv \<Rightarrow> string \<Rightarrow> string \<Rightarrow> (u32, MeasurementError) result" where
  "resolve_divergence env merge_base head_sha =
     (if merge_base = head_sha then Ok 0
      else
       (case run_git env ''rev-list --count'' [''rev-list'', ''--count'', merge_base @ ''..'' @ head_sha] of
          Err e \<Rightarrow> Err e
        | Ok out \<Rightarrow>
            (case from_utf8 env out of
               Err e \<Rightarrow> Err (ParseFailure (''non-UTF-8 rev-list output: '' @ e))
             | Ok text \<Rightarrow>
                 (let count = trim text
                  in case parse_unsigned 18446744073709551615 count of
                       Err e \<Rightarrow> Err (ParseFailure (''invalid rev-list count '' @ quoted count @ '': '' @ e))
                     | Ok n \<Rightarrow> Ok (u32_clamp (nat n))))))"

fun split_bytes :: "byte list \<Rightarrow> byte list list" where
  "split_bytes [] = [[]]"
| "split_bytes (b # bs) =
     (if b = 0 then [] # split_bytes bs
      else (case split_bytes bs of p # ps \<Rightarrow> (b # p) # ps | [] \<Rightarrow> [[b]]))"

definition split_z :: "byte list \<Rightarrow> byte list list" where
  "split_z data = filter (\<lambda>seg. seg \<noteq> []) (split_bytes data)"

fun decode_pairs :: "MeasureEnv \<Rightarrow> byte list list \<Rightarrow> ((string \<times> string) list, MeasurementError) result" where
  "decode_pairs env (s # p # rest) =
     (case from_utf8 env s of
        Err e \<Rightarrow> Err (ParseFailure (''non-UTF-8 status letter in name-status: '' @ e))
      | Ok status \<Rightarrow>
          (case from_utf8 env p of
             Err e \<Rightarrow> Err (ParseFailure (''non-UTF-8 path in name-status: '' @ e))
           | Ok path \<Rightarrow> map_ok (\<lambda>ps. (status, path) # ps) (decode_pairs env rest)))"
| "decode_pairs env _ = Ok []"

definition parse_name_status_z :: "MeasureEnv \<Rightarrow> byte list \<Rightarrow> ((string \<times> string) list, MeasurementError) result" where
  "parse_name_status_z env data =
     (let segments = split_z data
      in if odd (length segments)
         then Err (ParseFailure (''name-status -z output has odd number of NUL segments ('' @
                nat_to_string (length segments) @ ''); expected status+path pairs''))
         else decode_pairs env segments)"

datatype NumstatCount = Lines u32 | Binary

record NumstatEntry =
  ne_added :: NumstatCount
  ne_deleted :: NumstatCount
  ne_path :: string

definition parse_numstat_count :: "string \<Rightarrow> (NumstatCount, MeasurementError) result" where
  "parse_numstat_count value =
     (if value = ''-'' then Ok Binary
      else case parse_unsigned U32_MAX value of
             Err e \<Rightarrow> Err (ParseFailure (''invalid numstat count '' @ quoted value @ '': '' @ e))
           | Ok n \<Rightarrow> Ok (Lines (word_of_int n)))"

definition parse_single_numstat :: "string \<Rightarrow> (NumstatEntry, MeasurementError) result" where
  "parse_single_numstat line =
     (case split_once CHR 0x09 line of
        None \<Rightarrow> Err (ParseFailure (''numstat line missing deleted field: '' @ quoted line))
      | Some (added, rest) \<Rightarrow>
          (case split_once CHR 0x09 rest of
             None \<Rightarrow> Err (ParseFailure (''numstat line missing path field: '' @ quoted line))
           | Some (deleted, path) \<Rightarrow>
               (case parse_numstat_count added of
                  Err e \<Rightarrow> Err e
                | Ok a \<Rightarrow>
                    (case parse_numstat_count deleted of
                       Err e \<Rightarrow> Err e
                     | Ok d \<Rightarrow> Ok \<lparr>ne_added = a, ne_deleted = d, ne_path = path\<rparr>))))"

fun parse_numstat_segments :: "MeasureEnv \<Rightarrow> byte list list \<Rightarrow> (NumstatEntry list, MeasurementError) result" where
  "parse_numstat_segments env [] = Ok []"
| "parse_numstat_segments env (seg # segs) =
     (case from_utf8 env seg of
        Err e \<Rightarrow> Err (ParseFailure (''non-UTF-8 numstat entry: '' @ e))
      | Ok line \<Rightarrow>
          (case parse_single_numstat line of
             Err e \<Rightarrow> Err e
           | Ok entry \<Rightarrow> map_ok (\<lambda>es. entry # es) (parse_numstat_segments env segs)))"

definition parse_numstat_z :: "MeasureEnv \<Rightarrow> byte list \<Rightarrow> (NumstatEntry list, MeasurementError) result" where
  "parse_numstat_z env data = parse_numstat_segments env (split_z data)"

definition lines_or_zero :: "NumstatCount \<Rightarrow> u32" where
  "lines_or_zero c = (case c of Lines n \<Rightarrow> n | Binary \<Rightarrow> 0)"

definition merged_change :: "ChangeStatus \<Rightarrow> string \<Rightarrow> NumstatEntry \<Rightarrow> FileChange" where
  "merged_change status path e =
     (let is_binary = (ne_added e = Binary \<or> ne_deleted e = Binary)
      in \<lparr>fh_path = path, fh_status = status,
          fh_added_lines = (if is_binary then None else Some (lines_or_zero (ne_added e))),
          fh_deleted_lines = (if is_binary then None else Some (lines_or_zero (ne_deleted e))),
          fh_is_binary = is_binary\<rparr>)"

fun merge_entries ::
  "nat \<Rightarrow> (string \<times> string) list \<Rightarrow> NumstatEntry list \<Rightarrow> (FileChange list, MeasurementError) result" where
  "merge_entries i ((letter, path) # statuses) (e # entries) =
     (if ne_path e \<noteq> path
      then Err (ParseFailure (''path mismatch at index '' @ nat_to_string i @ '': name-status='' @ quoted path @
             '' vs numstat='' @ quoted (ne_path e)))
      else
       (case status_from_letter letter of
          Err err \<Rightarrow> Err err
        | Ok status \<Rightarrow> map_ok (\<lambda>cs. merged_change status path e # cs) (merge_entries (i + 1) statuses entries)))"
| "merge_entries i _ _ = Ok []"

definition merge_status_and_numstat ::
  "(string \<times> string) list \<Rightarrow> NumstatEntry list \<Rightarrow> (FileChange list, MeasurementError) result" where
  "merge_status_and_numstat statuses numstats =
     (if length statuses \<noteq> length numstats
      then Err (ParseFailure (''name-status has '' @ nat_to_string (length statuses) @
             '' entries but numstat has '' @ nat_to_string (length numstats) @
             ''; Git should report the same paths in the same order''))
      else map_ok (sort_key fh_path) (merge_entries 0 statuses numstats))"

definition collect_tracked_changes ::
  "MeasureEnv \<Rightarrow> string \<Rightarrow> string \<Rightarrow> (FileChange list, MeasurementError) result" where
  "collect_tracked_changes env merge_base head_sha =
     (let diff_spec = (if merge_base = head_sha then ''HEAD'' else merge_base)
      in case run_git env (''diff '' @ diff_spec @ '' --numstat'')
                [''diff'', diff_spec, ''--numstat'', ''--no-renames'', ''-z''] of
           Err e \<Rightarrow> Err e
         | Ok numstat_output \<Rightarrow>
             (case run_git env (''diff '' @ diff_spec @ '' --name-status'')
                     [''diff'', diff_spec, ''--name-status'', ''--no-renames'', ''-z''] of
                Err e \<Rightarrow> Err e
              | Ok name_status_output \<Rightarrow>
                  (case parse_name_status_z env name_status_output of
                     Err e \<Rightarrow> Err e
                   | Ok statuses \<Rightarrow>
                       (case parse_numstat_z env numstat_output of
                          Err e \<Rightarrow> Err e
                        | Ok numstats \<Rightarrow> merge_status_and_numstat statuses numstats))))"

definition WORKSPACE_OWNER_MARKER :: string where
  "WORKSPACE_OWNER_MARKER = ''.luther/workspace-owner''"

fun decode_paths :: "MeasureEnv \<Rightarrow> byte list list \<Rightarrow> (string list, MeasurementError) result" where
  "decode_paths env [] = Ok []"
| "decode_paths env (seg # segs) =
     (case from_utf8 env seg of
        Err e \<Rightarrow> Err (ParseFailure (''non-UTF-8 path in ls-files output: '' @ e))
      | Ok path \<Rightarrow> map_ok (\<lambda>ps. path # ps) (decode_paths env segs))"

definition parse_z_paths :: "MeasureEnv \<Rightarrow> byte list \<Rightarrow> (string list, MeasurementError) result" where
  "parse_z_paths env data = decode_paths env (split_z data)"

definition run_ls_files :: "MeasureEnv \<Rightarrow> string list \<Rightarrow> (string list, MeasurementError) result" where
  "run_ls_files env args =
     (case run_git env (''ls-files '' @ join '' '' args) (''ls-files'' # args) of
        Err e \<Rightarrow> Err e
      | Ok out \<Rightarrow> parse_z_paths env out)"

definition collect_untracked_files :: "MeasureEnv \<Rightarrow> (string list, MeasurementError) result" where
  "collect_untracked_files env =
     (case run_ls_files env [''--others'', ''--exclude-standard'', ''-z''] of
        Err e \<Rightarrow> Err e
      | Ok paths \<Rightarrow>
          map_ok (\<lambda>more. btree_set (paths @ more)) (run_ls_files env [''--others'', ''-z'', ''--'', ''.luther'']))"

definition collect_patch :: "MeasureEnv \<Rightarrow> string \<Rightarrow> ScopeMeasurementConfig \<Rightarrow> (GitPatchData, MeasurementError) result" where
  "collect_patch env merge_base config =
     (case resolve_head_sha env of
        Err e \<Rightarrow> Err e
      | Ok head_sha \<Rightarrow>
          (case resolve_divergence env merge_base head_sha of
             Err e \<Rightarrow> Err e
           | Ok divergence \<Rightarrow>
               (case collect_tracked_changes env merge_base head_sha of
                  Err e \<Rightarrow> Err e
                | Ok tracked \<Rightarrow>
                    (case (if sm_enumerate_untracked config then collect_untracked_files env else Ok []) of
                       Err e \<Rightarrow> Err e
                     | Ok untracked \<Rightarrow>
                         Ok \<lparr>gp_head_sha = head_sha, gp_divergence = divergence, gp_tracked_changes = tracked,
                             gp_untracked_files = untracked\<rparr>))))"

text \<open>
  The ownership marker of the workflow is left out of the patch of a run that owns the workspace.
\<close>

definition patch_untracked_files ::
  "MeasureEnv \<Rightarrow> GitPatchData \<Rightarrow> string \<Rightarrow> bool \<Rightarrow> (string list, MeasurementError) result" where
  "patch_untracked_files env data run_id ownership_required =
     (case me_ownership env run_id of
        None \<Rightarrow> Ok (filter (\<lambda>p. p \<noteq> WORKSPACE_OWNER_MARKER) (gp_untracked_files data))
      | Some reason \<Rightarrow>
          (if ownership_required
           then Err (ControlMetadata (''cannot exclude untrusted workspace ownership marker for run '' @
                  quoted run_id @ '': '' @ reason))
           else if WORKSPACE_OWNER_MARKER \<in> set (gp_untracked_files data)
           then Err (ControlMetadata (''workspace ownership marker present but unverified for run '' @
                  quoted run_id @ '': '' @ reason))
           else Ok (gp_untracked_files data)))"

section \<open>Dependencies\<close>

fun split_path :: "string \<Rightarrow> bool \<Rightarrow> bool \<Rightarrow> string \<Rightarrow> string list" where
  "split_path segment in_quotes escaped [] = [rev segment]"
| "split_path segment in_quotes escaped (c # cs) =
     (if escaped then split_path (c # segment) in_quotes False cs
      else if c = CHR 0x5C \<and> in_quotes then split_path segment in_quotes True cs
      else if c = CHR 0x22 then split_path segment (\<not> in_quotes) False cs
      else if c = CHR 0x2E \<and> \<not> in_quotes then rev segment # split_path [] in_quotes False cs
      else split_path (c # segment) in_quotes False cs)"

definition split_toml_path :: "string \<Rightarrow> string list" where
  "split_toml_path path = split_path [] False False path"

fun nested_keys :: "json \<Rightarrow> string list \<Rightarrow> string list" where
  "nested_keys table [] = []"
| "nested_keys table [segment] = (case json_get table segment of Some (JObj kvs) \<Rightarrow> map fst kvs | _ \<Rightarrow> [])"
| "nested_keys table (segment # next # rest) =
     (case json_get table segment of Some (JObj kvs) \<Rightarrow> nested_keys (JObj kvs) (next # rest) | _ \<Rightarrow> [])"

definition collect_nested_keys :: "json \<Rightarrow> string \<Rightarrow> string list" where
  "collect_nested_keys table path =
     (let segments = split_toml_path path in if length segments < 2 then [] else nested_keys table segments)"

definition section_keys :: "json \<Rightarrow> string \<Rightarrow> string list" where
  "section_keys root sec =
     (case json_get root sec of Some (JObj kvs) \<Rightarrow> map fst kvs | _ \<Rightarrow> []) @ collect_nested_keys root sec"

definition extract_dependency_keys :: "MeasureEnv \<Rightarrow> string \<Rightarrow> string list \<Rightarrow> (string list, MeasurementError) result" where
  "extract_dependency_keys env content sections =
     (case me_toml env content of
        Err e \<Rightarrow> Err (ParseFailure (''failed to parse manifest as TOML: '' @ e))
      | Ok (JObj root) \<Rightarrow> Ok (concat (map (section_keys (JObj root)) sections))
      | Ok _ \<Rightarrow> Ok [])"

definition base_manifest :: "MeasureEnv \<Rightarrow> string \<Rightarrow> (string, MeasurementError) result" where
  "base_manifest env base_spec =
     (case me_git env [''show'', base_spec] of
        Err e \<Rightarrow> Err (GitFailure (''show '' @ base_spec) (''failed to invoke git: '' @ e))
      | Ok out \<Rightarrow>
          (if go_success out
           then map_err (\<lambda>e. ParseFailure (''non-UTF-8 in merge-base blob '' @ quoted base_spec @ '': '' @ e))
                  (from_utf8 env (go_stdout out))
           else
            (let fatal_lower = map ascii_lower (me_lossy env (go_stderr out))
             in if str_contains ''does not exist'' fatal_lower \<or>
                   str_contains ''exists on disk, but not in'' fatal_lower \<or>
                   str_contains ''path does not exist'' fatal_lower
                then Ok []
                else Err (GitFailure (''show '' @ base_spec) (exit_message env out)))))"

definition read_error_text :: "read_error \<Rightarrow> string" where
  "read_error_text e = (case e of NotFound t \<Rightarrow> t | ReadFailure t \<Rightarrow> t)"

text \<open>\<open>read_to_string\<close> reports bytes that are not UTF-8 as an I/O error with that text.\<close>

definition read_to_string :: "MeasureEnv \<Rightarrow> string \<Rightarrow> (string, string) result" where
  "read_to_string env path =
     (case me_read env path of
        Err e \<Rightarrow> Err (read_error_text e)
      | Ok bs \<Rightarrow> (if me_utf8_error env bs = None then Ok (text_of_bytes bs)
                   else Err ''stream did not contain valid UTF-8''))"

definition diff_manifest ::
  "MeasureEnv \<Rightarrow> string \<Rightarrow> string list \<Rightarrow> string \<Rightarrow> (string list, MeasurementError) result" where
  "diff_manifest env manifest_path sections merge_base =
     (if unsafe_components manifest_path
      then Err (ParseFailure (''unsafe dependency manifest path: '' @ manifest_path))
      else
       (case base_manifest env (merge_base @ '':'' @ manifest_path) of
          Err e \<Rightarrow> Err e
        | Ok base_content \<Rightarrow>
            (case read_to_string env manifest_path of
               Err e \<Rightarrow> Err (GitFailure (''read '' @ manifest_path)
                              (''failed to read manifest '' @ quoted manifest_path @ '': '' @ e))
             | Ok current_content \<Rightarrow>
                 (case extract_dependency_keys env base_content sections of
                    Err e \<Rightarrow> Err e
                  | Ok base_deps \<Rightarrow>
                      (case extract_dependency_keys env current_content sections of
                         Err e \<Rightarrow> Err e
                       | Ok current_deps \<Rightarrow> Ok (filter (\<lambda>d. d \<notin> set base_deps) current_deps))))))"

fun collect_dependency_diffs ::
  "MeasureEnv \<Rightarrow> ScopeDependencyManifestConfig list \<Rightarrow> string \<Rightarrow> ((string \<times> string list) list, MeasurementError) result" where
  "collect_dependency_diffs env [] merge_base = Ok []"
| "collect_dependency_diffs env (m # ms) merge_base =
     (case diff_manifest env (dm_path m) (dm_sections m) merge_base of
        Err e \<Rightarrow> Err e
      | Ok added \<Rightarrow>
          map_ok (\<lambda>rest. if added = [] then rest else (dm_path m, added) # rest)
            (collect_dependency_diffs env ms merge_base))"

section \<open>Measuring\<close>

record PatchMeasurement =
  pm_merge_base :: string
  pm_head_sha :: string
  pm_divergence :: u32
  pm_files_changed :: u32
  pm_added_lines :: u32
  pm_binary_files :: u32
  pm_new_modules :: u32
  pm_dependencies_added :: u32
  pm_public_apis_added :: u32
  pm_content_digest :: string
  pm_changed_paths :: "string list"
  pm_changed_subsystems :: "string list"
  pm_file_details :: "FileChange list"

definition count_lines_in_file :: "MeasureEnv \<Rightarrow> string \<Rightarrow> u32 option" where
  "count_lines_in_file env path =
     (case me_read env path of
        Err _ \<Rightarrow> None
      | Ok content \<Rightarrow>
          (if 0 \<in> set content then None
           else (case from_utf8 env content of Err _ \<Rightarrow> None | Ok text \<Rightarrow> Some (u32_clamp (length (str_lines text))))))"

definition is_file_binary :: "MeasureEnv \<Rightarrow> string \<Rightarrow> bool" where
  "is_file_binary env path = (case me_read env path of Err _ \<Rightarrow> False | Ok content \<Rightarrow> 0 \<in> set content)"

definition untracked_change :: "MeasureEnv \<Rightarrow> string \<Rightarrow> FileChange" where
  "untracked_change env path =
     \<lparr>fh_path = path, fh_status = ChUntracked, fh_added_lines = count_lines_in_file env path,
      fh_deleted_lines = Some 0, fh_is_binary = is_file_binary env path\<rparr>"

text \<open>\<open>dedup_by\<close>: of neighbours with equal paths the first stays.\<close>

fun dedup_paths :: "FileChange list \<Rightarrow> FileChange list" where
  "dedup_paths [] = []"
| "dedup_paths [c] = [c]"
| "dedup_paths (c # d # cs) = (if fh_path c = fh_path d then dedup_paths (c # cs) else c # dedup_paths (d # cs))"

text \<open>\<open>Path::extension\<close>.\<close>

definition path_extension :: "string \<Rightarrow> string option" where
  "path_extension p =
     (case rev (components_of_path p) of
        Normal n # _ \<Rightarrow>
          (let ext = rev (takeWhile (\<lambda>c. c \<noteq> CHR 0x2E) (rev n))
           in if CHR 0x2E \<notin> set n \<or> length n = length ext + 1 then None else Some ext)
      | _ \<Rightarrow> None)"

definition has_source_extension :: "string \<Rightarrow> string list \<Rightarrow> bool" where
  "has_source_extension path extensions \<longleftrightarrow>
     (case path_extension path of Some e \<Rightarrow> e | None \<Rightarrow> []) \<in> set extensions"

definition count_new_modules :: "FileChange list \<Rightarrow> ScopeMeasurementConfig \<Rightarrow> u32" where
  "count_new_modules changes config =
     u32_clamp (length (filter (\<lambda>c. has_source_extension (fh_path c) (sm_source_extensions config))
       (filter (\<lambda>c. is_new_file (fh_status c)) changes)))"

definition count_dependencies_added :: "(string \<times> string list) list \<Rightarrow> u32" where
  "count_dependencies_added diffs = fold (\<lambda>(_, added) acc. u32_saturating_add acc (u32_clamp (length added))) diffs 0"

definition collect_added_diff_lines :: "MeasureEnv \<Rightarrow> string \<Rightarrow> string \<Rightarrow> (string list, MeasurementError) result" where
  "collect_added_diff_lines env merge_base path =
     (case run_git env (''diff '' @ merge_base @ '' -- '' @ path)
             [''diff'', merge_base, ''--no-renames'', ''--no-color'', ''--'', path] of
        Err e \<Rightarrow> Err e
      | Ok out \<Rightarrow>
          (case from_utf8 env out of
             Err e \<Rightarrow> Err (ParseFailure (''non-UTF-8 diff output for '' @ quoted path @ '': '' @ e))
           | Ok text \<Rightarrow>
               Ok (map tl (filter (\<lambda>l. starts_with ''+'' l \<and> \<not> starts_with ''+++'' l) (str_lines text)))))"

definition added_lines_of :: "MeasureEnv \<Rightarrow> string \<Rightarrow> FileChange \<Rightarrow> (string list, MeasurementError) result" where
  "added_lines_of env merge_base c =
     (if fh_status c = ChUntracked
      then map_ok str_lines
             (map_err (\<lambda>e. ParseFailure (''failed to read untracked source '' @ quoted (fh_path c) @ '': '' @ e))
               (read_to_string env (fh_path c)))
      else collect_added_diff_lines env merge_base (fh_path c))"

fun count_api_lines ::
  "MeasureEnv \<Rightarrow> ScopeMeasurementConfig \<Rightarrow> string \<Rightarrow> u32 \<Rightarrow> FileChange list \<Rightarrow> (u32, MeasurementError) result" where
  "count_api_lines env config merge_base count [] = Ok count"
| "count_api_lines env config merge_base count (c # cs) =
     (if fh_is_binary c \<or> \<not> has_source_extension (fh_path c) (sm_source_extensions config)
      then count_api_lines env config merge_base count cs
      else
       (case added_lines_of env merge_base c of
          Err e \<Rightarrow> Err e
        | Ok lines \<Rightarrow>
            count_api_lines env config merge_base
              (fold (\<lambda>l n. if list_ex (\<lambda>re. me_matches env re l) (sm_public_api_regexes config)
                           then u32_saturating_add n 1 else n) lines count) cs))"

definition count_public_apis ::
  "MeasureEnv \<Rightarrow> FileChange list \<Rightarrow> ScopeMeasurementConfig \<Rightarrow> string \<Rightarrow> (u32, MeasurementError) result" where
  "count_public_apis env changes config merge_base =
     (if sm_public_api_regexes config = [] then Ok 0
      else
       (case List.map_filter (me_regex_error env) (sm_public_api_regexes config) of
          e # _ \<Rightarrow> Err (ParseFailure (''invalid public API regex: '' @ e))
        | [] \<Rightarrow> count_api_lines env config merge_base 0 changes))"

fun content_frame :: "MeasureEnv \<Rightarrow> FileChange list \<Rightarrow> (byte list, MeasurementError) result" where
  "content_frame env [] = Ok []"
| "content_frame env (c # cs) =
     (case (case me_read env (fh_path c) of
              Ok bytes \<Rightarrow> Ok bytes
            | Err (NotFound _) \<Rightarrow> Ok (as_bytes ''<deleted>'')
            | Err (ReadFailure e) \<Rightarrow> Err (GitFailure ''read measured file'' (fh_path c @ '': '' @ e))) of
        Err e \<Rightarrow> Err e
      | Ok bytes \<Rightarrow>
          map_ok (\<lambda>rest. as_bytes (fh_path c) @ [0] @ as_bytes (status_debug (fh_status c)) @ [0] @ bytes @ [0] @ rest)
            (content_frame env cs))"

definition compute_content_digest :: "MeasureEnv \<Rightarrow> FileChange list \<Rightarrow> (string, MeasurementError) result" where
  "compute_content_digest env changes = map_ok (sha256_hex (me_sha256 env)) (content_frame env changes)"

text \<open>The prefix of a subsystem may end in a slash or in \<open>/**\<close>.\<close>

definition base_of_prefix :: "string \<Rightarrow> string" where
  "base_of_prefix p =
     (case strip_suffix ''/**'' p of
        Some s \<Rightarrow> s
      | None \<Rightarrow> (case strip_suffix ''/'' p of Some s \<Rightarrow> s | None \<Rightarrow> p))"

definition is_path_under :: "string \<Rightarrow> string \<Rightarrow> bool" where
  "is_path_under path p \<longleftrightarrow> path = base_of_prefix p \<or> path_starts_with path (base_of_prefix p)"

definition compute_changed_subsystems :: "string list \<Rightarrow> CanonicalTaskCharter \<Rightarrow> string list" where
  "compute_changed_subsystems paths charter =
     btree_set (concat (map (\<lambda>p. map fst (filter (\<lambda>(_, prefixes). list_ex (is_path_under p) prefixes)
       (tc_subsystems charter))) paths))"

definition all_changes :: "MeasureEnv \<Rightarrow> FileChange list \<Rightarrow> string list \<Rightarrow> FileChange list" where
  "all_changes env tracked untracked = dedup_paths (sort_key fh_path (tracked @ map (untracked_change env) untracked))"

definition compute_measurement ::
  "MeasureEnv \<Rightarrow> GitPatchData \<Rightarrow> CanonicalTaskCharter \<Rightarrow> string \<Rightarrow> bool \<Rightarrow> ScopeMeasurementConfig \<Rightarrow>
   (string \<times> string list) list \<Rightarrow> (PatchMeasurement, MeasurementError) result" where
  "compute_measurement env data charter expected_run_id ownership_required config diffs =
     (if tc_run_id charter \<noteq> expected_run_id
      then Err (ControlMetadata (''charter run '' @ quoted (tc_run_id charter) @ '' does not match active run '' @
             quoted expected_run_id))
      else
       (case patch_untracked_files env data expected_run_id ownership_required of
          Err e \<Rightarrow> Err e
        | Ok untracked \<Rightarrow>
            (let changes = all_changes env (gp_tracked_changes data) untracked;
                 paths = btree_set (map fh_path changes)
             in case count_public_apis env changes config (tc_merge_base charter) of
                  Err e \<Rightarrow> Err e
                | Ok apis \<Rightarrow>
                    (case compute_content_digest env changes of
                       Err e \<Rightarrow> Err e
                     | Ok digest \<Rightarrow>
                         Ok \<lparr>pm_merge_base = tc_merge_base charter, pm_head_sha = gp_head_sha data,
                             pm_divergence = gp_divergence data, pm_files_changed = u32_clamp (length changes),
                             pm_added_lines = fold (\<lambda>n acc. u32_saturating_add acc n) (List.map_filter fh_added_lines changes) 0,
                             pm_binary_files = u32_clamp (length (filter fh_is_binary changes)),
                             pm_new_modules = count_new_modules changes config,
                             pm_dependencies_added = count_dependencies_added diffs,
                             pm_public_apis_added = apis, pm_content_digest = digest, pm_changed_paths = paths,
                             pm_changed_subsystems = compute_changed_subsystems paths charter,
                             pm_file_details = changes\<rparr>))))"

section \<open>Evaluating\<close>

datatype ViolationCode =
    BudgetFilesChanged | BudgetAddedLines | BudgetNewModules | BudgetDependenciesAdded | BudgetPublicApisAdded
  | PathOutsideCharter | SubsystemOutsideCharter | DivergenceFromMergeBase

fun violation_code_as_str :: "ViolationCode \<Rightarrow> string" where
  "violation_code_as_str BudgetFilesChanged = ''BUDGET_FILES_CHANGED''"
| "violation_code_as_str BudgetAddedLines = ''BUDGET_ADDED_LINES''"
| "violation_code_as_str BudgetNewModules = ''BUDGET_NEW_MODULES''"
| "violation_code_as_str BudgetDependenciesAdded = ''BUDGET_DEPENDENCIES_ADDED''"
| "violation_code_as_str BudgetPublicApisAdded = ''BUDGET_PUBLIC_APIS_ADDED''"
| "violation_code_as_str PathOutsideCharter = ''PATH_OUTSIDE_CHARTER''"
| "violation_code_as_str SubsystemOutsideCharter = ''SUBSYSTEM_OUTSIDE_CHARTER''"
| "violation_code_as_str DivergenceFromMergeBase = ''DIVERGENCE_FROM_MERGE_BASE''"

record Violation =
  vi_code :: ViolationCode
  vi_message :: string

record ScopeEvaluation =
  ev_within_budget :: bool
  ev_within_subsystems :: bool
  ev_at_merge_base :: bool
  ev_violations :: "Violation list"

definition check_budget :: "ViolationCode \<Rightarrow> string \<Rightarrow> u32 \<Rightarrow> u32 \<Rightarrow> Violation list" where
  "check_budget code metric actual limit =
     (if actual > limit
      then [\<lparr>vi_code = code, vi_message = metric @ '' ('' @ nat_to_string (unat actual) @ '') exceeds ceiling ('' @
               nat_to_string (unat limit) @ '')''\<rparr>]
      else [])"

definition collect_budget_violations :: "PatchMeasurement \<Rightarrow> CanonicalTaskCharter \<Rightarrow> Violation list" where
  "collect_budget_violations m c =
     check_budget BudgetFilesChanged ''files_changed'' (pm_files_changed m) (cu_max_files_changed (tc_budget c)) @
     check_budget BudgetAddedLines ''added_lines'' (pm_added_lines m) (cu_max_added_lines (tc_budget c)) @
     check_budget BudgetNewModules ''new_modules'' (pm_new_modules m) (cu_max_new_modules (tc_budget c)) @
     check_budget BudgetDependenciesAdded ''dependencies_added'' (pm_dependencies_added m)
       (cu_max_dependencies_added (tc_budget c)) @
     check_budget BudgetPublicApisAdded ''public_apis_added'' (pm_public_apis_added m)
       (cu_max_public_apis_added (tc_budget c))"

definition path_is_within_any_subsystem :: "CanonicalTaskCharter \<Rightarrow> string \<Rightarrow> bool" where
  "path_is_within_any_subsystem c path \<longleftrightarrow> list_ex (\<lambda>(_, prefixes). list_ex (is_path_under path) prefixes) (tc_subsystems c)"

definition collect_path_violations :: "PatchMeasurement \<Rightarrow> CanonicalTaskCharter \<Rightarrow> Violation list" where
  "collect_path_violations m c =
     (let outside = filter (\<lambda>p. \<not> path_is_within_any_subsystem c p) (pm_changed_paths m)
      in if outside = [] then []
         else [\<lparr>vi_code = PathOutsideCharter,
                vi_message = ''changed paths outside charter subsystems: '' @ join '', '' outside\<rparr>])"

definition collect_subsystem_violations :: "PatchMeasurement \<Rightarrow> CanonicalTaskCharter \<Rightarrow> Violation list" where
  "collect_subsystem_violations m c =
     map (\<lambda>sub. \<lparr>vi_code = SubsystemOutsideCharter,
                 vi_message = ''changed subsystem '' @ quoted sub @ '' is not declared in the charter''\<rparr>)
       (filter (\<lambda>sub. map_of (tc_subsystems c) sub = None) (pm_changed_subsystems m))"

definition is_budget_violation :: "ViolationCode \<Rightarrow> bool" where
  "is_budget_violation code \<longleftrightarrow>
     code \<in> {BudgetFilesChanged, BudgetAddedLines, BudgetNewModules, BudgetDependenciesAdded, BudgetPublicApisAdded}"

definition evaluate :: "PatchMeasurement \<Rightarrow> CanonicalTaskCharter \<Rightarrow> ScopeEvaluation" where
  "evaluate m c =
     (let violations = sort_key (\<lambda>v. violation_code_as_str (vi_code v))
            (collect_budget_violations m c @ collect_path_violations m c @ collect_subsystem_violations m c)
      in \<lparr>ev_within_budget = list_all (\<lambda>v. \<not> is_budget_violation (vi_code v)) violations,
          ev_within_subsystems =
            list_all (\<lambda>v. vi_code v \<noteq> PathOutsideCharter \<and> vi_code v \<noteq> SubsystemOutsideCharter) violations,
          ev_at_merge_base = (pm_divergence m = 0), ev_violations = violations\<rparr>)"

end
