(* ===== verification/Scope_Gate.thy ===== *)
theory Scope_Gate
  imports Scope_Measurement Engine_State "HOL-Library.Product_Lexorder"
begin

text \<open>
  The scope-decision gate (\<^verbatim>\<open>scope_control/persistence.rs\<close>, \<^verbatim>\<open>decision.rs\<close>, \<^verbatim>\<open>scope_measure.rs\<close>,
  \<^verbatim>\<open>timeout_recovery.rs\<close>, \<^verbatim>\<open>finding_disposition.rs\<close>, and the barrier of
  \<^verbatim>\<open>engine/executors/mod.rs\<close>): the artifacts of a run, the immutable expansion requests and the
  operator's resolution, and the check every mutation passes. A file is absent, holds a value, holds
  text that does not parse, or cannot be read; whether a write fails is a parameter. Writes are atomic.
\<close>

section \<open>Artifacts\<close>

datatype 'a artifact = Absent | Stored 'a | Malformed string | Unavailable string

datatype ScopePersistenceError =
    PeIo string
  | PeJson string
  | PeAlreadyExists string
  | PeConflict string string

fun persistence_error_to_string :: "ScopePersistenceError \<Rightarrow> string" where
  "persistence_error_to_string (PeIo e) = ''IO error: '' @ e"
| "persistence_error_to_string (PeJson e) = ''serialization error: '' @ e"
| "persistence_error_to_string (PeAlreadyExists path) = ''artifact already exists (immutable): '' @ path"
| "persistence_error_to_string (PeConflict path message) = ''conflict at '' @ path @ '': '' @ message"

datatype ScopeExpansionDecision = ApproveExpandedScope | SplitFollowUpIssue | ReturnToMinimalImplementation

fun scope_decision_to_string :: "ScopeExpansionDecision \<Rightarrow> string" where
  "scope_decision_to_string ApproveExpandedScope = ''approve_expanded_scope''"
| "scope_decision_to_string SplitFollowUpIssue = ''split_follow_up_issue''"
| "scope_decision_to_string ReturnToMinimalImplementation = ''return_to_minimal_implementation''"

definition scope_decision_from_str :: "string \<Rightarrow> (ScopeExpansionDecision, string) result" where
  "scope_decision_from_str s =
     (if s = ''approve_expanded_scope'' then Ok ApproveExpandedScope
      else if s = ''split_follow_up_issue'' then Ok SplitFollowUpIssue
      else if s = ''return_to_minimal_implementation'' then Ok ReturnToMinimalImplementation
      else Err (''unknown scope expansion decision: '' @ s))"

definition decision_option :: "string \<Rightarrow> ScopeExpansionDecision option" where
  "decision_option s = (case scope_decision_from_str s of Ok d \<Rightarrow> Some d | Err _ \<Rightarrow> None)"

interpretation decision_codec: text_codec scope_decision_to_string decision_option
proof
  show "decision_option (scope_decision_to_string d) = Some d" for d
    by (cases d) (simp_all add: decision_option_def scope_decision_from_str_def)
  show "decision_option t = Some d \<Longrightarrow> scope_decision_to_string d = t" for t d
    by (auto simp: decision_option_def scope_decision_from_str_def split: if_splits)
qed

definition authorizes_expansion :: "ScopeExpansionDecision \<Rightarrow> bool" where
  "authorizes_expansion d \<longleftrightarrow> d = ApproveExpandedScope"

record ScopeStatus =
  ss_charter_id :: string
  ss_run_id :: string
  ss_digest :: string
  ss_merge_base :: string
  ss_created_at :: instant
  ss_measurement :: "PatchMeasurement option"
  ss_evaluation :: "ScopeEvaluation option"
  ss_measured_at :: "instant option"
  ss_prior_measurement :: "PatchMeasurement option"
  ss_prior_measurement_digest :: "string option"
  ss_prior_measured_at :: "instant option"

record ScopeExpansionRequest =
  sq_run_id :: string
  sq_charter_id :: string
  sq_charter_digest :: string
  sq_measurement_digest :: string
  sq_measurement :: PatchMeasurement
  sq_evaluation :: ScopeEvaluation
  sq_violations :: "Violation list"
  sq_created_at :: instant

record ScopeExpansionResolution =
  sr_run_id :: string
  sr_measurement_digest :: string
  sr_decision :: ScopeExpansionDecision
  sr_rationale :: string
  sr_resolved_at :: instant

text \<open>
  The directory of one run below the artifact root: a request generation is a file name, its
  modification time and its content.
\<close>

record ScopeFiles =
  sf_charter :: "CanonicalTaskCharter artifact"
  sf_status :: "ScopeStatus artifact"
  sf_requests_dir :: bool
  sf_requests :: "(string \<times> nat \<times> ScopeExpansionRequest artifact) list"
  sf_legacy_request :: "ScopeExpansionRequest artifact"
  sf_resolution :: "ScopeExpansionResolution artifact"

record ScopeEnv =
  sn_now :: instant
  sn_file_time :: nat
  sn_not_found :: string
  sn_write_fault :: "string \<Rightarrow> string option"
  sn_list_fault :: "string option"
  sn_sha256 :: hash
  sn_charter_json :: "CanonicalTaskCharter \<Rightarrow> byte list"
  sn_measurement_json :: "PatchMeasurement \<Rightarrow> byte list"

definition CHARTER_FILENAME :: string where "CHARTER_FILENAME = ''task-charter.json''"
definition STATUS_FILENAME :: string where "STATUS_FILENAME = ''status.json''"
definition EXPANSION_REQUEST_FILENAME :: string where "EXPANSION_REQUEST_FILENAME = ''scope-expansion-request.json''"
definition EXPANSION_RESOLUTION_FILENAME :: string where
  "EXPANSION_RESOLUTION_FILENAME = ''scope-expansion-resolution.json''"
definition REQUESTS_DIRNAME :: string where "REQUESTS_DIRNAME = ''scope-expansion-requests''"

definition scope_control_dir :: "string \<Rightarrow> string \<Rightarrow> string" where
  "scope_control_dir artifact_dir run_id = path_join (path_join artifact_dir ''scope-control'') run_id"

definition artifact_exists :: "'a artifact \<Rightarrow> bool" where
  "artifact_exists a \<longleftrightarrow> a \<noteq> Absent"

definition read_json :: "ScopeEnv \<Rightarrow> 'a artifact \<Rightarrow> ('a, ScopePersistenceError) result" where
  "read_json env a =
     (case a of
        Absent \<Rightarrow> Err (PeIo (sn_not_found env))
      | Stored v \<Rightarrow> Ok v
      | Malformed e \<Rightarrow> Err (PeJson e)
      | Unavailable e \<Rightarrow> Err (PeIo e))"

text \<open>Publishing by a hard link refuses an existing file; replacing by a rename does not.\<close>

definition write_immutable_json ::
  "ScopeEnv \<Rightarrow> string \<Rightarrow> 'a \<Rightarrow> 'a artifact \<Rightarrow> 'a artifact \<times> (unit, ScopePersistenceError) result" where
  "write_immutable_json env path v old =
     (case sn_write_fault env path of
        Some e \<Rightarrow> (old, Err (PeIo e))
      | None \<Rightarrow> (if artifact_exists old then (old, Err (PeAlreadyExists path)) else (Stored v, Ok ())))"

definition write_updatable_json ::
  "ScopeEnv \<Rightarrow> string \<Rightarrow> 'a \<Rightarrow> 'a artifact \<Rightarrow> 'a artifact \<times> (unit, ScopePersistenceError) result" where
  "write_updatable_json env path v old =
     (case sn_write_fault env path of Some e \<Rightarrow> (old, Err (PeIo e)) | None \<Rightarrow> (Stored v, Ok ()))"

definition validate_run_id :: "string \<Rightarrow> (unit, ScopePersistenceError) result" where
  "validate_run_id run_id =
     (if run_id = [] then Err (PeConflict ''scope-control'' ''run_id must not be empty'')
      else if unsafe_components run_id
      then Err (PeConflict run_id ''run_id must not contain path traversal components'')
      else Ok ())"

definition status_for :: "ScopeEnv \<Rightarrow> CanonicalTaskCharter \<Rightarrow> ScopeStatus" where
  "status_for env c =
     \<lparr>ss_charter_id = tc_charter_id c, ss_run_id = tc_run_id c, ss_digest = tc_digest c,
      ss_merge_base = tc_merge_base c, ss_created_at = sn_now env, ss_measurement = None, ss_evaluation = None,
      ss_measured_at = None, ss_prior_measurement = None, ss_prior_measurement_digest = None,
      ss_prior_measured_at = None\<rparr>"

definition check_status_digest ::
  "ScopeEnv \<Rightarrow> string \<Rightarrow> string \<Rightarrow> ScopeStatus artifact \<Rightarrow> (ScopeStatus, ScopePersistenceError) result" where
  "check_status_digest env path digest a =
     (case read_json env a of
        Err e \<Rightarrow> Err e
      | Ok st \<Rightarrow>
          (if ss_digest st \<noteq> digest
           then Err (PeConflict path (''status digest mismatch: existing '' @ quoted (ss_digest st) @
                  '' vs charter '' @ quoted digest))
           else Ok st))"

text \<open>The status part of persisting a charter: an existing one has to match, a missing one is written.\<close>

definition ensure_status ::
  "ScopeEnv \<Rightarrow> string \<Rightarrow> CanonicalTaskCharter \<Rightarrow> ScopeFiles \<Rightarrow> ScopeFiles \<times> (string \<times> string, ScopePersistenceError) result" where
  "ensure_status env dir c fs =
     (let charter_p = path_join dir CHARTER_FILENAME; status_p = path_join dir STATUS_FILENAME
      in if artifact_exists (sf_status fs)
         then (fs, map_ok (\<lambda>_. (charter_p, status_p)) (check_status_digest env status_p (tc_digest c) (sf_status fs)))
         else let (a, r) = write_immutable_json env status_p (status_for env c) (sf_status fs)
              in (fs\<lparr>sf_status := a\<rparr>, map_ok (\<lambda>_. (charter_p, status_p)) r))"

definition persist_charter_and_status ::
  "ScopeEnv \<Rightarrow> string \<Rightarrow> CanonicalTaskCharter \<Rightarrow> ScopeFiles \<Rightarrow> ScopeFiles \<times> (string \<times> string, ScopePersistenceError) result" where
  "persist_charter_and_status env artifact_dir c fs =
     (case validate_run_id (tc_run_id c) of
        Err e \<Rightarrow> (fs, Err e)
      | Ok _ \<Rightarrow>
          (let dir = scope_control_dir artifact_dir (tc_run_id c); charter_p = path_join dir CHARTER_FILENAME
           in case sn_write_fault env dir of
                Some e \<Rightarrow> (fs, Err (PeIo e))
              | None \<Rightarrow>
                  (if artifact_exists (sf_charter fs)
                   then (case read_json env (sf_charter fs) of
                           Err e \<Rightarrow> (fs, Err e)
                         | Ok existing \<Rightarrow>
                             (if tc_digest existing \<noteq> tc_digest c
                              then (fs, Err (PeConflict charter_p (''charter digest mismatch: existing '' @
                                     quoted (tc_digest existing) @ '' vs new '' @ quoted (tc_digest c))))
                              else ensure_status env dir c fs))
                   else
                    (case write_immutable_json env charter_p c (sf_charter fs) of
                       (a, Err e) \<Rightarrow> (fs\<lparr>sf_charter := a\<rparr>, Err e)
                     | (a, Ok _) \<Rightarrow> ensure_status env dir c (fs\<lparr>sf_charter := a\<rparr>)))))"

definition measurement_digest :: "ScopeEnv \<Rightarrow> PatchMeasurement \<Rightarrow> string" where
  "measurement_digest env m = sha256_hex (sn_sha256 env) (sn_measurement_json env m)"

definition measured_status ::
  "ScopeEnv \<Rightarrow> PatchMeasurement \<Rightarrow> ScopeEvaluation \<Rightarrow> ScopeStatus \<Rightarrow> ScopeStatus" where
  "measured_status env m ev st =
     (let promoted =
            (case ss_measurement st of
               None \<Rightarrow> st
             | Some prev \<Rightarrow>
                 (if measurement_digest env prev \<noteq> measurement_digest env m
                  then st\<lparr>ss_prior_measurement := Some prev,
                          ss_prior_measurement_digest := Some (measurement_digest env prev),
                          ss_prior_measured_at :=
                            (case ss_measured_at st of Some t \<Rightarrow> Some t | None \<Rightarrow> Some (sn_now env))\<rparr>
                  else st))
      in promoted\<lparr>ss_measurement := Some m, ss_evaluation := Some ev, ss_measured_at := Some (sn_now env)\<rparr>)"

definition update_status_measurement ::
  "ScopeEnv \<Rightarrow> string \<Rightarrow> string \<Rightarrow> PatchMeasurement \<Rightarrow> ScopeEvaluation \<Rightarrow> ScopeFiles \<Rightarrow>
   ScopeFiles \<times> (unit, ScopePersistenceError) result" where
  "update_status_measurement env artifact_dir run_id m ev fs =
     (case validate_run_id run_id of
        Err e \<Rightarrow> (fs, Err e)
      | Ok _ \<Rightarrow>
          (let status_p = path_join (scope_control_dir artifact_dir run_id) STATUS_FILENAME
           in case read_json env (sf_status fs) of
                Err e \<Rightarrow> (fs, Err e)
              | Ok _ \<Rightarrow>
                  (case read_json env (sf_charter fs) of
                     Err e \<Rightarrow> (fs, Err e)
                   | Ok charter \<Rightarrow>
                       (case check_status_digest env status_p (tc_digest charter) (sf_status fs) of
                          Err e \<Rightarrow> (fs, Err e)
                        | Ok existing \<Rightarrow>
                            (let (a, r) = write_updatable_json env status_p (measured_status env m ev existing) (sf_status fs)
                             in (fs\<lparr>sf_status := a\<rparr>, r))))))"

section \<open>Requests and resolutions\<close>

definition generation_name :: "string \<Rightarrow> string" where
  "generation_name digest = digest @ ''.json''"

definition generation :: "string \<Rightarrow> ScopeFiles \<Rightarrow> ScopeExpansionRequest artifact" where
  "generation name fs = (case map_of (sf_requests fs) name of Some (_, a) \<Rightarrow> a | None \<Rightarrow> Absent)"

definition write_expansion_request ::
  "ScopeEnv \<Rightarrow> string \<Rightarrow> ScopeExpansionRequest \<Rightarrow> ScopeFiles \<Rightarrow> ScopeFiles \<times> (unit, ScopePersistenceError) result" where
  "write_expansion_request env artifact_dir q fs =
     (let gen_dir = path_join (scope_control_dir artifact_dir (sq_run_id q)) REQUESTS_DIRNAME;
          name = generation_name (sq_measurement_digest q);
          gen_path = path_join gen_dir name
      in case sn_write_fault env gen_dir of
           Some e \<Rightarrow> (fs, Err (PeIo e))
         | None \<Rightarrow>
             (let fs1 = fs\<lparr>sf_requests_dir := True\<rparr>
              in if artifact_exists (generation name fs1)
                 then (case read_json env (generation name fs1) of
                         Err e \<Rightarrow> (fs1, Err e)
                       | Ok existing \<Rightarrow>
                           (if sq_measurement_digest existing = sq_measurement_digest q then (fs1, Ok ())
                            else (fs1, Err (PeConflict gen_path ''generation file digest mismatch''))))
                 else
                  (case write_immutable_json env gen_path q Absent of
                     (_, Err e) \<Rightarrow> (fs1, Err e)
                   | (a, Ok _) \<Rightarrow> (fs1\<lparr>sf_requests := sf_requests fs1 @ [(name, sn_file_time env, a)]\<rparr>, Ok ()))))"

text \<open>The newest generation, of those with the same time the one with the largest name.\<close>

definition read_latest_generation :: "ScopeEnv \<Rightarrow> ScopeFiles \<Rightarrow> (ScopeExpansionRequest option, ScopePersistenceError) result" where
  "read_latest_generation env fs =
     (case sn_list_fault env of
        Some e \<Rightarrow> Err (PeIo e)
      | None \<Rightarrow>
          (case rev (sort_key (\<lambda>(name, t, _). (t, name)) (sf_requests fs)) of
             [] \<Rightarrow> Ok None
           | (_, _, a) # _ \<Rightarrow> map_ok Some (read_json env a)))"

definition read_expansion_request :: "ScopeEnv \<Rightarrow> ScopeFiles \<Rightarrow> (ScopeExpansionRequest option, ScopePersistenceError) result" where
  "read_expansion_request env fs =
     (if sf_requests_dir fs then read_latest_generation env fs
      else if \<not> artifact_exists (sf_legacy_request fs) then Ok None
      else map_ok Some (read_json env (sf_legacy_request fs)))"

definition write_expansion_resolution ::
  "ScopeEnv \<Rightarrow> string \<Rightarrow> ScopeExpansionResolution \<Rightarrow> ScopeFiles \<Rightarrow> ScopeFiles \<times> (unit, ScopePersistenceError) result" where
  "write_expansion_resolution env artifact_dir resolution fs =
     (let (a, r) = write_updatable_json env
            (path_join (scope_control_dir artifact_dir (sr_run_id resolution)) EXPANSION_RESOLUTION_FILENAME)
            resolution (sf_resolution fs)
      in (fs\<lparr>sf_resolution := a\<rparr>, r))"

definition read_expansion_resolution :: "ScopeEnv \<Rightarrow> ScopeFiles \<Rightarrow> (ScopeExpansionResolution option, ScopePersistenceError) result" where
  "read_expansion_resolution env fs =
     (if \<not> artifact_exists (sf_resolution fs) then Ok None else map_ok Some (read_json env (sf_resolution fs)))"

section \<open>The gate\<close>

datatype ScopeGateOutcome =
    NoScopeControl
  | WithinBudget
  | WithinBudgetWithPriorResolution
  | OverBudgetNeedsRequest
  | PendingResolution
  | GateDenied ScopeExpansionDecision

definition allows_mutation :: "ScopeGateOutcome \<Rightarrow> bool" where
  "allows_mutation g \<longleftrightarrow> g \<in> {NoScopeControl, WithinBudget, WithinBudgetWithPriorResolution}"

definition check_scope_gate ::
  "ScopeEnv \<Rightarrow> CanonicalTaskCharter \<Rightarrow> PatchMeasurement \<Rightarrow> ScopeEvaluation \<Rightarrow> ScopeFiles \<Rightarrow>
   (ScopeGateOutcome, ScopePersistenceError) result" where
  "check_scope_gate env charter m ev fs =
     (if ev_within_budget ev \<and> ev_violations ev = []
      then map_ok (\<lambda>q. if q \<noteq> None then WithinBudgetWithPriorResolution else WithinBudget) (read_expansion_request env fs)
      else
       (case read_expansion_request env fs of
          Err e \<Rightarrow> Err e
        | Ok None \<Rightarrow> Ok OverBudgetNeedsRequest
        | Ok (Some request) \<Rightarrow>
            (case read_expansion_resolution env fs of
               Err e \<Rightarrow> Err e
             | Ok None \<Rightarrow> Ok PendingResolution
             | Ok (Some resolution) \<Rightarrow>
                 (let digest = measurement_digest env m
                  in if sq_charter_digest request \<noteq> tc_digest charter \<or> sr_measurement_digest resolution \<noteq> digest \<or>
                        sq_measurement_digest request \<noteq> digest
                     then Ok OverBudgetNeedsRequest
                     else if authorizes_expansion (sr_decision resolution) then Ok WithinBudgetWithPriorResolution
                     else Ok (GateDenied (sr_decision resolution))))))"

definition build_expansion_request ::
  "ScopeEnv \<Rightarrow> string \<Rightarrow> CanonicalTaskCharter \<Rightarrow> PatchMeasurement \<Rightarrow> ScopeEvaluation \<Rightarrow> ScopeExpansionRequest" where
  "build_expansion_request env run_id charter m ev =
     \<lparr>sq_run_id = run_id, sq_charter_id = tc_charter_id charter, sq_charter_digest = tc_digest charter,
      sq_measurement_digest = measurement_digest env m, sq_measurement = m, sq_evaluation = ev,
      sq_violations = ev_violations ev, sq_created_at = sn_now env\<rparr>"

datatype ScopeBarrierResult = BarrierAllow | BarrierBlocked | BarrierDenied ScopeExpansionDecision

definition barrier_error :: "string \<Rightarrow> EngineError" where
  "barrier_error m = StepExecutionError ''scope_barrier'' m"

text \<open>Measuring the worktree, shared by the barrier and the measuring step.\<close>

definition measure_worktree ::
  "MeasureEnv \<Rightarrow> StepContext \<Rightarrow> ScopeControlConfig \<Rightarrow> CanonicalTaskCharter \<Rightarrow> (PatchMeasurement, MeasurementError) result" where
  "measure_worktree menv ctx sc charter =
     (case collect_patch menv (tc_merge_base charter) (sx_measurement sc) of
        Err e \<Rightarrow> Err e
      | Ok data \<Rightarrow>
          (case collect_dependency_diffs menv (sx_dependency_manifests sc) (tc_merge_base charter) of
             Err e \<Rightarrow> Err e
           | Ok diffs \<Rightarrow>
               compute_measurement menv data charter (cx_run_id ctx) (cx_daemon_managed ctx) (sx_measurement sc) diffs))"

definition barrier_artifact_dir :: "StepContext \<Rightarrow> string" where
  "barrier_artifact_dir ctx =
     (case ctx_get ctx ''artifact_dir'' of
        Some d \<Rightarrow> d
      | None \<Rightarrow> (case ctx_get ctx ''artifact_root'' of Some d \<Rightarrow> d | None \<Rightarrow> cx_work_dir ctx))"

text \<open>The files of a run are reached through the artifact directory and the run.\<close>

type_synonym scope_store = "string \<Rightarrow> ScopeFiles"

definition enforce_scope_barrier ::
  "ScopeEnv \<Rightarrow> MeasureEnv \<Rightarrow> StepContext \<Rightarrow> ScopeControlConfig \<Rightarrow> scope_store \<Rightarrow>
   scope_store \<times> (ScopeBarrierResult, EngineError) result" where
  "enforce_scope_barrier env menv ctx sc store =
     (let artifact_dir = barrier_artifact_dir ctx; run_id = cx_run_id ctx;
          dir = scope_control_dir artifact_dir run_id; fs = store dir
      in case read_json env (sf_charter fs) of
           Err e \<Rightarrow> (store, Err (barrier_error (''scope charter unavailable: '' @ persistence_error_to_string e)))
         | Ok charter \<Rightarrow>
             (case measure_worktree menv ctx sc charter of
                Err e \<Rightarrow> (store, Err (barrier_error (measurement_error_to_string e)))
              | Ok m \<Rightarrow>
                  (let ev = evaluate m charter
                   in case check_scope_gate env charter m ev fs of
                        Err e \<Rightarrow> (store, Err (barrier_error (persistence_error_to_string e)))
                      | Ok outcome \<Rightarrow>
                          (if allows_mutation outcome then (store, Ok BarrierAllow)
                           else
                            (case outcome of
                               GateDenied d \<Rightarrow> (store, Ok (BarrierDenied d))
                             | _ \<Rightarrow>
                                 (case write_expansion_request env artifact_dir
                                         (build_expansion_request env run_id charter m ev) fs of
                                    (fs1, Err e) \<Rightarrow>
                                      (store(dir := fs1), Err (barrier_error (persistence_error_to_string e)))
                                  | (fs1, Ok _) \<Rightarrow> (store(dir := fs1), Ok BarrierBlocked)))))))"

text \<open>
  The barrier of the mutating executors: the policy is decoded from the context (serde is a
  parameter); \<open>None\<close> lets the executor go on.
\<close>

definition scope_control_barrier ::
  "ScopeEnv \<Rightarrow> MeasureEnv \<Rightarrow> (string \<Rightarrow> (ScopeControlConfig, string) result) \<Rightarrow> StepContext \<Rightarrow> scope_store \<Rightarrow>
   scope_store \<times> StepContext \<times> StepOutcome option" where
  "scope_control_barrier env menv decode ctx store =
     (case ctx_get ctx ''scope_control_policy'' of
        None \<Rightarrow> (store, ctx, None)
      | Some text \<Rightarrow>
          (case decode text of
             Err _ \<Rightarrow> (store, ctx, Some Fatal)
           | Ok sc \<Rightarrow>
               (if \<not> sx_enabled sc then (store, ctx, None)
                else
                 (case enforce_scope_barrier env menv ctx sc store of
                    (store1, Ok BarrierBlocked) \<Rightarrow> (store1, ctx_set ''scope_barrier_wait'' ''true'' ctx, Some Wait)
                  | (store1, Ok BarrierAllow) \<Rightarrow> (store1, ctx, None)
                  | (store1, Ok (BarrierDenied _)) \<Rightarrow> (store1, ctx, Some Fatal)
                  | (store1, Err _) \<Rightarrow> (store1, ctx, Some Fatal)))))"

end
