(* ===== verification/External_Poller.thy ===== *)
theory External_Poller
  imports Pr_Check_Wait Poll_Application Scope_Gate
begin

text \<open>
  The production poller (\<open>daemon/poller.rs\<close>): one decision per due wait, by its kind. What lies
  outside is a parameter: running \<open>gh\<close>, parsing and printing JSON, serde's decoders, regular
  expressions, the clock, the poller's own connection to the runs table and the scope-control
  artifacts.
\<close>

section \<open>The outside\<close>

record 'w PollerEnv =
  pk_now :: "'w \<Rightarrow> instant"
  pk_rfc3339 :: "instant \<Rightarrow> string"
  pk_run :: "string list \<Rightarrow> 'w \<Rightarrow> (string, GithubError) result \<times> 'w"
  pk_error_text :: "GithubError \<Rightarrow> string"
  pk_parse :: "string \<Rightarrow> (json, string) result"
  pk_parse_rows :: "string \<Rightarrow> (json list, string) result"
  pk_render :: "json \<Rightarrow> string"
  pk_policy_of :: "json \<Rightarrow> (PrCheckWaitConfig, string) result"
  pk_counters_of :: "json \<Rightarrow> PrCheckWaitCounters option"
  pk_regexes :: regexes
  pk_runs :: "WaitDb \<Rightarrow> 'w \<Rightarrow> (run_table, string) result"
  pk_request_digest :: "string \<Rightarrow> string \<Rightarrow> 'w \<Rightarrow> (string option, string) result"
  pk_resolution :: "string \<Rightarrow> string \<Rightarrow> 'w \<Rightarrow> (ScopeExpansionResolution option, string) result"

section \<open>Decisions\<close>

definition wait_kind_json :: "WaitStateRecord \<Rightarrow> json" where
  "wait_kind_json r = JStr (wait_kind_to_string (ws_wait_kind r))"

definition next_poll_time :: "WaitStateRecord \<Rightarrow> instant \<Rightarrow> instant" where
  "next_poll_time r now = next_poll_time_at (ws_poll_interval_seconds r) now"

definition still_waiting_with_state :: "'w PollerEnv \<Rightarrow> WaitStateRecord \<Rightarrow> json \<Rightarrow> 'w \<Rightarrow> PollDecision" where
  "still_waiting_with_state env r observed w =
     \<lparr>pd_run_id = ws_run_id r, pd_classification = StillWaiting,
      pd_next_poll_at = Some (next_poll_time r (pk_now env w)), pd_observed_state = observed\<rparr>"

definition ready_decision :: "WaitStateRecord \<Rightarrow> json \<Rightarrow> PollDecision" where
  "ready_decision r observed =
     \<lparr>pd_run_id = ws_run_id r, pd_classification = ReadyToResume, pd_next_poll_at = None, pd_observed_state = observed\<rparr>"

definition transient_decision :: "'w PollerEnv \<Rightarrow> WaitStateRecord \<Rightarrow> json \<Rightarrow> 'w \<Rightarrow> PollDecision" where
  "transient_decision env r observed w =
     \<lparr>pd_run_id = ws_run_id r, pd_classification = TransientFailure,
      pd_next_poll_at = Some (next_poll_time r (pk_now env w)), pd_observed_state = observed\<rparr>"

definition terminal_failure :: "WaitStateRecord \<Rightarrow> json \<Rightarrow> PollDecision" where
  "terminal_failure r observed =
     \<lparr>pd_run_id = ws_run_id r, pd_classification = TerminalFailure, pd_next_poll_at = None, pd_observed_state = observed\<rparr>"

definition missing_identity_state :: "WaitStateRecord \<Rightarrow> json" where
  "missing_identity_state r =
     JObj [(''classification'', JStr ''still_waiting''), (''reason'', JStr ''missing_poll_identity''),
           (''wait_kind'', wait_kind_json r), (''has_pr_number'', JBool (ws_pr_number r \<noteq> None)),
           (''has_head_sha'', JBool (ws_head_sha r \<noteq> None))]"

definition github_error_state :: "'w PollerEnv \<Rightarrow> GithubError \<Rightarrow> json" where
  "github_error_state env e =
     JObj [(''classification'', JStr ''transient_failure''), (''error'', JStr (pk_error_text env e))]"

section \<open>Time limits\<close>

definition DEFAULT_MAX_CHILD_MERGE_WAIT_SECONDS :: u64 where
  "DEFAULT_MAX_CHILD_MERGE_WAIT_SECONDS = 86400"

definition effective_max_wait_seconds :: "WaitStateRecord \<Rightarrow> u64 option" where
  "effective_max_wait_seconds r =
     (case ws_max_wait_seconds r of
        Some n \<Rightarrow> Some n
      | None \<Rightarrow> (if ws_wait_kind r \<in> {WkDependencyChildWorkflow, WkDependencyChildMerge}
                then Some DEFAULT_MAX_CHILD_MERGE_WAIT_SECONDS else None))"

text \<open>\<open>signed_duration_since(..).num_seconds()\<close>: whole seconds, towards zero.\<close>

definition elapsed_seconds :: "instant \<Rightarrow> instant \<Rightarrow> int" where
  "elapsed_seconds now since =
     (if since \<le> now then int ((now - since) div 1000000000) else - int ((since - now) div 1000000000))"

definition timeout_decision :: "'w PollerEnv \<Rightarrow> WaitStateRecord \<Rightarrow> 'w \<Rightarrow> PollDecision option" where
  "timeout_decision env r w =
     (case effective_max_wait_seconds r of
        None \<Rightarrow> None
      | Some n \<Rightarrow>
          (let limit = (case i64_try_from_u64 n of Some i \<Rightarrow> i | None \<Rightarrow> i64_max)
           in if elapsed_seconds (pk_now env w) (ws_created_at r) \<le> limit then None
              else Some \<lparr>pd_run_id = ws_run_id r, pd_classification = TimedOut, pd_next_poll_at = None,
                pd_observed_state =
                  JObj [(''classification'', JStr ''timed_out''), (''wait_kind'', wait_kind_json r),
                        (''max_wait_seconds'', json_opt (\<lambda>m. json_nat (unat m)) (ws_max_wait_seconds r)),
                        (''effective_max_wait_seconds'', JInt limit)]\<rparr>))"

section \<open>Child workflows\<close>

definition child_workflow_status_ready :: "RunStatus \<Rightarrow> bool" where
  "child_workflow_status_ready s \<longleftrightarrow> run_is_terminal s \<or> s = RReadyToResume"

text \<open>The run id of the child is kept in the record's \<open>head_sha\<close>.\<close>

definition poll_child_workflow :: "'w PollerEnv \<Rightarrow> WaitStateRecord \<Rightarrow> WaitDb \<Rightarrow> 'w \<Rightarrow> PollDecision" where
  "poll_child_workflow env r db w =
     (case ws_head_sha r of
        None \<Rightarrow> terminal_failure r (missing_identity_state r)
      | Some child \<Rightarrow>
          (case pk_runs env db w of
             Err e \<Rightarrow> transient_decision env r
                       (JObj [(''classification'', JStr ''transient_failure''), (''error'', JStr e)]) w
           | Ok runs \<Rightarrow>
               (case get_run_with_conn child runs of
                  None \<Rightarrow> transient_decision env r
                    (JObj [(''classification'', JStr ''transient_failure''), (''wait_kind'', wait_kind_json r),
                           (''child_run_id'', JStr child), (''reason'', JStr ''child_run_metadata_missing'')]) w
                | Some m \<Rightarrow>
                    (let observed = JObj [(''classification'', JStr ''observed''), (''wait_kind'', wait_kind_json r),
                           (''child_run_id'', JStr child), (''child_status'', JStr (run_status_to_string (rm_status m))),
                           (''child_current_step'', json_opt JStr (rm_current_step m))]
                     in if child_workflow_status_ready (rm_status m) then ready_decision r observed
                        else still_waiting_with_state env r observed w))))"


section \<open>Pull request checks\<close>

text \<open>\<open>str::split_once\<close>.\<close>

fun split_once :: "string \<Rightarrow> string \<Rightarrow> (string \<times> string) option" where
  "split_once pat [] = (if pat = [] then Some ([], []) else None)"
| "split_once pat (c # cs) =
     (if starts_with pat (c # cs) then Some ([], drop (length pat) (c # cs))
      else map_option (\<lambda>(a, b). (c # a, b)) (split_once pat cs))"

definition record_repo_parts :: "string \<Rightarrow> (string \<times> string) option" where
  "record_repo_parts repo = split_once ''/'' repo"

definition extract_actions_run_id :: "string option \<Rightarrow> nat option" where
  "extract_actions_run_id url =
     (case url of
        None \<Rightarrow> None
      | Some u \<Rightarrow>
          (case split_once ''/actions/runs/'' u of
             None \<Rightarrow> None
           | Some (_, after) \<Rightarrow> parse_u64 (hd (split_char CHR 0x2F after))))"

text \<open>\<open>row.get(k1).or_else(..)\<close>: the first key that is present, whatever its value.\<close>

fun get_first :: "json \<Rightarrow> string list \<Rightarrow> json option" where
  "get_first v [] = None"
| "get_first v (k # ks) = (case json_get v k of Some x \<Rightarrow> Some x | None \<Rightarrow> get_first v ks)"

definition str_of :: "json option \<Rightarrow> string option" where
  "str_of v = Option.bind v json_as_str"

definition normalize_poll_check :: "json \<Rightarrow> PrCheckObservation" where
  "normalize_poll_check row =
     (let name = (case str_of (json_get row ''name'') of Some n \<Rightarrow> n | None \<Rightarrow> ''unknown'');
          state = (case str_of (get_first row [''state'', ''status'', ''conclusion'']) of Some s \<Rightarrow> s | None \<Rightarrow> ''unknown'');
          status = str_of (get_first row [''status'', ''state'']);
          conclusion = str_of (get_first row [''conclusion'', ''state'']);
          bucket_raw = (case str_of (json_get row ''bucket'') of Some b \<Rightarrow> b | None \<Rightarrow> state)
      in \<lparr>ob_check_id = (case Option.bind (json_get row ''id'') json_as_u64 of Some i \<Rightarrow> nat_to_string i | None \<Rightarrow> name),
          ob_name = name, ob_status = status, ob_conclusion = conclusion, ob_state = state,
          ob_bucket = check_bucket status conclusion bucket_raw state,
          ob_url = str_of (get_first row [''link'', ''html_url'', ''details_url'']),
          ob_workflow_name = str_of (json_get row ''workflow''),
          ob_run_id = extract_actions_run_id (str_of (get_first row [''html_url'', ''details_url'', ''link''])),
          ob_job_id = None,
          ob_started_at = str_of (get_first row [''startedAt'', ''started_at'']),
          ob_completed_at = str_of (get_first row [''completedAt'', ''completed_at'']),
          ob_head_sha = str_of (json_get row ''head_sha''),
          ob_app_slug = str_of (Option.bind (json_get row ''app'') (\<lambda>a. json_get a ''slug'')),
          ob_source = ''daemon_poll''\<rparr>)"

definition query_pr_checks ::
  "'w PollerEnv \<Rightarrow> string \<Rightarrow> u64 \<Rightarrow> string \<Rightarrow> 'w \<Rightarrow> (json list, GithubError) result \<times> 'w" where
  "query_pr_checks env repo pr head_sha w =
     (case pk_run env [''gh'', ''pr'', ''checks'', nat_to_string (unat pr), ''--repo'', repo, ''--json'',
              ''name,state,bucket,link,workflow,startedAt,completedAt''] w of
        (Err e, w1) \<Rightarrow> (Err e, w1)
      | (Ok preferred, w1) \<Rightarrow>
          (case pk_parse_rows env preferred of
             Err e \<Rightarrow> (Err (CommandFailed [''gh'', ''pr'', ''checks''] None (''parse gh pr checks JSON: '' @ e)), w1)
           | Ok checks \<Rightarrow>
               (case record_repo_parts repo of
                  None \<Rightarrow> (Ok checks, w1)
                | Some (owner, name) \<Rightarrow>
                    (case pk_run env [''gh'', ''api'',
                            ''repos/'' @ owner @ ''/'' @ name @ ''/commits/'' @ head_sha @ ''/check-runs''] w1 of
                       (Err e, w2) \<Rightarrow> (Err e, w2)
                     | (Ok rest, w2) \<Rightarrow>
                         (case pk_parse env rest of
                            Err e \<Rightarrow> (Err (CommandFailed [''gh'', ''api''] None (''parse gh check-runs JSON: '' @ e)), w2)
                          | Ok v \<Rightarrow>
                              (case json_get v ''check_runs'' of
                                 None \<Rightarrow> (Err (CommandFailed [''gh'', ''api''] None
                                           (''gh check-runs response missing check_runs: '' @ pk_render env v)), w2)
                               | Some runs \<Rightarrow>
                                   (Ok (checks @ (case runs of JArr rows \<Rightarrow> rows | _ \<Rightarrow> [])), w2)))))))"

definition pr_check_config :: "'w PollerEnv \<Rightarrow> WaitStateRecord \<Rightarrow> (PrCheckWaitConfig, string) result" where
  "pr_check_config env r = config_from_value (pk_policy_of env) (ws_wait_condition r)"

definition pr_check_config_error_state :: "WaitStateRecord \<Rightarrow> string \<Rightarrow> string \<Rightarrow> json" where
  "pr_check_config_error_state r head_sha err =
     JObj [(''classification'', JStr ''fatal''), (''reason'', JStr ''invalid_pr_check_policy''),
           (''wait_kind'', wait_kind_json r), (''head_sha'', JStr head_sha), (''error'', JStr err)]"

text \<open>\<open>state["classification"] = ..\<close> adds or replaces a member.\<close>

definition json_set :: "string \<Rightarrow> json \<Rightarrow> json \<Rightarrow> json" where
  "json_set k x v = (case v of JObj kvs \<Rightarrow> JObj (AList.update k x kvs) | _ \<Rightarrow> v)"

definition pr_check_observed_state ::
  "'w PollerEnv \<Rightarrow> WaitStateRecord \<Rightarrow> string \<Rightarrow> PrCheckWaitConfig \<Rightarrow> PrCheckWaitClassification \<Rightarrow> 'w \<Rightarrow> json" where
  "pr_check_observed_state env r head_sha cfg cf w =
     json_set ''wait_kind'' (wait_kind_json r)
       (json_set ''classification'' (JStr (overall_state_as_str (cf_overall_state cf)))
         (status_payload cf cfg head_sha (pk_rfc3339 env (pk_now env w))))"

definition classify_query ::
  "'w PollerEnv \<Rightarrow> string \<Rightarrow> PrCheckWaitConfig \<Rightarrow> PrCheckWaitCounters \<Rightarrow> (json list, GithubError) result \<Rightarrow> PrCheckWaitClassification" where
  "classify_query env head_sha cfg ct q =
     (case q of
        Ok rows \<Rightarrow> classify_pr_checks (pk_regexes env) head_sha (map normalize_poll_check rows) cfg ct
      | Err e \<Rightarrow> classify_api_error cfg ct (pk_error_text env e))"

definition poll_pr_checks :: "'w PollerEnv \<Rightarrow> WaitStateRecord \<Rightarrow> 'w \<Rightarrow> PollDecision \<times> 'w" where
  "poll_pr_checks env r w =
     (case (ws_pr_number r, ws_head_sha r) of
        (Some pr, Some head_sha) \<Rightarrow>
          (case pr_check_config env r of
             Err e \<Rightarrow> (terminal_failure r (pr_check_config_error_state r head_sha e), w)
           | Ok cfg \<Rightarrow>
               (let ct = counters_from_value (pk_counters_of env) (ws_last_observed_state r);
                    (q, w1) = query_pr_checks env (ws_repository r) pr head_sha w;
                    cf = classify_query env head_sha cfg ct q;
                    observed = pr_check_observed_state env r head_sha cfg cf w1
                in (case cf_overall_state cf of
                      OsPassed \<Rightarrow> ready_decision r observed
                    | OsFailed \<Rightarrow> ready_decision r observed
                    | OsFatal \<Rightarrow> terminal_failure r observed
                    | OsUnknown \<Rightarrow> terminal_failure r observed
                    | OsPendingTimeout \<Rightarrow> still_waiting_with_state env r observed w1, w1)))
      | _ \<Rightarrow> (terminal_failure r (missing_identity_state r), w))"


section \<open>Reviews by CodeRabbit\<close>

text \<open>The members and items of a value, for the searches below.\<close>

lemma json_member_size [termination_simp]:
  "kv \<in> set kvs \<Longrightarrow> size (snd kv) < Suc (size_list (size_prod (\<lambda>x. 0) size) kvs)"
  by (induction kvs) (auto simp: size_prod_def)

fun collect_comment_bodies :: "json \<Rightarrow> string list" where
  "collect_comment_bodies (JObj kvs) =
     (case str_of (map_of kvs ''body'') of Some b \<Rightarrow> [b] | None \<Rightarrow> []) @
     concat (map (\<lambda>kv. collect_comment_bodies (snd kv)) kvs)"
| "collect_comment_bodies (JArr items) = concat (map collect_comment_bodies items)"
| "collect_comment_bodies _ = []"

fun collect_login_fields :: "json \<Rightarrow> string list" where
  "collect_login_fields (JObj kvs) =
     (case str_of (map_of kvs ''login'') of Some l \<Rightarrow> [map ascii_lower l] | None \<Rightarrow> []) @
     (case str_of (map_of kvs ''slug'') of Some l \<Rightarrow> [map ascii_lower l] | None \<Rightarrow> []) @
     concat (map (\<lambda>kv. collect_login_fields (snd kv)) kvs)"
| "collect_login_fields (JArr items) = concat (map collect_login_fields items)"
| "collect_login_fields _ = []"

definition is_coderabbit_authored_comment :: "json \<Rightarrow> bool" where
  "is_coderabbit_authored_comment v \<longleftrightarrow> list_ex (str_contains ''coderabbit'') (collect_login_fields v)"

fun collect_coderabbit_comment_bodies :: "json \<Rightarrow> string list" where
  "collect_coderabbit_comment_bodies (JObj kvs) =
     (case str_of (map_of kvs ''body'') of
        Some b \<Rightarrow> (if is_coderabbit_authored_comment (JObj kvs) then [b] else [])
      | None \<Rightarrow> []) @
     concat (map (\<lambda>kv. collect_coderabbit_comment_bodies (snd kv)) kvs)"
| "collect_coderabbit_comment_bodies (JArr items) = concat (map collect_coderabbit_comment_bodies items)"
| "collect_coderabbit_comment_bodies _ = []"

text \<open>\<open>bodies.join("\n").to_ascii_lowercase()\<close>.\<close>

fun join_lines :: "string list \<Rightarrow> string" where
  "join_lines [] = []"
| "join_lines [b] = b"
| "join_lines (b # bs) = b @ CHR 0x0A # join_lines bs"

definition comments_text :: "json \<Rightarrow> string" where
  "comments_text v = map ascii_lower (join_lines (collect_comment_bodies v))"

definition coderabbit_comment_text :: "json \<Rightarrow> string" where
  "coderabbit_comment_text v = map ascii_lower (join_lines (collect_coderabbit_comment_bodies v))"

definition contains_any :: "string \<Rightarrow> string list \<Rightarrow> bool" where
  "contains_any text needles \<longleftrightarrow> list_ex (\<lambda>n. str_contains n text) needles"

definition coderabbit_has_blocking_error :: "string \<Rightarrow> bool" where
  "coderabbit_has_blocking_error text =
     contains_any text [''rate limited'', ''rate limit'', ''review limit reached'', ''run out of usage credits'',
       ''usage credits'', ''quota'', ''encountered an error'', ''review failed'']"

definition coderabbit_is_ready :: "json \<Rightarrow> bool" where
  "coderabbit_is_ready v \<longleftrightarrow>
     str_contains ''coderabbit'' (comments_text v) \<and>
     \<not> coderabbit_has_blocking_error (coderabbit_comment_text v) \<and>
     contains_any (comments_text v) [''finished reviewing'', ''review completed'', ''summary by coderabbit'', ''walkthrough'']"

definition parse_json_or_null :: "'w PollerEnv \<Rightarrow> string \<Rightarrow> json" where
  "parse_json_or_null env text = (case pk_parse env text of Ok v \<Rightarrow> v | Err _ \<Rightarrow> JNull)"

definition query_coderabbit_surfaces :: "'w PollerEnv \<Rightarrow> string \<Rightarrow> u64 \<Rightarrow> 'w \<Rightarrow> (json, GithubError) result \<times> 'w" where
  "query_coderabbit_surfaces env repo pr w =
     (let n = nat_to_string (unat pr)
      in case pk_run env [''gh'', ''api'', ''repos/'' @ repo @ ''/issues/'' @ n @ ''/comments''] w of
           (Err e, w1) \<Rightarrow> (Err e, w1)
         | (Ok issue_comments, w1) \<Rightarrow>
             (case pk_run env [''gh'', ''api'', ''repos/'' @ repo @ ''/pulls/'' @ n @ ''/comments''] w1 of
                (Err e, w2) \<Rightarrow> (Err e, w2)
              | (Ok review_comments, w2) \<Rightarrow>
                  (Ok (JObj [(''classification'', JStr ''polled''),
                             (''wait_kind'', JStr (wait_kind_to_string WkCoderabbitReview)),
                             (''issue_comments'', parse_json_or_null env issue_comments),
                             (''review_comments'', parse_json_or_null env review_comments)]), w2)))"

definition poll_coderabbit_review :: "'w PollerEnv \<Rightarrow> WaitStateRecord \<Rightarrow> 'w \<Rightarrow> PollDecision \<times> 'w" where
  "poll_coderabbit_review env r w =
     (case ws_pr_number r of
        None \<Rightarrow> (still_waiting_with_state env r (missing_identity_state r) w, w)
      | Some pr \<Rightarrow>
          (case query_coderabbit_surfaces env (ws_repository r) pr w of
             (Ok state, w1) \<Rightarrow>
               (if coderabbit_is_ready state then ready_decision r state else still_waiting_with_state env r state w1, w1)
           | (Err e, w1) \<Rightarrow> (transient_decision env r (github_error_state env e) w1, w1)))"

section \<open>Merges and human reviews\<close>

definition query_pr_state :: "'w PollerEnv \<Rightarrow> string \<Rightarrow> u64 \<Rightarrow> 'w \<Rightarrow> (json, GithubError) result \<times> 'w" where
  "query_pr_state env repo pr w =
     (case pk_run env [''gh'', ''pr'', ''view'', nat_to_string (unat pr), ''--repo'', repo, ''--json'',
              ''state,mergedAt,reviewDecision,isDraft''] w of
        (Err e, w1) \<Rightarrow> (Err e, w1)
      | (Ok out, w1) \<Rightarrow> (Ok (parse_json_or_null env out), w1))"

definition classify_pr_merge_state :: "'w PollerEnv \<Rightarrow> WaitStateRecord \<Rightarrow> json \<Rightarrow> 'w \<Rightarrow> PollDecision" where
  "classify_pr_merge_state env r state w =
     (if str_of (json_get state ''mergedAt'') \<noteq> None then ready_decision r state
      else if str_of (json_get state ''state'') = Some ''CLOSED'' then terminal_failure r state
      else still_waiting_with_state env r state w)"

definition poll_pr_merge :: "'w PollerEnv \<Rightarrow> WaitStateRecord \<Rightarrow> 'w \<Rightarrow> PollDecision \<times> 'w" where
  "poll_pr_merge env r w =
     (case ws_pr_number r of
        None \<Rightarrow> (still_waiting_with_state env r (missing_identity_state r) w, w)
      | Some pr \<Rightarrow>
          (case query_pr_state env (ws_repository r) pr w of
             (Ok state, w1) \<Rightarrow> (classify_pr_merge_state env r state w1, w1)
           | (Err e, w1) \<Rightarrow> (transient_decision env r (github_error_state env e) w1, w1)))"

definition review_decision_ready :: "json \<Rightarrow> bool" where
  "review_decision_ready state \<longleftrightarrow> str_of (json_get state ''reviewDecision'') = Some ''APPROVED''"

definition poll_human_review :: "'w PollerEnv \<Rightarrow> WaitStateRecord \<Rightarrow> 'w \<Rightarrow> PollDecision \<times> 'w" where
  "poll_human_review env r w =
     (case ws_pr_number r of
        None \<Rightarrow> (still_waiting_with_state env r (missing_identity_state r) w, w)
      | Some pr \<Rightarrow>
          (case query_pr_state env (ws_repository r) pr w of
             (Ok state, w1) \<Rightarrow>
               (if review_decision_ready state then ready_decision r state else still_waiting_with_state env r state w1, w1)
           | (Err e, w1) \<Rightarrow> (transient_decision env r (github_error_state env e) w1, w1)))"

section \<open>Scope decisions\<close>

definition poll_scope_decision :: "'w PollerEnv \<Rightarrow> WaitStateRecord \<Rightarrow> 'w \<Rightarrow> PollDecision" where
  "poll_scope_decision env r w =
     (let waiting = (\<lambda>reason extra. still_waiting_with_state env r
            (JObj ([(''classification'', JStr ''still_waiting''), (''reason'', JStr reason), (''wait_kind'', wait_kind_json r)] @ extra)) w);
          failed = (\<lambda>e. transient_decision env r
            (JObj [(''classification'', JStr ''transient_failure''), (''reason'', JStr ''scope_decision_read_error''),
                   (''wait_kind'', wait_kind_json r), (''error'', JStr e)]) w)
      in case str_of (json_get (ws_wait_condition r) ''artifact_root'') of
           None \<Rightarrow> waiting ''missing_artifact_root'' []
         | Some dir \<Rightarrow>
             (case (pk_request_digest env dir (ws_run_id r) w, pk_resolution env dir (ws_run_id r) w) of
                (Ok (Some request), Ok (Some resolution)) \<Rightarrow>
                  (if sr_measurement_digest resolution = request
                   then ready_decision r
                     (JObj [(''classification'', JStr ''resolved''), (''wait_kind'', wait_kind_json r),
                            (''decision'', JStr (scope_decision_to_string (sr_decision resolution))),
                            (''measurement_digest'', JStr (sr_measurement_digest resolution))])
                   else waiting ''stale_resolution_digest''
                     [(''request_digest'', JStr request), (''resolution_digest'', JStr (sr_measurement_digest resolution))])
              | (Ok (Some _), Ok None) \<Rightarrow> waiting ''pending_resolution'' []
              | (Ok None, _) \<Rightarrow> waiting ''no_expansion_request'' []
              | (Err e, _) \<Rightarrow> failed e
              | (_, Err e) \<Rightarrow> failed e))"

section \<open>The poller\<close>

definition poll_by_kind :: "'w PollerEnv \<Rightarrow> WaitStateRecord \<Rightarrow> WaitDb \<Rightarrow> 'w \<Rightarrow> PollDecision \<times> 'w" where
  "poll_by_kind env r db w =
     (case ws_wait_kind r of
        WkPrChecks \<Rightarrow> poll_pr_checks env r w
      | WkCoderabbitReview \<Rightarrow> poll_coderabbit_review env r w
      | WkDependencyChildWorkflow \<Rightarrow> (poll_child_workflow env r db w, w)
      | WkPrMerge \<Rightarrow> poll_pr_merge env r w
      | WkDependencyChildMerge \<Rightarrow> poll_pr_merge env r w
      | WkHumanReview \<Rightarrow> poll_human_review env r w
      | WkRateLimitBackoff \<Rightarrow>
          (still_waiting_with_state env r
             (JObj [(''classification'', JStr ''still_waiting''), (''wait_kind'', wait_kind_json r)]) w, w)
      | WkScopeDecision \<Rightarrow> (poll_scope_decision env r w, w))"

definition poll :: "'w PollerEnv \<Rightarrow> WaitStateRecord \<Rightarrow> WaitDb \<Rightarrow> 'w \<Rightarrow> PollDecision \<times> 'w" where
  "poll env r db w =
     (case timeout_decision env r w of
        Some decision \<Rightarrow> (decision, w)
      | None \<Rightarrow> poll_by_kind env r db w)"


section \<open>Every decision is well formed\<close>

text \<open>A decision for the record's run that names a next poll, after \<open>now\<close>, exactly if it keeps waiting.\<close>

definition decision_ok :: "WaitStateRecord \<Rightarrow> instant \<Rightarrow> PollDecision \<Rightarrow> bool" where
  "decision_ok r now d \<longleftrightarrow> pd_run_id d = ws_run_id r \<and>
     (case pd_next_poll_at d of
        None \<Rightarrow> pd_classification d \<in> {ReadyToResume, TerminalFailure, TimedOut}
      | Some t \<Rightarrow> pd_classification d \<in> {StillWaiting, TransientFailure} \<and> now < t \<and> t \<le> now + 86400 * 1000000000)"

lemma next_poll_time_bounded: "next_poll_time_at n now \<le> now + 86400 * 1000000000"
  by (auto simp: next_poll_time_at_def bounded_poll_interval_seconds_def MAX_POLL_INTERVAL_SECONDS_def split: option.split)

lemma decision_ok_waiting [simp]:
  "decision_ok r (pk_now env w) (still_waiting_with_state env r v w)"
  "decision_ok r (pk_now env w) (transient_decision env r v w)"
  by (simp_all add: decision_ok_def still_waiting_with_state_def transient_decision_def next_poll_time_def
      next_poll_time_later next_poll_time_bounded [simplified])

lemma decision_ok_final [simp]:
  "decision_ok r now (ready_decision r v)" "decision_ok r now (terminal_failure r v)"
  by (simp_all add: decision_ok_def ready_decision_def terminal_failure_def)

lemma not_timed_out [simp]:
  "pd_classification (still_waiting_with_state env r v w) = StillWaiting"
  "pd_classification (transient_decision env r v w) = TransientFailure"
  "pd_classification (ready_decision r v) = ReadyToResume" "pd_classification (terminal_failure r v) = TerminalFailure"
  by (simp_all add: still_waiting_with_state_def transient_decision_def ready_decision_def terminal_failure_def)

lemma poll_by_kind_ok:
  assumes "poll_by_kind env r db w = (d, w')"
  shows "decision_ok r (pk_now env w') d \<and> pd_classification d \<noteq> TimedOut"
proof (cases "ws_wait_kind r")
  case WkPrChecks
  then show ?thesis
    using assms by (auto simp: poll_by_kind_def poll_pr_checks_def Let_def split: option.splits result.splits prod.splits OverallState.splits)
next
  case WkScopeDecision
  then show ?thesis
    using assms by (auto simp: poll_by_kind_def poll_scope_decision_def Let_def split: option.splits result.splits if_splits)
qed (use assms in \<open>auto simp: poll_by_kind_def poll_coderabbit_review_def poll_pr_merge_def poll_human_review_def
      poll_child_workflow_def classify_pr_merge_state_def Let_def split: option.splits result.splits prod.splits if_splits\<close>)

text \<open>The wait has lasted longer than its limit, to the second.\<close>

definition overdue :: "WaitStateRecord \<Rightarrow> instant \<Rightarrow> bool" where
  "overdue r now =
     (case effective_max_wait_seconds r of
        None \<Rightarrow> False
      | Some n \<Rightarrow> min (uint n) i64_max < elapsed_seconds now (ws_created_at r))"

lemma timeout_decision_overdue:
  "timeout_decision env r w =
     (if overdue r (pk_now env w) then timeout_decision env r w else None)"
  "overdue r (pk_now env w) \<Longrightarrow> \<exists>d. timeout_decision env r w = Some d \<and> decision_ok r now d \<and> pd_classification d = TimedOut"
  by (auto simp: timeout_decision_def overdue_def i64_try_from_u64_def decision_ok_def min_def Let_def split: option.splits)

text \<open>
  C40: every decision of the poller is well formed, for every kind of wait and whatever GitHub,
  the file system or the store answer: it is for the run of the record; it names a next poll
  exactly when the wait goes on, strictly later and at most a day ahead; and it is a time-out
  exactly when the wait has lasted longer than its limit.
\<close>

theorem poll_decision_well_formed:
  "case poll env r db w of
     (d, w') \<Rightarrow>
       pd_run_id d = ws_run_id r \<and>
       (case pd_next_poll_at d of
          None \<Rightarrow> pd_classification d \<in> {ReadyToResume, TerminalFailure, TimedOut}
        | Some t \<Rightarrow> pd_classification d \<in> {StillWaiting, TransientFailure} \<and>
            pk_now env w' < t \<and> t \<le> pk_now env w' + 86400 * 1000000000) \<and>
       (pd_classification d = TimedOut) = overdue r (pk_now env w)"
proof (cases "overdue r (pk_now env w)")
  case True
  then obtain d where "timeout_decision env r w = Some d" "decision_ok r (pk_now env w) d" "pd_classification d = TimedOut"
    using timeout_decision_overdue(2) [of r env w "pk_now env w"] by blast
  then show ?thesis using True by (simp add: poll_def decision_ok_def)
next
  case False
  then have "timeout_decision env r w = None" using timeout_decision_overdue(1) [of env r w] by simp
  moreover obtain d w' where "poll_by_kind env r db w = (d, w')" by (cases "poll_by_kind env r db w")
  ultimately show ?thesis using poll_by_kind_ok [of env r db w d w'] False by (simp add: poll_def decision_ok_def)
qed

section \<open>Waits without progress end\<close>

text \<open>
  The polls of one wait while the answers keep it waiting: each decision's observed state is
  what the next poll reads back.
\<close>

fun poll_repeatedly :: "'w PollerEnv \<Rightarrow> nat \<Rightarrow> WaitStateRecord \<Rightarrow> WaitDb \<Rightarrow> 'w \<Rightarrow> PollDecision list" where
  "poll_repeatedly env 0 r db w = []"
| "poll_repeatedly env (Suc n) r db w =
     (let (d, w') = poll env r db w
      in d # poll_repeatedly env n (r\<lparr>ws_last_observed_state := pd_observed_state d\<rparr>) db w')"

lemma counters_read_back:
  assumes "\<And>c. pk_counters_of env (counters_to_json c) = Some c"
  shows "counters_from_value (pk_counters_of env) (pr_check_observed_state env r sha cfg cf w) = cf_counters cf"
  by (simp add: counters_from_value_def pr_check_observed_state_def json_set_def status_payload_def assms)

text \<open>A verdict that only counts up a retry counter.\<close>

definition only_counts ::
  "'w PollerEnv \<Rightarrow> WaitStateRecord \<Rightarrow> u64 \<Rightarrow> string \<Rightarrow> PrCheckWaitConfig \<Rightarrow> (PrCheckWaitCounters \<Rightarrow> u32) \<Rightarrow> u32 \<Rightarrow> bool" where
  "only_counts env r pr sha cfg sel retries \<longleftrightarrow>
     (\<forall>w ct. let cf = classify_query env sha cfg ct (fst (query_pr_checks env (ws_repository r) pr sha w))
             in sel (cf_counters cf) = saturating_inc (sel ct) \<and>
                cf_overall_state cf = (if sel (cf_counters cf) \<le> retries then OsPendingTimeout else OsFatal))"

lemma counted_polls:
  assumes "\<And>c. pk_counters_of env (counters_to_json c) = Some c"
    and "ws_wait_kind r = WkPrChecks" "ws_max_wait_seconds r = None" "ws_pr_number r = Some pr" "ws_head_sha r = Some sha"
    and "pr_check_config env r = Ok cfg" and "only_counts env r pr sha cfg sel retries"
    and "unat (sel (counters_from_value (pk_counters_of env) (ws_last_observed_state r))) + n \<le> 2 ^ 32 - 1"
  shows "map pd_classification (poll_repeatedly env n r db w) =
    map (\<lambda>j. if unat (sel (counters_from_value (pk_counters_of env) (ws_last_observed_state r))) + j + 1 \<le> unat retries
             then StillWaiting else TerminalFailure) [0..<n]"
  using assms(2-8)
proof (induction n arbitrary: r w)
  case (Suc n)
  let ?ct = "counters_from_value (pk_counters_of env) (ws_last_observed_state r)"
  obtain q w1 where q: "query_pr_checks env (ws_repository r) pr sha w = (q, w1)" by (cases "query_pr_checks env (ws_repository r) pr sha w")
  let ?cf = "classify_query env sha cfg ?ct q"
  let ?o = "pr_check_observed_state env r sha cfg ?cf w1"
  have cf: "sel (cf_counters ?cf) = saturating_inc (sel ?ct)"
    "cf_overall_state ?cf = (if saturating_inc (sel ?ct) \<le> retries then OsPendingTimeout else OsFatal)"
    using Suc.prems(6) q by (auto simp: only_counts_def Let_def dest!: spec [of _ w] spec [of _ ?ct])
  have "unat (saturating_inc (sel ?ct)) = unat (sel ?ct) + 1" using Suc.prems(7) by (simp add: unat_saturating_inc)
  then have le: "saturating_inc (sel ?ct) \<le> retries \<longleftrightarrow> unat (sel ?ct) + 1 \<le> unat retries" by (simp add: word_le_nat_alt)
  let ?d = "if unat (sel ?ct) + 1 \<le> unat retries then still_waiting_with_state env r ?o w1 else terminal_failure r ?o"
  have d: "poll env r db w = (?d, w1)"
    using Suc.prems(1-5) q cf le
    by (simp add: poll_def timeout_decision_def effective_max_wait_seconds_def poll_by_kind_def poll_pr_checks_def Let_def)
  let ?r = "r\<lparr>ws_last_observed_state := ?o\<rparr>"
  have o: "pd_observed_state ?d = ?o" by (simp add: still_waiting_with_state_def terminal_failure_def)
  have ct': "counters_from_value (pk_counters_of env) (ws_last_observed_state ?r) = cf_counters ?cf"
    using counters_read_back [OF assms(1)] by simp
  have u: "unat (sel (cf_counters ?cf)) = unat (sel ?ct) + 1"
    using cf(1) \<open>unat (saturating_inc (sel ?ct)) = unat (sel ?ct) + 1\<close> by simp
  have "map pd_classification (poll_repeatedly env n ?r db w1) =
      map (\<lambda>j. if unat (sel ?ct) + 1 + j + 1 \<le> unat retries then StillWaiting else TerminalFailure) [0..<n]"
    using Suc.IH [of ?r w1] Suc.prems ct' u by (simp add: pr_check_config_def only_counts_def)
  moreover have "[0..<Suc n] = 0 # map Suc [0..<n]" by (simp add: map_Suc_upt upt_conv_Cons del: upt_Suc)
  ultimately show ?case using d o by (simp add: comp_def del: upt_Suc)
qed simp

lemma api_errors_only_count:
  assumes "\<And>w. \<not> is_ok (fst (query_pr_checks env (ws_repository r) pr sha w))"
  shows "only_counts env r pr sha cfg ct_api_error_attempts (wc_api_error_retry_attempts cfg)"
  unfolding only_counts_def
proof (intro allI)
  fix w ct
  obtain e where "fst (query_pr_checks env (ws_repository r) pr sha w) = Err e"
    using assms [of w] by (cases "fst (query_pr_checks env (ws_repository r) pr sha w)") auto
  then show "let cf = classify_query env sha cfg ct (fst (query_pr_checks env (ws_repository r) pr sha w))
      in ct_api_error_attempts (cf_counters cf) = saturating_inc (ct_api_error_attempts ct) \<and>
        cf_overall_state cf =
          (if ct_api_error_attempts (cf_counters cf) \<le> wc_api_error_retry_attempts cfg then OsPendingTimeout else OsFatal)"
    by (simp add: classify_query_def classify_api_error_def Let_def)
qed

lemma missing_checks_only_count:
  assumes "\<And>w. \<exists>rows. fst (query_pr_checks env (ws_repository r) pr sha w) = Ok rows \<and>
      required_missing (pk_regexes env) sha cfg (map normalize_poll_check rows)"
  shows "only_counts env r pr sha cfg ct_missing_attempts (wc_missing_retry_attempts cfg)"
  unfolding only_counts_def
proof (intro allI)
  fix w ct
  obtain rows where rows: "fst (query_pr_checks env (ws_repository r) pr sha w) = Ok rows"
    and m: "required_missing (pk_regexes env) sha cfg (map normalize_poll_check rows)" using assms by blast
  show "let cf = classify_query env sha cfg ct (fst (query_pr_checks env (ws_repository r) pr sha w))
      in ct_missing_attempts (cf_counters cf) = saturating_inc (ct_missing_attempts ct) \<and>
        cf_overall_state cf =
          (if ct_missing_attempts (cf_counters cf) \<le> wc_missing_retry_attempts cfg then OsPendingTimeout else OsFatal)"
    using missing_checks_count [OF m] rows by (simp add: classify_query_def Let_def)
qed

text \<open>The polls of a wait that only counts: the retries, then the end.\<close>

lemma counted_polls_end:
  assumes "\<And>c. pk_counters_of env (counters_to_json c) = Some c"
    and "ws_wait_kind r = WkPrChecks" "ws_max_wait_seconds r = None" "ws_pr_number r = Some pr" "ws_head_sha r = Some sha"
    and "pr_check_config env r = Ok cfg" and "only_counts env r pr sha cfg sel retries"
    and "sel (counters_from_value (pk_counters_of env) (ws_last_observed_state r)) = 0" and "retries \<noteq> - 1"
  shows "map pd_classification (poll_repeatedly env (unat retries + 1) r db w) =
    replicate (unat retries) StillWaiting @ [TerminalFailure]"
proof -
  have "map pd_classification (poll_repeatedly env (unat retries + 1) r db w) =
      map (\<lambda>j. if j + 1 \<le> unat retries then StillWaiting else TerminalFailure) [0..<unat retries + 1]"
    using counted_polls [OF assms(1-7), of "unat retries + 1"] assms(8) unat_below_top [OF assms(9)] by simp
  also have "\<dots> = replicate (unat retries) StillWaiting @ [TerminalFailure]"
    by (simp add: map_replicate_const [symmetric] list_eq_iff_nth_eq nth_append)
  finally show ?thesis .
qed

text \<open>
  A check wait without progress ends. Suppose the counters stored with a decision are read
  back by the next poll (serde's round trip) and the wait has no time limit of its own. When
  every query to GitHub fails, or every answer lacks a required check while nothing required has
  failed, the wait goes on for exactly the configured number of retries and the poll after them
  is a terminal failure. (The counters live between the polls only in the observed state.)
\<close>

theorem check_wait_without_progress_ends:
  assumes "\<And>c. pk_counters_of env (counters_to_json c) = Some c"
    and "ws_wait_kind r = WkPrChecks" "ws_max_wait_seconds r = None" "ws_pr_number r = Some pr" "ws_head_sha r = Some sha"
    and "pr_check_config env r = Ok cfg"
    and "counters_from_value (pk_counters_of env) (ws_last_observed_state r) = default_counters"
    and "wc_api_error_retry_attempts cfg \<noteq> - 1" "wc_missing_retry_attempts cfg \<noteq> - 1"
  shows "((\<forall>w. \<not> is_ok (fst (query_pr_checks env (ws_repository r) pr sha w))) \<longrightarrow>
      map pd_classification (poll_repeatedly env (unat (wc_api_error_retry_attempts cfg) + 1) r db w) =
        replicate (unat (wc_api_error_retry_attempts cfg)) StillWaiting @ [TerminalFailure]) \<and>
    ((\<forall>w. \<exists>rows. fst (query_pr_checks env (ws_repository r) pr sha w) = Ok rows \<and>
        required_missing (pk_regexes env) sha cfg (map normalize_poll_check rows)) \<longrightarrow>
      map pd_classification (poll_repeatedly env (unat (wc_missing_retry_attempts cfg) + 1) r db w) =
        replicate (unat (wc_missing_retry_attempts cfg)) StillWaiting @ [TerminalFailure])"
proof (intro conjI impI)
  assume "\<forall>w. \<not> is_ok (fst (query_pr_checks env (ws_repository r) pr sha w))"
  then have "only_counts env r pr sha cfg ct_api_error_attempts (wc_api_error_retry_attempts cfg)"
    using api_errors_only_count by blast
  from counted_polls_end [OF assms(1-6) this _ assms(8)]
  show "map pd_classification (poll_repeatedly env (unat (wc_api_error_retry_attempts cfg) + 1) r db w) =
      replicate (unat (wc_api_error_retry_attempts cfg)) StillWaiting @ [TerminalFailure]"
    by (simp add: assms(7) default_counters_def)
next
  assume "\<forall>w. \<exists>rows. fst (query_pr_checks env (ws_repository r) pr sha w) = Ok rows \<and>
      required_missing (pk_regexes env) sha cfg (map normalize_poll_check rows)"
  then have "only_counts env r pr sha cfg ct_missing_attempts (wc_missing_retry_attempts cfg)"
    using missing_checks_only_count by blast
  from counted_polls_end [OF assms(1-6) this _ assms(9)]
  show "map pd_classification (poll_repeatedly env (unat (wc_missing_retry_attempts cfg) + 1) r db w) =
      replicate (unat (wc_missing_retry_attempts cfg)) StillWaiting @ [TerminalFailure]"
    by (simp add: assms(7) default_counters_def)
qed

text \<open>A GitHub that never answers.\<close>

definition json_u32 :: "json option \<Rightarrow> u32" where
  "json_u32 v = (case v of Some (JInt i) \<Rightarrow> word_of_int i | _ \<Rightarrow> 0)"

definition silent_env :: "unit PollerEnv" where
  "silent_env = \<lparr>pk_now = \<lambda>_. 50, pk_rfc3339 = \<lambda>_. ''t'', pk_run = \<lambda>_ w. (Err AuthenticationRequired, w),
     pk_error_text = \<lambda>_. ''error'', pk_parse = \<lambda>_. Ok JNull, pk_parse_rows = \<lambda>_. Ok [], pk_render = \<lambda>_. [],
     pk_policy_of = \<lambda>_. Ok default_wait_config,
     pk_counters_of = \<lambda>v. Some \<lparr>ct_missing_attempts = json_u32 (json_get v ''missing_attempts''),
       ct_api_error_attempts = json_u32 (json_get v ''api_error_attempts''), ct_poll_attempts = json_u32 (json_get v ''poll_attempts'')\<rparr>,
     pk_regexes = \<lambda>_. None, pk_runs = \<lambda>db _. Ok (db_runs db), pk_request_digest = \<lambda>_ _ _. Ok None, pk_resolution = \<lambda>_ _ _. Ok None\<rparr>"

definition check_wait :: WaitStateRecord where
  "check_wait = (wait_state_new 1 ''s'' ''r'' ''cfg'')\<lparr>ws_repository := ''o/r'', ws_pr_number := Some 5, ws_head_sha := Some ''abc''\<rparr>"

theorem check_wait_without_progress_ends_witness:
  "map pd_classification (poll_repeatedly silent_env 4 check_wait demo_wait_db ()) =
     [StillWaiting, StillWaiting, StillWaiting, TerminalFailure]"
proof -
  have codec: "pk_counters_of silent_env (counters_to_json c) = Some c" for c
    by (simp add: silent_env_def counters_to_json_def json_u32_def json_nat_def)
  have r: "ws_wait_kind check_wait = WkPrChecks" "ws_max_wait_seconds check_wait = None" "ws_pr_number check_wait = Some 5"
    "ws_head_sha check_wait = Some ''abc''" "pr_check_config silent_env check_wait = Ok default_wait_config"
    "counters_from_value (pk_counters_of silent_env) (ws_last_observed_state check_wait) = default_counters"
    by (simp_all add: check_wait_def wait_state_new_def pr_check_config_def config_from_value_def counters_from_value_def json_get_def)
  have "\<not> is_ok (fst (query_pr_checks silent_env (ws_repository check_wait) 5 ''abc'' w))" for w
    by (simp add: query_pr_checks_def silent_env_def)
  then have "map pd_classification (poll_repeatedly silent_env (unat (wc_api_error_retry_attempts default_wait_config) + 1) check_wait demo_wait_db ()) =
      replicate (unat (wc_api_error_retry_attempts default_wait_config)) StillWaiting @ [TerminalFailure]"
    using check_wait_without_progress_ends [OF codec r, of demo_wait_db "()"] by (simp add: default_wait_config_def)
  moreover have "unat (wc_api_error_retry_attempts default_wait_config) = 3" by (simp add: default_wait_config_def)
  ultimately show ?thesis by (simp add: eval_nat_numeral del: poll_repeatedly.simps)
qed


section \<open>Whose comments count\<close>

text \<open>
  The completion phrases are searched in all comments, only the error phrases in those written
  by CodeRabbit: a comment by anybody else that mentions CodeRabbit and one of the phrases makes
  the review count as finished, without any comment of CodeRabbit.
\<close>

lemma foreign_comment_finishes_review:
  "let comments = JObj [(''issue_comments'', JArr [JObj [(''user'', JObj [(''login'', JStr ''alice'')]),
         (''body'', JStr ''Where is the CodeRabbit walkthrough?'')]])]
   in coderabbit_is_ready comments \<and> collect_coderabbit_comment_bodies comments = []"
  by code_simp

section \<open>The poller in the scheduler pass\<close>

definition system_poller :: "'w PollerEnv \<Rightarrow> PollIo \<Rightarrow> 'w PollEnv" where
  "system_poller env io = \<lparr>pe_poll = poll env, pe_now = pk_now env, pe_io = io\<rparr>"

end
