(* ===== verification/Scope_Review.thy ===== *)
theory Scope_Review
  imports Scope_Gate
begin

text \<open>
  Bounded review rounds and finding dispositions (\<^verbatim>\<open>scope_control/review_state.rs\<close>,
  \<^verbatim>\<open>finding_disposition.rs\<close>). The review history and the exhaustion summary are two files of the
  run's scope-control directory.
\<close>

section \<open>Dispositions\<close>

datatype FindingCorrectness = FcBlocker | FcHigh | FcMedium | FcLow | FcInvalid

datatype FindingDeliveryScope =
    RequiredAcceptanceCriterion
  | RegressionFromCurrentPatch
  | SmallAdjacentFix
  | FollowUpIssue
  | UserDecision

fun correctness_as_str :: "FindingCorrectness \<Rightarrow> string" where
  "correctness_as_str FcBlocker = ''blocker''"
| "correctness_as_str FcHigh = ''high''"
| "correctness_as_str FcMedium = ''medium''"
| "correctness_as_str FcLow = ''low''"
| "correctness_as_str FcInvalid = ''invalid''"

definition correctness_from_str :: "string \<Rightarrow> FindingCorrectness option" where
  "correctness_from_str s =
     (if s = ''blocker'' then Some FcBlocker else if s = ''high'' then Some FcHigh
      else if s = ''medium'' then Some FcMedium else if s = ''low'' then Some FcLow
      else if s = ''invalid'' then Some FcInvalid else None)"

fun delivery_scope_as_str :: "FindingDeliveryScope \<Rightarrow> string" where
  "delivery_scope_as_str RequiredAcceptanceCriterion = ''required_acceptance_criterion''"
| "delivery_scope_as_str RegressionFromCurrentPatch = ''regression_from_current_patch''"
| "delivery_scope_as_str SmallAdjacentFix = ''small_adjacent_fix''"
| "delivery_scope_as_str FollowUpIssue = ''follow_up_issue''"
| "delivery_scope_as_str UserDecision = ''user_decision''"

definition delivery_scope_from_str :: "string \<Rightarrow> FindingDeliveryScope option" where
  "delivery_scope_from_str s =
     (if s = ''required_acceptance_criterion'' then Some RequiredAcceptanceCriterion
      else if s = ''regression_from_current_patch'' then Some RegressionFromCurrentPatch
      else if s = ''small_adjacent_fix'' then Some SmallAdjacentFix
      else if s = ''follow_up_issue'' then Some FollowUpIssue
      else if s = ''user_decision'' then Some UserDecision else None)"

interpretation correctness_codec: text_codec correctness_as_str correctness_from_str
proof
  show "correctness_from_str (correctness_as_str s) = Some s" for s
    by (cases s) (simp_all add: correctness_from_str_def)
  show "correctness_from_str t = Some s \<Longrightarrow> correctness_as_str s = t" for t s
    by (auto simp: correctness_from_str_def split: if_splits)
qed

interpretation delivery_codec: text_codec delivery_scope_as_str delivery_scope_from_str
proof
  show "delivery_scope_from_str (delivery_scope_as_str s) = Some s" for s
    by (cases s) (simp_all add: delivery_scope_from_str_def)
  show "delivery_scope_from_str t = Some s \<Longrightarrow> delivery_scope_as_str s = t" for t s
    by (auto simp: delivery_scope_from_str_def split: if_splits)
qed

record FindingDisposition =
  fd_correctness :: FindingCorrectness
  fd_delivery_scope :: FindingDeliveryScope

datatype DispositionAction = RemediateNow | DeferToFollowUp | BlockForUserDecision | IgnoreFinding

definition blocks_delivery :: "DispositionAction \<Rightarrow> bool" where
  "blocks_delivery a \<longleftrightarrow> a = BlockForUserDecision"

definition fails_delivery :: "DispositionAction \<Rightarrow> bool" where
  "fails_delivery a \<longleftrightarrow> a = BlockForUserDecision"

definition disposition_action :: "FindingCorrectness \<Rightarrow> FindingDeliveryScope \<Rightarrow> DispositionAction" where
  "disposition_action correctness scope =
     (if correctness = FcInvalid then IgnoreFinding
      else (case scope of
              FollowUpIssue \<Rightarrow> DeferToFollowUp
            | UserDecision \<Rightarrow> BlockForUserDecision
            | RequiredAcceptanceCriterion \<Rightarrow> RemediateNow
            | RegressionFromCurrentPatch \<Rightarrow> RemediateNow
            | SmallAdjacentFix \<Rightarrow> (if correctness = FcLow then DeferToFollowUp else RemediateNow)))"

definition is_mandatory_gate :: "string \<Rightarrow> string list \<Rightarrow> bool" where
  "is_mandatory_gate source gates \<longleftrightarrow> list_ex (\<lambda>gate. str_contains gate source) gates"

definition project_legacy_decision :: "string \<Rightarrow> FindingDisposition" where
  "project_legacy_decision d =
     (if d = ''valid'' then \<lparr>fd_correctness = FcHigh, fd_delivery_scope = RequiredAcceptanceCriterion\<rparr>
      else if d = ''invalid'' then \<lparr>fd_correctness = FcInvalid, fd_delivery_scope = FollowUpIssue\<rparr>
      else if d = ''out_of_scope'' then \<lparr>fd_correctness = FcLow, fd_delivery_scope = FollowUpIssue\<rparr>
      else \<lparr>fd_correctness = FcMedium, fd_delivery_scope = UserDecision\<rparr>)"

definition disposition_from_accepted_result :: "json \<Rightarrow> FindingDisposition" where
  "disposition_from_accepted_result v =
     (let text = (\<lambda>k. Option.bind (json_get v k) json_as_str);
          projected = project_legacy_decision (case text ''decision'' of Some d \<Rightarrow> d | None \<Rightarrow> [])
      in \<lparr>fd_correctness =
            (case Option.bind (text ''correctness'') correctness_from_str of
               Some c \<Rightarrow> c | None \<Rightarrow> fd_correctness projected),
          fd_delivery_scope =
            (case Option.bind (text ''delivery_scope'') delivery_scope_from_str of
               Some s \<Rightarrow> s | None \<Rightarrow> fd_delivery_scope projected)\<rparr>)"

section \<open>Review rounds\<close>

datatype ReviewKind = InitialFull | Delta | FinalAcceptance

record ReviewScope =
  rv_review_kind :: ReviewKind
  rv_merge_base :: string
  rv_from_sha :: string
  rv_to_sha :: string
  rv_changed_files :: "string list"
  rv_changed_tests :: "string list"
  rv_contextual_files :: "string list"
  rv_charter_digest :: string

record ReviewHistory =
  rh_run_id :: string
  rh_reviews :: "ReviewScope list"
  rh_mutating_remediation_rounds :: u32

datatype ReviewCheckOutcome =
    Allowed
  | SameHeadReplay
  | InitialAlreadyRecorded
  | DeltaCapExhausted u32 u32
  | FinalAlreadyRecorded
  | InitialRequiredFirst
  | BlockedAfterFinal
  | MutatingRemediationExhausted u32 u32

definition permits_review :: "ReviewCheckOutcome \<Rightarrow> bool" where
  "permits_review r \<longleftrightarrow> r = Allowed \<or> r = SameHeadReplay"

text \<open>\<open>count() as u32\<close> wraps around.\<close>

definition count_by_kind :: "ReviewHistory \<Rightarrow> ReviewKind \<Rightarrow> u32" where
  "count_by_kind h kind = of_nat (length (filter (\<lambda>r. rv_review_kind r = kind) (rh_reviews h)))"

definition check_initial :: "ReviewHistory \<Rightarrow> string \<Rightarrow> ReviewCheckOutcome" where
  "check_initial h head_sha =
     (case find (\<lambda>r. rv_review_kind r = InitialFull) (rh_reviews h) of
        Some r \<Rightarrow> (if rv_to_sha r = head_sha then SameHeadReplay else InitialAlreadyRecorded)
      | None \<Rightarrow> Allowed)"

definition check_delta :: "ReviewHistory \<Rightarrow> string \<Rightarrow> CanonicalReviewCaps \<Rightarrow> ReviewCheckOutcome" where
  "check_delta h head_sha caps =
     (if count_by_kind h InitialFull = 0 then InitialRequiredFirst
      else if count_by_kind h FinalAcceptance > 0 then BlockedAfterFinal
      else if list_ex (\<lambda>r. rv_review_kind r = Delta \<and> rv_to_sha r = head_sha) (rh_reviews h) then SameHeadReplay
      else if count_by_kind h Delta \<ge> cr_max_delta_reviews caps
      then DeltaCapExhausted (count_by_kind h Delta) (cr_max_delta_reviews caps)
      else Allowed)"

definition check_final :: "ReviewHistory \<Rightarrow> CanonicalReviewCaps \<Rightarrow> ReviewCheckOutcome" where
  "check_final h caps =
     (if count_by_kind h InitialFull = 0 then InitialRequiredFirst
      else if count_by_kind h FinalAcceptance \<ge> cr_final_acceptance_reviews caps then FinalAlreadyRecorded
      else Allowed)"

datatype ReviewExhaustionRouting = RtDeltaCapExhausted | RtMutatingRemediationExhausted | RtBlockedAfterFinal

record ReviewExhaustionSummary =
  es_routing :: ReviewExhaustionRouting
  es_run_id :: string
  es_head_sha :: string
  es_initial_reviews :: u32
  es_delta_reviews :: u32
  es_final_reviews :: u32
  es_mutating_remediation_rounds :: u32
  es_caps :: CanonicalReviewCaps
  es_charter_digest :: string
  es_written_at :: string

record ReviewFiles =
  vf_history :: "ReviewHistory artifact"
  vf_exhaustion :: "ReviewExhaustionSummary artifact"

definition REVIEW_HISTORY_FILENAME :: string where "REVIEW_HISTORY_FILENAME = ''review-history.json''"
definition EXHAUSTION_SUMMARY_FILENAME :: string where "EXHAUSTION_SUMMARY_FILENAME = ''review-exhaustion.json''"

definition read_review_history :: "ScopeEnv \<Rightarrow> string \<Rightarrow> ReviewFiles \<Rightarrow> (ReviewHistory, ScopePersistenceError) result" where
  "read_review_history env run_id fs =
     (if \<not> artifact_exists (vf_history fs)
      then Ok \<lparr>rh_run_id = run_id, rh_reviews = [], rh_mutating_remediation_rounds = 0\<rparr>
      else read_json env (vf_history fs))"

definition write_review_history ::
  "ScopeEnv \<Rightarrow> string \<Rightarrow> ReviewHistory \<Rightarrow> ReviewFiles \<Rightarrow> ReviewFiles \<times> (unit, ScopePersistenceError) result" where
  "write_review_history env artifact_dir h fs =
     (let (a, r) = write_updatable_json env
            (path_join (scope_control_dir artifact_dir (rh_run_id h)) REVIEW_HISTORY_FILENAME) h (vf_history fs)
      in (fs\<lparr>vf_history := a\<rparr>, r))"

definition write_exhaustion_summary ::
  "ScopeEnv \<Rightarrow> string \<Rightarrow> ReviewExhaustionSummary \<Rightarrow> ReviewFiles \<Rightarrow> ReviewFiles \<times> (unit, ScopePersistenceError) result" where
  "write_exhaustion_summary env artifact_dir s fs =
     (let (a, r) = write_updatable_json env
            (path_join (scope_control_dir artifact_dir (es_run_id s)) EXHAUSTION_SUMMARY_FILENAME) s (vf_exhaustion fs)
      in (fs\<lparr>vf_exhaustion := a\<rparr>, r))"

definition read_exhaustion_summary ::
  "ScopeEnv \<Rightarrow> ReviewFiles \<Rightarrow> (ReviewExhaustionSummary option, ScopePersistenceError) result" where
  "read_exhaustion_summary env fs =
     (if \<not> artifact_exists (vf_exhaustion fs) then Ok None else map_ok Some (read_json env (vf_exhaustion fs)))"

definition append_review :: "string \<Rightarrow> ReviewScope \<Rightarrow> ReviewHistory \<Rightarrow> ReviewHistory" where
  "append_review run_id scope h = h\<lparr>rh_run_id := run_id, rh_reviews := rh_reviews h @ [scope]\<rparr>"

definition record_review ::
  "ScopeEnv \<Rightarrow> string \<Rightarrow> string \<Rightarrow> ReviewScope \<Rightarrow> CanonicalReviewCaps \<Rightarrow> ReviewFiles \<Rightarrow>
   ReviewFiles \<times> (ReviewCheckOutcome, ScopePersistenceError) result" where
  "record_review env artifact_dir run_id scope caps fs =
     (case read_review_history env run_id fs of
        Err e \<Rightarrow> (fs, Err e)
      | Ok h \<Rightarrow>
          (let outcome = (case rv_review_kind scope of
                 InitialFull \<Rightarrow> check_initial h (rv_to_sha scope)
               | Delta \<Rightarrow> check_delta h (rv_to_sha scope) caps
               | FinalAcceptance \<Rightarrow> check_final h caps)
           in if outcome = Allowed
              then let (fs1, r) = write_review_history env artifact_dir (append_review run_id scope h) fs
                   in (fs1, map_ok (\<lambda>_. outcome) r)
              else (fs, Ok outcome)))"

record PreLaunchReviewRequest =
  pq_run_id :: string
  pq_head_sha :: string
  pq_merge_base :: string
  pq_changed_files :: "string list"
  pq_changed_tests :: "string list"
  pq_charter_digest :: string
  pq_caps :: CanonicalReviewCaps
  pq_now_rfc3339 :: string

definition build_exhaustion_summary ::
  "ReviewHistory \<Rightarrow> PreLaunchReviewRequest \<Rightarrow> ReviewExhaustionRouting \<Rightarrow> u32 \<Rightarrow> ReviewExhaustionSummary" where
  "build_exhaustion_summary h q routing delta_reviews =
     \<lparr>es_routing = routing, es_run_id = pq_run_id q, es_head_sha = pq_head_sha q,
      es_initial_reviews = count_by_kind h InitialFull, es_delta_reviews = delta_reviews,
      es_final_reviews = count_by_kind h FinalAcceptance,
      es_mutating_remediation_rounds = rh_mutating_remediation_rounds h, es_caps = pq_caps q,
      es_charter_digest = pq_charter_digest q, es_written_at = pq_now_rfc3339 q\<rparr>"

definition build_review_scope :: "ReviewKind \<Rightarrow> PreLaunchReviewRequest \<Rightarrow> string \<Rightarrow> ReviewScope" where
  "build_review_scope kind q from_sha =
     \<lparr>rv_review_kind = kind, rv_merge_base = pq_merge_base q, rv_from_sha = from_sha, rv_to_sha = pq_head_sha q,
      rv_changed_files = pq_changed_files q, rv_changed_tests = pq_changed_tests q, rv_contextual_files = [],
      rv_charter_digest = pq_charter_digest q\<rparr>"

definition last_reviewed_head :: "ReviewHistory \<Rightarrow> string option" where
  "last_reviewed_head h =
     map_option rv_to_sha
       (find (\<lambda>r. rv_review_kind r = InitialFull \<or> rv_review_kind r = Delta) (rev (rh_reviews h)))"

text \<open>A refusal leaves a summary for the terminal step.\<close>

definition refuse_review ::
  "ScopeEnv \<Rightarrow> string \<Rightarrow> ReviewHistory \<Rightarrow> PreLaunchReviewRequest \<Rightarrow> ReviewExhaustionRouting \<Rightarrow> u32 \<Rightarrow>
   ReviewCheckOutcome \<Rightarrow> ReviewFiles \<Rightarrow> ReviewFiles \<times> (ReviewCheckOutcome, ScopePersistenceError) result" where
  "refuse_review env artifact_dir h q routing deltas outcome fs =
     (let (fs1, r) = write_exhaustion_summary env artifact_dir (build_exhaustion_summary h q routing deltas) fs
      in (fs1, map_ok (\<lambda>_. outcome) r))"

definition handle_delta_exhaustion ::
  "ScopeEnv \<Rightarrow> string \<Rightarrow> ReviewHistory \<Rightarrow> PreLaunchReviewRequest \<Rightarrow> ReviewCheckOutcome \<Rightarrow> ReviewFiles \<Rightarrow>
   ReviewFiles \<times> (ReviewCheckOutcome, ScopePersistenceError) result" where
  "handle_delta_exhaustion env artifact_dir h q outcome fs =
     (case outcome of
        DeltaCapExhausted used cap \<Rightarrow>
          refuse_review env artifact_dir h q RtDeltaCapExhausted used (DeltaCapExhausted used cap) fs
      | _ \<Rightarrow> (fs, Ok outcome))"

definition evaluate_delta ::
  "ScopeEnv \<Rightarrow> string \<Rightarrow> ReviewHistory \<Rightarrow> PreLaunchReviewRequest \<Rightarrow> ReviewFiles \<Rightarrow>
   ReviewFiles \<times> (ReviewCheckOutcome, ScopePersistenceError) result" where
  "evaluate_delta env artifact_dir h q fs =
     (if last_reviewed_head h = Some (pq_head_sha q) then (fs, Ok SameHeadReplay)
      else if rh_mutating_remediation_rounds h \<ge> cr_max_mutating_remediation_rounds (pq_caps q)
      then refuse_review env artifact_dir h q RtMutatingRemediationExhausted (count_by_kind h Delta)
             (MutatingRemediationExhausted (rh_mutating_remediation_rounds h)
               (cr_max_mutating_remediation_rounds (pq_caps q))) fs
      else
       (case check_delta h (pq_head_sha q) (pq_caps q) of
          Allowed \<Rightarrow>
            (let h1 = append_review (pq_run_id q)
                   (build_review_scope Delta q
                     (case last_reviewed_head h of Some sha \<Rightarrow> sha | None \<Rightarrow> pq_merge_base q))
                   (h\<lparr>rh_mutating_remediation_rounds := rh_mutating_remediation_rounds h + 1\<rparr>);
                 (fs1, r) = write_review_history env artifact_dir h1 fs
             in (fs1, map_ok (\<lambda>_. Allowed) r))
        | SameHeadReplay \<Rightarrow> (fs, Ok SameHeadReplay)
        | other \<Rightarrow> handle_delta_exhaustion env artifact_dir h q other fs))"

definition pre_launch_review_gate ::
  "ScopeEnv \<Rightarrow> string \<Rightarrow> PreLaunchReviewRequest \<Rightarrow> ReviewFiles \<Rightarrow>
   ReviewFiles \<times> (ReviewCheckOutcome, ScopePersistenceError) result" where
  "pre_launch_review_gate env artifact_dir q fs =
     (case read_review_history env (pq_run_id q) fs of
        Err e \<Rightarrow> (fs, Err e)
      | Ok h \<Rightarrow>
          (if count_by_kind h FinalAcceptance > 0
           then refuse_review env artifact_dir h q RtBlockedAfterFinal (count_by_kind h Delta) BlockedAfterFinal fs
           else if count_by_kind h InitialFull > 0 then evaluate_delta env artifact_dir h q fs
           else
            (let scope = build_review_scope InitialFull q (pq_merge_base q);
                 outcome = check_initial h (pq_head_sha q)
             in if outcome = Allowed
                then let (fs1, r) = write_review_history env artifact_dir (append_review (pq_run_id q) scope h) fs
                     in (fs1, map_ok (\<lambda>_. outcome) r)
                else (fs, Ok outcome))))"

definition record_final_acceptance ::
  "ScopeEnv \<Rightarrow> string \<Rightarrow> string \<Rightarrow> string \<Rightarrow> string \<Rightarrow> string \<Rightarrow> CanonicalReviewCaps \<Rightarrow> ReviewFiles \<Rightarrow>
   ReviewFiles \<times> (ReviewCheckOutcome, ScopePersistenceError) result" where
  "record_final_acceptance env artifact_dir run_id head_sha merge_base charter_digest caps fs =
     record_review env artifact_dir run_id
       \<lparr>rv_review_kind = FinalAcceptance, rv_merge_base = merge_base, rv_from_sha = merge_base, rv_to_sha = head_sha,
        rv_changed_files = [], rv_changed_tests = [], rv_contextual_files = [], rv_charter_digest = charter_digest\<rparr>
       caps fs"

definition ends_with :: "string \<Rightarrow> string \<Rightarrow> bool" where
  "ends_with suf s \<longleftrightarrow> starts_with (rev suf) (rev s)"

definition is_test_file :: "string \<Rightarrow> bool" where
  "is_test_file path =
     (let normalized = map (\<lambda>c. if c = CHR 0x5C then CHR 0x2F else c) path;
          base = last (split_char CHR 0x2F normalized)
      in starts_with ''tests/'' normalized \<or> str_contains ''/tests/'' normalized \<or>
         starts_with ''test_'' base \<or> starts_with ''tests_'' base \<or> ends_with ''_test.rs'' base \<or>
         ends_with ''_test.go'' base \<or> ends_with ''_test.py'' base \<or> base = ''test.rs'' \<or>
         ends_with ''.test.ts'' base \<or> ends_with ''.test.tsx'' base \<or> ends_with ''.test.js'' base)"

definition filter_changed_tests :: "string list \<Rightarrow> string list" where
  "filter_changed_tests files = filter is_test_file files"

end
