(* ===== verification/Scope_Steps.thy ===== *)
theory Scope_Steps
  imports Scope_Review
begin

text \<open>
  The steps of scope control: the charter step (\<^verbatim>\<open>scope_control/task_charter.rs\<close>), the measuring
  step (\<^verbatim>\<open>scope_measure.rs\<close>) and the snapshot taken on a timeout (\<^verbatim>\<open>timeout_recovery.rs\<close>).
  Serde's decoders and printers are parameters.
\<close>

section \<open>Timeouts\<close>

datatype TimeoutKind = WallClockTimeout | IdleTimeout

record MappedChange =
  mc_path :: string
  mc_subsystem :: "string option"

record ProcessEvidence =
  pe_exit_code :: "int option"
  pe_wall_clock_timeout :: bool
  pe_process_killed :: bool

record TimeoutSnapshot =
  ts_run_id :: string
  ts_charter_id :: string
  ts_charter_digest :: string
  ts_timeout_kind :: TimeoutKind
  ts_measurement :: PatchMeasurement
  ts_mapped_changes :: "MappedChange list"
  ts_partial_compile_configured :: bool
  ts_partial_compile_passed :: "bool option"
  ts_process_evidence :: ProcessEvidence
  ts_recovery_required :: bool
  ts_created_at :: instant

record TimeoutRecoveryStatus =
  tr_recovery_required :: bool
  tr_timeout_kind :: TimeoutKind
  tr_unmapped_path_count :: u32
  tr_mapped_changes_count :: u32
  tr_partial_compile_configured :: bool
  tr_partial_compile_passed :: "bool option"

definition recovery_status_from_snapshot :: "TimeoutSnapshot \<Rightarrow> TimeoutRecoveryStatus" where
  "recovery_status_from_snapshot s =
     \<lparr>tr_recovery_required = ts_recovery_required s, tr_timeout_kind = ts_timeout_kind s,
      tr_unmapped_path_count = of_nat (length (filter (\<lambda>c. mc_subsystem c = None) (ts_mapped_changes s))),
      tr_mapped_changes_count = of_nat (length (ts_mapped_changes s)),
      tr_partial_compile_configured = ts_partial_compile_configured s,
      tr_partial_compile_passed = ts_partial_compile_passed s\<rparr>"

text \<open>The longest matching prefix decides, the last one of equal length.\<close>

fun longest :: "(nat \<times> string) option \<Rightarrow> (nat \<times> string) list \<Rightarrow> (nat \<times> string) option" where
  "longest best [] = best"
| "longest best ((n, s) # rest) =
     longest (case best of None \<Rightarrow> Some (n, s) | Some (m, t) \<Rightarrow> if n \<ge> m then Some (n, s) else Some (m, t)) rest"

definition find_subsystem :: "string \<Rightarrow> CanonicalTaskCharter \<Rightarrow> string option" where
  "find_subsystem path charter =
     map_option snd (longest None
       (concat (map (\<lambda>(sub, prefixes). map (\<lambda>p. (length p, sub)) (filter (\<lambda>p. p \<noteq> [] \<and> is_path_under path p) prefixes))
         (tc_subsystems charter))))"

definition map_changes_to_subsystems :: "string list \<Rightarrow> CanonicalTaskCharter \<Rightarrow> MappedChange list" where
  "map_changes_to_subsystems paths charter =
     map (\<lambda>p. \<lparr>mc_path = p, mc_subsystem = find_subsystem p charter\<rparr>) paths"

definition TIMEOUT_SNAPSHOT_FILENAME :: string where "TIMEOUT_SNAPSHOT_FILENAME = ''timeout-snapshot.json''"

definition read_timeout_snapshot ::
  "ScopeEnv \<Rightarrow> TimeoutSnapshot artifact \<Rightarrow> (TimeoutSnapshot option, ScopePersistenceError) result" where
  "read_timeout_snapshot env a = (if a = Absent then Ok None else map_ok Some (read_json env a))"

definition handle_timeout_recovery ::
  "ScopeEnv \<Rightarrow> string \<Rightarrow> string \<Rightarrow> CanonicalTaskCharter \<Rightarrow> PatchMeasurement \<Rightarrow> TimeoutKind \<Rightarrow> bool \<Rightarrow> ProcessEvidence \<Rightarrow>
   TimeoutSnapshot artifact \<Rightarrow> TimeoutSnapshot artifact \<times> (TimeoutSnapshot, ScopePersistenceError) result" where
  "handle_timeout_recovery env artifact_dir run_id charter m kind compile_configured evidence a =
     (let s = \<lparr>ts_run_id = run_id, ts_charter_id = tc_charter_id charter, ts_charter_digest = tc_digest charter,
            ts_timeout_kind = kind, ts_measurement = m,
            ts_mapped_changes = map_changes_to_subsystems (pm_changed_paths m) charter,
            ts_partial_compile_configured = compile_configured, ts_partial_compile_passed = None,
            ts_process_evidence = evidence, ts_recovery_required = True, ts_created_at = sn_now env\<rparr>;
          (a1, r) = write_updatable_json env
            (path_join (scope_control_dir artifact_dir run_id) TIMEOUT_SNAPSHOT_FILENAME) s a
      in (a1, map_ok (\<lambda>_. s) r))"

section \<open>Policy\<close>

record ScopeDecoders =
  sd_config_text :: "string \<Rightarrow> (ScopeControlConfig, string) result"
  sd_profile_value :: "json \<Rightarrow> (ScopeControlConfig, string) result"
  sd_config_value :: "json \<Rightarrow> (ScopeControlConfig, string) result"
  sd_string_list :: "string \<Rightarrow> string list option"
  sd_measurement_text :: "PatchMeasurement \<Rightarrow> string"
  sd_evaluation_text :: "ScopeEvaluation \<Rightarrow> string"

definition resolve_scope_control ::
  "ScopeDecoders \<Rightarrow> (string \<Rightarrow> EngineError) \<Rightarrow> StepContext \<Rightarrow> json \<Rightarrow> (ScopeControlConfig option, EngineError) result" where
  "resolve_scope_control dec fail ctx params =
     (case ctx_get ctx ''scope_control_policy'' of
        Some text \<Rightarrow>
          map_ok active_scope_control
            (map_err (\<lambda>e. fail (''invalid scope_control_policy context: '' @ e)) (sd_config_text dec text))
      | None \<Rightarrow>
          (case json_get params ''target_profile'' of
             Some v \<Rightarrow>
               map_ok active_scope_control
                 (map_err (\<lambda>e. fail (''invalid target_profile parameter: '' @ e)) (sd_profile_value dec v))
           | None \<Rightarrow>
               (case json_get params ''scope_control'' of
                  Some v \<Rightarrow>
                    map_ok active_scope_control
                      (map_err (\<lambda>e. fail (''invalid scope_control parameter: '' @ e)) (sd_config_value dec v))
                | None \<Rightarrow> Ok None)))"

section \<open>The charter step\<close>

definition charter_error :: "string \<Rightarrow> EngineError" where
  "charter_error m = StepExecutionError ''task_charter'' m"

definition first_of :: "StepContext \<Rightarrow> string \<Rightarrow> string \<Rightarrow> string option" where
  "first_of ctx a b = (case ctx_get ctx a of Some v \<Rightarrow> Some v | None \<Rightarrow> ctx_get ctx b)"

text \<open>\<open>git merge-base\<close>; the messages are those of \<open>MergeBaseError\<close>.\<close>

definition resolve_merge_base :: "MeasureEnv \<Rightarrow> string \<Rightarrow> (string, string) result" where
  "resolve_merge_base menv base_branch =
     (if starts_with ''-'' base_branch then Err (''invalid option-like base branch: '' @ base_branch)
      else
       (case me_git menv [''merge-base'', base_branch, ''HEAD''] of
          Err e \<Rightarrow> Err (''failed to invoke git: '' @ e)
        | Ok out \<Rightarrow>
            (if \<not> go_success out then Err (trim (me_lossy menv (go_stderr out)))
             else let sha = trim (me_lossy menv (go_stdout out))
                  in if sha = [] then Err ''git merge-base returned empty output'' else Ok sha)))"

definition resolve_base_branch :: "StepContext \<Rightarrow> string" where
  "resolve_base_branch ctx =
     (case ctx_get ctx ''base_branch'' of
        Some b \<Rightarrow> (if trim b \<noteq> [] then trim b else ''main'')
      | None \<Rightarrow> ''main'')"

fun json_strings :: "json list \<Rightarrow> string list" where
  "json_strings [] = []"
| "json_strings (v # vs) = (case json_as_str v of Some s \<Rightarrow> s # json_strings vs | None \<Rightarrow> json_strings vs)"

definition param_strings :: "json \<Rightarrow> string \<Rightarrow> string list" where
  "param_strings params key = (case json_get params key of Some (JArr vs) \<Rightarrow> json_strings vs | _ \<Rightarrow> [])"

definition context_list :: "ScopeDecoders \<Rightarrow> StepContext \<Rightarrow> string \<Rightarrow> string list" where
  "context_list dec ctx key =
     (case ctx_get ctx key of
        Some text \<Rightarrow> (case sd_string_list dec text of Some xs \<Rightarrow> xs | None \<Rightarrow> [])
      | None \<Rightarrow> [])"

definition derive_default_acceptance_criteria :: "StepContext \<Rightarrow> string list" where
  "derive_default_acceptance_criteria ctx =
     (let issue = (case Option.bind (first_of ctx ''primary_issue_number'' ''issue_number'') parse_u64 of
                     Some n \<Rightarrow> n | None \<Rightarrow> 0);
          subsystems = (case ctx_get ctx ''task_charter_subsystem_ids'' of
                          Some v \<Rightarrow> map trim (split_char CHR 0x2C v) | None \<Rightarrow> [])
      in (''Implementation addresses the requirements of issue #'' @ nat_to_string issue) #
         map (\<lambda>sub. ''Changes scoped to declared subsystem '' @ quoted sub) (filter (\<lambda>s. s \<noteq> []) subsystems))"

definition derive_default_non_goals :: "StepContext \<Rightarrow> string list" where
  "derive_default_non_goals ctx =
     [''No refactoring unrelated to the target issue'', ''No new dependencies unless required by the fix''] @
     (case ctx_get ctx ''task_charter_mandatory_gates'' of
        Some gates \<Rightarrow> (if trim gates \<noteq> [] then [''No weakening of mandatory gates: '' @ gates] else [])
      | None \<Rightarrow> [])"

definition resolve_acceptance_criteria :: "ScopeDecoders \<Rightarrow> StepContext \<Rightarrow> json \<Rightarrow> string list" where
  "resolve_acceptance_criteria dec ctx params =
     (if context_list dec ctx ''task_charter_acceptance_criteria'' \<noteq> []
      then context_list dec ctx ''task_charter_acceptance_criteria''
      else if param_strings params ''acceptance_criteria'' \<noteq> [] then param_strings params ''acceptance_criteria''
      else derive_default_acceptance_criteria ctx)"

definition resolve_non_goals :: "ScopeDecoders \<Rightarrow> StepContext \<Rightarrow> json \<Rightarrow> string list" where
  "resolve_non_goals dec ctx params =
     (if context_list dec ctx ''task_charter_non_goals'' \<noteq> [] then context_list dec ctx ''task_charter_non_goals''
      else if param_strings params ''non_goals'' \<noteq> [] then param_strings params ''non_goals''
      else derive_default_non_goals ctx)"

definition build_draft ::
  "ScopeDecoders \<Rightarrow> ScopeControlConfig \<Rightarrow> string \<Rightarrow> string \<Rightarrow> StepContext \<Rightarrow> json \<Rightarrow> TaskCharterDraft" where
  "build_draft dec sc run_id merge_base ctx params =
     \<lparr>dt_charter_id = (case Option.bind (json_get params ''charter_id'') json_as_str of
                         Some s \<Rightarrow> s | None \<Rightarrow> ''SCOPE-'' @ run_id),
      dt_issue_number = of_nat (case Option.bind (json_get params ''issue_number'') json_as_u64 of
                           Some n \<Rightarrow> n
                         | None \<Rightarrow> (case Option.bind (first_of ctx ''primary_issue_number'' ''issue_number'') parse_u64 of
                                      Some n \<Rightarrow> n | None \<Rightarrow> 0)),
      dt_run_id = run_id, dt_merge_base = merge_base,
      dt_acceptance_criteria = resolve_acceptance_criteria dec ctx params,
      dt_non_goals = resolve_non_goals dec ctx params,
      dt_subsystems = map (\<lambda>s. \<lparr>dr_id = su_id s, dr_paths = su_paths s\<rparr>) (sx_subsystems sc),
      dt_budget = \<lparr>du_max_files_changed = sb_max_files_changed (sx_budget sc),
        du_max_added_lines = sb_max_added_lines (sx_budget sc), du_max_new_modules = sb_max_new_modules (sx_budget sc),
        du_max_dependencies_added = sb_max_dependencies_added (sx_budget sc),
        du_max_public_apis_added = sb_max_public_apis_added (sx_budget sc)\<rparr>,
      dt_review_caps = \<lparr>dv_initial_full_reviews = sv_initial_full_reviews (sx_review_caps sc),
        dv_max_delta_reviews = sv_max_delta_reviews (sx_review_caps sc),
        dv_final_acceptance_reviews = sv_final_acceptance_reviews (sx_review_caps sc),
        dv_max_mutating_remediation_rounds = sv_max_mutating_remediation_rounds (sx_review_caps sc)\<rparr>,
      dt_mandatory_gates = sx_mandatory_gates sc\<rparr>"

definition task_charter_execute ::
  "ScopeEnv \<Rightarrow> MeasureEnv \<Rightarrow> ScopeDecoders \<Rightarrow> StepContext \<Rightarrow> json \<Rightarrow> scope_store \<Rightarrow>
   scope_store \<times> StepContext \<times> (StepOutcome, EngineError) result" where
  "task_charter_execute env menv dec ctx params store =
     (case resolve_scope_control dec charter_error ctx params of
        Err e \<Rightarrow> (store, ctx, Err e)
      | Ok None \<Rightarrow> (store, ctx, Ok Success)
      | Ok (Some sc) \<Rightarrow>
          (case resolve_merge_base menv (resolve_base_branch ctx) of
             Err e \<Rightarrow> (store, ctx, Err (charter_error (''merge-base resolution failed: '' @ e)))
           | Ok merge_base \<Rightarrow>
               (let draft = build_draft dec sc (cx_run_id ctx) merge_base ctx params
                in case validate_draft_against_config draft sc of
                     Err e \<Rightarrow> (store, ctx, Err (charter_error e))
                   | Ok _ \<Rightarrow>
                       (let canonical = normalize_charter (sn_sha256 env) (sn_charter_json env) draft;
                            artifact_dir = barrier_artifact_dir ctx
                        in case sn_write_fault env artifact_dir of
                             Some e \<Rightarrow> (store, ctx, Err (charter_error (''failed to create artifact dir: '' @ e)))
                           | None \<Rightarrow>
                               (let dir = scope_control_dir artifact_dir (tc_run_id canonical);
                                    (fs, r) = persist_charter_and_status env artifact_dir canonical (store dir)
                                in case r of
                                     Err e \<Rightarrow> (store(dir := fs), ctx, Err (charter_error (persistence_error_to_string e)))
                                   | Ok (charter_p, status_p) \<Rightarrow>
                                       (store(dir := fs),
                                        ctx_set ''task_charter_status_path'' status_p
                                          (ctx_set ''task_charter_path'' charter_p
                                            (ctx_set ''task_charter_merge_base'' (tc_merge_base canonical)
                                              (ctx_set ''task_charter_digest'' (tc_digest canonical) ctx))),
                                        Ok Success))))))"

section \<open>The measuring step\<close>

definition measure_error :: "string \<Rightarrow> EngineError" where
  "measure_error m = StepExecutionError ''scope_measure'' m"

definition bool_text :: "bool \<Rightarrow> string" where
  "bool_text b = (if b then ''true'' else ''false'')"

definition gate_outcome_label :: "ScopeGateOutcome \<Rightarrow> string" where
  "gate_outcome_label g =
     (case g of OverBudgetNeedsRequest \<Rightarrow> ''needs_request'' | PendingResolution \<Rightarrow> ''pending_resolution''
      | GateDenied _ \<Rightarrow> ''denied'' | _ \<Rightarrow> ''blocked'')"

definition expose_measurement_outputs ::
  "ScopeDecoders \<Rightarrow> PatchMeasurement \<Rightarrow> ScopeEvaluation \<Rightarrow> StepContext \<Rightarrow> StepContext" where
  "expose_measurement_outputs dec m ev ctx =
     fold (\<lambda>(k, v). ctx_set k v)
       [(''scope_measure_head_sha'', pm_head_sha m), (''scope_measure_merge_base'', pm_merge_base m),
        (''scope_measure_divergence'', nat_to_string (unat (pm_divergence m))),
        (''scope_measure_files_changed'', nat_to_string (unat (pm_files_changed m))),
        (''scope_measure_added_lines'', nat_to_string (unat (pm_added_lines m))),
        (''scope_measure_new_modules'', nat_to_string (unat (pm_new_modules m))),
        (''scope_measure_dependencies_added'', nat_to_string (unat (pm_dependencies_added m))),
        (''scope_measure_public_apis_added'', nat_to_string (unat (pm_public_apis_added m))),
        (''scope_measure_within_budget'', bool_text (ev_within_budget ev)),
        (''scope_measure_violation_count'', nat_to_string (length (ev_violations ev))),
        (''scope_measure_result'', sd_measurement_text dec m),
        (''scope_measure_evaluation'', sd_evaluation_text dec ev)] ctx"

definition enforce_gate ::
  "ScopeEnv \<Rightarrow> string \<Rightarrow> CanonicalTaskCharter \<Rightarrow> PatchMeasurement \<Rightarrow> ScopeEvaluation \<Rightarrow> StepContext \<Rightarrow> ScopeFiles \<Rightarrow>
   ScopeFiles \<times> StepContext \<times> (StepOutcome option, EngineError) result" where
  "enforce_gate env artifact_dir charter m ev ctx fs =
     (if ev_within_budget ev \<and> ev_violations ev = [] then (fs, ctx, Ok None)
      else
       (case check_scope_gate env charter m ev fs of
          Err e \<Rightarrow> (fs, ctx, Err (measure_error (persistence_error_to_string e)))
        | Ok gate \<Rightarrow>
            (if allows_mutation gate then (fs, ctx, Ok None)
             else
              (let request = build_expansion_request env (cx_run_id ctx) charter m ev;
                   (fs1, r) = (if gate = OverBudgetNeedsRequest then write_expansion_request env artifact_dir request fs
                               else (fs, Ok ()))
               in case r of
                    Err e \<Rightarrow> (fs1, ctx, Err (measure_error (persistence_error_to_string e)))
                  | Ok _ \<Rightarrow>
                      (fs1,
                       ctx_set ''artifact_root'' artifact_dir
                         (ctx_set ''scope_measure_gate_outcome'' (gate_outcome_label gate)
                           (ctx_set ''scope_measure_expansion_request_digest'' (sq_measurement_digest request) ctx)),
                       Ok (Some Wait))))))"

definition scope_measure_execute ::
  "ScopeEnv \<Rightarrow> MeasureEnv \<Rightarrow> ScopeDecoders \<Rightarrow> StepContext \<Rightarrow> json \<Rightarrow> scope_store \<Rightarrow>
   scope_store \<times> StepContext \<times> (StepOutcome, EngineError) result" where
  "scope_measure_execute env menv dec ctx params store =
     (case resolve_scope_control dec measure_error ctx params of
        Err e \<Rightarrow> (store, ctx, Err e)
      | Ok None \<Rightarrow> (store, ctx, Ok Success)
      | Ok (Some sc) \<Rightarrow>
          (case first_of ctx ''artifact_dir'' ''artifact_root'' of
             None \<Rightarrow> (store, ctx, Err (measure_error ''scope-control requires artifact_dir or artifact_root''))
           | Some artifact_dir \<Rightarrow>
               (let dir = scope_control_dir artifact_dir (cx_run_id ctx); fs = store dir
                in case read_json env (sf_charter fs) of
                     Err e \<Rightarrow> (store, ctx, Err (measure_error (''failed to read charter at '' @
                                path_join dir CHARTER_FILENAME @ '': '' @ persistence_error_to_string e)))
                   | Ok charter \<Rightarrow>
                       (case measure_worktree menv ctx sc charter of
                          Err e \<Rightarrow> (store, ctx, Err (measure_error (measurement_error_to_string e)))
                        | Ok m \<Rightarrow>
                            (let ev = evaluate m charter
                             in case update_status_measurement env artifact_dir (cx_run_id ctx) m ev fs of
                                  (fs1, Err e) \<Rightarrow>
                                    (store(dir := fs1), ctx, Err (measure_error (persistence_error_to_string e)))
                                | (fs1, Ok _) \<Rightarrow>
                                    (case enforce_gate env artifact_dir charter m ev ctx fs1 of
                                       (fs2, ctx1, Err e) \<Rightarrow> (store(dir := fs2), ctx1, Err e)
                                     | (fs2, ctx1, Ok (Some outcome)) \<Rightarrow> (store(dir := fs2), ctx1, Ok outcome)
                                     | (fs2, ctx1, Ok None) \<Rightarrow>
                                         (store(dir := fs2), expose_measurement_outputs dec m ev ctx1, Ok Success)))))))"

end
