(* ===== verification/Charter_Properties.thy ===== *)
theory Charter_Properties
  imports Scope_Steps
begin

text \<open>
  Properties of charters and measurements: accepted drafts are confined by the configuration, the
  canonical form does not depend on order or repetition, and a measurement misses no change.
\<close>

section \<open>Canonical collections\<close>

lemma btree_set_canonical: "btree_set xs = sorted_list_of_set (set xs)"
  by (simp add: btree_set_def sorted_list_of_set_sort_remdups)

lemma set_btree_set [simp]: "set (btree_set xs) = set xs"
  by (simp add: btree_set_def)

lemma distinct_btree_set [simp]: "distinct (btree_set xs)"
  by (simp add: btree_set_def)

lemma keys_btree_map [simp]: "map fst (btree_map kvs) = btree_set (map fst kvs)"
  by (simp add: btree_map_def comp_def)

lemma map_of_rev: "distinct (map fst kvs) \<Longrightarrow> map_of (rev kvs) = map_of kvs"
  by (subst map_of_inject_set) (simp_all add: rev_map [symmetric])

lemma btree_map_canonical:
  "distinct (map fst kvs) \<Longrightarrow> distinct (map fst kvs') \<Longrightarrow> set kvs = set kvs' \<Longrightarrow> btree_map kvs = btree_map kvs'"
  using map_of_inject_set [of kvs kvs']
  by (simp add: btree_map_def btree_set_canonical map_of_rev)

lemma set_btree_map:
  assumes "distinct (map fst kvs)"
  shows "set (btree_map kvs) = set kvs"
proof -
  have "(k, the (map_of kvs k)) \<in> set kvs" if "k \<in> fst ` set kvs" for k
  proof -
    from that obtain v where "map_of kvs k = Some v" by (metis map_of_eq_None_iff not_None_eq)
    then show ?thesis using map_of_SomeD by fastforce
  qed
  moreover have "(k, v) \<in> (\<lambda>k. (k, the (map_of kvs k))) ` fst ` set kvs" if "(k, v) \<in> set kvs" for k v
    using that map_of_is_SomeI [OF assms that] by force
  ultimately show ?thesis by (auto simp: btree_map_def map_of_rev [OF assms])
qed

lemma btree_map_members: "(k, v) \<in> set (btree_map kvs) \<Longrightarrow> (k, v) \<in> set kvs"
proof -
  assume "(k, v) \<in> set (btree_map kvs)"
  then have k: "k \<in> fst ` set (rev kvs)" and v: "v = the (map_of (rev kvs) k)" by (auto simp: btree_map_def)
  from k obtain w where "map_of (rev kvs) k = Some w" by (metis map_of_eq_None_iff not_None_eq)
  with v show ?thesis using map_of_SomeD [of "rev kvs" k w] by simp
qed

section \<open>Spelling of paths\<close>

abbreviation nonempty_segments :: "string \<Rightarrow> string list" where
  "nonempty_segments p \<equiv> filter (\<lambda>s. s \<noteq> []) (split_char CHR 0x2F p)"

lemma split_char_Cons: "c \<noteq> d \<Longrightarrow> split_char d (c # cs) = (c # hd (split_char d cs)) # tl (split_char d cs)"
proof -
  have "split_char d cs \<noteq> []" by (induction cs) (auto split: list.splits)
  then show "c \<noteq> d \<Longrightarrow> ?thesis" by (auto split: list.splits)
qed

lemma split_char_not_Nil [simp]: "split_char d cs \<noteq> []"
  by (induction cs) (auto split: list.splits)

lemma strip_repeated_segments:
  "nonempty_segments (strip_repeated b p) = nonempty_segments p"
  "hd p \<noteq> CHR 0x2F \<or> \<not> b \<Longrightarrow> hd (split_char CHR 0x2F (strip_repeated b p)) = hd (split_char CHR 0x2F p)"
proof (induction p arbitrary: b)
  case (Cons c p)
  { case 1 show ?case
    proof (cases "c = CHR 0x2F")
      case False
      have *: "filter (\<lambda>s. s \<noteq> []) (tl (split_char CHR 0x2F (strip_repeated False p))) = filter (\<lambda>s. s \<noteq> []) (tl (split_char CHR 0x2F p))"
        using Cons.IH(1) [of False] Cons.IH(2) [of False]
        by (cases "split_char CHR 0x2F (strip_repeated False p)"; cases "split_char CHR 0x2F p") (auto split: if_splits)
      show ?thesis using False Cons.IH(2) [of False] * by (simp add: split_char_Cons del: split_char.simps(2))
    qed (use Cons.IH(1) in auto) }
  { case 2 then show ?case
      using Cons.IH(2) [of False] by (cases "c = CHR 0x2F") (auto simp add: split_char_Cons simp del: split_char.simps(2), simp_all) }
qed simp_all

lemma trailing_slashes_segments:
  "nonempty_segments (rev (dropWhile (\<lambda>c. c = CHR 0x2F) (rev p))) = nonempty_segments p"
proof (induction p rule: rev_induct)
  case (snoc c p)
  have "nonempty_segments (p @ [CHR 0x2F]) = nonempty_segments p"
  proof (induction p)
    case (Cons d p)
    show ?case
    proof (cases "d = CHR 0x2F")
      case False
      have "hd (split_char CHR 0x2F (p @ [CHR 0x2F])) = hd (split_char CHR 0x2F p)"
        by (induction p) (auto split: list.splits)
      moreover from this have "filter (\<lambda>s. s \<noteq> []) (tl (split_char CHR 0x2F (p @ [CHR 0x2F]))) = filter (\<lambda>s. s \<noteq> []) (tl (split_char CHR 0x2F p))"
        using Cons.IH by (cases "split_char CHR 0x2F (p @ [CHR 0x2F])"; cases "split_char CHR 0x2F p") (auto split: if_splits)
      ultimately show ?thesis using False by (simp add: split_char_Cons del: split_char.simps(2))
    qed (use Cons.IH in auto)
  qed simp
  with snoc show ?case by simp
qed simp

lemma unsafe_iff_segments: "unsafe_components p \<longleftrightarrow> starts_with ''/'' p \<or> ''..'' \<in> set (nonempty_segments p)"
proof -
  have "ParentDir \<in> set (concat (map segment_component segs)) \<longleftrightarrow> ''..'' \<in> set segs"
    "RootDir \<notin> set (concat (map segment_component segs))" for segs
    by (induction segs) (auto split: if_splits)
  then show ?thesis by (auto simp: unsafe_components_def components_of_path_def Let_def list_ex_iff)
qed

text \<open>
  A path in which normalization finds no separator that the check of its components did not see: no
  backslash, and no empty first component behind a leading dot.
\<close>

definition plain_path :: "string \<Rightarrow> bool" where
  "plain_path p \<longleftrightarrow> CHR 0x5C \<notin> set p \<and> \<not> starts_with ''.//'' p"

lemma starts_with_slash_trim:
  "starts_with ''/'' (rev (dropWhile (\<lambda>c. c = CHR 0x2F) (rev p))) \<Longrightarrow> starts_with ''/'' p"
proof -
  have "\<exists>q. p = rev (dropWhile (\<lambda>c. c = CHR 0x2F) (rev p)) @ q"
    by (metis rev_append rev_rev_ident takeWhile_dropWhile_id)
  then show "starts_with ''/'' (rev (dropWhile (\<lambda>c. c = CHR 0x2F) (rev p))) \<Longrightarrow> ?thesis"
    by (metis append.assoc starts_with_iff)
qed

lemma normalized_safe:
  assumes plain: "plain_path p" and safe: "\<not> unsafe_components p"
  shows "\<not> unsafe_components (normalize_path_prefix p)"
proof -
  define s where "s = (case strip_prefix ''./'' p of Some s \<Rightarrow> s | None \<Rightarrow> p)"
  have forward: "map (\<lambda>c. if c = CHR 0x5C then CHR 0x2F else c) p = p"
    using plain by (auto simp: plain_path_def intro!: map_idI)
  have s: "\<not> starts_with ''/'' s" "''..'' \<notin> set (nonempty_segments s)"
  proof -
    have *: "\<not> starts_with ''/'' p" "''..'' \<notin> set (nonempty_segments p)"
      using safe by (auto simp: unsafe_iff_segments)
    have "\<not> starts_with ''/'' s \<and> ''..'' \<notin> set (nonempty_segments s)"
    proof (cases "starts_with ''./'' p")
      case True
      then obtain t where t: "p = ''./'' @ t" by (auto simp: starts_with_iff)
      then have "s = t" by (simp add: s_def strip_prefix_def starts_with_def)
      moreover have "\<not> starts_with ''/'' t" using plain t by (auto simp: plain_path_def starts_with_iff)
      ultimately show ?thesis using *(2) t by auto
    next
      case False
      then show ?thesis using * by (simp add: s_def strip_prefix_def)
    qed
    then show "\<not> starts_with ''/'' s" "''..'' \<notin> set (nonempty_segments s)" by blast+
  qed
  have "\<not> starts_with ''/'' (strip_repeated_slashes s)"
    using s(1) by (cases s) (auto simp: starts_with_def strip_repeated_slashes_def)
  then show ?thesis
    using s(2) starts_with_slash_trim
    by (auto simp: unsafe_iff_segments normalize_path_prefix_def forward s_def [symmetric]
        trailing_slashes_segments strip_repeated_segments strip_repeated_slashes_def)
qed
section \<open>Accepted drafts\<close>

lemma first_failure_no: "first_failure cs = Ok u \<Longrightarrow> (bad, message) \<in> set cs \<Longrightarrow> \<not> bad"
  using first_failure_Ok [of cs] by auto

lemma ceiling_check_Ok:
  "first_failure (ceiling_check name actual limit # cs) = Ok u \<longleftrightarrow> actual \<le> limit \<and> first_failure cs = Ok u"
  by (auto simp: ceiling_check_def)

lemma check_draft_paths_Ok:
  "check_draft_paths sub prefixes paths = Ok u \<longleftrightarrow>
   (\<forall>p \<in> set paths. \<exists>q \<in> set prefixes. is_path_within (normalize_path_prefix p) q)"
  by (induction paths) (auto simp: list_ex_iff)

lemma check_draft_subsystems_Ok:
  "check_draft_subsystems config_map seen subs = Ok u \<Longrightarrow>
   distinct (map dr_id subs) \<and> set (map dr_id subs) \<inter> set seen = {} \<and>
   (\<forall>s \<in> set subs. \<exists>c. map_of config_map (dr_id s) = Some c \<and> list_all (\<lambda>p. \<not> unsafe_components p) (dr_paths s) \<and>
      (\<forall>p \<in> set (dr_paths s). \<exists>q \<in> set (su_paths c). is_path_within (normalize_path_prefix p) (normalize_path_prefix q)))"
proof (induction subs arbitrary: seen)
  case (Cons s subs)
  from Cons.prems obtain c v where c: "map_of config_map (dr_id s) = Some c"
    and s: "dr_id s \<notin> set seen" "\<not> list_ex unsafe_components (dr_paths s)"
    and p: "check_draft_paths (dr_id s) (map normalize_path_prefix (su_paths c)) (dr_paths s) = Ok v"
    and rest: "check_draft_subsystems config_map (dr_id s # seen) subs = Ok u"
    by (auto split: if_splits option.splits result.splits)
  from Cons.IH [OF rest] s p c show ?case
    by (auto simp: check_draft_paths_Ok list_ex_iff list_all_iff)
qed simp

text \<open>
  The bounds of the configuration on a charter made of a draft: ceilings on the budget, and for each
  subsystem of the charter a configured one and one of the draft with the same identifier, whose
  paths in normal form are those of the charter. No path of the draft climbs with \<open>..\<close> or starts at
  the root as written; in normal form each lies, component by component, below a prefix of the
  configured subsystem, and, if it is written plainly, still does not climb and is still relative, so
  that it names something below the prefix.
\<close>

definition path_confined :: "ScopeSubsystemConfig \<Rightarrow> string \<Rightarrow> bool" where
  "path_confined s p \<longleftrightarrow>
     \<not> unsafe_components p \<and>
     (\<exists>q \<in> set (su_paths s). is_path_within (normalize_path_prefix p) (normalize_path_prefix q)) \<and>
     (plain_path p \<longrightarrow> \<not> unsafe_components (normalize_path_prefix p))"

definition charter_confined :: "ScopeControlConfig \<Rightarrow> TaskCharterDraft \<Rightarrow> CanonicalTaskCharter \<Rightarrow> bool" where
  "charter_confined config d c \<longleftrightarrow>
     cu_max_files_changed (tc_budget c) \<le> sb_max_files_changed (sx_budget config) \<and>
     cu_max_added_lines (tc_budget c) \<le> sb_max_added_lines (sx_budget config) \<and>
     cu_max_new_modules (tc_budget c) \<le> sb_max_new_modules (sx_budget config) \<and>
     cu_max_dependencies_added (tc_budget c) \<le> sb_max_dependencies_added (sx_budget config) \<and>
     cu_max_public_apis_added (tc_budget c) \<le> sb_max_public_apis_added (sx_budget config) \<and>
     distinct (map fst (tc_subsystems c)) \<and>
     (\<forall>(sub, paths) \<in> set (tc_subsystems c). \<exists>s \<in> set (sx_subsystems config). \<exists>t \<in> set (dt_subsystems d).
        su_id s = sub \<and> dr_id t = sub \<and> set paths = normalize_path_prefix ` set (dr_paths t) \<and>
        (\<forall>p \<in> set (dr_paths t). path_confined s p))"

lemma draft_ceilings:
  assumes "validate_budget_ceiling d b = Ok u"
  shows "du_max_files_changed d \<le> sb_max_files_changed b \<and> du_max_added_lines d \<le> sb_max_added_lines b \<and>
    du_max_new_modules d \<le> sb_max_new_modules b \<and> du_max_dependencies_added d \<le> sb_max_dependencies_added b \<and>
    du_max_public_apis_added d \<le> sb_max_public_apis_added b"
  using assms by (simp only: validate_budget_ceiling_def ceiling_check_Ok simp_thms)

lemma draft_checks:
  assumes "validate_draft_against_config d config = Ok u"
  shows "validate_budget_ceiling (dt_budget d) (sx_budget config) = Ok ()"
    and "validate_draft_subsystems (dt_subsystems d) (sx_subsystems config) = Ok ()"
  using assms by (auto simp: validate_draft_against_config_def split: result.splits)

lemma canonical_subsystem_keys: "map fst (canonical_subsystems subs) = btree_set (map dr_id subs)"
  by (simp add: canonical_subsystems_def comp_def)

lemma normalize_charter_fields:
  "tc_subsystems (normalize_charter h cj d) = canonical_subsystems (dt_subsystems d)"
  "tc_budget (normalize_charter h cj d) =
     \<lparr>cu_max_files_changed = du_max_files_changed (dt_budget d), cu_max_added_lines = du_max_added_lines (dt_budget d),
      cu_max_new_modules = du_max_new_modules (dt_budget d),
      cu_max_dependencies_added = du_max_dependencies_added (dt_budget d),
      cu_max_public_apis_added = du_max_public_apis_added (dt_budget d)\<rparr>"
  by (simp_all add: normalize_charter_def Let_def)

lemma canonical_subsystems_confined:
  assumes ok: "validate_draft_subsystems subs config_subs = Ok u" and mem: "(sub, paths) \<in> set (canonical_subsystems subs)"
  shows "\<exists>s \<in> set config_subs. \<exists>t \<in> set subs. su_id s = sub \<and> dr_id t = sub \<and>
    set paths = normalize_path_prefix ` set (dr_paths t) \<and> (\<forall>p \<in> set (dr_paths t). path_confined s p)"
proof -
  from mem obtain t where t: "t \<in> set subs" "sub = dr_id t" "set paths = normalize_path_prefix ` set (dr_paths t)"
    by (auto simp: canonical_subsystems_def dest!: btree_map_members)
  from bspec [OF check_draft_subsystems_Ok [OF ok [unfolded validate_draft_subsystems_def], THEN conjunct2, THEN conjunct2] t(1)]
  obtain c where c: "map_of (btree_map (map (\<lambda>c. (su_id c, c)) config_subs)) (dr_id t) = Some c"
    and safe: "list_all (\<lambda>p. \<not> unsafe_components p) (dr_paths t)"
    and p: "\<forall>p \<in> set (dr_paths t). \<exists>q \<in> set (su_paths c). is_path_within (normalize_path_prefix p) (normalize_path_prefix q)"
    by blast
  from c have "(dr_id t, c) \<in> set (map (\<lambda>c. (su_id c, c)) config_subs)" by (rule btree_map_members [OF map_of_SomeD])
  then have "c \<in> set config_subs" "su_id c = dr_id t" by auto
  moreover have "\<forall>p \<in> set (dr_paths t). path_confined c p"
    using p safe by (auto simp: path_confined_def list_all_iff dest: normalized_safe)
  ultimately show ?thesis using t by blast
qed

text \<open>
  C23: a draft that passes validation yields a charter confined by the configuration: none of the five
  budget ceilings is exceeded, the subsystems have distinct identifiers, each configured, and their
  paths are the normalized paths of the draft. As written no path of the draft contains a parent
  component or starts at the root; normalized, each is equal to or lies below a normalized prefix of
  the configured subsystem; and a normalized path is still relative and free of parent components,
  unless the draft wrote it with a backslash or with a leading dot and two slashes.
\<close>

theorem accepted_charter_is_confined:
  assumes "validate_draft_against_config d config = Ok ()"
  shows "charter_confined config d (normalize_charter h cj d)"
proof -
  note ok = draft_checks [OF assms]
  show ?thesis
    using draft_ceilings [OF ok(1)] canonical_subsystems_confined [OF ok(2)]
    unfolding charter_confined_def normalize_charter_fields canonical_subsystem_keys by auto
qed

definition example_limits :: ScopeControlConfig where
  "example_limits = \<lparr>sx_enabled = True,
     sx_budget = \<lparr>sb_max_files_changed = 5, sb_max_added_lines = 100, sb_max_new_modules = 2,
       sb_max_dependencies_added = 0, sb_max_public_apis_added = 3\<rparr>,
     sx_review_caps = \<lparr>sv_initial_full_reviews = 1, sv_max_delta_reviews = 2, sv_final_acceptance_reviews = 1,
       sv_max_mutating_remediation_rounds = 2\<rparr>,
     sx_subsystems = [\<lparr>su_id = ''core'', su_paths = [''src/'', ''tests'']\<rparr>], sx_dependency_manifests = [],
     sx_mandatory_command_groups = [], sx_partial_compile_command = None, sx_partial_compile_group = None,
     sx_measurement = \<lparr>sm_source_extensions = [''rs''], sm_public_api_regexes = [],
       sm_disable_rename_inference = True, sm_enumerate_untracked = True\<rparr>,
     sx_mandatory_gates = [''g'']\<rparr>"

definition example_draft :: "string list \<Rightarrow> TaskCharterDraft" where
  "example_draft paths = \<lparr>dt_charter_id = ''c'', dt_issue_number = 7, dt_run_id = ''r'', dt_merge_base = ''h'',
     dt_acceptance_criteria = [''a''], dt_non_goals = [''n''], dt_subsystems = [\<lparr>dr_id = ''core'', dr_paths = paths\<rparr>],
     dt_budget = \<lparr>du_max_files_changed = 4, du_max_added_lines = 100, du_max_new_modules = 1,
       du_max_dependencies_added = 0, du_max_public_apis_added = 3\<rparr>,
     dt_review_caps = \<lparr>dv_initial_full_reviews = 1, dv_max_delta_reviews = 2, dv_final_acceptance_reviews = 1,
       dv_max_mutating_remediation_rounds = 2\<rparr>,
     dt_mandatory_gates = [''g'']\<rparr>"

theorem accepted_charter_is_confined_witness:
  "charter_confined example_limits (example_draft [''./src//engine/'', ''tests''])
     (normalize_charter (\<lambda>x. x) (\<lambda>_. []) (example_draft [''./src//engine/'', ''tests'']))"
proof -
  have "validate_draft_against_config (example_draft [''./src//engine/'', ''tests'']) example_limits = Ok ()" by code_simp
  then show ?thesis by (rule accepted_charter_is_confined)
qed

text \<open>
  The check for unsafe components looks at the path as written, in which a backslash separates
  nothing, and normalization makes it a separator: a path that climbs out of the repository is
  accepted below \<open>src\<close>.
\<close>

lemma backslash_path_escapes:
  "validate_draft_against_config (example_draft [''src'' @ [CHR 0x5C] @ ''..'' @ [CHR 0x5C] @ ''..'' @ [CHR 0x5C] @ ''etc'']) example_limits = Ok ()"
  "tc_subsystems (normalize_charter (\<lambda>x. x) (\<lambda>_. [])
     (example_draft [''src'' @ [CHR 0x5C] @ ''..'' @ [CHR 0x5C] @ ''..'' @ [CHR 0x5C] @ ''etc''])) =
     [(''core'', [''src/../../etc''])]"
  "unsafe_components ''src/../../etc''"
  by code_simp+

text \<open>
  Nor does the check see the root that appears when normalization strips a leading dot from a path
  with two slashes behind it: below a configured prefix that stands for the whole repository, such a
  path is accepted and stored as an absolute one.
\<close>

lemma dotted_root_path_escapes:
  "validate_draft_against_config (example_draft [''.//etc''])
     (example_limits\<lparr>sx_subsystems := [\<lparr>su_id = ''core'', su_paths = [''./'']\<rparr>]\<rparr>) = Ok ()"
  "tc_subsystems (normalize_charter (\<lambda>x. x) (\<lambda>_. []) (example_draft [''.//etc''])) = [(''core'', [''/etc''])]"
  by code_simp+

section \<open>The canonical form\<close>

text \<open>
  Two drafts of one task: equal but for the order and repetition of list entries and the spelling of
  paths.
\<close>

definition same_task :: "TaskCharterDraft \<Rightarrow> TaskCharterDraft \<Rightarrow> bool" where
  "same_task d e \<longleftrightarrow>
     dt_charter_id d = dt_charter_id e \<and> dt_issue_number d = dt_issue_number e \<and> dt_run_id d = dt_run_id e \<and>
     dt_merge_base d = dt_merge_base e \<and> dt_budget d = dt_budget e \<and> dt_review_caps d = dt_review_caps e \<and>
     set (dt_acceptance_criteria d) = set (dt_acceptance_criteria e) \<and> set (dt_non_goals d) = set (dt_non_goals e) \<and>
     set (dt_mandatory_gates d) = set (dt_mandatory_gates e) \<and>
     (\<lambda>s. (dr_id s, normalize_path_prefix ` set (dr_paths s))) ` set (dt_subsystems d) =
       (\<lambda>s. (dr_id s, normalize_path_prefix ` set (dr_paths s))) ` set (dt_subsystems e)"

lemma accepted_ids_distinct:
  "validate_draft_against_config d config = Ok () \<Longrightarrow> distinct (map dr_id (dt_subsystems d))"
  using draft_checks(2) check_draft_subsystems_Ok unfolding validate_draft_subsystems_def by blast

lemma canonical_pairs:
  "(\<lambda>s. (dr_id s, btree_set (map normalize_path_prefix (dr_paths s)))) =
   (\<lambda>(i, ps). (i, sorted_list_of_set ps)) \<circ> (\<lambda>s. (dr_id s, normalize_path_prefix ` set (dr_paths s)))"
  by (simp add: fun_eq_iff btree_set_canonical)

lemma canonical_subsystems_same:
  assumes "distinct (map dr_id subs)" "distinct (map dr_id subs')"
    and "(\<lambda>s. (dr_id s, normalize_path_prefix ` set (dr_paths s))) ` set subs =
      (\<lambda>s. (dr_id s, normalize_path_prefix ` set (dr_paths s))) ` set subs'"
  shows "canonical_subsystems subs = canonical_subsystems subs'"
  unfolding canonical_subsystems_def
proof (rule btree_map_canonical)
  show "set (map (\<lambda>s. (dr_id s, btree_set (map normalize_path_prefix (dr_paths s)))) subs) =
      set (map (\<lambda>s. (dr_id s, btree_set (map normalize_path_prefix (dr_paths s)))) subs')"
    using assms(3) by (simp only: canonical_pairs set_map image_comp [symmetric])
qed (use assms(1,2) in \<open>simp_all add: comp_def\<close>)

text \<open>
  The canonical charter is a normal form. Two accepted drafts of one task that differ in the order
  or repetition of criteria, non-goals, gates, subsystems and paths, or in the spelling of paths that
  normalize alike, have the same canonical charter, and so the same digest; and each list of it is
  sorted and free of repetition.
\<close>

theorem charter_is_canonical:
  assumes "validate_draft_against_config d config = Ok ()" "validate_draft_against_config e config' = Ok ()"
    and "same_task d e"
  shows "normalize_charter h cj d = normalize_charter h cj e \<and>
    sorted_wrt (<) (tc_acceptance_criteria (normalize_charter h cj d)) \<and>
    sorted_wrt (<) (map fst (tc_subsystems (normalize_charter h cj d)))"
proof -
  have subs: "canonical_subsystems (dt_subsystems d) = canonical_subsystems (dt_subsystems e)"
    using assms accepted_ids_distinct by (intro canonical_subsystems_same) (auto simp: same_task_def)
  have "normalize_charter h cj d = normalize_charter h cj e"
    using assms(3) by (simp add: normalize_charter_def Let_def subs btree_set_canonical same_task_def)
  moreover have "sorted_wrt (<) (btree_set xs)" for xs by (simp add: btree_set_canonical strict_sorted_iff)
  ultimately show ?thesis
    by (simp add: normalize_charter_fields canonical_subsystem_keys) (simp add: normalize_charter_def Let_def)
qed

theorem charter_is_canonical_witness:
  "tc_digest (normalize_charter (\<lambda>x. x) (\<lambda>c. concat (map as_bytes (concat (map snd (tc_subsystems c)))))
       (example_draft [''tests'', ''./src//engine'', ''tests/''])) =
   tc_digest (normalize_charter (\<lambda>x. x) (\<lambda>c. concat (map as_bytes (concat (map snd (tc_subsystems c)))))
       (example_draft [''src/engine/'', ''tests'']))"
proof -
  have "validate_draft_against_config (example_draft [''tests'', ''./src//engine'', ''tests/'']) example_limits = Ok ()"
    "validate_draft_against_config (example_draft [''src/engine/'', ''tests'']) example_limits = Ok ()"
    "same_task (example_draft [''tests'', ''./src//engine'', ''tests/'']) (example_draft [''src/engine/'', ''tests''])"
    by code_simp+
  from charter_is_canonical [OF this] show ?thesis by simp
qed

section \<open>Complete measurements\<close>

lemma dedup_paths_head: "cs \<noteq> [] \<Longrightarrow> dedup_paths cs \<noteq> [] \<and> hd (dedup_paths cs) = hd cs"
  by (induction cs rule: dedup_paths.induct) auto

lemma set_dedup_paths: "fh_path ` set (dedup_paths cs) = fh_path ` set cs"
  by (induction cs rule: dedup_paths.induct) auto

lemma dedup_paths_sorted: "sorted (map fh_path cs) \<Longrightarrow> sorted_wrt (<) (map fh_path (dedup_paths cs))"
proof (induction cs rule: dedup_paths.induct)
  case (3 c d cs)
  show ?case
  proof (cases "fh_path c = fh_path d")
    case True
    then show ?thesis using 3 by simp
  next
    case False
    have "fh_path c < x" if "x \<in> fh_path ` set (dedup_paths (d # cs))" for x
    proof -
      from that have "fh_path d \<le> x" unfolding set_dedup_paths using "3.prems" by auto
      moreover have "fh_path c < fh_path d" using "3.prems" False by (simp add: less_le)
      ultimately show ?thesis by simp
    qed
    then show ?thesis using 3 False by auto
  qed
qed simp_all

lemma all_changes_paths:
  "map fh_path (all_changes env tracked untracked) = btree_set (map fh_path (all_changes env tracked untracked))"
proof -
  have "sorted_wrt (<) (map fh_path (all_changes env tracked untracked))"
    unfolding all_changes_def by (rule dedup_paths_sorted) (rule sorted_sort_key)
  then show ?thesis
    unfolding btree_set_canonical
    by (intro sorted_list_of_set.idem_if_sorted_distinct [symmetric]) (simp_all add: strict_sorted_iff)
qed

lemma all_changes_set: "fh_path ` set (all_changes env tracked untracked) = fh_path ` set tracked \<union> set untracked"
  unfolding all_changes_def set_dedup_paths set_sort set_append set_map image_Un image_image
  by (simp add: untracked_change_def)

lemma changed_subsystems_set:
  "set (compute_changed_subsystems paths c) =
   {sub. \<exists>prefixes p q. (sub, prefixes) \<in> set (tc_subsystems c) \<and> p \<in> set paths \<and> q \<in> set prefixes \<and> is_path_under p q}"
proof (intro set_eqI iffI)
  have eq: "set (compute_changed_subsystems paths c) =
      (\<Union>p \<in> set paths. fst ` {s \<in> set (tc_subsystems c). \<exists>q \<in> set (snd s). is_path_under p q})"
    by (simp add: compute_changed_subsystems_def list_ex_iff split_beta)
  fix sub
  {
    assume "sub \<in> set (compute_changed_subsystems paths c)"
    then obtain p s q where "p \<in> set paths" "s \<in> set (tc_subsystems c)" "q \<in> set (snd s)" "is_path_under p q" "sub = fst s"
      unfolding eq by blast
    then show "sub \<in> {sub. \<exists>prefixes p q. (sub, prefixes) \<in> set (tc_subsystems c) \<and> p \<in> set paths \<and> q \<in> set prefixes \<and>
        is_path_under p q}" by (cases s) auto
  next
    assume "sub \<in> {sub. \<exists>prefixes p q. (sub, prefixes) \<in> set (tc_subsystems c) \<and> p \<in> set paths \<and> q \<in> set prefixes \<and>
        is_path_under p q}"
    then obtain prefixes p q where "(sub, prefixes) \<in> set (tc_subsystems c)" "p \<in> set paths" "q \<in> set prefixes"
      "is_path_under p q" by blast
    then show "sub \<in> set (compute_changed_subsystems paths c)"
      unfolding eq by (intro UN_I [of p] image_eqI [of _ fst "(sub, prefixes)"]) auto
  }
qed

lemma untracked_kept:
  "patch_untracked_files env data run required = Ok untracked \<Longrightarrow>
   set untracked = set (gp_untracked_files data) - (if me_ownership env run = None then {WORKSPACE_OWNER_MARKER} else {})"
  by (auto simp: patch_untracked_files_def split: option.splits if_splits)

text \<open>The changed paths of a patch: all of them but the marker of a workspace the run owns.\<close>

definition patch_paths :: "MeasureEnv \<Rightarrow> GitPatchData \<Rightarrow> string \<Rightarrow> string set" where
  "patch_paths env data run =
     fh_path ` set (gp_tracked_changes data) \<union>
     (set (gp_untracked_files data) - (if me_ownership env run = None then {WORKSPACE_OWNER_MARKER} else {}))"

lemma compute_measurement_Ok:
  assumes "compute_measurement env data c run required config diffs = Ok m"
  shows "tc_run_id c = run \<and> set (pm_changed_paths m) = patch_paths env data run \<and>
    pm_changed_paths m = map fh_path (pm_file_details m) \<and> sorted_wrt (<) (pm_changed_paths m) \<and>
    pm_files_changed m = u32_clamp (length (pm_file_details m)) \<and>
    pm_changed_subsystems m = compute_changed_subsystems (pm_changed_paths m) c"
proof -
  from assms obtain untracked where u: "patch_untracked_files env data run required = Ok untracked"
    and run: "tc_run_id c = run"
    and d: "pm_file_details m = all_changes env (gp_tracked_changes data) untracked"
    and p: "pm_changed_paths m = btree_set (map fh_path (all_changes env (gp_tracked_changes data) untracked))"
    and f: "pm_files_changed m = u32_clamp (length (all_changes env (gp_tracked_changes data) untracked))"
    and s: "pm_changed_subsystems m = compute_changed_subsystems (pm_changed_paths m) c"
    by (auto simp: compute_measurement_def Let_def split: result.splits if_splits)
  have "set (pm_changed_paths m) = patch_paths env data run"
    by (simp add: p all_changes_set untracked_kept [OF u] patch_paths_def)
  moreover have "sorted_wrt (<) (pm_changed_paths m)" by (simp add: p btree_set_canonical strict_sorted_iff)
  moreover have "pm_changed_paths m = map fh_path (pm_file_details m)" unfolding p d by (rule all_changes_paths [symmetric])
  ultimately show ?thesis using run f s d by simp
qed

lemma u32_clamp_nat: "unat (u32_clamp n) = min n (2 ^ 32 - 1)"
proof -
  have "uint (u32_clamp n) = min (int n) U32_MAX"
    by (simp add: u32_clamp_def uint_word_of_int U32_MAX_def min_def)
  then show ?thesis by (simp add: unat_eq_nat_uint U32_MAX_def min_def)
qed

section \<open>A run with one line outside its charter\<close>

definition example_charter :: CanonicalTaskCharter where
  "example_charter = \<lparr>tc_schema_version = 1, tc_charter_id = ''SCOPE-r'', tc_issue_number = 7, tc_run_id = ''r'',
     tc_merge_base = ''h'', tc_acceptance_criteria = [''a''], tc_non_goals = [''n''],
     tc_subsystems = [(''core'', [''src''])],
     tc_budget = \<lparr>cu_max_files_changed = 5, cu_max_added_lines = 5, cu_max_new_modules = 5,
       cu_max_dependencies_added = 5, cu_max_public_apis_added = 5\<rparr>,
     tc_review_caps = \<lparr>cr_initial_full_reviews = 1, cr_max_delta_reviews = 2, cr_final_acceptance_reviews = 1,
       cr_max_mutating_remediation_rounds = 2\<rparr>,
     tc_mandatory_gates = [''g''], tc_digest = ''d''\<rparr>"

definition example_policy :: ScopeControlConfig where
  "example_policy = \<lparr>sx_enabled = True,
     sx_budget = \<lparr>sb_max_files_changed = 5, sb_max_added_lines = 5, sb_max_new_modules = 5,
       sb_max_dependencies_added = 5, sb_max_public_apis_added = 5\<rparr>,
     sx_review_caps = \<lparr>sv_initial_full_reviews = 1, sv_max_delta_reviews = 2, sv_final_acceptance_reviews = 1,
       sv_max_mutating_remediation_rounds = 2\<rparr>,
     sx_subsystems = [\<lparr>su_id = ''core'', su_paths = [''src'']\<rparr>], sx_dependency_manifests = [],
     sx_mandatory_command_groups = [], sx_partial_compile_command = None, sx_partial_compile_group = None,
     sx_measurement = \<lparr>sm_source_extensions = [''rs''], sm_public_api_regexes = [],
       sm_disable_rename_inference = True, sm_enumerate_untracked = True\<rparr>,
     sx_mandatory_gates = [''g'']\<rparr>"

text \<open>A repository at the merge base with one line added to the file \<open>x\<close>.\<close>

definition example_git :: "string list \<Rightarrow> (GitOutput, string) result" where
  "example_git args =
     (let out = (\<lambda>t. Ok \<lparr>go_code = Some 0, go_stdout = t, go_stderr = []\<rparr>)
      in if args = [''rev-parse'', ''HEAD''] then out (as_bytes ''h'')
         else if args = [''diff'', ''HEAD'', ''--numstat'', ''--no-renames'', ''-z''] then out [0x31, 9, 0x30, 9, 0x78, 0]
         else if args = [''diff'', ''HEAD'', ''--name-status'', ''--no-renames'', ''-z''] then out [0x4D, 0, 0x78, 0]
         else out [])"

definition example_tools :: MeasureEnv where
  "example_tools = \<lparr>me_git = example_git, me_read = (\<lambda>_. Ok [0x61, 10]), me_utf8_error = (\<lambda>_. None),
     me_lossy = text_of_bytes, me_regex_error = (\<lambda>_. None), me_matches = (\<lambda>_ _. False),
     me_toml = (\<lambda>_. Err []), me_ownership = (\<lambda>_. None), me_sha256 = (\<lambda>x. x)\<rparr>"

definition example_env :: "nat \<Rightarrow> ScopeEnv" where
  "example_env t = \<lparr>sn_now = t, sn_file_time = t, sn_not_found = ''not found'', sn_write_fault = (\<lambda>_. None),
     sn_list_fault = None, sn_sha256 = (\<lambda>x. x), sn_charter_json = (\<lambda>_. []),
     sn_measurement_json = (\<lambda>m. as_bytes (pm_content_digest m))\<rparr>"

definition example_measurement :: PatchMeasurement where
  "example_measurement = \<lparr>pm_merge_base = ''h'', pm_head_sha = ''h'', pm_divergence = 0, pm_files_changed = 1,
     pm_added_lines = 1, pm_binary_files = 0, pm_new_modules = 0, pm_dependencies_added = 0, pm_public_apis_added = 0,
     pm_content_digest = ''78004d6f64696669656400610a00'', pm_changed_paths = [''x''], pm_changed_subsystems = [],
     pm_file_details = [\<lparr>fh_path = ''x'', fh_status = ChModified, fh_added_lines = Some 1,
       fh_deleted_lines = Some 0, fh_is_binary = False\<rparr>]\<rparr>"

definition example_context :: StepContext where
  "example_context = \<lparr>cx_work_dir = ''/w'', cx_run_id = ''r'', cx_daemon_managed = False,
     cx_workspace_authorization = None, cx_variables = [(''artifact_dir'', ''/a'')], cx_current_step_id = None,
     cx_step_order = [], cx_namespaced_vars = [], cx_interrupted = False, cx_checkpointable_keys = []\<rparr>"

lemma example_measured: "measure_worktree example_tools example_context example_policy example_charter = Ok example_measurement"
  by code_simp

section \<open>What a measurement covers\<close>

text \<open>
  C22: a measurement of the worktree misses no change. If measuring succeeds, the charter is the one
  of the run, and the changed paths are, sorted and without repetition, exactly the paths git reports
  as changed against the merge base and the untracked files, but for the marker of a workspace the
  run is verified to own; the number of files is their number, saturating at the largest \<open>u32\<close>, each path has
  one entry of details, and the changed subsystems are exactly the chartered subsystems with a prefix
  over a changed path.
\<close>

theorem measurement_misses_no_change:
  assumes "measure_worktree menv ctx sc c = Ok m"
  shows "\<exists>data. collect_patch menv (tc_merge_base c) (sx_measurement sc) = Ok data \<and> tc_run_id c = cx_run_id ctx \<and>
    set (pm_changed_paths m) = patch_paths menv data (cx_run_id ctx) \<and> sorted_wrt (<) (pm_changed_paths m) \<and>
    pm_changed_paths m = map fh_path (pm_file_details m) \<and>
    unat (pm_files_changed m) = min (card (patch_paths menv data (cx_run_id ctx))) (2 ^ 32 - 1) \<and>
    set (pm_changed_subsystems m) =
      {sub. \<exists>prefixes p q. (sub, prefixes) \<in> set (tc_subsystems c) \<and> p \<in> patch_paths menv data (cx_run_id ctx) \<and>
         q \<in> set prefixes \<and> is_path_under p q}"
proof -
  from assms obtain data diffs where data: "collect_patch menv (tc_merge_base c) (sx_measurement sc) = Ok data"
    and m: "compute_measurement menv data c (cx_run_id ctx) (cx_daemon_managed ctx) (sx_measurement sc) diffs = Ok m"
    by (auto simp: measure_worktree_def split: result.splits)
  note facts = compute_measurement_Ok [OF m]
  have "card (patch_paths menv data (cx_run_id ctx)) = length (pm_file_details m)"
    using facts by (metis distinct_card length_map strict_sorted_iff)
  then have "unat (pm_files_changed m) = min (card (patch_paths menv data (cx_run_id ctx))) (2 ^ 32 - 1)"
    using facts by (simp add: u32_clamp_nat)
  moreover have "set (pm_changed_subsystems m) =
      {sub. \<exists>prefixes p q. (sub, prefixes) \<in> set (tc_subsystems c) \<and> p \<in> patch_paths menv data (cx_run_id ctx) \<and>
         q \<in> set prefixes \<and> is_path_under p q}"
  proof -
    from facts have "pm_changed_subsystems m = compute_changed_subsystems (pm_changed_paths m) c"
      and paths: "set (pm_changed_paths m) = patch_paths menv data (cx_run_id ctx)" by blast+
    then show ?thesis by (simp only: changed_subsystems_set paths)
  qed
  ultimately show ?thesis using data facts by (intro exI [of _ data] conjI) blast+
qed

theorem measurement_misses_no_change_witness:
  "\<exists>data. collect_patch example_tools ''h'' (sx_measurement example_policy) = Ok data \<and>
     patch_paths example_tools data ''r'' = {''x''}"
proof -
  have "tc_merge_base example_charter = ''h''" "cx_run_id example_context = ''r''"
    "set (pm_changed_paths example_measurement) = {''x''}" by code_simp+
  with measurement_misses_no_change [OF example_measured] show ?thesis by metis
qed

end
