(* ===== verification/Scope_Properties.thy ===== *)
theory Scope_Properties
  imports Charter_Properties
begin

text \<open>
  Properties of scope control: the evaluation against its declarative form, what lets a mutation
  pass, the artifacts as a step relation with its invariant, accepted charters, complete
  measurements and bounded reviews.
\<close>

section \<open>Evaluation\<close>

text \<open>What a charter demands of a measurement, without the order and texts of violations.\<close>

definition budget_met :: "PatchMeasurement \<Rightarrow> CanonicalTaskCharter \<Rightarrow> bool" where
  "budget_met m c \<longleftrightarrow>
     pm_files_changed m \<le> cu_max_files_changed (tc_budget c) \<and>
     pm_added_lines m \<le> cu_max_added_lines (tc_budget c) \<and>
     pm_new_modules m \<le> cu_max_new_modules (tc_budget c) \<and>
     pm_dependencies_added m \<le> cu_max_dependencies_added (tc_budget c) \<and>
     pm_public_apis_added m \<le> cu_max_public_apis_added (tc_budget c)"

definition territory_met :: "PatchMeasurement \<Rightarrow> CanonicalTaskCharter \<Rightarrow> bool" where
  "territory_met m c \<longleftrightarrow>
     (\<forall>p \<in> set (pm_changed_paths m). \<exists>(sub, prefixes) \<in> set (tc_subsystems c). \<exists>q \<in> set prefixes. is_path_under p q) \<and>
     set (pm_changed_subsystems m) \<subseteq> fst ` set (tc_subsystems c)"

lemma check_budget_Nil [simp]: "check_budget code metric actual limit = [] \<longleftrightarrow> actual \<le> limit"
  by (simp add: check_budget_def not_less)

lemma check_budget_code: "v \<in> set (check_budget code metric actual limit) \<Longrightarrow> vi_code v = code"
  by (simp add: check_budget_def split: if_splits)

lemma budget_violations_Nil: "collect_budget_violations m c = [] \<longleftrightarrow> budget_met m c"
  by (simp add: collect_budget_violations_def budget_met_def)

lemma budget_violations_code: "v \<in> set (collect_budget_violations m c) \<Longrightarrow> is_budget_violation (vi_code v)"
  by (auto simp: collect_budget_violations_def is_budget_violation_def dest!: check_budget_code)

lemma territory_violations_code:
  "v \<in> set (collect_path_violations m c @ collect_subsystem_violations m c) \<Longrightarrow>
   vi_code v = PathOutsideCharter \<or> vi_code v = SubsystemOutsideCharter"
  by (auto simp: collect_path_violations_def collect_subsystem_violations_def Let_def split: if_splits)

lemma path_violations_Nil:
  "collect_path_violations m c = [] \<longleftrightarrow>
   (\<forall>p \<in> set (pm_changed_paths m). \<exists>(sub, prefixes) \<in> set (tc_subsystems c). \<exists>q \<in> set prefixes. is_path_under p q)"
  by (auto simp: collect_path_violations_def Let_def filter_empty_conv path_is_within_any_subsystem_def list_ex_iff
      split_beta)

lemma subsystem_violations_Nil:
  "collect_subsystem_violations m c = [] \<longleftrightarrow> set (pm_changed_subsystems m) \<subseteq> fst ` set (tc_subsystems c)"
  by (auto simp: collect_subsystem_violations_def filter_empty_conv map_of_eq_None_iff)

lemma territory_violations_Nil:
  "collect_path_violations m c @ collect_subsystem_violations m c = [] \<longleftrightarrow> territory_met m c"
  by (simp add: path_violations_Nil subsystem_violations_Nil territory_met_def del: append_is_Nil_conv)
     (simp add: path_violations_Nil subsystem_violations_Nil)

lemma set_violations:
  "set (ev_violations (evaluate m c)) =
   set (collect_budget_violations m c) \<union> set (collect_path_violations m c @ collect_subsystem_violations m c)"
  by (auto simp: evaluate_def Let_def)

lemma class_empty:
  assumes "\<And>v. v \<in> B \<Longrightarrow> P v" "\<And>v. v \<in> T \<Longrightarrow> \<not> P v"
  shows "(\<forall>v \<in> B \<union> T. \<not> P v) \<longleftrightarrow> B = {}" and "(\<forall>v \<in> B \<union> T. P v) \<longleftrightarrow> T = {}"
  using assms by auto

lemma territory_not_budget:
  "v \<in> set (collect_path_violations m c @ collect_subsystem_violations m c) \<Longrightarrow> \<not> is_budget_violation (vi_code v)"
  by (drule territory_violations_code) (auto simp: is_budget_violation_def)

lemmas violation_classes =
  class_empty [where P = "\<lambda>v. is_budget_violation (vi_code v)", OF budget_violations_code territory_not_budget]

lemma violation_cases:
  "v \<in> set (ev_violations (evaluate m c)) \<Longrightarrow>
   is_budget_violation (vi_code v) \<or> vi_code v = PathOutsideCharter \<or> vi_code v = SubsystemOutsideCharter"
  unfolding set_violations Un_iff
  using budget_violations_code [of v m c] territory_violations_code [of v m c] by blast

lemma territory_code_iff:
  "v \<in> set (ev_violations (evaluate m c)) \<Longrightarrow>
   vi_code v \<noteq> PathOutsideCharter \<and> vi_code v \<noteq> SubsystemOutsideCharter \<longleftrightarrow> is_budget_violation (vi_code v)"
  by (drule violation_cases) (auto simp: is_budget_violation_def)

lemma within_budget_iff: "ev_within_budget (evaluate m c) \<longleftrightarrow> budget_met m c"
proof -
  have "ev_within_budget (evaluate m c) \<longleftrightarrow>
      (\<forall>v \<in> set (ev_violations (evaluate m c)). \<not> is_budget_violation (vi_code v))"
    by (simp add: evaluate_def Let_def list_all_iff)
  also have "\<dots> \<longleftrightarrow> set (collect_budget_violations m c) = {}"
    unfolding set_violations by (rule violation_classes(1))
  finally show ?thesis by (simp add: budget_violations_Nil)
qed

lemma within_subsystems_iff: "ev_within_subsystems (evaluate m c) \<longleftrightarrow> territory_met m c"
proof -
  have "ev_within_subsystems (evaluate m c) \<longleftrightarrow>
      (\<forall>v \<in> set (ev_violations (evaluate m c)). vi_code v \<noteq> PathOutsideCharter \<and> vi_code v \<noteq> SubsystemOutsideCharter)"
    by (simp add: evaluate_def Let_def list_all_iff)
  also have "\<dots> \<longleftrightarrow> (\<forall>v \<in> set (ev_violations (evaluate m c)). is_budget_violation (vi_code v))"
    using territory_code_iff by blast
  also have "\<dots> \<longleftrightarrow> set (collect_path_violations m c @ collect_subsystem_violations m c) = {}"
    unfolding set_violations by (rule violation_classes(2))
  finally show ?thesis using territory_violations_Nil [of m c] by simp
qed

lemma violations_Nil: "ev_violations (evaluate m c) = [] \<longleftrightarrow> budget_met m c \<and> territory_met m c"
proof -
  have "ev_violations (evaluate m c) = [] \<longleftrightarrow> set (ev_violations (evaluate m c)) = {}" by simp
  then show ?thesis
    unfolding set_violations using budget_violations_Nil [of m c] territory_violations_Nil [of m c] by auto
qed

text \<open>
  C21: the evaluation of a measurement is equivalent to the charter's declarative demands: it is
  within budget if and only if none of the five metrics exceeds its ceiling, within the subsystems
  if and only if every changed path lies under a declared prefix and every changed subsystem is
  declared, and free of violations if and only if both hold; a budget violation never hides a path
  violation, and every violation reported has one of the seven codes of these demands.
\<close>

theorem evaluation_meets_charter:
  "(ev_within_budget (evaluate m c) \<longleftrightarrow> budget_met m c) \<and>
   (ev_within_subsystems (evaluate m c) \<longleftrightarrow> territory_met m c) \<and>
   (ev_violations (evaluate m c) = [] \<longleftrightarrow> budget_met m c \<and> territory_met m c) \<and>
   DivergenceFromMergeBase \<notin> vi_code ` set (ev_violations (evaluate m c))"
proof -
  have "v \<in> set (ev_violations (evaluate m c)) \<Longrightarrow> vi_code v \<noteq> DivergenceFromMergeBase" for v
    by (drule violation_cases) (auto simp: is_budget_violation_def)
  then have "DivergenceFromMergeBase \<notin> vi_code ` set (ev_violations (evaluate m c))" by (metis image_iff)
  then show ?thesis by (intro conjI within_budget_iff within_subsystems_iff violations_Nil)
qed

section \<open>What lets a mutation pass\<close>

text \<open>
  The newest request and the operator's resolution name exactly this measurement under exactly this
  charter, and the resolution approves.
\<close>

definition approved_snapshot :: "ScopeEnv \<Rightarrow> CanonicalTaskCharter \<Rightarrow> PatchMeasurement \<Rightarrow> ScopeFiles \<Rightarrow> bool" where
  "approved_snapshot env c m fs \<longleftrightarrow>
     (\<exists>q r. read_expansion_request env fs = Ok (Some q) \<and> sf_resolution fs = Stored r \<and>
        sr_decision r = ApproveExpandedScope \<and> sr_measurement_digest r = measurement_digest env m \<and>
        sq_measurement_digest q = measurement_digest env m \<and> sq_charter_digest q = tc_digest c)"

definition patch_admissible :: "ScopeEnv \<Rightarrow> CanonicalTaskCharter \<Rightarrow> PatchMeasurement \<Rightarrow> ScopeFiles \<Rightarrow> bool" where
  "patch_admissible env c m fs \<longleftrightarrow>
     (budget_met m c \<and> territory_met m c \<and> is_ok (read_expansion_request env fs)) \<or>
     (\<not> (budget_met m c \<and> territory_met m c) \<and> approved_snapshot env c m fs)"

lemma map_ok_Ok_iff: "map_ok f r = Ok y \<longleftrightarrow> (\<exists>x. r = Ok x \<and> y = f x)"
  by (cases r) auto

lemma read_json_Ok: "read_json env a = Ok v \<longleftrightarrow> a = Stored v"
  by (cases a) (auto simp: read_json_def)

lemma read_json_Stored [simp]: "read_json env (Stored v) = Ok v"
  by (simp add: read_json_Ok)

lemma read_resolution_Some: "read_expansion_resolution env fs = Ok (Some r) \<longleftrightarrow> sf_resolution fs = Stored r"
  by (auto simp: read_expansion_resolution_def artifact_exists_def map_ok_Ok_iff read_json_Ok)

lemma clean_iff: "ev_within_budget (evaluate m c) \<and> ev_violations (evaluate m c) = [] \<longleftrightarrow> budget_met m c \<and> territory_met m c"
  by (auto simp: within_budget_iff violations_Nil)

lemma gate_over_budget:
  assumes "\<not> (budget_met m c \<and> territory_met m c)"
  shows "check_scope_gate env c m (evaluate m c) fs =
    (case read_expansion_request env fs of
       Err e \<Rightarrow> Err e
     | Ok None \<Rightarrow> Ok OverBudgetNeedsRequest
     | Ok (Some request) \<Rightarrow>
         (case read_expansion_resolution env fs of
            Err e \<Rightarrow> Err e
          | Ok None \<Rightarrow> Ok PendingResolution
          | Ok (Some resolution) \<Rightarrow>
              (let digest = measurement_digest env m
               in if sq_charter_digest request \<noteq> tc_digest c \<or> sr_measurement_digest resolution \<noteq> digest \<or>
                     sq_measurement_digest request \<noteq> digest
                  then Ok OverBudgetNeedsRequest
                  else if authorizes_expansion (sr_decision resolution) then Ok WithinBudgetWithPriorResolution
                  else Ok (GateDenied (sr_decision resolution)))))"
  unfolding check_scope_gate_def clean_iff by (rule if_not_P [OF assms])

lemma gate_in_budget:
  assumes "budget_met m c \<and> territory_met m c"
  shows "check_scope_gate env c m (evaluate m c) fs =
    map_ok (\<lambda>q. if q \<noteq> None then WithinBudgetWithPriorResolution else WithinBudget) (read_expansion_request env fs)"
  unfolding check_scope_gate_def clean_iff by (rule if_P [OF assms])

lemma gate_allows_iff:
  "(\<exists>g. check_scope_gate env c m (evaluate m c) fs = Ok g \<and> allows_mutation g) \<longleftrightarrow> patch_admissible env c m fs"
proof (cases "budget_met m c \<and> territory_met m c")
  case True
  then show ?thesis
    unfolding gate_in_budget [OF True] patch_admissible_def
    by (cases "read_expansion_request env fs") (auto simp: allows_mutation_def)
next
  case False
  have "(\<exists>g. check_scope_gate env c m (evaluate m c) fs = Ok g \<and> allows_mutation g) \<longleftrightarrow> approved_snapshot env c m fs"
    unfolding gate_over_budget [OF False] approved_snapshot_def read_resolution_Some [of env, symmetric]
    by (auto simp: allows_mutation_def authorizes_expansion_def Let_def split: result.splits option.splits)
  then show ?thesis using False by (auto simp: patch_admissible_def)
qed

text \<open>The directory of the run a context belongs to.\<close>

definition run_scope_dir :: "StepContext \<Rightarrow> string" where
  "run_scope_dir ctx = scope_control_dir (barrier_artifact_dir ctx) (cx_run_id ctx)"

lemma barrier_allows_iff:
  "enforce_scope_barrier env menv ctx sc store = (store1, Ok BarrierAllow) \<longleftrightarrow>
   store1 = store \<and>
   (\<exists>charter m. sf_charter (store (run_scope_dir ctx)) = Stored charter \<and> measure_worktree menv ctx sc charter = Ok m \<and>
      patch_admissible env charter m (store (run_scope_dir ctx)))"
  unfolding gate_allows_iff [symmetric]
  by (auto simp: enforce_scope_barrier_def Let_def run_scope_dir_def read_json_Ok
      split: result.splits ScopeGateOutcome.splits prod.splits if_splits)

text \<open>When a policy stops nothing.\<close>

definition scope_barrier_open :: "ScopeEnv \<Rightarrow> MeasureEnv \<Rightarrow> StepContext \<Rightarrow> ScopeControlConfig \<Rightarrow> scope_store \<Rightarrow> bool" where
  "scope_barrier_open env menv ctx sc store \<longleftrightarrow>
     \<not> sx_enabled sc \<or>
     (\<exists>charter m. sf_charter (store (run_scope_dir ctx)) = Stored charter \<and> measure_worktree menv ctx sc charter = Ok m \<and>
        patch_admissible env charter m (store (run_scope_dir ctx)))"

lemma scope_barrier_open_iff:
  "scope_barrier_open env menv ctx sc store \<longleftrightarrow>
   \<not> sx_enabled sc \<or> enforce_scope_barrier env menv ctx sc store = (store, Ok BarrierAllow)"
  unfolding scope_barrier_open_def barrier_allows_iff by simp

lemma barrier_allow_keeps: "enforce_scope_barrier env menv ctx sc store = (s, Ok BarrierAllow) \<Longrightarrow> s = store"
  by (simp add: barrier_allows_iff)

text \<open>
  C18: the barrier lets a mutating executor go on if and only if the context has no scope-control
  policy, or one that is switched off, or the run's charter is readable, the worktree can be
  measured, and the measured patch meets the charter's budget and territory, or else the newest
  expansion request and an approving resolution name exactly the digest of this measurement and the
  request the digest of this charter. It changes neither the artifacts nor the context then.
\<close>

theorem mutation_needs_clean_or_approved_snapshot:
  "scope_control_barrier env menv decode ctx store = (store1, ctx1, None) \<longleftrightarrow>
   store1 = store \<and> ctx1 = ctx \<and>
   (case ctx_get ctx ''scope_control_policy'' of
      None \<Rightarrow> True
    | Some text \<Rightarrow>
        (case decode text of Err _ \<Rightarrow> False | Ok sc \<Rightarrow> scope_barrier_open env menv ctx sc store))"
  unfolding scope_control_barrier_def scope_barrier_open_iff
  by (auto split: option.splits result.splits prod.splits ScopeBarrierResult.splits dest: barrier_allow_keeps)

section \<open>The artifacts over time\<close>

text \<open>
  What the program and the operator write into the directory of a run: the charter step, the
  measurement of a step, an expansion request for a measurement under the stored charter (the
  measuring step and the barrier), the operator's resolution. Each comes with its own clock and
  faults; only the hash and the JSON text of a measurement are the program's.
\<close>

datatype scope_op =
    PersistCharter string CanonicalTaskCharter
  | RecordMeasurement string string PatchMeasurement ScopeEvaluation
  | RequestExpansion string string PatchMeasurement
  | ResolveExpansion string ScopeExpansionResolution

fun run_scope_op :: "ScopeEnv \<Rightarrow> scope_op \<Rightarrow> ScopeFiles \<Rightarrow> ScopeFiles" where
  "run_scope_op env (PersistCharter dir c) fs = fst (persist_charter_and_status env dir c fs)"
| "run_scope_op env (RecordMeasurement dir run m ev) fs = fst (update_status_measurement env dir run m ev fs)"
| "run_scope_op env (RequestExpansion dir run m) fs =
     (case sf_charter fs of
        Stored c \<Rightarrow> fst (write_expansion_request env dir (build_expansion_request env run c m (evaluate m c)) fs)
      | _ \<Rightarrow> fs)"
| "run_scope_op env (ResolveExpansion dir r) fs = fst (write_expansion_resolution env dir r fs)"

definition apply_scope_op ::
  "hash \<Rightarrow> (PatchMeasurement \<Rightarrow> byte list) \<Rightarrow> ScopeEnv \<times> scope_op \<Rightarrow> ScopeFiles \<Rightarrow> ScopeFiles" where
  "apply_scope_op h mj = (\<lambda>(env, a). run_scope_op (env\<lparr>sn_sha256 := h, sn_measurement_json := mj\<rparr>) a)"

definition no_scope_files :: ScopeFiles where
  "no_scope_files = \<lparr>sf_charter = Absent, sf_status = Absent, sf_requests_dir = False, sf_requests = [],
     sf_legacy_request = Absent, sf_resolution = Absent\<rparr>"

definition stored :: "'a artifact \<Rightarrow> 'a option" where
  "stored a = (case a of Stored v \<Rightarrow> Some v | _ \<Rightarrow> None)"

lemma stored_Some [simp]: "stored a = Some v \<longleftrightarrow> a = Stored v"
  by (cases a) (auto simp: stored_def)

lemma ensure_status_charter [simp]: "sf_charter (fst (ensure_status env dir c fs)) = sf_charter fs"
  by (simp add: ensure_status_def Let_def split: prod.splits)

lemma ensure_status_requests [simp]:
  "sf_requests (fst (ensure_status env dir c fs)) = sf_requests fs"
  "sf_legacy_request (fst (ensure_status env dir c fs)) = sf_legacy_request fs"
  by (simp_all add: ensure_status_def Let_def split: prod.splits)

lemma persist_requests [simp]:
  "sf_requests (fst (persist_charter_and_status env dir c fs)) = sf_requests fs"
  "sf_legacy_request (fst (persist_charter_and_status env dir c fs)) = sf_legacy_request fs"
  by (simp_all add: persist_charter_and_status_def Let_def split: result.splits option.splits prod.splits)

lemma persist_charter:
  "sf_charter fs = Stored k \<Longrightarrow> sf_charter (fst (persist_charter_and_status env dir c fs)) = Stored k"
  by (simp add: persist_charter_and_status_def Let_def artifact_exists_def split: result.splits option.splits)

lemma update_status_other [simp]:
  "sf_requests (fst (update_status_measurement env dir run m ev fs)) = sf_requests fs"
  "sf_legacy_request (fst (update_status_measurement env dir run m ev fs)) = sf_legacy_request fs"
  "sf_charter (fst (update_status_measurement env dir run m ev fs)) = sf_charter fs"
  by (simp_all add: update_status_measurement_def Let_def split: result.splits prod.splits)

lemma write_resolution_other [simp]:
  "sf_requests (fst (write_expansion_resolution env dir r fs)) = sf_requests fs"
  "sf_legacy_request (fst (write_expansion_resolution env dir r fs)) = sf_legacy_request fs"
  "sf_charter (fst (write_expansion_resolution env dir r fs)) = sf_charter fs"
  by (simp_all add: write_expansion_resolution_def Let_def split: prod.splits)

lemma write_request_other [simp]:
  "sf_legacy_request (fst (write_expansion_request env dir q fs)) = sf_legacy_request fs"
  "sf_charter (fst (write_expansion_request env dir q fs)) = sf_charter fs"
  by (simp_all add: write_expansion_request_def Let_def split: result.splits option.splits prod.splits)

text \<open>Writing a request adds a generation at most, and only under a free name.\<close>

lemma write_request_cases:
  "sf_requests (fst (write_expansion_request env dir q fs)) = sf_requests fs \<or>
   generation (generation_name (sq_measurement_digest q)) fs = Absent \<and>
   sf_requests (fst (write_expansion_request env dir q fs)) =
     sf_requests fs @ [(generation_name (sq_measurement_digest q), sn_file_time env, Stored q)]"
  by (auto simp: write_expansion_request_def Let_def write_immutable_json_def artifact_exists_def generation_def
      split: result.splits option.splits prod.splits)

lemma scope_op_keeps_charter:
  "sf_charter fs = Stored c \<Longrightarrow> sf_charter (apply_scope_op h mj op fs) = Stored c"
  by (cases op; cases "snd op") (auto simp: apply_scope_op_def persist_charter)

lemma scope_op_keeps_generation:
  assumes "generation name fs = Stored q"
  shows "generation name (apply_scope_op h mj op fs) = Stored q"
proof -
  have "generation name (fst (write_expansion_request env dir r fs)) = Stored q" for env dir r
    using write_request_cases [of env dir r fs] assms
    by (auto simp: generation_def map_of_append map_add_def split: option.splits)
  moreover have "generation name (fst (persist_charter_and_status env dir c fs)) = Stored q"
    "generation name (fst (update_status_measurement env dir run m ev fs)) = Stored q"
    "generation name (fst (write_expansion_resolution env dir r fs)) = Stored q" for env dir c run m ev r
    using assms by (simp_all add: generation_def)
  ultimately show ?thesis
    using assms by (cases op; cases "snd op") (auto simp: apply_scope_op_def split: artifact.splits)
qed

interpretation charters: write_once "apply_scope_op h mj" "\<lambda>fs (_ :: unit). stored (sf_charter fs)" "\<lambda>_. True"
  by unfold_locales (simp add: scope_op_keeps_charter)

interpretation requests: write_once "apply_scope_op h mj" "\<lambda>fs name. stored (generation name fs)" "\<lambda>_. True"
  by unfold_locales (simp add: scope_op_keeps_generation)

text \<open>A request records the measurement its digest names and its evaluation under the charter it names.\<close>

definition honest_request ::
  "hash \<Rightarrow> (PatchMeasurement \<Rightarrow> byte list) \<Rightarrow> CanonicalTaskCharter \<Rightarrow> ScopeExpansionRequest \<Rightarrow> bool" where
  "honest_request h mj c q \<longleftrightarrow>
     sq_measurement_digest q = sha256_hex h (mj (sq_measurement q)) \<and> sq_charter_digest q = tc_digest c \<and>
     sq_evaluation q = evaluate (sq_measurement q) c \<and> sq_violations q = ev_violations (sq_evaluation q)"

definition honest_requests :: "hash \<Rightarrow> (PatchMeasurement \<Rightarrow> byte list) \<Rightarrow> ScopeFiles \<Rightarrow> bool" where
  "honest_requests h mj fs \<longleftrightarrow>
     sf_legacy_request fs = Absent \<and> distinct (map fst (sf_requests fs)) \<and>
     (\<forall>(name, t, a) \<in> set (sf_requests fs). \<exists>q c. a = Stored q \<and> name = generation_name (sq_measurement_digest q) \<and>
        sf_charter fs = Stored c \<and> honest_request h mj c q)"

lemma honest_requestsD:
  "honest_requests h mj fs \<Longrightarrow> (name, t, a) \<in> set (sf_requests fs) \<Longrightarrow>
   \<exists>q c. a = Stored q \<and> name = generation_name (sq_measurement_digest q) \<and> sf_charter fs = Stored c \<and>
     honest_request h mj c q"
  unfolding honest_requests_def by blast

lemma honest_requests_same:
  "honest_requests h mj fs \<Longrightarrow> sf_requests gs = sf_requests fs \<Longrightarrow> sf_legacy_request gs = sf_legacy_request fs \<Longrightarrow>
   (\<And>c. sf_charter fs = Stored c \<Longrightarrow> sf_charter gs = Stored c) \<Longrightarrow> honest_requests h mj gs"
  unfolding honest_requests_def by fastforce

lemma absent_generation:
  assumes "honest_requests h mj fs" "generation name fs = Absent"
  shows "name \<notin> fst ` set (sf_requests fs)"
proof
  assume "name \<in> fst ` set (sf_requests fs)"
  then obtain t a where v: "map_of (sf_requests fs) name = Some (t, a)"
    by (metis map_of_eq_None_iff not_None_eq surj_pair)
  then have "(name, t, a) \<in> set (sf_requests fs)" by (rule map_of_SomeD)
  then obtain q where "a = Stored q" using honest_requestsD [OF assms(1)] by blast
  then show False using assms(2) v by (simp add: generation_def)
qed

lemma request_honest:
  assumes "honest_requests h mj fs" "sf_charter fs = Stored c"
  shows "honest_requests h mj (fst (write_expansion_request (env\<lparr>sn_sha256 := h, sn_measurement_json := mj\<rparr>) dir
           (build_expansion_request (env\<lparr>sn_sha256 := h, sn_measurement_json := mj\<rparr>) run c m (evaluate m c)) fs))"
    (is "honest_requests h mj (fst (write_expansion_request ?env dir ?q fs))")
proof -
  have new: "honest_request h mj c ?q"
    by (simp add: honest_request_def build_expansion_request_def measurement_digest_def)
  consider "sf_requests (fst (write_expansion_request ?env dir ?q fs)) = sf_requests fs"
    | "generation (generation_name (sq_measurement_digest ?q)) fs = Absent"
      "sf_requests (fst (write_expansion_request ?env dir ?q fs)) =
         sf_requests fs @ [(generation_name (sq_measurement_digest ?q), sn_file_time ?env, Stored ?q)]"
    using write_request_cases [of ?env dir ?q fs] by blast
  then show ?thesis
  proof cases
    case 1
    then show ?thesis by (rule honest_requests_same [OF assms(1)]) simp_all
  next
    case 2
    then show ?thesis
      using assms new absent_generation [OF assms(1) 2(1)] by (auto simp: honest_requests_def)
  qed
qed

lemma scope_op_honest: "honest_requests h mj fs \<Longrightarrow> honest_requests h mj (apply_scope_op h mj op fs)"
  by (cases op; cases "snd op")
    (auto simp: apply_scope_op_def request_honest persist_charter split: artifact.splits
      intro: honest_requests_same)

lemma scope_ops_honest: "honest_requests h mj fs \<Longrightarrow> honest_requests h mj (fold (apply_scope_op h mj) ops fs)"
  by (induction ops arbitrary: fs) (simp_all add: scope_op_honest)

lemma no_files_honest [simp]: "honest_requests h mj no_scope_files"
  by (simp add: honest_requests_def no_scope_files_def)

lemma newest_member:
  "read_expansion_request env fs = Ok (Some q) \<Longrightarrow> sf_legacy_request fs = Absent \<Longrightarrow>
   \<exists>name t. (name, t, Stored q) \<in> set (sf_requests fs)"
proof -
  assume read: "read_expansion_request env fs = Ok (Some q)" and legacy: "sf_legacy_request fs = Absent"
  then have "read_latest_generation env fs = Ok (Some q)"
    by (auto simp: read_expansion_request_def artifact_exists_def split: if_splits)
  then obtain name t rest where "rev (sort_key (\<lambda>(name, t, _). (t, name)) (sf_requests fs)) = (name, t, Stored q) # rest"
    by (auto simp: read_latest_generation_def map_ok_Ok_iff read_json_Ok split: option.splits list.splits)
  then have "(name, t, Stored q) \<in> set (rev (sort_key (\<lambda>(name, t, _). (t, name)) (sf_requests fs)))" by simp
  then show ?thesis by auto
qed

section \<open>An approval in the example\<close>

definition example_approval :: ScopeExpansionResolution where
  "example_approval = \<lparr>sr_run_id = ''r'', sr_measurement_digest = measurement_digest (example_env 0) example_measurement,
     sr_decision = ApproveExpandedScope, sr_rationale = ''needed'', sr_resolved_at = 9\<rparr>"

definition example_ops :: "(ScopeEnv \<times> scope_op) list" where
  "example_ops = [(example_env 1, PersistCharter ''/a'' example_charter),
     (example_env 2, RequestExpansion ''/a'' ''r'' example_measurement), (example_env 3, ResolveExpansion ''/a'' example_approval)]"

definition example_start :: "(ScopeEnv \<times> scope_op) list" where
  "example_start = take 1 example_ops"

definition example_files :: "(ScopeEnv \<times> scope_op) list \<Rightarrow> ScopeFiles" where
  "example_files ops = fold (apply_scope_op (sn_sha256 (example_env 4)) (sn_measurement_json (example_env 4))) ops no_scope_files"

lemma example_over: "\<not> (budget_met example_measurement example_charter \<and> territory_met example_measurement example_charter)"
  by code_simp

lemma example_charter_stored:
  "sf_charter (example_files example_ops) = Stored example_charter"
  "sf_charter (example_files example_start) = Stored example_charter"
  by code_simp+

section \<open>What an approval covers\<close>

text \<open>
  C19: an approval releases what was recorded and nothing else. Whatever was persisted, measured,
  requested and resolved in the run's directory, with any clocks and write faults: if the barrier
  allows a mutation, the patch meets the charter, or the newest request, which is kept under the
  name of this measurement's digest and records its evaluation under the run's charter, has the JSON
  text of this very measurement (or the hash has a collision); and nothing written later ever changes
  that charter or that request.
\<close>

theorem approval_covers_recorded_patch:
  assumes reached: "store (run_scope_dir ctx) = fold (apply_scope_op (sn_sha256 env) (sn_measurement_json env)) ops no_scope_files"
    and allowed: "enforce_scope_barrier env menv ctx sc store = (store1, Ok BarrierAllow)"
  shows "\<exists>c m. sf_charter (store (run_scope_dir ctx)) = Stored c \<and> measure_worktree menv ctx sc c = Ok m \<and>
    (budget_met m c \<and> territory_met m c \<or>
     (\<exists>q. read_expansion_request env (store (run_scope_dir ctx)) = Ok (Some q) \<and>
        (sn_measurement_json env (sq_measurement q) = sn_measurement_json env m \<or> collision (sn_sha256 env)) \<and>
        sq_evaluation q = evaluate (sq_measurement q) c \<and>
        (\<forall>later. generation (generation_name (measurement_digest env m))
             (fold (apply_scope_op (sn_sha256 env) (sn_measurement_json env)) later (store (run_scope_dir ctx))) = Stored q))) \<and>
    (\<forall>later. sf_charter
       (fold (apply_scope_op (sn_sha256 env) (sn_measurement_json env)) later (store (run_scope_dir ctx))) = Stored c)"
proof -
  let ?fs = "store (run_scope_dir ctx)" and ?h = "sn_sha256 env" and ?mj = "sn_measurement_json env"
  from allowed obtain c m where c: "sf_charter ?fs = Stored c" and m: "measure_worktree menv ctx sc c = Ok m"
    and adm: "patch_admissible env c m ?fs" unfolding barrier_allows_iff by blast
  have honest: "honest_requests ?h ?mj ?fs" unfolding reached by (rule scope_ops_honest) simp
  have charter: "sf_charter (fold (apply_scope_op ?h ?mj) later ?fs) = Stored c" for later
    using charters.frozen_fold [where h = ?h and mj = ?mj and t = ?fs and r = c and as = later] c by simp
  have recorded: "\<exists>q. read_expansion_request env ?fs = Ok (Some q) \<and>
      (?mj (sq_measurement q) = ?mj m \<or> collision ?h) \<and> sq_evaluation q = evaluate (sq_measurement q) c \<and>
      (\<forall>later. generation (generation_name (measurement_digest env m)) (fold (apply_scope_op ?h ?mj) later ?fs) = Stored q)"
    if over: "\<not> (budget_met m c \<and> territory_met m c)"
  proof -
    from adm over obtain q where q: "read_expansion_request env ?fs = Ok (Some q)"
      and d: "sq_measurement_digest q = measurement_digest env m"
      unfolding patch_admissible_def approved_snapshot_def by blast
    from newest_member [OF q] honest obtain name t where mem: "(name, t, Stored q) \<in> set (sf_requests ?fs)"
      unfolding honest_requests_def by blast
    with honest_requestsD [OF honest mem] c have name: "name = generation_name (measurement_digest env m)"
      and hq: "honest_request ?h ?mj c q" by (auto simp: d)
    have "map_of (sf_requests ?fs) name = Some (t, Stored q)"
      using honest mem unfolding honest_requests_def by simp
    then have "generation name ?fs = Stored q" by (simp add: generation_def)
    then have kept: "generation name (fold (apply_scope_op ?h ?mj) later ?fs) = Stored q" for later
      using requests.frozen_fold [where h = ?h and mj = ?mj and t = ?fs and k = name and r = q and as = later] by simp
    have "sha256_hex ?h (?mj (sq_measurement q)) = sha256_hex ?h (?mj m)"
      using hq d by (simp add: honest_request_def measurement_digest_def)
    from digest_determines [OF this] hq q kept name show ?thesis by (auto simp: honest_request_def)
  qed
  from c m charter recorded show ?thesis by blast
qed

theorem approval_covers_recorded_patch_witness:
  "\<exists>q. read_expansion_request (example_env 4) (example_files example_ops) = Ok (Some q) \<and>
     (as_bytes (pm_content_digest (sq_measurement q)) = as_bytes ''78004d6f64696669656400610a00'' \<or>
      collision (\<lambda>x. x)) \<and>
     sq_evaluation q = evaluate (sq_measurement q) example_charter"
proof -
  let ?store = "\<lambda>_ :: string. example_files example_ops"
  have "snd (enforce_scope_barrier (example_env 4) example_tools example_context example_policy ?store) = Ok BarrierAllow"
    by code_simp
  then have "enforce_scope_barrier (example_env 4) example_tools example_context example_policy ?store =
      (fst (enforce_scope_barrier (example_env 4) example_tools example_context example_policy ?store), Ok BarrierAllow)"
    by (metis prod.collapse)
  from approval_covers_recorded_patch [OF _ this, unfolded example_files_def, OF refl, folded example_files_def]
  obtain c m where c: "sf_charter (example_files example_ops) = Stored c"
    and m: "measure_worktree example_tools example_context example_policy c = Ok m"
    and "budget_met m c \<and> territory_met m c \<or>
     (\<exists>q. read_expansion_request (example_env 4) (example_files example_ops) = Ok (Some q) \<and>
        (sn_measurement_json (example_env 4) (sq_measurement q) = sn_measurement_json (example_env 4) m \<or>
         collision (sn_sha256 (example_env 4))) \<and> sq_evaluation q = evaluate (sq_measurement q) c)" by blast
  moreover have "c = example_charter" using c example_charter_stored by simp
  moreover have "m = example_measurement" using m calculation(4) example_measured by simp
  ultimately show ?thesis using example_over by (auto simp: example_env_def example_measurement_def)
qed

lemma insort_before_last: "f x < f y \<Longrightarrow> insort_key f x (zs @ [y]) = insort_key f x zs @ [y]"
  by (induction zs) auto

lemma sort_key_snoc_max: "(\<And>x. x \<in> set xs \<Longrightarrow> f x < f y) \<Longrightarrow> sort_key f (xs @ [y]) = sort_key f xs @ [y]"
  by (induction xs) (simp_all add: insort_before_last)

lemma newest_request_read:
  assumes "sf_requests_dir fs" "sn_list_fault env = None" "sf_requests fs = xs @ [(n0, t0, Stored q)]"
    and "\<And>n t a. (n, t, a) \<in> set xs \<Longrightarrow> t < t0"
  shows "read_expansion_request env fs = Ok (Some q)"
proof -
  have "sort_key (\<lambda>(name, t, _). (t, name)) (sf_requests fs) =
      sort_key (\<lambda>(name, t, _). (t, name)) xs @ [(n0, t0, Stored q)]"
    unfolding assms(3) using assms(4) by (intro sort_key_snoc_max) (auto simp: less_prod_def)
  then show ?thesis using assms(1,2) by (simp add: read_expansion_request_def read_latest_generation_def)
qed

text \<open>What a block says and leaves.\<close>

lemma barrier_blockedD:
  assumes "enforce_scope_barrier env menv ctx sc store = (store1, Ok BarrierBlocked)"
  shows "\<exists>c m fs1. sf_charter (store (run_scope_dir ctx)) = Stored c \<and> measure_worktree menv ctx sc c = Ok m \<and>
    \<not> (budget_met m c \<and> territory_met m c) \<and>
    write_expansion_request env (barrier_artifact_dir ctx) (build_expansion_request env (cx_run_id ctx) c m (evaluate m c))
      (store (run_scope_dir ctx)) = (fs1, Ok ()) \<and> store1 = store(run_scope_dir ctx := fs1)"
proof -
  from assms obtain c m g where 1: "sf_charter (store (run_scope_dir ctx)) = Stored c" "measure_worktree menv ctx sc c = Ok m"
    "check_scope_gate env c m (evaluate m c) (store (run_scope_dir ctx)) = Ok g" "\<not> allows_mutation g"
    and 2: "\<exists>fs1. write_expansion_request env (barrier_artifact_dir ctx)
      (build_expansion_request env (cx_run_id ctx) c m (evaluate m c)) (store (run_scope_dir ctx)) = (fs1, Ok ()) \<and>
      store1 = store(run_scope_dir ctx := fs1)"
    by (auto simp: enforce_scope_barrier_def Let_def run_scope_dir_def read_json_Ok
        split: result.splits ScopeGateOutcome.splits prod.splits if_splits)
  have "\<not> (budget_met m c \<and> territory_met m c)"
  proof
    assume "budget_met m c \<and> territory_met m c"
    then have "check_scope_gate env c m (evaluate m c) (store (run_scope_dir ctx)) =
        map_ok (\<lambda>q. if q \<noteq> None then WithinBudgetWithPriorResolution else WithinBudget)
          (read_expansion_request env (store (run_scope_dir ctx)))" by (rule gate_in_budget)
    with 1(3,4) show False by (auto simp: map_ok_Ok_iff allows_mutation_def split: if_splits)
  qed
  with 1 2 show ?thesis by blast
qed

text \<open>A generation written anew is the newest one as long as the clock of the files moved on.\<close>

lemma fresh_request_written:
  assumes "write_expansion_request env dir q fs = (fs1, Ok ())"
    and "generation_name (sq_measurement_digest q) \<notin> fst ` set (sf_requests fs)"
  shows "fs1 = fs\<lparr>sf_requests_dir := True, sf_requests := sf_requests fs @
    [(generation_name (sq_measurement_digest q), sn_file_time env, Stored q)]\<rparr>"
proof -
  have "map_of (sf_requests fs) (generation_name (sq_measurement_digest q)) = None"
    using assms(2) by (simp add: map_of_eq_None_iff)
  then show ?thesis using assms(1)
    by (auto simp: write_expansion_request_def Let_def write_immutable_json_def artifact_exists_def generation_def
        split: option.splits)
qed

text \<open>
  C20: a block can be released by the operator. When the barrier blocks a mutation for a measurement
  that had no request yet, it leaves a request for exactly this measurement; if the request files
  written before are older, an approving resolution for the measurement's digest makes the barrier
  allow the same patch, whoever asks next and whenever, as long as the artifacts can be read.
\<close>

theorem approval_releases_blocked_patch:
  assumes blocked: "enforce_scope_barrier env menv ctx sc store = (store1, Ok BarrierBlocked)"
    and charter: "sf_charter (store (run_scope_dir ctx)) = Stored c"
    and measured: "measure_worktree menv ctx sc c = Ok m"
    and fresh: "generation_name (measurement_digest env m) \<notin> fst ` set (sf_requests (store (run_scope_dir ctx)))"
    and older: "\<And>n t a. (n, t, a) \<in> set (sf_requests (store (run_scope_dir ctx))) \<Longrightarrow> t < sn_file_time env"
    and answer: "sr_measurement_digest r = measurement_digest env m" "sr_decision r = ApproveExpandedScope"
    and written: "write_expansion_resolution env2 dir r (store1 (run_scope_dir ctx)) = (fs2, Ok ())"
    and reader: "sn_list_fault env3 = None" "sn_sha256 env3 = sn_sha256 env"
      "sn_measurement_json env3 = sn_measurement_json env"
  shows "enforce_scope_barrier env3 menv ctx sc (store1(run_scope_dir ctx := fs2)) =
    (store1(run_scope_dir ctx := fs2), Ok BarrierAllow)"
proof -
  let ?d = "run_scope_dir ctx" and ?q = "build_expansion_request env (cx_run_id ctx) c m (evaluate m c)"
  from barrier_blockedD [OF blocked] charter measured obtain fs1
    where over: "\<not> (budget_met m c \<and> territory_met m c)"
      and w: "write_expansion_request env (barrier_artifact_dir ctx) ?q (store ?d) = (fs1, Ok ())"
      and s1: "store1 = store(?d := fs1)" by auto
  have digest: "sq_measurement_digest ?q = measurement_digest env m" "sq_charter_digest ?q = tc_digest c"
    by (simp_all add: build_expansion_request_def)
  have fs1: "fs1 = (store ?d)\<lparr>sf_requests_dir := True, sf_requests := sf_requests (store ?d) @
      [(generation_name (measurement_digest env m), sn_file_time env, Stored ?q)]\<rparr>"
    using fresh_request_written [OF w] fresh by (simp only: digest not_False_eq_True)
  have fs2: "fs2 = fs1\<lparr>sf_resolution := Stored r\<rparr>"
    using written by (auto simp: s1 write_expansion_resolution_def Let_def write_updatable_json_def split: option.splits)
  have "read_expansion_request env3 fs2 = Ok (Some ?q)"
    by (rule newest_request_read [where xs = "sf_requests (store ?d)"]) (use reader older in \<open>simp_all add: fs2 fs1\<close>)
  moreover have "measurement_digest env3 m = measurement_digest env m"
    using reader by (simp add: measurement_digest_def)
  ultimately have "approved_snapshot env3 c m fs2"
    using answer digest by (auto simp: approved_snapshot_def fs2)
  then show ?thesis
    unfolding barrier_allows_iff using over measured charter by (auto simp: patch_admissible_def fs2 fs1)
qed

theorem approval_releases_blocked_patch_witness:
  "\<exists>store1 fs2. enforce_scope_barrier (example_env 2) example_tools example_context example_policy
       (\<lambda>_. example_files example_start) = (store1, Ok BarrierBlocked) \<and>
     write_expansion_resolution (example_env 3) ''/a'' example_approval (store1 (run_scope_dir example_context)) = (fs2, Ok ()) \<and>
     enforce_scope_barrier (example_env 4) example_tools example_context example_policy
       (store1(run_scope_dir example_context := fs2)) = (store1(run_scope_dir example_context := fs2), Ok BarrierAllow)"
proof -
  let ?store = "\<lambda>_ :: string. example_files example_start"
  obtain store1 r where b: "enforce_scope_barrier (example_env 2) example_tools example_context example_policy ?store = (store1, r)"
    by fastforce
  have "snd (enforce_scope_barrier (example_env 2) example_tools example_context example_policy ?store) = Ok BarrierBlocked"
    by code_simp
  then have blocked: "enforce_scope_barrier (example_env 2) example_tools example_context example_policy ?store =
      (store1, Ok BarrierBlocked)" using b by simp
  obtain fs2 where w: "write_expansion_resolution (example_env 3) ''/a'' example_approval
      (store1 (run_scope_dir example_context)) = (fs2, Ok ())"
    by (simp add: write_expansion_resolution_def write_updatable_json_def Let_def example_env_def)
  have none: "sf_requests (example_files example_start) = []" by code_simp
  have answer: "sr_measurement_digest example_approval = measurement_digest (example_env 2) example_measurement"
    "sr_decision example_approval = ApproveExpandedScope" by code_simp+
  have "enforce_scope_barrier (example_env 4) example_tools example_context example_policy
      (store1(run_scope_dir example_context := fs2)) = (store1(run_scope_dir example_context := fs2), Ok BarrierAllow)"
    by (rule approval_releases_blocked_patch [OF blocked _ example_measured _ _ answer w])
      (simp_all add: none example_charter_stored(2), simp_all add: example_env_def)
  with blocked w show ?thesis by blast
qed

lemma latest_generation_cong:
  "sf_requests fs = sf_requests gs \<Longrightarrow> read_latest_generation env fs = read_latest_generation env gs"
  by (simp only: read_latest_generation_def)

text \<open>
  When an over-budget patch returns to a measurement that already has a request, while another one
  is newer, no resolution releases it: the newest request keeps another digest, and the request for
  this measurement is not written again.
\<close>

lemma older_snapshot_stays_blocked:
  assumes honest: "honest_requests (sn_sha256 env) (sn_measurement_json env) fs"
    and over: "\<not> (budget_met m c \<and> territory_met m c)"
    and newest: "read_expansion_request env fs = Ok (Some q)" "sq_measurement_digest q \<noteq> measurement_digest env m"
    and known: "generation (generation_name (measurement_digest env m)) fs = Stored q0"
  shows "\<not> patch_admissible env c m (fs\<lparr>sf_resolution := a\<rparr>)"
    and "sf_requests (fst (write_expansion_request env dir (build_expansion_request env run c m (evaluate m c))
      (fs\<lparr>sf_resolution := a\<rparr>))) = sf_requests fs"
proof -
  have "read_expansion_request env (fs\<lparr>sf_resolution := a\<rparr>) = read_expansion_request env fs"
    by (simp add: read_expansion_request_def latest_generation_cong [of "fs\<lparr>sf_resolution := a\<rparr>" fs])
  then show "\<not> patch_admissible env c m (fs\<lparr>sf_resolution := a\<rparr>)"
    using over newest by (auto simp: patch_admissible_def approved_snapshot_def)
  have "generation (generation_name (measurement_digest env m)) (fs\<lparr>sf_resolution := a\<rparr>) = Stored q0"
    using known by (simp add: generation_def)
  then show "sf_requests (fst (write_expansion_request env dir (build_expansion_request env run c m (evaluate m c))
      (fs\<lparr>sf_resolution := a\<rparr>))) = sf_requests fs"
    using write_request_cases [of env dir "build_expansion_request env run c m (evaluate m c)" "fs\<lparr>sf_resolution := a\<rparr>"]
    by (auto simp: build_expansion_request_def)
qed

section \<open>The measuring step\<close>

lemma status_update_written:
  assumes "update_status_measurement env dir run m ev fs = (fs1, Ok ())"
  shows "\<exists>c st. sf_charter fs = Stored c \<and> sf_status fs = Stored st \<and> ss_digest st = tc_digest c \<and>
    fs1 = fs\<lparr>sf_status := Stored (measured_status env m ev st)\<rparr>"
  using assms
  by (auto simp: update_status_measurement_def Let_def check_status_digest_def write_updatable_json_def read_json_Ok
      split: result.splits option.splits if_splits)

lemma measured_status_fields [simp]:
  "ss_measurement (measured_status env m ev st) = Some m" "ss_evaluation (measured_status env m ev st) = Some ev"
  "ss_digest (measured_status env m ev st) = ss_digest st"
  by (simp_all add: measured_status_def Let_def split: option.splits)

lemma enforce_gate_passes:
  assumes "enforce_gate env dir c m (evaluate m c) ctx fs = (fs1, ctx1, Ok None)"
  shows "fs1 = fs \<and> ctx1 = ctx \<and> (budget_met m c \<and> territory_met m c \<or> approved_snapshot env c m fs)"
proof (cases "budget_met m c \<and> territory_met m c")
  case True
  then have "ev_within_budget (evaluate m c) \<and> ev_violations (evaluate m c) = []" by (simp add: clean_iff)
  then show ?thesis using assms True by (simp add: enforce_gate_def)
next
  case False
  then have over: "\<not> (ev_within_budget (evaluate m c) \<and> ev_violations (evaluate m c) = [])" by (simp add: clean_iff)
  from assms obtain g where "check_scope_gate env c m (evaluate m c) fs = Ok g" "allows_mutation g"
    and same: "fs1 = fs \<and> ctx1 = ctx"
    unfolding enforce_gate_def if_not_P [OF over] by (auto simp: Let_def split: result.splits if_splits prod.splits)
  then have "patch_admissible env c m fs" unfolding gate_allows_iff [symmetric] by blast
  with False same show ?thesis by (auto simp: patch_admissible_def)
qed

lemma approved_status [simp]: "approved_snapshot env c m (fs\<lparr>sf_status := a\<rparr>) = approved_snapshot env c m fs"
proof -
  have "read_latest_generation env (fs\<lparr>sf_status := a\<rparr>) = read_latest_generation env fs"
    by (rule latest_generation_cong) simp
  then show ?thesis by (simp add: approved_snapshot_def read_expansion_request_def)
qed

text \<open>
  A workflow passes the measuring step only with a patch that is in order. If the step succeeds
  under an active policy, the run has a charter, the worktree was measured against it and the
  measurement and its evaluation are recorded in the status of this charter; and the patch meets
  budget and territory, or the operator approved exactly this measurement.
\<close>

theorem measuring_step_success_means_in_order:
  assumes success: "scope_measure_execute env menv dec ctx params store = (store1, ctx1, Ok Success)"
    and active: "resolve_scope_control dec measure_error ctx params = Ok (Some sc)"
    and dir: "first_of ctx ''artifact_dir'' ''artifact_root'' = Some adir" "d = scope_control_dir adir (cx_run_id ctx)"
  shows "\<exists>c m st. sf_charter (store d) = Stored c \<and> measure_worktree menv ctx sc c = Ok m \<and>
    sf_status (store1 d) = Stored st \<and> ss_digest st = tc_digest c \<and> ss_measurement st = Some m \<and>
    ss_evaluation st = Some (evaluate m c) \<and>
    (budget_met m c \<and> territory_met m c \<or> approved_snapshot env c m (store d))"
proof -
  from success active dir obtain c m fs1 fs2 ctx2 where c: "sf_charter (store d) = Stored c"
    and m: "measure_worktree menv ctx sc c = Ok m"
    and u: "update_status_measurement env adir (cx_run_id ctx) m (evaluate m c) (store d) = (fs1, Ok ())"
    and g: "enforce_gate env adir c m (evaluate m c) ctx fs1 = (fs2, ctx2, Ok None) \<or>
      enforce_gate env adir c m (evaluate m c) ctx fs1 = (fs2, ctx2, Ok (Some Success))"
    and s: "store1 = store(d := fs2)"
    by (auto simp: scope_measure_execute_def Let_def read_json_Ok split: result.splits option.splits prod.splits)
  have "enforce_gate env adir c m (evaluate m c) ctx fs1 \<noteq> (fs2, ctx2, Ok (Some Success))"
    by (auto simp: enforce_gate_def Let_def split: result.splits prod.splits)
  with g enforce_gate_passes have pass: "fs2 = fs1" "budget_met m c \<and> territory_met m c \<or> approved_snapshot env c m fs1"
    by blast+
  from status_update_written [OF u] c obtain st where "sf_status (store d) = Stored st" "ss_digest st = tc_digest c"
    and fs1: "fs1 = (store d)\<lparr>sf_status := Stored (measured_status env m (evaluate m c) st)\<rparr>" by auto
  with c m s pass show ?thesis
    by (intro exI [of _ c] exI [of _ m] exI [of _ "measured_status env m (evaluate m c) st"]) simp
qed

definition example_decoders :: ScopeDecoders where
  "example_decoders = \<lparr>sd_config_text = (\<lambda>_. Err []), sd_profile_value = (\<lambda>_. Err []),
     sd_config_value = (\<lambda>_. Ok example_policy), sd_string_list = (\<lambda>_. None), sd_measurement_text = (\<lambda>_. []),
     sd_evaluation_text = (\<lambda>_. [])\<rparr>"

definition example_params :: json where
  "example_params = JObj [(''scope_control'', JBool True)]"

lemma example_step:
  "resolve_scope_control example_decoders measure_error example_context example_params = Ok (Some example_policy)"
  "first_of example_context ''artifact_dir'' ''artifact_root'' = Some ''/a''"
  "cx_run_id example_context = ''r''"
  by code_simp+

lemma example_step_succeeds:
  "\<exists>store1 ctx1. scope_measure_execute (example_env 5) example_tools example_decoders example_context example_params
     (\<lambda>_. example_files example_ops) = (store1, ctx1, Ok Success)"
proof -
  let ?ev = "evaluate example_measurement example_charter"
  obtain fs1 r where u: "update_status_measurement (example_env 5) ''/a'' ''r'' example_measurement ?ev (example_files example_ops) = (fs1, r)"
    by fastforce
  obtain fs2 ctx2 g where e: "enforce_gate (example_env 5) ''/a'' example_charter example_measurement ?ev example_context fs1 = (fs2, ctx2, g)"
    by (metis prod.exhaust)
  have "snd (update_status_measurement (example_env 5) ''/a'' ''r'' example_measurement ?ev (example_files example_ops)) = Ok ()"
    by code_simp
  then have r: "r = Ok ()" by (simp add: u)
  have "snd (snd (enforce_gate (example_env 5) ''/a'' example_charter example_measurement ?ev example_context
      (fst (update_status_measurement (example_env 5) ''/a'' ''r'' example_measurement ?ev (example_files example_ops))))) = Ok None"
    by code_simp
  then have g: "g = Ok None" by (simp add: u e)
  show ?thesis
    by (simp add: scope_measure_execute_def Let_def example_step example_charter_stored example_measured u e r g)
qed

theorem measuring_step_success_means_in_order_witness:
  "\<exists>st. sf_status (fst (scope_measure_execute (example_env 5) example_tools example_decoders example_context example_params
       (\<lambda>_. example_files example_ops)) (scope_control_dir ''/a'' ''r'')) = Stored st \<and>
     ss_measurement st = Some example_measurement \<and>
     approved_snapshot (example_env 5) example_charter example_measurement (example_files example_ops)"
proof -
  from example_step_succeeds obtain store1 ctx1 where ok: "scope_measure_execute (example_env 5) example_tools
      example_decoders example_context example_params (\<lambda>_. example_files example_ops) = (store1, ctx1, Ok Success)" by blast
  have dir: "scope_control_dir ''/a'' ''r'' = scope_control_dir ''/a'' (cx_run_id example_context)" by (simp add: example_step)
  from measuring_step_success_means_in_order [OF ok example_step(1,2) dir]
  obtain c m st where "sf_charter (example_files example_ops) = Stored c"
    "measure_worktree example_tools example_context example_policy c = Ok m"
    "sf_status (store1 (scope_control_dir ''/a'' ''r'')) = Stored st" "ss_measurement st = Some m"
    "budget_met m c \<and> territory_met m c \<or> approved_snapshot (example_env 5) c m (example_files example_ops)" by blast
  moreover from this have "c = example_charter" using example_charter_stored by simp
  moreover from calculation have "m = example_measurement" using example_measured by simp
  ultimately show ?thesis using example_over ok by auto
qed

section \<open>Where the documentation promises more\<close>

text \<open>
  A declined expansion is final for the barrier, but the measuring step waits again, and the poller
  resumes such a wait as soon as a resolution names the digest of the newest request.
\<close>

lemma denied_measurement_waits:
  assumes over: "\<not> (budget_met m c \<and> territory_met m c)"
    and denied: "check_scope_gate env c m (evaluate m c) fs = Ok (GateDenied d)"
  shows "\<exists>ctx1. enforce_gate env dir c m (evaluate m c) ctx fs = (fs, ctx1, Ok (Some Wait))"
proof -
  from over have "\<not> (ev_within_budget (evaluate m c) \<and> ev_violations (evaluate m c) = [])" by (simp add: clean_iff)
  then show ?thesis
    unfolding enforce_gate_def using denied by (simp only: if_not_P) (simp add: allows_mutation_def Let_def)
qed

text \<open>An active policy without a charter stops the mutation as fatal.\<close>

lemma missing_charter_is_fatal:
  "ctx_get ctx ''scope_control_policy'' = Some text \<Longrightarrow> decode text = Ok sc \<Longrightarrow> sx_enabled sc \<Longrightarrow>
   sf_charter (store (run_scope_dir ctx)) = Absent \<Longrightarrow>
   scope_control_barrier env menv decode ctx store = (store, ctx, Some Fatal)"
  by (simp add: scope_control_barrier_def enforce_scope_barrier_def Let_def run_scope_dir_def read_json_def)

text \<open>
  Contents enter the content digest between zero bytes and without their lengths, so binary contents
  of two files can trade bytes and leave the measurement, and with it an approval, the same.
\<close>

definition swapped_contents :: "bool \<Rightarrow> string \<Rightarrow> (byte list, read_error) result" where
  "swapped_contents other path =
     (let between = [0] @ as_bytes ''b'' @ [0] @ as_bytes ''Modified'' @ [0]
      in if path = ''a'' then Ok (if other then [0, 1] @ between @ [2] else [0, 1])
         else Ok (if other then [0, 3] else [2] @ between @ [0, 3]))"

lemma content_digest_misses_change:
  "content_frame (example_tools\<lparr>me_read := swapped_contents False\<rparr>)
     [\<lparr>fh_path = ''a'', fh_status = ChModified, fh_added_lines = None, fh_deleted_lines = None, fh_is_binary = True\<rparr>,
      \<lparr>fh_path = ''b'', fh_status = ChModified, fh_added_lines = None, fh_deleted_lines = None, fh_is_binary = True\<rparr>] =
   content_frame (example_tools\<lparr>me_read := swapped_contents True\<rparr>)
     [\<lparr>fh_path = ''a'', fh_status = ChModified, fh_added_lines = None, fh_deleted_lines = None, fh_is_binary = True\<rparr>,
      \<lparr>fh_path = ''b'', fh_status = ChModified, fh_added_lines = None, fh_deleted_lines = None, fh_is_binary = True\<rparr>]"
  "swapped_contents False ''a'' \<noteq> swapped_contents True ''a''" "swapped_contents False ''b'' \<noteq> swapped_contents True ''b''"
  by code_simp+

text \<open>A new file that is not UTF-8 counts no added lines, and neither does one that cannot be read.\<close>

lemma undecodable_file_adds_no_lines:
  "me_read env path = Ok bytes \<Longrightarrow> me_utf8_error env bytes = Some e \<Longrightarrow> fh_added_lines (untracked_change env path) = None"
  "me_read env path = Err e' \<Longrightarrow> fh_added_lines (untracked_change env path) = None"
  by (simp_all add: untracked_change_def count_lines_in_file_def from_utf8_def)

end
