(* ===== verification/Review_Properties.thy ===== *)
theory Review_Properties
  imports Scope_Review
begin

text \<open>
  Review rounds are bounded: the phases of a review history and the caps of the charter, kept by every
  operation on the history of a run, and the number of reviews granted.
\<close>

section \<open>Counting without wrapping around\<close>

definition reviews_of :: "ReviewKind \<Rightarrow> ReviewScope list \<Rightarrow> nat" where
  "reviews_of k rs = length (filter (\<lambda>r. rv_review_kind r = k) rs)"

lemma reviews_of_simps [simp]:
  "reviews_of k [] = 0"
  "reviews_of k (r # rs) = (if rv_review_kind r = k then Suc (reviews_of k rs) else reviews_of k rs)"
  "reviews_of k (rs @ ss) = reviews_of k rs + reviews_of k ss"
  by (simp_all add: reviews_of_def)

lemma count_exact:
  assumes "reviews_of k (rh_reviews h) \<le> unat (c :: u32)"
  shows "unat (count_by_kind h k) = reviews_of k (rh_reviews h)"
proof -
  have "unat c < 2 ^ LENGTH(32)" by (rule unsigned_less)
  with assms have "reviews_of k (rh_reviews h) < 2 ^ LENGTH(32)" by (rule le_less_trans)
  then show ?thesis by (simp add: count_by_kind_def reviews_of_def unsigned_of_nat take_bit_nat_eq_self)
qed

section \<open>Phases\<close>

text \<open>
  What the module promises: one initial review first, deltas only after it and before any final
  review, each kind within its cap, and no more mutating rounds than deltas and than their cap.
\<close>

inductive review_phases :: "ReviewScope list \<Rightarrow> bool" where
  none: "review_phases []"
| phases: "rv_review_kind i = InitialFull \<Longrightarrow> list_all (\<lambda>r. rv_review_kind r = Delta) ds \<Longrightarrow>
    list_all (\<lambda>r. rv_review_kind r = FinalAcceptance) fs \<Longrightarrow> review_phases (i # ds @ fs)"

definition caps_kept :: "CanonicalReviewCaps \<Rightarrow> ReviewHistory \<Rightarrow> bool" where
  "caps_kept caps h \<longleftrightarrow>
     review_phases (rh_reviews h) \<and> reviews_of Delta (rh_reviews h) \<le> unat (cr_max_delta_reviews caps) \<and>
     reviews_of FinalAcceptance (rh_reviews h) \<le> unat (cr_final_acceptance_reviews caps) \<and>
     unat (rh_mutating_remediation_rounds h) \<le> unat (cr_max_mutating_remediation_rounds caps) \<and>
     unat (rh_mutating_remediation_rounds h) \<le> reviews_of Delta (rh_reviews h)"

lemma all_kind_count:
  "list_all (\<lambda>r. rv_review_kind r = k) rs \<Longrightarrow> reviews_of k' rs = (if k = k' then length rs else 0)"
  by (induction rs) auto

lemma phases_counts:
  "review_phases rs \<Longrightarrow> reviews_of InitialFull rs = (if rs = [] then 0 else 1) \<and>
   length rs = reviews_of InitialFull rs + reviews_of Delta rs + reviews_of FinalAcceptance rs"
  by (induction rule: review_phases.induct) (auto simp: all_kind_count)

lemma phases_initial: "rv_review_kind r = InitialFull \<Longrightarrow> review_phases [r]"
  using review_phases.phases [of r "[]" "[]"] by simp

lemma phases_delta:
  assumes "review_phases rs" "rs \<noteq> []" "reviews_of FinalAcceptance rs = 0" "rv_review_kind r = Delta"
  shows "review_phases (rs @ [r])"
  using assms
proof (induction rule: review_phases.induct)
  case (phases i ds fs)
  then have "fs = []" by (simp add: all_kind_count)
  then show ?case using phases review_phases.phases [of i "ds @ [r]" "[]"] by simp
qed simp

lemma phases_final:
  assumes "review_phases rs" "rs \<noteq> []" "rv_review_kind r = FinalAcceptance"
  shows "review_phases (rs @ [r])"
  using assms
proof (induction rule: review_phases.induct)
  case (phases i ds fs)
  then show ?case using review_phases.phases [of i ds "fs @ [r]"] by simp
qed simp

lemma initial_count_0: "review_phases (rh_reviews h) \<Longrightarrow> count_by_kind h InitialFull = 0 \<longleftrightarrow> rh_reviews h = []"
  using phases_counts [of "rh_reviews h"] by (auto simp: count_by_kind_def reviews_of_def)

lemma final_count_0:
  assumes "caps_kept caps h"
  shows "count_by_kind h FinalAcceptance > 0 \<longleftrightarrow> reviews_of FinalAcceptance (rh_reviews h) > 0"
proof -
  have "unat (count_by_kind h FinalAcceptance) = reviews_of FinalAcceptance (rh_reviews h)"
    using assms by (intro count_exact [of _ _ "cr_final_acceptance_reviews caps"]) (simp add: caps_kept_def)
  then show ?thesis by (metis unat_gt_0 word_gt_0)
qed

section \<open>Allowed reviews keep the caps\<close>

lemma check_initial_allowed: "check_initial h sha = Allowed \<Longrightarrow> review_phases (rh_reviews h) \<Longrightarrow> rh_reviews h = []"
  by (erule review_phases.cases) (auto simp: check_initial_def split: option.splits if_splits)

lemma check_delta_allowed:
  assumes "check_delta h sha caps = Allowed" "caps_kept caps h"
  shows "rh_reviews h \<noteq> []" "reviews_of FinalAcceptance (rh_reviews h) = 0"
    "reviews_of Delta (rh_reviews h) < unat (cr_max_delta_reviews caps)"
proof -
  from assms(1) have a: "count_by_kind h InitialFull \<noteq> 0" "\<not> count_by_kind h FinalAcceptance > 0"
    "\<not> count_by_kind h Delta \<ge> cr_max_delta_reviews caps"
    by (auto simp: check_delta_def split: if_splits)
  show "rh_reviews h \<noteq> []" using a(1) assms(2) initial_count_0 by (simp add: caps_kept_def)
  show "reviews_of FinalAcceptance (rh_reviews h) = 0" using a(2) final_count_0 [OF assms(2)] by simp
  have "unat (count_by_kind h Delta) = reviews_of Delta (rh_reviews h)"
    using assms(2) by (intro count_exact [of _ _ "cr_max_delta_reviews caps"]) (simp add: caps_kept_def)
  then show "reviews_of Delta (rh_reviews h) < unat (cr_max_delta_reviews caps)"
    using a(3) by (simp add: not_le word_less_nat_alt)
qed

lemma check_final_allowed:
  assumes "check_final h caps = Allowed" "caps_kept caps h"
  shows "rh_reviews h \<noteq> []" "reviews_of FinalAcceptance (rh_reviews h) < unat (cr_final_acceptance_reviews caps)"
proof -
  from assms(1) have a: "count_by_kind h InitialFull \<noteq> 0"
    "\<not> count_by_kind h FinalAcceptance \<ge> cr_final_acceptance_reviews caps"
    by (auto simp: check_final_def split: if_splits)
  show "rh_reviews h \<noteq> []" using a(1) assms(2) initial_count_0 by (simp add: caps_kept_def)
  have "unat (count_by_kind h FinalAcceptance) = reviews_of FinalAcceptance (rh_reviews h)"
    using assms(2) by (intro count_exact [of _ _ "cr_final_acceptance_reviews caps"]) (simp add: caps_kept_def)
  then show "reviews_of FinalAcceptance (rh_reviews h) < unat (cr_final_acceptance_reviews caps)"
    using a(2) by (simp add: not_le word_less_nat_alt)
qed

lemma append_initial_kept:
  assumes "caps_kept caps h" "check_initial h sha = Allowed" "rv_review_kind r = InitialFull"
  shows "caps_kept caps (append_review run r h)"
proof -
  have "rh_reviews h = []" using assms(1,2) check_initial_allowed by (simp add: caps_kept_def)
  with assms(1,3) show ?thesis by (simp add: caps_kept_def append_review_def phases_initial)
qed

lemma append_delta_kept:
  assumes "caps_kept caps h" "check_delta h sha caps = Allowed" "rv_review_kind r = Delta"
  shows "caps_kept caps (append_review run r h)"
  using assms check_delta_allowed [OF assms(2,1)] by (simp add: caps_kept_def append_review_def phases_delta)

lemma append_final_kept:
  assumes "caps_kept caps h" "check_final h caps = Allowed" "rv_review_kind r = FinalAcceptance"
  shows "caps_kept caps (append_review run r h)"
  using assms check_final_allowed [OF assms(2,1)] by (simp add: caps_kept_def append_review_def phases_final)

lemma round_kept:
  assumes "caps_kept caps h" "check_delta h sha caps = Allowed" "rv_review_kind r = Delta"
    and "\<not> rh_mutating_remediation_rounds h \<ge> cr_max_mutating_remediation_rounds caps"
  shows "caps_kept caps (append_review run r (h\<lparr>rh_mutating_remediation_rounds := rh_mutating_remediation_rounds h + 1\<rparr>))"
proof -
  have less: "rh_mutating_remediation_rounds h < cr_max_mutating_remediation_rounds caps" using assms(4) by simp
  then have "unat (rh_mutating_remediation_rounds h + 1) = unat (rh_mutating_remediation_rounds h) + 1"
    using unsigned_less [of "cr_max_mutating_remediation_rounds caps", where ?'a = nat]
    by (simp add: unat_plus_if' word_less_nat_alt)
  moreover have "unat (rh_mutating_remediation_rounds h) < unat (cr_max_mutating_remediation_rounds caps)"
    using less by (simp add: word_less_nat_alt)
  ultimately show ?thesis
    using assms(1,3) check_delta_allowed [OF assms(2,1)] by (simp add: caps_kept_def append_review_def phases_delta)
qed

section \<open>The files of a run\<close>

text \<open>
  The operations on the review files of one run under the caps of its charter, each with its own clock
  and write faults.
\<close>

datatype review_op =
    LaunchReview string PreLaunchReviewRequest
  | RecordReview string ReviewScope
  | AcceptFinal string string string string

fun run_review_op ::
  "string \<Rightarrow> CanonicalReviewCaps \<Rightarrow> ScopeEnv \<Rightarrow> review_op \<Rightarrow> ReviewFiles \<Rightarrow>
   ReviewFiles \<times> (ReviewCheckOutcome, ScopePersistenceError) result" where
  "run_review_op run caps env (LaunchReview dir q) fs =
     pre_launch_review_gate env dir (q\<lparr>pq_run_id := run, pq_caps := caps\<rparr>) fs"
| "run_review_op run caps env (RecordReview dir scope) fs = record_review env dir run scope caps fs"
| "run_review_op run caps env (AcceptFinal dir head merge_base digest) fs =
     record_final_acceptance env dir run head merge_base digest caps fs"

text \<open>The files after a sequence of operations, and how many reviews were granted.\<close>

fun run_reviews :: "string \<Rightarrow> CanonicalReviewCaps \<Rightarrow> (ScopeEnv \<times> review_op) list \<Rightarrow> ReviewFiles \<Rightarrow> ReviewFiles \<times> nat" where
  "run_reviews run caps [] fs = (fs, 0)"
| "run_reviews run caps ((env, a) # ops) fs =
     (let (fs1, r) = run_review_op run caps env a fs; (fs2, n) = run_reviews run caps ops fs1
      in (fs2, if r = Ok Allowed then n + 1 else n))"

definition no_review_files :: ReviewFiles where
  "no_review_files = \<lparr>vf_history = Absent, vf_exhaustion = Absent\<rparr>"

text \<open>What is recorded: a readable history that keeps the caps, or none.\<close>

definition recorded_reviews :: "ReviewFiles \<Rightarrow> ReviewScope list" where
  "recorded_reviews fs = (case vf_history fs of Stored h \<Rightarrow> rh_reviews h | _ \<Rightarrow> [])"

definition review_files_ok :: "CanonicalReviewCaps \<Rightarrow> ReviewFiles \<Rightarrow> bool" where
  "review_files_ok caps fs \<longleftrightarrow> (case vf_history fs of Absent \<Rightarrow> True | Stored h \<Rightarrow> caps_kept caps h | _ \<Rightarrow> False)"

lemma fresh_history_kept: "caps_kept caps \<lparr>rh_run_id = run, rh_reviews = [], rh_mutating_remediation_rounds = 0\<rparr>"
  by (simp add: caps_kept_def review_phases.none)

lemma history_read:
  assumes "review_files_ok caps fs"
  shows "\<exists>h. read_review_history env run fs = Ok h \<and> caps_kept caps h \<and> rh_reviews h = recorded_reviews fs"
  using assms fresh_history_kept [of caps run]
  by (cases "vf_history fs")
    (auto simp: review_files_ok_def read_review_history_def artifact_exists_def read_json_def recorded_reviews_def)

lemma history_written:
  assumes "write_review_history env dir h fs = (fs1, r)" "review_files_ok caps fs" "caps_kept caps h"
  shows "review_files_ok caps fs1 \<and> (r = Ok () \<longrightarrow> recorded_reviews fs1 = rh_reviews h) \<and>
    (r \<noteq> Ok () \<longrightarrow> recorded_reviews fs1 = recorded_reviews fs)"
  using assms
  by (auto simp: write_review_history_def write_updatable_json_def Let_def review_files_ok_def recorded_reviews_def
      split: option.splits)

text \<open>An operation keeps the files in order and records a review exactly when it grants one.\<close>

definition grants_what_it_records ::
  "CanonicalReviewCaps \<Rightarrow> ReviewFiles \<Rightarrow> ReviewFiles \<times> (ReviewCheckOutcome, ScopePersistenceError) result \<Rightarrow> bool" where
  "grants_what_it_records caps fs out \<longleftrightarrow>
     review_files_ok caps (fst out) \<and>
     length (recorded_reviews (fst out)) =
       (if snd out = Ok Allowed then length (recorded_reviews fs) + 1 else length (recorded_reviews fs))"

lemma no_grant:
  assumes "review_files_ok caps fs" "vf_history fs1 = vf_history fs" "r \<noteq> Ok Allowed"
  shows "grants_what_it_records caps fs (fs1, r)"
  using assms by (simp add: grants_what_it_records_def review_files_ok_def recorded_reviews_def)

lemma refusal_grants_nothing:
  assumes "review_files_ok caps fs" "outcome \<noteq> Allowed"
  shows "grants_what_it_records caps fs (refuse_review env dir h q routing deltas outcome fs)"
proof -
  obtain fs1 r where w: "write_exhaustion_summary env dir (build_exhaustion_summary h q routing deltas) fs = (fs1, r)"
    by fastforce
  then have "vf_history fs1 = vf_history fs" by (auto simp: write_exhaustion_summary_def Let_def split: prod.splits)
  moreover have "map_ok (\<lambda>_. outcome) r \<noteq> Ok Allowed" using assms(2) by (cases r) auto
  ultimately show ?thesis using assms(1) by (simp add: refuse_review_def w no_grant)
qed

lemma recording_grants:
  assumes "review_files_ok caps fs" "caps_kept caps (append_review run scope h)" "rh_reviews h = recorded_reviews fs"
  shows "grants_what_it_records caps fs
    (let (fs1, r) = write_review_history env dir (append_review run scope h) fs in (fs1, map_ok (\<lambda>_. Allowed) r))"
proof -
  obtain fs1 r where w: "write_review_history env dir (append_review run scope h) fs = (fs1, r)" by fastforce
  have "rh_reviews (append_review run scope h) = recorded_reviews fs @ [scope]"
    by (simp add: append_review_def assms(3))
  with history_written [OF w assms(1,2)] show ?thesis
    by (cases r) (auto simp: w grants_what_it_records_def)
qed

lemma delta_grants:
  assumes ok: "review_files_ok caps fs" and h: "caps_kept caps h" "rh_reviews h = recorded_reviews fs"
    and caps: "pq_caps q = caps"
  shows "grants_what_it_records caps fs (evaluate_delta env dir h q fs)"
proof (cases "last_reviewed_head h = Some (pq_head_sha q) \<or>
    rh_mutating_remediation_rounds h \<ge> cr_max_mutating_remediation_rounds (pq_caps q)")
  case True
  then show ?thesis
    using no_grant [OF ok, of fs "Ok SameHeadReplay"] refusal_grants_nothing [OF ok]
    by (auto simp: evaluate_delta_def)
next
  case False
  show ?thesis
  proof (cases "check_delta h (pq_head_sha q) (pq_caps q)")
    case Allowed
    let ?scope = "build_review_scope Delta q (case last_reviewed_head h of Some sha \<Rightarrow> sha | None \<Rightarrow> pq_merge_base q)"
    let ?h = "h\<lparr>rh_mutating_remediation_rounds := rh_mutating_remediation_rounds h + 1\<rparr>"
    have "caps_kept caps (append_review (pq_run_id q) ?scope ?h)"
      using h(1) Allowed False caps by (intro round_kept) (auto simp: build_review_scope_def)
    moreover have "rh_reviews ?h = recorded_reviews fs" using h(2) by simp
    ultimately have "grants_what_it_records caps fs
      (let (fs1, r) = write_review_history env dir (append_review (pq_run_id q) ?scope ?h) fs in (fs1, map_ok (\<lambda>_. Allowed) r))"
      by (rule recording_grants [OF ok])
    then show ?thesis using False Allowed by (simp add: evaluate_delta_def Let_def)
  next
    case (DeltaCapExhausted used cap)
    then show ?thesis
      using False refusal_grants_nothing [OF ok] by (simp add: evaluate_delta_def handle_delta_exhaustion_def)
  qed (use False no_grant [OF ok] in \<open>simp_all add: evaluate_delta_def handle_delta_exhaustion_def\<close>)
qed

lemma launch_grants:
  assumes ok: "review_files_ok caps fs" and caps: "pq_caps q = caps"
  shows "grants_what_it_records caps fs (pre_launch_review_gate env dir q fs)"
proof -
  obtain h where h: "read_review_history env (pq_run_id q) fs = Ok h" "caps_kept caps h" "rh_reviews h = recorded_reviews fs"
    using history_read [OF ok] by blast
  have initial: "grants_what_it_records caps fs
      (let scope = build_review_scope InitialFull q (pq_merge_base q); outcome = check_initial h (pq_head_sha q)
       in if outcome = Allowed
          then let (fs1, r) = write_review_history env dir (append_review (pq_run_id q) scope h) fs
               in (fs1, map_ok (\<lambda>_. outcome) r)
          else (fs, Ok outcome))"
  proof (cases "check_initial h (pq_head_sha q) = Allowed")
    case True
    have "caps_kept caps (append_review (pq_run_id q) (build_review_scope InitialFull q (pq_merge_base q)) h)"
      using h(2) True by (rule append_initial_kept) (simp add: build_review_scope_def)
    from recording_grants [OF ok this h(3)] show ?thesis by (simp add: True Let_def)
  next
    case False
    then show ?thesis using no_grant [OF ok, of fs] by (simp add: Let_def)
  qed
  show ?thesis
    using initial refusal_grants_nothing [OF ok] delta_grants [OF ok h(2,3) caps]
    by (simp add: pre_launch_review_gate_def h(1))
qed

lemma record_grants:
  assumes ok: "review_files_ok caps fs"
  shows "grants_what_it_records caps fs (record_review env dir run scope caps fs)"
proof -
  obtain h where h: "read_review_history env run fs = Ok h" "caps_kept caps h" "rh_reviews h = recorded_reviews fs"
    using history_read [OF ok] by blast
  define outcome where "outcome = (case rv_review_kind scope of
      InitialFull \<Rightarrow> check_initial h (rv_to_sha scope)
    | Delta \<Rightarrow> check_delta h (rv_to_sha scope) caps
    | FinalAcceptance \<Rightarrow> check_final h caps)"
  show ?thesis
  proof (cases "outcome = Allowed")
    case True
    have "caps_kept caps (append_review run scope h)"
      using True h(2) append_initial_kept append_delta_kept append_final_kept
      by (cases "rv_review_kind scope") (auto simp: outcome_def)
    from recording_grants [OF ok this h(3)] show ?thesis
      using True by (simp add: record_review_def h(1) outcome_def [symmetric] Let_def)
  next
    case False
    then show ?thesis
      using no_grant [OF ok, of fs "Ok outcome"] by (simp add: record_review_def h(1) outcome_def [symmetric] Let_def)
  qed
qed

lemma review_op_grants:
  "review_files_ok caps fs \<Longrightarrow> grants_what_it_records caps fs (run_review_op run caps env a fs)"
  by (cases a) (simp_all add: launch_grants record_grants record_final_acceptance_def)

lemma run_reviews_grants:
  "review_files_ok caps fs \<Longrightarrow> run_reviews run caps ops fs = (fs', n) \<Longrightarrow>
   review_files_ok caps fs' \<and> length (recorded_reviews fs') = length (recorded_reviews fs) + n"
proof (induction ops arbitrary: fs fs' n)
  case (Cons op ops)
  obtain env a where op: "op = (env, a)" by fastforce
  obtain fs1 r where 1: "run_review_op run caps env a fs = (fs1, r)" by fastforce
  obtain fs2 k where 2: "run_reviews run caps ops fs1 = (fs2, k)" by fastforce
  have "grants_what_it_records caps fs (fs1, r)" using review_op_grants [OF Cons.prems(1)] 1 by metis
  then have ok: "review_files_ok caps fs1"
    "length (recorded_reviews fs1) = (if r = Ok Allowed then length (recorded_reviews fs) + 1 else length (recorded_reviews fs))"
    by (simp_all add: grants_what_it_records_def)
  from Cons.IH [OF ok(1) 2] ok(2) Cons.prems(2) show ?case by (auto simp: op 1 2 split: if_splits)
qed simp

text \<open>
  Reviews are bounded by the charter. Over any sequence of pre-launch gates, recorded reviews and
  final acceptances of a run, with any requests, clocks and write faults, the number of reviews granted is
  the number recorded, which is at most one initial review plus the caps for deltas and final
  acceptances; the recorded history has the initial review first, then deltas, then final
  acceptances, and its mutating rounds stay within their cap and the number of deltas.
\<close>

theorem reviews_are_bounded:
  "snd (run_reviews run caps ops no_review_files) = length (recorded_reviews (fst (run_reviews run caps ops no_review_files))) \<and>
   snd (run_reviews run caps ops no_review_files) \<le>
     1 + unat (cr_max_delta_reviews caps) + unat (cr_final_acceptance_reviews caps) \<and>
   review_files_ok caps (fst (run_reviews run caps ops no_review_files))"
proof -
  obtain fs n where r: "run_reviews run caps ops no_review_files = (fs, n)" by fastforce
  have start: "review_files_ok caps no_review_files" "recorded_reviews no_review_files = []"
    by (simp_all add: review_files_ok_def no_review_files_def recorded_reviews_def)
  from run_reviews_grants [OF start(1) r] start(2) have ok: "review_files_ok caps fs"
    and n: "n = length (recorded_reviews fs)" by simp_all
  from history_read [OF ok] obtain h where h: "caps_kept caps h" "rh_reviews h = recorded_reviews fs" by blast
  then have "length (recorded_reviews fs) \<le> 1 + unat (cr_max_delta_reviews caps) + unat (cr_final_acceptance_reviews caps)"
    using phases_counts [of "rh_reviews h"] unfolding caps_kept_def by (auto split: if_splits)
  then show ?thesis using r ok n by simp
qed

end
