(* ===== verification/Parent_Model.thy ===== *)
theory Parent_Model
  imports Discovery Scope_Gate
begin

text \<open>
  Parent orchestration, its data (\<^verbatim>\<open>components/github/parent_orchestration/model.rs\<close>, \<^verbatim>\<open>context.rs\<close>,
  \<^verbatim>\<open>rollup.rs\<close>, the types of \<^verbatim>\<open>mod.rs\<close>): the classification of child issues, their order and the
  selection of the next one, the artifacts of a parent run, and the frame its steps run in. The
  child workflow runner and GitHub are operations on an outside world.
\<close>

section \<open>Children\<close>

datatype ChildIssueStatus =
    ChOpen | ChActiveRun | ChClosed | ChMerged | ChMergedIssueOpen | ChClosedUnmerged | ChSuperseded
  | ChStaleRun | ChFailedRun | ChBlocked

record ChildIssueState =
  cs_issue_number :: u64
  cs_terminal_state :: ChildIssueStatus
  cs_pr_number :: "u64 option"

record GithubIssuePrState =
  ps_number :: u64
  ps_state :: string
  ps_merged :: bool
  ps_merge_commit_sha :: "string option"
  ps_review_decision :: "string option"
  ps_status_check_rollup :: "string option"

text \<open>A missing position counts as the largest; the sort is stable.\<close>

definition order_subissues :: "GithubSubIssue list \<Rightarrow> u64 list" where
  "order_subissues children =
     map (\<lambda>c. gi_number (si_issue c))
       (sort_key (\<lambda>c. (case si_position c of Some p \<Rightarrow> p | None \<Rightarrow> - 1, gi_number (si_issue c))) children)"

definition classify_child :: "GithubIssue \<Rightarrow> GithubIssuePrState option \<Rightarrow> ChildIssueState" where
  "classify_child issue pr =
     (let issue_closed = eq_ignore_ascii_case (gi_state issue) ''closed''
      in \<lparr>cs_issue_number = gi_number issue,
          cs_terminal_state =
            (case pr of
               Some p \<Rightarrow>
                 (if ps_merged p \<and> issue_closed then ChMerged
                  else if ps_merged p then ChMergedIssueOpen
                  else if eq_ignore_ascii_case (ps_state p) ''superseded'' then ChSuperseded
                  else if eq_ignore_ascii_case (ps_state p) ''closed'' then ChClosedUnmerged
                  else ChActiveRun)
             | None \<Rightarrow> (if issue_closed then ChClosed else ChOpen)),
          cs_pr_number = map_option ps_number pr\<rparr>)"

definition child_state_blocks_selection :: "ChildIssueStatus \<Rightarrow> bool" where
  "child_state_blocks_selection s \<longleftrightarrow>
     s \<in> {ChMerged, ChMergedIssueOpen, ChClosed, ChClosedUnmerged, ChSuperseded, ChBlocked}"

text \<open>Collecting into a \<open>HashMap\<close> keeps the last state of a number.\<close>

definition state_of_child :: "ChildIssueState list \<Rightarrow> u64 \<Rightarrow> ChildIssueStatus option" where
  "state_of_child states n = map_of (rev (map (\<lambda>s. (cs_issue_number s, cs_terminal_state s)) states)) n"

definition next_actionable_child :: "ChildIssueState list \<Rightarrow> u64 list \<Rightarrow> u64 option" where
  "next_actionable_child states order =
     find (\<lambda>n. case state_of_child states n of Some s \<Rightarrow> \<not> child_state_blocks_selection s | None \<Rightarrow> False) order"

definition missing_ordered_child_states :: "ChildIssueState list \<Rightarrow> u64 list \<Rightarrow> u64 list" where
  "missing_ordered_child_states states order = filter (\<lambda>n. n \<notin> cs_issue_number ` set states) order"

section \<open>The frame of a step\<close>

record OrchestrationState =
  os_current_step :: string
  os_artifact_root :: string
  os_repo :: string
  os_parent_issue_number :: u64
  os_luther_label :: string
  os_child_workflow_type_id :: string
  os_child_config_id :: string
  os_merge_poll_interval_seconds :: u64
  os_max_child_merge_wait_seconds :: "u64 option"
  os_auto_merge_children :: bool
  os_wait_for_human_merge :: bool
  os_work_dir :: "string option"
  os_artifact_dir :: "string option"
  os_transport_url :: "string option"
  os_config_root :: string

record ChildWorkflowLaunchRequest =
  lq_workflow_type_id :: string
  lq_config_id :: string
  lq_run_id :: string
  lq_repo :: string
  lq_issue_number :: u64
  lq_work_dir :: "string option"
  lq_artifact_dir :: "string option"
  lq_transport_url :: "string option"
  lq_config_root :: string

datatype ChildWorkflowRunResult = CwCompletedSuccess | CwCompletedFailure | CwWaitingExternal

datatype ChildWorkflowRunnerError =
    LaunchFailed string | ResumeFailed string | StatusFailed string | UnsupportedOperation string

fun runner_error_to_string :: "ChildWorkflowRunnerError \<Rightarrow> string" where
  "runner_error_to_string (LaunchFailed m) = ''child workflow launch failed: '' @ m"
| "runner_error_to_string (ResumeFailed m) = ''child workflow resume failed: '' @ m"
| "runner_error_to_string (StatusFailed m) = ''child workflow status read failed: '' @ m"
| "runner_error_to_string (UnsupportedOperation m) = ''unsupported child workflow operation: '' @ m"

record ChildRollupEntry =
  re_child_issue_number :: u64
  re_child_run_id :: "string option"
  re_child_artifact_dir :: "string option"
  re_pr_number :: "u64 option"
  re_pr_state :: "string option"
  re_merge_sha :: "string option"
  re_outcome :: "string option"
  re_non_actionable_reason :: "string option"

record ParentOrchestrationRollup =
  ro_parent_issue_number :: u64
  ro_children :: "ChildRollupEntry list"

text \<open>
  The artifact root of a parent run: the files that are read again as a structure by that structure,
  those read again as JSON and those only written as JSON.
\<close>

record ParentFiles =
  pf_parent_issue :: "GithubIssue artifact"
  pf_subissues :: "GithubSubIssue list artifact"
  pf_states :: "ChildIssueState list artifact"
  pf_rollup :: "ParentOrchestrationRollup artifact"
  pf_order_plan :: "json artifact"
  pf_selected :: "json artifact"
  pf_evaluation :: "json artifact"
  pf_other :: "(string \<times> json) list"

record 'g OrchWorld =
  ow_context :: StepContext
  ow_files :: ParentFiles
  ow_db :: Db
  ow_github :: 'g

text \<open>
  The operations of the GitHub query trait that the orchestration adds to those of discovery, and
  the child workflow runner, which runs a whole workflow on the same database while other processes
  go on.
\<close>

record 'g ParentQuery = "'g GithubIssueQuery" +
  gx_pr_state_for_issue :: "string \<Rightarrow> u64 \<Rightarrow> 'g \<Rightarrow> (GithubIssuePrState option, GithubError) result \<times> 'g"
  gx_comment_issue :: "string \<Rightarrow> u64 \<Rightarrow> string \<Rightarrow> 'g \<Rightarrow> (unit, GithubError) result \<times> 'g"
  gx_close_issue :: "string \<Rightarrow> u64 \<Rightarrow> 'g \<Rightarrow> (unit, GithubError) result \<times> 'g"
  gx_enable_pr_auto_merge :: "string \<Rightarrow> u64 \<Rightarrow> 'g \<Rightarrow> (unit, GithubError) result \<times> 'g"

type_synonym 'g child_run =
  "ChildWorkflowLaunchRequest \<Rightarrow> Db \<times> 'g \<Rightarrow> (ChildWorkflowRunResult, ChildWorkflowRunnerError) result \<times> Db \<times> 'g"

record 'g ChildRunner =
  cn_launch_child :: "'g child_run"
  cn_resume_child :: "'g child_run"
  cn_run_status :: "string \<Rightarrow> Db \<times> 'g \<Rightarrow> (RunStatus option, ChildWorkflowRunnerError) result"

text \<open>
  The clock is a reading of the outside world, so it may move with every call that leaves the
  process; the faults and texts are those of the file system, the database and the standard library.
\<close>

record 'g OrchEnv =
  oe_now :: "'g \<Rightarrow> instant"
  oe_write_fault :: "string \<Rightarrow> string option"
  oe_remove_fault :: "string option"
  oe_read_error :: "string \<Rightarrow> string"
  oe_db_fault :: "string option"
  oe_sql_text :: "sql_error \<Rightarrow> string"
  oe_parse_text :: "string \<Rightarrow> string"
  oe_order_text :: "json \<Rightarrow> string"
  oe_compact :: "json \<Rightarrow> string"
  oe_pretty :: "json \<Rightarrow> string"

section \<open>Sequencing\<close>

text \<open>A step of the orchestration changes the world also when it fails; it fails or panics.\<close>

datatype StepFailure = Raised EngineError | Panicked string

type_synonym ('g, 'a) act = "'g OrchWorld \<Rightarrow> 'g OrchWorld \<times> ('a, StepFailure) result"

definition ret :: "'a \<Rightarrow> ('g, 'a) act" where
  "ret x w = (w, Ok x)"

definition fail :: "StepFailure \<Rightarrow> ('g, 'a) act" where
  "fail e w = (w, Err e)"

definition seq :: "('g, 'a) act \<Rightarrow> ('a \<Rightarrow> ('g, 'b) act) \<Rightarrow> ('g, 'b) act" where
  "seq m k w = (case m w of (w1, Ok x) \<Rightarrow> k x w1 | (w1, Err e) \<Rightarrow> (w1, Err e))"

definition handle :: "('g, 'a) act \<Rightarrow> (StepFailure \<Rightarrow> ('g, 'a) act) \<Rightarrow> ('g, 'a) act" where
  "handle m h w = (case m w of (w1, Ok x) \<Rightarrow> (w1, Ok x) | (w1, Err e) \<Rightarrow> h e w1)"

definition asks :: "('g OrchWorld \<Rightarrow> 'a) \<Rightarrow> ('g, 'a) act" where
  "asks f w = (w, Ok (f w))"

definition lift_result :: "('a, StepFailure) result \<Rightarrow> ('g, 'a) act" where
  "lift_result r w = (w, r)"

fun traverse :: "('a \<Rightarrow> ('g, 'b) act) \<Rightarrow> 'a list \<Rightarrow> ('g, 'b list) act" where
  "traverse f [] = ret []"
| "traverse f (x # xs) = seq (f x) (\<lambda>y. seq (traverse f xs) (\<lambda>ys. ret (y # ys)))"

definition set_context :: "string \<Rightarrow> string \<Rightarrow> ('g, unit) act" where
  "set_context k v w = (w\<lparr>ow_context := ctx_set k v (ow_context w)\<rparr>, Ok ())"

definition parent_error :: "string \<Rightarrow> EngineError" where
  "parent_error m = StepExecutionError ''parent_orchestration'' m"

definition raise :: "string \<Rightarrow> ('g, 'a) act" where
  "raise m = fail (Raised (parent_error m))"

definition github_error :: "'g ParentQuery \<Rightarrow> GithubError \<Rightarrow> EngineError" where
  "github_error q e = parent_error (gq_error_text q e)"

definition parent_sql_error :: "'g OrchEnv \<Rightarrow> sql_error \<Rightarrow> EngineError" where
  "parent_sql_error env e = parent_error (''database error: '' @ oe_sql_text env e)"

text \<open>A query of GitHub, with its error as the caller sees it and as the caller turns it.\<close>

definition github_raw :: "('g \<Rightarrow> ('a, GithubError) result \<times> 'g) \<Rightarrow> ('g, ('a, GithubError) result) act" where
  "github_raw f w = (let (r, g) = f (ow_github w) in (w\<lparr>ow_github := g\<rparr>, Ok r))"

definition github :: "'g ParentQuery \<Rightarrow> ('g \<Rightarrow> ('a, GithubError) result \<times> 'g) \<Rightarrow> ('g, 'a) act" where
  "github q f = seq (github_raw f) (\<lambda>r. lift_result (map_err (\<lambda>e. Raised (github_error q e)) r))"

text \<open>A statement on the leases at the time it runs; a failing one changes nothing.\<close>

definition on_leases ::
  "'g OrchEnv \<Rightarrow> (instant \<Rightarrow> lease_table \<Rightarrow> (lease_table \<times> 'a, sql_error) result) \<Rightarrow> ('g, 'a) act" where
  "on_leases env f w =
     (case f (oe_now env (ow_github w)) (db_leases (ow_db w)) of
        Err e \<Rightarrow> (w, Err (Raised (parent_sql_error env e)))
      | Ok (ls, x) \<Rightarrow> (w\<lparr>ow_db := (ow_db w)\<lparr>db_leases := ls\<rparr>\<rparr>, Ok x))"

definition child_lease :: "'g OrchEnv \<Rightarrow> OrchestrationState \<Rightarrow> u64 \<Rightarrow> ('g, IssueLease option) act" where
  "child_lease env st n w =
     (w, map_err (\<lambda>e. Raised (parent_sql_error env e)) (get_lease_for_issue (os_repo st) n (db_leases (ow_db w))))"

definition daemon_connection :: "'g OrchEnv \<Rightarrow> ('g, unit) act" where
  "daemon_connection env = (case oe_db_fault env of Some m \<Rightarrow> raise m | None \<Rightarrow> ret ())"

text \<open>
  Writing replaces the file by a rename or fails; a missing file and an unreadable one are errors with
  their text.
\<close>

definition write_file :: "'g OrchEnv \<Rightarrow> string \<Rightarrow> (ParentFiles \<Rightarrow> ParentFiles) \<Rightarrow> ('g, unit) act" where
  "write_file env name f w =
     (case oe_write_fault env name of
        Some m \<Rightarrow> (w, Err (Raised (parent_error m)))
      | None \<Rightarrow> (w\<lparr>ow_files := f (ow_files w)\<rparr>, Ok ()))"

definition write_object :: "'g OrchEnv \<Rightarrow> string \<Rightarrow> (string \<times> json) list \<Rightarrow> ('g, unit) act" where
  "write_object env name kvs = write_file env name (\<lambda>f. f\<lparr>pf_other := AList.update name (JObj kvs) (pf_other f)\<rparr>)"

definition read_file :: "'g OrchEnv \<Rightarrow> string \<Rightarrow> (ParentFiles \<Rightarrow> 'a artifact) \<Rightarrow> ('g, 'a) act" where
  "read_file env name f w =
     (w, case f (ow_files w) of
           Stored v \<Rightarrow> Ok v
         | Absent \<Rightarrow> Err (Raised (parent_error (oe_read_error env name)))
         | Malformed m \<Rightarrow> Err (Raised (parent_error m))
         | Unavailable m \<Rightarrow> Err (Raised (parent_error m)))"

end
