(* ===== verification/Parent_Evaluation.thy ===== *)
theory Parent_Evaluation
  imports Parent_Model
begin

text \<open>
  Parent orchestration, the steps on the parent's own artifacts (\<^verbatim>\<open>components/github/parent_orchestration\<close>:
  \<^verbatim>\<open>context.rs\<close>, \<^verbatim>\<open>rollup.rs\<close>, \<^verbatim>\<open>completion.rs\<close>, the first half of \<^verbatim>\<open>discovery.rs\<close>): loading the
  parent, listing, classifying and ordering its children, selecting the next one, the rollup, the
  evaluation of completion and the final report.
\<close>

section \<open>Configuration from the context\<close>

definition context_or :: "StepContext \<Rightarrow> string \<Rightarrow> string \<Rightarrow> string option" where
  "context_or ctx primary alternative =
     (case ctx_get ctx primary of Some v \<Rightarrow> Some v | None \<Rightarrow> ctx_get ctx alternative)"

definition required_context :: "StepContext \<Rightarrow> string \<Rightarrow> (string, EngineError) result" where
  "required_context ctx k =
     (case ctx_get ctx k of
        Some v \<Rightarrow> Ok v
      | None \<Rightarrow> Err (parent_error (''missing context value '' @ quoted k)))"

definition context_value_with_default :: "StepContext \<Rightarrow> string \<Rightarrow> string \<Rightarrow> string \<Rightarrow> string" where
  "context_value_with_default ctx primary alternative d =
     (case context_or ctx primary alternative of Some v \<Rightarrow> v | None \<Rightarrow> d)"

definition optional_u64_context ::
  "'g OrchEnv \<Rightarrow> StepContext \<Rightarrow> string \<Rightarrow> string \<Rightarrow> (u64 option, EngineError) result" where
  "optional_u64_context env ctx primary alternative =
     (case context_or ctx primary alternative of
        None \<Rightarrow> Ok None
      | Some v \<Rightarrow>
          (case parse_u64 v of
             Some n \<Rightarrow> Ok (Some (of_nat n))
           | None \<Rightarrow> Err (parent_error (''invalid numeric parent orchestration context value for '' @
                            primary @ ''/'' @ alternative @ '': '' @ oe_parse_text env v))))"

definition bool_context_default :: "StepContext \<Rightarrow> string \<Rightarrow> string \<Rightarrow> bool \<Rightarrow> bool" where
  "bool_context_default ctx primary alternative d =
     (case context_or ctx primary alternative of Some v \<Rightarrow> v = ''true'' | None \<Rightarrow> d)"

definition parent_config_root :: "StepContext \<Rightarrow> (string, EngineError) result" where
  "parent_config_root ctx =
     (case context_or ctx ''config_root'' ''config_dir'' of
        Some p \<Rightarrow> Ok p
      | None \<Rightarrow>
          (case ctx_get ctx ''work_dir'' of
             Some d \<Rightarrow> Ok (path_join d ''config'')
           | None \<Rightarrow> Err (parent_error (''parent orchestration requires config_root, config_dir, or work_dir '' @
                            ''to resolve child workflow config''))))"

definition parent_issue_number :: "'g OrchEnv \<Rightarrow> StepContext \<Rightarrow> (u64, EngineError) result" where
  "parent_issue_number env ctx =
     (case context_or ctx ''primary_issue_number'' ''issue_number'' of
        None \<Rightarrow> Err (parent_error (''missing context value '' @ quoted ''primary_issue_number''))
      | Some v \<Rightarrow>
          (case parse_u64 v of
             None \<Rightarrow> Err (parent_error (''invalid numeric parent issue context value: '' @ oe_parse_text env v))
           | Some n \<Rightarrow>
               (if n = 0
                then Err (parent_error (''parent orchestration requires launcher-injected '' @
                       ''primary_issue_number/issue_number; placeholder 0 is invalid at runtime''))
                else Ok (of_nat n))))"

definition orch_artifact_root :: "json \<Rightarrow> StepContext \<Rightarrow> (string, EngineError) result" where
  "orch_artifact_root params ctx =
     (let template = (case Option.bind (json_get params ''artifact_root'') json_as_str of
                        Some t \<Rightarrow> t
                      | None \<Rightarrow> context_value_with_default ctx ''artifact_root'' ''artifact_dir''
                                  ''{work_dir}/.luther-parent-orchestration'');
          interpolated = interpolate_string template ctx
      in if CHR ''{'' \<in> set interpolated
         then Err (parent_error (''artifact_root contains unresolved template token: '' @ interpolated))
         else Ok interpolated)"

definition explicit_transport_url :: "StepContext \<Rightarrow> string option" where
  "explicit_transport_url ctx =
     (if ctx_get ctx ''git_transport_url_source'' = Some ''explicit''
      then ctx_get ctx ''git_transport_url'' else None)"

definition orchestration_state :: "'g OrchEnv \<Rightarrow> json \<Rightarrow> StepContext \<Rightarrow> (OrchestrationState, EngineError) result" where
  "orchestration_state env params ctx =
     and_then (orch_artifact_root params ctx) (\<lambda>root.
     and_then (required_context ctx ''current_step_id'') (\<lambda>step.
     and_then (required_context ctx ''target_repo'') (\<lambda>repo.
     and_then (parent_issue_number env ctx) (\<lambda>parent.
     and_then (optional_u64_context env ctx ''parent_orchestration.merge_poll_interval_seconds''
                 ''merge_poll_interval_seconds'') (\<lambda>poll.
     and_then (optional_u64_context env ctx ''parent_orchestration.max_child_merge_wait_seconds''
                 ''max_child_merge_wait_seconds'') (\<lambda>max_wait.
     and_then (parent_config_root ctx) (\<lambda>config_root.
       Ok \<lparr>os_current_step = step, os_artifact_root = root, os_repo = repo,
           os_parent_issue_number = parent,
           os_luther_label = context_value_with_default ctx ''luther_label''
             ''parent_orchestration.active_parent_label'' ''Luther working'',
           os_child_workflow_type_id = context_value_with_default ctx
             ''parent_orchestration.child_workflow_type_id'' ''child_workflow_type_id'' ''llxprt-issue-fix-v1'',
           os_child_config_id = context_value_with_default ctx
             ''parent_orchestration.child_config_id'' ''child_config_id'' ''llxprt-code'',
           os_merge_poll_interval_seconds = (case poll of Some n \<Rightarrow> n | None \<Rightarrow> 300),
           os_max_child_merge_wait_seconds = max_wait,
           os_auto_merge_children = bool_context_default ctx
             ''parent_orchestration.auto_merge_children'' ''auto_merge_children'' False,
           os_wait_for_human_merge = bool_context_default ctx
             ''parent_orchestration.wait_for_human_merge'' ''wait_for_human_merge'' True,
           os_work_dir = ctx_get ctx ''work_dir'',
           os_artifact_dir = Some (path_join root ''children''),
           os_transport_url = explicit_transport_url ctx,
           os_config_root = config_root\<rparr>)))))))"

section \<open>JSON\<close>

definition opt_json :: "('a \<Rightarrow> json) \<Rightarrow> 'a option \<Rightarrow> json" where
  "opt_json f x = (case x of Some v \<Rightarrow> f v | None \<Rightarrow> JNull)"

definition num_json :: "u64 \<Rightarrow> json" where
  "num_json n = JInt (uint n)"

definition nums_json :: "u64 list \<Rightarrow> json" where
  "nums_json ns = JArr (map num_json ns)"

fun child_status_name :: "ChildIssueStatus \<Rightarrow> string" where
  "child_status_name ChOpen = ''Open''"
| "child_status_name ChActiveRun = ''ActiveRun''"
| "child_status_name ChClosed = ''Closed''"
| "child_status_name ChMerged = ''Merged''"
| "child_status_name ChMergedIssueOpen = ''MergedIssueOpen''"
| "child_status_name ChClosedUnmerged = ''ClosedUnmerged''"
| "child_status_name ChSuperseded = ''Superseded''"
| "child_status_name ChStaleRun = ''StaleRun''"
| "child_status_name ChFailedRun = ''FailedRun''"
| "child_status_name ChBlocked = ''Blocked''"

definition child_state_json :: "ChildIssueState \<Rightarrow> json" where
  "child_state_json s =
     JObj [(''issue_number'', num_json (cs_issue_number s)),
           (''terminal_state'', JStr (child_status_name (cs_terminal_state s))),
           (''pr_number'', opt_json num_json (cs_pr_number s))]"

definition pr_json :: "GithubIssuePrState option \<Rightarrow> json" where
  "pr_json = opt_json (\<lambda>p.
     JObj [(''number'', num_json (ps_number p)), (''state'', JStr (ps_state p)), (''merged'', JBool (ps_merged p)),
           (''merge_commit_sha'', opt_json JStr (ps_merge_commit_sha p)),
           (''review_decision'', opt_json JStr (ps_review_decision p)),
           (''status_check_rollup'', opt_json JStr (ps_status_check_rollup p))])"

definition rollup_entry_json :: "ChildRollupEntry \<Rightarrow> json" where
  "rollup_entry_json e =
     JObj [(''child_issue_number'', num_json (re_child_issue_number e)),
           (''child_run_id'', opt_json JStr (re_child_run_id e)),
           (''child_artifact_dir'', opt_json JStr (re_child_artifact_dir e)),
           (''pr_number'', opt_json num_json (re_pr_number e)),
           (''pr_state'', opt_json JStr (re_pr_state e)),
           (''merge_sha'', opt_json JStr (re_merge_sha e)),
           (''outcome'', opt_json JStr (re_outcome e)),
           (''non_actionable_reason'', opt_json JStr (re_non_actionable_reason e))]"

definition rollup_json :: "ParentOrchestrationRollup \<Rightarrow> json" where
  "rollup_json r =
     JObj [(''parent_issue_number'', num_json (ro_parent_issue_number r)),
           (''children'', JArr (map rollup_entry_json (ro_children r)))]"

text \<open>Reading a list of issue numbers back.\<close>

definition order_of_json :: "json \<Rightarrow> u64 list option" where
  "order_of_json v =
     (case v of JArr xs \<Rightarrow> collect_options (\<lambda>x. map_option of_nat (json_as_u64 x)) xs | _ \<Rightarrow> None)"

section \<open>The rollup\<close>

definition non_actionable_reason_for_outcome :: "string \<Rightarrow> string option" where
  "non_actionable_reason_for_outcome oc =
     (if oc = ''non_actionable_child'' then Some ''child issue is explicitly non-actionable''
      else if oc = ''non_actionable_child_lease''
      then Some ''child lease is already terminal outside the parent orchestrator''
      else None)"

definition child_artifact_dir :: "string \<Rightarrow> u64 \<Rightarrow> string \<Rightarrow> string" where
  "child_artifact_dir base n run = path_join (path_join base (''issue-'' @ nat_to_string (unat n))) run"

definition rollup_entry ::
  "OrchestrationState \<Rightarrow> u64 \<Rightarrow> string option \<Rightarrow> string \<Rightarrow> GithubIssuePrState option \<Rightarrow> ChildRollupEntry" where
  "rollup_entry st n run oc pr =
     \<lparr>re_child_issue_number = n, re_child_run_id = run,
      re_child_artifact_dir =
        Option.bind run (\<lambda>r. map_option (\<lambda>base. child_artifact_dir base n r) (os_artifact_dir st)),
      re_pr_number = map_option ps_number pr, re_pr_state = map_option ps_state pr,
      re_merge_sha = Option.bind pr ps_merge_commit_sha, re_outcome = Some oc,
      re_non_actionable_reason = non_actionable_reason_for_outcome oc\<rparr>"

definition put_rollup_entry :: "u64 \<Rightarrow> ChildRollupEntry \<Rightarrow> ParentOrchestrationRollup \<Rightarrow> ParentOrchestrationRollup" where
  "put_rollup_entry parent e r =
     r\<lparr>ro_parent_issue_number := parent,
       ro_children := sort_key re_child_issue_number
         (filter (\<lambda>x. re_child_issue_number x \<noteq> re_child_issue_number e) (ro_children r) @ [e])\<rparr>"

definition read_rollup :: "'g OrchEnv \<Rightarrow> ('g, ParentOrchestrationRollup) act" where
  "read_rollup env w =
     (if pf_rollup (ow_files w) = Absent then (w, Ok \<lparr>ro_parent_issue_number = 0, ro_children = []\<rparr>)
      else read_file env ''parent-orchestration-rollup.json'' pf_rollup w)"

definition update_rollup ::
  "'g OrchEnv \<Rightarrow> OrchestrationState \<Rightarrow> u64 \<Rightarrow> string option \<Rightarrow> string \<Rightarrow> GithubIssuePrState option \<Rightarrow> ('g, unit) act" where
  "update_rollup env st n run oc pr =
     seq (read_rollup env) (\<lambda>r.
       write_file env ''parent-orchestration-rollup.json''
         (\<lambda>f. f\<lparr>pf_rollup := Stored (put_rollup_entry (os_parent_issue_number st) (rollup_entry st n run oc pr) r)\<rparr>))"

definition rollup_has_outcome :: "'g OrchEnv \<Rightarrow> u64 \<Rightarrow> string \<Rightarrow> ('g, bool) act" where
  "rollup_has_outcome env n oc =
     seq (read_rollup env) (\<lambda>r.
       ret (\<exists>e \<in> set (ro_children r). re_child_issue_number e = n \<and> re_outcome e = Some oc))"

definition UNRESOLVED_OUTCOMES :: "string list" where
  "UNRESOLVED_OUTCOMES =
     [''missing_child_pr'', ''superseded_child_pr'', ''closed_unmerged_pr'', ''stale_child_run'',
      ''failed_child_run'', ''active_child_lease'', ''completed_failure'']"

definition unresolved_rollup_outcome_requires_pr :: "ChildRollupEntry \<Rightarrow> bool" where
  "unresolved_rollup_outcome_requires_pr e \<longleftrightarrow>
     (case re_outcome e of Some oc \<Rightarrow> oc \<in> set UNRESOLVED_OUTCOMES | None \<Rightarrow> False)"

section \<open>Loading, listing, classifying, ordering, selecting\<close>

definition load_parent_issue :: "'g OrchEnv \<Rightarrow> 'g ParentQuery \<Rightarrow> OrchestrationState \<Rightarrow> ('g, StepOutcome) act" where
  "load_parent_issue env q st =
     seq (github q (gq_add_label q (os_repo st) (os_parent_issue_number st) (os_luther_label st))) (\<lambda>_.
     seq (github q (gq_get_issue q (os_repo st) (os_parent_issue_number st))) (\<lambda>found.
       case found of
         None \<Rightarrow> raise ''parent issue could not be loaded''
       | Some issue \<Rightarrow>
           seq (write_file env ''parent-issue.json'' (\<lambda>f. f\<lparr>pf_parent_issue := Stored issue\<rparr>)) (\<lambda>_.
           seq (set_context ''parent_issue_number'' (nat_to_string (unat (gi_number issue)))) (\<lambda>_.
             ret Success))))"

definition clear_selected_child :: "'g OrchEnv \<Rightarrow> ('g, unit) act" where
  "clear_selected_child env w =
     (if pf_selected (ow_files w) = Absent then (w, Ok ())
      else (case oe_remove_fault env of
              Some m \<Rightarrow> (w, Err (Raised (parent_error m)))
            | None \<Rightarrow> (w\<lparr>ow_files := (ow_files w)\<lparr>pf_selected := Absent\<rparr>\<rparr>, Ok ())))"

definition discover_subissues :: "'g OrchEnv \<Rightarrow> 'g ParentQuery \<Rightarrow> OrchestrationState \<Rightarrow> ('g, StepOutcome) act" where
  "discover_subissues env q st =
     seq (github q (gq_list_sub_issues q (os_repo st) (os_parent_issue_number st))) (\<lambda>children.
     let numbers = map (\<lambda>c. gi_number (si_issue c)) children in
     seq (write_file env ''parent-subissues.json'' (\<lambda>f. f\<lparr>pf_subissues := Stored children\<rparr>)) (\<lambda>_.
     seq (write_object env ''parent-refresh-snapshot.json''
            [(''parent_issue_number'', num_json (os_parent_issue_number st)), (''children'', nums_json numbers)]) (\<lambda>_.
     seq (set_context ''child_issue_numbers'' (oe_compact env (nums_json numbers))) (\<lambda>_.
     seq (if os_current_step st = ''refresh_parent_and_children'' then clear_selected_child env else ret ()) (\<lambda>_.
       ret Success)))))"

text \<open>
  The heartbeat is stale after three poll intervals, at least fifteen minutes. A duration beyond
  the range of \<open>chrono\<close> (in milliseconds an \<open>i64\<close>) panics.
\<close>

definition DURATION_MAX_SECONDS :: int where
  "DURATION_MAX_SECONDS = i64_max div 1000"

definition grace_seconds :: "u64 \<Rightarrow> nat" where
  "grace_seconds poll = max (min (unat poll * 3) u64_max) 900"

definition stale_child_run :: "instant \<Rightarrow> IssueLease \<Rightarrow> u64 \<Rightarrow> (bool, StepFailure) result" where
  "stale_child_run now l poll =
     (let grace = int (grace_seconds poll)
      in if i64_max < grace then Ok False
         else if DURATION_MAX_SECONDS < grace then Err (Panicked ''Duration::seconds out of bounds'')
         else Ok (grace * 1000000000 < int now - int (il_heartbeat_at l)))"

definition child_workflow_completed :: "run_table \<Rightarrow> IssueLease \<Rightarrow> bool" where
  "child_workflow_completed runs l =
     (case Option.bind (il_run_id l) (\<lambda>r. get_run_with_conn r runs) of
        None \<Rightarrow> False
      | Some md \<Rightarrow> rm_status md \<in> {RCompleted, RReviewReady, RMerged})"

definition run_state_of_lease ::
  "instant \<Rightarrow> u64 \<Rightarrow> run_table \<Rightarrow> GithubIssue \<Rightarrow> IssueLease \<Rightarrow> ChildIssueStatus \<Rightarrow> (ChildIssueStatus, StepFailure) result" where
  "run_state_of_lease now poll runs issue l status =
     (let open_issue = eq_ignore_ascii_case (gi_state issue) ''open''
      in if il_status l \<in> {LFailed, LAbandoned, LCleanupAbandoned, LStale}
         then Ok (if open_issue then ChFailedRun else status)
         else if il_status l \<in> {LClaimed, LWaitingExternal, LReadyToResume, LRunning}
         then map_ok (\<lambda>stale. if stale \<and> open_issue then ChStaleRun
                              else if \<not> child_workflow_completed runs l then ChActiveRun
                              else status)
                (stale_child_run now l poll)
         else Ok status)"

definition apply_child_rollup_state :: "'g OrchEnv \<Rightarrow> ChildIssueState \<Rightarrow> ('g, ChildIssueState) act" where
  "apply_child_rollup_state env child =
     seq (read_rollup env) (\<lambda>r.
       ret (if \<exists>e \<in> set (ro_children r).
                  re_child_issue_number e = cs_issue_number child \<and> unresolved_rollup_outcome_requires_pr e
            then child\<lparr>cs_terminal_state := ChBlocked\<rparr> else child))"

definition apply_child_run_state ::
  "'g OrchEnv \<Rightarrow> OrchestrationState \<Rightarrow> GithubIssue \<Rightarrow> ChildIssueState \<Rightarrow> ('g, ChildIssueState) act" where
  "apply_child_run_state env st issue child =
     seq (child_lease env st (cs_issue_number child)) (\<lambda>lease.
     seq (case lease of
            None \<Rightarrow> ret child
          | Some l \<Rightarrow>
              (\<lambda>w. lift_result
                 (map_ok (\<lambda>s. child\<lparr>cs_terminal_state := s\<rparr>)
                    (run_state_of_lease (oe_now env (ow_github w)) (os_merge_poll_interval_seconds st)
                       (db_runs (ow_db w)) issue l (cs_terminal_state child))) w))
         (apply_child_rollup_state env))"

definition classify_child_with_run_state ::
  "'g OrchEnv \<Rightarrow> 'g ParentQuery \<Rightarrow> OrchestrationState \<Rightarrow> GithubIssue \<Rightarrow> ('g, ChildIssueState) act" where
  "classify_child_with_run_state env q st issue =
     seq (github q (gx_pr_state_for_issue q (os_repo st) (gi_number issue))) (\<lambda>pr.
       apply_child_run_state env st issue (classify_child issue pr))"

definition classify_subissues :: "'g OrchEnv \<Rightarrow> 'g ParentQuery \<Rightarrow> OrchestrationState \<Rightarrow> ('g, StepOutcome) act" where
  "classify_subissues env q st =
     seq (read_file env ''parent-subissues.json'' pf_subissues) (\<lambda>children.
     seq (daemon_connection env) (\<lambda>_.
     seq (traverse (\<lambda>c. classify_child_with_run_state env q st (si_issue c)) children) (\<lambda>states.
     seq (write_file env ''subissue-state-snapshot.json'' (\<lambda>f. f\<lparr>pf_states := Stored states\<rparr>)) (\<lambda>_.
     seq (set_context ''subissue_state_snapshot'' (oe_compact env (JArr (map child_state_json states)))) (\<lambda>_.
       ret Success)))))"

definition determine_subissue_order :: "'g OrchEnv \<Rightarrow> OrchestrationState \<Rightarrow> ('g, StepOutcome) act" where
  "determine_subissue_order env st =
     seq (read_file env ''parent-subissues.json'' pf_subissues) (\<lambda>children.
     let order = order_subissues children;
         plan = [(''order'', nums_json order), (''strategy'', JStr ''native_position_then_issue_number'')];
         write_plan = write_file env ''subissue-order-plan.json'' (\<lambda>f. f\<lparr>pf_order_plan := Stored (JObj plan)\<rparr>)
     in seq (if os_current_step st = ''determine_refreshed_subissue_order''
             then seq (write_object env ''subissue-order-plan-refreshed.json'' plan) (\<lambda>_. write_plan)
             else write_plan) (\<lambda>_.
        seq (set_context ''subissue_order'' (oe_compact env (nums_json order))) (\<lambda>_.
          ret Success)))"

definition write_selected :: "'g OrchEnv \<Rightarrow> (string \<times> json) list \<Rightarrow> ('g, unit) act" where
  "write_selected env kvs = write_file env ''selected-child.json'' (\<lambda>f. f\<lparr>pf_selected := Stored (JObj kvs)\<rparr>)"

definition select_next_child :: "'g OrchEnv \<Rightarrow> ('g, StepOutcome) act" where
  "select_next_child env =
     seq (read_file env ''subissue-state-snapshot.json'' pf_states) (\<lambda>states.
     seq (read_file env ''subissue-order-plan.json'' pf_order_plan) (\<lambda>plan.
     let order_json = (case json_get plan ''order'' of Some v \<Rightarrow> v | None \<Rightarrow> JNull) in
     case order_of_json order_json of
       None \<Rightarrow> raise (''parse subissue order artifact: '' @ oe_order_text env order_json)
     | Some order \<Rightarrow>
         let missing = missing_ordered_child_states states order in
         if missing \<noteq> []
         then seq (write_selected env
                     [(''issue_number'', JNull), (''blocked'', JBool True),
                      (''reason'', JStr ''order_state_snapshot_mismatch''),
                      (''missing_state_issue_numbers'', nums_json missing)]) (\<lambda>_. ret Fixable)
         else let nxt = next_actionable_child states order in
              seq (write_selected env [(''issue_number'', opt_json num_json nxt)]) (\<lambda>_.
              case nxt of
                None \<Rightarrow> ret Fixable
              | Some n \<Rightarrow>
                  seq (set_context ''selected_child_issue_number'' (nat_to_string (unat n))) (\<lambda>_. ret Success))))"

definition selected_child :: "'g OrchEnv \<Rightarrow> ('g, u64 option) act" where
  "selected_child env =
     seq (read_file env ''selected-child.json'' pf_selected) (\<lambda>v.
       ret (map_option of_nat (Option.bind (json_get v ''issue_number'') json_as_u64)))"

section \<open>Completion\<close>

text \<open>The index keeps the first entry of a number.\<close>

definition rollup_index :: "ParentOrchestrationRollup \<Rightarrow> u64 \<Rightarrow> ChildRollupEntry option" where
  "rollup_index r n = find (\<lambda>e. re_child_issue_number e = n) (ro_children r)"

definition child_is_complete :: "ChildIssueState \<Rightarrow> bool" where
  "child_is_complete c \<longleftrightarrow> cs_terminal_state c = ChMerged"

definition child_is_blocked :: "ChildIssueState \<Rightarrow> bool" where
  "child_is_blocked c \<longleftrightarrow> cs_terminal_state c \<in> {ChBlocked, ChMergedIssueOpen, ChSuperseded, ChClosedUnmerged}"

definition child_has_explicit_non_actionable_reason :: "ParentOrchestrationRollup \<Rightarrow> ChildIssueState \<Rightarrow> bool" where
  "child_has_explicit_non_actionable_reason r c \<longleftrightarrow>
     cs_terminal_state c = ChClosed \<and>
     (case rollup_index r (cs_issue_number c) of
        None \<Rightarrow> False
      | Some e \<Rightarrow>
          re_outcome e \<in> {Some ''non_actionable_child'', Some ''non_actionable_child_lease''} \<and>
          (case re_non_actionable_reason e of Some t \<Rightarrow> trim t \<noteq> [] | None \<Rightarrow> False))"

definition child_completion_satisfied :: "ParentOrchestrationRollup \<Rightarrow> ChildIssueState \<Rightarrow> bool" where
  "child_completion_satisfied r c \<longleftrightarrow> child_is_complete c \<or> child_has_explicit_non_actionable_reason r c"

definition incomplete_child_numbers :: "ChildIssueState list \<Rightarrow> ParentOrchestrationRollup \<Rightarrow> u64 list" where
  "incomplete_child_numbers states r =
     map cs_issue_number (filter (\<lambda>c. \<not> child_completion_satisfied r c) states)"

definition blocked_child_numbers :: "ChildIssueState list \<Rightarrow> u64 list" where
  "blocked_child_numbers states = map cs_issue_number (filter child_is_blocked states)"

definition required_prs_satisfied :: "ChildIssueState list \<Rightarrow> ParentOrchestrationRollup \<Rightarrow> bool" where
  "required_prs_satisfied states r \<longleftrightarrow>
     (\<forall>c \<in> set states.
        (case cs_terminal_state c of
           ChMerged \<Rightarrow> True
         | ChClosed \<Rightarrow> child_has_explicit_non_actionable_reason r c
         | _ \<Rightarrow> False)) \<and>
     \<not> (\<exists>e \<in> set (ro_children r). unresolved_rollup_outcome_requires_pr e)"

definition child_completion_evidence :: "ChildIssueState list \<Rightarrow> ParentOrchestrationRollup \<Rightarrow> json list" where
  "child_completion_evidence states r =
     map (\<lambda>c. let e = rollup_index r (cs_issue_number c) in
        JObj [(''child_issue_number'', num_json (cs_issue_number c)),
              (''terminal_state'', JStr (child_status_name (cs_terminal_state c))),
              (''pr_number'', opt_json num_json (cs_pr_number c)),
              (''completion_satisfied'', JBool (child_completion_satisfied r c)),
              (''non_actionable_reason'', opt_json JStr (Option.bind e re_non_actionable_reason)),
              (''merge_sha'', opt_json JStr (Option.bind e re_merge_sha)),
              (''child_artifact_dir'', opt_json JStr (Option.bind e re_child_artifact_dir))]) states"

text \<open>Checklist items of the parent's body.\<close>

definition checklist_marker :: "string list \<Rightarrow> string \<Rightarrow> bool" where
  "checklist_marker markers trimmed \<longleftrightarrow>
     (case trimmed of
        b # s # rest \<Rightarrow> b \<in> set ''-*+'' \<and> s = CHR '' '' \<and> (\<exists>m \<in> set markers. starts_with m rest)
      | _ \<Rightarrow> False)"

definition count_unchecked_acceptance_criteria :: "string \<Rightarrow> nat" where
  "count_unchecked_acceptance_criteria body =
     length (filter (\<lambda>l. checklist_marker [''[ ]''] (dropWhile is_space l)) (str_lines body))"

definition count_acceptance_criteria :: "string \<Rightarrow> nat" where
  "count_acceptance_criteria body =
     length (filter (\<lambda>l. checklist_marker [''[x]'', ''[X]'', ''[ ]''] (dropWhile is_space l)) (str_lines body))"

record AcceptanceEvaluation =
  ae_satisfied :: bool
  ae_evidence :: "string list"
  ae_remaining_work :: "string list"

text \<open>One line per child: evidence, or work that remains.\<close>

definition child_report :: "ParentOrchestrationRollup \<Rightarrow> ChildIssueState \<Rightarrow> (string, string) result" where
  "child_report r c =
     (let child = ''child issue #'' @ nat_to_string (unat (cs_issue_number c))
      in case cs_terminal_state c of
           ChClosed \<Rightarrow>
             (if child_has_explicit_non_actionable_reason r c
              then Ok (child @ '' is closed with explicit non-actionable evidence'')
              else Err (child @ '' is closed without merged PR evidence or an explicit non-actionable reason''))
         | ChMerged \<Rightarrow> Ok (child @ '' is closed with merged PR evidence'')
         | ChMergedIssueOpen \<Rightarrow> Err (child @ '' has merged PR evidence but is still open'')
         | _ \<Rightarrow> Err (child @ '' lacks terminal completion evidence''))"

fun ok_values :: "('a, 'e) result list \<Rightarrow> 'a list" where
  "ok_values [] = []"
| "ok_values (Ok x # rs) = x # ok_values rs"
| "ok_values (Err _ # rs) = ok_values rs"

fun err_values :: "('a, 'e) result list \<Rightarrow> 'e list" where
  "err_values [] = []"
| "err_values (Ok _ # rs) = err_values rs"
| "err_values (Err e # rs) = e # err_values rs"

definition evaluate_acceptance_criteria ::
  "string option \<Rightarrow> ChildIssueState list \<Rightarrow> ParentOrchestrationRollup \<Rightarrow> AcceptanceEvaluation" where
  "evaluate_acceptance_criteria body states r =
     (let criteria = (case body of Some b \<Rightarrow> count_acceptance_criteria b | None \<Rightarrow> 0);
          unchecked = (case body of Some b \<Rightarrow> count_unchecked_acceptance_criteria b | None \<Rightarrow> 0);
          reports = map (child_report r) states;
          evidence =
            [nat_to_string (length states) @ '' child issue(s) classified'',
             nat_to_string (length (ro_children r)) @ '' child rollup entry(s) recorded'',
             (if criteria = 0
              then ''no parent acceptance checklist found; relying on child completion evidence''
              else nat_to_string criteria @ '' parent acceptance checklist item(s) found; '' @
                   nat_to_string unchecked @ '' unchecked'')] @ ok_values reports;
          remaining =
            (if criteria \<noteq> 0 \<and> 0 < unchecked
             then [nat_to_string unchecked @ '' parent acceptance checklist item(s) remain unchecked''] else []) @
            err_values reports @
            (if \<exists>e \<in> set (ro_children r). unresolved_rollup_outcome_requires_pr e
             then [''one or more child runs lack merged PR evidence''] else [])
      in \<lparr>ae_satisfied = (remaining = []), ae_evidence = evidence, ae_remaining_work = remaining\<rparr>)"

definition active_child_lease_blocks_parent :: "IssueLease \<Rightarrow> bool" where
  "active_child_lease_blocks_parent l \<longleftrightarrow> il_status l \<in> {LWaitingExternal, LReadyToResume, LClaimed, LRunning}"

text \<open>One batched query; a number beyond \<open>i64\<close> fails it.\<close>

definition get_leases_for_issues :: "string \<Rightarrow> u64 list \<Rightarrow> lease_table \<Rightarrow> (u64 \<Rightarrow> IssueLease option, sql_error) result" where
  "get_leases_for_issues repo ns ls =
     (if \<exists>n \<in> set ns. \<not> is_ok (issue_number_to_sql_i64 n) then Err ToSqlConversionFailure
      else Ok (\<lambda>n. if n \<in> set ns then lookup_by lease_key (repo, n) ls else None))"

definition active_leases_of :: "ChildIssueState list \<Rightarrow> (u64 \<Rightarrow> IssueLease option) \<Rightarrow> (u64 \<times> IssueLease) list" where
  "active_leases_of children leases =
     concat (map (\<lambda>c. case leases (cs_issue_number c) of
                        Some l \<Rightarrow> (if active_child_lease_blocks_parent l then [(cs_issue_number c, l)] else [])
                      | None \<Rightarrow> []) children)"

definition active_child_leases ::
  "'g OrchEnv \<Rightarrow> OrchestrationState \<Rightarrow> ChildIssueState list \<Rightarrow> ('g, json list) act" where
  "active_child_leases env st children =
     seq (daemon_connection env) (\<lambda>_ w.
       lift_result
         (map_err (\<lambda>e. Raised (parent_sql_error env e))
           (map_ok (\<lambda>leases.
              map (\<lambda>(n, l). JObj [(''issue_number'', num_json n), (''run_id'', opt_json JStr (il_run_id l)),
                                   (''status'', JStr (lease_status_as_str (il_status l)))])
                (active_leases_of children leases))
             (get_leases_for_issues (os_repo st) (map cs_issue_number children) (db_leases (ow_db w))))) w)"

definition refresh_parent_completion_evidence ::
  "'g OrchEnv \<Rightarrow> 'g ParentQuery \<Rightarrow> OrchestrationState \<Rightarrow> ('g, unit) act" where
  "refresh_parent_completion_evidence env q st =
     seq (github q (gq_get_issue q (os_repo st) (os_parent_issue_number st))) (\<lambda>found.
       case found of
         None \<Rightarrow> raise ''parent issue could not be loaded''
       | Some issue \<Rightarrow> write_file env ''parent-issue.json'' (\<lambda>f. f\<lparr>pf_parent_issue := Stored issue\<rparr>))"

definition evaluation_complete ::
  "string option \<Rightarrow> ChildIssueState list \<Rightarrow> ParentOrchestrationRollup \<Rightarrow> json list \<Rightarrow> bool" where
  "evaluation_complete body states r active_runs \<longleftrightarrow>
     incomplete_child_numbers states r = [] \<and> required_prs_satisfied states r \<and> active_runs = [] \<and>
     ae_satisfied (evaluate_acceptance_criteria body states r) \<and> blocked_child_numbers states = []"

definition evaluation_document ::
  "string option \<Rightarrow> ChildIssueState list \<Rightarrow> ParentOrchestrationRollup \<Rightarrow> json list \<Rightarrow> json" where
  "evaluation_document body states r active_runs =
     (let acceptance = evaluate_acceptance_criteria body states r;
          strs = (\<lambda>ss. JArr (map JStr ss))
      in JObj
       [(''complete'', JBool (evaluation_complete body states r active_runs)),
        (''native_subissues_closed_or_non_actionable'', JBool (incomplete_child_numbers states r = [])),
        (''required_child_prs_merged_or_superseded'', JBool (required_prs_satisfied states r)),
        (''no_active_child_workflow_runs'', JBool (active_runs = [])),
        (''parent_acceptance_criteria_satisfied'', JBool (ae_satisfied acceptance)),
        (''no_parent_followup_remaining'', JBool (ae_remaining_work acceptance = [])),
        (''acceptance_criteria_satisfied'', JBool (ae_satisfied acceptance)),
        (''acceptance_criteria_evidence'', strs (ae_evidence acceptance)),
        (''active_child_issues'', nums_json (incomplete_child_numbers states r)),
        (''blocked_child_issues'', nums_json (blocked_child_numbers states)),
        (''active_child_runs'', JArr active_runs),
        (''merged_child_prs'',
           JArr (map rollup_entry_json (filter (\<lambda>e. re_outcome e = Some ''merged'') (ro_children r)))),
        (''closed_without_completion_evidence'',
           nums_json (map cs_issue_number (filter (\<lambda>c. cs_terminal_state c = ChClosed) states))),
        (''child_completion_evidence'', JArr (child_completion_evidence states r)),
        (''children'', JArr (map child_state_json states)),
        (''rollup'', rollup_json r),
        (''remaining_work'', strs (ae_remaining_work acceptance))])"

definition evaluate_parent_completion ::
  "'g OrchEnv \<Rightarrow> 'g ParentQuery \<Rightarrow> OrchestrationState \<Rightarrow> ('g, StepOutcome) act" where
  "evaluate_parent_completion env q st =
     seq (refresh_parent_completion_evidence env q st) (\<lambda>_.
     seq (read_file env ''subissue-state-snapshot.json'' pf_states) (\<lambda>states.
     seq (read_rollup env) (\<lambda>r.
     seq (read_file env ''parent-issue.json'' pf_parent_issue) (\<lambda>parent.
     seq (active_child_leases env st states) (\<lambda>active_runs.
     let complete = evaluation_complete (gi_body parent) states r active_runs in
     seq (write_file env ''parent-completion-evaluation.json''
            (\<lambda>f. f\<lparr>pf_evaluation := Stored (evaluation_document (gi_body parent) states r active_runs)\<rparr>)) (\<lambda>_.
     seq (set_context ''parent_complete'' (if complete then ''true'' else ''false'')) (\<lambda>_.
       ret (if complete then Success else Fixable))))))))"

section \<open>Closing or reporting\<close>

definition evaluation_says_complete :: "json \<Rightarrow> bool" where
  "evaluation_says_complete v \<longleftrightarrow> json_get v ''complete'' = Some (JBool True)"

definition evaluation_reports_terminal_blocker :: "json \<Rightarrow> bool" where
  "evaluation_reports_terminal_blocker v \<longleftrightarrow>
     (case json_get v ''blocked_child_issues'' of Some (JArr xs) \<Rightarrow> xs \<noteq> [] | _ \<Rightarrow> False)"

definition parent_summary_comment :: "'g OrchEnv \<Rightarrow> bool \<Rightarrow> json \<Rightarrow> string" where
  "parent_summary_comment env complete v =
     (if complete then ''Parent orchestration complete. Evidence:'' @ [CHR 0x0A] @ oe_pretty env v
      else ''Parent orchestration is incomplete or blocked. Current state:'' @ [CHR 0x0A] @ oe_pretty env v)"

definition close_or_report_parent ::
  "'g OrchEnv \<Rightarrow> 'g ParentQuery \<Rightarrow> OrchestrationState \<Rightarrow> ('g, StepOutcome) act" where
  "close_or_report_parent env q st =
     seq (refresh_parent_completion_evidence env q st) (\<lambda>_.
     seq (read_file env ''parent-completion-evaluation.json'' pf_evaluation) (\<lambda>evaluation.
     let complete = evaluation_says_complete evaluation in
     seq (github q (gx_comment_issue q (os_repo st) (os_parent_issue_number st)
            (parent_summary_comment env complete evaluation))) (\<lambda>_.
     seq (if complete then github q (gx_close_issue q (os_repo st) (os_parent_issue_number st)) else ret ()) (\<lambda>_.
     seq (if complete \<or> evaluation_reports_terminal_blocker evaluation
          then github q (gq_remove_label q (os_repo st) (os_parent_issue_number st) (os_luther_label st))
          else ret ()) (\<lambda>_.
     seq (write_object env ''parent-close-result.json''
            [(''closed'', JBool complete), (''commented'', JBool True),
             (''parent_issue_number'', num_json (os_parent_issue_number st))]) (\<lambda>_.
       ret Success))))))"

end
