(* ===== verification/Parent_Children.thy ===== *)
theory Parent_Children
  imports Parent_Evaluation
begin

text \<open>
  Parent orchestration, the steps on a child (\<^verbatim>\<open>components/github/parent_orchestration/lease.rs\<close>, the
  second half of \<^verbatim>\<open>discovery.rs\<close>, the requests of \<^verbatim>\<open>child_workflow.rs\<close>): taking the child's lease,
  dispatching its workflow with the compensation of every failure after that, finalizing the lease,
  waiting for the merge of its pull request, and the dispatch of the steps (\<^verbatim>\<open>mod.rs\<close>).
\<close>

section \<open>Taking the lease\<close>

datatype ChildLeaseAction =
    LaunchChild IssueLease
  | ResumeChild IssueLease
  | WaitChild "IssueLease option" string

text \<open>The compare-and-swap on status and owner that clears the run of a terminal lease.\<close>

definition relaunch_guard :: "IssueLease \<Rightarrow> IssueLease \<Rightarrow> bool" where
  "relaunch_guard l x \<longleftrightarrow> il_lease_id x = il_lease_id l \<and> il_status x = il_status l \<and> il_run_id x = il_run_id l"

definition clear_child_lease_for_relaunch :: "instant \<Rightarrow> IssueLease \<Rightarrow> lease_table \<Rightarrow> lease_table \<times> bool" where
  "clear_child_lease_for_relaunch now l ls =
     (update_where (relaunch_guard l) (\<lambda>x. x\<lparr>il_status := LClaimed, il_run_id := None, il_updated_at := now\<rparr>) ls,
      count_where (relaunch_guard l) ls = 1)"

text \<open>The transaction commits only when the swap took and the row is still there.\<close>

definition prepare_relaunchable_child :: "'g OrchEnv \<Rightarrow> IssueLease \<Rightarrow> ('g, ChildLeaseAction) act" where
  "prepare_relaunchable_child env l w =
     (let (ls, swapped) = clear_child_lease_for_relaunch (oe_now env (ow_github w)) l (db_leases (ow_db w))
      in if \<not> swapped then (w, Ok (WaitChild None ''child_lease_relaunch_contended''))
         else (case get_lease_for_issue (il_issue_repo l) (il_issue_number l) ls of
                 Err e \<Rightarrow> (w, Err (Raised (parent_sql_error env e)))
               | Ok None \<Rightarrow> (w, Err (Raised (parent_error ''child lease disappeared while preparing relaunch'')))
               | Ok (Some r) \<Rightarrow> (w\<lparr>ow_db := (ow_db w)\<lparr>db_leases := ls\<rparr>\<rparr>, Ok (LaunchChild r))))"

definition claim_child_lease :: "'g OrchEnv \<Rightarrow> OrchestrationState \<Rightarrow> u64 \<Rightarrow> ('g, ChildLeaseAction) act" where
  "claim_child_lease env st n =
     seq (on_leases env (\<lambda>now. try_claim now (os_repo st) n (os_child_config_id st))) (\<lambda>claimed.
       ret (case claimed of
              Some l \<Rightarrow> LaunchChild l
            | None \<Rightarrow> WaitChild None ''child_lease_claim_contended''))"

definition prepare_child_lease :: "'g OrchEnv \<Rightarrow> OrchestrationState \<Rightarrow> u64 \<Rightarrow> ('g, ChildLeaseAction) act" where
  "prepare_child_lease env st n =
     seq (child_lease env st n) (\<lambda>lease.
       case lease of
         None \<Rightarrow> claim_child_lease env st n
       | Some l \<Rightarrow>
           (case il_status l of
              LReadyToResume \<Rightarrow>
                seq (asks (\<lambda>w. child_workflow_completed (db_runs (ow_db w)) l)) (\<lambda>finished.
                  ret (if finished then WaitChild (Some l) ''child_workflow_completed_waiting_for_pr_merge''
                       else ResumeChild l))
            | LFailed \<Rightarrow> prepare_relaunchable_child env l
            | LAbandoned \<Rightarrow> prepare_relaunchable_child env l
            | LStale \<Rightarrow> prepare_relaunchable_child env l
            | LWaitingExternal \<Rightarrow> ret (WaitChild (Some l) ''active_child_lease'')
            | LClaimed \<Rightarrow> ret (WaitChild (Some l) ''active_child_lease'')
            | LRunning \<Rightarrow> ret (WaitChild (Some l) ''active_child_lease'')
            | LCleanupAbandoned \<Rightarrow> ret (WaitChild (Some l) ''cleanup_abandoned_requires_continuation'')
            | LPending \<Rightarrow> ret (WaitChild (Some l) ''non_actionable_child_lease'')
            | LCompleted \<Rightarrow> ret (WaitChild (Some l) ''non_actionable_child_lease'')))"

section \<open>Requests\<close>

definition child_work_dir :: "string \<Rightarrow> u64 \<Rightarrow> string \<Rightarrow> string" where
  "child_work_dir base n run =
     path_join (path_join (path_join base ''children'') (''issue-'' @ nat_to_string (unat n))) run"

definition child_request_with_run_id :: "OrchestrationState \<Rightarrow> u64 \<Rightarrow> string \<Rightarrow> ChildWorkflowLaunchRequest" where
  "child_request_with_run_id st n run =
     \<lparr>lq_workflow_type_id = os_child_workflow_type_id st, lq_config_id = os_child_config_id st,
      lq_run_id = run, lq_repo = os_repo st, lq_issue_number = n,
      lq_work_dir = map_option (\<lambda>base. child_work_dir base n run) (os_work_dir st),
      lq_artifact_dir = map_option (\<lambda>base. child_artifact_dir base n run) (os_artifact_dir st),
      lq_transport_url = os_transport_url st, lq_config_root = os_config_root st\<rparr>"

definition child_launch_request :: "instant \<Rightarrow> OrchestrationState \<Rightarrow> u64 \<Rightarrow> ChildWorkflowLaunchRequest" where
  "child_launch_request now st n =
     child_request_with_run_id st n
       (''parent'' @ nat_to_string (unat (os_parent_issue_number st)) @ ''-child'' @ nat_to_string (unat n) @
        ''-'' @ nat_to_string (now div 1000000))"

definition child_resume_request :: "OrchestrationState \<Rightarrow> u64 \<Rightarrow> string \<Rightarrow> ChildWorkflowLaunchRequest" where
  "child_resume_request st n run = child_request_with_run_id st n run"

section \<open>Artifacts of a dispatch\<close>

definition status_json :: "IssueLease \<Rightarrow> json" where
  "status_json l = JStr (lease_status_as_str (il_status l))"

definition run_status_json :: "RunStatus option \<Rightarrow> json" where
  "run_status_json = opt_json (\<lambda>s. JStr (run_status_to_string s))"

definition write_launch_artifact :: "'g OrchEnv \<Rightarrow> (string \<times> json) list \<Rightarrow> ('g, unit) act" where
  "write_launch_artifact env kvs = write_object env ''child-run-launch.json'' kvs"

definition write_child_workflow_wait_artifact ::
  "'g OrchEnv \<Rightarrow> OrchestrationState \<Rightarrow> u64 \<Rightarrow> IssueLease option \<Rightarrow> string option \<Rightarrow> string \<Rightarrow> RunStatus option \<Rightarrow> ('g, unit) act" where
  "write_child_workflow_wait_artifact env st n lease run reason status =
     write_object env ''child-workflow-wait.json''
       [(''waiting'', JBool True), (''state'', JStr ''child_workflow_in_progress''),
        (''child_issue_number'', num_json n), (''child_run_id'', opt_json JStr run),
        (''child_lease_id'', opt_json (\<lambda>l. JStr (il_lease_id l)) lease),
        (''lease_status'', opt_json status_json lease), (''run_status'', run_status_json status),
        (''reason'', JStr reason),
        (''poll_interval_seconds'', num_json (os_merge_poll_interval_seconds st)),
        (''max_child_merge_wait_seconds'', opt_json num_json (os_max_child_merge_wait_seconds st))]"

definition child_cas_rejected_outcome :: "'g OrchEnv \<Rightarrow> u64 \<Rightarrow> IssueLease \<Rightarrow> string \<Rightarrow> ('g, StepOutcome) act" where
  "child_cas_rejected_outcome env n l reason =
     seq (write_launch_artifact env
            [(''launched'', JBool False), (''child_issue_number'', num_json n), (''reason'', JStr reason),
             (''lease_id'', JStr (il_lease_id l)), (''observed_lease_status'', status_json l),
             (''observed_run_id'', opt_json JStr (il_run_id l))]) (\<lambda>_.
       ret Wait)"

section \<open>Finalizing a run\<close>

record ChildLaunchCompletion =
  lc_child :: u64
  lc_lease :: IssueLease
  lc_request :: ChildWorkflowLaunchRequest
  lc_result :: ChildWorkflowRunResult
  lc_run_status :: "RunStatus option"
  lc_pr :: "GithubIssuePrState option"

definition classify_child_run_result :: "ChildWorkflowRunResult \<Rightarrow> RunStatus option \<Rightarrow> ChildWorkflowRunResult" where
  "classify_child_run_result result status =
     (case status of
        None \<Rightarrow> result
      | Some s \<Rightarrow>
          (if s \<in> {RCompleted, RMerged} then CwCompletedSuccess
           else if s \<in> {RFailed, RAbandoned, RCancelled} then CwCompletedFailure
           else CwWaitingExternal))"

fun child_result_name :: "ChildWorkflowRunResult \<Rightarrow> string" where
  "child_result_name CwCompletedSuccess = ''completed_success''"
| "child_result_name CwCompletedFailure = ''completed_failure''"
| "child_result_name CwWaitingExternal = ''waiting_external''"

fun finalized_status :: "ChildWorkflowRunResult \<Rightarrow> LeaseStatus" where
  "finalized_status CwCompletedFailure = LFailed"
| "finalized_status CwCompletedSuccess = LReadyToResume"
| "finalized_status CwWaitingExternal = LWaitingExternal"

fun finalizable_from :: "ChildWorkflowRunResult \<Rightarrow> LeaseStatus list" where
  "finalizable_from CwCompletedFailure = [LRunning, LFailed]"
| "finalizable_from CwCompletedSuccess = [LRunning, LWaitingExternal]"
| "finalizable_from CwWaitingExternal = [LRunning, LWaitingExternal]"

definition advance_child_lease_for_result ::
  "'g OrchEnv \<Rightarrow> ChildLaunchCompletion \<Rightarrow> ChildWorkflowRunResult \<Rightarrow> ('g, ConditionalLeaseStatusOutcome) act" where
  "advance_child_lease_for_result env c result =
     on_leases env (\<lambda>now. update_lease_status_conditional_outcome now (il_lease_id (lc_lease c))
       (finalized_status result) (finalizable_from result) None (Some (lq_run_id (lc_request c))))"

fun should_apply_child_finalization_side_effects ::
  "ConditionalLeaseStatusOutcome \<Rightarrow> ChildWorkflowRunResult \<Rightarrow> ChildLaunchCompletion \<Rightarrow> bool" where
  "should_apply_child_finalization_side_effects Applied result c = True"
| "should_apply_child_finalization_side_effects Missing result c = False"
| "should_apply_child_finalization_side_effects (Rejected status run) result c =
     (status = finalized_status result \<and> run = Some (lq_run_id (lc_request c)))"

fun step_outcome_for_child_result :: "ChildWorkflowRunResult \<Rightarrow> StepOutcome" where
  "step_outcome_for_child_result CwCompletedFailure = Fixable"
| "step_outcome_for_child_result CwCompletedSuccess = Success"
| "step_outcome_for_child_result CwWaitingExternal = Wait"

fun step_outcome_from_durable_lease :: "ConditionalLeaseStatusOutcome \<Rightarrow> StepOutcome" where
  "step_outcome_from_durable_lease Applied = Success"
| "step_outcome_from_durable_lease Missing = Fixable"
| "step_outcome_from_durable_lease (Rejected status run) =
     (if status = LCompleted then Success
      else if status \<in> {LReadyToResume, LRunning, LWaitingExternal, LClaimed, LPending} then Wait
      else Fixable)"

definition record_terminal_child_failure ::
  "'g OrchEnv \<Rightarrow> 'g ParentQuery \<Rightarrow> OrchestrationState \<Rightarrow> ChildLaunchCompletion \<Rightarrow> ('g, unit) act" where
  "record_terminal_child_failure env q st c =
     seq (write_object env ''child-terminal-state.json''
            [(''child_issue_number'', num_json (lc_child c)), (''state'', JStr ''failed_child_run''),
             (''child_run_id'', JStr (lq_run_id (lc_request c))), (''lease_id'', JStr (il_lease_id (lc_lease c))),
             (''run_status'', run_status_json (lc_run_status c)), (''pr'', pr_json (lc_pr c))]) (\<lambda>_.
     seq (github q (gq_remove_label q (os_repo st) (lc_child c) (os_luther_label st))) (\<lambda>_.
     seq (github q (gx_comment_issue q (os_repo st) (os_parent_issue_number st)
            (''Parent orchestration is paused because child issue #'' @ nat_to_string (unat (lc_child c)) @
             '' reached a terminal failed workflow state.''))) (\<lambda>_.
       update_rollup env st (lc_child c) (Some (lq_run_id (lc_request c))) ''failed_child_run'' (lc_pr c))))"

definition finalization_effects ::
  "'g OrchEnv \<Rightarrow> 'g ParentQuery \<Rightarrow> OrchestrationState \<Rightarrow> ChildLaunchCompletion \<Rightarrow> ChildWorkflowRunResult \<Rightarrow> ('g, StepOutcome) act" where
  "finalization_effects env q st c result =
     seq (write_launch_artifact env
            [(''launched'', JBool True), (''child_issue_number'', num_json (lc_child c)),
             (''child_workflow_type_id'', JStr (lq_workflow_type_id (lc_request c))),
             (''child_config_id'', JStr (lq_config_id (lc_request c))),
             (''run_id'', JStr (lq_run_id (lc_request c))), (''lease_id'', JStr (il_lease_id (lc_lease c))),
             (''resumed'', JBool (il_run_id (lc_lease c) \<noteq> None)), (''outcome'', JStr (child_result_name result)),
             (''run_status'', run_status_json (lc_run_status c)), (''pr'', pr_json (lc_pr c))]) (\<lambda>_.
     seq (set_context ''child_run_id'' (lq_run_id (lc_request c))) (\<lambda>_.
     seq (case lc_pr c of
            Some p \<Rightarrow> set_context ''child_pr_number'' (nat_to_string (unat (ps_number p)))
          | None \<Rightarrow> ret ()) (\<lambda>_.
     seq (update_rollup env st (lc_child c) (Some (lq_run_id (lc_request c))) (child_result_name result) (lc_pr c)) (\<lambda>_.
     seq (if result = CwWaitingExternal
          then write_child_workflow_wait_artifact env st (lc_child c) (Some (lc_lease c))
                 (Some (lq_run_id (lc_request c))) ''child_workflow_waiting_external'' (lc_run_status c)
          else ret ()) (\<lambda>_.
     seq (if result = CwCompletedFailure then record_terminal_child_failure env q st c else ret ()) (\<lambda>_.
       ret (step_outcome_for_child_result result)))))))"

definition finish_child_launch ::
  "'g OrchEnv \<Rightarrow> 'g ParentQuery \<Rightarrow> OrchestrationState \<Rightarrow> ChildLaunchCompletion \<Rightarrow> ('g, StepOutcome) act" where
  "finish_child_launch env q st c =
     (let result = classify_child_run_result (lc_result c) (lc_run_status c)
      in seq (advance_child_lease_for_result env c result) (\<lambda>oc.
         if \<not> should_apply_child_finalization_side_effects oc result c
         then ret (step_outcome_from_durable_lease oc)
         else finalization_effects env q st c result))"

section \<open>Dispatching\<close>

definition claim_running_lease_cas ::
  "'g OrchEnv \<Rightarrow> IssueLease \<Rightarrow> LeaseStatus list \<Rightarrow> string option \<Rightarrow> string \<Rightarrow> ('g, bool) act" where
  "claim_running_lease_cas env l expected expected_run new_run =
     on_leases env (\<lambda>now. update_lease_status_conditional_exact_owner now (il_lease_id l) LRunning expected
       (Some new_run) expected_run)"

definition restore_child_lease_after_runner_error ::
  "'g OrchEnv \<Rightarrow> IssueLease \<Rightarrow> LeaseStatus \<Rightarrow> string option \<Rightarrow> string \<Rightarrow> ('g, unit) act" where
  "restore_child_lease_after_runner_error env l status run expected_run =
     seq (on_leases env (\<lambda>now. update_lease_status_conditional now (il_lease_id l) status [LRunning] run
            (Some expected_run))) (\<lambda>restored.
       if restored then ret ()
       else raise (''child lease '' @ il_lease_id l @
              '' changed owner or status; stale error compensation was rejected''))"

fun failure_text :: "StepFailure \<Rightarrow> string" where
  "failure_text (Raised e) = engine_error_to_string e"
| "failure_text (Panicked m) = m"

text \<open>The error itself when the lease could be given back, else the error with that of the attempt.\<close>

definition compensate ::
  "'g OrchEnv \<Rightarrow> IssueLease \<Rightarrow> string option \<Rightarrow> string \<Rightarrow> string \<Rightarrow> string \<Rightarrow> StepFailure \<Rightarrow> ('g, 'a) act" where
  "compensate env l run expected_run message detail original =
     seq (handle (restore_child_lease_after_runner_error env l (il_status l) run expected_run)
            (\<lambda>e. raise (message @ ''; failed to restore child lease '' @ il_lease_id l @ detail @ '': '' @
                   failure_text e))) (\<lambda>_.
       fail original)"

definition run_child ::
  "'g child_run \<Rightarrow> ChildWorkflowLaunchRequest \<Rightarrow> ('g, (ChildWorkflowRunResult, ChildWorkflowRunnerError) result) act" where
  "run_child dispatch rq w =
     (let (r, db, g) = dispatch rq (ow_db w, ow_github w)
      in (w\<lparr>ow_db := db, ow_github := g\<rparr>, Ok r))"

definition post_launch_metadata_error :: "string \<Rightarrow> IssueLease \<Rightarrow> string \<Rightarrow> EngineError \<Rightarrow> EngineError" where
  "post_launch_metadata_error action l run e =
     parent_error (action @ '' after child launch failed for lease '' @ il_lease_id l @ '' run '' @ run @
       '': '' @ engine_error_to_string e)"

definition post_launch_metadata ::
  "'g ParentQuery \<Rightarrow> 'g ChildRunner \<Rightarrow> OrchestrationState \<Rightarrow> u64 \<Rightarrow> IssueLease \<Rightarrow> ChildWorkflowLaunchRequest \<Rightarrow>
   ('g, RunStatus option \<times> GithubIssuePrState option) act" where
  "post_launch_metadata q runner st n l rq =
     seq (\<lambda>w. (w, map_err (\<lambda>e. Raised (post_launch_metadata_error ''read child run status'' l (lq_run_id rq)
                                      (parent_error (runner_error_to_string e))))
                  (cn_run_status runner (lq_run_id rq) (ow_db w, ow_github w)))) (\<lambda>status.
     seq (github_raw (gx_pr_state_for_issue q (os_repo st) n)) (\<lambda>r.
     seq (lift_result (map_err (\<lambda>e. Raised (post_launch_metadata_error ''read child PR state'' l (lq_run_id rq)
                                         (github_error q e))) r)) (\<lambda>pr.
       ret (status, pr))))"

definition dispatch_and_finalize_child ::
  "'g OrchEnv \<Rightarrow> 'g ParentQuery \<Rightarrow> 'g ChildRunner \<Rightarrow> OrchestrationState \<Rightarrow> u64 \<Rightarrow> IssueLease \<Rightarrow>
   ChildWorkflowLaunchRequest \<Rightarrow> string option \<Rightarrow> 'g child_run \<Rightarrow> ('g, StepOutcome) act" where
  "dispatch_and_finalize_child env q runner st n l rq compensate_run dispatch =
     seq (run_child dispatch rq) (\<lambda>dispatched.
       case dispatched of
         Err e \<Rightarrow> compensate env l compensate_run (lq_run_id rq) (runner_error_to_string e) []
                    (Raised (parent_error (runner_error_to_string e)))
       | Ok result \<Rightarrow>
           seq (handle (post_launch_metadata q runner st n l rq)
                  (\<lambda>e. compensate env l compensate_run (lq_run_id rq) (failure_text e) '' after metadata error'' e))
               (\<lambda>(status, pr).
             finish_child_launch env q st
               \<lparr>lc_child = n, lc_lease = l, lc_request = rq, lc_result = result, lc_run_status = status, lc_pr = pr\<rparr>))"

text \<open>
  The start writes out what \<open>dispatch_and_finalize_child\<close> does for a resume, with the run observed
  on the lease as the one to restore.
\<close>

definition start_child_workflow ::
  "'g OrchEnv \<Rightarrow> 'g ParentQuery \<Rightarrow> 'g ChildRunner \<Rightarrow> OrchestrationState \<Rightarrow> u64 \<Rightarrow> IssueLease \<Rightarrow> ('g, StepOutcome) act" where
  "start_child_workflow env q runner st n l =
     seq (asks (\<lambda>w. child_launch_request (oe_now env (ow_github w)) st n)) (\<lambda>rq.
     seq (claim_running_lease_cas env l [LClaimed] (il_run_id l) (lq_run_id rq)) (\<lambda>claimed.
       if \<not> claimed then child_cas_rejected_outcome env n l ''start_child_workflow_cas_rejected''
       else seq (github_raw (gq_add_label q (os_repo st) n (os_luther_label st))) (\<lambda>r.
              case r of
                Err e \<Rightarrow> compensate env l (il_run_id l) (lq_run_id rq) (gq_error_text q e)
                           '' after label add failure'' (Raised (github_error q e))
              | Ok _ \<Rightarrow> dispatch_and_finalize_child env q runner st n l rq (il_run_id l) (cn_launch_child runner))))"

definition missing_resume_run_id_outcome :: "'g OrchEnv \<Rightarrow> OrchestrationState \<Rightarrow> u64 \<Rightarrow> IssueLease \<Rightarrow> ('g, StepOutcome) act" where
  "missing_resume_run_id_outcome env st n l =
     seq (on_leases env (\<lambda>now. update_lease_status_conditional_exact_owner now (il_lease_id l) LFailed
            [il_status l] None (il_run_id l))) (\<lambda>updated.
       if \<not> updated
       then seq (child_lease env st n) (\<lambda>found.
              case found of
                None \<Rightarrow> fail (Raised (EnginePersistenceError ''child lease disappeared''))
              | Some durable \<Rightarrow> child_cas_rejected_outcome env n durable ''missing_child_run_id_repair_rejected'')
       else seq (write_launch_artifact env
                   [(''launched'', JBool False), (''child_issue_number'', num_json n),
                    (''reason'', JStr ''missing_child_run_id''), (''lease_id'', JStr (il_lease_id l)),
                    (''lease_status'', status_json l)]) (\<lambda>_. ret Fixable))"

definition resume_child_workflow ::
  "'g OrchEnv \<Rightarrow> 'g ParentQuery \<Rightarrow> 'g ChildRunner \<Rightarrow> OrchestrationState \<Rightarrow> u64 \<Rightarrow> IssueLease \<Rightarrow> ('g, StepOutcome) act" where
  "resume_child_workflow env q runner st n l =
     (case il_run_id l of
        None \<Rightarrow> missing_resume_run_id_outcome env st n l
      | Some run \<Rightarrow>
          (let rq = child_resume_request st n run
           in seq (claim_running_lease_cas env l [LReadyToResume] (Some run) (lq_run_id rq)) (\<lambda>claimed.
              if \<not> claimed then child_cas_rejected_outcome env n l ''resume_child_workflow_cas_rejected''
              else dispatch_and_finalize_child env q runner st n l rq (Some run) (cn_resume_child runner))))"

section \<open>Launching or resuming the selected child\<close>

text \<open>The status of a run in the registry, over a connection of its own.\<close>

definition child_run_status_from_registry :: "'g OrchEnv \<Rightarrow> string \<Rightarrow> ('g, RunStatus option) act" where
  "child_run_status_from_registry env run =
     seq (daemon_connection env) (\<lambda>_. asks (\<lambda>w. map_option rm_status (get_run_with_conn run (db_runs (ow_db w)))))"

definition is_observable_existing_pr :: "GithubIssuePrState \<Rightarrow> bool" where
  "is_observable_existing_pr p \<longleftrightarrow>
     \<not> ps_merged p \<and> \<not> eq_ignore_ascii_case (ps_state p) ''closed'' \<and>
     \<not> eq_ignore_ascii_case (ps_state p) ''superseded''"

definition has_active_or_recoverable_child_lease :: "'g OrchEnv \<Rightarrow> OrchestrationState \<Rightarrow> u64 \<Rightarrow> ('g, bool) act" where
  "has_active_or_recoverable_child_lease env st n =
     seq (child_lease env st n) (\<lambda>lease.
       ret (case lease of
              Some l \<Rightarrow> il_status l \<in> {LReadyToResume, LFailed, LAbandoned, LStale, LWaitingExternal, LClaimed, LRunning}
            | None \<Rightarrow> False))"

definition observe_existing_child_pr ::
  "'g OrchEnv \<Rightarrow> 'g ParentQuery \<Rightarrow> OrchestrationState \<Rightarrow> u64 \<Rightarrow> GithubIssuePrState \<Rightarrow> ('g, StepOutcome) act" where
  "observe_existing_child_pr env q st n p =
     seq (github q (gq_add_label q (os_repo st) n (os_luther_label st))) (\<lambda>_.
     seq (write_launch_artifact env
            [(''launched'', JBool False), (''child_issue_number'', num_json n), (''reason'', JStr ''existing_child_pr''),
             (''observing_existing_pr'', JBool True), (''pr'', pr_json (Some p))]) (\<lambda>_.
     seq (set_context ''child_pr_number'' (nat_to_string (unat (ps_number p)))) (\<lambda>_.
     seq (update_rollup env st n None ''observing_existing_child_pr'' (Some p)) (\<lambda>_.
       ret Success))))"

definition wait_for_existing_child ::
  "'g OrchEnv \<Rightarrow> OrchestrationState \<Rightarrow> u64 \<Rightarrow> IssueLease option \<Rightarrow> string \<Rightarrow> ('g, StepOutcome) act" where
  "wait_for_existing_child env st n lease reason =
     (let run = Option.bind lease il_run_id;
          artifact = (\<lambda>why status.
            [(''launched'', JBool False), (''child_issue_number'', num_json n), (''reason'', JStr why),
             (''existing_run_id'', opt_json JStr run), (''lease_status'', opt_json status_json lease),
             (''run_status'', run_status_json status)])
      in seq (case run of Some r \<Rightarrow> child_run_status_from_registry env r | None \<Rightarrow> ret None) (\<lambda>status.
         if status = Some RMerged
         then seq (write_launch_artifact env (artifact ''child_workflow_completed_waiting_for_pr_merge'' status)) (\<lambda>_.
              seq (update_rollup env st n run ''child_workflow_completed_waiting_for_pr_merge'' None) (\<lambda>_.
                ret Success))
         else seq (write_launch_artifact env (artifact reason status)) (\<lambda>_.
              seq (write_child_workflow_wait_artifact env st n lease run reason status) (\<lambda>_.
              seq (update_rollup env st n run reason None) (\<lambda>_.
                ret Wait)))))"

definition prepare_and_dispatch_child ::
  "'g OrchEnv \<Rightarrow> 'g ParentQuery \<Rightarrow> 'g ChildRunner \<Rightarrow> OrchestrationState \<Rightarrow> u64 \<Rightarrow> ('g, StepOutcome) act" where
  "prepare_and_dispatch_child env q runner st n =
     seq (prepare_child_lease env st n) (\<lambda>action.
       case action of
         WaitChild lease reason \<Rightarrow> wait_for_existing_child env st n lease reason
       | ResumeChild l \<Rightarrow> resume_child_workflow env q runner st n l
       | LaunchChild l \<Rightarrow> start_child_workflow env q runner st n l)"

definition launch_child_workflow ::
  "'g OrchEnv \<Rightarrow> 'g ParentQuery \<Rightarrow> 'g ChildRunner \<Rightarrow> OrchestrationState \<Rightarrow> ('g, StepOutcome) act" where
  "launch_child_workflow env q runner st =
     seq (daemon_connection env) (\<lambda>_.
     seq (selected_child env) (\<lambda>selected.
       case selected of
         None \<Rightarrow> seq (write_launch_artifact env [(''launched'', JBool False), (''reason'', JStr ''no_actionable_child'')])
                   (\<lambda>_. ret Success)
       | Some n \<Rightarrow>
           seq (github q (gx_pr_state_for_issue q (os_repo st) n)) (\<lambda>pr.
             case pr of
               None \<Rightarrow> prepare_and_dispatch_child env q runner st n
             | Some p \<Rightarrow>
                 (if is_observable_existing_pr p
                  then seq (has_active_or_recoverable_child_lease env st n) (\<lambda>recoverable.
                         if \<not> recoverable then observe_existing_child_pr env q st n p
                         else prepare_and_dispatch_child env q runner st n)
                  else prepare_and_dispatch_child env q runner st n))))"

section \<open>Waiting for the merge\<close>

datatype ChildPrWait = PwMerged | PwReadyForHumanMerge | PwMissingPr | PwClosedUnmerged | PwSuperseded

definition classify_child_pr_wait :: "GithubIssuePrState option \<Rightarrow> ChildPrWait" where
  "classify_child_pr_wait pr =
     (case pr of
        None \<Rightarrow> PwMissingPr
      | Some p \<Rightarrow>
          (if ps_merged p then PwMerged
           else if eq_ignore_ascii_case (ps_state p) ''superseded'' then PwSuperseded
           else if eq_ignore_ascii_case (ps_state p) ''closed'' then PwClosedUnmerged
           else PwReadyForHumanMerge))"

definition write_merge_wait :: "'g OrchEnv \<Rightarrow> (string \<times> json) list \<Rightarrow> ('g, unit) act" where
  "write_merge_wait env kvs = write_object env ''child-merge-wait.json'' kvs"

definition poll_fields :: "OrchestrationState \<Rightarrow> (string \<times> json) list" where
  "poll_fields st =
     [(''poll_interval_seconds'', num_json (os_merge_poll_interval_seconds st)),
      (''max_child_merge_wait_seconds'', opt_json num_json (os_max_child_merge_wait_seconds st))]"

definition child_run_id_for_wait :: "'g OrchEnv \<Rightarrow> OrchestrationState \<Rightarrow> u64 \<Rightarrow> ('g, string option) act" where
  "child_run_id_for_wait env st n =
     seq (daemon_connection env) (\<lambda>_. seq (child_lease env st n) (\<lambda>lease. ret (Option.bind lease il_run_id)))"

definition persisted_child_run_id :: "'g OrchEnv \<Rightarrow> OrchestrationState \<Rightarrow> u64 \<Rightarrow> ('g, string option) act" where
  "persisted_child_run_id env st n =
     seq (asks (\<lambda>w. ctx_get (ow_context w) ''child_run_id'')) (\<lambda>known.
       case known of Some r \<Rightarrow> ret (Some r) | None \<Rightarrow> child_run_id_for_wait env st n)"

definition child_workflow_ready_for_merge :: "'g OrchEnv \<Rightarrow> string option \<Rightarrow> ('g, bool) act" where
  "child_workflow_ready_for_merge env run =
     (case run of
        None \<Rightarrow> ret False
      | Some r \<Rightarrow>
          seq (daemon_connection env) (\<lambda>_.
          seq (asks (\<lambda>w. get_run_with_conn r (db_runs (ow_db w)))) (\<lambda>md.
            ret (case md of Some m \<Rightarrow> rm_status m \<in> {RCompleted, RReviewReady, RMerged} | None \<Rightarrow> False))))"

definition mark_child_lease_completed :: "'g OrchEnv \<Rightarrow> OrchestrationState \<Rightarrow> u64 \<Rightarrow> string \<Rightarrow> ('g, unit) act" where
  "mark_child_lease_completed env st n run =
     seq (daemon_connection env) (\<lambda>_.
     seq (child_lease env st n) (\<lambda>lease.
       case lease of
         None \<Rightarrow> ret ()
       | Some l \<Rightarrow>
           seq (on_leases env (\<lambda>now. update_lease_status_conditional now (il_lease_id l) LCompleted
                  [LCompleted, LFailed, LReadyToResume] (Some run) (Some run))) (\<lambda>_. ret ())))"

definition mark_child_lease_relaunchable :: "'g OrchEnv \<Rightarrow> OrchestrationState \<Rightarrow> u64 \<Rightarrow> ('g, unit) act" where
  "mark_child_lease_relaunchable env st n =
     seq (daemon_connection env) (\<lambda>_.
     seq (child_lease env st n) (\<lambda>lease.
       case lease of
         None \<Rightarrow> ret ()
       | Some l \<Rightarrow>
           (case il_run_id l of
              None \<Rightarrow> ret ()
            | Some run \<Rightarrow>
                seq (on_leases env (\<lambda>now. update_lease_status_conditional now (il_lease_id l) LFailed
                       [LCompleted, LFailed] (Some run) (Some run))) (\<lambda>_. ret ()))))"

definition finish_merged_child ::
  "'g OrchEnv \<Rightarrow> 'g ParentQuery \<Rightarrow> OrchestrationState \<Rightarrow> u64 \<Rightarrow> GithubIssuePrState option \<Rightarrow> ('g, StepOutcome) act" where
  "finish_merged_child env q st n pr =
     seq (persisted_child_run_id env st n) (\<lambda>run.
     seq (write_merge_wait env
            [(''waiting'', JBool False), (''child_issue_number'', num_json n), (''state'', JStr ''merged''),
             (''child_run_id'', opt_json JStr run), (''pr'', pr_json pr)]) (\<lambda>_.
     seq (github q (gq_remove_label q (os_repo st) n (os_luther_label st))) (\<lambda>_.
     seq (case run of Some r \<Rightarrow> mark_child_lease_completed env st n r | None \<Rightarrow> ret ()) (\<lambda>_.
     seq (update_rollup env st n run ''merged'' pr) (\<lambda>_.
       ret Success)))))"

definition auto_merge_block_reason :: "GithubIssuePrState \<Rightarrow> string option" where
  "auto_merge_block_reason p =
     (if ps_status_check_rollup p \<noteq> Some ''passed'' then Some ''checks_not_passed''
      else if ps_review_decision p = Some ''changes_requested'' then Some ''changes_requested''
      else if ps_review_decision p = Some ''review_required'' then Some ''review_required''
      else None)"

text \<open>A refused auto merge is reported, not raised.\<close>

definition attempt_auto_merge_if_enabled ::
  "'g ParentQuery \<Rightarrow> OrchestrationState \<Rightarrow> GithubIssuePrState option \<Rightarrow> ('g, json) act" where
  "attempt_auto_merge_if_enabled q st pr =
     (if \<not> os_auto_merge_children st
      then ret (JObj [(''attempted'', JBool False), (''reason'', JStr ''disabled'')])
      else (case pr of
              None \<Rightarrow> ret (JObj [(''attempted'', JBool False), (''reason'', JStr ''missing_pr'')])
            | Some p \<Rightarrow>
                (case auto_merge_block_reason p of
                   Some reason \<Rightarrow>
                     ret (JObj [(''attempted'', JBool False), (''enabled'', JBool False),
                                (''pr_number'', num_json (ps_number p)),
                                (''fallback'', JStr ''wait_for_human_merge''), (''reason'', JStr reason)])
                 | None \<Rightarrow>
                     seq (github_raw (gx_enable_pr_auto_merge q (os_repo st) (ps_number p))) (\<lambda>r.
                       ret (case r of
                              Ok _ \<Rightarrow> JObj [(''attempted'', JBool True), (''enabled'', JBool True),
                                            (''pr_number'', num_json (ps_number p))]
                            | Err e \<Rightarrow> JObj [(''attempted'', JBool True), (''enabled'', JBool False),
                                            (''pr_number'', num_json (ps_number p)),
                                            (''fallback'', JStr ''wait_for_human_merge''),
                                            (''error'', JStr (gq_error_text q e))])))))"

definition comment_once ::
  "'g ParentQuery \<Rightarrow> OrchestrationState \<Rightarrow> bool \<Rightarrow> string \<Rightarrow> ('g, unit) act" where
  "comment_once q st already body =
     (if already then ret () else github q (gx_comment_issue q (os_repo st) (os_parent_issue_number st) body))"

definition record_ready_for_human_merge ::
  "'g OrchEnv \<Rightarrow> 'g ParentQuery \<Rightarrow> OrchestrationState \<Rightarrow> u64 \<Rightarrow> GithubIssuePrState option \<Rightarrow> ('g, StepOutcome) act" where
  "record_ready_for_human_merge env q st n pr =
     seq (child_run_id_for_wait env st n) (\<lambda>run.
     seq (attempt_auto_merge_if_enabled q st pr) (\<lambda>auto_merge.
     seq (rollup_has_outcome env n ''ready_for_human_merge'') (\<lambda>already.
     seq (write_merge_wait env
            ([(''waiting'', JBool True), (''child_issue_number'', num_json n), (''state'', JStr ''ready_for_human_merge''),
              (''child_run_id'', opt_json JStr run), (''pr'', pr_json pr),
              (''auto_merge_children'', JBool (os_auto_merge_children st)), (''auto_merge'', auto_merge),
              (''wait_for_human_merge'', JBool (os_wait_for_human_merge st))] @ poll_fields st)) (\<lambda>_.
     seq (comment_once q st already
            (''Child issue #'' @ nat_to_string (unat n) @ '' has a PR ready for human merge. '' @
             ''Parent orchestration will continue after the PR is merged.'')) (\<lambda>_.
     seq (update_rollup env st n run ''ready_for_human_merge'' pr) (\<lambda>_.
       ret (if os_wait_for_human_merge st then Wait else Success)))))))"

definition record_observed_child_pr_merge_wait ::
  "'g OrchEnv \<Rightarrow> 'g ParentQuery \<Rightarrow> OrchestrationState \<Rightarrow> u64 \<Rightarrow> GithubIssuePrState option \<Rightarrow> ('g, StepOutcome) act" where
  "record_observed_child_pr_merge_wait env q st n pr =
     seq (rollup_has_outcome env n ''observing_existing_child_pr'') (\<lambda>already.
     seq (write_merge_wait env
            ([(''waiting'', JBool True), (''child_issue_number'', num_json n),
              (''state'', JStr ''observing_existing_child_pr''), (''child_run_id'', JNull), (''pr'', pr_json pr)] @
             poll_fields st)) (\<lambda>_.
     seq (comment_once q st already
            (''Child issue #'' @ nat_to_string (unat n) @ '' already has an active PR. '' @
             ''Parent orchestration will observe it and continue after the PR is merged.'')) (\<lambda>_.
     seq (update_rollup env st n None ''observing_existing_child_pr'' pr) (\<lambda>_.
       ret Wait))))"

definition record_child_pr_still_in_progress ::
  "'g OrchEnv \<Rightarrow> OrchestrationState \<Rightarrow> u64 \<Rightarrow> GithubIssuePrState option \<Rightarrow> string option \<Rightarrow> ('g, StepOutcome) act" where
  "record_child_pr_still_in_progress env st n pr run =
     seq (write_merge_wait env
            ([(''waiting'', JBool True), (''child_issue_number'', num_json n),
              (''state'', JStr ''child_workflow_in_progress''), (''child_run_id'', opt_json JStr run), (''pr'', pr_json pr)] @
             poll_fields st)) (\<lambda>_.
     seq (update_rollup env st n run ''child_workflow_in_progress'' pr) (\<lambda>_.
       ret Wait))"

definition record_blocked_child ::
  "'g OrchEnv \<Rightarrow> 'g ParentQuery \<Rightarrow> OrchestrationState \<Rightarrow> u64 \<Rightarrow> GithubIssuePrState option \<Rightarrow> string \<Rightarrow> ('g, StepOutcome) act" where
  "record_blocked_child env q st n pr reason =
     seq (write_merge_wait env
            [(''waiting'', JBool False), (''child_issue_number'', num_json n), (''state'', JStr ''blocked''),
             (''reason'', JStr reason), (''pr'', pr_json pr)]) (\<lambda>_.
     seq (github q (gq_remove_label q (os_repo st) n (os_luther_label st))) (\<lambda>_.
     seq (github q (gx_comment_issue q (os_repo st) (os_parent_issue_number st)
            (''Parent orchestration is blocked on child issue #'' @ nat_to_string (unat n) @ '': '' @ reason @ ''.''))) (\<lambda>_.
     seq (update_rollup env st n None reason pr) (\<lambda>_.
       ret Fixable))))"

definition record_superseded_child ::
  "'g OrchEnv \<Rightarrow> 'g ParentQuery \<Rightarrow> OrchestrationState \<Rightarrow> u64 \<Rightarrow> GithubIssuePrState option \<Rightarrow> ('g, StepOutcome) act" where
  "record_superseded_child env q st n pr =
     seq (github q (gx_comment_issue q (os_repo st) (os_parent_issue_number st)
            (''Parent orchestration paused on superseded child issue #'' @ nat_to_string (unat n) @
             ''; a replacement PR needs human confirmation.''))) (\<lambda>_.
       record_blocked_child env q st n pr ''superseded_child_pr'')"

definition reevaluate_closed_unmerged_child ::
  "'g OrchEnv \<Rightarrow> 'g ParentQuery \<Rightarrow> OrchestrationState \<Rightarrow> u64 \<Rightarrow> GithubIssuePrState option \<Rightarrow> ('g, StepOutcome) act" where
  "reevaluate_closed_unmerged_child env q st n pr =
     seq (github q (gq_get_issue q (os_repo st) n)) (\<lambda>found.
       case found of
         None \<Rightarrow> record_blocked_child env q st n pr ''closed_unmerged_pr''
       | Some issue \<Rightarrow>
           (if eq_ignore_ascii_case (gi_state issue) ''open''
            then seq (mark_child_lease_relaunchable env st n) (\<lambda>_.
                 seq (update_rollup env st n None ''closed_unmerged_pr_relaunchable'' pr) (\<lambda>_.
                 seq (write_merge_wait env
                        [(''waiting'', JBool False), (''child_issue_number'', num_json n),
                         (''state'', JStr ''closed_unmerged_relaunchable''), (''pr'', pr_json pr)]) (\<lambda>_.
                   ret Success)))
            else record_blocked_child env q st n pr ''closed_unmerged_pr''))"

definition wait_for_child_merge :: "'g OrchEnv \<Rightarrow> 'g ParentQuery \<Rightarrow> OrchestrationState \<Rightarrow> ('g, StepOutcome) act" where
  "wait_for_child_merge env q st =
     seq (selected_child env) (\<lambda>selected.
       case selected of
         None \<Rightarrow> seq (write_merge_wait env [(''waiting'', JBool False), (''reason'', JStr ''no_actionable_child'')])
                   (\<lambda>_. ret Success)
       | Some n \<Rightarrow>
           seq (github q (gx_pr_state_for_issue q (os_repo st) n)) (\<lambda>pr.
             case classify_child_pr_wait pr of
               PwMerged \<Rightarrow> finish_merged_child env q st n pr
             | PwReadyForHumanMerge \<Rightarrow>
                 seq (child_run_id_for_wait env st n) (\<lambda>run.
                 seq (child_workflow_ready_for_merge env run) (\<lambda>ready.
                   if ready then record_ready_for_human_merge env q st n pr
                   else if run = None then record_observed_child_pr_merge_wait env q st n pr
                   else record_child_pr_still_in_progress env st n pr run))
             | PwMissingPr \<Rightarrow> record_blocked_child env q st n pr ''missing_child_pr''
             | PwClosedUnmerged \<Rightarrow> reevaluate_closed_unmerged_child env q st n pr
             | PwSuperseded \<Rightarrow> record_superseded_child env q st n pr))"

section \<open>The executor\<close>

definition parent_orchestration_step ::
  "'g OrchEnv \<Rightarrow> 'g ParentQuery \<Rightarrow> 'g ChildRunner \<Rightarrow> OrchestrationState \<Rightarrow> ('g, StepOutcome) act" where
  "parent_orchestration_step env q runner st =
     (let step = os_current_step st
      in if step = ''load_parent_issue'' then load_parent_issue env q st
         else if step \<in> {''discover_subissues'', ''refresh_parent_and_children''} then discover_subissues env q st
         else if step \<in> {''classify_subissues'', ''classify_refreshed_subissues''} then classify_subissues env q st
         else if step \<in> {''determine_subissue_order'', ''determine_refreshed_subissue_order''}
         then determine_subissue_order env st
         else if step = ''select_next_child'' then select_next_child env
         else if step = ''launch_or_resume_child_workflow'' then launch_child_workflow env q runner st
         else if step = ''wait_for_child_merge'' then wait_for_child_merge env q st
         else if step = ''evaluate_parent_completion'' then evaluate_parent_completion env q st
         else if step = ''close_or_report_parent'' then close_or_report_parent env q st
         else raise (''unknown parent orchestration step '' @ quoted step))"

definition parent_orchestration_execute ::
  "'g OrchEnv \<Rightarrow> 'g ParentQuery \<Rightarrow> 'g ChildRunner \<Rightarrow> json \<Rightarrow> ('g, StepOutcome) act" where
  "parent_orchestration_execute env q runner params w =
     (case orchestration_state env params (ow_context w) of
        Err e \<Rightarrow> (w, Err (Raised e))
      | Ok st \<Rightarrow> parent_orchestration_step env q runner st w)"

end
