(* ===== verification/Parent_Properties.thy ===== *)
theory Parent_Properties
  imports Parent_Children
begin

text \<open>
  What parent orchestration promises: a child is selected in order, its workflow runs only under its
  own running lease, a finalization that lost the lease has no effect, and the parent is closed only
  when an abstract criterion on children, rollup and leases holds.
\<close>

section \<open>Sequencing\<close>

lemma seq_ok_iff: "seq m k w = (w', Ok y) \<longleftrightarrow> (\<exists>w1 x. m w = (w1, Ok x) \<and> k x w1 = (w', Ok y))"
  by (auto simp: seq_def split: prod.splits result.splits)

lemma github_ok_iff:
  "github q f w = (w', Ok x) \<longleftrightarrow> (\<exists>g. f (ow_github w) = (Ok x, g) \<and> w' = w\<lparr>ow_github := g\<rparr>)"
  by (cases "f (ow_github w)"; cases "fst (f (ow_github w))")
    (auto simp: github_def github_raw_def seq_def lift_result_def)

lemma write_file_ok_iff:
  "write_file env name f w = (w', Ok u) \<longleftrightarrow>
     oe_write_fault env name = None \<and> w' = w\<lparr>ow_files := f (ow_files w)\<rparr>"
  by (auto simp: write_file_def split: option.splits)

lemma read_file_ok_iff: "read_file env name f w = (w', Ok x) \<longleftrightarrow> w' = w \<and> f (ow_files w) = Stored x"
  by (auto simp: read_file_def split: artifact.splits)

lemma ret_ok_iff: "ret x w = (w', Ok y) \<longleftrightarrow> w' = w \<and> y = x"
  by (auto simp: ret_def)

lemma raise_not_ok [simp]: "raise m w \<noteq> (w', Ok x)"
  by (simp add: raise_def fail_def)

lemma set_context_ok_iff: "set_context k v w = (w', Ok u) \<longleftrightarrow> w' = w\<lparr>ow_context := ctx_set k v (ow_context w)\<rparr>"
  by (auto simp: set_context_def)

lemma daemon_connection_ok_iff: "daemon_connection env w = (w', Ok u) \<longleftrightarrow> oe_db_fault env = None \<and> w' = w"
  by (auto simp: daemon_connection_def ret_def split: option.splits)

lemma if_ret_ok_iff: "(if b then m else ret ()) w = (w', Ok u) \<longleftrightarrow> (if b then m w = (w', Ok u) else w' = w)"
  by (auto simp: ret_def)

definition rollup_of :: "ParentFiles \<Rightarrow> ParentOrchestrationRollup option" where
  "rollup_of f =
     (case pf_rollup f of
        Stored r \<Rightarrow> Some r
      | Absent \<Rightarrow> Some \<lparr>ro_parent_issue_number = 0, ro_children = []\<rparr>
      | _ \<Rightarrow> None)"

lemma read_rollup_ok_iff: "read_rollup env w = (w', Ok r) \<longleftrightarrow> w' = w \<and> rollup_of (ow_files w) = Some r"
  by (cases "pf_rollup (ow_files w)") (auto simp: read_rollup_def rollup_of_def read_file_def)

lemmas act_iffs = seq_ok_iff github_ok_iff write_file_ok_iff read_file_ok_iff ret_ok_iff set_context_ok_iff
  daemon_connection_ok_iff read_rollup_ok_iff write_object_def

section \<open>Completion of the parent\<close>

text \<open>
  The abstract criterion: every child is merged or closed with a recorded non-actionable reason and
  has no lease at work, nothing in the rollup still needs a pull request, no checklist item is open.
\<close>

definition open_checklist_item :: "string option \<Rightarrow> bool" where
  "open_checklist_item body \<longleftrightarrow>
     (\<exists>b. body = Some b \<and> (\<exists>l \<in> set (str_lines b). checklist_marker [''[ ]''] (dropWhile is_space l)))"

definition child_done :: "ParentOrchestrationRollup \<Rightarrow> ChildIssueState \<Rightarrow> bool" where
  "child_done r c \<longleftrightarrow> cs_terminal_state c = ChMerged \<or> child_has_explicit_non_actionable_reason r c"

definition child_at_work :: "string \<Rightarrow> lease_table \<Rightarrow> u64 \<Rightarrow> bool" where
  "child_at_work repo ls n \<longleftrightarrow>
     (\<exists>l. lookup_by lease_key (repo, n) ls = Some l \<and>
          il_status l \<in> {LWaitingExternal, LReadyToResume, LClaimed, LRunning})"

definition parent_may_close ::
  "string \<Rightarrow> string option \<Rightarrow> ChildIssueState list \<Rightarrow> ParentOrchestrationRollup \<Rightarrow> lease_table \<Rightarrow> bool" where
  "parent_may_close repo body states r ls \<longleftrightarrow>
     (\<forall>c \<in> set states. child_done r c \<and> \<not> child_at_work repo ls (cs_issue_number c)) \<and>
     (\<forall>e \<in> set (ro_children r). \<not> unresolved_rollup_outcome_requires_pr e) \<and>
     \<not> open_checklist_item body"

lemma incomplete_empty_iff: "incomplete_child_numbers states r = [] \<longleftrightarrow> (\<forall>c \<in> set states. child_done r c)"
  by (auto simp: incomplete_child_numbers_def child_done_def child_completion_satisfied_def child_is_complete_def
      filter_empty_conv)

lemma child_done_required:
  "child_done r c \<Longrightarrow>
     (case cs_terminal_state c of ChMerged \<Rightarrow> True | ChClosed \<Rightarrow> child_has_explicit_non_actionable_reason r c | _ \<Rightarrow> False)"
  by (auto simp: child_done_def child_has_explicit_non_actionable_reason_def)

lemma child_done_report: "child_done r c \<Longrightarrow> \<exists>t. child_report r c = Ok t"
  by (auto simp: child_done_def child_report_def Let_def child_has_explicit_non_actionable_reason_def)

lemma child_done_not_blocked: "child_done r c \<Longrightarrow> \<not> child_is_blocked c"
  by (auto simp: child_done_def child_is_blocked_def child_has_explicit_non_actionable_reason_def)

lemma err_values_empty_iff: "err_values rs = [] \<longleftrightarrow> (\<forall>x \<in> set rs. is_ok x)"
  by (induction rs rule: err_values.induct) auto

lemma unchecked_are_criteria:
  "checklist_marker [''[ ]''] t \<Longrightarrow> checklist_marker [''[x]'', ''[X]'', ''[ ]''] t"
  by (auto simp: checklist_marker_def split: list.splits)

lemma open_checklist_counts:
  "open_checklist_item (Some b) \<longleftrightarrow> 0 < count_unchecked_acceptance_criteria b"
  "0 < count_unchecked_acceptance_criteria b \<Longrightarrow> count_acceptance_criteria b \<noteq> 0"
proof -
  show "open_checklist_item (Some b) \<longleftrightarrow> 0 < count_unchecked_acceptance_criteria b"
    by (auto simp: open_checklist_item_def count_unchecked_acceptance_criteria_def filter_empty_conv)
  assume "0 < count_unchecked_acceptance_criteria b"
  then show "count_acceptance_criteria b \<noteq> 0"
    by (auto simp: count_unchecked_acceptance_criteria_def count_acceptance_criteria_def filter_empty_conv
        dest: unchecked_are_criteria)
qed

lemma acceptance_satisfied_iff:
  "ae_satisfied (evaluate_acceptance_criteria body states r) \<longleftrightarrow>
     \<not> open_checklist_item body \<and> (\<forall>c \<in> set states. is_ok (child_report r c)) \<and>
     (\<forall>e \<in> set (ro_children r). \<not> unresolved_rollup_outcome_requires_pr e)"
proof (cases body)
  case None
  then show ?thesis
    by (auto simp: evaluate_acceptance_criteria_def Let_def err_values_empty_iff open_checklist_item_def)
next
  case (Some b)
  then show ?thesis
    using open_checklist_counts [of b]
    by (auto simp: evaluate_acceptance_criteria_def Let_def err_values_empty_iff)
qed

lemma active_leases_empty_iff:
  "active_leases_of states leases = [] \<longleftrightarrow>
     (\<forall>c \<in> set states. \<forall>l. leases (cs_issue_number c) = Some l \<longrightarrow> \<not> active_child_lease_blocks_parent l)"
  by (auto simp: active_leases_of_def split: option.splits if_splits)

lemma evaluation_complete_iff:
  assumes leases: "get_leases_for_issues repo (map cs_issue_number states) ls = Ok leases"
  shows "evaluation_complete body states r (map f (active_leases_of states leases)) \<longleftrightarrow>
     parent_may_close repo body states r ls"
proof -
  have lease: "leases (cs_issue_number c) = lookup_by lease_key (repo, cs_issue_number c) ls" if "c \<in> set states" for c
    using leases that by (auto simp: get_leases_for_issues_def split: if_splits)
  have idle: "active_leases_of states leases = [] \<longleftrightarrow> (\<forall>c \<in> set states. \<not> child_at_work repo ls (cs_issue_number c))"
    using lease by (auto simp: active_leases_empty_iff child_at_work_def active_child_lease_blocks_parent_def)
  show ?thesis
  proof (cases "\<forall>c \<in> set states. child_done r c")
    case True
    then have "required_prs_satisfied states r \<longleftrightarrow> (\<forall>e \<in> set (ro_children r). \<not> unresolved_rollup_outcome_requires_pr e)"
      using child_done_required unfolding required_prs_satisfied_def by blast
    moreover have "\<forall>c \<in> set states. is_ok (child_report r c)"
      using True child_done_report [of r] by fastforce
    moreover have "blocked_child_numbers states = []"
      using True child_done_not_blocked by (auto simp: blocked_child_numbers_def filter_empty_conv)
    ultimately show ?thesis
      using True by (auto simp: evaluation_complete_def parent_may_close_def incomplete_empty_iff idle
          acceptance_satisfied_iff)
  next
    case False
    then show ?thesis by (auto simp: evaluation_complete_def parent_may_close_def incomplete_empty_iff)
  qed
qed

lemma active_child_leases_ok_iff:
  "active_child_leases env st states w = (w', Ok js) \<longleftrightarrow>
     w' = w \<and> oe_db_fault env = None \<and>
     (\<exists>leases. get_leases_for_issues (os_repo st) (map cs_issue_number states) (db_leases (ow_db w)) = Ok leases \<and>
        js = map (\<lambda>(n, l). JObj [(''issue_number'', num_json n), (''run_id'', opt_json JStr (il_run_id l)),
                                   (''status'', JStr (lease_status_as_str (il_status l)))])
               (active_leases_of states leases))"
  by (cases "get_leases_for_issues (os_repo st) (map cs_issue_number states) (db_leases (ow_db w))")
    (auto simp: active_child_leases_def act_iffs lift_result_def)

lemma document_says_complete [simp]:
  "evaluation_says_complete (evaluation_document body states r js) \<longleftrightarrow> evaluation_complete body states r js"
  by (simp add: evaluation_says_complete_def evaluation_document_def Let_def)

definition criterion_holds :: "OrchestrationState \<Rightarrow> 'g OrchWorld \<Rightarrow> bool" where
  "criterion_holds st w \<longleftrightarrow>
     (case (pf_parent_issue (ow_files w), pf_states (ow_files w), rollup_of (ow_files w)) of
        (Stored issue, Stored states, Some r) \<Rightarrow>
          parent_may_close (os_repo st) (gi_body issue) states r (db_leases (ow_db w))
      | _ \<Rightarrow> False)"

lemma refresh_ok_iff:
  "refresh_parent_completion_evidence env q st w = (w', Ok u) \<longleftrightarrow>
     oe_write_fault env ''parent-issue.json'' = None \<and>
     (\<exists>issue g. gq_get_issue q (os_repo st) (os_parent_issue_number st) (ow_github w) = (Ok (Some issue), g) \<and>
        w' = w\<lparr>ow_github := g, ow_files := (ow_files w)\<lparr>pf_parent_issue := Stored issue\<rparr>\<rparr>)"
proof -
  have case_ok: "(case found of None \<Rightarrow> raise m | Some issue \<Rightarrow> k issue) w1 = (w', Ok u) \<longleftrightarrow>
      (\<exists>issue. found = Some issue \<and> k issue w1 = (w', Ok u))" for found m k w1
    by (cases found) auto
  show ?thesis
    unfolding refresh_parent_completion_evidence_def seq_ok_iff case_ok by (auto simp: act_iffs)
qed

lemma evaluation_ok:
  assumes "evaluate_parent_completion env q st w = (w', Ok oc)"
  obtains issue states r v where
    "gq_get_issue q (os_repo st) (os_parent_issue_number st) (ow_github w) = (Ok (Some issue), ow_github w')"
    "pf_parent_issue (ow_files w') = Stored issue" "pf_states (ow_files w') = Stored states"
    "rollup_of (ow_files w') = Some r" "pf_evaluation (ow_files w') = Stored v" "ow_db w' = ow_db w"
    "evaluation_says_complete v \<longleftrightarrow> parent_may_close (os_repo st) (gi_body issue) states r (db_leases (ow_db w'))"
    "oc = (if evaluation_says_complete v then Success else Fixable)"
proof -
  from assms obtain issue g states r js leases where
    get: "gq_get_issue q (os_repo st) (os_parent_issue_number st) (ow_github w) = (Ok (Some issue), g)"
    and states: "pf_states (ow_files w) = Stored states" and r: "rollup_of (ow_files w) = Some r"
    and leases: "get_leases_for_issues (os_repo st) (map cs_issue_number states) (db_leases (ow_db w)) = Ok leases"
    and js: "js = map (\<lambda>(n, l). JObj [(''issue_number'', num_json n), (''run_id'', opt_json JStr (il_run_id l)),
                                   (''status'', JStr (lease_status_as_str (il_status l)))])
               (active_leases_of states leases)"
    and w': "ow_github w' = g" "ow_db w' = ow_db w"
      "ow_files w' = (ow_files w)\<lparr>pf_parent_issue := Stored issue,
         pf_evaluation := Stored (evaluation_document (gi_body issue) states r js)\<rparr>"
    and oc: "oc = (if evaluation_complete (gi_body issue) states r js then Success else Fixable)"
    by (auto simp: evaluate_parent_completion_def Let_def act_iffs refresh_ok_iff active_child_leases_ok_iff
        rollup_of_def)
  show ?thesis
    using that [of issue states r] get states r w' oc evaluation_complete_iff [OF leases]
    by (simp add: js rollup_of_def)
qed

text \<open>
  C26: the evaluation step answers Success exactly when the criterion holds of the parent issue just
  loaded, the child states, the rollup and the leases, Fixable otherwise, and the evaluation it
  stores says the same.
\<close>

theorem parent_evaluation_meets_criterion:
  assumes "evaluate_parent_completion env q st w = (w', Ok oc)"
  shows "oc = (if criterion_holds st w' then Success else Fixable) \<and>
    (\<exists>v. pf_evaluation (ow_files w') = Stored v \<and> (evaluation_says_complete v \<longleftrightarrow> criterion_holds st w')) \<and>
    (\<exists>issue. pf_parent_issue (ow_files w') = Stored issue \<and>
       gq_get_issue q (os_repo st) (os_parent_issue_number st) (ow_github w) = (Ok (Some issue), ow_github w'))"
  using assms by (auto elim!: evaluation_ok simp: criterion_holds_def)

lemma github_close_update [simp]: "github (q\<lparr>gx_close_issue := f\<rparr>) a = github q a"
  by (simp add: github_def github_error_def fun_eq_iff)

lemma refresh_close_update [simp]:
  "refresh_parent_completion_evidence env (q\<lparr>gx_close_issue := f\<rparr>) st = refresh_parent_completion_evidence env q st"
  by (simp add: refresh_parent_completion_evidence_def)

lemma seq_cong_ok: "(\<And>w1 x. m w = (w1, Ok x) \<Longrightarrow> k x w1 = k' x w1) \<Longrightarrow> seq m k w = seq m k' w"
  by (auto simp: seq_def split: prod.splits result.splits)

text \<open>
  The world in which the closing step has refreshed its evidence and posted its summary, when both
  succeed: the closing call, if the step makes one, is made there.
\<close>

definition summary_posted ::
  "'g OrchEnv \<Rightarrow> 'g ParentQuery \<Rightarrow> OrchestrationState \<Rightarrow> json \<Rightarrow> 'g OrchWorld \<Rightarrow> 'g OrchWorld option" where
  "summary_posted env q st v w =
     (case refresh_parent_completion_evidence env q st w of
        (w1, Ok _) \<Rightarrow>
          (case gx_comment_issue q (os_repo st) (os_parent_issue_number st)
                  (parent_summary_comment env (evaluation_says_complete v) v) (ow_github w1) of
             (Ok _, g) \<Rightarrow> Some (w1\<lparr>ow_github := g\<rparr>)
           | (Err e, g) \<Rightarrow> None)
      | (w1, Err e) \<Rightarrow> None)"

text \<open>What follows a closing call that succeeded: the label is removed and the result recorded.\<close>

definition report_closed :: "'g OrchEnv \<Rightarrow> 'g ParentQuery \<Rightarrow> OrchestrationState \<Rightarrow> ('g, StepOutcome) act" where
  "report_closed env q st =
     seq (github q (gq_remove_label q (os_repo st) (os_parent_issue_number st) (os_luther_label st))) (\<lambda>_.
     seq (write_object env ''parent-close-result.json''
            [(''closed'', JBool True), (''commented'', JBool True),
             (''parent_issue_number'', num_json (os_parent_issue_number st))]) (\<lambda>_.
       ret Success))"

lemma github_run:
  "github q f w = (case f (ow_github w) of
     (Ok x, g) \<Rightarrow> (w\<lparr>ow_github := g\<rparr>, Ok x) | (Err e, g) \<Rightarrow> (w\<lparr>ow_github := g\<rparr>, Err (Raised (github_error q e))))"
  by (simp add: github_def github_raw_def seq_def lift_result_def split: prod.splits result.splits)

lemma summary_not_posted:
  assumes "summary_posted env q st v w = None" and "pf_evaluation (ow_files w) = Stored v"
  shows "close_or_report_parent env (q\<lparr>gx_close_issue := f\<rparr>) st w = close_or_report_parent env q st w"
    and "\<exists>e. snd (close_or_report_parent env q st w) = Err e"
proof -
  consider (refresh) w1 e where "refresh_parent_completion_evidence env q st w = (w1, Err e)"
    | (comment) w1 e g where "refresh_parent_completion_evidence env q st w = (w1, Ok ())"
        "gx_comment_issue q (os_repo st) (os_parent_issue_number st)
           (parent_summary_comment env (evaluation_says_complete v) v) (ow_github w1) = (Err e, g)"
    using assms(1) by (auto simp: summary_posted_def split: prod.splits result.splits)
  then have "close_or_report_parent env (q\<lparr>gx_close_issue := f\<rparr>) st w = close_or_report_parent env q st w \<and>
    (\<exists>e. snd (close_or_report_parent env q st w) = Err e)"
  proof cases
    case refresh
    then show ?thesis by (simp add: close_or_report_parent_def seq_def)
  next
    case comment
    then have "pf_evaluation (ow_files w1) = Stored v" using assms(2) by (auto simp: refresh_ok_iff)
    with comment show ?thesis
      by (simp add: close_or_report_parent_def seq_def Let_def read_file_def github_run)
  qed
  then show "close_or_report_parent env (q\<lparr>gx_close_issue := f\<rparr>) st w = close_or_report_parent env q st w"
    "\<exists>e. snd (close_or_report_parent env q st w) = Err e" by blast+
qed

lemma close_after_summary:
  assumes "summary_posted env q st v w = Some w'" and "pf_evaluation (ow_files w) = Stored v"
  shows "close_or_report_parent env q st w =
    seq (if evaluation_says_complete v then github q (gx_close_issue q (os_repo st) (os_parent_issue_number st)) else ret ()) (\<lambda>_.
     seq (if evaluation_says_complete v \<or> evaluation_reports_terminal_blocker v
          then github q (gq_remove_label q (os_repo st) (os_parent_issue_number st) (os_luther_label st))
          else ret ()) (\<lambda>_.
     seq (write_object env ''parent-close-result.json''
            [(''closed'', JBool (evaluation_says_complete v)), (''commented'', JBool True),
             (''parent_issue_number'', num_json (os_parent_issue_number st))]) (\<lambda>_.
       ret Success))) w'"
proof -
  from assms(1) obtain w1 g where refresh: "refresh_parent_completion_evidence env q st w = (w1, Ok ())"
    and comment: "gx_comment_issue q (os_repo st) (os_parent_issue_number st)
      (parent_summary_comment env (evaluation_says_complete v) v) (ow_github w1) = (Ok (), g)"
    and w': "w' = w1\<lparr>ow_github := g\<rparr>"
    by (auto simp: summary_posted_def split: prod.splits result.splits)
  from refresh have "pf_evaluation (ow_files w1) = Stored v" using assms(2) by (auto simp: refresh_ok_iff)
  with refresh comment w' show ?thesis
    unfolding close_or_report_parent_def Let_def by (simp add: seq_def [of "refresh_parent_completion_evidence env q st"]
      seq_def [of "read_file env a b" for a b] read_file_def seq_def [of "github q (gx_comment_issue q a b c)" for a b c] github_run)
qed

lemma summary_posted_close [simp]: "summary_posted env (q\<lparr>gx_close_issue := f\<rparr>) st v w = summary_posted env q st v w"
  by (simp add: summary_posted_def cong: prod.case_cong result.case_cong)

text \<open>
  C27: after an evaluation, the closing step on its verdict calls the closing of the parent exactly when
  the criterion held and the step's refresh and summary comment succeeded. When they did and the
  criterion held, the step is decided by that call, made on the state the comment left: a refused call
  fails the step, an accepted one is followed by the removal of the label and a result that records
  the closing. When the criterion did not hold, or the refresh or the comment failed, outcome and
  effects are the same whatever the closing operation does, and what a successful step records says
  that nothing was closed.
\<close>

theorem parent_closed_iff_criterion:
  assumes eval: "evaluate_parent_completion env q st w = (w1, Ok oc)"
    and kept: "pf_evaluation (ow_files w2) = pf_evaluation (ow_files w1)"
  shows "\<exists>v. pf_evaluation (ow_files w2) = Stored v \<and>
    (case summary_posted env q st v w2 of
       None \<Rightarrow>
         (\<forall>f. close_or_report_parent env (q\<lparr>gx_close_issue := f\<rparr>) st w2 = close_or_report_parent env q st w2) \<and>
         (\<exists>e. snd (close_or_report_parent env q st w2) = Err e)
     | Some w3 \<Rightarrow>
         if criterion_holds st w1 then
           (case gx_close_issue q (os_repo st) (os_parent_issue_number st) (ow_github w3) of
              (Err e, g) \<Rightarrow> close_or_report_parent env q st w2 = (w3\<lparr>ow_github := g\<rparr>, Err (Raised (github_error q e)))
            | (Ok _, g) \<Rightarrow> close_or_report_parent env q st w2 = report_closed env q st (w3\<lparr>ow_github := g\<rparr>))
         else (\<forall>f. close_or_report_parent env (q\<lparr>gx_close_issue := f\<rparr>) st w2 = close_or_report_parent env q st w2)) \<and>
    (\<forall>w4 oc'. close_or_report_parent env q st w2 = (w4, Ok oc') \<longrightarrow>
       map_of (pf_other (ow_files w4)) ''parent-close-result.json'' =
         Some (JObj [(''closed'', JBool (criterion_holds st w1)), (''commented'', JBool True),
                     (''parent_issue_number'', num_json (os_parent_issue_number st))]))"
proof -
  from eval obtain v where "pf_evaluation (ow_files w1) = Stored v"
    and says: "evaluation_says_complete v \<longleftrightarrow> criterion_holds st w1"
    by (auto elim!: evaluation_ok simp: criterion_holds_def)
  then have v: "pf_evaluation (ow_files w2) = Stored v" using kept by simp
  note step = close_after_summary [OF _ v] and none = summary_not_posted [OF _ v]
  show ?thesis
  proof (intro exI [of _ v] conjI v allI impI)
    show "case summary_posted env q st v w2 of
       None \<Rightarrow>
         (\<forall>f. close_or_report_parent env (q\<lparr>gx_close_issue := f\<rparr>) st w2 = close_or_report_parent env q st w2) \<and>
         (\<exists>e. snd (close_or_report_parent env q st w2) = Err e)
     | Some w3 \<Rightarrow>
         if criterion_holds st w1 then
           (case gx_close_issue q (os_repo st) (os_parent_issue_number st) (ow_github w3) of
              (Err e, g) \<Rightarrow> close_or_report_parent env q st w2 = (w3\<lparr>ow_github := g\<rparr>, Err (Raised (github_error q e)))
            | (Ok _, g) \<Rightarrow> close_or_report_parent env q st w2 = report_closed env q st (w3\<lparr>ow_github := g\<rparr>))
         else (\<forall>f. close_or_report_parent env (q\<lparr>gx_close_issue := f\<rparr>) st w2 = close_or_report_parent env q st w2)"
    proof (cases "summary_posted env q st v w2")
      case None
      then show ?thesis using none by simp
    next
      case (Some w3)
      then show ?thesis using says step [of env q st w3] step [of env "q\<lparr>gx_close_issue := f\<rparr>" st w3 for f]
        by (auto simp: report_closed_def seq_def [of "github q (gx_close_issue q a b)" for a b] github_run [of q "gx_close_issue q a b" for a b]
            split: prod.splits result.splits)
    qed
    fix w4 oc'
    assume ended: "close_or_report_parent env q st w2 = (w4, Ok oc')"
    then obtain w3 where "summary_posted env q st v w2 = Some w3"
      using none(2) by (cases "summary_posted env q st v w2") (fastforce simp del: split_paired_Ex)+
    from ended step [OF this] says show "map_of (pf_other (ow_files w4)) ''parent-close-result.json'' =
         Some (JObj [(''closed'', JBool (criterion_holds st w1)), (''commented'', JBool True),
                     (''parent_issue_number'', num_json (os_parent_issue_number st))])"
      by (auto simp: act_iffs update_conv')
  qed
qed

section \<open>Selection\<close>

lemma num_json_read [simp]: "map_option of_nat (json_as_u64 (num_json n)) = Some (n :: u64)"
proof -
  have "uint n \<le> int u64_max"
    using uint_lt2p [of n] by (simp add: u64_max_def)
  then show ?thesis by (simp add: num_json_def json_as_u64_def)
qed

lemma order_of_nums_json [simp]: "order_of_json (nums_json ns) = Some ns"
  by (simp add: order_of_json_def nums_json_def collect_options_map)

definition child_key :: "GithubSubIssue \<Rightarrow> u64 \<times> u64" where
  "child_key c = (case si_position c of Some p \<Rightarrow> p | None \<Rightarrow> - 1, gi_number (si_issue c))"

lemma order_subissues_eq: "order_subissues children = map (\<lambda>c. gi_number (si_issue c)) (sort_key child_key children)"
  by (simp add: order_subissues_def child_key_def [abs_def])

lemma order_ok:
  assumes "determine_subissue_order env st w = (w', Ok oc)" and "pf_subissues (ow_files w) = Stored children"
  shows "\<exists>plan. pf_order_plan (ow_files w') = Stored plan \<and>
     json_get plan ''order'' = Some (nums_json (order_subissues children)) \<and>
     pf_states (ow_files w') = pf_states (ow_files w) \<and> pf_rollup (ow_files w') = pf_rollup (ow_files w)"
proof (cases "os_current_step st = ''determine_refreshed_subissue_order''")
  case True
  then show ?thesis using assms by (simp add: determine_subissue_order_def Let_def act_iffs)
next
  case False
  then show ?thesis using assms by (simp add: determine_subissue_order_def Let_def act_iffs)
qed

lemma select_ok:
  assumes step: "select_next_child env w = (w', Ok Success)" and states: "pf_states (ow_files w) = Stored states"
    and plan: "pf_order_plan (ow_files w) = Stored plan" and order: "json_get plan ''order'' = Some (nums_json order)"
  shows "missing_ordered_child_states states order = [] \<and>
    (\<exists>n. next_actionable_child states order = Some n \<and> selected_child env w' = (w', Ok (Some n)))"
proof (cases "missing_ordered_child_states states order = []")
  case True
  show ?thesis
  proof (cases "next_actionable_child states order")
    case None
    with True step states plan order show ?thesis
      by (simp add: select_next_child_def Let_def act_iffs write_selected_def)
  next
    case (Some n)
    with True step states plan order have "pf_selected (ow_files w') = Stored (JObj [(''issue_number'', num_json n)])"
      by (auto simp: select_next_child_def Let_def act_iffs write_selected_def opt_json_def)
    then show ?thesis using True Some by (simp add: selected_child_def seq_def read_file_def ret_def)
  qed
next
  case False
  with step states plan order show ?thesis
    by (simp add: select_next_child_def Let_def act_iffs write_selected_def)
qed

lemma find_map_first:
  assumes "find P (map f xs) = Some n"
  obtains ys c zs where "xs = ys @ c # zs" "f c = n" "P (f c)" "\<forall>y \<in> set ys. \<not> P (f y)"
proof -
  have "\<exists>ys c zs. xs = ys @ c # zs \<and> f c = n \<and> P (f c) \<and> (\<forall>y \<in> set ys. \<not> P (f y))"
    using assms
  proof (induction xs)
    case (Cons x xs)
    show ?case
    proof (cases "P (f x)")
      case True
      with Cons.prems show ?thesis by (intro exI [of _ "[]"] exI [of _ x] exI [of _ xs]) simp
    next
      case False
      with Cons obtain ys c zs where "xs = ys @ c # zs" "f c = n" "P (f c)" "\<forall>y \<in> set ys. \<not> P (f y)" by auto
      with False show ?thesis by (intro exI [of _ "x # ys"] exI [of _ c] exI [of _ zs]) simp
    qed
  qed simp
  with that show ?thesis by blast
qed

lemma state_of_child_known: "(\<exists>s. state_of_child states n = Some s) \<longleftrightarrow> n \<in> cs_issue_number ` set states"
proof -
  have "state_of_child states n = None \<longleftrightarrow> n \<notin> cs_issue_number ` set states"
    by (simp add: state_of_child_def map_of_eq_None_iff image_image)
  then show ?thesis by (metis not_None_eq)
qed

text \<open>
  C28: the child that the order and selection steps select is one of the children, in a state that
  allows work, and every child before it (by native position, then number) is in a state that does
  not.
\<close>

theorem selection_follows_order:
  assumes order: "determine_subissue_order env st w = (w1, Ok oc)"
    and select: "select_next_child env w1 = (w2, Ok Success)"
    and children: "pf_subissues (ow_files w) = Stored children" and states: "pf_states (ow_files w) = Stored states"
  shows "\<exists>c \<in> set children. selected_child env w2 = (w2, Ok (Some (gi_number (si_issue c)))) \<and>
    (\<exists>s. state_of_child states (gi_number (si_issue c)) = Some s \<and> \<not> child_state_blocks_selection s) \<and>
    (\<forall>b \<in> set children. child_key b < child_key c \<longrightarrow>
       (\<exists>s. state_of_child states (gi_number (si_issue b)) = Some s \<and> child_state_blocks_selection s))"
proof -
  let ?num = "\<lambda>c. gi_number (si_issue c)"
  let ?sorted = "sort_key child_key children"
  from order_ok [OF order children] obtain plan where plan: "pf_order_plan (ow_files w1) = Stored plan"
    "json_get plan ''order'' = Some (nums_json (order_subissues children))" "pf_states (ow_files w1) = Stored states"
    using states by auto
  from select_ok [OF select plan(3) plan(1,2)] obtain n where
    none_missing: "missing_ordered_child_states states (map ?num ?sorted) = []"
    and n: "next_actionable_child states (map ?num ?sorted) = Some n"
    and selected: "selected_child env w2 = (w2, Ok (Some n))"
    by (auto simp: order_subissues_eq)
  from n obtain ys c zs where split: "?sorted = ys @ c # zs" and c: "?num c = n"
    "case state_of_child states (?num c) of Some s \<Rightarrow> \<not> child_state_blocks_selection s | None \<Rightarrow> False"
    and before: "\<forall>y \<in> set ys. \<not> (case state_of_child states (?num y) of
        Some s \<Rightarrow> \<not> child_state_blocks_selection s | None \<Rightarrow> False)"
    unfolding next_actionable_child_def by (rule find_map_first)
  have known: "\<exists>s. state_of_child states (?num b) = Some s" if "b \<in> set children" for b
  proof -
    have "?num b \<in> cs_issue_number ` set states"
      using none_missing that by (auto simp: missing_ordered_child_states_def filter_empty_conv)
    then show ?thesis by (simp add: state_of_child_known)
  qed
  have early: "b \<in> set ys" if "b \<in> set children" "child_key b < child_key c" for b
  proof -
    have "sorted (map child_key (ys @ c # zs))" using split by (metis sorted_sort_key)
    then have "\<forall>z \<in> set zs. child_key c \<le> child_key z" by (simp add: sorted_append)
    moreover have "b \<in> set (ys @ c # zs)" using that(1) split by (metis set_sort)
    ultimately show ?thesis using that(2) by auto
  qed
  have "c \<in> set children" using split by (metis in_set_conv_decomp set_sort)
  moreover have "\<exists>s. state_of_child states (?num b) = Some s \<and> child_state_blocks_selection s"
    if "b \<in> set children" "child_key b < child_key c" for b
    using known [OF that(1)] before early [OF that] by auto
  ultimately show ?thesis
    using c selected by (intro bexI [of _ c]) (auto split: option.splits)
qed

section \<open>Finalizing a child run\<close>

text \<open>An action that leaves the database alone, whether it succeeds or fails.\<close>

definition keeps_db :: "('g, 'a) act \<Rightarrow> bool" where
  "keeps_db m \<longleftrightarrow> (\<forall>w. ow_db (fst (m w)) = ow_db w)"

named_theorems db_frame

lemma keeps_db_basic [db_frame]:
  "keeps_db (ret x)" "keeps_db (fail e)" "keeps_db (raise m)" "keeps_db (asks f)" "keeps_db (lift_result r)"
  "keeps_db (set_context k v)" "keeps_db (github_raw g)" "keeps_db (write_file env name ff)"
  "keeps_db (write_object env name kvs)" "keeps_db (read_file env name h)" "keeps_db (read_rollup env)"
  "keeps_db (daemon_connection env)"
  by (auto simp: keeps_db_def ret_def fail_def raise_def asks_def lift_result_def set_context_def github_raw_def
      write_file_def write_object_def read_file_def read_rollup_def daemon_connection_def
      split: prod.splits option.splits)

lemma keeps_db_seq [db_frame]: "keeps_db m \<Longrightarrow> (\<And>x. keeps_db (k x)) \<Longrightarrow> keeps_db (seq m k)"
  unfolding keeps_db_def seq_def by (auto split: prod.splits result.splits) (metis fst_conv)+

lemma keeps_db_if [db_frame]: "keeps_db m \<Longrightarrow> keeps_db k \<Longrightarrow> keeps_db (if b then m else k)"
  by simp

lemma keeps_db_github [db_frame]: "keeps_db (github q f)"
  unfolding github_def by (intro db_frame)

lemma keeps_db_update_rollup [db_frame]: "keeps_db (update_rollup env st n run oc pr)"
  unfolding update_rollup_def by (intro db_frame)

lemma keeps_db_finalization_effects [db_frame]: "keeps_db (finalization_effects env q st c result)"
  unfolding finalization_effects_def write_launch_artifact_def write_child_workflow_wait_artifact_def
    record_terminal_child_failure_def
  by (intro db_frame) (auto intro!: db_frame split: option.splits)

text \<open>The lease is the run's to finalize: its own run, in a state the result may follow.\<close>

definition finalizable :: "ChildLaunchCompletion \<Rightarrow> ChildWorkflowRunResult \<Rightarrow> IssueLease \<Rightarrow> bool" where
  "finalizable c result l \<longleftrightarrow>
     il_lease_id l = il_lease_id (lc_lease c) \<and> il_run_id l = Some (lq_run_id (lc_request c)) \<and>
     il_status l \<in> set (finalizable_from result)"

lemma finalizable_guard:
  "cond_guard (il_lease_id (lc_lease c)) (finalizable_from result) (Some (lq_run_id (lc_request c))) =
     finalizable c result"
  by (auto simp: cond_guard_def finalizable_def fun_eq_iff)

lemma advance_eq:
  "advance_child_lease_for_result env c result w =
     (let ls = db_leases (ow_db w);
          ls' = update_where (finalizable c result)
                  (set_lease_status (oe_now env (ow_github w)) (finalized_status result) None) ls
      in (w\<lparr>ow_db := (ow_db w)\<lparr>db_leases := ls'\<rparr>\<rparr>,
          Ok (if \<exists>l \<in> set ls. finalizable c result l then Applied
              else (case lookup_by il_lease_id (il_lease_id (lc_lease c)) ls' of
                      Some l \<Rightarrow> Rejected (il_status l) (il_run_id l)
                    | None \<Rightarrow> Missing))))"
  by (cases result)
    (simp_all add: advance_child_lease_for_result_def on_leases_def update_lease_status_conditional_outcome_def
      update_lease_status_conditional_def finalizable_guard [symmetric] count_where_pos Let_def split: option.splits)

text \<open>
  C25: a run that is not its lease's owner any more, or whose lease is in a state the result may not
  follow (a protected one included), finalizes nothing: the step leaves the whole world as it is and
  answers from the lease. Whatever the step does, rows that are not the run's to finalize survive, those in any
  state but running, waiting or failed among them.
\<close>

theorem finalization_belongs_to_owner:
  assumes result: "result = classify_child_run_result (lc_result c) (lc_run_status c)"
  shows "((\<forall>l \<in> set (db_leases (ow_db w)). \<not> finalizable c result l) \<and>
      (\<forall>l. lookup_by il_lease_id (il_lease_id (lc_lease c)) (db_leases (ow_db w)) = Some l \<longrightarrow>
         \<not> (il_run_id l = Some (lq_run_id (lc_request c)) \<and> il_status l = finalized_status result)) \<longrightarrow>
      finish_child_launch env q st c w =
        (w, Ok (case lookup_by il_lease_id (il_lease_id (lc_lease c)) (db_leases (ow_db w)) of
                  None \<Rightarrow> Fixable
                | Some l \<Rightarrow>
                    (if il_status l = LCompleted then Success
                     else if il_status l \<in> {LReadyToResume, LRunning, LWaitingExternal, LClaimed, LPending} then Wait
                     else Fixable)))) \<and>
    (\<forall>x \<in> set (db_leases (ow_db w)).
       \<not> finalizable c result x \<or> il_status x \<notin> {LRunning, LWaitingExternal, LFailed} \<longrightarrow>
       x \<in> set (db_leases (ow_db (fst (finish_child_launch env q st c w)))))"
proof -
  let ?ls = "db_leases (ow_db w)"
  let ?row = "lookup_by il_lease_id (il_lease_id (lc_lease c)) ?ls"
  let ?ls' = "update_where (finalizable c result)
                (set_lease_status (oe_now env (ow_github w)) (finalized_status result) None) ?ls"
  have finish: "finish_child_launch env q st c =
      seq (advance_child_lease_for_result env c result) (\<lambda>oc.
         if \<not> should_apply_child_finalization_side_effects oc result c
         then ret (step_outcome_from_durable_lease oc) else finalization_effects env q st c result)"
    by (simp add: finish_child_launch_def result [symmetric])
  have quiet: "finish_child_launch env q st c w = (w, Ok (case ?row of None \<Rightarrow> Fixable
      | Some l \<Rightarrow> (if il_status l = LCompleted then Success
           else if il_status l \<in> {LReadyToResume, LRunning, LWaitingExternal, LClaimed, LPending} then Wait
           else Fixable)))"
    if none: "\<forall>l \<in> set ?ls. \<not> finalizable c result l"
      and changed: "\<forall>l. ?row = Some l \<longrightarrow>
        \<not> (il_run_id l = Some (lq_run_id (lc_request c)) \<and> il_status l = finalized_status result)"
  proof -
    have adv: "advance_child_lease_for_result env c result w =
        (w, Ok (case ?row of Some l \<Rightarrow> Rejected (il_status l) (il_run_id l) | None \<Rightarrow> Missing))"
      using none by (auto simp: advance_eq Let_def update_where_none)
    show ?thesis
    proof (cases ?row)
      case None
      then show ?thesis by (simp add: finish seq_def adv ret_def)
    next
      case (Some l)
      with changed have "\<not> should_apply_child_finalization_side_effects (Rejected (il_status l) (il_run_id l)) result c"
        by auto
      with Some show ?thesis by (simp add: finish seq_def adv ret_def)
    qed
  qed
  have "db_leases (ow_db (fst (finish_child_launch env q st c w))) = ?ls'"
  proof -
    have "keeps_db (if \<not> should_apply_child_finalization_side_effects oc result c
         then ret (step_outcome_from_durable_lease oc) else finalization_effects env q st c result)" for oc
      by (intro db_frame)
    then show ?thesis
      unfolding finish seq_def advance_eq Let_def keeps_db_def by simp
  qed
  then have kept: "x \<in> set (db_leases (ow_db (fst (finish_child_launch env q st c w))))"
    if "x \<in> set ?ls" "\<not> finalizable c result x" for x
    using that by (force simp: set_update_where)
  moreover have "\<not> finalizable c result x" if "il_status x \<notin> {LRunning, LWaitingExternal, LFailed}" for x
    using that by (cases result) (auto simp: finalizable_def)
  ultimately show ?thesis using quiet by blast
qed

section \<open>Dispatching a child run\<close>

text \<open>The lease a run is dispatched under: the issue's, running, owned by the run.\<close>

definition runs_under_lease :: "ChildWorkflowLaunchRequest \<Rightarrow> Db \<Rightarrow> bool" where
  "runs_under_lease rq db \<longleftrightarrow>
     (\<exists>l \<in> set (db_leases db). lease_key l = (lq_repo rq, lq_issue_number rq) \<and>
        il_status l = LRunning \<and> il_run_id l = Some (lq_run_id rq))"

definition agree_under_lease :: "'g ChildRunner \<Rightarrow> 'g ChildRunner \<Rightarrow> bool" where
  "agree_under_lease r1 r2 \<longleftrightarrow>
     cn_run_status r1 = cn_run_status r2 \<and>
     (\<forall>rq db g. runs_under_lease rq db \<longrightarrow>
        cn_launch_child r1 rq (db, g) = cn_launch_child r2 rq (db, g) \<and>
        cn_resume_child r1 rq (db, g) = cn_resume_child r2 rq (db, g))"

lemma relaunch_ok:
  assumes ok: "lease_table_ok (db_leases (ow_db w))" and l: "l \<in> set (db_leases (ow_db w))"
    and step: "prepare_relaunchable_child env l w = (w', Ok (LaunchChild r))"
  shows "r \<in> set (db_leases (ow_db w')) \<and> lease_key r = lease_key l \<and> il_status r = LClaimed"
proof -
  let ?ls = "db_leases (ow_db w)"
  let ?f = "\<lambda>x. x\<lparr>il_status := LClaimed, il_run_id := None, il_updated_at := oe_now env (ow_github w)\<rparr>"
  let ?ls' = "update_where (relaunch_guard l) ?f ?ls"
  have swapped: "count_where (relaunch_guard l) ?ls = 1" and w': "db_leases (ow_db w') = ?ls'"
    and r: "lookup_by lease_key (lease_key l) ?ls' = Some r"
    using step by (auto simp: prepare_relaunchable_child_def clear_child_lease_for_relaunch_def Let_def
        get_lease_for_issue_def split: if_splits result.splits option.splits)
       (cases "issue_number_to_sql_i64 (il_issue_number l)"; simp)+
  have self: "lookup_by lease_key (lease_key l) ?ls = Some l"
    using ok l lookup_by_unique [of lease_key ?ls l] by (simp add: lease_table_ok_def)
  have "relaunch_guard l l" by (simp add: relaunch_guard_def)
  then have "r = ?f l" using r self by (simp add: lookup_by_update_where)
  then show ?thesis using lookup_by_SomeD [OF r] w' by simp
qed

lemma claim_ok:
  assumes "claim_child_lease env st n w = (w', Ok (LaunchChild l))"
  shows "l \<in> set (db_leases (ow_db w')) \<and> lease_key l = (os_repo st, n) \<and> il_status l = LClaimed"
proof -
  let ?ls = "db_leases (ow_db w)"
  obtain ls where claim: "try_claim (oe_now env (ow_github w)) (os_repo st) n (os_child_config_id st) ?ls = Ok (ls, Some l)"
    and w': "db_leases (ow_db w') = ls"
    using assms by (auto simp: claim_child_lease_def seq_ok_iff on_leases_def ret_def
        split: result.splits prod.splits option.splits)
  have l: "l = claim_lease (oe_now env (ow_github w)) (os_repo st) n (os_child_config_id st)" and "l \<in> set ls"
    using claim by (auto simp: try_claim_def Let_def set_update_where split: result.splits option.splits if_splits
        dest: lookup_by_SomeD intro!: rev_image_eqI)
  then show ?thesis using w' by (simp add: claim_lease_def)
qed

lemma prepare_child_ok:
  assumes ok: "lease_table_ok (db_leases (ow_db w))" and step: "prepare_child_lease env st n w = (w', Ok a)"
  shows "(\<forall>l. a = LaunchChild l \<longrightarrow> l \<in> set (db_leases (ow_db w')) \<and> lease_key l = (os_repo st, n) \<and> il_status l = LClaimed) \<and>
         (\<forall>l. a = ResumeChild l \<longrightarrow> l \<in> set (db_leases (ow_db w')) \<and> lease_key l = (os_repo st, n) \<and> il_status l = LReadyToResume)"
proof -
  from step obtain found where read: "child_lease env st n w = (w, Ok found)"
    and rest: "(case found of None \<Rightarrow> claim_child_lease env st n | Some l \<Rightarrow>
           (case il_status l of
              LReadyToResume \<Rightarrow>
                seq (asks (\<lambda>w. child_workflow_completed (db_runs (ow_db w)) l)) (\<lambda>finished.
                  ret (if finished then WaitChild (Some l) ''child_workflow_completed_waiting_for_pr_merge''
                       else ResumeChild l))
            | LFailed \<Rightarrow> prepare_relaunchable_child env l
            | LAbandoned \<Rightarrow> prepare_relaunchable_child env l
            | LStale \<Rightarrow> prepare_relaunchable_child env l
            | LWaitingExternal \<Rightarrow> ret (WaitChild (Some l) ''active_child_lease'')
            | LClaimed \<Rightarrow> ret (WaitChild (Some l) ''active_child_lease'')
            | LRunning \<Rightarrow> ret (WaitChild (Some l) ''active_child_lease'')
            | LCleanupAbandoned \<Rightarrow> ret (WaitChild (Some l) ''cleanup_abandoned_requires_continuation'')
            | LPending \<Rightarrow> ret (WaitChild (Some l) ''non_actionable_child_lease'')
            | LCompleted \<Rightarrow> ret (WaitChild (Some l) ''non_actionable_child_lease''))) w = (w', Ok a)"
    unfolding prepare_child_lease_def seq_ok_iff by (auto simp: child_lease_def)
  show ?thesis
  proof (cases found)
    case None
    with rest show ?thesis using claim_ok [of env st n w w']
      by (auto simp: claim_child_lease_def seq_ok_iff ret_def split: option.splits)
  next
    case (Some l)
    then have "lookup_by lease_key (os_repo st, n) (db_leases (ow_db w)) = Some l"
      using read by (cases "issue_number_to_sql_i64 n") (auto simp: child_lease_def get_lease_for_issue_def)
    then have l: "l \<in> set (db_leases (ow_db w))" "lease_key l = (os_repo st, n)" by (auto dest: lookup_by_SomeD)
    have relaunch: "(\<forall>r. a = LaunchChild r \<longrightarrow> r \<in> set (db_leases (ow_db w')) \<and> lease_key r = (os_repo st, n) \<and> il_status r = LClaimed)
        \<and> (\<forall>r. a \<noteq> ResumeChild r)" if step: "prepare_relaunchable_child env l w = (w', Ok a)"
    proof (cases a)
      case (LaunchChild r)
      with step relaunch_ok [OF ok l(1)] l(2) show ?thesis by auto
    next
      case (ResumeChild r)
      with step show ?thesis
        by (auto simp: prepare_relaunchable_child_def Let_def split: prod.splits if_splits result.splits option.splits)
    qed simp
    have "prepare_relaunchable_child env l w = (w', Ok a) \<or> (\<exists>x reason. a = WaitChild x reason) \<or>
        a = ResumeChild l \<and> w' = w \<and> il_status l = LReadyToResume"
      using rest unfolding Some option.case
      by (cases "il_status l") (auto simp: seq_ok_iff asks_def ret_def split: if_splits)
    then show ?thesis
    proof (elim disjE)
      assume "prepare_relaunchable_child env l w = (w', Ok a)"
      then show ?thesis using relaunch by blast
    qed (use l in auto)
  qed
qed

lemma cas_ok:
  assumes "claim_running_lease_cas env l expected run new_run w = (w', Ok True)"
    and "l \<in> set (db_leases (ow_db w))" "il_status l \<in> set expected" "il_run_id l = run"
  shows "\<exists>x \<in> set (db_leases (ow_db w')). lease_key x = lease_key l \<and> il_status x = LRunning \<and> il_run_id x = Some new_run"
proof -
  let ?f = "set_lease_status (oe_now env (ow_github w)) LRunning (Some new_run)"
  have "?f l \<in> set (db_leases (ow_db w'))"
    using assms by (auto simp: claim_running_lease_cas_def on_leases_def update_lease_status_conditional_exact_owner_def
        set_update_where exact_guard_def split: if_splits result.splits prod.splits intro!: rev_image_eqI)
  then show ?thesis by (intro bexI [of _ "?f l"]) (auto simp: set_lease_status_def coalesce_def)
qed

lemma dispatch_agree:
  assumes "agree_under_lease r1 r2" and "runs_under_lease rq (ow_db w)"
    and "d1 = cn_launch_child r1 \<and> d2 = cn_launch_child r2 \<or> d1 = cn_resume_child r1 \<and> d2 = cn_resume_child r2"
  shows "dispatch_and_finalize_child env q r1 st n l rq run d1 w = dispatch_and_finalize_child env q r2 st n l rq run d2 w"
proof -
  have "run_child d1 rq w = run_child d2 rq w" "post_launch_metadata q r1 = post_launch_metadata q r2"
    using assms by (auto simp: run_child_def agree_under_lease_def post_launch_metadata_def [abs_def])
  note eqs = this
  show ?thesis unfolding dispatch_and_finalize_child_def seq_def eqs ..
qed

lemma start_agree:
  assumes "agree_under_lease r1 r2" and l: "l \<in> set (db_leases (ow_db w))" "lease_key l = (os_repo st, n)" "il_status l = LClaimed"
  shows "start_child_workflow env q r1 st n l w = start_child_workflow env q r2 st n l w"
  unfolding start_child_workflow_def
proof (rule seq_cong_ok, goal_cases)
  case (1 w1 rq)
  then have [simp]: "w1 = w" and rq: "lq_repo rq = os_repo st" "lq_issue_number rq = n"
    by (auto simp: asks_def child_launch_request_def child_request_with_run_id_def)
  show ?case
  proof (rule seq_cong_ok, goal_cases)
    case (1 w2 claimed)
    show ?case
    proof (cases claimed)
      case True
      with 1 cas_ok [of env l "[LClaimed]" "il_run_id l" "lq_run_id rq" w w2] l
      have under: "runs_under_lease rq (ow_db w2)" by (auto simp: runs_under_lease_def rq)
      show ?thesis
        using True by (auto intro!: seq_cong_ok dispatch_agree [OF assms(1)] simp: github_raw_def under
            split: prod.splits result.splits)
    qed simp
  qed
qed

lemma resume_agree:
  assumes "agree_under_lease r1 r2" and l: "l \<in> set (db_leases (ow_db w))" "lease_key l = (os_repo st, n)" "il_status l = LReadyToResume"
  shows "resume_child_workflow env q r1 st n l w = resume_child_workflow env q r2 st n l w"
proof (cases "il_run_id l")
  case (Some run)
  let ?rq = "child_resume_request st n run"
  have rq: "lq_repo ?rq = os_repo st" "lq_issue_number ?rq = n" "lq_run_id ?rq = run"
    by (auto simp: child_resume_request_def child_request_with_run_id_def)
  show ?thesis
    unfolding resume_child_workflow_def Some option.case Let_def
  proof (intro seq_cong_ok, goal_cases)
    case (1 w2 claimed)
    show ?case
    proof (cases claimed)
      case True
      with 1 cas_ok [of env l "[LReadyToResume]" "Some run" "lq_run_id ?rq" w w2] l Some
      have "runs_under_lease ?rq (ow_db w2)" by (auto simp: runs_under_lease_def rq)
      with True show ?thesis by (simp add: dispatch_agree [OF assms(1)])
    qed simp
  qed
qed (simp add: resume_child_workflow_def)

text \<open>
  C24: a child workflow is launched or resumed only while the lease of its issue is running and owned
  by the run: the launch step does not depend on what the runner does otherwise.
\<close>

theorem children_run_under_their_lease:
  assumes "lease_table_ok (db_leases (ow_db w))" and "agree_under_lease r1 r2"
  shows "launch_child_workflow env q r1 st w = launch_child_workflow env q r2 st w"
proof -
  have dispatch: "prepare_and_dispatch_child env q r1 st n w' = prepare_and_dispatch_child env q r2 st n w'"
    if "ow_db w' = ow_db w" for n w'
    unfolding prepare_and_dispatch_child_def
  proof (intro seq_cong_ok, goal_cases)
    case (1 w2 a)
    then show ?case
      using prepare_child_ok [OF _ 1] assms that start_agree [OF assms(2)] resume_agree [OF assms(2)]
      by (cases a) auto
  qed
  show ?thesis
    unfolding launch_child_workflow_def
  proof (rule seq_cong_ok, goal_cases)
    case (1 w1 u)
    then have w1: "ow_db w1 = ow_db w" by (simp add: daemon_connection_ok_iff)
    show ?case
    proof (rule seq_cong_ok, goal_cases)
      case (1 w2 selected)
      then have w2: "ow_db w2 = ow_db w" using w1 by (auto simp: selected_child_def act_iffs)
      show ?case
      proof (cases selected)
        case (Some n)
        show ?thesis
          unfolding Some option.case
        proof (rule seq_cong_ok, goal_cases)
          case (1 w3 pr)
          then have w3: "ow_db w3 = ow_db w" using w2 by (auto simp: github_ok_iff)
          have "seq (has_active_or_recoverable_child_lease env st n) (k1 r1) w3 =
              seq (has_active_or_recoverable_child_lease env st n) (k1 r2) w3"
            if "k1 = (\<lambda>r recoverable. if \<not> recoverable then observe_existing_child_pr env q st n p
                        else prepare_and_dispatch_child env q r st n)" for k1 p
            unfolding that
            by (rule seq_cong_ok) (auto simp: has_active_or_recoverable_child_lease_def seq_ok_iff child_lease_def
                ret_def intro: dispatch w3)
          then show ?case using dispatch [OF w3] by (cases pr) auto
        qed
      qed simp
    qed
  qed
qed

section \<open>Failed starts\<close>

lemma restore_after_cas:
  assumes ok: "lease_table_ok (db_leases (ow_db w))"
    and l: "lookup_by lease_key k (db_leases (ow_db w)) = Some l" and running: "il_status l = LRunning" "il_run_id l = Some run"
    and same: "il_lease_id old = il_lease_id l"
  shows "\<exists>w'. (compensate env old None run message detail e :: ('g, 'a) act) w = (w', Err e) \<and>
    ow_github w' = ow_github w \<and>
    lookup_by lease_key k (db_leases (ow_db w')) =
      Some (set_lease_status (oe_now env (ow_github w)) (il_status old) None l)"
proof -
  let ?ls = "db_leases (ow_db w)"
  let ?guard = "cond_guard (il_lease_id old) [LRunning] (Some run)"
  have mem: "l \<in> set ?ls" using lookup_by_SomeD [OF l] by simp
  have g: "?guard l" using running same by (simp add: cond_guard_def)
  then have restored: "0 < count_where ?guard ?ls" using mem by (auto simp: count_where_pos)
  show ?thesis
    using l g restored
    by (simp add: compensate_def restore_child_lease_after_runner_error_def seq_def handle_def on_leases_def
        update_lease_status_conditional_def ret_def fail_def lookup_by_update_where set_lease_status_def)
qed

text \<open>What a refused start leaves: the claim, with the run that was refused, on which the next attempt waits.\<close>

definition stranded_claim :: "'g OrchEnv \<Rightarrow> OrchestrationState \<Rightarrow> u64 \<Rightarrow> string \<Rightarrow> 'g OrchWorld \<Rightarrow> bool" where
  "stranded_claim env st n run w \<longleftrightarrow>
     (\<exists>l. lookup_by lease_key (os_repo st, n) (db_leases (ow_db w)) = Some l \<and> il_status l = LClaimed \<and>
        il_run_id l = Some run \<and>
        prepare_child_lease env st n w = (w, Ok (WaitChild (Some l) ''active_child_lease'')))"

lemma compensation_strands:
  assumes ok: "lease_table_ok (db_leases (ow_db w))"
    and row: "lookup_by lease_key (os_repo st, n) (db_leases (ow_db w)) = Some r"
      "il_status r = LRunning" "il_run_id r = Some run" "il_lease_id l = il_lease_id r"
    and l: "il_status l = LClaimed" and fits: "is_ok (issue_number_to_sql_i64 n)"
  shows "\<exists>w'. (compensate env l None run message detail e :: ('g, 'a) act) w = (w', Err e) \<and>
    stranded_claim env st n run w'"
proof -
  define l' where "l' = set_lease_status (oe_now env (ow_github w)) (il_status l) None r"
  from restore_after_cas [OF ok row, of env message detail e, where 'a = 'a]
  obtain w' where w': "(compensate env l None run message detail e :: ('g, 'a) act) w = (w', Err e)"
    and found: "lookup_by lease_key (os_repo st, n) (db_leases (ow_db w')) = Some l'"
    by (auto simp: l'_def)
  have l': "il_status l' = LClaimed" "il_run_id l' = Some run"
    using l row by (simp_all add: l'_def set_lease_status_def coalesce_def)
  then have "prepare_child_lease env st n w' = (w', Ok (WaitChild (Some l') ''active_child_lease''))"
    using found fits by (cases "issue_number_to_sql_i64 n")
      (auto simp: prepare_child_lease_def seq_def child_lease_def get_lease_for_issue_def ret_def)
  with w' found l' show ?thesis by (auto simp: stranded_claim_def)
qed

text \<open>A compensation that finds no running row of its run leaves the database alone, and fails too.\<close>

lemma compensation_rejected:
  assumes "\<And>r. r \<in> set (db_leases (ow_db w)) \<Longrightarrow>
    \<not> (il_lease_id r = il_lease_id l \<and> il_status r = LRunning \<and> il_run_id r = Some run)"
  shows "\<exists>w' err. (compensate env l None run message detail e :: ('g, 'a) act) w = (w', Err err) \<and> ow_db w' = ow_db w"
proof -
  have "count_where (cond_guard (il_lease_id l) [LRunning] (Some run)) (db_leases (ow_db w)) = 0"
    using assms by (auto simp: count_where_def filter_empty_conv cond_guard_def)
  moreover from this have "update_where (cond_guard (il_lease_id l) [LRunning] (Some run)) f (db_leases (ow_db w)) = db_leases (ow_db w)" for f
    using assms by (auto simp: update_where_def cond_guard_def intro!: map_idI)
  ultimately show ?thesis
    by (auto simp: compensate_def restore_child_lease_after_runner_error_def seq_def handle_def on_leases_def
        update_lease_status_conditional_def raise_def fail_def)
qed

lemma fresh_cas:
  assumes l: "lookup_by lease_key (os_repo st, n) (db_leases (ow_db w)) = Some l" "il_status l = LClaimed" "il_run_id l = None"
    and run: "run \<noteq> []" and ok: "lease_table_ok (db_leases (ow_db w))"
  obtains w1 where "claim_running_lease_cas env l [LClaimed] (il_run_id l) run w = (w1, Ok True)"
    "ow_github w1 = ow_github w" "lease_table_ok (db_leases (ow_db w1))"
    "lookup_by lease_key (os_repo st, n) (db_leases (ow_db w1)) =
       Some (set_lease_status (oe_now env (ow_github w)) LRunning (Some run) l)"
proof -
  let ?set = "set_lease_status (oe_now env (ow_github w)) LRunning (Some run)"
  let ?guard = "exact_guard (il_lease_id l) [LClaimed] None"
  let ?w1 = "w\<lparr>ow_db := (ow_db w)\<lparr>db_leases := update_where ?guard ?set (db_leases (ow_db w))\<rparr>\<rparr>"
  have mem: "l \<in> set (db_leases (ow_db w))" using lookup_by_SomeD [OF l(1)] by simp
  have g: "?guard l" using l by (simp add: exact_guard_def)
  have "claim_running_lease_cas env l [LClaimed] (il_run_id l) run w = (?w1, Ok True)"
    using l run mem g by (auto simp: claim_running_lease_cas_def on_leases_def
        update_lease_status_conditional_exact_owner_def count_where_pos)
  moreover have "lookup_by lease_key (os_repo st, n) (db_leases (ow_db ?w1)) = Some (?set l)"
    using l(1) g by (simp add: lookup_by_update_where set_lease_status_def)
  moreover have "lease_table_ok (db_leases (ow_db ?w1))"
    using ok by (simp add: keeps_keys_def set_lease_status_def)
  ultimately show ?thesis using that by simp
qed

text \<open>
  The world in which a start that took its lease fails before it has a result to finalize: its label
  is refused, the runner fails the launch, or the status of the run or the pull request of the issue
  cannot be read after the launch. Nothing is assumed of the runner, which may have recorded the run
  or changed any row before it failed.
\<close>

definition start_failure_point ::
  "'g OrchEnv \<Rightarrow> 'g ParentQuery \<Rightarrow> 'g ChildRunner \<Rightarrow> OrchestrationState \<Rightarrow> u64 \<Rightarrow> IssueLease \<Rightarrow> 'g OrchWorld \<Rightarrow> 'g OrchWorld option" where
  "start_failure_point env q runner st n l w =
     (let rq = child_launch_request (oe_now env (ow_github w)) st n in
      case claim_running_lease_cas env l [LClaimed] (il_run_id l) (lq_run_id rq) w of
        (w1, Ok True) \<Rightarrow>
          (case gq_add_label q (os_repo st) n (os_luther_label st) (ow_github w1) of
             (Err e, g) \<Rightarrow> Some (w1\<lparr>ow_github := g\<rparr>)
           | (Ok _, g) \<Rightarrow>
               (case cn_launch_child runner rq (ow_db w1, g) of
                  (Err e, db, g') \<Rightarrow> Some (w1\<lparr>ow_db := db, ow_github := g'\<rparr>)
                | (Ok _, db, g') \<Rightarrow>
                    (case post_launch_metadata q runner st n l rq (w1\<lparr>ow_db := db, ow_github := g'\<rparr>) of
                       (w2, Err e) \<Rightarrow> Some w2
                     | (w2, Ok _) \<Rightarrow> None)))
      | _ \<Rightarrow> None)"

lemma compensate_fails: "\<exists>w' err. (compensate env l run0 run message detail e :: ('g, 'a) act) w = (w', Err err)"
  by (auto simp: compensate_def seq_def fail_def split: prod.splits result.splits)

lemma failing_start:
  assumes fails: "start_failure_point env q runner st n l w = Some wc" and fresh: "il_run_id l = None"
  shows "\<exists>message detail e. start_child_workflow env q runner st n l w =
    compensate env l None (lq_run_id (child_launch_request (oe_now env (ow_github w)) st n)) message detail e wc"
proof -
  let ?rq = "child_launch_request (oe_now env (ow_github w)) st n"
  from fails obtain w1 where cas: "claim_running_lease_cas env l [LClaimed] (il_run_id l) (lq_run_id ?rq) w = (w1, Ok True)"
    by (auto simp: start_failure_point_def Let_def split: prod.splits result.splits bool.splits)
  obtain r g where label: "gq_add_label q (os_repo st) n (os_luther_label st) (ow_github w1) = (r, g)" by (rule prod.exhaust)
  obtain d db g' where launch: "cn_launch_child runner ?rq (ow_db w1, g) = (d, db, g')" by (rule prod_cases3)
  let ?w3 = "w1\<lparr>ow_db := db, ow_github := g'\<rparr>"
  obtain w4 m where meta: "post_launch_metadata q runner st n l ?rq ?w3 = (w4, m)" by (rule prod.exhaust)
  show ?thesis
  proof (cases r)
    case (Err e)
    have "start_child_workflow env q runner st n l w =
        compensate env l None (lq_run_id ?rq) (gq_error_text q e) '' after label add failure'' (Raised (github_error q e)) wc"
      using fails cas label Err fresh by (simp add: start_failure_point_def start_child_workflow_def seq_def asks_def github_raw_def)
    then show ?thesis by blast
  next
    case (Ok u)
    have start: "start_child_workflow env q runner st n l w =
        dispatch_and_finalize_child env q runner st n l ?rq None (cn_launch_child runner) (w1\<lparr>ow_github := g\<rparr>)"
      using cas label Ok fresh by (simp add: start_child_workflow_def seq_def asks_def github_raw_def)
    show ?thesis
    proof (cases d)
      case (Err e)
      then have "start_child_workflow env q runner st n l w =
          compensate env l None (lq_run_id ?rq) (runner_error_to_string e) [] (Raised (parent_error (runner_error_to_string e))) wc"
        unfolding start using fails cas label Ok launch
        by (simp add: start_failure_point_def dispatch_and_finalize_child_def run_child_def seq_def)
      then show ?thesis by blast
    next
      case (Ok result)
      with fails cas label \<open>r = Ok u\<close> launch meta obtain e where m: "m = Err e" and wc: "w4 = wc"
        by (cases m) (auto simp: start_failure_point_def)
      obtain w5 rs where comp: "(compensate env l None (lq_run_id ?rq) (failure_text e) '' after metadata error'' e
          :: ('a, RunStatus option \<times> GithubIssuePrState option) act) wc = (w5, rs)" by (rule prod.exhaust)
      then obtain err where rs: "rs = Err err"
        by (auto simp: compensate_def seq_def fail_def split: prod.splits result.splits)
      have "(compensate env l None (lq_run_id ?rq) (failure_text e) '' after metadata error'' e :: ('a, StepOutcome) act) wc = (w5, Err err)"
        using comp rs by (auto simp: compensate_def seq_def fail_def split: prod.splits result.splits)
      then have "start_child_workflow env q runner st n l w =
          compensate env l None (lq_run_id ?rq) (failure_text e) '' after metadata error'' e wc"
        unfolding start using Ok launch meta m wc comp rs
        by (simp add: dispatch_and_finalize_child_def run_child_def seq_def handle_def)
      then show ?thesis by blast
    qed
  qed
qed

text \<open>
  C30: a start that took the claim of its child and then fails at its label, at the launch, or at the
  reads after the launch, always fails as a step. If the row is still running under the run of this
  start when it fails (as it always is when the label is refused), the claim is given back with the run
  of the failed start still on it, and the next attempt finds an active lease, whatever else the failed
  launch recorded. If the row is no longer running under that run, the compensation leaves the
  database as it found it.
\<close>

theorem failed_start_keeps_its_claim:
  assumes ok: "lease_table_ok (db_leases (ow_db w))"
    and l: "lookup_by lease_key (os_repo st, n) (db_leases (ow_db w)) = Some l" "il_status l = LClaimed" "il_run_id l = None"
    and fits: "is_ok (issue_number_to_sql_i64 n)"
    and fails: "start_failure_point env q runner st n l w = Some wc"
    and run: "run = lq_run_id (child_launch_request (oe_now env (ow_github w)) st n)"
    and held: "held \<longleftrightarrow> lease_table_ok (db_leases (ow_db wc)) \<and>
      (\<exists>r. lookup_by lease_key (os_repo st, n) (db_leases (ow_db wc)) = Some r \<and>
         il_lease_id r = il_lease_id l \<and> il_status r = LRunning \<and> il_run_id r = Some run)"
  shows "\<exists>w' err. start_child_workflow env q runner st n l w = (w', Err err) \<and>
    (held \<longrightarrow> stranded_claim env st n run w') \<and>
    (\<not> is_ok (fst (gq_add_label q (os_repo st) n (os_luther_label st) (ow_github w))) \<longrightarrow> held) \<and>
    ((\<forall>r \<in> set (db_leases (ow_db wc)).
        \<not> (il_lease_id r = il_lease_id l \<and> il_status r = LRunning \<and> il_run_id r = Some run)) \<longrightarrow> ow_db w' = ow_db wc)"
proof -
  have "run \<noteq> []" by (simp add: run child_launch_request_def child_request_with_run_id_def)
  from fresh_cas [OF l this ok, where env = env] obtain w1 where
    cas: "claim_running_lease_cas env l [LClaimed] (il_run_id l) run w = (w1, Ok True)"
    and w1: "ow_github w1 = ow_github w" "lease_table_ok (db_leases (ow_db w1))"
      "lookup_by lease_key (os_repo st, n) (db_leases (ow_db w1)) =
       Some (set_lease_status (oe_now env (ow_github w)) LRunning (Some run) l)" .
  obtain message detail e where start: "start_child_workflow env q runner st n l w = compensate env l None run message detail e wc"
    using failing_start [OF fails l(3)] run by auto
  have refused: "held" if "\<not> is_ok (fst (gq_add_label q (os_repo st) n (os_luther_label st) (ow_github w)))"
  proof -
    from that fails cas have "ow_db wc = ow_db w1"
      by (auto simp: start_failure_point_def Let_def run [symmetric] w1(1) split: prod.splits result.splits)
    with w1 show ?thesis by (simp add: held set_lease_status_def coalesce_def)
  qed
  obtain w' err where failed: "compensate env l None run message detail e wc = (w', Err err :: (StepOutcome, StepFailure) result)"
    by (metis compensate_fails)
  have "stranded_claim env st n run w'" if "held"
    using that compensation_strands [of wc st n _ run l env message detail e, where 'a = StepOutcome] l(2) fits failed
    by (auto simp: held)
  moreover have "ow_db w' = ow_db wc" if "\<forall>r \<in> set (db_leases (ow_db wc)).
        \<not> (il_lease_id r = il_lease_id l \<and> il_status r = LRunning \<and> il_run_id r = Some run)"
    using compensation_rejected [of wc l run env message detail e, where 'a = StepOutcome] that failed by fastforce
  ultimately show ?thesis using start failed refused by auto
qed

section \<open>The rollup\<close>

lemma find_eq_filter: "find P xs = (case filter P xs of [] \<Rightarrow> None | x # _ \<Rightarrow> Some x)"
  by (induction xs) auto

lemma find_sort_key: "find (\<lambda>x. f x = k) (sort_key f xs) = find (\<lambda>x. f x = k) xs"
  by (simp add: find_eq_filter sort_key_stable)

lemma find_append: "find P (xs @ ys) = (case find P xs of Some x \<Rightarrow> Some x | None \<Rightarrow> find P ys)"
  by (induction xs) auto

lemma find_filter_other: "m \<noteq> n \<Longrightarrow> find (\<lambda>x. f x = m) (filter (\<lambda>x. f x \<noteq> n) xs) = find (\<lambda>x. f x = m) xs"
  by (induction xs) auto

lemma find_filter_same: "find (\<lambda>x. f x = n) (filter (\<lambda>x. f x \<noteq> n) xs) = None"
  by (induction xs) auto

lemma rollup_index_put:
  "rollup_index (put_rollup_entry parent e r) m =
     (if m = re_child_issue_number e then Some e else rollup_index r m)"
  by (simp add: rollup_index_def put_rollup_entry_def find_sort_key find_append find_filter_same find_filter_other
      split: option.splits)

lemma update_rollup_ok_iff:
  "update_rollup env st n run oc pr w = (w', Ok u) \<longleftrightarrow>
     oe_write_fault env ''parent-orchestration-rollup.json'' = None \<and>
     (\<exists>r. rollup_of (ow_files w) = Some r \<and>
        w' = w\<lparr>ow_files := (ow_files w)\<lparr>pf_rollup :=
          Stored (put_rollup_entry (os_parent_issue_number st) (rollup_entry st n run oc pr) r)\<rparr>\<rparr>)"
  by (auto simp: update_rollup_def act_iffs)

text \<open>
  Recording an outcome replaces the child's entry by the new one and keeps every other, and leaves
  the children in the order of their numbers, each once if each was there once.
\<close>

theorem rollup_keeps_latest_outcomes:
  assumes "update_rollup env st n run oc pr w = (w', Ok u)"
  shows "\<exists>r r'. rollup_of (ow_files w) = Some r \<and> rollup_of (ow_files w') = Some r' \<and>
    rollup_index r' n = Some (rollup_entry st n run oc pr) \<and>
    (\<forall>m. m \<noteq> n \<longrightarrow> rollup_index r' m = rollup_index r m) \<and>
    sorted (map re_child_issue_number (ro_children r')) \<and>
    (distinct (map re_child_issue_number (ro_children r)) \<longrightarrow> distinct (map re_child_issue_number (ro_children r')))"
proof -
  from assms obtain r where r: "rollup_of (ow_files w) = Some r"
    and w': "rollup_of (ow_files w') = Some (put_rollup_entry (os_parent_issue_number st) (rollup_entry st n run oc pr) r)"
    by (auto simp: update_rollup_ok_iff rollup_of_def)
  let ?e = "rollup_entry st n run oc pr"
  let ?r = "put_rollup_entry (os_parent_issue_number st) ?e r"
  have e: "re_child_issue_number ?e = n" by (simp add: rollup_entry_def)
  have "distinct (map re_child_issue_number (ro_children ?r))" if "distinct (map re_child_issue_number (ro_children r))"
  proof -
    have "distinct (map re_child_issue_number (filter (\<lambda>x. re_child_issue_number x \<noteq> n) (ro_children r) @ [?e]))"
      using that by (auto simp: e distinct_map inj_on_def)
    then have "mset (map re_child_issue_number (ro_children ?r)) =
        mset (map re_child_issue_number (filter (\<lambda>x. re_child_issue_number x \<noteq> n) (ro_children r) @ [?e]))"
      by (simp add: put_rollup_entry_def e)
    then show ?thesis
      using \<open>distinct (map re_child_issue_number (filter (\<lambda>x. re_child_issue_number x \<noteq> n) (ro_children r) @ [?e]))\<close>
      by (metis mset_eq_imp_distinct_iff)
  qed
  moreover have "sorted (map re_child_issue_number (ro_children ?r))" by (simp add: put_rollup_entry_def)
  ultimately show ?thesis using r w' e by (auto simp: rollup_index_put)
qed

section \<open>Unresolved children\<close>

lemma classify_child_ok:
  assumes "classify_child_with_run_state env q st issue w = (w', Ok s)"
  shows "ow_files w' = ow_files w \<and> ow_db w' = ow_db w \<and>
    (\<exists>r. rollup_of (ow_files w) = Some r \<and>
       ((\<exists>e \<in> set (ro_children r). re_child_issue_number e = cs_issue_number s \<and> unresolved_rollup_outcome_requires_pr e)
          \<longrightarrow> cs_terminal_state s = ChBlocked))"
proof -
  from assms obtain pr g where
    run: "apply_child_run_state env st issue (classify_child issue pr) (w\<lparr>ow_github := g\<rparr>) = (w', Ok s)"
    by (auto simp: classify_child_with_run_state_def seq_ok_iff github_ok_iff)
  from run obtain child where roll: "apply_child_rollup_state env child (w\<lparr>ow_github := g\<rparr>) = (w', Ok s)"
    by (auto simp: apply_child_run_state_def seq_ok_iff child_lease_def ret_def lift_result_def split: option.splits)
  then show ?thesis
    by (auto simp: apply_child_rollup_state_def act_iffs split: if_splits dest: arg_cong [where f = cs_terminal_state])
qed

lemma traverse_classify_ok:
  assumes "traverse (\<lambda>c. classify_child_with_run_state env q st (si_issue c)) children w = (w', Ok states)"
  shows "ow_files w' = ow_files w \<and> ow_db w' = ow_db w \<and>
    (states \<noteq> [] \<longrightarrow> rollup_of (ow_files w) \<noteq> None) \<and>
    (\<forall>r. rollup_of (ow_files w) = Some r \<longrightarrow> (\<forall>s \<in> set states.
       (\<exists>e \<in> set (ro_children r). re_child_issue_number e = cs_issue_number s \<and> unresolved_rollup_outcome_requires_pr e)
          \<longrightarrow> cs_terminal_state s = ChBlocked))"
  using assms
proof (induction children arbitrary: w states)
  case (Cons c children)
  then obtain w1 s rest where s: "classify_child_with_run_state env q st (si_issue c) w = (w1, Ok s)"
    and rest: "traverse (\<lambda>c. classify_child_with_run_state env q st (si_issue c)) children w1 = (w', Ok rest)"
    and states: "states = s # rest"
    by (auto simp: seq_ok_iff ret_def)
  from classify_child_ok [OF s] Cons.IH [OF rest] show ?case by (auto simp: states)
qed (simp add: ret_def)

text \<open>
  C29: after a classification, no child with an unresolved outcome in the rollup is selected: it counts
  as blocked whatever its issue, its pull request and its lease say.
\<close>

theorem unresolved_children_are_not_selected:
  assumes classify: "classify_subissues env q st w = (w1, Ok oc1)"
    and order: "determine_subissue_order env st' w1 = (w2, Ok oc2)"
    and select: "select_next_child env w2 = (w3, Ok Success)"
  shows "\<exists>n r. selected_child env w3 = (w3, Ok (Some n)) \<and> rollup_of (ow_files w3) = Some r \<and>
    (\<forall>e \<in> set (ro_children r). re_child_issue_number e = n \<longrightarrow> \<not> unresolved_rollup_outcome_requires_pr e)"
proof -
  from classify obtain children states w0 where children: "pf_subissues (ow_files w) = Stored children"
    and run: "traverse (\<lambda>c. classify_child_with_run_state env q st (si_issue c)) children w = (w0, Ok states)"
    and w1: "ow_files w1 = (ow_files w0)\<lparr>pf_states := Stored states\<rparr>"
    by (auto simp: classify_subissues_def act_iffs)
  note classified = traverse_classify_ok [OF run]
  have files: "pf_subissues (ow_files w1) = Stored children" "pf_states (ow_files w1) = Stored states"
    "pf_rollup (ow_files w1) = pf_rollup (ow_files w)"
    using children classified w1 by simp_all
  from order_ok [OF order files(1)] obtain plan where plan: "pf_order_plan (ow_files w2) = Stored plan"
    "json_get plan ''order'' = Some (nums_json (order_subissues children))"
    "pf_states (ow_files w2) = Stored states" "pf_rollup (ow_files w2) = pf_rollup (ow_files w)"
    using files by auto
  from select_ok [OF select plan(3,1,2)] obtain n where
    n: "next_actionable_child states (order_subissues children) = Some n"
    and selected: "selected_child env w3 = (w3, Ok (Some n))" by blast
  have "pf_rollup (ow_files w3) = pf_rollup (ow_files w2)"
    using select plan by (auto simp: select_next_child_def Let_def act_iffs write_selected_def split: if_splits option.splits)
  then have roll: "rollup_of (ow_files w3) = rollup_of (ow_files w)" using plan(4) by (simp add: rollup_of_def)
  from n obtain s where s: "state_of_child states n = Some s" "\<not> child_state_blocks_selection s"
    by (auto simp: next_actionable_child_def find_Some_iff split: option.splits)
  then obtain x where x: "x \<in> set states" "cs_issue_number x = n" "cs_terminal_state x \<noteq> ChBlocked"
    by (auto simp: state_of_child_def child_state_blocks_selection_def dest!: map_of_SomeD)
  then have "states \<noteq> []" by auto
  then obtain r where r: "rollup_of (ow_files w) = Some r" using classified by auto
  have "\<forall>e \<in> set (ro_children r). re_child_issue_number e = n \<longrightarrow> \<not> unresolved_rollup_outcome_requires_pr e"
    using classified r x by auto
  with selected roll r show ?thesis by auto
qed

section \<open>Examples\<close>

text \<open>GitHub as the log of the writing calls; every issue is open, every pull request missing.\<close>

definition sample_parent_issue :: "u64 \<Rightarrow> string \<Rightarrow> GithubIssue" where
  "sample_parent_issue n state =
     \<lparr>gi_number = n, gi_title = ''t'', gi_state = state, gi_labels = [], gi_assignees = [], gi_milestone = None,
      gi_body = Some ''- [x] done''\<rparr>"

definition sample_parent_query :: "string list ParentQuery" where
  "sample_parent_query =
     \<lparr>gq_list_issues = (\<lambda>_ _ _ g. (Ok [], g)), gq_latest_label_actor = (\<lambda>_ _ _ g. (Ok None, g)),
      gq_has_open_pr_for_issue = (\<lambda>_ _ g. (Ok False, g)),
      gq_get_issue = (\<lambda>_ n g. (Ok (Some (sample_parent_issue n ''open'')), g)),
      gq_list_sub_issues = (\<lambda>_ _ g. (Ok [], g)), gq_get_parent_issue = (\<lambda>_ _ g. (Ok None, g)),
      gq_add_label = (\<lambda>_ _ _ g. (Err CliNotFound, g)), gq_remove_label = (\<lambda>_ _ _ g. (Ok (), ''unlabel'' # g)),
      gq_add_assignee = (\<lambda>_ _ _ g. (Ok (), g)), gq_remove_assignee = (\<lambda>_ _ _ g. (Ok (), g)),
      gq_error_text = (\<lambda>_. ''gh''), gx_pr_state_for_issue = (\<lambda>_ _ g. (Ok None, g)),
      gx_comment_issue = (\<lambda>_ _ _ g. (Ok (), ''comment'' # g)), gx_close_issue = (\<lambda>_ _ g. (Ok (), ''close'' # g)),
      gx_enable_pr_auto_merge = (\<lambda>_ _ g. (Ok (), g))\<rparr>"

definition sample_orch_env :: "string list OrchEnv" where
  "sample_orch_env =
     \<lparr>oe_now = (\<lambda>g. length g), oe_write_fault = (\<lambda>_. None), oe_remove_fault = None, oe_read_error = (\<lambda>_. ''read''),
      oe_db_fault = None, oe_sql_text = (\<lambda>_. ''sql''), oe_parse_text = (\<lambda>_. ''parse''), oe_order_text = (\<lambda>_. ''order''),
      oe_compact = (\<lambda>_. ''json''), oe_pretty = (\<lambda>_. ''json'')\<rparr>"

definition sample_orch_state :: OrchestrationState where
  "sample_orch_state =
     \<lparr>os_current_step = ''step'', os_artifact_root = ''/a'', os_repo = ''r'', os_parent_issue_number = 9,
      os_luther_label = ''l'', os_child_workflow_type_id = ''t'', os_child_config_id = ''c'',
      os_merge_poll_interval_seconds = 300, os_max_child_merge_wait_seconds = None, os_auto_merge_children = False,
      os_wait_for_human_merge = True, os_work_dir = None, os_artifact_dir = None, os_transport_url = None,
      os_config_root = ''/c''\<rparr>"

definition sample_child :: "u64 \<Rightarrow> GithubSubIssue" where
  "sample_child n = \<lparr>si_issue = sample_parent_issue n ''open'', si_position = None, si_source = Native\<rparr>"

definition sample_entry :: "u64 \<Rightarrow> string \<Rightarrow> ChildRollupEntry" where
  "sample_entry n oc =
     \<lparr>re_child_issue_number = n, re_child_run_id = None, re_child_artifact_dir = None, re_pr_number = None,
      re_pr_state = None, re_merge_sha = None, re_outcome = Some oc, re_non_actionable_reason = None\<rparr>"

definition sample_orch_world :: "ChildIssueState list \<Rightarrow> ChildRollupEntry list \<Rightarrow> lease_table \<Rightarrow> string list OrchWorld" where
  "sample_orch_world states entries leases =
     \<lparr>ow_context = build ''/w'' ''r1'' False,
      ow_files = \<lparr>pf_parent_issue = Absent, pf_subissues = Stored [sample_child 2, sample_child 1],
        pf_states = Stored states, pf_rollup = Stored \<lparr>ro_parent_issue_number = 9, ro_children = entries\<rparr>,
        pf_order_plan = Absent, pf_selected = Absent, pf_evaluation = Absent, pf_other = []\<rparr>,
      ow_db = empty_db\<lparr>db_leases := leases\<rparr>, ow_github = []\<rparr>"

definition merged_state :: "u64 \<Rightarrow> ChildIssueState" where
  "merged_state n = \<lparr>cs_issue_number = n, cs_terminal_state = ChMerged, cs_pr_number = None\<rparr>"

lemmas sample_orch_defs = sample_orch_world_def sample_orch_state_def sample_orch_env_def sample_parent_query_def
  sample_child_def sample_parent_issue_def sample_entry_def merged_state_def empty_db_def

lemma sample_evaluation:
  "snd (evaluate_parent_completion sample_orch_env sample_parent_query sample_orch_state
          (sample_orch_world [merged_state 1] [sample_entry 1 ''merged''] [])) = Ok Success"
  by code_simp

theorem parent_evaluation_meets_criterion_witness:
  "\<exists>w'. evaluate_parent_completion sample_orch_env sample_parent_query sample_orch_state
      (sample_orch_world [merged_state 1] [sample_entry 1 ''merged''] []) = (w', Ok Success) \<and>
    criterion_holds sample_orch_state w' \<and>
    (\<exists>v. pf_evaluation (ow_files w') = Stored v \<and> evaluation_says_complete v)"
proof -
  obtain w' where eval: "evaluate_parent_completion sample_orch_env sample_parent_query sample_orch_state
      (sample_orch_world [merged_state 1] [sample_entry 1 ''merged''] []) = (w', Ok Success)"
    using sample_evaluation by (metis prod.collapse)
  with parent_evaluation_meets_criterion [OF eval] show ?thesis by (auto split: if_splits)
qed

definition sample_after_evaluation :: "string \<Rightarrow> string list OrchWorld" where
  "sample_after_evaluation outcome =
     fst (evaluate_parent_completion sample_orch_env sample_parent_query sample_orch_state
            (sample_orch_world [merged_state 1] [sample_entry 1 outcome] []))"

lemma sample_summary:
  "(case pf_evaluation (ow_files (sample_after_evaluation ''merged'')) of
      Stored v \<Rightarrow> map_option ow_github (summary_posted sample_orch_env sample_parent_query sample_orch_state v
                                        (sample_after_evaluation ''merged''))
    | _ \<Rightarrow> None) = Some [''comment'']"
  by code_simp

theorem parent_closed_iff_criterion_witness:
  "(\<exists>w3. ow_github w3 = [''close'', ''comment''] \<and>
      close_or_report_parent sample_orch_env sample_parent_query sample_orch_state (sample_after_evaluation ''merged'') =
        report_closed sample_orch_env sample_parent_query sample_orch_state w3) \<and>
   (\<forall>f. close_or_report_parent sample_orch_env (sample_parent_query\<lparr>gx_close_issue := f\<rparr>) sample_orch_state
           (sample_after_evaluation ''failed_child_run'') =
         close_or_report_parent sample_orch_env sample_parent_query sample_orch_state
           (sample_after_evaluation ''failed_child_run''))"
proof
  let ?w = "\<lambda>outcome. sample_orch_world [merged_state 1] [sample_entry 1 outcome] []"
  have eval: "evaluate_parent_completion sample_orch_env sample_parent_query sample_orch_state (?w ''merged'') =
      (sample_after_evaluation ''merged'', Ok Success)"
    using sample_evaluation by (auto simp: sample_after_evaluation_def prod_eq_iff)
  then have holds: "criterion_holds sample_orch_state (sample_after_evaluation ''merged'')"
    by (auto elim!: evaluation_ok simp: criterion_holds_def)
  obtain v w where v: "pf_evaluation (ow_files (sample_after_evaluation ''merged'')) = Stored v"
    and posted: "summary_posted sample_orch_env sample_parent_query sample_orch_state v (sample_after_evaluation ''merged'') = Some w"
      "ow_github w = [''comment'']"
    using sample_summary by (auto split: artifact.splits)
  have close: "gx_close_issue sample_parent_query repo n g = (Ok (), ''close'' # g)" for repo n g
    by (simp add: sample_parent_query_def)
  have "close_or_report_parent sample_orch_env sample_parent_query sample_orch_state (sample_after_evaluation ''merged'') =
        report_closed sample_orch_env sample_parent_query sample_orch_state (w\<lparr>ow_github := [''close'', ''comment'']\<rparr>)"
    using parent_closed_iff_criterion [OF eval refl] v posted holds by (simp add: close)
  then show "\<exists>w3. ow_github w3 = [''close'', ''comment''] \<and>
      close_or_report_parent sample_orch_env sample_parent_query sample_orch_state (sample_after_evaluation ''merged'') =
        report_closed sample_orch_env sample_parent_query sample_orch_state w3"
    by (intro exI [of _ "w\<lparr>ow_github := [''close'', ''comment'']\<rparr>"]) simp
  have "snd (evaluate_parent_completion sample_orch_env sample_parent_query sample_orch_state (?w ''failed_child_run'')) = Ok Fixable"
    by code_simp
  then have eval: "evaluate_parent_completion sample_orch_env sample_parent_query sample_orch_state (?w ''failed_child_run'') =
      (sample_after_evaluation ''failed_child_run'', Ok Fixable)"
    by (auto simp: sample_after_evaluation_def prod_eq_iff)
  then have "\<not> criterion_holds sample_orch_state (sample_after_evaluation ''failed_child_run'')"
    by (auto elim!: evaluation_ok simp: criterion_holds_def)
  with parent_closed_iff_criterion [OF eval refl]
  show "\<forall>f. close_or_report_parent sample_orch_env (sample_parent_query\<lparr>gx_close_issue := f\<rparr>) sample_orch_state
           (sample_after_evaluation ''failed_child_run'') =
         close_or_report_parent sample_orch_env sample_parent_query sample_orch_state
           (sample_after_evaluation ''failed_child_run'')"
    by (auto split: option.splits)
qed

lemma select_runs:
  assumes "oe_write_fault env = (\<lambda>_. None)" "pf_states (ow_files w) = Stored states" "pf_order_plan (ow_files w) = Stored plan"
    "json_get plan ''order'' = Some (nums_json order)" "missing_ordered_child_states states order = []"
    "next_actionable_child states order = Some n"
  shows "\<exists>w'. select_next_child env w = (w', Ok Success)"
  using assms by (simp add: select_next_child_def Let_def act_iffs write_selected_def)

lemma sample_steps:
  "\<exists>w1 w2 w3 oc1 oc2 states.
     classify_subissues sample_orch_env sample_parent_query sample_orch_state
       (sample_orch_world [] [sample_entry 1 ''failed_child_run''] []) = (w1, Ok oc1) \<and>
     determine_subissue_order sample_orch_env sample_orch_state w1 = (w2, Ok oc2) \<and>
     select_next_child sample_orch_env w2 = (w3, Ok Success) \<and>
     pf_subissues (ow_files w1) = Stored [sample_child 2, sample_child 1] \<and> pf_states (ow_files w1) = Stored states"
proof -
  let ?classify = "classify_subissues sample_orch_env sample_parent_query sample_orch_state
       (sample_orch_world [] [sample_entry 1 ''failed_child_run''] [])"
  let ?order = "determine_subissue_order sample_orch_env sample_orch_state (fst ?classify)"
  let ?states = "[\<lparr>cs_issue_number = 2, cs_terminal_state = ChOpen, cs_pr_number = None\<rparr>,
                  \<lparr>cs_issue_number = 1, cs_terminal_state = ChBlocked, cs_pr_number = None\<rparr>]"
  have classify: "snd ?classify = Ok Success" and subissues: "pf_subissues (ow_files (fst ?classify)) = Stored [sample_child 2, sample_child 1]"
    and states: "pf_states (ow_files (fst ?classify)) = Stored ?states"
    by code_simp+
  have order: "snd ?order = Ok Success" by code_simp
  then have step: "determine_subissue_order sample_orch_env sample_orch_state (fst ?classify) = (fst ?order, Ok Success)"
    by (metis prod.collapse)
  from order_ok [OF step subissues] obtain plan where plan: "pf_order_plan (ow_files (fst ?order)) = Stored plan"
    "json_get plan ''order'' = Some (nums_json (order_subissues [sample_child 2, sample_child 1]))"
    "pf_states (ow_files (fst ?order)) = Stored ?states" using states by auto
  have "order_subissues [sample_child 2, sample_child 1] = [1, 2]" by code_simp
  moreover have "missing_ordered_child_states ?states [1, 2] = []" "next_actionable_child ?states [1, 2] = Some 2" by code_simp+
  moreover have "oe_write_fault sample_orch_env = (\<lambda>_. None)" by (simp add: sample_orch_env_def)
  ultimately obtain w3 where "select_next_child sample_orch_env (fst ?order) = (w3, Ok Success)"
    using select_runs [OF _ plan(3,1,2), of sample_orch_env 2] by auto
  then show ?thesis using classify step subissues states by (metis prod.collapse)
qed

theorem selection_follows_order_witness:
  "\<exists>w w1 w2 oc. determine_subissue_order sample_orch_env sample_orch_state w = (w1, Ok oc) \<and>
    select_next_child sample_orch_env w1 = (w2, Ok Success) \<and>
    (\<exists>c \<in> set [sample_child 2, sample_child 1]. selected_child sample_orch_env w2 = (w2, Ok (Some (gi_number (si_issue c)))))"
proof -
  obtain w1 w2 w3 oc2 states where steps: "determine_subissue_order sample_orch_env sample_orch_state w1 = (w2, Ok oc2)"
    "select_next_child sample_orch_env w2 = (w3, Ok Success)"
    "pf_subissues (ow_files w1) = Stored [sample_child 2, sample_child 1]" "pf_states (ow_files w1) = Stored states"
    using sample_steps by blast
  from selection_follows_order [OF steps] steps(1,2) show ?thesis by blast
qed

theorem unresolved_children_are_not_selected_witness:
  "\<exists>w3 n r. selected_child sample_orch_env w3 = (w3, Ok (Some n)) \<and> rollup_of (ow_files w3) = Some r \<and>
    (\<forall>e \<in> set (ro_children r). re_child_issue_number e = n \<longrightarrow> \<not> unresolved_rollup_outcome_requires_pr e)"
proof -
  obtain w1 w2 w3 oc1 oc2 where steps: "classify_subissues sample_orch_env sample_parent_query sample_orch_state
       (sample_orch_world [] [sample_entry 1 ''failed_child_run''] []) = (w1, Ok oc1)"
    "determine_subissue_order sample_orch_env sample_orch_state w1 = (w2, Ok oc2)"
    "select_next_child sample_orch_env w2 = (w3, Ok Success)"
    using sample_steps by blast
  from unresolved_children_are_not_selected [OF steps] show ?thesis by blast
qed

theorem finalization_belongs_to_owner_witness:
  "\<exists>c. finish_child_launch sample_orch_env sample_parent_query sample_orch_state c (sample_orch_world [] [] []) =
      (sample_orch_world [] [] [], Ok Fixable)"
proof -
  let ?c = "\<lparr>lc_child = 1, lc_lease = claim_lease 0 ''r'' 1 ''c'',
     lc_request = child_request_with_run_id sample_orch_state 1 ''run'', lc_result = CwCompletedSuccess,
     lc_run_status = None, lc_pr = None\<rparr>"
  have "classify_child_run_result (lc_result ?c) (lc_run_status ?c) = CwCompletedSuccess"
    by (simp add: classify_child_run_result_def)
  from finalization_belongs_to_owner [OF this [symmetric], of "sample_orch_world [] [] []" sample_orch_env
      sample_parent_query sample_orch_state]
  show ?thesis by (intro exI [of _ ?c]) (simp add: sample_orch_world_def)
qed

definition sample_runner :: "string list ChildRunner" where
  "sample_runner =
     \<lparr>cn_launch_child = (\<lambda>rq (db, g). (Ok CwWaitingExternal, db, ''launch'' # g)),
      cn_resume_child = (\<lambda>rq (db, g). (Err (UnsupportedOperation ''resume_child''), db, g)),
      cn_run_status = (\<lambda>_ _. Ok None)\<rparr>"

definition guarded_runner :: "string list ChildRunner" where
  "guarded_runner = sample_runner\<lparr>cn_launch_child := (\<lambda>rq (db, g).
     if runs_under_lease rq db then cn_launch_child sample_runner rq (db, g) else (Ok CwCompletedFailure, db, g))\<rparr>"

theorem children_run_under_their_lease_witness:
  "launch_child_workflow sample_orch_env sample_parent_query sample_runner sample_orch_state (sample_orch_world [] [] []) =
   launch_child_workflow sample_orch_env sample_parent_query guarded_runner sample_orch_state (sample_orch_world [] [] [])"
  by (rule children_run_under_their_lease)
    (simp_all add: sample_orch_world_def lease_table_ok_def unique_key_def agree_under_lease_def guarded_runner_def)

text \<open>A query that accepts the label, and a runner that records the run and then fails.\<close>

definition labelling_query :: "string list ParentQuery" where
  "labelling_query = sample_parent_query\<lparr>gq_add_label := (\<lambda>_ _ _ g. (Ok (), ''label'' # g))\<rparr>"

definition recording_runner :: "string list ChildRunner" where
  "recording_runner = sample_runner\<lparr>cn_launch_child := (\<lambda>rq (db, g).
     (Err (UnsupportedOperation ''launch''), db\<lparr>db_runs := run_metadata_new 1 (lq_run_id rq) ''t'' ''c'' # db_runs db\<rparr>, g))\<rparr>"

theorem failed_start_keeps_its_claim_witness:
  "\<exists>w' err run. start_child_workflow sample_orch_env labelling_query recording_runner sample_orch_state 1
       (claim_lease 0 ''r'' 1 ''c'') (sample_orch_world [] [] [claim_lease 0 ''r'' 1 ''c'']) = (w', Err err) \<and>
     stranded_claim sample_orch_env sample_orch_state 1 run w'"
proof -
  let ?l = "claim_lease 0 ''r'' 1 ''c''"
  let ?w = "sample_orch_world [] [] [?l]"
  let ?rq = "child_launch_request (oe_now sample_orch_env (ow_github ?w)) sample_orch_state 1"
  have l: "lease_table_ok (db_leases (ow_db ?w))" "lookup_by lease_key (os_repo sample_orch_state, 1) (db_leases (ow_db ?w)) = Some ?l"
    "il_status ?l = LClaimed" "il_run_id ?l = None" "is_ok (issue_number_to_sql_i64 1)"
    by (simp_all add: sample_orch_world_def sample_orch_state_def lease_table_ok_def unique_key_def claim_lease_def
        issue_number_to_sql_i64_def i64_try_from_u64_def i64_max_def)
  have "lq_run_id ?rq \<noteq> []" by (simp add: child_launch_request_def child_request_with_run_id_def)
  from fresh_cas [OF l(2-4) this l(1), where env = sample_orch_env] obtain w1 where
    cas: "claim_running_lease_cas sample_orch_env ?l [LClaimed] (il_run_id ?l) (lq_run_id ?rq) ?w = (w1, Ok True)"
    and w1: "lease_table_ok (db_leases (ow_db w1))"
      "lookup_by lease_key (os_repo sample_orch_state, 1) (db_leases (ow_db w1)) =
       Some (set_lease_status (oe_now sample_orch_env (ow_github ?w)) LRunning (Some (lq_run_id ?rq)) ?l)" .
  then obtain wc where fails: "start_failure_point sample_orch_env labelling_query recording_runner sample_orch_state 1 ?l ?w = Some wc"
    and wc: "db_leases (ow_db wc) = db_leases (ow_db w1)"
    by (simp add: start_failure_point_def labelling_query_def recording_runner_def)
  with w1 failed_start_keeps_its_claim [OF l fails refl refl] show ?thesis
    by (fastforce simp: set_lease_status_def coalesce_def)
qed

theorem rollup_keeps_latest_outcomes_witness:
  "\<exists>w'. update_rollup sample_orch_env sample_orch_state 2 None ''merged'' None
      (sample_orch_world [] [sample_entry 1 ''merged'', sample_entry 2 ''failed_child_run''] []) = (w', Ok ()) \<and>
    (\<exists>r'. rollup_of (ow_files w') = Some r' \<and> rollup_index r' 2 \<noteq> Some (sample_entry 2 ''failed_child_run''))"
proof -
  let ?w = "sample_orch_world [] [sample_entry 1 ''merged'', sample_entry 2 ''failed_child_run''] []"
  obtain w' where update: "update_rollup sample_orch_env sample_orch_state 2 None ''merged'' None ?w = (w', Ok ())"
    by (auto simp: update_rollup_ok_iff rollup_of_def sample_orch_defs)
  from rollup_keeps_latest_outcomes [OF update] update show ?thesis
    by (auto simp: rollup_entry_def sample_entry_def)
qed

end
