(* ===== verification/Spec2Isabelle.thy ===== *)
theory Spec2Isabelle
  imports Continuation_Properties Retry_Properties Failure_Properties Merge_Properties Effect_Intents
    Scheduler_Properties External_Poller
    Scope_Properties Review_Properties Parent_Properties
begin

text \<open>
  A shallow embedding of the core of Luther, the workflow runner of this repository (the crate
  \<^verbatim>\<open>src/workflow\<close>; paths below are relative to \<^verbatim>\<open>src/workflow/src\<close>). Luther takes issues from GitHub,
  claims them under a lease, runs a declarative workflow for each, suspends runs that wait for CI,
  reviews or child merges, resumes them, and recovers what crashed.

  \<^bold>\<open>The parts and how they meet.\<close> The daemon (\<^verbatim>\<open>daemon/\<close>) discovers issues, claims a lease, launches the
  engine and settles the lease when the launch returns. The engine (\<^verbatim>\<open>engine/runner.rs\<close>) walks the graph of
  a workflow type, keeps its variables in a step context and records every step in checkpoints, events and
  the runs table. A step may suspend the run: run, checkpoint, wait row and lease change in one
  transaction, and the daemon's poller later decides the wait and hands the run back. An operator's
  continuation (\<^verbatim>\<open>engine/continuation\<close>) restarts a stopped run from a checkpoint. The recovery protocol
  (\<^verbatim>\<open>engine/recovery\<close>) executes interrupted steps anew under an epoch, and ends runs as merged when their
  merge is proven. Remediation steps account for their launches in a ledger of immutable documents
  (\<^verbatim>\<open>components/github/pr_remediation/retry_*\<close>). Scope control
  (\<^verbatim>\<open>components/software_change/scope_control\<close>) bounds what a run may change: a charter, a measurement of the
  worktree against it, and a barrier before every mutation that only an operator's decision lifts. Parent orchestration (\<^verbatim>\<open>components/github/parent_orchestration\<close>) works off the
  sub-issues of an issue one by one, each as a child workflow under a lease of its own, and closes the parent.
  All of them meet in the tables of one SQLite store.

  \<^bold>\<open>Theories, in the order of the program.\<close>

  \<^item> \<open>Luther_Prelude\<close>: the result type of fallible code, machine integers, texts and the string functions
    of Rust's standard library that the code calls, JSON values, tables as lists of rows with their update
    lemmas, and three interfaces as locales: \<open>text_codec\<close> (an enum stored as text), \<open>write_once\<close> (rows that
    are never changed once written) and \<open>exclusive_claim\<close> (at most one of several contenders wins a key).
    Each is interpreted where a component provides it: the codecs of \<open>Transition\<close>, \<open>Checkpoints\<close>,
    \<open>Run_Metadata\<close>, \<open>Leases\<close>, \<open>Wait_State\<close>, \<open>Recovery_Store\<close>, \<open>Effect_Intents\<close>; write-once for capsules,
    attempts, operations, merge artifacts, terminal runs, reconciled effects, charters and expansion requests; exclusive claims for
    leases, epochs, polls and reservations.
  \<^item> \<open>Workflow_Schema\<close>, \<open>Transition\<close>, \<open>Graph_Validation\<close>: \<^verbatim>\<open>workflow/schema.rs\<close>, \<^verbatim>\<open>engine/instance.rs\<close>,
    \<^verbatim>\<open>engine/recovery/policy.rs\<close>, \<^verbatim>\<open>engine/transition.rs\<close>, \<^verbatim>\<open>workflow/validation.rs\<close>. The worklist search of the
    validation is shown to compute reachability, and the validation to accept exactly the graphs that meet
    its declarative specification.
  \<^item> \<open>Step_Context\<close>, \<open>Checkpoints\<close>, \<open>Run_Metadata\<close>, \<open>Leases\<close>: \<^verbatim>\<open>engine/executor.rs\<close>, \<^verbatim>\<open>persistence/checkpoint.rs\<close>,
    \<^verbatim>\<open>persistence/run_metadata.rs\<close> with \<^verbatim>\<open>persistence/sqlite\<close>, \<^verbatim>\<open>persistence/leases.rs\<close>. Capturing and restoring
    a context, terminal runs, exclusive claims and fencing of superseded lease holders.
  \<^item> \<open>Engine_State\<close>, \<open>Failure_Cleanup\<close>, \<open>Engine_Runner\<close>: the runner struct and the functions of
    \<^verbatim>\<open>engine/runner.rs\<close> and \<^verbatim>\<open>engine/runner/\<close>. \<open>Runner_Properties\<close> and \<open>Failure_Properties\<close> bound the
    iterations of a run, show edge limits, atomic step records, provenance of cleanups, public failure
    reasons, finality of ownership denials and the interrupt/resume round trip.
  \<^item> \<open>Wait_State\<close>, \<open>Lease_Finalization\<close>, \<open>Poll_Application\<close>, \<open>External_Poller\<close>, \<open>Pr_Check_Wait\<close>:
    \<^verbatim>\<open>persistence/wait_state.rs\<close>, \<^verbatim>\<open>daemon/launcher/lease_finalization.rs\<close>, \<^verbatim>\<open>polling.rs\<close>,
    \<^verbatim>\<open>daemon/poller\<close>, \<^verbatim>\<open>components/github/pr_check_wait.rs\<close>: suspension, exclusive and atomic polls,
    the check policy against its declarative form, and that waits without progress end.
  \<^item> \<open>Discovery\<close>, \<open>Daemon_Claim\<close>, \<open>Scheduler\<close>, \<open>Scheduler_Properties\<close>: \<^verbatim>\<open>daemon/discovery.rs\<close>, \<^verbatim>\<open>daemon/claim.rs\<close>
    with \<^verbatim>\<open>persistence/claim_metadata.rs\<close>, \<^verbatim>\<open>daemon/scheduler.rs\<close> and \<^verbatim>\<open>daemon/scheduler/\<close>,
    \<^verbatim>\<open>daemon/launcher/resume_preparation.rs\<close>: which issues are taken, the remote claim and its undoing,
    capacity, exclusive units and the accounting of a pass.
  \<^item> \<open>Canonical_Bytes\<close>, \<open>Recovery_Capsule\<close>, \<open>Recovery_Store\<close>, \<open>Recovery_Protocol\<close>, \<open>Recovery_Properties\<close>:
    \<^verbatim>\<open>engine/recovery/capsule.rs\<close> and \<^verbatim>\<open>adapters\<close>, \<^verbatim>\<open>persistence/capsule_store.rs\<close>, \<^verbatim>\<open>attempts.rs\<close>,
    \<^verbatim>\<open>recovery_operations.rs\<close>, the epoch register of \<^verbatim>\<open>luther-engine-core\<close> and \<^verbatim>\<open>engine/recovery/protocol\<close>. The frames of
    digests are self-delimiting (locale \<open>self_delimiting\<close>), so equal digests mean equal content or a
    collision; recoveries are durable, exclusive and fail closed.
  \<^item> \<open>Typed_Merge\<close>, \<open>Merge_Properties\<close>, \<open>Effect_Intents\<close>: \<^verbatim>\<open>engine/recovery/typed_merge\<close>,
    \<^verbatim>\<open>engine/recovery/merge_completion.rs\<close>, \<^verbatim>\<open>persistence/effect_intents.rs\<close>.
  \<^item> \<open>Continuation\<close>, \<open>Continuation_Properties\<close>: \<^verbatim>\<open>engine/continuation.rs\<close> and its submodules; the commit
    refines a declarative specification of when it happens and what it leaves.
  \<^item> \<open>Retry_State\<close>, \<open>Retry_Properties\<close>: the retry ledger of the remediation. The states recorded in history
    are the abstraction; every operation of every executor, under any publication fault, extends the
    ledger of its own scope by states that keep the laws of \<open>ledger_chain\<close> (relation \<open>extends\<close>), and the
    reachable configurations of any number of executors (\<open>retry_reachable\<close>) inherit what follows from it.
    Every step runs under a binding of its own; a ledger belongs to the binding of its first document, and
    under any other every load is refused (\<open>readable\<close>, \<open>load_mismatched\<close>). A publication fails before,
    between or after its writes.

  \<^item> \<open>Scope_Charter\<close>, \<open>Scope_Measurement\<close>, \<open>Scope_Gate\<close>, \<open>Scope_Review\<close>, \<open>Scope_Steps\<close>: the files of
    \<^verbatim>\<open>components/software_change/scope_control\<close> and the barrier of \<^verbatim>\<open>engine/executors/mod.rs\<close>. The artifacts of
    a run are a record of files, each absent, stored, malformed or unavailable. \<open>Charter_Properties\<close>: accepted
    drafts are confined and canonical, measurements miss no change. \<open>Scope_Properties\<close>: the evaluation against
    its declarative form, the barrier against \<open>patch_admissible\<close>, the artifacts over any list of operations
    (charter and requests are \<open>write_once\<close>), and a concrete run as example. \<open>Review_Properties\<close>: the phases and
    caps of reviews as an invariant of every operation on the review files.
  \<^item> \<open>Parent_Model\<close>, \<open>Parent_Evaluation\<close>, \<open>Parent_Children\<close>: \<^verbatim>\<open>components/github/parent_orchestration\<close>. A step
    is an action on a world of step context, files, database and outside world that succeeds, fails or
    panics; what it has changed until then stays changed. \<open>Parent_Properties\<close>: the evaluation against the
    abstract criterion \<open>parent_may_close\<close>, the closing, the selection in order, children only run under their
    own lease and only its owner finalizes it.

  \<^bold>\<open>How state and operations correspond.\<close> A struct is a record and an enum a datatype with the source's names
  (fields carry a prefix); a handler is one definition with the code's checks in the code's order, errors are
  the \<open>Err\<close> branch of \<open>result\<close> with the code's texts unless noted. A table is the list of its rows, a
  statement a function on it; a transaction is a function that returns the old tables when the code rolls
  back. Enum columns are read and written by value, which the \<open>text_codec\<close> interpretations justify. SQLite
  operations fail by constraints, guards and conversions only. HashMaps are association lists, iterated in
  key order where the code sorts; JSON objects are member lists, and JSON text is kept by value. Counters have
  the width of the code (\<open>u32\<close>, \<open>u64\<close> words with saturating or checked addition where the code has it, with
  the SQLite range of \<open>i64\<close> checked where the code converts). Timestamps are numbers of nanoseconds, the order
  of RFC3339 UTC texts is the order of instants, and \<open>now\<close> is an argument or read from the world, once per
  transaction.

  \<^bold>\<open>Parameters.\<close> Step executors, the clock, interrupts, the process table, the file system and the verdict of
  the workspace ownership kernel, texts of chrono, serde and rusqlite errors, decoders of embedded JSON, the
  regular expressions of the poller and of measurements, TOML, UTF-8 validity and the files of the worktree,
  SHA-256, snapshot bytes, the \<^verbatim>\<open>git\<close> and \<^verbatim>\<open>gh\<close> processes, recovery
  executors and observers, the GitHub queries (functions on an outside world), artifact writers, UUIDs,
  foreign-key enforcement, the child workflow runner of a parent (a function on the database and the outside
  world, so that anything may happen while a child runs), launcher threads (a join yields state and result or panic), and publication and
  restore faults. Executors change the step context and the world only; a recovery executor may change the
  database in any way. While a launch is prepared nothing but its own launcher threads writes the store. The
  context built from a configuration is an argument of the runner's constructors (\<open>seed_run_context\<close> is what
  the code puts into it); \<open>complete_merge\<close> of the engine's environment is a parameter which \<open>Typed_Merge\<close>
  models on the extended database. What the runs assume of it, that it leaves the recorded failures and
  cleanups alone (\<open>merge_keeps_provenance\<close>), is proved for that model (\<open>merge_keeps_failure_cleanup\<close>).

  \<^bold>\<open>Bounds and termination.\<close> The transition loop of the engine is a total function (its measure is the
  remaining iterations); \<open>engine_terminates_within_bound\<close> gives its bound with an explicit fuel. Worklist
  searches end because every step marks a new identifier. The scheduler's loops recurse on the lists of
  candidates and threads. Nothing in the development is proved for a limited size.

  \<^bold>\<open>What is proved.\<close> The properties C1 to C40 stand in their theories, each after a text that states it, with
  a witness where it has hypotheses. Safety under interleaving is stated over lists of operations or
  inductive reachability relations (leases, polls, reservations, retry ledger); refinement and equivalence
  against declarative specifications (graph validation, check policy, continuation, merge completion);
  liveness as \<open>the operation succeeds if\<close> (scope approvals, poll decisions, undoing of claims).
  Lemmas that show behaviour the documentation denies are named in the manifest's findings, such as
  \<open>force_keeps_live_claim\<close>, \<open>durable_wait_grant_lost\<close>, \<open>reclaim_forgets_pending_cleanup\<close>,
  \<open>foreign_comment_finishes_review\<close>, \<open>owner_undoes_tightening\<close>, \<open>older_snapshot_stays_blocked\<close> and
  \<open>content_digest_misses_change\<close>.

  \<^bold>\<open>Not modelled.\<close> Process and file plumbing, where the source mostly moves text between programs: the command
  line, service and monitor front ends, the adapters that run \<^verbatim>\<open>git\<close>, \<^verbatim>\<open>gh\<close> and the llxprt CLI, shell and
  file steps, verification runners, the artifact store's files, locks and envelopes. The loaders of TOML
  configuration (validated graphs start from the loaded types). Of the remediation, the terminal path (quarantine and
  tombstone), result validation and the push of commits; the feedback evaluation component; of the parent orchestration
  the production runner of a child (its workspace, its engine run in the process, its wait records); of
  scope control the rendering of its status; the workspace ownership kernel, legacy migrations, and the endless loop of the daemon with
  its sleeping and shutdown. \<open>claim_metadata.updated_at\<close> and the texts of some internal errors, as noted in
  the theories, are left out.
\<close>

end
